(* ===== verification/Prelude.thy ===== *)
theory Prelude
  imports Complex_Main "HOL-Library.Stream"
begin

text \<open>
  Shared vocabulary of the development: Python's rounding and truncation on numbers, upper-casing
  of symbols, truthiness of optional numbers, bounded deques, the uniform random draws of
  \<open>random.Random\<close>, and log/reason messages.  Floats are idealised as exact reals; rounding calls
  of the source are kept, because they decide on which grid prices and quantities live.
\<close>

named_theorems rounding \<open>facts on Python rounding that arithmetic proofs share\<close>
named_theorems frames \<open>fields an operation does not write\<close>

section \<open>Python numbers\<close>

text \<open>\<open>round(x, n)\<close>: to the nearest multiple of \<open>10^-n\<close>, ties to even.\<close>

definition round_half_even :: "real \<Rightarrow> int" where
  "round_half_even y =
     (let f = \<lfloor>y\<rfloor>; d = y - of_int f in
      if d < 1/2 then f else if 1/2 < d then f + 1 else if even f then f else f + 1)"

definition py_round :: "nat \<Rightarrow> real \<Rightarrow> real" where
  "py_round n x = of_int (round_half_even (x * 10 ^ n)) / 10 ^ n"

text \<open>\<open>int(x)\<close> truncates towards zero.\<close>

definition py_int :: "real \<Rightarrow> int" where
  "py_int x = (if x \<ge> 0 then \<lfloor>x\<rfloor> else \<lceil>x\<rceil>)"

definition on_grid :: "nat \<Rightarrow> real \<Rightarrow> bool" where
  "on_grid n x \<longleftrightarrow> of_int \<lfloor>x * 10 ^ n\<rfloor> = x * 10 ^ n"

lemma round_half_even_of_int [simp]: "round_half_even (of_int k) = k"
  by (simp add: round_half_even_def Let_def)

lemma round_half_even_bounds:
  "of_int (round_half_even y) \<le> y + 1/2" "y - 1/2 \<le> of_int (round_half_even y)"
proof -
  have f: "of_int \<lfloor>y\<rfloor> \<le> y" "y < of_int \<lfloor>y\<rfloor> + 1"
    by linarith+
  show "of_int (round_half_even y) \<le> y + 1/2"
    using f unfolding round_half_even_def Let_def
    by (cases "y - of_int \<lfloor>y\<rfloor> < 1/2"; cases "1/2 < y - of_int \<lfloor>y\<rfloor>"; cases "even \<lfloor>y\<rfloor>")
       (simp; linarith)+
  show "y - 1/2 \<le> of_int (round_half_even y)"
    using f unfolding round_half_even_def Let_def
    by (cases "y - of_int \<lfloor>y\<rfloor> < 1/2"; cases "1/2 < y - of_int \<lfloor>y\<rfloor>"; cases "even \<lfloor>y\<rfloor>")
       (simp; linarith)+
qed

lemma round_half_even_cases:
  "round_half_even y = \<lfloor>y\<rfloor> \<and> y - of_int \<lfloor>y\<rfloor> \<le> 1/2 \<or>
   round_half_even y = \<lfloor>y\<rfloor> + 1 \<and> y - of_int \<lfloor>y\<rfloor> \<ge> 1/2"
  by (auto simp: round_half_even_def Let_def)

lemma round_half_even_mono:
  assumes "x \<le> y" shows "round_half_even x \<le> round_half_even y"
proof (cases "\<lfloor>x\<rfloor> = \<lfloor>y\<rfloor>")
  case True
  then show ?thesis
    using assms by (auto simp: round_half_even_def Let_def)
next
  case False
  with floor_mono [OF assms] have "\<lfloor>x\<rfloor> + 1 \<le> \<lfloor>y\<rfloor>" by simp
  moreover have "round_half_even x \<le> \<lfloor>x\<rfloor> + 1" "\<lfloor>y\<rfloor> \<le> round_half_even y"
    using round_half_even_cases [of x] round_half_even_cases [of y] by auto
  ultimately show ?thesis by linarith
qed

lemma py_round_mono [rounding]: "x \<le> y \<Longrightarrow> py_round n x \<le> py_round n y"
  by (simp add: py_round_def divide_right_mono round_half_even_mono mult_right_mono)

lemma py_round_err [rounding]: "\<bar>py_round n x - x\<bar> \<le> 1 / (2 * 10 ^ n)"
proof -
  let ?r = "real_of_int (round_half_even (x * 10 ^ n))"
  have "\<bar>?r - x * 10 ^ n\<bar> \<le> 1/2"
    using round_half_even_bounds [of "x * 10 ^ n"] by linarith
  moreover have "py_round n x - x = (?r - x * 10 ^ n) / 10 ^ n"
    by (simp add: py_round_def field_simps)
  then have "\<bar>py_round n x - x\<bar> = \<bar>?r - x * 10 ^ n\<bar> / 10 ^ n"
    by (simp add: abs_divide)
  ultimately show ?thesis
    by (simp add: divide_simps)
qed

lemma py_round_upper: "py_round n x \<le> x + 1 / (2 * 10 ^ n)"
  using py_round_err [of n x] by linarith

lemma py_round_lower: "x - 1 / (2 * 10 ^ n) \<le> py_round n x"
  using py_round_err [of n x] by linarith

lemma py_round_grid [simp]: "on_grid n x \<Longrightarrow> py_round n x = x"
  unfolding on_grid_def py_round_def
  by (metis nonzero_mult_div_cancel_right power_not_zero round_half_even_of_int zero_neq_numeral)

lemma on_grid_of_int_div: "on_grid n (of_int k / 10 ^ n)"
  by (simp add: on_grid_def)

lemma on_grid_round [simp]: "on_grid n (py_round n x)"
  by (simp add: py_round_def on_grid_of_int_div)

lemma on_grid_0 [simp]: "on_grid n 0"
  by (simp add: on_grid_def)

lemma py_round_idem [simp]: "py_round n (py_round n x) = py_round n x"
  by simp

lemma py_round_0 [simp]: "py_round n 0 = 0"
  by simp

lemma py_round_nonneg [rounding]: "0 \<le> x \<Longrightarrow> 0 \<le> py_round n x"
  using py_round_mono [of 0 x n] by simp

lemma py_round_nonpos [rounding]: "x \<le> 0 \<Longrightarrow> py_round n x \<le> 0"
  using py_round_mono [of x 0 n] by simp

lemma py_round_grid_lower: "on_grid n a \<Longrightarrow> a \<le> x \<Longrightarrow> a \<le> py_round n x"
  by (metis py_round_grid py_round_mono)

lemma py_round_grid_upper: "on_grid n a \<Longrightarrow> x \<le> a \<Longrightarrow> py_round n x \<le> a"
  by (metis py_round_grid py_round_mono)

lemma py_int_nonneg: "0 \<le> x \<Longrightarrow> of_int (py_int x) \<le> x" "0 \<le> x \<Longrightarrow> x < of_int (py_int x) + 1"
  by (simp_all add: py_int_def)

lemma div_bounds: "0 < (n::int) \<Longrightarrow> n * (x div n) \<le> x \<and> x < n * (x div n) + n"
  by (metis add.commute add_less_cancel_left div_mult_mod_eq mult.commute pos_mod_bound pos_mod_sign le_add_same_cancel2 )

section \<open>Optional numbers and strings\<close>

text \<open>The truth value of an \<open>Optional[float]\<close>: \<open>None\<close> and \<open>0.0\<close> are false.\<close>

fun truthy :: "real option \<Rightarrow> bool" where
  "truthy None = False"
| "truthy (Some x) = (x \<noteq> 0)"

definition py_or :: "real option \<Rightarrow> real \<Rightarrow> real" where
  "py_or x d = (if truthy x then the x else d)"

text \<open>\<open>str.upper\<close> and \<open>str.lower\<close> on ASCII symbols.\<close>

definition upper_char :: "char \<Rightarrow> char" where
  "upper_char c = (let n = of_char c :: nat in if 97 \<le> n \<and> n \<le> 122 then char_of (n - 32) else c)"

definition upper :: "string \<Rightarrow> string" where
  "upper s = map upper_char s"

definition lower_char :: "char \<Rightarrow> char" where
  "lower_char c = (let n = of_char c :: nat in if 65 \<le> n \<and> n \<le> 90 then char_of (n + 32) else c)"

definition lower :: "string \<Rightarrow> string" where
  "lower s = map lower_char s"

lemma upper_char_idem [simp]: "upper_char (upper_char c) = upper_char c"
proof (cases "97 \<le> (of_char c :: nat) \<and> (of_char c :: nat) \<le> 122")
  case True
  then have "(of_char (upper_char c) :: nat) = of_char c - 32"
    by (auto simp: upper_char_def Let_def intro: mod_less)
  with True show ?thesis
    by (auto simp: upper_char_def [of "upper_char c"] Let_def)
next
  case False
  then show ?thesis by (auto simp: upper_char_def Let_def)
qed

lemma upper_idem [simp]: "upper (upper s) = upper s"
  by (simp add: upper_def)

lemma length_upper [simp]: "length (upper s) = length s"
  by (simp add: upper_def)

text \<open>\<open>s.strip()\<close> for the ASCII white space, and the test \<open>not s.strip()\<close>.\<close>

definition is_space :: "char \<Rightarrow> bool" where
  "is_space c \<longleftrightarrow> (let n = of_char c :: nat in n = 32 \<or> 9 \<le> n \<and> n \<le> 13 \<or> 28 \<le> n \<and> n \<le> 31)"

definition strip :: "string \<Rightarrow> string" where
  "strip s = rev (dropWhile is_space (rev (dropWhile is_space s)))"

lemma strip_empty_iff: "strip s = [] \<longleftrightarrow> (\<forall>c \<in> set s. is_space c)"
proof -
  have "dropWhile is_space (rev t) = [] \<longleftrightarrow> (\<forall>c \<in> set t. is_space c)" for t
    by (simp add: dropWhile_eq_Nil_conv)
  moreover have "(\<forall>c \<in> set (dropWhile is_space s). is_space c) \<longleftrightarrow> (\<forall>c \<in> set s. is_space c)"
    by (metis dropWhile_eq_Nil_conv empty_iff empty_set hd_dropWhile list.set_sel(1) set_dropWhileD)
  ultimately show ?thesis by (simp add: strip_def)
qed

section \<open>Messages\<close>

text \<open>
  An f-string is kept as its template with the interpolated values, a plain string as a literal;
  the formatting of numbers inside messages is not modelled.  Accents and the signs \<open>\<le>\<close>, \<open>\<ge>\<close> of
  the templates are written in ASCII.
\<close>

datatype msg_arg = ArgReal real | ArgInt int | ArgStr string

datatype msg = Lit string | Fmt string "msg_arg list"

definition msg_empty :: "msg \<Rightarrow> bool" where
  "msg_empty m \<longleftrightarrow> m = Lit []"

definition msg_or :: "msg \<Rightarrow> msg \<Rightarrow> msg" where
  "msg_or m d = (if msg_empty m then d else m)"

section \<open>Bounded deques and random draws\<close>

text \<open>\<open>deque(maxlen=n).append(x)\<close> keeps the newest \<open>n\<close> entries, oldest first.\<close>

definition last_n :: "nat \<Rightarrow> 'a list \<Rightarrow> 'a list" where
  "last_n n xs = drop (length xs - n) xs"

definition deque_append :: "nat \<Rightarrow> 'a \<Rightarrow> 'a list \<Rightarrow> 'a list" where
  "deque_append n x xs = last_n n (xs @ [x])"

text \<open>\<open>xs[-n:]\<close> with a variable \<open>n\<close>: all of \<open>xs\<close> when it is zero, and a drop when it is negative.\<close>

definition py_tail :: "int \<Rightarrow> 'a list \<Rightarrow> 'a list" where
  "py_tail n xs = (if n > 0 then last_n (nat n) xs else drop (nat (- n)) xs)"

lemma length_last_n [simp]: "length (last_n n xs) = min n (length xs)"
  by (auto simp: last_n_def)

lemma last_n_id [simp]: "length xs \<le> n \<Longrightarrow> last_n n xs = xs"
  by (simp add: last_n_def)

lemma set_last_n: "set (last_n n xs) \<subseteq> set xs"
  by (simp add: last_n_def set_drop_subset)

lemma last_n_last_n_append: "last_n n (last_n n xs @ ys) = last_n n (xs @ ys)"
  by (cases "length xs \<le> n") (auto simp: last_n_def add.commute)

lemma fold_deque_append:
  "fold (deque_append n) ys (last_n n xs) = last_n n (xs @ ys)"
proof (induction ys arbitrary: xs)
  case Nil
  then show ?case by simp
next
  case (Cons y ys)
  have "fold (deque_append n) (y # ys) (last_n n xs) = fold (deque_append n) ys (last_n n (xs @ [y]))"
    by (simp add: deque_append_def last_n_last_n_append)
  also have "\<dots> = last_n n ((xs @ [y]) @ ys)"
    by (rule Cons.IH)
  finally show ?case by simp
qed

text \<open>
  A \<open>random.Random\<close> is the stream of the values its \<open>random()\<close> calls return, each in \<open>[0, 1)\<close>;
  \<open>uniform(a, b)\<close> is \<open>a + (b - a) * random()\<close>.
\<close>

type_synonym rng = "real stream"

definition unit_rng :: "rng \<Rightarrow> bool" where
  "unit_rng r \<longleftrightarrow> (\<forall>x \<in> sset r. 0 \<le> x \<and> x < 1)"

definition rng_random :: "rng \<Rightarrow> real \<times> rng" where
  "rng_random r = (shd r, stl r)"

definition rng_uniform :: "real \<Rightarrow> real \<Rightarrow> rng \<Rightarrow> real \<times> rng" where
  "rng_uniform a b r = (a + (b - a) * shd r, stl r)"

lemma unit_rng_stl [simp]: "unit_rng r \<Longrightarrow> unit_rng (stl r)"
  by (auto simp: unit_rng_def stl_sset)

lemma unit_rng_shd: "unit_rng r \<Longrightarrow> 0 \<le> shd r \<and> shd r < 1"
  by (simp add: unit_rng_def shd_sset)

lemma unit_rng_sconst [simp]: "unit_rng (sconst x) \<longleftrightarrow> 0 \<le> x \<and> x < 1"
  by (auto simp: unit_rng_def)

lemma rng_uniform_range:
  assumes "unit_rng r" "a \<le> b" "rng_uniform a b r = (v, r')"
  shows "a \<le> v \<and> v \<le> b \<and> unit_rng r'"
proof -
  have s: "0 \<le> shd r" "shd r \<le> 1"
    using unit_rng_shd [OF assms(1)] by simp_all
  have "0 \<le> (b - a) * shd r"
    using s assms(2) by simp
  moreover have "(b - a) * shd r \<le> b - a"
    using s assms(2) by (simp add: mult_left_le)
  ultimately show ?thesis
    using assms by (auto simp: rng_uniform_def)
qed

section \<open>Sums\<close>

lemma sum_list_nonneg_map: "(\<And>x. x \<in> set xs \<Longrightarrow> 0 \<le> (f x :: real)) \<Longrightarrow> 0 \<le> (\<Sum>x\<leftarrow>xs. f x)"
  by (induction xs) auto

lemma sum_list_member_le:
  "(\<And>x. x \<in> set xs \<Longrightarrow> 0 \<le> (f x :: real)) \<Longrightarrow> x \<in> set xs \<Longrightarrow> f x \<le> (\<Sum>x\<leftarrow>xs. f x)"
proof (induction xs)
  case (Cons y ys)
  have "0 \<le> (\<Sum>x\<leftarrow>ys. f x)" by (rule sum_list_nonneg_map) (simp add: Cons.prems)
  moreover have "0 \<le> f y" by (simp add: Cons.prems)
  moreover have "x \<in> set ys \<Longrightarrow> f x \<le> (\<Sum>x\<leftarrow>ys. f x)" by (simp add: Cons)
  ultimately show ?case using Cons.prems(2) by auto
qed simp

lemma sum_list_map_split:
  "(\<Sum>x\<leftarrow>xs. (f x :: real)) = (\<Sum>x\<leftarrow>filter P xs. f x) + (\<Sum>x\<leftarrow>filter (\<lambda>x. \<not> P x) xs. f x)"
  by (induction xs) auto

lemma Max_le_foldr_max: "(b :: real) \<le> foldr max xs b"
  by (induction xs) auto

end
