(* ===== verification/Py_Dict.thy ===== *)
theory Py_Dict
  imports Prelude
begin

text \<open>
  Python dictionaries as association lists in insertion order.  The managers of the execution
  layer keep their live objects in such dictionaries and iterate over \<open>values()\<close>, so the order of
  the entries is part of the behaviour.  The interface a client relies on is the locale
  \<open>keyed_store\<close>; it is interpreted on the association-list model at the end of the theory.
\<close>

section \<open>The model\<close>

type_synonym ('k, 'v) pydict = "('k \<times> 'v) list"

definition pd_get :: "('k, 'v) pydict \<Rightarrow> 'k \<Rightarrow> 'v option" where
  "pd_get d k = map_of d k"

text \<open>\<open>d[k] = v\<close> keeps the place of an existing key and appends a new one.\<close>

fun pd_put :: "('k, 'v) pydict \<Rightarrow> 'k \<Rightarrow> 'v \<Rightarrow> ('k, 'v) pydict" where
  "pd_put [] k v = [(k, v)]"
| "pd_put ((k', v') # d) k v = (if k' = k then (k, v) # d else (k', v') # pd_put d k v)"

text \<open>\<open>d.pop(k, None)\<close> without its result.\<close>

definition pd_pop :: "('k, 'v) pydict \<Rightarrow> 'k \<Rightarrow> ('k, 'v) pydict" where
  "pd_pop d k = filter (\<lambda>e. fst e \<noteq> k) d"

definition pd_keys :: "('k, 'v) pydict \<Rightarrow> 'k list" where
  "pd_keys d = map fst d"

definition pd_values :: "('k, 'v) pydict \<Rightarrow> 'v list" where
  "pd_values d = map snd d"

definition pd_wf :: "('k, 'v) pydict \<Rightarrow> bool" where
  "pd_wf d \<longleftrightarrow> distinct (map fst d)"

definition pd_get_or :: "('k, 'v) pydict \<Rightarrow> 'k \<Rightarrow> 'v \<Rightarrow> 'v" where
  "pd_get_or d k v = (case pd_get d k of None \<Rightarrow> v | Some w \<Rightarrow> w)"

section \<open>Laws of the model\<close>

lemma pd_get_Nil [simp]: "pd_get [] k = None"
  by (simp add: pd_get_def)

lemma pd_get_put [simp]: "pd_get (pd_put d k v) k' = (if k' = k then Some v else pd_get d k')"
  by (induction d k v rule: pd_put.induct) (auto simp: pd_get_def)

lemma pd_get_pop [simp]: "pd_get (pd_pop d k) k' = (if k' = k then None else pd_get d k')"
  by (induction d) (auto simp: pd_get_def pd_pop_def)

lemma set_keys_put [simp]: "set (pd_keys (pd_put d k v)) = insert k (set (pd_keys d))"
  by (induction d k v rule: pd_put.induct) (auto simp: pd_keys_def)

lemma pd_keys_put_old: "k \<in> set (pd_keys d) \<Longrightarrow> pd_keys (pd_put d k v) = pd_keys d"
  by (induction d k v rule: pd_put.induct) (auto simp: pd_keys_def)

lemma pd_put_new: "k \<notin> set (pd_keys d) \<Longrightarrow> pd_put d k v = d @ [(k, v)]"
  by (induction d k v rule: pd_put.induct) (auto simp: pd_keys_def)

lemma pd_wf_put [simp, intro]: "pd_wf d \<Longrightarrow> pd_wf (pd_put d k v)"
proof (cases "k \<in> set (pd_keys d)")
  case True
  then show "pd_wf d \<Longrightarrow> ?thesis"
    using pd_keys_put_old [of k d v] by (simp add: pd_wf_def pd_keys_def)
next
  case False
  then show "pd_wf d \<Longrightarrow> ?thesis"
    by (auto simp: pd_wf_def pd_put_new pd_keys_def)
qed

lemma pd_wf_pop [simp, intro]: "pd_wf d \<Longrightarrow> pd_wf (pd_pop d k)"
  by (simp add: pd_wf_def pd_pop_def distinct_map_filter)

lemma pd_wf_Nil [simp]: "pd_wf []"
  by (simp add: pd_wf_def)

lemma set_keys_pop [simp]: "set (pd_keys (pd_pop d k)) = set (pd_keys d) - {k}"
  by (auto simp: pd_keys_def pd_pop_def)

lemma pd_get_in_keys: "(pd_get d k = None) \<longleftrightarrow> k \<notin> set (pd_keys d)"
  by (simp add: pd_get_def pd_keys_def map_of_eq_None_iff)

lemma pd_get_Some_key: "pd_get d k = Some v \<Longrightarrow> k \<in> set (pd_keys d)"
  using pd_get_in_keys [of d k] by auto

lemma pd_get_value: "pd_get d k = Some v \<Longrightarrow> v \<in> set (pd_values d)"
  by (force simp: pd_get_def pd_values_def dest: map_of_SomeD)

lemma pd_value_get:
  assumes "pd_wf d" "v \<in> set (pd_values d)"
  obtains k where "pd_get d k = Some v"
  using assms by (force simp: pd_get_def pd_values_def pd_wf_def)

lemma pd_values_put_new [simp]:
  "k \<notin> set (pd_keys d) \<Longrightarrow> pd_values (pd_put d k v) = pd_values d @ [v]"
  by (simp add: pd_put_new pd_values_def)

lemma set_values_put: "set (pd_values (pd_put d k v)) \<subseteq> insert v (set (pd_values d))"
  by (induction d k v rule: pd_put.induct) (auto simp: pd_values_def)

lemma set_values_pop: "set (pd_values (pd_pop d k)) \<subseteq> set (pd_values d)"
  by (auto simp: pd_values_def pd_pop_def)

lemma pd_pop_absent: "k \<notin> set (pd_keys d) \<Longrightarrow> pd_pop d k = d"
  by (induction d) (auto simp: pd_keys_def pd_pop_def)

lemma length_pop: "pd_wf d \<Longrightarrow> k \<in> set (pd_keys d) \<Longrightarrow> Suc (length (pd_pop d k)) = length d"
proof (induction d)
  case Nil
  then show ?case by (simp add: pd_keys_def)
next
  case (Cons e d)
  then show ?case
    using pd_pop_absent [of "fst e" d]
    by (cases "fst e = k") (auto simp: pd_keys_def pd_wf_def pd_pop_def)
qed

text \<open>A sum over the values loses exactly the popped entry, and gains exactly the new one.\<close>

lemma sum_values_pop:
  assumes "pd_wf d" "pd_get d k = Some v"
  shows "(\<Sum>x\<leftarrow>pd_values (pd_pop d k). (f x :: real)) = (\<Sum>x\<leftarrow>pd_values d. f x) - f v"
  using assms
proof (induction d)
  case Nil
  then show ?case by simp
next
  case (Cons e d)
  have tail: "pd_pop d (fst e) = d"
    using Cons.prems(1) by (intro pd_pop_absent) (auto simp: pd_wf_def pd_keys_def)
  show ?case
  proof (cases "fst e = k")
    case True
    with Cons.prems(2) have "snd e = v" by (cases e) (auto simp: pd_get_def)
    with True tail show ?thesis
      by (auto simp: pd_pop_def pd_values_def)
  next
    case False
    with Cons show ?thesis
      by (cases e) (auto simp: pd_pop_def pd_values_def pd_get_def pd_wf_def)
  qed
qed

lemma sum_values_put_old:
  assumes "pd_get d k = Some v"
  shows "(\<Sum>x\<leftarrow>pd_values (pd_put d k w). (f x :: real)) = (\<Sum>x\<leftarrow>pd_values d. f x) - f v + f w"
  using assms by (induction d k w rule: pd_put.induct) (auto simp: pd_values_def pd_get_def)

lemma pd_wf_distinct: "pd_wf d \<Longrightarrow> distinct (pd_keys d)"
  by (simp add: pd_wf_def pd_keys_def)

section \<open>The interface\<close>

locale keyed_store =
  fixes get :: "'d \<Rightarrow> 'k \<Rightarrow> 'v option"
    and put :: "'d \<Rightarrow> 'k \<Rightarrow> 'v \<Rightarrow> 'd"
    and pop :: "'d \<Rightarrow> 'k \<Rightarrow> 'd"
    and keys :: "'d \<Rightarrow> 'k list"
    and wf :: "'d \<Rightarrow> bool"
  assumes get_put: "get (put d k v) k' = (if k' = k then Some v else get d k')"
    and get_pop: "get (pop d k) k' = (if k' = k then None else get d k')"
    and keys_iff: "k \<in> set (keys d) \<longleftrightarrow> get d k \<noteq> None"
    and wf_distinct: "wf d \<Longrightarrow> distinct (keys d)"
    and wf_put: "wf d \<Longrightarrow> wf (put d k v)"
    and wf_pop: "wf d \<Longrightarrow> wf (pop d k)"
begin

lemma keys_put: "set (keys (put d k v)) = insert k (set (keys d))"
  by (auto simp: keys_iff get_put split: if_splits)

lemma keys_pop: "set (keys (pop d k)) = set (keys d) - {k}"
  by (auto simp: keys_iff get_pop split: if_splits)

text \<open>The number of entries after a store and after a removal.\<close>

lemma size_put_fresh:
  assumes "wf d" "get d k = None"
  shows "length (keys (put d k v)) = Suc (length (keys d))"
proof -
  have "k \<notin> set (keys d)" using assms(2) keys_iff by simp
  then have "card (set (keys (put d k v))) = Suc (card (set (keys d)))"
    by (simp add: keys_put)
  then show ?thesis
    using wf_distinct [OF assms(1)] wf_distinct [OF wf_put [OF assms(1), of k v]]
    by (simp add: distinct_card)
qed

lemma size_pop_present:
  assumes "wf d" "get d k = Some v"
  shows "Suc (length (keys (pop d k))) = length (keys d)"
proof -
  have "k \<in> set (keys d)" using assms(2) keys_iff by simp
  then have "Suc (card (set (keys (pop d k)))) = card (set (keys d))"
    by (simp add: keys_pop card_Suc_Diff1 del: card_Diff_insert)
  then show ?thesis
    using wf_distinct [OF assms(1)] wf_distinct [OF wf_pop [OF assms(1), of k]]
    by (simp add: distinct_card)
qed

lemma put_pop_fresh: "get d k = None \<Longrightarrow> get (pop (put d k v) k) = get d"
  by (auto simp: get_put get_pop)

end

interpretation pd: keyed_store pd_get pd_put pd_pop pd_keys pd_wf
  by unfold_locales (auto simp: pd_get_in_keys pd_wf_distinct)

lemma length_keys [simp]: "length (pd_keys d) = length d"
  by (simp add: pd_keys_def)

lemma length_values [simp]: "length (pd_values d) = length d"
  by (simp add: pd_values_def)

end
