(* ===== verification/Settings.thy ===== *)
theory Settings
  imports Py_Dict
begin

text \<open>
  The typed configuration sections of \<open>app/config/settings.py\<close> that the execution layer and the
  production safety layer read, with the defaults of the source.  A section is a record with the
  source's field names behind a short prefix; \<open>resolved_mode\<close> is the static floor on the execution
  mode.
\<close>

section \<open>Costs\<close>

record commission_settings =
  cs_model :: string
  cs_maker_bps :: real
  cs_taker_bps :: real
  cs_per_unit :: real
  cs_fixed :: real
  cs_minimum :: real
  cs_per_symbol :: "(string, (string, real) pydict) pydict"

definition default_commission :: commission_settings where
  "default_commission = \<lparr> cs_model = ''per_notional'', cs_maker_bps = 1, cs_taker_bps = 2,
     cs_per_unit = 0, cs_fixed = 0, cs_minimum = 0, cs_per_symbol = [] \<rparr>"

record slippage_settings =
  sl_model :: string
  sl_base_bps :: real
  sl_volatility_coeff :: real
  sl_liquidity_coeff :: real
  sl_size_coeff :: real
  sl_session_multipliers :: "(string, real) pydict"
  sl_stop_order_extra_bps :: real
  sl_max_bps :: real

definition default_slippage :: slippage_settings where
  "default_slippage = \<lparr> sl_model = ''dynamic'', sl_base_bps = 1, sl_volatility_coeff = 1/2,
     sl_liquidity_coeff = 1/2, sl_size_coeff = 3/10,
     sl_session_multipliers = [(''asia'', 6/5), (''europe'', 1), (''america'', 1), (''off'', 3/2)],
     sl_stop_order_extra_bps = 1, sl_max_bps = 50 \<rparr>"

record latency_settings =
  lt_enabled :: bool
  lt_network_ms :: real
  lt_broker_ms :: real
  lt_exchange_ms :: real
  lt_internal_ms :: real
  lt_jitter_ms :: real
  lt_price_drift_bps_per_100ms :: real

definition default_latency :: latency_settings where
  "default_latency = \<lparr> lt_enabled = True, lt_network_ms = 20, lt_broker_ms = 15,
     lt_exchange_ms = 10, lt_internal_ms = 5, lt_jitter_ms = 10,
     lt_price_drift_bps_per_100ms = 1/2 \<rparr>"

section \<open>Sizing and risk\<close>

record sizing_settings =
  sz_method :: string
  sz_fixed_amount :: real
  sz_percent_of_equity :: real
  sz_risk_per_trade_pct :: real
  sz_atr_stop_multiplier :: real
  sz_atr_period :: int
  sz_min_stop_pct :: real
  sz_min_stop_spread_multiple :: real
  sz_reward_risk :: real
  sz_kelly_fraction :: real
  sz_max_position_pct :: real
  sz_min_quantity :: real

definition default_sizing :: sizing_settings where
  "default_sizing = \<lparr> sz_method = ''fixed_risk'', sz_fixed_amount = 100, sz_percent_of_equity = 2,
     sz_risk_per_trade_pct = 1/2, sz_atr_stop_multiplier = 3/2, sz_atr_period = 14,
     sz_min_stop_pct = 15/100, sz_min_stop_spread_multiple = 8, sz_reward_risk = 3/2,
     sz_kelly_fraction = 1/4, sz_max_position_pct = 20, sz_min_quantity = 0 \<rparr>"

record risk_settings =
  rk_max_risk_per_trade_pct :: real
  rk_max_daily_loss_pct :: real
  rk_max_weekly_loss_pct :: real
  rk_max_monthly_loss_pct :: real
  rk_max_consecutive_losses :: int
  rk_max_open_positions :: int
  rk_max_positions_per_symbol :: int
  rk_max_exposure_pct :: real
  rk_max_symbol_exposure_pct :: real
  rk_max_correlation_exposure_pct :: real
  rk_correlation_groups :: "string list list"
  rk_min_liquidity :: real
  rk_max_spread_bps :: real
  rk_circuit_breaker_loss_pct :: real
  rk_circuit_breaker_window_minutes :: real
  rk_kill_switch_drawdown_pct :: real

definition default_risk :: risk_settings where
  "default_risk = \<lparr> rk_max_risk_per_trade_pct = 1/2, rk_max_daily_loss_pct = 3,
     rk_max_weekly_loss_pct = 8, rk_max_monthly_loss_pct = 15, rk_max_consecutive_losses = 5,
     rk_max_open_positions = 5, rk_max_positions_per_symbol = 1, rk_max_exposure_pct = 100,
     rk_max_symbol_exposure_pct = 40, rk_max_correlation_exposure_pct = 60,
     rk_correlation_groups = [], rk_min_liquidity = 0, rk_max_spread_bps = 10,
     rk_circuit_breaker_loss_pct = 5, rk_circuit_breaker_window_minutes = 15,
     rk_kill_switch_drawdown_pct = 20 \<rparr>"

section \<open>Execution\<close>

record execution_settings =
  xs_enabled :: bool
  xs_mode :: string
  xs_initial_balance :: real
  xs_use_broker_balance :: bool
  xs_base_currency :: string
  xs_leverage :: real
  xs_manage_interval_seconds :: real
  xs_reject_probability :: real
  xs_partial_fill_probability :: real
  xs_gap_threshold_bps :: real
  xs_default_time_in_force :: string
  xs_break_even_r :: real
  xs_trailing_enabled :: bool
  xs_trailing_atr_multiple :: real
  xs_trailing_activate_r :: real
  xs_regime_exit_confirmations :: int
  xs_regime_exit_family_only :: bool
  xs_max_holding_minutes :: real
  xs_exit_on_regime_change :: bool
  xs_regime_change_min_holding_seconds :: real
  xs_symbols_enabled :: "(string, bool) pydict"
  xs_report_interval_seconds :: real
  xs_persist_journal :: bool
  xs_commission :: commission_settings
  xs_slippage :: slippage_settings
  xs_latency :: latency_settings
  xs_sizing :: sizing_settings
  xs_risk :: risk_settings

definition default_execution :: execution_settings where
  "default_execution = \<lparr> xs_enabled = False, xs_mode = ''paper'', xs_initial_balance = 10000,
     xs_use_broker_balance = True, xs_base_currency = ''USD'', xs_leverage = 1,
     xs_manage_interval_seconds = 2, xs_reject_probability = 0, xs_partial_fill_probability = 0,
     xs_gap_threshold_bps = 30, xs_default_time_in_force = ''gtc'', xs_break_even_r = 1,
     xs_trailing_enabled = True, xs_trailing_atr_multiple = 2, xs_trailing_activate_r = 1,
     xs_regime_exit_confirmations = 2, xs_regime_exit_family_only = True,
     xs_max_holding_minutes = 240, xs_exit_on_regime_change = True,
     xs_regime_change_min_holding_seconds = 180, xs_symbols_enabled = [],
     xs_report_interval_seconds = 3600, xs_persist_journal = True,
     xs_commission = default_commission, xs_slippage = default_slippage,
     xs_latency = default_latency, xs_sizing = default_sizing, xs_risk = default_risk \<rparr>"

text \<open>The validator of \<open>mode\<close>: \<open>None\<close> is the \<open>ValueError\<close> of the source.\<close>

definition validate_mode :: "string \<Rightarrow> string option" where
  "validate_mode value =
     (let normalized = map lower_char (strip value) in
      if normalized \<notin> {''paper'', ''demo'', ''live''} then None else Some normalized)"

definition is_live :: "execution_settings \<Rightarrow> bool" where
  "is_live s \<longleftrightarrow> xs_mode s = ''live''"

definition is_demo :: "execution_settings \<Rightarrow> bool" where
  "is_demo s \<longleftrightarrow> xs_mode s = ''demo''"

definition static_mode :: "execution_settings \<Rightarrow> string" where
  "static_mode s = (if xs_mode s = ''demo'' then ''demo'' else ''paper'')"

lemma validate_mode_values:
  "validate_mode v = Some m \<Longrightarrow> m \<in> {''paper'', ''demo'', ''live''}"
  by (auto simp: validate_mode_def Let_def split: if_splits)

lemma static_mode_never_live: "static_mode s \<noteq> ''live''"
  by (simp add: static_mode_def)

end
