(* ===== verification/Py_Time.thy ===== *)
theory Py_Time
  imports Prelude
begin

text \<open>
  UTC instants as integer microseconds since 1970-01-01, the unit of Python's \<open>datetime\<close>.  The
  civil calendar (\<open>weekday\<close>, \<open>replace(day=1)\<close>), \<open>timedelta\<close> and the ISO-8601 text of an instant
  (\<open>isoformat\<close>, \<open>fromisoformat\<close>) are defined concretely; \<open>utc_now()\<close> is an argument of the
  operations that read the clock.
\<close>

type_synonym time = int

definition second_us :: int where "second_us = 1000000"
definition minute_us :: int where "minute_us = 60000000"
definition hour_us :: int where "hour_us = 3600000000"
definition day_us :: int where "day_us = 86400000000"

lemmas time_units = second_us_def minute_us_def hour_us_def day_us_def

definition total_seconds :: "int \<Rightarrow> real" where
  "total_seconds d = of_int d / 1000000"

text \<open>\<open>timedelta(minutes=x)\<close> and \<open>timedelta(hours=x)\<close> round to whole microseconds.\<close>

definition timedelta_minutes :: "real \<Rightarrow> int" where
  "timedelta_minutes x = round_half_even (x * 60000000)"

definition timedelta_hours :: "real \<Rightarrow> int" where
  "timedelta_hours x = round_half_even (x * 3600000000)"

section \<open>The civil calendar\<close>

text \<open>
  Day number (0 is 1970-01-01) to year, month and day in the proleptic Gregorian calendar, by eras
  of 400 years that start on 1 March: \<open>yoe_of\<close> is the year of the era of a day of the era, and
  \<open>doy_of\<close> the day of that year.
\<close>

definition yoe_of :: "int \<Rightarrow> int" where
  "yoe_of doe = (doe - doe div 1460 + doe div 36524 - doe div 146096) div 365"

definition doy_of :: "int \<Rightarrow> int" where
  "doy_of doe = doe - (365 * yoe_of doe + yoe_of doe div 4 - yoe_of doe div 100)"

definition mp_of :: "int \<Rightarrow> int" where
  "mp_of doy = (5 * doy + 2) div 153"

definition civil_from_days :: "int \<Rightarrow> int \<times> int \<times> int" where
  "civil_from_days z =
     (let era = (z + 719468) div 146097;
          doe = (z + 719468) mod 146097;
          doy = doy_of doe;
          mp = mp_of doy;
          d = doy - (153 * mp + 2) div 5 + 1;
          m = (if mp < 10 then mp + 3 else mp - 9);
          y = yoe_of doe + era * 400
      in (if m \<le> 2 then y + 1 else y, m, d))"

definition days_from_civil :: "int \<times> int \<times> int \<Rightarrow> int" where
  "days_from_civil c =
     (case c of (y0, m, d) \<Rightarrow>
        let y = (if m \<le> 2 then y0 - 1 else y0);
            era = y div 400;
            yoe = y - era * 400;
            mp = (if m > 2 then m - 3 else m + 9);
            doy = (153 * mp + 2) div 5 + d - 1;
            doe = yoe * 365 + yoe div 4 - yoe div 100 + doy
        in era * 146097 + doe - 719468)"

lemmas civil_defs = civil_from_days_def yoe_of_def doy_of_def mp_of_def

lemma civil_epoch: "civil_from_days 0 = (1970, 1, 1)"
  by code_simp

lemma civil_leap_day: "civil_from_days 19782 = (2024, 2, 29)"
  by code_simp

lemma era_aux:
  fixes doe :: int
  assumes "0 \<le> doe" "doe < 146097"
    "1460 * q1 \<le> doe" "doe < 1460 * q1 + 1460"
    "36524 * q2 \<le> doe" "doe < 36524 * q2 + 36524"
    "146096 * q3 \<le> doe" "doe < 146096 * q3 + 146096"
    "365 * yoe \<le> doe - q1 + q2 - q3" "doe - q1 + q2 - q3 < 365 * yoe + 365"
    "100 * c \<le> yoe" "yoe < 100 * c + 100"
  shows "0 \<le> yoe" "yoe \<le> 399" "c = q2 - q3"
proof -
  have q3: "q3 = 0 \<or> q3 = 1" using assms by linarith
  have q2: "q2 = 0 \<or> q2 = 1 \<or> q2 = 2 \<or> q2 = 3 \<or> q2 = 4" using assms by linarith
  show "0 \<le> yoe" using assms by linarith
  show "yoe \<le> 399" using assms q3 by linarith
  show "c = q2 - q3" using q2 q3 assms by (elim disjE; simp; linarith)
qed

lemma doy_aux:
  fixes doe :: int
  assumes "0 \<le> doe" "doe < 146097"
    "1460 * q1 \<le> doe" "doe < 1460 * q1 + 1460"
    "36524 * q2 \<le> doe" "doe < 36524 * q2 + 36524"
    "146096 * q3 \<le> doe" "doe < 146096 * q3 + 146096"
    "365 * yoe \<le> doe - q1 + q2 - q3" "doe - q1 + q2 - q3 < 365 * yoe + 365"
    "4 * q4 \<le> yoe" "yoe < 4 * q4 + 4" "c = q2 - q3"
  shows "0 \<le> doe - (365 * yoe + q4 - c)" "doe - (365 * yoe + q4 - c) \<le> 365"
proof -
  have "q2 \<le> q1" "q1 \<le> 100" "0 \<le> q2" "q3 \<le> 1" "0 \<le> q1" using assms by linarith+
  have "q4 \<le> q1" using assms \<open>q2 \<le> q1\<close> \<open>0 \<le> q2\<close> by linarith
  then show "0 \<le> doe - (365 * yoe + q4 - c)" using assms by linarith
  have "q1 \<le> q4 + 1" using assms \<open>q1 \<le> 100\<close> \<open>0 \<le> q2\<close> \<open>q3 \<le> 1\<close> by linarith
  then show "doe - (365 * yoe + q4 - c) \<le> 365" using assms by linarith
qed

lemma month_aux:
  fixes doy :: int
  assumes "153 * mp \<le> 5 * doy + 2" "5 * doy + 2 < 153 * mp + 153"
    "5 * k \<le> 153 * mp + 2" "153 * mp + 2 < 5 * k + 5"
  shows "1 \<le> doy - k + 1" "doy - k + 1 \<le> 31"
  using assms by linarith+

lemma yoe_doy_range:
  assumes "0 \<le> doe" "doe < 146097"
  shows "0 \<le> yoe_of doe" "yoe_of doe \<le> 399" "0 \<le> doy_of doe" "doy_of doe \<le> 365"
proof -
  let ?y = "yoe_of doe"
  let ?q1 = "doe div 1460" and ?q2 = "doe div 36524" and ?q3 = "doe div 146096"
  have q: "1460 * ?q1 \<le> doe" "doe < 1460 * ?q1 + 1460" "36524 * ?q2 \<le> doe"
    "doe < 36524 * ?q2 + 36524" "146096 * ?q3 \<le> doe" "doe < 146096 * ?q3 + 146096"
    using div_bounds [of 1460 doe] div_bounds [of 36524 doe] div_bounds [of 146096 doe] by simp_all
  have y: "365 * ?y \<le> doe - ?q1 + ?q2 - ?q3" "doe - ?q1 + ?q2 - ?q3 < 365 * ?y + 365"
    using div_bounds [of 365 "doe - ?q1 + ?q2 - ?q3"] by (simp_all add: yoe_of_def)
  have c: "100 * (?y div 100) \<le> ?y" "?y < 100 * (?y div 100) + 100"
    and r: "4 * (?y div 4) \<le> ?y" "?y < 4 * (?y div 4) + 4"
    using div_bounds [of 100 ?y] div_bounds [of 4 ?y] by simp_all
  note era = era_aux [OF assms q y c]
  show "0 \<le> ?y" "?y \<le> 399" by (rule era)+
  show "0 \<le> doy_of doe" "doy_of doe \<le> 365"
    unfolding doy_of_def by (rule doy_aux [OF assms q y r era(3)])+
qed

lemma mp_range:
  assumes "0 \<le> doy" "doy \<le> 365" shows "0 \<le> mp_of doy" "mp_of doy \<le> 11"
  using div_bounds [of 153 "5 * doy + 2"] assms by (simp_all add: mp_of_def)

lemma dom_range:
  "1 \<le> doy - (153 * mp_of doy + 2) div 5 + 1" "doy - (153 * mp_of doy + 2) div 5 + 1 \<le> 31"
proof -
  let ?m = "mp_of doy"
  have m: "153 * ?m \<le> 5 * doy + 2" "5 * doy + 2 < 153 * ?m + 153"
    using div_bounds [of 153 "5 * doy + 2"] by (simp_all add: mp_of_def)
  have k: "5 * ((153 * ?m + 2) div 5) \<le> 153 * ?m + 2" "153 * ?m + 2 < 5 * ((153 * ?m + 2) div 5) + 5"
    using div_bounds [of 5 "153 * ?m + 2"] by simp_all
  show "1 \<le> doy - (153 * ?m + 2) div 5 + 1" "doy - (153 * ?m + 2) div 5 + 1 \<le> 31"
    by (rule month_aux [OF m k])+
qed

lemma civil_ranges:
  assumes "civil_from_days z = (y, m, d)"
  shows "1 \<le> m" "m \<le> 12" "1 \<le> d" "d \<le> 31"
proof -
  define doe where "doe = (z + 719468) mod 146097"
  define mp where "mp = mp_of (doy_of doe)"
  define k where "k = doy_of doe - (153 * mp + 2) div 5 + 1"
  have doe: "0 \<le> doe" "doe < 146097" by (simp_all add: doe_def)
  have mp: "0 \<le> mp" "mp \<le> 11" and k: "1 \<le> k" "k \<le> 31"
    unfolding k_def mp_def by (rule mp_range dom_range yoe_doy_range doe)+
  have "m = (if mp < 10 then mp + 3 else mp - 9)" "d = k"
    using assms unfolding civil_from_days_def Let_def doe_def [symmetric] mp_def [symmetric]
      k_def [symmetric] by auto
  then show "1 \<le> m" "m \<le> 12" "1 \<le> d" "d \<le> 31"
    using mp k by auto
qed

lemma days_civil_roundtrip: "days_from_civil (civil_from_days z) = z"
proof -
  define era where "era = (z + 719468) div 146097"
  define doe where "doe = (z + 719468) mod 146097"
  define mp where "mp = mp_of (doy_of doe)"
  define m where "m = (if mp < 10 then mp + 3 else mp - 9)"
  define y where "y = yoe_of doe + era * 400"
  have doe: "0 \<le> doe" "doe < 146097" by (simp_all add: doe_def)
  note yoe = yoe_doy_range(1,2) [OF doe] and mp = mp_range [OF yoe_doy_range(3,4) [OF doe]]
  have civil: "civil_from_days z
      = (if m \<le> 2 then y + 1 else y, m, doy_of doe - (153 * mp + 2) div 5 + 1)"
    by (simp add: civil_from_days_def Let_def era_def doe_def mp_def m_def y_def)
  have year: "(if m \<le> 2 then (if m \<le> 2 then y + 1 else y) - 1
      else (if m \<le> 2 then y + 1 else y)) = y"
    by simp
  have era: "y div 400 = era" using yoe by (simp add: y_def)
  have month: "(if m > 2 then m - 3 else m + 9) = mp"
    using mp by (auto simp: m_def mp_def)
  have "days_from_civil (civil_from_days z)
      = era * 146097 + (yoe_of doe * 365 + yoe_of doe div 4 - yoe_of doe div 100 + doy_of doe) - 719468"
    unfolding days_from_civil_def civil Let_def prod.case year era month by (simp add: y_def)
  also have "\<dots> = era * 146097 + doe - 719468"
    by (simp add: doy_of_def)
  also have "era * 146097 + doe = z + 719468"
    unfolding era_def doe_def by (rule div_mult_mod_eq)
  finally show ?thesis by simp
qed

section \<open>Starts of periods\<close>

definition start_of_day :: "time \<Rightarrow> time" where
  "start_of_day t = t - t mod day_us"

definition weekday :: "time \<Rightarrow> int" where
  "weekday t = (t div day_us + 3) mod 7"

definition start_of_week :: "time \<Rightarrow> time" where
  "start_of_week t = start_of_day t - weekday t * day_us"

definition day_of_month :: "time \<Rightarrow> int" where
  "day_of_month t = (case civil_from_days (t div day_us) of (y, m, d) \<Rightarrow> d)"

definition start_of_month :: "time \<Rightarrow> time" where
  "start_of_month t = start_of_day t - (day_of_month t - 1) * day_us"

definition hour_of :: "time \<Rightarrow> int" where
  "hour_of t = (t mod day_us) div hour_us"

definition minute_of :: "time \<Rightarrow> int" where
  "minute_of t = (t mod hour_us) div minute_us"

lemma start_of_day_le: "start_of_day t \<le> t"
  by (simp add: start_of_day_def day_us_def)

lemma start_of_week_le: "start_of_week t \<le> start_of_day t"
  by (simp add: start_of_week_def weekday_def day_us_def)

lemma start_of_month_le: "start_of_month t \<le> start_of_day t"
  using civil_ranges(3) [of "t div day_us"]
  by (auto simp: start_of_month_def day_of_month_def day_us_def split: prod.splits)

lemma hour_of_range: "0 \<le> hour_of t \<and> hour_of t < 24"
proof -
  have "0 \<le> t mod 86400000000" "t mod 86400000000 < 86400000000" by simp_all
  then show ?thesis unfolding hour_of_def time_units by linarith
qed

lemma total_seconds_mono: "a \<le> b \<Longrightarrow> total_seconds a \<le> total_seconds b"
  by (simp add: total_seconds_def divide_right_mono)

lemma timedelta_minutes_nonneg: "0 \<le> x \<Longrightarrow> 0 \<le> timedelta_minutes x"
  using round_half_even_mono [of 0 "x * 60000000"] round_half_even_of_int [of 0]
  by (simp add: timedelta_minutes_def)

section \<open>ISO-8601 text\<close>

fun pad :: "nat \<Rightarrow> nat \<Rightarrow> string" where
  "pad 0 n = []"
| "pad (Suc w) n = pad w (n div 10) @ [char_of (48 + n mod 10)]"

definition digit_val :: "char \<Rightarrow> nat option" where
  "digit_val c = (let k = of_char c :: nat in if 48 \<le> k \<and> k \<le> 57 then Some (k - 48) else None)"

fun digits_val :: "nat \<Rightarrow> string \<Rightarrow> nat option" where
  "digits_val a [] = Some a"
| "digits_val a (c # cs) =
     (case digit_val c of None \<Rightarrow> None | Some k \<Rightarrow> digits_val (10 * a + k) cs)"

definition read_num :: "nat \<Rightarrow> string \<Rightarrow> (nat \<times> string) option" where
  "read_num w s = (if length s < w then None else
     (case digits_val 0 (take w s) of None \<Rightarrow> None | Some n \<Rightarrow> Some (n, drop w s)))"

fun read_char :: "char \<Rightarrow> string \<Rightarrow> string option" where
  "read_char c [] = None"
| "read_char c (x # xs) = (if x = c then Some xs else None)"

lemma length_pad [simp]: "length (pad w n) = w"
  by (induction w n rule: pad.induct) auto

lemma digit_val_char [simp]: "k < 10 \<Longrightarrow> digit_val (char_of (48 + k)) = Some k"
  by (simp add: digit_val_def)

lemma digits_val_snoc:
  "digits_val a (xs @ [c]) =
     (case digits_val a xs of None \<Rightarrow> None
      | Some v \<Rightarrow> (case digit_val c of None \<Rightarrow> None | Some k \<Rightarrow> Some (10 * v + k)))"
  by (induction xs arbitrary: a) (auto split: option.splits)

lemma digits_val_pad: "n < 10 ^ w \<Longrightarrow> digits_val 0 (pad w n) = Some n"
proof (induction w n rule: pad.induct)
  case (1 n)
  then show ?case by simp
next
  case (2 w n)
  then have "n div 10 < 10 ^ w" by (simp add: less_mult_imp_div_less mult.commute)
  with 2 have "digits_val 0 (pad w (n div 10)) = Some (n div 10)" by simp
  then show ?case by (simp add: digits_val_snoc)
qed

lemma read_num_pad [simp]: "n < 10 ^ w \<Longrightarrow> read_num w (pad w n @ rest) = Some (n, rest)"
  by (simp add: read_num_def digits_val_pad)

text \<open>
  \<open>isoformat()\<close> of a UTC instant: \<open>YYYY-MM-DDTHH:MM:SS[.ffffff]+00:00\<close>, the fraction only when the
  microseconds are not zero.  \<open>read_iso\<close> reads exactly this shape; a date is valid when it is the
  civil date of its own day number.
\<close>

definition iso :: "time \<Rightarrow> string" where
  "iso t =
     (case civil_from_days (t div day_us) of (y, m, d) \<Rightarrow>
        let us = nat (t mod day_us);
            fr = us mod 1000000; s = us div 1000000
        in pad 4 (nat y) @ ''-'' @ pad 2 (nat m) @ ''-'' @ pad 2 (nat d) @ ''T'' @
           pad 2 (s div 3600) @ '':'' @ pad 2 (s div 60 mod 60) @ '':'' @ pad 2 (s mod 60) @
           (if fr = 0 then [] else ''.'' @ pad 6 fr) @ ''+00:00'')"

definition read_fraction :: "string \<Rightarrow> (nat \<times> string) option" where
  "read_fraction s = (case s of [] \<Rightarrow> None
     | c # cs \<Rightarrow> if c = CHR ''.'' then read_num 6 cs else Some (0, s))"

definition civil_time :: "nat \<Rightarrow> nat \<Rightarrow> nat \<Rightarrow> nat \<Rightarrow> nat \<Rightarrow> nat \<Rightarrow> nat \<Rightarrow> time option" where
  "civil_time y m d hh mm ss fr =
     (let c = (int y, int m, int d); n = days_from_civil c in
      if civil_from_days n = c \<and> hh < 24 \<and> mm < 60 \<and> ss < 60 then
        Some (n * day_us + ((int hh * 60 + int mm) * 60 + int ss) * 1000000 + int fr)
      else None)"

definition read_iso :: "string \<Rightarrow> time option" where
  "read_iso s0 =
     Option.bind (read_num 4 s0) (\<lambda>(y, s1).
     Option.bind (read_char (CHR ''-'') s1) (\<lambda>s2.
     Option.bind (read_num 2 s2) (\<lambda>(m, s3).
     Option.bind (read_char (CHR ''-'') s3) (\<lambda>s4.
     Option.bind (read_num 2 s4) (\<lambda>(d, s5).
     Option.bind (read_char (CHR ''T'') s5) (\<lambda>s6.
     Option.bind (read_num 2 s6) (\<lambda>(hh, s7).
     Option.bind (read_char (CHR '':'') s7) (\<lambda>s8.
     Option.bind (read_num 2 s8) (\<lambda>(mm, s9).
     Option.bind (read_char (CHR '':'') s9) (\<lambda>s10.
     Option.bind (read_num 2 s10) (\<lambda>(ss, s11).
     Option.bind (read_fraction s11) (\<lambda>(fr, s12).
     if s12 = ''+00:00'' then civil_time y m d hh mm ss fr else None))))))))))))"

text \<open>Instants of the years \<open>datetime\<close> supports.\<close>

definition wf_time :: "time \<Rightarrow> bool" where
  "wf_time t \<longleftrightarrow> (case civil_from_days (t div day_us) of (y, m, d) \<Rightarrow> 1 \<le> y \<and> y \<le> 9999)"

lemma read_fraction_iso:
  "f < 1000000 \<Longrightarrow>
   read_fraction ((if f = 0 then [] else CHR ''.'' # pad 6 f) @ ''+00:00'') = Some (f, ''+00:00'')"
  by (simp add: read_fraction_def)

lemma clock_fields:
  fixes us :: nat
  assumes "us < 86400000000"
  defines "s \<equiv> us div 1000000"
  shows "s div 3600 < 24" "s div 60 mod 60 < 60" "s mod 60 < 60" "us mod 1000000 < 1000000"
    "((int (s div 3600) * 60 + int (s div 60 mod 60)) * 60 + int (s mod 60)) * 1000000
       + int (us mod 1000000) = int us"
proof -
  have "us < 86400 * 1000000" using assms(1) by simp
  then have "s < 86400" unfolding s_def by (rule less_mult_imp_div_less)
  then show "s div 3600 < 24" by (simp add: less_mult_imp_div_less)
  show "s div 60 mod 60 < 60" "s mod 60 < 60" "us mod 1000000 < 1000000" by simp_all
  have h: "(s div 60) div 60 = s div 3600" by (simp flip: div_mult2_eq)
  have "s div 3600 * 60 + s div 60 mod 60 = s div 60"
    using div_mult_mod_eq [of "s div 60" 60] h by simp
  moreover have "s div 60 * 60 + s mod 60 = s" by (rule div_mult_mod_eq)
  moreover have "s * 1000000 + us mod 1000000 = us" unfolding s_def by (rule div_mult_mod_eq)
  ultimately show "((int (s div 3600) * 60 + int (s div 60 mod 60)) * 60 + int (s mod 60)) * 1000000
       + int (us mod 1000000) = int us"
    by (metis of_nat_add of_nat_mult of_nat_numeral)
qed

lemma read_iso_iso [simp]:
  assumes "wf_time t" shows "read_iso (iso t) = Some t"
proof -
  obtain y m d where c: "civil_from_days (t div day_us) = (y, m, d)"
    by (cases "civil_from_days (t div day_us)")
  have y: "1 \<le> y" "y \<le> 9999" using assms by (simp_all add: wf_time_def c)
  note r = civil_ranges [OF c]
  define us where "us = nat (t mod day_us)"
  have t: "t = t div day_us * day_us + int us" "us < 86400000000"
    by (simp_all add: us_def day_us_def)
  note f = clock_fields [OF t(2)]
  have n: "days_from_civil (y, m, d) = t div day_us"
    using days_civil_roundtrip [of "t div day_us"] by (simp add: c)
  have ints: "int (nat y) = y" "int (nat m) = m" "int (nat d) = d" using y r by simp_all
  have small: "nat y < 10 ^ 4" "nat m < 10 ^ 2" "nat d < 10 ^ 2" using y r by simp_all
  have "civil_time (nat y) (nat m) (nat d) (us div 1000000 div 3600) (us div 1000000 div 60 mod 60)
      (us div 1000000 mod 60) (us mod 1000000) = Some t"
    unfolding civil_time_def Let_def ints n c using f(1-3) t(1) f(5) by simp
  moreover have "us div 1000000 div 3600 < 10 ^ 2" using f(1) by simp
  moreover have "us div 1000000 div 60 mod 60 < 10 ^ 2" "us div 1000000 mod 60 < 10 ^ 2"
    using f(2,3) by simp_all
  ultimately show ?thesis
    unfolding iso_def c us_def [symmetric] read_iso_def Let_def prod.case append_assoc
    using small f(4)
    by (simp only: read_num_pad bind.simps prod.case append.simps read_char.simps
        read_fraction_iso if_True refl)
qed

end
