(* ===== verification/Json.thy ===== *)
theory Json
  imports Py_Dict Py_Time
begin

text \<open>
  JSON values as Python's \<open>json\<close> module produces and reads them, the conversions \<open>str(v)\<close>,
  \<open>float(v)\<close>, \<open>int(v)\<close>, \<open>bool(v)\<close> on them, and the error results of the code that rebuilds records
  from persisted dictionaries.  Text conversions the source leaves to the library for values of an
  unexpected kind (the \<open>repr\<close> of a number, a number parsed from text, other ISO spellings, a
  dictionary built from pairs, the text of a formatted message) are the
  parameter \<open>pylib\<close>.
\<close>

datatype json =
    JNull
  | JBool bool
  | JInt int
  | JNum real
  | JStr string
  | JList "json list"
  | JObj "(string \<times> json) list"

type_synonym json_dict = "(string, json) pydict"

datatype py_error = KeyError string | ValueError | TypeError | AttributeError | IndexError | ZeroDivisionError

record pylib =
  pl_repr :: "json \<Rightarrow> string"
  pl_float :: "string \<Rightarrow> real option"
  pl_iso :: "string \<Rightarrow> time option"
  pl_dict :: "json \<Rightarrow> py_error + (string \<times> json) list"
  pl_render :: "msg \<Rightarrow> string"

definition py_str :: "pylib \<Rightarrow> json \<Rightarrow> string" where
  "py_str L j = (case j of JStr s \<Rightarrow> s | _ \<Rightarrow> pl_repr L j)"

definition py_float :: "pylib \<Rightarrow> json \<Rightarrow> py_error + real" where
  "py_float L j = (case j of
       JNum x \<Rightarrow> Inr x
     | JInt i \<Rightarrow> Inr (of_int i)
     | JBool b \<Rightarrow> Inr (if b then 1 else 0)
     | JStr s \<Rightarrow> (case pl_float L s of None \<Rightarrow> Inl ValueError | Some x \<Rightarrow> Inr x)
     | _ \<Rightarrow> Inl TypeError)"

text \<open>
  \<open>int(text)\<close> on ASCII: surrounding white space, a sign, digits with single underscores between them.
\<close>

fun int_body :: "nat \<Rightarrow> bool \<Rightarrow> string \<Rightarrow> nat option" where
  "int_body a need [] = (if need then None else Some a)"
| "int_body a need (c # cs) =
     (case digit_val c of
        Some k \<Rightarrow> int_body (10 * a + k) False cs
      | None \<Rightarrow> if c = CHR ''_'' \<and> \<not> need then int_body a True cs else None)"

definition int_of_text :: "string \<Rightarrow> int option" where
  "int_of_text s =
     (case strip s of
        [] \<Rightarrow> None
      | c # cs \<Rightarrow>
          if c = CHR ''-'' then map_option (\<lambda>n. - int n) (int_body 0 True cs)
          else if c = CHR ''+'' then map_option int (int_body 0 True cs)
          else map_option int (int_body 0 True (c # cs)))"

text \<open>\<open>int(v)\<close> of a JSON value.\<close>

definition py_int_of :: "json \<Rightarrow> py_error + int" where
  "py_int_of j = (case j of
       JInt i \<Rightarrow> Inr i
     | JNum x \<Rightarrow> Inr (py_int x)
     | JBool b \<Rightarrow> Inr (if b then 1 else 0)
     | JStr s \<Rightarrow> (case int_of_text s of None \<Rightarrow> Inl ValueError | Some i \<Rightarrow> Inr i)
     | _ \<Rightarrow> Inl TypeError)"

definition py_bool :: "json \<Rightarrow> bool" where
  "py_bool j = (case j of
       JNull \<Rightarrow> False
     | JBool b \<Rightarrow> b
     | JInt i \<Rightarrow> i \<noteq> 0
     | JNum x \<Rightarrow> x \<noteq> 0
     | JStr s \<Rightarrow> s \<noteq> []
     | JList xs \<Rightarrow> xs \<noteq> []
     | JObj d \<Rightarrow> d \<noteq> [])"

definition py_fromiso :: "pylib \<Rightarrow> string \<Rightarrow> py_error + time" where
  "py_fromiso L s = (case read_iso s of Some t \<Rightarrow> Inr t
     | None \<Rightarrow> (case pl_iso L s of Some t \<Rightarrow> Inr t | None \<Rightarrow> Inl ValueError))"

text \<open>\<open>tuple(v)\<close> and \<open>dict(v)\<close> of a JSON value, and the text of a message.\<close>

definition py_tuple :: "json \<Rightarrow> py_error + json list" where
  "py_tuple j = (case j of
       JList xs \<Rightarrow> Inr xs
     | JStr s \<Rightarrow> Inr (map (\<lambda>c. JStr [c]) s)
     | JObj d \<Rightarrow> Inr (map (JStr \<circ> fst) d)
     | _ \<Rightarrow> Inl TypeError)"

definition py_dict_of :: "pylib \<Rightarrow> json \<Rightarrow> py_error + (string \<times> json) list" where
  "py_dict_of L j = (case j of JObj d \<Rightarrow> Inr d | _ \<Rightarrow> pl_dict L j)"

definition render :: "pylib \<Rightarrow> msg \<Rightarrow> string" where
  "render L m = (case m of Lit s \<Rightarrow> s | Fmt t xs \<Rightarrow> pl_render L m)"

text \<open>Sequencing of fallible steps: the first error is the result.\<close>

fun ebind :: "'e + 'a \<Rightarrow> ('a \<Rightarrow> 'e + 'b) \<Rightarrow> 'e + 'b" where
  "ebind (Inl e) f = Inl e"
| "ebind (Inr x) f = f x"

lemma ebind_Inr_iff: "ebind m f = Inr y \<longleftrightarrow> (\<exists>x. m = Inr x \<and> f x = Inr y)"
  by (cases m) auto

text \<open>\<open>data["k"]\<close> and \<open>data.get("k", default)\<close>.\<close>

definition jitem :: "json_dict \<Rightarrow> string \<Rightarrow> py_error + json" where
  "jitem d k = (case pd_get d k of None \<Rightarrow> Inl (KeyError k) | Some j \<Rightarrow> Inr j)"

definition jget :: "json_dict \<Rightarrow> string \<Rightarrow> json \<Rightarrow> json" where
  "jget d k j = pd_get_or d k j"

definition json_opt :: "real option \<Rightarrow> json" where
  "json_opt x = (case x of None \<Rightarrow> JNull | Some v \<Rightarrow> JNum v)"

definition json_opt_str :: "string option \<Rightarrow> json" where
  "json_opt_str x = (case x of None \<Rightarrow> JNull | Some v \<Rightarrow> JStr v)"

text \<open>\<open>None if value is None else float(value)\<close>.\<close>

definition opt_float :: "pylib \<Rightarrow> json \<Rightarrow> py_error + real option" where
  "opt_float L j = (if j = JNull then Inr None else ebind (py_float L j) (\<lambda>x. Inr (Some x)))"

lemma py_str_JStr [simp]: "py_str L (JStr s) = s"
  by (simp add: py_str_def)

lemma py_float_JNum [simp]: "py_float L (JNum x) = Inr x"
  by (simp add: py_float_def)

lemma opt_float_json_opt [simp]: "opt_float L (json_opt x) = Inr x"
  by (cases x) (simp_all add: opt_float_def json_opt_def)

lemma py_fromiso_iso [simp]: "wf_time t \<Longrightarrow> py_fromiso L (iso t) = Inr t"
  by (simp add: py_fromiso_def)

lemma jitem_Cons: "jitem ((k', j) # d) k = (if k' = k then Inr j else jitem d k)"
  by (simp add: jitem_def pd_get_def)

lemma jget_Cons: "jget ((k', j) # d) k v = (if k' = k then j else jget d k v)"
  by (simp add: jget_def pd_get_or_def pd_get_def)

lemma jget_Nil: "jget [] k v = v"
  by (simp add: jget_def pd_get_or_def)

lemmas json_lookup = jitem_Cons jget_Cons jget_Nil

text \<open>A list comprehension whose body may raise.\<close>

fun traverse :: "('a \<Rightarrow> 'e + 'b) \<Rightarrow> 'a list \<Rightarrow> 'e + 'b list" where
  "traverse f [] = Inr []"
| "traverse f (x # xs) = ebind (f x) (\<lambda>y. ebind (traverse f xs) (\<lambda>ys. Inr (y # ys)))"

lemma traverse_map: "(\<And>x. x \<in> set xs \<Longrightarrow> f (g x) = Inr (h x)) \<Longrightarrow> traverse f (map g xs) = Inr (map h xs)"
  by (induction xs) simp_all

end
