(* ===== verification/Exec_Models.thy ===== *)
theory Exec_Models
  imports Json
begin

text \<open>
  The domain models of \<open>app/execution/models\<close> and the market ticker they are executed against:
  enumerations, order requests, fills, stateful orders, positions, instrument contracts, portfolio
  snapshots and closed-trade records, with the operations the model classes define themselves.
  Field names carry a short prefix per class because record fields are global names.
\<close>

section \<open>Enumerations\<close>

datatype order_side = BUY | SELL

datatype order_type = OT_MARKET | OT_LIMIT | OT_STOP_MARKET | OT_STOP_LIMIT | OT_TAKE_PROFIT
  | OT_TRAILING_STOP

datatype time_in_force = GTC | IOC | FOK | DAY

datatype order_status = OS_CREATED | OS_PENDING | OS_PARTIALLY_FILLED | OS_FILLED | OS_REJECTED
  | OS_CANCELLED | OS_EXPIRED

datatype position_side = LONG | SHORT

datatype position_status = PS_OPEN | PS_CLOSED

datatype reject_reason = RR_NONE | RR_RISK_BLOCKED | RR_INSUFFICIENT_CAPITAL | RR_NO_MARKET_DATA
  | RR_SPREAD_TOO_WIDE | RR_INVALID_QUANTITY | RR_KILL_SWITCH | RR_CIRCUIT_BREAKER
  | RR_SIMULATED_REJECT | RR_BROKER_REJECTED | RR_BROKER_UNAVAILABLE

datatype exit_reason = EX_TAKE_PROFIT | EX_STOP_LOSS | EX_TRAILING_STOP | EX_BREAK_EVEN
  | EX_TIME_EXIT | EX_VOLATILITY_EXIT | EX_REGIME_CHANGE | EX_CONTEXT_LOST | EX_RISK_EXIT
  | EX_KILL_SWITCH | EX_MANUAL

text \<open>The \<open>StrEnum\<close> values that are persisted, and the constructors from them.\<close>

fun side_value :: "position_side \<Rightarrow> string" where
  "side_value LONG = ''long''"
| "side_value SHORT = ''short''"

definition parse_side :: "string \<Rightarrow> py_error + position_side" where
  "parse_side s = (if s = ''long'' then Inr LONG else if s = ''short'' then Inr SHORT
     else Inl ValueError)"

fun exit_value :: "exit_reason \<Rightarrow> string" where
  "exit_value EX_TAKE_PROFIT = ''take_profit''"
| "exit_value EX_STOP_LOSS = ''stop_loss''"
| "exit_value EX_TRAILING_STOP = ''trailing_stop''"
| "exit_value EX_BREAK_EVEN = ''break_even''"
| "exit_value EX_TIME_EXIT = ''time_exit''"
| "exit_value EX_VOLATILITY_EXIT = ''volatility_exit''"
| "exit_value EX_REGIME_CHANGE = ''regime_change''"
| "exit_value EX_CONTEXT_LOST = ''context_lost''"
| "exit_value EX_RISK_EXIT = ''risk_exit''"
| "exit_value EX_KILL_SWITCH = ''kill_switch''"
| "exit_value EX_MANUAL = ''manual''"

definition all_exit_reasons :: "exit_reason list" where
  "all_exit_reasons = [EX_TAKE_PROFIT, EX_STOP_LOSS, EX_TRAILING_STOP, EX_BREAK_EVEN, EX_TIME_EXIT,
     EX_VOLATILITY_EXIT, EX_REGIME_CHANGE, EX_CONTEXT_LOST, EX_RISK_EXIT, EX_KILL_SWITCH, EX_MANUAL]"

definition parse_exit :: "string \<Rightarrow> py_error + exit_reason" where
  "parse_exit s = (case find (\<lambda>r. exit_value r = s) all_exit_reasons of
     None \<Rightarrow> Inl ValueError | Some r \<Rightarrow> Inr r)"

lemma parse_side_value [simp]: "parse_side (side_value x) = Inr x"
  by (cases x) (simp_all add: parse_side_def)

lemma parse_exit_value [simp]: "parse_exit (exit_value x) = Inr x"
  by (cases x) (simp_all add: parse_exit_def all_exit_reasons_def)

section \<open>Ticker\<close>

record ticker =
  tk_symbol :: string
  tk_bid :: real
  tk_ask :: real

definition tk_mid :: "'a ticker_scheme \<Rightarrow> real" where
  "tk_mid t = (tk_bid t + tk_ask t) / 2"

definition tk_spread :: "'a ticker_scheme \<Rightarrow> real" where
  "tk_spread t = tk_ask t - tk_bid t"

definition tk_spread_bps :: "'a ticker_scheme \<Rightarrow> real" where
  "tk_spread_bps t = (if tk_mid t \<noteq> 0 then tk_spread t / tk_mid t * 10000 else 0)"

text \<open>A quote the brokers accept.\<close>

definition tk_valid :: "ticker \<Rightarrow> bool" where
  "tk_valid t \<longleftrightarrow> 0 < tk_bid t \<and> 0 < tk_ask t \<and> tk_bid t \<le> tk_ask t"

lemma tk_valid_alt: "tk_valid t \<longleftrightarrow> \<not> (tk_bid t \<le> 0 \<or> tk_ask t \<le> 0 \<or> tk_ask t < tk_bid t)"
  by (auto simp: tk_valid_def)

lemma tk_spread_bps_nonneg: "tk_valid t \<Longrightarrow> 0 \<le> tk_spread_bps t"
  by (auto simp: tk_valid_def tk_spread_bps_def tk_spread_def tk_mid_def)

section \<open>Orders and fills\<close>

record order_request =
  rq_request_id :: string
  rq_symbol :: string
  rq_side :: order_side
  rq_quantity :: real
  rq_order_type :: order_type
  rq_time_in_force :: time_in_force
  rq_limit_price :: "real option"
  rq_stop_price :: "real option"
  rq_stop_loss :: "real option"
  rq_take_profit :: "real option"
  rq_reduce_only :: bool
  rq_decision_id :: "string option"
  rq_reason :: msg
  rq_created_at :: time
  rq_metadata :: json_dict

text \<open>The defaulted fields of the constructor.\<close>

definition mk_request :: "string \<Rightarrow> string \<Rightarrow> order_side \<Rightarrow> real \<Rightarrow> time \<Rightarrow> order_request" where
  "mk_request rid symb sd qty now = \<lparr> rq_request_id = rid, rq_symbol = symb, rq_side = sd,
     rq_quantity = qty, rq_order_type = OT_MARKET, rq_time_in_force = GTC, rq_limit_price = None,
     rq_stop_price = None, rq_stop_loss = None, rq_take_profit = None, rq_reduce_only = False,
     rq_decision_id = None, rq_reason = Lit [], rq_created_at = now, rq_metadata = [] \<rparr>"

record fill =
  f_fill_id :: string
  f_request_id :: string
  f_symbol :: string
  f_side :: order_side
  f_quantity :: real
  f_requested_quantity :: real
  f_reference_price :: real
  f_price :: real
  f_slippage_bps :: real
  f_spread_bps :: real
  f_commission :: real
  f_latency_ms :: real
  f_maker :: bool
  f_gapped :: bool
  f_executed_at :: time
  f_broker_ref :: "string option"

definition f_notional :: "fill \<Rightarrow> real" where
  "f_notional f = f_quantity f * f_price f"

definition f_is_partial :: "fill \<Rightarrow> bool" where
  "f_is_partial f \<longleftrightarrow> f_quantity f + 1 / 10 ^ 12 < f_requested_quantity f"

record order =
  o_order_id :: string
  o_request :: order_request
  o_status :: order_status
  o_filled_quantity :: real
  o_average_price :: real
  o_reject_reason :: reject_reason
  o_fills :: "fill list"
  o_created_at :: time
  o_updated_at :: time

definition o_is_terminal :: "order \<Rightarrow> bool" where
  "o_is_terminal od \<longleftrightarrow> o_status od \<in> {OS_FILLED, OS_REJECTED, OS_CANCELLED, OS_EXPIRED}"

definition o_remaining :: "order \<Rightarrow> real" where
  "o_remaining od = max 0 (rq_quantity (o_request od) - o_filled_quantity od)"

definition o_apply_fill :: "order \<Rightarrow> fill \<Rightarrow> order" where
  "o_apply_fill od f =
     (let prev_notional = o_average_price od * o_filled_quantity od;
          filled = o_filled_quantity od + f_quantity f;
          avg = (if filled > 0 then (prev_notional + f_price f * f_quantity f) / filled
                 else o_average_price od);
          od1 = od\<lparr> o_fills := o_fills od @ [f], o_filled_quantity := filled,
                    o_average_price := avg \<rparr>
      in od1\<lparr> o_status := (if o_remaining od1 \<le> 1 / 10 ^ 12 then OS_FILLED
                            else OS_PARTIALLY_FILLED),
              o_updated_at := f_executed_at f \<rparr>)"

definition o_reject :: "reject_reason \<Rightarrow> time \<Rightarrow> order \<Rightarrow> order" where
  "o_reject r now od =
     od\<lparr> o_status := OS_REJECTED, o_reject_reason := r, o_updated_at := now \<rparr>"

text \<open>The outcome of asking a broker to execute (\<open>models/execution.py\<close>).\<close>

record broker_execution =
  be_fill :: "fill option"
  be_reject_reason :: reject_reason

definition be_accepted :: "broker_execution \<Rightarrow> bool" where
  "be_accepted e \<longleftrightarrow> be_fill e \<noteq> None"

section \<open>Instruments\<close>

record broker_position =
  bp_ticket :: int
  bp_symbol :: string
  bp_is_long :: bool
  bp_volume :: real
  bp_price_open :: real
  bp_stop_loss :: "real option"
  bp_take_profit :: "real option"
  bp_opened_at :: "time option"

record instrument_spec =
  in_symbol :: string
  in_contract_size :: real
  in_volume_min :: real
  in_volume_step :: real
  in_volume_max :: real

definition in_units :: "instrument_spec \<Rightarrow> real \<Rightarrow> real" where
  "in_units s lots = lots * in_contract_size s"

definition in_notional :: "instrument_spec \<Rightarrow> real \<Rightarrow> real \<Rightarrow> real" where
  "in_notional s lots price = in_units s lots * price"

definition in_quantize :: "instrument_spec \<Rightarrow> real \<Rightarrow> real" where
  "in_quantize s lots =
     (if lots \<le> 0 then 0 else
      let capped = (if in_volume_max s > 0 then min lots (in_volume_max s) else lots) in
      if in_volume_step s \<le> 0 then py_round 8 capped
      else py_round 8 (of_int (py_int (capped / in_volume_step s)) * in_volume_step s))"

definition in_fits :: "instrument_spec \<Rightarrow> real \<Rightarrow> bool" where
  "in_fits s lots \<longleftrightarrow> lots \<ge> in_volume_min s - 1 / 10 ^ 12"

definition DEFAULT_SPEC :: instrument_spec where
  "DEFAULT_SPEC = \<lparr> in_symbol = [], in_contract_size = 1, in_volume_min = 0, in_volume_step = 0,
     in_volume_max = 0 \<rparr>"

section \<open>Positions\<close>

record position =
  p_position_id :: string
  p_symbol :: string
  p_side :: position_side
  p_quantity :: real
  p_initial_quantity :: real
  p_entry_price :: real
  p_initial_stop :: "real option"
  p_stop_loss :: "real option"
  p_take_profit :: "real option"
  p_opened_at :: time
  p_closed_at :: "time option"
  p_status :: position_status
  p_realized_pnl :: real
  p_commission_paid :: real
  p_break_even_active :: bool
  p_trailing_active :: bool
  p_mark_price :: real
  p_highest_price :: real
  p_lowest_price :: real
  p_exit_reason :: "exit_reason option"
  p_decision_id :: "string option"
  p_regime :: string
  p_score :: real
  p_confidence :: real
  p_entry_reasons :: "msg list"
  p_exit_reasons :: "msg list"
  p_metadata :: json_dict

text \<open>\<open>__post_init__\<close>: a zero price field means "not given".\<close>

definition post_init :: "position \<Rightarrow> position" where
  "post_init p =
     (let p1 = (if p_mark_price p = 0 then p\<lparr> p_mark_price := p_entry_price p \<rparr> else p);
          p2 = (if p_highest_price p1 = 0 then p1\<lparr> p_highest_price := p_entry_price p1 \<rparr> else p1);
          p3 = (if p_lowest_price p2 = 0 then p2\<lparr> p_lowest_price := p_entry_price p2 \<rparr> else p2)
      in if p_stop_loss p3 \<noteq> None \<and> p_initial_stop p3 = None
         then p3\<lparr> p_initial_stop := p_stop_loss p3 \<rparr> else p3)"

definition is_long :: "position \<Rightarrow> bool" where
  "is_long p \<longleftrightarrow> p_side p = LONG"

definition direction_sign :: "position \<Rightarrow> real" where
  "direction_sign p = (if is_long p then 1 else -1)"

definition p_notional :: "position \<Rightarrow> real" where
  "p_notional p = p_quantity p * p_mark_price p"

definition cost_basis :: "position \<Rightarrow> real" where
  "cost_basis p = p_quantity p * p_entry_price p"

definition risk_per_unit :: "position \<Rightarrow> real" where
  "risk_per_unit p = (case p_initial_stop p of None \<Rightarrow> 0 | Some s \<Rightarrow> \<bar>p_entry_price p - s\<bar>)"

definition initial_risk :: "position \<Rightarrow> real" where
  "initial_risk p = risk_per_unit p * p_initial_quantity p"

text \<open>\<open>mark=None\<close> reads the stored mark price.\<close>

definition unrealized_pnl :: "position \<Rightarrow> real option \<Rightarrow> real" where
  "unrealized_pnl p mark =
     ((case mark of None \<Rightarrow> p_mark_price p | Some m \<Rightarrow> m) - p_entry_price p)
       * p_quantity p * direction_sign p"

definition r_multiple :: "position \<Rightarrow> real option \<Rightarrow> real" where
  "r_multiple p mark =
     (if risk_per_unit p \<le> 0 then 0
      else ((case mark of None \<Rightarrow> p_mark_price p | Some m \<Rightarrow> m) - p_entry_price p)
             * direction_sign p / risk_per_unit p)"

definition p_update_mark :: "real \<Rightarrow> position \<Rightarrow> position" where
  "p_update_mark mark p =
     p\<lparr> p_mark_price := mark, p_highest_price := max (p_highest_price p) mark,
        p_lowest_price := min (p_lowest_price p) mark \<rparr>"

definition holding_seconds :: "time \<Rightarrow> position \<Rightarrow> real" where
  "holding_seconds now p =
     total_seconds ((case p_closed_at p of None \<Rightarrow> now | Some t \<Rightarrow> t) - p_opened_at p)"

lemma direction_sign_cases: "direction_sign p = 1 \<or> direction_sign p = -1"
  by (simp add: direction_sign_def)

lemma risk_per_unit_nonneg [simp]: "0 \<le> risk_per_unit p"
  by (simp add: risk_per_unit_def split: option.splits)

text \<open>The mark lies between the running extremes once it has been updated.\<close>

definition extremes_ok :: "position \<Rightarrow> bool" where
  "extremes_ok p \<longleftrightarrow> p_lowest_price p \<le> p_mark_price p \<and> p_mark_price p \<le> p_highest_price p
     \<and> p_lowest_price p \<le> p_entry_price p \<and> p_entry_price p \<le> p_highest_price p"

lemma extremes_update_mark [simp]: "extremes_ok p \<Longrightarrow> extremes_ok (p_update_mark m p)"
  by (auto simp: extremes_ok_def p_update_mark_def)

text \<open>An R-multiple is the floating result per unit of initial risk.\<close>

lemma r_multiple_pnl:
  "risk_per_unit p > 0 \<Longrightarrow>
   r_multiple p mark * risk_per_unit p * p_quantity p = unrealized_pnl p mark"
  by (simp add: r_multiple_def unrealized_pnl_def)

section \<open>Portfolio snapshot\<close>

record portfolio_snapshot =
  sn_timestamp :: time
  sn_initial_balance :: real
  sn_balance :: real
  sn_equity :: real
  sn_floating_pnl :: real
  sn_realized_pnl :: real
  sn_used_capital :: real
  sn_free_capital :: real
  sn_exposure :: real
  sn_exposure_pct :: real
  sn_peak_equity :: real
  sn_drawdown_pct :: real
  sn_open_positions :: nat
  sn_total_trades :: nat
  sn_base_currency :: string

definition return_pct :: "portfolio_snapshot \<Rightarrow> real" where
  "return_pct s = (if sn_initial_balance s \<le> 0 then 0
     else (sn_equity s - sn_initial_balance s) / sn_initial_balance s * 100)"

section \<open>Closed trades\<close>

record trade_record =
  t_trade_id :: string
  t_position_id :: string
  t_symbol :: string
  t_side :: position_side
  t_quantity :: real
  t_entry_time :: time
  t_exit_time :: time
  t_entry_price :: real
  t_exit_price :: real
  t_stop_loss :: "real option"
  t_take_profit :: "real option"
  t_commission :: real
  t_slippage_bps :: real
  t_spread_bps :: real
  t_pnl :: real
  t_pnl_gross :: real
  t_r_multiple :: real
  t_return_pct :: real
  t_atr :: "real option"
  t_volatility :: string
  t_regime :: string
  t_score :: real
  t_confidence :: real
  t_exit_reason :: exit_reason
  t_entry_reasons :: "json list"
  t_exit_reasons :: "json list"
  t_decision_id :: json
  t_context_snapshot :: json_dict
  t_recorded_at :: time

definition duration_seconds :: "trade_record \<Rightarrow> real" where
  "duration_seconds t = total_seconds (t_exit_time t - t_entry_time t)"

definition is_win :: "trade_record \<Rightarrow> bool" where
  "is_win t \<longleftrightarrow> t_pnl t > 0"

end
