(* ===== verification/Costs.thy ===== *)
theory Costs
  imports Settings Exec_Models
begin

text \<open>
  The three cost engines of the paper venue: \<open>CommissionEngine\<close>, \<open>SlippageEngine\<close> and
  \<open>LatencyEngine\<close>.  The random jitter comes from an explicit \<open>rng\<close>; every draw returns the rest
  of the stream.
\<close>

section \<open>Commission\<close>

record commission_quote =
  cq_amount :: real
  cq_model :: string
  cq_maker :: bool

definition symbol_override :: "commission_settings \<Rightarrow> string \<Rightarrow> (string, real) pydict" where
  "symbol_override s symb = pd_get_or (cs_per_symbol s) (upper symb) []"

definition rate_bps :: "commission_settings \<Rightarrow> string \<Rightarrow> bool \<Rightarrow> real" where
  "rate_bps s symb maker =
     (let key = (if maker then ''maker_bps'' else ''taker_bps'') in
      case pd_get (symbol_override s symb) key of
        Some v \<Rightarrow> v
      | None \<Rightarrow> (if maker then cs_maker_bps s else cs_taker_bps s))"

definition commission_param :: "commission_settings \<Rightarrow> string \<Rightarrow> string \<Rightarrow> real \<Rightarrow> real" where
  "commission_param s symb name dflt = pd_get_or (symbol_override s symb) name dflt"

definition commission_calculate ::
    "commission_settings \<Rightarrow> string \<Rightarrow> real \<Rightarrow> real \<Rightarrow> bool \<Rightarrow> commission_quote" where
  "commission_calculate s symb qty0 price maker =
     (let qty = \<bar>qty0\<bar>;
          notional = qty * price;
          model = cs_model s;
          amount =
            (if model = ''per_notional'' then notional * rate_bps s symb maker / 10000
             else if model = ''per_unit'' then qty * commission_param s symb ''per_unit'' (cs_per_unit s)
             else if model = ''fixed'' then commission_param s symb ''fixed'' (cs_fixed s)
             else if model = ''tiered'' then notional * rate_bps s symb maker / 10000
             else notional * rate_bps s symb maker / 10000);
          minimum = commission_param s symb ''minimum'' (cs_minimum s);
          charged = (if qty > 0 then max amount minimum else 0)
      in \<lparr> cq_amount = py_round 8 charged, cq_model = model, cq_maker = maker \<rparr>)"

lemma commission_zero_quantity [simp]: "cq_amount (commission_calculate s symb 0 price maker) = 0"
  by (simp add: commission_calculate_def Let_def)

lemma commission_at_least_minimum:
  assumes "qty \<noteq> 0"
  shows "py_round 8 (commission_param s symb ''minimum'' (cs_minimum s))
    \<le> cq_amount (commission_calculate s symb qty price maker)"
  using assms by (simp add: commission_calculate_def Let_def py_round_mono)

text \<open>No commission is negative when the minimum is not.\<close>

lemma commission_nonneg:
  assumes "0 \<le> commission_param s symb ''minimum'' (cs_minimum s)"
  shows "0 \<le> cq_amount (commission_calculate s symb qty price maker)"
proof (cases "qty = 0")
  case False
  show ?thesis
    using py_round_nonneg [OF assms, of 8]
      commission_at_least_minimum [OF False, of s symb price maker] by linarith
qed simp

lemma commission_symmetric:
  "commission_calculate s symb (- qty) price maker = commission_calculate s symb qty price maker"
  by (simp add: commission_calculate_def Let_def)

section \<open>Slippage\<close>

record slippage_context =
  sc_atr_pct :: "real option"
  sc_spread_bps :: "real option"
  sc_available_liquidity :: real
  sc_order_quantity :: real
  sc_session :: string
  sc_order_type :: order_type

definition depth_ratio :: "slippage_context \<Rightarrow> real" where
  "depth_ratio c = min (sc_order_quantity c / sc_available_liquidity c) 5"

definition liquidity_penalty :: "slippage_settings \<Rightarrow> slippage_context \<Rightarrow> real" where
  "liquidity_penalty s c =
     (if sc_available_liquidity c \<le> 0 \<or> sc_order_quantity c \<le> 0 then 0
      else sl_liquidity_coeff s * depth_ratio c * 10)"

definition size_penalty :: "slippage_settings \<Rightarrow> slippage_context \<Rightarrow> real" where
  "size_penalty s c =
     (if sc_order_quantity c \<le> 0 \<or> sc_available_liquidity c \<le> 0 then 0
      else sl_size_coeff s * depth_ratio c * 10)"

definition session_multiplier :: "slippage_settings \<Rightarrow> string \<Rightarrow> real" where
  "session_multiplier s session =
     pd_get_or (sl_session_multipliers s) session (pd_get_or (sl_session_multipliers s) ''off'' 1)"

definition dynamic_bps :: "slippage_settings \<Rightarrow> slippage_context \<Rightarrow> real" where
  "dynamic_bps s c =
     (let b0 = sl_base_bps s;
          b1 = (case sc_atr_pct c of None \<Rightarrow> b0 | Some a \<Rightarrow> b0 + sl_volatility_coeff s * a);
          b2 = b1 + liquidity_penalty s c;
          b3 = b2 + size_penalty s c;
          b4 = (if sc_order_type c \<in> {OT_STOP_MARKET, OT_STOP_LIMIT}
                then b3 + sl_stop_order_extra_bps s else b3)
      in b4 * session_multiplier s (sc_session c))"

definition estimate_bps :: "slippage_settings \<Rightarrow> slippage_context \<Rightarrow> rng \<Rightarrow> real \<times> rng" where
  "estimate_bps s c r =
     (if sl_model s = ''none'' then (0, r) else
      let bps = (if sl_model s = ''dynamic'' then dynamic_bps s c else sl_base_bps s);
          (u, r') = rng_uniform 0 (1/10) r
      in (py_round 4 (min (max (bps * (1 + u)) 0) (sl_max_bps s)), r'))"

text \<open>
  The estimate is never negative and never above the rounded cap, whatever the coefficients: it
  never improves the price.
\<close>

lemma estimate_bps_range:
  assumes "0 \<le> sl_max_bps s" "estimate_bps s c r = (b, r')"
  shows "0 \<le> b" "b \<le> py_round 4 (sl_max_bps s)"
  using assms
  by (auto simp: estimate_bps_def rng_uniform_def Let_def
      intro!: py_round_nonneg py_round_mono split: if_splits)

lemma estimate_bps_rng:
  assumes "unit_rng r" "estimate_bps s c r = (b, r')" shows "unit_rng r'"
  using assms by (auto simp: estimate_bps_def rng_uniform_def Let_def split: if_splits)

text \<open>A larger relative size never lowers the penalties.\<close>

lemma penalties_mono:
  assumes "0 \<le> sl_liquidity_coeff s" "0 \<le> sl_size_coeff s" "0 < sc_available_liquidity c"
    and "0 < q" "q \<le> q'"
  shows "liquidity_penalty s (c\<lparr>sc_order_quantity := q\<rparr>)
      \<le> liquidity_penalty s (c\<lparr>sc_order_quantity := q'\<rparr>)"
    and "size_penalty s (c\<lparr>sc_order_quantity := q\<rparr>) \<le> size_penalty s (c\<lparr>sc_order_quantity := q'\<rparr>)"
proof -
  have "depth_ratio (c\<lparr>sc_order_quantity := q\<rparr>) \<le> depth_ratio (c\<lparr>sc_order_quantity := q'\<rparr>)"
    using assms by (auto simp: depth_ratio_def min_def divide_right_mono field_simps)
  then show "liquidity_penalty s (c\<lparr>sc_order_quantity := q\<rparr>)
      \<le> liquidity_penalty s (c\<lparr>sc_order_quantity := q'\<rparr>)"
    and "size_penalty s (c\<lparr>sc_order_quantity := q\<rparr>) \<le> size_penalty s (c\<lparr>sc_order_quantity := q'\<rparr>)"
    using assms by (simp_all add: liquidity_penalty_def size_penalty_def mult_left_mono)
qed

section \<open>Latency\<close>

record latency_quote =
  lq_total_ms :: real
  lq_network_ms :: real
  lq_broker_ms :: real
  lq_exchange_ms :: real
  lq_internal_ms :: real
  lq_drift_bps :: real

definition latency_sample :: "latency_settings \<Rightarrow> rng \<Rightarrow> latency_quote \<times> rng" where
  "latency_sample s r =
     (if \<not> lt_enabled s then
        (\<lparr> lq_total_ms = 0, lq_network_ms = 0, lq_broker_ms = 0, lq_exchange_ms = 0,
           lq_internal_ms = 0, lq_drift_bps = 0 \<rparr>, r)
      else
        let jitter = lt_jitter_ms s;
            (u1, r1) = rng_uniform 0 jitter r;
            (u2, r2) = rng_uniform 0 jitter r1;
            (u3, r3) = rng_uniform 0 jitter r2;
            (u4, r4) = rng_uniform 0 jitter r3;
            network = lt_network_ms s + u1;
            broker = lt_broker_ms s + u2;
            exchange = lt_exchange_ms s + u3;
            internal = lt_internal_ms s + u4;
            total = network + broker + exchange + internal;
            drift = total / 100 * lt_price_drift_bps_per_100ms s
        in (\<lparr> lq_total_ms = py_round 3 total, lq_network_ms = py_round 3 network,
              lq_broker_ms = py_round 3 broker, lq_exchange_ms = py_round 3 exchange,
              lq_internal_ms = py_round 3 internal, lq_drift_bps = py_round 4 drift \<rparr>, r4))"

text \<open>Latencies and drift coefficients that are not negative.\<close>

definition wf_latency :: "latency_settings \<Rightarrow> bool" where
  "wf_latency s \<longleftrightarrow> 0 \<le> lt_network_ms s \<and> 0 \<le> lt_broker_ms s \<and> 0 \<le> lt_exchange_ms s
     \<and> 0 \<le> lt_internal_ms s \<and> 0 \<le> lt_jitter_ms s \<and> 0 \<le> lt_price_drift_bps_per_100ms s"

lemma latency_sample_rng:
  assumes "unit_rng r" "latency_sample s r = (q, r')" shows "unit_rng r'"
  using assms by (auto simp: latency_sample_def rng_uniform_def Let_def split: if_splits)

lemma latency_drift_nonneg:
  assumes "wf_latency s" "unit_rng r" "latency_sample s r = (q, r')"
  shows "0 \<le> lq_drift_bps q" "0 \<le> lq_total_ms q"
proof -
  have u: "0 \<le> shd r" "0 \<le> shd (stl r)" "0 \<le> shd (stl (stl r))" "0 \<le> shd (stl (stl (stl r)))"
    using assms(2) unit_rng_shd unit_rng_stl by blast+
  have j: "0 \<le> lt_jitter_ms s" using assms(1) by (simp add: wf_latency_def)
  have n: "0 \<le> lt_jitter_ms s * shd r" "0 \<le> lt_jitter_ms s * shd (stl r)"
    "0 \<le> lt_jitter_ms s * shd (stl (stl r))" "0 \<le> lt_jitter_ms s * shd (stl (stl (stl r)))"
    using u j by simp_all
  show "0 \<le> lq_drift_bps q" "0 \<le> lq_total_ms q"
    using assms n
    by (auto simp: latency_sample_def rng_uniform_def Let_def wf_latency_def
        intro!: py_round_nonneg mult_nonneg_nonneg split: if_splits)
qed

end
