(* ===== verification/Paper_Broker.thy ===== *)
theory Paper_Broker
  imports Costs
begin

text \<open>
  The contract of \<open>ExecutionBroker\<close> (\<open>core/interfaces/broker.py\<close>) as a locale, and the simulated venue
  \<open>PaperBroker\<close> that implements it.  The venue owns its random source, and its slippage and latency
  engines own theirs.  The id of a new fill and the instant of the execution are arguments.
\<close>

section \<open>The contract\<close>

type_synonym 'b execute_op =
  "string \<Rightarrow> time \<Rightarrow> order_request \<Rightarrow> ticker \<Rightarrow> slippage_context option \<Rightarrow> bool \<Rightarrow> bool \<Rightarrow> 'b
     \<Rightarrow> broker_execution \<times> 'b"

text \<open>What a fill must say about the request it answers.\<close>

definition fill_answers :: "order_request \<Rightarrow> fill \<Rightarrow> bool" where
  "fill_answers rq f \<longleftrightarrow> f_request_id f = rq_request_id rq \<and> f_symbol f = rq_symbol rq
     \<and> f_side f = rq_side rq \<and> f_requested_quantity f = rq_quantity rq
     \<and> 0 \<le> f_quantity f \<and> f_quantity f \<le> rq_quantity rq + 1 / (2 * 10 ^ 8)"

locale execution_broker =
  fixes execute :: "'b execute_op" and inv :: "'b \<Rightarrow> bool"
  assumes inv_execute: "inv b \<Longrightarrow> inv (snd (execute fid now rq tk ctx allow_reject allow_partial b))"
    and fill_ok: "inv b \<Longrightarrow> be_fill (fst (execute fid now rq tk ctx allow_reject allow_partial b)) = Some f
      \<Longrightarrow> fill_answers rq f"
    and fill_whole: "be_fill (fst (execute fid now rq tk ctx allow_reject False b)) = Some f
      \<Longrightarrow> f_quantity f = rq_quantity rq"
    and exit_filled: "0 < rq_quantity rq \<Longrightarrow> tk_valid tk \<Longrightarrow> rq_order_type rq = OT_MARKET
      \<Longrightarrow> be_fill (fst (execute fid now rq tk ctx False allow_partial b)) \<noteq> None"
    and reject_reason: "be_fill (fst (execute fid now rq tk ctx allow_reject allow_partial b)) = None
      \<Longrightarrow> be_reject_reason (fst (execute fid now rq tk ctx allow_reject allow_partial b)) \<noteq> RR_NONE"
begin

text \<open>A close: a market order with neither rejection nor partial execution.\<close>

lemma exit_executes_whole:
  assumes "0 < rq_quantity rq" "tk_valid tk" "rq_order_type rq = OT_MARKET" "inv b"
  shows "\<exists>f. be_fill (fst (execute fid now rq tk ctx False False b)) = Some f \<and> fill_answers rq f
    \<and> f_quantity f = rq_quantity rq"
  using exit_filled [OF assms(1-3), of fid now ctx False b] fill_ok [OF assms(4)] fill_whole by blast

text \<open>Over a sequence of orders the invariant of the venue holds and every fill answers its order.\<close>

fun execute_all :: "(string \<times> time \<times> order_request \<times> ticker) list \<Rightarrow> 'b \<Rightarrow> fill option list" where
  "execute_all [] b = []"
| "execute_all ((fid, now, rq, tk) # os) b =
     (let (e, b') = execute fid now rq tk None True True b in be_fill e # execute_all os b')"

lemma execute_all_answers:
  assumes "inv b"
  shows "list_all2 (\<lambda>(fid, now, rq, tk) e. \<forall>f. e = Some f \<longrightarrow> fill_answers rq f) os (execute_all os b)"
  using assms
proof (induction os b rule: execute_all.induct)
  case (2 fid now rq tk os b)
  obtain e b' where ex: "execute fid now rq tk None True True b = (e, b')" by fastforce
  have "inv b'" using inv_execute [OF 2(2), of fid now rq tk None True True] ex by simp
  moreover have "\<forall>f. be_fill e = Some f \<longrightarrow> fill_answers rq f"
    using fill_ok [OF 2(2), of fid now rq tk None True True] ex by simp
  ultimately show ?case using 2(1) ex by simp
qed simp

end

section \<open>The simulated venue\<close>

record paper_broker =
  pb_settings :: execution_settings
  pb_commission :: commission_settings
  pb_slippage :: slippage_settings
  pb_slippage_rng :: rng
  pb_latency :: latency_settings
  pb_latency_rng :: rng
  pb_rng :: rng
  pb_executed :: nat
  pb_rejected :: nat

definition pb_reject :: "reject_reason \<Rightarrow> paper_broker \<Rightarrow> broker_execution \<times> paper_broker" where
  "pb_reject r b = (\<lparr> be_fill = None, be_reject_reason = r \<rparr>, b\<lparr> pb_rejected := pb_rejected b + 1 \<rparr>)"

definition reference_price :: "order_request \<Rightarrow> ticker \<Rightarrow> real option" where
  "reference_price rq tk =
     (let buy = (rq_side rq = BUY); touch = (if buy then tk_ask tk else tk_bid tk) in
      if rq_order_type rq = OT_MARKET then Some touch
      else if rq_order_type rq = OT_LIMIT \<and> rq_limit_price rq \<noteq> None then
        (let l = the (rq_limit_price rq) in
         if (if buy then touch \<le> l else touch \<ge> l) then Some l else None)
      else if rq_order_type rq \<in> {OT_STOP_MARKET, OT_STOP_LIMIT} then
        (case rq_stop_price rq of None \<Rightarrow> None
         | Some stop \<Rightarrow> if (if buy then touch \<ge> stop else touch \<le> stop) then Some touch else None)
      else Some touch)"

definition apply_adverse :: "real \<Rightarrow> order_side \<Rightarrow> real \<Rightarrow> real" where
  "apply_adverse reference side adverse_bps =
     (let factor = adverse_bps / 10000 in
      if side = BUY then reference * (1 + factor) else reference * (1 - factor))"

definition fill_quantity :: "execution_settings \<Rightarrow> real \<Rightarrow> rng \<Rightarrow> real \<times> rng" where
  "fill_quantity s qty r =
     (let (d, r1) = rng_random r in
      if d < xs_partial_fill_probability s
      then (let (fraction, r2) = rng_uniform (1/2) (9/10) r1 in (py_round 8 (qty * fraction), r2))
      else (qty, r1))"

definition default_slip_context :: "order_request \<Rightarrow> ticker \<Rightarrow> slippage_context" where
  "default_slip_context rq tk = \<lparr> sc_atr_pct = None, sc_spread_bps = Some (tk_spread_bps tk),
     sc_available_liquidity = 0, sc_order_quantity = rq_quantity rq, sc_session = ''off'',
     sc_order_type = OT_MARKET \<rparr>"

definition pb_fill :: "string \<Rightarrow> time \<Rightarrow> order_request \<Rightarrow> ticker \<Rightarrow> slippage_context option \<Rightarrow> bool \<Rightarrow> real
    \<Rightarrow> paper_broker \<Rightarrow> broker_execution \<times> paper_broker" where
  "pb_fill fid now rq tk ctx allow_partial reference b =
     (let slip_ctx = (case ctx of Some c \<Rightarrow> c | None \<Rightarrow> default_slip_context rq tk);
          (slippage, srng) = estimate_bps (pb_slippage b) slip_ctx (pb_slippage_rng b);
          (latency, lrng) = latency_sample (pb_latency b) (pb_latency_rng b);
          adverse = slippage + lq_drift_bps latency;
          price = apply_adverse reference (rq_side rq) adverse;
          gapped = (adverse \<ge> xs_gap_threshold_bps (pb_settings b));
          (quantity, r) = (if allow_partial then fill_quantity (pb_settings b) (rq_quantity rq) (pb_rng b)
                           else (rq_quantity rq, pb_rng b));
          maker = (rq_order_type rq = OT_LIMIT);
          commission = cq_amount (commission_calculate (pb_commission b) (rq_symbol rq) quantity price maker);
          f = \<lparr> f_fill_id = fid, f_request_id = rq_request_id rq, f_symbol = rq_symbol rq,
                f_side = rq_side rq, f_quantity = quantity, f_requested_quantity = rq_quantity rq,
                f_reference_price = reference, f_price = py_round 8 price, f_slippage_bps = slippage,
                f_spread_bps = tk_spread_bps tk, f_commission = commission,
                f_latency_ms = lq_total_ms latency, f_maker = maker, f_gapped = gapped,
                f_executed_at = now, f_broker_ref = None \<rparr>
      in (\<lparr> be_fill = Some f, be_reject_reason = RR_NONE \<rparr>,
          b\<lparr> pb_slippage_rng := srng, pb_latency_rng := lrng, pb_rng := r,
             pb_executed := pb_executed b + 1 \<rparr>))"

definition pb_execute :: "paper_broker execute_op" where
  "pb_execute fid now rq tk ctx allow_reject allow_partial b =
     (if rq_quantity rq \<le> 0 then pb_reject RR_INVALID_QUANTITY b
      else if tk_bid tk \<le> 0 \<or> tk_ask tk \<le> 0 \<or> tk_ask tk < tk_bid tk then pb_reject RR_NO_MARKET_DATA b
      else
        let (d, b1) = (if allow_reject
              then (let (u, r) = rng_random (pb_rng b) in (u < xs_reject_probability (pb_settings b), b\<lparr> pb_rng := r \<rparr>))
              else (False, b)) in
        if d then pb_reject RR_SIMULATED_REJECT b1
        else (case reference_price rq tk of
                None \<Rightarrow> pb_reject RR_NO_MARKET_DATA b1
              | Some reference \<Rightarrow> pb_fill fid now rq tk ctx allow_partial reference b1))"

definition pb_healthcheck :: "paper_broker \<Rightarrow> bool" where
  "pb_healthcheck b = True"

section \<open>The venue meets the contract\<close>

text \<open>Settings that only penalise, and random sources with values in \<open>[0, 1)\<close>.\<close>

definition pb_wf :: "paper_broker \<Rightarrow> bool" where
  "pb_wf b \<longleftrightarrow> 0 \<le> sl_max_bps (pb_slippage b) \<and> wf_latency (pb_latency b)
     \<and> unit_rng (pb_rng b) \<and> unit_rng (pb_slippage_rng b) \<and> unit_rng (pb_latency_rng b)"

lemma be_simps [simp]:
  "be_fill (fst (pb_reject r b)) = None" "be_reject_reason (fst (pb_reject r b)) = r"
  "pb_wf (snd (pb_reject r b)) = pb_wf b"
  by (simp_all add: pb_reject_def pb_wf_def)

lemma pb_wf_stl [simp]: "pb_wf b \<Longrightarrow> pb_wf (b\<lparr> pb_rng := stl (pb_rng b) \<rparr>)"
  by (simp add: pb_wf_def)

text \<open>The ways a call ends.\<close>

definition after_draw :: "bool \<Rightarrow> paper_broker \<Rightarrow> paper_broker" where
  "after_draw ar b = (if ar then b\<lparr> pb_rng := stl (pb_rng b) \<rparr> else b)"

lemma after_draw_fields [simp]:
  "pb_wf b \<Longrightarrow> pb_wf (after_draw ar b)" "after_draw False b = b"
  "pb_executed (after_draw ar b) = pb_executed b" "pb_rejected (after_draw ar b) = pb_rejected b"
  "pb_settings (after_draw ar b) = pb_settings b"
  by (simp_all add: after_draw_def)

lemma pb_execute_alt:
  "pb_execute fid now rq tk ctx ar ap b =
     (if rq_quantity rq \<le> 0 then pb_reject RR_INVALID_QUANTITY b
      else if \<not> tk_valid tk then pb_reject RR_NO_MARKET_DATA b
      else if ar \<and> shd (pb_rng b) < xs_reject_probability (pb_settings b)
      then pb_reject RR_SIMULATED_REJECT (after_draw ar b)
      else case reference_price rq tk of
             None \<Rightarrow> pb_reject RR_NO_MARKET_DATA (after_draw ar b)
           | Some reference \<Rightarrow> pb_fill fid now rq tk ctx ap reference (after_draw ar b))"
  by (cases ar; cases "reference_price rq tk")
    (simp_all add: pb_execute_def tk_valid_alt rng_random_def after_draw_def)

lemma pb_execute_cases [case_names rejected filled]:
  obtains (rejected) b1 r where "pb_execute fid now rq tk ctx ar ap b = pb_reject r b1" "r \<noteq> RR_NONE"
      "b1 = b \<or> b1 = after_draw ar b"
    | (filled) reference where
        "pb_execute fid now rq tk ctx ar ap b = pb_fill fid now rq tk ctx ap reference (after_draw ar b)"
      "reference_price rq tk = Some reference" "0 < rq_quantity rq" "tk_valid tk"
proof -
  consider "rq_quantity rq \<le> 0" | "0 < rq_quantity rq" "\<not> tk_valid tk"
    | "0 < rq_quantity rq" "tk_valid tk" "ar \<and> shd (pb_rng b) < xs_reject_probability (pb_settings b)"
    | "0 < rq_quantity rq" "tk_valid tk" "\<not> (ar \<and> shd (pb_rng b) < xs_reject_probability (pb_settings b))"
      "reference_price rq tk = None"
    | reference where "0 < rq_quantity rq" "tk_valid tk"
      "\<not> (ar \<and> shd (pb_rng b) < xs_reject_probability (pb_settings b))" "reference_price rq tk = Some reference"
    by fastforce
  then show thesis
  proof cases
    case 1
    show ?thesis by (rule rejected [of RR_INVALID_QUANTITY b]) (simp_all add: pb_execute_alt 1)
  next
    case 2
    then show ?thesis by (intro rejected [of RR_NO_MARKET_DATA b]) (simp_all add: pb_execute_alt)
  next
    case 3
    then show ?thesis
      by (intro rejected [of RR_SIMULATED_REJECT "after_draw ar b"]) (simp_all add: pb_execute_alt)
  next
    case 4
    show ?thesis
      by (rule rejected [of RR_NO_MARKET_DATA "after_draw ar b"]) (use 4 in \<open>auto simp: pb_execute_alt\<close>)
  next
    case (5 reference)
    show ?thesis by (rule filled [of reference]) (use 5 in \<open>auto simp: pb_execute_alt\<close>)
  qed
qed

lemma fill_quantity_bounds:
  assumes "unit_rng r" "0 < qty" "fill_quantity s qty r = (q, r')"
  shows "0 \<le> q \<and> q \<le> qty + 1 / (2 * 10 ^ 8) \<and> unit_rng r'"
proof (cases "shd r < xs_partial_fill_probability s")
  case False
  then show ?thesis using assms by (auto simp: fill_quantity_def rng_random_def)
next
  case True
  obtain u r2 where u: "rng_uniform (1/2) (9/10) (stl r) = (u, r2)" by fastforce
  have range: "1/2 \<le> u" "u \<le> 9/10" "unit_rng r2"
    using rng_uniform_range [OF unit_rng_stl [OF assms(1)] _ u] by simp_all
  have "qty * u \<le> qty" using range(2) assms(2) by (simp add: mult_left_le)
  then have "py_round 8 (qty * u) \<le> qty + 1 / (2 * 10 ^ 8)" using py_round_upper [of 8 "qty * u"] by linarith
  moreover have "0 \<le> py_round 8 (qty * u)" using range(1) assms(2) by (intro py_round_nonneg) simp
  moreover have "q = py_round 8 (qty * u)" "r' = r2"
    using assms(3) True u by (auto simp: fill_quantity_def rng_random_def)
  ultimately show ?thesis using range(3) by simp
qed

text \<open>Every fill the venue writes, with the draws behind it.\<close>

lemma pb_fill_shape:
  fixes fid now rq tk ctx ap reference b
  defines "res \<equiv> pb_fill fid now rq tk ctx ap reference b"
  assumes "pb_wf b" "0 < rq_quantity rq"
  obtains f adverse where "be_fill (fst res) = Some f" "fill_answers rq f" "0 \<le> adverse"
    "f_price f = py_round 8 (apply_adverse reference (rq_side rq) adverse)"
    "f_reference_price f = reference" "f_executed_at f = now"
    "\<not> ap \<Longrightarrow> f_quantity f = rq_quantity rq"
    "pb_wf (snd res)" "pb_executed (snd res) = pb_executed b + 1" "pb_rejected (snd res) = pb_rejected b"
proof -
  define sc where "sc = (case ctx of Some c \<Rightarrow> c | None \<Rightarrow> default_slip_context rq tk)"
  obtain sl sr where s: "estimate_bps (pb_slippage b) sc (pb_slippage_rng b) = (sl, sr)" by fastforce
  obtain lt lr where l: "latency_sample (pb_latency b) (pb_latency_rng b) = (lt, lr)" by fastforce
  obtain q r where q: "(if ap then fill_quantity (pb_settings b) (rq_quantity rq) (pb_rng b)
      else (rq_quantity rq, pb_rng b)) = (q, r)" by fastforce
  note wf = assms(2) [unfolded pb_wf_def]
  have "0 \<le> sl" "unit_rng sr" using wf estimate_bps_range(1) [OF _ s] estimate_bps_rng [OF _ s] by auto
  moreover have "0 \<le> lq_drift_bps lt" "unit_rng lr"
    using wf latency_drift_nonneg(1) [OF _ _ l] latency_sample_rng [OF _ l] by auto
  moreover have "0 \<le> q \<and> q \<le> rq_quantity rq + 1 / (2 * 10 ^ 8) \<and> unit_rng r"
    using wf assms(3) q fill_quantity_bounds [of "pb_rng b" "rq_quantity rq" "pb_settings b" q r]
    by (auto split: if_splits)
  moreover have "\<not> ap \<Longrightarrow> q = rq_quantity rq" using q by simp
  moreover note assms(1) [unfolded pb_fill_def Let_def sc_def [symmetric] s l q, simplified]
  ultimately show ?thesis
    using wf by (intro that [of _ "sl + lq_drift_bps lt"]) (auto simp: fill_answers_def pb_wf_def)
qed

interpretation paper: execution_broker pb_execute pb_wf
proof
  fix b :: paper_broker and fid now and rq :: order_request and tk :: ticker and ctx :: "slippage_context option" and ar ap f
  assume wf: "pb_wf b"
  note wf1 = after_draw_fields(1) [OF wf, of ar]
  show "pb_wf (snd (pb_execute fid now rq tk ctx ar ap b))"
  proof (cases rule: pb_execute_cases [where fid = fid and now = now and rq = rq and tk = tk and ctx = ctx and ar = ar and ap = ap and b = b])
    case (rejected b1 r)
    then show ?thesis using wf wf1 by auto
  next
    case (filled reference)
    show ?thesis unfolding filled(1)
      by (rule pb_fill_shape [OF wf1 filled(3), of fid now tk ctx ap reference]) auto
  qed
  assume f: "be_fill (fst (pb_execute fid now rq tk ctx ar ap b)) = Some f"
  show "fill_answers rq f"
  proof (cases rule: pb_execute_cases [where fid = fid and now = now and rq = rq and tk = tk and ctx = ctx and ar = ar and ap = ap and b = b])
    case (rejected b1 r)
    then show ?thesis using f by simp
  next
    case (filled reference)
    show ?thesis
      by (rule pb_fill_shape [OF wf1 filled(3), of fid now tk ctx ap reference]) (use f filled(1) in auto)
  qed
next
  fix b :: paper_broker and fid now and rq :: order_request and tk :: ticker and ctx :: "slippage_context option" and ar f
  assume "be_fill (fst (pb_execute fid now rq tk ctx ar False b)) = Some f"
  then show "f_quantity f = rq_quantity rq"
    by (cases rule: pb_execute_cases [where fid = fid and now = now and rq = rq and tk = tk and ctx = ctx and ar = ar and ap = False and b = b])
      (auto simp: pb_fill_def Let_def split: prod.splits)
next
  fix b :: paper_broker and fid now and rq :: order_request and tk :: ticker and ctx :: "slippage_context option" and ap
  assume "0 < rq_quantity rq" "tk_valid tk" "rq_order_type rq = OT_MARKET"
  then show "be_fill (fst (pb_execute fid now rq tk ctx False ap b)) \<noteq> None"
    by (simp add: pb_execute_alt reference_price_def pb_fill_def Let_def split: prod.splits)
next
  fix b :: paper_broker and fid now and rq :: order_request and tk :: ticker and ctx :: "slippage_context option" and ar ap
  assume "be_fill (fst (pb_execute fid now rq tk ctx ar ap b)) = None"
  then show "be_reject_reason (fst (pb_execute fid now rq tk ctx ar ap b)) \<noteq> RR_NONE"
    by (cases rule: pb_execute_cases [where fid = fid and now = now and rq = rq and tk = tk and ctx = ctx and ar = ar and ap = ap and b = b])
      (auto simp: pb_fill_def Let_def split: prod.splits)
qed

section \<open>Properties\<close>

lemma apply_adverse_buy: "0 \<le> adverse \<Longrightarrow> 0 \<le> ref \<Longrightarrow> ref \<le> apply_adverse ref BUY adverse"
  by (simp add: apply_adverse_def Let_def algebra_simps)

lemma apply_adverse_sell: "0 \<le> adverse \<Longrightarrow> 0 \<le> ref \<Longrightarrow> apply_adverse ref SELL adverse \<le> ref"
  by (simp add: apply_adverse_def Let_def algebra_simps)

lemma reference_market: "rq_order_type rq = OT_MARKET \<Longrightarrow>
   reference_price rq tk = Some (if rq_side rq = BUY then tk_ask tk else tk_bid tk)"
  by (simp add: reference_price_def Let_def)

text \<open>
  No simulated fill improves on its reference price: a buy pays at least the reference and
  a sale receives at most the reference, both up to the rounding to eight decimals; for a market order
  the reference is the opposite side of the quote.
\<close>

theorem paper_never_improves:
  assumes "pb_wf b" "be_fill (fst (pb_execute fid now rq tk ctx ar ap b)) = Some f"
    and "0 \<le> f_reference_price f"
  shows "(rq_side rq = BUY \<longrightarrow> py_round 8 (f_reference_price f) \<le> f_price f)
    \<and> (rq_side rq = SELL \<longrightarrow> f_price f \<le> py_round 8 (f_reference_price f))
    \<and> (rq_order_type rq = OT_MARKET \<longrightarrow>
         f_reference_price f = (if rq_side rq = BUY then tk_ask tk else tk_bid tk))"
proof (cases rule: pb_execute_cases [where fid = fid and now = now and rq = rq and tk = tk and ctx = ctx and ar = ar and ap = ap and b = b])
  case (rejected b1 r)
  then show ?thesis using assms(2) by simp
next
  case (filled reference)
  show ?thesis
  proof (rule pb_fill_shape [OF after_draw_fields(1) [OF assms(1)] filled(3), of fid now tk ctx ap reference])
    fix g adverse
    assume g: "be_fill (fst (pb_fill fid now rq tk ctx ap reference (after_draw ar b))) = Some g"
      "0 \<le> adverse" "f_price g = py_round 8 (apply_adverse reference (rq_side rq) adverse)"
      "f_reference_price g = reference"
    then have eq: "f = g" using assms(2) filled(1) by simp
    have "rq_side rq = BUY \<longrightarrow> py_round 8 reference \<le> f_price f"
      using g assms(3) by (auto simp: eq intro: py_round_mono apply_adverse_buy)
    moreover have "rq_side rq = SELL \<longrightarrow> f_price f \<le> py_round 8 reference"
      using g assms(3) by (auto simp: eq intro: py_round_mono apply_adverse_sell)
    ultimately show ?thesis using g(4) filled(2) by (auto simp: eq reference_market)
  qed
qed

definition example_broker :: paper_broker where
  "example_broker = \<lparr> pb_settings = default_execution, pb_commission = default_commission,
     pb_slippage = default_slippage, pb_slippage_rng = sconst (1/2), pb_latency = default_latency,
     pb_latency_rng = sconst (1/2), pb_rng = sconst (1/2), pb_executed = 0, pb_rejected = 0 \<rparr>"

lemma example_broker_wf [simp]: "pb_wf example_broker"
  by (simp add: pb_wf_def example_broker_def default_slippage_def default_latency_def wf_latency_def)

definition example_ticker :: ticker where
  "example_ticker = \<lparr> tk_symbol = ''BTCUSDT'', tk_bid = 99, tk_ask = 100 \<rparr>"

definition example_buy :: order_request where
  "example_buy = mk_request ''r1'' ''BTCUSDT'' BUY 4 0"

lemma example_filled: "\<exists>f. be_fill (fst (pb_execute fid now example_buy example_ticker None False False example_broker)) = Some f
    \<and> fill_answers example_buy f \<and> f_quantity f = rq_quantity example_buy"
  by (rule paper.exit_executes_whole) (simp_all add: example_buy_def mk_request_def example_ticker_def tk_valid_def)

theorem paper_never_improves_witness:
  "\<exists>f. be_fill (fst (pb_execute ''f1'' 0 example_buy example_ticker None False False example_broker)) = Some f
     \<and> 100 \<le> f_price f"
proof -
  obtain f where f: "be_fill (fst (pb_execute ''f1'' 0 example_buy example_ticker None False False example_broker)) = Some f"
    using example_filled by blast
  have reference: "f_reference_price f = 100"
    using f by (auto simp: pb_execute_alt reference_price_def pb_fill_def Let_def example_buy_def mk_request_def
        example_ticker_def split: if_splits prod.splits)
  have "on_grid 8 100" using on_grid_of_int_div [of 8 10000000000] by simp
  then show ?thesis
    using paper_never_improves [OF example_broker_wf f] f reference
    by (simp add: example_buy_def mk_request_def)
qed

text \<open>
  A close is never stuck at the simulated venue: a market order of positive size on a valid
  quote, sent without rejection and without partial execution, is always filled, for the requested
  symbol, side and whole quantity, and exactly one of the two counters moves by one.
\<close>

theorem paper_exit_filled_whole:
  assumes "pb_wf b" "0 < rq_quantity rq" "tk_valid tk" "rq_order_type rq = OT_MARKET"
  shows "(\<exists>f. be_fill (fst (pb_execute fid now rq tk ctx False False b)) = Some f \<and> fill_answers rq f
      \<and> f_quantity f = rq_quantity rq)
    \<and> pb_executed (snd (pb_execute fid now rq tk ctx False False b)) = pb_executed b + 1
    \<and> pb_rejected (snd (pb_execute fid now rq tk ctx False False b)) = pb_rejected b"
  using paper.exit_executes_whole [OF assms(2-4,1), of fid now ctx] assms
  by (simp add: pb_execute_alt reference_market pb_fill_def Let_def split: prod.splits)

theorem paper_exit_filled_whole_witness:
  "pb_executed (snd (pb_execute ''f1'' 0 example_buy example_ticker None False False example_broker)) = 1"
  using paper_exit_filled_whole [OF example_broker_wf, of example_buy example_ticker "''f1''" 0 None]
  by (simp add: example_buy_def mk_request_def example_ticker_def tk_valid_def example_broker_def)

text \<open>
  A marketable buy limit order pays the adverse move on top of its own limit: with a fixed slippage of
  10 basis points a limit of 100 is filled above 100.
\<close>

lemma limit_filled_beyond_limit:
  "let b = example_broker\<lparr> pb_slippage := default_slippage\<lparr> sl_model := ''fixed'', sl_base_bps := 10, sl_max_bps := 50 \<rparr>,
             pb_slippage_rng := sconst 0, pb_latency := default_latency\<lparr> lt_enabled := False \<rparr> \<rparr>;
       rq = example_buy\<lparr> rq_order_type := OT_LIMIT, rq_limit_price := Some 100 \<rparr>
   in \<exists>f. be_fill (fst (pb_execute ''f1'' 0 rq example_ticker None False False b)) = Some f \<and> f_price f > 100"
proof -
  have "on_grid 4 10" "on_grid 8 (1001 / 10)"
    using on_grid_of_int_div [of 4 100000] on_grid_of_int_div [of 8 10010000000] by simp_all
  then show ?thesis
    by (simp add: pb_execute_alt example_buy_def mk_request_def example_ticker_def tk_valid_def reference_price_def
        pb_fill_def Let_def example_broker_def estimate_bps_def rng_uniform_def latency_sample_def
        apply_adverse_def default_slip_context_def)
qed

end
