(* ===== verification/Sizing.thy ===== *)
theory Sizing
  imports Settings Exec_Models
begin

text \<open>
  \<open>PositionSizer\<close>: the order quantity from equity, price and stop distance, in lots of the
  instrument.  The lemmas bound what the sizer may hand to the risk manager: the money at risk by
  the configured percentage of equity, the notional by the exposure cap, both up to the rounding of
  the lot to eight decimals.
\<close>

section \<open>The model\<close>

record sizing_result =
  sr_quantity :: real
  sr_method :: string
  sr_risk_amount :: real
  sr_stop_distance :: real
  sr_notional :: real
  sr_reason :: msg
  sr_units :: real

definition rejected_size :: "string \<Rightarrow> real \<Rightarrow> real \<Rightarrow> msg \<Rightarrow> sizing_result" where
  "rejected_size method risk stop reason =
     \<lparr> sr_quantity = 0, sr_method = method, sr_risk_amount = risk, sr_stop_distance = stop,
       sr_notional = 0, sr_reason = reason, sr_units = 0 \<rparr>"

definition risk_based :: "sizing_settings \<Rightarrow> real \<Rightarrow> real \<Rightarrow> real \<Rightarrow> real \<times> real \<times> msg" where
  "risk_based s equity stop confidence =
     (if stop \<le> 0 then (0, 0, Lit ''sin distancia de stop (riesgo indefinido)'') else
      let pct0 = sz_risk_per_trade_pct s;
          pct = (if confidence < 1 then pct0 * max (1/4) (min confidence 1) else pct0);
          risk_amount = equity * pct / 100
      in (risk_amount / stop, risk_amount,
          Fmt ''riesgo {pct:.3f}% del equity ({risk_amount:.2f})'' [ArgReal pct, ArgReal risk_amount]))"

definition kelly :: "sizing_settings \<Rightarrow> real \<Rightarrow> real \<Rightarrow> real option \<Rightarrow> real option
    \<Rightarrow> real \<times> real \<times> msg" where
  "kelly s equity stop win_rate reward_risk =
     (case (win_rate, reward_risk) of
        (Some w, Some rr) \<Rightarrow>
          if rr \<le> 0 \<or> stop \<le> 0 then
            (case risk_based s equity stop 1 of
               (q, a, _) \<Rightarrow> (q, a, Lit ''Kelly sin historial: riesgo fijo''))
          else
            let edge = w - (1 - w) / rr;
                fraction0 = max 0 edge * sz_kelly_fraction s;
                cap = sz_risk_per_trade_pct s / 100;
                fraction = min fraction0 cap;
                risk_amount = equity * fraction
            in (risk_amount / stop, risk_amount,
                Fmt ''Kelly parcial f={fraction:.4f} (W={win_rate:.2f}, RR={reward_risk:.2f})''
                  [ArgReal fraction, ArgReal w, ArgReal rr])
      | _ \<Rightarrow> (case risk_based s equity stop 1 of
               (q, a, _) \<Rightarrow> (q, a, Lit ''Kelly sin historial: riesgo fijo'')))"

definition apply_caps :: "sizing_settings \<Rightarrow> real \<Rightarrow> real \<Rightarrow> real \<Rightarrow> real" where
  "apply_caps s quantity equity price =
     (if quantity \<le> 0 then 0
      else min quantity (equity * sz_max_position_pct s / 100 / price))"

text \<open>The raw quantity of the configured method, its risk and its explanation.\<close>

definition raw_size :: "sizing_settings \<Rightarrow> real \<Rightarrow> real \<Rightarrow> real \<Rightarrow> real \<Rightarrow> real option \<Rightarrow> real option
    \<Rightarrow> real \<times> real \<times> msg" where
  "raw_size s equity price stop confidence win_rate reward_risk =
     (let method = sz_method s in
      if method = ''fixed_amount'' then
        let quantity = sz_fixed_amount s / price
        in (quantity, quantity * stop, Fmt ''monto fijo {notional:.2f}'' [ArgReal (sz_fixed_amount s)])
      else if method = ''percent'' then
        let quantity = (equity * sz_percent_of_equity s / 100) / price
        in (quantity, quantity * stop,
            Fmt ''{percent_of_equity:.2f}% del equity'' [ArgReal (sz_percent_of_equity s)])
      else if method = ''kelly'' then kelly s equity stop win_rate reward_risk
      else if method = ''dynamic_risk'' then risk_based s equity stop confidence
      else risk_based s equity stop 1)"

definition lots_of :: "instrument_spec \<Rightarrow> real \<Rightarrow> real" where
  "lots_of spec units =
     in_quantize spec (if in_contract_size spec > 0 then units / in_contract_size spec else units)"

definition size_calculate :: "sizing_settings \<Rightarrow> real \<Rightarrow> real \<Rightarrow> real \<Rightarrow> real \<Rightarrow> real option
    \<Rightarrow> real option \<Rightarrow> instrument_spec option \<Rightarrow> sizing_result" where
  "size_calculate s equity price stop confidence win_rate reward_risk spec0 =
     (let method = sz_method s;
          spec = (case spec0 of None \<Rightarrow> DEFAULT_SPEC | Some sp \<Rightarrow> sp) in
      if price \<le> 0 \<or> equity \<le> 0 then
        rejected_size method 0 stop (Lit ''equity/precio no validos'')
      else
        case raw_size s equity price stop confidence win_rate reward_risk of
          (quantity, risk_amount, reason) \<Rightarrow>
            let units = apply_caps s quantity equity price in
            if units < sz_min_quantity s then
              rejected_size method risk_amount stop (Lit ''bajo la cantidad minima'')
            else
              let lots = lots_of spec units in
              if \<not> in_fits spec lots then
                rejected_size method risk_amount stop
                  (Fmt ''el lote minimo ({volume_min}) no cabe en el riesgo: caben {lots:.4f} lotes de {symbol}''
                     [ArgReal (in_volume_min spec), ArgReal lots,
                      ArgStr (if in_symbol spec = [] then ''el simbolo'' else in_symbol spec)])
              else
                let final_units = in_units spec lots
                in \<lparr> sr_quantity = py_round 8 lots, sr_method = method,
                     sr_risk_amount = py_round 4 (final_units * stop), sr_stop_distance = stop,
                     sr_notional = py_round 4 (final_units * price), sr_reason = reason,
                     sr_units = py_round 8 final_units \<rparr>)"

section \<open>Quantization\<close>

lemma in_quantize_grid [simp]: "on_grid 8 (in_quantize s lots)"
  by (simp add: in_quantize_def Let_def)

lemma in_quantize_nonneg [simp]: "0 \<le> in_quantize s lots"
proof (cases "lots \<le> 0 \<or> in_volume_step s \<le> 0")
  case True
  then show ?thesis
    by (auto simp: in_quantize_def Let_def min_def intro!: py_round_nonneg)
next
  case False
  define capped where "capped = (if in_volume_max s > 0 then min lots (in_volume_max s) else lots)"
  have "0 < capped / in_volume_step s" using False by (auto simp: capped_def)
  then have "0 \<le> py_int (capped / in_volume_step s)" by (simp add: py_int_def)
  then show ?thesis
    using False by (auto simp: in_quantize_def Let_def capped_def [symmetric] intro!: py_round_nonneg)
qed

text \<open>
  With a lot step, the quantized volume before rounding is a whole number of steps below the
  request; rounding to eight decimals adds at most half a unit of the eighth decimal.
\<close>

lemma in_quantize_upper:
  assumes "0 \<le> lots"
  shows "in_quantize s lots \<le> lots + 1 / (2 * 10 ^ 8)"
proof (cases "lots \<le> 0")
  case True
  with assms show ?thesis by (simp add: in_quantize_def)
next
  case False
  define capped where "capped = (if in_volume_max s > 0 then min lots (in_volume_max s) else lots)"
  have c: "0 < capped" "capped \<le> lots" using False by (auto simp: capped_def)
  show ?thesis
  proof (cases "in_volume_step s \<le> 0")
    case True
    then have "in_quantize s lots = py_round 8 capped"
      using False by (simp add: in_quantize_def Let_def capped_def)
    with c py_round_upper [of 8 capped] show ?thesis by simp
  next
    case step: False
    let ?n = "real_of_int (py_int (capped / in_volume_step s))"
    have "0 \<le> capped / in_volume_step s" using c step by simp
    then have "?n \<le> capped / in_volume_step s" by (rule py_int_nonneg(1))
    then have "?n * in_volume_step s \<le> capped"
      using step by (simp add: pos_le_divide_eq)
    moreover have "in_quantize s lots = py_round 8 (?n * in_volume_step s)"
      using False step by (simp add: in_quantize_def Let_def capped_def)
    ultimately show ?thesis
      using c py_round_upper [of 8 "?n * in_volume_step s"] by simp
  qed
qed

text \<open>When the step is on the eight-decimal grid, quantization never rounds up.\<close>

lemma on_grid_int_mult:
  assumes "on_grid n x" shows "on_grid n (of_int k * x)"
proof -
  have "x * 10 ^ n = of_int \<lfloor>x * 10 ^ n\<rfloor>" using assms unfolding on_grid_def by (rule sym)
  then have "of_int k * x * 10 ^ n = of_int (k * \<lfloor>x * 10 ^ n\<rfloor>)"
    by (metis mult.assoc of_int_mult)
  then show ?thesis by (metis floor_of_int on_grid_def)
qed

lemma in_quantize_step_le:
  assumes "0 < in_volume_step s" "on_grid 8 (in_volume_step s)" "0 \<le> lots"
  shows "in_quantize s lots \<le> lots"
proof (cases "lots \<le> 0")
  case True
  with assms show ?thesis by (simp add: in_quantize_def)
next
  case False
  define capped where "capped = (if in_volume_max s > 0 then min lots (in_volume_max s) else lots)"
  have c: "0 < capped" "capped \<le> lots" using False by (auto simp: capped_def)
  let ?n = "py_int (capped / in_volume_step s)"
  have "0 \<le> capped / in_volume_step s" using c assms(1) by simp
  then have "of_int ?n \<le> capped / in_volume_step s" by (rule py_int_nonneg(1))
  then have "of_int ?n * in_volume_step s \<le> capped"
    using assms(1) by (simp add: pos_le_divide_eq)
  moreover have "in_quantize s lots = of_int ?n * in_volume_step s"
    using False assms(1) py_round_grid [OF on_grid_int_mult [OF assms(2)], of ?n]
    by (simp add: in_quantize_def Let_def capped_def)
  ultimately show ?thesis using c by simp
qed

section \<open>Bounds on the result\<close>

text \<open>The result is either a clean zero or an accepted size; there is nothing in between.\<close>

lemma size_shape:
  "sr_quantity (size_calculate s e p st c w r spec) = 0 \<and>
     sr_notional (size_calculate s e p st c w r spec) = 0 \<or>
   (0 < p \<and> 0 < e \<and>
    (\<exists>q a m u. raw_size s e p st c w r = (q, a, m) \<and> u = apply_caps s q e p \<and> sz_min_quantity s \<le> u \<and>
      (let sp = (case spec of None \<Rightarrow> DEFAULT_SPEC | Some x \<Rightarrow> x) in
       in_fits sp (lots_of sp u) \<and>
       sr_quantity (size_calculate s e p st c w r spec) = lots_of sp u \<and>
       sr_notional (size_calculate s e p st c w r spec)
         = py_round 4 (in_units sp (lots_of sp u) * p))))"
  by (auto simp: size_calculate_def rejected_size_def Let_def lots_of_def not_le not_less
      split: prod.splits option.splits)

lemma apply_caps_bounds:
  assumes "0 < e" "0 < p" "0 \<le> sz_max_position_pct s"
  shows "0 \<le> apply_caps s q e p" "apply_caps s q e p \<le> max 0 q"
    "apply_caps s q e p * p \<le> e * sz_max_position_pct s / 100"
proof -
  have cap: "0 \<le> e * sz_max_position_pct s / 100 / p" using assms by simp
  then show "0 \<le> apply_caps s q e p" "apply_caps s q e p \<le> max 0 q"
    by (auto simp: apply_caps_def)
  have "apply_caps s q e p \<le> e * sz_max_position_pct s / 100 / p"
    using cap by (auto simp: apply_caps_def)
  then show "apply_caps s q e p * p \<le> e * sz_max_position_pct s / 100"
    using assms by (simp add: pos_le_divide_eq)
qed

lemma lots_of_units:
  assumes "0 < in_contract_size sp" "0 \<le> u"
  shows "in_units sp (lots_of sp u) \<le> u + in_contract_size sp / (2 * 10 ^ 8)"
    and "0 \<le> in_units sp (lots_of sp u)"
proof -
  have "lots_of sp u \<le> u / in_contract_size sp + 1 / (2 * 10 ^ 8)"
    using assms in_quantize_upper [of "u / in_contract_size sp" sp] by (simp add: lots_of_def)
  then have "lots_of sp u * in_contract_size sp
      \<le> (u / in_contract_size sp + 1 / (2 * 10 ^ 8)) * in_contract_size sp"
    using assms by (intro mult_right_mono) auto
  also have "\<dots> = u + in_contract_size sp / (2 * 10 ^ 8)"
    using assms by (simp add: field_simps)
  finally show "in_units sp (lots_of sp u) \<le> u + in_contract_size sp / (2 * 10 ^ 8)"
    by (simp add: in_units_def)
  show "0 \<le> in_units sp (lots_of sp u)"
    using assms by (simp add: in_units_def lots_of_def)
qed

text \<open>
  The risk-based methods (fixed risk, ATR, dynamic risk, Kelly) ask for at most the configured
  percentage of equity until the stop.
\<close>

definition risk_method :: "sizing_settings \<Rightarrow> bool" where
  "risk_method s \<longleftrightarrow> sz_method s \<notin> {''fixed_amount'', ''percent''}"

lemma confidence_factor: "max (1/4) (min c 1) \<le> (1::real)" "0 \<le> max (1/4) (min c (1::real))"
  by auto

lemma risk_based_eq:
  "risk_based s e st c =
    (if st \<le> 0 then (0, 0, Lit ''sin distancia de stop (riesgo indefinido)'')
     else let pct = sz_risk_per_trade_pct s * (if c < 1 then max (1/4) (min c 1) else 1)
          in (e * pct / 100 / st, e * pct / 100,
              Fmt ''riesgo {pct:.3f}% del equity ({risk_amount:.2f})'' [ArgReal pct, ArgReal (e * pct / 100)]))"
  by (simp add: risk_based_def Let_def)

lemma risk_based_bounds:
  assumes "risk_based s e st c = (q, a, m)" "0 < e" "0 \<le> sz_risk_per_trade_pct s"
  shows "0 \<le> q" "q * max 0 st \<le> e * sz_risk_per_trade_pct s / 100"
proof -
  define pct where "pct = sz_risk_per_trade_pct s * (if c < 1 then max (1/4) (min c 1) else 1)"
  have pct: "0 \<le> pct" "pct \<le> sz_risk_per_trade_pct s"
    using assms(3) confidence_factor [of c] by (auto simp: pct_def intro: mult_left_le)
  have q: "q = (if st \<le> 0 then 0 else e * pct / 100 / st)"
    using assms(1) by (auto simp: risk_based_eq Let_def pct_def)
  show "0 \<le> q" using q pct assms(2) by simp
  have "e * pct \<le> e * sz_risk_per_trade_pct s"
    using assms(2) pct(2) by (intro mult_left_mono) auto
  then show "q * max 0 st \<le> e * sz_risk_per_trade_pct s / 100"
    using q assms(2,3) by (auto simp: max_def)
qed

lemma kelly_bounds:
  assumes "kelly s e st w r = (q, a, m)" "0 < e" "0 \<le> sz_risk_per_trade_pct s"
    and "0 \<le> sz_kelly_fraction s"
  shows "0 \<le> q \<and> q * max 0 st \<le> e * sz_risk_per_trade_pct s / 100"
proof -
  show ?thesis
  proof (cases "\<exists>w' r'. w = Some w' \<and> r = Some r' \<and> \<not> (r' \<le> 0 \<or> st \<le> 0)")
    case True
    then obtain w' r' where wr: "w = Some w'" "r = Some r'" "0 < r'" "0 < st" by auto
    define f where "f = min (max 0 (w' - (1 - w') / r') * sz_kelly_fraction s)
        (sz_risk_per_trade_pct s / 100)"
    have f: "0 \<le> f" using assms(3,4) by (simp add: f_def)
    have f2: "f \<le> sz_risk_per_trade_pct s / 100" unfolding f_def by (rule min.cobounded2)
    have q: "q = e * f / st"
      using assms(1) wr by (auto simp: kelly_def Let_def f_def [symmetric])
    have "e * f \<le> e * (sz_risk_per_trade_pct s / 100)"
      using assms(2) f2 by (intro mult_left_mono) simp_all
    then show ?thesis using q f assms(2) wr(4) by simp
  next
    case False
    then have "kelly s e st w r = (case risk_based s e st 1 of
        (q, a, _) \<Rightarrow> (q, a, Lit ''Kelly sin historial: riesgo fijo''))"
      by (auto simp: kelly_def split: option.splits)
    then obtain m' where "risk_based s e st 1 = (q, a, m')"
      using assms(1) by (cases "risk_based s e st 1") auto
    then show ?thesis using risk_based_bounds assms(2,3) by blast
  qed
qed

lemma raw_size_risk:
  assumes "risk_method s" "raw_size s e p st c w r = (q, a, m)" "0 < e"
    and "0 \<le> sz_risk_per_trade_pct s" "0 \<le> sz_kelly_fraction s"
  shows "0 \<le> q \<and> q * max 0 st \<le> e * sz_risk_per_trade_pct s / 100"
  using assms risk_based_bounds [OF _ assms(3,4)] kelly_bounds [OF _ assms(3,4,5)]
  by (auto simp: raw_size_def risk_method_def Let_def split: if_splits)

end
