(* ===== verification/Position_Manager.thy ===== *)
theory Position_Manager
  imports Exec_Models
begin

text \<open>
  \<open>PositionManager\<close> and the life of a position: opening from a fill, adoption of a live broker
  position, valuation, break-even and trailing, exit detection, closing.  The open positions are a
  dictionary from position id to position; a Python reference to an open position is its id, and
  mutating it is \<open>pm_store\<close>.
\<close>

section \<open>State\<close>

record pm_config =
  pc_break_even_r :: real
  pc_trailing_enabled :: bool
  pc_trailing_atr_multiple :: real
  pc_trailing_activate_r :: real

record position_manager =
  pm_open :: "(string, position) pydict"
  pm_closed :: "position list"

record stop_update =
  su_kind :: string
  su_previous :: "real option"
  su_current :: real

definition pm_init :: position_manager where
  "pm_init = \<lparr> pm_open = [], pm_closed = [] \<rparr>"

definition pm_store :: "position_manager \<Rightarrow> position \<Rightarrow> position_manager" where
  "pm_store st p = st\<lparr> pm_open := pd_put (pm_open st) (p_position_id p) p \<rparr>"

definition pm_restore :: "position_manager \<Rightarrow> position list \<Rightarrow> position_manager \<times> nat" where
  "pm_restore st ps = (fold (\<lambda>p s. pm_store s p) ps st, length ps)"

section \<open>Queries\<close>

definition open_positions :: "position_manager \<Rightarrow> position list" where
  "open_positions st = pd_values (pm_open st)"

definition pm_get :: "position_manager \<Rightarrow> string \<Rightarrow> position option" where
  "pm_get st pid = pd_get (pm_open st) pid"

definition positions_for :: "position_manager \<Rightarrow> string \<Rightarrow> position list" where
  "positions_for st symb = filter (\<lambda>p. p_symbol p = upper symb) (open_positions st)"

definition has_open :: "position_manager \<Rightarrow> string \<Rightarrow> bool" where
  "has_open st symb \<longleftrightarrow> positions_for st symb \<noteq> []"

definition total_exposure :: "position_manager \<Rightarrow> real" where
  "total_exposure st = (\<Sum>p\<leftarrow>open_positions st. p_notional p)"

definition symbol_exposure :: "position_manager \<Rightarrow> string \<Rightarrow> real" where
  "symbol_exposure st symb = (\<Sum>p\<leftarrow>positions_for st symb. p_notional p)"

definition open_risk :: "position_manager \<Rightarrow> real" where
  "open_risk st = (\<Sum>p\<leftarrow>open_positions st.
     (case p_stop_loss p of None \<Rightarrow> 0 | Some s \<Rightarrow> \<bar>p_mark_price p - s\<bar> * p_quantity p))"

section \<open>Opening\<close>

record open_info =
  oi_stop_loss :: "real option"
  oi_take_profit :: "real option"
  oi_decision_id :: "string option"
  oi_regime :: string
  oi_score :: real
  oi_confidence :: real
  oi_entry_reasons :: "msg list"
  oi_atr :: "real option"
  oi_volatility :: string

definition position_from_fill :: "string \<Rightarrow> fill \<Rightarrow> open_info \<Rightarrow> position" where
  "position_from_fill pid f i = post_init
     \<lparr> p_position_id = pid, p_symbol = f_symbol f,
       p_side = (if f_side f = BUY then LONG else SHORT),
       p_quantity = f_quantity f, p_initial_quantity = f_quantity f, p_entry_price = f_price f,
       p_initial_stop = oi_stop_loss i, p_stop_loss = oi_stop_loss i,
       p_take_profit = oi_take_profit i, p_opened_at = f_executed_at f, p_closed_at = None,
       p_status = PS_OPEN, p_realized_pnl = 0, p_commission_paid = f_commission f,
       p_break_even_active = False, p_trailing_active = False, p_mark_price = f_price f,
       p_highest_price = 0, p_lowest_price = 0, p_exit_reason = None,
       p_decision_id = oi_decision_id i, p_regime = oi_regime i, p_score = oi_score i,
       p_confidence = oi_confidence i, p_entry_reasons = oi_entry_reasons i, p_exit_reasons = [],
       p_metadata = [(''atr'', json_opt (oi_atr i)), (''volatility'', JStr (oi_volatility i)),
         (''entry_slippage_bps'', JNum (f_slippage_bps f)),
         (''broker_ref'', json_opt_str (f_broker_ref f))] \<rparr>"

definition pm_open_from_fill :: "position_manager \<Rightarrow> string \<Rightarrow> fill \<Rightarrow> open_info
    \<Rightarrow> position_manager \<times> position" where
  "pm_open_from_fill st pid f i =
     (let p = position_from_fill pid f i in (pm_store st p, p))"

text \<open>Adoption of a position that is already alive at the broker.\<close>

definition adopted_position :: "string \<Rightarrow> broker_position \<Rightarrow> string \<Rightarrow> time \<Rightarrow> position" where
  "adopted_position pid bp ref now = post_init
     \<lparr> p_position_id = pid, p_symbol = upper (bp_symbol bp),
       p_side = (if bp_is_long bp then LONG else SHORT),
       p_quantity = bp_volume bp, p_initial_quantity = bp_volume bp,
       p_entry_price = bp_price_open bp, p_initial_stop = bp_stop_loss bp,
       p_stop_loss = bp_stop_loss bp, p_take_profit = bp_take_profit bp,
       p_opened_at = (case bp_opened_at bp of None \<Rightarrow> now | Some t \<Rightarrow> t), p_closed_at = None,
       p_status = PS_OPEN, p_realized_pnl = 0, p_commission_paid = 0,
       p_break_even_active = False, p_trailing_active = False, p_mark_price = bp_price_open bp,
       p_highest_price = 0, p_lowest_price = 0, p_exit_reason = None, p_decision_id = None,
       p_regime = ''unknown'', p_score = 0, p_confidence = 0,
       p_entry_reasons = [Lit ''adoptada al arrancar (ya abierta en el broker)''],
       p_exit_reasons = [],
       p_metadata = [(''broker_ref'', JStr ref), (''adopted'', JBool True)] \<rparr>"

definition pm_adopt :: "position_manager \<Rightarrow> string \<Rightarrow> broker_position \<Rightarrow> string \<Rightarrow> time
    \<Rightarrow> position_manager \<times> position" where
  "pm_adopt st pid bp ref now = (let p = adopted_position pid bp ref now in (pm_store st p, p))"

section \<open>Dynamic management\<close>

definition apply_break_even :: "pm_config \<Rightarrow> position \<Rightarrow> position \<times> stop_update option" where
  "apply_break_even c p =
     (if pc_break_even_r c \<le> 0 \<or> p_break_even_active p then (p, None)
      else if risk_per_unit p \<le> 0 then (p, None)
      else if r_multiple p None < pc_break_even_r c then (p, None)
      else (p\<lparr> p_stop_loss := Some (p_entry_price p), p_break_even_active := True \<rparr>,
            Some \<lparr> su_kind = ''break_even'', su_previous = p_stop_loss p,
                   su_current = p_entry_price p \<rparr>))"

definition set_trailing :: "position \<Rightarrow> real \<Rightarrow> position \<times> stop_update option" where
  "set_trailing p candidate =
     (p\<lparr> p_stop_loss := Some (py_round 8 candidate), p_trailing_active := True \<rparr>,
      Some \<lparr> su_kind = ''trailing'', su_previous = p_stop_loss p,
             su_current = py_round 8 candidate \<rparr>)"

definition apply_trailing :: "pm_config \<Rightarrow> real option \<Rightarrow> position \<Rightarrow> position \<times> stop_update option" where
  "apply_trailing c atr p =
     (case atr of None \<Rightarrow> (p, None) | Some a \<Rightarrow>
       if \<not> pc_trailing_enabled c \<or> a \<le> 0 then (p, None)
       else if risk_per_unit p \<le> 0 then (p, None)
       else if r_multiple p None < pc_trailing_activate_r c then (p, None)
       else
         let distance = a * pc_trailing_atr_multiple c in
         if is_long p then
           let candidate = p_highest_price p - distance in
           (case p_stop_loss p of
              None \<Rightarrow> set_trailing p candidate
            | Some s \<Rightarrow> if candidate > s then set_trailing p candidate else (p, None))
         else
           let candidate = p_lowest_price p + distance in
           (case p_stop_loss p of
              None \<Rightarrow> set_trailing p candidate
            | Some s \<Rightarrow> if candidate < s then set_trailing p candidate else (p, None)))"

fun some_list :: "'a option \<Rightarrow> 'a list" where
  "some_list None = []"
| "some_list (Some x) = [x]"

definition manage :: "pm_config \<Rightarrow> real option \<Rightarrow> position \<Rightarrow> position \<times> stop_update list" where
  "manage c atr p =
     (case apply_break_even c p of (p1, u1) \<Rightarrow>
      case apply_trailing c atr p1 of (p2, u2) \<Rightarrow> (p2, some_list u1 @ some_list u2))"

definition stop_reason :: "position \<Rightarrow> exit_reason" where
  "stop_reason p = (if p_trailing_active p then EX_TRAILING_STOP
     else if p_break_even_active p then EX_BREAK_EVEN else EX_STOP_LOSS)"

definition check_exit :: "position \<Rightarrow> exit_reason option" where
  "check_exit p =
     (let mark = p_mark_price p in
      if is_long p then
        if (case p_stop_loss p of None \<Rightarrow> False | Some s \<Rightarrow> mark \<le> s) then Some (stop_reason p)
        else if (case p_take_profit p of None \<Rightarrow> False | Some t \<Rightarrow> mark \<ge> t) then Some EX_TAKE_PROFIT
        else None
      else
        if (case p_stop_loss p of None \<Rightarrow> False | Some s \<Rightarrow> mark \<ge> s) then Some (stop_reason p)
        else if (case p_take_profit p of None \<Rightarrow> False | Some t \<Rightarrow> mark \<le> t) then Some EX_TAKE_PROFIT
        else None)"

section \<open>Closing\<close>

definition closed_position :: "position \<Rightarrow> real \<Rightarrow> real \<Rightarrow> exit_reason \<Rightarrow> msg list \<Rightarrow> time \<Rightarrow> position" where
  "closed_position p exit_price close_commission reason reasons now =
     (let gross = (exit_price - p_entry_price p) * p_quantity p * direction_sign p;
          paid = p_commission_paid p + close_commission
      in (p_update_mark exit_price p)
           \<lparr> p_commission_paid := paid, p_realized_pnl := gross - paid, p_status := PS_CLOSED,
             p_closed_at := Some now, p_exit_reason := Some reason, p_exit_reasons := reasons \<rparr>)"

definition pm_close :: "position_manager \<Rightarrow> position \<Rightarrow> real \<Rightarrow> real \<Rightarrow> exit_reason \<Rightarrow> msg list \<Rightarrow> time
    \<Rightarrow> position_manager \<times> position \<times> real" where
  "pm_close st p exit_price close_commission reason reasons now =
     (let gross = (exit_price - p_entry_price p) * p_quantity p * direction_sign p;
          p' = closed_position p exit_price close_commission reason reasons now
      in (st\<lparr> pm_open := pd_pop (pm_open st) (p_position_id p), pm_closed := pm_closed st @ [p'] \<rparr>,
          p', gross))"

section \<open>Well-formed registries\<close>

definition pm_wf :: "position_manager \<Rightarrow> bool" where
  "pm_wf st \<longleftrightarrow> pd_wf (pm_open st)
     \<and> (\<forall>k p. pd_get (pm_open st) k = Some p \<longrightarrow> p_position_id p = k \<and> p_status p = PS_OPEN)
     \<and> (\<forall>p \<in> set (pm_closed st). p_status p = PS_CLOSED)"

lemma pm_wf_dict: "pm_wf st \<Longrightarrow> pd_wf (pm_open st)"
  by (simp add: pm_wf_def)

lemma pm_wf_init [simp]: "pm_wf pm_init"
  by (simp add: pm_wf_def pm_init_def)

lemma pm_wf_store: "pm_wf st \<Longrightarrow> p_status p = PS_OPEN \<Longrightarrow> pm_wf (pm_store st p)"
  by (auto simp: pm_wf_def pm_store_def)

lemma pm_wf_restore:
  assumes "pm_wf st" "\<And>p. p \<in> set ps \<Longrightarrow> p_status p = PS_OPEN"
  shows "pm_wf (fst (pm_restore st ps))"
  using assms unfolding pm_restore_def fst_conv
  by (induction ps arbitrary: st) (auto intro: pm_wf_store)

lemma post_init_core [simp]:
  "p_position_id (post_init p) = p_position_id p" "p_status (post_init p) = p_status p"
  "p_symbol (post_init p) = p_symbol p" "p_side (post_init p) = p_side p"
  "p_quantity (post_init p) = p_quantity p" "p_entry_price (post_init p) = p_entry_price p"
  "p_stop_loss (post_init p) = p_stop_loss p" "p_commission_paid (post_init p) = p_commission_paid p"
  "p_initial_quantity (post_init p) = p_initial_quantity p"
  "p_metadata (post_init p) = p_metadata p" "p_take_profit (post_init p) = p_take_profit p"
  "p_break_even_active (post_init p) = p_break_even_active p"
  "p_trailing_active (post_init p) = p_trailing_active p"
  "p_realized_pnl (post_init p) = p_realized_pnl p"
  "p_opened_at (post_init p) = p_opened_at p" "p_closed_at (post_init p) = p_closed_at p"
  by (simp_all add: post_init_def Let_def)

lemma position_from_fill_core [simp]:
  "p_position_id (position_from_fill pid f i) = pid"
  "p_status (position_from_fill pid f i) = PS_OPEN"
  "p_symbol (position_from_fill pid f i) = f_symbol f"
  "p_quantity (position_from_fill pid f i) = f_quantity f"
  "p_entry_price (position_from_fill pid f i) = f_price f"
  "p_commission_paid (position_from_fill pid f i) = f_commission f"
  "p_stop_loss (position_from_fill pid f i) = oi_stop_loss i"
  "p_side (position_from_fill pid f i) = (if f_side f = BUY then LONG else SHORT)"
  "p_realized_pnl (position_from_fill pid f i) = 0"
  by (simp_all add: position_from_fill_def)

lemma mark_from_fill [simp]: "p_mark_price (position_from_fill pid f i) = f_price f"
  by (simp add: position_from_fill_def post_init_def Let_def)

lemma adopted_core [simp]:
  "p_position_id (adopted_position pid bp ref now) = pid"
  "p_status (adopted_position pid bp ref now) = PS_OPEN"
  "p_quantity (adopted_position pid bp ref now) = bp_volume bp"
  "p_entry_price (adopted_position pid bp ref now) = bp_price_open bp"
  "p_metadata (adopted_position pid bp ref now) = [(''broker_ref'', JStr ref), (''adopted'', JBool True)]"
  by (simp_all add: adopted_position_def)

lemma extremes_from_fill: "extremes_ok (position_from_fill pid f i)"
  by (simp add: position_from_fill_def post_init_def Let_def extremes_ok_def)

lemma open_positions_get:
  "pm_wf st \<Longrightarrow> p \<in> set (open_positions st) \<Longrightarrow> pd_get (pm_open st) (p_position_id p) = Some p"
  unfolding open_positions_def pm_wf_def by (metis pd_value_get)

lemma open_positions_open:
  "pm_wf st \<Longrightarrow> p \<in> set (open_positions st) \<Longrightarrow> p_status p = PS_OPEN"
  using open_positions_get by (auto simp: pm_wf_def)

section \<open>Updates that keep the identity of a position\<close>

text \<open>
  The engine's management pass changes marks, stops and flags of open positions.  What it relies on
  is that such an update leaves alone everything that sizing, accounting and the registry depend
  on; the locale states it once for every update.
\<close>

definition core :: "position \<Rightarrow> string \<times> string \<times> position_side \<times> real \<times> real \<times> real \<times> real option
    \<times> position_status \<times> real" where
  "core p = (p_position_id p, p_symbol p, p_side p, p_quantity p, p_initial_quantity p,
     p_entry_price p, p_initial_stop p, p_status p, p_commission_paid p)"

locale position_update =
  fixes upd :: "position \<Rightarrow> position"
  assumes core_upd: "core (upd p) = core p"
begin

lemma fields:
  "p_position_id (upd p) = p_position_id p" "p_symbol (upd p) = p_symbol p"
  "p_side (upd p) = p_side p" "p_quantity (upd p) = p_quantity p"
  "p_entry_price (upd p) = p_entry_price p" "p_initial_stop (upd p) = p_initial_stop p"
  "p_status (upd p) = p_status p" "p_commission_paid (upd p) = p_commission_paid p"
  "p_initial_quantity (upd p) = p_initial_quantity p"
  using core_upd [of p] by (simp_all add: core_def)

lemma risk_kept: "risk_per_unit (upd p) = risk_per_unit p"
  and sign_kept: "direction_sign (upd p) = direction_sign p"
  and long_kept: "is_long (upd p) = is_long p"
  and basis_kept: "cost_basis (upd p) = cost_basis p"
  by (simp_all add: risk_per_unit_def direction_sign_def is_long_def cost_basis_def fields
      split: option.splits)

lemma pnl_kept: "unrealized_pnl (upd p) (Some m) = unrealized_pnl p (Some m)"
  by (simp add: unrealized_pnl_def fields sign_kept)

lemma store_wf:
  assumes "pm_wf st" "p \<in> set (open_positions st)"
  shows "pm_wf (pm_store st (upd p))"
  using pm_wf_store [OF assms(1)] open_positions_open [OF assms] by (simp add: fields)

lemma store_ids:
  assumes "pm_wf st" "p \<in> set (open_positions st)"
  shows "pd_keys (pm_open (pm_store st (upd p))) = pd_keys (pm_open st)"
  using open_positions_get [OF assms]
  by (simp add: pm_store_def fields pd_keys_put_old pd_get_Some_key)

lemma iterate_core: "core ((upd ^^ n) p) = core p"
  by (induction n) (simp_all add: core_upd)

end

lemma core_update_mark [simp]: "core (p_update_mark m p) = core p"
  by (simp add: core_def p_update_mark_def)

lemma core_break_even [simp]: "core (fst (apply_break_even c p)) = core p"
  by (simp add: core_def apply_break_even_def)

lemma core_set_trailing [simp]: "core (fst (set_trailing p x)) = core p"
  by (simp add: core_def set_trailing_def)

lemma core_trailing [simp]: "core (fst (apply_trailing c atr p)) = core p"
  by (simp add: apply_trailing_def Let_def split: option.splits)

lemma fst_manage: "fst (manage c atr p) = fst (apply_trailing c atr (fst (apply_break_even c p)))"
  by (simp add: manage_def split_beta)

lemma core_manage [simp]: "core (fst (manage c atr p)) = core p"
  by (simp add: fst_manage)

interpretation mark_update: position_update "p_update_mark m"
  by unfold_locales simp

interpretation break_even_update: position_update "\<lambda>p. fst (apply_break_even c p)"
  by unfold_locales simp

interpretation trailing_update: position_update "\<lambda>p. fst (apply_trailing c atr p)"
  by unfold_locales simp

interpretation manage_update: position_update "\<lambda>p. fst (manage c atr p)"
  by unfold_locales simp

section \<open>Stops\<close>

text \<open>\<open>tighter p s s'\<close>: the stop \<open>s'\<close> protects a position of the side of \<open>p\<close> at least as well as \<open>s\<close>.\<close>

definition tighter :: "position \<Rightarrow> real \<Rightarrow> real \<Rightarrow> bool" where
  "tighter p s s' \<longleftrightarrow> (if is_long p then s \<le> s' else s' \<le> s)"

definition opt_tighter :: "position \<Rightarrow> real option \<Rightarrow> real option \<Rightarrow> bool" where
  "opt_tighter p a b \<longleftrightarrow> (case a of None \<Rightarrow> True | Some s \<Rightarrow> (\<exists>s'. b = Some s' \<and> tighter p s s'))"

definition opt_grid :: "real option \<Rightarrow> bool" where
  "opt_grid a \<longleftrightarrow> (case a of None \<Rightarrow> True | Some s \<Rightarrow> on_grid 8 s)"

lemma opt_tighter_refl [simp]: "opt_tighter p a a"
  by (simp add: opt_tighter_def tighter_def split: option.splits)

lemma opt_tighter_trans: "opt_tighter p a b \<Longrightarrow> opt_tighter p b c \<Longrightarrow> opt_tighter p a c"
  by (auto simp: opt_tighter_def tighter_def split: option.splits if_splits)

lemma opt_tighter_core: "is_long p = is_long q \<Longrightarrow> opt_tighter p = opt_tighter q"
  by (simp add: opt_tighter_def tighter_def fun_eq_iff split: option.splits)

lemma set_trailing_long:
  assumes "on_grid 8 s" "s < x" shows "s \<le> py_round 8 x"
  using assms by (intro py_round_grid_lower) simp_all

lemma set_trailing_short:
  assumes "on_grid 8 s" "x < s" shows "py_round 8 x \<le> s"
  using assms by (intro py_round_grid_upper) simp_all

text \<open>
  Trailing only ever tightens a stop that lies on the eight-decimal grid, and its own stops do.
\<close>

lemma trailing_tightens:
  assumes "opt_grid (p_stop_loss p)"
  shows "opt_tighter p (p_stop_loss p) (p_stop_loss (fst (apply_trailing c atr p)))"
    and "opt_grid (p_stop_loss (fst (apply_trailing c atr p)))"
  using assms
  by (cases "is_long p"; force simp: apply_trailing_def set_trailing_def Let_def opt_tighter_def
      tighter_def opt_grid_def set_trailing_long set_trailing_short split: option.splits)+

text \<open>
  Break-even has not fired while the stop is still on the loss side of the entry.  With an
  activation threshold of the trailing not below the break-even threshold this is an invariant of
  management, and every step only tightens the stop.
\<close>

definition stop_inv :: "position \<Rightarrow> bool" where
  "stop_inv p \<longleftrightarrow> on_grid 8 (p_entry_price p) \<and> opt_grid (p_stop_loss p)
     \<and> (p_break_even_active p \<or> opt_tighter p (p_stop_loss p) (Some (p_entry_price p)))"

definition ordered_thresholds :: "pm_config \<Rightarrow> bool" where
  "ordered_thresholds c \<longleftrightarrow> 0 < pc_break_even_r c \<and> pc_break_even_r c \<le> pc_trailing_activate_r c"

lemma break_even_tightens:
  assumes "stop_inv p"
  shows "opt_tighter p (p_stop_loss p) (p_stop_loss (fst (apply_break_even c p)))"
    and "opt_grid (p_stop_loss (fst (apply_break_even c p)))"
  using assms by (auto simp: apply_break_even_def stop_inv_def opt_grid_def)

lemma break_even_fires:
  assumes "ordered_thresholds c" "0 < risk_per_unit p" "pc_trailing_activate_r c \<le> r_multiple p None"
  shows "p_break_even_active (fst (apply_break_even c p))"
  using assms by (auto simp: apply_break_even_def ordered_thresholds_def)

lemma break_even_shape:
  "fst (apply_break_even c p) = p \<or>
   fst (apply_break_even c p) = p\<lparr> p_stop_loss := Some (p_entry_price p), p_break_even_active := True \<rparr>"
  by (simp add: apply_break_even_def)

lemma r_multiple_break_even [simp]:
  "r_multiple (fst (apply_break_even c p)) m = r_multiple p m"
  "p_highest_price (fst (apply_break_even c p)) = p_highest_price p"
  "p_lowest_price (fst (apply_break_even c p)) = p_lowest_price p"
  "p_entry_price (fst (apply_break_even c p)) = p_entry_price p"
  "is_long (fst (apply_break_even c p)) = is_long p"
  "risk_per_unit (fst (apply_break_even c p)) = risk_per_unit p"
  using break_even_shape [of c p]
  by (elim disjE; simp only:; auto simp: r_multiple_def direction_sign_def is_long_def
      risk_per_unit_def split: option.splits)+

lemma trailing_no_change:
  assumes "\<not> (0 < risk_per_unit p \<and> pc_trailing_activate_r c \<le> r_multiple p None)"
  shows "fst (apply_trailing c atr p) = p"
  using assms risk_per_unit_nonneg [of p]
  by (auto simp: apply_trailing_def Let_def not_le split: option.splits)

lemma trailing_flags [simp]:
  "p_break_even_active (fst (apply_trailing c atr p)) = p_break_even_active p"
  "p_entry_price (fst (apply_trailing c atr p)) = p_entry_price p"
  "is_long (fst (apply_trailing c atr p)) = is_long p"
  by (simp_all add: apply_trailing_def set_trailing_def Let_def is_long_def split: option.splits)

lemma manage_step:
  assumes "stop_inv p" "ordered_thresholds c"
  shows "opt_tighter p (p_stop_loss p) (p_stop_loss (fst (manage c atr p)))"
    and "stop_inv (fst (manage c atr p))"
proof -
  let ?q = "fst (apply_break_even c p)"
  note be = break_even_tightens [OF assms(1), of c]
  note tr = trailing_tightens [OF be(2), of c atr]
  have "opt_tighter p (p_stop_loss ?q) (p_stop_loss (fst (apply_trailing c atr ?q)))"
    using tr(1) opt_tighter_core [of ?q p] by simp
  with be(1) show "opt_tighter p (p_stop_loss p) (p_stop_loss (fst (manage c atr p)))"
    unfolding fst_manage by (rule opt_tighter_trans)
  have inv: "p_break_even_active ?q \<or> opt_tighter p (p_stop_loss ?q) (Some (p_entry_price p))"
    using assms(1) by (auto simp: apply_break_even_def stop_inv_def)
  show "stop_inv (fst (manage c atr p))"
  proof (cases "0 < risk_per_unit p \<and> pc_trailing_activate_r c \<le> r_multiple p None")
    case True
    then have "p_break_even_active ?q" using break_even_fires [OF assms(2)] by simp
    then show ?thesis
      using assms(1) tr(2) by (simp add: fst_manage stop_inv_def)
  next
    case False
    then have "fst (apply_trailing c atr ?q) = ?q" by (intro trailing_no_change) simp
    then show ?thesis
      using assms(1) inv be(2) opt_tighter_core [of ?q p] by (simp add: fst_manage stop_inv_def)
  qed
qed

text \<open>A run of the management loop over observed marks and ATR values.\<close>

fun manage_run :: "pm_config \<Rightarrow> (real \<times> real option) list \<Rightarrow> position \<Rightarrow> position" where
  "manage_run c [] p = p"
| "manage_run c ((m, atr) # obs) p = manage_run c obs (fst (manage c atr (p_update_mark m p)))"

lemma update_mark_stop [simp]:
  "p_stop_loss (p_update_mark m p) = p_stop_loss p" "is_long (p_update_mark m p) = is_long p"
  "stop_inv (p_update_mark m p) = stop_inv p"
  by (simp_all add: p_update_mark_def is_long_def stop_inv_def opt_tighter_def tighter_def
      split: option.splits)

lemma manage_run_stop:
  assumes "stop_inv p" "ordered_thresholds c"
  shows "opt_tighter p (p_stop_loss p) (p_stop_loss (manage_run c obs p)) \<and> stop_inv (manage_run c obs p)"
  using assms(1)
proof (induction obs arbitrary: p)
  case Nil
  then show ?case by simp
next
  case (Cons o1 obs)
  obtain m atr where o1: "o1 = (m, atr)" by (cases o1)
  let ?q = "p_update_mark m p" and ?r = "fst (manage c atr (p_update_mark m p))"
  have q: "stop_inv ?q" using Cons.prems by simp
  note step = manage_step [OF q assms(2), of atr]
  have long: "is_long ?r = is_long p" by (simp add: fst_manage)
  have "opt_tighter p (p_stop_loss p) (p_stop_loss ?r)"
    using step(1) opt_tighter_core [of ?q p] by simp
  moreover have "opt_tighter p (p_stop_loss ?r) (p_stop_loss (manage_run c obs ?r))"
    using Cons.IH [OF step(2)] opt_tighter_core [OF long] by simp
  ultimately show ?case
    using Cons.IH [OF step(2)] opt_tighter_trans by (auto simp: o1)
qed


text \<open>A long at 100 with its stop at 90 and its target at 115, for the examples below.\<close>

definition example_long :: position where
  "example_long = post_init
     \<lparr> p_position_id = ''p1'', p_symbol = ''BTCUSDT'', p_side = LONG, p_quantity = 2,
       p_initial_quantity = 2, p_entry_price = 100, p_initial_stop = Some 90, p_stop_loss = Some 90,
       p_take_profit = Some 115, p_opened_at = 0, p_closed_at = None, p_status = PS_OPEN,
       p_realized_pnl = 0, p_commission_paid = 1, p_break_even_active = False,
       p_trailing_active = False, p_mark_price = 100, p_highest_price = 0, p_lowest_price = 0,
       p_exit_reason = None, p_decision_id = None, p_regime = ''trending'', p_score = 0,
       p_confidence = 1, p_entry_reasons = [], p_exit_reasons = [], p_metadata = [] \<rparr>"

lemmas example_long_unfold = example_long_def post_init_def Let_def

definition default_pm_config :: pm_config where
  "default_pm_config = \<lparr> pc_break_even_r = 1, pc_trailing_enabled = True,
     pc_trailing_atr_multiple = 2, pc_trailing_activate_r = 1 \<rparr>"


text \<open>
  With a trailing threshold below the break-even threshold the order of the two rules
  shows: the trailing stop of the long at 100 is 104, and when the position then reaches one R with
  a wider ATR, break-even moves the stop back from 104 to the entry price 100.
\<close>

theorem break_even_can_loosen:
  "(let c = \<lparr> pc_break_even_r = 1, pc_trailing_enabled = True, pc_trailing_atr_multiple = 2,
              pc_trailing_activate_r = 1/2 \<rparr>;
        p1 = manage_run c [(106, Some 1)] example_long;
        p2 = manage_run c [(106, Some 1), (110, Some 8)] example_long
    in p_stop_loss p1 = Some 104 \<and> p_stop_loss p2 = Some 100)"
  by (simp add: Let_def example_long_unfold fst_manage apply_break_even_def apply_trailing_def
      set_trailing_def p_update_mark_def r_multiple_def risk_per_unit_def direction_sign_def
      is_long_def py_round_grid on_grid_def)

section \<open>Exits\<close>

text \<open>
  An open position exits exactly when its mark, read in the direction of the position,
  is at or through the stop or at or through the target; the stop has priority, and a stop hit is
  reported as trailing, break-even or plain stop according to the flags.
\<close>

theorem check_exit_iff:
  "check_exit p =
     (if (\<exists>s. p_stop_loss p = Some s \<and> (p_mark_price p - s) * direction_sign p \<le> 0)
      then Some (stop_reason p)
      else if (\<exists>t. p_take_profit p = Some t \<and> 0 \<le> (p_mark_price p - t) * direction_sign p)
      then Some EX_TAKE_PROFIT else None)"
  by (auto simp: check_exit_def direction_sign_def Let_def split: option.splits)

section \<open>Closing\<close>

lemma update_mark_fields [simp]:
  "p_position_id (p_update_mark m p) = p_position_id p" "p_entry_price (p_update_mark m p) = p_entry_price p"
  "p_quantity (p_update_mark m p) = p_quantity p" "p_symbol (p_update_mark m p) = p_symbol p"
  "p_initial_stop (p_update_mark m p) = p_initial_stop p" "p_side (p_update_mark m p) = p_side p"
  "p_commission_paid (p_update_mark m p) = p_commission_paid p"
  "p_mark_price (p_update_mark m p) = m" "p_status (p_update_mark m p) = p_status p"
  "p_metadata (p_update_mark m p) = p_metadata p"
  by (simp_all add: p_update_mark_def)

lemma close_updates [simp]:
  "p_position_id (closed_position p x c r rs now) = p_position_id p"
  "p_status (closed_position p x c r rs now) = PS_CLOSED"
  "p_commission_paid (closed_position p x c r rs now) = p_commission_paid p + c"
  "p_entry_price (closed_position p x c r rs now) = p_entry_price p"
  "p_quantity (closed_position p x c r rs now) = p_quantity p"
  "p_initial_stop (closed_position p x c r rs now) = p_initial_stop p"
  "p_side (closed_position p x c r rs now) = p_side p"
  "p_exit_reason (closed_position p x c r rs now) = Some r"
  "p_closed_at (closed_position p x c r rs now) = Some now"
  "p_symbol (closed_position p x c r rs now) = p_symbol p"
  by (simp_all add: closed_position_def Let_def)

lemma close_realized:
  "p_realized_pnl (closed_position p x c r rs now)
     = unrealized_pnl p (Some x) - (p_commission_paid p + c)"
  by (simp add: closed_position_def Let_def unrealized_pnl_def)

lemma pm_wf_close:
  assumes "pm_wf st" shows "pm_wf (fst (pm_close st p x c r rs now))"
  using assms by (auto simp: pm_wf_def pm_close_def Let_def split: if_splits)

text \<open>
  Closing an open position moves it from the open registry to the history, exactly it
  and exactly once: its id is no longer open, every other open position is untouched and the number
  of positions known to the manager is the same; the gross result returned is the floating result
  at the exit price, and the realized result of the stored position is that gross result less every
  commission the position paid.
\<close>

theorem close_settles:
  assumes "pm_wf st" "pm_get st (p_position_id p) = Some p"
    and "pm_close st p x c r rs now = (st', p', gross)"
  shows "pm_wf st' \<and> pm_get st' (p_position_id p) = None
    \<and> (\<forall>k. k \<noteq> p_position_id p \<longrightarrow> pm_get st' k = pm_get st k)
    \<and> pm_closed st' = pm_closed st @ [p']
    \<and> length (pm_open st') + length (pm_closed st') = length (pm_open st) + length (pm_closed st)
    \<and> gross = unrealized_pnl p (Some x)
    \<and> p_realized_pnl p' = gross - p_commission_paid p'"
proof -
  have st': "st' = st\<lparr> pm_open := pd_pop (pm_open st) (p_position_id p), pm_closed := pm_closed st @ [p'] \<rparr>"
    and p': "p' = closed_position p x c r rs now"
    and gross: "gross = (x - p_entry_price p) * p_quantity p * direction_sign p"
    using assms(3) by (auto simp: pm_close_def Let_def)
  have "Suc (length (pm_open st')) = length (pm_open st)"
    using pd.size_pop_present [OF pm_wf_dict [OF assms(1)], of "p_position_id p" p] assms(2)
    by (simp add: st' pm_get_def)
  moreover have "pm_wf st'"
    using pm_wf_close [OF assms(1), of p x c r rs now] assms(3) by simp
  ultimately show ?thesis
    using close_realized [of p x c r rs now]
    by (simp add: st' p' gross pm_get_def unrealized_pnl_def)
qed

theorem close_settles_witness:
  "\<exists>st' p' gross.
     pm_close (pm_store pm_init example_long) example_long 115 3 EX_TAKE_PROFIT [] 60 = (st', p', gross)
     \<and> pm_get st' ''p1'' = None \<and> gross = 30 \<and> p_realized_pnl p' = 26"
proof -
  let ?st = "pm_store pm_init example_long"
  have wf: "pm_wf ?st"
    by (rule pm_wf_store) (simp_all add: example_long_unfold)
  have get: "pm_get ?st (p_position_id example_long) = Some example_long"
    by (simp add: pm_get_def pm_store_def)
  obtain st' p' gross where c:
    "pm_close ?st example_long 115 3 EX_TAKE_PROFIT [] 60 = (st', p', gross)"
    by (cases "pm_close ?st example_long 115 3 EX_TAKE_PROFIT [] 60")
  have id: "p_position_id example_long = ''p1''" and pnl: "unrealized_pnl example_long (Some 115) = 30"
    by (simp_all add: example_long_unfold unrealized_pnl_def direction_sign_def is_long_def)
  have "p_commission_paid p' = 4"
    using c by (auto simp: pm_close_def Let_def example_long_unfold)
  then show ?thesis
    using close_settles [OF wf get c] c id pnl by (intro exI [of _ st'] exI [of _ p'] exI [of _ gross]) simp
qed

text \<open>The floating result a close realizes leaves the sum over the open positions.\<close>

lemma floating_after_close:
  assumes "pm_wf st" "pm_get st (p_position_id p) = Some p"
  shows "(\<Sum>q\<leftarrow>open_positions (fst (pm_close st p x c r rs now)). unrealized_pnl q None)
    = (\<Sum>q\<leftarrow>open_positions st. unrealized_pnl q None) - unrealized_pnl p None"
  using sum_values_pop [OF pm_wf_dict [OF assms(1)], of "p_position_id p" p "\<lambda>q. unrealized_pnl q None"]
    assms(2)
  by (simp add: pm_close_def Let_def open_positions_def pm_get_def)

lemma positions_for_store_new:
  assumes "pm_get st (p_position_id p) = None"
  shows "open_positions (pm_store st p) = open_positions st @ [p]"
  using assms by (simp add: pm_store_def open_positions_def pm_get_def pd_get_in_keys)

end
