(* ===== verification/Order_Manager.thy ===== *)
theory Order_Manager
  imports Exec_Models
begin

text \<open>
  \<open>OrderManager\<close>: the registry of every order the engine creates, its counters and the OCO groups.
  An order object is identified by its id; mutating it is writing its new value back under that id.
\<close>

section \<open>State and operations\<close>

record oco_group =
  oc_group_id :: string
  oc_order_ids :: "string list"
  oc_active :: bool

record order_manager =
  om_orders :: "(string, order) pydict"
  om_history :: "string list"
  om_history_limit :: nat
  om_oco :: "(string, oco_group) pydict"
  om_created :: nat
  om_filled :: nat
  om_rejected :: nat
  om_cancelled :: nat

definition om_init :: "nat \<Rightarrow> order_manager" where
  "om_init limit = \<lparr> om_orders = [], om_history = [], om_history_limit = limit, om_oco = [],
     om_created = 0, om_filled = 0, om_rejected = 0, om_cancelled = 0 \<rparr>"

definition om_store :: "order_manager \<Rightarrow> order \<Rightarrow> order_manager" where
  "om_store st od = st\<lparr> om_orders := pd_put (om_orders st) (o_order_id od) od \<rparr>"

definition new_order :: "string \<Rightarrow> order_request \<Rightarrow> time \<Rightarrow> order" where
  "new_order oid rq now = \<lparr> o_order_id = oid, o_request = rq, o_status = OS_PENDING,
     o_filled_quantity = 0, o_average_price = 0, o_reject_reason = RR_NONE, o_fills = [],
     o_created_at = now, o_updated_at = now \<rparr>"

definition om_create :: "order_manager \<Rightarrow> string \<Rightarrow> order_request \<Rightarrow> time \<Rightarrow> order_manager \<times> order" where
  "om_create st oid rq now =
     (let od = new_order oid rq now in
      ((om_store st od)\<lparr> om_history := deque_append (om_history_limit st) oid (om_history st),
         om_created := om_created st + 1 \<rparr>, od))"

definition om_get :: "order_manager \<Rightarrow> string \<Rightarrow> order option" where
  "om_get st oid = pd_get (om_orders st) oid"

definition om_cancel :: "order_manager \<Rightarrow> order \<Rightarrow> order_manager" where
  "om_cancel st od =
     (if o_is_terminal od then st
      else (om_store st (od\<lparr> o_status := OS_CANCELLED \<rparr>))\<lparr> om_cancelled := om_cancelled st + 1 \<rparr>)"

definition cancel_sibling :: "string \<Rightarrow> string \<Rightarrow> order_manager \<Rightarrow> order_manager" where
  "cancel_sibling filled_id other_id st =
     (if other_id = filled_id then st
      else (case om_get st other_id of None \<Rightarrow> st | Some od \<Rightarrow> om_cancel st od))"

definition fire_group :: "string \<Rightarrow> string \<times> oco_group \<Rightarrow> order_manager \<Rightarrow> order_manager" where
  "fire_group filled_id e st =
     (case e of (gid, g) \<Rightarrow>
        if oc_active g \<and> filled_id \<in> set (oc_order_ids g) then
          fold (cancel_sibling filled_id) (oc_order_ids g)
            (st\<lparr> om_oco := pd_put (om_oco st) gid (g\<lparr> oc_active := False \<rparr>) \<rparr>)
        else st)"

definition cancel_oco_siblings :: "order_manager \<Rightarrow> string \<Rightarrow> order_manager" where
  "cancel_oco_siblings st filled_id = fold (fire_group filled_id) (om_oco st) st"

definition om_apply_fill :: "order_manager \<Rightarrow> order \<Rightarrow> fill \<Rightarrow> order_manager \<times> order" where
  "om_apply_fill st od f =
     (let od' = o_apply_fill od f; st1 = om_store st od' in
      if o_status od' = OS_FILLED
      then (cancel_oco_siblings (st1\<lparr> om_filled := om_filled st + 1 \<rparr>) (o_order_id od), od')
      else (st1, od'))"

definition om_reject :: "order_manager \<Rightarrow> order \<Rightarrow> reject_reason \<Rightarrow> time \<Rightarrow> order_manager \<times> order" where
  "om_reject st od r now =
     (let od' = o_reject r now od in ((om_store st od')\<lparr> om_rejected := om_rejected st + 1 \<rparr>, od'))"

definition om_create_oco :: "order_manager \<Rightarrow> string list \<Rightarrow> string \<Rightarrow> order_manager" where
  "om_create_oco st ids gid =
     st\<lparr> om_oco := pd_put (om_oco st) gid
           \<lparr> oc_group_id = gid, oc_order_ids = ids, oc_active = True \<rparr> \<rparr>"

definition active_orders :: "order_manager \<Rightarrow> order list" where
  "active_orders st = filter (\<lambda>od. \<not> o_is_terminal od) (pd_values (om_orders st))"

definition om_recent :: "order_manager \<Rightarrow> int \<Rightarrow> order list" where
  "om_recent st limit =
     concat (map (\<lambda>i. case om_get st i of None \<Rightarrow> [] | Some od \<Rightarrow> [od]) (py_tail limit (om_history st)))"

section \<open>One order\<close>

text \<open>The aggregate fields are the sums over the fills.\<close>

definition order_inv :: "order \<Rightarrow> bool" where
  "order_inv od \<longleftrightarrow> (\<forall>f \<in> set (o_fills od). 0 \<le> f_quantity f)
     \<and> o_filled_quantity od = (\<Sum>f\<leftarrow>o_fills od. f_quantity f)
     \<and> o_average_price od * o_filled_quantity od = (\<Sum>f\<leftarrow>o_fills od. f_price f * f_quantity f)"

lemma order_inv_new [simp]: "order_inv (new_order oid rq now)"
  by (simp add: order_inv_def new_order_def)

lemma zero_fills:
  assumes "\<forall>f \<in> set fs. 0 \<le> f_quantity f" "(\<Sum>f\<leftarrow>fs. f_quantity f) = 0"
  shows "(\<Sum>f\<leftarrow>fs. f_price f * f_quantity f) = 0"
  using assms
proof (induction fs)
  case (Cons f fs)
  have "0 \<le> (\<Sum>f\<leftarrow>fs. f_quantity f)" using Cons.prems(1) by (intro sum_list_nonneg_map) auto
  with Cons.prems have "f_quantity f = 0" "(\<Sum>f\<leftarrow>fs. f_quantity f) = 0" by auto
  with Cons show ?case by simp
qed simp

lemma apply_fill_fields [simp]:
  "o_order_id (o_apply_fill od f) = o_order_id od" "o_request (o_apply_fill od f) = o_request od"
  "o_fills (o_apply_fill od f) = o_fills od @ [f]"
  "o_filled_quantity (o_apply_fill od f) = o_filled_quantity od + f_quantity f"
  by (simp_all add: o_apply_fill_def Let_def)

text \<open>
  Property C2: an order's filled quantity and average price stay the total and the volume-weighted
  mean of its fills, and after a fill the order is FILLED exactly when at most 1e-12 of the
  requested quantity is missing.
\<close>

theorem apply_fill_vwap:
  assumes "order_inv od" "0 \<le> f_quantity f"
  shows "order_inv (o_apply_fill od f)
    \<and> (o_status (o_apply_fill od f) = OS_FILLED
        \<longleftrightarrow> rq_quantity (o_request od) - (o_filled_quantity od + f_quantity f) \<le> 1 / 10 ^ 12)"
proof -
  let ?od = "o_apply_fill od f" and ?fs = "o_fills od @ [f]"
  have max_le: "max 0 x \<le> 1 / 10 ^ 12 \<longleftrightarrow> x \<le> (1 / 10 ^ 12 :: real)" for x
    by (simp only: max.bounded_iff) simp
  have fs: "\<forall>g \<in> set ?fs. 0 \<le> f_quantity g" using assms by (auto simp: order_inv_def)
  have filled: "o_filled_quantity ?od = (\<Sum>g\<leftarrow>?fs. f_quantity g)"
    using assms(1) by (simp add: order_inv_def)
  have "0 \<le> (\<Sum>g\<leftarrow>?fs. f_quantity g)" using fs by (intro sum_list_nonneg_map) auto
  then consider "o_filled_quantity ?od > 0" | "(\<Sum>g\<leftarrow>?fs. f_quantity g) = 0"
    using filled by fastforce
  then have "o_average_price ?od * o_filled_quantity ?od = (\<Sum>g\<leftarrow>?fs. f_price g * f_quantity g)"
  proof cases
    case 1
    then have "o_average_price ?od * o_filled_quantity ?od
        = o_average_price od * o_filled_quantity od + f_price f * f_quantity f"
      by (simp add: o_apply_fill_def Let_def)
    also have "o_average_price od * o_filled_quantity od = (\<Sum>g\<leftarrow>o_fills od. f_price g * f_quantity g)"
      using assms(1) unfolding order_inv_def by blast
    finally show ?thesis by simp
  next
    case 2
    then show ?thesis using zero_fills [OF fs] filled by simp
  qed
  moreover have "o_status ?od = OS_FILLED
      \<longleftrightarrow> rq_quantity (o_request od) - (o_filled_quantity od + f_quantity f) \<le> 1 / 10 ^ 12"
  proof -
    have "o_status ?od = (if o_remaining ?od \<le> 1 / 10 ^ 12 then OS_FILLED else OS_PARTIALLY_FILLED)"
      by (simp add: o_apply_fill_def o_remaining_def Let_def)
    then have "o_status ?od = OS_FILLED \<longleftrightarrow> o_remaining ?od \<le> 1 / 10 ^ 12"
      by (cases "o_remaining ?od \<le> 1 / 10 ^ 12") (simp_all only: if_True if_False order_status.distinct simp_thms)
    also have "o_remaining ?od = max 0 (rq_quantity (o_request od) - (o_filled_quantity od + f_quantity f))"
      by (simp add: o_remaining_def)
    finally show ?thesis by (simp only: max_le)
  qed
  ultimately show ?thesis using fs filled by (simp add: order_inv_def)
qed

definition example_request :: order_request where
  "example_request = mk_request ''r1'' ''BTCUSDT'' BUY 4 0"

definition example_fill :: fill where
  "example_fill = \<lparr> f_fill_id = ''f1'', f_request_id = ''r1'', f_symbol = ''BTCUSDT'', f_side = BUY,
     f_quantity = 1, f_requested_quantity = 4, f_reference_price = 100, f_price = 101,
     f_slippage_bps = 100, f_spread_bps = 0, f_commission = 0, f_latency_ms = 0, f_maker = False,
     f_gapped = True, f_executed_at = 0, f_broker_ref = None \<rparr>"

theorem apply_fill_vwap_witness:
  "order_inv (o_apply_fill (new_order ''o1'' example_request 0) example_fill) \<and>
   o_status (o_apply_fill (new_order ''o1'' example_request 0) example_fill) = OS_PARTIALLY_FILLED"
proof -
  have "0 \<le> f_quantity example_fill" by (simp add: example_fill_def)
  note vwap = apply_fill_vwap [OF order_inv_new this, of "''o1''" example_request 0]
  have "o_status (o_apply_fill (new_order ''o1'' example_request 0) example_fill) = OS_PARTIALLY_FILLED"
    by (simp add: o_apply_fill_def o_remaining_def Let_def new_order_def example_fill_def
        example_request_def mk_request_def)
  with vwap show ?thesis by simp
qed

section \<open>OCO groups\<close>

lemma om_cancel_get:
  "om_get (om_cancel st od) k =
     (if k = o_order_id od \<and> \<not> o_is_terminal od then Some (od\<lparr> o_status := OS_CANCELLED \<rparr>)
      else om_get st k)"
  by (simp add: om_cancel_def om_get_def om_store_def)

lemma terminal_cancelled [simp]: "o_is_terminal (od\<lparr> o_status := OS_CANCELLED \<rparr>)"
  by (simp add: o_is_terminal_def)

text \<open>Orders are stored under their own id.\<close>

definition om_keys_ok :: "order_manager \<Rightarrow> bool" where
  "om_keys_ok st \<longleftrightarrow> (\<forall>k od. om_get st k = Some od \<longrightarrow> o_order_id od = k)"

text \<open>
  What cancelling siblings may do to the registry: keep every terminal order as it is, keep the
  filled order, only turn live orders into cancelled ones, and keep the set of ids.
\<close>

definition only_cancels :: "string \<Rightarrow> order_manager \<Rightarrow> order_manager \<Rightarrow> bool" where
  "only_cancels fid st st' \<longleftrightarrow> om_get st' fid = om_get st fid \<and>
     (\<forall>k. om_get st' k = om_get st k \<or>
        (\<exists>od. om_get st k = Some od \<and> \<not> o_is_terminal od \<and>
           om_get st' k = Some (od\<lparr> o_status := OS_CANCELLED \<rparr>)))"

lemma only_cancels_refl [simp]: "only_cancels fid st st"
  by (simp add: only_cancels_def)

lemma only_cancels_oco [simp]: "only_cancels fid st (st\<lparr> om_oco := x \<rparr>)"
  by (simp add: only_cancels_def om_get_def)

lemma only_cancels_trans:
  assumes "only_cancels fid a b" "only_cancels fid b c" shows "only_cancels fid a c"
proof -
  have "om_get c k = om_get a k \<or> (\<exists>od. om_get a k = Some od \<and> \<not> o_is_terminal od \<and>
      om_get c k = Some (od\<lparr> o_status := OS_CANCELLED \<rparr>))" for k
    using assms unfolding only_cancels_def by (metis option.inject terminal_cancelled)
  then show ?thesis using assms by (simp add: only_cancels_def)
qed

lemma only_cancels_keys: "only_cancels fid st st' \<Longrightarrow> om_keys_ok st \<Longrightarrow> om_keys_ok st'"
  unfolding only_cancels_def om_keys_ok_def
  by (metis (no_types, lifting) option.inject order.select_convs(1) order.surjective order.update_convs(3))

lemma cancel_sibling_only:
  assumes "om_keys_ok st" shows "only_cancels fid st (cancel_sibling fid k st)"
  using assms by (auto simp: cancel_sibling_def only_cancels_def om_cancel_get om_keys_ok_def
      split: option.splits)

lemma fold_cancel:
  assumes "om_keys_ok st"
  shows "only_cancels fid st (fold (cancel_sibling fid) ids st)"
  using assms
proof (induction ids arbitrary: st)
  case (Cons i ids)
  have one: "only_cancels fid st (cancel_sibling fid i st)" by (rule cancel_sibling_only [OF Cons.prems])
  show ?case using only_cancels_trans [OF one Cons.IH [OF only_cancels_keys [OF one Cons.prems]]] by simp
qed simp

lemma fire_group_only:
  assumes "om_keys_ok st" shows "only_cancels fid st (fire_group fid e st)"
proof -
  obtain gid g where e: "e = (gid, g)" by (cases e)
  let ?st = "st\<lparr> om_oco := pd_put (om_oco st) gid (g\<lparr> oc_active := False \<rparr>) \<rparr>"
  have keys: "om_keys_ok ?st" using assms by (simp add: om_keys_ok_def om_get_def)
  show ?thesis
    using only_cancels_trans [OF only_cancels_oco fold_cancel [OF keys, of fid "oc_order_ids g"]]
    by (simp add: e fire_group_def)
qed

text \<open>Exactly which orders of a registry a fired group cancels.\<close>

definition cancelled_if :: "bool \<Rightarrow> order option \<Rightarrow> order option" where
  "cancelled_if b x = map_option (\<lambda>od. if b \<and> \<not> o_is_terminal od then od\<lparr> o_status := OS_CANCELLED \<rparr> else od) x"

lemma cancelled_if_simps [simp]:
  "cancelled_if False x = x" "cancelled_if a (cancelled_if b x) = cancelled_if (a \<or> b) x"
proof -
  show "cancelled_if False x = x" by (cases x) (simp_all add: cancelled_if_def)
  show "cancelled_if a (cancelled_if b x) = cancelled_if (a \<or> b) x"
    by (cases x; cases a; cases b) (simp_all add: cancelled_if_def)
qed

lemma cancel_sibling_get:
  assumes "om_keys_ok st"
  shows "om_get (cancel_sibling fid k st) i = cancelled_if (i = k \<and> i \<noteq> fid) (om_get st i)"
proof (cases "i = k \<and> i \<noteq> fid")
  case True
  then show ?thesis using assms
    by (cases "om_get st i") (auto simp: cancel_sibling_def om_cancel_get om_keys_ok_def cancelled_if_def)
next
  case False
  then have "om_get (cancel_sibling fid k st) i = om_get st i"
    using assms by (auto simp: cancel_sibling_def om_cancel_get om_keys_ok_def split: option.splits)
  moreover have "(i = k \<and> i \<noteq> fid) = False" using False by blast
  ultimately show ?thesis by (simp only: cancelled_if_simps)
qed

lemma fold_cancel_get:
  assumes "om_keys_ok st"
  shows "om_get (fold (cancel_sibling fid) ids st) i = cancelled_if (i \<in> set ids \<and> i \<noteq> fid) (om_get st i)"
  using assms
proof (induction ids arbitrary: st)
  case (Cons k ids)
  note keys = only_cancels_keys [OF cancel_sibling_only [OF Cons.prems] Cons.prems, of fid k]
  have "om_get (fold (cancel_sibling fid) (k # ids) st) i
      = cancelled_if (i \<in> set ids \<and> i \<noteq> fid) (cancelled_if (i = k \<and> i \<noteq> fid) (om_get st i))"
    using Cons.IH [OF keys] cancel_sibling_get [OF Cons.prems] by simp
  also have "\<dots> = cancelled_if (i \<in> set (k # ids) \<and> i \<noteq> fid) (om_get st i)" by (simp, rule arg_cong2 [where f = cancelled_if]) auto
  finally show ?case .
qed simp

definition fires_on :: "string \<Rightarrow> string \<Rightarrow> string \<times> oco_group \<Rightarrow> bool" where
  "fires_on fid i e \<longleftrightarrow> oc_active (snd e) \<and> fid \<in> set (oc_order_ids (snd e)) \<and> i \<in> set (oc_order_ids (snd e)) \<and> i \<noteq> fid"

lemma fire_group_get:
  assumes "om_keys_ok st"
  shows "om_get (fire_group fid e st) i = cancelled_if (fires_on fid i e) (om_get st i)"
proof -
  obtain gid g where e: "e = (gid, g)" by (cases e)
  let ?st = "st\<lparr> om_oco := pd_put (om_oco st) gid (g\<lparr> oc_active := False \<rparr>) \<rparr>"
  have keys: "om_keys_ok ?st" and same: "om_get ?st i = om_get st i" using assms by (simp_all add: om_keys_ok_def om_get_def)
  show ?thesis
  proof (cases "oc_active g \<and> fid \<in> set (oc_order_ids g)")
    case True
    then show ?thesis using fold_cancel_get [OF keys, of fid "oc_order_ids g" i] same by (simp add: e fire_group_def fires_on_def)
  next
    case False
    then have "fire_group fid e st = st" "\<not> fires_on fid i e" by (auto simp: e fire_group_def fires_on_def)
    then show ?thesis by simp
  qed
qed

lemma fold_fire_get:
  assumes "om_keys_ok st"
  shows "om_get (fold (fire_group fid) es st) i = cancelled_if (\<exists>e\<in>set es. fires_on fid i e) (om_get st i)"
  using assms
proof (induction es arbitrary: st)
  case (Cons e es)
  note keys = only_cancels_keys [OF fire_group_only [OF Cons.prems] Cons.prems, of fid e]
  show ?case using Cons.IH [OF keys] fire_group_get [OF Cons.prems, of fid e i] by (simp add: disj_commute)
qed simp

text \<open>
  Property C3: one cancels the other, and nothing else happens to any order.  When a fill completes an order, the registry
  afterwards holds the completed order, every order that shares an active OCO group with it and was not yet terminal with its
  status CANCELLED and everything else of it unchanged, and every other order exactly as it was; no order appears or disappears.
\<close>

theorem oco_fill_cancels_siblings:
  assumes "om_keys_ok st" "om_apply_fill st od f = (st', od')" "o_status od' = OS_FILLED"
  shows "om_get st' i = (if i = o_order_id od then Some od'
    else case om_get st i of None \<Rightarrow> None
      | Some ord \<Rightarrow> if \<not> o_is_terminal ord \<and> (\<exists>(gid, g)\<in>set (om_oco st). oc_active g \<and> o_order_id od \<in> set (oc_order_ids g)
                          \<and> i \<in> set (oc_order_ids g))
                    then Some (ord\<lparr> o_status := OS_CANCELLED \<rparr>) else Some ord)"
proof -
  let ?fid = "o_order_id od"
  define st1 where "st1 = (om_store st od')\<lparr> om_filled := om_filled st + 1 \<rparr>"
  have od': "od' = o_apply_fill od f"
    using assms(2) by (auto simp: om_apply_fill_def Let_def split: if_splits)
  have st': "st' = fold (fire_group ?fid) (om_oco st) st1"
    using assms(2,3) by (auto simp: om_apply_fill_def Let_def st1_def cancel_oco_siblings_def om_store_def od')
  have keys: "om_keys_ok st1"
    using assms(1) by (auto simp: om_keys_ok_def st1_def om_get_def om_store_def od')
  have "om_get st1 i = (if i = ?fid then Some od' else om_get st i)"
    by (simp add: st1_def om_get_def om_store_def od')
  then show ?thesis
    using fold_fire_get [OF keys, of ?fid "om_oco st" i]
    by (auto simp: st' fires_on_def cancelled_if_def case_prod_unfold split: option.split)
qed

lemma om_keys_ok_init [simp]: "om_keys_ok (om_init n)"
  by (simp add: om_keys_ok_def om_init_def om_get_def)

lemma om_keys_ok_create [simp]: "om_keys_ok st \<Longrightarrow> om_keys_ok (fst (om_create st oid rq now))"
  by (auto simp: om_keys_ok_def om_create_def Let_def om_get_def om_store_def new_order_def split: if_splits)

lemma om_keys_ok_oco [simp]: "om_keys_ok (om_create_oco st ids gid) = om_keys_ok st"
  by (simp add: om_keys_ok_def om_create_oco_def om_get_def)

definition example_orders :: order_manager where
  "example_orders =
     om_create_oco
       (fst (om_create (fst (om_create (om_init 10) ''o1'' example_request 0)) ''o2'' example_request 0))
       [''o1'', ''o2''] ''g''"

theorem oco_fill_cancels_siblings_witness:
  "let st' = fst (om_apply_fill example_orders (new_order ''o1'' example_request 0) (example_fill\<lparr> f_quantity := 4 \<rparr>))
   in om_get st' ''o2'' = Some ((new_order ''o2'' example_request 0)\<lparr> o_status := OS_CANCELLED \<rparr>)"
proof -
  let ?od = "new_order ''o1'' example_request 0" and ?f = "example_fill\<lparr> f_quantity := 4 \<rparr>"
  obtain st' od' where r: "om_apply_fill example_orders ?od ?f = (st', od')" by fastforce
  have od': "od' = o_apply_fill ?od ?f"
    using r by (auto simp: om_apply_fill_def Let_def split: if_splits)
  have filled: "o_status od' = OS_FILLED"
    by (simp add: od' o_apply_fill_def o_remaining_def Let_def new_order_def example_fill_def
        example_request_def mk_request_def)
  have keys: "om_keys_ok example_orders"
    by (simp add: example_orders_def)
  have "om_get example_orders ''o2'' = Some (new_order ''o2'' example_request 0)"
    "om_oco example_orders = [(''g'', \<lparr> oc_group_id = ''g'', oc_order_ids = [''o1'', ''o2''], oc_active = True \<rparr>)]"
    by (simp_all add: example_orders_def om_create_oco_def om_create_def Let_def om_init_def om_store_def om_get_def new_order_def pd_get_def)
  then have "om_get st' ''o2'' = Some ((new_order ''o2'' example_request 0)\<lparr> o_status := OS_CANCELLED \<rparr>)"
    using oco_fill_cancels_siblings [OF keys r filled, of "''o2''"] by (simp add: new_order_def o_is_terminal_def)
  then show ?thesis using r by simp
qed

end
