(* ===== verification/Portfolio_Manager.thy ===== *)
theory Portfolio_Manager
  imports Exec_Models
begin

text \<open>
  \<open>PortfolioManager\<close>: cash accounting, equity, exposure and drawdown.  The manager does not own
  positions; valuations take the list of the open ones.  The interface its clients rely on, a cash
  account that opening and closing trades move by exactly their result, is the locale
  \<open>cash_account\<close>, interpreted on this manager.
\<close>

section \<open>State and operations\<close>

record portfolio_manager =
  pf_initial_balance :: real
  pf_balance :: real
  pf_base_currency :: string
  pf_leverage :: real
  pf_peak_equity :: real
  pf_total_trades :: nat
  pf_wins :: nat
  pf_losses :: nat
  pf_commission_paid :: real
  pf_last_floating :: real

definition pf_init :: "real \<Rightarrow> string \<Rightarrow> real \<Rightarrow> portfolio_manager" where
  "pf_init bal cur lev = \<lparr> pf_initial_balance = bal, pf_balance = bal, pf_base_currency = cur,
     pf_leverage = max 1 lev, pf_peak_equity = bal, pf_total_trades = 0, pf_wins = 0,
     pf_losses = 0, pf_commission_paid = 0, pf_last_floating = 0 \<rparr>"

definition pf_restore ::
  "real \<Rightarrow> real \<Rightarrow> nat \<Rightarrow> nat \<Rightarrow> nat \<Rightarrow> real \<Rightarrow> portfolio_manager \<Rightarrow> portfolio_manager" where
  "pf_restore bal peak trades w l comm pf =
     pf\<lparr> pf_balance := bal, pf_peak_equity := max peak bal, pf_total_trades := trades,
         pf_wins := w, pf_losses := l, pf_commission_paid := comm \<rparr>"

definition sync_from_broker :: "real \<Rightarrow> bool \<Rightarrow> portfolio_manager \<Rightarrow> portfolio_manager" where
  "sync_from_broker bal set_baseline pf =
     (let pf1 = pf\<lparr> pf_balance := bal \<rparr> in
      if set_baseline then pf1\<lparr> pf_initial_balance := bal, pf_peak_equity := bal \<rparr>
      else pf1\<lparr> pf_peak_equity := max (pf_peak_equity pf) bal \<rparr>)"

definition pf_realized_pnl :: "portfolio_manager \<Rightarrow> real" where
  "pf_realized_pnl pf = pf_balance pf - pf_initial_balance pf"

definition on_open_commission :: "real \<Rightarrow> portfolio_manager \<Rightarrow> portfolio_manager" where
  "on_open_commission c pf =
     pf\<lparr> pf_balance := pf_balance pf - c, pf_commission_paid := pf_commission_paid pf + c \<rparr>"

definition pf_on_trade_closed :: "real \<Rightarrow> real \<Rightarrow> portfolio_manager \<Rightarrow> portfolio_manager" where
  "pf_on_trade_closed gross comm pf =
     (let pf1 = pf\<lparr> pf_balance := pf_balance pf + (gross - comm),
                    pf_commission_paid := pf_commission_paid pf + comm \<rparr>;
          net = gross - comm;
          pf2 = pf1\<lparr> pf_total_trades := pf_total_trades pf + 1 \<rparr>
      in if net > 0 then pf2\<lparr> pf_wins := pf_wins pf + 1 \<rparr>
         else if net < 0 then pf2\<lparr> pf_losses := pf_losses pf + 1 \<rparr>
         else pf2)"

definition pf_floating_pnl :: "position list \<Rightarrow> real" where
  "pf_floating_pnl ps = (\<Sum>p\<leftarrow>ps. unrealized_pnl p None)"

definition pf_used_capital :: "portfolio_manager \<Rightarrow> position list \<Rightarrow> real" where
  "pf_used_capital pf ps = (\<Sum>p\<leftarrow>ps. cost_basis p) / pf_leverage pf"

definition pf_exposure :: "position list \<Rightarrow> real" where
  "pf_exposure ps = (\<Sum>p\<leftarrow>ps. p_notional p)"

definition pf_equity :: "portfolio_manager \<Rightarrow> position list \<Rightarrow> real" where
  "pf_equity pf ps = pf_balance pf + pf_floating_pnl ps"

definition drawdown_of :: "real \<Rightarrow> real \<Rightarrow> real" where
  "drawdown_of peak equity = (if peak > 0 then max 0 ((peak - equity) / peak * 100) else 0)"

definition pf_snapshot ::
  "time \<Rightarrow> position list \<Rightarrow> portfolio_manager \<Rightarrow> portfolio_manager \<times> portfolio_snapshot" where
  "pf_snapshot now ps pf =
     (let floating = pf_floating_pnl ps;
          equity = pf_balance pf + floating;
          used = pf_used_capital pf ps;
          exposure = pf_exposure ps;
          peak = max (pf_peak_equity pf) equity;
          dd = drawdown_of peak equity;
          exposure_pct = (if equity > 0 then exposure / equity * 100 else 0)
      in (pf\<lparr> pf_last_floating := floating, pf_peak_equity := peak \<rparr>,
          \<lparr> sn_timestamp = now, sn_initial_balance = pf_initial_balance pf,
            sn_balance = py_round 6 (pf_balance pf), sn_equity = py_round 6 equity,
            sn_floating_pnl = py_round 6 floating, sn_realized_pnl = py_round 6 (pf_realized_pnl pf),
            sn_used_capital = py_round 6 used, sn_free_capital = py_round 6 (equity - used),
            sn_exposure = py_round 6 exposure, sn_exposure_pct = py_round 4 exposure_pct,
            sn_peak_equity = py_round 6 peak, sn_drawdown_pct = py_round 4 dd,
            sn_open_positions = length ps, sn_total_trades = pf_total_trades pf,
            sn_base_currency = pf_base_currency pf \<rparr>))"

record portfolio_status =
  fs_initial_balance :: real
  fs_balance :: real
  fs_realized_pnl :: real
  fs_peak_equity :: real
  fs_total_trades :: nat
  fs_wins :: nat
  fs_losses :: nat
  fs_commission_paid :: real
  fs_base_currency :: string
  fs_leverage :: real

definition pf_status :: "portfolio_manager \<Rightarrow> portfolio_status" where
  "pf_status pf = \<lparr> fs_initial_balance = pf_initial_balance pf, fs_balance = py_round 6 (pf_balance pf),
     fs_realized_pnl = py_round 6 (pf_realized_pnl pf), fs_peak_equity = py_round 6 (pf_peak_equity pf),
     fs_total_trades = pf_total_trades pf, fs_wins = pf_wins pf, fs_losses = pf_losses pf,
     fs_commission_paid = py_round 6 (pf_commission_paid pf), fs_base_currency = pf_base_currency pf,
     fs_leverage = pf_leverage pf \<rparr>"

section \<open>Accounting runs\<close>

text \<open>
  The events that move the account.  A run is a list of events applied in order; snapshots are
  events because they move the peak.
\<close>

datatype account_event =
  Opened real
| Closed real real
| Valued time "position list"

fun account_step :: "account_event \<Rightarrow> portfolio_manager \<Rightarrow> portfolio_manager" where
  "account_step (Opened c) pf = on_open_commission c pf"
| "account_step (Closed g c) pf = pf_on_trade_closed g c pf"
| "account_step (Valued now ps) pf = fst (pf_snapshot now ps pf)"

definition account_run :: "account_event list \<Rightarrow> portfolio_manager \<Rightarrow> portfolio_manager" where
  "account_run evs pf = fold account_step evs pf"

fun event_gross :: "account_event \<Rightarrow> real" where
  "event_gross (Closed g c) = g"
| "event_gross _ = 0"

fun event_commission :: "account_event \<Rightarrow> real" where
  "event_commission (Opened c) = c"
| "event_commission (Closed g c) = c"
| "event_commission (Valued now ps) = 0"

definition closes :: "account_event list \<Rightarrow> (real \<times> real) list" where
  "closes evs = concat (map (\<lambda>e. case e of Closed g c \<Rightarrow> [(g, c)] | _ \<Rightarrow> []) evs)"

lemma closes_simps [simp]:
  "closes [] = []" "closes (Opened c # evs) = closes evs"
  "closes (Closed g c # evs) = (g, c) # closes evs" "closes (Valued now ps # evs) = closes evs"
  by (simp_all add: closes_def)

lemma account_run_simps [simp]:
  "account_run [] pf = pf" "account_run (e # evs) pf = account_run evs (account_step e pf)"
  by (simp_all add: account_run_def)

lemma on_trade_closed_fields [simp]:
  "pf_balance (pf_on_trade_closed g c pf) = pf_balance pf + (g - c)"
  "pf_commission_paid (pf_on_trade_closed g c pf) = pf_commission_paid pf + c"
  "pf_total_trades (pf_on_trade_closed g c pf) = pf_total_trades pf + 1"
  "pf_wins (pf_on_trade_closed g c pf) = pf_wins pf + (if g - c > 0 then 1 else 0)"
  "pf_losses (pf_on_trade_closed g c pf) = pf_losses pf + (if g - c < 0 then 1 else 0)"
  "pf_initial_balance (pf_on_trade_closed g c pf) = pf_initial_balance pf"
  "pf_peak_equity (pf_on_trade_closed g c pf) = pf_peak_equity pf"
  by (simp_all add: pf_on_trade_closed_def Let_def)

lemma on_open_commission_fields [simp]:
  "pf_balance (on_open_commission c pf) = pf_balance pf - c"
  "pf_commission_paid (on_open_commission c pf) = pf_commission_paid pf + c"
  "pf_total_trades (on_open_commission c pf) = pf_total_trades pf"
  "pf_wins (on_open_commission c pf) = pf_wins pf" "pf_losses (on_open_commission c pf) = pf_losses pf"
  "pf_initial_balance (on_open_commission c pf) = pf_initial_balance pf"
  "pf_peak_equity (on_open_commission c pf) = pf_peak_equity pf"
  by (simp_all add: on_open_commission_def)

lemma snapshot_fields [simp]:
  "pf_balance (fst (pf_snapshot now ps pf)) = pf_balance pf"
  "pf_commission_paid (fst (pf_snapshot now ps pf)) = pf_commission_paid pf"
  "pf_total_trades (fst (pf_snapshot now ps pf)) = pf_total_trades pf"
  "pf_wins (fst (pf_snapshot now ps pf)) = pf_wins pf" "pf_losses (fst (pf_snapshot now ps pf)) = pf_losses pf"
  "pf_initial_balance (fst (pf_snapshot now ps pf)) = pf_initial_balance pf"
  "pf_peak_equity (fst (pf_snapshot now ps pf)) = max (pf_peak_equity pf) (pf_equity pf ps)"
  by (simp_all add: pf_snapshot_def Let_def pf_equity_def)

section \<open>The account as an interface\<close>

locale cash_account =
  fixes balance :: "'s \<Rightarrow> real"
    and charge :: "real \<Rightarrow> 's \<Rightarrow> 's"
    and settle :: "real \<Rightarrow> real \<Rightarrow> 's \<Rightarrow> 's"
  assumes balance_charge: "balance (charge c s) = balance s - c"
    and balance_settle: "balance (settle g c s) = balance s + g - c"
begin

text \<open>A trade moves the cash by its gross result less both commissions, whatever lies between.\<close>

lemma round_trip:
  assumes "balance s' = balance (charge c1 s)"
  shows "balance (settle g c2 s') = balance s + g - c1 - c2"
  using assms by (simp add: balance_charge balance_settle)

lemma settle_many:
  "balance (fold (\<lambda>(g, c). settle g c) ts s) = balance s + (\<Sum>(g, c)\<leftarrow>ts. g - c)"
  by (induction ts arbitrary: s) (auto simp: balance_settle)

end

interpretation pf: cash_account pf_balance on_open_commission pf_on_trade_closed
  by unfold_locales simp_all

text \<open>
  Closing a position moves the equity by nothing but the commissions: the floating result of the
  position becomes cash.  The price a position is closed at is the price it is then marked at.
\<close>

lemma equity_close:
  assumes "unrealized_pnl p None = gross"
  shows "pf_equity (pf_on_trade_closed gross comm pf) (ps1 @ ps2)
    = pf_equity pf (ps1 @ p # ps2) - comm"
  using assms by (simp add: pf_equity_def pf_floating_pnl_def)

section \<open>Properties\<close>

text \<open>
  Property C4: over any run of openings, closings and valuations the balance is the starting balance
  plus every gross result less every commission, the commission total is their sum, the trade count
  is the number of closings, and wins and losses count the closings with positive and with negative
  result after the closing commission.
\<close>

theorem account_balance_identity:
  "pf_balance (account_run evs pf)
      = pf_balance pf + (\<Sum>e\<leftarrow>evs. event_gross e) - (\<Sum>e\<leftarrow>evs. event_commission e)
   \<and> pf_commission_paid (account_run evs pf) = pf_commission_paid pf + (\<Sum>e\<leftarrow>evs. event_commission e)
   \<and> pf_total_trades (account_run evs pf) = pf_total_trades pf + length (closes evs)
   \<and> pf_wins (account_run evs pf) = pf_wins pf + length (filter (\<lambda>(g, c). g > c) (closes evs))
   \<and> pf_losses (account_run evs pf) = pf_losses pf + length (filter (\<lambda>(g, c). g < c) (closes evs))"
proof (induction evs arbitrary: pf)
  case (Cons e evs)
  then show ?case by (cases e) simp_all
qed simp

lemma account_run_peak: "pf_peak_equity pf \<le> pf_peak_equity (account_run evs pf)"
proof (induction evs arbitrary: pf)
  case (Cons e evs)
  have "pf_peak_equity pf \<le> pf_peak_equity (account_step e pf)" by (cases e) simp_all
  also note Cons.IH
  finally show ?case by simp
qed simp

lemma drawdown_range:
  assumes "equity \<le> peak" shows "0 \<le> drawdown_of peak equity"
    and "0 \<le> equity \<Longrightarrow> drawdown_of peak equity \<le> 100"
  using assms by (auto simp: drawdown_of_def divide_simps)

text \<open>
  The peak never falls along a run and a snapshot's peak is at least its equity, so the
  drawdown is never negative; it is zero exactly when the equity is at the peak up to rounding to
  four decimals of a percent, and at most 100 while the equity is not negative.
\<close>

theorem drawdown_from_peak:
  "let pf' = account_run evs pf; r = pf_snapshot now ps pf'; dd = sn_drawdown_pct (snd r)
   in pf_peak_equity pf \<le> pf_peak_equity (fst r) \<and> pf_equity pf' ps \<le> pf_peak_equity (fst r)
      \<and> 0 \<le> dd \<and> (pf_peak_equity (fst r) = pf_equity pf' ps \<longrightarrow> dd = 0)
      \<and> (0 \<le> pf_equity pf' ps \<longrightarrow> dd \<le> 100)
      \<and> (pf_peak_equity (fst r) > 0 \<longrightarrow>
           \<bar>dd - (pf_peak_equity (fst r) - pf_equity pf' ps) / pf_peak_equity (fst r) * 100\<bar> \<le> 1 / 20000)"
proof -
  define pf' where "pf' = account_run evs pf"
  define peak where "peak = max (pf_peak_equity pf') (pf_equity pf' ps)"
  define eq where "eq = pf_equity pf' ps"
  have dd: "sn_drawdown_pct (snd (pf_snapshot now ps pf')) = py_round 4 (drawdown_of peak eq)"
    by (simp add: pf_snapshot_def Let_def peak_def eq_def pf_equity_def)
  have le: "eq \<le> peak" by (simp add: peak_def eq_def)
  have "on_grid 4 100" using on_grid_of_int_div [of 4 1000000] by simp
  then have "0 \<le> eq \<Longrightarrow> py_round 4 (drawdown_of peak eq) \<le> 100"
    using drawdown_range(2) [OF le] by (intro py_round_grid_upper)
  moreover have "0 \<le> py_round 4 (drawdown_of peak eq)"
    using drawdown_range(1) [OF le] by (rule py_round_nonneg)
  moreover have "\<bar>py_round 4 (drawdown_of peak eq) - (peak - eq) / peak * 100\<bar> \<le> 1 / 20000" if "peak > 0"
    using py_round_err [of 4 "drawdown_of peak eq"] le that by (simp add: drawdown_of_def)
  moreover have "peak = eq \<Longrightarrow> py_round 4 (drawdown_of peak eq) = 0" by (simp add: drawdown_of_def)
  moreover have "pf_peak_equity pf \<le> peak"
    using account_run_peak [of pf evs] by (simp add: peak_def pf'_def le_max_iff_disj)
  moreover have "pf_peak_equity (fst (pf_snapshot now ps pf')) = peak" by (simp add: peak_def)
  ultimately show ?thesis
    using le unfolding Let_def pf'_def [symmetric] dd eq_def [symmetric] by simp
qed

theorem drawdown_from_peak_witness:
  "sn_drawdown_pct (snd (pf_snapshot 0 [] (account_run [Closed (-10) 0] (pf_init 100 ''USD'' 1)))) = 10"
proof -
  let ?pf = "account_run [Closed (-10) 0] (pf_init 100 ''USD'' 1)"
  let ?dd = "sn_drawdown_pct (snd (pf_snapshot 0 [] ?pf))"
  have fields: "pf_peak_equity (fst (pf_snapshot 0 [] ?pf)) = 100" "pf_equity ?pf [] = 90"
    by (simp_all add: pf_init_def pf_equity_def pf_floating_pnl_def)
  have "\<bar>?dd - 10\<bar> \<le> 1 / 20000"
    using drawdown_from_peak [of "[Closed (-10) 0]" "pf_init 100 ''USD'' 1" 0 "[]", unfolded Let_def fields]
    by simp
  moreover have "on_grid 4 10" using on_grid_of_int_div [of 4 100000] by simp
  then have "?dd = 10"
    by (simp add: pf_snapshot_def Let_def pf_init_def pf_floating_pnl_def drawdown_of_def pf_on_trade_closed_def)
  ultimately show ?thesis by simp
qed

end
