(* ===== verification/Latch.thy ===== *)
theory Latch
  imports Prelude
begin

text \<open>
  The contract the safety devices of the program share: once tripped, a latch stays tripped under
  every event except a release.  Clients get that a whole run without a release leaves it tripped,
  and that a run which ends untripped has a release after its last trip.  The risk manager, the kill
  switch and the safe mode each interpret it on their own steps.
\<close>

locale latch =
  fixes step :: "'e \<Rightarrow> 's \<Rightarrow> 's"
    and tripped :: "'s \<Rightarrow> bool"
    and releases :: "'e \<Rightarrow> bool"
  assumes holds: "tripped s \<Longrightarrow> \<not> releases e \<Longrightarrow> tripped (step e s)"
begin

lemma run_holds:
  assumes "tripped s" "\<forall>e \<in> set es. \<not> releases e"
  shows "tripped (fold step es s)"
  using assms by (induction es arbitrary: s) (auto simp: holds)

lemma released_by_someone:
  assumes "tripped s" "\<not> tripped (fold step es s)"
  shows "\<exists>e \<in> set es. releases e"
  using assms run_holds by blast

lemma run_holds_after:
  assumes "tripped (fold step es s)" "\<forall>e \<in> set es'. \<not> releases e"
  shows "tripped (fold step (es @ es') s)"
  using run_holds [OF assms] by simp

end

end
