(* ===== verification/Risk_Manager.thy ===== *)
theory Risk_Manager
  imports Py_Dict Py_Time Settings Latch
begin

text \<open>
  \<open>RiskManager\<close>: the last barrier before an execution.  Hard limits per entry, loss limits per
  period, a streak limit, a kill switch on drawdown and a circuit breaker on fast losses.  The
  clock is an argument; the two reads of it inside \<open>evaluate_entry\<close> return the same instant.
\<close>

section \<open>State and operations\<close>

record risk_query =
  q_symbol :: string
  q_new_notional :: real
  q_equity :: real
  q_open_positions :: int
  q_positions_on_symbol :: int
  q_symbol_exposures :: "(string, real) pydict"

record risk_check =
  rc_allowed :: bool
  rc_rule :: string
  rc_reason :: msg

definition rc_ok :: risk_check where
  "rc_ok = \<lparr> rc_allowed = True, rc_rule = [], rc_reason = Lit [] \<rparr>"

definition rc_no :: "string \<Rightarrow> msg \<Rightarrow> risk_check" where
  "rc_no rule m = \<lparr> rc_allowed = False, rc_rule = rule, rc_reason = m \<rparr>"

record risk_manager =
  rm_settings :: risk_settings
  rm_initial_balance :: real
  rm_ledger :: "(time \<times> real) list"
  rm_consecutive_losses :: int
  rm_kill_switch :: bool
  rm_kill_reason :: msg
  rm_circuit_breaker :: bool
  rm_circuit_reason :: msg
  rm_circuit_until :: "time option"
  rm_last_drawdown_pct :: real

definition rm_init :: "risk_settings \<Rightarrow> real \<Rightarrow> risk_manager" where
  "rm_init cfg bal = \<lparr> rm_settings = cfg, rm_initial_balance = bal, rm_ledger = [],
     rm_consecutive_losses = 0, rm_kill_switch = False, rm_kill_reason = Lit [],
     rm_circuit_breaker = False, rm_circuit_reason = Lit [], rm_circuit_until = None,
     rm_last_drawdown_pct = 0 \<rparr>"

definition engage_kill_switch :: "msg \<Rightarrow> risk_manager \<Rightarrow> risk_manager" where
  "engage_kill_switch m rm = rm\<lparr> rm_kill_switch := True, rm_kill_reason := m \<rparr>"

definition reset_kill_switch :: "risk_manager \<Rightarrow> risk_manager" where
  "reset_kill_switch rm = rm\<lparr> rm_kill_switch := False, rm_kill_reason := Lit [] \<rparr>"

definition reset_circuit_breaker :: "risk_manager \<Rightarrow> risk_manager" where
  "reset_circuit_breaker rm =
     rm\<lparr> rm_circuit_breaker := False, rm_circuit_reason := Lit [], rm_circuit_until := None \<rparr>"

definition emergency_stop :: "risk_manager \<Rightarrow> risk_manager" where
  "emergency_stop rm = engage_kill_switch (Lit ''emergency_stop'') rm"

definition rm_restore :: "int \<Rightarrow> risk_manager \<Rightarrow> risk_manager" where
  "rm_restore n rm = rm\<lparr> rm_consecutive_losses := max 0 n \<rparr>"

definition check_spread :: "risk_manager \<Rightarrow> real option \<Rightarrow> risk_check" where
  "check_spread rm spread =
     (case spread of None \<Rightarrow> rc_ok
      | Some x \<Rightarrow> if x > rk_max_spread_bps (rm_settings rm)
          then rc_no ''spread_filter'' (Fmt ''spread {} bps > maximo {}''
                 [ArgReal x, ArgReal (rk_max_spread_bps (rm_settings rm))])
          else rc_ok)"

definition check_liquidity :: "risk_manager \<Rightarrow> real option \<Rightarrow> risk_check" where
  "check_liquidity rm volume =
     (let m = rk_min_liquidity (rm_settings rm) in
      case volume of None \<Rightarrow> rc_ok
      | Some v \<Rightarrow> if m > 0 \<and> v < m
          then rc_no ''liquidity_filter'' (Fmt ''liquidez {} < minimo {}'' [ArgReal v, ArgReal m])
          else rc_ok)"

definition refresh_circuit_breaker :: "time \<Rightarrow> risk_manager \<Rightarrow> risk_manager" where
  "refresh_circuit_breaker now rm =
     (case rm_circuit_until rm of
        Some u \<Rightarrow> if rm_circuit_breaker rm \<and> now \<ge> u then reset_circuit_breaker rm else rm
      | None \<Rightarrow> rm)"

definition realized_since :: "risk_manager \<Rightarrow> time \<Rightarrow> real" where
  "realized_since rm since = (\<Sum>(ts, pnl)\<leftarrow>filter (\<lambda>(ts, pnl). ts \<ge> since) (rm_ledger rm). pnl)"

definition loss_limit :: "risk_manager \<Rightarrow> real \<Rightarrow> real" where
  "loss_limit rm pct = - \<bar>rm_initial_balance rm * pct / 100\<bar>"

fun first_period_breach :: "risk_manager \<Rightarrow> (string \<times> real \<times> real) list \<Rightarrow> risk_check option" where
  "first_period_breach rm [] = None"
| "first_period_breach rm ((rule, realized, pct) # cs) =
     (let lmt = loss_limit rm pct in
      if realized \<le> lmt
      then Some (rc_no rule (Fmt ''perdida {} <= limite {} ({}%)'' [ArgReal realized, ArgReal lmt, ArgReal pct]))
      else first_period_breach rm cs)"

definition period_check :: "time \<Rightarrow> risk_manager \<Rightarrow> risk_check option" where
  "period_check now rm =
     (let s = rm_settings rm in first_period_breach rm
       [(''max_daily_loss'', realized_since rm (start_of_day now), rk_max_daily_loss_pct s),
        (''max_weekly_loss'', realized_since rm (start_of_week now), rk_max_weekly_loss_pct s),
        (''max_monthly_loss'', realized_since rm (start_of_month now), rk_max_monthly_loss_pct s)])"

definition group_exposure :: "string list \<Rightarrow> (string, real) pydict \<Rightarrow> real" where
  "group_exposure g exposures =
     (\<Sum>(s, x)\<leftarrow>filter (\<lambda>(s, x). upper s \<in> set (map upper g)) exposures. x)"

definition correlated_exposure :: "risk_manager \<Rightarrow> string \<Rightarrow> risk_query \<Rightarrow> real" where
  "correlated_exposure rm symb q =
     (\<Sum>g\<leftarrow>rk_correlation_groups (rm_settings rm).
        if symb \<in> set (map upper g) then group_exposure g (q_symbol_exposures q) else 0)"

definition exposure_msg :: "string \<Rightarrow> string \<Rightarrow> real \<Rightarrow> real \<Rightarrow> real \<Rightarrow> real \<Rightarrow> msg" where
  "exposure_msg template symb projected lmt pct equity =
     Fmt template [ArgStr symb, ArgReal projected, ArgReal lmt, ArgReal pct, ArgReal equity]"

definition exposure_check :: "risk_manager \<Rightarrow> risk_query \<Rightarrow> risk_check" where
  "exposure_check rm q =
     (let s = rm_settings rm; equity = q_equity q in
      if equity \<le> 0 then rc_no ''insufficient_capital'' (Lit ''equity no positivo'') else
      let projected_total = (\<Sum>x\<leftarrow>pd_values (q_symbol_exposures q). x) + q_new_notional q;
          limit_total = equity * rk_max_exposure_pct s / 100 in
      if projected_total > limit_total
      then rc_no ''max_exposure'' (exposure_msg
             ''exposicion total {} > limite {} ({}% de un equity de {})'' [] projected_total
             limit_total (rk_max_exposure_pct s) equity) else
      let symb = upper (q_symbol q);
          projected_symbol = pd_get_or (q_symbol_exposures q) symb 0 + q_new_notional q;
          limit_symbol = equity * rk_max_symbol_exposure_pct s / 100 in
      if projected_symbol > limit_symbol
      then rc_no ''max_symbol_exposure'' (exposure_msg
             ''exposicion en {} {} > limite {} ({}% de un equity de {})'' symb projected_symbol
             limit_symbol (rk_max_symbol_exposure_pct s) equity) else
      let correlated = correlated_exposure rm symb q + q_new_notional q;
          limit_corr = equity * rk_max_correlation_exposure_pct s / 100 in
      if correlated > limit_corr
      then rc_no ''max_correlation_exposure'' (exposure_msg
             ''exposicion correlacionada {} > limite {} ({}% de un equity de {})'' [] correlated
             limit_corr (rk_max_correlation_exposure_pct s) equity)
      else rc_ok)"

text \<open>\<open>a >= b > 0\<close> of the source reads \<open>a >= b and b > 0\<close>.\<close>

definition evaluate_entry :: "time \<Rightarrow> risk_query \<Rightarrow> risk_manager \<Rightarrow> risk_check \<times> risk_manager" where
  "evaluate_entry now q rm =
     (if rm_kill_switch rm
      then (rc_no ''kill_switch'' (msg_or (rm_kill_reason rm) (Lit ''kill switch activo'')), rm) else
      let s = rm_settings rm; rm1 = refresh_circuit_breaker now rm in
      if rm_circuit_breaker rm1
      then (rc_no ''circuit_breaker'' (msg_or (rm_circuit_reason rm1) (Lit ''circuit breaker'')), rm1) else
      if q_new_notional q \<le> 0
      then (rc_no ''invalid_quantity'' (Lit ''nocional no positivo''), rm1) else
      if rm_consecutive_losses rm1 \<ge> rk_max_consecutive_losses s \<and> rk_max_consecutive_losses s > 0
      then (rc_no ''max_consecutive_losses'' (Fmt ''{} perdidas seguidas >= {}''
              [ArgInt (rm_consecutive_losses rm1), ArgInt (rk_max_consecutive_losses s)]), rm1) else
      if q_open_positions q \<ge> rk_max_open_positions s
      then (rc_no ''max_open_positions'' (Fmt ''{} posiciones >= maximo {}''
              [ArgInt (q_open_positions q), ArgInt (rk_max_open_positions s)]), rm1) else
      if q_positions_on_symbol q \<ge> rk_max_positions_per_symbol s
      then (rc_no ''max_positions_per_symbol'' (Fmt ''{} en {} >= {}''
              [ArgInt (q_positions_on_symbol q), ArgStr (q_symbol q),
               ArgInt (rk_max_positions_per_symbol s)]), rm1) else
      (case period_check now rm1 of
         Some c \<Rightarrow> (c, rm1)
       | None \<Rightarrow> (exposure_check rm1 q, rm1)))"

definition check_circuit_breaker :: "time \<Rightarrow> risk_manager \<Rightarrow> risk_manager" where
  "check_circuit_breaker now rm =
     (let minutes = rk_circuit_breaker_window_minutes (rm_settings rm);
          window = timedelta_minutes minutes;
          realized = (\<Sum>(ts, pnl)\<leftarrow>filter (\<lambda>(ts, pnl). now - ts \<le> window) (rm_ledger rm). pnl);
          lmt = loss_limit rm (rk_circuit_breaker_loss_pct (rm_settings rm))
      in if realized \<le> lmt
         then rm\<lparr> rm_circuit_breaker := True, rm_circuit_until := Some (now + window),
                  rm_circuit_reason := Fmt ''perdida {} en {} min'' [ArgReal realized, ArgReal minutes] \<rparr>
         else rm)"

definition rm_on_trade_closed :: "time \<Rightarrow> real \<Rightarrow> risk_manager \<Rightarrow> risk_manager" where
  "rm_on_trade_closed when net rm =
     (let rm1 = rm\<lparr> rm_ledger := rm_ledger rm @ [(when, net)] \<rparr>;
          rm2 = (if net < 0 then rm1\<lparr> rm_consecutive_losses := rm_consecutive_losses rm + 1 \<rparr>
                 else if net > 0 then rm1\<lparr> rm_consecutive_losses := 0 \<rparr> else rm1)
      in check_circuit_breaker when rm2)"

definition update_equity :: "real \<Rightarrow> risk_manager \<Rightarrow> risk_manager" where
  "update_equity dd rm =
     (let rm1 = rm\<lparr> rm_last_drawdown_pct := dd \<rparr>; lmt = rk_kill_switch_drawdown_pct (rm_settings rm) in
      if dd \<ge> lmt \<and> lmt > 0
      then engage_kill_switch (Fmt ''drawdown {}% >= {}%'' [ArgReal dd, ArgReal lmt]) rm1
      else rm1)"

record risk_status =
  rs_kill_switch :: bool
  rs_kill_reason :: msg
  rs_circuit_breaker :: bool
  rs_circuit_reason :: msg
  rs_consecutive_losses :: int
  rs_drawdown_pct :: real
  rs_realized_today :: real
  rs_limits :: "(string \<times> real) list"

definition rm_status :: "time \<Rightarrow> risk_manager \<Rightarrow> risk_status \<times> risk_manager" where
  "rm_status now rm =
     (let rm1 = refresh_circuit_breaker now rm; s = rm_settings rm in
      (\<lparr> rs_kill_switch = rm_kill_switch rm, rs_kill_reason = rm_kill_reason rm,
         rs_circuit_breaker = rm_circuit_breaker rm1, rs_circuit_reason = rm_circuit_reason rm1,
         rs_consecutive_losses = rm_consecutive_losses rm1,
         rs_drawdown_pct = py_round 4 (rm_last_drawdown_pct rm1),
         rs_realized_today = py_round 4 (realized_since rm1 (start_of_day now)),
         rs_limits = [(''max_risk_per_trade_pct'', rk_max_risk_per_trade_pct s),
           (''max_daily_loss_pct'', rk_max_daily_loss_pct s),
           (''max_open_positions'', of_int (rk_max_open_positions s)),
           (''max_exposure_pct'', rk_max_exposure_pct s),
           (''kill_switch_drawdown_pct'', rk_kill_switch_drawdown_pct s)] \<rparr>, rm1))"

section \<open>Frames\<close>

lemma refresh_frame [simp]:
  "rm_settings (refresh_circuit_breaker now rm) = rm_settings rm"
  "rm_ledger (refresh_circuit_breaker now rm) = rm_ledger rm"
  "rm_initial_balance (refresh_circuit_breaker now rm) = rm_initial_balance rm"
  "rm_consecutive_losses (refresh_circuit_breaker now rm) = rm_consecutive_losses rm"
  "rm_kill_switch (refresh_circuit_breaker now rm) = rm_kill_switch rm"
  "rm_kill_reason (refresh_circuit_breaker now rm) = rm_kill_reason rm"
  by (simp_all add: refresh_circuit_breaker_def reset_circuit_breaker_def split: option.splits)

lemma check_breaker_frame [simp]:
  "rm_settings (check_circuit_breaker now rm) = rm_settings rm"
  "rm_ledger (check_circuit_breaker now rm) = rm_ledger rm"
  "rm_initial_balance (check_circuit_breaker now rm) = rm_initial_balance rm"
  "rm_consecutive_losses (check_circuit_breaker now rm) = rm_consecutive_losses rm"
  "rm_kill_switch (check_circuit_breaker now rm) = rm_kill_switch rm"
  by (simp_all add: check_circuit_breaker_def Let_def)

lemma on_trade_closed_frame [simp]:
  "rm_settings (rm_on_trade_closed w n rm) = rm_settings rm"
  "rm_ledger (rm_on_trade_closed w n rm) = rm_ledger rm @ [(w, n)]"
  "rm_initial_balance (rm_on_trade_closed w n rm) = rm_initial_balance rm"
  "rm_kill_switch (rm_on_trade_closed w n rm) = rm_kill_switch rm"
  "rm_consecutive_losses (rm_on_trade_closed w n rm) =
     (if n < 0 then rm_consecutive_losses rm + 1 else if n > 0 then 0 else rm_consecutive_losses rm)"
  by (simp_all add: rm_on_trade_closed_def Let_def)

definition circuit_open :: "time \<Rightarrow> risk_manager \<Rightarrow> bool" where
  "circuit_open now rm \<longleftrightarrow> rm_circuit_breaker rm
     \<and> (case rm_circuit_until rm of None \<Rightarrow> True | Some u \<Rightarrow> now < u)"

lemma breaker_after_refresh [simp]:
  "rm_circuit_breaker (refresh_circuit_breaker now rm) = circuit_open now rm"
  by (auto simp: refresh_circuit_breaker_def reset_circuit_breaker_def circuit_open_def split: option.splits)

lemma realized_refresh [simp]:
  "realized_since (refresh_circuit_breaker now rm) since = realized_since rm since"
  "loss_limit (refresh_circuit_breaker now rm) pct = loss_limit rm pct"
  by (simp_all add: realized_since_def loss_limit_def)

lemma correlated_refresh [simp]:
  "correlated_exposure (refresh_circuit_breaker now rm) symb q = correlated_exposure rm symb q"
  by (simp add: correlated_exposure_def)

lemma exposure_refresh [simp]: "exposure_check (refresh_circuit_breaker now rm) q = exposure_check rm q"
  by (simp add: exposure_check_def Let_def)

lemma evaluate_state: "snd (evaluate_entry now q rm) = (if rm_kill_switch rm then rm else refresh_circuit_breaker now rm)"
  by (simp add: evaluate_entry_def Let_def split: option.splits)

lemma rc_simps [simp]:
  "rc_allowed rc_ok" "rc_rule rc_ok = []" "\<not> rc_allowed (rc_no r m)" "rc_rule (rc_no r m) = r"
  by (simp_all add: rc_ok_def rc_no_def)

section \<open>The limits as a list of rules\<close>

text \<open>The reference: every rule with the condition under which it is violated, in order.\<close>

definition exposure_rules :: "risk_query \<Rightarrow> risk_manager \<Rightarrow> (string \<times> bool) list" where
  "exposure_rules q rm = (let s = rm_settings rm; e = q_equity q; n = q_new_notional q in
     [(''insufficient_capital'', e \<le> 0),
      (''max_exposure'', (\<Sum>x\<leftarrow>pd_values (q_symbol_exposures q). x) + n > e * rk_max_exposure_pct s / 100),
      (''max_symbol_exposure'',
         pd_get_or (q_symbol_exposures q) (upper (q_symbol q)) 0 + n > e * rk_max_symbol_exposure_pct s / 100),
      (''max_correlation_exposure'',
         correlated_exposure rm (upper (q_symbol q)) q + n > e * rk_max_correlation_exposure_pct s / 100)])"

definition loss_rules :: "time \<Rightarrow> risk_manager \<Rightarrow> (string \<times> bool) list" where
  "loss_rules now rm = (let s = rm_settings rm in
     [(''max_daily_loss'', realized_since rm (start_of_day now) \<le> loss_limit rm (rk_max_daily_loss_pct s)),
      (''max_weekly_loss'', realized_since rm (start_of_week now) \<le> loss_limit rm (rk_max_weekly_loss_pct s)),
      (''max_monthly_loss'', realized_since rm (start_of_month now) \<le> loss_limit rm (rk_max_monthly_loss_pct s))])"

definition count_rules :: "time \<Rightarrow> risk_query \<Rightarrow> risk_manager \<Rightarrow> (string \<times> bool) list" where
  "count_rules now q rm = (let s = rm_settings rm in
     [(''kill_switch'', rm_kill_switch rm), (''circuit_breaker'', circuit_open now rm),
      (''invalid_quantity'', q_new_notional q \<le> 0),
      (''max_consecutive_losses'', 0 < rk_max_consecutive_losses s
          \<and> rk_max_consecutive_losses s \<le> rm_consecutive_losses rm),
      (''max_open_positions'', rk_max_open_positions s \<le> q_open_positions q),
      (''max_positions_per_symbol'', rk_max_positions_per_symbol s \<le> q_positions_on_symbol q)])"

definition entry_rules :: "time \<Rightarrow> risk_query \<Rightarrow> risk_manager \<Rightarrow> (string \<times> bool) list" where
  "entry_rules now q rm = count_rules now q rm @ loss_rules now rm @ exposure_rules q rm"

fun first_violated :: "(string \<times> bool) list \<Rightarrow> string option" where
  "first_violated [] = None"
| "first_violated ((r, v) # rs) = (if v then Some r else first_violated rs)"

definition verdict :: "risk_check \<Rightarrow> string option" where
  "verdict c = (if rc_allowed c then None else Some (rc_rule c))"

lemma verdict_simps [simp]: "verdict rc_ok = None" "verdict (rc_no r m) = Some r"
  by (simp_all add: verdict_def)

lemma first_violated_append:
  "first_violated (xs @ ys) = (case first_violated xs of None \<Rightarrow> first_violated ys | Some r \<Rightarrow> Some r)"
  by (induction xs rule: first_violated.induct) simp_all

lemma first_violated_None: "first_violated rs = None \<longleftrightarrow> (\<forall>(r, v) \<in> set rs. \<not> v)"
  by (induction rs rule: first_violated.induct) auto

lemma exposure_check_rules: "verdict (exposure_check rm q) = first_violated (exposure_rules q rm)"
  by (simp add: exposure_check_def exposure_rules_def Let_def)

lemma period_check_rules: "map_option verdict (period_check now rm) = map_option Some (first_violated (loss_rules now rm))"
  by (simp add: period_check_def loss_rules_def Let_def)

lemma evaluate_entry_verdict:
  "verdict (fst (evaluate_entry now q rm)) = first_violated (entry_rules now q rm)
   \<and> snd (evaluate_entry now q rm) = (if rm_kill_switch rm then rm else refresh_circuit_breaker now rm)"
proof -
  let ?rm = "refresh_circuit_breaker now rm"
  have loss: "loss_rules now ?rm = loss_rules now rm" by (simp add: loss_rules_def)
  have tail: "verdict (case period_check now ?rm of Some c \<Rightarrow> c | None \<Rightarrow> exposure_check ?rm q)
      = first_violated (loss_rules now rm @ exposure_rules q rm)"
    using period_check_rules [of now ?rm]
    by (auto simp: loss first_violated_append exposure_check_rules split: option.splits)
  have "fst (evaluate_entry now q rm) =
     (if rm_kill_switch rm then rc_no ''kill_switch'' (msg_or (rm_kill_reason rm) (Lit ''kill switch activo''))
      else if circuit_open now rm then rc_no ''circuit_breaker'' (msg_or (rm_circuit_reason ?rm) (Lit ''circuit breaker''))
      else if q_new_notional q \<le> 0 then rc_no ''invalid_quantity'' (Lit ''nocional no positivo'')
      else if rm_consecutive_losses rm \<ge> rk_max_consecutive_losses (rm_settings rm)
              \<and> rk_max_consecutive_losses (rm_settings rm) > 0
      then rc_no ''max_consecutive_losses'' (Fmt ''{} perdidas seguidas >= {}''
              [ArgInt (rm_consecutive_losses rm), ArgInt (rk_max_consecutive_losses (rm_settings rm))])
      else if q_open_positions q \<ge> rk_max_open_positions (rm_settings rm)
      then rc_no ''max_open_positions'' (Fmt ''{} posiciones >= maximo {}''
              [ArgInt (q_open_positions q), ArgInt (rk_max_open_positions (rm_settings rm))])
      else if q_positions_on_symbol q \<ge> rk_max_positions_per_symbol (rm_settings rm)
      then rc_no ''max_positions_per_symbol'' (Fmt ''{} en {} >= {}''
              [ArgInt (q_positions_on_symbol q), ArgStr (q_symbol q),
               ArgInt (rk_max_positions_per_symbol (rm_settings rm))])
      else case period_check now ?rm of Some c \<Rightarrow> c | None \<Rightarrow> exposure_check ?rm q)"
    by (simp add: evaluate_entry_def Let_def split: option.splits)
  then have "verdict (fst (evaluate_entry now q rm)) = first_violated (entry_rules now q rm)"
    by (simp only: entry_rules_def count_rules_def Let_def append.simps first_violated.simps
        if_distrib [of verdict] verdict_simps tail conj_commute cong: if_cong)
  then show ?thesis by (simp add: evaluate_state)
qed

lemma allowed_iff: "rc_allowed (fst (evaluate_entry now q rm)) \<longleftrightarrow> first_violated (entry_rules now q rm) = None"
  unfolding conjunct1 [OF evaluate_entry_verdict, symmetric] by (simp add: verdict_def)

text \<open>
  Property C5: an entry is allowed exactly when none of the thirteen limits is violated, and a
  rejection names the first violated one in the documented order; evaluating changes nothing but
  the lapse of an elapsed circuit breaker.
\<close>

theorem evaluate_entry_rules:
  "verdict (fst (evaluate_entry now q rm)) = first_violated (entry_rules now q rm)
   \<and> snd (evaluate_entry now q rm) = (if rm_kill_switch rm then rm else refresh_circuit_breaker now rm)"
  by (rule evaluate_entry_verdict)

section \<open>The kill switch is a latch\<close>

text \<open>Everything that can happen to the risk manager.\<close>

datatype risk_event =
  Entry time risk_query
| Close time real
| Equity real
| Restore int
| Engage msg
| EmergencyStop
| ResetKill
| ResetBreaker

fun risk_apply :: "risk_event \<Rightarrow> risk_manager \<Rightarrow> risk_manager" where
  "risk_apply (Entry now q) rm = snd (evaluate_entry now q rm)"
| "risk_apply (Close t n) rm = rm_on_trade_closed t n rm"
| "risk_apply (Equity dd) rm = update_equity dd rm"
| "risk_apply (Restore n) rm = rm_restore n rm"
| "risk_apply (Engage m) rm = engage_kill_switch m rm"
| "risk_apply EmergencyStop rm = emergency_stop rm"
| "risk_apply ResetKill rm = reset_kill_switch rm"
| "risk_apply ResetBreaker rm = reset_circuit_breaker rm"

lemma kill_update_equity:
  "rm_kill_switch (update_equity dd rm) \<longleftrightarrow> rm_kill_switch rm
     \<or> 0 < rk_kill_switch_drawdown_pct (rm_settings rm) \<and> rk_kill_switch_drawdown_pct (rm_settings rm) \<le> dd"
  by (auto simp: update_equity_def Let_def engage_kill_switch_def)

lemma settings_apply [simp]: "rm_settings (risk_apply e rm) = rm_settings rm"
  by (cases e) (simp_all add: evaluate_state update_equity_def Let_def engage_kill_switch_def
      rm_restore_def emergency_stop_def reset_kill_switch_def reset_circuit_breaker_def)

lemma settings_run [simp]: "rm_settings (fold risk_apply es rm) = rm_settings rm"
  by (induction es arbitrary: rm) simp_all

lemma kill_holds:
  assumes "rm_kill_switch rm" "e \<noteq> ResetKill" shows "rm_kill_switch (risk_apply e rm)"
  using assms by (cases e) (simp_all add: evaluate_state kill_update_equity rm_restore_def
      engage_kill_switch_def emergency_stop_def reset_circuit_breaker_def)

interpretation kill: latch risk_apply rm_kill_switch "\<lambda>e. e = ResetKill"
  by unfold_locales (rule kill_holds)

lemma evaluate_killed: "rm_kill_switch rm \<Longrightarrow> rc_rule (fst (evaluate_entry now q rm)) = ''kill_switch''
   \<and> \<not> rc_allowed (fst (evaluate_entry now q rm)) \<and> snd (evaluate_entry now q rm) = rm"
  by (simp add: evaluate_entry_def)

text \<open>
  Property C6: once the drawdown reaches the configured limit, every entry is rejected by the kill
  switch, whatever entries, closings, recoveries of equity, restores and breaker resets happen in
  between, until somebody releases the switch by hand.
\<close>

theorem drawdown_kill_latches:
  assumes "0 < rk_kill_switch_drawdown_pct (rm_settings rm)"
    and "rk_kill_switch_drawdown_pct (rm_settings rm) \<le> dd"
    and "ResetKill \<notin> set es"
  shows "verdict (fst (evaluate_entry now q (fold risk_apply es (update_equity dd rm)))) = Some ''kill_switch''"
proof -
  have "rm_kill_switch (update_equity dd rm)" using assms(1,2) by (simp add: kill_update_equity)
  then have "rm_kill_switch (fold risk_apply es (update_equity dd rm))"
    by (rule kill.run_holds) (use assms(3) in blast)
  from evaluate_killed [OF this] show ?thesis by (simp add: verdict_def)
qed

definition example_query :: risk_query where
  "example_query = \<lparr> q_symbol = ''BTCUSDT'', q_new_notional = 100, q_equity = 10000, q_open_positions = 0,
     q_positions_on_symbol = 0, q_symbol_exposures = [(''ETHUSDT'', 1000)] \<rparr>"

theorem drawdown_kill_latches_witness:
  "verdict (fst (evaluate_entry 0 example_query (fold risk_apply [Equity 0, Close 0 50]
     (update_equity 25 (rm_init default_risk 10000))))) = Some ''kill_switch''"
  by (rule drawdown_kill_latches) (simp_all add: rm_init_def default_risk_def)

section \<open>The losing streak\<close>

text \<open>Losses since the last winning trade; break-even trades neither count nor reset.\<close>

definition losing_streak :: "real list \<Rightarrow> nat" where
  "losing_streak nets = length (filter (\<lambda>n. n < 0) (takeWhile (\<lambda>n. n \<le> 0) (rev nets)))"

lemma losing_streak_snoc [simp]:
  "losing_streak [] = 0"
  "losing_streak (nets @ [n]) = (if n < 0 then losing_streak nets + 1 else if n > 0 then 0 else losing_streak nets)"
  by (auto simp: losing_streak_def)

lemma streak_run:
  assumes "\<forall>e \<in> set es. \<forall>n. e \<noteq> Restore n" "rm_consecutive_losses rm = int (losing_streak (map snd (rm_ledger rm)))"
  shows "rm_consecutive_losses (fold risk_apply es rm)
     = int (losing_streak (map snd (rm_ledger (fold risk_apply es rm))))"
  using assms
proof (induction es arbitrary: rm)
  case (Cons e es)
  have "rm_consecutive_losses (risk_apply e rm) = int (losing_streak (map snd (rm_ledger (risk_apply e rm))))"
    using Cons.prems by (cases e) (simp_all add: evaluate_state update_equity_def Let_def
        engage_kill_switch_def emergency_stop_def reset_kill_switch_def reset_circuit_breaker_def)
  then show ?case using Cons by simp
qed simp

definition closed_nets :: "risk_event list \<Rightarrow> real list" where
  "closed_nets es = concat (map (\<lambda>e. case e of Close t n \<Rightarrow> [n] | _ \<Rightarrow> []) es)"

lemma ledger_run: "map snd (rm_ledger (fold risk_apply es rm)) = map snd (rm_ledger rm) @ closed_nets es"
proof (induction es arbitrary: rm)
  case (Cons e es)
  have "map snd (rm_ledger (risk_apply e rm)) = map snd (rm_ledger rm) @ closed_nets [e]"
    by (cases e) (simp_all add: closed_nets_def evaluate_state update_equity_def Let_def rm_restore_def
        engage_kill_switch_def emergency_stop_def reset_kill_switch_def reset_circuit_breaker_def)
  then show ?case using Cons by (simp add: closed_nets_def)
qed (simp add: closed_nets_def)

text \<open>
  Over any run from a fresh risk manager the streak is the number of losing trades
  since the last winning one, and once it reaches the positive limit every entry is rejected.
\<close>

theorem streak_counts_losses:
  assumes "\<forall>e \<in> set es. \<forall>n. e \<noteq> Restore n"
  shows "let rm = fold risk_apply es (rm_init cfg bal); k = losing_streak (closed_nets es)
    in rm_consecutive_losses rm = int k
     \<and> (0 < rk_max_consecutive_losses cfg \<and> rk_max_consecutive_losses cfg \<le> int k
          \<longrightarrow> \<not> rc_allowed (fst (evaluate_entry now q rm)))"
proof -
  define rm where "rm = fold risk_apply es (rm_init cfg bal)"
  have k: "rm_consecutive_losses rm = int (losing_streak (closed_nets es))"
    using streak_run [OF assms, of "rm_init cfg bal"] ledger_run [of es "rm_init cfg bal"]
    by (simp add: rm_def rm_init_def)
  have cfg: "rm_settings rm = cfg" by (simp add: rm_def rm_init_def)
  have "\<not> rc_allowed (fst (evaluate_entry now q rm))"
    if "0 < rk_max_consecutive_losses cfg" "rk_max_consecutive_losses cfg \<le> int (losing_streak (closed_nets es))"
  proof -
    have "(''max_consecutive_losses'', True) \<in> set (entry_rules now q rm)"
      using that k cfg by (simp add: entry_rules_def count_rules_def Let_def)
    then have "first_violated (entry_rules now q rm) \<noteq> None" by (auto simp: first_violated_None)
    then show ?thesis by (simp add: allowed_iff)
  qed
  then show ?thesis using k by (simp add: Let_def rm_def [symmetric])
qed

theorem streak_counts_losses_witness:
  "\<not> rc_allowed (fst (evaluate_entry 0 example_query (fold risk_apply
     [Close 0 5, Close 1 (-1), Close 2 (-1), Close 3 0, Close 4 (-1), Close 5 (-1), Close 6 (-1)]
     (rm_init default_risk 10000))))"
proof -
  let ?es = "[Close 0 5, Close 1 (-1), Close 2 (-1), Close 3 0, Close 4 (-1), Close 5 (-1), Close 6 (-1)]"
  have "\<forall>e \<in> set ?es. \<forall>n. e \<noteq> Restore n" by simp
  note streak = streak_counts_losses [OF this, of default_risk 10000 0 example_query, unfolded Let_def]
  have "losing_streak (closed_nets ?es) = 5" by (simp add: closed_nets_def losing_streak_def)
  then show ?thesis using streak by (simp add: default_risk_def)
qed

section \<open>The circuit breaker window\<close>

definition breaker_window :: "risk_settings \<Rightarrow> int" where
  "breaker_window cfg = timedelta_minutes (rk_circuit_breaker_window_minutes cfg)"

definition window_loss :: "time \<Rightarrow> risk_manager \<Rightarrow> real" where
  "window_loss now rm = (\<Sum>(ts, pnl)\<leftarrow>filter (\<lambda>(ts, pnl).
       now - ts \<le> breaker_window (rm_settings rm)) (rm_ledger rm). pnl)"

definition breaker_until :: "risk_settings \<Rightarrow> time \<Rightarrow> risk_manager \<Rightarrow> bool" where
  "breaker_until cfg u rm \<longleftrightarrow> rm_settings rm = cfg \<and> rm_circuit_breaker rm
     \<and> (\<exists>v \<ge> u. rm_circuit_until rm = Some v)"

text \<open>What could end the pause before \<open>u\<close>: a manual reset, or a clock that has reached \<open>u\<close>, or a
  trade reported with a moment from before the tripping one.\<close>

fun breaker_release :: "risk_settings \<Rightarrow> time \<Rightarrow> risk_event \<Rightarrow> bool" where
  "breaker_release cfg u (Entry t q) = (u \<le> t)"
| "breaker_release cfg u (Close t n) = (t + breaker_window cfg < u)"
| "breaker_release cfg u ResetBreaker = True"
| "breaker_release cfg u _ = False"

lemma check_breaker_trip:
  "check_circuit_breaker now rm = (if window_loss now rm \<le> loss_limit rm (rk_circuit_breaker_loss_pct (rm_settings rm))
     then rm\<lparr> rm_circuit_breaker := True, rm_circuit_until := Some (now + breaker_window (rm_settings rm)),
              rm_circuit_reason := Fmt ''perdida {} en {} min'' [ArgReal (window_loss now rm),
                ArgReal (rk_circuit_breaker_window_minutes (rm_settings rm))] \<rparr>
     else rm)"
  by (simp add: check_circuit_breaker_def window_loss_def breaker_window_def Let_def)

lemma breaker_until_evaluate:
  "breaker_until cfg u rm \<Longrightarrow> t < u \<Longrightarrow> breaker_until cfg u (snd (evaluate_entry t q rm))"
  by (auto simp: evaluate_state breaker_until_def refresh_circuit_breaker_def)

lemma breaker_until_close:
  "breaker_until cfg u rm \<Longrightarrow> u \<le> t + breaker_window cfg \<Longrightarrow> breaker_until cfg u (rm_on_trade_closed t n rm)"
  by (auto simp: rm_on_trade_closed_def Let_def check_breaker_trip breaker_until_def)

interpretation breaker: latch risk_apply "breaker_until cfg u" "breaker_release cfg u" for cfg u
proof
  fix rm e assume "breaker_until cfg u rm" "\<not> breaker_release cfg u e"
  then show "breaker_until cfg u (risk_apply e rm)"
    by (cases e) (auto simp: breaker_until_evaluate breaker_until_close, auto simp: breaker_until_def
        update_equity_def Let_def rm_restore_def engage_kill_switch_def emergency_stop_def reset_kill_switch_def)
qed

text \<open>
  When the results of the window ending at a closing add up to the loss limit or worse,
  no entry is allowed before the window has passed again, whatever else happens short of a manual
  reset; and at the end of the pause the breaker no longer blocks.
\<close>

theorem breaker_pauses_window:
  assumes "rm' = rm_on_trade_closed t n rm"
    and "window_loss t rm' \<le> loss_limit rm (rk_circuit_breaker_loss_pct (rm_settings rm))"
    and "\<forall>e \<in> set es. \<not> breaker_release (rm_settings rm) (t + breaker_window (rm_settings rm)) e"
    and "now < t + breaker_window (rm_settings rm)"
  shows "\<not> rc_allowed (fst (evaluate_entry now q (fold risk_apply es rm')))
    \<and> (\<forall>later \<ge> t + breaker_window (rm_settings rm). \<not> circuit_open later rm')"
proof -
  let ?cfg = "rm_settings rm" and ?u = "t + breaker_window (rm_settings rm)"
  have trip: "rm_circuit_breaker rm' \<and> rm_circuit_until rm' = Some ?u \<and> rm_settings rm' = ?cfg"
    using assms(2) unfolding assms(1) rm_on_trade_closed_def Let_def check_breaker_trip
    by (auto simp: window_loss_def loss_limit_def)
  then have "breaker_until ?cfg ?u rm'" by (simp add: breaker_until_def)
  then have until: "breaker_until ?cfg ?u (fold risk_apply es rm')"
    by (rule breaker.run_holds) (rule assms(3))
  then have "circuit_open now (fold risk_apply es rm')"
    using assms(4) by (auto simp: breaker_until_def circuit_open_def)
  then have "first_violated (entry_rules now q (fold risk_apply es rm')) \<noteq> None"
    by (simp add: entry_rules_def count_rules_def Let_def)
  then have "\<not> rc_allowed (fst (evaluate_entry now q (fold risk_apply es rm')))" by (simp add: allowed_iff)
  then show ?thesis using trip by (simp add: circuit_open_def)
qed

theorem breaker_pauses_window_witness:
  "\<not> rc_allowed (fst (evaluate_entry 60000000 example_query
     (fold risk_apply [Close 1 30] (rm_on_trade_closed 0 (-600) (rm_init default_risk 10000)))))"
proof -
  let ?rm = "rm_init default_risk 10000"
  have w: "breaker_window (rm_settings ?rm) = 900000000"
    by (simp add: breaker_window_def rm_init_def default_risk_def timedelta_minutes_def minute_us_def round_half_even_def)
  have "window_loss 0 (rm_on_trade_closed 0 (-600) ?rm)
      \<le> loss_limit ?rm (rk_circuit_breaker_loss_pct (rm_settings ?rm))"
    by (simp add: window_loss_def loss_limit_def rm_init_def default_risk_def breaker_window_def timedelta_minutes_def minute_us_def round_half_even_def)
  then show ?thesis
    using breaker_pauses_window [of _ 0 "-600" ?rm "[Close 1 30]" 60000000 example_query, OF refl] w
    by (simp add: rm_init_def)
qed

section \<open>Exposure\<close>

lemma group_exposure_nonneg:
  assumes "\<forall>(s, x) \<in> set exposures. 0 \<le> x" shows "0 \<le> group_exposure g exposures"
  unfolding group_exposure_def using assms by (intro sum_list_nonneg_map) auto

lemma correlated_covers_group:
  assumes "\<forall>(s, x) \<in> set (q_symbol_exposures q). 0 \<le> x"
    and "g \<in> set (rk_correlation_groups (rm_settings rm))" "symb \<in> set (map upper g)"
  shows "group_exposure g (q_symbol_exposures q) \<le> correlated_exposure rm symb q"
proof -
  let ?f = "\<lambda>g. if symb \<in> set (map upper g) then group_exposure g (q_symbol_exposures q) else 0"
  have "?f g = group_exposure g (q_symbol_exposures q)" using assms(3) by simp
  moreover have "?f g \<le> (\<Sum>g\<leftarrow>rk_correlation_groups (rm_settings rm). ?f g)"
    by (rule sum_list_member_le [OF _ assms(2)]) (simp add: group_exposure_nonneg [OF assms(1)])
  ultimately show ?thesis by (simp only: correlated_exposure_def)
qed

text \<open>
  Property C7: an allowed entry has a positive notional and equity and keeps the exposure limits: with
  it the total exposure, the exposure of its symbol and the exposure of every correlation group the
  symbol belongs to stay within their share of the equity, and the position counts stay within theirs.
\<close>

theorem allowed_entry_within_limits:
  assumes "rc_allowed (fst (evaluate_entry now q rm))" "\<forall>(s, x) \<in> set (q_symbol_exposures q). 0 \<le> x"
  shows "0 < q_new_notional q \<and> 0 < q_equity q
    \<and> q_open_positions q + 1 \<le> rk_max_open_positions (rm_settings rm)
    \<and> q_positions_on_symbol q + 1 \<le> rk_max_positions_per_symbol (rm_settings rm)
    \<and> (\<Sum>x\<leftarrow>pd_values (q_symbol_exposures q). x) + q_new_notional q
        \<le> q_equity q * rk_max_exposure_pct (rm_settings rm) / 100
    \<and> pd_get_or (q_symbol_exposures q) (upper (q_symbol q)) 0 + q_new_notional q
        \<le> q_equity q * rk_max_symbol_exposure_pct (rm_settings rm) / 100
    \<and> (\<forall>g \<in> set (rk_correlation_groups (rm_settings rm)). upper (q_symbol q) \<in> set (map upper g) \<longrightarrow>
        group_exposure g (q_symbol_exposures q) + q_new_notional q
        \<le> q_equity q * rk_max_correlation_exposure_pct (rm_settings rm) / 100)"
proof -
  have "first_violated (entry_rules now q rm) = None" using assms(1) by (simp add: allowed_iff)
  note rules = this [unfolded first_violated_None entry_rules_def count_rules_def exposure_rules_def Let_def, simplified]
  have "group_exposure g (q_symbol_exposures q) + q_new_notional q
        \<le> q_equity q * rk_max_correlation_exposure_pct (rm_settings rm) / 100"
    if "g \<in> set (rk_correlation_groups (rm_settings rm))" "upper (q_symbol q) \<in> set (map upper g)" for g
    using correlated_covers_group [OF assms(2) that] rules by linarith
  then show ?thesis using rules by auto
qed

theorem allowed_entry_within_limits_witness:
  "let rm = rm_init (default_risk\<lparr> rk_correlation_groups := [[''BTCUSDT'', ''ETHUSDT'']] \<rparr>) 10000
   in rc_allowed (fst (evaluate_entry 0 example_query rm))
     \<and> group_exposure [''BTCUSDT'', ''ETHUSDT''] (q_symbol_exposures example_query) + 100 \<le> 6000"
proof -
  let ?rm = "rm_init (default_risk\<lparr> rk_correlation_groups := [[''BTCUSDT'', ''ETHUSDT'']] \<rparr>) 10000"
  have "first_violated (entry_rules 0 example_query ?rm) = None"
    by (simp add: entry_rules_def count_rules_def loss_rules_def exposure_rules_def Let_def example_query_def
        circuit_open_def loss_limit_def realized_since_def rm_init_def default_risk_def pd_values_def
        pd_get_or_def pd_get_def correlated_exposure_def group_exposure_def upper_def upper_char_def)
  then have ok: "rc_allowed (fst (evaluate_entry 0 example_query ?rm))" by (simp add: allowed_iff)
  have "\<forall>(s, x) \<in> set (q_symbol_exposures example_query). 0 \<le> x" by (simp add: example_query_def)
  note limits = allowed_entry_within_limits [OF ok this]
  let ?g = "[''BTCUSDT'', ''ETHUSDT'']"
  have "?g \<in> set (rk_correlation_groups (rm_settings ?rm))" by (simp add: rm_init_def)
  moreover have "upper (q_symbol example_query) \<in> set (map upper ?g)" by (simp add: example_query_def)
  ultimately have "group_exposure ?g (q_symbol_exposures example_query) + q_new_notional example_query
      \<le> q_equity example_query * rk_max_correlation_exposure_pct (rm_settings ?rm) / 100"
    using limits by blast
  moreover have "q_new_notional example_query = 100" "q_equity example_query = 10000"
      "rk_max_correlation_exposure_pct (rm_settings ?rm) = 60"
    by (simp_all add: example_query_def rm_init_def default_risk_def)
  ultimately show ?thesis using ok by (simp add: Let_def)
qed

end
