(* ===== verification/Trade_Codec.thy ===== *)
theory Trade_Codec
  imports Exec_Models
begin

text \<open>
  The journal's line format: \<open>TradeRecord.to_dict\<close> and its inverse \<open>TradeRecord.from_dict\<close>.  The
  derived entries \<open>duration_seconds\<close> and \<open>is_win\<close> are written and ignored when reading; a missing
  mandatory key, an unknown enumeration value or an unreadable instant is an error value.
\<close>

definition trade_to_dict :: "trade_record \<Rightarrow> json_dict" where
  "trade_to_dict t =
     [(''trade_id'', JStr (t_trade_id t)),
      (''position_id'', JStr (t_position_id t)),
      (''symbol'', JStr (t_symbol t)),
      (''side'', JStr (side_value (t_side t))),
      (''quantity'', JNum (t_quantity t)),
      (''entry_time'', JStr (iso (t_entry_time t))),
      (''exit_time'', JStr (iso (t_exit_time t))),
      (''duration_seconds'', JNum (duration_seconds t)),
      (''entry_price'', JNum (t_entry_price t)),
      (''exit_price'', JNum (t_exit_price t)),
      (''stop_loss'', json_opt (t_stop_loss t)),
      (''take_profit'', json_opt (t_take_profit t)),
      (''commission'', JNum (t_commission t)),
      (''slippage_bps'', JNum (t_slippage_bps t)),
      (''spread_bps'', JNum (t_spread_bps t)),
      (''pnl'', JNum (t_pnl t)),
      (''pnl_gross'', JNum (t_pnl_gross t)),
      (''r_multiple'', JNum (t_r_multiple t)),
      (''return_pct'', JNum (t_return_pct t)),
      (''is_win'', JBool (is_win t)),
      (''atr'', json_opt (t_atr t)),
      (''volatility'', JStr (t_volatility t)),
      (''regime'', JStr (t_regime t)),
      (''score'', JNum (t_score t)),
      (''confidence'', JNum (t_confidence t)),
      (''exit_reason'', JStr (exit_value (t_exit_reason t))),
      (''entry_reasons'', JList (t_entry_reasons t)),
      (''exit_reasons'', JList (t_exit_reasons t)),
      (''decision_id'', t_decision_id t),
      (''context_snapshot'', JObj (t_context_snapshot t)),
      (''recorded_at'', JStr (iso (t_recorded_at t)))]"

definition trade_from_dict :: "pylib \<Rightarrow> json_dict \<Rightarrow> py_error + trade_record" where
  "trade_from_dict L d =
     ebind (ebind (jitem d ''trade_id'') (\<lambda>j. Inr (py_str L j))) (\<lambda>x0.
     ebind (ebind (jitem d ''position_id'') (\<lambda>j. Inr (py_str L j))) (\<lambda>x1.
     ebind (ebind (jitem d ''symbol'') (\<lambda>j. Inr (py_str L j))) (\<lambda>x2.
     ebind (ebind (jitem d ''side'') (\<lambda>j. case j of JStr s \<Rightarrow> parse_side s | _ \<Rightarrow> Inl ValueError)) (\<lambda>x3.
     ebind (ebind (jitem d ''quantity'') (py_float L)) (\<lambda>x4.
     ebind (ebind (jitem d ''entry_time'') (\<lambda>j. py_fromiso L (py_str L j))) (\<lambda>x5.
     ebind (ebind (jitem d ''exit_time'') (\<lambda>j. py_fromiso L (py_str L j))) (\<lambda>x6.
     ebind (ebind (jitem d ''entry_price'') (py_float L)) (\<lambda>x7.
     ebind (ebind (jitem d ''exit_price'') (py_float L)) (\<lambda>x8.
     ebind (opt_float L (jget d ''stop_loss'' JNull)) (\<lambda>x9.
     ebind (opt_float L (jget d ''take_profit'' JNull)) (\<lambda>x10.
     ebind (py_float L (jget d ''commission'' (JNum 0))) (\<lambda>x11.
     ebind (py_float L (jget d ''slippage_bps'' (JNum 0))) (\<lambda>x12.
     ebind (py_float L (jget d ''spread_bps'' (JNum 0))) (\<lambda>x13.
     ebind (py_float L (jget d ''pnl'' (JNum 0))) (\<lambda>x14.
     ebind (py_float L (jget d ''pnl_gross'' (JNum 0))) (\<lambda>x15.
     ebind (py_float L (jget d ''r_multiple'' (JNum 0))) (\<lambda>x16.
     ebind (py_float L (jget d ''return_pct'' (JNum 0))) (\<lambda>x17.
     ebind (opt_float L (jget d ''atr'' JNull)) (\<lambda>x18.
     ebind (Inr (py_str L (jget d ''volatility'' (JStr ''normal'')))) (\<lambda>x19.
     ebind (Inr (py_str L (jget d ''regime'' (JStr ''unknown'')))) (\<lambda>x20.
     ebind (py_float L (jget d ''score'' (JNum 0))) (\<lambda>x21.
     ebind (py_float L (jget d ''confidence'' (JNum 0))) (\<lambda>x22.
     ebind ((case jget d ''exit_reason'' (JStr ''manual'') of JStr s \<Rightarrow> parse_exit s | _ \<Rightarrow> Inl ValueError)) (\<lambda>x23.
     ebind (py_tuple (jget d ''entry_reasons'' (JList []))) (\<lambda>x24.
     ebind (py_tuple (jget d ''exit_reasons'' (JList []))) (\<lambda>x25.
     ebind (Inr (jget d ''decision_id'' JNull)) (\<lambda>x26.
     ebind (py_dict_of L (jget d ''context_snapshot'' (JObj []))) (\<lambda>x27.
     ebind (ebind (jitem d ''recorded_at'') (\<lambda>j. py_fromiso L (py_str L j))) (\<lambda>x28.
     Inr \<lparr> t_trade_id = x0, t_position_id = x1, t_symbol = x2,
         t_side = x3, t_quantity = x4, t_entry_time = x5,
         t_exit_time = x6, t_entry_price = x7, t_exit_price = x8,
         t_stop_loss = x9, t_take_profit = x10, t_commission = x11,
         t_slippage_bps = x12, t_spread_bps = x13, t_pnl = x14,
         t_pnl_gross = x15, t_r_multiple = x16, t_return_pct = x17,
         t_atr = x18, t_volatility = x19, t_regime = x20,
         t_score = x21, t_confidence = x22, t_exit_reason = x23,
         t_entry_reasons = x24, t_exit_reasons = x25, t_decision_id = x26,
         t_context_snapshot = x27, t_recorded_at = x28 \<rparr>)))))))))))))))))))))))))))))"

text \<open>The instants of a record lie in the years \<open>datetime\<close> supports.\<close>

definition wf_trade_times :: "trade_record \<Rightarrow> bool" where
  "wf_trade_times t \<longleftrightarrow> wf_time (t_entry_time t) \<and> wf_time (t_exit_time t) \<and> wf_time (t_recorded_at t)"

definition mandatory_keys :: "string list" where
  "mandatory_keys = [''trade_id'', ''position_id'', ''symbol'', ''side'', ''quantity'', ''entry_time'',
     ''exit_time'', ''entry_price'', ''exit_price'', ''recorded_at'']"

lemma trade_codec_inverse:
  assumes "wf_trade_times t"
  shows "trade_from_dict L (trade_to_dict t) = Inr t"
  using assms
  by (simp add: trade_from_dict_def trade_to_dict_def wf_trade_times_def json_lookup py_tuple_def
      py_dict_of_def)

lemma jitem_missing: "k \<notin> set (pd_keys d) \<Longrightarrow> jitem d k = Inl (KeyError k)"
  by (simp add: jitem_def pd_get_in_keys [symmetric])

text \<open>A dictionary that lacks one of the mandatory keys is never read as a trade.\<close>

lemma trade_missing_key:
  assumes "k \<in> set mandatory_keys" "k \<notin> set (pd_keys d)"
  shows "trade_from_dict L d \<noteq> Inr t"
proof
  assume "trade_from_dict L d = Inr t"
  then have "\<exists>j. jitem d k = Inr j"
    using assms(1) unfolding trade_from_dict_def mandatory_keys_def
    by (auto simp: ebind_Inr_iff)
  with jitem_missing [OF assms(2)] show False by simp
qed

end
