(* ===== verification/Journal.thy ===== *)
theory Journal
  imports Trade_Codec
begin

text \<open>
  \<open>TradeJournal\<close>: the append-only ledger of closed trades, in memory (bounded) and on disk (JSON
  Lines).  A line of the disk is kept as the JSON value it holds; a line that is not JSON and an
  empty line are cases of their own.  A process that died while writing leaves a last line without its newline (\<open>tf_torn\<close>):
  what is appended next is glued to it.  A file may also hold bytes that are not UTF-8 (\<open>tf_decodes\<close>); reading it raises
  \<open>UnicodeDecodeError\<close>, a \<open>ValueError\<close>, outside of the loop body that catches those.  Whether a disk operation raises
  \<open>OSError\<close> is an argument; a write that raises leaves the file as it was.
\<close>

section \<open>State and operations\<close>

datatype json_line = BlankLine | BadLine | JsonLine json

record text_file =
  tf_lines :: "json_line list"
  tf_torn :: bool
  tf_decodes :: bool

text \<open>\<open>None\<close>: the file does not exist.\<close>

type_synonym journal_disk = "text_file option"

definition clean_file :: "json_line list \<Rightarrow> text_file" where
  "clean_file ls = \<lparr> tf_lines = ls, tf_torn = False, tf_decodes = True \<rparr>"

record journal =
  jn_has_path :: bool
  jn_persist :: bool
  jn_limit :: nat
  jn_trades :: "trade_record list"

definition jn_init :: "bool \<Rightarrow> nat \<Rightarrow> bool \<Rightarrow> journal" where
  "jn_init has_path lmt persist = \<lparr> jn_has_path = has_path, jn_persist = (persist \<and> has_path),
     jn_limit = lmt, jn_trades = [] \<rparr>"

text \<open>A JSON object written behind anything but white space is not JSON any more.\<close>

fun glued :: "json_line \<Rightarrow> json_line \<Rightarrow> json_line" where
  "glued BlankLine l = l"
| "glued BadLine l = BadLine"
| "glued (JsonLine j) l = BadLine"

definition append_line :: "json_line \<Rightarrow> journal_disk \<Rightarrow> journal_disk" where
  "append_line l disk = Some (case disk of
       None \<Rightarrow> clean_file [l]
     | Some f \<Rightarrow> if tf_torn f \<and> tf_lines f \<noteq> []
         then f\<lparr> tf_lines := butlast (tf_lines f) @ [glued (last (tf_lines f)) l], tf_torn := False \<rparr>
         else f\<lparr> tf_lines := tf_lines f @ [l], tf_torn := False \<rparr>)"

definition jn_record :: "bool \<Rightarrow> trade_record \<Rightarrow> journal \<times> journal_disk \<Rightarrow> journal \<times> journal_disk" where
  "jn_record io_ok t s =
     (case s of (jn, disk) \<Rightarrow>
        (jn\<lparr> jn_trades := deque_append (jn_limit jn) t (jn_trades jn) \<rparr>,
         if jn_persist jn \<and> jn_has_path jn \<and> io_ok
         then append_line (JsonLine (JObj (trade_to_dict t))) disk else disk))"

definition jn_count :: "journal \<Rightarrow> nat" where
  "jn_count jn = length (jn_trades jn)"

definition jn_restore :: "trade_record list \<Rightarrow> journal \<Rightarrow> nat \<times> journal" where
  "jn_restore ts jn = (length ts, jn\<lparr> jn_trades := fold (deque_append (jn_limit jn)) ts (jn_trades jn) \<rparr>)"

text \<open>What \<open>except (ValueError, KeyError, TypeError)\<close> catches.\<close>

definition caught :: "py_error \<Rightarrow> bool" where
  "caught e = (case e of KeyError k \<Rightarrow> True | ValueError \<Rightarrow> True | TypeError \<Rightarrow> True | _ \<Rightarrow> False)"

text \<open>One line of the disk: no trade when it is skipped, an error when its decoding raises what the loop does not catch.\<close>

definition line_trade :: "pylib \<Rightarrow> json_line \<Rightarrow> py_error + trade_record option" where
  "line_trade L l = (case l of
       BlankLine \<Rightarrow> Inr None
     | BadLine \<Rightarrow> Inr None
     | JsonLine (JObj d) \<Rightarrow> (case trade_from_dict L d of Inl e \<Rightarrow> if caught e then Inr None else Inl e | Inr t \<Rightarrow> Inr (Some t))
     | JsonLine j \<Rightarrow> Inr None)"

fun readable :: "pylib \<Rightarrow> json_line list \<Rightarrow> py_error + trade_record list" where
  "readable L [] = Inr []"
| "readable L (l # ls) = ebind (line_trade L l) (\<lambda>t. ebind (readable L ls) (\<lambda>ts. Inr (case t of None \<Rightarrow> ts | Some t \<Rightarrow> t # ts)))"

definition read_trades :: "pylib \<Rightarrow> text_file \<Rightarrow> py_error + trade_record list" where
  "read_trades L f = (if tf_decodes f then readable L (tf_lines f) else Inl ValueError)"

definition jn_load_from_disk :: "pylib \<Rightarrow> bool \<Rightarrow> journal_disk \<Rightarrow> journal \<Rightarrow> py_error + nat \<times> journal" where
  "jn_load_from_disk L io_ok disk jn =
     (if jn_trades jn \<noteq> [] \<or> \<not> jn_has_path jn then Inr (0, jn)
      else (case disk of None \<Rightarrow> Inr (0, jn)
            | Some f \<Rightarrow> if io_ok then ebind (read_trades L f) (\<lambda>ts. Inr (jn_restore ts jn)) else Inr (0, jn)))"

definition jn_all :: "journal \<Rightarrow> trade_record list" where
  "jn_all jn = jn_trades jn"

definition jn_recent :: "int \<Rightarrow> journal \<Rightarrow> trade_record list" where
  "jn_recent lmt jn = py_tail lmt (jn_trades jn)"

definition jn_for_symbol :: "string \<Rightarrow> journal \<Rightarrow> trade_record list" where
  "jn_for_symbol symb jn = filter (\<lambda>t. t_symbol t = upper symb) (jn_trades jn)"

section \<open>Lemmas\<close>

lemma readable_append: "readable L (xs @ ys) = ebind (readable L xs) (\<lambda>a. ebind (readable L ys) (\<lambda>b. Inr (a @ b)))"
proof (induction xs)
  case Nil
  then show ?case by (cases "readable L ys") simp_all
next
  case (Cons l ls)
  then show ?case by (cases "line_trade L l"; cases "readable L ls"; cases "readable L ys") (simp_all split: option.split)
qed

lemma line_trade_written [simp]:
  "wf_trade_times t \<Longrightarrow> line_trade L (JsonLine (JObj (trade_to_dict t))) = Inr (Some t)"
  by (simp add: line_trade_def trade_codec_inverse)

definition disk_lines :: "journal_disk \<Rightarrow> json_line list" where
  "disk_lines disk = (case disk of None \<Rightarrow> [] | Some f \<Rightarrow> tf_lines f)"

definition disk_torn :: "journal_disk \<Rightarrow> bool" where
  "disk_torn disk = (case disk of None \<Rightarrow> False | Some f \<Rightarrow> tf_torn f \<and> tf_lines f \<noteq> [])"

definition disk_decodes :: "journal_disk \<Rightarrow> bool" where
  "disk_decodes disk = (case disk of None \<Rightarrow> True | Some f \<Rightarrow> tf_decodes f)"

text \<open>The lines an append cannot touch, and whether the file swallows what is appended next.\<close>

definition disk_kept :: "journal_disk \<Rightarrow> json_line list" where
  "disk_kept disk = (if disk_torn disk then butlast (disk_lines disk) else disk_lines disk)"

definition swallows :: "journal_disk \<Rightarrow> bool" where
  "swallows disk \<longleftrightarrow> disk_torn disk \<and> last (disk_lines disk) \<noteq> BlankLine"

lemma glued_alt: "glued l l' = (if l = BlankLine then l' else BadLine)"
  by (cases l) simp_all

lemma disk_append [simp]:
  "disk_lines (append_line l disk) = disk_kept disk @ [if swallows disk then BadLine else l]"
  "disk_torn (append_line l disk) = False" "disk_decodes (append_line l disk) = disk_decodes disk"
  by (auto simp: append_line_def disk_lines_def disk_torn_def disk_decodes_def disk_kept_def swallows_def glued_alt clean_file_def
      split: option.split)

lemma disk_kept_append [simp]: "disk_kept (append_line l disk) = disk_kept disk @ [if swallows disk then BadLine else l]"
  "swallows (append_line l disk) = False"
  by (simp_all add: disk_kept_def [of "append_line l disk"] swallows_def [of "append_line l disk"])

lemma not_torn [simp]: "\<not> disk_torn disk \<Longrightarrow> disk_kept disk = disk_lines disk" "\<not> disk_torn disk \<Longrightarrow> \<not> swallows disk"
  by (simp_all add: disk_kept_def swallows_def)

lemma clean_disk [simp]: "disk_lines (Some (clean_file ls)) = ls" "\<not> disk_torn (Some (clean_file ls))" "disk_decodes (Some (clean_file ls))"
  "disk_lines None = []" "\<not> disk_torn None" "disk_decodes None"
  by (simp_all add: disk_lines_def disk_torn_def disk_decodes_def clean_file_def)

lemma deque_bounded: "length (deque_append n x xs) \<le> n"
  by (simp add: deque_append_def)

text \<open>What is read of the disk after writing: the first trade written is lost when the file swallows it.\<close>

definition survivors :: "journal_disk \<Rightarrow> 'a list \<Rightarrow> 'a list" where
  "survivors disk ts = (if swallows disk then drop 1 ts else ts)"

lemma readable_written:
  "\<forall>t \<in> set ts. wf_trade_times t \<Longrightarrow> readable L (map (\<lambda>t. JsonLine (JObj (trade_to_dict t))) ts) = Inr ts"
  by (induction ts) simp_all

lemma record_run:
  assumes "fold (jn_record True) ts (jn, disk) = (jn', disk')" "jn_persist jn" "jn_has_path jn" "\<not> disk_torn disk"
  shows "disk_lines disk' = disk_lines disk @ map (\<lambda>t. JsonLine (JObj (trade_to_dict t))) ts
    \<and> disk_decodes disk' = disk_decodes disk"
  using assms
proof (induction ts arbitrary: jn disk)
  case (Cons t ts)
  let ?jn = "jn\<lparr> jn_trades := deque_append (jn_limit jn) t (jn_trades jn) \<rparr>"
  let ?disk = "append_line (JsonLine (JObj (trade_to_dict t))) disk"
  have "jn_record True t (jn, disk) = (?jn, ?disk)" using Cons.prems(2,3) by (simp add: jn_record_def)
  then have run: "fold (jn_record True) ts (?jn, ?disk) = (jn', disk')"
    using Cons.prems(1) by simp
  from Cons.IH [OF run] Cons.prems(2-4) show ?case by simp
qed simp

lemma written_read:
  assumes "fold (jn_record True) ts (jn, disk) = (jn', disk')" "jn_persist jn" "jn_has_path jn" "ts \<noteq> []"
    and "\<forall>t \<in> set ts. wf_trade_times t"
  shows "readable L (disk_lines disk') = ebind (readable L (disk_kept disk)) (\<lambda>old. Inr (old @ survivors disk ts))
    \<and> disk_decodes disk' = disk_decodes disk \<and> disk' \<noteq> None"
proof -
  obtain t us where ts: "ts = t # us" using assms(4) by (cases ts) auto
  let ?jn = "jn\<lparr> jn_trades := deque_append (jn_limit jn) t (jn_trades jn) \<rparr>"
  let ?line = "\<lambda>t. JsonLine (JObj (trade_to_dict t))"
  have "jn_record True t (jn, disk) = (?jn, append_line (?line t) disk)" using assms(2,3) by (simp add: jn_record_def)
  then have "fold (jn_record True) us (?jn, append_line (?line t) disk) = (jn', disk')" using assms(1) by (simp add: ts)
  from record_run [OF this] assms(2,3) have lines: "disk_lines disk' = disk_kept disk @ [if swallows disk then BadLine else ?line t] @ map ?line us"
      and dec: "disk_decodes disk' = disk_decodes disk" by simp_all
  have "readable L ([if swallows disk then BadLine else ?line t] @ map ?line us) = Inr (survivors disk ts)"
    using readable_written [of us L] assms(5) by (simp add: ts survivors_def line_trade_def [of L BadLine])
  moreover have "disk' \<noteq> None" using lines by (auto simp: disk_lines_def split: option.splits)
  ultimately show ?thesis using lines dec by (simp add: readable_append)
qed

section \<open>Properties\<close>


definition example_trade :: "string \<Rightarrow> real \<Rightarrow> trade_record" where
  "example_trade tid pnl = \<lparr> t_trade_id = tid, t_position_id = ''p1'', t_symbol = ''BTCUSDT'', t_side = LONG,
     t_quantity = 1, t_entry_time = 0, t_exit_time = 60000000, t_entry_price = 100, t_exit_price = 100 + pnl,
     t_stop_loss = Some 99, t_take_profit = None, t_commission = 0, t_slippage_bps = 0, t_spread_bps = 0,
     t_pnl = pnl, t_pnl_gross = pnl, t_r_multiple = pnl, t_return_pct = pnl, t_atr = None,
     t_volatility = ''normal'', t_regime = ''trending'', t_score = 0, t_confidence = 0,
     t_exit_reason = EX_MANUAL, t_entry_reasons = [], t_exit_reasons = [], t_decision_id = JNull,
     t_context_snapshot = [], t_recorded_at = 60000000 \<rparr>"

lemma example_trade_wf [simp]: "wf_trade_times (example_trade tid pnl)"
proof -
  have "wf_time 0" "wf_time 60000000" by code_simp+
  then show ?thesis by (simp add: wf_trade_times_def example_trade_def)
qed


end
