(* ===== verification/Performance.thy ===== *)
theory Performance
  imports Exec_Models "HOL-Library.Multiset"
begin

text \<open>
  \<open>PerformanceEngine\<close>: the metrics of a set of closed trades.  \<open>sorted\<close> is stable, as \<open>sort_key\<close> is;
  the loops of the source are folds over their local variables.
\<close>

section \<open>The report\<close>

record performance_report =
  pr_total_trades :: nat
  pr_wins :: nat
  pr_losses :: nat
  pr_win_rate :: real
  pr_loss_rate :: real
  pr_net_profit :: real
  pr_gross_profit :: real
  pr_gross_loss :: real
  pr_profit_factor :: real
  pr_expectancy :: real
  pr_expectancy_r :: real
  pr_average_win :: real
  pr_average_loss :: real
  pr_risk_reward :: real
  pr_largest_win :: real
  pr_largest_loss :: real
  pr_max_drawdown :: real
  pr_max_drawdown_pct :: real
  pr_sharpe :: real
  pr_sortino :: real
  pr_calmar :: real
  pr_ulcer_index :: real
  pr_recovery_factor :: real
  pr_average_holding_seconds :: real
  pr_trades_per_day :: real
  pr_trades_by_session :: "(string, nat) pydict"

definition empty_report :: performance_report where
  "empty_report = \<lparr> pr_total_trades = 0, pr_wins = 0, pr_losses = 0, pr_win_rate = 0, pr_loss_rate = 0,
     pr_net_profit = 0, pr_gross_profit = 0, pr_gross_loss = 0, pr_profit_factor = 0, pr_expectancy = 0,
     pr_expectancy_r = 0, pr_average_win = 0, pr_average_loss = 0, pr_risk_reward = 0, pr_largest_win = 0,
     pr_largest_loss = 0, pr_max_drawdown = 0, pr_max_drawdown_pct = 0, pr_sharpe = 0, pr_sortino = 0,
     pr_calmar = 0, pr_ulcer_index = 0, pr_recovery_factor = 0, pr_average_holding_seconds = 0,
     pr_trades_per_day = 0, pr_trades_by_session = [] \<rparr>"

definition engine_balance :: "real \<Rightarrow> real" where
  "engine_balance initial = max (1 / 10 ^ 9) initial"

text \<open>The variables of the drawdown loop.\<close>

record drawdown_state =
  dd_equity :: real
  dd_peak :: real
  dd_max :: real
  dd_max_pct :: real
  dd_squared :: real

definition dd_init :: "real \<Rightarrow> drawdown_state" where
  "dd_init bal = \<lparr> dd_equity = bal, dd_peak = bal, dd_max = 0, dd_max_pct = 0, dd_squared = 0 \<rparr>"

definition dd_step :: "real \<Rightarrow> drawdown_state \<Rightarrow> drawdown_state" where
  "dd_step pnl s =
     (let equity = dd_equity s + pnl;
          peak = max (dd_peak s) equity;
          drawdown = peak - equity;
          pct = (if peak > 0 then drawdown / peak * 100 else 0)
      in \<lparr> dd_equity = equity, dd_peak = peak, dd_max = max (dd_max s) drawdown,
           dd_max_pct = max (dd_max_pct s) pct, dd_squared = dd_squared s + pct ^ 2 \<rparr>)"

definition drawdown :: "real \<Rightarrow> real list \<Rightarrow> real \<times> real \<times> real" where
  "drawdown bal pnls =
     (let s = fold dd_step pnls (dd_init bal);
          ulcer = (if pnls = [] then 0 else sqrt (dd_squared s / real (length pnls)))
      in (dd_max s, dd_max_pct s, ulcer))"

definition risk_adjusted :: "real \<Rightarrow> real list \<Rightarrow> real \<times> real" where
  "risk_adjusted bal pnls =
     (if length pnls < 2 then (0, 0) else
      let returns = map (\<lambda>pnl. pnl / bal) pnls;
          n = real (length returns);
          mean = sum_list returns / n;
          variance = (\<Sum>r\<leftarrow>returns. (r - mean) ^ 2) / n;
          std = sqrt variance;
          downside = filter (\<lambda>r. r < 0) returns;
          downside_var = (if downside \<noteq> [] then (\<Sum>r\<leftarrow>downside. r ^ 2) / n else 0);
          downside_std = sqrt downside_var;
          sharpe = (if std > 0 then mean / std * sqrt n else 0);
          sortino = (if downside_std > 0 then mean / downside_std * sqrt n else 0)
      in (sharpe, sortino))"

definition calmar :: "real \<Rightarrow> real \<Rightarrow> real \<Rightarrow> real" where
  "calmar bal net_profit max_dd_pct =
     (if max_dd_pct \<le> 0 then 0 else (net_profit / bal * 100) / max_dd_pct)"

definition safe_ratio :: "real \<Rightarrow> real \<Rightarrow> real" where
  "safe_ratio numerator denominator = (if denominator \<le> 0 then 0 else numerator / denominator)"

definition trades_per_day :: "trade_record list \<Rightarrow> real" where
  "trades_per_day ts =
     (let span = total_seconds (t_exit_time (last ts) - t_entry_time (hd ts));
          days = max (span / 86400) (1 / 10 ^ 9)
      in if span > 0 then real (length ts) / days else real (length ts))"

definition session_hours :: "(string \<times> int \<times> int) list" where
  "session_hours = [(''asia'', 0, 9), (''europe'', 7, 16), (''america'', 13, 22)]"

definition sessions_at :: "time \<Rightarrow> string list" where
  "sessions_at t =
     map fst (filter (\<lambda>(name, start, stop). start \<le> hour_of t \<and> hour_of t < stop) session_hours)"

definition count_session :: "trade_record \<Rightarrow> (string, nat) pydict \<Rightarrow> (string, nat) pydict" where
  "count_session t counts =
     (let names = sessions_at (t_entry_time t);
          hit = (if names = [] then [''off''] else names)
      in fold (\<lambda>name c. pd_put c name (pd_get_or c name 0 + 1)) hit counts)"

definition trades_by_session :: "trade_record list \<Rightarrow> (string, nat) pydict" where
  "trades_by_session ts =
     fold count_session ts [(''asia'', 0), (''europe'', 0), (''america'', 0), (''off'', 0)]"

definition max_of :: "real list \<Rightarrow> real" where
  "max_of xs = (case xs of [] \<Rightarrow> 0 | y # ys \<Rightarrow> fold max ys y)"

definition min_of :: "real list \<Rightarrow> real" where
  "min_of xs = (case xs of [] \<Rightarrow> 0 | y # ys \<Rightarrow> fold min ys y)"

definition compute_report :: "real \<Rightarrow> trade_record list \<Rightarrow> performance_report" where
  "compute_report initial trades =
     (if trades = [] then empty_report else
      let bal = engine_balance initial;
          ordered = sort_key t_exit_time trades;
          pnls = map t_pnl ordered;
          wins = filter (\<lambda>t. t_pnl t > 0) ordered;
          losses = filter (\<lambda>t. t_pnl t < 0) ordered;
          total = length ordered;
          gross_profit = (\<Sum>t\<leftarrow>wins. t_pnl t);
          gross_loss = - (\<Sum>t\<leftarrow>losses. t_pnl t);
          net_profit = sum_list pnls;
          average_win = (if wins \<noteq> [] then gross_profit / real (length wins) else 0);
          average_loss = (if losses \<noteq> [] then gross_loss / real (length losses) else 0);
          (max_dd, max_dd_pct, ulcer) = drawdown bal pnls;
          (sharpe, sortino) = risk_adjusted bal pnls
      in \<lparr> pr_total_trades = total, pr_wins = length wins, pr_losses = length losses,
           pr_win_rate = py_round 4 (real (length wins) / real total),
           pr_loss_rate = py_round 4 (real (length losses) / real total),
           pr_net_profit = py_round 6 net_profit, pr_gross_profit = py_round 6 gross_profit,
           pr_gross_loss = py_round 6 gross_loss,
           pr_profit_factor = py_round 4 (safe_ratio gross_profit gross_loss),
           pr_expectancy = py_round 6 (net_profit / real total),
           pr_expectancy_r = py_round 4 ((\<Sum>t\<leftarrow>ordered. t_r_multiple t) / real total),
           pr_average_win = py_round 6 average_win, pr_average_loss = py_round 6 average_loss,
           pr_risk_reward = py_round 4 (safe_ratio average_win average_loss),
           pr_largest_win = py_round 6 (max_of pnls), pr_largest_loss = py_round 6 (min_of pnls),
           pr_max_drawdown = py_round 6 max_dd, pr_max_drawdown_pct = py_round 4 max_dd_pct,
           pr_sharpe = py_round 4 sharpe, pr_sortino = py_round 4 sortino,
           pr_calmar = py_round 4 (calmar bal net_profit max_dd_pct),
           pr_ulcer_index = py_round 4 ulcer,
           pr_recovery_factor = py_round 4 (safe_ratio net_profit max_dd),
           pr_average_holding_seconds = py_round 2 ((\<Sum>t\<leftarrow>ordered. duration_seconds t) / real total),
           pr_trades_per_day = py_round 4 (trades_per_day ordered),
           pr_trades_by_session = trades_by_session ordered \<rparr>)"

section \<open>The drawdown loop\<close>

text \<open>The equity curve: the balance after the first \<open>k\<close> results.\<close>

definition equity_at :: "real \<Rightarrow> real list \<Rightarrow> nat \<Rightarrow> real" where
  "equity_at bal pnls k = bal + sum_list (take k pnls)"

lemma equity_at_simps [simp]: "equity_at bal pnls 0 = bal" "equity_at bal pnls (length pnls) = bal + sum_list pnls"
  by (simp_all add: equity_at_def)

lemma equity_at_snoc: "k \<le> length pnls \<Longrightarrow> equity_at bal (pnls @ [x]) k = equity_at bal pnls k"
  by (simp add: equity_at_def)

lemma dd_equity_run: "dd_equity (fold dd_step pnls (dd_init bal)) = bal + sum_list pnls"
  by (induction pnls rule: rev_induct) (simp_all add: dd_init_def dd_step_def Let_def)

text \<open>The running peak is the maximum of the curve.\<close>

lemma dd_peak_run:
  "(\<forall>i \<le> length pnls. equity_at bal pnls i \<le> dd_peak (fold dd_step pnls (dd_init bal)))
   \<and> (\<exists>i \<le> length pnls. equity_at bal pnls i = dd_peak (fold dd_step pnls (dd_init bal)))"
proof (induction pnls rule: rev_induct)
  case Nil
  then show ?case by (simp add: dd_init_def)
next
  case (snoc x pnls)
  let ?s = "fold dd_step pnls (dd_init bal)" and ?e = "bal + sum_list pnls + x"
  have peak: "dd_peak (fold dd_step (pnls @ [x]) (dd_init bal)) = max (dd_peak ?s) ?e"
    by (simp add: dd_step_def Let_def dd_equity_run)
  have new: "equity_at bal (pnls @ [x]) (Suc (length pnls)) = ?e"
    by (simp add: equity_at_def)
  have "equity_at bal (pnls @ [x]) i \<le> max (dd_peak ?s) ?e" if "i \<le> Suc (length pnls)" for i
    using snoc that new by (cases "i = Suc (length pnls)") (auto simp: equity_at_snoc le_max_iff_disj)
  moreover have "\<exists>i \<le> Suc (length pnls). equity_at bal (pnls @ [x]) i = max (dd_peak ?s) ?e"
  proof (cases "dd_peak ?s \<le> ?e")
    case True
    then show ?thesis using new by (intro exI [of _ "Suc (length pnls)"]) simp
  next
    case False
    from snoc obtain i where "i \<le> length pnls" "equity_at bal pnls i = dd_peak ?s" by blast
    then show ?thesis using False by (intro exI [of _ i]) (simp add: equity_at_snoc)
  qed
  ultimately show ?case by (simp only: peak length_append_singleton) simp
qed

definition is_max_drop :: "real \<Rightarrow> real list \<Rightarrow> real \<Rightarrow> bool" where
  "is_max_drop bal pnls d \<longleftrightarrow>
     (\<forall>i j. i \<le> j \<and> j \<le> length pnls \<longrightarrow> equity_at bal pnls i - equity_at bal pnls j \<le> d)
     \<and> (\<exists>i j. i \<le> j \<and> j \<le> length pnls \<and> equity_at bal pnls i - equity_at bal pnls j = d)"

lemma dd_max_run: "is_max_drop bal pnls (dd_max (fold dd_step pnls (dd_init bal)))"
proof (induction pnls rule: rev_induct)
  case Nil
  then show ?case by (simp add: is_max_drop_def dd_init_def)
next
  case (snoc x pnls)
  let ?s = "fold dd_step pnls (dd_init bal)" and ?s' = "fold dd_step (pnls @ [x]) (dd_init bal)"
  let ?n = "length pnls" and ?E = "equity_at bal (pnls @ [x])"
  have dmax: "dd_max ?s' = max (dd_max ?s) (dd_peak ?s' - ?E (Suc ?n))"
    by (simp add: dd_step_def Let_def dd_equity_run equity_at_def add.assoc)
  note peak = dd_peak_run [of "pnls @ [x]" bal]
  have upper: "?E i - ?E j \<le> dd_max ?s'" if "i \<le> j" "j \<le> Suc ?n" for i j
  proof (cases "j = Suc ?n")
    case True
    then have "?E i \<le> dd_peak ?s'" using peak that by simp
    then show ?thesis unfolding dmax True by linarith
  next
    case False
    then have "equity_at bal pnls i - equity_at bal pnls j \<le> dd_max ?s"
      using snoc that by (auto simp: is_max_drop_def)
    then show ?thesis using that False unfolding dmax by (simp add: equity_at_snoc le_max_iff_disj)
  qed
  have "\<exists>i j. i \<le> j \<and> j \<le> Suc ?n \<and> ?E i - ?E j = dd_max ?s'"
  proof (cases "dd_max ?s \<le> dd_peak ?s' - ?E (Suc ?n)")
    case True
    from peak obtain i where "i \<le> Suc ?n" "?E i = dd_peak ?s'" by auto
    then show ?thesis using True unfolding dmax by (intro exI [of _ i] exI [of _ "Suc ?n"]) simp
  next
    case False
    from snoc obtain i j where "i \<le> j" "j \<le> ?n" "equity_at bal pnls i - equity_at bal pnls j = dd_max ?s"
      by (auto simp: is_max_drop_def)
    then show ?thesis using False unfolding dmax
      by (intro exI [of _ i] exI [of _ j]) (simp add: equity_at_snoc)
  qed
  then show ?case using upper by (simp add: is_max_drop_def)
qed

lemma dd_pct_run:
  "0 \<le> dd_max_pct (fold dd_step pnls (dd_init bal)) \<and> 0 \<le> dd_squared (fold dd_step pnls (dd_init bal))
   \<and> dd_squared (fold dd_step pnls (dd_init bal))
      \<le> real (length pnls) * dd_max_pct (fold dd_step pnls (dd_init bal)) ^ 2"
proof (induction pnls rule: rev_induct)
  case Nil
  then show ?case by (simp add: dd_init_def)
next
  case (snoc x pnls)
  define s where "s = fold dd_step pnls (dd_init bal)"
  define peak where "peak = max (dd_peak s) (dd_equity s + x)"
  define pct where "pct = (if peak > 0 then (peak - (dd_equity s + x)) / peak * 100 else 0)"
  have "dd_equity s + x \<le> peak" by (simp add: peak_def)
  then have pct: "0 \<le> pct" by (simp add: pct_def)
  have new: "dd_max_pct (dd_step x s) = max (dd_max_pct s) pct" "dd_squared (dd_step x s) = dd_squared s + pct ^ 2"
    by (simp_all add: dd_step_def Let_def pct_def peak_def)
  have "pct ^ 2 \<le> max (dd_max_pct s) pct ^ 2" using pct by (intro power_mono) auto
  moreover have "dd_max_pct s ^ 2 \<le> max (dd_max_pct s) pct ^ 2"
    using snoc by (intro power_mono) (auto simp: s_def)
  then have "real (length pnls) * dd_max_pct s ^ 2 \<le> real (length pnls) * max (dd_max_pct s) pct ^ 2"
    by (intro mult_left_mono) auto
  ultimately have "dd_squared s + pct ^ 2 \<le> (real (length pnls) + 1) * max (dd_max_pct s) pct ^ 2"
    using snoc by (simp add: s_def [symmetric] algebra_simps)
  then show ?case using snoc pct by (simp add: s_def [symmetric] new add.commute)
qed

lemma drawdown_ulcer:
  assumes "drawdown bal pnls = (d, p, u)" shows "0 \<le> u" "u \<le> p" "0 \<le> p"
proof -
  let ?s = "fold dd_step pnls (dd_init bal)"
  have p: "p = dd_max_pct ?s" "0 \<le> p"
    using assms dd_pct_run [of pnls bal] by (auto simp: drawdown_def Let_def)
  have u: "u = (if pnls = [] then 0 else sqrt (dd_squared ?s / real (length pnls)))"
    using assms by (simp add: drawdown_def Let_def)
  show "0 \<le> p" by (rule p(2))
  show "0 \<le> u" using dd_pct_run [of pnls bal] by (simp add: u)
  show "u \<le> p"
  proof (cases "pnls = []")
    case False
    then have "dd_squared ?s / real (length pnls) \<le> p ^ 2"
      using dd_pct_run [of pnls bal] p by (simp add: divide_le_eq mult.commute)
    then have "sqrt (dd_squared ?s / real (length pnls)) \<le> sqrt (p ^ 2)" by (rule real_sqrt_le_mono)
    then show ?thesis using False p(2) by (simp add: u)
  qed (simp add: u p(2))
qed

section \<open>Properties\<close>

definition closing_pnls :: "trade_record list \<Rightarrow> real list" where
  "closing_pnls trades = map t_pnl (sort_key t_exit_time trades)"

lemma report_drawdown:
  assumes "trades \<noteq> []" "drawdown (engine_balance initial) (closing_pnls trades) = (d, p, u)"
  shows "pr_max_drawdown (compute_report initial trades) = py_round 6 d"
    "pr_max_drawdown_pct (compute_report initial trades) = py_round 4 p"
    "pr_ulcer_index (compute_report initial trades) = py_round 4 u"
  using assms by (simp_all add: compute_report_def Let_def closing_pnls_def split: prod.splits)

text \<open>
  The reported maximum drawdown is, up to rounding, the largest fall of the equity curve
  from any point to any later one, the curve starting at the balance and taking the results in order of
  exit; the ulcer index lies between zero and the maximum drawdown in percent.
\<close>

theorem report_max_drawdown:
  assumes "trades \<noteq> []"
  shows "(\<exists>d. is_max_drop (engine_balance initial) (closing_pnls trades) d
        \<and> pr_max_drawdown (compute_report initial trades) = py_round 6 d)
    \<and> 0 \<le> pr_ulcer_index (compute_report initial trades)
    \<and> pr_ulcer_index (compute_report initial trades) \<le> pr_max_drawdown_pct (compute_report initial trades)"
proof -
  obtain d p u where dd: "drawdown (engine_balance initial) (closing_pnls trades) = (d, p, u)"
    by (metis prod_cases3)
  have "is_max_drop (engine_balance initial) (closing_pnls trades) d"
    using dd dd_max_run [of "engine_balance initial" "closing_pnls trades"] by (simp add: drawdown_def Let_def)
  then show ?thesis
    using report_drawdown [OF assms dd] drawdown_ulcer [OF dd] by (auto intro: py_round_mono py_round_nonneg)
qed

definition perf_trade :: "time \<Rightarrow> real \<Rightarrow> trade_record" where
  "perf_trade t pnl = \<lparr> t_trade_id = ''t'', t_position_id = ''p'', t_symbol = ''BTCUSDT'', t_side = LONG,
     t_quantity = 1, t_entry_time = t, t_exit_time = t, t_entry_price = 100, t_exit_price = 100 + pnl,
     t_stop_loss = None, t_take_profit = None, t_commission = 0, t_slippage_bps = 0, t_spread_bps = 0,
     t_pnl = pnl, t_pnl_gross = pnl, t_r_multiple = pnl, t_return_pct = pnl, t_atr = None,
     t_volatility = ''normal'', t_regime = ''ranging'', t_score = 0, t_confidence = 0,
     t_exit_reason = EX_MANUAL, t_entry_reasons = [], t_exit_reasons = [], t_decision_id = JNull,
     t_context_snapshot = [], t_recorded_at = t \<rparr>"

theorem report_max_drawdown_witness:
  "pr_ulcer_index (compute_report 100 [perf_trade 1 (-30), perf_trade 0 20])
     \<le> pr_max_drawdown_pct (compute_report 100 [perf_trade 1 (-30), perf_trade 0 20])
   \<and> (\<exists>d. is_max_drop 100 [20, -30] d
        \<and> pr_max_drawdown (compute_report 100 [perf_trade 1 (-30), perf_trade 0 20]) = py_round 6 d)"
proof -
  have "closing_pnls [perf_trade 1 (-30), perf_trade 0 20] = [20, -30]" "engine_balance 100 = 100"
    by (simp_all add: closing_pnls_def perf_trade_def engine_balance_def)
  then show ?thesis
    using report_max_drawdown [of "[perf_trade 1 (-30), perf_trade 0 20]" 100] by simp
qed

lemma pnl_split:
  "(\<Sum>t\<leftarrow>ts. t_pnl t) = (\<Sum>t\<leftarrow>filter (\<lambda>t. t_pnl t > 0) ts. t_pnl t) - (- (\<Sum>t\<leftarrow>filter (\<lambda>t. t_pnl t < 0) ts. t_pnl t))"
  by (induction ts) auto

lemma sum_sort_key: "(\<Sum>t\<leftarrow>sort_key k ts. (f t :: real)) = (\<Sum>t\<leftarrow>ts. f t)"
  by (metis (mono_tags, opaque_lifting) mset_map mset_sort sum_mset_sum_list)

lemma sum_perm: "mset xs = mset ys \<Longrightarrow> (\<Sum>t\<leftarrow>xs. (f t :: real)) = (\<Sum>t\<leftarrow>ys. f t)"
  by (metis mset_map sum_mset_sum_list)

lemma length_filter_sort: "length (filter P (sort_key k ts)) = length (filter P ts)"
  by (metis mset_filter mset_sort size_mset)

lemma report_fields:
  assumes "trades \<noteq> []"
  shows "pr_total_trades (compute_report initial trades) = length trades"
    "pr_wins (compute_report initial trades) = length (filter (\<lambda>t. t_pnl t > 0) trades)"
    "pr_losses (compute_report initial trades) = length (filter (\<lambda>t. t_pnl t < 0) trades)"
    "pr_net_profit (compute_report initial trades) = py_round 6 (\<Sum>t\<leftarrow>trades. t_pnl t)"
    "pr_gross_profit (compute_report initial trades) = py_round 6 (\<Sum>t\<leftarrow>filter (\<lambda>t. t_pnl t > 0) trades. t_pnl t)"
    "pr_gross_loss (compute_report initial trades) = py_round 6 (- (\<Sum>t\<leftarrow>filter (\<lambda>t. t_pnl t < 0) trades. t_pnl t))"
    "pr_win_rate (compute_report initial trades)
       = py_round 4 (real (length (filter (\<lambda>t. t_pnl t > 0) trades)) / real (length trades))"
  using assms by (simp_all add: compute_report_def Let_def length_filter_sort sum_sort_key
      filter_sort split: prod.splits)

text \<open>
  The counts and sums of a report do not depend on the order of the trades, the wins,
  the losses and the break-even trades partition them, and the net profit is the gross profit less the
  gross loss up to the rounding of the three figures.
\<close>

theorem report_accounts_for_trades:
  assumes "trades \<noteq> []"
  shows "let r = compute_report initial trades in
    pr_total_trades r = pr_wins r + pr_losses r + length (filter (\<lambda>t. t_pnl t = 0) trades)
    \<and> \<bar>pr_net_profit r - (pr_gross_profit r - pr_gross_loss r)\<bar> \<le> 3 / (2 * 10 ^ 6)
    \<and> 0 \<le> pr_win_rate r \<and> pr_win_rate r \<le> 1 \<and> 0 \<le> pr_gross_profit r \<and> 0 \<le> pr_gross_loss r
    \<and> (\<forall>trades'. mset trades' = mset trades \<longrightarrow>
         pr_net_profit (compute_report initial trades') = pr_net_profit r
         \<and> pr_wins (compute_report initial trades') = pr_wins r
         \<and> pr_gross_profit (compute_report initial trades') = pr_gross_profit r)"
proof -
  let ?w = "filter (\<lambda>t. t_pnl t > 0) trades" and ?l = "filter (\<lambda>t. t_pnl t < 0) trades"
  let ?z = "filter (\<lambda>t. t_pnl t = 0) trades" and ?r = "compute_report initial trades"
  note fields = report_fields [OF assms, of initial]
  have parts: "length trades = length ?w + length ?l + length ?z"
    by (induction trades) auto
  have net: "\<bar>pr_net_profit ?r - (pr_gross_profit ?r - pr_gross_loss ?r)\<bar> \<le> 3 / (2 * 10 ^ 6)"
  proof -
    define g where "g = (\<Sum>t\<leftarrow>?w. t_pnl t)"
    define l where "l = - (\<Sum>t\<leftarrow>?l. t_pnl t)"
    have "(\<Sum>t\<leftarrow>trades. t_pnl t) = g - l" using pnl_split [of trades] by (simp add: g_def l_def)
    then have "pr_net_profit ?r - (pr_gross_profit ?r - pr_gross_loss ?r)
        = (py_round 6 (g - l) - (g - l)) - (py_round 6 g - g) + (py_round 6 l - l)"
      by (simp add: fields g_def [symmetric] l_def [symmetric])
    then show ?thesis
      using py_round_err [of 6 "g - l"] py_round_err [of 6 g] py_round_err [of 6 l]
      unfolding abs_le_iff by linarith
  qed
  have gross: "0 \<le> pr_gross_profit ?r" "0 \<le> pr_gross_loss ?r"
  proof -
    have "0 \<le> (\<Sum>t\<leftarrow>?w. t_pnl t)" by (rule sum_list_nonneg_map) auto
    moreover have "0 \<le> (\<Sum>t\<leftarrow>?l. - t_pnl t)" by (rule sum_list_nonneg_map) auto
    then have "0 \<le> - (\<Sum>t\<leftarrow>?l. t_pnl t)" by (simp add: uminus_sum_list_map o_def)
    ultimately show "0 \<le> pr_gross_profit ?r" "0 \<le> pr_gross_loss ?r"
      by (simp_all only: fields py_round_nonneg)
  qed
  have "real (length ?w) / real (length trades) \<le> 1" using assms by (simp add: divide_le_eq)
  moreover have "on_grid 4 1" using on_grid_of_int_div [of 4 10000] by simp
  ultimately have rate: "pr_win_rate ?r \<le> 1" "0 \<le> pr_win_rate ?r"
    by (simp_all add: fields py_round_grid_upper py_round_nonneg)
  have perm: "pr_net_profit (compute_report initial trades') = pr_net_profit ?r
         \<and> pr_wins (compute_report initial trades') = pr_wins ?r
         \<and> pr_gross_profit (compute_report initial trades') = pr_gross_profit ?r"
    if m: "mset trades' = mset trades" for trades'
  proof -
    have ne: "trades' \<noteq> []" using m assms by auto
    have f: "mset (filter (\<lambda>t. t_pnl t > 0) trades') = mset ?w" using m by simp
    show ?thesis
      unfolding report_fields [OF ne] fields
      by (intro conjI arg_cong [where f = "py_round 6"] sum_perm m f mset_eq_length)
  qed
  have total: "pr_total_trades ?r = pr_wins ?r + pr_losses ?r + length ?z"
    unfolding fields by (rule parts)
  show ?thesis unfolding Let_def
    by (intro conjI allI impI total net gross rate; (elim perm [THEN conjunct1]
        perm [THEN conjunct2, THEN conjunct1] perm [THEN conjunct2, THEN conjunct2]))
qed

theorem report_accounts_for_trades_witness:
  "pr_win_rate (compute_report 100 [perf_trade 1 (-30), perf_trade 0 20]) \<le> 1"
  using report_accounts_for_trades [of "[perf_trade 1 (-30), perf_trade 0 20]" 100] by (simp add: Let_def)

end
