(* ===== verification/Atr.thy ===== *)
theory Atr
  imports Prelude
begin

text \<open>
  The ATR indicator family (\<open>analytics/indicators/atr.py\<close>): true ranges, the simple average of the
  last ones, the rolling series, the smoothed variant, the slope and the expansion ratio.  Periods
  are positive, as every caller passes them.
\<close>

record candle =
  cd_open :: real
  cd_high :: real
  cd_low :: real
  cd_close :: real
  cd_volume :: real

fun true_ranges :: "candle list \<Rightarrow> real list" where
  "true_ranges (a # b # cs) =
     max (max (cd_high b - cd_low b) \<bar>cd_high b - cd_close a\<bar>) \<bar>cd_low b - cd_close a\<bar> # true_ranges (b # cs)"
| "true_ranges _ = []"

definition atr_of :: "candle list \<Rightarrow> nat \<Rightarrow> real option" where
  "atr_of candles period =
     (let ranges = true_ranges candles in
      if ranges = [] then None
      else let window = py_tail (int period) ranges in Some (sum_list window / real (length window)))"

text \<open>The loop of \<open>atr_series\<close>: the accumulator moves the window one step at a time.\<close>

fun series_loop :: "real list \<Rightarrow> nat \<Rightarrow> real \<Rightarrow> nat list \<Rightarrow> real list" where
  "series_loop ranges period acc [] = []"
| "series_loop ranges period acc (i # is) =
     (let acc' = acc + (ranges ! i - ranges ! (i - period))
      in acc' / real period # series_loop ranges period acc' is)"

definition atr_series :: "candle list \<Rightarrow> nat \<Rightarrow> real list" where
  "atr_series candles period =
     (let ranges = true_ranges candles in
      if length ranges < period then []
      else let acc = sum_list (take period ranges)
           in acc / real period # series_loop ranges period acc [period..<length ranges])"

definition adaptive_atr :: "candle list \<Rightarrow> nat \<Rightarrow> real option" where
  "adaptive_atr candles period =
     (let ranges = true_ranges candles in
      if length ranges < period then None
      else let alpha = 2 / real (period + 1)
           in Some (fold (\<lambda>tr value. alpha * tr + (1 - alpha) * value) (drop period ranges)
                (sum_list (take period ranges) / real period)))"

definition atr_slope :: "candle list \<Rightarrow> nat \<Rightarrow> nat \<Rightarrow> real option" where
  "atr_slope candles period lookback =
     (let series = atr_series candles period in
      if length series \<le> lookback then None
      else let prev = series ! (length series - 1 - lookback) in
        if prev \<le> 0 then None
        else Some ((last series / prev - 1) * 100 / real lookback))"

definition expansion_ratio :: "candle list \<Rightarrow> nat \<Rightarrow> nat \<Rightarrow> real option" where
  "expansion_ratio candles short_period long_period =
     (case (atr_of candles short_period, atr_of candles long_period) of
        (Some s, Some l) \<Rightarrow> if l \<le> 0 then None else Some (s / l)
      | _ \<Rightarrow> None)"

section \<open>Lemmas\<close>

text \<open>A candle whose low is not above its high.\<close>

definition wf_candle :: "candle \<Rightarrow> bool" where
  "wf_candle c \<longleftrightarrow> cd_low c \<le> cd_high c"

lemma true_ranges_nonneg: "r \<in> set (true_ranges cs) \<Longrightarrow> 0 \<le> r"
  by (induction cs rule: true_ranges.induct) (auto simp: le_max_iff_disj)

lemma true_ranges_snoc:
  "cs \<noteq> [] \<Longrightarrow> true_ranges (cs @ [c]) = true_ranges cs @
     [max (max (cd_high c - cd_low c) \<bar>cd_high c - cd_close (last cs)\<bar>) \<bar>cd_low c - cd_close (last cs)\<bar>]"
  by (induction cs rule: true_ranges.induct) auto

lemma length_true_ranges [simp]: "length (true_ranges cs) = length cs - 1"
  by (induction cs rule: true_ranges.induct) auto

lemma py_tail_pos: "0 < n \<Longrightarrow> py_tail (int n) xs = last_n n xs"
  by (simp add: py_tail_def)

lemma atr_nonneg: "atr_of candles period = Some a \<Longrightarrow> 0 \<le> a"
proof -
  assume a: "atr_of candles period = Some a"
  define w where "w = py_tail (int period) (true_ranges candles)"
  have "set w \<subseteq> set (true_ranges candles)"
    using set_last_n set_drop_subset by (fastforce simp: w_def py_tail_def split: if_splits dest: in_set_dropD)
  then have "0 \<le> sum_list w" using true_ranges_nonneg by (intro sum_list_nonneg) blast
  then show ?thesis using a by (auto simp: atr_of_def Let_def w_def split: if_splits)
qed

text \<open>The average of the window that ends before index \<open>j\<close>.\<close>

definition window_avg :: "real list \<Rightarrow> nat \<Rightarrow> nat \<Rightarrow> real" where
  "window_avg ranges period j = sum_list (take period (drop (j - period) ranges)) / real period"

lemma window_shift:
  fixes ranges :: "real list"
  assumes "0 < period" "period \<le> j" "j < length ranges"
  shows "sum_list (take period (drop (j - period) ranges)) + (ranges ! j - ranges ! (j - period))
    = sum_list (take period (drop (Suc j - period) ranges))"
proof -
  obtain p where p: "period = Suc p" using assms(1) by (cases period) auto
  have d: "drop (j - period) ranges = ranges ! (j - period) # drop (Suc j - period) ranges"
    using assms by (metis Cons_nth_drop_Suc Suc_diff_le diff_less le_less_trans less_imp_diff_less)
  have "take (Suc p) (drop (Suc j - period) ranges) = take p (drop (Suc j - period) ranges) @ [ranges ! j]"
    using assms p by (simp add: take_Suc_conv_app_nth)
  then show ?thesis using d by (simp add: p algebra_simps)
qed

lemma series_loop_window:
  assumes "0 < period" "period \<le> j" "j \<le> length ranges"
    and "acc = sum_list (take period (drop (j - period) ranges))"
  shows "series_loop ranges period acc [j..<length ranges]
     = map (\<lambda>i. window_avg ranges period (Suc i)) [j..<length ranges]"
  using assms(2-4)
proof (induction "length ranges - j" arbitrary: j acc)
  case 0
  then show ?case by simp
next
  case (Suc n)
  then have j: "j < length ranges" by simp
  have "acc + (ranges ! j - ranges ! (j - period)) = sum_list (take period (drop (Suc j - period) ranges))"
    using window_shift [OF assms(1) Suc.prems(1) j] Suc.prems(3) by simp
  moreover from this have "series_loop ranges period (acc + (ranges ! j - ranges ! (j - period))) [Suc j..<length ranges]
      = map (\<lambda>i. window_avg ranges period (Suc i)) [Suc j..<length ranges]"
    using Suc j by (intro Suc.hyps(1)) auto
  ultimately show ?case using j by (simp add: upt_conv_Cons Let_def window_avg_def)
qed

text \<open>
  The rolling series equals the direct definition: its entries are the averages of the
  consecutive windows of true ranges, and its last entry is the ATR of the same candles.
\<close>

theorem atr_series_is_windows:
  assumes "0 < period" "period \<le> length (true_ranges candles)"
  shows "atr_series candles period
      = map (window_avg (true_ranges candles) period) [period..<Suc (length (true_ranges candles))]
    \<and> atr_of candles period = Some (last (atr_series candles period))"
proof -
  define ranges where "ranges = true_ranges candles"
  define n where "n = length ranges"
  have n: "0 < period" "period \<le> n" using assms by (simp_all add: n_def ranges_def)
  have "series_loop ranges period (sum_list (take period ranges)) [period..<n]
      = map (\<lambda>i. window_avg ranges period (Suc i)) [period..<n]"
    unfolding n_def by (rule series_loop_window) (use n in \<open>simp_all add: n_def\<close>)
  also have "\<dots> = map (window_avg ranges period) [Suc period..<Suc n]"
    by (simp add: map_Suc_upt [symmetric] o_def del: upt_Suc)
  finally have "atr_series candles period = map (window_avg ranges period) (period # [Suc period..<Suc n])"
    using n by (simp add: atr_series_def Let_def ranges_def [symmetric] n_def [symmetric] window_avg_def del: upt_Suc)
  also have "period # [Suc period..<Suc n] = [period..<Suc n]" using n by (simp add: upt_conv_Cons del: upt_Suc)
  finally have series: "atr_series candles period = map (window_avg ranges period) [period..<Suc n]" .
  have "ranges \<noteq> []" using n n_def by auto
  then have "atr_of candles period = Some (window_avg ranges period n)"
    using n by (simp add: atr_of_def Let_def ranges_def [symmetric] py_tail_pos last_n_def window_avg_def n_def [symmetric])
  moreover have "last (atr_series candles period) = window_avg ranges period n"
    using n by (simp add: series last_map)
  ultimately show ?thesis by (simp add: series ranges_def n_def)
qed

definition flat_candle :: "real \<Rightarrow> candle" where
  "flat_candle c = \<lparr> cd_open = c, cd_high = c + 1, cd_low = c - 1, cd_close = c, cd_volume = 1 \<rparr>"

theorem atr_series_is_windows_witness:
  "atr_of [flat_candle 10, flat_candle 11, flat_candle 14] 1
     = Some (last (atr_series [flat_candle 10, flat_candle 11, flat_candle 14] 1))"
  using atr_series_is_windows [of 1 "[flat_candle 10, flat_candle 11, flat_candle 14]"] by simp

end
