(* ===== verification/Execution_Engine.thy ===== *)
theory Execution_Engine
  imports Paper_Broker Sizing Position_Manager Order_Manager Portfolio_Manager Risk_Manager Journal Performance Atr
begin

text \<open>
  \<open>ExecutionEngine\<close>: from an accepted decision to an open position, the management pass, closing and
  settling, reconciliation with the broker.  A pass runs to its end before the next one (the source
  only awaits the bus and the context inside a pass).  The broker is a parameter: its \<open>execute\<close> and
  the optional operations the source finds with \<open>getattr\<close>.  The market, the context engine, the clock
  and the vetoes are read from an environment; published events are appended to a trace; ids of new
  objects come from a supply indexed by a counter.
\<close>

section \<open>Environment, broker and events\<close>

record market_view =
  mv_atr :: "real option"
  mv_atr_pct :: "real option"
  mv_spread_bps :: "real option"
  mv_regime :: string
  mv_volatility :: string
  mv_volume :: "real option"
  mv_last_price :: "real option"
  mv_session :: string

text \<open>What the market context engine builds for a symbol.\<close>

record market_context =
  cx_atr :: "real option"
  cx_atr_pct :: "real option"
  cx_spread_bps :: "real option"
  cx_regime :: "string option"
  cx_sessions :: "string list"
  cx_volatility :: string
  cx_volume_recent :: "real option"
  cx_last_price :: "real option"

text \<open>A veto callback allows, blocks with a reason, or raises.\<close>

datatype veto = VetoAllow | VetoBlock string | VetoRaises

record env =
  en_now :: time
  en_ticker :: "string \<Rightarrow> ticker option"
  en_candles :: "string \<Rightarrow> int \<Rightarrow> candle list"
  en_context :: "(string \<Rightarrow> market_context) option"
  en_vetoes :: "veto list"
  en_ids :: "nat \<Rightarrow> string"
  en_lib :: pylib
  en_io_ok :: bool

record 'b broker_ops =
  bo_execute :: "'b execute_op"
  bo_spec :: "(string \<Rightarrow> 'b \<Rightarrow> instrument_spec option) option"
  bo_balance :: "('b \<Rightarrow> real option) option"
  bo_tickets :: "(string \<Rightarrow> 'b \<Rightarrow> int list) option"
  bo_live :: "('b \<Rightarrow> broker_position list) option"

record decision_event =
  de_decision_id :: string
  de_symbol :: string
  de_action :: string
  de_accepted :: bool
  de_score :: real
  de_confidence :: real
  de_summary :: string

datatype reject_text = RuleText string msg | ReasonText reject_reason

datatype exec_event =
  EvOrderCreated string string order_side real order_type "string option"
| EvOrderRejected string string order_side reject_text
| EvOrderExecuted string string order_side real real real real bool
| EvPositionOpened string string position_side real real "real option" "real option" "string option"
| EvPositionClosed string string position_side real real real real exit_reason real
| EvStopMoved string string "real option" real string
| EvBreakEvenActivated string string real
| EvTrailingUpdated string string real
| EvRiskTriggered string string msg
| EvKillSwitchTriggered msg real
| EvCircuitBreakerTriggered real real

record 'b engine =
  ex_settings :: execution_settings
  ex_broker :: 'b
  ex_risk :: risk_manager
  ex_positions :: position_manager
  ex_portfolio :: portfolio_manager
  ex_orders :: order_manager
  ex_journal :: journal
  ex_disk :: journal_disk
  ex_performance_balance :: real
  ex_kill_announced :: bool
  ex_cb_announced :: bool
  ex_baseline_set :: bool
  ex_spec_cache :: "(string, instrument_spec) pydict"
  ex_events :: "exec_event list"
  ex_next :: nat

definition pm_config_of :: "execution_settings \<Rightarrow> pm_config" where
  "pm_config_of s = \<lparr> pc_break_even_r = xs_break_even_r s, pc_trailing_enabled = xs_trailing_enabled s,
     pc_trailing_atr_multiple = xs_trailing_atr_multiple s, pc_trailing_activate_r = xs_trailing_activate_r s \<rparr>"

text \<open>The wiring of the execution layer around a broker and the seed balance.\<close>

definition build_engine :: "execution_settings \<Rightarrow> 'b \<Rightarrow> real \<Rightarrow> journal_disk \<Rightarrow> 'b engine" where
  "build_engine s b balance disk = \<lparr> ex_settings = s, ex_broker = b,
     ex_risk = rm_init (xs_risk s) balance, ex_positions = pm_init,
     ex_portfolio = pf_init balance (xs_base_currency s) (xs_leverage s),
     ex_orders = om_init 5000, ex_journal = jn_init (xs_persist_journal s) 10000 (xs_persist_journal s),
     ex_disk = disk, ex_performance_balance = balance, ex_kill_announced = False, ex_cb_announced = False,
     ex_baseline_set = False, ex_spec_cache = [], ex_events = [], ex_next = 0 \<rparr>"

definition publish :: "exec_event \<Rightarrow> 'b engine \<Rightarrow> 'b engine" where
  "publish ev e = e\<lparr> ex_events := ex_events e @ [ev] \<rparr>"

definition fresh_id :: "env \<Rightarrow> 'b engine \<Rightarrow> string \<times> 'b engine" where
  "fresh_id env e = (en_ids env (ex_next e), e\<lparr> ex_next := ex_next e + 1 \<rparr>)"

text \<open>\<open>str(n)\<close> of a ticket.\<close>

fun show_nat :: "nat \<Rightarrow> string" where
  "show_nat n = (if n < 10 then [char_of (48 + n)] else show_nat (n div 10) @ [char_of (48 + n mod 10)])"

declare show_nat.simps [simp del]

definition show_int :: "int \<Rightarrow> string" where
  "show_int i = (if i < 0 then CHR ''-'' # show_nat (nat (- i)) else show_nat (nat i))"

text \<open>\<open>metadata.get("broker_ref")\<close> when it is truthy, as text.\<close>

definition broker_ref :: "pylib \<Rightarrow> position \<Rightarrow> string option" where
  "broker_ref L p = (let j = jget (p_metadata p) ''broker_ref'' JNull in
     if py_bool j then Some (py_str L j) else None)"

section \<open>Market helpers\<close>

definition session_for :: "int \<Rightarrow> string" where
  "session_for hour = (case find (\<lambda>(name, start, stop). start \<le> hour \<and> hour < stop) session_hours of
     None \<Rightarrow> ''off'' | Some (name, _) \<Rightarrow> name)"

definition symbol_atr :: "env \<Rightarrow> execution_settings \<Rightarrow> string \<Rightarrow> real option" where
  "symbol_atr env s symb =
     (let period = sz_atr_period (xs_sizing s) in atr_of (en_candles env symb (period + 2)) (nat period))"

definition view_of :: "env \<Rightarrow> execution_settings \<Rightarrow> string \<Rightarrow> market_view" where
  "view_of env s symb =
     (case en_context env of
        Some build \<Rightarrow>
          (let cx = build symb in
           \<lparr> mv_atr = cx_atr cx, mv_atr_pct = cx_atr_pct cx, mv_spread_bps = cx_spread_bps cx,
             mv_regime = (case cx_regime cx of None \<Rightarrow> ''unknown'' | Some r \<Rightarrow> r),
             mv_volatility = cx_volatility cx, mv_volume = cx_volume_recent cx,
             mv_last_price = cx_last_price cx,
             mv_session = (case cx_sessions cx of [] \<Rightarrow> ''off'' | ss # _ \<Rightarrow> ss) \<rparr>)
      | None \<Rightarrow>
          (let atr = symbol_atr env s symb;
               lst = map_option tk_mid (en_ticker env symb) in
           \<lparr> mv_atr = atr,
             mv_atr_pct = (if truthy atr \<and> truthy lst then Some (the atr / the lst * 100) else None),
             mv_spread_bps = map_option tk_spread_bps (en_ticker env symb), mv_regime = ''unknown'',
             mv_volatility = ''normal'', mv_volume = None, mv_last_price = lst,
             mv_session = session_for (hour_of (en_now env)) \<rparr>))"

definition stop_distance :: "sizing_settings \<Rightarrow> market_view \<Rightarrow> real \<Rightarrow> real" where
  "stop_distance z view reference =
     (let floor0 = reference * (sz_min_stop_pct z / 100);
          floor1 = (case mv_spread_bps view of
             Some sp \<Rightarrow> if sp > 0 then max floor0 (reference * (sp / 10000) * sz_min_stop_spread_multiple z) else floor0
           | None \<Rightarrow> floor0)
      in case mv_atr view of
           Some a \<Rightarrow> if a > 0 then max (a * sz_atr_stop_multiplier z) floor1 else max (reference * (5 / 1000)) floor1
         | None \<Rightarrow> max (reference * (5 / 1000)) floor1)"

definition stops_of :: "sizing_settings \<Rightarrow> order_side \<Rightarrow> real \<Rightarrow> real \<Rightarrow> real \<times> real" where
  "stops_of z side reference distance =
     (let rr = sz_reward_risk z in
      if side = BUY then (py_round 8 (reference - distance), py_round 8 (reference + distance * rr))
      else (py_round 8 (reference + distance), py_round 8 (reference - distance * rr)))"

definition mark_price_of :: "position \<Rightarrow> ticker \<Rightarrow> real" where
  "mark_price_of p tk = (if p_side p = LONG then tk_bid tk else tk_ask tk)"

definition slip_context :: "market_view \<Rightarrow> real \<Rightarrow> slippage_context" where
  "slip_context view qty = \<lparr> sc_atr_pct = mv_atr_pct view, sc_spread_bps = mv_spread_bps view,
     sc_available_liquidity = py_or (mv_volume view) 0, sc_order_quantity = qty,
     sc_session = mv_session view, sc_order_type = OT_MARKET \<rparr>"

definition symbol_exposures :: "position list \<Rightarrow> (string, real) pydict" where
  "symbol_exposures ps =
     fold (\<lambda>p d. pd_put d (p_symbol p) (pd_get_or d (p_symbol p) 0 + p_notional p)) ps []"

definition perf_inputs :: "'b engine \<Rightarrow> real option \<times> real option" where
  "perf_inputs e =
     (if sz_method (xs_sizing (ex_settings e)) \<noteq> ''kelly'' then (None, None)
      else let r = compute_report (ex_performance_balance e) (jn_all (ex_journal e)) in
        if pr_total_trades r < 10 then (None, None) else (Some (pr_win_rate r), Some (pr_risk_reward r)))"

definition instrument_spec_for :: "'b broker_ops \<Rightarrow> string \<Rightarrow> 'b engine \<Rightarrow> instrument_spec option \<times> 'b engine" where
  "instrument_spec_for ops symb e =
     (case pd_get (ex_spec_cache e) symb of
        Some sp \<Rightarrow> (Some sp, e)
      | None \<Rightarrow>
          (case (case bo_spec ops of None \<Rightarrow> None | Some spec_of \<Rightarrow> spec_of symb (ex_broker e)) of
             None \<Rightarrow> (None, e)
           | Some sp \<Rightarrow> (Some sp, e\<lparr> ex_spec_cache := pd_put (ex_spec_cache e) symb sp \<rparr>)))"

section \<open>Vetoes and rejections\<close>

fun entry_veto :: "veto list \<Rightarrow> string option" where
  "entry_veto [] = None"
| "entry_veto (VetoAllow # vs) = entry_veto vs"
| "entry_veto (VetoBlock r # vs) = Some r"
| "entry_veto (VetoRaises # vs) = Some ''veto de entrada con error interno''"

fun reject_value :: "reject_reason \<Rightarrow> string" where
  "reject_value RR_NONE = ''none''"
| "reject_value RR_RISK_BLOCKED = ''risk_blocked''"
| "reject_value RR_INSUFFICIENT_CAPITAL = ''insufficient_capital''"
| "reject_value RR_NO_MARKET_DATA = ''no_market_data''"
| "reject_value RR_SPREAD_TOO_WIDE = ''spread_too_wide''"
| "reject_value RR_INVALID_QUANTITY = ''invalid_quantity''"
| "reject_value RR_KILL_SWITCH = ''kill_switch''"
| "reject_value RR_CIRCUIT_BREAKER = ''circuit_breaker''"
| "reject_value RR_SIMULATED_REJECT = ''simulated_reject''"
| "reject_value RR_BROKER_REJECTED = ''broker_rejected''"
| "reject_value RR_BROKER_UNAVAILABLE = ''broker_unavailable''"

definition reject_rule_text :: "string \<Rightarrow> reject_reason \<Rightarrow> msg \<Rightarrow> reject_text" where
  "reject_rule_text rule reason detail = (if rule \<noteq> [] then RuleText rule detail else ReasonText reason)"

definition eng_reject :: "env \<Rightarrow> string \<Rightarrow> order_side \<Rightarrow> reject_reason \<Rightarrow> string \<Rightarrow> msg \<Rightarrow> 'b engine \<Rightarrow> 'b engine" where
  "eng_reject env symb side reason rule detail e =
     (let (rid, e1) = fresh_id env e;
          (oid, e2) = fresh_id env e1;
          rq = (mk_request rid symb side 0 (en_now env))\<lparr> rq_reason := detail \<rparr>;
          (om1, od) = om_create (ex_orders e2) oid rq (en_now env);
          (om2, od2) = om_reject om1 od reason (en_now env);
          e3 = e2\<lparr> ex_orders := om2 \<rparr>;
          e4 = publish (EvOrderRejected oid symb side (reject_rule_text rule reason detail)) e3
      in publish (EvRiskTriggered (if rule \<noteq> [] then rule else reject_value reason) symb detail) e4)"

definition announce_fill :: "string \<Rightarrow> fill \<Rightarrow> 'b engine \<Rightarrow> 'b engine" where
  "announce_fill oid f e = publish (EvOrderExecuted oid (f_symbol f) (f_side f) (f_quantity f) (f_price f)
     (f_commission f) (f_slippage_bps f) (f_is_partial f)) e"

definition announce_stop :: "position \<Rightarrow> stop_update \<Rightarrow> 'b engine \<Rightarrow> 'b engine" where
  "announce_stop p u e =
     (let e1 = (if su_kind u = ''break_even'' then publish (EvBreakEvenActivated (p_position_id p) (p_symbol p) (su_current u)) e
                else if su_kind u = ''trailing'' then publish (EvTrailingUpdated (p_position_id p) (p_symbol p) (su_current u)) e
                else e)
      in publish (EvStopMoved (p_position_id p) (p_symbol p) (su_previous u) (su_current u) (su_kind u)) e1)"

section \<open>Entry\<close>

definition entry_query :: "'b engine \<Rightarrow> string \<Rightarrow> real \<Rightarrow> real \<Rightarrow> risk_query" where
  "entry_query e symb notional equity = \<lparr> q_symbol = symb, q_new_notional = notional, q_equity = equity,
     q_open_positions = int (length (open_positions (ex_positions e))),
     q_positions_on_symbol = int (length (positions_for (ex_positions e) symb)),
     q_symbol_exposures = symbol_exposures (open_positions (ex_positions e)) \<rparr>"

text \<open>The order is approved: create it, execute it, open the position.\<close>

definition submit_entry :: "'b broker_ops \<Rightarrow> env \<Rightarrow> decision_event \<Rightarrow> string \<Rightarrow> order_side \<Rightarrow> ticker
    \<Rightarrow> market_view \<Rightarrow> real \<Rightarrow> real \<times> real \<Rightarrow> 'b engine \<Rightarrow> 'b engine \<times> position option" where
  "submit_entry ops env de symb side tk view qty stops e =
     (case stops of (sl, tp) \<Rightarrow>
      let (rid, e1) = fresh_id env e;
          (oid, e2) = fresh_id env e1;
          (fid, e3) = fresh_id env e2;
          rq = (mk_request rid symb side qty (en_now env))\<lparr> rq_stop_loss := Some sl, rq_take_profit := Some tp,
                 rq_decision_id := Some (de_decision_id de), rq_reason := Lit (de_summary de) \<rparr>;
          (om1, od) = om_create (ex_orders e3) oid rq (en_now env);
          e4 = publish (EvOrderCreated oid symb side qty OT_MARKET (Some (de_decision_id de)))
                 (e3\<lparr> ex_orders := om1 \<rparr>);
          (ex, b') = bo_execute ops fid (en_now env) rq tk (Some (slip_context view qty)) True True (ex_broker e4);
          e5 = e4\<lparr> ex_broker := b' \<rparr>
      in case be_fill ex of
           None \<Rightarrow>
             (let (om2, _) = om_reject (ex_orders e5) od (be_reject_reason ex) (en_now env)
              in (publish (EvOrderRejected oid symb side (ReasonText (be_reject_reason ex)))
                    (e5\<lparr> ex_orders := om2 \<rparr>), None))
         | Some f \<Rightarrow>
             (let (om2, _) = om_apply_fill (ex_orders e5) od f;
                  e6 = announce_fill oid f (e5\<lparr> ex_orders := om2 \<rparr>);
                  e7 = e6\<lparr> ex_portfolio := on_open_commission (f_commission f) (ex_portfolio e6) \<rparr>;
                  (pid, e8) = fresh_id env e7;
                  info = \<lparr> oi_stop_loss = Some sl, oi_take_profit = Some tp,
                    oi_decision_id = Some (de_decision_id de), oi_regime = mv_regime view,
                    oi_score = de_score de, oi_confidence = de_confidence de,
                    oi_entry_reasons = (if de_summary de \<noteq> [] then [Lit (de_summary de)] else []),
                    oi_atr = mv_atr view, oi_volatility = mv_volatility view \<rparr>;
                  (pm', p) = pm_open_from_fill (ex_positions e8) pid f info;
                  e9 = e8\<lparr> ex_positions := pm' \<rparr>
              in (publish (EvPositionOpened pid symb (p_side p) (p_quantity p) (p_entry_price p)
                    (Some sl) (Some tp) (Some (de_decision_id de))) e9, Some p)))"

text \<open>Sizing and the risk manager's verdict, once the market filters passed.\<close>

definition approve_entry :: "'b broker_ops \<Rightarrow> env \<Rightarrow> decision_event \<Rightarrow> string \<Rightarrow> order_side \<Rightarrow> ticker
    \<Rightarrow> market_view \<Rightarrow> 'b engine \<Rightarrow> 'b engine \<times> position option" where
  "approve_entry ops env de symb side tk view e =
     (let z = xs_sizing (ex_settings e);
          reference = (if side = BUY then tk_ask tk else tk_bid tk);
          distance = stop_distance z view reference;
          stops = stops_of z side reference distance;
          equity = pf_equity (ex_portfolio e) (open_positions (ex_positions e));
          (win_rate, reward_risk) = perf_inputs e;
          (spec, e1) = instrument_spec_for ops symb e;
          sz = size_calculate z equity reference distance (de_confidence de) win_rate reward_risk spec
      in if sr_quantity sz \<le> 0
         then (eng_reject env symb side RR_INVALID_QUANTITY ''sizing'' (sr_reason sz) e1, None)
         else
           let (check, rm') = evaluate_entry (en_now env) (entry_query e1 symb (sr_notional sz) equity) (ex_risk e1);
               e2 = e1\<lparr> ex_risk := rm' \<rparr>
           in if \<not> rc_allowed check
              then (eng_reject env symb side RR_RISK_BLOCKED (rc_rule check) (rc_reason check) e2, None)
              else submit_entry ops env de symb side tk view (sr_quantity sz) stops e2)"

definition process_decision :: "'b broker_ops \<Rightarrow> env \<Rightarrow> decision_event \<Rightarrow> 'b engine \<Rightarrow> 'b engine \<times> position option" where
  "process_decision ops env de e =
     (if \<not> de_accepted de \<or> de_action de \<notin> {''open_long'', ''open_short''} then (e, None) else
      let symb = upper (de_symbol de);
          side = (if de_action de = ''open_long'' then BUY else SELL) in
      if \<not> pd_get_or (xs_symbols_enabled (ex_settings e)) symb True then (e, None) else
      case entry_veto (en_vetoes env) of
        Some veto \<Rightarrow> (eng_reject env symb side RR_RISK_BLOCKED ''entry_veto'' (Lit veto) e, None)
      | None \<Rightarrow>
          (case en_ticker env symb of
             None \<Rightarrow> (e, None)
           | Some tk \<Rightarrow>
               let view = view_of env (ex_settings e) symb;
                   spread = check_spread (ex_risk e) (mv_spread_bps view) in
               if \<not> rc_allowed spread
               then (eng_reject env symb side RR_SPREAD_TOO_WIDE (rc_rule spread) (rc_reason spread) e, None) else
               let liquidity = check_liquidity (ex_risk e) (mv_volume view) in
               if \<not> rc_allowed liquidity
               then (eng_reject env symb side RR_RISK_BLOCKED (rc_rule liquidity) (rc_reason liquidity) e, None)
               else approve_entry ops env de symb side tk view e))"

section \<open>Settling\<close>

definition meta_num :: "pylib \<Rightarrow> position \<Rightarrow> string \<Rightarrow> real" where
  "meta_num L p k = (let j = jget (p_metadata p) k (JNum 0) in
     if py_bool j then (case py_float L j of Inr x \<Rightarrow> x | Inl _ \<Rightarrow> 0) else 0)"

definition meta_opt_num :: "position \<Rightarrow> string \<Rightarrow> real option" where
  "meta_opt_num p k = (case jget (p_metadata p) k JNull of JNum x \<Rightarrow> Some x | JInt i \<Rightarrow> Some (of_int i) | _ \<Rightarrow> None)"

definition trade_of :: "env \<Rightarrow> string \<Rightarrow> position \<Rightarrow> fill \<Rightarrow> trade_record" where
  "trade_of env tid p f =
     (let L = en_lib env;
          avg_slip = (meta_num L p ''entry_slippage_bps'' + f_slippage_bps f) / 2;
          gross = p_realized_pnl p + p_commission_paid p in
      \<lparr> t_trade_id = tid, t_position_id = p_position_id p, t_symbol = p_symbol p, t_side = p_side p,
        t_quantity = p_initial_quantity p, t_entry_time = p_opened_at p,
        t_exit_time = (case p_closed_at p of Some t \<Rightarrow> t | None \<Rightarrow> en_now env),
        t_entry_price = p_entry_price p, t_exit_price = f_price f, t_stop_loss = p_initial_stop p,
        t_take_profit = p_take_profit p, t_commission = p_commission_paid p,
        t_slippage_bps = py_round 4 avg_slip, t_spread_bps = f_spread_bps f,
        t_pnl = py_round 6 (p_realized_pnl p), t_pnl_gross = py_round 6 gross,
        t_r_multiple = py_round 4 (r_multiple p (Some (f_price f))),
        t_return_pct = py_round 4 (if cost_basis p \<noteq> 0 then p_realized_pnl p / cost_basis p * 100 else 0),
        t_atr = meta_opt_num p ''atr'',
        t_volatility = py_str L (jget (p_metadata p) ''volatility'' (JStr ''normal'')),
        t_regime = p_regime p, t_score = p_score p, t_confidence = p_confidence p,
        t_exit_reason = (case p_exit_reason p of Some r \<Rightarrow> r | None \<Rightarrow> EX_MANUAL),
        t_entry_reasons = map (\<lambda>m. JStr (render L m)) (p_entry_reasons p),
        t_exit_reasons = map (\<lambda>m. JStr (render L m)) (p_exit_reasons p),
        t_decision_id = json_opt_str (p_decision_id p),
        t_context_snapshot =
          [(''exit_regime'', jget (p_metadata p) ''exit_regime'' (JStr ''unknown'')),
           (''entry_regime'', JStr (p_regime p)),
           (''regime_adverse_streak'', jget (p_metadata p) ''regime_adverse_streak'' (JInt 0)),
           (''break_even_active'', JBool (p_break_even_active p)),
           (''trailing_active'', JBool (p_trailing_active p)),
           (''holding_seconds'', JNum (py_round 1 (holding_seconds (en_now env) p)))],
        t_recorded_at = en_now env \<rparr>)"

definition announce_breaker :: "env \<Rightarrow> 'b engine \<Rightarrow> 'b engine" where
  "announce_breaker env e =
     (let e1 = e\<lparr> ex_risk := refresh_circuit_breaker (en_now env) (ex_risk e) \<rparr> in
      if rm_circuit_breaker (ex_risk e1) \<and> \<not> ex_cb_announced e1
      then publish (EvCircuitBreakerTriggered (rk_circuit_breaker_loss_pct (xs_risk (ex_settings e1)))
             (rk_circuit_breaker_window_minutes (xs_risk (ex_settings e1)))) (e1\<lparr> ex_cb_announced := True \<rparr>)
      else e1)"

text \<open>
  What both ways of closing share: the position leaves the registry, cash and risk are settled, the
  trade is journalled and announced.  \<open>breaker\<close> says whether the circuit breaker is announced, which
  only the closing through the broker does.
\<close>

definition settle_close :: "env \<Rightarrow> bool \<Rightarrow> position \<Rightarrow> fill \<Rightarrow> real \<Rightarrow> exit_reason \<Rightarrow> msg list \<Rightarrow> 'b engine \<Rightarrow> 'b engine" where
  "settle_close env breaker p f commission reason reasons e =
     (let (pm', p', gross) = pm_close (ex_positions e) p (f_price f) commission reason reasons (en_now env);
          e1 = e\<lparr> ex_positions := pm', ex_portfolio := pf_on_trade_closed gross commission (ex_portfolio e),
                  ex_risk := rm_on_trade_closed (en_now env) (p_realized_pnl p') (ex_risk e) \<rparr>;
          e2 = (if breaker then announce_breaker env e1 else e1);
          (tid, e3) = fresh_id env e2;
          (jn', disk') = jn_record (en_io_ok env) (trade_of env tid p' f) (ex_journal e3, ex_disk e3);
          e4 = e3\<lparr> ex_journal := jn', ex_disk := disk' \<rparr>
      in publish (EvPositionClosed (p_position_id p') (p_symbol p') (p_side p') (p_quantity p') (f_price f)
            (py_round 6 (p_realized_pnl p')) (py_round 4 (r_multiple p' (Some (f_price f)))) reason
            (holding_seconds (en_now env) p')) e4)"

definition close_side :: "position \<Rightarrow> order_side" where
  "close_side p = (if is_long p then SELL else BUY)"

definition close_position :: "'b broker_ops \<Rightarrow> env \<Rightarrow> string \<Rightarrow> exit_reason \<Rightarrow> msg list \<Rightarrow> 'b engine \<Rightarrow> 'b engine" where
  "close_position ops env pid reason reasons e =
     (case pm_get (ex_positions e) pid of
        None \<Rightarrow> e
      | Some p \<Rightarrow>
          (case en_ticker env (p_symbol p) of
             None \<Rightarrow> e
           | Some tk \<Rightarrow>
               let (rid, e1) = fresh_id env e;
                   (oid, e2) = fresh_id env e1;
                   (fid, e3) = fresh_id env e2;
                   rq = (mk_request rid (p_symbol p) (close_side p) (p_quantity p) (en_now env))
                          \<lparr> rq_reduce_only := True, rq_reason := Lit (exit_value reason) \<rparr>;
                   (om1, od) = om_create (ex_orders e3) oid rq (en_now env);
                   e4 = e3\<lparr> ex_orders := om1 \<rparr>;
                   view = view_of env (ex_settings e4) (p_symbol p);
                   (ex, b') = bo_execute ops fid (en_now env) rq tk
                     (Some (slip_context view (p_quantity p))) False False (ex_broker e4);
                   e5 = e4\<lparr> ex_broker := b' \<rparr>
               in case be_fill ex of
                    None \<Rightarrow> e5
                  | Some f \<Rightarrow>
                      let (om2, _) = om_apply_fill (ex_orders e5) od f;
                          e6 = announce_fill oid f (e5\<lparr> ex_orders := om2 \<rparr>)
                      in settle_close env True p f (f_commission f) reason
                           (if reasons \<noteq> [] then reasons else [Lit (exit_value reason)]) e6))"

section \<open>Reconciliation with the broker\<close>

definition sync_broker_balance :: "'b broker_ops \<Rightarrow> 'b engine \<Rightarrow> 'b engine" where
  "sync_broker_balance ops e =
     (case bo_balance ops of
        None \<Rightarrow> e
      | Some account_balance \<Rightarrow>
          (case account_balance (ex_broker e) of
             None \<Rightarrow> e
           | Some bal \<Rightarrow> e\<lparr> ex_portfolio := sync_from_broker bal (\<not> ex_baseline_set e) (ex_portfolio e),
                            ex_baseline_set := True \<rparr>))"

definition infer_external_exit :: "position \<Rightarrow> real \<Rightarrow> exit_reason \<times> msg" where
  "infer_external_exit p exit_price =
     (let risk = (if truthy (p_initial_stop p) then \<bar>p_entry_price p - the (p_initial_stop p)\<bar> else 0);
          tolerance = max (risk * (1/5)) (exit_price * (5 / 10000)) in
      if (case p_stop_loss p of None \<Rightarrow> False | Some s \<Rightarrow> \<bar>exit_price - s\<bar> \<le> tolerance)
      then (EX_STOP_LOSS, Fmt ''{} ejecutado por el broker ({})''
              [ArgStr (if p_break_even_active p then ''break-even'' else ''stop''), ArgReal exit_price])
      else if (case p_take_profit p of None \<Rightarrow> False | Some t \<Rightarrow> \<bar>exit_price - t\<bar> \<le> tolerance)
      then (EX_TAKE_PROFIT, Fmt ''objetivo ejecutado por el broker ({})'' [ArgReal exit_price])
      else (EX_MANUAL, Lit ''cerrada fuera del bot (terminal/broker)''))"

definition external_fill :: "string \<Rightarrow> position \<Rightarrow> real \<Rightarrow> time \<Rightarrow> fill" where
  "external_fill fid p price now = \<lparr> f_fill_id = fid, f_request_id = ''external-close-'' @ p_position_id p,
     f_symbol = p_symbol p, f_side = close_side p, f_quantity = p_quantity p,
     f_requested_quantity = p_quantity p, f_reference_price = price, f_price = price, f_slippage_bps = 0,
     f_spread_bps = 0, f_commission = 0, f_latency_ms = 0, f_maker = False, f_gapped = False,
     f_executed_at = now, f_broker_ref = None \<rparr>"

definition settle_external_close :: "env \<Rightarrow> string \<Rightarrow> 'b engine \<Rightarrow> 'b engine" where
  "settle_external_close env pid e =
     (case pm_get (ex_positions e) pid of
        None \<Rightarrow> e
      | Some p \<Rightarrow>
          (let price = (case en_ticker env (p_symbol p) of Some tk \<Rightarrow> tk_mid tk | None \<Rightarrow> p_mark_price p);
               (reason, detail) = infer_external_exit p price;
               (fid, e1) = fresh_id env e
           in settle_close env False p (external_fill fid p price (en_now env)) 0 reason [detail] e1))"

definition tracked :: "pylib \<Rightarrow> 'b engine \<Rightarrow> position list" where
  "tracked L e = filter (\<lambda>p. broker_ref L p \<noteq> None) (open_positions (ex_positions e))"

definition reconcile_broker_positions :: "'b broker_ops \<Rightarrow> env \<Rightarrow> 'b engine \<Rightarrow> 'b engine" where
  "reconcile_broker_positions ops env e =
     (case bo_tickets ops of
        None \<Rightarrow> e
      | Some live_tickets_of \<Rightarrow>
          (let ps = tracked (en_lib env) e;
               live = (\<lambda>symb. map show_int (live_tickets_of symb (ex_broker e)));
               gone = filter (\<lambda>p. the (broker_ref (en_lib env) p) \<notin> set (live (p_symbol p))) ps
           in fold (\<lambda>p e. settle_external_close env (p_position_id p) e) gone e))"

definition adopt_one :: "env \<Rightarrow> string list \<Rightarrow> broker_position \<Rightarrow> 'b engine \<Rightarrow> 'b engine" where
  "adopt_one env known bp e =
     (if show_int (bp_ticket bp) \<in> set known then e else
      let (pid, e1) = fresh_id env e;
          (pm', p) = pm_adopt (ex_positions e1) pid bp (show_int (bp_ticket bp)) (en_now env)
      in publish (EvPositionOpened (p_position_id p) (p_symbol p) (p_side p) (p_quantity p) (p_entry_price p)
           (p_stop_loss p) (p_take_profit p) None) (e1\<lparr> ex_positions := pm' \<rparr>))"

definition adopt_broker_positions :: "'b broker_ops \<Rightarrow> env \<Rightarrow> 'b engine \<Rightarrow> 'b engine" where
  "adopt_broker_positions ops env e =
     (case bo_live ops of
        None \<Rightarrow> e
      | Some positions_of \<Rightarrow>
          (let known = concat (map (\<lambda>p. some_list (broker_ref (en_lib env) p)) (open_positions (ex_positions e)))
           in fold (adopt_one env known) (positions_of (ex_broker e)) e))"

text \<open>The synchronous part of \<open>_on_start\<close>; the subscription and the task are the bus and the event loop.\<close>

definition on_start :: "'b broker_ops \<Rightarrow> env \<Rightarrow> 'b engine \<Rightarrow> py_error + 'b engine" where
  "on_start ops env e =
     ebind (jn_load_from_disk (en_lib env) (en_io_ok env) (ex_disk e) (ex_journal e)) (\<lambda>(n, jn).
       Inr (adopt_broker_positions ops env (sync_broker_balance ops (e\<lparr> ex_journal := jn \<rparr>))))"

section \<open>Management pass\<close>

definition regime_families :: "(string \<times> string) list" where
  "regime_families = [(''trending'', ''continuation''), (''breakout'', ''continuation''),
     (''expansion'', ''continuation''), (''ranging'', ''mean_reversion''),
     (''compression'', ''mean_reversion''), (''low_volatility'', ''mean_reversion''),
     (''reversal'', ''adverse''), (''high_volatility'', ''adverse'')]"

definition regime_family :: "string \<Rightarrow> string" where
  "regime_family r = pd_get_or regime_families r r"

definition set_meta :: "string \<Rightarrow> json \<Rightarrow> position \<Rightarrow> position" where
  "set_meta k j p = p\<lparr> p_metadata := pd_put (p_metadata p) k j \<rparr>"

definition streak_of :: "position \<Rightarrow> int" where
  "streak_of p = (case jget (p_metadata p) ''regime_adverse_streak'' (JInt 0) of
     JInt i \<Rightarrow> i | JNum x \<Rightarrow> py_int x | JBool b \<Rightarrow> (if b then 1 else 0) | _ \<Rightarrow> 0)"

text \<open>The verdict and the position with its updated streak.\<close>

definition regime_turned_against :: "env \<Rightarrow> execution_settings \<Rightarrow> position \<Rightarrow> bool \<times> position" where
  "regime_turned_against env s p =
     (if \<not> xs_exit_on_regime_change s \<or> en_context env = None then (False, p)
      else if p_regime p = [] \<or> p_regime p = ''unknown'' then (False, p)
      else if holding_seconds (en_now env) p < xs_regime_change_min_holding_seconds s then (False, p)
      else
        let view = view_of env s (p_symbol p);
            p1 = set_meta ''exit_regime'' (JStr (mv_regime view)) p in
        if mv_regime view = ''unknown'' then (False, p1) else
        let changed = (if xs_regime_exit_family_only s
                       then regime_family (mv_regime view) \<noteq> regime_family (p_regime p)
                       else mv_regime view \<noteq> p_regime p) in
        if \<not> changed then (False, set_meta ''regime_adverse_streak'' (JInt 0) p1) else
        let streak = streak_of p1 + 1;
            p2 = set_meta ''regime_adverse_streak'' (JInt streak) p1;
            needed = max 1 (xs_regime_exit_confirmations s)
        in (if streak < needed then (False, p2) else (True, p2)))"

definition exit_reason_of :: "env \<Rightarrow> execution_settings \<Rightarrow> position \<Rightarrow> exit_reason option \<times> position" where
  "exit_reason_of env s p =
     (if xs_max_holding_minutes s > 0 \<and> holding_seconds (en_now env) p / 60 \<ge> xs_max_holding_minutes s
      then (Some EX_TIME_EXIT, p)
      else case regime_turned_against env s p of
             (turned, p1) \<Rightarrow> if turned then (Some EX_REGIME_CHANGE, p1) else (check_exit p1, p1))"

definition store_position :: "position \<Rightarrow> 'b engine \<Rightarrow> 'b engine" where
  "store_position p e = e\<lparr> ex_positions := pm_store (ex_positions e) p \<rparr>"

definition manage_position :: "'b broker_ops \<Rightarrow> env \<Rightarrow> string \<Rightarrow> 'b engine \<Rightarrow> 'b engine" where
  "manage_position ops env pid e =
     (case pm_get (ex_positions e) pid of
        None \<Rightarrow> e
      | Some p \<Rightarrow>
          (case en_ticker env (p_symbol p) of
             None \<Rightarrow> e
           | Some tk \<Rightarrow>
               let p1 = p_update_mark (mark_price_of p tk) p;
                   (p2, updates) = manage (pm_config_of (ex_settings e)) (symbol_atr env (ex_settings e) (p_symbol p)) p1;
                   e1 = fold (announce_stop p2) updates (store_position p2 e);
                   (reason, p3) = exit_reason_of env (ex_settings e1) p2;
                   e2 = store_position p3 e1
               in case reason of
                    None \<Rightarrow> e2
                  | Some r \<Rightarrow> close_position ops env pid r [] e2))"

definition open_ids :: "'b engine \<Rightarrow> string list" where
  "open_ids e = map p_position_id (open_positions (ex_positions e))"

definition close_all :: "'b broker_ops \<Rightarrow> env \<Rightarrow> exit_reason \<Rightarrow> 'b engine \<Rightarrow> 'b engine" where
  "close_all ops env r e = fold (\<lambda>pid e. close_position ops env pid r [] e) (open_ids e) e"

definition refresh_risk :: "'b broker_ops \<Rightarrow> env \<Rightarrow> 'b engine \<Rightarrow> 'b engine" where
  "refresh_risk ops env e =
     (let (pf', snap) = pf_snapshot (en_now env) (open_positions (ex_positions e)) (ex_portfolio e);
          e1 = e\<lparr> ex_portfolio := pf', ex_risk := update_equity (sn_drawdown_pct snap) (ex_risk e) \<rparr> in
      if \<not> rm_kill_switch (ex_risk e1) then e1\<lparr> ex_kill_announced := False \<rparr>
      else
        let e2 = (if ex_kill_announced e1 then e1
                  else let (st, rm') = rm_status (en_now env) (ex_risk e1) in
                    publish (EvKillSwitchTriggered (msg_or (rs_kill_reason st) (Lit ''drawdown'')) (sn_drawdown_pct snap))
                      (e1\<lparr> ex_kill_announced := True, ex_risk := rm' \<rparr>))
        in close_all ops env EX_KILL_SWITCH e2)"

definition manage_once :: "'b broker_ops \<Rightarrow> env \<Rightarrow> 'b engine \<Rightarrow> 'b engine" where
  "manage_once ops env e =
     (let e1 = reconcile_broker_positions ops env (sync_broker_balance ops e);
          e2 = fold (manage_position ops env) (open_ids e1) e1
      in refresh_risk ops env e2)"

section \<open>Manual operations\<close>

definition modify_stop :: "string \<Rightarrow> real \<Rightarrow> 'b engine \<Rightarrow> 'b engine \<times> bool" where
  "modify_stop pid sl e =
     (case pm_get (ex_positions e) pid of
        None \<Rightarrow> (e, False)
      | Some p \<Rightarrow> (publish (EvStopMoved pid (p_symbol p) (p_stop_loss p) sl ''manual'')
            (store_position (p\<lparr> p_stop_loss := Some sl \<rparr>) e), True))"

definition move_break_even :: "string \<Rightarrow> 'b engine \<Rightarrow> 'b engine \<times> bool" where
  "move_break_even pid e =
     (case pm_get (ex_positions e) pid of
        None \<Rightarrow> (e, False)
      | Some p \<Rightarrow> (publish (EvBreakEvenActivated pid (p_symbol p) (p_entry_price p))
            (store_position (p\<lparr> p_stop_loss := Some (p_entry_price p), p_break_even_active := True \<rparr>) e), True))"

end
