(* ===== verification/Engine_Entry.thy ===== *)
theory Engine_Entry
  imports Execution_Engine
begin

text \<open>
  The entry path of the execution engine: frames of its steps, the placement of stops, the
  fail-closed vetoes, and what an opened position implies.
\<close>

section \<open>Frames\<close>

lemma publish_frame [simp]:
  "ex_settings (publish ev e) = ex_settings e" "ex_broker (publish ev e) = ex_broker e"
  "ex_risk (publish ev e) = ex_risk e" "ex_positions (publish ev e) = ex_positions e"
  "ex_portfolio (publish ev e) = ex_portfolio e" "ex_orders (publish ev e) = ex_orders e"
  "ex_journal (publish ev e) = ex_journal e" "ex_disk (publish ev e) = ex_disk e"
  "ex_performance_balance (publish ev e) = ex_performance_balance e"
  "ex_kill_announced (publish ev e) = ex_kill_announced e"
  "ex_cb_announced (publish ev e) = ex_cb_announced e"
  "ex_baseline_set (publish ev e) = ex_baseline_set e"
  "ex_spec_cache (publish ev e) = ex_spec_cache e" "ex_next (publish ev e) = ex_next e"
  by (simp_all add: publish_def)

lemma publish_events [simp]: "ex_events (publish ev e) = ex_events e @ [ev]"
  by (simp add: publish_def)

lemma fresh_frame [simp]:
  "ex_settings (snd (fresh_id env e)) = ex_settings e"
  "ex_broker (snd (fresh_id env e)) = ex_broker e" "ex_risk (snd (fresh_id env e)) = ex_risk e"
  "ex_positions (snd (fresh_id env e)) = ex_positions e"
  "ex_portfolio (snd (fresh_id env e)) = ex_portfolio e"
  "ex_orders (snd (fresh_id env e)) = ex_orders e"
  "ex_journal (snd (fresh_id env e)) = ex_journal e" "ex_disk (snd (fresh_id env e)) = ex_disk e"
  "ex_performance_balance (snd (fresh_id env e)) = ex_performance_balance e"
  "ex_kill_announced (snd (fresh_id env e)) = ex_kill_announced e"
  "ex_cb_announced (snd (fresh_id env e)) = ex_cb_announced e"
  "ex_baseline_set (snd (fresh_id env e)) = ex_baseline_set e"
  "ex_spec_cache (snd (fresh_id env e)) = ex_spec_cache e"
  "ex_events (snd (fresh_id env e)) = ex_events e"
  by (simp_all add: fresh_id_def)

lemma fresh_next [simp]: "ex_next (snd (fresh_id env e)) = ex_next e + 1" "fst (fresh_id env e) = en_ids env (ex_next e)"
  by (simp_all add: fresh_id_def)

lemma announce_fill_frame [simp]:
  "ex_settings (announce_fill oid f e) = ex_settings e"
  "ex_broker (announce_fill oid f e) = ex_broker e" "ex_risk (announce_fill oid f e) = ex_risk e"
  "ex_positions (announce_fill oid f e) = ex_positions e"
  "ex_portfolio (announce_fill oid f e) = ex_portfolio e"
  "ex_orders (announce_fill oid f e) = ex_orders e"
  "ex_journal (announce_fill oid f e) = ex_journal e" "ex_disk (announce_fill oid f e) = ex_disk e"
  "ex_performance_balance (announce_fill oid f e) = ex_performance_balance e"
  "ex_kill_announced (announce_fill oid f e) = ex_kill_announced e"
  "ex_cb_announced (announce_fill oid f e) = ex_cb_announced e"
  "ex_baseline_set (announce_fill oid f e) = ex_baseline_set e"
  "ex_spec_cache (announce_fill oid f e) = ex_spec_cache e"
  "ex_next (announce_fill oid f e) = ex_next e"
  by (simp_all add: announce_fill_def)

lemma announce_stop_frame [simp]:
  "ex_settings (announce_stop p u e) = ex_settings e"
  "ex_broker (announce_stop p u e) = ex_broker e" "ex_risk (announce_stop p u e) = ex_risk e"
  "ex_positions (announce_stop p u e) = ex_positions e"
  "ex_portfolio (announce_stop p u e) = ex_portfolio e"
  "ex_orders (announce_stop p u e) = ex_orders e" "ex_journal (announce_stop p u e) = ex_journal e"
  "ex_disk (announce_stop p u e) = ex_disk e"
  "ex_performance_balance (announce_stop p u e) = ex_performance_balance e"
  "ex_kill_announced (announce_stop p u e) = ex_kill_announced e"
  "ex_cb_announced (announce_stop p u e) = ex_cb_announced e"
  "ex_baseline_set (announce_stop p u e) = ex_baseline_set e"
  "ex_spec_cache (announce_stop p u e) = ex_spec_cache e"
  "ex_next (announce_stop p u e) = ex_next e"
  by (simp_all add: announce_stop_def Let_def)

lemma reject_frame [simp]:
  "ex_settings (eng_reject env symb side r rule d e) = ex_settings e"
  "ex_broker (eng_reject env symb side r rule d e) = ex_broker e"
  "ex_risk (eng_reject env symb side r rule d e) = ex_risk e"
  "ex_positions (eng_reject env symb side r rule d e) = ex_positions e"
  "ex_portfolio (eng_reject env symb side r rule d e) = ex_portfolio e"
  "ex_journal (eng_reject env symb side r rule d e) = ex_journal e"
  "ex_disk (eng_reject env symb side r rule d e) = ex_disk e"
  "ex_performance_balance (eng_reject env symb side r rule d e) = ex_performance_balance e"
  "ex_kill_announced (eng_reject env symb side r rule d e) = ex_kill_announced e"
  "ex_cb_announced (eng_reject env symb side r rule d e) = ex_cb_announced e"
  "ex_baseline_set (eng_reject env symb side r rule d e) = ex_baseline_set e"
  "ex_spec_cache (eng_reject env symb side r rule d e) = ex_spec_cache e"
  by (simp_all add: eng_reject_def Let_def fresh_id_def split: prod.splits)

lemma spec_frame [simp]:
  "ex_settings (snd (instrument_spec_for ops symb e)) = ex_settings e"
  "ex_broker (snd (instrument_spec_for ops symb e)) = ex_broker e"
  "ex_risk (snd (instrument_spec_for ops symb e)) = ex_risk e"
  "ex_positions (snd (instrument_spec_for ops symb e)) = ex_positions e"
  "ex_portfolio (snd (instrument_spec_for ops symb e)) = ex_portfolio e"
  "ex_orders (snd (instrument_spec_for ops symb e)) = ex_orders e"
  "ex_journal (snd (instrument_spec_for ops symb e)) = ex_journal e"
  "ex_disk (snd (instrument_spec_for ops symb e)) = ex_disk e"
  "ex_performance_balance (snd (instrument_spec_for ops symb e)) = ex_performance_balance e"
  "ex_kill_announced (snd (instrument_spec_for ops symb e)) = ex_kill_announced e"
  "ex_cb_announced (snd (instrument_spec_for ops symb e)) = ex_cb_announced e"
  "ex_baseline_set (snd (instrument_spec_for ops symb e)) = ex_baseline_set e"
  "ex_events (snd (instrument_spec_for ops symb e)) = ex_events e"
  "ex_next (snd (instrument_spec_for ops symb e)) = ex_next e"
  by (simp_all add: instrument_spec_for_def split: option.splits)

section \<open>Vetoes\<close>

lemma entry_veto_None: "entry_veto vs = None \<longleftrightarrow> (\<forall>v \<in> set vs. v = VetoAllow)"
  by (induction vs rule: entry_veto.induct) auto

lemma vetoed_decision:
  assumes "v \<in> set (en_vetoes env)" "v \<noteq> VetoAllow"
  shows "let (e', r) = process_decision ops env de e in
    r = None \<and> ex_positions e' = ex_positions e \<and> ex_portfolio e' = ex_portfolio e
    \<and> ex_broker e' = ex_broker e \<and> ex_risk e' = ex_risk e \<and> ex_journal e' = ex_journal e"
proof -
  have "entry_veto (en_vetoes env) \<noteq> None" using assms entry_veto_None by blast
  then obtain reason where veto: "entry_veto (en_vetoes env) = Some reason" by blast
  show ?thesis by (simp add: process_decision_def veto Let_def)
qed

text \<open>
  The entry vetoes are fail-closed.  If any registered callback blocks or raises, no
  decision opens a position: broker, positions, cash, risk state and trade journal stay as they are.  A decision that gets as far as the
  vetoes leaves a rejected order and its events behind.
\<close>

theorem veto_blocks_entry:
  assumes "v \<in> set (en_vetoes env)" "v \<noteq> VetoAllow"
  shows "let (e', r) = process_decision ops env de e in
    r = None \<and> ex_positions e' = ex_positions e \<and> ex_portfolio e' = ex_portfolio e
    \<and> ex_broker e' = ex_broker e \<and> ex_risk e' = ex_risk e \<and> ex_journal e' = ex_journal e"
  by (rule vetoed_decision [OF assms])

definition example_env :: env where
  "example_env = \<lparr> en_now = 0, en_ticker = (\<lambda>s. Some \<lparr> tk_symbol = s, tk_bid = 9999, tk_ask = 10000 \<rparr>),
     en_candles = (\<lambda>s n. []), en_context = None, en_vetoes = [VetoAllow, VetoRaises],
     en_ids = (\<lambda>n. replicate n CHR ''i''),
     en_lib = \<lparr> pl_repr = (\<lambda>j. []), pl_float = (\<lambda>s. None), pl_iso = (\<lambda>s. None), pl_dict = (\<lambda>j. Inl TypeError), pl_render = (\<lambda>m. []) \<rparr>,
     en_io_ok = True \<rparr>"

definition example_decision :: decision_event where
  "example_decision = \<lparr> de_decision_id = ''d1'', de_symbol = ''btcusdt'', de_action = ''open_long'',
     de_accepted = True, de_score = 1, de_confidence = 1, de_summary = [] \<rparr>"

text \<open>The simulated venue has none of the optional operations.\<close>

definition paper_ops :: "paper_broker broker_ops" where
  "paper_ops = \<lparr> bo_execute = pb_execute, bo_spec = None, bo_balance = None, bo_tickets = None, bo_live = None \<rparr>"

definition example_engine :: "paper_broker engine" where
  "example_engine = build_engine default_execution example_broker 10000 None"

theorem veto_blocks_entry_witness:
  "snd (process_decision paper_ops example_env example_decision example_engine) = None"
  using veto_blocks_entry [of VetoRaises example_env paper_ops example_decision example_engine]
  by (simp add: example_env_def split: prod.splits)

section \<open>Stops\<close>

definition direction_of :: "order_side \<Rightarrow> real" where
  "direction_of side = (if side = BUY then 1 else -1)"

lemma stop_distance_floors:
  "reference * (sz_min_stop_pct z / 100) \<le> stop_distance z view reference"
  "mv_spread_bps view = Some sp \<Longrightarrow> 0 < sp \<Longrightarrow>
     reference * (sp / 10000) * sz_min_stop_spread_multiple z \<le> stop_distance z view reference"
  "mv_atr view = Some a \<Longrightarrow> 0 < a \<Longrightarrow> a * sz_atr_stop_multiplier z \<le> stop_distance z view reference"
  by (auto simp: stop_distance_def Let_def le_max_iff_disj split: option.splits)

lemma stops_of_error:
  assumes "stops_of z side reference distance = (sl, tp)"
  shows "\<bar>sl - (reference - direction_of side * distance)\<bar> \<le> 1 / (2 * 10 ^ 8)"
    and "\<bar>tp - (reference + direction_of side * (distance * sz_reward_risk z))\<bar> \<le> 1 / (2 * 10 ^ 8)"
proof -
  have sl: "sl = py_round 8 (reference - direction_of side * distance)"
    and tp: "tp = py_round 8 (reference + direction_of side * (distance * sz_reward_risk z))"
    using assms by (auto simp: stops_of_def Let_def direction_of_def split: if_splits)
  show "\<bar>sl - (reference - direction_of side * distance)\<bar> \<le> 1 / (2 * 10 ^ 8)"
    "\<bar>tp - (reference + direction_of side * (distance * sz_reward_risk z))\<bar> \<le> 1 / (2 * 10 ^ 8)"
    unfolding sl tp by (rule py_round_err)+
qed


definition example_view :: market_view where
  "example_view = \<lparr> mv_atr = Some 10, mv_atr_pct = None, mv_spread_bps = Some 3, mv_regime = ''trending'',
     mv_volatility = ''normal'', mv_volume = None, mv_last_price = None, mv_session = ''off'' \<rparr>"


section \<open>What an opened position implies\<close>

lemma submit_entry_Some:
  assumes "submit_entry ops env de symb side tk view qty (sl, tp) e = (e', Some p)"
  obtains fid rq pid f info where
    "be_fill (fst (bo_execute ops fid (en_now env) rq tk (Some (slip_context view qty)) True True (ex_broker e))) = Some f"
    "ex_broker e' = snd (bo_execute ops fid (en_now env) rq tk (Some (slip_context view qty)) True True (ex_broker e))"
    "rq_symbol rq = symb" "rq_side rq = side" "rq_quantity rq = qty" "rq_order_type rq = OT_MARKET"
    "p = position_from_fill pid f info" "pid = en_ids env (ex_next e + 3)"
    "oi_stop_loss info = Some sl" "oi_take_profit info = Some tp"
    "ex_positions e' = pm_store (ex_positions e) p"
    "ex_portfolio e' = on_open_commission (f_commission f) (ex_portfolio e)" "ex_risk e' = ex_risk e"
proof -
  define fid where "fid = en_ids env (ex_next e + 2)"
  define rq where "rq = (mk_request (en_ids env (ex_next e)) symb side qty (en_now env))\<lparr> rq_stop_loss := Some sl,
      rq_take_profit := Some tp, rq_decision_id := Some (de_decision_id de), rq_reason := Lit (de_summary de) \<rparr>"
  obtain ex b' where ex: "bo_execute ops fid (en_now env) rq tk (Some (slip_context view qty)) True True (ex_broker e) = (ex, b')"
    by fastforce
  define info where "info = \<lparr> oi_stop_loss = Some sl, oi_take_profit = Some tp,
      oi_decision_id = Some (de_decision_id de), oi_regime = mv_regime view, oi_score = de_score de,
      oi_confidence = de_confidence de,
      oi_entry_reasons = (if de_summary de \<noteq> [] then [Lit (de_summary de)] else []),
      oi_atr = mv_atr view, oi_volatility = mv_volatility view \<rparr>"
  define pid where "pid = en_ids env (ex_next e + 3)"
  note body = assms [unfolded submit_entry_def Let_def prod.case fresh_id_def engine.simps, simplified]
  show thesis
  proof (cases "be_fill ex")
    case None
    then show ?thesis using body ex by (auto simp: fid_def rq_def split: prod.splits)
  next
    case (Some f)
    have "p = position_from_fill pid f info \<and> ex_positions e' = pm_store (ex_positions e) p
        \<and> ex_portfolio e' = on_open_commission (f_commission f) (ex_portfolio e) \<and> ex_risk e' = ex_risk e
        \<and> ex_broker e' = b'"
      using body ex Some by (auto simp: fid_def rq_def info_def pid_def pm_open_from_fill_def Let_def numeral_2_eq_2 numeral_3_eq_3 split: prod.splits)
    note effects = this
    show ?thesis
      by (rule that [of fid rq f pid info])
        (use ex Some effects in \<open>simp_all add: rq_def info_def pid_def mk_request_def\<close>)
  qed
qed

lemma entry_query_spec [simp]: "entry_query (snd (instrument_spec_for ops symb e)) = entry_query e"
  by (simp add: entry_query_def fun_eq_iff)

definition side_of_action :: "string \<Rightarrow> order_side" where
  "side_of_action a = (if a = ''open_long'' then BUY else SELL)"

definition entry_reference :: "order_side \<Rightarrow> ticker \<Rightarrow> real" where
  "entry_reference side tk = (if side = BUY then tk_ask tk else tk_bid tk)"

text \<open>The size an entry asks for.\<close>

definition entry_size :: "'b broker_ops \<Rightarrow> env \<Rightarrow> decision_event \<Rightarrow> ticker \<Rightarrow> 'b engine \<Rightarrow> sizing_result" where
  "entry_size ops env de tk e =
     (let z = xs_sizing (ex_settings e); symb = upper (de_symbol de); reference = entry_reference (side_of_action (de_action de)) tk
      in size_calculate z (pf_equity (ex_portfolio e) (open_positions (ex_positions e))) reference
           (stop_distance z (view_of env (ex_settings e) symb) reference) (de_confidence de)
           (fst (perf_inputs e)) (snd (perf_inputs e)) (fst (instrument_spec_for ops symb e)))"

text \<open>Every guard an opened position has passed, with the state its order was submitted in.\<close>

lemma process_decision_Some:
  assumes "process_decision ops env de e = (e', Some p)"
  defines "symb \<equiv> upper (de_symbol de)" and "side \<equiv> side_of_action (de_action de)"
  obtains tk e2 equity where
    "de_accepted de" "de_action de \<in> {''open_long'', ''open_short''}"
    "pd_get_or (xs_symbols_enabled (ex_settings e)) symb True"
    "entry_veto (en_vetoes env) = None" "en_ticker env symb = Some tk" "0 < sr_quantity (entry_size ops env de tk e)"
    "rc_allowed (check_spread (ex_risk e) (mv_spread_bps (view_of env (ex_settings e) symb)))"
    "rc_allowed (check_liquidity (ex_risk e) (mv_volume (view_of env (ex_settings e) symb)))"
    "rc_allowed (fst (evaluate_entry (en_now env) (entry_query e symb (sr_notional (entry_size ops env de tk e)) equity) (ex_risk e)))"
    "equity = pf_equity (ex_portfolio e) (open_positions (ex_positions e))"
    "submit_entry ops env de symb side tk (view_of env (ex_settings e) symb) (sr_quantity (entry_size ops env de tk e))
       (stops_of (xs_sizing (ex_settings e)) side (entry_reference side tk)
         (stop_distance (xs_sizing (ex_settings e)) (view_of env (ex_settings e) symb) (entry_reference side tk))) e2
       = (e', Some p)"
    "ex_positions e2 = ex_positions e" "ex_portfolio e2 = ex_portfolio e" "ex_broker e2 = ex_broker e"
    "ex_next e2 = ex_next e"
proof -
  define z where "z = xs_sizing (ex_settings e)"
  define view where "view = view_of env (ex_settings e) symb"
  have guards: "de_accepted de" "de_action de \<in> {''open_long'', ''open_short''}"
      "entry_veto (en_vetoes env) = None" "en_ticker env symb \<noteq> None" "pd_get_or (xs_symbols_enabled (ex_settings e)) symb True"
      "rc_allowed (check_spread (ex_risk e) (mv_spread_bps (view_of env (ex_settings e) symb)))"
      "rc_allowed (check_liquidity (ex_risk e) (mv_volume (view_of env (ex_settings e) symb)))"
    using assms(1) unfolding process_decision_def symb_def
    by (auto simp: Let_def split: if_splits option.splits)
  then obtain tk where tk: "en_ticker env symb = Some tk" by blast
  have side: "(if de_action de = ''open_long'' then BUY else SELL) = side"
    by (simp add: side_def side_of_action_def)
  have approve: "approve_entry ops env de symb side tk view e = (e', Some p)"
    using assms(1) guards(1-3) tk unfolding process_decision_def side [symmetric] view_def symb_def
    by (auto simp: Let_def split: if_splits)
  define reference where "reference = entry_reference side tk"
  define distance where "distance = stop_distance z view reference"
  define equity where "equity = pf_equity (ex_portfolio e) (open_positions (ex_positions e))"
  obtain wr rr where perf: "perf_inputs e = (wr, rr)" by fastforce
  obtain spec e1 where spec: "instrument_spec_for ops symb e = (spec, e1)" by fastforce
  have "snd (instrument_spec_for ops symb e) = e1" by (simp add: spec)
  then have e1: "entry_query e1 = entry_query e" "ex_risk e1 = ex_risk e" "ex_positions e1 = ex_positions e"
      "ex_portfolio e1 = ex_portfolio e" "ex_broker e1 = ex_broker e" "ex_next e1 = ex_next e"
    using entry_query_spec [of ops symb e] spec_frame [of ops symb e] by simp_all
  define sz where "sz = size_calculate z equity reference distance (de_confidence de) wr rr spec"
  obtain check rm' where check:
    "evaluate_entry (en_now env) (entry_query e symb (sr_notional sz) equity) (ex_risk e) = (check, rm')" by fastforce
  have body: "(if sr_quantity sz \<le> 0
      then (eng_reject env symb side RR_INVALID_QUANTITY ''sizing'' (sr_reason sz) e1, None)
      else if \<not> rc_allowed check
      then (eng_reject env symb side RR_RISK_BLOCKED (rc_rule check) (rc_reason check) (e1\<lparr> ex_risk := rm' \<rparr>), None)
      else submit_entry ops env de symb side tk view (sr_quantity sz) (stops_of z side reference distance)
             (e1\<lparr> ex_risk := rm' \<rparr>)) = (e', Some p)"
    using approve
    unfolding approve_entry_def Let_def z_def [symmetric] entry_reference_def [symmetric] reference_def [symmetric]
      distance_def [symmetric] equity_def [symmetric] perf spec prod.case sz_def [symmetric] e1 check .
  then have ok: "0 < sr_quantity sz" "rc_allowed check"
    and submit: "submit_entry ops env de symb side tk view (sr_quantity sz) (stops_of z side reference distance)
             (e1\<lparr> ex_risk := rm' \<rparr>) = (e', Some p)"
    by (auto split: if_splits)
  have size: "entry_size ops env de tk e = sz"
    by (simp add: entry_size_def Let_def sz_def equity_def z_def view_def symb_def reference_def distance_def side_def perf spec [unfolded symb_def])
  show thesis
    by (rule that [of tk equity "e1\<lparr> ex_risk := rm' \<rparr>"])
      (use guards tk ok check submit size in \<open>simp_all add: equity_def e1 z_def view_def reference_def distance_def\<close>)
qed

lemma unrealized_at_entry [simp]: "unrealized_pnl (position_from_fill pid f i) None = 0"
  by (simp add: unrealized_pnl_def)

text \<open>Any broker that meets the contract.\<close>

locale engine_venue = execution_broker "bo_execute ops" inv
  for ops :: "'b broker_ops" and inv :: "'b \<Rightarrow> bool"
begin

lemma submit_effects:
  assumes "submit_entry ops env de symb side tk view qty (sl, tp) e = (e', Some p)"
    and "inv (ex_broker e)" "pm_get (ex_positions e) (en_ids env (ex_next e + 3)) = None"
  shows "open_positions (ex_positions e') = open_positions (ex_positions e) @ [p]
    \<and> pf_equity (ex_portfolio e') (open_positions (ex_positions e'))
        = pf_equity (ex_portfolio e) (open_positions (ex_positions e)) - p_commission_paid p
    \<and> p_symbol p = symb \<and> p_side p = (if side = BUY then LONG else SHORT)
    \<and> p_stop_loss p = Some sl \<and> 0 \<le> p_quantity p \<and> p_quantity p \<le> qty + 1 / (2 * 10 ^ 8)
    \<and> inv (ex_broker e') \<and> ex_risk e' = ex_risk e"
  using assms(1)
proof (rule submit_entry_Some)
  fix fid rq pid f info
  assume f: "be_fill (fst (bo_execute ops fid (en_now env) rq tk (Some (slip_context view qty)) True True (ex_broker e))) = Some f"
    and b: "ex_broker e' = snd (bo_execute ops fid (en_now env) rq tk (Some (slip_context view qty)) True True (ex_broker e))"
    and rq: "rq_symbol rq = symb" "rq_side rq = side" "rq_quantity rq = qty"
    and p: "p = position_from_fill pid f info" and pid: "pid = en_ids env (ex_next e + 3)"
    and info: "oi_stop_loss info = Some sl"
    and pos: "ex_positions e' = pm_store (ex_positions e) p"
    and pf: "ex_portfolio e' = on_open_commission (f_commission f) (ex_portfolio e)"
    and risk: "ex_risk e' = ex_risk e"
  have answers: "fill_answers rq f" by (rule fill_ok [OF assms(2) f])
  have inv': "inv (ex_broker e')" unfolding b by (rule inv_execute [OF assms(2)])
  have open': "open_positions (ex_positions e') = open_positions (ex_positions e) @ [p]"
    using positions_for_store_new [of "ex_positions e" p] assms(3) by (simp add: pos p pid)
  have "unrealized_pnl p None = 0" by (simp add: p)
  then have "pf_equity (ex_portfolio e') (open_positions (ex_positions e'))
      = pf_equity (ex_portfolio e) (open_positions (ex_positions e)) - p_commission_paid p"
    by (simp add: open' pf pf_equity_def pf_floating_pnl_def) (simp add: p)
  then show ?thesis
    using answers rq info open' inv' risk by (simp add: fill_answers_def p)
qed

lemma entry_effects:
  assumes "process_decision ops env de e = (e', Some p)" "inv (ex_broker e)"
    and "pm_get (ex_positions e) (en_ids env (ex_next e + 3)) = None"
  defines "symb \<equiv> upper (de_symbol de)" and "view \<equiv> view_of env (ex_settings e) (upper (de_symbol de))" and "s \<equiv> rm_settings (ex_risk e)"
    and "equity \<equiv> pf_equity (ex_portfolio e) (open_positions (ex_positions e))"
  shows "de_accepted de \<and> pd_get_or (xs_symbols_enabled (ex_settings e)) symb True
    \<and> (\<forall>v \<in> set (en_vetoes env). v = VetoAllow)
    \<and> (\<forall>x. mv_spread_bps view = Some x \<longrightarrow> x \<le> rk_max_spread_bps s)
    \<and> (\<forall>x. mv_volume view = Some x \<longrightarrow> rk_min_liquidity s \<le> 0 \<or> rk_min_liquidity s \<le> x)
    \<and> (\<exists>tk. en_ticker env symb = Some tk \<and> 0 < sr_quantity (entry_size ops env de tk e)
        \<and> p_quantity p \<le> sr_quantity (entry_size ops env de tk e) + 1 / (2 * 10 ^ 8)
        \<and> (\<forall>(rule, violated) \<in> set (entry_rules (en_now env)
              (entry_query e symb (sr_notional (entry_size ops env de tk e)) equity) (ex_risk e)). \<not> violated))
    \<and> int (length (open_positions (ex_positions e'))) \<le> rk_max_open_positions s
    \<and> open_positions (ex_positions e') = open_positions (ex_positions e) @ [p]
    \<and> pf_equity (ex_portfolio e') (open_positions (ex_positions e')) = equity - p_commission_paid p
    \<and> p_symbol p = symb \<and> p_stop_loss p \<noteq> None
    \<and> (p_side p = LONG \<longleftrightarrow> de_action de = ''open_long'')"
  using assms(1)
proof (rule process_decision_Some)
  fix tk e2 equity0
  let ?symb = "upper (de_symbol de)" and ?side = "side_of_action (de_action de)" and ?sz = "entry_size ops env de tk e"
  let ?q = "entry_query e ?symb (sr_notional ?sz) equity"
  assume veto: "entry_veto (en_vetoes env) = None" and dec: "de_accepted de"
    and on: "pd_get_or (xs_symbols_enabled (ex_settings e)) ?symb True" and tk: "en_ticker env ?symb = Some tk" and qty: "0 < sr_quantity ?sz"
    and market: "rc_allowed (check_spread (ex_risk e) (mv_spread_bps (view_of env (ex_settings e) ?symb)))"
      "rc_allowed (check_liquidity (ex_risk e) (mv_volume (view_of env (ex_settings e) ?symb)))"
    and allowed0: "rc_allowed (fst (evaluate_entry (en_now env) (entry_query e ?symb (sr_notional ?sz) equity0) (ex_risk e)))"
    and equity0: "equity0 = pf_equity (ex_portfolio e) (open_positions (ex_positions e))"
    and submit: "submit_entry ops env de ?symb ?side tk (view_of env (ex_settings e) ?symb) (sr_quantity ?sz)
       (stops_of (xs_sizing (ex_settings e)) ?side (entry_reference ?side tk)
         (stop_distance (xs_sizing (ex_settings e)) (view_of env (ex_settings e) ?symb) (entry_reference ?side tk))) e2
       = (e', Some p)"
    and e2: "ex_positions e2 = ex_positions e" "ex_portfolio e2 = ex_portfolio e" "ex_broker e2 = ex_broker e"
    "ex_next e2 = ex_next e"
  obtain sl tp where stops: "stops_of (xs_sizing (ex_settings e)) ?side (entry_reference ?side tk)
         (stop_distance (xs_sizing (ex_settings e)) (view_of env (ex_settings e) ?symb) (entry_reference ?side tk)) = (sl, tp)"
    by fastforce
  note effects = submit_effects [OF submit [unfolded stops], unfolded e2, OF assms(2,3)]
  have none: "first_violated (entry_rules (en_now env) ?q (ex_risk e)) = None"
    using allowed0 by (simp add: allowed_iff equity0 equity_def)
  then have clear: "\<forall>(rule, violated) \<in> set (entry_rules (en_now env) ?q (ex_risk e)). \<not> violated"
    unfolding first_violated_None .
  note rules = none [unfolded first_violated_None entry_rules_def count_rules_def Let_def, simplified]
  have room: "int (length (open_positions (ex_positions e))) + 1 \<le> rk_max_open_positions (rm_settings (ex_risk e))"
    using rules by (simp add: entry_query_def)
  have "p_side p = LONG \<longleftrightarrow> de_action de = ''open_long''"
    using effects by (simp add: side_of_action_def)
  moreover have "int (length (open_positions (ex_positions e'))) \<le> rk_max_open_positions s"
    using effects room by (simp add: s_def)
  moreover have "\<forall>v \<in> set (en_vetoes env). v = VetoAllow" using veto by (simp add: entry_veto_None)
  moreover have "\<forall>x. mv_spread_bps view = Some x \<longrightarrow> x \<le> rk_max_spread_bps s"
    using market(1) by (auto simp: view_def s_def check_spread_def split: if_splits)
  moreover have "\<forall>x. mv_volume view = Some x \<longrightarrow> rk_min_liquidity s \<le> 0 \<or> rk_min_liquidity s \<le> x"
    using market(2) by (auto simp: view_def s_def check_liquidity_def Let_def split: if_splits)
  moreover have "p_stop_loss p \<noteq> None" using effects by simp
  ultimately show ?thesis using effects dec on tk qty clear unfolding symb_def equity_def by blast
qed

end

interpretation paper_venue: engine_venue paper_ops pb_wf
  unfolding engine_venue_def paper_ops_def broker_ops.simps by (rule paper.execution_broker_axioms)

text \<open>
  Property C10: an opened position went through every guard.  When the engine opens a position at the simulated venue, the
  decision was accepted and the symbol enabled, every veto allowed it, the symbol had a ticker, the spread and the volume of
  the market view (where known) were within the limits, the size was positive, and none of the rules of the risk manager (kill
  switch, circuit breaker, losing streak, numbers of positions, period losses, capital, exposures) was violated for that size.
  The position is the only change of the registry, of the size approved up to rounding, with the symbol and direction of the
  decision and a stop, and the equity fell by exactly the commission of the opening fill.
\<close>

theorem opened_position_passed_guards:
  assumes "process_decision paper_ops env de e = (e', Some p)" "pb_wf (ex_broker e)"
    and "pm_get (ex_positions e) (en_ids env (ex_next e + 3)) = None"
  shows "de_accepted de \<and> pd_get_or (xs_symbols_enabled (ex_settings e)) (upper (de_symbol de)) True
    \<and> (\<forall>v \<in> set (en_vetoes env). v = VetoAllow)
    \<and> (\<forall>x. mv_spread_bps (view_of env (ex_settings e) (upper (de_symbol de))) = Some x \<longrightarrow> x \<le> rk_max_spread_bps (rm_settings (ex_risk e)))
    \<and> (\<forall>x. mv_volume (view_of env (ex_settings e) (upper (de_symbol de))) = Some x \<longrightarrow>
          rk_min_liquidity (rm_settings (ex_risk e)) \<le> 0 \<or> rk_min_liquidity (rm_settings (ex_risk e)) \<le> x)
    \<and> (\<exists>tk. en_ticker env (upper (de_symbol de)) = Some tk \<and> 0 < sr_quantity (entry_size paper_ops env de tk e)
        \<and> p_quantity p \<le> sr_quantity (entry_size paper_ops env de tk e) + 1 / (2 * 10 ^ 8)
        \<and> (\<forall>(rule, violated) \<in> set (entry_rules (en_now env)
              (entry_query e (upper (de_symbol de)) (sr_notional (entry_size paper_ops env de tk e))
                (pf_equity (ex_portfolio e) (open_positions (ex_positions e)))) (ex_risk e)). \<not> violated))
    \<and> int (length (open_positions (ex_positions e'))) \<le> rk_max_open_positions (rm_settings (ex_risk e))
    \<and> open_positions (ex_positions e') = open_positions (ex_positions e) @ [p]
    \<and> pf_equity (ex_portfolio e') (open_positions (ex_positions e'))
        = pf_equity (ex_portfolio e) (open_positions (ex_positions e)) - p_commission_paid p
    \<and> p_symbol p = upper (de_symbol de) \<and> p_stop_loss p \<noteq> None
    \<and> (p_side p = LONG \<longleftrightarrow> de_action de = ''open_long'')"
  by (rule paper_venue.entry_effects [OF assms])

definition calm_env :: env where
  "calm_env = example_env\<lparr> en_vetoes := [VetoAllow] \<rparr>"

lemma calm_view: "view_of calm_env default_execution ''BTCUSDT'' =
   \<lparr> mv_atr = None, mv_atr_pct = None, mv_spread_bps = Some (20000 / 19999), mv_regime = ''unknown'',
     mv_volatility = ''normal'', mv_volume = None, mv_last_price = Some (19999 / 2), mv_session = ''asia'' \<rparr>"
proof -
  have "session_for (hour_of 0) = ''asia''" by code_simp
  then show ?thesis
    by (simp add: view_of_def calm_env_def example_env_def symbol_atr_def atr_of_def Let_def tk_mid_def
        tk_spread_bps_def tk_spread_def)
qed

lemma calm_size: "size_calculate default_sizing 10000 10000 50 1 None None None =
   \<lparr> sr_quantity = 1/5, sr_method = ''fixed_risk'', sr_risk_amount = 10, sr_stop_distance = 50, sr_notional = 2000,
     sr_reason = Fmt ''riesgo {pct:.3f}% del equity ({risk_amount:.2f})'' [ArgReal (1/2), ArgReal 50], sr_units = 1/5 \<rparr>"
proof -
  have "on_grid 8 (1/5)" "on_grid 4 10" "on_grid 4 2000"
    using on_grid_of_int_div [of 8 20000000] on_grid_of_int_div [of 4 100000] on_grid_of_int_div [of 4 20000000]
    by simp_all
  then show ?thesis
    by (simp add: size_calculate_def Let_def default_sizing_def raw_size_def risk_based_def apply_caps_def lots_of_def
        DEFAULT_SPEC_def in_quantize_def in_fits_def in_units_def)
qed

lemma calm_perf: "perf_inputs example_engine = (None, None)"
  by (simp add: perf_inputs_def example_engine_def build_engine_def default_execution_def default_sizing_def)

lemma calm_fields [simp]:
  "ex_settings example_engine = default_execution" "ex_risk example_engine = rm_init default_risk 10000"
  "ex_positions example_engine = pm_init" "ex_broker example_engine = example_broker"
  "ex_portfolio example_engine = pf_init 10000 ''USD'' 1" "ex_next example_engine = 0"
  "ex_spec_cache example_engine = []" "open_positions pm_init = []" "positions_for pm_init s = []"
  by (simp_all add: example_engine_def build_engine_def default_execution_def open_positions_def pm_init_def
      pd_values_def positions_for_def)

lemma calm_allowed: "rc_allowed (fst (evaluate_entry 0 (entry_query example_engine ''BTCUSDT'' 2000 10000) (rm_init default_risk 10000)))"
proof -
  have "first_violated (entry_rules 0 (entry_query example_engine ''BTCUSDT'' 2000 10000) (rm_init default_risk 10000)) = None"
    by (simp add: entry_rules_def count_rules_def loss_rules_def exposure_rules_def Let_def entry_query_def
        circuit_open_def loss_limit_def realized_since_def rm_init_def default_risk_def symbol_exposures_def
        pd_values_def pd_get_or_def correlated_exposure_def)
  then show ?thesis by (simp add: allowed_iff)
qed

lemma submit_entry_accepted:
  assumes "\<And>fid rq. rq_quantity rq = qty \<Longrightarrow> rq_order_type rq = OT_MARKET \<Longrightarrow>
      be_fill (fst (bo_execute ops fid (en_now env) rq tk (Some (slip_context view qty)) True True (ex_broker e))) \<noteq> None"
  shows "snd (submit_entry ops env de symb side tk view qty stops e) \<noteq> None"
proof -
  obtain sl tp where stops: "stops = (sl, tp)" by fastforce
  define fid where "fid = en_ids env (ex_next e + 2)"
  define rq where "rq = (mk_request (en_ids env (ex_next e)) symb side qty (en_now env))\<lparr> rq_stop_loss := Some sl,
      rq_take_profit := Some tp, rq_decision_id := Some (de_decision_id de), rq_reason := Lit (de_summary de) \<rparr>"
  obtain ex b' where ex: "bo_execute ops fid (en_now env) rq tk (Some (slip_context view qty)) True True (ex_broker e) = (ex, b')"
    by fastforce
  then have "be_fill ex \<noteq> None" using assms [of rq fid] by (simp add: rq_def mk_request_def)
  then show ?thesis
    using ex by (auto simp: submit_entry_def stops Let_def fresh_id_def fid_def rq_def split: prod.splits)
qed

lemma default_parts [simp]:
  "xs_sizing default_execution = default_sizing" "xs_risk default_execution = default_risk"
  "xs_symbols_enabled default_execution = []" "xs_reject_probability default_execution = 0"
  by (simp_all add: default_execution_def)

lemma calm_opens: "snd (process_decision paper_ops calm_env example_decision example_engine) \<noteq> None"
proof -
  have "upper ''btcusdt'' = ''BTCUSDT''" by code_simp
  then have dec: "de_accepted example_decision" "de_action example_decision = ''open_long''"
      "upper (de_symbol example_decision) = ''BTCUSDT''"
    by (simp_all add: example_decision_def)
  have env: "en_now calm_env = 0" "en_ticker calm_env ''BTCUSDT'' = Some \<lparr> tk_symbol = ''BTCUSDT'', tk_bid = 9999, tk_ask = 10000 \<rparr>"
      "entry_veto (en_vetoes calm_env) = None"
    by (simp_all add: calm_env_def example_env_def)
  let ?tk = "\<lparr> tk_symbol = ''BTCUSDT'', tk_bid = 9999, tk_ask = 10000 \<rparr>"
  let ?view = "view_of calm_env default_execution ''BTCUSDT''"
  have filters: "rc_allowed (check_spread (rm_init default_risk 10000) (mv_spread_bps ?view))"
      "rc_allowed (check_liquidity (rm_init default_risk 10000) (mv_volume ?view))"
    by (simp_all add: calm_view check_spread_def check_liquidity_def rm_init_def default_risk_def)
  have d: "stop_distance default_sizing ?view 10000 = 50"
    by (simp add: calm_view stop_distance_def Let_def default_sizing_def)
  have equity: "pf_equity (pf_init 10000 ''USD'' 1) [] = 10000"
    by (simp add: pf_equity_def pf_init_def pf_floating_pnl_def)
  have spec: "instrument_spec_for paper_ops ''BTCUSDT'' example_engine = (None, example_engine)"
    by (simp add: instrument_spec_for_def paper_ops_def)
  have conf: "de_confidence example_decision = 1" by (simp add: example_decision_def)
  have submit: "snd (submit_entry paper_ops calm_env example_decision ''BTCUSDT'' BUY ?tk ?view (1/5) stops
      (example_engine\<lparr> ex_risk := rm \<rparr>)) \<noteq> None" for stops rm
    by (rule submit_entry_accepted) (simp add: paper_ops_def pb_execute_alt tk_valid_def reference_market
        example_broker_def mk_request_def pb_fill_def Let_def split: prod.splits)
  obtain check rm' where ev: "evaluate_entry 0 (entry_query example_engine ''BTCUSDT'' 2000 10000) (rm_init default_risk 10000)
      = (check, rm')" by fastforce
  have "rc_allowed check" using calm_allowed ev by simp
  then have approve: "snd (approve_entry paper_ops calm_env example_decision ''BTCUSDT'' BUY ?tk ?view example_engine) \<noteq> None"
    using submit
    by (simp add: ev approve_entry_def Let_def calm_perf spec d equity calm_size env(1) conf split: prod.splits)
  then show ?thesis
    using dec by (simp add: process_decision_def Let_def env filters pd_get_or_def)
qed

theorem opened_position_passed_guards_witness:
  "\<exists>e' p. process_decision paper_ops calm_env example_decision example_engine = (e', Some p)
     \<and> p_symbol p = upper ''btcusdt'' \<and> p_side p = LONG \<and> open_positions (ex_positions e') = [p]"
proof -
  obtain e' p where run: "process_decision paper_ops calm_env example_decision example_engine = (e', Some p)"
    using calm_opens by (cases "process_decision paper_ops calm_env example_decision example_engine") auto
  have "pm_get (ex_positions example_engine) (en_ids calm_env (ex_next example_engine + 3)) = None"
    by (simp add: pm_get_def pm_init_def)
  with opened_position_passed_guards [OF run] show ?thesis
    using run by (simp add: example_decision_def)
qed

end
