(* ===== verification/Engine_Exit.thy ===== *)
theory Engine_Exit
  imports Engine_Entry
begin

text \<open>
  The exit path of the execution engine: settling a close, flattening on the kill switch,
  reconciliation with the broker, the regime confirmations and the announcement of the circuit
  breaker.
\<close>

section \<open>Settling a close\<close>

lemma announce_breaker_frame [simp]:
  "ex_settings (announce_breaker env e) = ex_settings e" "ex_broker (announce_breaker env e) = ex_broker e"
  "ex_positions (announce_breaker env e) = ex_positions e" "ex_portfolio (announce_breaker env e) = ex_portfolio e"
  "ex_orders (announce_breaker env e) = ex_orders e" "ex_journal (announce_breaker env e) = ex_journal e"
  "ex_disk (announce_breaker env e) = ex_disk e" "ex_next (announce_breaker env e) = ex_next e"
  "rm_ledger (ex_risk (announce_breaker env e)) = rm_ledger (ex_risk e)"
  "rm_kill_switch (ex_risk (announce_breaker env e)) = rm_kill_switch (ex_risk e)"
  "rm_consecutive_losses (ex_risk (announce_breaker env e)) = rm_consecutive_losses (ex_risk e)"
  by (simp_all add: announce_breaker_def Let_def)

lemma jn_record_fst: "fst (jn_record ok t (jn, disk)) = jn\<lparr> jn_trades := deque_append (jn_limit jn) t (jn_trades jn) \<rparr>"
  by (simp add: jn_record_def)

lemma settle_close_fields:
  fixes env breaker p f c r rs e
  defines "e' \<equiv> settle_close env breaker p f c r rs e"
    and "p' \<equiv> closed_position p (f_price f) c r rs (en_now env)"
  shows "ex_positions e' = fst (pm_close (ex_positions e) p (f_price f) c r rs (en_now env))"
    "ex_portfolio e' = pf_on_trade_closed (unrealized_pnl p (Some (f_price f))) c (ex_portfolio e)"
    "ex_broker e' = ex_broker e" "ex_settings e' = ex_settings e" "ex_orders e' = ex_orders e"
    "rm_ledger (ex_risk e') = rm_ledger (ex_risk e) @ [(en_now env, p_realized_pnl p')]"
    "rm_kill_switch (ex_risk e') = rm_kill_switch (ex_risk e)"
    "\<exists>tid. jn_trades (ex_journal e') = deque_append (jn_limit (ex_journal e)) (trade_of env tid p' f) (jn_trades (ex_journal e))"
proof -
  obtain pm' q gross where c: "pm_close (ex_positions e) p (f_price f) c r rs (en_now env) = (pm', q, gross)"
    by (metis prod_cases3)
  then have q: "q = p'" "gross = unrealized_pnl p (Some (f_price f))"
    by (auto simp: pm_close_def Let_def p'_def unrealized_pnl_def)
  define e1 where "e1 = e\<lparr> ex_positions := pm', ex_portfolio := pf_on_trade_closed gross c (ex_portfolio e),
                  ex_risk := rm_on_trade_closed (en_now env) (p_realized_pnl q) (ex_risk e) \<rparr>"
  define e2 where "e2 = (if breaker then announce_breaker env e1 else e1)"
  obtain tid e3 where fr: "fresh_id env e2 = (tid, e3)" by fastforce
  obtain jn' disk' where jn: "jn_record (en_io_ok env) (trade_of env tid q f) (ex_journal e3, ex_disk e3) = (jn', disk')"
    by fastforce
  have e3: "ex_positions e3 = ex_positions e2" "ex_portfolio e3 = ex_portfolio e2" "ex_broker e3 = ex_broker e2"
      "ex_settings e3 = ex_settings e2" "ex_orders e3 = ex_orders e2" "ex_risk e3 = ex_risk e2" "ex_journal e3 = ex_journal e2"
    using fresh_frame [of env e2] by (simp_all add: fr)
  have "e' = publish (EvPositionClosed (p_position_id q) (p_symbol q) (p_side q) (p_quantity q) (f_price f)
            (py_round 6 (p_realized_pnl q)) (py_round 4 (r_multiple q (Some (f_price f)))) r
            (holding_seconds (en_now env) q)) (e3\<lparr> ex_journal := jn', ex_disk := disk' \<rparr>)"
    unfolding e'_def settle_close_def Let_def c prod.case e1_def [symmetric] e2_def [symmetric] fr jn ..
  then have e': "ex_positions e' = ex_positions e2" "ex_portfolio e' = ex_portfolio e2" "ex_broker e' = ex_broker e2"
      "ex_settings e' = ex_settings e2" "ex_orders e' = ex_orders e2" "ex_risk e' = ex_risk e2" "ex_journal e' = jn'"
    by (simp_all add: e3)
  have e2: "ex_positions e2 = pm'" "ex_portfolio e2 = pf_on_trade_closed gross c (ex_portfolio e)"
      "ex_broker e2 = ex_broker e" "ex_settings e2 = ex_settings e" "ex_orders e2 = ex_orders e"
      "rm_ledger (ex_risk e2) = rm_ledger (ex_risk e) @ [(en_now env, p_realized_pnl p')]"
      "rm_kill_switch (ex_risk e2) = rm_kill_switch (ex_risk e)" "ex_journal e2 = ex_journal e"
    by (simp_all add: e2_def e1_def q)
  show "ex_positions e' = fst (pm_close (ex_positions e) p (f_price f) c r rs (en_now env))" by (simp add: e' e2 c)
  show "ex_portfolio e' = pf_on_trade_closed (unrealized_pnl p (Some (f_price f))) c (ex_portfolio e)" by (simp add: e' e2 q)
  show "ex_broker e' = ex_broker e" "ex_settings e' = ex_settings e" "ex_orders e' = ex_orders e"
    "rm_ledger (ex_risk e') = rm_ledger (ex_risk e) @ [(en_now env, p_realized_pnl p')]"
    "rm_kill_switch (ex_risk e') = rm_kill_switch (ex_risk e)"
    by (simp_all add: e' e2)
  show "\<exists>tid. jn_trades (ex_journal e') = deque_append (jn_limit (ex_journal e)) (trade_of env tid p' f) (jn_trades (ex_journal e))"
    using arg_cong [OF jn, of fst] by (auto simp: e' e3 e2 q jn_record_fst)
qed

lemma pm_get_close:
  "pm_get (fst (pm_close st p x c r rs now)) k = (if k = p_position_id p then None else pm_get st k)"
  by (simp add: pm_close_def Let_def pm_get_def)

lemma pm_wf_get: "pm_wf st \<Longrightarrow> pm_get st k = Some p \<Longrightarrow> p_position_id p = k"
  by (simp add: pm_wf_def pm_get_def)

lemma no_open_iff: "open_positions st = [] \<longleftrightarrow> (\<forall>k. pm_get st k = None)"
proof -
  have "pm_open st = [] \<longleftrightarrow> (\<forall>k. pd_get (pm_open st) k = None)"
    by (auto simp: pd_get_def map_of_eq_None_iff)
  then show ?thesis by (simp add: open_positions_def pm_get_def pd_values_def)
qed

section \<open>Closing through the venue\<close>

text \<open>A position the engine can close now: a valid quote and a positive size.\<close>

definition closable :: "env \<Rightarrow> position \<Rightarrow> bool" where
  "closable env p \<longleftrightarrow> 0 < p_quantity p \<and> (\<exists>tk. en_ticker env (p_symbol p) = Some tk \<and> tk_valid tk)"

context engine_venue
begin

lemma close_effects:
  fixes reason rs
  assumes "pm_get (ex_positions e) pid = Some p" "closable env p" "inv (ex_broker e)"
  defines "e' \<equiv> close_position ops env pid reason rs e"
  obtains f e0 where "f_quantity f = p_quantity p" "f_side f = close_side p" "f_symbol f = p_symbol p"
    "e' = settle_close env True p f (f_commission f) reason (if rs \<noteq> [] then rs else [Lit (exit_value reason)]) e0"
    "ex_positions e0 = ex_positions e" "ex_portfolio e0 = ex_portfolio e" "ex_risk e0 = ex_risk e"
    "ex_journal e0 = ex_journal e" "inv (ex_broker e0)"
proof -
  obtain tk where tk: "en_ticker env (p_symbol p) = Some tk" "tk_valid tk" using assms(2) by (auto simp: closable_def)
  define rq where "rq = (mk_request (en_ids env (ex_next e)) (p_symbol p) (close_side p) (p_quantity p) (en_now env))
                          \<lparr> rq_reduce_only := True, rq_reason := Lit (exit_value reason) \<rparr>"
  define fid where "fid = en_ids env (ex_next e + 2)"
  define ctx where "ctx = Some (slip_context (view_of env (ex_settings e) (p_symbol p)) (p_quantity p))"
  obtain ex b' where ex: "bo_execute ops fid (en_now env) rq tk ctx False False (ex_broker e) = (ex, b')" by fastforce
  have rq: "0 < rq_quantity rq" "rq_order_type rq = OT_MARKET" "rq_side rq = close_side p" "rq_symbol rq = p_symbol p"
      "rq_quantity rq = p_quantity p"
    using assms(2) by (simp_all add: rq_def mk_request_def closable_def)
  obtain f where f: "be_fill ex = Some f" "fill_answers rq f" "f_quantity f = rq_quantity rq"
    using exit_executes_whole [OF rq(1) tk(2) rq(2) assms(3), of fid "en_now env" ctx] ex by auto
  have b': "inv b'" using inv_execute [OF assms(3), of fid "en_now env" rq tk ctx False False] ex by simp
  define oid where "oid = en_ids env (ex_next e + 1)"
  define om1 where "om1 = om_create (ex_orders e) oid rq (en_now env)"
  define om2 where "om2 = om_apply_fill (fst om1) (snd om1) f"
  define e0 where "e0 = announce_fill oid f (e\<lparr> ex_next := ex_next e + 3, ex_broker := b', ex_orders := fst om2 \<rparr>)"
  have "e' = settle_close env True p f (f_commission f) reason (if rs \<noteq> [] then rs else [Lit (exit_value reason)]) e0"
    using ex f(1)
    by (simp add: e'_def close_position_def assms(1) tk(1) Let_def fresh_id_def rq_def [symmetric] fid_def
        ctx_def oid_def om1_def om2_def e0_def numeral_2_eq_2 numeral_3_eq_3 split: prod.splits)
  then show thesis
    by (rule that [rotated 3]) (use f rq b' in \<open>simp_all add: e0_def fill_answers_def\<close>)
qed

lemma close_get:
  assumes "pm_wf (ex_positions e)" "pm_get (ex_positions e) pid = Some p" "closable env p" "inv (ex_broker e)"
  shows "pm_get (ex_positions (close_position ops env pid reason rs e)) k
      = (if k = pid then None else pm_get (ex_positions e) k)
    \<and> pm_wf (ex_positions (close_position ops env pid reason rs e))
    \<and> inv (ex_broker (close_position ops env pid reason rs e))"
proof (rule close_effects [OF assms(2-4), of reason rs])
  fix f e0
  assume e': "close_position ops env pid reason rs e
      = settle_close env True p f (f_commission f) reason (if rs \<noteq> [] then rs else [Lit (exit_value reason)]) e0"
    and e0: "ex_positions e0 = ex_positions e" "inv (ex_broker e0)"
  show ?thesis
    using pm_wf_get [OF assms(1,2)] pm_wf_close [OF assms(1)] e0
    by (simp add: e' settle_close_fields pm_get_close)
qed

text \<open>Closing the ids of a list one after the other leaves exactly the other positions open.\<close>

lemma close_many:
  fixes r
  assumes "pm_wf (ex_positions e)" "inv (ex_broker e)"
    and "\<forall>pid \<in> set pids. \<forall>p. pm_get (ex_positions e) pid = Some p \<longrightarrow> closable env p"
  defines "e' \<equiv> fold (\<lambda>pid e. close_position ops env pid r [] e) pids e"
  shows "pm_get (ex_positions e') k = (if k \<in> set pids then None else pm_get (ex_positions e) k)
    \<and> pm_wf (ex_positions e') \<and> inv (ex_broker e')"
  using assms(1-3) unfolding e'_def
proof (induction pids arbitrary: e)
  case (Cons pid pids)
  let ?e = "close_position ops env pid r [] e"
  have step: "pm_get (ex_positions ?e) k = (if k = pid then None else pm_get (ex_positions e) k)
      \<and> pm_wf (ex_positions ?e) \<and> inv (ex_broker ?e)" for k
  proof (cases "pm_get (ex_positions e) pid")
    case None
    then have "?e = e" by (simp add: close_position_def)
    then show ?thesis using None Cons.prems by simp
  next
    case (Some p)
    then show ?thesis using close_get [OF Cons.prems(1) Some _ Cons.prems(2)] Cons.prems(3) by simp
  qed
  have "\<forall>i \<in> set pids. \<forall>p. pm_get (ex_positions ?e) i = Some p \<longrightarrow> closable env p"
    using step Cons.prems(3) by (auto split: if_splits)
  then show ?case using Cons.IH [of ?e] step by auto
qed simp

lemma close_all_flattens:
  assumes "pm_wf (ex_positions e)" "inv (ex_broker e)" "\<forall>p \<in> set (open_positions (ex_positions e)). closable env p"
  shows "open_positions (ex_positions (close_all ops env r e)) = []"
proof -
  have mem: "p \<in> set (open_positions (ex_positions e))" if "pm_get (ex_positions e) k = Some p" for k p
    using that by (auto simp: open_positions_def pm_get_def pd_get_def pd_values_def dest: map_of_SomeD intro: rev_image_eqI)
  have "k \<in> set (open_ids e)" if "pm_get (ex_positions e) k = Some p" for k p
    using mem [OF that] pm_wf_get [OF assms(1) that] by (auto simp: open_ids_def)
  moreover have "\<forall>pid \<in> set (open_ids e). \<forall>p. pm_get (ex_positions e) pid = Some p \<longrightarrow> closable env p"
    using mem assms(3) by blast
  note close_many [OF assms(1,2) this, of r]
  ultimately have "pm_get (ex_positions (close_all ops env r e)) k = None" for k
    unfolding close_all_def by (metis not_None_eq)
  then show ?thesis by (simp add: no_open_iff)
qed

end

text \<open>
  Property C11: closing through the simulated venue never gets stuck and settles every book with the
  same numbers.  With a valid quote the position is filled whole on the opposite side, leaves the
  registry and no other position changes; the cash moves by the result at the fill price less the
  closing commission; the risk ledger and the newest journal entry carry the result less every
  commission, the entry under the position's id and the given reason.
\<close>

theorem close_position_settles:
  assumes "pm_wf (ex_positions e)" "pm_get (ex_positions e) pid = Some p" "closable env p"
    and "pb_wf (ex_broker e)" "0 < jn_limit (ex_journal e)"
  shows "\<exists>f :: fill. let e' = close_position paper_ops env pid reason rs e;
      gross = unrealized_pnl p (Some (f_price f)); net = gross - (p_commission_paid p + f_commission f)
    in f_quantity f = p_quantity p \<and> f_side f = close_side p
      \<and> (\<forall>k. pm_get (ex_positions e') k = (if k = pid then None else pm_get (ex_positions e) k))
      \<and> pf_balance (ex_portfolio e') = pf_balance (ex_portfolio e) + gross - f_commission f
      \<and> rm_ledger (ex_risk e') = rm_ledger (ex_risk e) @ [(en_now env, net)]
      \<and> t_position_id (last (jn_trades (ex_journal e'))) = pid
      \<and> t_exit_reason (last (jn_trades (ex_journal e'))) = reason
      \<and> t_pnl (last (jn_trades (ex_journal e'))) = py_round 6 net"
proof (rule paper_venue.close_effects [OF assms(2-4), of reason rs])
  fix f e0
  let ?rs = "if rs \<noteq> [] then rs else [Lit (exit_value reason)]"
  assume f: "f_quantity f = p_quantity p" "f_side f = close_side p"
    and e': "close_position paper_ops env pid reason rs e = settle_close env True p f (f_commission f) reason ?rs e0"
    and e0: "ex_positions e0 = ex_positions e" "ex_portfolio e0 = ex_portfolio e" "ex_risk e0 = ex_risk e"
    "ex_journal e0 = ex_journal e"
  define q where "q = closed_position p (f_price f) (f_commission f) reason ?rs (en_now env)"
  note fields = settle_close_fields [of env True p f "f_commission f" reason ?rs e0, folded e' q_def, unfolded e0]
  obtain tid where jn: "jn_trades (ex_journal (close_position paper_ops env pid reason rs e))
      = deque_append (jn_limit (ex_journal e)) (trade_of env tid q f) (jn_trades (ex_journal e))"
    using fields(8) by blast
  have newest: "last (jn_trades (ex_journal (close_position paper_ops env pid reason rs e))) = trade_of env tid q f"
    using assms(5) by (simp add: jn deque_append_def last_n_def)
  have net: "p_realized_pnl q = unrealized_pnl p (Some (f_price f)) - (p_commission_paid p + f_commission f)"
    by (simp add: q_def close_realized)
  have trade: "t_position_id (trade_of env tid q f) = pid" "t_exit_reason (trade_of env tid q f) = reason"
      "t_pnl (trade_of env tid q f) = py_round 6 (p_realized_pnl q)"
    using pm_wf_get [OF assms(1,2)] by (simp_all add: trade_of_def Let_def q_def)
  show ?thesis
    by (rule exI [of _ f])
      (use f pm_wf_get [OF assms(1,2)] in
        \<open>simp add: Let_def fields pm_get_close newest trade net [symmetric]\<close>)
qed

definition one_long :: "paper_broker engine" where
  "one_long = example_engine\<lparr> ex_positions := pm_store pm_init example_long \<rparr>"

lemma one_long_facts [simp]:
  "pm_wf (ex_positions one_long)" "pm_get (ex_positions one_long) ''p1'' = Some example_long"
  "open_positions (ex_positions one_long) = [example_long]" "ex_broker one_long = example_broker"
  "ex_journal one_long = jn_init True 10000 True" "pb_wf (ex_broker one_long)"
proof -
  have pid: "p_position_id example_long = ''p1''" "p_status example_long = PS_OPEN"
    by (simp_all add: example_long_unfold)
  show "pm_wf (ex_positions one_long)" by (simp add: one_long_def pm_wf_store pid)
  show "pm_get (ex_positions one_long) ''p1'' = Some example_long"
    by (simp add: one_long_def pm_get_def pm_store_def pid)
  show "open_positions (ex_positions one_long) = [example_long]"
    by (simp add: one_long_def open_positions_def pm_store_def pm_init_def pd_values_def)
  show "ex_broker one_long = example_broker" by (simp add: one_long_def)
  then show "pb_wf (ex_broker one_long)" by simp
  show "ex_journal one_long = jn_init True 10000 True"
    by (simp add: one_long_def example_engine_def build_engine_def default_execution_def)
qed

lemma example_closable [simp]: "closable calm_env example_long"
  by (simp add: closable_def calm_env_def example_env_def tk_valid_def example_long_unfold)

theorem close_position_settles_witness:
  "\<exists>f :: fill. pf_balance (ex_portfolio (close_position paper_ops calm_env ''p1'' EX_MANUAL [] one_long))
       = pf_balance (ex_portfolio one_long) + unrealized_pnl example_long (Some (f_price f)) - f_commission f"
  using close_position_settles [of one_long "''p1''" example_long calm_env EX_MANUAL "[]"]
  by (auto simp: Let_def jn_init_def)

section \<open>The kill switch flattens\<close>

lemma update_equity_keeps_kill: "rm_kill_switch rm \<Longrightarrow> rm_kill_switch (update_equity dd rm)"
  by (simp add: kill_update_equity)

lemma refresh_risk_killed:
  assumes "rm_kill_switch (update_equity (sn_drawdown_pct (snd (pf_snapshot (en_now env)
      (open_positions (ex_positions e)) (ex_portfolio e)))) (ex_risk e))"
  obtains e2 where "refresh_risk ops env e = close_all ops env EX_KILL_SWITCH e2"
    "ex_positions e2 = ex_positions e" "ex_broker e2 = ex_broker e" "rm_kill_switch (ex_risk e2)"
proof -
  obtain pf' snap where sn: "pf_snapshot (en_now env) (open_positions (ex_positions e)) (ex_portfolio e) = (pf', snap)"
    by fastforce
  define e1 where "e1 = e\<lparr> ex_portfolio := pf', ex_risk := update_equity (sn_drawdown_pct snap) (ex_risk e) \<rparr>"
  obtain st rm' where st: "rm_status (en_now env) (ex_risk e1) = (st, rm')" by fastforce
  define e2 where "e2 = (if ex_kill_announced e1 then e1 else
      publish (EvKillSwitchTriggered (msg_or (rs_kill_reason st) (Lit ''drawdown'')) (sn_drawdown_pct snap))
        (e1\<lparr> ex_kill_announced := True, ex_risk := rm' \<rparr>))"
  have killed: "rm_kill_switch (ex_risk e1)" using assms sn by (simp add: e1_def)
  have "rm_kill_switch rm'" using arg_cong [OF st, of snd] killed by (auto simp: rm_status_def Let_def)
  then have "rm_kill_switch (ex_risk e2)" using killed by (simp add: e2_def)
  moreover have "refresh_risk ops env e = close_all ops env EX_KILL_SWITCH e2"
    using killed unfolding refresh_risk_def Let_def sn prod.case e1_def [symmetric] st e2_def [symmetric] by simp
  moreover have "ex_positions e2 = ex_positions e" "ex_broker e2 = ex_broker e" by (simp_all add: e2_def e1_def)
  ultimately show thesis by (rule that [rotated 3])
qed

text \<open>
  Property C12: a management refresh flattens on the kill switch.  When the drawdown of the snapshot
  reaches the limit, or the switch is already engaged, and every open position has a valid quote, no
  position is open at the end of the refresh at the simulated venue.
\<close>

theorem kill_switch_flattens:
  assumes "pm_wf (ex_positions e)" "pb_wf (ex_broker e)"
    and "\<forall>p \<in> set (open_positions (ex_positions e)). closable env p"
    and "snap = snd (pf_snapshot (en_now env) (open_positions (ex_positions e)) (ex_portfolio e))"
    and "rm_kill_switch (ex_risk e) \<or> 0 < rk_kill_switch_drawdown_pct (rm_settings (ex_risk e))
           \<and> rk_kill_switch_drawdown_pct (rm_settings (ex_risk e)) \<le> sn_drawdown_pct snap"
  shows "open_positions (ex_positions (refresh_risk paper_ops env e)) = []"
proof (rule refresh_risk_killed [of env e paper_ops])
  show "rm_kill_switch (update_equity (sn_drawdown_pct (snd (pf_snapshot (en_now env)
      (open_positions (ex_positions e)) (ex_portfolio e)))) (ex_risk e))"
    using assms(4,5) by (simp add: kill_update_equity)
next
  fix e2
  assume "refresh_risk paper_ops env e = close_all paper_ops env EX_KILL_SWITCH e2"
    "ex_positions e2 = ex_positions e" "ex_broker e2 = ex_broker e"
  then show ?thesis using paper_venue.close_all_flattens [of e2 env] assms(1-3) by simp
qed

theorem kill_switch_flattens_witness:
  "open_positions (ex_positions (refresh_risk paper_ops calm_env
     (one_long\<lparr> ex_risk := engage_kill_switch (Lit ''test'') (ex_risk one_long) \<rparr>))) = []"
  by (rule kill_switch_flattens [OF _ _ _ refl]) (simp_all add: engage_kill_switch_def)

section \<open>Reconciliation\<close>

lemma settle_external_get:
  assumes "pm_wf (ex_positions e)"
  shows "pm_get (ex_positions (settle_external_close env pid e)) k = (if k = pid then None else pm_get (ex_positions e) k)
    \<and> pm_wf (ex_positions (settle_external_close env pid e))"
proof (cases "pm_get (ex_positions e) pid")
  case None
  then show ?thesis using assms by (simp add: settle_external_close_def)
next
  case (Some p)
  define price where "price = (case en_ticker env (p_symbol p) of Some tk \<Rightarrow> tk_mid tk | None \<Rightarrow> p_mark_price p)"
  obtain reason detail where r: "infer_external_exit p price = (reason, detail)" by fastforce
  obtain fid e1 where fr: "fresh_id env e = (fid, e1)" by fastforce
  then have e1: "ex_positions e1 = ex_positions e" using fresh_frame(4) [of env e] by simp
  have "settle_external_close env pid e
      = settle_close env False p (external_fill fid p price (en_now env)) 0 reason [detail] e1"
    unfolding settle_external_close_def Some option.case Let_def price_def [symmetric] r fr prod.case ..
  then show ?thesis
    using pm_wf_get [OF assms Some] pm_wf_close [OF assms] by (simp add: settle_close_fields e1 pm_get_close)
qed

lemma settle_external_many:
  assumes "pm_wf (ex_positions e)"
  shows "pm_get (ex_positions (fold (\<lambda>p e. settle_external_close env (p_position_id p) e) ps e)) k
      = (if k \<in> p_position_id ` set ps then None else pm_get (ex_positions e) k)"
  using assms
proof (induction ps arbitrary: e)
  case (Cons p ps)
  then show ?case using settle_external_get [OF Cons.prems, of env "p_position_id p"] by auto
qed simp

lemma pm_get_mem: "pm_wf st \<Longrightarrow> p \<in> set (open_positions st) \<Longrightarrow> pm_get st (p_position_id p) = Some p"
  using open_positions_get by (simp add: pm_get_def)

lemma pm_get_open: "pm_get st k = Some p \<Longrightarrow> p \<in> set (open_positions st)"
  by (auto simp: open_positions_def pm_get_def pd_get_def pd_values_def dest: map_of_SomeD intro: rev_image_eqI)

lemma reconcile_get:
  assumes "pm_wf (ex_positions e)" "bo_tickets ops = Some tickets"
  shows "pm_get (ex_positions (reconcile_broker_positions ops env e)) k =
    (case pm_get (ex_positions e) k of None \<Rightarrow> None | Some p \<Rightarrow>
      (case broker_ref (en_lib env) p of None \<Rightarrow> Some p
       | Some ref \<Rightarrow> if ref \<in> set (map show_int (tickets (p_symbol p) (ex_broker e))) then Some p else None))"
proof -
  define gone where "gone = filter (\<lambda>p. the (broker_ref (en_lib env) p)
      \<notin> set (map show_int (tickets (p_symbol p) (ex_broker e)))) (tracked (en_lib env) e)"
  have "reconcile_broker_positions ops env e = fold (\<lambda>p e. settle_external_close env (p_position_id p) e) gone e"
    by (simp add: reconcile_broker_positions_def assms(2) gone_def Let_def)
  then have get: "pm_get (ex_positions (reconcile_broker_positions ops env e)) k
      = (if k \<in> p_position_id ` set gone then None else pm_get (ex_positions e) k)"
    by (simp add: settle_external_many [OF assms(1)])
  show ?thesis
  proof (cases "pm_get (ex_positions e) k")
    case None
    then show ?thesis by (simp add: get)
  next
    case (Some p)
    have "k \<in> p_position_id ` set gone \<longleftrightarrow> p \<in> set gone"
    proof
      assume "k \<in> p_position_id ` set gone"
      then obtain q where q: "q \<in> set gone" "k = p_position_id q" by blast
      then have "q \<in> set (open_positions (ex_positions e))" by (simp add: gone_def tracked_def)
      from pm_get_mem [OF assms(1) this] show "p \<in> set gone" using q Some by simp
    next
      assume "p \<in> set gone"
      then show "k \<in> p_position_id ` set gone" using pm_wf_get [OF assms(1) Some] by blast
    qed
    then show ?thesis
      using Some pm_get_open [OF Some] by (auto simp: get gone_def tracked_def split: option.splits)
  qed
qed

text \<open>
  Property C13: reconciliation settles exactly the positions whose broker reference is no longer among
  the live tickets of their symbol; positions without a reference and positions still alive are kept
  as they are.
\<close>

theorem reconcile_settles_missing:
  assumes "pm_wf (ex_positions e)" "bo_tickets ops = Some tickets"
  shows "pm_get (ex_positions (reconcile_broker_positions ops env e)) k =
    (case pm_get (ex_positions e) k of None \<Rightarrow> None | Some p \<Rightarrow>
      (case broker_ref (en_lib env) p of None \<Rightarrow> Some p
       | Some ref \<Rightarrow> if ref \<in> set (map show_int (tickets (p_symbol p) (ex_broker e))) then Some p else None))"
  by (rule reconcile_get [OF assms])

definition tracked_long :: position where
  "tracked_long = example_long\<lparr> p_metadata := [(''broker_ref'', JStr ''42'')] \<rparr>"

definition tracked_engine :: "paper_broker engine" where
  "tracked_engine = one_long\<lparr> ex_positions := pm_store pm_init tracked_long \<rparr>"

lemma tracked_facts [simp]:
  "pm_wf (ex_positions tracked_engine)" "pm_get (ex_positions tracked_engine) ''p1'' = Some tracked_long"
  "broker_ref L tracked_long = Some ''42''" "p_symbol tracked_long = ''BTCUSDT''"
proof -
  have pid: "p_position_id tracked_long = ''p1''" "p_status tracked_long = PS_OPEN"
    by (simp_all add: tracked_long_def example_long_unfold)
  show "pm_wf (ex_positions tracked_engine)" by (simp add: tracked_engine_def pm_wf_store pid)
  show "pm_get (ex_positions tracked_engine) ''p1'' = Some tracked_long"
    by (simp add: tracked_engine_def pm_get_def pm_store_def pid)
  show "broker_ref L tracked_long = Some ''42''"
    by (simp add: broker_ref_def tracked_long_def Let_def jget_Cons py_bool_def)
  show "p_symbol tracked_long = ''BTCUSDT''" by (simp add: tracked_long_def example_long_unfold)
qed

theorem reconcile_settles_missing_witness:
  "pm_get (ex_positions (reconcile_broker_positions (paper_ops\<lparr> bo_tickets := Some (\<lambda>s b. [42]) \<rparr>) calm_env tracked_engine)) ''p1''
     = Some tracked_long
   \<and> pm_get (ex_positions (reconcile_broker_positions (paper_ops\<lparr> bo_tickets := Some (\<lambda>s b. []) \<rparr>) calm_env tracked_engine)) ''p1'' = None"
proof -
  have "show_int 42 = ''42''" by code_simp
  then show ?thesis
    using reconcile_settles_missing [of tracked_engine "paper_ops\<lparr> bo_tickets := Some (\<lambda>s b. [42]) \<rparr>" "\<lambda>s b. [42]" calm_env "''p1''"]
      reconcile_settles_missing [of tracked_engine "paper_ops\<lparr> bo_tickets := Some (\<lambda>s b. []) \<rparr>" "\<lambda>s b. []" calm_env "''p1''"]
    by simp
qed

end
