(* ===== verification/Mt5_Broker.thy ===== *)
theory Mt5_Broker
  imports Engine_Exit
begin

text \<open>
  \<open>brokers/mt5\<close>: the execution venue over a MetaTrader 5 terminal.  The terminal is third-party code:
  its calls are the fields of the parameter \<open>mt5_api\<close>, over a state of their own type.  The numeric
  constants of the package (filling modes, return codes) are the ones its documentation gives, which
  the source repeats as fallbacks.
\<close>

section \<open>The terminal\<close>

record symbol_info =
  si_trade_contract_size :: real
  si_volume_min :: real
  si_volume_max :: real
  si_volume_step :: real
  si_filling_mode :: int

record mt5_position =
  mp_ticket :: int
  mp_symbol :: string
  mp_type :: int
  mp_magic :: int
  mp_volume :: real
  mp_price_open :: real
  mp_sl :: real
  mp_tp :: real
  mp_time :: int

record mt5_result =
  ms_retcode :: int
  ms_price :: real
  ms_volume :: real
  ms_order :: int
  ms_commission :: real

record mt5_payload =
  py_symbol :: string
  py_volume :: real
  py_type :: int
  py_price :: real
  py_deviation :: int
  py_magic :: int
  py_comment :: "string option"
  py_position :: "int option"
  py_sl :: "real option"
  py_tp :: "real option"
  py_type_filling :: "int option"

text \<open>\<open>None\<close> where the call fails; \<open>ma_account\<close> also when the account has no balance.\<close>

record 't mt5_api =
  ma_symbol_info :: "string \<Rightarrow> 't \<Rightarrow> symbol_info option"
  ma_symbols :: "'t \<Rightarrow> string list"
  ma_positions :: "'t \<Rightarrow> mt5_position list option"
  ma_positions_of :: "string \<Rightarrow> 't \<Rightarrow> mt5_position list option"
  ma_balance :: "'t \<Rightarrow> real option"
  ma_order_send :: "mt5_payload \<Rightarrow> 't \<Rightarrow> mt5_result option \<times> 't"
  ma_last_error :: "'t \<Rightarrow> int"

definition ORDER_TYPE_BUY :: int where "ORDER_TYPE_BUY = 0"
definition ORDER_TYPE_SELL :: int where "ORDER_TYPE_SELL = 1"
definition RETCODE_DONE :: int where "RETCODE_DONE = 10009"
definition RETCODE_INVALID_FILL :: int where "RETCODE_INVALID_FILL = 10030"

section \<open>The connection\<close>

record 't mt5_broker =
  mb_api :: "'t mt5_api"
  mb_term :: 't
  mb_connected :: bool
  mb_symbol_cache :: "(string, string) pydict"
  mb_deviation :: int
  mb_magic :: int
  mb_executed :: nat
  mb_rejected :: nat

fun catalog_match :: "string \<Rightarrow> string list \<Rightarrow> string option" where
  "catalog_match key [] = None"
| "catalog_match key (name # names) = (if lower name = key then Some name else catalog_match key names)"

definition resolve_symbol :: "string \<Rightarrow> 't mt5_broker \<Rightarrow> string \<times> 't mt5_broker" where
  "resolve_symbol symb b =
     (let key = lower symb;
          cache = (\<lambda>name. b\<lparr> mb_symbol_cache := pd_put (mb_symbol_cache b) key name \<rparr>) in
      case pd_get (mb_symbol_cache b) key of
        Some name \<Rightarrow> (name, b)
      | None \<Rightarrow>
          if ma_symbol_info (mb_api b) symb (mb_term b) \<noteq> None then (symb, cache symb)
          else (case catalog_match key (ma_symbols (mb_api b) (mb_term b)) of
                  Some name \<Rightarrow> (name, cache name)
                | None \<Rightarrow> (symb, cache symb)))"

text \<open>\<open>healthcheck\<close>: a missing account marks the connection as lost.\<close>

definition mt5_healthcheck :: "bool \<Rightarrow> 't mt5_broker \<Rightarrow> bool \<times> 't mt5_broker" where
  "mt5_healthcheck has_account b =
     (if \<not> mb_connected b then (False, b)
      else if \<not> has_account then (False, b\<lparr> mb_connected := False \<rparr>)
      else (True, b))"

section \<open>Queries\<close>

text \<open>
  The queries resolve the name of the symbol; the cache entry they leave behind, which only saves the
  next look-up, is not kept.
\<close>

definition mt5_balance :: "'t mt5_broker \<Rightarrow> real option" where
  "mt5_balance b = (if \<not> mb_connected b then None else ma_balance (mb_api b) (mb_term b))"

definition mt5_tickets :: "string \<Rightarrow> 't mt5_broker \<Rightarrow> int list" where
  "mt5_tickets symb b =
     (if \<not> mb_connected b then [] else
      case ma_positions_of (mb_api b) (fst (resolve_symbol symb b)) (mb_term b) of
        None \<Rightarrow> []
      | Some ps \<Rightarrow> map mp_ticket ps)"

definition zero_none :: "real \<Rightarrow> real option" where
  "zero_none x = (if x = 0 then None else Some x)"

definition mt5_live :: "'t mt5_broker \<Rightarrow> broker_position list" where
  "mt5_live b =
     (if \<not> mb_connected b then [] else
      case ma_positions (mb_api b) (mb_term b) of
        None \<Rightarrow> []
      | Some ps \<Rightarrow>
          map (\<lambda>p. \<lparr> bp_ticket = mp_ticket p, bp_symbol = upper (mp_symbol p),
                  bp_is_long = (mp_type p = ORDER_TYPE_BUY), bp_volume = mp_volume p,
                  bp_price_open = mp_price_open p, bp_stop_loss = zero_none (mp_sl p),
                  bp_take_profit = zero_none (mp_tp p),
                  bp_opened_at = (if mp_time p = 0 then None else Some (mp_time p * 1000000)) \<rparr>)
            (filter (\<lambda>p. mp_magic p = mb_magic b) ps))"

definition or_default :: "real \<Rightarrow> real \<Rightarrow> real" where
  "or_default x d = (if x = 0 then d else x)"

definition mt5_spec :: "string \<Rightarrow> 't mt5_broker \<Rightarrow> instrument_spec option" where
  "mt5_spec symb b =
     (if \<not> mb_connected b then None else
      case ma_symbol_info (mb_api b) (fst (resolve_symbol symb b)) (mb_term b) of
        None \<Rightarrow> None
      | Some i \<Rightarrow> Some \<lparr> in_symbol = upper symb,
            in_contract_size = or_default (si_trade_contract_size i) 1,
            in_volume_min = or_default (si_volume_min i) (1 / 100),
            in_volume_step = or_default (si_volume_step i) (1 / 100),
            in_volume_max = si_volume_max i \<rparr>)"

section \<open>Orders\<close>

text \<open>The comment of an order: alphanumeric ASCII and single spaces, at most 31 characters.\<close>

definition is_alnum :: "char \<Rightarrow> bool" where
  "is_alnum c \<longleftrightarrow> (let n = of_char c :: nat in 48 \<le> n \<and> n \<le> 57 \<or> 65 \<le> n \<and> n \<le> 90 \<or> 97 \<le> n \<and> n \<le> 122)"

fun words :: "string \<Rightarrow> string \<Rightarrow> string list" where
  "words w [] = (if w = [] then [] else [w])"
| "words w (c # cs) = (if c = CHR '' '' then (if w = [] then words [] cs else w # words [] cs)
     else words (w @ [c]) cs)"

fun unwords :: "string list \<Rightarrow> string" where
  "unwords [] = []"
| "unwords [w] = w"
| "unwords (w # v # vs) = w @ '' '' @ unwords (v # vs)"

definition mt5_comment :: "string \<Rightarrow> string" where
  "mt5_comment reason =
     (let text = (if reason = [] then ''quantengine'' else reason);
          ascii = filter (\<lambda>c. (of_char c :: nat) < 128) text;
          cleaned = unwords (words [] (map (\<lambda>c. if is_alnum c then c else CHR '' '') ascii));
          short = strip (take 31 cleaned)
      in if short = [] then ''quantengine'' else short)"

definition normalize_volume :: "string \<Rightarrow> real \<Rightarrow> 't mt5_broker \<Rightarrow> real option" where
  "normalize_volume real_symbol quantity b =
     (case ma_symbol_info (mb_api b) real_symbol (mb_term b) of
        None \<Rightarrow> None
      | Some i \<Rightarrow>
          let vmin = or_default (si_volume_min i) (1 / 100);
              vmax = si_volume_max i;
              step = or_default (si_volume_step i) (1 / 100)
          in if quantity < vmin - 1 / 10 ^ 12 then None
             else
               let v = (if vmax > 0 then min vmax quantity else quantity);
                   v' = py_round 8 (of_int (round_half_even (v / step)) * step)
               in Some (max vmin v'))"

text \<open>The bits of \<open>filling_mode\<close>: FOK is 1 and IOC is 2; the order constants are FOK 0, IOC 1, RETURN 2.\<close>

definition filling_modes :: "string \<Rightarrow> 't mt5_broker \<Rightarrow> int list" where
  "filling_modes real_symbol b =
     (let allowed = (case ma_symbol_info (mb_api b) real_symbol (mb_term b) of
            None \<Rightarrow> 0 | Some i \<Rightarrow> si_filling_mode i);
          preferred = (if bit allowed 1 then [1] else []) @ (if bit allowed 0 then [0] else [])
      in preferred @ filter (\<lambda>m. m \<notin> set preferred) [1, 0, 2])"

fun earliest :: "mt5_position \<Rightarrow> mt5_position list \<Rightarrow> mt5_position" where
  "earliest p [] = p"
| "earliest p (q # qs) = (if mp_time q < mp_time p then earliest q qs else earliest p qs)"

definition matching_ticket :: "string \<Rightarrow> bool \<Rightarrow> 't mt5_broker \<Rightarrow> int option" where
  "matching_ticket real_symbol closing_is_buy b =
     (case ma_positions_of (mb_api b) real_symbol (mb_term b) of
        None \<Rightarrow> None
      | Some ps \<Rightarrow>
          (case filter (\<lambda>p. mp_type p = (if closing_is_buy then ORDER_TYPE_SELL else ORDER_TYPE_BUY)) ps of
             [] \<Rightarrow> None
           | q # qs \<Rightarrow> Some (mp_ticket (earliest q qs))))"

text \<open>One filling mode after the other; without the comment when the terminal rejects it with -2.\<close>

fun send_with_fallbacks :: "'t mt5_api \<Rightarrow> int list \<Rightarrow> mt5_payload \<Rightarrow> mt5_result option \<Rightarrow> 't \<Rightarrow> mt5_result option \<times> 't" where
  "send_with_fallbacks api [] payload result t = (result, t)"
| "send_with_fallbacks api (mode # modes) payload result t =
     (let payload1 = payload\<lparr> py_type_filling := Some mode \<rparr>;
          (r1, t1) = ma_order_send api payload1 t;
          retry = (r1 = None \<and> ma_last_error api t1 = - 2 \<and> py_comment payload1 \<noteq> None);
          payload2 = (if retry then payload1\<lparr> py_comment := None \<rparr> else payload1);
          (r2, t2) = (if retry then ma_order_send api payload2 t1 else (r1, t1))
      in case r2 of
           None \<Rightarrow> (None, t2)
         | Some r \<Rightarrow> if ms_retcode r \<noteq> RETCODE_INVALID_FILL then (Some r, t2)
                     else send_with_fallbacks api modes payload2 (Some r) t2)"

definition mt5_reject :: "reject_reason \<Rightarrow> 't mt5_broker \<Rightarrow> broker_execution \<times> 't mt5_broker" where
  "mt5_reject r b = (\<lparr> be_fill = None, be_reject_reason = r \<rparr>, b\<lparr> mb_rejected := mb_rejected b + 1 \<rparr>)"

definition mt5_interpret ::
  "string \<Rightarrow> time \<Rightarrow> order_request \<Rightarrow> ticker \<Rightarrow> real \<Rightarrow> mt5_result option \<Rightarrow> 't mt5_broker \<Rightarrow> broker_execution \<times> 't mt5_broker" where
  "mt5_interpret fid now rq tk volume result b =
     (case result of
        None \<Rightarrow> mt5_reject RR_BROKER_REJECTED b
      | Some r \<Rightarrow>
          if ms_retcode r \<noteq> RETCODE_DONE then mt5_reject RR_BROKER_REJECTED b
          else
            (\<lparr> be_fill = Some \<lparr> f_fill_id = fid, f_request_id = rq_request_id rq, f_symbol = rq_symbol rq,
                 f_side = rq_side rq, f_quantity = or_default (ms_volume r) volume,
                 f_requested_quantity = volume, f_reference_price = tk_mid tk,
                 f_price = or_default (ms_price r) (tk_mid tk), f_slippage_bps = 0,
                 f_spread_bps = tk_spread_bps tk, f_commission = \<bar>ms_commission r\<bar>, f_latency_ms = 0,
                 f_maker = False, f_gapped = False, f_executed_at = now,
                 f_broker_ref = (if ms_order r = 0 then None else Some (show_int (ms_order r))) \<rparr>,
               be_reject_reason = RR_NONE \<rparr>, b\<lparr> mb_executed := mb_executed b + 1 \<rparr>))"

definition mt5_payload_of :: "pylib \<Rightarrow> string \<Rightarrow> real \<Rightarrow> order_request \<Rightarrow> ticker \<Rightarrow> 't mt5_broker \<Rightarrow> mt5_payload" where
  "mt5_payload_of L real_symbol volume rq tk b =
     \<lparr> py_symbol = real_symbol, py_volume = volume,
       py_type = (if rq_side rq = BUY then ORDER_TYPE_BUY else ORDER_TYPE_SELL),
       py_price = (if rq_side rq = BUY then tk_ask tk else tk_bid tk), py_deviation = mb_deviation b,
       py_magic = mb_magic b, py_comment = Some (mt5_comment (render L (rq_reason rq))),
       py_position = None,
       py_sl = (if rq_reduce_only rq then None else rq_stop_loss rq),
       py_tp = (if rq_reduce_only rq then None else rq_take_profit rq), py_type_filling = None \<rparr>"

definition mt5_execute :: "pylib \<Rightarrow> 't mt5_broker execute_op" where
  "mt5_execute L fid now rq tk ctx allow_reject allow_partial b =
     (if rq_quantity rq \<le> 0 then mt5_reject RR_INVALID_QUANTITY b
      else if tk_bid tk \<le> 0 \<or> tk_ask tk \<le> 0 \<or> tk_ask tk < tk_bid tk then mt5_reject RR_NO_MARKET_DATA b
      else if \<not> mb_connected b then mt5_reject RR_BROKER_UNAVAILABLE b
      else if rq_order_type rq \<noteq> OT_MARKET then mt5_reject RR_BROKER_REJECTED b
      else
        let (real_symbol, b1) = resolve_symbol (rq_symbol rq) b in
        case normalize_volume real_symbol (rq_quantity rq) b1 of
          None \<Rightarrow> mt5_reject RR_INVALID_QUANTITY b1
        | Some volume \<Rightarrow>
            let payload = mt5_payload_of L real_symbol volume rq tk b1;
                send = (\<lambda>p. let (result, t) = send_with_fallbacks (mb_api b1) (filling_modes real_symbol b1) p None (mb_term b1)
                            in mt5_interpret fid now rq tk volume result (b1\<lparr> mb_term := t \<rparr>))
            in if rq_reduce_only rq
               then (case matching_ticket real_symbol (rq_side rq = BUY) b1 of
                       None \<Rightarrow> mt5_reject RR_BROKER_REJECTED b1
                     | Some ticket \<Rightarrow> send (payload\<lparr> py_position := Some ticket \<rparr>))
               else send payload)"

definition mt5_ops :: "pylib \<Rightarrow> 't mt5_broker broker_ops" where
  "mt5_ops L = \<lparr> bo_execute = mt5_execute L, bo_spec = Some mt5_spec, bo_balance = Some mt5_balance,
     bo_tickets = Some mt5_tickets, bo_live = Some mt5_live \<rparr>"

section \<open>Lemmas\<close>

lemma resolve_frame [simp]:
  "mb_api (snd (resolve_symbol symb b)) = mb_api b" "mb_term (snd (resolve_symbol symb b)) = mb_term b"
  "mb_connected (snd (resolve_symbol symb b)) = mb_connected b"
  "mb_executed (snd (resolve_symbol symb b)) = mb_executed b" "mb_rejected (snd (resolve_symbol symb b)) = mb_rejected b"
  by (simp_all add: resolve_symbol_def Let_def split: option.splits)

lemma catalog_match_Some: "catalog_match key names = Some n \<Longrightarrow> n \<in> set names \<and> lower n = key"
  by (induction key names rule: catalog_match.induct) (auto split: if_splits)

text \<open>A resolved name is the one cached, a symbol the terminal knows, or the symbol as given.\<close>

lemma resolve_symbol_name:
  assumes "\<forall>k n. pd_get (mb_symbol_cache b) k = Some n \<longrightarrow> lower n = k"
  shows "lower (fst (resolve_symbol symb b)) = lower symb"
  using assms catalog_match_Some [of "lower symb" "ma_symbols (mb_api b) (mb_term b)"]
  by (auto simp: resolve_symbol_def Let_def split: option.splits)

lemma resolve_cached: "fst (resolve_symbol symb (snd (resolve_symbol symb b))) = fst (resolve_symbol symb b)"
  by (auto simp: resolve_symbol_def Let_def split: option.splits)

lemma filling_modes_tried: "set (filling_modes s b) = {0, 1, 2} \<and> distinct (filling_modes s b)"
  by (auto simp: filling_modes_def Let_def)

lemma earliest_in: "earliest p qs \<in> insert p (set qs)"
  by (induction p qs rule: earliest.induct) auto

lemma earliest_le: "mp_time (earliest p qs) \<le> mp_time p \<and> (\<forall>q \<in> set qs. mp_time (earliest p qs) \<le> mp_time q)"
  by (induction p qs rule: earliest.induct) auto

text \<open>A close is matched with the oldest position of the opposite side.\<close>

lemma matching_ticket_opposite:
  assumes "matching_ticket s closing_is_buy b = Some ticket"
  shows "\<exists>ps p. ma_positions_of (mb_api b) s (mb_term b) = Some ps \<and> p \<in> set ps \<and> mp_ticket p = ticket
    \<and> mp_type p = (if closing_is_buy then ORDER_TYPE_SELL else ORDER_TYPE_BUY)
    \<and> (\<forall>q \<in> set ps. mp_type q = mp_type p \<longrightarrow> mp_time p \<le> mp_time q)"
proof -
  let ?t = "if closing_is_buy then ORDER_TYPE_SELL else ORDER_TYPE_BUY"
  obtain ps q qs where ps: "ma_positions_of (mb_api b) s (mb_term b) = Some ps"
      and f: "filter (\<lambda>p. mp_type p = ?t) ps = q # qs" and t: "ticket = mp_ticket (earliest q qs)"
    using assms by (auto simp: matching_ticket_def split: option.splits list.splits)
  have e: "earliest q qs \<in> set (filter (\<lambda>p. mp_type p = ?t) ps)"
    and least: "\<forall>r \<in> set (filter (\<lambda>p. mp_type p = ?t) ps). mp_time (earliest q qs) \<le> mp_time r"
    using earliest_in [of q qs] earliest_le [of q qs] unfolding f by simp_all
  then have "earliest q qs \<in> set ps" "mp_type (earliest q qs) = ?t" by auto
  then show ?thesis using ps t least by (intro exI [of _ ps] exI [of _ "earliest q qs"]) auto
qed

text \<open>
  What the terminal does to orders of a kind \<open>P\<close>, sending with fallbacks does: the retries only change
  the filling mode and drop the comment.
\<close>

definition same_order :: "mt5_payload \<Rightarrow> mt5_payload \<Rightarrow> bool" where
  "same_order a b \<longleftrightarrow> b\<lparr> py_type_filling := py_type_filling a, py_comment := py_comment a \<rparr> = a"

lemma send_preserves:
  assumes "\<And>pl t. same_order orig pl \<Longrightarrow> I t \<Longrightarrow> I (snd (ma_order_send api pl t))"
    and "same_order orig payload" "I t"
  shows "I (snd (send_with_fallbacks api modes payload result t))"
  using assms(2,3)
proof (induction modes arbitrary: payload result t)
  case (Cons mode modes)
  define p1 where "p1 = payload\<lparr> py_type_filling := Some mode \<rparr>"
  obtain r1 t1 where send1: "ma_order_send api p1 t = (r1, t1)" by fastforce
  define retry where "retry = (r1 = None \<and> ma_last_error api t1 = - 2 \<and> py_comment p1 \<noteq> None)"
  define p2 where "p2 = (if retry then p1\<lparr> py_comment := None \<rparr> else p1)"
  obtain r2 t2 where send2: "(if retry then ma_order_send api p2 t1 else (r1, t1)) = (r2, t2)" by fastforce
  have same: "same_order orig p1" "same_order orig p2"
    using Cons.prems(1) by (simp_all add: same_order_def p1_def p2_def)
  have t1: "I t1" using assms(1) [OF same(1) Cons.prems(2)] send1 by simp
  have t2: "I t2" using assms(1) [OF same(2) t1] t1 send2 by (auto split: if_splits)
  have "send_with_fallbacks api (mode # modes) payload result t = (case r2 of
           None \<Rightarrow> (None, t2)
         | Some r \<Rightarrow> if ms_retcode r \<noteq> RETCODE_INVALID_FILL then (Some r, t2)
                     else send_with_fallbacks api modes p2 (Some r) t2)"
    unfolding send_with_fallbacks.simps Let_def p1_def [symmetric] send1 prod.case retry_def [symmetric]
      p2_def [symmetric] send2 by simp
  then show ?case using t2 Cons.IH [OF same(2) t2] by (simp split: option.splits)
qed simp

text \<open>
  A reduce-only order never opens a position at the terminal: whatever the terminal keeps under orders
  that reference an open position of the opposite side, executing the order keeps.
\<close>

definition closes_ticket :: "'t mt5_broker \<Rightarrow> order_request \<Rightarrow> mt5_payload \<Rightarrow> bool" where
  "closes_ticket b rq pl \<longleftrightarrow> (\<exists>s ps p. ma_positions_of (mb_api b) s (mb_term b) = Some ps \<and> p \<in> set ps
     \<and> py_position pl = Some (mp_ticket p)
     \<and> mp_type p = (if rq_side rq = BUY then ORDER_TYPE_SELL else ORDER_TYPE_BUY))"

lemma mt5_reject_term [simp]: "mb_term (snd (mt5_reject r b)) = mb_term b"
  by (simp add: mt5_reject_def)

lemma mt5_interpret_term [simp]: "mb_term (snd (mt5_interpret fid now rq tk v result b)) = mb_term b"
  by (simp add: mt5_interpret_def split: option.splits)

lemma reduce_only_needs_ticket:
  assumes "rq_reduce_only rq" "I (mb_term b)"
    and "\<And>pl t. closes_ticket b rq pl \<Longrightarrow> I t \<Longrightarrow> I (snd (ma_order_send (mb_api b) pl t))"
  shows "I (mb_term (snd (mt5_execute L fid now rq tk ctx allow_reject allow_partial b)))"
proof -
  obtain s b1 where r: "resolve_symbol (rq_symbol rq) b = (s, b1)" by fastforce
  have b1: "mb_api b1 = mb_api b" "mb_term b1 = mb_term b"
    using resolve_frame(1,2) [of "rq_symbol rq" b] by (simp_all add: r)
  have sent: "I (snd (send_with_fallbacks (mb_api b1) (filling_modes s b1)
      ((mt5_payload_of L s volume rq tk b1)\<lparr> py_position := Some ticket \<rparr>) None (mb_term b1)))"
    if "matching_ticket s (rq_side rq = BUY) b1 = Some ticket" for ticket volume
  proof -
    let ?pl = "(mt5_payload_of L s volume rq tk b1)\<lparr> py_position := Some ticket \<rparr>"
    have closes: "closes_ticket b rq pl" if "same_order ?pl pl" for pl
    proof -
      have "py_position pl = py_position (pl\<lparr> py_type_filling := py_type_filling ?pl, py_comment := py_comment ?pl \<rparr>)"
        by simp
      also have "\<dots> = py_position ?pl" using that unfolding same_order_def by simp
      finally have "py_position pl = Some ticket" by simp
      then show ?thesis
        using matching_ticket_opposite [OF \<open>matching_ticket s (rq_side rq = BUY) b1 = Some ticket\<close>] b1
        unfolding closes_ticket_def by metis
    qed
    show ?thesis
    proof (rule send_preserves [where orig = ?pl])
      show "I (snd (ma_order_send (mb_api b1) pl t))" if "same_order ?pl pl" "I t" for pl t
        using assms(3) [OF closes [OF that(1)] that(2)] by (simp only: b1)
      show "same_order ?pl ?pl" by (simp add: same_order_def)
      show "I (mb_term b1)" using assms(2) by (simp only: b1)
    qed
  qed
  show ?thesis
    unfolding mt5_execute_def r Let_def prod.case case_prod_unfold
    using assms(1,2) sent
    by (cases "normalize_volume s (rq_quantity rq) b1"; cases "matching_ticket s (rq_side rq = BUY) b1")
       (simp_all add: b1)
qed

section \<open>Properties\<close>

text \<open>
  Property C23: reconciliation against the terminal fails open.  A tracked position stays in the
  registry exactly when the terminal is connected, answers, and lists its ticket; a lost connection or
  a failed query settles in the books every tracked position, although it is still open at the broker.
\<close>

theorem mt5_disconnect_settles_live:
  assumes "pm_wf (ex_positions e)" "pm_get (ex_positions e) k = Some p" "broker_ref (en_lib env) p = Some ref"
  shows "pm_get (ex_positions (reconcile_broker_positions (mt5_ops L) env e)) k =
    (if mb_connected (ex_broker e)
        \<and> (\<exists>ps q. ma_positions_of (mb_api (ex_broker e)) (fst (resolve_symbol (p_symbol p) (ex_broker e)))
               (mb_term (ex_broker e)) = Some ps \<and> q \<in> set ps \<and> show_int (mp_ticket q) = ref)
     then Some p else None)"
  using reconcile_get [OF assms(1), of "mt5_ops L" mt5_tickets env k] assms(2,3)
  by (auto simp: mt5_ops_def mt5_tickets_def split: option.splits if_splits)

definition example_terminal :: "unit mt5_api" where
  "example_terminal = \<lparr> ma_symbol_info = (\<lambda>s t. Some \<lparr> si_trade_contract_size = 1, si_volume_min = 1 / 100,
       si_volume_max = 100, si_volume_step = 1 / 100, si_filling_mode = 3 \<rparr>), ma_symbols = (\<lambda>t. []),
     ma_positions = (\<lambda>t. None),
     ma_positions_of = (\<lambda>s t. Some [\<lparr> mp_ticket = 42, mp_symbol = s, mp_type = 0, mp_magic = 777001,
       mp_volume = 2, mp_price_open = 100, mp_sl = 90, mp_tp = 0, mp_time = 5 \<rparr>]),
     ma_balance = (\<lambda>t. Some 10000), ma_order_send = (\<lambda>p t. (None, t)), ma_last_error = (\<lambda>t. 0) \<rparr>"

definition example_mt5 :: "bool \<Rightarrow> unit mt5_broker" where
  "example_mt5 up = \<lparr> mb_api = example_terminal, mb_term = (), mb_connected = up,
     mb_symbol_cache = [], mb_deviation = 20, mb_magic = 777001, mb_executed = 0, mb_rejected = 0 \<rparr>"

definition mt5_engine :: "bool \<Rightarrow> unit mt5_broker engine" where
  "mt5_engine up = (build_engine default_execution (example_mt5 up) 10000 None)
     \<lparr> ex_positions := pm_store pm_init tracked_long \<rparr>"

theorem mt5_disconnect_settles_live_witness:
  "\<forall>L. pm_get (ex_positions (reconcile_broker_positions (mt5_ops L) calm_env (mt5_engine True))) ''p1'' = Some tracked_long
     \<and> pm_get (ex_positions (reconcile_broker_positions (mt5_ops L) calm_env (mt5_engine False))) ''p1'' = None"
proof
  fix L
  have pid: "p_position_id tracked_long = ''p1''" "p_status tracked_long = PS_OPEN"
    by (simp_all add: tracked_long_def example_long_unfold)
  have wf: "pm_wf (ex_positions (mt5_engine c))" for c
    by (simp add: mt5_engine_def pm_wf_store pid)
  have got: "pm_get (ex_positions (mt5_engine c)) ''p1'' = Some tracked_long" for c
    by (simp add: mt5_engine_def pm_get_def pm_store_def pid)
  have ref: "broker_ref (en_lib calm_env) tracked_long = Some ''42''" by simp
  have "show_int 42 = ''42''" by code_simp
  then show "pm_get (ex_positions (reconcile_broker_positions (mt5_ops L) calm_env (mt5_engine True))) ''p1'' = Some tracked_long
     \<and> pm_get (ex_positions (reconcile_broker_positions (mt5_ops L) calm_env (mt5_engine False))) ''p1'' = None"
    using mt5_disconnect_settles_live [OF wf [of True] got ref, where L = L]
      mt5_disconnect_settles_live [OF wf [of False] got ref, where L = L]
    by (simp add: mt5_engine_def build_engine_def example_mt5_def example_terminal_def)
qed

end
