(* ===== verification/Production_Settings.thy ===== *)
theory Production_Settings
  imports Settings Json
begin

text \<open>
  The configuration of the production layer (\<open>ProductionSettings\<close> and its sections in
  \<open>config/settings.py\<close>), the run environments, and the outcome of the disk accesses an operation
  makes: a read either returns the text or raises \<open>OSError\<close>, and a failed write leaves the file with
  some other content (\<open>write_text\<close> truncates before it writes).
\<close>

section \<open>Settings\<close>

record live_gate_settings =
  lg_min_profit_factor :: real
  lg_min_sharpe :: real
  lg_max_drawdown_pct :: real
  lg_min_paper_trades :: int
  lg_min_paper_days :: real
  lg_require_qualification :: bool
  lg_require_walk_forward :: bool
  lg_require_monte_carlo :: bool
  lg_require_ml_stable :: bool
  lg_require_no_critical_drift :: bool
  lg_min_test_coverage_pct :: real
  lg_max_open_critical_errors :: int
  lg_require_healthy_system :: bool
  lg_require_broker_connected :: bool
  lg_require_discord :: bool
  lg_require_database :: bool
  lg_require_redis :: bool
  lg_require_watchdog :: bool
  lg_require_scheduler :: bool
  lg_require_risk_manager :: bool
  lg_require_operator_approval :: bool
  lg_approval_ttl_hours :: real

definition default_live_gate :: live_gate_settings where
  "default_live_gate = \<lparr> lg_min_profit_factor = 8/5, lg_min_sharpe = 6/5, lg_max_drawdown_pct = 12,
     lg_min_paper_trades = 200, lg_min_paper_days = 30, lg_require_qualification = True,
     lg_require_walk_forward = True, lg_require_monte_carlo = True, lg_require_ml_stable = True,
     lg_require_no_critical_drift = True, lg_min_test_coverage_pct = 80,
     lg_max_open_critical_errors = 0, lg_require_healthy_system = True,
     lg_require_broker_connected = True, lg_require_discord = True, lg_require_database = True,
     lg_require_redis = False, lg_require_watchdog = True, lg_require_scheduler = True,
     lg_require_risk_manager = True, lg_require_operator_approval = True,
     lg_approval_ttl_hours = 24 \<rparr>"

record safe_mode_settings =
  sm_enabled :: bool
  sm_close_positions_on_enter :: bool
  sm_recovery_cycles :: int
  sm_max_latency_ms :: real
  sm_max_cpu_pct :: real
  sm_max_memory_pct :: real
  sm_max_drawdown_pct :: real
  sm_error_threshold :: int
  sm_error_window_seconds :: real
  sm_broker_failure_threshold :: int

definition default_safe_mode :: safe_mode_settings where
  "default_safe_mode = \<lparr> sm_enabled = True, sm_close_positions_on_enter = False,
     sm_recovery_cycles = 3, sm_max_latency_ms = 2000, sm_max_cpu_pct = 95, sm_max_memory_pct = 95,
     sm_max_drawdown_pct = 15, sm_error_threshold = 10, sm_error_window_seconds = 300,
     sm_broker_failure_threshold = 3 \<rparr>"

record kill_switch_settings =
  kw_enabled :: bool
  kw_persist_state :: bool
  kw_require_reason_to_release :: bool
  kw_scheduled_utc :: string

definition default_kill_switch :: kill_switch_settings where
  "default_kill_switch = \<lparr> kw_enabled = True, kw_persist_state = True,
     kw_require_reason_to_release = True, kw_scheduled_utc = [] \<rparr>"

datatype environment = DEVELOPMENT | TESTING | PAPER | PRODUCTION

fun environment_value :: "environment \<Rightarrow> string" where
  "environment_value DEVELOPMENT = ''development''"
| "environment_value TESTING = ''testing''"
| "environment_value PAPER = ''paper''"
| "environment_value PRODUCTION = ''production''"

text \<open>\<open>detect_environment\<close>: an unknown value of \<open>QE_ENVIRONMENT\<close> is \<open>development\<close>.\<close>

definition detect_environment :: "string option \<Rightarrow> environment" where
  "detect_environment var =
     (let raw = map lower_char (strip (case var of None \<Rightarrow> environment_value DEVELOPMENT | Some v \<Rightarrow> v)) in
      if raw = ''testing'' then TESTING else if raw = ''paper'' then PAPER
      else if raw = ''production'' then PRODUCTION else DEVELOPMENT)"

lemma detect_environment_value: "detect_environment (Some (environment_value e)) = e"
  by (cases e) (simp_all add: detect_environment_def lower_char_def strip_def is_space_def)

lemma environment_value_production [simp]: "environment_value e = ''production'' \<longleftrightarrow> e = PRODUCTION"
  by (cases e) simp_all

section \<open>Files and the outcome of accesses\<close>

text \<open>The content of a small JSON file: \<open>None\<close> when it does not exist.\<close>

datatype file_text = BadText | JsonText json

type_synonym json_file = "file_text option"

text \<open>
  What the system answers during one operation: whether a read succeeds, what a failed write leaves
  behind (\<open>None\<close>: the write succeeds), whether the audit line is written, and the clock.
\<close>

record sys_io =
  io_read_ok :: bool
  io_write_fail :: "json_file option"
  io_audit_ok :: bool
  io_now :: time

definition write_json :: "sys_io \<Rightarrow> json \<Rightarrow> json_file" where
  "write_json io j = (case io_write_fail io of None \<Rightarrow> Some (JsonText j) | Some left \<Rightarrow> left)"

definition io_good :: "sys_io \<Rightarrow> bool" where
  "io_good io \<longleftrightarrow> io_read_ok io \<and> io_write_fail io = None"

definition fine_io :: "time \<Rightarrow> sys_io" where
  "fine_io t = \<lparr> io_read_ok = True, io_write_fail = None, io_audit_ok = True, io_now = t \<rparr>"

lemma fine_io_simps [simp]:
  "io_read_ok (fine_io t)" "io_write_fail (fine_io t) = None" "io_audit_ok (fine_io t)" "io_now (fine_io t) = t"
  "io_good (fine_io t)"
  by (simp_all add: fine_io_def io_good_def)

lemma write_json_ok [simp]: "io_write_fail io = None \<Longrightarrow> write_json io j = Some (JsonText j)"
  by (simp add: write_json_def)

end
