(* ===== verification/Audit_Log.thy ===== *)
theory Audit_Log
  imports Journal Production_Settings
begin

text \<open>
  \<open>production/audit\<close>: the taxonomy of audited actions and \<open>AuditLog\<close>, a bounded ring of the newest
  entries over an append-only JSON Lines file.  Entries of the ring are JSON values, because the tail
  of the file is loaded as it is.
\<close>

section \<open>Actions\<close>

datatype audit_action =
    SYSTEM_STARTED | SYSTEM_STOPPED | SYSTEM_RESTARTED | SYSTEM_RECONNECTED | SYSTEM_RECOVERED
  | CONFIG_PATCH | RISK_CHANGED
  | STRATEGY_ENABLED | STRATEGY_DISABLED | STRATEGY_WEIGHT_CHANGED
  | ML_TRAINING | ML_MODEL_ACTIVATED | ML_MODEL_ROLLED_BACK | BACKTEST_RUN
  | LIVE_GATE_EVALUATED | LIVE_APPROVAL_GRANTED | LIVE_APPROVAL_REVOKED | LIVE_ENABLE_REJECTED
  | LIVE_ENABLED | LIVE_DISABLED | SAFE_MODE_ENTERED | SAFE_MODE_EXITED
  | KILL_SWITCH_ENGAGED | KILL_SWITCH_RELEASED
  | BACKUP_CREATED | BACKUP_RESTORED | BACKUP_ROTATED | UPDATE_CHECKED | UPDATE_APPLIED
  | UPDATE_ROLLED_BACK | MAINTENANCE_STARTED | MAINTENANCE_FINISHED
  | NOTION_SYNCED | REPORT_SENT | IMPROVEMENT_RECOMMENDED
  | SECRET_ROTATION_DUE | RATE_LIMIT_EXCEEDED | FAILOVER_PROMOTED | FAILOVER_DEMOTED
  | LICENSE_VALIDATED

fun action_value :: "audit_action \<Rightarrow> string" where
  "action_value SYSTEM_STARTED = ''system.started''"
| "action_value SYSTEM_STOPPED = ''system.stopped''"
| "action_value SYSTEM_RESTARTED = ''system.restarted''"
| "action_value SYSTEM_RECONNECTED = ''system.reconnected''"
| "action_value SYSTEM_RECOVERED = ''system.recovered''"
| "action_value CONFIG_PATCH = ''config.patch''"
| "action_value RISK_CHANGED = ''risk.changed''"
| "action_value STRATEGY_ENABLED = ''strategy.enabled''"
| "action_value STRATEGY_DISABLED = ''strategy.disabled''"
| "action_value STRATEGY_WEIGHT_CHANGED = ''strategy.weight_changed''"
| "action_value ML_TRAINING = ''ml.training''"
| "action_value ML_MODEL_ACTIVATED = ''ml.model_activated''"
| "action_value ML_MODEL_ROLLED_BACK = ''ml.model_rolled_back''"
| "action_value BACKTEST_RUN = ''backtest.run''"
| "action_value LIVE_GATE_EVALUATED = ''live.gate_evaluated''"
| "action_value LIVE_APPROVAL_GRANTED = ''live.approval_granted''"
| "action_value LIVE_APPROVAL_REVOKED = ''live.approval_revoked''"
| "action_value LIVE_ENABLE_REJECTED = ''live.enable_rejected''"
| "action_value LIVE_ENABLED = ''live.enabled''"
| "action_value LIVE_DISABLED = ''live.disabled''"
| "action_value SAFE_MODE_ENTERED = ''safe_mode.entered''"
| "action_value SAFE_MODE_EXITED = ''safe_mode.exited''"
| "action_value KILL_SWITCH_ENGAGED = ''kill_switch.engaged''"
| "action_value KILL_SWITCH_RELEASED = ''kill_switch.released''"
| "action_value BACKUP_CREATED = ''backup.created''"
| "action_value BACKUP_RESTORED = ''backup.restored''"
| "action_value BACKUP_ROTATED = ''backup.rotated''"
| "action_value UPDATE_CHECKED = ''update.checked''"
| "action_value UPDATE_APPLIED = ''update.applied''"
| "action_value UPDATE_ROLLED_BACK = ''update.rolled_back''"
| "action_value MAINTENANCE_STARTED = ''maintenance.started''"
| "action_value MAINTENANCE_FINISHED = ''maintenance.finished''"
| "action_value NOTION_SYNCED = ''notion.synced''"
| "action_value REPORT_SENT = ''report.sent''"
| "action_value IMPROVEMENT_RECOMMENDED = ''improvement.recommended''"
| "action_value SECRET_ROTATION_DUE = ''security.secret_rotation_due''"
| "action_value RATE_LIMIT_EXCEEDED = ''security.rate_limit_exceeded''"
| "action_value FAILOVER_PROMOTED = ''failover.promoted''"
| "action_value FAILOVER_DEMOTED = ''failover.demoted''"
| "action_value LICENSE_VALIDATED = ''license.validated''"

section \<open>The log\<close>

record audit_log =
  au_has_path :: bool
  au_size :: nat
  au_ring :: "json list"
  au_file :: journal_disk

text \<open>The lines of the file that hold JSON, in order.\<close>

fun json_lines :: "json_line list \<Rightarrow> json list" where
  "json_lines [] = []"
| "json_lines (JsonLine j # ls) = j # json_lines ls"
| "json_lines (BlankLine # ls) = json_lines ls"
| "json_lines (BadLine # ls) = json_lines ls"

text \<open>
  \<open>_load_tail\<close>, with \<open>stop = Some k\<close> when reading raises \<open>OSError\<close> after \<open>k\<close> lines.  The file decodes: bytes that are not
  UTF-8 raise out of the constructor, and no log is made.
\<close>

definition au_open :: "nat option \<Rightarrow> bool \<Rightarrow> nat \<Rightarrow> journal_disk \<Rightarrow> audit_log" where
  "au_open stop has_path sz disk =
     (let ls = (if has_path then disk_lines disk else []);
          seen = (case stop of None \<Rightarrow> ls | Some k \<Rightarrow> take k ls)
      in \<lparr> au_has_path = has_path, au_size = sz,
           au_ring = fold (deque_append sz) (json_lines seen) [], au_file = disk \<rparr>)"

definition audit_entry ::
  "time \<Rightarrow> string \<Rightarrow> string \<Rightarrow> string option \<Rightarrow> json \<Rightarrow> json \<Rightarrow> json_dict \<Rightarrow> json_dict" where
  "audit_entry now action actor target bef aft meta =
     [(''timestamp'', JStr (iso now)), (''action'', JStr action), (''actor'', JStr actor),
      (''target'', json_opt_str target), (''before'', bef), (''after'', aft), (''meta'', JObj meta)]"

definition au_append :: "bool \<Rightarrow> json_dict \<Rightarrow> audit_log \<Rightarrow> audit_log" where
  "au_append ok entry au =
     au\<lparr> au_ring := deque_append (au_size au) (JObj entry) (au_ring au),
         au_file := (if au_has_path au \<and> ok then append_line (JsonLine (JObj entry)) (au_file au)
                     else au_file au) \<rparr>"

definition au_record ::
  "sys_io \<Rightarrow> audit_action \<Rightarrow> string \<Rightarrow> string option \<Rightarrow> json \<Rightarrow> json \<Rightarrow> json_dict \<Rightarrow> audit_log \<Rightarrow> audit_log" where
  "au_record io action actor target bef aft meta =
     au_append (io_audit_ok io) (audit_entry (io_now io) (action_value action) actor target bef aft meta)"

text \<open>\<open>xs[:n]\<close>; a negative \<open>n\<close> leaves out the last entries.\<close>

definition py_head :: "int \<Rightarrow> 'a list \<Rightarrow> 'a list" where
  "py_head n xs = (if 0 \<le> n then take (nat n) xs else take (length xs - nat (- n)) xs)"

text \<open>The filter calls \<open>entry.get\<close>: an entry that is not an object raises.\<close>

fun with_action :: "string \<Rightarrow> json list \<Rightarrow> py_error + json list" where
  "with_action a [] = Inr []"
| "with_action a (JObj d # xs) =
     ebind (with_action a xs) (\<lambda>ys. Inr (if jget d ''action'' JNull = JStr a then JObj d # ys else ys))"
| "with_action a (x # xs) = Inl AttributeError"

definition au_recent :: "int \<Rightarrow> string option \<Rightarrow> audit_log \<Rightarrow> py_error + json list" where
  "au_recent lmt action au =
     ebind (case action of None \<Rightarrow> Inr (rev (au_ring au)) | Some a \<Rightarrow> with_action a (rev (au_ring au)))
       (\<lambda>xs. Inr (py_head lmt xs))"

definition au_count :: "audit_log \<Rightarrow> nat" where
  "au_count au = length (au_ring au)"

section \<open>Lemmas\<close>

definition au_same_store :: "audit_log \<Rightarrow> audit_log \<Rightarrow> bool" where
  "au_same_store a b \<longleftrightarrow> au_has_path a = au_has_path b \<and> au_size a = au_size b"

lemma au_append_simps [simp]:
  "au_has_path (au_append ok e au) = au_has_path au" "au_size (au_append ok e au) = au_size au"
  by (simp_all add: au_append_def)

lemma json_lines_append: "json_lines (xs @ ys) = json_lines xs @ json_lines ys"
  by (induction xs rule: json_lines.induct) simp_all

lemma au_open_ring:
  "au_ring (au_open None True n disk) = last_n n (json_lines (disk_lines disk))"
  using fold_deque_append [of n "json_lines (disk_lines disk)" "[]"] by (simp add: au_open_def Let_def)

text \<open>The file only grows: what was audited, a torn last line apart, stays a prefix of it.\<close>

definition au_grows :: "audit_log \<Rightarrow> audit_log \<Rightarrow> bool" where
  "au_grows a b \<longleftrightarrow> (\<exists>ls. disk_kept (au_file b) = disk_kept (au_file a) @ ls)"

lemma au_grows_refl [simp]: "au_grows a a"
  by (simp add: au_grows_def)

lemma au_grows_trans: "au_grows a b \<Longrightarrow> au_grows b c \<Longrightarrow> au_grows a c"
  by (auto simp: au_grows_def)

lemma au_grows_append [simp]: "au_grows au (au_append ok e au)"
  by (simp add: au_grows_def au_append_def)

lemma au_grows_open [simp]: "au_grows au (au_open st p n (au_file au))"
  by (simp add: au_grows_def au_open_def Let_def)

text \<open>An entry just recorded is the newest one of the log.\<close>

lemma au_append_newest:
  assumes "0 < au_size au"
  shows "\<exists>es. au_ring (au_append ok e au) = es @ [JObj e]"
proof -
  have "drop (Suc (length (au_ring au)) - au_size au) (au_ring au @ [JObj e])
      = drop (Suc (length (au_ring au)) - au_size au) (au_ring au) @ [JObj e]"
    using assms by simp
  then show ?thesis by (simp add: au_append_def deque_append_def last_n_def)
qed

text \<open>While every line is written, the ring is what a restart would load.\<close>

definition au_synced :: "audit_log \<Rightarrow> bool" where
  "au_synced au \<longleftrightarrow> au_has_path au \<and> \<not> disk_torn (au_file au) \<and> au_ring au = last_n (au_size au) (json_lines (disk_lines (au_file au)))"

lemma au_synced_append: "au_synced au \<Longrightarrow> au_synced (au_append True e au)"
  by (simp add: au_synced_def au_append_def deque_append_def last_n_last_n_append json_lines_append)

lemma au_synced_open [simp]: "\<not> disk_torn disk \<Longrightarrow> au_synced (au_open None True n disk)"
  unfolding au_synced_def au_open_ring by (simp add: au_open_def Let_def)

lemma au_reopen:
  "au_synced au \<Longrightarrow> au_open None True (au_size au) (au_file au) = au"
  using au_open_ring [of "au_size au" "au_file au"]
  by (cases au) (simp add: au_synced_def au_open_def Let_def)

end
