(* ===== verification/Live_Gate.thy ===== *)
theory Live_Gate
  imports Audit_Log
begin

text \<open>
  \<open>production/live\<close>: the operator's approval and its store (\<open>approval.py\<close>), the gate that evaluates
  every criterion (\<open>gate.py\<close>), the resolution of the effective mode (\<open>mode.py\<close>) and the choice of the
  broker (\<open>broker_selector.py\<close>).  The digest of a report is the parameter \<open>sha\<close>: a function of the
  configured criteria and of the name and outcome of every check, which is what the source hashes.
\<close>

section \<open>Approvals\<close>

record live_approval =
  la_actor :: string
  la_reason :: string
  la_report_hash :: string
  la_granted_at :: time
  la_ttl_hours :: real

definition la_expires_at :: "live_approval \<Rightarrow> time" where
  "la_expires_at a = la_granted_at a + timedelta_hours (la_ttl_hours a)"

definition la_is_valid_for :: "string \<Rightarrow> time \<Rightarrow> live_approval \<Rightarrow> bool" where
  "la_is_valid_for h now a \<longleftrightarrow> h = la_report_hash a \<and> now < la_expires_at a"

definition la_to_dict :: "live_approval \<Rightarrow> json_dict" where
  "la_to_dict a =
     [(''actor'', JStr (la_actor a)), (''reason'', JStr (la_reason a)),
      (''report_hash'', JStr (la_report_hash a)), (''granted_at'', JStr (iso (la_granted_at a))),
      (''ttl_hours'', JNum (la_ttl_hours a)), (''expires_at'', JStr (iso (la_expires_at a)))]"

definition la_from_dict :: "pylib \<Rightarrow> json_dict \<Rightarrow> py_error + live_approval" where
  "la_from_dict L d =
     ebind (jitem d ''actor'') (\<lambda>actor.
     ebind (jitem d ''report_hash'') (\<lambda>h.
     ebind (jitem d ''granted_at'') (\<lambda>g.
     ebind (py_fromiso L (py_str L g)) (\<lambda>granted.
     ebind (jitem d ''ttl_hours'') (\<lambda>t.
     ebind (py_float L t) (\<lambda>ttl.
       Inr \<lparr> la_actor = py_str L actor, la_reason = py_str L (jget d ''reason'' (JStr [])),
             la_report_hash = py_str L h, la_granted_at = granted, la_ttl_hours = ttl \<rparr>))))))"

record approval_store =
  ap_has_path :: bool
  ap_ttl_hours :: real
  ap_approval :: "live_approval option"
  ap_file :: json_file

text \<open>
  The constructor loads the file: a missing key, a value that does not parse and a read error mean no
  approval; \<open>TypeError\<close> (a list in the file, a \<open>null\<close> for the hours) is not caught and escapes.
\<close>

definition ap_open :: "pylib \<Rightarrow> sys_io \<Rightarrow> bool \<Rightarrow> real \<Rightarrow> json_file \<Rightarrow> py_error + approval_store" where
  "ap_open L io has_path ttl file =
     (let store = (\<lambda>a. \<lparr> ap_has_path = has_path, ap_ttl_hours = ttl, ap_approval = a, ap_file = file \<rparr>) in
      if \<not> has_path then Inr (store None) else
      case file of
        None \<Rightarrow> Inr (store None)
      | Some text \<Rightarrow>
          if \<not> io_read_ok io then Inr (store None) else
          (case text of
             BadText \<Rightarrow> Inr (store None)
           | JsonText (JObj d) \<Rightarrow>
               (case la_from_dict L d of
                  Inr a \<Rightarrow> Inr (store (Some a))
                | Inl ValueError \<Rightarrow> Inr (store None)
                | Inl (KeyError k) \<Rightarrow> Inr (store None)
                | Inl e \<Rightarrow> Inl e)
           | JsonText j \<Rightarrow> Inl TypeError))"

definition ap_persist :: "sys_io \<Rightarrow> approval_store \<Rightarrow> approval_store" where
  "ap_persist io ap =
     (if \<not> ap_has_path ap then ap
      else ap\<lparr> ap_file := (case ap_approval ap of
             None \<Rightarrow> (case io_write_fail io of None \<Rightarrow> None | Some left \<Rightarrow> ap_file ap)
           | Some a \<Rightarrow> write_json io (JObj (la_to_dict a))) \<rparr>)"

definition ap_grant ::
  "sys_io \<Rightarrow> string \<Rightarrow> string \<Rightarrow> string \<Rightarrow> approval_store \<Rightarrow> py_error + live_approval \<times> approval_store" where
  "ap_grant io actor reason h ap =
     (if strip actor = [] then Inl ValueError
      else if strip h = [] then Inl ValueError
      else
        let a = \<lparr> la_actor = strip actor, la_reason = strip reason, la_report_hash = h,
                  la_granted_at = io_now io, la_ttl_hours = ap_ttl_hours ap \<rparr>
        in Inr (a, ap_persist io (ap\<lparr> ap_approval := Some a \<rparr>)))"

definition ap_revoke :: "sys_io \<Rightarrow> approval_store \<Rightarrow> approval_store" where
  "ap_revoke io ap = ap_persist io (ap\<lparr> ap_approval := None \<rparr>)"

definition ap_is_valid_for :: "time \<Rightarrow> approval_store \<Rightarrow> string \<Rightarrow> bool" where
  "ap_is_valid_for now ap h \<longleftrightarrow> (case ap_approval ap of None \<Rightarrow> False | Some a \<Rightarrow> la_is_valid_for h now a)"

section \<open>The gate\<close>

record gate_check =
  gc_name :: string
  gc_passed :: bool
  gc_detail :: msg
  gc_blocking :: bool

definition gate_check_of :: "string \<Rightarrow> bool \<Rightarrow> msg \<Rightarrow> gate_check" where
  "gate_check_of name passed detail =
     \<lparr> gc_name = name, gc_passed = passed, gc_detail = detail, gc_blocking = True \<rparr>"

record gate_inputs =
  gi_allow_live :: bool
  gi_mode_requested :: string
  gi_environment :: string
  gi_paper_trades :: int
  gi_paper_days :: real
  gi_profit_factor :: "real option"
  gi_sharpe :: "real option"
  gi_max_drawdown_pct :: "real option"
  gi_qualification_approved :: "bool option"
  gi_walk_forward_approved :: "bool option"
  gi_monte_carlo_approved :: "bool option"
  gi_ml_stable :: "bool option"
  gi_critical_drift :: "bool option"
  gi_test_coverage_pct :: "real option"
  gi_open_critical_errors :: int
  gi_system_healthy :: "bool option"
  gi_broker_connected :: "bool option"
  gi_discord_ok :: "bool option"
  gi_database_ok :: "bool option"
  gi_redis_ok :: "bool option"
  gi_watchdog_ok :: "bool option"
  gi_scheduler_ok :: "bool option"
  gi_risk_manager_ok :: "bool option"
  gi_kill_switch_active :: bool
  gi_safe_mode_active :: bool

definition default_inputs :: gate_inputs where
  "default_inputs = \<lparr> gi_allow_live = False, gi_mode_requested = ''paper'',
     gi_environment = ''development'', gi_paper_trades = 0, gi_paper_days = 0, gi_profit_factor = None,
     gi_sharpe = None, gi_max_drawdown_pct = None, gi_qualification_approved = None,
     gi_walk_forward_approved = None, gi_monte_carlo_approved = None, gi_ml_stable = None,
     gi_critical_drift = None, gi_test_coverage_pct = None, gi_open_critical_errors = 0,
     gi_system_healthy = None, gi_broker_connected = None, gi_discord_ok = None, gi_database_ok = None,
     gi_redis_ok = None, gi_watchdog_ok = None, gi_scheduler_ok = None, gi_risk_manager_ok = None,
     gi_kill_switch_active = False, gi_safe_mode_active = False \<rparr>"

definition at_least :: "string \<Rightarrow> real option \<Rightarrow> real \<Rightarrow> string \<Rightarrow> gate_check" where
  "at_least name v m u =
     (case v of
        None \<Rightarrow> gate_check_of name False (Fmt ''{} desconocido (minimo {}{})'' [ArgStr name, ArgReal m, ArgStr u])
      | Some x \<Rightarrow> gate_check_of name (x \<ge> m)
          (Fmt ''{} {}{} (minimo {}{})'' [ArgStr name, ArgReal x, ArgStr u, ArgReal m, ArgStr u]))"

definition at_most :: "string \<Rightarrow> real option \<Rightarrow> real \<Rightarrow> string \<Rightarrow> gate_check" where
  "at_most name v m u =
     (case v of
        None \<Rightarrow> gate_check_of name False (Fmt ''{} desconocido (maximo {}{})'' [ArgStr name, ArgReal m, ArgStr u])
      | Some x \<Rightarrow> gate_check_of name (x \<le> m)
          (Fmt ''{} {}{} (maximo {}{})'' [ArgStr name, ArgReal x, ArgStr u, ArgReal m, ArgStr u]))"

definition required_flag :: "string \<Rightarrow> bool option \<Rightarrow> string \<Rightarrow> gate_check" where
  "required_flag name v label =
     (case v of
        None \<Rightarrow> gate_check_of name False (Fmt ''{}: estado desconocido (se asume no cumplido)'' [ArgStr label])
      | Some b \<Rightarrow> gate_check_of name b (Fmt ''{}: {}'' [ArgStr label, ArgStr (if b then ''OK'' else ''NO disponible'')]))"

definition track_record_checks :: "live_gate_settings \<Rightarrow> gate_inputs \<Rightarrow> gate_check list" where
  "track_record_checks s i =
     [at_least ''paper_trades'' (Some (of_int (gi_paper_trades i))) (of_int (lg_min_paper_trades s)) '' ops'',
      at_least ''paper_days'' (Some (gi_paper_days i)) (lg_min_paper_days s) '' dias'',
      at_least ''profit_factor'' (gi_profit_factor i) (lg_min_profit_factor s) [],
      at_least ''sharpe'' (gi_sharpe i) (lg_min_sharpe s) [],
      at_most ''max_drawdown_pct'' (gi_max_drawdown_pct i) (lg_max_drawdown_pct s) ''%'']"

definition drift_check :: "bool option \<Rightarrow> gate_check" where
  "drift_check drift =
     gate_check_of ''no_critical_drift'' (drift = Some False)
       (if drift = Some False then Lit ''Sin drift critico''
        else if drift = Some True then Lit ''Drift critico detectado''
        else Lit ''Estado de drift desconocido (se asume critico)'')"

definition validation_checks :: "live_gate_settings \<Rightarrow> gate_inputs \<Rightarrow> gate_check list" where
  "validation_checks s i =
     (if lg_require_qualification s
      then [required_flag ''qualification'' (gi_qualification_approved i) ''Strategy Qualification Pipeline''] else []) @
     (if lg_require_walk_forward s
      then [required_flag ''walk_forward'' (gi_walk_forward_approved i) ''Walk Forward''] else []) @
     (if lg_require_monte_carlo s
      then [required_flag ''monte_carlo'' (gi_monte_carlo_approved i) ''Monte Carlo''] else []) @
     (if lg_require_ml_stable s
      then [required_flag ''ml_stable'' (gi_ml_stable i) ''Machine Learning estable''] else []) @
     (if lg_require_no_critical_drift s then [drift_check (gi_critical_drift i)] else [])"

definition quality_checks :: "live_gate_settings \<Rightarrow> gate_inputs \<Rightarrow> gate_check list" where
  "quality_checks s i =
     [at_least ''test_coverage_pct'' (gi_test_coverage_pct i) (lg_min_test_coverage_pct s) ''%'',
      gate_check_of ''no_critical_errors'' (gi_open_critical_errors i \<le> lg_max_open_critical_errors s)
        (Fmt ''{} errores criticos abiertos (maximo {})''
          [ArgInt (gi_open_critical_errors i), ArgInt (lg_max_open_critical_errors s)])]"

definition wanted_infrastructure ::
  "live_gate_settings \<Rightarrow> gate_inputs \<Rightarrow> (bool \<times> string \<times> bool option \<times> string) list" where
  "wanted_infrastructure s i =
     [(lg_require_healthy_system s, ''system_health'', gi_system_healthy i, ''Health del sistema''),
      (lg_require_broker_connected s, ''broker'', gi_broker_connected i, ''Broker conectado''),
      (lg_require_discord s, ''discord'', gi_discord_ok i, ''Discord operativo''),
      (lg_require_database s, ''database'', gi_database_ok i, ''Base de datos disponible''),
      (lg_require_redis s, ''redis'', gi_redis_ok i, ''Redis disponible''),
      (lg_require_watchdog s, ''watchdog'', gi_watchdog_ok i, ''Watchdog activo''),
      (lg_require_scheduler s, ''scheduler'', gi_scheduler_ok i, ''Scheduler activo''),
      (lg_require_risk_manager s, ''risk_manager'', gi_risk_manager_ok i, ''Risk Manager activo'')]"

definition infrastructure_checks :: "live_gate_settings \<Rightarrow> gate_inputs \<Rightarrow> gate_check list" where
  "infrastructure_checks s i =
     map (\<lambda>(required, name, v, label). required_flag name v label)
       (filter (\<lambda>(required, name, v, label). required) (wanted_infrastructure s i))"

definition core_checks :: "live_gate_settings \<Rightarrow> gate_inputs \<Rightarrow> gate_check list" where
  "core_checks s i =
     [gate_check_of ''allow_live'' (gi_allow_live i)
        (if gi_allow_live i then Lit ''Llave maestra production.allow_live activada''
         else Lit ''production.allow_live esta en False (llave maestra cerrada)''),
      gate_check_of ''mode_requested'' (gi_mode_requested i = ''live'')
        (Fmt (if gi_mode_requested i = ''live'' then ''execution.mode = {!r}''
              else ''execution.mode = {!r} (no se pide live)'') [ArgStr (gi_mode_requested i)]),
      gate_check_of ''environment'' (gi_environment i = ''production'')
        (Fmt (if gi_environment i = ''production'' then ''Ambiente {!r}''
              else ''Ambiente {!r} (live exige 'production')'') [ArgStr (gi_environment i)]),
      gate_check_of ''kill_switch'' (\<not> gi_kill_switch_active i)
        (if gi_kill_switch_active i then Lit ''Kill switch activo'' else Lit ''Kill switch liberado''),
      gate_check_of ''safe_mode'' (\<not> gi_safe_mode_active i)
        (if gi_safe_mode_active i then Lit ''Safe Mode activo'' else Lit ''Fuera de Safe Mode'')] @
     track_record_checks s i @ validation_checks s i @ quality_checks s i @ infrastructure_checks s i"

type_synonym report_digest = "live_gate_settings \<times> (string \<times> bool) list \<Rightarrow> string"

definition gate_hash :: "report_digest \<Rightarrow> live_gate_settings \<Rightarrow> gate_check list \<Rightarrow> string" where
  "gate_hash sha s checks = sha (s, map (\<lambda>c. (gc_name c, gc_passed c)) checks)"

record gate_report =
  gr_approved :: bool
  gr_checks :: "gate_check list"
  gr_reasons :: "msg list"
  gr_report_hash :: string
  gr_evaluated_at :: time

definition gr_passed_count :: "gate_report \<Rightarrow> nat" where
  "gr_passed_count r = length (filter gc_passed (gr_checks r))"

definition gr_failed_count :: "gate_report \<Rightarrow> nat" where
  "gr_failed_count r = length (filter (\<lambda>c. \<not> gc_passed c) (gr_checks r))"

definition gc_to_dict :: "pylib \<Rightarrow> gate_check \<Rightarrow> json_dict" where
  "gc_to_dict L c = [(''name'', JStr (gc_name c)), (''passed'', JBool (gc_passed c)),
     (''detail'', JStr (render L (gc_detail c))), (''blocking'', JBool (gc_blocking c))]"

definition gr_to_dict :: "pylib \<Rightarrow> gate_report \<Rightarrow> json_dict" where
  "gr_to_dict L r = [(''approved'', JBool (gr_approved r)), (''passed'', JInt (int (gr_passed_count r))),
     (''failed'', JInt (int (gr_failed_count r))),
     (''reasons'', JList (map (\<lambda>m. JStr (render L m)) (gr_reasons r))),
     (''checks'', JList (map (\<lambda>c. JObj (gc_to_dict L c)) (gr_checks r))),
     (''report_hash'', JStr (gr_report_hash r)), (''evaluated_at'', JStr (iso (gr_evaluated_at r)))]"

definition operator_check :: "bool \<Rightarrow> gate_check" where
  "operator_check ok = gate_check_of ''operator_approval'' ok
     (if ok then Lit ''Aprobacion explicita del operador vigente''
      else Lit ''Falta la aprobacion explicita del operador para este reporte'')"

definition gate_evaluate ::
  "report_digest \<Rightarrow> live_gate_settings \<Rightarrow> (string \<Rightarrow> bool) \<Rightarrow> time \<Rightarrow> gate_inputs \<Rightarrow> gate_report" where
  "gate_evaluate sha s lookup now i =
     (let core = core_checks s i;
          h = gate_hash sha s core;
          checks = core @ (if lg_require_operator_approval s then [operator_check (lookup h)] else []);
          reasons = map gc_detail (filter (\<lambda>c. \<not> gc_passed c \<and> gc_blocking c) checks)
      in \<lparr> gr_approved = (reasons = []), gr_checks = checks, gr_reasons = reasons, gr_report_hash = h,
           gr_evaluated_at = now \<rparr>)"

section \<open>The mode\<close>

fun str_join :: "string \<Rightarrow> string list \<Rightarrow> string" where
  "str_join sep [] = []"
| "str_join sep [x] = x"
| "str_join sep (x # y # ys) = x @ sep @ str_join sep (y # ys)"

record mode_settings =
  ms_allow_live :: bool
  ms_execution :: execution_settings
  ms_environment :: environment
  ms_max_age_seconds :: real

definition live_authorized :: "pylib \<Rightarrow> mode_settings \<Rightarrow> time \<Rightarrow> gate_report option \<Rightarrow> msg option" where
  "live_authorized L ms now latest =
     (if \<not> ms_allow_live ms then Some (Lit ''production.allow_live esta en False (llave maestra cerrada)'')
      else if \<not> is_live (ms_execution ms) then Some (Lit ''execution.mode no pide live'')
      else if ms_environment ms \<noteq> PRODUCTION
      then Some (Fmt (''ambiente {!r}, live exige '' @ [CHR 0x27] @ ''production'' @ [CHR 0x27]) [ArgStr (environment_value (ms_environment ms))])
      else case latest of
        None \<Rightarrow> Some (Lit ''el Live Gate no se ha evaluado todavia'')
      | Some r \<Rightarrow>
          let age = total_seconds (now - gr_evaluated_at r) in
          if age > ms_max_age_seconds ms
          then Some (Fmt ''la evaluacion del Live Gate tiene {}s (maximo {}s)''
                  [ArgReal age, ArgReal (ms_max_age_seconds ms)])
          else if \<not> gr_approved r
          then Some (Fmt ''el Live Gate no aprueba: {}''
                  [ArgStr (str_join ''; '' (map (render L) (take 3 (gr_reasons r))))])
          else None)"

definition mode_resolved :: "pylib \<Rightarrow> mode_settings \<Rightarrow> time \<Rightarrow> gate_report option \<Rightarrow> string" where
  "mode_resolved L ms now latest = (if live_authorized L ms now latest = None then ''live'' else ''paper'')"

definition blocking_reason :: "pylib \<Rightarrow> mode_settings \<Rightarrow> time \<Rightarrow> gate_report option \<Rightarrow> msg" where
  "blocking_reason L ms now latest = (case live_authorized L ms now latest of None \<Rightarrow> Lit [] | Some m \<Rightarrow> m)"

definition mode_status :: "pylib \<Rightarrow> mode_settings \<Rightarrow> time \<Rightarrow> gate_report option \<Rightarrow> json_dict" where
  "mode_status L ms now latest =
     (let reason = live_authorized L ms now latest in
      [(''mode'', JStr (if reason \<noteq> None then ''paper'' else ''live'')),
       (''requested_mode'', JStr (xs_mode (ms_execution ms))), (''live_enabled'', JBool (reason = None)),
       (''allow_live'', JBool (ms_allow_live ms)),
       (''environment'', JStr (environment_value (ms_environment ms))),
       (''blocking_reason'', JStr (case reason of None \<Rightarrow> [] | Some m \<Rightarrow> render L m)),
       (''gate'', (case latest of None \<Rightarrow> JNull | Some r \<Rightarrow> JObj (gr_to_dict L r)))])"

section \<open>The broker\<close>

datatype broker_choice = ChosenPaper | ChosenMT5

datatype config_error = DemoNeedsConnection | LiveForbidden

definition select_broker :: "string \<Rightarrow> bool \<Rightarrow> config_error + broker_choice" where
  "select_broker mode has_connection =
     (if mode = ''paper'' then Inr ChosenPaper
      else if mode = ''demo'' then (if \<not> has_connection then Inl DemoNeedsConnection else Inr ChosenMT5)
      else Inl LiveForbidden)"

section \<open>Lemmas\<close>

lemma gate_check_of_fields [simp]:
  "gc_name (gate_check_of n p d) = n" "gc_passed (gate_check_of n p d) = p" "gc_blocking (gate_check_of n p d)"
  by (simp_all add: gate_check_of_def)

definition known_at_least :: "real option \<Rightarrow> real \<Rightarrow> bool" where
  "known_at_least v m \<longleftrightarrow> (\<exists>x. v = Some x \<and> m \<le> x)"

definition known_at_most :: "real option \<Rightarrow> real \<Rightarrow> bool" where
  "known_at_most v m \<longleftrightarrow> (\<exists>x. v = Some x \<and> x \<le> m)"

lemma at_least_fields [simp]:
  "gc_passed (at_least n v m u) = known_at_least v m" "gc_blocking (at_least n v m u)" "gc_name (at_least n v m u) = n"
  by (simp_all add: at_least_def known_at_least_def split: option.splits)

lemma at_most_fields [simp]:
  "gc_passed (at_most n v m u) = known_at_most v m" "gc_blocking (at_most n v m u)" "gc_name (at_most n v m u) = n"
  by (simp_all add: at_most_def known_at_most_def split: option.splits)

lemma required_flag_fields [simp]:
  "gc_passed (required_flag n v l) = (v = Some True)" "gc_blocking (required_flag n v l)"
  "gc_name (required_flag n v l) = n"
  by (auto simp: required_flag_def split: option.splits)

lemma drift_check_fields [simp]:
  "gc_passed (drift_check v) = (v = Some False)" "gc_blocking (drift_check v)"
  by (simp_all add: drift_check_def)

lemma operator_check_fields [simp]: "gc_passed (operator_check b) = b" "gc_blocking (operator_check b)"
  by (simp_all add: operator_check_def)

text \<open>The specification of the criteria: what each one asks of the observed system.\<close>

definition system_criteria :: "gate_inputs \<Rightarrow> bool" where
  "system_criteria i \<longleftrightarrow> gi_allow_live i \<and> gi_mode_requested i = ''live'' \<and> gi_environment i = ''production''
     \<and> \<not> gi_kill_switch_active i \<and> \<not> gi_safe_mode_active i"

definition record_criteria :: "live_gate_settings \<Rightarrow> gate_inputs \<Rightarrow> bool" where
  "record_criteria s i \<longleftrightarrow> lg_min_paper_trades s \<le> gi_paper_trades i \<and> lg_min_paper_days s \<le> gi_paper_days i
     \<and> known_at_least (gi_profit_factor i) (lg_min_profit_factor s)
     \<and> known_at_least (gi_sharpe i) (lg_min_sharpe s)
     \<and> known_at_most (gi_max_drawdown_pct i) (lg_max_drawdown_pct s)"

definition validation_criteria :: "live_gate_settings \<Rightarrow> gate_inputs \<Rightarrow> bool" where
  "validation_criteria s i \<longleftrightarrow>
     (lg_require_qualification s \<longrightarrow> gi_qualification_approved i = Some True)
     \<and> (lg_require_walk_forward s \<longrightarrow> gi_walk_forward_approved i = Some True)
     \<and> (lg_require_monte_carlo s \<longrightarrow> gi_monte_carlo_approved i = Some True)
     \<and> (lg_require_ml_stable s \<longrightarrow> gi_ml_stable i = Some True)
     \<and> (lg_require_no_critical_drift s \<longrightarrow> gi_critical_drift i = Some False)"

definition quality_criteria :: "live_gate_settings \<Rightarrow> gate_inputs \<Rightarrow> bool" where
  "quality_criteria s i \<longleftrightarrow> known_at_least (gi_test_coverage_pct i) (lg_min_test_coverage_pct s)
     \<and> gi_open_critical_errors i \<le> lg_max_open_critical_errors s"

definition infrastructure_criteria :: "live_gate_settings \<Rightarrow> gate_inputs \<Rightarrow> bool" where
  "infrastructure_criteria s i \<longleftrightarrow>
     (\<forall>(required, name, v, label) \<in> set (wanted_infrastructure s i). required \<longrightarrow> v = Some True)"

definition all_criteria :: "live_gate_settings \<Rightarrow> gate_inputs \<Rightarrow> bool" where
  "all_criteria s i \<longleftrightarrow> system_criteria i \<and> record_criteria s i \<and> validation_criteria s i
     \<and> quality_criteria s i \<and> infrastructure_criteria s i"

definition all_passed :: "gate_check list \<Rightarrow> bool" where
  "all_passed cs \<longleftrightarrow> (\<forall>c \<in> set cs. gc_passed c)"

lemma all_passed_simps [simp]:
  "all_passed []" "all_passed (c # cs) = (gc_passed c \<and> all_passed cs)"
  "all_passed (xs @ ys) = (all_passed xs \<and> all_passed ys)"
  by (auto simp: all_passed_def)

lemma track_record_passed: "all_passed (track_record_checks s i) = record_criteria s i"
  by (simp add: track_record_checks_def record_criteria_def known_at_least_def)

lemma validation_passed: "all_passed (validation_checks s i) = validation_criteria s i"
  by (simp add: validation_checks_def validation_criteria_def)

lemma quality_passed: "all_passed (quality_checks s i) = quality_criteria s i"
  by (simp add: quality_checks_def quality_criteria_def)

lemma infrastructure_passed: "all_passed (infrastructure_checks s i) = infrastructure_criteria s i"
  by (auto simp: infrastructure_checks_def infrastructure_criteria_def all_passed_def)

lemma core_passed: "all_passed (core_checks s i) = all_criteria s i"
  by (simp add: core_checks_def all_criteria_def system_criteria_def track_record_passed validation_passed
      quality_passed infrastructure_passed)

lemma core_blocking: "\<forall>c \<in> set (core_checks s i). gc_blocking c"
  by (auto simp: core_checks_def track_record_checks_def validation_checks_def quality_checks_def
      infrastructure_checks_def)

definition operator_ok :: "live_gate_settings \<Rightarrow> (string \<Rightarrow> bool) \<Rightarrow> string \<Rightarrow> bool" where
  "operator_ok s lookup h \<longleftrightarrow> (lg_require_operator_approval s \<longrightarrow> lookup h)"

lemma gate_hash_of: "gr_report_hash (gate_evaluate sha s lookup now i) = gate_hash sha s (core_checks s i)"
  by (simp add: gate_evaluate_def Let_def)

lemma gate_approved_eq:
  "gr_approved (gate_evaluate sha s lookup now i)
     = (all_criteria s i \<and> operator_ok s lookup (gate_hash sha s (core_checks s i)))"
proof -
  let ?h = "gate_hash sha s (core_checks s i)"
  let ?op = "if lg_require_operator_approval s then [operator_check (lookup ?h)] else []"
  have "filter (\<lambda>c. \<not> gc_passed c \<and> gc_blocking c) (core_checks s i @ ?op) = []
      \<longleftrightarrow> all_passed (core_checks s i @ ?op)"
    using core_blocking [of s i] by (auto simp: all_passed_def filter_empty_conv)
  then show ?thesis
    by (simp add: gate_evaluate_def Let_def core_passed operator_ok_def)
qed

lemma gate_reasons_empty: "gr_approved r' \<longleftrightarrow> gr_reasons r' = []" if "r' = gate_evaluate sha s lookup now i"
  using that by (simp add: gate_evaluate_def Let_def)

lemma approval_codec_inverse: "wf_time (la_granted_at a) \<Longrightarrow> la_from_dict L (la_to_dict a) = Inr a"
  by (cases a) (simp add: la_from_dict_def la_to_dict_def json_lookup)

lemma live_authorized_iff:
  "live_authorized L ms now latest = None \<longleftrightarrow> ms_allow_live ms \<and> is_live (ms_execution ms)
     \<and> ms_environment ms = PRODUCTION
     \<and> (\<exists>r. latest = Some r \<and> gr_approved r \<and> total_seconds (now - gr_evaluated_at r) \<le> ms_max_age_seconds ms)"
  by (auto simp: live_authorized_def Let_def split: option.splits)

lemma mode_resolved_live:
  "mode_resolved L ms now latest = ''live'' \<longleftrightarrow> live_authorized L ms now latest = None"
  by (simp add: mode_resolved_def)

lemma live_never_has_broker: "select_broker ''live'' c = Inl LiveForbidden"
  by (simp add: select_broker_def)

end
