(* ===== verification/Kill_Switch.thy ===== *)
theory Kill_Switch
  imports Audit_Log Risk_Manager
begin

text \<open>
  \<open>production/kill_switch\<close>: the global emergency stop.  The controller keeps who engaged it and why,
  writes that to a small JSON file, flips the switch of the risk manager, and audits every change.
  A restart is a new controller over the old file.
\<close>

section \<open>Triggers and the persisted state\<close>

datatype kill_trigger = KT_MANUAL | KT_AUTOMATIC | KT_SCHEDULED | KT_RISK | KT_DRAWDOWN | KT_ERRORS
  | KT_CONNECTION_LOST | KT_LATENCY | KT_DATA_LOSS | KT_INCONSISTENCY

fun trigger_value :: "kill_trigger \<Rightarrow> string" where
  "trigger_value KT_MANUAL = ''manual''"
| "trigger_value KT_AUTOMATIC = ''automatic''"
| "trigger_value KT_SCHEDULED = ''scheduled''"
| "trigger_value KT_RISK = ''risk''"
| "trigger_value KT_DRAWDOWN = ''drawdown''"
| "trigger_value KT_ERRORS = ''errors''"
| "trigger_value KT_CONNECTION_LOST = ''connection_lost''"
| "trigger_value KT_LATENCY = ''latency''"
| "trigger_value KT_DATA_LOSS = ''data_loss''"
| "trigger_value KT_INCONSISTENCY = ''inconsistency''"

record switch_state =
  ks_active :: bool
  ks_trigger :: string
  ks_reason :: string
  ks_actor :: string
  ks_engaged_at :: "time option"

definition released_state :: switch_state where
  "released_state = \<lparr> ks_active = False, ks_trigger = [], ks_reason = [], ks_actor = [],
     ks_engaged_at = None \<rparr>"

definition ks_to_dict :: "switch_state \<Rightarrow> json_dict" where
  "ks_to_dict s =
     [(''active'', JBool (ks_active s)), (''trigger'', JStr (ks_trigger s)),
      (''reason'', JStr (ks_reason s)), (''actor'', JStr (ks_actor s)),
      (''engaged_at'', (case ks_engaged_at s of None \<Rightarrow> JNull | Some t \<Rightarrow> JStr (iso t)))]"

definition ks_from_dict :: "pylib \<Rightarrow> json_dict \<Rightarrow> py_error + switch_state" where
  "ks_from_dict L d =
     (let raw = jget d ''engaged_at'' JNull in
      ebind (if py_bool raw then ebind (py_fromiso L (py_str L raw)) (\<lambda>t. Inr (Some t)) else Inr None)
        (\<lambda>moment. Inr \<lparr> ks_active = py_bool (jget d ''active'' (JBool False)),
           ks_trigger = py_str L (jget d ''trigger'' (JStr [])),
           ks_reason = py_str L (jget d ''reason'' (JStr [])),
           ks_actor = py_str L (jget d ''actor'' (JStr [])), ks_engaged_at = moment \<rparr>))"

section \<open>The controller\<close>

datatype kill_notice =
    KillSwitchEngaged string string string
  | KillSwitchReleased string string

record kill_controller =
  kc_settings :: kill_switch_settings
  kc_risk :: "risk_manager option"
  kc_has_bus :: bool
  kc_audit :: "audit_log option"
  kc_switch :: switch_state
  kc_file :: json_file
  kc_published :: "kill_notice list"

definition kc_new ::
  "kill_switch_settings \<Rightarrow> risk_manager option \<Rightarrow> bool \<Rightarrow> audit_log option \<Rightarrow> json_file \<Rightarrow> kill_controller" where
  "kc_new cfg risk bus audit file = \<lparr> kc_settings = cfg, kc_risk = risk, kc_has_bus = bus,
     kc_audit = audit, kc_switch = released_state, kc_file = file, kc_published = [] \<rparr>"

text \<open>
  \<open>_load\<close>: \<open>OSError\<close>, \<open>ValueError\<close> and \<open>TypeError\<close> are caught; a file that holds JSON other than an
  object raises \<open>AttributeError\<close>, which is not.
\<close>

definition kc_load :: "pylib \<Rightarrow> sys_io \<Rightarrow> kill_controller \<Rightarrow> py_error + switch_state option" where
  "kc_load L io kc =
     (if \<not> kw_persist_state (kc_settings kc) then Inr None else
      case kc_file kc of
        None \<Rightarrow> Inr None
      | Some text \<Rightarrow>
          if \<not> io_read_ok io then Inr None else
          (case text of
             BadText \<Rightarrow> Inr None
           | JsonText (JObj d) \<Rightarrow>
               (case ks_from_dict L d of
                  Inr s \<Rightarrow> Inr (Some s)
                | Inl ValueError \<Rightarrow> Inr None
                | Inl TypeError \<Rightarrow> Inr None
                | Inl e \<Rightarrow> Inl e)
           | JsonText j \<Rightarrow> Inl AttributeError))"

definition kc_persist :: "sys_io \<Rightarrow> kill_controller \<Rightarrow> kill_controller" where
  "kc_persist io kc =
     (if kw_persist_state (kc_settings kc)
      then kc\<lparr> kc_file := write_json io (JObj (ks_to_dict (kc_switch kc))) \<rparr> else kc)"

definition kc_risk_map :: "(risk_manager \<Rightarrow> risk_manager) \<Rightarrow> kill_controller \<Rightarrow> kill_controller" where
  "kc_risk_map f kc = kc\<lparr> kc_risk := map_option f (kc_risk kc) \<rparr>"

definition kc_publish :: "kill_notice \<Rightarrow> kill_controller \<Rightarrow> kill_controller" where
  "kc_publish e kc = (if kc_has_bus kc then kc\<lparr> kc_published := kc_published kc @ [e] \<rparr> else kc)"

definition kc_record_audit ::
  "sys_io \<Rightarrow> audit_action \<Rightarrow> switch_state \<Rightarrow> bool \<Rightarrow> kill_controller \<Rightarrow> kill_controller" where
  "kc_record_audit io action s restored kc =
     kc\<lparr> kc_audit := map_option (au_record io action
           (if ks_actor s = [] then ''system'' else ks_actor s) (Some ''kill_switch'') JNull
           (JObj (ks_to_dict s)) [(''restored_after_restart'', JBool restored)]) (kc_audit kc) \<rparr>"

definition kc_on_start :: "pylib \<Rightarrow> sys_io \<Rightarrow> kill_controller \<Rightarrow> py_error option \<times> kill_controller" where
  "kc_on_start L io kc =
     (case kc_load L io kc of
        Inl e \<Rightarrow> (Some e, kc)
      | Inr None \<Rightarrow> (None, kc)
      | Inr (Some s) \<Rightarrow>
          if ks_active s
          then (None, kc_record_audit io KILL_SWITCH_ENGAGED s True
                  (kc_risk_map (engage_kill_switch
                      (Lit (if ks_reason s = [] then ''kill switch persistido'' else ks_reason s)))
                    (kc\<lparr> kc_switch := s \<rparr>)))
          else (None, kc))"

definition kc_on_stop :: "sys_io \<Rightarrow> kill_controller \<Rightarrow> kill_controller" where
  "kc_on_stop io kc = kc_persist io kc"

definition kc_engage ::
  "sys_io \<Rightarrow> kill_trigger \<Rightarrow> string \<Rightarrow> string \<Rightarrow> kill_controller \<Rightarrow> kill_controller" where
  "kc_engage io trigger reason actor kc =
     (if ks_active (kc_switch kc) then kc else
      let s = \<lparr> ks_active = True, ks_trigger = trigger_value trigger, ks_reason = reason,
                ks_actor = actor, ks_engaged_at = Some (io_now io) \<rparr>;
          kc1 = kc_persist io (kc_risk_map (engage_kill_switch (Lit reason)) (kc\<lparr> kc_switch := s \<rparr>))
      in kc_publish (KillSwitchEngaged (trigger_value trigger) reason actor)
           (kc_record_audit io KILL_SWITCH_ENGAGED s False kc1))"

definition kc_release ::
  "sys_io \<Rightarrow> string \<Rightarrow> string \<Rightarrow> kill_controller \<Rightarrow> py_error option \<times> kill_controller" where
  "kc_release io actor reason kc =
     (if strip actor = [] then (Some ValueError, kc)
      else if kw_require_reason_to_release (kc_settings kc) \<and> strip reason = [] then (Some ValueError, kc)
      else
        let previous = kc_switch kc;
            kc1 = kc_persist io (kc_risk_map reset_kill_switch (kc\<lparr> kc_switch := released_state \<rparr>));
            kc2 = kc1\<lparr> kc_audit := map_option (au_record io KILL_SWITCH_RELEASED actor
                    (Some ''kill_switch'') (JObj (ks_to_dict previous)) (JObj (ks_to_dict released_state))
                    [(''reason'', JStr reason)]) (kc_audit kc1) \<rparr>
        in (None, kc_publish (KillSwitchReleased actor reason) kc2))"

text \<open>\<open>raw.split(":", 1)\<close> unpacked into two integers; \<open>None\<close> is the \<open>ValueError\<close>.\<close>

definition parse_hhmm :: "string \<Rightarrow> (int \<times> int) option" where
  "parse_hhmm raw =
     (case dropWhile (\<lambda>c. c \<noteq> CHR '':'') raw of
        [] \<Rightarrow> None
      | colon # rest \<Rightarrow>
          Option.bind (int_of_text (takeWhile (\<lambda>c. c \<noteq> CHR '':'') raw)) (\<lambda>h.
          Option.bind (int_of_text rest) (\<lambda>m. Some (h, m))))"

definition kc_check_scheduled :: "sys_io \<Rightarrow> kill_controller \<Rightarrow> bool \<times> kill_controller" where
  "kc_check_scheduled io kc =
     (let raw = strip (kw_scheduled_utc (kc_settings kc)) in
      if raw = [] \<or> ks_active (kc_switch kc) then (False, kc) else
      case parse_hhmm raw of
        None \<Rightarrow> (False, kc)
      | Some (hour, minute) \<Rightarrow>
          if (hour_of (io_now io), minute_of (io_now io)) \<noteq> (hour, minute) then (False, kc)
          else (True, kc_engage io KT_SCHEDULED (''corte programado diario a las '' @ raw @ '' UTC'')
                  ''scheduler'' kc))"

definition kc_status :: "kill_controller \<Rightarrow> json_dict" where
  "kc_status kc =
     [(''enabled'', JBool (kw_enabled (kc_settings kc))),
      (''scheduled_utc'', JStr (kw_scheduled_utc (kc_settings kc)))] @ ks_to_dict (kc_switch kc)"

section \<open>Events of a process, restarts included\<close>

text \<open>
  A restart loses the memory of the process: a new risk manager, an audit log reopened on its file and
  a new controller that starts on the state file.  A start that raises leaves the controller as built.
\<close>

datatype kill_event =
    KE_engage sys_io kill_trigger string string
  | KE_release sys_io string string
  | KE_check sys_io
  | KE_stop sys_io
  | KE_risk risk_event
  | KE_restart sys_io

definition kc_restart :: "pylib \<Rightarrow> sys_io \<Rightarrow> kill_controller \<Rightarrow> kill_controller" where
  "kc_restart L io kc =
     snd (kc_on_start L io (kc_new (kc_settings kc)
       (map_option (\<lambda>rm. rm_init (rm_settings rm) (rm_initial_balance rm)) (kc_risk kc)) (kc_has_bus kc)
       (map_option (\<lambda>au. au_open None (au_has_path au) (au_size au) (au_file au)) (kc_audit kc)) (kc_file kc)))"

fun kc_apply :: "pylib \<Rightarrow> kill_event \<Rightarrow> kill_controller \<Rightarrow> kill_controller" where
  "kc_apply L (KE_engage io trigger reason actor) kc = kc_engage io trigger reason actor kc"
| "kc_apply L (KE_release io actor reason) kc = snd (kc_release io actor reason kc)"
| "kc_apply L (KE_check io) kc = snd (kc_check_scheduled io kc)"
| "kc_apply L (KE_stop io) kc = kc_on_stop io kc"
| "kc_apply L (KE_risk e) kc = kc_risk_map (risk_apply e) kc"
| "kc_apply L (KE_restart io) kc = kc_restart L io kc"

section \<open>Lemmas\<close>

lemma iso_not_empty [simp]: "iso t \<noteq> []"
proof
  assume "iso t = []"
  then have "length (iso t) = 0" by simp
  then show False by (simp add: iso_def Let_def split: prod.splits)
qed

definition wf_switch :: "switch_state \<Rightarrow> bool" where
  "wf_switch s \<longleftrightarrow> (case ks_engaged_at s of None \<Rightarrow> True | Some t \<Rightarrow> wf_time t)"

lemma switch_codec_inverse: "wf_switch s \<Longrightarrow> ks_from_dict L (ks_to_dict s) = Inr s"
  by (cases s) (simp add: ks_from_dict_def ks_to_dict_def json_lookup wf_switch_def py_bool_def Let_def
      split: option.splits)

lemma kc_persist_frame [simp]:
  "kc_settings (kc_persist io kc) = kc_settings kc" "kc_risk (kc_persist io kc) = kc_risk kc"
  "kc_switch (kc_persist io kc) = kc_switch kc" "kc_audit (kc_persist io kc) = kc_audit kc"
  "kc_has_bus (kc_persist io kc) = kc_has_bus kc" "kc_published (kc_persist io kc) = kc_published kc"
  by (simp_all add: kc_persist_def)

lemma kc_risk_map_frame [simp]:
  "kc_settings (kc_risk_map f kc) = kc_settings kc" "kc_risk (kc_risk_map f kc) = map_option f (kc_risk kc)"
  "kc_switch (kc_risk_map f kc) = kc_switch kc" "kc_audit (kc_risk_map f kc) = kc_audit kc"
  "kc_file (kc_risk_map f kc) = kc_file kc" "kc_has_bus (kc_risk_map f kc) = kc_has_bus kc"
  "kc_published (kc_risk_map f kc) = kc_published kc"
  by (simp_all add: kc_risk_map_def)

lemma kc_publish_frame [simp]:
  "kc_settings (kc_publish e kc) = kc_settings kc" "kc_risk (kc_publish e kc) = kc_risk kc"
  "kc_switch (kc_publish e kc) = kc_switch kc" "kc_audit (kc_publish e kc) = kc_audit kc"
  "kc_file (kc_publish e kc) = kc_file kc" "kc_has_bus (kc_publish e kc) = kc_has_bus kc"
  by (simp_all add: kc_publish_def)

lemma kc_record_audit_frame [simp]:
  "kc_settings (kc_record_audit io a s r kc) = kc_settings kc" "kc_risk (kc_record_audit io a s r kc) = kc_risk kc"
  "kc_switch (kc_record_audit io a s r kc) = kc_switch kc" "kc_file (kc_record_audit io a s r kc) = kc_file kc"
  "kc_has_bus (kc_record_audit io a s r kc) = kc_has_bus kc"
  "kc_published (kc_record_audit io a s r kc) = kc_published kc"
  by (simp_all add: kc_record_audit_def)

lemma kc_new_frame [simp]:
  "kc_settings (kc_new cfg risk bus audit file) = cfg" "kc_risk (kc_new cfg risk bus audit file) = risk"
  "kc_file (kc_new cfg risk bus audit file) = file" "kc_switch (kc_new cfg risk bus audit file) = released_state"
  by (simp_all add: kc_new_def)

lemma kc_engage_active [simp]: "ks_active (kc_switch kc) \<Longrightarrow> kc_engage io trigger reason actor kc = kc"
  by (simp add: kc_engage_def)

text \<open>
  The switch is held with origin \<open>s\<close>: in memory, in the risk manager and in the file that the next
  process reads.
\<close>

definition kc_held :: "switch_state \<Rightarrow> kill_controller \<Rightarrow> bool" where
  "kc_held s kc \<longleftrightarrow> kw_persist_state (kc_settings kc) \<and> ks_active s \<and> wf_switch s \<and> kc_switch kc = s
     \<and> kc_file kc = Some (JsonText (JObj (ks_to_dict s)))
     \<and> (\<forall>rm. kc_risk kc = Some rm \<longrightarrow> rm_kill_switch rm)"

text \<open>The events that can end it: a release with an actor, the risk manager's own reset, and files
  that cannot be written on stop or read on start.\<close>

fun kill_lifted :: "kill_event \<Rightarrow> bool" where
  "kill_lifted (KE_release io actor reason) \<longleftrightarrow> strip actor \<noteq> []"
| "kill_lifted (KE_risk e) \<longleftrightarrow> e = ResetKill"
| "kill_lifted (KE_stop io) \<longleftrightarrow> io_write_fail io \<noteq> None"
| "kill_lifted (KE_restart io) \<longleftrightarrow> \<not> io_read_ok io"
| "kill_lifted (KE_engage io trigger reason actor) \<longleftrightarrow> False"
| "kill_lifted (KE_check io) \<longleftrightarrow> False"

lemma held_restart:
  assumes "kc_held s kc" "io_read_ok io" shows "kc_held s (kc_restart L io kc)"
proof -
  let ?kc = "kc_new (kc_settings kc)
       (map_option (\<lambda>rm. rm_init (rm_settings rm) (rm_initial_balance rm)) (kc_risk kc)) (kc_has_bus kc)
       (map_option (\<lambda>au. au_open None (au_has_path au) (au_size au) (au_file au)) (kc_audit kc)) (kc_file kc)"
  have "kc_load L io ?kc = Inr (Some s)"
    using assms by (simp add: kc_load_def kc_held_def switch_codec_inverse)
  then show ?thesis
    using assms(1) unfolding kc_restart_def kc_on_start_def kc_held_def
    by (auto simp: engage_kill_switch_def)
qed

lemma held_step:
  assumes "kc_held s kc" "\<not> kill_lifted e" shows "kc_held s (kc_apply L e kc)"
proof (cases e)
  case (KE_risk ev)
  with assms show ?thesis
    by (auto simp: kc_held_def kill_holds)
next
  case (KE_stop io)
  with assms show ?thesis
    by (simp add: kc_on_stop_def kc_persist_def kc_held_def)
next
  case (KE_restart io)
  with assms show ?thesis by (simp add: held_restart)
qed (use assms in \<open>simp_all add: kc_held_def kc_release_def kc_check_scheduled_def Let_def\<close>)

interpretation switch: latch "kc_apply L" "kc_held s" kill_lifted for L s
  by unfold_locales (rule held_step)

lemma engage_holds:
  assumes "kw_persist_state (kc_settings kc)" "\<not> ks_active (kc_switch kc)" "io_write_fail io = None"
    "wf_time (io_now io)"
  shows "kc_held \<lparr> ks_active = True, ks_trigger = trigger_value trigger, ks_reason = reason,
            ks_actor = actor, ks_engaged_at = Some (io_now io) \<rparr> (kc_engage io trigger reason actor kc)"
  using assms by (auto simp: kc_held_def kc_engage_def Let_def kc_persist_def wf_switch_def engage_kill_switch_def)

text \<open>
  Releasing leaves a trace.  A release without an actor, or without the reason the policy
  asks for, raises and changes nothing; any other release frees the switch and the risk manager,
  and the newest entry of the audit names the actor, the reason and the state that was released.
\<close>

lemma release_is_named_and_audited:
  "(if strip actor = [] \<or> kw_require_reason_to_release (kc_settings kc) \<and> strip reason = []
    then kc_release io actor reason kc = (Some ValueError, kc)
    else fst (kc_release io actor reason kc) = None
       \<and> kc_switch (snd (kc_release io actor reason kc)) = released_state
       \<and> kc_risk (snd (kc_release io actor reason kc)) = map_option reset_kill_switch (kc_risk kc)
       \<and> (case kc_audit kc of None \<Rightarrow> kc_audit (snd (kc_release io actor reason kc)) = None
          | Some au \<Rightarrow> (\<exists>au'. kc_audit (snd (kc_release io actor reason kc)) = Some au' \<and> au_grows au au'
              \<and> (au_size au = 0 \<or> last (au_ring au') = JObj (audit_entry (io_now io) ''kill_switch.released'' actor
                    (Some ''kill_switch'') (JObj (ks_to_dict (kc_switch kc))) (JObj (ks_to_dict released_state))
                    [(''reason'', JStr reason)])))))"
proof (cases "kc_audit kc")
  case None
  then show ?thesis by (simp add: kc_release_def Let_def)
next
  case (Some au)
  have "last (au_ring (au_append ok e au)) = JObj e" if "au_size au \<noteq> 0" for ok e
    using au_append_newest [of au ok e] that by auto
  then show ?thesis using Some by (cases "au_size au = 0") (simp_all add: kc_release_def Let_def au_record_def)
qed

section \<open>Properties\<close>

text \<open>
  Property C14: an engaged kill switch survives.  After an engagement that was written to disk, the
  switch stays engaged with its first origin, and every entry is rejected by it, through any sequence
  of further engagements, scheduled checks, anonymous releases, risk events, stops and restarts, until
  somebody with a name releases it, the risk manager is reset by hand, or the state file can no longer
  be written or read.
\<close>

theorem kill_switch_survives_restart:
  assumes "kw_persist_state (kc_settings kc)" "\<not> ks_active (kc_switch kc)" "io_write_fail io = None"
    "wf_time (io_now io)" "\<forall>e \<in> set es. \<not> kill_lifted e"
  shows "kc_switch (fold (kc_apply L) es (kc_engage io trigger reason actor kc))
      = \<lparr> ks_active = True, ks_trigger = trigger_value trigger, ks_reason = reason, ks_actor = actor,
          ks_engaged_at = Some (io_now io) \<rparr>
    \<and> (\<forall>rm now q. kc_risk (fold (kc_apply L) es (kc_engage io trigger reason actor kc)) = Some rm
        \<longrightarrow> \<not> rc_allowed (fst (evaluate_entry now q rm)) \<and> rc_rule (fst (evaluate_entry now q rm)) = ''kill_switch'')"
  using switch.run_holds [OF engage_holds [OF assms(1-4), of trigger reason actor] assms(5), of L]
  by (auto simp: kc_held_def evaluate_killed)

definition example_controller :: kill_controller where
  "example_controller = kc_new default_kill_switch (Some (rm_init default_risk 10000)) True
     (Some (au_open None True 500 None)) None"

theorem kill_switch_survives_restart_witness:
  "\<forall>L. ks_active (kc_switch (fold (kc_apply L) [KE_stop (fine_io 5), KE_restart (fine_io 6), KE_risk (Equity 9000)]
     (kc_engage (fine_io 1) KT_MANUAL ''corte'' ''ana'' example_controller)))"
proof
  fix L
  have "wf_time 1" by code_simp
  then show "ks_active (kc_switch (fold (kc_apply L) [KE_stop (fine_io 5), KE_restart (fine_io 6), KE_risk (Equity 9000)]
     (kc_engage (fine_io 1) KT_MANUAL ''corte'' ''ana'' example_controller)))"
    using kill_switch_survives_restart [of example_controller "fine_io 1"
        "[KE_stop (fine_io 5), KE_restart (fine_io 6), KE_risk (Equity 9000)]" L KT_MANUAL "''corte''" "''ana''"]
    by (simp add: example_controller_def kc_new_def default_kill_switch_def released_state_def)
qed

text \<open>
  Property C15: the switch fails open on a state file that cannot be read.  A restart at which reading
  the file of an engaged switch raises an error starts released, with a risk manager that no longer
  blocks, and the next stop writes the released state over the engagement.
\<close>

theorem unreadable_file_releases:
  assumes "kc_held s kc" "\<not> io_read_ok io"
  shows "\<not> ks_active (kc_switch (kc_restart L io kc))
    \<and> (\<forall>rm. kc_risk (kc_restart L io kc) = Some rm \<longrightarrow> \<not> rm_kill_switch rm)
    \<and> (\<forall>io'. io_write_fail io' = None \<longrightarrow>
          kc_file (kc_on_stop io' (kc_restart L io kc)) = Some (JsonText (JObj (ks_to_dict released_state))))"
  using assms by (auto simp: kc_restart_def kc_on_start_def kc_load_def kc_held_def kc_on_stop_def
      kc_persist_def released_state_def rm_init_def)

theorem unreadable_file_releases_witness:
  "\<forall>L. \<not> ks_active (kc_switch (kc_restart L ((fine_io 2)\<lparr> io_read_ok := False \<rparr>)
     (kc_engage (fine_io 1) KT_MANUAL ''corte'' ''ana'' example_controller)))"
proof
  fix L
  have "wf_time 1" by code_simp
  then have "kc_held \<lparr> ks_active = True, ks_trigger = trigger_value KT_MANUAL, ks_reason = ''corte'',
      ks_actor = ''ana'', ks_engaged_at = Some 1 \<rparr> (kc_engage (fine_io 1) KT_MANUAL ''corte'' ''ana'' example_controller)"
    using engage_holds [of example_controller "fine_io 1" KT_MANUAL "''corte''" "''ana''"]
    by (simp add: example_controller_def kc_new_def default_kill_switch_def released_state_def)
  from unreadable_file_releases [OF this, of "(fine_io 2)\<lparr> io_read_ok := False \<rparr>" L]
  show "\<not> ks_active (kc_switch (kc_restart L ((fine_io 2)\<lparr> io_read_ok := False \<rparr>)
     (kc_engage (fine_io 1) KT_MANUAL ''corte'' ''ana'' example_controller)))" by simp
qed

end
