(* ===== verification/Safe_Mode.thy ===== *)
theory Safe_Mode
  imports Audit_Log Latch
begin

text \<open>
  \<open>production/safe_mode\<close>: the vital signs, their thresholds in order, and the controller that closes
  new entries on the first breach and reopens them only after a sustained recovery.
\<close>

section \<open>Observations and thresholds\<close>

datatype safe_trigger = SM_API_DOWN | SM_BROKER_UNSTABLE | SM_LATENCY | SM_DRAWDOWN | SM_MEMORY | SM_CPU
  | SM_REPEATED_ERRORS | SM_DRIFT | SM_RISK

fun safe_trigger_value :: "safe_trigger \<Rightarrow> string" where
  "safe_trigger_value SM_API_DOWN = ''api_down''"
| "safe_trigger_value SM_BROKER_UNSTABLE = ''broker_unstable''"
| "safe_trigger_value SM_LATENCY = ''latency''"
| "safe_trigger_value SM_DRAWDOWN = ''drawdown''"
| "safe_trigger_value SM_MEMORY = ''memory''"
| "safe_trigger_value SM_CPU = ''cpu''"
| "safe_trigger_value SM_REPEATED_ERRORS = ''repeated_errors''"
| "safe_trigger_value SM_DRIFT = ''drift''"
| "safe_trigger_value SM_RISK = ''risk''"

record observation =
  ob_api_ok :: "bool option"
  ob_broker_failures :: int
  ob_latency_ms :: "real option"
  ob_drawdown_pct :: "real option"
  ob_memory_pct :: "real option"
  ob_cpu_pct :: "real option"
  ob_recent_errors :: int
  ob_critical_drift :: bool
  ob_risk_breach :: bool

definition unknown_observation :: observation where
  "unknown_observation = \<lparr> ob_api_ok = None, ob_broker_failures = 0, ob_latency_ms = None,
     ob_drawdown_pct = None, ob_memory_pct = None, ob_cpu_pct = None, ob_recent_errors = 0,
     ob_critical_drift = False, ob_risk_breach = False \<rparr>"

definition above :: "real option \<Rightarrow> real \<Rightarrow> bool" where
  "above x lmt \<longleftrightarrow> (case x of None \<Rightarrow> False | Some v \<Rightarrow> v > lmt)"

definition at_or_above :: "real option \<Rightarrow> real \<Rightarrow> bool" where
  "at_or_above x lmt \<longleftrightarrow> (case x of None \<Rightarrow> False | Some v \<Rightarrow> v \<ge> lmt)"

definition sm_first_breach :: "safe_mode_settings \<Rightarrow> observation \<Rightarrow> (safe_trigger \<times> msg) option" where
  "sm_first_breach s ob =
     (if ob_api_ok ob = Some False then Some (SM_API_DOWN, Lit ''la API no responde'')
      else if ob_broker_failures ob \<ge> sm_broker_failure_threshold s \<and> sm_broker_failure_threshold s > 0
      then Some (SM_BROKER_UNSTABLE, Fmt ''{} fallos de broker >= {}''
             [ArgInt (ob_broker_failures ob), ArgInt (sm_broker_failure_threshold s)])
      else if above (ob_latency_ms ob) (sm_max_latency_ms s)
      then Some (SM_LATENCY, Fmt ''latencia {} ms > {} ms''
             [ArgReal (the (ob_latency_ms ob)), ArgReal (sm_max_latency_ms s)])
      else if at_or_above (ob_drawdown_pct ob) (sm_max_drawdown_pct s)
      then Some (SM_DRAWDOWN, Fmt ''drawdown {}% >= {}%''
             [ArgReal (the (ob_drawdown_pct ob)), ArgReal (sm_max_drawdown_pct s)])
      else if at_or_above (ob_memory_pct ob) (sm_max_memory_pct s)
      then Some (SM_MEMORY, Fmt ''memoria {}% >= {}%''
             [ArgReal (the (ob_memory_pct ob)), ArgReal (sm_max_memory_pct s)])
      else if at_or_above (ob_cpu_pct ob) (sm_max_cpu_pct s)
      then Some (SM_CPU, Fmt ''CPU {}% >= {}%'' [ArgReal (the (ob_cpu_pct ob)), ArgReal (sm_max_cpu_pct s)])
      else if ob_recent_errors ob \<ge> sm_error_threshold s \<and> sm_error_threshold s > 0
      then Some (SM_REPEATED_ERRORS, Fmt ''{} errores en {}s >= {}''
             [ArgInt (ob_recent_errors ob), ArgReal (sm_error_window_seconds s), ArgInt (sm_error_threshold s)])
      else if ob_critical_drift ob then Some (SM_DRIFT, Lit ''drift severo detectado por el ML'')
      else if ob_risk_breach ob then Some (SM_RISK, Lit ''el Risk Manager reporta riesgo excesivo'')
      else None)"

section \<open>The controller\<close>

datatype notification_level = NL_INFO | NL_SUCCESS | NL_WARNING | NL_ERROR | NL_CRITICAL

datatype safe_notice = SafeModeEntered string msg | SafeModeExited int

record safe_controller =
  sc_settings :: safe_mode_settings
  sc_has_bus :: bool
  sc_notifies :: bool
  sc_audit :: "audit_log option"
  sc_active :: bool
  sc_trigger :: "safe_trigger option"
  sc_detail :: msg
  sc_healthy_streak :: int
  sc_entered_at :: "time option"
  sc_published :: "safe_notice list"
  sc_notified :: "(string \<times> msg \<times> notification_level) list"

definition sc_new :: "safe_mode_settings \<Rightarrow> bool \<Rightarrow> audit_log option \<Rightarrow> bool \<Rightarrow> safe_controller" where
  "sc_new cfg bus audit notifies = \<lparr> sc_settings = cfg, sc_has_bus = bus, sc_notifies = notifies,
     sc_audit = audit, sc_active = False, sc_trigger = None, sc_detail = Lit [], sc_healthy_streak = 0,
     sc_entered_at = None, sc_published = [], sc_notified = [] \<rparr>"

text \<open>The veto callback: the text of the trigger, \<open>None\<close> spelled as Python prints it.\<close>

definition sc_entry_veto :: "safe_controller \<Rightarrow> (string \<times> msg) option" where
  "sc_entry_veto sc =
     (if \<not> sc_active sc then None
      else Some (''Safe Mode activo ('' @
             (case sc_trigger sc of None \<Rightarrow> ''None'' | Some t \<Rightarrow> safe_trigger_value t) @ ''): '', sc_detail sc))"

definition sc_audit_with :: "(audit_log \<Rightarrow> audit_log) \<Rightarrow> safe_controller \<Rightarrow> safe_controller" where
  "sc_audit_with f sc = sc\<lparr> sc_audit := map_option f (sc_audit sc) \<rparr>"

definition sc_publish :: "safe_notice \<Rightarrow> safe_controller \<Rightarrow> safe_controller" where
  "sc_publish e sc = (if sc_has_bus sc then sc\<lparr> sc_published := sc_published sc @ [e] \<rparr> else sc)"

definition sc_notify :: "string \<Rightarrow> msg \<Rightarrow> notification_level \<Rightarrow> safe_controller \<Rightarrow> safe_controller" where
  "sc_notify title m level sc =
     (if sc_notifies sc then sc\<lparr> sc_notified := sc_notified sc @ [(title, m, level)] \<rparr> else sc)"

definition sc_enter :: "pylib \<Rightarrow> sys_io \<Rightarrow> safe_trigger \<Rightarrow> msg \<Rightarrow> safe_controller \<Rightarrow> safe_controller" where
  "sc_enter L io trigger detail sc =
     sc_notify ''Safe Mode activado'' (Fmt (''{}'' @ [CHR 0x0A, CHR 0x0A] @ ''No se abriran posiciones nuevas hasta que el sistema se recupere de forma sostenida.'')
         [ArgStr (render L detail)]) NL_CRITICAL
      (sc_publish (SafeModeEntered (safe_trigger_value trigger) detail)
        (sc_audit_with (au_record io SAFE_MODE_ENTERED ''system'' (Some ''safe_mode'') JNull
            (JObj [(''trigger'', JStr (safe_trigger_value trigger)), (''detail'', JStr (render L detail))]) [])
          (sc\<lparr> sc_active := True, sc_trigger := Some trigger, sc_detail := detail,
               sc_entered_at := Some (io_now io), sc_healthy_streak := 0 \<rparr>)))"

definition sc_exit :: "sys_io \<Rightarrow> safe_controller \<Rightarrow> safe_controller" where
  "sc_exit io sc =
     (let streak = sc_healthy_streak sc in
      sc_notify ''Safe Mode desactivado'' (Fmt ''El sistema se mantuvo sano {} ciclos consecutivos. Se reanudan las entradas nuevas.''
          [ArgInt streak]) NL_SUCCESS
       (sc_publish (SafeModeExited streak)
         (sc_audit_with (au_record io SAFE_MODE_EXITED ''system'' (Some ''safe_mode'') JNull JNull
             [(''healthy_cycles'', JInt streak)])
           (sc\<lparr> sc_active := False, sc_trigger := None, sc_detail := Lit [], sc_entered_at := None \<rparr>))))"

definition sc_evaluate :: "pylib \<Rightarrow> sys_io \<Rightarrow> observation \<Rightarrow> safe_controller \<Rightarrow> bool \<times> safe_controller" where
  "sc_evaluate L io ob sc =
     (if \<not> sm_enabled (sc_settings sc) then (False, sc) else
      case sm_first_breach (sc_settings sc) ob of
        Some (trigger, detail) \<Rightarrow>
          (let sc1 = sc\<lparr> sc_healthy_streak := 0 \<rparr>
           in (True, if sc_active sc then sc1 else sc_enter L io trigger detail sc1))
      | None \<Rightarrow>
          if sc_active sc
          then
            let sc1 = sc\<lparr> sc_healthy_streak := sc_healthy_streak sc + 1 \<rparr>;
                sc2 = (if sc_healthy_streak sc1 \<ge> max 1 (sm_recovery_cycles (sc_settings sc))
                       then sc_exit io sc1 else sc1)
            in (sc_active sc2, sc2)
          else (False, sc))"

definition sc_status :: "pylib \<Rightarrow> safe_controller \<Rightarrow> json_dict" where
  "sc_status L sc =
     [(''enabled'', JBool (sm_enabled (sc_settings sc))), (''active'', JBool (sc_active sc)),
      (''trigger'', JStr (case sc_trigger sc of None \<Rightarrow> [] | Some t \<Rightarrow> safe_trigger_value t)),
      (''detail'', JStr (render L (sc_detail sc))), (''healthy_streak'', JInt (sc_healthy_streak sc)),
      (''recovery_cycles'', JInt (sm_recovery_cycles (sc_settings sc))),
      (''entered_at'', (case sc_entered_at sc of None \<Rightarrow> JNull | Some t \<Rightarrow> JStr (iso t)))]"

text \<open>\<open>activate_safe_mode\<close> of the production API: a forced observation of a dead API.\<close>

definition activate_safe_mode :: "pylib \<Rightarrow> sys_io \<Rightarrow> safe_controller \<Rightarrow> json_dict \<times> safe_controller" where
  "activate_safe_mode L io sc =
     (let sc1 = snd (sc_evaluate L io (unknown_observation\<lparr> ob_api_ok := Some False \<rparr>) sc)
      in (sc_status L sc1, sc1))"

section \<open>Lemmas\<close>

definition sm_healthy :: "safe_mode_settings \<Rightarrow> observation \<Rightarrow> bool" where
  "sm_healthy s ob \<longleftrightarrow> sm_first_breach s ob = None"

lemma sc_enter_fields [simp]:
  "sc_settings (sc_enter L io t d sc) = sc_settings sc" "sc_active (sc_enter L io t d sc)"
  "sc_trigger (sc_enter L io t d sc) = Some t" "sc_detail (sc_enter L io t d sc) = d"
  "sc_healthy_streak (sc_enter L io t d sc) = 0"
  by (simp_all add: sc_enter_def sc_notify_def sc_publish_def sc_audit_with_def)

lemma sc_exit_fields [simp]:
  "sc_settings (sc_exit io sc) = sc_settings sc" "\<not> sc_active (sc_exit io sc)"
  "sc_trigger (sc_exit io sc) = None" "sc_healthy_streak (sc_exit io sc) = sc_healthy_streak sc"
  by (simp_all add: sc_exit_def sc_notify_def sc_publish_def sc_audit_with_def Let_def)

text \<open>One evaluation, by the verdict on the observation.\<close>

lemma evaluate_breach:
  assumes "sm_enabled (sc_settings sc)" "\<not> sm_healthy (sc_settings sc) ob"
  shows "sc_active (snd (sc_evaluate L io ob sc)) \<and> sc_healthy_streak (snd (sc_evaluate L io ob sc)) = 0
    \<and> sc_settings (snd (sc_evaluate L io ob sc)) = sc_settings sc \<and> fst (sc_evaluate L io ob sc)"
  using assms by (auto simp: sc_evaluate_def sm_healthy_def Let_def)

lemma evaluate_healthy:
  assumes "sm_enabled (sc_settings sc)" "sm_healthy (sc_settings sc) ob"
  shows "sc_active (snd (sc_evaluate L io ob sc))
      = (sc_active sc \<and> sc_healthy_streak sc + 1 < max 1 (sm_recovery_cycles (sc_settings sc)))
    \<and> (sc_active sc \<longrightarrow> sc_healthy_streak (snd (sc_evaluate L io ob sc)) = sc_healthy_streak sc + 1)
    \<and> sc_settings (snd (sc_evaluate L io ob sc)) = sc_settings sc
    \<and> fst (sc_evaluate L io ob sc) = sc_active (snd (sc_evaluate L io ob sc))"
  using assms by (auto simp: sc_evaluate_def sm_healthy_def Let_def)

definition sc_step :: "pylib \<Rightarrow> sys_io \<times> observation \<Rightarrow> safe_controller \<Rightarrow> safe_controller" where
  "sc_step L e sc = snd (sc_evaluate L (fst e) (snd e) sc)"

text \<open>With no healthy observation nothing ends the mode.\<close>

interpretation safe: latch "sc_step L" "\<lambda>sc. sc_settings sc = cfg \<and> sm_enabled cfg \<and> sc_active sc"
    "\<lambda>e. sm_healthy cfg (snd e)" for L cfg
  by unfold_locales (auto simp: sc_step_def evaluate_breach)

section \<open>The mode as a function of the history\<close>

text \<open>
  The specification: some observation breached, and the observations after the last breach are fewer
  than the recovery cycles.
\<close>

definition healthy_tail :: "safe_mode_settings \<Rightarrow> observation list \<Rightarrow> nat" where
  "healthy_tail s obs = length (takeWhile (sm_healthy s) (rev obs))"

definition safe_mode_due :: "safe_mode_settings \<Rightarrow> observation list \<Rightarrow> bool" where
  "safe_mode_due s obs \<longleftrightarrow> (\<exists>ob \<in> set obs. \<not> sm_healthy s ob)
     \<and> int (healthy_tail s obs) < max 1 (sm_recovery_cycles s)"

lemma healthy_tail_snoc [simp]:
  "healthy_tail s (obs @ [ob]) = (if sm_healthy s ob then Suc (healthy_tail s obs) else 0)"
  by (simp add: healthy_tail_def)

lemma run_tracks_history:
  assumes "sc_settings sc = cfg" "sm_enabled cfg" "\<not> sc_active sc"
  shows "sc_settings (fold (sc_step L) es sc) = cfg
    \<and> sc_active (fold (sc_step L) es sc) = safe_mode_due cfg (map snd es)
    \<and> (sc_active (fold (sc_step L) es sc)
        \<longrightarrow> sc_healthy_streak (fold (sc_step L) es sc) = int (healthy_tail cfg (map snd es)))"
proof (induction es rule: rev_induct)
  case Nil
  then show ?case using assms by (simp add: safe_mode_due_def)
next
  case (snoc e es)
  let ?sc = "fold (sc_step L) es sc"
  note IH = snoc
  show ?case
  proof (cases "sm_healthy cfg (snd e)")
    case True
    then have "sm_enabled (sc_settings ?sc)" "sm_healthy (sc_settings ?sc) (snd e)"
      using IH assms by simp_all
    note step = evaluate_healthy [OF this, of L "fst e", folded sc_step_def]
    have "sc_active (sc_step L e ?sc) = (sc_active ?sc \<and> sc_healthy_streak ?sc + 1 < max 1 (sm_recovery_cycles cfg))"
      using step IH by simp
    moreover have "(sc_active ?sc \<and> sc_healthy_streak ?sc + 1 < max 1 (sm_recovery_cycles cfg))
        = safe_mode_due cfg (map snd (es @ [e]))"
    proof (cases "sc_active ?sc")
      case active: True
      then show ?thesis using IH True by (simp add: safe_mode_due_def) linarith
    next
      case False
      then show ?thesis using IH True by (auto simp: safe_mode_due_def)
    qed
    ultimately have active: "sc_active (sc_step L e ?sc) = safe_mode_due cfg (map snd (es @ [e]))" by simp
    have "sc_active ?sc" if "sc_active (sc_step L e ?sc)" using that step by simp
    then have "sc_healthy_streak (sc_step L e ?sc) = int (healthy_tail cfg (map snd (es @ [e])))"
      if "sc_active (sc_step L e ?sc)"
      using that step IH True by simp
    then show ?thesis using active step IH by simp
  next
    case False
    then have "sm_enabled (sc_settings ?sc)" "\<not> sm_healthy (sc_settings ?sc) (snd e)"
      using IH assms by simp_all
    from evaluate_breach [OF this, of L "fst e", folded sc_step_def] IH False show ?thesis
      by (simp add: safe_mode_due_def)
  qed
qed

end
