(* ===== verification/Production_Api.thy ===== *)
theory Production_Api
  imports Live_Gate Kill_Switch Safe_Mode Performance
begin

text \<open>
  \<open>ProductionAPI\<close> (\<open>production/api.py\<close>) over its controllers, and the jobs of the scheduler that drive
  them (\<open>engine/engine.py\<close>).  The controllers share one audit log: an operation of a controller runs
  on the log of the facade and hands it back.
\<close>

section \<open>State and observations\<close>

record prod_settings =
  pc_mode :: mode_settings
  pc_gate :: live_gate_settings
  pc_discord_enabled :: bool
  pc_sha :: report_digest
  pc_lib :: pylib

datatype live_notice = LiveTradingEnabled string string | LiveTradingDisabled string string

record prod_api =
  pa_settings :: prod_settings
  pa_report :: "gate_report option"
  pa_approvals :: approval_store
  pa_kill :: kill_controller
  pa_safe :: safe_controller
  pa_audit :: audit_log
  pa_published :: "live_notice list"

text \<open>
  What a call observes: the journal, the balance and the health check of the broker of the execution
  layer (\<open>None\<close>: execution is disabled), and the status of the last health snapshot.
\<close>

record exec_view =
  ev_trades :: "trade_record list"
  ev_initial_balance :: real
  ev_broker_ok :: bool

record live_view =
  vw_io :: sys_io
  vw_execution :: "exec_view option"
  vw_health :: "string option"

definition track_record_days :: "trade_record list \<Rightarrow> real" where
  "track_record_days ts =
     (if length ts < 2 then 0
      else max 0 (total_seconds (Max (t_exit_time ` set ts) - Min (t_entry_time ` set ts)) / 86400))"

definition collect_gate_inputs :: "live_view \<Rightarrow> prod_api \<Rightarrow> gate_inputs" where
  "collect_gate_inputs vw pa =
     (let ms = pc_mode (pa_settings pa);
          trades = (case vw_execution vw of None \<Rightarrow> [] | Some ev \<Rightarrow> ev_trades ev);
          performance = map_option (\<lambda>ev. compute_report (ev_initial_balance ev) (ev_trades ev)) (vw_execution vw)
      in default_inputs\<lparr> gi_allow_live := ms_allow_live ms, gi_mode_requested := xs_mode (ms_execution ms),
           gi_environment := environment_value (ms_environment ms),
           gi_paper_trades := int (length trades), gi_paper_days := track_record_days trades,
           gi_profit_factor := map_option pr_profit_factor performance,
           gi_sharpe := map_option pr_sharpe performance,
           gi_max_drawdown_pct := map_option pr_max_drawdown_pct performance,
           gi_system_healthy := map_option (\<lambda>status. status = ''healthy'') (vw_health vw),
           gi_broker_connected := map_option ev_broker_ok (vw_execution vw),
           gi_discord_ok := Some (pc_discord_enabled (pa_settings pa)),
           gi_risk_manager_ok := Some (vw_execution vw \<noteq> None),
           gi_kill_switch_active := ks_active (kc_switch (pa_kill pa)),
           gi_safe_mode_active := sc_active (pa_safe pa) \<rparr>)"

section \<open>Operations\<close>

definition pa_evaluate :: "live_view \<Rightarrow> prod_api \<Rightarrow> gate_report \<times> prod_api" where
  "pa_evaluate vw pa =
     (let now = io_now (vw_io vw);
          r = gate_evaluate (pc_sha (pa_settings pa)) (pc_gate (pa_settings pa))
                (ap_is_valid_for now (pa_approvals pa)) now (collect_gate_inputs vw pa)
      in (r, pa\<lparr> pa_report := Some r \<rparr>))"

definition pa_record ::
  "sys_io \<Rightarrow> audit_action \<Rightarrow> string \<Rightarrow> string \<Rightarrow> json \<Rightarrow> json_dict \<Rightarrow> prod_api \<Rightarrow> prod_api" where
  "pa_record io action actor target aft meta pa =
     pa\<lparr> pa_audit := au_record io action actor (Some target) JNull aft meta (pa_audit pa) \<rparr>"

definition evaluate_live_gate :: "live_view \<Rightarrow> prod_api \<Rightarrow> gate_report \<times> prod_api" where
  "evaluate_live_gate vw pa =
     (let (r, pa1) = pa_evaluate vw pa in
      (r, pa_record (vw_io vw) LIVE_GATE_EVALUATED ''system'' ''live_gate''
            (JObj [(''approved'', JBool (gr_approved r)), (''failed'', JInt (int (gr_failed_count r)))])
            [(''report_hash'', JStr (gr_report_hash r))] pa1))"

text \<open>The approval is granted for a report evaluated inside the call; \<open>Inl\<close> is the \<open>ValueError\<close>.\<close>

definition approve_live_trading ::
  "live_view \<Rightarrow> string \<Rightarrow> string \<Rightarrow> prod_api \<Rightarrow> (py_error + gate_report) \<times> prod_api" where
  "approve_live_trading vw actor reason pa =
     (let (r, pa1) = pa_evaluate vw pa in
      case ap_grant (vw_io vw) actor reason (gr_report_hash r) (pa_approvals pa1) of
        Inl e \<Rightarrow> (Inl e, pa1)
      | Inr (a, approvals) \<Rightarrow>
          let pa2 = pa_record (vw_io vw) LIVE_APPROVAL_GRANTED actor ''live_trading'' (JObj (la_to_dict a))
                      [(''reason'', JStr reason)] (pa1\<lparr> pa_approvals := approvals \<rparr>);
              (r2, pa3) = pa_evaluate vw pa2
          in (Inr r2, pa3))"

record enable_result =
  en_enabled :: bool
  en_blocking_reason :: msg
  en_report :: gate_report

definition enable_live_trading :: "live_view \<Rightarrow> string \<Rightarrow> prod_api \<Rightarrow> enable_result \<times> prod_api" where
  "enable_live_trading vw actor pa =
     (let (r, pa1) = pa_evaluate vw pa;
          L = pc_lib (pa_settings pa); ms = pc_mode (pa_settings pa); now = io_now (vw_io vw)
      in if \<not> gr_approved r \<or> mode_resolved L ms now (pa_report pa1) \<noteq> ''live''
         then
           let blocked = blocking_reason L ms now (pa_report pa1);
               reason = msg_or blocked (Lit (str_join ''; '' (map (render L) (take 3 (gr_reasons r)))))
           in (\<lparr> en_enabled = False, en_blocking_reason = reason, en_report = r \<rparr>,
               pa_record (vw_io vw) LIVE_ENABLE_REJECTED actor ''live_trading'' JNull
                 [(''reason'', JStr (render L reason)), (''report_hash'', JStr (gr_report_hash r))] pa1)
         else
           let pa2 = pa_record (vw_io vw) LIVE_ENABLED actor ''live_trading'' JNull
                       [(''report_hash'', JStr (gr_report_hash r))] pa1
           in (\<lparr> en_enabled = True, en_blocking_reason = Lit [], en_report = r \<rparr>,
               pa2\<lparr> pa_published := pa_published pa2 @ [LiveTradingEnabled actor (gr_report_hash r)] \<rparr>))"

definition disable_live_trading :: "live_view \<Rightarrow> string \<Rightarrow> string \<Rightarrow> prod_api \<Rightarrow> json_dict \<times> prod_api" where
  "disable_live_trading vw actor reason pa =
     (let pa1 = pa\<lparr> pa_approvals := ap_revoke (vw_io vw) (pa_approvals pa) \<rparr>;
          pa2 = pa_record (vw_io vw) LIVE_DISABLED actor ''live_trading'' JNull [(''reason'', JStr reason)] pa1;
          pa3 = pa2\<lparr> pa_published := pa_published pa2 @ [LiveTradingDisabled actor reason] \<rparr>
      in (mode_status (pc_lib (pa_settings pa3)) (pc_mode (pa_settings pa3)) (io_now (vw_io vw)) (pa_report pa3), pa3))"

definition pa_with_kill :: "(kill_controller \<Rightarrow> kill_controller) \<Rightarrow> prod_api \<Rightarrow> prod_api" where
  "pa_with_kill f pa =
     (let kc = f ((pa_kill pa)\<lparr> kc_audit := Some (pa_audit pa) \<rparr>)
      in pa\<lparr> pa_kill := kc, pa_audit := (case kc_audit kc of None \<Rightarrow> pa_audit pa | Some au \<Rightarrow> au) \<rparr>)"

definition pa_with_safe :: "(safe_controller \<Rightarrow> safe_controller) \<Rightarrow> prod_api \<Rightarrow> prod_api" where
  "pa_with_safe f pa =
     (let sc = f ((pa_safe pa)\<lparr> sc_audit := Some (pa_audit pa) \<rparr>)
      in pa\<lparr> pa_safe := sc, pa_audit := (case sc_audit sc of None \<Rightarrow> pa_audit pa | Some au \<Rightarrow> au) \<rparr>)"

definition kill_switch_engage ::
  "live_view \<Rightarrow> kill_trigger \<Rightarrow> string \<Rightarrow> string \<Rightarrow> prod_api \<Rightarrow> prod_api" where
  "kill_switch_engage vw trigger actor reason pa = pa_with_kill (kc_engage (vw_io vw) trigger reason actor) pa"

definition kill_switch_release ::
  "live_view \<Rightarrow> string \<Rightarrow> string \<Rightarrow> prod_api \<Rightarrow> py_error option \<times> prod_api" where
  "kill_switch_release vw actor reason pa =
     (fst (kc_release (vw_io vw) actor reason ((pa_kill pa)\<lparr> kc_audit := Some (pa_audit pa) \<rparr>)),
      pa_with_kill (\<lambda>kc. snd (kc_release (vw_io vw) actor reason kc)) pa)"

definition force_safe_mode :: "live_view \<Rightarrow> prod_api \<Rightarrow> prod_api" where
  "force_safe_mode vw pa = pa_with_safe (\<lambda>sc. snd (activate_safe_mode (pc_lib (pa_settings pa)) (vw_io vw) sc)) pa"

text \<open>The vital signs the engine collects: without a health snapshot, only those of the risk manager.\<close>

record health_view =
  hv_cpu_percent :: real
  hv_memory_percent :: real
  hv_event_loop_lag_ms :: real
  hv_recent_errors :: nat

definition observe_vitals :: "health_view option \<Rightarrow> risk_manager option \<Rightarrow> observation" where
  "observe_vitals snapshot risk =
     (let base = unknown_observation\<lparr>
            ob_drawdown_pct := map_option rm_last_drawdown_pct risk,
            ob_risk_breach := (case risk of None \<Rightarrow> False | Some rm \<Rightarrow> rm_circuit_breaker rm) \<rparr>
      in case snapshot of
           None \<Rightarrow> base
         | Some h \<Rightarrow> base\<lparr> ob_cpu_pct := Some (hv_cpu_percent h), ob_memory_pct := Some (hv_memory_percent h),
                            ob_latency_ms := Some (hv_event_loop_lag_ms h),
                            ob_recent_errors := int (hv_recent_errors h) \<rparr>)"

section \<open>Everything that can happen to the facade\<close>

inductive prod_step :: "prod_api \<Rightarrow> prod_api \<Rightarrow> bool" where
  evaluation: "prod_step pa (snd (evaluate_live_gate vw pa))"
| scheduled_evaluation: "prod_step pa (snd (pa_evaluate vw pa))"
| approval: "prod_step pa (snd (approve_live_trading vw actor reason pa))"
| enabling: "prod_step pa (snd (enable_live_trading vw actor pa))"
| disabling: "prod_step pa (snd (disable_live_trading vw actor reason pa))"
| engaging: "prod_step pa (kill_switch_engage vw trigger actor reason pa)"
| releasing: "prod_step pa (snd (kill_switch_release vw actor reason pa))"
| scheduled_cut: "prod_step pa (pa_with_kill (\<lambda>kc. snd (kc_check_scheduled io kc)) pa)"
| forcing: "prod_step pa (force_safe_mode vw pa)"
| watching: "prod_step pa (pa_with_safe (\<lambda>sc. snd (sc_evaluate L io (observe_vitals h (kc_risk (pa_kill pa))) sc)) pa)"
| risk_activity: "prod_step pa (pa_with_kill (kc_risk_map (risk_apply e)) pa)"

inductive prod_reach :: "prod_settings \<Rightarrow> prod_api \<Rightarrow> bool" for cfg where
  boot: "pa_settings pa = cfg \<Longrightarrow> pa_report pa = None \<Longrightarrow> pa_published pa = [] \<Longrightarrow> prod_reach cfg pa"
| move: "prod_reach cfg pa \<Longrightarrow> prod_step pa pa' \<Longrightarrow> prod_reach cfg pa'"

inductive_cases prod_stepE: "prod_step pa pa'"

section \<open>Lemmas\<close>

lemma pa_record_frame [simp]:
  "pa_settings (pa_record io a ac t af m pa) = pa_settings pa" "pa_report (pa_record io a ac t af m pa) = pa_report pa"
  "pa_published (pa_record io a ac t af m pa) = pa_published pa" "pa_approvals (pa_record io a ac t af m pa) = pa_approvals pa"
  "pa_kill (pa_record io a ac t af m pa) = pa_kill pa" "pa_safe (pa_record io a ac t af m pa) = pa_safe pa"
  by (simp_all add: pa_record_def)

lemma pa_with_frame [simp]:
  "pa_settings (pa_with_kill f pa) = pa_settings pa" "pa_report (pa_with_kill f pa) = pa_report pa"
  "pa_published (pa_with_kill f pa) = pa_published pa"
  "pa_settings (pa_with_safe g pa) = pa_settings pa" "pa_report (pa_with_safe g pa) = pa_report pa"
  "pa_published (pa_with_safe g pa) = pa_published pa"
  by (simp_all add: pa_with_kill_def pa_with_safe_def Let_def)

text \<open>The facade never observes the test coverage, and the gate counts the unknown as a failure.\<close>

lemma collected_never_pass: "\<not> all_criteria s (collect_gate_inputs vw pa)"
  by (simp add: all_criteria_def quality_criteria_def known_at_least_def collect_gate_inputs_def
      default_inputs_def Let_def)

lemma pa_evaluate_rejects: "\<not> gr_approved (fst (pa_evaluate vw pa))"
  by (simp add: pa_evaluate_def Let_def gate_approved_eq collected_never_pass)

lemma pa_evaluate_state:
  "snd (pa_evaluate vw pa) = pa\<lparr> pa_report := Some (fst (pa_evaluate vw pa)) \<rparr>"
  by (simp add: pa_evaluate_def Let_def)

definition never_approved :: "prod_api \<Rightarrow> bool" where
  "never_approved pa \<longleftrightarrow> (\<forall>r. pa_report pa = Some r \<longrightarrow> \<not> gr_approved r)
     \<and> (\<forall>n \<in> set (pa_published pa). \<exists>actor reason. n = LiveTradingDisabled actor reason)"

lemma never_approved_evaluate [simp]: "never_approved pa \<Longrightarrow> never_approved (snd (pa_evaluate vw pa))"
  by (simp add: never_approved_def pa_evaluate_state pa_evaluate_rejects)

lemma never_approved_cong:
  "pa_report pa' = pa_report pa \<Longrightarrow> pa_published pa' = pa_published pa \<Longrightarrow> never_approved pa' = never_approved pa"
  by (simp add: never_approved_def)

lemma enable_rejected:
  "\<not> en_enabled (fst (enable_live_trading vw actor pa))
   \<and> pa_report (snd (enable_live_trading vw actor pa)) = pa_report (snd (pa_evaluate vw pa))
   \<and> pa_published (snd (enable_live_trading vw actor pa)) = pa_published (snd (pa_evaluate vw pa))"
  using pa_evaluate_rejects [of vw pa]
  by (cases "pa_evaluate vw pa") (simp add: enable_live_trading_def Let_def)

lemma never_approved_approve:
  assumes "never_approved pa" shows "never_approved (snd (approve_live_trading vw actor reason pa))"
proof -
  obtain r pa1 where e: "pa_evaluate vw pa = (r, pa1)" by fastforce
  with never_approved_evaluate [OF assms, of vw] have pa1: "never_approved pa1" by simp
  show ?thesis
  proof (cases "ap_grant (vw_io vw) actor reason (gr_report_hash r) (pa_approvals pa1)")
    case (Inl x)
    then show ?thesis using pa1 by (simp add: approve_live_trading_def e)
  next
    case (Inr p)
    obtain a ap where p: "p = (a, ap)" by fastforce
    let ?pa2 = "pa_record (vw_io vw) LIVE_APPROVAL_GRANTED actor ''live_trading'' (JObj (la_to_dict a))
                      [(''reason'', JStr reason)] (pa1\<lparr> pa_approvals := ap \<rparr>)"
    have "never_approved ?pa2" using pa1 by (simp add: never_approved_def)
    from never_approved_evaluate [OF this, of vw] show ?thesis
      by (cases "pa_evaluate vw ?pa2") (simp add: approve_live_trading_def e Inr p)
  qed
qed

lemma never_approved_step: "prod_step pa pa' \<Longrightarrow> never_approved pa \<Longrightarrow> never_approved pa'"
proof (induction rule: prod_step.induct)
  case (evaluation pa vw)
  have "never_approved (snd (evaluate_live_gate vw pa)) = never_approved (snd (pa_evaluate vw pa))"
    by (rule never_approved_cong) (simp_all add: evaluate_live_gate_def split: prod.splits)
  then show ?case using evaluation by simp
next
  case (enabling pa vw actor)
  have "never_approved (snd (enable_live_trading vw actor pa)) = never_approved (snd (pa_evaluate vw pa))"
    by (rule never_approved_cong) (simp_all add: enable_rejected)
  then show ?case using enabling by simp
next
  case (disabling pa vw actor reason)
  then show ?case by (auto simp: disable_live_trading_def Let_def never_approved_def)
qed (simp_all add: never_approved_approve, simp_all add: never_approved_def kill_switch_engage_def
      kill_switch_release_def force_safe_mode_def)

lemma reach_settings: "prod_reach cfg pa \<Longrightarrow> pa_settings pa = cfg"
proof (induction rule: prod_reach.induct)
  case (move pa pa')
  from move(2) move.IH show ?case
    by (induction rule: prod_step.induct)
       (simp_all add: evaluate_live_gate_def pa_evaluate_def approve_live_trading_def enable_live_trading_def
        disable_live_trading_def kill_switch_engage_def kill_switch_release_def force_safe_mode_def Let_def
        split: prod.splits sum.splits)
qed

lemma reach_never_approved: "prod_reach cfg pa \<Longrightarrow> never_approved pa"
proof (induction rule: prod_reach.induct)
  case (boot pa)
  then show ?case by (simp add: never_approved_def)
next
  case (move pa pa')
  then show ?case using never_approved_step by blast
qed

section \<open>Properties\<close>

text \<open>
  Property C17: the facade can never switch live trading on.  In every state its operations, its
  scheduled jobs and the risk manager can reach, whatever is configured, approved and observed, the
  effective mode is paper, enabling is refused, and no event has announced live trading: the facade
  never reports the test coverage, so the gate never approves.
\<close>

theorem live_is_unreachable:
  assumes "prod_reach cfg pa"
  shows "mode_resolved L (pc_mode cfg) now (pa_report pa) = ''paper''
    \<and> \<not> en_enabled (fst (enable_live_trading vw actor pa))
    \<and> (\<forall>a h. LiveTradingEnabled a h \<notin> set (pa_published pa))"
proof -
  have never: "never_approved pa" using assms by (rule reach_never_approved)
  then have "live_authorized L (pc_mode cfg) now (pa_report pa) \<noteq> None"
    unfolding live_authorized_iff never_approved_def by blast
  then show ?thesis
    using never enable_rejected [of vw actor pa] by (fastforce simp: mode_resolved_def never_approved_def)
qed

definition example_api :: "live_gate_settings \<Rightarrow> pylib \<Rightarrow> prod_api" where
  "example_api gate L = \<lparr> pa_settings = \<lparr> pc_mode = \<lparr> ms_allow_live = True,
         ms_execution = default_execution\<lparr> xs_mode := ''live'' \<rparr>, ms_environment = PRODUCTION,
         ms_max_age_seconds = 300 \<rparr>, pc_gate = gate, pc_discord_enabled = True, pc_sha = (\<lambda>x. ''h''), pc_lib = L \<rparr>,
     pa_report = None,
     pa_approvals = \<lparr> ap_has_path = True, ap_ttl_hours = 24, ap_approval = None, ap_file = None \<rparr>,
     pa_kill = example_controller, pa_safe = sc_new default_safe_mode True None True,
     pa_audit = au_open None True 500 None, pa_published = [] \<rparr>"

definition example_live_view :: "time \<Rightarrow> live_view" where
  "example_live_view t = \<lparr> vw_io = fine_io t, vw_execution = Some \<lparr> ev_trades = [], ev_initial_balance = 10000,
     ev_broker_ok = True \<rparr>, vw_health = Some ''healthy'' \<rparr>"

theorem live_is_unreachable_witness:
  "\<forall>L. \<not> en_enabled (fst (enable_live_trading (example_live_view 9) ''ana''
     (snd (approve_live_trading (example_live_view 5) ''ana'' ''listo'' (example_api default_live_gate L)))))"
proof
  fix L
  have "prod_reach (pa_settings (example_api default_live_gate L)) (example_api default_live_gate L)"
    by (rule prod_reach.boot) (simp_all add: example_api_def)
  then have "prod_reach (pa_settings (example_api default_live_gate L))
      (snd (approve_live_trading (example_live_view 5) ''ana'' ''listo'' (example_api default_live_gate L)))"
    using prod_step.approval by (rule prod_reach.move)
  from live_is_unreachable [OF this] show "\<not> en_enabled (fst (enable_live_trading (example_live_view 9) ''ana''
     (snd (approve_live_trading (example_live_view 5) ''ana'' ''listo'' (example_api default_live_gate L)))))"
    by blast
qed

text \<open>
  The gate reads the kill switch from the controller alone: whatever trips the switch of the risk
  manager by itself (the drawdown limit does) is not among its criteria.
\<close>

lemma risk_kill_unseen:
  "gi_kill_switch_active (collect_gate_inputs vw (pa_with_kill (kc_risk_map f) pa))
     = gi_kill_switch_active (collect_gate_inputs vw pa)"
  by (simp add: collect_gate_inputs_def pa_with_kill_def kc_risk_map_def Let_def)

end
