(* ===== verification/Live_Chain.thy ===== *)
theory Live_Chain
  imports Live_Gate
begin

text \<open>
  The chain that authorises live trading, as a step relation over the last report of the gate, the
  approval store and the settings in force: evaluations with arbitrary observations, approvals,
  revocations, and restarts that reload the store and may change the settings.  A failed write leaves
  the old file or a truncated one.
\<close>

section \<open>Runs\<close>

datatype live_event =
    LE_evaluate time gate_inputs
  | LE_approve live_gate_settings sys_io string string gate_inputs
  | LE_revoke sys_io
  | LE_restart sys_io

record live_state =
  lv_settings :: live_gate_settings
  lv_report :: "gate_report option"
  lv_store :: approval_store

definition torn_write :: "sys_io \<Rightarrow> json_file \<Rightarrow> bool" where
  "torn_write io old \<longleftrightarrow> io_write_fail io \<in> {None, Some old, Some (Some BadText)}"

inductive live_run :: "report_digest \<Rightarrow> pylib \<Rightarrow> live_gate_settings set \<Rightarrow> live_event list \<Rightarrow> live_state \<Rightarrow> bool"
  for sha L S where
  start: "s \<in> S \<Longrightarrow> ap_has_path ap = p \<Longrightarrow> ap_ttl_hours ap = lg_approval_ttl_hours s \<Longrightarrow> ap_approval ap = None \<Longrightarrow> ap_file ap = None
      \<Longrightarrow> live_run sha L S [] \<lparr> lv_settings = s, lv_report = None, lv_store = ap \<rparr>"
| evaluate: "live_run sha L S es \<lparr> lv_settings = s, lv_report = rep, lv_store = ap \<rparr>
      \<Longrightarrow> live_run sha L S (es @ [LE_evaluate now i]) \<lparr> lv_settings = s,
            lv_report = Some (gate_evaluate sha s (ap_is_valid_for now ap) now i), lv_store = ap \<rparr>"
| approve: "live_run sha L S es \<lparr> lv_settings = s, lv_report = rep, lv_store = ap \<rparr>
      \<Longrightarrow> wf_time (io_now io) \<Longrightarrow> torn_write io (ap_file ap)
      \<Longrightarrow> ap_grant io actor reason
            (gr_report_hash (gate_evaluate sha s (ap_is_valid_for (io_now io) ap) (io_now io) i)) ap = Inr (a, ap')
      \<Longrightarrow> live_run sha L S (es @ [LE_approve s io actor reason i]) \<lparr> lv_settings = s,
            lv_report = Some (gate_evaluate sha s (ap_is_valid_for (io_now io) ap') (io_now io) i), lv_store = ap' \<rparr>"
| approve_refused: "live_run sha L S es \<lparr> lv_settings = s, lv_report = rep, lv_store = ap \<rparr>
      \<Longrightarrow> ap_grant io actor reason
            (gr_report_hash (gate_evaluate sha s (ap_is_valid_for (io_now io) ap) (io_now io) i)) ap = Inl e
      \<Longrightarrow> live_run sha L S (es @ [LE_evaluate (io_now io) i]) \<lparr> lv_settings = s,
            lv_report = Some (gate_evaluate sha s (ap_is_valid_for (io_now io) ap) (io_now io) i), lv_store = ap \<rparr>"
| revoke: "live_run sha L S es \<lparr> lv_settings = s, lv_report = rep, lv_store = ap \<rparr>
      \<Longrightarrow> live_run sha L S (es @ [LE_revoke io])
            \<lparr> lv_settings = s, lv_report = rep, lv_store = ap_revoke io ap \<rparr>"
| restart: "live_run sha L S es \<lparr> lv_settings = s, lv_report = rep, lv_store = ap \<rparr> \<Longrightarrow> s' \<in> S
      \<Longrightarrow> ap_open L io (ap_has_path ap) (lg_approval_ttl_hours s') (ap_file ap) = Inr ap'
      \<Longrightarrow> live_run sha L S (es @ [LE_restart io])
            \<lparr> lv_settings = s', lv_report = None, lv_store = ap' \<rparr>"

inductive_cases live_run_emptyE: "live_run sha L S [] st"

definition collision_free :: "report_digest \<Rightarrow> live_gate_settings set \<Rightarrow> bool" where
  "collision_free sha S \<longleftrightarrow> inj_on sha (S \<times> UNIV)"

definition outcomes :: "live_gate_settings \<Rightarrow> gate_inputs \<Rightarrow> (string \<times> bool) list" where
  "outcomes s i = map (\<lambda>c. (gc_name c, gc_passed c)) (core_checks s i)"

section \<open>The invariant\<close>

text \<open>An approval that some operator gave by name, for the outcomes of a report.\<close>

definition approved_in :: "report_digest \<Rightarrow> live_gate_settings set \<Rightarrow> live_event list \<Rightarrow> live_approval \<Rightarrow> bool" where
  "approved_in sha S es a \<longleftrightarrow> wf_time (la_granted_at a)
     \<and> (\<exists>s io actor reason i. LE_approve s io actor reason i \<in> set es \<and> s \<in> S \<and> strip actor \<noteq> []
          \<and> la_report_hash a = sha (s, outcomes s i) \<and> la_granted_at a = io_now io
          \<and> la_ttl_hours a = lg_approval_ttl_hours s)"

lemma approved_in_mono: "approved_in sha S es a \<Longrightarrow> approved_in sha S (es @ es') a"
  unfolding approved_in_def by fastforce

definition store_justified :: "report_digest \<Rightarrow> live_gate_settings set \<Rightarrow> live_event list \<Rightarrow> live_gate_settings \<Rightarrow> approval_store \<Rightarrow> bool" where
  "store_justified sha S es s ap \<longleftrightarrow> ap_ttl_hours ap = lg_approval_ttl_hours s
     \<and> (\<forall>a. ap_approval ap = Some a \<longrightarrow> approved_in sha S es a)
     \<and> (ap_file ap = None \<or> ap_file ap = Some BadText
        \<or> (\<exists>a. ap_file ap = Some (JsonText (JObj (la_to_dict a))) \<and> approved_in sha S es a))"

text \<open>The observations a report was evaluated from.\<close>

definition evaluated_from :: "live_event list \<Rightarrow> live_gate_settings \<Rightarrow> time \<Rightarrow> gate_inputs \<Rightarrow> bool" where
  "evaluated_from es s now i \<longleftrightarrow> LE_evaluate now i \<in> set es \<or> (\<exists>io actor reason. LE_approve s io actor reason i \<in> set es \<and> io_now io = now)"

definition report_justified ::
  "report_digest \<Rightarrow> live_gate_settings set \<Rightarrow> live_event list \<Rightarrow> live_gate_settings \<Rightarrow> gate_report option \<Rightarrow> bool" where
  "report_justified sha S es s latest \<longleftrightarrow>
     (\<forall>r. latest = Some r \<longrightarrow>
        (\<exists>lookup i. r = gate_evaluate sha s lookup (gr_evaluated_at r) i \<and> evaluated_from es s (gr_evaluated_at r) i
          \<and> (gr_approved r \<longrightarrow> all_criteria s i \<and> (lg_require_operator_approval s \<longrightarrow>
           (\<exists>a. approved_in sha S es a \<and> la_is_valid_for (sha (s, outcomes s i)) (gr_evaluated_at r) a)))))"

lemma evaluated_at [simp]: "gr_evaluated_at (gate_evaluate sha s lookup now i) = now"
  by (simp add: gate_evaluate_def Let_def)

lemma hash_outcomes: "gate_hash sha s (core_checks s i) = sha (s, outcomes s i)"
  by (simp add: gate_hash_def outcomes_def)

lemma evaluation_justified:
  assumes "store_justified sha S es s ap"
    and "evaluated_from es s now i"
  shows "report_justified sha S es s (Some (gate_evaluate sha s (ap_is_valid_for now ap) now i))"
proof -
  have "all_criteria s i \<and> (lg_require_operator_approval s \<longrightarrow>
      (\<exists>a. approved_in sha S es a \<and> la_is_valid_for (sha (s, outcomes s i)) now a))"
    if "gr_approved (gate_evaluate sha s (ap_is_valid_for now ap) now i)"
    using that assms(1)
    by (auto simp: gate_approved_eq operator_ok_def hash_outcomes ap_is_valid_for_def store_justified_def
        split: option.splits)
  then show ?thesis using assms(2) unfolding report_justified_def by auto
qed

lemma report_justified_mono:
  "report_justified sha S es s r \<Longrightarrow> report_justified sha S (es @ es') s r"
  unfolding report_justified_def evaluated_from_def set_append using approved_in_mono by blast

lemma store_justified_mono: "store_justified sha S es s ap \<Longrightarrow> store_justified sha S (es @ es') s ap"
  unfolding store_justified_def using approved_in_mono by blast

lemma grant_justified:
  assumes "store_justified sha S es s ap" "s \<in> S" "wf_time (io_now io)" "torn_write io (ap_file ap)"
    and "ap_grant io actor reason (sha (s, outcomes s i)) ap = Inr (a, ap')"
  shows "store_justified sha S (es @ [LE_approve s io actor reason i]) s ap'"
proof -
  let ?es = "es @ [LE_approve s io actor reason i]"
  have grant: "strip actor \<noteq> []" "la_report_hash a = sha (s, outcomes s i)" "la_granted_at a = io_now io"
      "la_ttl_hours a = ap_ttl_hours ap" "ap' = ap_persist io (ap\<lparr> ap_approval := Some a \<rparr>)"
    using assms(5) by (auto simp: ap_grant_def Let_def split: if_splits)
  then have a: "approved_in sha S ?es a"
    using assms unfolding approved_in_def store_justified_def by fastforce
  show ?thesis
    using store_justified_mono [OF assms(1), of "[LE_approve s io actor reason i]"] a assms(4)
    by (auto simp: store_justified_def grant(5) ap_persist_def write_json_def torn_write_def)
qed

lemma revoke_justified:
  "store_justified sha S es s ap \<Longrightarrow> store_justified sha S es s (ap_revoke io ap)"
  by (auto simp: store_justified_def ap_revoke_def ap_persist_def split: option.splits)

lemma open_justified:
  assumes "store_justified sha S es s ap" "ap_open L io p (lg_approval_ttl_hours s') (ap_file ap) = Inr ap'"
  shows "store_justified sha S es s' ap'"
proof -
  have "la_from_dict L (la_to_dict a) = Inr a" if "approved_in sha S es a" for a
    using that approval_codec_inverse by (simp add: approved_in_def)
  then show ?thesis
    using assms by (auto simp: store_justified_def ap_open_def Let_def split: if_splits)
qed

lemma live_run_justified:
  "live_run sha L S es st \<Longrightarrow> lv_settings st \<in> S \<and> store_justified sha S es (lv_settings st) (lv_store st)
     \<and> report_justified sha S es (lv_settings st) (lv_report st)"
proof (induction rule: live_run.induct)
  case (start s ap p)
  then show ?case by (simp add: store_justified_def report_justified_def)
next
  case (evaluate es s rep ap now i)
  then show ?case by (simp add: evaluation_justified evaluated_from_def store_justified_mono)
next
  case (approve es s rep ap io actor reason i a ap')
  then have "store_justified sha S (es @ [LE_approve s io actor reason i]) s ap'"
    using grant_justified [of sha S es s ap io actor reason i a ap']
    by (simp add: gate_hash_of hash_outcomes)
  moreover have "evaluated_from (es @ [LE_approve s io actor reason i]) s (io_now io) i"
    unfolding evaluated_from_def by (intro disjI2 exI [of _ io] exI [of _ actor] exI [of _ reason]) simp
  ultimately show ?case using approve by (simp add: evaluation_justified)
next
  case (approve_refused es s rep ap io actor reason i e)
  then show ?case by (simp add: evaluation_justified evaluated_from_def store_justified_mono)
next
  case (revoke es s rep ap io)
  then show ?case by (simp add: revoke_justified store_justified_mono report_justified_mono)
next
  case (restart es s rep ap s' io ap')
  then have "store_justified sha S es s' ap'" using open_justified by simp blast
  then show ?case using restart by (simp add: report_justified_def store_justified_mono)
qed

section \<open>Properties\<close>

text \<open>
  Property C16: live mode needs the whole chain.  Whatever sequence of evaluations, approvals,
  revocations, restarts and setting changes happened, the resolved mode is live only with the master
  key, the requested mode and the environment set, on an approved report of the gate that is not too old and was evaluated
  in this history from observations that meet every criterion of the settings in force; and when the operator's
  approval is required, somebody with a name gave it, not expired at the evaluation, for a report with exactly the same criteria
  and outcomes.  The digest of a report is assumed to have no collisions.
\<close>

theorem live_needs_whole_chain:
  assumes "live_run sha L S es st" "collision_free sha S"
    and "mode_resolved L ms now (lv_report st) = ''live''"
  shows "ms_allow_live ms \<and> is_live (ms_execution ms) \<and> ms_environment ms = PRODUCTION
    \<and> (\<exists>r lookup i. lv_report st = Some r \<and> gr_approved r
        \<and> r = gate_evaluate sha (lv_settings st) lookup (gr_evaluated_at r) i
        \<and> evaluated_from es (lv_settings st) (gr_evaluated_at r) i
        \<and> all_criteria (lv_settings st) i
        \<and> total_seconds (now - gr_evaluated_at r) \<le> ms_max_age_seconds ms
        \<and> (lg_require_operator_approval (lv_settings st) \<longrightarrow>
            (\<exists>io actor reason i'. LE_approve (lv_settings st) io actor reason i' \<in> set es \<and> strip actor \<noteq> []
               \<and> outcomes (lv_settings st) i' = outcomes (lv_settings st) i
               \<and> gr_evaluated_at r < io_now io + timedelta_hours (lg_approval_ttl_hours (lv_settings st)))))"
proof -
  let ?s = "lv_settings st"
  note J = live_run_justified [OF assms(1)]
  from assms(3) obtain r where r: "lv_report st = Some r" "gr_approved r" "ms_allow_live ms"
      "is_live (ms_execution ms)" "ms_environment ms = PRODUCTION"
      "total_seconds (now - gr_evaluated_at r) \<le> ms_max_age_seconds ms"
    unfolding mode_resolved_live live_authorized_iff by blast
  then obtain lookup i where i: "all_criteria ?s i" "lg_require_operator_approval ?s \<longrightarrow>
      (\<exists>a. approved_in sha S es a \<and> la_is_valid_for (sha (?s, outcomes ?s i)) (gr_evaluated_at r) a)"
      "r = gate_evaluate sha ?s lookup (gr_evaluated_at r) i" "evaluated_from es ?s (gr_evaluated_at r) i"
    using J unfolding report_justified_def by blast
  have "\<exists>io actor reason i'. LE_approve ?s io actor reason i' \<in> set es \<and> strip actor \<noteq> []
      \<and> outcomes ?s i' = outcomes ?s i \<and> gr_evaluated_at r < io_now io + timedelta_hours (lg_approval_ttl_hours ?s)"
    if required: "lg_require_operator_approval ?s"
  proof -
    obtain a where a': "approved_in sha S es a"
        "la_is_valid_for (sha (?s, outcomes ?s i)) (gr_evaluated_at r) a"
      using required i(2) by blast
    from a'(1) obtain s' io actor reason i' where a: "LE_approve s' io actor reason i' \<in> set es" "s' \<in> S"
        "strip actor \<noteq> []" "la_report_hash a = sha (s', outcomes s' i')" "la_granted_at a = io_now io"
        "la_ttl_hours a = lg_approval_ttl_hours s'"
      unfolding approved_in_def by blast
    then have "sha (s', outcomes s' i') = sha (?s, outcomes ?s i)"
      using a'(2) by (simp add: la_is_valid_for_def)
    then have "s' = ?s" "outcomes s' i' = outcomes ?s i"
      using assms(2) a(2) J unfolding collision_free_def inj_on_def by auto
    then show ?thesis using a a'(2) by (auto simp: la_is_valid_for_def la_expires_at_def)
  qed
  then show ?thesis using r i by blast
qed

text \<open>A digest without collisions on one set of criteria: the outcomes written out.\<close>

definition spell :: "string \<times> bool \<Rightarrow> string" where
  "spell x = concat (map (\<lambda>c. [CHR ''c'', c]) (fst x)) @ [if snd x then CHR ''T'' else CHR ''F'']"

definition plain_digest :: report_digest where
  "plain_digest p = CHR ''h'' # concat (map spell (snd p))"

lemma spell_prefix: "spell x @ u = spell y @ v \<Longrightarrow> x = y \<and> u = v"
proof (cases x; cases y)
  fix a b a' b' assume "spell x @ u = spell y @ v" "x = (a, b)" "y = (a', b')"
  then show "x = y \<and> u = v"
  proof (induction a arbitrary: a' x y)
    case Nil
    then show ?case by (cases a') (auto simp: spell_def split: if_splits)
  next
    case (Cons c a)
    then show ?case by (cases a') (auto simp: spell_def split: if_splits)
  qed
qed

lemma concat_spell_inj: "concat (map spell xs) = concat (map spell ys) \<Longrightarrow> xs = ys"
proof (induction xs arbitrary: ys)
  case Nil
  then show ?case by (cases ys) (auto simp: spell_def)
next
  case (Cons x xs)
  show ?case
  proof (cases ys)
    case Nil
    then show ?thesis using Cons.prems by (simp add: spell_def)
  next
    case (Cons y zs)
    then show ?thesis using Cons.prems spell_prefix [of x "concat (map spell xs)" y] Cons.IH by auto
  qed
qed

lemma plain_digest_free [simp]: "collision_free plain_digest {s}"
  by (auto simp: collision_free_def inj_on_def plain_digest_def dest: concat_spell_inj)

definition good_inputs :: gate_inputs where
  "good_inputs = default_inputs\<lparr> gi_allow_live := True, gi_mode_requested := ''live'',
     gi_environment := ''production'', gi_paper_trades := 300, gi_paper_days := 45,
     gi_profit_factor := Some 2, gi_sharpe := Some 2, gi_max_drawdown_pct := Some 5,
     gi_qualification_approved := Some True, gi_walk_forward_approved := Some True,
     gi_monte_carlo_approved := Some True, gi_ml_stable := Some True, gi_critical_drift := Some False,
     gi_test_coverage_pct := Some 90, gi_system_healthy := Some True, gi_broker_connected := Some True,
     gi_discord_ok := Some True, gi_database_ok := Some True, gi_redis_ok := Some True,
     gi_watchdog_ok := Some True, gi_scheduler_ok := Some True, gi_risk_manager_ok := Some True \<rparr>"

lemma good_inputs_pass: "all_criteria default_live_gate good_inputs"
  by (simp add: all_criteria_def system_criteria_def record_criteria_def validation_criteria_def
      quality_criteria_def infrastructure_criteria_def wanted_infrastructure_def known_at_least_def
      known_at_most_def default_live_gate_def good_inputs_def default_inputs_def)

definition live_mode_settings :: mode_settings where
  "live_mode_settings = \<lparr> ms_allow_live = True, ms_execution = default_execution\<lparr> xs_mode := ''live'' \<rparr>,
     ms_environment = PRODUCTION, ms_max_age_seconds = 300 \<rparr>"

definition fresh_store :: approval_store where
  "fresh_store = \<lparr> ap_has_path = True, ap_ttl_hours = 24, ap_approval = None, ap_file = None \<rparr>"

text \<open>
  An operator approves good inputs and then revokes: the mode stays live until the next evaluation,
  because the resolver reads the cached report.
\<close>

lemma approve_then_revoke:
  "\<exists>st. live_run plain_digest L {default_live_gate}
      ([] @ [LE_approve default_live_gate (fine_io 0) ''ana'' ''ok'' good_inputs] @ [LE_revoke (fine_io 1)]) st
    \<and> mode_resolved L live_mode_settings 1 (lv_report st) = ''live'' \<and> ap_approval (lv_store st) = None"
proof -
  let ?s = default_live_gate and ?S = "{default_live_gate}"
  let ?h = "plain_digest (?s, outcomes ?s good_inputs)"
  let ?a = "\<lparr> la_actor = ''ana'', la_reason = ''ok'', la_report_hash = ?h, la_granted_at = 0, la_ttl_hours = 24 \<rparr>"
  let ?ap = "ap_persist (fine_io 0) (fresh_store\<lparr> ap_approval := Some ?a \<rparr>)"
  have start: "live_run plain_digest L ?S [] \<lparr> lv_settings = ?s, lv_report = None, lv_store = fresh_store \<rparr>"
    by (rule live_run.start) (simp_all add: fresh_store_def default_live_gate_def)
  have strip: "strip ''ana'' = ''ana''" "strip ''ok'' = ''ok''" by code_simp+
  have "strip ?h \<noteq> []"
    by (simp add: plain_digest_def strip_empty_iff is_space_def)
  then have grant: "ap_grant (fine_io 0) ''ana'' ''ok'' ?h fresh_store = Inr (?a, ?ap)"
    by (simp add: ap_grant_def strip Let_def fresh_store_def)
  have t: "wf_time (io_now (fine_io 0))" by code_simp
  let ?r = "gate_evaluate plain_digest ?s (ap_is_valid_for 0 ?ap) 0 good_inputs"
  have run: "live_run plain_digest L ?S ([] @ [LE_approve ?s (fine_io 0) ''ana'' ''ok'' good_inputs])
      \<lparr> lv_settings = ?s, lv_report = Some ?r, lv_store = ?ap \<rparr>"
    using live_run.approve [OF start t, of "''ana''" "''ok''" good_inputs ?a ?ap] grant
    by (simp add: torn_write_def gate_hash_of hash_outcomes)
  have "gr_approved ?r"
    by (simp add: gate_approved_eq good_inputs_pass operator_ok_def hash_outcomes ap_is_valid_for_def
        ap_persist_def fresh_store_def la_is_valid_for_def la_expires_at_def timedelta_hours_def
        round_half_even_def Let_def)
  then have "mode_resolved L live_mode_settings 1 (Some ?r) = ''live''"
    by (simp add: mode_resolved_live live_authorized_iff live_mode_settings_def is_live_def total_seconds_def)
  moreover have "ap_approval (ap_revoke (fine_io 1) ?ap) = None"
    by (simp add: ap_revoke_def ap_persist_def)
  ultimately show ?thesis
    using live_run.revoke [OF run, of "fine_io 1"] by fastforce
qed

theorem live_needs_whole_chain_witness:
  "\<forall>L. \<exists>st r i. live_run plain_digest L {default_live_gate}
      [LE_approve default_live_gate (fine_io 0) ''ana'' ''ok'' good_inputs, LE_revoke (fine_io 1)] st
    \<and> lv_report st = Some r \<and> gr_approved r \<and> evaluated_from [LE_approve default_live_gate (fine_io 0) ''ana'' ''ok'' good_inputs,
        LE_revoke (fine_io 1)] default_live_gate (gr_evaluated_at r) i
    \<and> all_criteria default_live_gate i \<and> outcomes default_live_gate good_inputs = outcomes default_live_gate i"
proof
  fix L
  let ?es = "[LE_approve default_live_gate (fine_io 0) ''ana'' ''ok'' good_inputs, LE_revoke (fine_io 1)]"
  obtain st where run: "live_run plain_digest L {default_live_gate} ?es st"
      and live: "mode_resolved L live_mode_settings 1 (lv_report st) = ''live''"
    using approve_then_revoke [of L] by auto
  have s: "lv_settings st = default_live_gate"
    using live_run_justified [OF run] by simp
  have req: "lg_require_operator_approval default_live_gate" by (simp add: default_live_gate_def)
  from live_needs_whole_chain [OF run plain_digest_free live] req
  obtain r i where "lv_report st = Some r" "gr_approved r" "evaluated_from ?es default_live_gate (gr_evaluated_at r) i"
      "all_criteria default_live_gate i" "outcomes default_live_gate good_inputs = outcomes default_live_gate i"
    unfolding s by auto
  with run show "\<exists>st r i. live_run plain_digest L {default_live_gate} ?es st \<and> lv_report st = Some r \<and> gr_approved r
      \<and> evaluated_from ?es default_live_gate (gr_evaluated_at r) i \<and> all_criteria default_live_gate i
      \<and> outcomes default_live_gate good_inputs = outcomes default_live_gate i" by blast
qed

end
