(* ===== verification/Recovery.thy ===== *)
theory Recovery
  imports Engine_Exit Kill_Switch
begin

text \<open>
  \<open>production/recovery\<close>: the lossless serialisation of a position, the snapshot of the engine, its
  atomic store, and the service that captures the state and rehydrates it after a restart.  The
  decision id and the reasons of a position, which a snapshot keeps as they are, are read back as text.
\<close>

section \<open>Positions\<close>

fun status_value :: "position_status \<Rightarrow> string" where
  "status_value PS_OPEN = ''open''"
| "status_value PS_CLOSED = ''closed''"

definition parse_status :: "string \<Rightarrow> py_error + position_status" where
  "parse_status s = (if s = ''open'' then Inr PS_OPEN else if s = ''closed'' then Inr PS_CLOSED
     else Inl ValueError)"

definition position_to_state :: "pylib \<Rightarrow> position \<Rightarrow> json_dict" where
  "position_to_state L p =
     [(''position_id'', JStr (p_position_id p)),
      (''symbol'', JStr (p_symbol p)),
      (''side'', JStr (side_value (p_side p))),
      (''quantity'', JNum (p_quantity p)),
      (''initial_quantity'', JNum (p_initial_quantity p)),
      (''entry_price'', JNum (p_entry_price p)),
      (''initial_stop'', json_opt (p_initial_stop p)),
      (''stop_loss'', json_opt (p_stop_loss p)),
      (''take_profit'', json_opt (p_take_profit p)),
      (''opened_at'', JStr (iso (p_opened_at p))),
      (''status'', JStr (status_value (p_status p))),
      (''realized_pnl'', JNum (p_realized_pnl p)),
      (''commission_paid'', JNum (p_commission_paid p)),
      (''break_even_active'', JBool (p_break_even_active p)),
      (''trailing_active'', JBool (p_trailing_active p)),
      (''mark_price'', JNum (p_mark_price p)),
      (''highest_price'', JNum (p_highest_price p)),
      (''lowest_price'', JNum (p_lowest_price p)),
      (''decision_id'', json_opt_str (p_decision_id p)),
      (''regime'', JStr (p_regime p)),
      (''score'', JNum (p_score p)),
      (''confidence'', JNum (p_confidence p)),
      (''entry_reasons'', JList (map (\<lambda>m. JStr (render L m)) (p_entry_reasons p))),
      (''metadata'', JObj (p_metadata p))]"

definition opt_text :: "pylib \<Rightarrow> json \<Rightarrow> string option" where
  "opt_text L j = (if j = JNull then None else Some (py_str L j))"

definition position_from_state :: "pylib \<Rightarrow> json_dict \<Rightarrow> py_error + position" where
  "position_from_state L d =
     ebind (ebind (jitem d ''position_id'') (\<lambda>j. Inr (py_str L j))) (\<lambda>pid.
     ebind (ebind (jitem d ''symbol'') (\<lambda>j. Inr (py_str L j))) (\<lambda>symb.
     ebind (ebind (jitem d ''side'') (\<lambda>j. case j of JStr s \<Rightarrow> parse_side s | _ \<Rightarrow> Inl ValueError)) (\<lambda>side.
     ebind (ebind (jitem d ''quantity'') (py_float L)) (\<lambda>quantity.
     ebind (ebind (jitem d ''initial_quantity'') (py_float L)) (\<lambda>initial.
     ebind (ebind (jitem d ''entry_price'') (py_float L)) (\<lambda>entry.
     ebind (opt_float L (jget d ''initial_stop'' JNull)) (\<lambda>initial_stop.
     ebind (opt_float L (jget d ''stop_loss'' JNull)) (\<lambda>stop_loss.
     ebind (opt_float L (jget d ''take_profit'' JNull)) (\<lambda>take_profit.
     ebind (ebind (jitem d ''opened_at'') (\<lambda>j. py_fromiso L (py_str L j))) (\<lambda>opened.
     ebind (case jget d ''status'' (JStr ''open'') of JStr s \<Rightarrow> parse_status s | _ \<Rightarrow> Inl ValueError) (\<lambda>status.
     ebind (py_float L (jget d ''realized_pnl'' (JNum 0))) (\<lambda>realized.
     ebind (py_float L (jget d ''commission_paid'' (JNum 0))) (\<lambda>commission.
     ebind (py_float L (jget d ''mark_price'' (JNum 0))) (\<lambda>mark.
     ebind (py_float L (jget d ''highest_price'' (JNum 0))) (\<lambda>highest.
     ebind (py_float L (jget d ''lowest_price'' (JNum 0))) (\<lambda>lowest.
     ebind (py_float L (jget d ''score'' (JNum 0))) (\<lambda>score.
     ebind (py_float L (jget d ''confidence'' (JNum 0))) (\<lambda>confidence.
     ebind (py_tuple (jget d ''entry_reasons'' (JList []))) (\<lambda>reasons.
     ebind (py_dict_of L (jget d ''metadata'' (JObj []))) (\<lambda>metadata.
     Inr (post_init \<lparr> p_position_id = pid, p_symbol = symb, p_side = side, p_quantity = quantity,
         p_initial_quantity = initial, p_entry_price = entry, p_initial_stop = initial_stop,
         p_stop_loss = stop_loss, p_take_profit = take_profit, p_opened_at = opened, p_closed_at = None,
         p_status = status, p_realized_pnl = realized, p_commission_paid = commission,
         p_break_even_active = py_bool (jget d ''break_even_active'' (JBool False)),
         p_trailing_active = py_bool (jget d ''trailing_active'' (JBool False)), p_mark_price = mark,
         p_highest_price = highest, p_lowest_price = lowest, p_exit_reason = None,
         p_decision_id = opt_text L (jget d ''decision_id'' JNull),
         p_regime = py_str L (jget d ''regime'' (JStr ''unknown'')), p_score = score,
         p_confidence = confidence, p_entry_reasons = map (\<lambda>j. Lit (py_str L j)) reasons,
         p_exit_reasons = [], p_metadata = metadata \<rparr>)))))))))))))))))))))"

section \<open>Snapshots\<close>

record engine_state =
  es_captured_at :: time
  es_positions :: "json list"
  es_balance :: real
  es_peak_equity :: real
  es_total_trades :: int
  es_wins :: int
  es_losses :: int
  es_commission_paid :: real
  es_consecutive_losses :: int
  es_safe_mode_active :: bool
  es_kill_switch_active :: bool

definition es_to_dict :: "engine_state \<Rightarrow> json_dict" where
  "es_to_dict s =
     [(''captured_at'', JStr (iso (es_captured_at s))), (''positions'', JList (es_positions s)),
      (''balance'', JNum (es_balance s)), (''peak_equity'', JNum (es_peak_equity s)),
      (''total_trades'', JInt (es_total_trades s)), (''wins'', JInt (es_wins s)),
      (''losses'', JInt (es_losses s)), (''commission_paid'', JNum (es_commission_paid s)),
      (''consecutive_losses'', JInt (es_consecutive_losses s)),
      (''safe_mode_active'', JBool (es_safe_mode_active s)),
      (''kill_switch_active'', JBool (es_kill_switch_active s))]"

definition es_from_dict :: "pylib \<Rightarrow> json_dict \<Rightarrow> py_error + engine_state" where
  "es_from_dict L d =
     ebind (ebind (jitem d ''captured_at'') (\<lambda>j. py_fromiso L (py_str L j))) (\<lambda>captured.
     ebind (py_tuple (jget d ''positions'' (JList []))) (\<lambda>positions.
     ebind (py_float L (jget d ''balance'' (JNum 0))) (\<lambda>bal.
     ebind (py_float L (jget d ''peak_equity'' (JNum 0))) (\<lambda>peak.
     ebind (py_int_of (jget d ''total_trades'' (JInt 0))) (\<lambda>trades.
     ebind (py_int_of (jget d ''wins'' (JInt 0))) (\<lambda>wins.
     ebind (py_int_of (jget d ''losses'' (JInt 0))) (\<lambda>losses.
     ebind (py_float L (jget d ''commission_paid'' (JNum 0))) (\<lambda>comm.
     ebind (py_int_of (jget d ''consecutive_losses'' (JInt 0))) (\<lambda>streak.
     Inr \<lparr> es_captured_at = captured, es_positions = positions, es_balance = bal, es_peak_equity = peak,
         es_total_trades = trades, es_wins = wins, es_losses = losses, es_commission_paid = comm,
         es_consecutive_losses = streak,
         es_safe_mode_active = py_bool (jget d ''safe_mode_active'' (JBool False)),
         es_kill_switch_active = py_bool (jget d ''kill_switch_active'' (JBool False)) \<rparr>)))))))))"

definition es_age_seconds :: "time \<Rightarrow> engine_state \<Rightarrow> real" where
  "es_age_seconds now s = total_seconds (now - es_captured_at s)"

section \<open>The store\<close>

record snapshot_store =
  ss_has_path :: bool
  ss_last :: "engine_state option"
  ss_file :: json_file

text \<open>The write goes to a temporary file that replaces the old one: a failure leaves the old one.\<close>

definition ss_save :: "sys_io \<Rightarrow> engine_state \<Rightarrow> snapshot_store \<Rightarrow> snapshot_store" where
  "ss_save io s st =
     (let st1 = st\<lparr> ss_last := Some s \<rparr> in
      if ss_has_path st \<and> io_write_fail io = None
      then st1\<lparr> ss_file := Some (JsonText (JObj (es_to_dict s))) \<rparr> else st1)"

definition ss_load :: "pylib \<Rightarrow> sys_io \<Rightarrow> snapshot_store \<Rightarrow> engine_state option \<times> snapshot_store" where
  "ss_load L io st =
     (if \<not> ss_has_path st \<or> \<not> io_read_ok io then (None, st) else
      case ss_file st of
        Some (JsonText (JObj d)) \<Rightarrow>
          (case es_from_dict L d of Inl e \<Rightarrow> (None, st) | Inr s \<Rightarrow> (Some s, st\<lparr> ss_last := Some s \<rparr>))
      | _ \<Rightarrow> (None, st))"

section \<open>The service\<close>

record recovery_settings =
  rv_enabled :: bool
  rv_reload_journal :: bool
  rv_max_age_hours :: real

definition default_recovery :: recovery_settings where
  "default_recovery = \<lparr> rv_enabled = True, rv_reload_journal = True, rv_max_age_hours = 72 \<rparr>"

definition capture_state :: "pylib \<Rightarrow> time \<Rightarrow> 'b engine \<Rightarrow> engine_state" where
  "capture_state L now e =
     \<lparr> es_captured_at = now,
       es_positions = map (\<lambda>p. JObj (position_to_state L p)) (open_positions (ex_positions e)),
       es_balance = pf_balance (ex_portfolio e), es_peak_equity = pf_peak_equity (ex_portfolio e),
       es_total_trades = int (pf_total_trades (ex_portfolio e)), es_wins = int (pf_wins (ex_portfolio e)),
       es_losses = int (pf_losses (ex_portfolio e)), es_commission_paid = pf_commission_paid (ex_portfolio e),
       es_consecutive_losses = rm_consecutive_losses (ex_risk e), es_safe_mode_active = False,
       es_kill_switch_active = rm_kill_switch (ex_risk e) \<rparr>"

definition rec_capture :: "pylib \<Rightarrow> sys_io \<Rightarrow> 'b engine \<Rightarrow> snapshot_store \<Rightarrow> snapshot_store" where
  "rec_capture L io e st = ss_save io (capture_state L (io_now io) e) st"

text \<open>A position whose decoding raises one of the three caught errors is skipped; another error ends the restoration.\<close>

fun readable_positions :: "pylib \<Rightarrow> json list \<Rightarrow> py_error + position list" where
  "readable_positions L [] = Inr []"
| "readable_positions L (JObj d # js) =
     (case position_from_state L d of
        Inl e \<Rightarrow> if caught e then readable_positions L js else Inl e
      | Inr p \<Rightarrow> ebind (readable_positions L js) (\<lambda>ps. Inr (p # ps)))"
| "readable_positions L (j # js) = readable_positions L js"

record recovery_report =
  rr_positions_restored :: nat
  rr_trades_restored :: nat
  rr_snapshot_age_seconds :: real
  rr_kill_switch_restored :: bool
  rr_skipped_reason :: msg

definition empty_recovery :: recovery_report where
  "empty_recovery = \<lparr> rr_positions_restored = 0, rr_trades_restored = 0, rr_snapshot_age_seconds = 0,
     rr_kill_switch_restored = False, rr_skipped_reason = Lit [] \<rparr>"

text \<open>The counters of the portfolio are naturals here: a negative count of a foreign file reads as 0.\<close>

definition applied :: "engine_state \<Rightarrow> position list \<Rightarrow> 'b engine \<Rightarrow> nat \<times> bool \<times> 'b engine" where
  "applied s ps e =
     (let (pm, restored) = pm_restore (ex_positions e) ps;
          pf = pf_restore (es_balance s) (es_peak_equity s) (nat (es_total_trades s)) (nat (es_wins s))
                 (nat (es_losses s)) (es_commission_paid s) (ex_portfolio e);
          rm1 = rm_restore (es_consecutive_losses s) (ex_risk e);
          rm2 = (if es_kill_switch_active s
                 then engage_kill_switch (Lit ''kill switch restaurado tras reinicio'') rm1 else rm1)
      in (restored, es_kill_switch_active s,
          e\<lparr> ex_positions := pm, ex_portfolio := pf, ex_risk := rm2 \<rparr>))"

definition apply_state :: "pylib \<Rightarrow> engine_state \<Rightarrow> 'b engine \<Rightarrow> py_error + nat \<times> bool \<times> 'b engine" where
  "apply_state L s e = ebind (readable_positions L (es_positions s)) (\<lambda>ps. Inr (applied s ps e))"

definition restore_journal :: "pylib \<Rightarrow> recovery_settings \<Rightarrow> sys_io \<Rightarrow> 'b engine \<Rightarrow> (py_error + nat) \<times> 'b engine" where
  "restore_journal L cfg io e =
     (if \<not> rv_reload_journal cfg \<or> \<not> jn_has_path (ex_journal e) \<or> \<not> io_read_ok io then (Inr 0, e)
      else case ex_disk e of None \<Rightarrow> (Inr 0, e)
        | Some f \<Rightarrow> (case read_trades L f of
            Inl err \<Rightarrow> (Inl err, e)
          | Inr ts \<Rightarrow> let (n, jn) = jn_restore ts (ex_journal e) in (Inr n, e\<lparr> ex_journal := jn \<rparr>)))"

text \<open>A snapshot is applied, or not, before the journal is read; what raises ends the restoration where it is.\<close>

definition restore_snapshot ::
  "pylib \<Rightarrow> recovery_settings \<Rightarrow> time \<Rightarrow> engine_state option \<Rightarrow> 'b engine \<Rightarrow> py_error + recovery_report \<times> 'b engine" where
  "restore_snapshot L cfg now loaded e = (case loaded of
       None \<Rightarrow> Inr (empty_recovery\<lparr> rr_skipped_reason := Lit ''no hay snapshot previo'' \<rparr>, e)
     | Some s \<Rightarrow>
         let age = es_age_seconds now s; max_age = rv_max_age_hours cfg * 3600 in
         if max_age > 0 \<and> age > max_age
         then Inr (empty_recovery\<lparr> rr_snapshot_age_seconds := age,
                 rr_skipped_reason := Fmt ''snapshot demasiado viejo ({} h)'' [ArgReal (age / 3600)] \<rparr>, e)
         else ebind (apply_state L s e) (\<lambda>(n, kill, e').
           Inr (empty_recovery\<lparr> rr_snapshot_age_seconds := age, rr_positions_restored := n,
              rr_kill_switch_restored := kill \<rparr>, e')))"

definition rec_restore ::
  "pylib \<Rightarrow> recovery_settings \<Rightarrow> sys_io \<Rightarrow> snapshot_store \<Rightarrow> 'b engine \<Rightarrow> (py_error + recovery_report) \<times> snapshot_store \<times> 'b engine" where
  "rec_restore L cfg io st e =
     (let (loaded, st1) = ss_load L io st in
      case restore_snapshot L cfg (io_now io) loaded e of
        Inl err \<Rightarrow> (Inl err, st1, e)
      | Inr (report, e1) \<Rightarrow>
          (case restore_journal L cfg io e1 of
             (Inl err, e2) \<Rightarrow> (Inl err, st1, e2)
           | (Inr trades, e2) \<Rightarrow> (Inr (report\<lparr> rr_trades_restored := trades \<rparr>), st1, e2)))"

definition rec_on_start ::
  "pylib \<Rightarrow> recovery_settings \<Rightarrow> sys_io \<Rightarrow> snapshot_store \<Rightarrow> 'b engine \<Rightarrow> py_error option \<times> snapshot_store \<times> 'b engine" where
  "rec_on_start L cfg io st e =
     (if rv_enabled cfg then (case rec_restore L cfg io st e of
          (Inl err, st', e') \<Rightarrow> (Some err, st', e') | (Inr report, st', e') \<Rightarrow> (None, st', e'))
      else (None, st, e))"

definition rec_on_stop :: "pylib \<Rightarrow> recovery_settings \<Rightarrow> sys_io \<Rightarrow> 'b engine \<Rightarrow> snapshot_store \<Rightarrow> snapshot_store" where
  "rec_on_stop L cfg io e st = (if rv_enabled cfg then rec_capture L io e st else st)"

section \<open>Round trips\<close>

lemma parse_status_value [simp]: "parse_status (status_value x) = Inr x"
  by (cases x) (simp_all add: parse_status_def)

text \<open>What every open position satisfies: no derived field is missing and nothing of an exit is set.\<close>

definition live_position :: "position \<Rightarrow> bool" where
  "live_position p \<longleftrightarrow> post_init p = p \<and> p_closed_at p = None \<and> p_exit_reason p = None
     \<and> p_exit_reasons p = [] \<and> wf_time (p_opened_at p)"

definition as_text :: "pylib \<Rightarrow> position \<Rightarrow> position" where
  "as_text L p = p\<lparr> p_entry_reasons := map (\<lambda>m. Lit (render L m)) (p_entry_reasons p) \<rparr>"

lemma as_text_id [simp]: "p_position_id (as_text L p) = p_position_id p"
  by (simp add: as_text_def)

lemma post_init_reasons: "post_init (p\<lparr> p_entry_reasons := rs \<rparr>) = (post_init p)\<lparr> p_entry_reasons := rs \<rparr>"
  by (simp add: post_init_def Let_def)

lemma opt_text_json [simp]: "opt_text L (json_opt_str x) = x"
  by (cases x) (simp_all add: opt_text_def json_opt_str_def)

lemma position_codec_inverse:
  assumes "live_position p"
  shows "position_from_state L (position_to_state L p) = Inr (as_text L p)"
proof -
  have "position_from_state L (position_to_state L p)
      = Inr (post_init (p\<lparr> p_closed_at := None, p_exit_reason := None, p_exit_reasons := [],
          p_entry_reasons := map (\<lambda>m. Lit (render L m)) (p_entry_reasons p) \<rparr>))"
    using assms by (cases p) (simp add: position_from_state_def position_to_state_def json_lookup
        live_position_def py_tuple_def py_dict_of_def py_bool_def comp_def)
  moreover have "p\<lparr> p_closed_at := None, p_exit_reason := None, p_exit_reasons := [],
          p_entry_reasons := map (\<lambda>m. Lit (render L m)) (p_entry_reasons p) \<rparr> = as_text L p"
    using assms by (cases p) (simp add: live_position_def as_text_def)
  ultimately show ?thesis
    using assms by (simp add: as_text_def post_init_reasons live_position_def)
qed

lemma state_codec_inverse: "wf_time (es_captured_at s) \<Longrightarrow> es_from_dict L (es_to_dict s) = Inr s"
  by (cases s) (simp add: es_from_dict_def es_to_dict_def json_lookup py_tuple_def py_int_of_def py_bool_def)

lemma readable_captured:
  "\<forall>p \<in> set ps. live_position p \<Longrightarrow>
   readable_positions L (map (\<lambda>p. JObj (position_to_state L p)) ps) = Inr (map (as_text L) ps)"
  by (induction ps) (simp_all add: position_codec_inverse)

lemma capture_load:
  assumes "ss_has_path st" "io_write_fail io = None" "wf_time (io_now io)" "io_read_ok io'"
  shows "fst (ss_load L io' (rec_capture L io e st)) = Some (capture_state L (io_now io) e)"
  using assms by (simp add: ss_load_def rec_capture_def ss_save_def state_codec_inverse capture_state_def)

lemma restore_distinct:
  assumes "distinct (map p_position_id ps)" "\<forall>p \<in> set ps. p_position_id p \<notin> set (pd_keys (pm_open st))"
  shows "open_positions (fst (pm_restore st ps)) = open_positions st @ ps"
  using assms
proof (induction ps arbitrary: st)
  case (Cons p ps)
  have "open_positions (fst (pm_restore (pm_store st p) ps)) = open_positions (pm_store st p) @ ps"
  proof (rule Cons.IH)
    show "distinct (map p_position_id ps)" using Cons.prems(1) by simp
    show "\<forall>q \<in> set ps. p_position_id q \<notin> set (pd_keys (pm_open (pm_store st p)))"
      using Cons.prems by (simp add: pm_store_def) (metis imageI)
  qed
  moreover have "open_positions (pm_store st p) = open_positions st @ [p]"
    using Cons.prems(2) by (simp add: open_positions_def pm_store_def)
  ultimately show ?case by (simp add: pm_restore_def)
qed (simp add: pm_restore_def)

lemma open_ids_distinct:
  assumes "pm_wf st" shows "distinct (map p_position_id (open_positions st))"
proof -
  have "p_position_id p = k" if "(k, p) \<in> set (pm_open st)" for k p
    using that assms by (auto simp: pm_wf_def pd_wf_def pd_get_def)
  then have "map p_position_id (open_positions st) = pd_keys (pm_open st)"
    by (auto simp: open_positions_def pd_values_def pd_keys_def)
  then show ?thesis using assms by (simp add: pm_wf_def pd_wf_distinct)
qed

lemma restore_journal_frame [simp]:
  "ex_positions (snd (restore_journal L cfg io e)) = ex_positions e"
  "ex_portfolio (snd (restore_journal L cfg io e)) = ex_portfolio e"
  "ex_risk (snd (restore_journal L cfg io e)) = ex_risk e"
  "ex_broker (snd (restore_journal L cfg io e)) = ex_broker e"
  "ex_baseline_set (snd (restore_journal L cfg io e)) = ex_baseline_set e"
  by (simp_all add: restore_journal_def jn_restore_def split: prod.splits option.splits sum.splits)

text \<open>The engine a restart produces from a snapshot that loads and is recent enough.\<close>

definition restarted :: "pylib \<Rightarrow> recovery_settings \<Rightarrow> sys_io \<Rightarrow> snapshot_store \<Rightarrow> 'b engine \<Rightarrow> 'b engine" where
  "restarted L cfg io st e = snd (snd (rec_restore L cfg io st e))"

lemma restarted_cases:
  "restarted L cfg io st e = e \<or> (\<exists>e1. restarted L cfg io st e = snd (restore_journal L cfg io e1)
     \<and> (e1 = e \<or> (\<exists>s ps. e1 = snd (snd (applied s ps e)))))"
proof -
  obtain loaded st1 where load: "ss_load L io st = (loaded, st1)" by fastforce
  show ?thesis
  proof (cases "restore_snapshot L cfg (io_now io) loaded e")
    case (Inl err)
    then show ?thesis by (simp add: restarted_def rec_restore_def load)
  next
    case (Inr r)
    obtain report e1 where r: "r = (report, e1)" by (cases r)
    have "e1 = e \<or> (\<exists>s ps. e1 = snd (snd (applied s ps e)))"
    proof (cases loaded)
      case None
      then show ?thesis using Inr r by (simp add: restore_snapshot_def)
    next
      case (Some s)
      then show ?thesis using Inr r
        by (auto simp: restore_snapshot_def Let_def apply_state_def ebind_Inr_iff split: if_splits) (metis snd_conv)+
    qed
    moreover have "restarted L cfg io st e = snd (restore_journal L cfg io e1)"
      by (simp add: restarted_def rec_restore_def load Inr r split: prod.split sum.split)
    ultimately show ?thesis by blast
  qed
qed

lemma restarted_applies:
  assumes "fst (ss_load L io st) = Some s" "readable_positions L (es_positions s) = Inr ps"
    and "0 < rv_max_age_hours cfg \<Longrightarrow> es_age_seconds (io_now io) s \<le> rv_max_age_hours cfg * 3600"
  shows "\<exists>e1. e1 = snd (snd (applied s ps e)) \<and> restarted L cfg io st e = snd (restore_journal L cfg io e1)"
proof -
  obtain st1 where load: "ss_load L io st = (Some s, st1)" using assms(1) by (metis prod.collapse)
  obtain n k e1 where a: "applied s ps e = (n, k, e1)" by (metis prod.collapse)
  have "\<exists>report. restore_snapshot L cfg (io_now io) (Some s) e = Inr (report, e1)"
    using assms(2,3) a by (auto simp: restore_snapshot_def Let_def apply_state_def)
  then show ?thesis
    using a by (auto simp: restarted_def rec_restore_def load split: prod.split sum.split)
qed

lemma applied_fields:
  "ex_portfolio (snd (snd (applied s ps e))) = pf_restore (es_balance s) (es_peak_equity s)
      (nat (es_total_trades s)) (nat (es_wins s)) (nat (es_losses s)) (es_commission_paid s) (ex_portfolio e)"
  "ex_positions (snd (snd (applied s ps e))) = fst (pm_restore (ex_positions e) ps)"
  "rm_kill_switch (ex_risk (snd (snd (applied s ps e)))) = (es_kill_switch_active s \<or> rm_kill_switch (ex_risk e))"
  "rm_consecutive_losses (ex_risk (snd (snd (applied s ps e)))) = max 0 (es_consecutive_losses s)"
  "rm_ledger (ex_risk (snd (snd (applied s ps e)))) = rm_ledger (ex_risk e)"
  "rm_circuit_breaker (ex_risk (snd (snd (applied s ps e)))) = rm_circuit_breaker (ex_risk e)"
  "rm_settings (ex_risk (snd (snd (applied s ps e)))) = rm_settings (ex_risk e)"
  "rm_initial_balance (ex_risk (snd (snd (applied s ps e)))) = rm_initial_balance (ex_risk e)"
  "ex_broker (snd (snd (applied s ps e))) = ex_broker e"
  "ex_baseline_set (snd (snd (applied s ps e))) = ex_baseline_set e"
  by (simp_all add: applied_def Let_def rm_restore_def engage_kill_switch_def split: prod.splits)

section \<open>Properties\<close>

text \<open>
  Property C18: a restart resumes where the snapshot was taken.  A state captured on an engine with
  well-formed open positions and loaded into a freshly built one within the age limit gives back the
  same open positions in the same order (trailing extremes and flags included, reasons as text), the
  same cash, counters and commissions, the equity peak, the losing streak and the kill switch.
\<close>

theorem restart_resumes_snapshot:
  fixes e :: "'b engine" and b :: 'b and L :: pylib and xs :: execution_settings and bal :: real
    and disk :: journal_disk
  assumes "pm_wf (ex_positions e)" "\<forall>p \<in> set (open_positions (ex_positions e)). live_position p"
    and "ss_has_path st" "io_write_fail io = None" "wf_time (io_now io)" "io_read_ok io'"
    and "0 < rv_max_age_hours cfg \<Longrightarrow> total_seconds (io_now io' - io_now io) \<le> rv_max_age_hours cfg * 3600"
  defines "e' \<equiv> restarted L cfg io' (rec_capture L io e st) (build_engine xs b bal disk)"
  shows "open_positions (ex_positions e') = map (as_text L) (open_positions (ex_positions e))
    \<and> pf_balance (ex_portfolio e') = pf_balance (ex_portfolio e)
    \<and> pf_peak_equity (ex_portfolio e') = max (pf_peak_equity (ex_portfolio e)) (pf_balance (ex_portfolio e))
    \<and> pf_total_trades (ex_portfolio e') = pf_total_trades (ex_portfolio e)
    \<and> pf_wins (ex_portfolio e') = pf_wins (ex_portfolio e) \<and> pf_losses (ex_portfolio e') = pf_losses (ex_portfolio e)
    \<and> pf_commission_paid (ex_portfolio e') = pf_commission_paid (ex_portfolio e)
    \<and> rm_consecutive_losses (ex_risk e') = max 0 (rm_consecutive_losses (ex_risk e))
    \<and> rm_kill_switch (ex_risk e') = rm_kill_switch (ex_risk e)"
proof -
  let ?s = "capture_state L (io_now io) e"
  have "fst (ss_load L io' (rec_capture L io e st)) = Some ?s"
    using capture_load assms(3-6) by blast
  moreover have ps: "readable_positions L (es_positions ?s) = Inr (map (as_text L) (open_positions (ex_positions e)))"
    using readable_captured [OF assms(2), of L] by (simp add: capture_state_def)
  ultimately obtain e1 where e1: "e1 = snd (snd (applied ?s (map (as_text L) (open_positions (ex_positions e))) (build_engine xs b bal disk)))"
      and e': "e' = snd (restore_journal L cfg io' e1)"
    using restarted_applies [of L io' "rec_capture L io e st" ?s _ cfg "build_engine xs b bal disk"] assms(7)
    by (auto simp: e'_def es_age_seconds_def capture_state_def)
  have "open_positions (fst (pm_restore pm_init (map (as_text L) (open_positions (ex_positions e)))))
      = open_positions pm_init @ map (as_text L) (open_positions (ex_positions e))"
    using open_ids_distinct [OF assms(1)] by (intro restore_distinct) (simp_all add: pm_init_def comp_def pd_keys_def)
  then have "open_positions (ex_positions e') = map (as_text L) (open_positions (ex_positions e))"
    by (simp add: e' e1 applied_fields build_engine_def)
  then show ?thesis
    by (simp add: e' e1 applied_fields capture_state_def build_engine_def pf_restore_def rm_init_def)
qed

lemma tracked_live: "live_position tracked_long"
proof -
  have "wf_time 0" by code_simp
  then show ?thesis by (simp add: live_position_def tracked_long_def example_long_unfold)
qed

definition example_store :: snapshot_store where
  "example_store = \<lparr> ss_has_path = True, ss_last = None, ss_file = None \<rparr>"

theorem restart_resumes_snapshot_witness:
  "\<forall>L. open_positions (ex_positions (restarted L default_recovery (fine_io 60000000)
      (rec_capture L (fine_io 0) tracked_engine example_store) (build_engine default_execution example_broker 10000 None)))
    = [as_text L tracked_long]"
proof
  fix L
  have open1: "open_positions (ex_positions tracked_engine) = [tracked_long]"
    by (simp add: tracked_engine_def open_positions_def pm_store_def pm_init_def pd_values_def)
  have "wf_time 0" by code_simp
  then show "open_positions (ex_positions (restarted L default_recovery (fine_io 60000000)
      (rec_capture L (fine_io 0) tracked_engine example_store) (build_engine default_execution example_broker 10000 None)))
    = [as_text L tracked_long]"
    using restart_resumes_snapshot [of tracked_engine example_store "fine_io 0" "fine_io 60000000" default_recovery
        L default_execution example_broker 10000 None]
    by (simp add: open1 tracked_live example_store_def default_recovery_def total_seconds_def)
qed

lemma restarted_risk:
  fixes b :: 'b and L :: pylib and cfg :: recovery_settings and io :: sys_io and st :: snapshot_store
    and xs :: execution_settings and bal :: real and disk :: journal_disk
  defines "e' \<equiv> restarted L cfg io st (build_engine xs b bal disk)"
  shows "rm_ledger (ex_risk e') = [] \<and> \<not> rm_circuit_breaker (ex_risk e') \<and> rm_settings (ex_risk e') = xs_risk xs
    \<and> rm_initial_balance (ex_risk e') = bal \<and> ex_broker e' = b \<and> \<not> ex_baseline_set e'"
proof -
  let ?e = "build_engine xs b bal disk"
  have base: "rm_ledger (ex_risk ?e) = []" "\<not> rm_circuit_breaker (ex_risk ?e)" "rm_settings (ex_risk ?e) = xs_risk xs"
      "rm_initial_balance (ex_risk ?e) = bal" "ex_broker ?e = b" "\<not> ex_baseline_set ?e"
    by (simp_all add: build_engine_def rm_init_def)
  have "e' = ?e \<or> (\<exists>e1. e' = snd (restore_journal L cfg io e1) \<and> (e1 = ?e \<or> (\<exists>s ps. e1 = snd (snd (applied s ps ?e)))))"
    unfolding e'_def by (rule restarted_cases)
  then show ?thesis using base by (auto simp: applied_fields)
qed

text \<open>
  Property C19: a restart forgets the losses of the day.  Whatever the snapshot holds, the rebuilt risk
  manager has an empty ledger and a closed breaker, so no daily, weekly or monthly loss limit blocks;
  and where the venue reports a balance, the first synchronisation puts the equity peak at that balance,
  whatever peak was restored.
\<close>

theorem restart_forgets_losses:
  fixes b :: 'b
  assumes "bal \<noteq> 0" "0 < rk_max_daily_loss_pct (xs_risk xs)" "0 < rk_max_weekly_loss_pct (xs_risk xs)"
    "0 < rk_max_monthly_loss_pct (xs_risk xs)"
  shows "period_check now (ex_risk (restarted L cfg io st (build_engine xs b bal disk))) = None
    \<and> \<not> rm_circuit_breaker (ex_risk (restarted L cfg io st (build_engine xs b bal disk)))
    \<and> (\<forall>ops f x. bo_balance ops = Some f \<longrightarrow> f b = Some x \<longrightarrow>
          pf_peak_equity (ex_portfolio (sync_broker_balance ops (restarted L cfg io st (build_engine xs b bal disk)))) = x)"
  using assms restarted_risk [of L cfg io st xs b bal disk]
  by (simp add: period_check_def realized_since_def loss_limit_def Let_def sync_broker_balance_def
      sync_from_broker_def)

definition losing_engine :: "paper_broker engine" where
  "losing_engine = (let e = build_engine default_execution example_broker 10000 None in
     e\<lparr> ex_risk := rm_on_trade_closed 0 (-400) (ex_risk e) \<rparr>)"

theorem restart_forgets_losses_witness:
  "\<forall>L. period_check 1000000 (ex_risk losing_engine) \<noteq> None
    \<and> period_check 1000000 (ex_risk (restarted L default_recovery (fine_io 1000000)
        (rec_capture L (fine_io 500000) losing_engine example_store)
        (build_engine default_execution example_broker 10000 None))) = None"
proof
  fix L
  have "start_of_day 1000000 = 0" by code_simp
  then have "period_check 1000000 (ex_risk losing_engine) \<noteq> None"
    by (simp add: period_check_def losing_engine_def build_engine_def rm_init_def default_execution_def
        default_risk_def realized_since_def loss_limit_def Let_def)
  then show "period_check 1000000 (ex_risk losing_engine) \<noteq> None
    \<and> period_check 1000000 (ex_risk (restarted L default_recovery (fine_io 1000000)
        (rec_capture L (fine_io 500000) losing_engine example_store)
        (build_engine default_execution example_broker 10000 None))) = None"
    using restart_forgets_losses [of 10000 default_execution 1000000 L default_recovery "fine_io 1000000"
        "rec_capture L (fine_io 500000) losing_engine example_store" example_broker None]
    by (simp add: default_execution_def default_risk_def)
qed

end
