(* ===== verification/Failover.thy ===== *)
theory Failover
  imports Audit_Log
begin

text \<open>
  \<open>production/failover\<close>: leader election by a lease in a shared file.  A heartbeat reads the lease and
  then writes it; the two halves are definitions of their own, because nothing locks the file between
  them.  A cluster is the file and the nodes that share it.
\<close>

section \<open>One node\<close>

record lease =
  ls_node_id :: string
  ls_updated_at :: real

definition lease_to_dict :: "lease \<Rightarrow> json_dict" where
  "lease_to_dict l = [(''node_id'', JStr (ls_node_id l)), (''updated_at'', JNum (ls_updated_at l))]"

record failover_settings =
  fs_enabled :: bool
  fs_node_id :: string
  fs_lease_ttl_seconds :: real

record failover_node =
  fo_settings :: failover_settings
  fo_node_id :: string
  fo_is_primary :: bool
  fo_audit :: "audit_log option"

text \<open>\<open>host\<close> is the fallback \<open>hostname:pid\<close>.\<close>

definition fo_new :: "failover_settings \<Rightarrow> string \<Rightarrow> audit_log option \<Rightarrow> failover_node" where
  "fo_new s host audit = \<lparr> fo_settings = s,
     fo_node_id = (if strip (fs_node_id s) = [] then host else strip (fs_node_id s)),
     fo_is_primary = (\<not> fs_enabled s), fo_audit = audit \<rparr>"

definition should_run :: "failover_node \<Rightarrow> bool" where
  "should_run n = fo_is_primary n"

text \<open>Every error of the read is caught and means "no lease".\<close>

definition read_lease :: "pylib \<Rightarrow> sys_io \<Rightarrow> json_file \<Rightarrow> lease option" where
  "read_lease L io file =
     (if \<not> io_read_ok io then None else
      case file of
        Some (JsonText (JObj d)) \<Rightarrow>
          (case ebind (jitem d ''node_id'') (\<lambda>n. ebind (jitem d ''updated_at'') (\<lambda>u. ebind (py_float L u)
                  (\<lambda>x. Inr \<lparr> ls_node_id = py_str L n, ls_updated_at = x \<rparr>))) of
             Inl e \<Rightarrow> None | Inr l \<Rightarrow> Some l)
      | _ \<Rightarrow> None)"

definition set_primary :: "bool \<Rightarrow> failover_node \<Rightarrow> failover_node" where
  "set_primary v n = n\<lparr> fo_is_primary := v \<rparr>"

definition write_lease :: "sys_io \<Rightarrow> lease \<Rightarrow> failover_node \<Rightarrow> json_file \<Rightarrow> failover_node \<times> json_file" where
  "write_lease io l n file =
     (set_primary (io_write_fail io = None) n, write_json io (JObj (lease_to_dict l)))"

definition audit_transition :: "sys_io \<Rightarrow> failover_node \<Rightarrow> failover_node" where
  "audit_transition io n =
     n\<lparr> fo_audit := map_option (au_record io (if fo_is_primary n then FAILOVER_PROMOTED else FAILOVER_DEMOTED)
          ''system'' (Some (fo_node_id n)) JNull (JObj [(''is_primary'', JBool (fo_is_primary n))]) []) (fo_audit n) \<rparr>"

text \<open>The decision a heartbeat takes on the lease it has read: whether it may write its own.\<close>

definition may_hold :: "real \<Rightarrow> failover_node \<Rightarrow> lease option \<Rightarrow> bool" where
  "may_hold moment n seen =
     (case seen of
        None \<Rightarrow> True
      | Some l \<Rightarrow> ls_node_id l = fo_node_id n
          \<or> moment - ls_updated_at l > fs_lease_ttl_seconds (fo_settings n))"

definition fo_commit ::
  "sys_io \<Rightarrow> real \<Rightarrow> lease option \<Rightarrow> failover_node \<Rightarrow> json_file \<Rightarrow> bool \<times> failover_node \<times> json_file" where
  "fo_commit io moment seen n file =
     (let (n1, file1) = (if may_hold moment n seen
            then write_lease io \<lparr> ls_node_id = fo_node_id n, ls_updated_at = moment \<rparr> n file
            else (set_primary False n, file));
          n2 = (if fo_is_primary n1 \<noteq> fo_is_primary n then audit_transition io n1 else n1)
      in (fo_is_primary n2, n2, file1))"

definition heartbeat ::
  "pylib \<Rightarrow> sys_io \<Rightarrow> real \<Rightarrow> failover_node \<Rightarrow> json_file \<Rightarrow> bool \<times> failover_node \<times> json_file" where
  "heartbeat L io moment n file =
     (if \<not> fs_enabled (fo_settings n) then (True, n, file)
      else fo_commit io moment (read_lease L io file) n file)"

definition fo_release :: "pylib \<Rightarrow> sys_io \<Rightarrow> failover_node \<Rightarrow> json_file \<Rightarrow> failover_node \<times> json_file" where
  "fo_release L io n file =
     (if \<not> fs_enabled (fo_settings n) then (n, file) else
      let file1 = (case read_lease L io file of
                     Some l \<Rightarrow> if ls_node_id l = fo_node_id n \<and> io_write_fail io = None then None else file
                   | None \<Rightarrow> file);
          n1 = set_primary False n
      in (if fo_is_primary n then audit_transition io n1 else n1, file1))"

definition fo_status :: "pylib \<Rightarrow> sys_io \<Rightarrow> failover_node \<Rightarrow> json_file \<Rightarrow> json_dict" where
  "fo_status L io n file =
     [(''enabled'', JBool (fs_enabled (fo_settings n))), (''node_id'', JStr (fo_node_id n)),
      (''is_primary'', JBool (fo_is_primary n)),
      (''current_lease'', (case read_lease L io file of None \<Rightarrow> JNull | Some l \<Rightarrow> JObj (lease_to_dict l))),
      (''lease_ttl_seconds'', JNum (fs_lease_ttl_seconds (fo_settings n)))]"

section \<open>Lemmas\<close>

lemma read_written [simp]:
  "io_read_ok io \<Longrightarrow> read_lease L io (Some (JsonText (JObj (lease_to_dict l)))) = Some l"
  by (cases l) (simp add: read_lease_def lease_to_dict_def json_lookup)

lemma read_none [simp]: "read_lease L io None = None"
  by (simp add: read_lease_def)

lemma set_primary_fields [simp]:
  "fo_is_primary (set_primary v n) = v" "fo_node_id (set_primary v n) = fo_node_id n"
  "fo_settings (set_primary v n) = fo_settings n"
  by (simp_all add: set_primary_def)

lemma audit_transition_fields [simp]:
  "fo_is_primary (audit_transition io n) = fo_is_primary n" "fo_node_id (audit_transition io n) = fo_node_id n"
  "fo_settings (audit_transition io n) = fo_settings n"
  by (simp_all add: audit_transition_def)

lemma commit_primary:
  "fo_is_primary (fst (snd (fo_commit io moment seen n file))) = (may_hold moment n seen \<and> io_write_fail io = None)"
  "fst (fo_commit io moment seen n file) = (may_hold moment n seen \<and> io_write_fail io = None)"
  "fo_settings (fst (snd (fo_commit io moment seen n file))) = fo_settings n"
  "fo_node_id (fst (snd (fo_commit io moment seen n file))) = fo_node_id n"
  by (simp_all add: fo_commit_def write_lease_def Let_def)

lemma commit_file:
  "snd (snd (fo_commit io moment seen n file)) =
     (if may_hold moment n seen
      then write_json io (JObj (lease_to_dict \<lparr> ls_node_id = fo_node_id n, ls_updated_at = moment \<rparr>)) else file)"
  by (simp add: fo_commit_def write_lease_def Let_def)

section \<open>A cluster\<close>

text \<open>
  Nodes with distinct ids over one file; \<open>cl_beat\<close> is the instant of the last heartbeat of a node.  A
  step is a whole heartbeat or a release of one node, with a working file.
\<close>

record cluster =
  cl_file :: json_file
  cl_node :: "string \<Rightarrow> failover_node"
  cl_beat :: "string \<Rightarrow> real"
  cl_now :: real

definition cl_heartbeat :: "pylib \<Rightarrow> sys_io \<Rightarrow> real \<Rightarrow> string \<Rightarrow> cluster \<Rightarrow> cluster" where
  "cl_heartbeat L io moment i c =
     (case heartbeat L io moment (cl_node c i) (cl_file c) of (b, n, file) \<Rightarrow>
        c\<lparr> cl_file := file, cl_node := (cl_node c)(i := n), cl_beat := (cl_beat c)(i := moment), cl_now := moment \<rparr>)"

definition cl_release :: "pylib \<Rightarrow> sys_io \<Rightarrow> string \<Rightarrow> cluster \<Rightarrow> cluster" where
  "cl_release L io i c =
     (case fo_release L io (cl_node c i) (cl_file c) of (n, file) \<Rightarrow>
        c\<lparr> cl_file := file, cl_node := (cl_node c)(i := n) \<rparr>)"

inductive cluster_reach :: "pylib \<Rightarrow> real \<Rightarrow> cluster \<Rightarrow> bool" for L ttl where
  boot: "cl_file c = None \<Longrightarrow> \<forall>i. fo_node_id (cl_node c i) = i \<and> \<not> fo_is_primary (cl_node c i)
      \<and> fs_enabled (fo_settings (cl_node c i)) \<and> fs_lease_ttl_seconds (fo_settings (cl_node c i)) = ttl
      \<Longrightarrow> cluster_reach L ttl c"
| beat: "cluster_reach L ttl c \<Longrightarrow> cl_now c \<le> moment \<Longrightarrow> io_good io
      \<Longrightarrow> cluster_reach L ttl (cl_heartbeat L io moment i c)"
| leave: "cluster_reach L ttl c \<Longrightarrow> io_good io \<Longrightarrow> cluster_reach L ttl (cl_release L io i c)"

text \<open>
  The invariant: the lease of the file, if any, was written by a node at its last heartbeat, and every
  primary either holds it, or has not beaten for longer than the time to live.
\<close>

definition lease_of :: "json_file \<Rightarrow> lease option \<Rightarrow> bool" where
  "lease_of file l \<longleftrightarrow> file = map_option (\<lambda>x. JsonText (JObj (lease_to_dict x))) l"

definition stale :: "real \<Rightarrow> cluster \<Rightarrow> string \<Rightarrow> bool" where
  "stale ttl c i \<longleftrightarrow> cl_now c - cl_beat c i > ttl"

definition nodes_ok :: "real \<Rightarrow> cluster \<Rightarrow> bool" where
  "nodes_ok ttl c \<longleftrightarrow> (\<forall>i. fo_node_id (cl_node c i) = i \<and> fs_enabled (fo_settings (cl_node c i))
        \<and> fs_lease_ttl_seconds (fo_settings (cl_node c i)) = ttl)"

definition lease_held :: "real \<Rightarrow> cluster \<Rightarrow> lease option \<Rightarrow> bool" where
  "lease_held ttl c l \<longleftrightarrow> lease_of (cl_file c) l \<and> (\<forall>x. l = Some x \<longrightarrow> ls_updated_at x \<le> cl_now c)
     \<and> (\<forall>i. fo_is_primary (cl_node c i) \<longrightarrow>
          stale ttl c i \<or> (\<exists>x. l = Some x \<and> ls_node_id x = i \<and> ls_updated_at x = cl_beat c i))"

definition cluster_inv :: "real \<Rightarrow> cluster \<Rightarrow> bool" where
  "cluster_inv ttl c \<longleftrightarrow> nodes_ok ttl c \<and> (\<exists>l. lease_held ttl c l)"

lemma read_lease_of:
  "io_read_ok io \<Longrightarrow> lease_of file l \<Longrightarrow> read_lease L io file = l"
  by (cases l) (simp_all add: lease_of_def)

lemma heartbeat_enabled:
  assumes "io_good io" "lease_of file l" "fs_enabled (fo_settings n)"
  shows "fo_is_primary (fst (snd (heartbeat L io moment n file))) = may_hold moment n l"
    "lease_of (snd (snd (heartbeat L io moment n file)))
       (if may_hold moment n l then Some \<lparr> ls_node_id = fo_node_id n, ls_updated_at = moment \<rparr> else l)"
    "fo_settings (fst (snd (heartbeat L io moment n file))) = fo_settings n"
    "fo_node_id (fst (snd (heartbeat L io moment n file))) = fo_node_id n"
  using assms by (simp_all add: heartbeat_def io_good_def read_lease_of commit_primary commit_file)
    (simp_all add: lease_of_def)

lemma cl_heartbeat_fields:
  "cl_file (cl_heartbeat L io moment i c) = snd (snd (heartbeat L io moment (cl_node c i) (cl_file c)))"
  "cl_node (cl_heartbeat L io moment i c)
     = (cl_node c)(i := fst (snd (heartbeat L io moment (cl_node c i) (cl_file c))))"
  "cl_beat (cl_heartbeat L io moment i c) = (cl_beat c)(i := moment)"
  "cl_now (cl_heartbeat L io moment i c) = moment"
  by (simp_all add: cl_heartbeat_def split: prod.splits)

lemma cluster_inv_heartbeat:
  assumes inv: "cluster_inv ttl c" and now: "cl_now c \<le> moment" and io: "io_good io"
  shows "cluster_inv ttl (cl_heartbeat L io moment i c)"
proof -
  from inv obtain l where held_l: "lease_held ttl c l" and "nodes_ok ttl c"
    unfolding cluster_inv_def by blast
  then have ids: "\<And>j. fo_node_id (cl_node c j) = j" and on: "\<And>j. fs_enabled (fo_settings (cl_node c j))"
    and ttls: "\<And>j. fs_lease_ttl_seconds (fo_settings (cl_node c j)) = ttl"
    by (simp_all add: nodes_ok_def)
  have l: "lease_of (cl_file c) l" "\<And>x. l = Some x \<Longrightarrow> ls_updated_at x \<le> cl_now c"
      "\<And>j. fo_is_primary (cl_node c j) \<Longrightarrow>
         stale ttl c j \<or> (\<exists>x. l = Some x \<and> ls_node_id x = j \<and> ls_updated_at x = cl_beat c j)"
    using held_l by (simp_all add: lease_held_def)
  let ?n = "cl_node c i" and ?c = "cl_heartbeat L io moment i c"
  note hb = heartbeat_enabled [OF io l(1) on, of L moment i]
  let ?l = "if may_hold moment ?n l then Some \<lparr> ls_node_id = i, ls_updated_at = moment \<rparr> else l"
  have lease: "lease_of (cl_file ?c) ?l" using hb(2) unfolding cl_heartbeat_fields ids .
  have young: "ls_updated_at x \<le> moment" if "?l = Some x" for x
    using that l(2) now by (fastforce split: if_splits)
  have held: "stale ttl ?c j \<or> (\<exists>x. ?l = Some x \<and> ls_node_id x = j \<and> ls_updated_at x = cl_beat ?c j)"
    if primary: "fo_is_primary (cl_node ?c j)" for j
  proof (cases "j = i")
    case True
    then show ?thesis using primary hb(1) by (simp add: cl_heartbeat_fields)
  next
    case False
    then have "fo_is_primary (cl_node c j)" using primary by (simp add: cl_heartbeat_fields)
    from l(3) [OF this] show ?thesis
    proof
      assume "stale ttl c j"
      then show ?thesis using False now by (simp add: stale_def cl_heartbeat_fields)
    next
      assume "\<exists>x. l = Some x \<and> ls_node_id x = j \<and> ls_updated_at x = cl_beat c j"
      then obtain x where x: "l = Some x" "ls_node_id x = j" "ls_updated_at x = cl_beat c j" by blast
      show ?thesis
      proof (cases "may_hold moment ?n l")
        case True
        then have "moment - cl_beat c j > ttl" using x False ids ttls by (simp add: may_hold_def)
        then show ?thesis using False by (simp add: stale_def cl_heartbeat_fields)
      next
        case no: False
        then show ?thesis using False x by (simp add: cl_heartbeat_fields)
      qed
    qed
  qed
  have "nodes_ok ttl ?c"
    using hb(3,4) ids on ttls by (simp add: nodes_ok_def cl_heartbeat_fields)
  moreover have "lease_held ttl ?c ?l"
    unfolding lease_held_def using lease young held by (simp add: cl_heartbeat_fields(4))
  ultimately show ?thesis unfolding cluster_inv_def by blast
qed

lemma release_fields:
  assumes "io_good io" "lease_of file l" "fs_enabled (fo_settings n)"
  shows "\<not> fo_is_primary (fst (fo_release L io n file))"
    "fo_settings (fst (fo_release L io n file)) = fo_settings n" "fo_node_id (fst (fo_release L io n file)) = fo_node_id n"
    "lease_of (snd (fo_release L io n file))
       (case l of Some x \<Rightarrow> if ls_node_id x = fo_node_id n then None else l | None \<Rightarrow> None)"
  using assms read_lease_of [OF _ assms(2), of io L]
  by (auto simp: fo_release_def Let_def io_good_def lease_of_def split: option.splits)

lemma cluster_inv_release:
  assumes inv: "cluster_inv ttl c" and io: "io_good io"
  shows "cluster_inv ttl (cl_release L io i c)"
proof -
  from inv obtain l where held_l: "lease_held ttl c l" and "nodes_ok ttl c"
    unfolding cluster_inv_def by blast
  then have ids: "\<And>j. fo_node_id (cl_node c j) = j" and on: "\<And>j. fs_enabled (fo_settings (cl_node c j))"
    and ttls: "\<And>j. fs_lease_ttl_seconds (fo_settings (cl_node c j)) = ttl"
    by (simp_all add: nodes_ok_def)
  have l: "lease_of (cl_file c) l" "\<And>x. l = Some x \<Longrightarrow> ls_updated_at x \<le> cl_now c"
      "\<And>j. fo_is_primary (cl_node c j) \<Longrightarrow>
         stale ttl c j \<or> (\<exists>x. l = Some x \<and> ls_node_id x = j \<and> ls_updated_at x = cl_beat c j)"
    using held_l by (simp_all add: lease_held_def)
  let ?c = "cl_release L io i c"
  have fields: "cl_file ?c = snd (fo_release L io (cl_node c i) (cl_file c))"
    "cl_node ?c = (cl_node c)(i := fst (fo_release L io (cl_node c i) (cl_file c)))"
    "cl_beat ?c = cl_beat c" "cl_now ?c = cl_now c"
    by (simp_all add: cl_release_def split: prod.splits)
  note rel = release_fields [OF io l(1) on, of L i]
  let ?l = "case l of Some x \<Rightarrow> if ls_node_id x = i then None else l | None \<Rightarrow> None"
  have lease: "lease_of (cl_file ?c) ?l" using rel(4) unfolding fields ids .
  have held: "stale ttl ?c j \<or> (\<exists>x. ?l = Some x \<and> ls_node_id x = j \<and> ls_updated_at x = cl_beat ?c j)"
    if primary: "fo_is_primary (cl_node ?c j)" for j
  proof -
    have "j \<noteq> i" "fo_is_primary (cl_node c j)" using primary rel(1) by (auto simp: fields split: if_splits)
    then show ?thesis using l(3) [of j] by (auto simp: fields stale_def)
  qed
  have "nodes_ok ttl ?c"
    using rel(2,3) ids on ttls by (simp add: nodes_ok_def fields)
  moreover have "ls_updated_at x \<le> cl_now c" if "?l = Some x" for x
    using that l(2) by (auto split: option.splits if_splits)
  then have "lease_held ttl ?c ?l"
    unfolding lease_held_def using lease held by (simp add: fields)
  ultimately show ?thesis unfolding cluster_inv_def by blast
qed

lemma cluster_reach_inv: "cluster_reach L ttl c \<Longrightarrow> cluster_inv ttl c"
proof (induction rule: cluster_reach.induct)
  case (boot c)
  then show ?case by (auto simp: cluster_inv_def nodes_ok_def lease_held_def lease_of_def intro!: exI [of _ "None :: lease option"])
qed (simp_all add: cluster_inv_heartbeat cluster_inv_release)

section \<open>Properties\<close>

text \<open>
  Property C20: one fresh leader.  While every heartbeat finds a working file and runs undisturbed, of
  any two nodes that both believe to be primary at most one has beaten within the time to live of the
  lease: the other is the old leader that has not noticed yet.
\<close>

theorem failover_one_fresh_primary:
  assumes "cluster_reach L ttl c" "fo_is_primary (cl_node c i)" "fo_is_primary (cl_node c j)" "i \<noteq> j"
  shows "cl_now c - cl_beat c i > ttl \<or> cl_now c - cl_beat c j > ttl"
proof -
  obtain l where "lease_held ttl c l"
    using cluster_reach_inv [OF assms(1)] by (auto simp: cluster_inv_def)
  then have "stale ttl c k \<or> (\<exists>x. l = Some x \<and> ls_node_id x = k)" if "fo_is_primary (cl_node c k)" for k
    using that by (auto simp: lease_held_def)
  from this [OF assms(2)] this [OF assms(3)] assms(4) show ?thesis by (auto simp: stale_def)
qed

definition two_nodes :: cluster where
  "two_nodes = \<lparr> cl_file = None,
     cl_node = (\<lambda>i. \<lparr> fo_settings = \<lparr> fs_enabled = True, fs_node_id = i, fs_lease_ttl_seconds = 30 \<rparr>,
        fo_node_id = i, fo_is_primary = False, fo_audit = None \<rparr>),
     cl_beat = (\<lambda>i. 0), cl_now = 0 \<rparr>"

lemma two_nodes_reach: "cluster_reach L 30 two_nodes"
  by (rule cluster_reach.boot) (simp_all add: two_nodes_def)

text \<open>Node \<open>a\<close> leads, node \<open>b\<close> takes over 40 seconds later, and \<open>a\<close> still believes to lead.\<close>

definition takeover :: "pylib \<Rightarrow> cluster" where
  "takeover L = cl_heartbeat L (fine_io 0) 41 ''b'' (cl_heartbeat L (fine_io 0) 1 ''a'' two_nodes)"

lemma takeover_nodes:
  "fo_is_primary (cl_node (takeover L) ''a'')" "fo_is_primary (cl_node (takeover L) ''b'')"
  "cl_beat (takeover L) ''b'' = 41" "cl_now (takeover L) = 41"
proof -
  have "cl_file (cl_heartbeat L (fine_io 0) 1 ''a'' two_nodes)
      = Some (JsonText (JObj (lease_to_dict \<lparr> ls_node_id = ''a'', ls_updated_at = 1 \<rparr>)))"
    by (simp add: cl_heartbeat_fields two_nodes_def heartbeat_def commit_file may_hold_def)
  then show "fo_is_primary (cl_node (takeover L) ''a'')" "fo_is_primary (cl_node (takeover L) ''b'')"
    "cl_beat (takeover L) ''b'' = 41" "cl_now (takeover L) = 41"
    by (simp_all add: takeover_def cl_heartbeat_fields heartbeat_def commit_primary may_hold_def)
      (simp_all add: two_nodes_def cl_heartbeat_fields)
qed

theorem failover_one_fresh_primary_witness:
  "\<forall>L. fo_is_primary (cl_node (takeover L) ''a'') \<and> fo_is_primary (cl_node (takeover L) ''b'')
     \<and> cl_now (takeover L) - cl_beat (takeover L) ''a'' > 30"
proof
  fix L
  have "cluster_reach L 30 (takeover L)"
    unfolding takeover_def
    by (intro cluster_reach.beat two_nodes_reach) (simp_all add: cl_heartbeat_fields, simp add: two_nodes_def)
  from failover_one_fresh_primary [OF this, of "''a''" "''b''"]
  show "fo_is_primary (cl_node (takeover L) ''a'') \<and> fo_is_primary (cl_node (takeover L) ''b'')
     \<and> cl_now (takeover L) - cl_beat (takeover L) ''a'' > 30"
    by (simp add: takeover_nodes)
qed

text \<open>
  Property C21: two fresh leaders are possible all the same.  A node that cannot read the lease takes
  it, however fresh the lease of another node is; and two nodes that both read an expired lease before
  either writes both become primary.
\<close>

theorem failover_split_brain:
  assumes "fs_enabled (fo_settings n)" "io_write_fail io = None"
  shows "(\<not> io_read_ok io \<longrightarrow> fo_is_primary (fst (snd (heartbeat L io moment n file))))
    \<and> (\<forall>m. may_hold moment m seen \<longrightarrow> may_hold moment n seen \<longrightarrow>
        fo_is_primary (fst (snd (fo_commit io moment seen m file)))
        \<and> fo_is_primary (fst (snd (fo_commit io moment seen n (snd (snd (fo_commit io moment seen m file)))))))"
  using assms by (simp add: heartbeat_def commit_primary read_lease_def may_hold_def)

theorem failover_split_brain_witness:
  "\<forall>L. fo_is_primary (fst (snd (heartbeat L ((fine_io 0)\<lparr> io_read_ok := False \<rparr>) 2 (cl_node two_nodes ''b'')
      (Some (JsonText (JObj (lease_to_dict \<lparr> ls_node_id = ''a'', ls_updated_at = 1 \<rparr>)))))))"
  using failover_split_brain [of "cl_node two_nodes ''b''" "(fine_io 0)\<lparr> io_read_ok := False \<rparr>" _ 2]
  by (simp add: two_nodes_def)

end
