(* ===== verification/Operations.thy ===== *)
theory Operations
  imports Audit_Log
begin

text \<open>
  The small operational services of the production layer: the maintenance window and its cleanup of
  old files (\<open>maintenance/manager.py\<close>), and the licence facade (\<open>licenses/manager.py\<close>).
\<close>

section \<open>Maintenance\<close>

record maintenance =
  mt_enabled :: bool
  mt_temp_max_age_hours :: real
  mt_cleanup_dirs :: "string list"
  mt_audit :: "audit_log option"
  mt_active :: bool
  mt_reason :: string

definition mt_new :: "bool \<Rightarrow> real \<Rightarrow> string list \<Rightarrow> audit_log option \<Rightarrow> maintenance" where
  "mt_new enabled age dirs audit = \<lparr> mt_enabled = enabled, mt_temp_max_age_hours = age,
     mt_cleanup_dirs = dirs, mt_audit = audit, mt_active = False, mt_reason = [] \<rparr>"

definition mt_status :: "maintenance \<Rightarrow> json_dict" where
  "mt_status m =
     [(''enabled'', JBool (mt_enabled m)), (''active'', JBool (mt_active m)), (''reason'', JStr (mt_reason m)),
      (''cleanup_dirs'', JList (map JStr (mt_cleanup_dirs m)))]"

definition mt_enter :: "sys_io \<Rightarrow> string \<Rightarrow> string \<Rightarrow> maintenance \<Rightarrow> json_dict \<times> maintenance" where
  "mt_enter io actor reason m =
     (let m1 = m\<lparr> mt_active := True, mt_reason := reason,
            mt_audit := map_option (au_record io MAINTENANCE_STARTED actor (Some ''maintenance'') JNull JNull
               [(''reason'', JStr reason)]) (mt_audit m) \<rparr>
      in (mt_status m1, m1))"

definition mt_exit :: "sys_io \<Rightarrow> string \<Rightarrow> maintenance \<Rightarrow> json_dict \<times> maintenance" where
  "mt_exit io actor m =
     (let m1 = m\<lparr> mt_active := False, mt_reason := [],
            mt_audit := map_option (au_record io MAINTENANCE_FINISHED actor (Some ''maintenance'') JNull JNull
               [(''reason'', JStr (mt_reason m))]) (mt_audit m) \<rparr>
      in (mt_status m1, m1))"

text \<open>
  A file below a cleanup directory: its path, its modification time in epoch seconds, its size, and
  whether the system refuses to stat or unlink it (\<open>OSError\<close>).  The file system maps every existing
  directory to the files below it (no configured directory lies inside another).
\<close>

record disk_file =
  df_path :: string
  df_mtime :: real
  df_size :: nat
  df_refused :: bool

type_synonym file_tree = "string \<Rightarrow> disk_file list option"

definition stale_file :: "real \<Rightarrow> disk_file \<Rightarrow> bool" where
  "stale_file cutoff f \<longleftrightarrow> \<not> df_refused f \<and> df_mtime f < cutoff"

definition mt_cutoff :: "real \<Rightarrow> maintenance \<Rightarrow> real" where
  "mt_cutoff now m = now - mt_temp_max_age_hours m * 3600"

fun clean_dirs :: "real \<Rightarrow> string list \<Rightarrow> nat \<Rightarrow> nat \<Rightarrow> file_tree \<Rightarrow> (nat \<times> nat) \<times> file_tree" where
  "clean_dirs cutoff [] removed freed fs = ((removed, freed), fs)"
| "clean_dirs cutoff (d # ds) removed freed fs =
     (case fs d of
        None \<Rightarrow> clean_dirs cutoff ds removed freed fs
      | Some files \<Rightarrow>
          let old = filter (stale_file cutoff) files in
          clean_dirs cutoff ds (removed + length old) (freed + sum_list (map df_size old))
            (fs(d \<mapsto> filter (\<lambda>f. \<not> stale_file cutoff f) files)))"

definition mt_cleanup :: "real \<Rightarrow> maintenance \<Rightarrow> file_tree \<Rightarrow> (nat \<times> nat) \<times> file_tree" where
  "mt_cleanup now m fs = clean_dirs (mt_cutoff now m) (mt_cleanup_dirs m) 0 0 fs"

section \<open>Licences\<close>

record license_status =
  li_enabled :: bool
  li_valid :: bool
  li_plan :: string
  li_holder :: string

definition li_to_dict :: "license_status \<Rightarrow> json_dict" where
  "li_to_dict s = [(''enabled'', JBool (li_enabled s)), (''valid'', JBool (li_valid s)),
     (''plan'', JStr (li_plan s)), (''holder'', JStr (li_holder s))]"

definition li_of :: "bool \<Rightarrow> bool \<Rightarrow> string \<Rightarrow> string \<Rightarrow> license_status" where
  "li_of en v plan holder = \<lparr> li_enabled = en, li_valid = v, li_plan = plan, li_holder = holder \<rparr>"

text \<open>A file with JSON other than an object raises \<open>AttributeError\<close>, which the source does not catch.\<close>

definition load_license :: "pylib \<Rightarrow> sys_io \<Rightarrow> json_file \<Rightarrow> py_error + license_status" where
  "load_license L io file =
     (case file of
        None \<Rightarrow> Inr (li_of True False ''unlicensed'' [])
      | Some text \<Rightarrow>
          if \<not> io_read_ok io then Inr (li_of True False ''invalid'' []) else
          (case text of
             BadText \<Rightarrow> Inr (li_of True False ''invalid'' [])
           | JsonText (JObj d) \<Rightarrow> Inr (li_of True (py_bool (jget d ''valid'' (JBool True)))
               (py_str L (jget d ''plan'' (JStr ''custom''))) (py_str L (jget d ''holder'' (JStr []))))
           | JsonText j \<Rightarrow> Inl AttributeError))"

definition validate_license ::
  "pylib \<Rightarrow> sys_io \<Rightarrow> bool \<Rightarrow> json_file \<Rightarrow> audit_log option \<Rightarrow> py_error + license_status \<times> audit_log option" where
  "validate_license L io enabled file audit =
     ebind (if \<not> enabled then Inr (li_of False True ''unrestricted'' []) else load_license L io file) (\<lambda>s.
       Inr (s, map_option (au_record io LICENSE_VALIDATED ''system'' (Some ''license'') JNull (JObj (li_to_dict s)) [])
          audit))"

definition is_feature_enabled :: "string \<Rightarrow> bool" where
  "is_feature_enabled feature = True"

section \<open>Lemmas\<close>

text \<open>The cleanup keeps every file of every directory that is recent or refused, and touches nothing
  outside the configured directories.\<close>

lemma clean_dirs_outside: "d \<notin> set ds \<Longrightarrow> snd (clean_dirs cutoff ds r b fs) d = fs d"
  by (induction cutoff ds r b fs rule: clean_dirs.induct) (auto simp: Let_def split: option.splits)

lemma clean_dirs_inside:
  "d \<in> set ds \<Longrightarrow> snd (clean_dirs cutoff ds r b fs) d
     = map_option (filter (\<lambda>f. \<not> stale_file cutoff f)) (fs d)"
proof (induction cutoff ds r b fs rule: clean_dirs.induct)
  case (2 cutoff d' ds r b fs)
  show ?case
  proof (cases "d \<in> set ds")
    case True
    then show ?thesis using 2 by (cases "fs d'") (simp_all add: Let_def fun_upd_def)
  next
    case False
    then show ?thesis using 2 by (cases "fs d'") (simp_all add: Let_def clean_dirs_outside)
  qed
qed simp

lemma cleanup_spec:
  "snd (mt_cleanup now m fs) d =
     (if d \<in> set (mt_cleanup_dirs m)
      then map_option (filter (\<lambda>f. \<not> stale_file (mt_cutoff now m) f)) (fs d) else fs d)"
  by (simp add: mt_cleanup_def clean_dirs_inside clean_dirs_outside)

lemma window_round_trip: "mt_active (snd (mt_enter io actor reason m)) \<and> \<not> mt_active (snd (mt_exit io' actor' (snd (mt_enter io actor reason m))))"
  by (simp add: mt_enter_def mt_exit_def Let_def)

text \<open>A licence that cannot be read or is missing is never valid.\<close>

lemma license_fail_closed:
  "load_license L io file = Inr s \<Longrightarrow> li_valid s \<Longrightarrow> \<exists>d. file = Some (JsonText (JObj d)) \<and> io_read_ok io"
  by (auto simp: load_license_def li_of_def split: option.splits file_text.splits json.splits if_splits)

end
