(* ===== verification/Market_Models.thy ===== *)
theory Market_Models
  imports Exec_Models Atr Json
begin

text \<open>
  The market data objects of \<open>app/market/models\<close>: the enumerations, the time frames with their
  bucket arithmetic, and the objects with their derived values and their JSON documents.  The ticker
  and the candle extend the records the execution layer and the ATR read.  Instants are aware UTC
  instants; where the code looks at the time zone, the operation takes it as an argument.
\<close>

section \<open>Enumerations and time frames\<close>

datatype trade_side = TS_BUY | TS_SELL | TS_UNKNOWN

definition trade_side_value :: "trade_side \<Rightarrow> string" where
  "trade_side_value s = (case s of TS_BUY \<Rightarrow> ''buy'' | TS_SELL \<Rightarrow> ''sell'' | TS_UNKNOWN \<Rightarrow> ''unknown'')"

datatype timeframe =
  TF_TICK | TF_S1 | TF_S5 | TF_S15 | TF_S30 | TF_M1 | TF_M3 | TF_M5 | TF_M15 | TF_M30
| TF_H1 | TF_H4 | TF_D1 | TF_W1 | TF_MN1

definition tf_value :: "timeframe \<Rightarrow> string" where
  "tf_value tf = (case tf of TF_TICK \<Rightarrow> ''tick'' | TF_S1 \<Rightarrow> ''1s'' | TF_S5 \<Rightarrow> ''5s'' | TF_S15 \<Rightarrow> ''15s''
     | TF_S30 \<Rightarrow> ''30s'' | TF_M1 \<Rightarrow> ''1m'' | TF_M3 \<Rightarrow> ''3m'' | TF_M5 \<Rightarrow> ''5m'' | TF_M15 \<Rightarrow> ''15m''
     | TF_M30 \<Rightarrow> ''30m'' | TF_H1 \<Rightarrow> ''1h'' | TF_H4 \<Rightarrow> ''4h'' | TF_D1 \<Rightarrow> ''1d'' | TF_W1 \<Rightarrow> ''1w''
     | TF_MN1 \<Rightarrow> ''1M'')"

definition all_timeframes :: "timeframe list" where
  "all_timeframes = [TF_TICK, TF_S1, TF_S5, TF_S15, TF_S30, TF_M1, TF_M3, TF_M5, TF_M15, TF_M30,
     TF_H1, TF_H4, TF_D1, TF_W1, TF_MN1]"

text \<open>\<open>Timeframe(s)\<close>: a \<open>ValueError\<close> on any other text.\<close>

definition parse_timeframe :: "string \<Rightarrow> py_error + timeframe" where
  "parse_timeframe s = (case find (\<lambda>tf. tf_value tf = s) all_timeframes of
       None \<Rightarrow> Inl ValueError | Some tf \<Rightarrow> Inr tf)"

definition tf_seconds :: "timeframe \<Rightarrow> int option" where
  "tf_seconds tf = (case tf of TF_TICK \<Rightarrow> None | TF_S1 \<Rightarrow> Some 1 | TF_S5 \<Rightarrow> Some 5 | TF_S15 \<Rightarrow> Some 15
     | TF_S30 \<Rightarrow> Some 30 | TF_M1 \<Rightarrow> Some 60 | TF_M3 \<Rightarrow> Some 180 | TF_M5 \<Rightarrow> Some 300 | TF_M15 \<Rightarrow> Some 900
     | TF_M30 \<Rightarrow> Some 1800 | TF_H1 \<Rightarrow> Some 3600 | TF_H4 \<Rightarrow> Some 14400 | TF_D1 \<Rightarrow> Some 86400
     | TF_W1 \<Rightarrow> Some 604800 | TF_MN1 \<Rightarrow> None)"

text \<open>\<open>int(moment.timestamp())\<close> truncates the seconds towards zero.\<close>

definition bucket_start :: "timeframe \<Rightarrow> time \<Rightarrow> py_error + time" where
  "bucket_start tf t = (case tf of
       TF_TICK \<Rightarrow> Inl ValueError
     | TF_MN1 \<Rightarrow> Inr (start_of_month t)
     | TF_W1 \<Rightarrow> Inr (start_of_week t)
     | _ \<Rightarrow> (case tf_seconds tf of
           None \<Rightarrow> Inl (KeyError (tf_value tf))
         | Some step \<Rightarrow> let epoch = py_int (total_seconds t) in Inr ((epoch - epoch mod step) * second_us)))"

text \<open>\<open>start.replace(month = ...)\<close> raises when the day does not exist in that month.\<close>

definition bucket_end :: "timeframe \<Rightarrow> time \<Rightarrow> py_error + time" where
  "bucket_end tf start = (case tf of
       TF_TICK \<Rightarrow> Inl ValueError
     | TF_MN1 \<Rightarrow> (case civil_from_days (start div day_us) of (y, m, d) \<Rightarrow>
          let c = (if m = 12 then (y + 1, 1, d) else (y, m + 1, d)); n = days_from_civil c in
          if civil_from_days n = c then Inr (n * day_us + start mod day_us) else Inl ValueError)
     | _ \<Rightarrow> (case tf_seconds tf of
           None \<Rightarrow> Inl (KeyError (tf_value tf))
         | Some step \<Rightarrow> Inr (start + step * second_us)))"

section \<open>Objects\<close>

definition latency_ms :: "time \<Rightarrow> time \<Rightarrow> real" where
  "latency_ms exchange_ts local_ts = total_seconds (local_ts - exchange_ts) * 1000"

definition json_iso :: "time option \<Rightarrow> json" where
  "json_iso t = (case t of None \<Rightarrow> JNull | Some m \<Rightarrow> JStr (iso m))"

record md_ticker = ticker +
  tk_provider :: string
  tk_bid_size :: real
  tk_ask_size :: real
  tk_last :: "real option"
  tk_mark_price :: "real option"
  tk_index_price :: "real option"
  tk_exchange_ts :: time
  tk_local_ts :: time

definition tk_latency_ms :: "md_ticker \<Rightarrow> real" where
  "tk_latency_ms t = latency_ms (tk_exchange_ts t) (tk_local_ts t)"

definition tk_to_dict :: "md_ticker \<Rightarrow> json_dict" where
  "tk_to_dict t = [(''symbol'', JStr (tk_symbol t)), (''provider'', JStr (tk_provider t)),
     (''bid'', JNum (tk_bid t)), (''ask'', JNum (tk_ask t)), (''bid_size'', JNum (tk_bid_size t)),
     (''ask_size'', JNum (tk_ask_size t)), (''last'', json_opt (tk_last t)), (''mid'', JNum (tk_mid t)),
     (''spread'', JNum (tk_spread t)), (''spread_bps'', JNum (tk_spread_bps t)),
     (''mark_price'', json_opt (tk_mark_price t)), (''index_price'', json_opt (tk_index_price t)),
     (''exchange_ts'', json_iso (Some (tk_exchange_ts t))), (''local_ts'', json_iso (Some (tk_local_ts t))),
     (''latency_ms'', JNum (tk_latency_ms t))]"

record md_trade =
  td_symbol :: string
  td_provider :: string
  td_trade_id :: string
  td_price :: real
  td_size :: real
  td_side :: trade_side
  td_exchange_ts :: time
  td_local_ts :: time

definition td_notional :: "md_trade \<Rightarrow> real" where
  "td_notional t = td_price t * td_size t"

definition td_latency_ms :: "md_trade \<Rightarrow> real" where
  "td_latency_ms t = latency_ms (td_exchange_ts t) (td_local_ts t)"

definition td_to_dict :: "md_trade \<Rightarrow> json_dict" where
  "td_to_dict t = [(''symbol'', JStr (td_symbol t)), (''provider'', JStr (td_provider t)),
     (''trade_id'', JStr (td_trade_id t)), (''price'', JNum (td_price t)), (''size'', JNum (td_size t)),
     (''side'', JStr (trade_side_value (td_side t))),
     (''exchange_ts'', json_iso (Some (td_exchange_ts t))), (''local_ts'', json_iso (Some (td_local_ts t))),
     (''latency_ms'', JNum (td_latency_ms t))]"

record md_candle = candle +
  cd_symbol :: string
  cd_provider :: string
  cd_timeframe :: timeframe
  cd_start :: time
  cd_end :: time
  cd_buy_volume :: real
  cd_sell_volume :: real
  cd_vwap :: real
  cd_trades :: int
  cd_closed :: bool
  cd_source :: string

text \<open>The OHLCV view of a candle is the record the indicators read.\<close>

definition ohlcv_of :: "md_candle \<Rightarrow> candle" where
  "ohlcv_of c = candle.truncate c"

definition ohlcv_to_dict :: "candle \<Rightarrow> json_dict" where
  "ohlcv_to_dict c = [(''open'', JNum (cd_open c)), (''high'', JNum (cd_high c)), (''low'', JNum (cd_low c)),
     (''close'', JNum (cd_close c)), (''volume'', JNum (cd_volume c))]"

definition cd_to_dict :: "md_candle \<Rightarrow> json_dict" where
  "cd_to_dict c = [(''symbol'', JStr (cd_symbol c)), (''provider'', JStr (cd_provider c)),
     (''timeframe'', JStr (tf_value (cd_timeframe c))), (''start'', json_iso (Some (cd_start c))),
     (''end'', json_iso (Some (cd_end c))), (''open'', JNum (cd_open c)), (''high'', JNum (cd_high c)),
     (''low'', JNum (cd_low c)), (''close'', JNum (cd_close c)), (''volume'', JNum (cd_volume c)),
     (''buy_volume'', JNum (cd_buy_volume c)), (''sell_volume'', JNum (cd_sell_volume c)),
     (''vwap'', JNum (cd_vwap c)), (''trades'', JInt (cd_trades c)), (''closed'', JBool (cd_closed c)),
     (''source'', JStr (cd_source c))]"

record depth_level =
  lv_price :: real
  lv_size :: real

definition lv_to_dict :: "depth_level \<Rightarrow> json_dict" where
  "lv_to_dict l = [(''price'', JNum (lv_price l)), (''size'', JNum (lv_size l))]"

record order_book =
  bk_symbol :: string
  bk_provider :: string
  bk_bids :: "depth_level list"
  bk_asks :: "depth_level list"
  bk_sequence :: int
  bk_exchange_ts :: time
  bk_local_ts :: time

definition first_level :: "depth_level list \<Rightarrow> depth_level option" where
  "first_level ls = (case ls of [] \<Rightarrow> None | l # _ \<Rightarrow> Some l)"

definition best_bid :: "order_book \<Rightarrow> depth_level option" where
  "best_bid b = first_level (bk_bids b)"

definition best_ask :: "order_book \<Rightarrow> depth_level option" where
  "best_ask b = first_level (bk_asks b)"

definition bk_spread :: "order_book \<Rightarrow> real option" where
  "bk_spread b = (case (best_bid b, best_ask b) of
       (Some bid, Some ask) \<Rightarrow> Some (lv_price ask - lv_price bid) | _ \<Rightarrow> None)"

definition bk_mid :: "order_book \<Rightarrow> real option" where
  "bk_mid b = (case (best_bid b, best_ask b) of
       (Some bid, Some ask) \<Rightarrow> Some ((lv_price bid + lv_price ask) / 2) | _ \<Rightarrow> None)"

definition microprice :: "order_book \<Rightarrow> real option" where
  "microprice b = (case (best_bid b, best_ask b) of
       (Some bid, Some ask) \<Rightarrow>
         (let total = lv_size bid + lv_size ask in
          if total \<le> 0 then bk_mid b
          else Some ((lv_price bid * lv_size ask + lv_price ask * lv_size bid) / total))
     | _ \<Rightarrow> None)"

text \<open>\<open>levels\<close> is a number of levels per side; the callers pass a constant that is not negative.\<close>

definition depth :: "nat \<Rightarrow> order_book \<Rightarrow> real \<times> real" where
  "depth levels b = (sum_list (map lv_size (take levels (bk_bids b))), sum_list (map lv_size (take levels (bk_asks b))))"

definition balance_of :: "real \<Rightarrow> real \<Rightarrow> real" where
  "balance_of x y = (let total = x + y in if 0 < total then (x - y) / total else 0)"

definition imbalance :: "nat \<Rightarrow> order_book \<Rightarrow> real" where
  "imbalance levels b = (let (bid_depth, ask_depth) = depth levels b in balance_of bid_depth ask_depth)"

definition liquidity_within :: "real \<Rightarrow> order_book \<Rightarrow> real \<times> real" where
  "liquidity_within pct b = (case bk_mid b of
       None \<Rightarrow> (0, 0)
     | Some mid \<Rightarrow>
         (let low = mid * (1 - pct / 100); high = mid * (1 + pct / 100) in
          (sum_list (map lv_size (filter (\<lambda>l. lv_price l \<ge> low) (bk_bids b))),
           sum_list (map lv_size (filter (\<lambda>l. lv_price l \<le> high) (bk_asks b))))))"

definition level_weight :: "real \<Rightarrow> depth_level \<Rightarrow> real" where
  "level_weight mid l = (let distance_bps = \<bar>lv_price l - mid\<bar> / mid * 10000 in lv_size l / (1 + distance_bps))"

definition book_pressure :: "nat \<Rightarrow> order_book \<Rightarrow> real" where
  "book_pressure levels b = (case bk_mid b of
       None \<Rightarrow> 0
     | Some mid \<Rightarrow>
         if mid \<le> 0 then 0
         else balance_of (sum_list (map (level_weight mid) (take levels (bk_bids b))))
                         (sum_list (map (level_weight mid) (take levels (bk_asks b)))))"

definition bk_to_dict :: "nat \<Rightarrow> order_book \<Rightarrow> json_dict" where
  "bk_to_dict levels b = [(''symbol'', JStr (bk_symbol b)), (''provider'', JStr (bk_provider b)),
     (''bids'', JList (map (\<lambda>l. JObj (lv_to_dict l)) (take levels (bk_bids b)))),
     (''asks'', JList (map (\<lambda>l. JObj (lv_to_dict l)) (take levels (bk_asks b)))),
     (''sequence'', JInt (bk_sequence b)), (''best_bid'', json_opt (map_option lv_price (best_bid b))),
     (''best_ask'', json_opt (map_option lv_price (best_ask b))), (''spread'', json_opt (bk_spread b)),
     (''mid'', json_opt (bk_mid b)), (''microprice'', json_opt (microprice b)),
     (''imbalance'', JNum (imbalance levels b)), (''book_pressure'', JNum (book_pressure levels b)),
     (''exchange_ts'', json_iso (Some (bk_exchange_ts b))), (''local_ts'', json_iso (Some (bk_local_ts b)))]"

record book_delta =
  bd_symbol :: string
  bd_provider :: string
  bd_bids :: "depth_level list"
  bd_asks :: "depth_level list"
  bd_is_snapshot :: bool
  bd_first_sequence :: int
  bd_last_sequence :: int
  bd_exchange_ts :: time
  bd_local_ts :: time

record funding_rate =
  fr_symbol :: string
  fr_provider :: string
  fr_rate :: real
  fr_next_funding_ts :: "time option"
  fr_exchange_ts :: time
  fr_local_ts :: time

definition fr_to_dict :: "funding_rate \<Rightarrow> json_dict" where
  "fr_to_dict f = [(''symbol'', JStr (fr_symbol f)), (''provider'', JStr (fr_provider f)), (''rate'', JNum (fr_rate f)),
     (''next_funding_ts'', json_iso (fr_next_funding_ts f)), (''exchange_ts'', json_iso (Some (fr_exchange_ts f))),
     (''local_ts'', json_iso (Some (fr_local_ts f)))]"

record open_interest =
  op_symbol :: string
  op_provider :: string
  op_contracts :: real
  op_notional :: "real option"
  op_exchange_ts :: time
  op_local_ts :: time

definition op_to_dict :: "open_interest \<Rightarrow> json_dict" where
  "op_to_dict f = [(''symbol'', JStr (op_symbol f)), (''provider'', JStr (op_provider f)),
     (''contracts'', JNum (op_contracts f)), (''notional'', json_opt (op_notional f)),
     (''exchange_ts'', json_iso (Some (op_exchange_ts f))), (''local_ts'', json_iso (Some (op_local_ts f)))]"

record liquidation =
  ld_symbol :: string
  ld_provider :: string
  ld_side :: trade_side
  ld_price :: real
  ld_size :: real
  ld_exchange_ts :: time
  ld_local_ts :: time

definition ld_to_dict :: "liquidation \<Rightarrow> json_dict" where
  "ld_to_dict l = [(''symbol'', JStr (ld_symbol l)), (''provider'', JStr (ld_provider l)),
     (''side'', JStr (trade_side_value (ld_side l))), (''price'', JNum (ld_price l)), (''size'', JNum (ld_size l)),
     (''exchange_ts'', json_iso (Some (ld_exchange_ts l))), (''local_ts'', json_iso (Some (ld_local_ts l)))]"

record market_state =
  mk_symbol :: string
  mk_provider :: string
  mk_subscribed :: bool
  mk_connected :: bool
  mk_ticks_received :: int
  mk_last_update :: "time option"
  mk_staleness_seconds :: "real option"

definition mk_to_dict :: "market_state \<Rightarrow> json_dict" where
  "mk_to_dict s = [(''symbol'', JStr (mk_symbol s)), (''provider'', JStr (mk_provider s)),
     (''subscribed'', JBool (mk_subscribed s)), (''connected'', JBool (mk_connected s)),
     (''ticks_received'', JInt (mk_ticks_received s)), (''last_update'', json_iso (mk_last_update s)),
     (''staleness_seconds'', json_opt (mk_staleness_seconds s))]"

record market_snapshot =
  mp_symbol :: string
  mp_provider :: string
  mp_generated_at :: time
  mp_ticker :: "md_ticker option"
  mp_last_trade :: "md_trade option"
  mp_orderbook :: "order_book option"
  mp_candles :: "(string, md_candle) pydict"
  mp_funding :: "funding_rate option"
  mp_open_interest :: "open_interest option"

definition json_doc :: "('a \<Rightarrow> json_dict) \<Rightarrow> 'a option \<Rightarrow> json" where
  "json_doc f x = (case x of None \<Rightarrow> JNull | Some v \<Rightarrow> JObj (f v))"

definition mp_to_dict :: "market_snapshot \<Rightarrow> json_dict" where
  "mp_to_dict s = [(''symbol'', JStr (mp_symbol s)), (''provider'', JStr (mp_provider s)),
     (''generated_at'', json_iso (Some (mp_generated_at s))), (''ticker'', json_doc tk_to_dict (mp_ticker s)),
     (''last_trade'', json_doc td_to_dict (mp_last_trade s)), (''orderbook'', json_doc (bk_to_dict 10) (mp_orderbook s)),
     (''candles'', JObj (map (\<lambda>(tf, c). (tf, JObj (cd_to_dict c))) (mp_candles s))),
     (''funding'', json_doc fr_to_dict (mp_funding s)), (''open_interest'', json_doc op_to_dict (mp_open_interest s))]"

section \<open>Lemmas\<close>

lemma parse_timeframe_value [simp]: "parse_timeframe (tf_value tf) = Inr tf"
  by (cases tf) (simp_all add: parse_timeframe_def all_timeframes_def tf_value_def)

lemma tf_value_inj: "tf_value a = tf_value b \<longleftrightarrow> a = b"
  by (metis parse_timeframe_value sum.inject(2))

lemma balance_range:
  assumes "0 \<le> x" "0 \<le> y" shows "-1 \<le> balance_of x y \<and> balance_of x y \<le> 1"
  using assms by (auto simp: balance_of_def Let_def divide_simps)

definition sizes_ok :: "order_book \<Rightarrow> bool" where
  "sizes_ok b \<longleftrightarrow> (\<forall>l \<in> set (bk_bids b) \<union> set (bk_asks b). 0 \<le> lv_size l)"

lemma side_sum_nonneg:
  "(\<And>l. l \<in> set ls \<Longrightarrow> 0 \<le> f l) \<Longrightarrow> 0 \<le> sum_list (map f (take n ls) :: real list)"
  by (rule sum_list_nonneg_map) (meson in_set_takeD)

lemma imbalance_range: "sizes_ok b \<Longrightarrow> -1 \<le> imbalance n b \<and> imbalance n b \<le> 1"
  by (simp add: imbalance_def depth_def sizes_ok_def balance_range side_sum_nonneg)

lemma level_weight_nonneg: "0 < mid \<Longrightarrow> 0 \<le> lv_size l \<Longrightarrow> 0 \<le> level_weight mid l"
  by (simp add: level_weight_def)

lemma book_pressure_range:
  assumes "sizes_ok b" shows "-1 \<le> book_pressure n b \<and> book_pressure n b \<le> 1"
proof (cases "bk_mid b")
  case (Some mid)
  show ?thesis
  proof (cases "0 < mid")
    case True
    then have "book_pressure n b = balance_of (sum_list (map (level_weight mid) (take n (bk_bids b))))
        (sum_list (map (level_weight mid) (take n (bk_asks b))))"
      by (simp add: book_pressure_def Some)
    moreover have "0 \<le> sum_list (map (level_weight mid) (take n (bk_bids b)))"
      "0 \<le> sum_list (map (level_weight mid) (take n (bk_asks b)))"
      using assms True by (auto intro!: side_sum_nonneg level_weight_nonneg simp: sizes_ok_def)
    ultimately show ?thesis by (simp add: balance_range)
  qed (simp add: book_pressure_def Some)
qed (simp add: book_pressure_def)

text \<open>The microprice lies between the best prices.\<close>

lemma weighted_between:
  assumes "(a :: real) \<le> b" "0 \<le> p" "0 \<le> q" "0 < p + q"
  shows "a \<le> (a * p + b * q) / (p + q) \<and> (a * p + b * q) / (p + q) \<le> b"
proof -
  have "a * q \<le> b * q" "a * p \<le> b * p"
    using assms by (simp_all add: mult_right_mono)
  then have "a * (p + q) \<le> a * p + b * q" "a * p + b * q \<le> b * (p + q)"
    by (simp_all add: distrib_left)
  with assms(4) show ?thesis by (simp add: pos_le_divide_eq pos_divide_le_eq)
qed

lemma microprice_between:
  assumes "best_bid b = Some bid" "best_ask b = Some ask" "lv_price bid \<le> lv_price ask"
    "0 \<le> lv_size bid" "0 \<le> lv_size ask"
  shows "\<exists>p. microprice b = Some p \<and> lv_price bid \<le> p \<and> p \<le> lv_price ask"
proof (cases "lv_size bid + lv_size ask \<le> 0")
  case True
  then have "microprice b = bk_mid b" using assms(1,2) by (simp add: microprice_def)
  with assms(1-3) show ?thesis
    by (intro exI [of _ "(lv_price bid + lv_price ask) / 2"]) (simp add: bk_mid_def)
next
  case False
  then have "0 < lv_size ask + lv_size bid" by simp
  from weighted_between [OF assms(3,5,4) this] False show ?thesis
    by (simp add: microprice_def assms(1,2) add.commute)
qed

section \<open>Buckets\<close>

text \<open>From 1970 on, a bucket of fixed length or a week contains the instant it was made for.\<close>

lemma py_int_seconds: "0 \<le> t \<Longrightarrow> py_int (total_seconds t) = t div 1000000"
  by (simp add: py_int_def total_seconds_def floor_divide_of_int_eq [of t 1000000, simplified])

definition tf_span :: "timeframe \<Rightarrow> int" where
  "tf_span tf = (case tf_seconds tf of None \<Rightarrow> 0 | Some n \<Rightarrow> n * second_us)"

lemma fixed_bucket:
  assumes "tf_seconds tf = Some n" "tf \<noteq> TF_W1"
  shows "bucket_start tf t = Inr ((py_int (total_seconds t) - py_int (total_seconds t) mod n) * second_us)"
    "bucket_end tf s = Inr (s + n * second_us)" "0 < n"
  using assms by (cases tf; simp add: bucket_start_def bucket_end_def Let_def tf_seconds_def)+

lemma bucket_contains:
  assumes "0 \<le> t" "tf \<notin> {TF_TICK, TF_MN1}"
  obtains s where "bucket_start tf t = Inr s" "bucket_end tf s = Inr (s + tf_span tf)" "s \<le> t" "t < s + tf_span tf"
proof (cases "tf = TF_W1")
  case True
  have w: "0 \<le> weekday t" "weekday t < 7" by (simp_all add: weekday_def)
  have "t - t mod day_us \<le> t" "t < t - t mod day_us + day_us"
    by (simp_all add: day_us_def)
  with w have "start_of_week t \<le> t" "t < start_of_week t + 604800 * second_us"
    unfolding start_of_week_def start_of_day_def day_us_def second_us_def by linarith+
  then show ?thesis
    using True by (intro that [of "start_of_week t"])
      (simp_all add: bucket_start_def bucket_end_def tf_span_def tf_seconds_def)
next
  case False
  then obtain n where n: "tf_seconds tf = Some n"
    using assms(2) by (cases tf) (simp_all add: tf_seconds_def)
  note f = fixed_bucket [OF n False]
  let ?e = "t div 1000000"
  have "?e * 1000000 \<le> t" "t < ?e * 1000000 + 1000000"
    using div_bounds [of 1000000 t] by (simp_all add: mult.commute)
  moreover have "0 \<le> ?e mod n" "?e mod n < n" using f(3) by simp_all
  moreover from this have "?e mod n + 1 \<le> n" by simp
  ultimately have "(?e - ?e mod n) * second_us \<le> t" "t < (?e - ?e mod n) * second_us + n * second_us"
    unfolding second_us_def by (simp_all add: left_diff_distrib)
  then show ?thesis
    using f n assms(1) by (intro that [of "(?e - ?e mod n) * second_us"]) (simp_all add: tf_span_def py_int_seconds)
qed

end
