(* ===== verification/Candle_Aggregator.thy ===== *)
theory Candle_Aggregator
  imports Market_Models
begin

text \<open>
  \<open>app/market/aggregator/candles.py\<close>: candles of every configured time frame from the stream of
  trades (or quotes).  The reference of the equivalence below is the partition of the points of a
  symbol into groups, and the candle of a group read off its prices and sizes.
\<close>

section \<open>The building candle\<close>

record building =
  bu_symbol :: string
  bu_provider :: string
  bu_timeframe :: timeframe
  bu_start :: time
  bu_end :: time
  bu_open :: real
  bu_high :: real
  bu_low :: real
  bu_close :: real
  bu_volume :: real
  bu_buy_volume :: real
  bu_sell_volume :: real
  bu_notional :: real
  bu_trades :: int

text \<open>The arguments of \<open>_fold\<close>: one price point of a trade or of a quote.\<close>

record point =
  pt_symbol :: string
  pt_provider :: string
  pt_ts :: time
  pt_price :: real
  pt_size :: real
  pt_side :: "trade_side option"
  pt_notional :: "real option"

definition bu_add_point :: "point \<Rightarrow> building \<Rightarrow> building" where
  "bu_add_point p b =
     (let b1 = b\<lparr> bu_high := max (bu_high b) (pt_price p), bu_low := min (bu_low b) (pt_price p),
                  bu_close := pt_price p, bu_volume := bu_volume b + pt_size p,
                  bu_notional := bu_notional b +
                    (case pt_notional p of Some n \<Rightarrow> n | None \<Rightarrow> pt_price p * pt_size p),
                  bu_trades := bu_trades b + 1 \<rparr>
      in if pt_side p = Some TS_BUY then b1\<lparr> bu_buy_volume := bu_buy_volume b + pt_size p \<rparr>
         else if pt_side p = Some TS_SELL then b1\<lparr> bu_sell_volume := bu_sell_volume b + pt_size p \<rparr>
         else b1)"

definition bu_freeze :: "bool \<Rightarrow> building \<Rightarrow> md_candle" where
  "bu_freeze fin b = \<lparr> cd_open = bu_open b, cd_high = bu_high b, cd_low = bu_low b, cd_close = bu_close b,
     cd_volume = bu_volume b, cd_symbol = bu_symbol b, cd_provider = bu_provider b,
     cd_timeframe = bu_timeframe b, cd_start = bu_start b, cd_end = bu_end b,
     cd_buy_volume = bu_buy_volume b, cd_sell_volume = bu_sell_volume b,
     cd_vwap = (if 0 < bu_volume b then bu_notional b / bu_volume b else bu_close b),
     cd_trades = bu_trades b, cd_closed = fin, cd_source = ''aggregated'' \<rparr>"

definition bu_new :: "point \<Rightarrow> timeframe \<Rightarrow> time \<Rightarrow> time \<Rightarrow> building" where
  "bu_new p tf start end = \<lparr> bu_symbol = pt_symbol p, bu_provider = pt_provider p, bu_timeframe = tf,
     bu_start = start, bu_end = end, bu_open = pt_price p, bu_high = pt_price p, bu_low = pt_price p,
     bu_close = pt_price p, bu_volume = 0, bu_buy_volume = 0, bu_sell_volume = 0, bu_notional = 0,
     bu_trades = 0 \<rparr>"

section \<open>The aggregator\<close>

record aggregator =
  ag_timeframes :: "timeframe list"
  ag_building :: "(string \<times> timeframe, building) pydict"
  ag_closed_count :: int

definition ag_init :: "timeframe list \<Rightarrow> aggregator" where
  "ag_init tfs = \<lparr> ag_timeframes = filter (\<lambda>tf. tf \<noteq> TF_TICK) tfs, ag_building = [], ag_closed_count = 0 \<rparr>"

text \<open>The body of the loop of \<open>_fold\<close> for one time frame, with the candles closed so far.\<close>

definition ag_fold_tf :: "point \<Rightarrow> timeframe \<Rightarrow> aggregator \<times> md_candle list \<Rightarrow> py_error + aggregator \<times> md_candle list" where
  "ag_fold_tf p tf st =
     (let (ag, fin) = st; key = (pt_symbol p, tf); building = pd_get (ag_building ag) key;
          (ag, fin, building) =
            (case building of
               Some b \<Rightarrow> if pt_ts p \<ge> bu_end b
                 then (ag\<lparr> ag_closed_count := ag_closed_count ag + 1 \<rparr>, fin @ [bu_freeze True b], None)
                 else (ag, fin, Some b)
             | None \<Rightarrow> (ag, fin, None))
      in case building of
           Some b \<Rightarrow> Inr (ag\<lparr> ag_building := pd_put (ag_building ag) key (bu_add_point p b) \<rparr>, fin)
         | None \<Rightarrow>
             ebind (bucket_start tf (pt_ts p)) (\<lambda>start.
             ebind (bucket_end tf start) (\<lambda>end.
               Inr (ag\<lparr> ag_building := pd_put (ag_building ag) key (bu_add_point p (bu_new p tf start end)) \<rparr>, fin))))"

fun ag_fold_all :: "point \<Rightarrow> timeframe list \<Rightarrow> aggregator \<times> md_candle list \<Rightarrow> py_error + aggregator \<times> md_candle list" where
  "ag_fold_all p [] st = Inr st"
| "ag_fold_all p (tf # tfs) st = ebind (ag_fold_tf p tf st) (ag_fold_all p tfs)"

definition ag_fold :: "point \<Rightarrow> aggregator \<Rightarrow> py_error + aggregator \<times> md_candle list" where
  "ag_fold p ag = ag_fold_all p (ag_timeframes ag) (ag, [])"

definition trade_point :: "md_trade \<Rightarrow> point" where
  "trade_point t = \<lparr> pt_symbol = td_symbol t, pt_provider = td_provider t, pt_ts = td_exchange_ts t,
     pt_price = td_price t, pt_size = td_size t, pt_side = Some (td_side t), pt_notional = Some (td_notional t) \<rparr>"

definition ag_add_trade :: "md_trade \<Rightarrow> aggregator \<Rightarrow> py_error + aggregator \<times> md_candle list" where
  "ag_add_trade t ag = ag_fold (trade_point t) ag"

definition quote_price :: "md_ticker \<Rightarrow> real" where
  "quote_price t = py_or (tk_last t) (tk_mid t)"

definition quote_point :: "md_ticker \<Rightarrow> point" where
  "quote_point t = \<lparr> pt_symbol = tk_symbol t, pt_provider = tk_provider t, pt_ts = tk_exchange_ts t,
     pt_price = quote_price t, pt_size = 1, pt_side = None, pt_notional = None \<rparr>"

definition ag_add_ticker :: "md_ticker \<Rightarrow> aggregator \<Rightarrow> py_error + aggregator \<times> md_candle list" where
  "ag_add_ticker t ag = (if quote_price t \<le> 0 then Inr (ag, []) else ag_fold (quote_point t) ag)"

definition building_candle :: "string \<Rightarrow> timeframe \<Rightarrow> aggregator \<Rightarrow> md_candle option" where
  "building_candle s tf ag = map_option (bu_freeze False) (pd_get (ag_building ag) (s, tf))"

definition expired :: "time \<Rightarrow> (string \<times> timeframe) \<times> building \<Rightarrow> bool" where
  "expired now e \<longleftrightarrow> now \<ge> bu_end (snd e)"

text \<open>The loop of \<open>flush_stale\<close> over a copy of the items: each expired one is closed and deleted.\<close>

definition ag_flush_stale :: "time \<Rightarrow> aggregator \<Rightarrow> aggregator \<times> md_candle list" where
  "ag_flush_stale now ag =
     (let stale = filter (expired now) (ag_building ag)
      in (ag\<lparr> ag_building := fold (\<lambda>e d. pd_pop d (fst e)) stale (ag_building ag),
              ag_closed_count := ag_closed_count ag + int (length stale) \<rparr>,
          map (\<lambda>e. bu_freeze True (snd e)) stale))"

section \<open>Runs\<close>

datatype ag_event = AddTrade md_trade | AddTicker md_ticker | FlushStale time

definition ag_apply :: "ag_event \<Rightarrow> aggregator \<Rightarrow> py_error + aggregator \<times> md_candle list" where
  "ag_apply e ag = (case e of AddTrade t \<Rightarrow> ag_add_trade t ag | AddTicker t \<Rightarrow> ag_add_ticker t ag
     | FlushStale now \<Rightarrow> Inr (ag_flush_stale now ag))"

fun ag_run :: "ag_event list \<Rightarrow> aggregator \<times> md_candle list \<Rightarrow> py_error + aggregator \<times> md_candle list" where
  "ag_run [] st = Inr st"
| "ag_run (e # es) (ag, cs) = ebind (ag_apply e ag) (\<lambda>(ag', ds). ag_run es (ag', cs @ ds))"

section \<open>The reference: groups of points\<close>

definition span_of :: "timeframe \<Rightarrow> time \<Rightarrow> time \<times> time" where
  "span_of tf t = (case bucket_start tf t of Inl _ \<Rightarrow> (0, 0)
     | Inr s \<Rightarrow> (case bucket_end tf s of Inl _ \<Rightarrow> (0, 0) | Inr e \<Rightarrow> (s, e)))"

definition event_point :: "ag_event \<Rightarrow> point option" where
  "event_point e = (case e of AddTrade t \<Rightarrow> Some (trade_point t)
     | AddTicker t \<Rightarrow> if quote_price t \<le> 0 then None else Some (quote_point t)
     | FlushStale now \<Rightarrow> None)"

text \<open>The instant at which an event looks at the group that is open: its own symbol's points and every flush.\<close>

definition group_step :: "string \<Rightarrow> timeframe \<Rightarrow> ag_event \<Rightarrow> point list list \<times> point list \<Rightarrow> point list list \<times> point list" where
  "group_step s tf e g =
     (let (done, cur) = g in
      case event_point e of
        Some p \<Rightarrow>
          if pt_symbol p \<noteq> s then (done, cur)
          else if cur \<noteq> [] \<and> snd (span_of tf (pt_ts (hd cur))) \<le> pt_ts p then (done @ [cur], [p])
          else (done, cur @ [p])
      | None \<Rightarrow>
          (case e of FlushStale now \<Rightarrow>
              if cur \<noteq> [] \<and> snd (span_of tf (pt_ts (hd cur))) \<le> now then (done @ [cur], []) else (done, cur)
            | _ \<Rightarrow> (done, cur)))"

definition groups :: "string \<Rightarrow> timeframe \<Rightarrow> ag_event list \<Rightarrow> point list list \<times> point list" where
  "groups s tf es = fold (group_step s tf) es ([], [])"

definition side_volume :: "trade_side \<Rightarrow> point list \<Rightarrow> real" where
  "side_volume sd g = (\<Sum>p\<leftarrow>filter (\<lambda>p. pt_side p = Some sd) g. pt_size p)"

definition point_notional :: "point \<Rightarrow> real" where
  "point_notional p = (case pt_notional p of Some n \<Rightarrow> n | None \<Rightarrow> pt_price p * pt_size p)"

text \<open>The candle of a group: its bucket is that of its first point.\<close>

definition candle_of :: "timeframe \<Rightarrow> bool \<Rightarrow> point list \<Rightarrow> md_candle" where
  "candle_of tf fin g = \<lparr> cd_open = pt_price (hd g), cd_high = Max (pt_price ` set g), cd_low = Min (pt_price ` set g),
     cd_close = pt_price (last g), cd_volume = (\<Sum>p\<leftarrow>g. pt_size p), cd_symbol = pt_symbol (hd g),
     cd_provider = pt_provider (hd g), cd_timeframe = tf, cd_start = fst (span_of tf (pt_ts (hd g))),
     cd_end = snd (span_of tf (pt_ts (hd g))), cd_buy_volume = side_volume TS_BUY g,
     cd_sell_volume = side_volume TS_SELL g,
     cd_vwap = (if 0 < (\<Sum>p\<leftarrow>g. pt_size p) then (\<Sum>p\<leftarrow>g. point_notional p) / (\<Sum>p\<leftarrow>g. pt_size p) else pt_price (last g)),
     cd_trades = int (length g), cd_closed = fin, cd_source = ''aggregated'' \<rparr>"

text \<open>What the engine holds while it builds the group.\<close>

definition building_of :: "timeframe \<Rightarrow> point list \<Rightarrow> building" where
  "building_of tf g = fold bu_add_point g
     (bu_new (hd g) tf (fst (span_of tf (pt_ts (hd g)))) (snd (span_of tf (pt_ts (hd g)))))"

section \<open>The building candle is the candle of its group\<close>

lemma building_of_snoc: "g \<noteq> [] \<Longrightarrow> building_of tf (g @ [p]) = bu_add_point p (building_of tf g)"
  by (simp add: building_of_def)

lemma side_volume_snoc:
  "side_volume sd (g @ [p]) = side_volume sd g + (if pt_side p = Some sd then pt_size p else 0)"
  by (simp add: side_volume_def)

lemma building_of_eq:
  "g \<noteq> [] \<Longrightarrow> building_of tf g = \<lparr> bu_symbol = pt_symbol (hd g), bu_provider = pt_provider (hd g), bu_timeframe = tf,
     bu_start = fst (span_of tf (pt_ts (hd g))), bu_end = snd (span_of tf (pt_ts (hd g))),
     bu_open = pt_price (hd g), bu_high = Max (pt_price ` set g), bu_low = Min (pt_price ` set g),
     bu_close = pt_price (last g), bu_volume = (\<Sum>p\<leftarrow>g. pt_size p), bu_buy_volume = side_volume TS_BUY g,
     bu_sell_volume = side_volume TS_SELL g, bu_notional = (\<Sum>p\<leftarrow>g. point_notional p),
     bu_trades = int (length g) \<rparr>"
proof (induction g rule: rev_nonempty_induct)
  case (single p)
  show ?case
    by (simp add: building_of_def bu_new_def bu_add_point_def Let_def side_volume_def flip: point_notional_def)
next
  case (snoc p g)
  then have "finite (pt_price ` set g)" "pt_price ` set g \<noteq> {}" by simp_all
  note hull = Max_insert [OF this, of "pt_price p"] Min_insert [OF this, of "pt_price p"]
  show ?case
    unfolding building_of_snoc [OF snoc.hyps] snoc.IH
    by (simp add: bu_add_point_def Let_def hull side_volume_snoc snoc.hyps max.commute min.commute
        flip: point_notional_def)
qed

lemma freeze_building_of: "g \<noteq> [] \<Longrightarrow> bu_freeze fin (building_of tf g) = candle_of tf fin g"
  by (simp add: building_of_eq bu_freeze_def candle_of_def)

text \<open>The candle of a group is well formed, and its average price lies within its range.\<close>

definition points_ok :: "point list \<Rightarrow> bool" where
  "points_ok g \<longleftrightarrow> (\<forall>p \<in> set g. 0 < pt_price p \<and> 0 \<le> pt_size p \<and> point_notional p = pt_price p * pt_size p)"

lemma candle_of_ohlc:
  assumes "g \<noteq> []"
  shows "cd_low (candle_of tf fin g) \<le> cd_open (candle_of tf fin g)"
    "cd_low (candle_of tf fin g) \<le> cd_close (candle_of tf fin g)"
    "cd_open (candle_of tf fin g) \<le> cd_high (candle_of tf fin g)"
    "cd_close (candle_of tf fin g) \<le> cd_high (candle_of tf fin g)"
  using assms by (auto simp: candle_of_def intro!: Min_le Max_ge)

lemma notional_bounds:
  assumes "points_ok g" "\<forall>p \<in> set g. lo \<le> pt_price p \<and> pt_price p \<le> hi"
  shows "lo * (\<Sum>p\<leftarrow>g. pt_size p) \<le> (\<Sum>p\<leftarrow>g. point_notional p)"
    "(\<Sum>p\<leftarrow>g. point_notional p) \<le> hi * (\<Sum>p\<leftarrow>g. pt_size p)"
proof -
  have "lo * (\<Sum>p\<leftarrow>g. pt_size p) \<le> (\<Sum>p\<leftarrow>g. point_notional p)
    \<and> (\<Sum>p\<leftarrow>g. point_notional p) \<le> hi * (\<Sum>p\<leftarrow>g. pt_size p)"
    using assms
  proof (induction g)
    case (Cons p g)
    have "lo * pt_size p \<le> point_notional p \<and> point_notional p \<le> hi * pt_size p"
      using Cons.prems by (simp add: points_ok_def mult_right_mono)
    with Cons show ?case by (simp add: points_ok_def distrib_left)
  qed simp
  then show "lo * (\<Sum>p\<leftarrow>g. pt_size p) \<le> (\<Sum>p\<leftarrow>g. point_notional p)"
    "(\<Sum>p\<leftarrow>g. point_notional p) \<le> hi * (\<Sum>p\<leftarrow>g. pt_size p)"
    by simp_all
qed

lemma candle_of_vwap:
  assumes "g \<noteq> []" "points_ok g"
  shows "cd_low (candle_of tf fin g) \<le> cd_vwap (candle_of tf fin g)
    \<and> cd_vwap (candle_of tf fin g) \<le> cd_high (candle_of tf fin g)"
proof (cases "0 < (\<Sum>p\<leftarrow>g. pt_size p)")
  case True
  have "\<forall>p \<in> set g. Min (pt_price ` set g) \<le> pt_price p \<and> pt_price p \<le> Max (pt_price ` set g)"
    by simp
  from notional_bounds [OF assms(2) this] True show ?thesis
    by (simp add: candle_of_def pos_le_divide_eq pos_divide_le_eq)
next
  case False
  with assms(1) show ?thesis by (simp add: candle_of_def)
qed

section \<open>The engine follows the groups\<close>

lemma span_total:
  assumes "tf \<notin> {TF_TICK, TF_MN1}"
  shows "bucket_start tf t = Inr (fst (span_of tf t))" "bucket_end tf (fst (span_of tf t)) = Inr (snd (span_of tf t))"
  using assms by (cases tf; simp add: span_of_def bucket_start_def bucket_end_def tf_seconds_def Let_def)+

definition of_key :: "string \<times> timeframe \<Rightarrow> md_candle \<Rightarrow> bool" where
  "of_key k c \<longleftrightarrow> (cd_symbol c, cd_timeframe c) = k"

text \<open>One time frame of one point, on the entry of its key alone.\<close>

definition key_step :: "point \<Rightarrow> timeframe \<Rightarrow> building option \<Rightarrow> md_candle list \<times> building" where
  "key_step p tf b =
     (let fresh = bu_add_point p (bu_new p tf (fst (span_of tf (pt_ts p))) (snd (span_of tf (pt_ts p)))) in
      case b of
        Some b \<Rightarrow> if pt_ts p \<ge> bu_end b then ([bu_freeze True b], fresh) else ([], bu_add_point p b)
      | None \<Rightarrow> ([], fresh))"

lemma ag_fold_tf_key:
  assumes "tf \<notin> {TF_TICK, TF_MN1}"
  shows "\<exists>n. ag_fold_tf p tf (ag, cs) =
    Inr (ag\<lparr> ag_building := pd_put (ag_building ag) (pt_symbol p, tf) (snd (key_step p tf (pd_get (ag_building ag) (pt_symbol p, tf)))),
             ag_closed_count := n \<rparr>,
         cs @ fst (key_step p tf (pd_get (ag_building ag) (pt_symbol p, tf))))"
proof (cases "pd_get (ag_building ag) (pt_symbol p, tf)")
  case None
  then show ?thesis
    by (intro exI [of _ "ag_closed_count ag"]) (simp add: ag_fold_tf_def key_step_def span_total [OF assms])
next
  case (Some b)
  then show ?thesis
    by (intro exI [of _ "ag_closed_count ag + (if pt_ts p \<ge> bu_end b then 1 else 0)"])
       (simp add: ag_fold_tf_def key_step_def span_total [OF assms] Let_def)
qed

definition keyed :: "building option \<Rightarrow> string \<times> timeframe \<Rightarrow> bool" where
  "keyed b k \<longleftrightarrow> (case b of None \<Rightarrow> True | Some b \<Rightarrow> (bu_symbol b, bu_timeframe b) = k)"

lemma bu_add_point_frame [simp]:
  "bu_symbol (bu_add_point p b) = bu_symbol b" "bu_timeframe (bu_add_point p b) = bu_timeframe b"
  by (simp_all add: bu_add_point_def Let_def)

lemma key_step_keyed:
  assumes "keyed b (pt_symbol p, tf)"
  shows "keyed (Some (snd (key_step p tf b))) (pt_symbol p, tf)"
    "filter (of_key k) (fst (key_step p tf b)) = (if k = (pt_symbol p, tf) then fst (key_step p tf b) else [])"
  using assms by (auto simp: keyed_def key_step_def bu_new_def bu_freeze_def of_key_def Let_def split: option.splits)

definition ag_ok :: "timeframe list \<Rightarrow> aggregator \<Rightarrow> bool" where
  "ag_ok tfs ag \<longleftrightarrow> pd_wf (ag_building ag) \<and> ag_timeframes ag = tfs
     \<and> (\<forall>k. keyed (pd_get (ag_building ag) k) k)"

lemma fold_all_keys:
  assumes "distinct tfs" "set tfs \<inter> {TF_TICK, TF_MN1} = {}" "ag_ok all ag"
  shows "\<exists>ag' ds. ag_fold_all p tfs (ag, cs) = Inr (ag', cs @ ds) \<and> ag_ok all ag'
    \<and> (\<forall>k. if fst k = pt_symbol p \<and> snd k \<in> set tfs
           then pd_get (ag_building ag') k = Some (snd (key_step p (snd k) (pd_get (ag_building ag) k)))
             \<and> filter (of_key k) ds = fst (key_step p (snd k) (pd_get (ag_building ag) k))
           else pd_get (ag_building ag') k = pd_get (ag_building ag) k \<and> filter (of_key k) ds = [])"
  using assms
proof (induction tfs arbitrary: ag cs)
  case Nil
  then show ?case by auto
next
  case (Cons tf tfs)
  let ?k = "(pt_symbol p, tf)"
  let ?s = "key_step p tf (pd_get (ag_building ag) ?k)"
  have kd: "keyed (pd_get (ag_building ag) ?k) ?k"
    using Cons.prems(3) by (simp add: ag_ok_def)
  from Cons.prems obtain n where
    step: "ag_fold_tf p tf (ag, cs) = Inr (ag\<lparr> ag_building := pd_put (ag_building ag) ?k (snd ?s), ag_closed_count := n \<rparr>, cs @ fst ?s)"
    using ag_fold_tf_key [of tf p ag cs] by auto
  let ?ag = "ag\<lparr> ag_building := pd_put (ag_building ag) ?k (snd ?s), ag_closed_count := n \<rparr>"
  have "ag_ok all ?ag"
    using Cons.prems(3) key_step_keyed(1) [OF kd] by (auto simp: ag_ok_def)
  with Cons.IH [of ?ag "cs @ fst ?s"] Cons.prems obtain ag' ds where
    rest: "ag_fold_all p tfs (?ag, cs @ fst ?s) = Inr (ag', (cs @ fst ?s) @ ds)" "ag_ok all ag'"
      "\<forall>k. if fst k = pt_symbol p \<and> snd k \<in> set tfs
           then pd_get (ag_building ag') k = Some (snd (key_step p (snd k) (pd_get (ag_building ?ag) k)))
             \<and> filter (of_key k) ds = fst (key_step p (snd k) (pd_get (ag_building ?ag) k))
           else pd_get (ag_building ag') k = pd_get (ag_building ?ag) k \<and> filter (of_key k) ds = []"
    by auto
  have "if fst k = pt_symbol p \<and> snd k \<in> set (tf # tfs)
        then pd_get (ag_building ag') k = Some (snd (key_step p (snd k) (pd_get (ag_building ag) k)))
          \<and> filter (of_key k) (fst ?s @ ds) = fst (key_step p (snd k) (pd_get (ag_building ag) k))
        else pd_get (ag_building ag') k = pd_get (ag_building ag) k \<and> filter (of_key k) (fst ?s @ ds) = []" for k
    using rest(3) [rule_format, of k] key_step_keyed(2) [OF kd, of k] Cons.prems(1)
    by (cases k) (auto split: if_splits)
  moreover have "ag_fold_all p (tf # tfs) (ag, cs) = Inr (ag', cs @ (fst ?s @ ds))"
    using rest(1) by (simp add: step)
  ultimately show ?case using rest(2) by blast
qed

section \<open>Flushing\<close>

lemma pd_get_pops: "pd_get (fold (\<lambda>e d. pd_pop d (fst e)) xs d) k = (if k \<in> fst ` set xs then None else pd_get d k)"
  by (induction xs arbitrary: d) auto

lemma pd_wf_pops: "pd_wf d \<Longrightarrow> pd_wf (fold (\<lambda>e d. pd_pop d (fst e)) xs d)"
  by (induction xs arbitrary: d) auto

lemma filter_key:
  "pd_wf d \<Longrightarrow> filter (\<lambda>e. fst e = k) d = (case pd_get d k of None \<Rightarrow> [] | Some v \<Rightarrow> [(k, v)])"
proof (induction d)
  case (Cons e d)
  have "filter (\<lambda>e. fst e = k) d = []" if "fst e = k"
    using Cons.prems that by (simp add: pd_wf_def filter_empty_conv) (metis image_eqI)
  with Cons show ?case
    by (cases e) (auto simp: pd_get_def pd_wf_def)
qed simp

lemma pd_get_entry: "pd_wf d \<Longrightarrow> (k, v) \<in> set d \<longleftrightarrow> pd_get d k = Some v"
  by (simp add: pd_get_def pd_wf_def)

lemma of_key_entries:
  assumes "\<forall>e \<in> set es. (bu_symbol (snd e), bu_timeframe (snd e)) = fst e"
  shows "filter (of_key k) (map (\<lambda>e. bu_freeze True (snd e)) (filter P es))
    = map (\<lambda>e. bu_freeze True (snd e)) (filter P (filter (\<lambda>e. fst e = k) es))"
  using assms by (induction es) (auto simp: of_key_def bu_freeze_def)

lemma flush_key:
  assumes "ag_ok tfs ag"
  shows "ag_ok tfs (fst (ag_flush_stale now ag))
    \<and> pd_get (ag_building (fst (ag_flush_stale now ag))) k
        = (case pd_get (ag_building ag) k of Some b \<Rightarrow> if bu_end b \<le> now then None else Some b | None \<Rightarrow> None)
    \<and> filter (of_key k) (snd (ag_flush_stale now ag))
        = (case pd_get (ag_building ag) k of Some b \<Rightarrow> if bu_end b \<le> now then [bu_freeze True b] else [] | None \<Rightarrow> [])"
proof -
  let ?d = "ag_building ag"
  have wf: "pd_wf ?d" and kd: "\<And>k. keyed (pd_get ?d k) k"
    using assms unfolding ag_ok_def by blast+
  have get: "pd_get (fold (\<lambda>e d. pd_pop d (fst e)) (filter (expired now) ?d) ?d) k
      = (case pd_get ?d k of Some b \<Rightarrow> if bu_end b \<le> now then None else Some b | None \<Rightarrow> None)" for k
  proof -
    have "k \<in> fst ` set (filter (expired now) ?d) \<longleftrightarrow> (\<exists>b. (k, b) \<in> set ?d \<and> bu_end b \<le> now)"
      by (simp add: expired_def image_iff) (metis fst_conv prod.collapse snd_conv)
    then have "k \<in> fst ` set (filter (expired now) ?d) \<longleftrightarrow> (\<exists>b. pd_get ?d k = Some b \<and> bu_end b \<le> now)"
      by (simp add: pd_get_entry [OF wf])
    then show ?thesis by (auto simp: pd_get_pops split: option.splits)
  qed
  have entries: "\<forall>e \<in> set ?d. (bu_symbol (snd e), bu_timeframe (snd e)) = fst e"
  proof
    fix e assume "e \<in> set ?d"
    then have "pd_get ?d (fst e) = Some (snd e)"
      using pd_get_entry [OF wf, of "fst e" "snd e"] by simp
    with kd [of "fst e"] show "(bu_symbol (snd e), bu_timeframe (snd e)) = fst e"
      by (simp add: keyed_def)
  qed
  have "keyed (pd_get (ag_building (fst (ag_flush_stale now ag))) k) k" for k
    using kd [of k] by (simp add: ag_flush_stale_def Let_def get keyed_def split: option.splits)
  moreover have "pd_wf (ag_building (fst (ag_flush_stale now ag)))" "ag_timeframes (fst (ag_flush_stale now ag)) = tfs"
    using assms by (simp_all add: ag_flush_stale_def Let_def pd_wf_pops ag_ok_def)
  ultimately have "ag_ok tfs (fst (ag_flush_stale now ag))"
    unfolding ag_ok_def by blast
  moreover have "filter (of_key k) (snd (ag_flush_stale now ag))
      = (case pd_get ?d k of Some b \<Rightarrow> if bu_end b \<le> now then [bu_freeze True b] else [] | None \<Rightarrow> [])"
    by (simp add: ag_flush_stale_def Let_def of_key_entries [OF entries] filter_key [OF wf] expired_def split: option.splits)
  ultimately show ?thesis
    using get by (simp add: ag_flush_stale_def Let_def)
qed

section \<open>Runs follow the groups\<close>

definition tracks :: "timeframe list \<Rightarrow> ag_event list \<Rightarrow> aggregator \<Rightarrow> md_candle list \<Rightarrow> bool" where
  "tracks tfs es ag cs \<longleftrightarrow> ag_ok tfs ag \<and> (\<forall>s tf. tf \<in> set tfs \<longrightarrow>
     pd_get (ag_building ag) (s, tf) = (if snd (groups s tf es) = [] then None else Some (building_of tf (snd (groups s tf es))))
     \<and> filter (of_key (s, tf)) cs = map (candle_of tf True) (fst (groups s tf es)))"

lemma groups_snoc: "groups s tf (es @ [e]) = group_step s tf e (groups s tf es)"
  by (simp add: groups_def)

lemma building_of_single: "building_of tf [p] = bu_add_point p (bu_new p tf (fst (span_of tf (pt_ts p))) (snd (span_of tf (pt_ts p))))"
  by (simp add: building_of_def)

lemma building_of_end: "g \<noteq> [] \<Longrightarrow> bu_end (building_of tf g) = snd (span_of tf (pt_ts (hd g)))"
  by (simp add: building_of_eq)

lemma key_step_group:
  assumes "event_point e = Some p" "groups s tf es = (d, g)" "pt_symbol p = s"
  shows "key_step p tf (if g = [] then None else Some (building_of tf g))
    = (map (candle_of tf True) (drop (length d) (fst (groups s tf (es @ [e])))), building_of tf (snd (groups s tf (es @ [e]))))
    \<and> snd (groups s tf (es @ [e])) \<noteq> [] \<and> take (length d) (fst (groups s tf (es @ [e]))) = d"
  using assms
  by (simp add: groups_snoc group_step_def key_step_def building_of_single building_of_end building_of_snoc freeze_building_of Let_def)

lemma point_step:
  assumes "tracks tfs es ag cs" "distinct tfs" "set tfs \<inter> {TF_TICK, TF_MN1} = {}" "event_point e = Some p"
  shows "\<exists>ag' ds. ag_fold p ag = Inr (ag', ds) \<and> tracks tfs (es @ [e]) ag' (cs @ ds)"
proof -
  have ok: "ag_ok tfs ag" "ag_timeframes ag = tfs" using assms(1) by (simp_all add: tracks_def ag_ok_def)
  from fold_all_keys [OF assms(2,3) ok(1), of p "[]"] obtain ag' ds where r:
    "ag_fold_all p tfs (ag, []) = Inr (ag', ds)" "ag_ok tfs ag'"
    "\<And>k. if fst k = pt_symbol p \<and> snd k \<in> set tfs
           then pd_get (ag_building ag') k = Some (snd (key_step p (snd k) (pd_get (ag_building ag) k)))
             \<and> filter (of_key k) ds = fst (key_step p (snd k) (pd_get (ag_building ag) k))
           else pd_get (ag_building ag') k = pd_get (ag_building ag) k \<and> filter (of_key k) ds = []"
    by auto
  have "pd_get (ag_building ag') (s, tf) = (if snd (groups s tf (es @ [e])) = [] then None
        else Some (building_of tf (snd (groups s tf (es @ [e])))))
      \<and> filter (of_key (s, tf)) (cs @ ds) = map (candle_of tf True) (fst (groups s tf (es @ [e])))"
    if "tf \<in> set tfs" for s tf
  proof -
    obtain d g where g: "groups s tf es = (d, g)" by fastforce
    have old: "pd_get (ag_building ag) (s, tf) = (if g = [] then None else Some (building_of tf g))"
      "filter (of_key (s, tf)) cs = map (candle_of tf True) d"
      using assms(1) that by (simp_all add: tracks_def g)
    show ?thesis
    proof (cases "pt_symbol p = s")
      case True
      from key_step_group [OF assms(4) g True] r(3) [of "(s, tf)"] True that old show ?thesis
        by simp (metis append_take_drop_id map_append)
    next
      case False
      with r(3) [of "(s, tf)"] old assms(4) show ?thesis
        by (simp add: groups_snoc group_step_def g)
    qed
  qed
  with r(1,2) ok(2) show ?thesis by (auto simp: ag_fold_def tracks_def)
qed

lemma flush_step:
  assumes "tracks tfs es ag cs"
  shows "tracks tfs (es @ [FlushStale now]) (fst (ag_flush_stale now ag)) (cs @ snd (ag_flush_stale now ag))"
proof -
  have ok: "ag_ok tfs ag" using assms by (simp add: tracks_def)
  have "pd_get (ag_building (fst (ag_flush_stale now ag))) (s, tf) = (if snd (groups s tf (es @ [FlushStale now])) = [] then None
        else Some (building_of tf (snd (groups s tf (es @ [FlushStale now])))))
      \<and> filter (of_key (s, tf)) (cs @ snd (ag_flush_stale now ag)) = map (candle_of tf True) (fst (groups s tf (es @ [FlushStale now])))"
    if "tf \<in> set tfs" for s tf
  proof -
    obtain d g where g: "groups s tf es = (d, g)" by fastforce
    have "pd_get (ag_building ag) (s, tf) = (if g = [] then None else Some (building_of tf g))"
      "filter (of_key (s, tf)) cs = map (candle_of tf True) d"
      using assms that by (simp_all add: tracks_def g)
    with flush_key [OF ok, of now "(s, tf)"] show ?thesis
      by (simp add: groups_snoc group_step_def event_point_def g building_of_end freeze_building_of)
  qed
  with flush_key [OF ok, of now] show ?thesis by (simp add: tracks_def)
qed

lemma apply_step:
  assumes "tracks tfs es ag cs" "distinct tfs" "set tfs \<inter> {TF_TICK, TF_MN1} = {}"
  shows "\<exists>ag' ds. ag_apply e ag = Inr (ag', ds) \<and> tracks tfs (es @ [e]) ag' (cs @ ds)"
proof (cases e)
  case (AddTrade t)
  with point_step [OF assms, of e "trade_point t"] show ?thesis
    by (simp add: ag_apply_def ag_add_trade_def event_point_def)
next
  case (AddTicker t)
  show ?thesis
  proof (cases "quote_price t \<le> 0")
    case True
    with assms(1) AddTicker show ?thesis
      by (simp add: ag_apply_def ag_add_ticker_def tracks_def groups_snoc group_step_def event_point_def split: prod.splits)
  next
    case False
    with AddTicker point_step [OF assms, of e "quote_point t"] show ?thesis
      by (simp add: ag_apply_def ag_add_ticker_def event_point_def)
  qed
next
  case (FlushStale now)
  with flush_step [OF assms(1), of now] show ?thesis
    by (metis ag_apply_def ag_event.simps(12) prod.collapse)
qed

lemma run_tracks:
  assumes "tracks tfs pre ag cs" "distinct tfs" "set tfs \<inter> {TF_TICK, TF_MN1} = {}"
  shows "\<exists>ag' cs'. ag_run es (ag, cs) = Inr (ag', cs') \<and> tracks tfs (pre @ es) ag' cs'"
  using assms(1)
proof (induction es arbitrary: pre ag cs)
  case (Cons e es)
  from apply_step [OF Cons.prems assms(2,3), of e] obtain ag' ds where
    "ag_apply e ag = Inr (ag', ds)" "tracks tfs (pre @ [e]) ag' (cs @ ds)" by blast
  with Cons.IH [of "pre @ [e]" ag' "cs @ ds"] show ?case by simp
qed auto

lemma tracks_init: "tracks (filter (\<lambda>tf. tf \<noteq> TF_TICK) tfs) [] (ag_init tfs) []"
  by (simp add: tracks_def ag_ok_def ag_init_def groups_def keyed_def pd_wf_def)

text \<open>No point of a symbol is lost or used twice.\<close>

lemma groups_partition:
  "concat (fst (groups s tf es)) @ snd (groups s tf es) = filter (\<lambda>p. pt_symbol p = s) (List.map_filter event_point es)"
proof (induction es rule: rev_induct)
  case Nil
  then show ?case by (simp add: groups_def map_filter_simps)
next
  case (snoc e es)
  obtain d g where g: "groups s tf es = (d, g)" by fastforce
  have "List.map_filter event_point (es @ [e]) = List.map_filter event_point es @ (case event_point e of None \<Rightarrow> [] | Some p \<Rightarrow> [p])"
    by (simp add: map_filter_def split: option.splits)
  with snoc g show ?case
    by (auto simp: groups_snoc group_step_def split: option.splits ag_event.splits)
qed

text \<open>Every group has a point, all of the symbol, and those after the first lie before the end of its bucket.\<close>

definition group_ok :: "string \<Rightarrow> timeframe \<Rightarrow> point list \<Rightarrow> bool" where
  "group_ok s tf g \<longleftrightarrow> g \<noteq> [] \<and> (\<forall>p \<in> set g. pt_symbol p = s)
     \<and> (\<forall>p \<in> set (tl g). pt_ts p < snd (span_of tf (pt_ts (hd g))))"

lemma group_ok_single [simp]: "group_ok s tf [p] \<longleftrightarrow> pt_symbol p = s"
  by (simp add: group_ok_def)

lemma group_ok_snoc:
  "group_ok s tf g \<Longrightarrow> pt_symbol p = s \<Longrightarrow> pt_ts p < snd (span_of tf (pt_ts (hd g))) \<Longrightarrow> group_ok s tf (g @ [p])"
  by (auto simp: group_ok_def)

lemma groups_ok: "(\<forall>g \<in> set (fst (groups s tf es)). group_ok s tf g) \<and> (snd (groups s tf es) \<noteq> [] \<longrightarrow> group_ok s tf (snd (groups s tf es)))"
proof (induction es rule: rev_induct)
  case (snoc e es)
  obtain d g where g: "groups s tf es = (d, g)" by fastforce
  from snoc show ?case
    by (auto simp: g groups_snoc group_step_def group_ok_snoc split: option.splits ag_event.splits)
qed (simp add: groups_def)

section \<open>Properties\<close>

text \<open>
  Property C24: the aggregator builds exactly the candles of the groups.  Over any interleaving of
  trades, quotes and flushes of any symbols, it never fails; for each symbol and time frame the closed
  candles are, in order, the candles of the reference groups (open and close the first and the last
  price, high and low the extremes, volume, sides, notional and count the totals), the building
  candle is that of the group still open, and the groups are a partition of the symbol's points: none
  is lost or counted twice.  The monthly time frame is left out, its bucket ends come from the calendar.
\<close>

theorem candles_are_groups:
  assumes "distinct tfs" "TF_MN1 \<notin> set tfs" "tf \<in> set tfs" "tf \<noteq> TF_TICK"
  shows "\<exists>ag cs. ag_run es (ag_init tfs, []) = Inr (ag, cs)
    \<and> filter (of_key (s, tf)) cs = map (candle_of tf True) (fst (groups s tf es))
    \<and> building_candle s tf ag = (case snd (groups s tf es) of [] \<Rightarrow> None | g \<Rightarrow> Some (candle_of tf False (snd (groups s tf es))))
    \<and> concat (fst (groups s tf es)) @ snd (groups s tf es) = filter (\<lambda>p. pt_symbol p = s) (List.map_filter event_point es)
    \<and> (\<forall>g \<in> set (fst (groups s tf es)). group_ok s tf g)"
proof -
  let ?tfs = "filter (\<lambda>tf. tf \<noteq> TF_TICK) tfs"
  have "distinct ?tfs" "set ?tfs \<inter> {TF_TICK, TF_MN1} = {}" "tf \<in> set ?tfs" using assms by auto
  from run_tracks [OF tracks_init this(1,2), of es] obtain ag cs where
    "ag_run es (ag_init tfs, []) = Inr (ag, cs)" "tracks ?tfs es ag cs" by auto
  with \<open>tf \<in> set ?tfs\<close> show ?thesis
    by (intro exI [of _ ag] exI [of _ cs])
      (auto simp: tracks_def building_candle_def freeze_building_of groups_partition groups_ok split: list.splits)
qed

definition example_tick :: "time \<Rightarrow> real \<Rightarrow> md_trade" where
  "example_tick t p = \<lparr> td_symbol = ''X'', td_provider = ''p'', td_trade_id = [], td_price = p, td_size = 2,
     td_side = TS_BUY, td_exchange_ts = t, td_local_ts = t \<rparr>"

lemma span_minute: "0 \<le> t \<Longrightarrow> span_of TF_M1 t = ((t div 1000000 - t div 1000000 mod 60) * 1000000, (t div 1000000 - t div 1000000 mod 60) * 1000000 + 60000000)"
  by (simp add: span_of_def bucket_start_def bucket_end_def tf_seconds_def Let_def py_int_seconds second_us_def)

lemma example_groups:
  "groups ''X'' TF_M1 [AddTrade (example_tick 0 5), AddTrade (example_tick 1000000 7), AddTrade (example_tick 60000000 6)]
    = ([[trade_point (example_tick 0 5), trade_point (example_tick 1000000 7)]], [trade_point (example_tick 60000000 6)])"
  by (simp add: groups_def group_step_def event_point_def trade_point_def example_tick_def span_minute)

theorem candles_are_groups_witness:
  "\<exists>ag cs. ag_run [AddTrade (example_tick 0 5), AddTrade (example_tick 1000000 7), AddTrade (example_tick 60000000 6)]
        (ag_init [TF_TICK, TF_M1], []) = Inr (ag, cs)
    \<and> map cd_high (filter (of_key (''X'', TF_M1)) cs) = [7]
    \<and> map cd_volume (filter (of_key (''X'', TF_M1)) cs) = [4]"
proof -
  from candles_are_groups [of "[TF_TICK, TF_M1]" TF_M1
      "[AddTrade (example_tick 0 5), AddTrade (example_tick 1000000 7), AddTrade (example_tick 60000000 6)]" "''X''"]
  obtain ag cs where "ag_run [AddTrade (example_tick 0 5), AddTrade (example_tick 1000000 7), AddTrade (example_tick 60000000 6)]
        (ag_init [TF_TICK, TF_M1], []) = Inr (ag, cs)"
    "filter (of_key (''X'', TF_M1)) cs = map (candle_of TF_M1 True) [[trade_point (example_tick 0 5), trade_point (example_tick 1000000 7)]]"
    by (auto simp: example_groups)
  then show ?thesis
    by (intro exI [of _ ag] exI [of _ cs]) (simp add: candle_of_def trade_point_def example_tick_def)
qed

end
