(* ===== verification/Data_Validator.thy ===== *)
theory Data_Validator
  imports Candle_Aggregator
begin

text \<open>
  \<open>app/market/validator/validator.py\<close>: the quality gate every market object passes before anything
  else sees it.  A check returns the issues it found; an issue may ask to discard the object.
  Whether the timestamps of an object carry a time zone is an argument of the checks that look at it.
\<close>

section \<open>Issues and state\<close>

datatype issue_type =
  NEGATIVE_PRICE | NEGATIVE_SIZE | INVALID_TIMESTAMP | FUTURE_TIMESTAMP | STALE_TIMESTAMP | OUT_OF_ORDER
| DUPLICATE | PRICE_GAP | IMPOSSIBLE_VOLUME | MALFORMED_CANDLE | CROSSED_BOOK | SEQUENCE_GAP

definition issue_value :: "issue_type \<Rightarrow> string" where
  "issue_value i = (case i of NEGATIVE_PRICE \<Rightarrow> ''negative_price'' | NEGATIVE_SIZE \<Rightarrow> ''negative_size''
     | INVALID_TIMESTAMP \<Rightarrow> ''invalid_timestamp'' | FUTURE_TIMESTAMP \<Rightarrow> ''future_timestamp''
     | STALE_TIMESTAMP \<Rightarrow> ''stale_timestamp'' | OUT_OF_ORDER \<Rightarrow> ''out_of_order'' | DUPLICATE \<Rightarrow> ''duplicate''
     | PRICE_GAP \<Rightarrow> ''price_gap'' | IMPOSSIBLE_VOLUME \<Rightarrow> ''impossible_volume''
     | MALFORMED_CANDLE \<Rightarrow> ''malformed_candle'' | CROSSED_BOOK \<Rightarrow> ''crossed_book'' | SEQUENCE_GAP \<Rightarrow> ''sequence_gap'')"

record quality_issue =
  qi_issue :: issue_type
  qi_symbol :: string
  qi_detail :: msg
  qi_discard :: bool

record symbol_track =
  sy_last_trade_ts :: "time option"
  sy_last_price :: "real option"
  sy_recent_ids :: "string list option"

definition new_track :: symbol_track where
  "new_track = \<lparr> sy_last_trade_ts = None, sy_last_price = None, sy_recent_ids = None \<rparr>"

record validator =
  dv_max_jump :: real
  dv_max_volume :: real
  dv_future_tolerance :: int
  dv_stale :: int
  dv_dup_window :: nat
  dv_ooo_grace :: int
  dv_tracks :: "(string, symbol_track) pydict"
  dv_counters :: "(string, int) pydict"
  dv_checked :: int
  dv_discarded :: int

definition timedelta_seconds :: "real \<Rightarrow> int" where
  "timedelta_seconds x = round_half_even (x * 1000000)"

definition dv_new :: "real \<Rightarrow> real \<Rightarrow> real \<Rightarrow> real \<Rightarrow> nat \<Rightarrow> real \<Rightarrow> validator" where
  "dv_new max_price_jump_pct max_volume future_tolerance_seconds stale_seconds duplicate_window out_of_order_grace =
     \<lparr> dv_max_jump = max_price_jump_pct, dv_max_volume = max_volume,
       dv_future_tolerance = timedelta_seconds future_tolerance_seconds, dv_stale = timedelta_seconds stale_seconds,
       dv_dup_window = duplicate_window, dv_ooo_grace = timedelta_seconds out_of_order_grace,
       dv_tracks = [], dv_counters = [], dv_checked = 0, dv_discarded = 0 \<rparr>"

definition default_validator :: validator where
  "default_validator = dv_new 20 1000000000000 5 120 4096 2"

definition issue :: "issue_type \<Rightarrow> string \<Rightarrow> msg \<Rightarrow> bool \<Rightarrow> quality_issue" where
  "issue i s d k = \<lparr> qi_issue = i, qi_symbol = s, qi_detail = d, qi_discard = k \<rparr>"

definition should_discard :: "quality_issue list \<Rightarrow> bool" where
  "should_discard is \<longleftrightarrow> (\<exists>i \<in> set is. qi_discard i)"

definition dv_track :: "string \<Rightarrow> validator \<Rightarrow> symbol_track" where
  "dv_track s v = pd_get_or (dv_tracks v) s new_track"

definition put_track :: "string \<Rightarrow> symbol_track \<Rightarrow> validator \<Rightarrow> validator" where
  "put_track s tr v = v\<lparr> dv_tracks := pd_put (dv_tracks v) s tr \<rparr>"

definition count_issue :: "quality_issue \<Rightarrow> (string, int) pydict \<Rightarrow> (string, int) pydict" where
  "count_issue i d = pd_put d (issue_value (qi_issue i)) (pd_get_or d (issue_value (qi_issue i)) 0 + 1)"

definition account :: "quality_issue list \<Rightarrow> validator \<Rightarrow> validator" where
  "account is v = v\<lparr> dv_checked := dv_checked v + 1,
     dv_discarded := (if should_discard is then dv_discarded v + 1 else dv_discarded v),
     dv_counters := fold count_issue is (dv_counters v) \<rparr>"

definition dv_stats :: "validator \<Rightarrow> (string, int) pydict" where
  "dv_stats v = fold (\<lambda>e d. pd_put d (fst e) (snd e)) (dv_counters v)
     [(''checked'', dv_checked v), (''discarded'', dv_discarded v)]"

section \<open>Shared checks\<close>

definition timestamp_checks :: "bool \<Rightarrow> bool \<Rightarrow> string \<Rightarrow> time \<Rightarrow> time \<Rightarrow> validator \<Rightarrow> quality_issue list" where
  "timestamp_checks aware_ex aware_lo s exchange_ts local_ts v =
     (if \<not> aware_ex \<or> \<not> aware_lo then [issue INVALID_TIMESTAMP s (Lit ''timestamp sin zona horaria'') True]
      else if exchange_ts > local_ts + dv_future_tolerance v
        then [issue FUTURE_TIMESTAMP s (Fmt ''exchange_ts={} > local+{}'' [ArgStr (iso exchange_ts), ArgInt (dv_future_tolerance v)]) True]
      else if local_ts - exchange_ts > dv_stale v
        then [issue STALE_TIMESTAMP s (Fmt ''age={:.1f}s'' [ArgReal (total_seconds (local_ts - exchange_ts))]) False]
      else [])"

definition common_checks :: "bool \<Rightarrow> bool \<Rightarrow> string \<Rightarrow> real \<Rightarrow> time \<Rightarrow> time \<Rightarrow> validator \<Rightarrow> quality_issue list" where
  "common_checks aware_ex aware_lo s price exchange_ts local_ts v =
     timestamp_checks aware_ex aware_lo s exchange_ts local_ts v
     @ (if price \<le> 0 then [issue NEGATIVE_PRICE s (Fmt ''price={}'' [ArgReal price]) True] else [])"

section \<open>Checks by kind\<close>

definition size_checks :: "md_trade \<Rightarrow> validator \<Rightarrow> quality_issue list" where
  "size_checks t v =
     (if td_size t < 0 then [issue NEGATIVE_SIZE (td_symbol t) (Fmt ''size={}'' [ArgReal (td_size t)]) True]
      else if td_size t > dv_max_volume v
        then [issue IMPOSSIBLE_VOLUME (td_symbol t) (Fmt ''size={} > max={}'' [ArgReal (td_size t), ArgReal (dv_max_volume v)]) True]
      else [])"

text \<open>The look at the trade identifiers: an unknown one is remembered, whatever else is wrong with the trade.\<close>

definition duplicate_check :: "md_trade \<Rightarrow> nat \<Rightarrow> symbol_track \<Rightarrow> quality_issue list \<times> symbol_track" where
  "duplicate_check t window tr =
     (if td_trade_id t = [] then ([], tr)
      else let ids = (case sy_recent_ids tr of None \<Rightarrow> [] | Some ids \<Rightarrow> ids) in
        if td_trade_id t \<in> set ids
        then ([issue DUPLICATE (td_symbol t) (Fmt ''trade_id={}'' [ArgStr (td_trade_id t)]) True], tr\<lparr> sy_recent_ids := Some ids \<rparr>)
        else ([], tr\<lparr> sy_recent_ids := Some (deque_append window (td_trade_id t) ids) \<rparr>))"

definition order_check :: "md_trade \<Rightarrow> int \<Rightarrow> symbol_track \<Rightarrow> quality_issue list" where
  "order_check t grace tr = (case sy_last_trade_ts tr of
       None \<Rightarrow> []
     | Some l \<Rightarrow> if td_exchange_ts t < l - grace
         then [issue OUT_OF_ORDER (td_symbol t) (Fmt ''ts={} < last={}'' [ArgStr (iso (td_exchange_ts t)), ArgStr (iso l)]) True]
         else [])"

definition jump_check :: "md_trade \<Rightarrow> real \<Rightarrow> symbol_track \<Rightarrow> quality_issue list" where
  "jump_check t max_jump tr = (case sy_last_price tr of
       None \<Rightarrow> []
     | Some l \<Rightarrow> if 0 < l \<and> 0 < td_price t \<and> \<bar>td_price t - l\<bar> / l * 100 > max_jump
         then [issue PRICE_GAP (td_symbol t) (Fmt ''price={} vs last={} (> {}%)'' [ArgReal (td_price t), ArgReal l, ArgReal max_jump]) True]
         else [])"

definition accept_track :: "md_trade \<Rightarrow> symbol_track \<Rightarrow> symbol_track" where
  "accept_track t tr = tr\<lparr> sy_last_trade_ts :=
       Some (case sy_last_trade_ts tr of None \<Rightarrow> td_exchange_ts t | Some l \<Rightarrow> max l (td_exchange_ts t)),
     sy_last_price := Some (td_price t) \<rparr>"

text \<open>
  \<open>validate_trade\<close>.  Comparing a naive timestamp with the aware one of the last trade raises a
  \<open>TypeError\<close>; the identifier has been remembered by then, and nothing is accounted.
\<close>

definition validate_trade :: "bool \<Rightarrow> bool \<Rightarrow> md_trade \<Rightarrow> validator \<Rightarrow> (py_error + quality_issue list) \<times> validator" where
  "validate_trade aware_ex aware_lo t v =
     (let issues = common_checks aware_ex aware_lo (td_symbol t) (td_price t) (td_exchange_ts t) (td_local_ts t) v
            @ size_checks t v;
          (dups, tr) = duplicate_check t (dv_dup_window v) (dv_track (td_symbol t) v);
          v1 = put_track (td_symbol t) tr v
      in if \<not> aware_ex \<and> sy_last_trade_ts tr \<noteq> None then (Inl TypeError, v1)
         else
           let issues = issues @ dups @ order_check t (dv_ooo_grace v) tr @ jump_check t (dv_max_jump v) tr;
               v2 = (if should_discard issues then v1 else put_track (td_symbol t) (accept_track t tr) v1)
           in (Inr issues, account issues v2))"

definition validate_ticker :: "bool \<Rightarrow> bool \<Rightarrow> md_ticker \<Rightarrow> validator \<Rightarrow> quality_issue list \<times> validator" where
  "validate_ticker aware_ex aware_lo t v =
     (let issues = common_checks aware_ex aware_lo (tk_symbol t) (tk_bid t) (tk_exchange_ts t) (tk_local_ts t) v
        @ (if tk_ask t \<le> 0 then [issue NEGATIVE_PRICE (tk_symbol t) (Fmt ''ask={}'' [ArgReal (tk_ask t)]) True]
           else if 0 < tk_bid t \<and> tk_bid t > tk_ask t
             then [issue CROSSED_BOOK (tk_symbol t) (Fmt ''bid={} > ask={}'' [ArgReal (tk_bid t), ArgReal (tk_ask t)]) True]
           else [])
      in (issues, account issues v))"

definition validate_candle :: "md_candle \<Rightarrow> validator \<Rightarrow> quality_issue list \<times> validator" where
  "validate_candle c v =
     (let body_high = max (cd_open c) (cd_close c); body_low = min (cd_open c) (cd_close c);
          issues =
            (if cd_high c < body_high \<or> cd_low c > body_low \<or> cd_low c > cd_high c
             then [issue MALFORMED_CANDLE (cd_symbol c) (Fmt ''ohlc=({},{},{},{})''
                     [ArgReal (cd_open c), ArgReal (cd_high c), ArgReal (cd_low c), ArgReal (cd_close c)]) True] else [])
            @ (if min (min (min (cd_open c) (cd_high c)) (cd_low c)) (cd_close c) \<le> 0
               then [issue NEGATIVE_PRICE (cd_symbol c) (Lit ''precio <= 0 en OHLC'') True] else [])
            @ (if cd_volume c < 0 \<or> cd_volume c > dv_max_volume v
               then [issue IMPOSSIBLE_VOLUME (cd_symbol c) (Fmt ''volume={}'' [ArgReal (cd_volume c)]) True] else [])
            @ (if cd_end c \<le> cd_start c
               then [issue INVALID_TIMESTAMP (cd_symbol c) (Lit ''end <= start'') True] else [])
      in (issues, account issues v))"

text \<open>The first bad level ends the loop over the bids and then the asks.\<close>

fun level_issues :: "string \<Rightarrow> depth_level list \<Rightarrow> quality_issue list" where
  "level_issues s [] = []"
| "level_issues s (l # ls) =
     (if lv_price l \<le> 0 then [issue NEGATIVE_PRICE s (Fmt ''level price={}'' [ArgReal (lv_price l)]) True]
      else if lv_size l < 0 then [issue NEGATIVE_SIZE s (Fmt ''level size={}'' [ArgReal (lv_size l)]) True]
      else level_issues s ls)"

definition validate_book_delta :: "book_delta \<Rightarrow> validator \<Rightarrow> quality_issue list \<times> validator" where
  "validate_book_delta d v =
     (let issues = level_issues (bd_symbol d) (bd_bids d @ bd_asks d) in (issues, account issues v))"

definition validate_funding :: "bool \<Rightarrow> bool \<Rightarrow> funding_rate \<Rightarrow> validator \<Rightarrow> quality_issue list \<times> validator" where
  "validate_funding aware_ex aware_lo f v =
     (let issues = timestamp_checks aware_ex aware_lo (fr_symbol f) (fr_exchange_ts f) (fr_local_ts f) v
      in (issues, account issues v))"

definition validate_open_interest :: "bool \<Rightarrow> bool \<Rightarrow> open_interest \<Rightarrow> validator \<Rightarrow> quality_issue list \<times> validator" where
  "validate_open_interest aware_ex aware_lo x v =
     (let issues = timestamp_checks aware_ex aware_lo (op_symbol x) (op_exchange_ts x) (op_local_ts x) v
        @ (if op_contracts x < 0 then [issue NEGATIVE_SIZE (op_symbol x) (Fmt ''contracts={}'' [ArgReal (op_contracts x)]) True] else [])
      in (issues, account issues v))"

definition validate_liquidation :: "bool \<Rightarrow> bool \<Rightarrow> liquidation \<Rightarrow> validator \<Rightarrow> quality_issue list \<times> validator" where
  "validate_liquidation aware_ex aware_lo x v =
     (let issues = common_checks aware_ex aware_lo (ld_symbol x) (ld_price x) (ld_exchange_ts x) (ld_local_ts x) v
        @ (if ld_size x < 0 then [issue NEGATIVE_SIZE (ld_symbol x) (Fmt ''size={}'' [ArgReal (ld_size x)]) True] else [])
      in (issues, account issues v))"

section \<open>The trade gate\<close>

definition track_ids :: "symbol_track \<Rightarrow> string list" where
  "track_ids tr = (case sy_recent_ids tr of None \<Rightarrow> [] | Some ids \<Rightarrow> ids)"

definition jump_pct :: "real \<Rightarrow> real \<Rightarrow> real" where
  "jump_pct l p = \<bar>p - l\<bar> / l * 100"

definition trade_clean :: "md_trade \<Rightarrow> validator \<Rightarrow> bool" where
  "trade_clean t v \<longleftrightarrow> 0 < td_price t \<and> 0 \<le> td_size t \<and> td_size t \<le> dv_max_volume v
     \<and> td_exchange_ts t \<le> td_local_ts t + dv_future_tolerance v"

text \<open>The gate, as a condition on the trade and the track of its symbol.\<close>

definition passes :: "md_trade \<Rightarrow> validator \<Rightarrow> bool" where
  "passes t v \<longleftrightarrow> (let tr = dv_track (td_symbol t) v in
     trade_clean t v \<and> (td_trade_id t = [] \<or> td_trade_id t \<notin> set (track_ids tr))
     \<and> (\<forall>l. sy_last_trade_ts tr = Some l \<longrightarrow> l - dv_ooo_grace v \<le> td_exchange_ts t)
     \<and> (\<forall>l. sy_last_price tr = Some l \<longrightarrow> 0 < l \<longrightarrow> jump_pct l (td_price t) \<le> dv_max_jump v))"

definition seen_track :: "md_trade \<Rightarrow> validator \<Rightarrow> symbol_track" where
  "seen_track t v = snd (duplicate_check t (dv_dup_window v) (dv_track (td_symbol t) v))"

lemma discard_Nil [simp]: "\<not> should_discard []"
  by (simp add: should_discard_def)

lemma discard_append [simp]: "should_discard (xs @ ys) \<longleftrightarrow> should_discard xs \<or> should_discard ys"
  by (auto simp: should_discard_def)

lemma discard_issue [simp]: "should_discard (issue i s d k # xs) \<longleftrightarrow> k \<or> should_discard xs"
  by (auto simp: should_discard_def issue_def)

lemma account_track [simp]: "dv_track s (account is v) = dv_track s v"
  by (simp add: account_def dv_track_def)

lemma put_track_track [simp]: "dv_track s (put_track s' tr v) = (if s = s' then tr else dv_track s v)"
  by (simp add: put_track_def dv_track_def pd_get_or_def)

lemma duplicate_check_frame:
  "sy_last_trade_ts (snd (duplicate_check t w tr)) = sy_last_trade_ts tr"
  "sy_last_price (snd (duplicate_check t w tr)) = sy_last_price tr"
  by (simp_all add: duplicate_check_def Let_def)

lemma clean_checks:
  "should_discard (common_checks True True (td_symbol t) (td_price t) (td_exchange_ts t) (td_local_ts t) v @ size_checks t v)
    \<longleftrightarrow> \<not> trade_clean t v"
  by (auto simp: common_checks_def timestamp_checks_def size_checks_def trade_clean_def)

lemma history_checks:
  "should_discard (fst (duplicate_check t w tr)) \<longleftrightarrow> \<not> (td_trade_id t = [] \<or> td_trade_id t \<notin> set (track_ids tr))"
  "should_discard (order_check t g tr) \<longleftrightarrow> \<not> (\<forall>l. sy_last_trade_ts tr = Some l \<longrightarrow> l - g \<le> td_exchange_ts t)"
  "0 < td_price t \<Longrightarrow> should_discard (jump_check t m tr)
     \<longleftrightarrow> \<not> (\<forall>l. sy_last_price tr = Some l \<longrightarrow> 0 < l \<longrightarrow> jump_pct l (td_price t) \<le> m)"
  by (auto simp: duplicate_check_def order_check_def jump_check_def jump_pct_def track_ids_def Let_def split: option.splits)

lemma same_track:
  "sy_last_trade_ts tr = sy_last_trade_ts tr' \<Longrightarrow> order_check t g tr = order_check t g tr'"
  "sy_last_price tr = sy_last_price tr' \<Longrightarrow> jump_check t m tr = jump_check t m tr'"
  by (simp_all add: order_check_def jump_check_def)

text \<open>What \<open>validate_trade\<close> answers, and the only track it touches.\<close>

lemma validate_trade_eq:
  "(\<exists>is. fst (validate_trade True True t v) = Inr is \<and> (should_discard is \<longleftrightarrow> \<not> passes t v))
   \<and> dv_track s (snd (validate_trade True True t v)) =
      (if s = td_symbol t then (if passes t v then accept_track t (seen_track t v) else seen_track t v) else dv_track s v)"
proof -
  let ?tr = "dv_track (td_symbol t) v"
  obtain dups tr where d: "duplicate_check t (dv_dup_window v) ?tr = (dups, tr)" by fastforce
  have frame: "sy_last_trade_ts tr = sy_last_trade_ts ?tr" "sy_last_price tr = sy_last_price ?tr"
    using duplicate_check_frame [of t "dv_dup_window v" ?tr] by (simp_all add: d)
  let ?is = "common_checks True True (td_symbol t) (td_price t) (td_exchange_ts t) (td_local_ts t) v @ size_checks t v
    @ dups @ order_check t (dv_ooo_grace v) tr @ jump_check t (dv_max_jump v) tr"
  have "should_discard ?is \<longleftrightarrow> \<not> passes t v"
    using clean_checks [of t v] history_checks(1) [of t "dv_dup_window v" ?tr] history_checks(2) [of t "dv_ooo_grace v" ?tr]
      history_checks(3) [of t "dv_max_jump v" ?tr]
    by (auto simp: passes_def Let_def d same_track(1) [OF frame(1)] same_track(2) [OF frame(2)] trade_clean_def)
  then show ?thesis
    by (simp add: validate_trade_def Let_def d seen_track_def)
qed

lemma put_track_frame [simp]:
  "dv_max_jump (put_track s tr v) = dv_max_jump v" "dv_max_volume (put_track s tr v) = dv_max_volume v"
  "dv_future_tolerance (put_track s tr v) = dv_future_tolerance v" "dv_dup_window (put_track s tr v) = dv_dup_window v"
  "dv_ooo_grace (put_track s tr v) = dv_ooo_grace v"
  by (simp_all add: put_track_def)

lemma account_frame [simp]:
  "dv_max_jump (account is v) = dv_max_jump v" "dv_max_volume (account is v) = dv_max_volume v"
  "dv_future_tolerance (account is v) = dv_future_tolerance v" "dv_dup_window (account is v) = dv_dup_window v"
  "dv_ooo_grace (account is v) = dv_ooo_grace v"
  by (simp_all add: account_def)

definition same_limits :: "validator \<Rightarrow> validator \<Rightarrow> bool" where
  "same_limits v w \<longleftrightarrow> dv_max_jump w = dv_max_jump v \<and> dv_max_volume w = dv_max_volume v
     \<and> dv_future_tolerance w = dv_future_tolerance v \<and> dv_dup_window w = dv_dup_window v \<and> dv_ooo_grace w = dv_ooo_grace v"

lemma validate_trade_limits: "same_limits v (snd (validate_trade True True t v))"
  by (simp add: validate_trade_def Let_def same_limits_def split: prod.split)

text \<open>A run of trades through the gate, with those it lets through.\<close>

definition gate_step :: "md_trade \<Rightarrow> md_trade list \<times> validator \<Rightarrow> md_trade list \<times> validator" where
  "gate_step t st = (case validate_trade True True t (snd st) of
       (Inr is, v) \<Rightarrow> (if should_discard is then fst st else fst st @ [t], v)
     | (Inl _, v) \<Rightarrow> (fst st, v))"

definition gate_run :: "md_trade list \<Rightarrow> validator \<Rightarrow> md_trade list \<times> validator" where
  "gate_run ts v = fold gate_step ts ([], v)"

lemma gate_step_eq:
  "gate_step t (acc, v) = (if passes t v then acc @ [t] else acc, snd (validate_trade True True t v))"
  using validate_trade_eq [of t v] by (auto simp: gate_step_def split: prod.splits sum.splits)

definition of_symbol :: "string \<Rightarrow> md_trade \<Rightarrow> bool" where
  "of_symbol s t \<longleftrightarrow> td_symbol t = s"

text \<open>What the track of a symbol knows of the trades the gate has seen and let through.\<close>

definition track_knows :: "string \<Rightarrow> validator \<Rightarrow> md_trade list \<Rightarrow> md_trade list \<Rightarrow> validator \<Rightarrow> bool" where
  "track_knows s v0 seen acc v \<longleftrightarrow> (let tr = dv_track s v in same_limits v0 v
     \<and> sy_last_price tr = (if acc = [] then None else Some (td_price (last acc)))
     \<and> sy_last_trade_ts tr = (if acc = [] then None else Some (Max (td_exchange_ts ` set acc)))
     \<and> length (track_ids tr) \<le> length seen
     \<and> (length seen \<le> dv_dup_window v0 \<longrightarrow> (\<forall>t \<in> set acc. td_trade_id t = [] \<or> td_trade_id t \<in> set (track_ids tr)))
     \<and> (\<forall>t \<in> set acc. trade_clean t v0)
     \<and> successively (\<lambda>a b. jump_pct (td_price a) (td_price b) \<le> dv_max_jump v0) acc
     \<and> sorted_wrt (\<lambda>a b. td_exchange_ts a - dv_ooo_grace v0 \<le> td_exchange_ts b) acc
     \<and> (length seen \<le> dv_dup_window v0 \<longrightarrow> sorted_wrt (\<lambda>a b. td_trade_id a = [] \<or> td_trade_id a \<noteq> td_trade_id b) acc))"

lemma seen_track_eq:
  "sy_last_trade_ts (seen_track t v) = sy_last_trade_ts (dv_track (td_symbol t) v)"
  "sy_last_price (seen_track t v) = sy_last_price (dv_track (td_symbol t) v)"
  by (simp_all add: seen_track_def duplicate_check_frame)

lemma seen_track_ids:
  assumes "length (track_ids (dv_track (td_symbol t) v)) \<le> n"
  shows "length (track_ids (seen_track t v)) \<le> Suc n"
    "Suc n \<le> dv_dup_window v \<Longrightarrow> set (track_ids (dv_track (td_symbol t) v)) \<subseteq> set (track_ids (seen_track t v))
       \<and> (td_trade_id t = [] \<or> td_trade_id t \<in> set (track_ids (seen_track t v)))"
proof -
  let ?ids = "track_ids (dv_track (td_symbol t) v)"
  have ids: "track_ids (seen_track t v) = (if td_trade_id t = [] \<or> td_trade_id t \<in> set ?ids then ?ids
      else deque_append (dv_dup_window v) (td_trade_id t) ?ids)"
    by (auto simp: seen_track_def duplicate_check_def track_ids_def Let_def split: option.splits)
  show "length (track_ids (seen_track t v)) \<le> Suc n"
    using assms by (simp add: ids deque_append_def min_le_iff_disj)
  show "Suc n \<le> dv_dup_window v \<Longrightarrow> set ?ids \<subseteq> set (track_ids (seen_track t v))
      \<and> (td_trade_id t = [] \<or> td_trade_id t \<in> set (track_ids (seen_track t v)))"
    using assms by (auto simp: ids deque_append_def)
qed

lemma accept_track_fields [simp]:
  "sy_last_price (accept_track t tr) = Some (td_price t)" "track_ids (accept_track t tr) = track_ids tr"
  "sy_last_trade_ts (accept_track t tr)
     = Some (case sy_last_trade_ts tr of None \<Rightarrow> td_exchange_ts t | Some l \<Rightarrow> max l (td_exchange_ts t))"
  by (simp_all add: accept_track_def track_ids_def)

lemma same_limits_trans: "same_limits a b \<Longrightarrow> same_limits b c \<Longrightarrow> same_limits a c"
  by (simp add: same_limits_def)

lemma knows_rejected:
  assumes "track_knows s v0 seen acc v" "td_symbol t = s" "\<not> passes t v"
  shows "track_knows s v0 (seen @ [t]) acc (snd (validate_trade True True t v))"
proof -
  let ?v = "snd (validate_trade True True t v)"
  have tr: "dv_track s ?v = seen_track t v" using validate_trade_eq [of t v s] assms by simp
  have w: "dv_dup_window v = dv_dup_window v0" using assms(1) by (simp add: track_knows_def Let_def same_limits_def)
  have n: "length (track_ids (dv_track (td_symbol t) v)) \<le> length seen"
    using assms by (simp add: track_knows_def Let_def)
  note ids = seen_track_ids [OF n]
  show ?thesis
    using assms(1,2) ids w same_limits_trans [OF _ validate_trade_limits [of v t], of v0]
    by (auto simp: track_knows_def Let_def tr seen_track_eq)
qed

lemma Max_image_snoc: "acc \<noteq> [] \<Longrightarrow> Max (f ` set (acc @ [t])) = max (Max (f ` set acc)) (f t :: 'a :: linorder)"
  by (simp add: max.commute)

lemma knows_accepted:
  assumes "track_knows s v0 seen acc v" "td_symbol t = s" "passes t v"
    "\<forall>l \<in> set acc. 0 < td_price l"
  shows "track_knows s v0 (seen @ [t]) (acc @ [t]) (snd (validate_trade True True t v))"
proof -
  let ?v = "snd (validate_trade True True t v)" and ?tr = "dv_track s v"
  have tr: "dv_track s ?v = accept_track t (seen_track t v)" using validate_trade_eq [of t v s] assms by simp
  have k: "same_limits v0 v" "sy_last_price ?tr = (if acc = [] then None else Some (td_price (last acc)))"
    "sy_last_trade_ts ?tr = (if acc = [] then None else Some (Max (td_exchange_ts ` set acc)))"
    using assms(1) by (simp_all add: track_knows_def Let_def)
  have limits: "same_limits v0 ?v" using same_limits_trans [OF k(1) validate_trade_limits] .
  have n: "length (track_ids (dv_track (td_symbol t) v)) \<le> length seen"
    using assms by (simp add: track_knows_def Let_def)
  have p: "trade_clean t v0" "acc \<noteq> [] \<Longrightarrow> Max (td_exchange_ts ` set acc) - dv_ooo_grace v0 \<le> td_exchange_ts t"
    "acc \<noteq> [] \<Longrightarrow> jump_pct (td_price (last acc)) (td_price t) \<le> dv_max_jump v0"
    "td_trade_id t = [] \<or> td_trade_id t \<notin> set (track_ids ?tr)"
    using assms(2-4) k by (auto simp: passes_def Let_def trade_clean_def same_limits_def)
  have times: "\<forall>a \<in> set acc. td_exchange_ts a - dv_ooo_grace v0 \<le> td_exchange_ts t"
  proof
    fix a assume "a \<in> set acc"
    then have "acc \<noteq> []" "td_exchange_ts a \<le> Max (td_exchange_ts ` set acc)" by auto
    with p(2) show "td_exchange_ts a - dv_ooo_grace v0 \<le> td_exchange_ts t" by linarith
  qed
  have fresh: "\<forall>a \<in> set acc. td_trade_id a = [] \<or> td_trade_id a \<noteq> td_trade_id t" if "length seen \<le> dv_dup_window v0"
    using assms(1) p(4) that by (auto simp: track_knows_def Let_def)
  have w: "dv_dup_window v = dv_dup_window v0" using k(1) by (simp add: same_limits_def)
  note ids = seen_track_ids [OF n]
  have last: "sy_last_trade_ts (dv_track s ?v) = Some (Max (td_exchange_ts ` set (acc @ [t])))"
    using k(3) assms(2) by (cases "acc = []") (simp_all add: tr seen_track_eq Max_image_snoc del: set_append)
  have old: "\<forall>t \<in> set acc. trade_clean t v0" "successively (\<lambda>a b. jump_pct (td_price a) (td_price b) \<le> dv_max_jump v0) acc"
    "sorted_wrt (\<lambda>a b. td_exchange_ts a - dv_ooo_grace v0 \<le> td_exchange_ts b) acc"
    "length seen \<le> dv_dup_window v0 \<Longrightarrow> sorted_wrt (\<lambda>a b. td_trade_id a = [] \<or> td_trade_id a \<noteq> td_trade_id b) acc"
    "length seen \<le> dv_dup_window v0 \<Longrightarrow> \<forall>t \<in> set acc. td_trade_id t = [] \<or> td_trade_id t \<in> set (track_ids ?tr)"
    using assms(1) by (simp_all add: track_knows_def Let_def)
  have jumps: "successively (\<lambda>a b. jump_pct (td_price a) (td_price b) \<le> dv_max_jump v0) (acc @ [t])"
    using old(2) p(3) by (cases "acc = []") (simp_all add: successively_append_iff)
  have order: "sorted_wrt (\<lambda>a b. td_exchange_ts a - dv_ooo_grace v0 \<le> td_exchange_ts b) (acc @ [t])"
    using old(3) times by (simp add: sorted_wrt_append)
  have unique: "length (seen @ [t]) \<le> dv_dup_window v0 \<longrightarrow>
      sorted_wrt (\<lambda>a b. td_trade_id a = [] \<or> td_trade_id a \<noteq> td_trade_id b) (acc @ [t])
      \<and> (\<forall>a \<in> set (acc @ [t]). td_trade_id a = [] \<or> td_trade_id a \<in> set (track_ids (dv_track s ?v)))"
  proof (intro impI)
    assume n: "length (seen @ [t]) \<le> dv_dup_window v0"
    then have sub: "set (track_ids ?tr) \<subseteq> set (track_ids (dv_track s ?v))"
      "td_trade_id t = [] \<or> td_trade_id t \<in> set (track_ids (dv_track s ?v))"
      using ids(2) w assms(2) by (simp_all add: tr)
    have "\<forall>a \<in> set acc. td_trade_id a = [] \<or> td_trade_id a \<in> set (track_ids (dv_track s ?v))"
      using old(5) sub(1) n by auto
    with old(4) fresh sub(2) n show "sorted_wrt (\<lambda>a b. td_trade_id a = [] \<or> td_trade_id a \<noteq> td_trade_id b) (acc @ [t])
      \<and> (\<forall>a \<in> set (acc @ [t]). td_trade_id a = [] \<or> td_trade_id a \<in> set (track_ids (dv_track s ?v)))"
      by (simp add: sorted_wrt_append)
  qed
  show ?thesis
    unfolding track_knows_def Let_def
    using limits last jumps order unique old(1) p(1) ids(1) assms(2) by (simp add: tr)
qed

lemma gate_run_snoc: "gate_run (ts @ [t]) v = gate_step t (gate_run ts v)"
  by (simp add: gate_run_def)

lemma gate_run_knows:
  "dv_tracks v = [] \<Longrightarrow> track_knows s v (filter (of_symbol s) ts) (filter (of_symbol s) (fst (gate_run ts v))) (snd (gate_run ts v))"
proof (induction ts rule: rev_induct)
  case Nil
  then show ?case
    by (simp add: gate_run_def track_knows_def same_limits_def dv_track_def pd_get_or_def new_track_def track_ids_def)
next
  case (snoc t ts)
  obtain acc w where g: "gate_run ts v = (acc, w)" by fastforce
  let ?acc = "filter (of_symbol s) acc"
  have k: "track_knows s v (filter (of_symbol s) ts) ?acc w" using snoc g by simp
  have sym: "of_symbol s t \<longleftrightarrow> td_symbol t = s" by (simp add: of_symbol_def)
  show ?case
  proof (cases "td_symbol t = s")
    case False
    then have "dv_track s (snd (validate_trade True True t w)) = dv_track s w"
      using validate_trade_eq [of t w s] by auto
    moreover have "same_limits v (snd (validate_trade True True t w))"
      using k same_limits_trans [OF _ validate_trade_limits] by (simp add: track_knows_def Let_def)
    ultimately show ?thesis using k False
      by (cases "passes t w") (simp_all add: gate_run_snoc g gate_step_eq sym track_knows_def Let_def)
  next
    case True
    have "\<forall>l \<in> set ?acc. 0 < td_price l"
      using k by (auto simp: track_knows_def Let_def trade_clean_def)
    with True knows_accepted [OF k True] knows_rejected [OF k True] show ?thesis
      by (simp add: gate_run_snoc g gate_step_eq sym)
  qed
qed

section \<open>Properties\<close>

text \<open>
  Property C25: what the trade gate lets through is clean.  In any stream of trades of any symbols, the
  trades of a symbol that a fresh validator accepts have a positive price, a size within bounds and a
  timestamp that is not from the future; each price is within the allowed jump of the one accepted
  before it; none is older than an earlier accepted one by more than the grace; and while no more trades
  of the symbol were seen than the duplicate window holds, no identifier is accepted twice.
\<close>

theorem accepted_trades_clean:
  fixes ts :: "md_trade list" and s :: string and v :: validator
  assumes "dv_tracks v = []"
  defines "acc \<equiv> filter (of_symbol s) (fst (gate_run ts v))"
  shows "(\<forall>t \<in> set acc. 0 < td_price t \<and> 0 \<le> td_size t \<and> td_size t \<le> dv_max_volume v
        \<and> td_exchange_ts t \<le> td_local_ts t + dv_future_tolerance v)
    \<and> successively (\<lambda>a b. \<bar>td_price b - td_price a\<bar> / td_price a * 100 \<le> dv_max_jump v) acc
    \<and> sorted_wrt (\<lambda>a b. td_exchange_ts a - dv_ooo_grace v \<le> td_exchange_ts b) acc
    \<and> (length (filter (of_symbol s) ts) \<le> dv_dup_window v \<longrightarrow>
        sorted_wrt (\<lambda>a b. td_trade_id a = [] \<or> td_trade_id a \<noteq> td_trade_id b) acc)"
  using gate_run_knows [OF assms(1), of s ts]
  by (simp add: track_knows_def Let_def trade_clean_def acc_def jump_pct_def)

theorem accepted_trades_clean_witness:
  "dv_tracks default_validator = [] \<and>
   successively (\<lambda>a b. \<bar>td_price b - td_price a\<bar> / td_price a * 100 \<le> dv_max_jump default_validator)
     (filter (of_symbol ''X'') (fst (gate_run [example_tick 0 5, example_tick 1000000 9, example_tick 2000000 6] default_validator)))"
  using accepted_trades_clean [of default_validator "''X''" "[example_tick 0 5, example_tick 1000000 9, example_tick 2000000 6]"]
  by (simp add: default_validator_def dv_new_def)

text \<open>
  A genuine jump blocks the symbol for good.  A trade discarded for its price gap does not
  become the new reference, so once the market has moved by more than the allowed jump from the last
  accepted price and stays there, every trade of the symbol is discarded, however many follow.
\<close>

theorem price_gap_blocks_symbol:
  assumes "sy_last_price (dv_track s v) = Some l" "0 < l"
    and "\<forall>t \<in> set ts. td_symbol t = s \<longrightarrow> dv_max_jump v < \<bar>td_price t - l\<bar> / l * 100"
  shows "filter (of_symbol s) (fst (gate_run ts v)) = [] \<and> sy_last_price (dv_track s (snd (gate_run ts v))) = Some l"
proof -
  have "filter (of_symbol s) (fst (gate_run ts v)) = [] \<and> sy_last_price (dv_track s (snd (gate_run ts v))) = Some l
      \<and> same_limits v (snd (gate_run ts v))"
    using assms(3)
  proof (induction ts rule: rev_induct)
    case Nil
    then show ?case using assms(1) by (simp add: gate_run_def same_limits_def)
  next
    case (snoc t ts)
    obtain acc w where g: "gate_run ts v = (acc, w)" by fastforce
    have w: "filter (of_symbol s) acc = []" "sy_last_price (dv_track s w) = Some l" "same_limits v w"
      using snoc by (simp_all add: g)
    have sym: "of_symbol s t \<longleftrightarrow> td_symbol t = s" by (simp add: of_symbol_def)
    have "\<not> passes t w" if "td_symbol t = s"
      using that snoc.prems w(2,3) assms(2) by (auto simp: passes_def Let_def jump_pct_def same_limits_def)
    with w validate_trade_eq [of t w s] same_limits_trans [OF w(3) validate_trade_limits [of w t]] show ?case
      by (auto simp: gate_run_snoc g gate_step_eq sym seen_track_eq)
  qed
  then show ?thesis by simp
qed

theorem price_gap_blocks_symbol_witness:
  "filter (of_symbol ''X'') (fst (gate_run [example_tick 2000000 130, example_tick 90000000 131, example_tick 900000000 132]
     (put_track ''X'' \<lparr> sy_last_trade_ts = Some 0, sy_last_price = Some 100, sy_recent_ids = None \<rparr> default_validator))) = []"
  using price_gap_blocks_symbol [of "''X''"
      "put_track ''X'' \<lparr> sy_last_trade_ts = Some 0, sy_last_price = Some 100, sy_recent_ids = None \<rparr> default_validator" 100
      "[example_tick 2000000 130, example_tick 90000000 131, example_tick 900000000 132]"]
  by (simp add: example_tick_def default_validator_def dv_new_def)

end
