(* ===== verification/Order_Books.thy ===== *)
theory Order_Books
  imports Data_Validator
begin

text \<open>
  \<open>app/market/services/orderbook_manager.py\<close>: the live order book of a symbol from snapshots and
  incremental updates, and the registry of books.  The engine refines a specification that knows the
  two sides only as maps from prices to sizes, cut to the best levels.
\<close>

section \<open>The engine of one book\<close>

record book_engine =
  oe_symbol :: string
  oe_provider :: string
  oe_max_depth :: nat
  oe_bids :: "(real, real) pydict"
  oe_asks :: "(real, real) pydict"
  oe_sequence :: int
  oe_synced :: bool
  oe_exchange_ts :: "time option"
  oe_local_ts :: "time option"
  oe_updates_applied :: int

definition oe_new :: "string \<Rightarrow> string \<Rightarrow> nat \<Rightarrow> book_engine" where
  "oe_new s p n = \<lparr> oe_symbol = s, oe_provider = p, oe_max_depth = n, oe_bids = [], oe_asks = [], oe_sequence = 0,
     oe_synced = False, oe_exchange_ts = None, oe_local_ts = None, oe_updates_applied = 0 \<rparr>"

definition side_of_levels :: "depth_level list \<Rightarrow> (real, real) pydict" where
  "side_of_levels ls = fold (\<lambda>l d. pd_put d (lv_price l) (lv_size l)) (filter (\<lambda>l. 0 < lv_size l) ls) []"

definition apply_level :: "depth_level \<Rightarrow> (real, real) pydict \<Rightarrow> (real, real) pydict" where
  "apply_level l d = (if lv_size l \<le> 0 then pd_pop d (lv_price l) else pd_put d (lv_price l) (lv_size l))"

definition apply_side :: "(real, real) pydict \<Rightarrow> depth_level list \<Rightarrow> (real, real) pydict" where
  "apply_side side ls = fold apply_level ls side"

definition has_gap :: "book_delta \<Rightarrow> book_engine \<Rightarrow> bool" where
  "has_gap d e \<longleftrightarrow> bd_first_sequence d \<noteq> 0 \<and> oe_sequence e \<noteq> 0 \<and> bd_first_sequence d > oe_sequence e + 1"

text \<open>Prices from the best to the worst: descending for bids, ascending for asks.\<close>

definition ranked :: "bool \<Rightarrow> real list \<Rightarrow> real list" where
  "ranked is_bid ps = (if is_bid then rev (sort ps) else sort ps)"

definition trim_side :: "bool \<Rightarrow> nat \<Rightarrow> (real, real) pydict \<Rightarrow> (real, real) pydict" where
  "trim_side is_bid n d = (if length d > n then fold (\<lambda>p d. pd_pop d p) (drop n (ranked is_bid (pd_keys d))) d else d)"

definition oe_trim :: "book_engine \<Rightarrow> book_engine" where
  "oe_trim e = e\<lparr> oe_bids := trim_side True (oe_max_depth e) (oe_bids e), oe_asks := trim_side False (oe_max_depth e) (oe_asks e) \<rparr>"

definition side_levels :: "bool \<Rightarrow> (real, real) pydict \<Rightarrow> depth_level list" where
  "side_levels is_bid d = map (\<lambda>p. \<lparr> lv_price = p, lv_size = the (pd_get d p) \<rparr>) (ranked is_bid (pd_keys d))"

definition oe_snapshot :: "book_engine \<Rightarrow> order_book option" where
  "oe_snapshot e = (case (oe_exchange_ts e, oe_local_ts e) of
       (Some ex, Some lo) \<Rightarrow>
         if \<not> oe_synced e then None
         else Some \<lparr> bk_symbol = oe_symbol e, bk_provider = oe_provider e, bk_bids = side_levels True (oe_bids e),
           bk_asks = side_levels False (oe_asks e), bk_sequence = oe_sequence e, bk_exchange_ts = ex, bk_local_ts = lo \<rparr>
     | _ \<Rightarrow> None)"

definition oe_applied :: "book_delta \<Rightarrow> book_engine \<Rightarrow> order_book option \<times> book_engine" where
  "oe_applied d e =
     (let e1 = oe_trim (e\<lparr> oe_exchange_ts := Some (bd_exchange_ts d), oe_local_ts := Some (bd_local_ts d),
                           oe_updates_applied := oe_updates_applied e + 1 \<rparr>)
      in (oe_snapshot e1, e1))"

definition oe_apply :: "book_delta \<Rightarrow> book_engine \<Rightarrow> order_book option \<times> book_engine" where
  "oe_apply d e =
     (if bd_is_snapshot d
      then oe_applied d (e\<lparr> oe_bids := side_of_levels (bd_bids d), oe_asks := side_of_levels (bd_asks d),
                            oe_sequence := bd_last_sequence d, oe_synced := True \<rparr>)
      else if \<not> oe_synced e then (None, e)
      else if has_gap d e then (None, e\<lparr> oe_synced := False \<rparr>)
      else if 0 < bd_last_sequence d \<and> bd_last_sequence d \<le> oe_sequence e then (None, e)
      else oe_applied d (e\<lparr> oe_bids := apply_side (oe_bids e) (bd_bids d), oe_asks := apply_side (oe_asks e) (bd_asks d),
             oe_sequence := (if bd_last_sequence d \<noteq> 0 then bd_last_sequence d else oe_sequence e) \<rparr>))"

section \<open>The registry\<close>

record book_manager =
  bm_max_depth :: nat
  bm_engines :: "(string, book_engine) pydict"

definition bm_engine :: "string \<Rightarrow> string \<Rightarrow> book_manager \<Rightarrow> book_engine" where
  "bm_engine s p m = pd_get_or (bm_engines m) s (oe_new s p (bm_max_depth m))"

definition bm_apply :: "book_delta \<Rightarrow> book_manager \<Rightarrow> (order_book option \<times> bool) \<times> book_manager" where
  "bm_apply d m =
     (let e = bm_engine (bd_symbol d) (bd_provider d) m; was_synced = oe_synced e; (book, e') = oe_apply d e;
          resync_needed = was_synced \<and> \<not> oe_synced e'
      in ((book, resync_needed), m\<lparr> bm_engines := pd_put (bm_engines m) (bd_symbol d) e' \<rparr>))"

definition bm_status :: "book_manager \<Rightarrow> (string \<times> json_dict) list" where
  "bm_status m = map (\<lambda>(s, e). (s, [(''synced'', JBool (oe_synced e)), (''sequence'', JInt (oe_sequence e)),
      (''updates_applied'', JInt (oe_updates_applied e))])) (bm_engines m)"

section \<open>Ranked prices\<close>

definition better :: "bool \<Rightarrow> real \<Rightarrow> real \<Rightarrow> bool" where
  "better is_bid p q \<longleftrightarrow> (if is_bid then p > q else p < q)"

lemma set_ranked [simp]: "set (ranked b ps) = set ps"
  by (simp add: ranked_def)

lemma length_ranked [simp]: "length (ranked b ps) = length ps"
  by (simp add: ranked_def)

lemma distinct_ranked [simp]: "distinct (ranked b ps) = distinct ps"
  by (simp add: ranked_def)

lemma ranked_sorted: "distinct ps \<Longrightarrow> sorted_wrt (better b) (ranked b ps)"
  using strict_sorted_iff [of "sort ps"]
  by (cases b) (simp_all add: ranked_def better_def [abs_def] sorted_wrt_rev)

text \<open>In a strictly ranked list, exactly the elements before a place are better than the one at it.\<close>

lemma better_before:
  assumes "sorted_wrt (better b) xs" "i < length xs"
  shows "{q \<in> set xs. better b q (xs ! i)} = (!) xs ` {..<i}"
proof
  show "{q \<in> set xs. better b q (xs ! i)} \<subseteq> (!) xs ` {..<i}"
  proof
    fix q assume "q \<in> {q \<in> set xs. better b q (xs ! i)}"
    then obtain j where j: "j < length xs" "q = xs ! j" "better b (xs ! j) (xs ! i)"
      by (auto simp: in_set_conv_nth)
    have "\<not> i < j" using sorted_wrt_nth_less [OF assms(1) _ j(1), of i] j(3) by (auto simp: better_def split: if_splits)
    moreover have "i \<noteq> j" using j(3) by (auto simp: better_def split: if_splits)
    ultimately show "q \<in> (!) xs ` {..<i}" using j(2) by auto
  qed
  show "(!) xs ` {..<i} \<subseteq> {q \<in> set xs. better b q (xs ! i)}"
    using sorted_wrt_nth_less [OF assms(1)] assms(2) by auto
qed

lemma card_better:
  assumes "sorted_wrt (better b) xs" "distinct xs" "i < length xs"
  shows "card {q \<in> set xs. better b q (xs ! i)} = i"
proof -
  have "inj_on ((!) xs) {..<i}" using assms(2,3) by (auto simp: inj_on_def nth_eq_iff_index_eq)
  then show ?thesis by (simp add: better_before [OF assms(1,3)] card_image)
qed

lemma in_take_iff:
  assumes "sorted_wrt (better b) xs" "distinct xs" "p \<in> set xs"
  shows "p \<in> set (take n xs) \<longleftrightarrow> card {q \<in> set xs. better b q p} < n"
proof -
  obtain i where i: "i < length xs" "p = xs ! i" using assms(3) by (auto simp: in_set_conv_nth)
  have "p \<in> set (take n xs) \<longleftrightarrow> i < n"
    using i nth_eq_iff_index_eq [OF assms(2)] by (auto simp: in_set_conv_nth)
  then show ?thesis using card_better [OF assms(1,2) i(1)] i(2) by simp
qed

section \<open>The specification\<close>

text \<open>A side is a map from prices to sizes; \<open>cut\<close> keeps the prices that fewer than \<open>n\<close> others beat.\<close>

definition cut :: "bool \<Rightarrow> nat \<Rightarrow> (real \<rightharpoonup> real) \<Rightarrow> (real \<rightharpoonup> real)" where
  "cut b n m = (\<lambda>p. if card {q \<in> dom m. better b q p} < n then m p else None)"

definition put_level :: "depth_level \<Rightarrow> (real \<rightharpoonup> real) \<Rightarrow> (real \<rightharpoonup> real)" where
  "put_level l m = (if lv_size l \<le> 0 then m(lv_price l := None) else m(lv_price l \<mapsto> lv_size l))"

record book_spec =
  bs_bids :: "real \<rightharpoonup> real"
  bs_asks :: "real \<rightharpoonup> real"
  bs_sequence :: int
  bs_synced :: bool

definition spec_of :: "book_engine \<Rightarrow> book_spec" where
  "spec_of e = \<lparr> bs_bids = pd_get (oe_bids e), bs_asks = pd_get (oe_asks e), bs_sequence = oe_sequence e, bs_synced = oe_synced e \<rparr>"

text \<open>The step of the specification, with what it publishes: the two sides.\<close>

definition spec_apply :: "nat \<Rightarrow> book_delta \<Rightarrow> book_spec \<Rightarrow> ((real \<rightharpoonup> real) \<times> (real \<rightharpoonup> real)) option \<times> book_spec" where
  "spec_apply n d s =
     (let positive = filter (\<lambda>l. 0 < lv_size l);
          publish = (\<lambda>mb ma q. (Some (cut True n mb, cut False n ma),
             \<lparr> bs_bids = cut True n mb, bs_asks = cut False n ma, bs_sequence = q, bs_synced = True \<rparr>))
      in if bd_is_snapshot d
         then publish (fold put_level (positive (bd_bids d)) Map.empty) (fold put_level (positive (bd_asks d)) Map.empty) (bd_last_sequence d)
         else if \<not> bs_synced s then (None, s)
         else if bd_first_sequence d \<noteq> 0 \<and> bs_sequence s \<noteq> 0 \<and> bs_sequence s + 1 < bd_first_sequence d
           then (None, s\<lparr> bs_synced := False \<rparr>)
         else if 0 < bd_last_sequence d \<and> bd_last_sequence d \<le> bs_sequence s then (None, s)
         else publish (fold put_level (bd_bids d) (bs_bids s)) (fold put_level (bd_asks d) (bs_asks s))
                (if bd_last_sequence d \<noteq> 0 then bd_last_sequence d else bs_sequence s))"

text \<open>A list of levels that shows a side: best first, each price once, with its size.\<close>

definition shows_side :: "bool \<Rightarrow> (real \<rightharpoonup> real) \<Rightarrow> depth_level list \<Rightarrow> bool" where
  "shows_side b m ls \<longleftrightarrow> sorted_wrt (better b) (map lv_price ls) \<and> m = map_of (map (\<lambda>l. (lv_price l, lv_size l)) ls)"

definition shows_book :: "nat \<Rightarrow> order_book option \<Rightarrow> ((real \<rightharpoonup> real) \<times> (real \<rightharpoonup> real)) option \<Rightarrow> bool" where
  "shows_book n r a = (case (r, a) of
       (None, None) \<Rightarrow> True
     | (Some bk, Some (mb, ma)) \<Rightarrow> shows_side True mb (bk_bids bk) \<and> shows_side False ma (bk_asks bk)
         \<and> length (bk_bids bk) \<le> n \<and> length (bk_asks bk) \<le> n
         \<and> (\<forall>l \<in> set (bk_bids bk) \<union> set (bk_asks bk). 0 < lv_size l)
     | _ \<Rightarrow> False)"

definition side_wf :: "(real, real) pydict \<Rightarrow> bool" where
  "side_wf d \<longleftrightarrow> pd_wf d \<and> (\<forall>p s. pd_get d p = Some s \<longrightarrow> 0 < s)"

definition oe_wf :: "book_engine \<Rightarrow> bool" where
  "oe_wf e \<longleftrightarrow> side_wf (oe_bids e) \<and> side_wf (oe_asks e)"

section \<open>Sides\<close>

lemma apply_level_get: "pd_get (apply_level l d) = put_level l (pd_get d)"
  by (rule ext) (simp add: apply_level_def put_level_def)

lemma apply_side_get: "pd_get (apply_side d ls) = fold put_level ls (pd_get d)"
  unfolding apply_side_def by (induction ls arbitrary: d) (simp_all add: apply_level_get)

lemma apply_level_wf: "side_wf d \<Longrightarrow> side_wf (apply_level l d)"
  by (auto simp: side_wf_def apply_level_def split: if_splits)

lemma apply_side_wf: "side_wf d \<Longrightarrow> side_wf (apply_side d ls)"
  unfolding apply_side_def by (induction ls arbitrary: d) (simp_all add: apply_level_wf)

lemma side_of_levels_eq: "side_of_levels ls = apply_side [] (filter (\<lambda>l. 0 < lv_size l) ls)"
proof -
  have "fold (\<lambda>l d. pd_put d (lv_price l) (lv_size l)) ks d = fold apply_level ks d" if "\<forall>l \<in> set ks. 0 < lv_size l" for ks d
    using that by (induction ks arbitrary: d) (simp_all add: apply_level_def)
  then show ?thesis by (simp add: side_of_levels_def apply_side_def)
qed

lemma empty_side: "side_wf []" "pd_get [] = Map.empty"
  by (simp_all add: side_wf_def fun_eq_iff)

lemma pop_prices_get: "pd_get (fold (\<lambda>p d. pd_pop d p) ps d) p = (if p \<in> set ps then None else pd_get d p)"
  by (induction ps arbitrary: d) auto

lemma pop_prices_wf: "pd_wf d \<Longrightarrow> pd_wf (fold (\<lambda>p d. pd_pop d p) ps d)"
  by (induction ps arbitrary: d) auto

lemma dom_keys: "dom (pd_get d) = set (pd_keys d)"
  by (simp add: dom_def pd_get_in_keys)

lemma keys_length [simp]: "length (pd_keys d) = length d"
  by (simp add: pd_keys_def)

lemma trim_side_get:
  assumes "pd_wf d" shows "pd_get (trim_side b n d) = cut b n (pd_get d)"
proof
  fix p
  let ?ks = "pd_keys d" and ?r = "ranked b (pd_keys d)"
  have dist: "distinct ?ks" using assms by (rule pd_wf_distinct)
  have take: "p \<in> set (take n ?r) \<longleftrightarrow> card {q \<in> set ?ks. better b q p} < n" if "p \<in> set ?ks"
    using in_take_iff [OF ranked_sorted [OF dist, of b], of p n] dist that by simp
  show "pd_get (trim_side b n d) p = cut b n (pd_get d) p"
  proof (cases "p \<in> set ?ks")
    case False
    then have "pd_get d p = None" by (simp add: pd_get_in_keys)
    then show ?thesis by (simp add: trim_side_def cut_def pop_prices_get)
  next
    case True
    have "set (take n ?r) \<inter> set (drop n ?r) = {}" "set (take n ?r) \<union> set (drop n ?r) = set ?ks"
      using dist set_take_disj_set_drop_if_distinct [of ?r n n] set_append [of "take n ?r" "drop n ?r"] by simp_all
    then have "p \<in> set (drop n ?r) \<longleftrightarrow> p \<notin> set (take n ?r)" using True by auto
    with take [OF True] show ?thesis
      by (cases "length d > n") (simp_all add: trim_side_def cut_def pop_prices_get dom_keys)
  qed
qed

lemma trim_side_wf: "side_wf d \<Longrightarrow> side_wf (trim_side b n d)"
  by (auto simp: side_wf_def trim_side_get cut_def split: if_splits) (simp add: trim_side_def pop_prices_wf)

lemma trim_side_length:
  assumes "pd_wf d" shows "length (trim_side b n d) \<le> n"
proof (cases "length d > n")
  case True
  let ?r = "ranked b (pd_keys d)"
  have dist: "distinct ?r" using assms pd_wf_distinct by simp
  have "set (pd_keys (trim_side b n d)) = set (pd_keys d) - set (drop n ?r)"
    using True unfolding dom_keys [symmetric]
    by (auto simp: trim_side_def pop_prices_get split: if_splits)
  also have "\<dots> \<subseteq> set (take n ?r)"
    using set_append [of "take n ?r" "drop n ?r"] by auto
  finally have "card (set (pd_keys (trim_side b n d))) \<le> card (set (take n ?r))"
    by (rule card_mono [rotated]) simp
  also have "\<dots> \<le> length (take n ?r)" by (rule card_length)
  finally have "card (set (pd_keys (trim_side b n d))) \<le> n" by simp
  moreover have "distinct (pd_keys (trim_side b n d))"
    using assms by (intro pd_wf_distinct) (simp add: trim_side_def pop_prices_wf)
  ultimately show ?thesis by (simp add: distinct_card)
qed (simp add: trim_side_def)

lemma side_levels_shows:
  assumes "side_wf d"
  shows "shows_side b (pd_get d) (side_levels b d)" "length (side_levels b d) = length d" "\<forall>l \<in> set (side_levels b d). 0 < lv_size l"
proof -
  let ?r = "ranked b (pd_keys d)"
  have dist: "distinct (pd_keys d)" using assms by (simp add: side_wf_def pd_wf_distinct)
  have some: "p \<in> set ?r \<Longrightarrow> pd_get d p = Some (the (pd_get d p))" for p
    using pd_get_in_keys [of d p] by auto
  have "map_of (map (\<lambda>p. (p, the (pd_get d p))) ?r) = pd_get d"
  proof
    fix p show "map_of (map (\<lambda>p. (p, the (pd_get d p))) ?r) p = pd_get d p"
      using some [of p] pd_get_in_keys [of d p] by (auto simp: map_of_map_keys [unfolded comp_def] map_of_eq_None_iff
          map_of_map_restrict restrict_map_def comp_def)
  qed
  then show "shows_side b (pd_get d) (side_levels b d)"
    using ranked_sorted [OF dist, of b] by (simp add: shows_side_def side_levels_def comp_def)
  show "length (side_levels b d) = length d" by (simp add: side_levels_def)
  show "\<forall>l \<in> set (side_levels b d). 0 < lv_size l"
    using assms some by (auto simp: side_levels_def side_wf_def)
qed

section \<open>Refinement\<close>

lemma oe_applied_refines:
  assumes "oe_wf e" "oe_synced e" "oe_applied d e = (r, e')"
  shows "oe_wf e' \<and> oe_max_depth e' = oe_max_depth e
    \<and> spec_of e' = \<lparr> bs_bids = cut True (oe_max_depth e) (pd_get (oe_bids e)), bs_asks = cut False (oe_max_depth e) (pd_get (oe_asks e)),
        bs_sequence = oe_sequence e, bs_synced = True \<rparr>
    \<and> shows_book (oe_max_depth e) r (Some (cut True (oe_max_depth e) (pd_get (oe_bids e)), cut False (oe_max_depth e) (pd_get (oe_asks e))))"
proof -
  have wf: "side_wf (oe_bids e)" "side_wf (oe_asks e)" "pd_wf (oe_bids e)" "pd_wf (oe_asks e)"
    using assms(1) by (simp_all add: oe_wf_def side_wf_def)
  let ?tb = "trim_side True (oe_max_depth e) (oe_bids e)" and ?ta = "trim_side False (oe_max_depth e) (oe_asks e)"
  have t: "side_wf ?tb" "side_wf ?ta" using wf by (simp_all add: trim_side_wf)
  note s = side_levels_shows [OF t(1)] side_levels_shows [OF t(2)]
  have e': "e' = oe_trim (e\<lparr> oe_exchange_ts := Some (bd_exchange_ts d), oe_local_ts := Some (bd_local_ts d),
      oe_updates_applied := oe_updates_applied e + 1 \<rparr>)" and r: "r = oe_snapshot e'"
    using assms(3) by (auto simp: oe_applied_def Let_def)
  from s trim_side_length [OF wf(3), of True "oe_max_depth e"] trim_side_length [OF wf(4), of False "oe_max_depth e"] t
  show ?thesis
    unfolding r e' by (auto simp: oe_trim_def oe_wf_def spec_of_def oe_snapshot_def assms(2) shows_book_def trim_side_get wf(3,4))
qed

lemma oe_apply_refines:
  assumes "oe_wf e" "oe_apply d e = (r, e')" "spec_apply (oe_max_depth e) d (spec_of e) = (a, s')"
  shows "oe_wf e' \<and> oe_max_depth e' = oe_max_depth e \<and> spec_of e' = s' \<and> shows_book (oe_max_depth e) r a"
proof -
  have wf: "side_wf (oe_bids e)" "side_wf (oe_asks e)" using assms(1) by (simp_all add: oe_wf_def)
  show ?thesis
  proof (cases "bd_is_snapshot d")
    case True
    let ?e = "e\<lparr> oe_bids := side_of_levels (bd_bids d), oe_asks := side_of_levels (bd_asks d),
        oe_sequence := bd_last_sequence d, oe_synced := True \<rparr>"
    have "oe_wf ?e" by (simp add: oe_wf_def side_of_levels_eq apply_side_wf empty_side)
    with True assms(2,3) oe_applied_refines [of ?e d r e'] show ?thesis
      by (auto simp: oe_apply_def spec_apply_def Let_def side_of_levels_eq apply_side_get empty_side)
  next
    case False
    show ?thesis
    proof (cases "\<not> oe_synced e \<or> has_gap d e \<or> 0 < bd_last_sequence d \<and> bd_last_sequence d \<le> oe_sequence e")
      case True
      with False assms show ?thesis
        by (auto simp: oe_apply_def spec_apply_def Let_def spec_of_def has_gap_def shows_book_def oe_wf_def split: if_splits)
    next
      case go: False
      let ?e = "e\<lparr> oe_bids := apply_side (oe_bids e) (bd_bids d), oe_asks := apply_side (oe_asks e) (bd_asks d),
             oe_sequence := (if bd_last_sequence d \<noteq> 0 then bd_last_sequence d else oe_sequence e) \<rparr>"
      have "oe_wf ?e" using wf by (simp add: oe_wf_def apply_side_wf)
      moreover have "oe_applied d ?e = (r, e')" using assms(2) False go unfolding oe_apply_def by (simp only: if_False simp_thms) (metis not_le)
      moreover have "(a, s') = (Some (cut True (oe_max_depth e) (pd_get (oe_bids ?e)), cut False (oe_max_depth e) (pd_get (oe_asks ?e))),
          \<lparr> bs_bids = cut True (oe_max_depth e) (pd_get (oe_bids ?e)), bs_asks = cut False (oe_max_depth e) (pd_get (oe_asks ?e)),
            bs_sequence = oe_sequence ?e, bs_synced = True \<rparr>)"
        using assms(3) False go by (auto simp: spec_apply_def Let_def spec_of_def has_gap_def apply_side_get)
      ultimately show ?thesis using oe_applied_refines [of ?e d r e'] go by simp
    qed
  qed
qed

fun oe_run :: "book_delta list \<Rightarrow> book_engine \<Rightarrow> order_book option list \<times> book_engine" where
  "oe_run [] e = ([], e)"
| "oe_run (d # ds) e = (let (r, e1) = oe_apply d e; (rs, e2) = oe_run ds e1 in (r # rs, e2))"

fun spec_run :: "nat \<Rightarrow> book_delta list \<Rightarrow> book_spec \<Rightarrow> ((real \<rightharpoonup> real) \<times> (real \<rightharpoonup> real)) option list \<times> book_spec" where
  "spec_run n [] s = ([], s)"
| "spec_run n (d # ds) s = (let (a, s1) = spec_apply n d s; (as, s2) = spec_run n ds s1 in (a # as, s2))"

text \<open>
  Property C26: the live book refines its specification.  Over any deltas, each call publishes a book
  exactly when the specification publishes its two maps, the levels show those maps best price first,
  each price once, with positive sizes and at most the configured depth, and the state left behind has
  the sides, the sequence and the synchronisation of the specification: a snapshot replaces both
  sides, a gap silences the book until the next snapshot, an old delta changes nothing.
\<close>

theorem book_refines_levels:
  assumes "oe_run ds (oe_new symb prov n) = (rs, e)"
  shows "spec_of e = snd (spec_run n ds (spec_of (oe_new symb prov n)))
    \<and> list_all2 (shows_book n) rs (fst (spec_run n ds (spec_of (oe_new symb prov n))))"
proof -
  have "oe_run ds e0 = (rs, e) \<Longrightarrow> oe_wf e0 \<Longrightarrow> oe_max_depth e0 = n \<Longrightarrow>
      spec_of e = snd (spec_run n ds (spec_of e0)) \<and> list_all2 (shows_book n) rs (fst (spec_run n ds (spec_of e0)))" for e0
  proof (induction ds arbitrary: e0 rs)
    case (Cons d ds)
    obtain r e1 where r: "oe_apply d e0 = (r, e1)" by fastforce
    obtain rs' where rs: "oe_run ds e1 = (rs', e)" "rs = r # rs'" using Cons.prems(1) r by (auto split: prod.splits)
    obtain a s1 where a: "spec_apply n d (spec_of e0) = (a, s1)" by fastforce
    from oe_apply_refines [OF Cons.prems(2) r] a Cons.prems(3)
    have "oe_wf e1" "oe_max_depth e1 = n" "spec_of e1 = s1" "shows_book n r a" by auto
    with Cons.IH [OF rs(1)] rs(2) a show ?case by (cases "spec_run n ds s1") simp
  qed simp
  moreover have "oe_wf (oe_new symb prov n)" by (simp add: oe_wf_def oe_new_def empty_side)
  ultimately show ?thesis using assms by (simp add: oe_new_def)
qed

definition example_delta :: "bool \<Rightarrow> (real \<times> real) list \<Rightarrow> (real \<times> real) list \<Rightarrow> int \<Rightarrow> int \<Rightarrow> book_delta" where
  "example_delta snap bids asks a b = \<lparr> bd_symbol = ''X'', bd_provider = ''p'', bd_bids = map (\<lambda>(p, s). \<lparr> lv_price = p, lv_size = s \<rparr>) bids,
     bd_asks = map (\<lambda>(p, s). \<lparr> lv_price = p, lv_size = s \<rparr>) asks, bd_is_snapshot = snap, bd_first_sequence = a, bd_last_sequence = b,
     bd_exchange_ts = 0, bd_local_ts = 0 \<rparr>"

theorem book_refines_levels_witness:
  "list_all2 (shows_book 2) (fst (oe_run [example_delta True [(9, 1), (8, 2), (7, 3)] [(10, 1)] 0 5, example_delta False [(9, 0)] [] 7 8]
        (oe_new ''X'' ''p'' 2)))
     (fst (spec_run 2 [example_delta True [(9, 1), (8, 2), (7, 3)] [(10, 1)] 0 5, example_delta False [(9, 0)] [] 7 8]
        (spec_of (oe_new ''X'' ''p'' 2))))
   \<and> map (\<lambda>r. r = None) (fst (oe_run [example_delta True [(9, 1), (8, 2), (7, 3)] [(10, 1)] 0 5, example_delta False [(9, 0)] [] 7 8]
        (oe_new ''X'' ''p'' 2))) = [False, True]"
proof -
  let ?ds = "[example_delta True [(9, 1), (8, 2), (7, 3)] [(10, 1)] 0 5, example_delta False [(9, 0)] [] 7 8]"
  let ?e = "oe_new ''X'' ''p'' 2"
  obtain rs e where run: "oe_run ?ds ?e = (rs, e)" by fastforce
  have "map (\<lambda>r. r = None) (fst (oe_run ?ds ?e)) = [False, True]"
    by (simp add: example_delta_def oe_new_def oe_apply_def oe_applied_def oe_trim_def oe_snapshot_def has_gap_def Let_def)
  with book_refines_levels [OF run] run show ?thesis by simp
qed

end
