(* ===== verification/Market_State.thy ===== *)
theory Market_State
  imports Order_Books "HOL-Library.Multiset"
begin

text \<open>
  Where accepted market data goes: the state store in memory (\<open>app/market/services/state.py\<close>), the
  batched writer (\<open>app/market/storage/writer.py\<close>), the cache with its fallback
  (\<open>app/cache/service.py\<close>, \<open>app/cache/memory.py\<close>) with the market key space on top
  (\<open>app/market/cache/market_cache.py\<close>), and the metrics of the feed (\<open>app/market/stream/metrics.py\<close>).
\<close>

section \<open>The state store\<close>

text \<open>A listener is a queue of trades, bounded when \<open>tl_max\<close> is positive, with the symbol it filters.\<close>

record tick_listener =
  tl_id :: nat
  tl_filter :: "string option"
  tl_max :: int
  tl_queue :: "md_trade list"

record state_store =
  st_trades_limit :: nat
  st_candles_limit :: nat
  st_tickers :: "(string, md_ticker) pydict"
  st_trades :: "(string, md_trade list) pydict"
  st_books :: "(string, order_book) pydict"
  st_candles :: "(string \<times> timeframe, md_candle list) pydict"
  st_funding :: "(string, funding_rate) pydict"
  st_open_interest :: "(string, open_interest) pydict"
  st_tick_counts :: "(string, int) pydict"
  st_last_update :: "(string, time) pydict"
  st_listeners :: "tick_listener list"

definition st_new :: "nat \<Rightarrow> nat \<Rightarrow> state_store" where
  "st_new recent_trades_limit candle_history_limit = \<lparr> st_trades_limit = recent_trades_limit,
     st_candles_limit = candle_history_limit, st_tickers = [], st_trades = [], st_books = [], st_candles = [],
     st_funding = [], st_open_interest = [], st_tick_counts = [], st_last_update = [], st_listeners = [] \<rparr>"

definition st_touch :: "string \<Rightarrow> time \<Rightarrow> state_store \<Rightarrow> state_store" where
  "st_touch s t st = st\<lparr> st_last_update := pd_put (st_last_update st) s t \<rparr>"

definition st_update_ticker :: "md_ticker \<Rightarrow> state_store \<Rightarrow> state_store" where
  "st_update_ticker t st = st_touch (tk_symbol t) (tk_local_ts t) (st\<lparr> st_tickers := pd_put (st_tickers st) (tk_symbol t) t \<rparr>)"

text \<open>\<open>put_nowait\<close> with \<open>QueueFull\<close> suppressed: a full queue keeps what it has.\<close>

definition offer_trade :: "md_trade \<Rightarrow> tick_listener \<Rightarrow> tick_listener" where
  "offer_trade t l =
     (if (case tl_filter l of None \<Rightarrow> True | Some s \<Rightarrow> s = td_symbol t) \<and> (tl_max l \<le> 0 \<or> int (length (tl_queue l)) < tl_max l)
      then l\<lparr> tl_queue := tl_queue l @ [t] \<rparr> else l)"

definition st_update_trade :: "md_trade \<Rightarrow> state_store \<Rightarrow> state_store" where
  "st_update_trade t st =
     (let s = td_symbol t;
          st1 = st\<lparr> st_trades := pd_put (st_trades st) s (deque_append (st_trades_limit st) t (pd_get_or (st_trades st) s [])),
                    st_tick_counts := pd_put (st_tick_counts st) s (pd_get_or (st_tick_counts st) s 0 + 1) \<rparr>;
          st2 = st_touch s (td_local_ts t) st1
      in st2\<lparr> st_listeners := map (offer_trade t) (st_listeners st2) \<rparr>)"

definition st_update_book :: "order_book \<Rightarrow> state_store \<Rightarrow> state_store" where
  "st_update_book b st = st_touch (bk_symbol b) (bk_local_ts b) (st\<lparr> st_books := pd_put (st_books st) (bk_symbol b) b \<rparr>)"

text \<open>A candle with the start of the newest one replaces it.\<close>

definition add_candle :: "nat \<Rightarrow> md_candle \<Rightarrow> md_candle list \<Rightarrow> md_candle list" where
  "add_candle n c cs = (if cs \<noteq> [] \<and> cd_start (last cs) = cd_start c then butlast cs @ [c] else deque_append n c cs)"

definition st_update_candle :: "md_candle \<Rightarrow> state_store \<Rightarrow> state_store" where
  "st_update_candle c st = (let k = (cd_symbol c, cd_timeframe c) in
     st\<lparr> st_candles := pd_put (st_candles st) k (add_candle (st_candles_limit st) c (pd_get_or (st_candles st) k [])) \<rparr>)"

definition st_update_funding :: "funding_rate \<Rightarrow> state_store \<Rightarrow> state_store" where
  "st_update_funding f st = st\<lparr> st_funding := pd_put (st_funding st) (fr_symbol f) f \<rparr>"

definition st_update_open_interest :: "open_interest \<Rightarrow> state_store \<Rightarrow> state_store" where
  "st_update_open_interest x st = st\<lparr> st_open_interest := pd_put (st_open_interest st) (op_symbol x) x \<rparr>"

definition st_ticker :: "string \<Rightarrow> state_store \<Rightarrow> md_ticker option" where
  "st_ticker s st = pd_get (st_tickers st) (upper s)"

definition last_opt :: "'a list \<Rightarrow> 'a option" where
  "last_opt xs = (if xs = [] then None else Some (last xs))"

definition st_last_trade :: "string \<Rightarrow> state_store \<Rightarrow> md_trade option" where
  "st_last_trade s st = last_opt (pd_get_or (st_trades st) (upper s) [])"

definition st_recent_trades :: "string \<Rightarrow> int \<Rightarrow> state_store \<Rightarrow> md_trade list" where
  "st_recent_trades s limit st = py_tail limit (pd_get_or (st_trades st) (upper s) [])"

definition st_book :: "string \<Rightarrow> state_store \<Rightarrow> order_book option" where
  "st_book s st = pd_get (st_books st) (upper s)"

definition st_candle_series :: "string \<Rightarrow> timeframe \<Rightarrow> int \<Rightarrow> state_store \<Rightarrow> md_candle list" where
  "st_candle_series s tf limit st = py_tail limit (pd_get_or (st_candles st) (upper s, tf) [])"

definition st_latest_candle :: "string \<Rightarrow> timeframe \<Rightarrow> state_store \<Rightarrow> md_candle option" where
  "st_latest_candle s tf st = last_opt (pd_get_or (st_candles st) (upper s, tf) [])"

definition st_tick_count :: "string \<Rightarrow> state_store \<Rightarrow> int" where
  "st_tick_count s st = pd_get_or (st_tick_counts st) (upper s) 0"

definition st_market_state :: "string \<Rightarrow> string \<Rightarrow> bool \<Rightarrow> bool \<Rightarrow> time \<Rightarrow> state_store \<Rightarrow> market_state" where
  "st_market_state s0 prov subscribed connectd now st =
     (let s = upper s0; newest = pd_get (st_last_update st) s in
      \<lparr> mk_symbol = s, mk_provider = prov, mk_subscribed = subscribed, mk_connected = connectd,
        mk_ticks_received = pd_get_or (st_tick_counts st) s 0, mk_last_update = newest,
        mk_staleness_seconds = map_option (\<lambda>l. total_seconds (now - l)) newest \<rparr>)"

text \<open>The identity of a queue is the number the store gives it.\<close>

definition st_add_listener :: "string option \<Rightarrow> int \<Rightarrow> nat \<Rightarrow> state_store \<Rightarrow> state_store" where
  "st_add_listener s max_queue i st = st\<lparr> st_listeners := st_listeners st @
     [\<lparr> tl_id = i, tl_filter = (case s of None \<Rightarrow> None | Some x \<Rightarrow> if x = [] then None else Some (upper x)),
        tl_max = max_queue, tl_queue = [] \<rparr>] \<rparr>"

definition st_remove_listener :: "nat \<Rightarrow> state_store \<Rightarrow> state_store" where
  "st_remove_listener i st = st\<lparr> st_listeners := filter (\<lambda>l. tl_id l \<noteq> i) (st_listeners st) \<rparr>"

section \<open>The writer\<close>

text \<open>
  A row is the object it is built from.  Whether the database took a batch and whether the spill file
  could be written are arguments of the flush; the tables and the spill files are part of the state.
\<close>

record writer_settings =
  ws_enabled :: bool
  ws_store_ticks :: bool
  ws_store_candles :: bool
  ws_batch_size :: nat
  ws_buffer_limit :: nat

record data_writer =
  wr_settings :: writer_settings
  wr_ticks :: "md_trade list"
  wr_candles :: "md_candle list"
  wr_db_available :: bool
  wr_rows_written :: int
  wr_rows_spilled :: int
  wr_table_ticks :: "md_trade list"
  wr_table_candles :: "md_candle list"
  wr_spill_ticks :: "md_trade list"
  wr_spill_candles :: "md_candle list"

definition wr_new :: "writer_settings \<Rightarrow> data_writer" where
  "wr_new cfg = \<lparr> wr_settings = cfg, wr_ticks = [], wr_candles = [], wr_db_available = True, wr_rows_written = 0,
     wr_rows_spilled = 0, wr_table_ticks = [], wr_table_candles = [], wr_spill_ticks = [], wr_spill_candles = [] \<rparr>"

definition wr_add_trade :: "md_trade \<Rightarrow> data_writer \<Rightarrow> data_writer" where
  "wr_add_trade t w = (if \<not> (ws_enabled (wr_settings w) \<and> ws_store_ticks (wr_settings w)) then w
     else w\<lparr> wr_ticks := deque_append (ws_buffer_limit (wr_settings w)) t (wr_ticks w) \<rparr>)"

definition wr_add_candles :: "md_candle list \<Rightarrow> data_writer \<Rightarrow> data_writer" where
  "wr_add_candles cs w = (if \<not> (ws_enabled (wr_settings w) \<and> ws_store_candles (wr_settings w)) then w
     else w\<lparr> wr_candles := fold (deque_append (ws_buffer_limit (wr_settings w))) (filter cd_closed cs) (wr_candles w) \<rparr>)"

definition candle_key :: "md_candle \<Rightarrow> string \<times> string \<times> timeframe \<times> time" where
  "candle_key c = (cd_symbol c, cd_provider c, cd_timeframe c, cd_start c)"

text \<open>\<open>ON CONFLICT DO NOTHING\<close>: a row whose key is in the table is dropped.\<close>

definition insert_candle :: "md_candle \<Rightarrow> md_candle list \<Rightarrow> md_candle list" where
  "insert_candle c table = (if candle_key c \<in> candle_key ` set table then table else table @ [c])"

definition wr_flush_ticks :: "bool \<Rightarrow> bool \<Rightarrow> data_writer \<Rightarrow> data_writer" where
  "wr_flush_ticks db_ok spill_ok w =
     (if wr_ticks w = [] then w
      else let n = ws_batch_size (wr_settings w); batch = take n (wr_ticks w); w1 = w\<lparr> wr_ticks := drop n (wr_ticks w) \<rparr> in
        if db_ok then w1\<lparr> wr_table_ticks := wr_table_ticks w1 @ batch, wr_rows_written := wr_rows_written w1 + int (length batch),
                          wr_db_available := True \<rparr>
        else let w2 = w1\<lparr> wr_db_available := False \<rparr> in
          if spill_ok then w2\<lparr> wr_spill_ticks := wr_spill_ticks w2 @ batch, wr_rows_spilled := wr_rows_spilled w2 + int (length batch) \<rparr>
          else w2)"

definition wr_flush_candles :: "bool \<Rightarrow> bool \<Rightarrow> data_writer \<Rightarrow> data_writer" where
  "wr_flush_candles db_ok spill_ok w =
     (if wr_candles w = [] then w
      else let n = ws_batch_size (wr_settings w); batch = take n (wr_candles w); w1 = w\<lparr> wr_candles := drop n (wr_candles w) \<rparr> in
        if db_ok then w1\<lparr> wr_table_candles := fold insert_candle batch (wr_table_candles w1),
                          wr_rows_written := wr_rows_written w1 + int (length batch), wr_db_available := True \<rparr>
        else let w2 = w1\<lparr> wr_db_available := False \<rparr> in
          if spill_ok then w2\<lparr> wr_spill_candles := wr_spill_candles w2 @ batch, wr_rows_spilled := wr_rows_spilled w2 + int (length batch) \<rparr>
          else w2)"

definition wr_flush :: "bool \<times> bool \<Rightarrow> bool \<times> bool \<Rightarrow> data_writer \<Rightarrow> data_writer" where
  "wr_flush ticks candles w = wr_flush_candles (fst candles) (snd candles) (wr_flush_ticks (fst ticks) (snd ticks) w)"

definition wr_on_stop :: "bool \<times> bool \<Rightarrow> bool \<times> bool \<Rightarrow> data_writer \<Rightarrow> data_writer" where
  "wr_on_stop ticks candles w = wr_flush ticks candles w"

definition wr_status :: "data_writer \<Rightarrow> json_dict" where
  "wr_status w = [(''enabled'', JBool (ws_enabled (wr_settings w))), (''db_available'', JBool (wr_db_available w)),
     (''pending_ticks'', JInt (int (length (wr_ticks w)))), (''pending_candles'', JInt (int (length (wr_candles w)))),
     (''rows_written'', JInt (wr_rows_written w)), (''rows_spilled'', JInt (wr_rows_spilled w))]"

section \<open>The cache\<close>

text \<open>
  The primary backend is a parameter: \<open>None\<close> is a \<open>CacheError\<close>.  A stored text is the JSON value it
  parses to.  The memory backend keeps the instant a value expires.
\<close>

record 'b cache_backend =
  cb_get :: "string \<Rightarrow> 'b \<Rightarrow> json option option"
  cb_set :: "string \<Rightarrow> json \<Rightarrow> real option \<Rightarrow> 'b \<Rightarrow> 'b option"
  cb_delete :: "string \<Rightarrow> 'b \<Rightarrow> 'b option"
  cb_ping :: "'b \<Rightarrow> bool"

type_synonym memory_cache = "(string, json \<times> real option) pydict"

definition mc_expired :: "real \<Rightarrow> real option \<Rightarrow> bool" where
  "mc_expired now expires_at = (case expires_at of None \<Rightarrow> False | Some e \<Rightarrow> now \<ge> e)"

definition mc_get :: "real \<Rightarrow> string \<Rightarrow> memory_cache \<Rightarrow> json option \<times> memory_cache" where
  "mc_get now k d = (case pd_get d k of None \<Rightarrow> (None, d)
     | Some (v, e) \<Rightarrow> if mc_expired now e then (None, pd_pop d k) else (Some v, d))"

definition mc_set :: "real \<Rightarrow> string \<Rightarrow> json \<Rightarrow> real option \<Rightarrow> memory_cache \<Rightarrow> memory_cache" where
  "mc_set now k v ttl d = pd_put d k (v, if truthy ttl then Some (now + the ttl) else None)"

definition mc_exists :: "real \<Rightarrow> string \<Rightarrow> memory_cache \<Rightarrow> bool \<times> memory_cache" where
  "mc_exists now k d = (let (v, d') = mc_get now k d in (v \<noteq> None, d'))"

record 'b cache_service =
  ch_backend :: "'b cache_backend"
  ch_primary :: "'b option"
  ch_fallback :: memory_cache
  ch_cooldown :: real
  ch_degraded :: bool
  ch_degraded_since :: "real option"

definition ch_new :: "'b cache_backend \<Rightarrow> 'b option \<Rightarrow> real \<Rightarrow> 'b cache_service" where
  "ch_new api prim cooldown = \<lparr> ch_backend = api, ch_primary = prim, ch_fallback = [], ch_cooldown = cooldown,
     ch_degraded = (prim = None), ch_degraded_since = None \<rparr>"

text \<open>The backend picked is the primary state, or \<open>None\<close> for the fallback.\<close>

definition ch_active :: "real \<Rightarrow> 'b cache_service \<Rightarrow> 'b option \<times> 'b cache_service" where
  "ch_active now c = (case ch_primary c of
       None \<Rightarrow> (None, c)
     | Some p \<Rightarrow>
         if \<not> ch_degraded c then (Some p, c)
         else if (case ch_degraded_since c of None \<Rightarrow> False | Some t \<Rightarrow> now - t \<ge> ch_cooldown c)
           then (Some p, c\<lparr> ch_degraded := False, ch_degraded_since := None \<rparr>)
         else (None, c))"

definition ch_mark_degraded :: "real \<Rightarrow> 'b cache_service \<Rightarrow> 'b cache_service" where
  "ch_mark_degraded now c = c\<lparr> ch_degraded := True, ch_degraded_since := Some now \<rparr>"

definition ch_fallback_get :: "real \<Rightarrow> string \<Rightarrow> 'b cache_service \<Rightarrow> json option \<times> 'b cache_service" where
  "ch_fallback_get now k c = (let (v, d) = mc_get now k (ch_fallback c) in (v, c\<lparr> ch_fallback := d \<rparr>))"

definition ch_get :: "real \<Rightarrow> string \<Rightarrow> 'b cache_service \<Rightarrow> json option \<times> 'b cache_service" where
  "ch_get now k c0 = (let (backend, c) = ch_active now c0 in case backend of
       None \<Rightarrow> ch_fallback_get now k c
     | Some p \<Rightarrow> (case cb_get (ch_backend c) k p of Some v \<Rightarrow> (v, c) | None \<Rightarrow> ch_fallback_get now k (ch_mark_degraded now c)))"

definition ch_fallback_set :: "real \<Rightarrow> string \<Rightarrow> json \<Rightarrow> real option \<Rightarrow> 'b cache_service \<Rightarrow> 'b cache_service" where
  "ch_fallback_set now k v ttl c = c\<lparr> ch_fallback := mc_set now k v ttl (ch_fallback c) \<rparr>"

definition ch_set :: "real \<Rightarrow> string \<Rightarrow> json \<Rightarrow> real option \<Rightarrow> 'b cache_service \<Rightarrow> 'b cache_service" where
  "ch_set now k v ttl c0 = (let (backend, c) = ch_active now c0 in case backend of
       None \<Rightarrow> ch_fallback_set now k v ttl c
     | Some p \<Rightarrow> (case cb_set (ch_backend c) k v ttl p of Some p' \<Rightarrow> c\<lparr> ch_primary := Some p' \<rparr>
         | None \<Rightarrow> ch_fallback_set now k v ttl (ch_mark_degraded now c)))"

definition ch_delete :: "real \<Rightarrow> string \<Rightarrow> 'b cache_service \<Rightarrow> 'b cache_service" where
  "ch_delete now k c0 = (let (backend, c) = ch_active now c0;
       c1 = (case backend of None \<Rightarrow> c
         | Some p \<Rightarrow> (case cb_delete (ch_backend c) k p of Some p' \<Rightarrow> c\<lparr> ch_primary := Some p' \<rparr> | None \<Rightarrow> ch_mark_degraded now c))
     in c1\<lparr> ch_fallback := pd_pop (ch_fallback c1) k \<rparr>)"

definition ch_on_start :: "real \<Rightarrow> 'b cache_service \<Rightarrow> 'b cache_service" where
  "ch_on_start now c = (case ch_primary c of None \<Rightarrow> c
     | Some p \<Rightarrow> if cb_ping (ch_backend c) p then c else ch_mark_degraded now c)"

section \<open>The market key space\<close>

text \<open>The time to live of \<open>MarketCache\<close> is an argument; zero means none.\<close>

definition mkt_key :: "string list \<Rightarrow> string" where
  "mkt_key parts = fold (\<lambda>p s. s @ '':'' @ p) parts ''mkt''"

definition mkt_set :: "real \<Rightarrow> real \<Rightarrow> string list \<Rightarrow> json_dict \<Rightarrow> 'b cache_service \<Rightarrow> 'b cache_service" where
  "mkt_set ttl now parts doc c = ch_set now (mkt_key parts) (JObj doc) (if ttl = 0 then None else Some ttl) c"

text \<open>A document that is not an object reads as nothing.\<close>

definition mkt_get :: "real \<Rightarrow> string list \<Rightarrow> 'b cache_service \<Rightarrow> json_dict option \<times> 'b cache_service" where
  "mkt_get now parts c = (let (raw, c') = ch_get now (mkt_key parts) c in
     ((case raw of Some (JObj d) \<Rightarrow> Some d | _ \<Rightarrow> None), c'))"

definition set_last_price :: "real \<Rightarrow> real \<Rightarrow> string \<Rightarrow> real \<Rightarrow> string \<Rightarrow> 'b cache_service \<Rightarrow> 'b cache_service" where
  "set_last_price ttl now s price source = mkt_set ttl now [''price'', upper s] [(''price'', JNum price), (''source'', JStr source)]"

definition set_ticker :: "real \<Rightarrow> real \<Rightarrow> md_ticker \<Rightarrow> 'b cache_service \<Rightarrow> 'b cache_service" where
  "set_ticker ttl now t = mkt_set ttl now [''ticker'', tk_symbol t] (tk_to_dict t)"

definition set_trade :: "real \<Rightarrow> real \<Rightarrow> md_trade \<Rightarrow> 'b cache_service \<Rightarrow> 'b cache_service" where
  "set_trade ttl now t = mkt_set ttl now [''trade'', td_symbol t] (td_to_dict t)"

definition set_candle :: "real \<Rightarrow> real \<Rightarrow> md_candle \<Rightarrow> 'b cache_service \<Rightarrow> 'b cache_service" where
  "set_candle ttl now c = mkt_set ttl now [''candle'', cd_symbol c, tf_value (cd_timeframe c)] (cd_to_dict c)"

definition set_orderbook :: "real \<Rightarrow> real \<Rightarrow> order_book \<Rightarrow> 'b cache_service \<Rightarrow> 'b cache_service" where
  "set_orderbook ttl now b = mkt_set ttl now [''book'', bk_symbol b] (bk_to_dict 10 b)"

definition set_funding :: "real \<Rightarrow> real \<Rightarrow> funding_rate \<Rightarrow> 'b cache_service \<Rightarrow> 'b cache_service" where
  "set_funding ttl now f = mkt_set ttl now [''funding'', fr_symbol f] (fr_to_dict f)"

definition set_open_interest :: "real \<Rightarrow> real \<Rightarrow> open_interest \<Rightarrow> 'b cache_service \<Rightarrow> 'b cache_service" where
  "set_open_interest ttl now x = mkt_set ttl now [''oi'', op_symbol x] (op_to_dict x)"

definition get_last_price :: "real \<Rightarrow> string \<Rightarrow> 'b cache_service \<Rightarrow> real option \<times> 'b cache_service" where
  "get_last_price now s c = (let (doc, c') = mkt_get now [''price'', upper s] c in
     ((case doc of None \<Rightarrow> None | Some d \<Rightarrow> (case jget d ''price'' JNull of
         JNum x \<Rightarrow> Some x | JInt i \<Rightarrow> Some (of_int i) | JBool b \<Rightarrow> Some (if b then 1 else 0) | _ \<Rightarrow> None)), c'))"

definition push_recent_event :: "real \<Rightarrow> real \<Rightarrow> json \<Rightarrow> 'b cache_service \<Rightarrow> 'b cache_service" where
  "push_recent_event ttl now event c0 =
     (let (raw, c) = ch_get now (mkt_key [''events'', ''recent'']) c0;
          events = (case raw of Some (JList es) \<Rightarrow> es | _ \<Rightarrow> []) @ [event]
      in ch_set now (mkt_key [''events'', ''recent'']) (JList (last_n 100 events)) (if ttl = 0 then None else Some ttl) c)"

section \<open>Metrics of the feed\<close>

record rate_counter =
  rt_window :: real
  rt_events :: "real list"
  rt_total :: int

definition rt_prune :: "real \<Rightarrow> rate_counter \<Rightarrow> rate_counter" where
  "rt_prune now r = r\<lparr> rt_events := dropWhile (\<lambda>t. t < now - rt_window r) (rt_events r) \<rparr>"

definition rt_hit :: "real \<Rightarrow> nat \<Rightarrow> rate_counter \<Rightarrow> rate_counter" where
  "rt_hit now n r = rt_prune now (r\<lparr> rt_events := rt_events r @ replicate n now, rt_total := rt_total r + int n \<rparr>)"

definition rt_rate :: "real \<Rightarrow> rate_counter \<Rightarrow> real \<times> rate_counter" where
  "rt_rate now r = (let r' = rt_prune now r in (real (length (rt_events r')) / rt_window r', r'))"

record latency_tracker =
  ly_alpha :: real
  ly_ema :: "real option"
  ly_min :: "real option"
  ly_max :: "real option"
  ly_samples :: int

definition ly_observe :: "real \<Rightarrow> latency_tracker \<Rightarrow> latency_tracker" where
  "ly_observe x l = l\<lparr> ly_samples := ly_samples l + 1,
     ly_ema := Some (case ly_ema l of None \<Rightarrow> x | Some e \<Rightarrow> ly_alpha l * x + (1 - ly_alpha l) * e),
     ly_min := Some (case ly_min l of None \<Rightarrow> x | Some m \<Rightarrow> min m x),
     ly_max := Some (case ly_max l of None \<Rightarrow> x | Some m \<Rightarrow> max m x) \<rparr>"

definition ly_to_dict :: "latency_tracker \<Rightarrow> json_dict" where
  "ly_to_dict l = [(''ema_ms'', json_opt (map_option (py_round 3) (ly_ema l))), (''min_ms'', json_opt (map_option (py_round 3) (ly_min l))),
     (''max_ms'', json_opt (map_option (py_round 3) (ly_max l))), (''samples'', JInt (ly_samples l))]"

definition rt_new :: rate_counter where "rt_new = \<lparr> rt_window = 10, rt_events = [], rt_total = 0 \<rparr>"

definition ly_new :: latency_tracker where
  "ly_new = \<lparr> ly_alpha = 1/10, ly_ema = None, ly_min = None, ly_max = None, ly_samples = 0 \<rparr>"

record feed_metrics =
  fm_ws_messages :: rate_counter
  fm_ticks :: rate_counter
  fm_data_latency :: latency_tracker
  fm_ping_latency :: latency_tracker
  fm_reconnections :: int
  fm_errors :: int
  fm_rejected :: int
  fm_dropped :: int
  fm_per_symbol_ticks :: "(string, int) pydict"

definition fm_new :: feed_metrics where
  "fm_new = \<lparr> fm_ws_messages = rt_new, fm_ticks = rt_new, fm_data_latency = ly_new, fm_ping_latency = ly_new,
     fm_reconnections = 0, fm_errors = 0, fm_rejected = 0, fm_dropped = 0, fm_per_symbol_ticks = [] \<rparr>"

definition fm_tick :: "real \<Rightarrow> string \<Rightarrow> feed_metrics \<Rightarrow> feed_metrics" where
  "fm_tick now s m = m\<lparr> fm_ticks := rt_hit now 1 (fm_ticks m),
     fm_per_symbol_ticks := pd_put (fm_per_symbol_ticks m) s (pd_get_or (fm_per_symbol_ticks m) s 0 + 1) \<rparr>"

definition fm_symbol_ticks :: "string \<Rightarrow> feed_metrics \<Rightarrow> int" where
  "fm_symbol_ticks s m = pd_get_or (fm_per_symbol_ticks m) s 0"

definition fm_to_dict :: "real \<Rightarrow> feed_metrics \<Rightarrow> json_dict" where
  "fm_to_dict now m = [(''ws_messages_total'', JInt (rt_total (fm_ws_messages m))),
     (''ws_messages_per_second'', JNum (py_round 2 (fst (rt_rate now (fm_ws_messages m))))),
     (''ticks_total'', JInt (rt_total (fm_ticks m))), (''ticks_per_second'', JNum (py_round 2 (fst (rt_rate now (fm_ticks m))))),
     (''ticks_per_symbol'', JObj (map (\<lambda>(s, n). (s, JInt n)) (fm_per_symbol_ticks m))),
     (''data_latency'', JObj (ly_to_dict (fm_data_latency m))), (''ping_latency'', JObj (ly_to_dict (fm_ping_latency m))),
     (''reconnections'', JInt (fm_reconnections m)), (''errors'', JInt (fm_errors m)), (''rejected'', JInt (fm_rejected m)),
     (''dropped'', JInt (fm_dropped m))]"

section \<open>Lemmas\<close>

text \<open>The smoothed latency lies between the extremes.\<close>

definition ly_ok :: "latency_tracker \<Rightarrow> bool" where
  "ly_ok l \<longleftrightarrow> 0 \<le> ly_alpha l \<and> ly_alpha l \<le> 1 \<and> (case (ly_min l, ly_ema l, ly_max l) of
     (None, None, None) \<Rightarrow> True | (Some a, Some e, Some b) \<Rightarrow> a \<le> e \<and> e \<le> b | _ \<Rightarrow> False)"

lemma convex_between:
  assumes "(a :: real) \<le> x" "x \<le> b" "a \<le> e" "e \<le> b" "0 \<le> w" "w \<le> 1"
  shows "a \<le> w * x + (1 - w) * e" "w * x + (1 - w) * e \<le> b"
  using convex_bound_le [of x b e w "1 - w"] convex_bound_le [of "- x" "- a" "- e" w "1 - w"] assms by simp_all

lemma ly_observe_ok:
  assumes "ly_ok l" shows "ly_ok (ly_observe x l)"
proof (cases "ly_ema l")
  case None
  with assms show ?thesis by (auto simp: ly_ok_def ly_observe_def split: option.splits)
next
  case (Some e)
  with assms obtain a b where m: "ly_min l = Some a" "ly_max l = Some b" "a \<le> e" "e \<le> b"
    by (auto simp: ly_ok_def split: option.splits)
  from assms have "0 \<le> ly_alpha l" "ly_alpha l \<le> 1" by (simp_all add: ly_ok_def)
  with convex_between [of "min a x" x "max b x" e "ly_alpha l"] m Some show ?thesis
    by (simp add: ly_ok_def ly_observe_def)
qed

text \<open>Nothing a flush takes from the buffer of ticks vanishes, unless the spill fails as well.\<close>

lemma flush_conserves_ticks:
  assumes "db_ok \<or> spill_ok" "w' = wr_flush_ticks db_ok spill_ok w"
  shows "mset (wr_ticks w' @ wr_table_ticks w' @ wr_spill_ticks w') = mset (wr_ticks w @ wr_table_ticks w @ wr_spill_ticks w)"
proof -
  have "mset (take n xs) + mset (drop n xs) = mset xs" for n and xs :: "md_trade list"
    by (metis append_take_drop_id mset_append)
  from this [of "ws_batch_size (wr_settings w)" "wr_ticks w"] assms show ?thesis
    by (auto simp: wr_flush_ticks_def Let_def ac_simps)
qed

text \<open>The flush of the stop writes one batch: what exceeds it stays in memory and dies with the process.\<close>

lemma stop_leaves_rows:
  "wr_ticks (wr_on_stop a b w) = drop (ws_batch_size (wr_settings w)) (wr_ticks w)"
  by (simp add: wr_on_stop_def wr_flush_def wr_flush_candles_def wr_flush_ticks_def Let_def)

text \<open>A service whose primary answers is read and written consistently; without a primary, too.\<close>

lemma ch_set_get_fallback:
  assumes "ch_primary c = None" shows "fst (ch_get now k (ch_set now k v None c)) = Some v"
  using assms by (simp add: ch_set_def ch_get_def ch_active_def ch_fallback_set_def ch_fallback_get_def mc_set_def mc_get_def mc_expired_def)

text \<open>A value written while the primary was down is not copied back: after the pause the old one is read.\<close>

lemma stale_read_after_recovery:
  assumes "ch_primary c = Some p" "ch_degraded c" "ch_degraded_since c = Some t" "now < t + ch_cooldown c"
    "t + ch_cooldown c \<le> later" "cb_get (ch_backend c) k p = Some old"
  shows "fst (ch_get later k (ch_set now k v ttl c)) = old"
  using assms by (simp add: ch_set_def ch_get_def ch_active_def ch_fallback_set_def split: option.splits)

end
