(* ===== verification/Collector.thy ===== *)
theory Collector
  imports Market_State
begin

text \<open>
  \<open>app/market/collector/collector.py\<close>: the pipeline of the data engine.  Providers submit normalised
  objects to a bounded queue; a worker takes one at a time and validates it, updates the state, the
  candles, the book, the cache and the writer, and publishes events.  The clocks and the event bus
  (which may refuse an event) are arguments of a step.
\<close>

section \<open>Objects and events\<close>

datatype market_object =
    MO_Trade md_trade
  | MO_Ticker md_ticker
  | MO_Delta book_delta
  | MO_Candle md_candle
  | MO_Funding funding_rate
  | MO_Interest open_interest
  | MO_Liquidation liquidation

datatype md_event =
    NewTick string string real real trade_side string real
  | TradeReceived string string string real real trade_side string
  | TickerUpdated string string real real real real real
  | PriceUpdated string real real time
  | OrderBookUpdated string string "real option" "real option" "real option" "real option" real int
  | OrderBookResyncRequired string string
  | CandleClosed md_candle
  | FundingUpdated string string real
  | OpenInterestUpdated string string real
  | LiquidationReceived string string trade_side real real
  | DataQualityAlert string string string msg bool

definition book_event :: "order_book \<Rightarrow> md_event" where
  "book_event b = OrderBookUpdated (bk_symbol b) (bk_provider b) (map_option lv_price (best_bid b))
     (map_option lv_price (best_ask b)) (bk_spread b) (bk_mid b) (imbalance 10 b) (bk_sequence b)"

record collect_env =
  ce_now :: time
  ce_mono :: real
  ce_ttl :: real
  ce_bus :: "md_event \<Rightarrow> bool"

record 'b collector =
  co_validator :: validator
  co_aggregator :: aggregator
  co_from_ticks :: bool
  co_books :: book_manager
  co_state :: state_store
  co_cache :: "'b cache_service"
  co_writer :: "data_writer option"
  co_metrics :: feed_metrics
  co_queue :: "market_object list"
  co_queue_size :: int
  co_processed :: int
  co_published :: "md_event list"

section \<open>Intake\<close>

definition co_submit :: "collect_env \<Rightarrow> market_object \<Rightarrow> 'b collector \<Rightarrow> 'b collector" where
  "co_submit env x c =
     (let m = (co_metrics c)\<lparr> fm_ws_messages := rt_hit (ce_mono env) 1 (fm_ws_messages (co_metrics c)) \<rparr>
      in if co_queue_size c \<le> 0 \<or> int (length (co_queue c)) < co_queue_size c
         then c\<lparr> co_metrics := m, co_queue := co_queue c @ [x] \<rparr>
         else c\<lparr> co_metrics := m\<lparr> fm_dropped := fm_dropped m + 1 \<rparr> \<rparr>)"

section \<open>The pipeline\<close>

definition md_publish :: "collect_env \<Rightarrow> md_event \<Rightarrow> 'b collector \<Rightarrow> 'b collector" where
  "md_publish env e c = (if ce_bus env e then c\<lparr> co_published := co_published c @ [e] \<rparr>
     else c\<lparr> co_metrics := (co_metrics c)\<lparr> fm_errors := fm_errors (co_metrics c) + 1 \<rparr> \<rparr>)"

definition co_reject :: "collect_env \<Rightarrow> string \<Rightarrow> string \<Rightarrow> quality_issue list \<Rightarrow> 'b collector \<Rightarrow> 'b collector" where
  "co_reject env s prov issues c =
     fold (\<lambda>i. md_publish env (DataQualityAlert s prov (issue_value (qi_issue i)) (qi_detail i) (qi_discard i))) issues
       (c\<lparr> co_metrics := (co_metrics c)\<lparr> fm_rejected := fm_rejected (co_metrics c) + 1 \<rparr> \<rparr>)"

definition emit_closed_candle :: "collect_env \<Rightarrow> md_candle \<Rightarrow> 'b collector \<Rightarrow> 'b collector" where
  "emit_closed_candle env cd c = md_publish env (CandleClosed cd)
     (c\<lparr> co_state := st_update_candle cd (co_state c),
         co_cache := set_candle (ce_ttl env) (ce_mono env) cd (co_cache c),
         co_writer := map_option (wr_add_candles [cd]) (co_writer c) \<rparr>)"

definition observe_latency :: "real \<Rightarrow> 'b collector \<Rightarrow> 'b collector" where
  "observe_latency x c = c\<lparr> co_metrics := (co_metrics c)\<lparr> fm_data_latency := ly_observe x (fm_data_latency (co_metrics c)) \<rparr> \<rparr>"

text \<open>A step answers whether it raised.\<close>

definition process_trade :: "collect_env \<Rightarrow> md_trade \<Rightarrow> 'b collector \<Rightarrow> py_error option \<times> 'b collector" where
  "process_trade env t c0 =
     (let (res, v) = validate_trade True True t (co_validator c0); c = c0\<lparr> co_validator := v \<rparr> in
      case res of
        Inl err \<Rightarrow> (Some err, c)
      | Inr issues \<Rightarrow>
          if should_discard issues then (None, co_reject env (td_symbol t) (td_provider t) issues c)
          else
            let c1 = observe_latency (td_latency_ms t) (c\<lparr> co_metrics := fm_tick (ce_mono env) (td_symbol t) (co_metrics c) \<rparr>);
                c2 = c1\<lparr> co_state := st_update_trade t (co_state c1), co_writer := map_option (wr_add_trade t) (co_writer c1),
                         co_cache := set_trade (ce_ttl env) (ce_mono env) t
                           (set_last_price (ce_ttl env) (ce_mono env) (td_symbol t) (td_price t) ''trade'' (co_cache c1)) \<rparr>
            in case ag_add_trade t (co_aggregator c2) of
                 Inl err \<Rightarrow> (Some err, c2)
               | Inr (ag, fin) \<Rightarrow>
                   let c3 = fold (emit_closed_candle env) fin (c2\<lparr> co_aggregator := ag \<rparr>)
                   in (None, md_publish env (TradeReceived (td_symbol t) (td_provider t) (td_trade_id t) (td_price t) (td_size t)
                                (td_side t) (iso (td_exchange_ts t)))
                       (md_publish env (NewTick (td_symbol t) (td_provider t) (td_price t) (td_size t) (td_side t)
                                (iso (td_exchange_ts t)) (td_latency_ms t)) c3)))"

definition process_ticker :: "collect_env \<Rightarrow> md_ticker \<Rightarrow> 'b collector \<Rightarrow> py_error option \<times> 'b collector" where
  "process_ticker env t c0 =
     (let (issues, v) = validate_ticker True True t (co_validator c0); c = c0\<lparr> co_validator := v \<rparr> in
      if should_discard issues then (None, co_reject env (tk_symbol t) (tk_provider t) issues c)
      else
        let c1 = observe_latency (tk_latency_ms t) c;
            c2 = c1\<lparr> co_state := st_update_ticker t (co_state c1), co_cache := set_ticker (ce_ttl env) (ce_mono env) t (co_cache c1) \<rparr>;
            finish = (\<lambda>c3. (None, md_publish env (PriceUpdated (tk_symbol t) (tk_bid t) (tk_ask t) (tk_exchange_ts t))
              (md_publish env (TickerUpdated (tk_symbol t) (tk_provider t) (tk_bid t) (tk_ask t) (tk_spread t) (tk_mid t)
                 (tk_latency_ms t)) c3)))
        in if co_from_ticks c2
           then (case ag_add_ticker t (co_aggregator c2) of
                   Inl err \<Rightarrow> (Some err, c2)
                 | Inr (ag, fin) \<Rightarrow> finish (fold (emit_closed_candle env) fin (c2\<lparr> co_aggregator := ag \<rparr>)))
           else finish c2)"

definition process_book_delta :: "collect_env \<Rightarrow> book_delta \<Rightarrow> 'b collector \<Rightarrow> 'b collector" where
  "process_book_delta env d c0 =
     (let (issues, v) = validate_book_delta d (co_validator c0); c = c0\<lparr> co_validator := v \<rparr> in
      if should_discard issues then co_reject env (bd_symbol d) (bd_provider d) issues c
      else
        let ((book, resync_needed), bm) = bm_apply d (co_books c); c1 = c\<lparr> co_books := bm \<rparr> in
        if resync_needed then md_publish env (OrderBookResyncRequired (bd_symbol d) (bd_provider d)) c1
        else (case book of
            None \<Rightarrow> c1
          | Some b \<Rightarrow> md_publish env (book_event b)
              (c1\<lparr> co_state := st_update_book b (co_state c1), co_cache := set_orderbook (ce_ttl env) (ce_mono env) b (co_cache c1) \<rparr>)))"

definition process_candle :: "collect_env \<Rightarrow> md_candle \<Rightarrow> 'b collector \<Rightarrow> 'b collector" where
  "process_candle env cd c0 =
     (let (issues, v) = validate_candle cd (co_validator c0); c = c0\<lparr> co_validator := v \<rparr> in
      if should_discard issues then co_reject env (cd_symbol cd) (cd_provider cd) issues c
      else if cd_closed cd then emit_closed_candle env cd c else c)"

definition process_funding :: "collect_env \<Rightarrow> funding_rate \<Rightarrow> 'b collector \<Rightarrow> 'b collector" where
  "process_funding env f c0 =
     (let (issues, v) = validate_funding True True f (co_validator c0); c = c0\<lparr> co_validator := v \<rparr> in
      if should_discard issues then co_reject env (fr_symbol f) (fr_provider f) issues c
      else md_publish env (FundingUpdated (fr_symbol f) (fr_provider f) (fr_rate f))
        (c\<lparr> co_state := st_update_funding f (co_state c), co_cache := set_funding (ce_ttl env) (ce_mono env) f (co_cache c) \<rparr>))"

definition process_open_interest :: "collect_env \<Rightarrow> open_interest \<Rightarrow> 'b collector \<Rightarrow> 'b collector" where
  "process_open_interest env x c0 =
     (let (issues, v) = validate_open_interest True True x (co_validator c0); c = c0\<lparr> co_validator := v \<rparr> in
      if should_discard issues then co_reject env (op_symbol x) (op_provider x) issues c
      else md_publish env (OpenInterestUpdated (op_symbol x) (op_provider x) (op_contracts x))
        (c\<lparr> co_state := st_update_open_interest x (co_state c), co_cache := set_open_interest (ce_ttl env) (ce_mono env) x (co_cache c) \<rparr>))"

definition process_liquidation :: "collect_env \<Rightarrow> liquidation \<Rightarrow> 'b collector \<Rightarrow> 'b collector" where
  "process_liquidation env x c0 =
     (let (issues, v) = validate_liquidation True True x (co_validator c0); c = c0\<lparr> co_validator := v \<rparr> in
      if should_discard issues then co_reject env (ld_symbol x) (ld_provider x) issues c
      else md_publish env (LiquidationReceived (ld_symbol x) (ld_provider x) (ld_side x) (ld_price x) (ld_size x)) c)"

definition co_process :: "collect_env \<Rightarrow> market_object \<Rightarrow> 'b collector \<Rightarrow> py_error option \<times> 'b collector" where
  "co_process env x c = (case x of
       MO_Trade t \<Rightarrow> process_trade env t c
     | MO_Ticker t \<Rightarrow> process_ticker env t c
     | MO_Delta d \<Rightarrow> (None, process_book_delta env d c)
     | MO_Candle cd \<Rightarrow> (None, process_candle env cd c)
     | MO_Funding f \<Rightarrow> (None, process_funding env f c)
     | MO_Interest i \<Rightarrow> (None, process_open_interest env i c)
     | MO_Liquidation l \<Rightarrow> (None, process_liquidation env l c))"

text \<open>One round of the worker; it waits while the queue is empty.\<close>

definition co_drain :: "collect_env \<Rightarrow> 'b collector \<Rightarrow> 'b collector" where
  "co_drain env c = (case co_queue c of
       [] \<Rightarrow> c
     | x # xs \<Rightarrow> (case co_process env x (c\<lparr> co_queue := xs \<rparr>) of
           (None, c') \<Rightarrow> c'\<lparr> co_processed := co_processed c' + 1 \<rparr>
         | (Some _, c') \<Rightarrow> c'\<lparr> co_metrics := (co_metrics c')\<lparr> fm_errors := fm_errors (co_metrics c') + 1 \<rparr> \<rparr>))"

definition prime_one :: "collect_env \<Rightarrow> md_candle \<Rightarrow> 'b collector \<Rightarrow> 'b collector" where
  "prime_one env cd c = c\<lparr> co_state := st_update_candle cd (co_state c),
     co_cache := set_candle (ce_ttl env) (ce_mono env) cd (co_cache c) \<rparr>"

definition prime_candles :: "collect_env \<Rightarrow> md_candle list \<Rightarrow> 'b collector \<Rightarrow> int \<times> 'b collector" where
  "prime_candles env cds c = (let fin = filter cd_closed cds in (int (length fin), fold (prime_one env) fin c))"

definition flush_stale_candles :: "collect_env \<Rightarrow> 'b collector \<Rightarrow> int \<times> 'b collector" where
  "flush_stale_candles env c = (let (ag, fin) = ag_flush_stale (ce_now env) (co_aggregator c)
     in (int (length fin), fold (emit_closed_candle env) fin (c\<lparr> co_aggregator := ag \<rparr>)))"

section \<open>Frames\<close>

lemma md_publish_frame [simp]:
  "co_validator (md_publish env e c) = co_validator c" "co_aggregator (md_publish env e c) = co_aggregator c"
  "co_books (md_publish env e c) = co_books c" "co_state (md_publish env e c) = co_state c"
  "co_cache (md_publish env e c) = co_cache c" "co_writer (md_publish env e c) = co_writer c"
  "fm_rejected (co_metrics (md_publish env e c)) = fm_rejected (co_metrics c)"
  by (simp_all add: md_publish_def)

lemma publish_all_frame:
  "co_aggregator (fold (\<lambda>i. md_publish env (f i)) is c) = co_aggregator c
    \<and> co_books (fold (\<lambda>i. md_publish env (f i)) is c) = co_books c
    \<and> co_state (fold (\<lambda>i. md_publish env (f i)) is c) = co_state c
    \<and> co_cache (fold (\<lambda>i. md_publish env (f i)) is c) = co_cache c
    \<and> co_writer (fold (\<lambda>i. md_publish env (f i)) is c) = co_writer c
    \<and> fm_rejected (co_metrics (fold (\<lambda>i. md_publish env (f i)) is c)) = fm_rejected (co_metrics c)
    \<and> co_published (fold (\<lambda>i. md_publish env (f i)) is c) = co_published c @ filter (ce_bus env) (map f is)"
  by (induction "is" arbitrary: c) (auto simp: md_publish_def)

definition same_market :: "'b collector \<Rightarrow> 'b collector \<Rightarrow> bool" where
  "same_market c c' \<longleftrightarrow> co_aggregator c' = co_aggregator c \<and> co_books c' = co_books c \<and> co_state c' = co_state c
     \<and> co_cache c' = co_cache c \<and> co_writer c' = co_writer c"

definition is_alert :: "md_event \<Rightarrow> bool" where
  "is_alert e \<longleftrightarrow> (\<exists>s p i d k. e = DataQualityAlert s p i d k)"

definition only_rejected :: "'b collector \<Rightarrow> 'b collector \<Rightarrow> bool" where
  "only_rejected c c' \<longleftrightarrow> same_market c c' \<and> fm_rejected (co_metrics c') = fm_rejected (co_metrics c) + 1
     \<and> (\<exists>es. co_published c' = co_published c @ es \<and> (\<forall>e \<in> set es. is_alert e))"

lemma co_reject_only: "only_rejected c (co_reject env s prov issues (c\<lparr> co_validator := v \<rparr>))"
  unfolding only_rejected_def same_market_def co_reject_def
  using publish_all_frame [of env "\<lambda>i. DataQualityAlert s prov (issue_value (qi_issue i)) (qi_detail i) (qi_discard i)" issues
      "c\<lparr> co_validator := v, co_metrics := (co_metrics c)\<lparr> fm_rejected := fm_rejected (co_metrics c) + 1 \<rparr> \<rparr>"]
  by (auto simp: is_alert_def)

definition object_issues :: "market_object \<Rightarrow> validator \<Rightarrow> quality_issue list" where
  "object_issues x v = (case x of
       MO_Trade t \<Rightarrow> (case fst (validate_trade True True t v) of Inl _ \<Rightarrow> [] | Inr is \<Rightarrow> is)
     | MO_Ticker t \<Rightarrow> fst (validate_ticker True True t v)
     | MO_Delta d \<Rightarrow> fst (validate_book_delta d v)
     | MO_Candle cd \<Rightarrow> fst (validate_candle cd v)
     | MO_Funding f \<Rightarrow> fst (validate_funding True True f v)
     | MO_Interest i \<Rightarrow> fst (validate_open_interest True True i v)
     | MO_Liquidation l \<Rightarrow> fst (validate_liquidation True True l v))"

section \<open>Properties\<close>

text \<open>
  Property C27: discarded data stays outside.  When the validator asks to discard an object of any kind,
  the pipeline does not fail, the aggregator, the books, the state, the cache and the writer are
  as before, the rejection is counted once, and only quality alerts are published.
\<close>

theorem discarded_object_isolated:
  assumes "should_discard (object_issues x (co_validator c))" "co_process env x c = (err, c')"
  shows "err = None \<and> same_market c c' \<and> fm_rejected (co_metrics c') = fm_rejected (co_metrics c) + 1
    \<and> (\<exists>es. co_published c' = co_published c @ es \<and> (\<forall>e \<in> set es. is_alert e))"
proof -
  have "err = None \<and> only_rejected c c'"
  proof (cases x)
    case (MO_Trade t)
    with assms show ?thesis
      by (auto simp: object_issues_def co_process_def process_trade_def Let_def co_reject_only split: prod.splits sum.splits)
  next
    case (MO_Ticker t)
    with assms show ?thesis
      by (auto simp: object_issues_def co_process_def process_ticker_def Let_def co_reject_only split: prod.splits)
  next
    case (MO_Delta d)
    with assms show ?thesis
      by (cases "validate_book_delta d (co_validator c)")
        (auto simp: object_issues_def co_process_def process_book_delta_def Let_def co_reject_only)
  next
    case (MO_Candle cd)
    with assms show ?thesis
      by (cases "validate_candle cd (co_validator c)")
        (auto simp: object_issues_def co_process_def process_candle_def Let_def co_reject_only)
  next
    case (MO_Funding f)
    with assms show ?thesis
      by (cases "validate_funding True True f (co_validator c)")
        (auto simp: object_issues_def co_process_def process_funding_def Let_def co_reject_only)
  next
    case (MO_Interest i)
    with assms show ?thesis
      by (cases "validate_open_interest True True i (co_validator c)")
        (auto simp: object_issues_def co_process_def process_open_interest_def Let_def co_reject_only)
  next
    case (MO_Liquidation l)
    with assms show ?thesis
      by (cases "validate_liquidation True True l (co_validator c)")
        (auto simp: object_issues_def co_process_def process_liquidation_def Let_def co_reject_only)
  qed
  then show ?thesis by (simp add: only_rejected_def)
qed

definition example_collector :: "unit collector" where
  "example_collector = \<lparr> co_validator = default_validator, co_aggregator = ag_init [TF_M1], co_from_ticks = False,
     co_books = \<lparr> bm_max_depth = 200, bm_engines = [] \<rparr>, co_state = st_new 500 500,
     co_cache = ch_new \<lparr> cb_get = \<lambda>k b. None, cb_set = \<lambda>k v t b. None, cb_delete = \<lambda>k b. None, cb_ping = \<lambda>b. False \<rparr> None 30,
     co_writer = None, co_metrics = fm_new, co_queue = [], co_queue_size = 100000, co_processed = 0, co_published = [] \<rparr>"

definition example_collect_env :: collect_env where
  "example_collect_env = \<lparr> ce_now = 0, ce_mono = 0, ce_ttl = 3600, ce_bus = \<lambda>e. True \<rparr>"

theorem discarded_object_isolated_witness:
  "same_market example_collector (snd (co_process example_collect_env (MO_Trade (example_tick 0 (-1))) example_collector))"
proof -
  have "should_discard (object_issues (MO_Trade (example_tick 0 (-1))) (co_validator example_collector))"
    by (simp add: object_issues_def validate_trade_def common_checks_def example_tick_def example_collector_def
        default_validator_def dv_new_def dv_track_def pd_get_or_def new_track_def duplicate_check_def Let_def)
  from discarded_object_isolated [OF this prod.collapse [symmetric]] show ?thesis by blast
qed

text \<open>
  A trade that arrives after its bucket was flushed replaces the candle.  Two trades of one
  bucket with a flush of the expired bucket after each close two candles of the same start; the state
  store keeps only the second and the database only the first, so neither holds the volume traded in
  the bucket.
\<close>

theorem late_trade_overwrites_candle:
  assumes "tf \<notin> {TF_TICK, TF_MN1}" "td_symbol t1 = td_symbol t2" "td_provider t1 = td_provider t2"
    "span_of tf (td_exchange_ts t2) = span_of tf (td_exchange_ts t1)"
    "snd (span_of tf (td_exchange_ts t1)) \<le> n1" "snd (span_of tf (td_exchange_ts t1)) \<le> n2" "0 < n"
  shows "\<exists>ag. ag_run [AddTrade t1, FlushStale n1, AddTrade t2, FlushStale n2] (ag_init [tf], [])
      = Inr (ag, [candle_of tf True [trade_point t1], candle_of tf True [trade_point t2]])
    \<and> pd_get (st_candles (fold st_update_candle [candle_of tf True [trade_point t1], candle_of tf True [trade_point t2]] (st_new n n)))
        (td_symbol t1, tf) = Some [candle_of tf True [trade_point t2]]
    \<and> fold insert_candle [candle_of tf True [trade_point t1], candle_of tf True [trade_point t2]] [] = [candle_of tf True [trade_point t1]]
    \<and> cd_volume (candle_of tf True [trade_point t1]) = td_size t1 \<and> cd_volume (candle_of tf True [trade_point t2]) = td_size t2"
proof -
  let ?c1 = "candle_of tf True [trade_point t1]" and ?c2 = "candle_of tf True [trade_point t2]"
  have fold1: "ag_fold_all p [tf] (ag, []) = ag_fold_tf p tf (ag, [])" for p ag
    by (cases "ag_fold_tf p tf (ag, [])") simp_all
  have point: "pt_symbol (trade_point t) = td_symbol t" "pt_ts (trade_point t) = td_exchange_ts t" for t
    by (simp_all add: trade_point_def)
  have freeze: "bu_freeze True (bu_add_point (trade_point t) (bu_new (trade_point t) tf (fst (span_of tf (td_exchange_ts t)))
      (snd (span_of tf (td_exchange_ts t))))) = candle_of tf True [trade_point t]" for t
    using freeze_building_of [of "[trade_point t]" True tf] by (simp add: building_of_single point)
  have fin: "bu_end (bu_add_point p (bu_new q tf a b)) = b" for p q a b
    by (simp add: bu_add_point_def bu_new_def Let_def)
  have add: "ag_apply (AddTrade t) ag = Inr (ag\<lparr> ag_building := [((td_symbol t, tf), bu_add_point (trade_point t) (bu_new (trade_point t) tf
        (fst (span_of tf (td_exchange_ts t))) (snd (span_of tf (td_exchange_ts t)))))] \<rparr>, [])"
    if "ag_building ag = []" "ag_timeframes ag = [tf]" for t ag
    using that by (simp add: ag_apply_def ag_add_trade_def ag_fold_def fold1 ag_fold_tf_def span_total [OF assms(1)] point Let_def del: ag_fold_all.simps)
  have flush: "ag_apply (FlushStale m) ag = Inr (ag\<lparr> ag_building := [], ag_closed_count := ag_closed_count ag + 1 \<rparr>, [bu_freeze True b])"
    if "ag_building ag = [(k, b)]" "bu_end b \<le> m" for m ag k b
    using that by (simp add: ag_apply_def ag_flush_stale_def expired_def Let_def pd_pop_def)
  have "\<exists>ag. ag_run [AddTrade t1, FlushStale n1, AddTrade t2, FlushStale n2] (ag_init [tf], []) = Inr (ag, [?c1, ?c2])"
    using assms(1,4-6) by (simp add: add flush ag_init_def fin freeze freeze [of t2, unfolded assms(4)])
  moreover have key: "cd_symbol ?c2 = cd_symbol ?c1" "cd_provider ?c2 = cd_provider ?c1" "cd_start ?c2 = cd_start ?c1" "cd_timeframe ?c2 = cd_timeframe ?c1"
    "cd_symbol ?c1 = td_symbol t1" "cd_timeframe ?c1 = tf"
    using assms(2-4) by (simp_all add: candle_of_def trade_point_def)
  moreover have "pd_get (st_candles (fold st_update_candle [?c1, ?c2] (st_new n n))) (td_symbol t1, tf) = Some [?c2]"
    using assms(7) by (simp add: st_update_candle_def st_new_def key Let_def pd_get_or_def pd_get_def add_candle_def deque_append_def)
  ultimately show ?thesis
    by (auto simp: insert_candle_def candle_key_def candle_of_def trade_point_def)
qed

theorem late_trade_overwrites_candle_witness:
  "\<exists>ag cs. ag_run [AddTrade (example_tick 0 5), FlushStale 60000000, AddTrade (example_tick 59000000 7), FlushStale 61000000]
      (ag_init [TF_M1], []) = Inr (ag, cs) \<and> map cd_volume (the (pd_get (st_candles (fold st_update_candle cs (st_new 500 500))) (''X'', TF_M1))) = [2]"
proof -
  have "span_of TF_M1 0 = (0, 60000000)" "span_of TF_M1 59000000 = (0, 60000000)" by (simp_all add: span_minute)
  with late_trade_overwrites_candle [of TF_M1 "example_tick 0 5" "example_tick 59000000 7" 60000000 61000000 500]
  show ?thesis by (auto simp: example_tick_def)
qed

end
