(* ===== verification/Normalizers.thy ===== *)
theory Normalizers
  imports Collector
begin

text \<open>
  \<open>app/market/normalizer\<close>: the translation of the public messages of Binance, Bybit and OKX into the
  market objects.  A message is a JSON object; a field that cannot be read raises, as in the source,
  a \<open>NormalizationError\<close> or the error of the Python operation.  \<open>now\<close> is the local clock.
\<close>

section \<open>Shared helpers\<close>

datatype norm_error = NormalizationError string | NormPy py_error | NormIndexError

definition lift_py :: "py_error + 'a \<Rightarrow> norm_error + 'a" where
  "lift_py r = (case r of Inl e \<Rightarrow> Inl (NormPy e) | Inr x \<Rightarrow> Inr x)"

text \<open>\<open>datetime.fromtimestamp\<close> rounds to microseconds and raises outside the years 1 to 9999.\<close>

definition ts_of_ms :: "real \<Rightarrow> norm_error + time" where
  "ts_of_ms x = (let t = round_half_even (x * 1000) in if wf_time t then Inr t else Inl (NormalizationError ''timestamp''))"

definition ts_from_ms :: "pylib \<Rightarrow> json \<Rightarrow> norm_error + time" where
  "ts_from_ms L j = (case py_float L j of Inl e \<Rightarrow> Inl (NormalizationError ''timestamp'') | Inr x \<Rightarrow> ts_of_ms x)"

definition as_float :: "pylib \<Rightarrow> json \<Rightarrow> string \<Rightarrow> norm_error + real" where
  "as_float L j field = (case py_float L j of Inl e \<Rightarrow> Inl (NormalizationError field) | Inr x \<Rightarrow> Inr x)"

definition py_or_json :: "json \<Rightarrow> json \<Rightarrow> json" where
  "py_or_json a b = (if py_bool a then a else b)"

text \<open>\<open>x.get\<close> of something that is not a dictionary is an \<open>AttributeError\<close>; \<open>int(x)\<close> of a field is not wrapped.\<close>

definition as_dict :: "json \<Rightarrow> norm_error + json_dict" where
  "as_dict j = (case j of JObj d \<Rightarrow> Inr d | _ \<Rightarrow> Inl (NormPy AttributeError))"

definition as_int :: "json \<Rightarrow> norm_error + int" where
  "as_int j = lift_py (py_int_of j)"

definition opt_num :: "pylib \<Rightarrow> json \<Rightarrow> string \<Rightarrow> norm_error + real option" where
  "opt_num L j field = (if j = JNull then Inr None else ebind (as_float L j field) (\<lambda>x. Inr (Some x)))"

definition level_of :: "pylib \<Rightarrow> json \<Rightarrow> norm_error + depth_level list" where
  "level_of L pair = (case pair of
       JList (p # s # _) \<Rightarrow> ebind (as_float L p ''price'') (\<lambda>x. ebind (as_float L s ''size'') (\<lambda>y.
         Inr [\<lparr> lv_price = x, lv_size = y \<rparr>]))
     | _ \<Rightarrow> Inr [])"

text \<open>\<open>_levels\<close>, the same in the three normalisers.\<close>

definition levels_of :: "pylib \<Rightarrow> json \<Rightarrow> norm_error + depth_level list" where
  "levels_of L raw = (case raw of JList ps \<Rightarrow> ebind (traverse (level_of L) ps) (\<lambda>ls. Inr (concat ls)) | _ \<Rightarrow> Inr [])"

definition side_text :: "pylib \<Rightarrow> json \<Rightarrow> string" where
  "side_text L j = lower (py_str L j)"

section \<open>Binance\<close>

definition bin_symbol :: "pylib \<Rightarrow> json_dict \<Rightarrow> string" where
  "bin_symbol L d = upper (py_str L (jget d ''s'' (JStr [])))"

definition bin_trade :: "pylib \<Rightarrow> time \<Rightarrow> json_dict \<Rightarrow> norm_error + md_trade" where
  "bin_trade L now d =
     ebind (as_float L (jget d ''p'' JNull) ''p'') (\<lambda>price.
     ebind (as_float L (jget d ''q'' JNull) ''q'') (\<lambda>qty.
     ebind (ts_from_ms L (py_or_json (jget d ''T'' JNull) (py_or_json (jget d ''E'' JNull) (JInt 0)))) (\<lambda>ts.
     Inr \<lparr> td_symbol = bin_symbol L d, td_provider = ''binance'',
       td_trade_id = py_str L (py_or_json (jget d ''t'' JNull) (py_or_json (jget d ''a'' JNull) (JStr []))),
       td_price = price, td_size = qty, td_side = (if py_bool (jget d ''m'' JNull) then TS_SELL else TS_BUY),
       td_exchange_ts = ts, td_local_ts = now \<rparr>)))"

definition bin_book_ticker :: "pylib \<Rightarrow> time \<Rightarrow> json_dict \<Rightarrow> norm_error + md_ticker" where
  "bin_book_ticker L now d =
     ebind (case pd_get d ''E'' of None \<Rightarrow> Inr now | Some j \<Rightarrow> ts_from_ms L j) (\<lambda>ts.
     ebind (as_float L (jget d ''b'' JNull) ''b'') (\<lambda>bid.
     ebind (as_float L (jget d ''a'' JNull) ''a'') (\<lambda>ask.
     ebind (as_float L (jget d ''B'' (JInt 0)) ''B'') (\<lambda>bs.
     ebind (as_float L (jget d ''A'' (JInt 0)) ''A'') (\<lambda>sz.
     Inr \<lparr> tk_symbol = bin_symbol L d, tk_bid = bid, tk_ask = ask, tk_provider = ''binance'', tk_bid_size = bs,
       tk_ask_size = sz, tk_last = None, tk_mark_price = None, tk_index_price = None, tk_exchange_ts = ts,
       tk_local_ts = now \<rparr>)))))"

definition bin_depth :: "pylib \<Rightarrow> time \<Rightarrow> json_dict \<Rightarrow> norm_error + book_delta" where
  "bin_depth L now d =
     ebind (levels_of L (jget d ''b'' (JList []))) (\<lambda>bids.
     ebind (levels_of L (jget d ''a'' (JList []))) (\<lambda>asks.
     ebind (as_int (jget d ''U'' (JInt 0))) (\<lambda>fs.
     ebind (as_int (jget d ''u'' (JInt 0))) (\<lambda>ls.
     ebind (ts_from_ms L (py_or_json (jget d ''E'' JNull) (JInt 0))) (\<lambda>ts.
     Inr \<lparr> bd_symbol = bin_symbol L d, bd_provider = ''binance'', bd_bids = bids, bd_asks = asks, bd_is_snapshot = False,
       bd_first_sequence = fs, bd_last_sequence = ls, bd_exchange_ts = ts, bd_local_ts = now \<rparr>)))))"

definition bin_kline :: "pylib \<Rightarrow> json_dict \<Rightarrow> norm_error + md_candle option" where
  "bin_kline L d = (case jget d ''k'' JNull of
       JObj k \<Rightarrow>
         (case parse_timeframe (py_str L (jget k ''i'' JNull)) of
            Inl e \<Rightarrow> Inr None
          | Inr tf \<Rightarrow>
              ebind (as_float L (jget k ''v'' (JInt 0)) ''v'') (\<lambda>vol.
              ebind (as_float L (jget k ''V'' (JInt 0)) ''V'') (\<lambda>buy.
              ebind (as_float L (jget k ''q'' (JInt 0)) ''q'') (\<lambda>quote.
              ebind (ts_from_ms L (py_or_json (jget k ''t'' JNull) (JInt 0))) (\<lambda>start.
              ebind (as_float L (jget k ''T'' (JInt 0)) ''T'') (\<lambda>t_end.
              ebind (ts_of_ms (t_end + 1)) (\<lambda>fin.
              ebind (as_float L (jget k ''o'' JNull) ''o'') (\<lambda>op.
              ebind (as_float L (jget k ''h'' JNull) ''h'') (\<lambda>hi.
              ebind (as_float L (jget k ''l'' JNull) ''l'') (\<lambda>lo.
              ebind (as_float L (jget k ''c'' JNull) ''c'') (\<lambda>cl.
              ebind (as_int (jget k ''n'' (JInt 0))) (\<lambda>n.
              Inr (Some \<lparr> cd_open = op, cd_high = hi, cd_low = lo, cd_close = cl, cd_volume = vol,
                cd_symbol = bin_symbol L d, cd_provider = ''binance'', cd_timeframe = tf, cd_start = start, cd_end = fin,
                cd_buy_volume = buy, cd_sell_volume = max (vol - buy) 0, cd_vwap = (if 0 < vol then quote / vol else 0),
                cd_trades = n, cd_closed = py_bool (jget k ''x'' (JBool False)), cd_source = ''provider'' \<rparr>)))))))))))))
     | _ \<Rightarrow> Inr None)"

definition bin_mark_price :: "pylib \<Rightarrow> time \<Rightarrow> json_dict \<Rightarrow> norm_error + funding_rate" where
  "bin_mark_price L now d =
     ebind (ts_from_ms L (py_or_json (jget d ''E'' JNull) (JInt 0))) (\<lambda>ts.
     ebind (as_float L (jget d ''r'' (JInt 0)) ''r'') (\<lambda>rate.
     ebind (if py_bool (jget d ''T'' JNull) then ebind (ts_from_ms L (jget d ''T'' JNull)) (\<lambda>t. Inr (Some t)) else Inr None) (\<lambda>next_ts.
     Inr \<lparr> fr_symbol = bin_symbol L d, fr_provider = ''binance'', fr_rate = rate, fr_next_funding_ts = next_ts,
       fr_exchange_ts = ts, fr_local_ts = now \<rparr>)))"

definition bin_liquidation :: "pylib \<Rightarrow> time \<Rightarrow> json_dict \<Rightarrow> norm_error + liquidation" where
  "bin_liquidation L now d =
     ebind (as_dict (py_or_json (jget d ''o'' JNull) (JObj []))) (\<lambda>order.
     ebind (as_float L (jget order ''p'' (JInt 0)) ''p'') (\<lambda>price.
     ebind (as_float L (jget order ''q'' (JInt 0)) ''q'') (\<lambda>qty.
     ebind (ts_from_ms L (py_or_json (jget order ''T'' JNull) (py_or_json (jget d ''E'' JNull) (JInt 0)))) (\<lambda>ts.
     Inr \<lparr> ld_symbol = upper (py_str L (jget order ''s'' (JStr []))), ld_provider = ''binance'',
       ld_side = (if upper (py_str L (jget order ''S'' (JStr []))) = ''BUY'' then TS_BUY else TS_SELL),
       ld_price = price, ld_size = qty, ld_exchange_ts = ts, ld_local_ts = now \<rparr>))))"

definition norm_map :: "('a \<Rightarrow> 'b) \<Rightarrow> norm_error + 'a \<Rightarrow> norm_error + 'b" where
  "norm_map f r = ebind r (\<lambda>x. Inr (f x))"

definition opt_object :: "('a \<Rightarrow> market_object) \<Rightarrow> 'a option \<Rightarrow> market_object list" where
  "opt_object f x = (case x of None \<Rightarrow> [] | Some v \<Rightarrow> [f v])"

definition bin_normalize :: "pylib \<Rightarrow> time \<Rightarrow> json_dict \<Rightarrow> norm_error + market_object list" where
  "bin_normalize L now message =
     (case (if pd_get message ''stream'' \<noteq> None then jget message ''data'' JNull else JObj message) of
        JObj d \<Rightarrow>
          (let event = jget d ''e'' JNull in
           if event = JStr ''trade'' \<or> event = JStr ''aggTrade'' then norm_map (\<lambda>x. [MO_Trade x]) (bin_trade L now d)
           else if event = JStr ''depthUpdate'' then norm_map (\<lambda>x. [MO_Delta x]) (bin_depth L now d)
           else if event = JStr ''kline'' then norm_map (opt_object MO_Candle) (bin_kline L d)
           else if event = JStr ''markPriceUpdate'' then norm_map (\<lambda>x. [MO_Funding x]) (bin_mark_price L now d)
           else if event = JStr ''forceOrder'' then norm_map (\<lambda>x. [MO_Liquidation x]) (bin_liquidation L now d)
           else if event = JNull \<and> pd_get d ''b'' \<noteq> None \<and> pd_get d ''a'' \<noteq> None \<and> pd_get d ''s'' \<noteq> None
             then norm_map (\<lambda>x. [MO_Ticker x]) (bin_book_ticker L now d)
           else Inr [])
      | _ \<Rightarrow> Inr [])"

section \<open>Bybit\<close>

definition byb_intervals :: "(string \<times> timeframe) list" where
  "byb_intervals = [(''1'', TF_M1), (''3'', TF_M3), (''5'', TF_M5), (''15'', TF_M15), (''30'', TF_M30), (''60'', TF_H1),
     (''240'', TF_H4), (''D'', TF_D1), (''W'', TF_W1), (''M'', TF_MN1)]"

definition byb_trade :: "pylib \<Rightarrow> time \<Rightarrow> json \<Rightarrow> norm_error + md_trade" where
  "byb_trade L now item =
     ebind (as_dict item) (\<lambda>d.
     ebind (as_float L (jget d ''p'' JNull) ''p'') (\<lambda>price.
     ebind (as_float L (jget d ''v'' JNull) ''v'') (\<lambda>qty.
     ebind (ts_from_ms L (py_or_json (jget d ''T'' JNull) (JInt 0))) (\<lambda>ts.
     Inr \<lparr> td_symbol = upper (py_str L (jget d ''s'' (JStr []))), td_provider = ''bybit'',
       td_trade_id = py_str L (jget d ''i'' (JStr [])), td_price = price, td_size = qty,
       td_side = (if side_text L (jget d ''S'' (JStr [])) = ''buy'' then TS_BUY else TS_SELL),
       td_exchange_ts = ts, td_local_ts = now \<rparr>))))"

definition byb_ticker :: "pylib \<Rightarrow> time \<Rightarrow> json_dict \<Rightarrow> norm_error + md_ticker option" where
  "byb_ticker L now message =
     ebind (as_dict (py_or_json (jget message ''data'' JNull) (JObj []))) (\<lambda>d.
     let bid = jget d ''bid1Price'' JNull; ask = jget d ''ask1Price'' JNull in
     if bid = JNull \<or> ask = JNull then Inr None
     else
       ebind (as_float L bid ''bid1Price'') (\<lambda>b.
       ebind (as_float L ask ''ask1Price'') (\<lambda>a.
       ebind (as_float L (jget d ''bid1Size'' (JInt 0)) ''bid1Size'') (\<lambda>bs.
       ebind (as_float L (jget d ''ask1Size'' (JInt 0)) ''ask1Size'') (\<lambda>sz.
       ebind (opt_num L (jget d ''lastPrice'' JNull) ''lastPrice'') (\<lambda>lastp.
       ebind (opt_num L (jget d ''markPrice'' JNull) ''markPrice'') (\<lambda>markp.
       ebind (opt_num L (jget d ''indexPrice'' JNull) ''indexPrice'') (\<lambda>indexp.
       ebind (ts_from_ms L (py_or_json (jget message ''ts'' JNull) (JInt 0))) (\<lambda>ts.
       Inr (Some \<lparr> tk_symbol = upper (py_str L (jget d ''symbol'' (JStr []))), tk_bid = b, tk_ask = a, tk_provider = ''bybit'',
         tk_bid_size = bs, tk_ask_size = sz, tk_last = lastp, tk_mark_price = markp, tk_index_price = indexp,
         tk_exchange_ts = ts, tk_local_ts = now \<rparr>))))))))))"

definition byb_book :: "pylib \<Rightarrow> time \<Rightarrow> json_dict \<Rightarrow> norm_error + book_delta" where
  "byb_book L now message =
     ebind (as_dict (py_or_json (jget message ''data'' JNull) (JObj []))) (\<lambda>d.
     ebind (as_int (jget d ''u'' (JInt 0))) (\<lambda>seqn.
     ebind (levels_of L (jget d ''b'' (JList []))) (\<lambda>bids.
     ebind (levels_of L (jget d ''a'' (JList []))) (\<lambda>asks.
     ebind (ts_from_ms L (py_or_json (jget message ''ts'' JNull) (JInt 0))) (\<lambda>ts.
     Inr \<lparr> bd_symbol = upper (py_str L (jget d ''s'' (JStr []))), bd_provider = ''bybit'', bd_bids = bids, bd_asks = asks,
       bd_is_snapshot = (jget message ''type'' JNull = JStr ''snapshot''), bd_first_sequence = seqn, bd_last_sequence = seqn,
       bd_exchange_ts = ts, bd_local_ts = now \<rparr>)))))"

definition byb_kline :: "pylib \<Rightarrow> string \<Rightarrow> json \<Rightarrow> norm_error + md_candle option" where
  "byb_kline L symb item =
     ebind (as_dict item) (\<lambda>d.
     case map_of byb_intervals (py_str L (jget d ''interval'' (JStr []))) of
       None \<Rightarrow> Inr None
     | Some tf \<Rightarrow>
         ebind (ts_from_ms L (py_or_json (jget d ''start'' JNull) (JInt 0))) (\<lambda>start.
         ebind (as_float L (jget d ''end'' (JInt 0)) ''end'') (\<lambda>t_end.
         ebind (ts_of_ms (t_end + 1)) (\<lambda>fin.
         ebind (as_float L (jget d ''open'' JNull) ''open'') (\<lambda>op.
         ebind (as_float L (jget d ''high'' JNull) ''high'') (\<lambda>hi.
         ebind (as_float L (jget d ''low'' JNull) ''low'') (\<lambda>lo.
         ebind (as_float L (jget d ''close'' JNull) ''close'') (\<lambda>cl.
         ebind (as_float L (jget d ''volume'' (JInt 0)) ''volume'') (\<lambda>vol.
         Inr (Some \<lparr> cd_open = op, cd_high = hi, cd_low = lo, cd_close = cl, cd_volume = vol, cd_symbol = upper symb,
           cd_provider = ''bybit'', cd_timeframe = tf, cd_start = start, cd_end = fin, cd_buy_volume = 0, cd_sell_volume = 0,
           cd_vwap = 0, cd_trades = 0, cd_closed = py_bool (jget d ''confirm'' (JBool False)), cd_source = ''provider'' \<rparr>))))))))))"

definition byb_liquidation :: "pylib \<Rightarrow> time \<Rightarrow> json_dict \<Rightarrow> norm_error + liquidation" where
  "byb_liquidation L now d =
     ebind (as_float L (jget d ''price'' (JInt 0)) ''price'') (\<lambda>price.
     ebind (as_float L (jget d ''size'' (JInt 0)) ''size'') (\<lambda>qty.
     ebind (ts_from_ms L (py_or_json (jget d ''updatedTime'' JNull) (JInt 0))) (\<lambda>ts.
     Inr \<lparr> ld_symbol = upper (py_str L (jget d ''symbol'' (JStr []))), ld_provider = ''bybit'',
       ld_side = (if side_text L (jget d ''side'' (JStr [])) = ''buy'' then TS_BUY else TS_SELL),
       ld_price = price, ld_size = qty, ld_exchange_ts = ts, ld_local_ts = now \<rparr>)))"

definition starts_with :: "string \<Rightarrow> string \<Rightarrow> bool" where
  "starts_with p s \<longleftrightarrow> take (length p) s = p"

text \<open>\<open>topic.rsplit(".", 1)[-1]\<close>: what follows the last dot.\<close>

definition after_last_dot :: "string \<Rightarrow> string" where
  "after_last_dot s = rev (takeWhile (\<lambda>c. c \<noteq> CHR ''.'') (rev s))"

definition dict_items :: "json list \<Rightarrow> json_dict list" where
  "dict_items xs = concat (map (\<lambda>j. case j of JObj d \<Rightarrow> [d] | _ \<Rightarrow> []) xs)"

definition byb_normalize :: "pylib \<Rightarrow> time \<Rightarrow> json_dict \<Rightarrow> norm_error + market_object list" where
  "byb_normalize L now message =
     (let topic = jget message ''topic'' (JStr []) in
      if \<not> py_bool topic then Inr []
      else case topic of
        JStr tp \<Rightarrow>
          if starts_with ''publicTrade.'' tp
            then ebind (lift_py (py_tuple (jget message ''data'' (JList [])))) (\<lambda>items.
                 norm_map (map MO_Trade) (traverse (byb_trade L now) items))
          else if starts_with ''tickers.'' tp then norm_map (opt_object MO_Ticker) (byb_ticker L now message)
          else if starts_with ''orderbook.'' tp then norm_map (\<lambda>x. [MO_Delta x]) (byb_book L now message)
          else if starts_with ''kline.'' tp
            then ebind (lift_py (py_tuple (jget message ''data'' (JList [])))) (\<lambda>items.
                 norm_map (\<lambda>cs. concat (map (opt_object MO_Candle) cs)) (traverse (byb_kline L (after_last_dot tp)) items))
          else if starts_with ''liquidation.'' tp
            then norm_map (map MO_Liquidation) (traverse (byb_liquidation L now)
                 (dict_items (case jget message ''data'' JNull of JList xs \<Rightarrow> xs | j \<Rightarrow> [j])))
          else Inr []
      | _ \<Rightarrow> Inl (NormPy AttributeError))"

section \<open>OKX\<close>

definition okx_channels :: "(string \<times> timeframe) list" where
  "okx_channels = [(''candle1s'', TF_S1), (''candle1m'', TF_M1), (''candle3m'', TF_M3), (''candle5m'', TF_M5),
     (''candle15m'', TF_M15), (''candle30m'', TF_M30), (''candle1H'', TF_H1), (''candle4H'', TF_H4), (''candle1D'', TF_D1),
     (''candle1W'', TF_W1), (''candle1M'', TF_MN1)]"

definition to_internal_symbol :: "string \<Rightarrow> string" where
  "to_internal_symbol inst = upper (filter (\<lambda>c. c \<noteq> CHR ''-'') inst)"

definition ends_with :: "string \<Rightarrow> string \<Rightarrow> bool" where
  "ends_with q s \<longleftrightarrow> length q \<le> length s \<and> drop (length s - length q) s = q"

fun split_quote :: "string list \<Rightarrow> string \<Rightarrow> string" where
  "split_quote [] s = s"
| "split_quote (q # qs) s = (if ends_with q s \<and> length s > length q
     then take (length s - length q) s @ ''-'' @ q else split_quote qs s)"

definition to_okx_inst_id :: "string list \<Rightarrow> string \<Rightarrow> string" where
  "to_okx_inst_id quote_hints s = split_quote quote_hints (upper s)"

definition okx_trade :: "pylib \<Rightarrow> time \<Rightarrow> string \<Rightarrow> json \<Rightarrow> norm_error + md_trade" where
  "okx_trade L now symb item =
     ebind (as_dict item) (\<lambda>d.
     ebind (as_float L (jget d ''px'' JNull) ''px'') (\<lambda>price.
     ebind (as_float L (jget d ''sz'' JNull) ''sz'') (\<lambda>qty.
     ebind (ts_from_ms L (py_or_json (jget d ''ts'' JNull) (JInt 0))) (\<lambda>ts.
     Inr \<lparr> td_symbol = symb, td_provider = ''okx'', td_trade_id = py_str L (jget d ''tradeId'' (JStr [])),
       td_price = price, td_size = qty, td_side = (if side_text L (jget d ''side'' (JStr [])) = ''buy'' then TS_BUY else TS_SELL),
       td_exchange_ts = ts, td_local_ts = now \<rparr>))))"

definition okx_ticker :: "pylib \<Rightarrow> time \<Rightarrow> string \<Rightarrow> json \<Rightarrow> norm_error + md_ticker" where
  "okx_ticker L now symb item =
     ebind (as_dict item) (\<lambda>d.
     ebind (as_float L (jget d ''bidPx'' (JInt 0)) ''bidPx'') (\<lambda>b.
     ebind (as_float L (jget d ''askPx'' (JInt 0)) ''askPx'') (\<lambda>a.
     ebind (as_float L (jget d ''bidSz'' (JInt 0)) ''bidSz'') (\<lambda>bs.
     ebind (as_float L (jget d ''askSz'' (JInt 0)) ''askSz'') (\<lambda>sz.
     ebind (opt_num L (jget d ''last'' JNull) ''last'') (\<lambda>lastp.
     ebind (ts_from_ms L (py_or_json (jget d ''ts'' JNull) (JInt 0))) (\<lambda>ts.
     Inr \<lparr> tk_symbol = symb, tk_bid = b, tk_ask = a, tk_provider = ''okx'', tk_bid_size = bs, tk_ask_size = sz,
       tk_last = lastp, tk_mark_price = None, tk_index_price = None, tk_exchange_ts = ts, tk_local_ts = now \<rparr>)))))))"

definition okx_book :: "pylib \<Rightarrow> time \<Rightarrow> string \<Rightarrow> bool \<Rightarrow> json \<Rightarrow> norm_error + book_delta" where
  "okx_book L now symb is_snapshot item =
     ebind (as_dict item) (\<lambda>d.
     ebind (as_int (jget d ''seqId'' (JInt 0))) (\<lambda>seqn.
     ebind (levels_of L (jget d ''bids'' (JList []))) (\<lambda>bids.
     ebind (levels_of L (jget d ''asks'' (JList []))) (\<lambda>asks.
     ebind (if is_snapshot then Inr 0 else ebind (as_int (jget d ''prevSeqId'' (JInt 0))) (\<lambda>p. Inr (p + 1))) (\<lambda>fs.
     ebind (ts_from_ms L (py_or_json (jget d ''ts'' JNull) (JInt 0))) (\<lambda>ts.
     Inr \<lparr> bd_symbol = symb, bd_provider = ''okx'', bd_bids = bids, bd_asks = asks, bd_is_snapshot = is_snapshot,
       bd_first_sequence = fs, bd_last_sequence = seqn, bd_exchange_ts = ts, bd_local_ts = now \<rparr>))))))"

text \<open>Indexing a JSON value from the front.\<close>

definition as_seq :: "json \<Rightarrow> norm_error + json list" where
  "as_seq j = (case j of JList xs \<Rightarrow> Inr xs | JStr s \<Rightarrow> Inr (map (\<lambda>c. JStr [c]) s)
     | JObj d \<Rightarrow> Inl (NormPy (KeyError ''0'')) | _ \<Rightarrow> Inl (NormPy TypeError))"

definition nth_item :: "json list \<Rightarrow> nat \<Rightarrow> norm_error + json" where
  "nth_item xs i = (if i < length xs then Inr (xs ! i) else Inl NormIndexError)"

definition nth_float :: "pylib \<Rightarrow> json list \<Rightarrow> nat \<Rightarrow> string \<Rightarrow> norm_error + real" where
  "nth_float L xs i field = ebind (nth_item xs i) (\<lambda>j. as_float L j field)"

definition okx_candle :: "pylib \<Rightarrow> string \<Rightarrow> timeframe \<Rightarrow> json \<Rightarrow> norm_error + md_candle" where
  "okx_candle L symb tf item =
     ebind (as_seq item) (\<lambda>xs.
     ebind (nth_item xs 0) (\<lambda>j0.
     ebind (ts_from_ms L j0) (\<lambda>start.
     ebind (nth_float L xs 5 ''vol'') (\<lambda>vol.
     ebind (if length xs > 7 then nth_float L xs 7 ''volCcyQuote'' else Inr 0) (\<lambda>quote.
     ebind (lift_py (bucket_end tf start)) (\<lambda>fin.
     ebind (nth_float L xs 1 ''o'') (\<lambda>op.
     ebind (nth_float L xs 2 ''h'') (\<lambda>hi.
     ebind (nth_float L xs 3 ''l'') (\<lambda>lo.
     ebind (nth_float L xs 4 ''c'') (\<lambda>cl.
     Inr \<lparr> cd_open = op, cd_high = hi, cd_low = lo, cd_close = cl, cd_volume = vol, cd_symbol = symb, cd_provider = ''okx'',
       cd_timeframe = tf, cd_start = start, cd_end = fin, cd_buy_volume = 0, cd_sell_volume = 0,
       cd_vwap = (if 0 < vol then quote / vol else 0), cd_trades = 0,
       cd_closed = (length xs > 8 \<and> py_str L (xs ! 8) = ''1''), cd_source = ''provider'' \<rparr>))))))))))"

definition okx_funding :: "pylib \<Rightarrow> time \<Rightarrow> string \<Rightarrow> json \<Rightarrow> norm_error + funding_rate" where
  "okx_funding L now symb item =
     ebind (as_dict item) (\<lambda>d.
     ebind (as_float L (jget d ''fundingRate'' (JInt 0)) ''fundingRate'') (\<lambda>rate.
     ebind (if py_bool (jget d ''nextFundingTime'' JNull)
            then ebind (ts_from_ms L (jget d ''nextFundingTime'' JNull)) (\<lambda>t. Inr (Some t)) else Inr None) (\<lambda>next_ts.
     ebind (ts_from_ms L (py_or_json (jget d ''ts'' JNull) (JInt 0))) (\<lambda>ts.
     Inr \<lparr> fr_symbol = symb, fr_provider = ''okx'', fr_rate = rate, fr_next_funding_ts = next_ts, fr_exchange_ts = ts,
       fr_local_ts = now \<rparr>))))"

definition okx_open_interest :: "pylib \<Rightarrow> time \<Rightarrow> string \<Rightarrow> json \<Rightarrow> norm_error + open_interest" where
  "okx_open_interest L now symb item =
     ebind (as_dict item) (\<lambda>d.
     ebind (as_float L (jget d ''oi'' (JInt 0)) ''oi'') (\<lambda>oi.
     ebind (opt_num L (jget d ''oiCcy'' JNull) ''oiCcy'') (\<lambda>ccy.
     ebind (ts_from_ms L (py_or_json (jget d ''ts'' JNull) (JInt 0))) (\<lambda>ts.
     Inr \<lparr> op_symbol = symb, op_provider = ''okx'', op_contracts = oi, op_notional = ccy, op_exchange_ts = ts,
       op_local_ts = now \<rparr>))))"

definition okx_liquidation :: "pylib \<Rightarrow> time \<Rightarrow> string \<Rightarrow> json \<Rightarrow> norm_error + liquidation" where
  "okx_liquidation L now symb detail =
     ebind (as_dict detail) (\<lambda>d.
     ebind (as_float L (jget d ''bkPx'' (JInt 0)) ''bkPx'') (\<lambda>price.
     ebind (as_float L (jget d ''sz'' (JInt 0)) ''sz'') (\<lambda>qty.
     ebind (ts_from_ms L (py_or_json (jget d ''ts'' JNull) (JInt 0))) (\<lambda>ts.
     Inr \<lparr> ld_symbol = symb, ld_provider = ''okx'',
       ld_side = (if side_text L (jget d ''side'' (JStr [])) = ''buy'' then TS_BUY else TS_SELL),
       ld_price = price, ld_size = qty, ld_exchange_ts = ts, ld_local_ts = now \<rparr>))))"

definition okx_liquidations :: "pylib \<Rightarrow> time \<Rightarrow> json \<Rightarrow> norm_error + liquidation list" where
  "okx_liquidations L now entry =
     ebind (as_dict entry) (\<lambda>d.
     ebind (lift_py (py_tuple (jget d ''details'' (JList [])))) (\<lambda>details.
     traverse (okx_liquidation L now (to_internal_symbol (py_str L (jget d ''instId'' (JStr []))))) details))"

definition okx_normalize :: "pylib \<Rightarrow> time \<Rightarrow> json_dict \<Rightarrow> norm_error + market_object list" where
  "okx_normalize L now message =
     ebind (as_dict (py_or_json (jget message ''arg'' JNull) (JObj []))) (\<lambda>arg.
     let channel = py_str L (jget arg ''channel'' (JStr [])) in
     case jget message ''data'' JNull of
       JList items \<Rightarrow>
         if channel = [] then Inr []
         else
           let symb = to_internal_symbol (py_str L (jget arg ''instId'' (JStr []))) in
           if channel = ''trades'' then norm_map (map MO_Trade) (traverse (okx_trade L now symb) items)
           else if channel = ''tickers'' then norm_map (map MO_Ticker) (traverse (okx_ticker L now symb) items)
           else if channel \<in> {''books'', ''books5'', ''books50-l2-tbt'', ''books-l2-tbt''}
             then let action = py_str L (jget message ''action'' (JStr ''snapshot''));
                      is_snapshot = (channel = ''books5'' \<or> action = ''snapshot'')
                  in norm_map (map MO_Delta) (traverse (okx_book L now symb is_snapshot) items)
           else if map_of okx_channels channel \<noteq> None
             then norm_map (map MO_Candle) (traverse (okx_candle L symb (the (map_of okx_channels channel))) items)
           else if channel = ''funding-rate'' then norm_map (map MO_Funding) (traverse (okx_funding L now symb) items)
           else if channel = ''open-interest'' then norm_map (map MO_Interest) (traverse (okx_open_interest L now symb) items)
           else if channel = ''liquidation-orders''
             then norm_map (\<lambda>ls. map MO_Liquidation (concat ls)) (traverse (okx_liquidations L now) items)
           else Inr []
     | _ \<Rightarrow> Inr [])"

section \<open>Lemmas\<close>

text \<open>Every object carries its symbol in the spelling the state store looks up.\<close>

definition object_symbol :: "market_object \<Rightarrow> string" where
  "object_symbol x = (case x of MO_Trade t \<Rightarrow> td_symbol t | MO_Ticker t \<Rightarrow> tk_symbol t | MO_Delta d \<Rightarrow> bd_symbol d
     | MO_Candle c \<Rightarrow> cd_symbol c | MO_Funding f \<Rightarrow> fr_symbol f | MO_Interest i \<Rightarrow> op_symbol i | MO_Liquidation l \<Rightarrow> ld_symbol l)"

definition canonical :: "market_object \<Rightarrow> bool" where
  "canonical x \<longleftrightarrow> upper (object_symbol x) = object_symbol x"

lemma ebind_Inr: "ebind m f = Inr y \<Longrightarrow> (\<And>x. m = Inr x \<Longrightarrow> f x = Inr y \<Longrightarrow> P) \<Longrightarrow> P"
  by (cases m) auto

lemma traverse_all:
  "\<forall>x \<in> set xs. \<forall>y. f x = Inr y \<longrightarrow> P y \<Longrightarrow> traverse f xs = Inr ys \<Longrightarrow> \<forall>y \<in> set ys. P y"
  by (induction xs arbitrary: ys) (auto elim!: ebind_Inr)

lemma norm_map_Inr: "norm_map f r = Inr y \<Longrightarrow> \<exists>x. r = Inr x \<and> y = f x"
  by (auto simp: norm_map_def elim!: ebind_Inr)

lemma bin_symbols:
  "bin_trade L now d = Inr t \<Longrightarrow> canonical (MO_Trade t)"
  "bin_book_ticker L now d = Inr k \<Longrightarrow> canonical (MO_Ticker k)"
  "bin_depth L now d = Inr b \<Longrightarrow> canonical (MO_Delta b)"
  "bin_mark_price L now d = Inr f \<Longrightarrow> canonical (MO_Funding f)"
  "bin_liquidation L now d = Inr l \<Longrightarrow> canonical (MO_Liquidation l)"
  "bin_kline L d = Inr (Some c) \<Longrightarrow> canonical (MO_Candle c)"
       apply (auto simp: bin_trade_def canonical_def object_symbol_def bin_symbol_def elim!: ebind_Inr)[1]
      apply (auto simp: bin_book_ticker_def canonical_def object_symbol_def bin_symbol_def elim!: ebind_Inr)[1]
     apply (auto simp: bin_depth_def canonical_def object_symbol_def bin_symbol_def elim!: ebind_Inr)[1]
    apply (auto simp: bin_mark_price_def canonical_def object_symbol_def bin_symbol_def elim!: ebind_Inr)[1]
   apply (auto simp: bin_liquidation_def canonical_def object_symbol_def elim!: ebind_Inr)[1]
  apply (auto simp: bin_kline_def canonical_def object_symbol_def bin_symbol_def split: json.splits sum.splits elim!: ebind_Inr)
  done

lemma byb_symbols:
  "byb_trade L now j = Inr t \<Longrightarrow> canonical (MO_Trade t)"
  "byb_ticker L now d = Inr (Some k) \<Longrightarrow> canonical (MO_Ticker k)"
  "byb_book L now d = Inr b \<Longrightarrow> canonical (MO_Delta b)"
  "byb_kline L symb j = Inr (Some c) \<Longrightarrow> canonical (MO_Candle c)"
  "byb_liquidation L now d = Inr l \<Longrightarrow> canonical (MO_Liquidation l)"
      apply (auto simp: byb_trade_def canonical_def object_symbol_def elim!: ebind_Inr)[1]
     apply (auto simp: byb_ticker_def canonical_def object_symbol_def Let_def split: if_splits elim!: ebind_Inr)[1]
    apply (auto simp: byb_book_def canonical_def object_symbol_def elim!: ebind_Inr)[1]
   apply (auto simp: byb_kline_def canonical_def object_symbol_def split: option.splits elim!: ebind_Inr)[1]
  apply (auto simp: byb_liquidation_def canonical_def object_symbol_def elim!: ebind_Inr)
  done

lemma okx_symbols:
  "okx_trade L now symb j = Inr t \<Longrightarrow> upper symb = symb \<Longrightarrow> canonical (MO_Trade t)"
  "okx_ticker L now symb j = Inr k \<Longrightarrow> upper symb = symb \<Longrightarrow> canonical (MO_Ticker k)"
  "okx_book L now symb snap j = Inr b \<Longrightarrow> upper symb = symb \<Longrightarrow> canonical (MO_Delta b)"
  "okx_candle L symb tf j = Inr c \<Longrightarrow> upper symb = symb \<Longrightarrow> canonical (MO_Candle c)"
  "okx_funding L now symb j = Inr f \<Longrightarrow> upper symb = symb \<Longrightarrow> canonical (MO_Funding f)"
  "okx_open_interest L now symb j = Inr i \<Longrightarrow> upper symb = symb \<Longrightarrow> canonical (MO_Interest i)"
  "okx_liquidation L now symb j = Inr l \<Longrightarrow> upper symb = symb \<Longrightarrow> canonical (MO_Liquidation l)"
        apply (auto simp: okx_trade_def canonical_def object_symbol_def elim!: ebind_Inr)[1]
       apply (auto simp: okx_ticker_def canonical_def object_symbol_def elim!: ebind_Inr)[1]
      apply (auto simp: okx_book_def canonical_def object_symbol_def elim!: ebind_Inr)[1]
     apply (auto simp: okx_candle_def canonical_def object_symbol_def elim!: ebind_Inr)[1]
    apply (auto simp: okx_funding_def canonical_def object_symbol_def elim!: ebind_Inr)[1]
   apply (auto simp: okx_open_interest_def canonical_def object_symbol_def elim!: ebind_Inr)[1]
  apply (auto simp: okx_liquidation_def canonical_def object_symbol_def elim!: ebind_Inr)
  done

lemma upper_internal [simp]: "upper (to_internal_symbol s) = to_internal_symbol s"
  by (simp add: to_internal_symbol_def)

text \<open>The answers of a normaliser that hold canonical objects only.\<close>

definition clean_answer :: "norm_error + market_object list \<Rightarrow> bool" where
  "clean_answer r \<longleftrightarrow> (\<forall>xs. r = Inr xs \<longrightarrow> (\<forall>x \<in> set xs. canonical x))"

lemma clean_Inl [intro]: "clean_answer (Inl e)" and clean_Nil [intro]: "clean_answer (Inr [])"
  by (simp_all add: clean_answer_def)

lemma clean_if: "clean_answer r \<Longrightarrow> clean_answer s \<Longrightarrow> clean_answer (if b then r else s)"
  by simp

lemma clean_bind: "(\<And>x. m = Inr x \<Longrightarrow> clean_answer (f x)) \<Longrightarrow> clean_answer (ebind m f)"
  by (cases m) auto

lemma clean_single: "(\<And>x. r = Inr x \<Longrightarrow> canonical (f x)) \<Longrightarrow> clean_answer (norm_map (\<lambda>x. [f x]) r)"
  by (auto simp: clean_answer_def dest!: norm_map_Inr)

lemma clean_opt: "(\<And>x. r = Inr (Some x) \<Longrightarrow> canonical (f x)) \<Longrightarrow> clean_answer (norm_map (opt_object f) r)"
  by (auto simp: clean_answer_def opt_object_def dest!: norm_map_Inr split: option.splits)

lemma clean_many:
  assumes "\<And>j x. g j = Inr x \<Longrightarrow> \<forall>y \<in> set (f x). canonical y"
  shows "clean_answer (norm_map (\<lambda>xs. concat (map f xs)) (traverse g items))"
  unfolding clean_answer_def
proof (intro allI impI)
  fix xs assume "norm_map (\<lambda>xs. concat (map f xs)) (traverse g items) = Inr xs"
  then obtain ys where ys: "traverse g items = Inr ys" "xs = concat (map f ys)"
    by (auto dest!: norm_map_Inr)
  have "\<forall>y \<in> set ys. \<forall>z \<in> set (f y). canonical z"
    by (rule traverse_all [OF _ ys(1)]) (use assms in blast)
  then show "\<forall>x \<in> set xs. canonical x" by (auto simp: ys(2))
qed

lemma clean_map: "(\<And>j x. g j = Inr x \<Longrightarrow> canonical (f x)) \<Longrightarrow> clean_answer (norm_map (map f) (traverse g items))"
  using clean_many [of g "\<lambda>x. [f x]" items] by simp

lemmas clean_rules = clean_if clean_bind clean_single clean_opt clean_map clean_Nil clean_Inl

lemma clean_obj: "(\<And>d. j = JObj d \<Longrightarrow> clean_answer (f d)) \<Longrightarrow> clean_answer (case j of JObj d \<Rightarrow> f d | _ \<Rightarrow> Inr [])"
  by (cases j) auto

lemma bin_dispatch:
  "clean_answer (norm_map (\<lambda>x. [MO_Trade x]) (bin_trade L now d))"
  "clean_answer (norm_map (\<lambda>x. [MO_Delta x]) (bin_depth L now d))"
  "clean_answer (norm_map (opt_object MO_Candle) (bin_kline L d))"
  "clean_answer (norm_map (\<lambda>x. [MO_Funding x]) (bin_mark_price L now d))"
  "clean_answer (norm_map (\<lambda>x. [MO_Liquidation x]) (bin_liquidation L now d))"
  "clean_answer (norm_map (\<lambda>x. [MO_Ticker x]) (bin_book_ticker L now d))"
       apply (rule clean_single [where f = MO_Trade], erule bin_symbols(1))
      apply (rule clean_single [where f = MO_Delta], erule bin_symbols(3))
     apply (rule clean_opt [where f = MO_Candle], erule bin_symbols(6))
    apply (rule clean_single [where f = MO_Funding], erule bin_symbols(4))
   apply (rule clean_single [where f = MO_Liquidation], erule bin_symbols(5))
  apply (rule clean_single [where f = MO_Ticker], erule bin_symbols(2))
  done

lemma bin_clean: "clean_answer (bin_normalize L now m)"
  unfolding bin_normalize_def Let_def
  by (rule clean_obj) (simp only: clean_if bin_dispatch clean_Nil)

lemma okx_liquidations_symbols: "okx_liquidations L now j = Inr ls \<Longrightarrow> \<forall>l \<in> set ls. canonical (MO_Liquidation l)"
  unfolding okx_liquidations_def
  by (elim ebind_Inr, rule traverse_all [rotated], assumption) (use okx_symbols(7) in auto)

lemma okx_clean: "clean_answer (okx_normalize L now m)"
proof -
  have "clean_answer (case j of JList d \<Rightarrow> f d | _ \<Rightarrow> Inr [])" if "\<And>d. clean_answer (f d)" for j f
    using that by (cases j) auto
  moreover have "clean_answer (norm_map (\<lambda>ls. map MO_Liquidation (concat ls)) (traverse (okx_liquidations L now) items))" for items
    using clean_many [of "okx_liquidations L now" "map MO_Liquidation" items] okx_liquidations_symbols
    by (simp add: map_concat)
  ultimately show ?thesis
    unfolding okx_normalize_def Let_def
    by (intro clean_bind) (simp add: clean_if clean_map clean_Nil okx_symbols)
qed

lemma byb_clean: "clean_answer (byb_normalize L now m)"
proof -
  have lists: "clean_answer (norm_map (\<lambda>cs. concat (map (opt_object MO_Candle) cs)) (traverse (byb_kline L s) items))" for s items
    by (rule clean_many) (auto simp: opt_object_def byb_symbols split: option.splits)
  have "clean_answer (case j of JStr t \<Rightarrow> f t | _ \<Rightarrow> Inl e)" if "\<And>t. clean_answer (f t)" for j f e
    using that by (cases j) auto
  then show ?thesis
    unfolding byb_normalize_def Let_def
    by (simp add: clean_if clean_bind clean_single clean_opt clean_map clean_Nil lists byb_symbols)
qed

text \<open>The internal symbol of an OKX instrument is the symbol it was built from.\<close>

lemma ends_with_split: "ends_with q s \<Longrightarrow> take (length s - length q) s @ q = s"
  unfolding ends_with_def by (metis append_take_drop_id)

lemma split_quote_dashes: "filter (\<lambda>c. c \<noteq> CHR ''-'') (split_quote qs s) = filter (\<lambda>c. c \<noteq> CHR ''-'') s"
proof (induction qs s rule: split_quote.induct)
  case (2 q qs s)
  show ?case
  proof (cases "ends_with q s \<and> length s > length q")
    case True
    then show ?thesis
      using arg_cong [OF ends_with_split [of q s], of "filter (\<lambda>c. c \<noteq> CHR ''-'')"] by simp
  next
    case False
    with 2 show ?thesis by auto
  qed
qed simp

lemma okx_symbol_roundtrip:
  assumes "CHR ''-'' \<notin> set (upper s)" shows "to_internal_symbol (to_okx_inst_id qs s) = upper s"
proof -
  have "filter (\<lambda>c. c \<noteq> CHR ''-'') (upper s) = upper s"
    using assms by (intro filter_True) auto
  then show ?thesis by (simp add: to_internal_symbol_def to_okx_inst_id_def split_quote_dashes)
qed

section \<open>Properties\<close>

text \<open>
  Normalised objects carry canonical symbols.  Every object that any of the three
  normalisers delivers has its symbol in upper case; a ticker stored from it is found again under
  every spelling of the symbol; and asking OKX for a symbol without dashes and reading the answer gives the symbol back.
\<close>

theorem normalized_symbols_canonical:
  assumes "bin_normalize L now m = Inr xs \<or> byb_normalize L now m = Inr xs \<or> okx_normalize L now m = Inr xs"
  shows "(\<forall>x \<in> set xs. upper (object_symbol x) = object_symbol x)
    \<and> (\<forall>t s. MO_Ticker t \<in> set xs \<and> upper s = upper (tk_symbol t) \<longrightarrow> st_ticker s (st_update_ticker t st) = Some t)
    \<and> (\<forall>s qs. CHR ''-'' \<notin> set (upper s) \<longrightarrow> to_internal_symbol (to_okx_inst_id qs s) = upper s)"
proof -
  have "\<forall>x \<in> set xs. canonical x"
    using assms bin_clean [of L now m] byb_clean [of L now m] okx_clean [of L now m] by (auto simp: clean_answer_def)
  then show ?thesis
    by (auto simp: canonical_def object_symbol_def st_ticker_def st_update_ticker_def st_touch_def okx_symbol_roundtrip)
qed

theorem normalized_symbols_canonical_witness:
  "\<forall>L now. \<exists>xs. bin_normalize L now [(''b'', JNum 9), (''a'', JNum 10), (''s'', JStr ''btcusdt'')] = Inr xs
     \<and> map object_symbol xs = [''BTCUSDT''] \<and> (\<forall>x \<in> set xs. upper (object_symbol x) = object_symbol x)"
proof (intro allI)
  fix L now
  let ?m = "[(''b'', JNum 9), (''a'', JNum 10), (''s'', JStr ''btcusdt'')]"
  have up: "upper ''btcusdt'' = ''BTCUSDT''" by code_simp
  obtain xs where xs: "bin_normalize L now ?m = Inr xs" "map object_symbol xs = [''BTCUSDT'']"
    by (simp add: bin_normalize_def bin_book_ticker_def norm_map_def jget_def pd_get_or_def pd_get_def as_float_def py_float_def
        bin_symbol_def object_symbol_def up)
  from normalized_symbols_canonical [OF disjI1 [OF xs(1)], of "st_new 1 1"]
  have "\<forall>x \<in> set xs. upper (object_symbol x) = object_symbol x" by (rule conjunct1)
  with xs show "\<exists>xs. bin_normalize L now ?m = Inr xs
      \<and> map object_symbol xs = [''BTCUSDT''] \<and> (\<forall>x \<in> set xs. upper (object_symbol x) = object_symbol x)"
    by (intro exI conjI)
qed

end
