(* ===== verification/Ws_Connection.thy ===== *)
theory Ws_Connection
  imports Market_State
begin

text \<open>
  \<open>app/market/stream/connection.py\<close>: the supervised streaming connection.  One cycle of the loop connects,
  notifies, and receives until something fails; what the transport and the callbacks do in a cycle is
  its outcome.  Open transports are counted, because a cycle closes its transport only on one path.
\<close>

section \<open>The machine\<close>

datatype connection_state = DISCONNECTED | CONNECTING | CONNECTED | RECONNECTING | STOPPED

definition connection_value :: "connection_state \<Rightarrow> string" where
  "connection_value s = (case s of DISCONNECTED \<Rightarrow> ''disconnected'' | CONNECTING \<Rightarrow> ''connecting'' | CONNECTED \<Rightarrow> ''connected''
     | RECONNECTING \<Rightarrow> ''reconnecting'' | STOPPED \<Rightarrow> ''stopped'')"

record ws_config =
  wc_ping_interval :: real
  wc_stale_after :: real
  wc_backoff_base :: real
  wc_backoff_factor :: real
  wc_backoff_cap :: real
  wc_max_retries :: nat

definition default_ws :: ws_config where
  "default_ws = \<lparr> wc_ping_interval = 20, wc_stale_after = 30, wc_backoff_base = 1, wc_backoff_factor = 2,
     wc_backoff_cap = 60, wc_max_retries = 0 \<rparr>"

record ws_conn =
  wn_config :: ws_config
  wn_state :: connection_state
  wn_messages :: nat
  wn_reconnections :: nat
  wn_failures :: nat
  wn_open :: nat
  wn_transitions :: "connection_state list"

definition wn_new :: "ws_config \<Rightarrow> ws_conn" where
  "wn_new cfg = \<lparr> wn_config = cfg, wn_state = DISCONNECTED, wn_messages = 0, wn_reconnections = 0, wn_failures = 0,
     wn_open = 0, wn_transitions = [] \<rparr>"

text \<open>A state that is the current one is not announced again.\<close>

definition wn_set_state :: "connection_state \<Rightarrow> ws_conn \<Rightarrow> ws_conn" where
  "wn_set_state s c = (if s = wn_state c then c else c\<lparr> wn_state := s, wn_transitions := wn_transitions c @ [s] \<rparr>)"

text \<open>
  A cycle: the connect is refused; the notification of the connection fails; or a session receives a
  number of frames (a failing consumer does not end it) until the transport fails or goes silent.
\<close>

datatype cycle = Refused | HookFails | Session nat

text \<open>\<open>_connect_once\<close>: all three outcomes end in a \<open>ProviderError\<close>.\<close>

definition connect_once :: "cycle \<Rightarrow> ws_conn \<Rightarrow> ws_conn" where
  "connect_once y c0 =
     (let c = wn_set_state CONNECTING c0 in
      case y of
        Refused \<Rightarrow> c
      | _ \<Rightarrow>
          let was_reconnection = 0 < wn_reconnections c \<or> 0 < wn_failures c;
              c1 = wn_set_state CONNECTED (c\<lparr> wn_open := wn_open c + 1 \<rparr>);
              c2 = (if was_reconnection then c1\<lparr> wn_reconnections := wn_reconnections c1 + 1 \<rparr> else c1)
          in (case y of
                Session n \<Rightarrow> c2\<lparr> wn_failures := 0, wn_messages := wn_messages c2 + n, wn_open := wn_open c2 - 1 \<rparr>
              | _ \<Rightarrow> c2))"

definition backoff_delay :: "real \<Rightarrow> ws_conn \<Rightarrow> real" where
  "backoff_delay rnd c =
     (let exponent = wn_failures c - 1;
          base = wc_backoff_base (wn_config c) * wc_backoff_factor (wn_config c) ^ exponent;
          capped = min base (wc_backoff_cap (wn_config c))
      in capped * (1/2 + rnd / 2))"

text \<open>One turn of \<open>_run\<close>: whether the loop goes on, after what pause.\<close>

definition run_turn :: "cycle \<Rightarrow> real \<Rightarrow> ws_conn \<Rightarrow> real option \<times> ws_conn" where
  "run_turn y rnd c0 =
     (let c1 = connect_once y c0; c = c1\<lparr> wn_failures := wn_failures c1 + 1 \<rparr>; limit = wc_max_retries (wn_config c) in
      if limit \<noteq> 0 \<and> wn_failures c \<ge> limit then (None, wn_set_state DISCONNECTED c)
      else let c' = wn_set_state RECONNECTING c in (Some (backoff_delay rnd c'), c'))"

definition wn_stop :: "ws_conn \<Rightarrow> ws_conn" where
  "wn_stop c = wn_set_state STOPPED (c\<lparr> wn_open := wn_open c - 1 \<rparr>)"

text \<open>The loop over the outcomes of its cycles, with the pauses it made; \<open>True\<close> when it gave up.\<close>

fun run_cycles :: "(cycle \<times> real) list \<Rightarrow> ws_conn \<Rightarrow> (real list \<times> bool) \<times> ws_conn" where
  "run_cycles [] c = (([], False), c)"
| "run_cycles ((y, rnd) # ys) c = (case run_turn y rnd c of
     (None, c') \<Rightarrow> (([], True), c')
   | (Some d, c') \<Rightarrow> (let ((ds, gave_up), c'') = run_cycles ys c' in ((d # ds, gave_up), c'')))"

section \<open>Lemmas\<close>

lemma set_state_frame [simp]:
  "wn_config (wn_set_state s c) = wn_config c" "wn_failures (wn_set_state s c) = wn_failures c"
  "wn_open (wn_set_state s c) = wn_open c" "wn_reconnections (wn_set_state s c) = wn_reconnections c"
  "wn_state (wn_set_state s c) = s"
  by (simp_all add: wn_set_state_def)

lemma connect_once_fields [simp]:
  "wn_config (connect_once y c) = wn_config c"
  "wn_failures (connect_once y c) = (case y of Session n \<Rightarrow> 0 | _ \<Rightarrow> wn_failures c)"
  "wn_open (connect_once y c) = (case y of HookFails \<Rightarrow> wn_open c + 1 | _ \<Rightarrow> wn_open c)"
  by (cases y; simp add: connect_once_def Let_def)+

definition ws_ok :: "ws_config \<Rightarrow> bool" where
  "ws_ok cfg \<longleftrightarrow> 0 \<le> wc_backoff_base cfg \<and> 0 \<le> wc_backoff_cap cfg \<and> 0 \<le> wc_backoff_factor cfg"

text \<open>The pause lies between half the capped backoff and all of it.\<close>

lemma backoff_bounds:
  assumes "ws_ok (wn_config c)" "0 \<le> rnd" "rnd < 1"
  defines "m \<equiv> min (wc_backoff_base (wn_config c) * wc_backoff_factor (wn_config c) ^ (wn_failures c - 1)) (wc_backoff_cap (wn_config c))"
  shows "m / 2 \<le> backoff_delay rnd c \<and> backoff_delay rnd c \<le> m"
proof -
  have m: "0 \<le> m" using assms(1) by (simp add: m_def ws_ok_def)
  have d: "backoff_delay rnd c = m * (1/2 + rnd / 2)" by (simp add: backoff_delay_def m_def)
  have "m * (1/2) \<le> m * (1/2 + rnd / 2)" "m * (1/2 + rnd / 2) \<le> m * 1"
    using m assms(2,3) by (intro mult_left_mono; simp)+
  then show ?thesis by (simp add: d)
qed

text \<open>A notification that fails leaves its transport open: each failure leaks one.\<close>

lemma hook_failures_leak:
  "wc_max_retries (wn_config c) = 0 \<Longrightarrow>
   wn_open (snd (run_cycles (replicate k (HookFails, rnd)) c)) = wn_open c + k"
proof (induction k arbitrary: c)
  case (Suc k)
  obtain d c' where turn: "run_turn HookFails rnd c = (Some d, c')" "wn_open c' = wn_open c + 1" "wc_max_retries (wn_config c') = 0"
    using Suc.prems by (simp add: run_turn_def Let_def)
  obtain r e where r: "run_cycles (replicate k (HookFails, rnd)) c' = (r, e)" by fastforce
  with Suc.IH [OF turn(3)] turn(2) show ?case by (cases r) (simp add: turn(1))
qed simp

text \<open>Refused over and over, a connection with a limit gives up after exactly that many attempts.\<close>

lemma gives_up_after_limit:
  assumes "0 < wc_max_retries (wn_config c)" "wn_failures c < wc_max_retries (wn_config c)"
    and "wc_max_retries (wn_config c) - wn_failures c \<le> k"
  shows "snd (fst (run_cycles (replicate k (Refused, rnd)) c))
    \<and> length (fst (fst (run_cycles (replicate k (Refused, rnd)) c))) = wc_max_retries (wn_config c) - wn_failures c - 1
    \<and> wn_state (snd (run_cycles (replicate k (Refused, rnd)) c)) = DISCONNECTED"
  using assms
proof (induction k arbitrary: c)
  case (Suc k)
  let ?n = "wc_max_retries (wn_config c)"
  show ?case
  proof (cases "wn_failures c + 1 \<ge> ?n")
    case True
    with Suc.prems show ?thesis by (simp add: run_turn_def Let_def)
  next
    case False
    then obtain d c' where turn: "run_turn Refused rnd c = (Some d, c')" "wn_failures c' = wn_failures c + 1" "wn_config c' = wn_config c"
      by (simp add: run_turn_def Let_def)
    obtain ds g e where r: "run_cycles (replicate k (Refused, rnd)) c' = ((ds, g), e)" by (metis surj_pair)
    have "g \<and> length ds = ?n - wn_failures c' - 1 \<and> wn_state e = DISCONNECTED"
      using Suc.IH [of c'] Suc.prems False by (simp add: turn(2,3) r)
    then show ?thesis using False by (simp add: turn r)
  qed
qed simp

end
