(* ===== verification/Quant_Models.thy ===== *)
theory Quant_Models
  imports Market_State "HOL-Library.List_Lexorder"
begin

text \<open>
  The models of the quantitative core (\<open>app/engine/models\<close>): directions, actions, regimes and states,
  the signal a strategy emits, its life-cycle record, the market context, the consensus and the
  decision, with the derived values and JSON documents the classes define.  Reasons are messages;
  their text is rendered by the library parameter.
\<close>

section \<open>Enumerations\<close>

datatype direction = Dir_Long | Dir_Short | Dir_Neutral

fun direction_value :: "direction \<Rightarrow> string" where
  "direction_value Dir_Long = ''long''"
| "direction_value Dir_Short = ''short''"
| "direction_value Dir_Neutral = ''neutral''"

datatype decision_action = DA_OPEN_LONG | DA_OPEN_SHORT | DA_STAND_ASIDE

fun decision_action_value :: "decision_action \<Rightarrow> string" where
  "decision_action_value DA_OPEN_LONG = ''open_long''"
| "decision_action_value DA_OPEN_SHORT = ''open_short''"
| "decision_action_value DA_STAND_ASIDE = ''stand_aside''"

datatype signal_status = SS_PENDING | SS_ACCEPTED | SS_REJECTED | SS_EXPIRED | SS_SUPERSEDED

fun signal_status_value :: "signal_status \<Rightarrow> string" where
  "signal_status_value SS_PENDING = ''pending''"
| "signal_status_value SS_ACCEPTED = ''accepted''"
| "signal_status_value SS_REJECTED = ''rejected''"
| "signal_status_value SS_EXPIRED = ''expired''"
| "signal_status_value SS_SUPERSEDED = ''superseded''"

datatype regime = RG_TRENDING | RG_RANGING | RG_EXPANSION | RG_COMPRESSION | RG_BREAKOUT | RG_REVERSAL
  | RG_HIGH_VOLATILITY | RG_LOW_VOLATILITY | RG_UNKNOWN

fun regime_value :: "regime \<Rightarrow> string" where
  "regime_value RG_TRENDING = ''trending''"
| "regime_value RG_RANGING = ''ranging''"
| "regime_value RG_EXPANSION = ''expansion''"
| "regime_value RG_COMPRESSION = ''compression''"
| "regime_value RG_BREAKOUT = ''breakout''"
| "regime_value RG_REVERSAL = ''reversal''"
| "regime_value RG_HIGH_VOLATILITY = ''high_volatility''"
| "regime_value RG_LOW_VOLATILITY = ''low_volatility''"
| "regime_value RG_UNKNOWN = ''unknown''"

datatype volatility_state = VS_LOW | VS_NORMAL | VS_HIGH

fun volatility_value :: "volatility_state \<Rightarrow> string" where
  "volatility_value VS_LOW = ''low''"
| "volatility_value VS_NORMAL = ''normal''"
| "volatility_value VS_HIGH = ''high''"

datatype cadence_kind = CK_EVERY_TICK | CK_EVERY_SECOND | CK_EVERY_CANDLE | CK_INTERVAL

fun cadence_value :: "cadence_kind \<Rightarrow> string" where
  "cadence_value CK_EVERY_TICK = ''every_tick''"
| "cadence_value CK_EVERY_SECOND = ''every_second''"
| "cadence_value CK_EVERY_CANDLE = ''every_candle''"
| "cadence_value CK_INTERVAL = ''interval''"

record cadence =
  ca_kind :: cadence_kind
  ca_timeframe :: "timeframe option"
  ca_seconds :: real

definition ca_describe :: "cadence \<Rightarrow> msg" where
  "ca_describe c =
     (if ca_kind c = CK_EVERY_CANDLE
      then Fmt ''candle:{}'' [ArgStr (case ca_timeframe c of None \<Rightarrow> ''?'' | Some tf \<Rightarrow> tf_value tf)]
      else if ca_kind c \<in> {CK_EVERY_SECOND, CK_INTERVAL} then Fmt ''every:{}s'' [ArgReal (ca_seconds c)]
      else Lit (cadence_value (ca_kind c)))"

text \<open>\<open>sorted\<close> of strings: by the code points of their characters.\<close>

definition sorted_names :: "string list \<Rightarrow> string list" where
  "sorted_names xs = sort_key (map (of_char :: char \<Rightarrow> nat)) xs"

lemma set_sorted_names [simp]: "set (sorted_names xs) = set xs"
  by (simp add: sorted_names_def)

section \<open>Signals\<close>

record entry_zone =
  ez_low :: real
  ez_high :: real

definition ez_to_dict :: "entry_zone \<Rightarrow> json_dict" where
  "ez_to_dict z = [(''low'', JNum (ez_low z)), (''high'', JNum (ez_high z))]"

text \<open>The middle of the zone, which the source computes wherever it needs one entry price.\<close>

definition ez_mid :: "entry_zone \<Rightarrow> real" where
  "ez_mid z = (ez_low z + ez_high z) / 2"

record strategy_signal =
  sg_signal_id :: string
  sg_strategy_name :: string
  sg_strategy_version :: string
  sg_symbol :: string
  sg_timestamp :: time
  sg_direction :: direction
  sg_confidence :: real
  sg_score :: real
  sg_entry_zone :: "entry_zone option"
  sg_stop_loss :: "real option"
  sg_take_profit :: "real option"
  sg_risk_reward :: "real option"
  sg_market_context :: json_dict
  sg_reasons :: "msg list"
  sg_warnings :: "msg list"
  sg_required_confirmation :: bool
  sg_expiration :: "time option"
  sg_metadata :: json_dict

text \<open>The constructor with its defaults.\<close>

definition mk_signal :: "string \<Rightarrow> string \<Rightarrow> string \<Rightarrow> time \<Rightarrow> direction \<Rightarrow> real \<Rightarrow> real \<Rightarrow> strategy_signal" where
  "mk_signal i strategy symb t d confidence score = \<lparr> sg_signal_id = i, sg_strategy_name = strategy,
     sg_strategy_version = ''1.0'', sg_symbol = symb, sg_timestamp = t, sg_direction = d,
     sg_confidence = confidence, sg_score = score, sg_entry_zone = None, sg_stop_loss = None,
     sg_take_profit = None, sg_risk_reward = None, sg_market_context = [], sg_reasons = [], sg_warnings = [],
     sg_required_confirmation = False, sg_expiration = None, sg_metadata = [] \<rparr>"

definition sg_priority :: "strategy_signal \<Rightarrow> real" where
  "sg_priority s = sg_score s * sg_confidence s"

definition json_msgs :: "pylib \<Rightarrow> msg list \<Rightarrow> json" where
  "json_msgs L ms = JList (map (\<lambda>m. JStr (render L m)) ms)"

definition sg_to_dict :: "pylib \<Rightarrow> strategy_signal \<Rightarrow> json_dict" where
  "sg_to_dict L s = [(''signal_id'', JStr (sg_signal_id s)), (''strategy_name'', JStr (sg_strategy_name s)),
     (''strategy_version'', JStr (sg_strategy_version s)), (''symbol'', JStr (sg_symbol s)),
     (''timestamp'', json_iso (Some (sg_timestamp s))), (''direction'', JStr (direction_value (sg_direction s))),
     (''confidence'', JNum (sg_confidence s)), (''score'', JNum (sg_score s)),
     (''entry_zone'', json_doc ez_to_dict (sg_entry_zone s)), (''stop_loss'', json_opt (sg_stop_loss s)),
     (''take_profit'', json_opt (sg_take_profit s)), (''risk_reward'', json_opt (sg_risk_reward s)),
     (''market_context'', JObj (sg_market_context s)), (''reasons'', json_msgs L (sg_reasons s)),
     (''warnings'', json_msgs L (sg_warnings s)),
     (''required_confirmation'', JBool (sg_required_confirmation s)),
     (''expiration'', json_iso (sg_expiration s)), (''priority'', JNum (sg_priority s)),
     (''metadata'', JObj (sg_metadata s))]"

record signal_record =
  sl_signal :: strategy_signal
  sl_status :: signal_status
  sl_status_reasons :: "msg list"
  sl_recorded_at :: time
  sl_resolved_at :: "time option"

definition sl_lifetime_seconds :: "signal_record \<Rightarrow> real option" where
  "sl_lifetime_seconds r = map_option (\<lambda>t. total_seconds (t - sl_recorded_at r)) (sl_resolved_at r)"

definition sl_to_dict :: "pylib \<Rightarrow> signal_record \<Rightarrow> json_dict" where
  "sl_to_dict L r = sg_to_dict L (sl_signal r) @ [(''status'', JStr (signal_status_value (sl_status r))),
     (''status_reasons'', json_msgs L (sl_status_reasons r)),
     (''recorded_at'', json_iso (Some (sl_recorded_at r))), (''resolved_at'', json_iso (sl_resolved_at r)),
     (''lifetime_seconds'', json_opt (sl_lifetime_seconds r))]"

section \<open>Regime and context\<close>

record regime_state =
  rs_symbol :: string
  rs_primary :: regime
  rs_tags :: "regime list"
  rs_metrics :: "(string, real) pydict"
  rs_detected_at :: time

definition json_reals :: "(string, real) pydict \<Rightarrow> json" where
  "json_reals d = JObj (map (\<lambda>(k, x). (k, JNum x)) d)"

definition rs_to_dict :: "regime_state \<Rightarrow> json_dict" where
  "rs_to_dict s = [(''symbol'', JStr (rs_symbol s)), (''primary'', JStr (regime_value (rs_primary s))),
     (''tags'', JList (map (JStr \<circ> regime_value) (rs_tags s))), (''metrics'', json_reals (rs_metrics s)),
     (''detected_at'', json_iso (Some (rs_detected_at s)))]"

record quant_context =
  qc_symbol :: string
  qc_generated_at :: time
  qc_regime :: "regime_state option"
  qc_sessions :: "string list"
  qc_volatility :: volatility_state
  qc_atr :: "real option"
  qc_atr_pct :: "real option"
  qc_spread_bps :: "real option"
  qc_spread_elevated :: bool
  qc_volume_recent :: "real option"
  qc_volume_sufficient :: bool
  qc_news_blackout :: bool
  qc_data_quality :: real
  qc_last_price :: "real option"
  qc_extras :: json_dict

definition qc_regime_name :: "quant_context \<Rightarrow> string" where
  "qc_regime_name c = (case qc_regime c of None \<Rightarrow> regime_value RG_UNKNOWN | Some r \<Rightarrow> regime_value (rs_primary r))"

definition qc_summary :: "quant_context \<Rightarrow> json_dict" where
  "qc_summary c = [(''regime'', JStr (qc_regime_name c)), (''sessions'', JList (map JStr (qc_sessions c))),
     (''volatility'', JStr (volatility_value (qc_volatility c))), (''atr_pct'', json_opt (qc_atr_pct c)),
     (''spread_bps'', json_opt (qc_spread_bps c)), (''data_quality'', JNum (qc_data_quality c))]"

definition qc_to_dict :: "quant_context \<Rightarrow> json_dict" where
  "qc_to_dict c = [(''symbol'', JStr (qc_symbol c)), (''generated_at'', json_iso (Some (qc_generated_at c))),
     (''regime'', json_doc rs_to_dict (qc_regime c)), (''sessions'', JList (map JStr (qc_sessions c))),
     (''volatility'', JStr (volatility_value (qc_volatility c))), (''atr'', json_opt (qc_atr c)),
     (''atr_pct'', json_opt (qc_atr_pct c)), (''spread_bps'', json_opt (qc_spread_bps c)),
     (''spread_elevated'', JBool (qc_spread_elevated c)), (''volume_recent'', json_opt (qc_volume_recent c)),
     (''volume_sufficient'', JBool (qc_volume_sufficient c)), (''news_blackout'', JBool (qc_news_blackout c)),
     (''data_quality'', JNum (qc_data_quality c)), (''last_price'', json_opt (qc_last_price c)),
     (''extras'', JObj (qc_extras c))]"

section \<open>Filters, consensus and decision\<close>

record filter_result =
  fl_name :: string
  fl_passed :: bool
  fl_reason :: msg

definition fl_to_dict :: "pylib \<Rightarrow> filter_result \<Rightarrow> json_dict" where
  "fl_to_dict L r = [(''name'', JStr (fl_name r)), (''passed'', JBool (fl_passed r)),
     (''reason'', JStr (render L (fl_reason r)))]"

record consensus_result =
  cr_method :: string
  cr_symbol :: string
  cr_direction :: direction
  cr_score :: real
  cr_agreement :: real
  cr_participants :: "string list"
  cr_contributions :: "(string, real) pydict"
  cr_reasons :: "msg list"

definition cr_to_dict :: "pylib \<Rightarrow> consensus_result \<Rightarrow> json_dict" where
  "cr_to_dict L c = [(''method'', JStr (cr_method c)), (''symbol'', JStr (cr_symbol c)),
     (''direction'', JStr (direction_value (cr_direction c))), (''score'', JNum (cr_score c)),
     (''agreement'', JNum (cr_agreement c)), (''participants'', JList (map JStr (cr_participants c))),
     (''contributions'', json_reals (cr_contributions c)), (''reasons'', json_msgs L (cr_reasons c))]"

record decision =
  dn_decision_id :: string
  dn_symbol :: string
  dn_timestamp :: time
  dn_action :: decision_action
  dn_accepted :: bool
  dn_score :: real
  dn_confidence :: real
  dn_agreement :: real
  dn_consensus :: "consensus_result option"
  dn_confidence_breakdown :: "(string, real) pydict"
  dn_signals_considered :: "string list"
  dn_filters_blocking :: "string list"
  dn_explanation :: "msg list"
  dn_regime :: string
  dn_context_summary :: json_dict

definition dn_to_dict :: "pylib \<Rightarrow> decision \<Rightarrow> json_dict" where
  "dn_to_dict L d = [(''decision_id'', JStr (dn_decision_id d)), (''symbol'', JStr (dn_symbol d)),
     (''timestamp'', json_iso (Some (dn_timestamp d))),
     (''action'', JStr (decision_action_value (dn_action d))), (''accepted'', JBool (dn_accepted d)),
     (''score'', JNum (dn_score d)), (''confidence'', JNum (dn_confidence d)),
     (''agreement'', JNum (dn_agreement d)), (''consensus'', json_doc (cr_to_dict L) (dn_consensus d)),
     (''confidence_breakdown'', json_reals (dn_confidence_breakdown d)),
     (''signals_considered'', JList (map JStr (dn_signals_considered d))),
     (''filters_blocking'', JList (map JStr (dn_filters_blocking d))),
     (''explanation'', json_msgs L (dn_explanation d)), (''regime'', JStr (dn_regime d)),
     (''context_summary'', JObj (dn_context_summary d))]"

record strategy_stats =
  ts_name :: string
  ts_version :: string
  ts_enabled :: bool
  ts_symbols :: "string list"
  ts_cadence :: msg
  ts_weight :: real
  ts_runs :: int
  ts_errors :: int
  ts_skipped :: int
  ts_signals_produced :: int
  ts_last_run_at :: "time option"
  ts_last_duration_ms :: "real option"
  ts_avg_duration_ms :: "real option"
  ts_last_signal_at :: "time option"
  ts_last_score :: "real option"
  ts_last_confidence :: "real option"

definition ts_to_dict :: "pylib \<Rightarrow> strategy_stats \<Rightarrow> json_dict" where
  "ts_to_dict L s = [(''name'', JStr (ts_name s)), (''version'', JStr (ts_version s)),
     (''enabled'', JBool (ts_enabled s)), (''symbols'', JList (map JStr (ts_symbols s))),
     (''cadence'', JStr (render L (ts_cadence s))), (''weight'', JNum (ts_weight s)),
     (''runs'', JInt (ts_runs s)), (''errors'', JInt (ts_errors s)), (''skipped'', JInt (ts_skipped s)),
     (''signals_produced'', JInt (ts_signals_produced s)), (''last_run_at'', json_iso (ts_last_run_at s)),
     (''last_duration_ms'', json_opt (ts_last_duration_ms s)),
     (''avg_duration_ms'', json_opt (ts_avg_duration_ms s)), (''last_signal_at'', json_iso (ts_last_signal_at s)),
     (''last_score'', json_opt (ts_last_score s)), (''last_confidence'', json_opt (ts_last_confidence s))]"

section \<open>Settings of the core\<close>

record quant_consensus_settings =
  qs_method :: string
  qs_min_signals :: int
  qs_min_score :: real
  qs_min_confidence :: real
  qs_min_agreement :: real
  qs_default_weight :: real
  qs_regime_multipliers :: "(string, (string, real) pydict) pydict"

definition default_quant_consensus :: quant_consensus_settings where
  "default_quant_consensus = \<lparr> qs_method = ''weighted_average'', qs_min_signals = 1, qs_min_score = 60,
     qs_min_confidence = 1/2, qs_min_agreement = 1/2, qs_default_weight = 1, qs_regime_multipliers = [] \<rparr>"

record quant_confidence_settings =
  qf_signal_confidence :: real
  qf_agreement :: real
  qf_data_quality :: real
  qf_liquidity :: real
  qf_volatility :: real
  qf_confirmation :: real
  qf_history :: real

definition default_quant_confidence :: quant_confidence_settings where
  "default_quant_confidence = \<lparr> qf_signal_confidence = 25/100, qf_agreement = 20/100, qf_data_quality = 20/100,
     qf_liquidity = 10/100, qf_volatility = 10/100, qf_confirmation = 5/100, qf_history = 10/100 \<rparr>"

record quant_filters_settings =
  ql_enabled :: "string list"
  ql_allowed_sessions :: "string list"
  ql_always_open_symbols :: "string list"
  ql_max_drawdown_pct :: real
  ql_correlation_groups :: "string list list"
  ql_correlation_window_minutes :: real

definition default_quant_filters :: quant_filters_settings where
  "default_quant_filters = \<lparr> ql_enabled = [''session'', ''spread'', ''volatility'', ''liquidity'', ''news'',
       ''drawdown'', ''correlation''], ql_allowed_sessions = [''asia'', ''europe'', ''america''],
     ql_always_open_symbols = [], ql_max_drawdown_pct = 5, ql_correlation_groups = [],
     ql_correlation_window_minutes = 30 \<rparr>"

section \<open>Mirroring directions\<close>

fun mirror :: "direction \<Rightarrow> direction" where
  "mirror Dir_Long = Dir_Short"
| "mirror Dir_Short = Dir_Long"
| "mirror Dir_Neutral = Dir_Neutral"

lemma mirror_mirror [simp]: "mirror (mirror d) = d"
  by (cases d) simp_all

lemma mirror_iff [simp]:
  "mirror d = Dir_Long \<longleftrightarrow> d = Dir_Short" "mirror d = Dir_Short \<longleftrightarrow> d = Dir_Long"
  "mirror d = Dir_Neutral \<longleftrightarrow> d = Dir_Neutral"
  by (cases d, simp_all)+

end
