(* ===== verification/Consensus.thy ===== *)
theory Consensus
  imports Quant_Models "HOL-Library.Multiset"
begin

text \<open>
  Scores and consensus (\<open>app/engine/scoring\<close>, \<open>app/engine/consensus\<close>): clamping and aggregation of
  scores, the five interchangeable algorithms, and the engine that holds the registry of algorithms,
  the base weights and the active method.  An algorithm gets the recent performance of the strategies
  as an argument, because the source passes a callback that reads it at the time of the call.
\<close>

section \<open>Scores\<close>

definition clamp_score :: "real \<Rightarrow> real" where
  "clamp_score v = max 0 (min 100 v)"

definition se_normalize :: "strategy_signal \<Rightarrow> real" where
  "se_normalize s = clamp_score (sg_score s)"

type_synonym weights = "(string, real) pydict"

definition weighted_global :: "strategy_signal list \<Rightarrow> weights \<Rightarrow> real \<Rightarrow> real" where
  "weighted_global ss ws dflt =
     (let (tot, acc) = fold (\<lambda>s (tot, acc).
            let w = pd_get_or ws (sg_strategy_name s) dflt in (tot + w, acc + clamp_score (sg_score s) * w)) ss (0, 0)
      in if tot > 0 then acc / tot else 0)"

definition signed_global :: "strategy_signal list \<Rightarrow> weights \<Rightarrow> real \<Rightarrow> real" where
  "signed_global ss ws dflt =
     (let (tot, acc) = fold (\<lambda>s (tot, acc).
            if sg_direction s = Dir_Neutral then (tot, acc) else
            let w = pd_get_or ws (sg_strategy_name s) dflt;
                sign = (if sg_direction s = Dir_Long then 1 else -1)
            in (tot + w, acc + sign * clamp_score (sg_score s) * w)) ss (0, 0)
      in if tot > 0 then acc / tot else 0)"

section \<open>Algorithms\<close>

definition cs_empty :: "string \<Rightarrow> string \<Rightarrow> string \<Rightarrow> consensus_result" where
  "cs_empty symb meth reason = \<lparr> cr_method = meth, cr_symbol = symb, cr_direction = Dir_Neutral,
     cr_score = 0, cr_agreement = 0, cr_participants = [], cr_contributions = [], cr_reasons = [Lit reason] \<rparr>"

definition actionable :: "strategy_signal list \<Rightarrow> strategy_signal list" where
  "actionable ss = filter (\<lambda>s. sg_direction s \<noteq> Dir_Neutral) ss"

text \<open>A dictionary comprehension over the signals, keyed by strategy: the last one of a name counts.\<close>

definition by_strategy :: "(strategy_signal \<Rightarrow> real) \<Rightarrow> strategy_signal list \<Rightarrow> weights" where
  "by_strategy f ss = fold (\<lambda>s d. pd_put d (sg_strategy_name s) (f s)) ss []"

type_synonym consensus_algorithm =
  "(string \<Rightarrow> real) \<Rightarrow> string \<Rightarrow> strategy_signal list \<Rightarrow> weights \<Rightarrow> quant_context option \<Rightarrow> consensus_result"

definition majority_voting :: consensus_algorithm where
  "majority_voting perf symb ss ws cx =
     (let voters = actionable ss in
      if voters = [] then cs_empty symb ''majority_voting'' ''sin senales direccionales'' else
      let longs = filter (\<lambda>s. sg_direction s = Dir_Long) voters;
          shorts = filter (\<lambda>s. sg_direction s = Dir_Short) voters in
      if length longs = length shorts
      then \<lparr> cr_method = ''majority_voting'', cr_symbol = symb, cr_direction = Dir_Neutral, cr_score = 0,
             cr_agreement = 1/2, cr_participants = map sg_strategy_name voters, cr_contributions = [],
             cr_reasons = [Lit ''empate de votos long/short''] \<rparr> else
      let long_wins = length longs > length shorts;
          winners = (if long_wins then longs else shorts);
          d = (if long_wins then Dir_Long else Dir_Short);
          score = (\<Sum>s\<leftarrow>winners. clamp_score (sg_score s)) / real (length winners)
      in \<lparr> cr_method = ''majority_voting'', cr_symbol = symb, cr_direction = d, cr_score = py_round 2 score,
           cr_agreement = py_round 4 (real (length winners) / real (length voters)),
           cr_participants = map sg_strategy_name voters,
           cr_contributions = by_strategy (\<lambda>s. clamp_score (sg_score s)) winners,
           cr_reasons = [Fmt ''{}/{} estrategias votan {}'' [ArgInt (int (length winners)),
             ArgInt (int (length voters)), ArgStr (direction_value d)]] \<rparr>)"

text \<open>The mass of the votes for one direction, and the sum over both.\<close>

definition vote_mass :: "(strategy_signal \<Rightarrow> real) \<Rightarrow> direction \<Rightarrow> strategy_signal list \<Rightarrow> real" where
  "vote_mass w d voters = fold (\<lambda>s m. if sg_direction s = d then m + w s else m) voters 0"

definition weighted_voting :: "real \<Rightarrow> consensus_algorithm" where
  "weighted_voting dflt perf symb ss ws cx =
     (let voters = actionable ss in
      if voters = [] then cs_empty symb ''weighted_voting'' ''sin senales direccionales'' else
      let w = (\<lambda>s. pd_get_or ws (sg_strategy_name s) dflt);
          mass_long = vote_mass w Dir_Long voters; mass_short = vote_mass w Dir_Short voters;
          tot = mass_long + mass_short in
      if tot \<le> 0 \<or> mass_long = mass_short
      then cs_empty symb ''weighted_voting'' ''masa de votos empatada o nula'' else
      let d = (if mass_long > mass_short then Dir_Long else Dir_Short);
          mass = (if mass_long > mass_short then mass_long else mass_short);
          winners = filter (\<lambda>s. sg_direction s = d) voters;
          weight_sum = (\<Sum>s\<leftarrow>winners. w s);
          score = (if weight_sum > 0 then (\<Sum>s\<leftarrow>winners. clamp_score (sg_score s) * w s) / weight_sum else 0)
      in \<lparr> cr_method = ''weighted_voting'', cr_symbol = symb, cr_direction = d, cr_score = py_round 2 score,
           cr_agreement = py_round 4 (mass / tot), cr_participants = map sg_strategy_name voters,
           cr_contributions = by_strategy (\<lambda>s. py_round 2 (clamp_score (sg_score s) * w s)) winners,
           cr_reasons = [Fmt ''peso {:.2f}/{:.2f} a favor de {}'' [ArgReal mass, ArgReal tot,
             ArgStr (direction_value d)]] \<rparr>)"

text \<open>
  The signed average is shared by three algorithms that differ in the effective weights.  The loop
  accumulates the signed sum, the contributions and the mass of either direction.
\<close>

record average_loop =
  al_signed :: real
  al_contributions :: weights
  al_long :: real
  al_short :: real

definition weights_for :: "real \<Rightarrow> strategy_signal list \<Rightarrow> weights \<Rightarrow> weights" where
  "weights_for dflt ss ws = by_strategy (\<lambda>s. pd_get_or ws (sg_strategy_name s) dflt) ss"

definition average_step :: "(strategy_signal \<Rightarrow> real) \<Rightarrow> real \<Rightarrow> strategy_signal \<Rightarrow> average_loop \<Rightarrow> average_loop" where
  "average_step w tot s a =
     (let sign = (if sg_direction s = Dir_Long then 1 else -1);
          contribution = sign * clamp_score (sg_score s) * w s;
          a1 = a\<lparr> al_signed := al_signed a + contribution,
                  al_contributions := pd_put (al_contributions a) (sg_strategy_name s) (py_round 2 (contribution / tot)) \<rparr>
      in if sg_direction s = Dir_Long then a1\<lparr> al_long := al_long a + w s \<rparr>
         else a1\<lparr> al_short := al_short a + w s \<rparr>)"

definition signed_average :: "string \<Rightarrow> real \<Rightarrow> (strategy_signal list \<Rightarrow> weights) \<Rightarrow> string
    \<Rightarrow> strategy_signal list \<Rightarrow> consensus_result" where
  "signed_average meth dflt effective_of symb ss =
     (let voters = actionable ss in
      if voters = [] then cs_empty symb meth ''sin senales direccionales'' else
      let effective = effective_of voters;
          w = (\<lambda>s. pd_get_or effective (sg_strategy_name s) dflt);
          tot = (\<Sum>s\<leftarrow>voters. w s) in
      if tot \<le> 0 then cs_empty symb meth ''peso total nulo'' else
      let a = fold (average_step w tot) voters \<lparr> al_signed = 0, al_contributions = [], al_long = 0, al_short = 0 \<rparr>;
          v = al_signed a / tot;
          d = (if \<bar>v\<bar> < 1 / 10 ^ 9 then Dir_Neutral else if v > 0 then Dir_Long else Dir_Short);
          agreement = (case d of Dir_Neutral \<Rightarrow> 1/2 | Dir_Long \<Rightarrow> al_long a / tot | Dir_Short \<Rightarrow> al_short a / tot)
      in \<lparr> cr_method = meth, cr_symbol = symb, cr_direction = d, cr_score = py_round 2 \<bar>v\<bar>,
           cr_agreement = py_round 4 agreement, cr_participants = map sg_strategy_name voters,
           cr_contributions = al_contributions a,
           cr_reasons = [Fmt ''promedio ponderado con signo = {:+.2f}'' [ArgReal v]] \<rparr>)"

definition weighted_average :: "real \<Rightarrow> consensus_algorithm" where
  "weighted_average dflt perf symb ss ws cx =
     signed_average ''weighted_average'' dflt (\<lambda>voters. weights_for dflt voters ws) symb ss"

definition dynamic_weighting :: "real \<Rightarrow> consensus_algorithm" where
  "dynamic_weighting dflt perf symb ss ws cx = signed_average ''dynamic_weighting'' dflt
     (\<lambda>voters. map (\<lambda>(name, weight). (name, weight * (1/2 + perf name))) (weights_for dflt voters ws)) symb ss"

definition regime_weighting :: "(string, weights) pydict \<Rightarrow> real \<Rightarrow> consensus_algorithm" where
  "regime_weighting multipliers dflt perf symb ss ws cx = signed_average ''regime_weighting'' dflt
     (\<lambda>voters. let base = weights_for dflt voters ws in
        case cx of None \<Rightarrow> base | Some c \<Rightarrow>
          (case qc_regime c of None \<Rightarrow> base | Some r \<Rightarrow>
             let table = pd_get_or multipliers (regime_value (rs_primary r)) [] in
             map (\<lambda>(name, weight). (name, weight * pd_get_or table name 1)) base)) symb ss"

section \<open>The engine\<close>

record consensus_engine =
  cn_settings :: quant_consensus_settings
  cn_weights :: weights
  cn_algorithms :: "(string, consensus_algorithm) pydict"
  cn_method :: string

definition built_in :: "quant_consensus_settings \<Rightarrow> (string, consensus_algorithm) pydict" where
  "built_in s = (let d = qs_default_weight s in
     [(''majority_voting'', majority_voting), (''weighted_voting'', weighted_voting d),
      (''weighted_average'', weighted_average d), (''dynamic_weighting'', dynamic_weighting d),
      (''regime_weighting'', regime_weighting (qs_regime_multipliers s) d)])"

datatype configuration_error = ConfigurationError msg "string list"

definition cn_new :: "quant_consensus_settings \<Rightarrow> weights option \<Rightarrow> configuration_error + consensus_engine" where
  "cn_new s ws =
     (let algs = built_in s in
      if qs_method s \<notin> set (pd_keys algs)
      then Inl (ConfigurationError (Fmt ''Unknown consensus method {!r}'' [ArgStr (qs_method s)]) (sorted_names (pd_keys algs)))
      else Inr \<lparr> cn_settings = s, cn_weights = (case ws of None \<Rightarrow> [] | Some d \<Rightarrow> d), cn_algorithms = algs,
                 cn_method = qs_method s \<rparr>)"

definition cn_available :: "consensus_engine \<Rightarrow> string list" where
  "cn_available e = sorted_names (pd_keys (cn_algorithms e))"

definition cn_set_method :: "string \<Rightarrow> consensus_engine \<Rightarrow> configuration_error + consensus_engine" where
  "cn_set_method name e =
     (if name \<notin> set (pd_keys (cn_algorithms e))
      then Inl (ConfigurationError (Fmt ''Unknown consensus method {!r}'' [ArgStr name]) (cn_available e))
      else Inr (e\<lparr> cn_method := name \<rparr>))"

definition cn_register :: "string \<Rightarrow> consensus_algorithm \<Rightarrow> consensus_engine \<Rightarrow> consensus_engine" where
  "cn_register name alg e = e\<lparr> cn_algorithms := pd_put (cn_algorithms e) name alg \<rparr>"

definition cn_set_weight :: "string \<Rightarrow> real \<Rightarrow> consensus_engine \<Rightarrow> consensus_engine" where
  "cn_set_weight strategy weight e = e\<lparr> cn_weights := pd_put (cn_weights e) strategy (max 0 weight) \<rparr>"

definition cn_build :: "(string \<Rightarrow> real) \<Rightarrow> string \<Rightarrow> strategy_signal list \<Rightarrow> quant_context option
    \<Rightarrow> consensus_engine \<Rightarrow> py_error + consensus_result" where
  "cn_build perf symb ss cx e =
     (case pd_get (cn_algorithms e) (cn_method e) of
        None \<Rightarrow> Inl (KeyError (cn_method e))
      | Some alg \<Rightarrow> Inr (alg perf symb ss (cn_weights e) cx))"

definition cn_status :: "consensus_engine \<Rightarrow> json_dict" where
  "cn_status e = [(''method'', JStr (cn_method e)), (''available'', JList (map JStr (cn_available e))),
     (''weights'', json_reals (cn_weights e)), (''min_signals'', JInt (qs_min_signals (cn_settings e))),
     (''min_score'', JNum (qs_min_score (cn_settings e))),
     (''min_confidence'', JNum (qs_min_confidence (cn_settings e))),
     (''min_agreement'', JNum (qs_min_agreement (cn_settings e)))]"

section \<open>What the algorithms share\<close>

text \<open>The part of a result the decision engine reads, and a signal with its direction turned round.\<close>

definition verdict_of :: "consensus_result \<Rightarrow> direction \<times> real \<times> real" where
  "verdict_of r = (cr_direction r, cr_score r, cr_agreement r)"

definition flip_signal :: "strategy_signal \<Rightarrow> strategy_signal" where
  "flip_signal s = s\<lparr> sg_direction := mirror (sg_direction s) \<rparr>"

lemma flip_fields [simp]:
  "sg_direction (flip_signal s) = mirror (sg_direction s)" "sg_strategy_name (flip_signal s) = sg_strategy_name s"
  "sg_score (flip_signal s) = sg_score s"
  by (simp_all add: flip_signal_def)

lemma actionable_flip [simp]: "actionable (map flip_signal ss) = map flip_signal (actionable ss)"
  by (simp add: actionable_def filter_map comp_def)

lemma filter_flip:
  "filter (\<lambda>s. sg_direction s = d) (map flip_signal ss) = map flip_signal (filter (\<lambda>s. sg_direction s = mirror d) ss)"
  by (induction ss; cases d) auto

lemma sum_list_mset: "mset xs = mset ys \<Longrightarrow> (\<Sum>x\<leftarrow>xs. (f x :: real)) = (\<Sum>x\<leftarrow>ys. f x)"
  by (metis mset_map sum_mset_sum_list)

lemma mset_filtered: "mset xs = mset ys \<Longrightarrow> mset (filter P xs) = mset (filter P ys)"
  by (metis mset_filter)

lemma clamp_range: "0 \<le> clamp_score v" "clamp_score v \<le> 100"
  by (simp_all add: clamp_score_def)

lemma sum_clamped:
  assumes "\<And>s. s \<in> set ss \<Longrightarrow> 0 \<le> w s"
  shows "0 \<le> (\<Sum>s\<leftarrow>ss. clamp_score (sg_score s) * w s)"
    and "(\<Sum>s\<leftarrow>ss. clamp_score (sg_score s) * w s) \<le> 100 * (\<Sum>s\<leftarrow>ss. w s)"
proof -
  show "0 \<le> (\<Sum>s\<leftarrow>ss. clamp_score (sg_score s) * w s)"
    by (rule sum_list_nonneg_map) (simp add: assms clamp_range)
  show "(\<Sum>s\<leftarrow>ss. clamp_score (sg_score s) * w s) \<le> 100 * (\<Sum>s\<leftarrow>ss. w s)"
    using assms
  proof (induction ss)
    case (Cons s ss)
    have "clamp_score (sg_score s) * w s \<le> 100 * w s"
      by (rule mult_right_mono) (auto simp: Cons.prems clamp_range)
    then show ?case using Cons by (simp add: algebra_simps)
  qed simp
qed

lemma rounded_share: "0 \<le> x \<Longrightarrow> x \<le> 1 \<Longrightarrow> 0 \<le> py_round n x \<and> py_round n x \<le> 1"
  using py_round_grid_upper [of n 1 x] by (simp add: py_round_nonneg on_grid_def)

lemma rounded_score: "0 \<le> x \<Longrightarrow> x \<le> 100 \<Longrightarrow> 0 \<le> py_round n x \<and> py_round n x \<le> 100"
  using py_round_grid_upper [of n 100 x] by (simp add: py_round_nonneg on_grid_def)

text \<open>The usable base weights: none is negative, nor is the default.\<close>

definition fair_weights :: "real \<Rightarrow> weights \<Rightarrow> bool" where
  "fair_weights d ws \<longleftrightarrow> 0 \<le> d \<and> (\<forall>v \<in> set (pd_values ws). 0 \<le> v)"

lemma fair_weight: "fair_weights d ws \<Longrightarrow> 0 \<le> pd_get_or ws n d"
  by (auto simp: fair_weights_def pd_get_or_def split: option.split dest: pd_get_value)

lemma fair_set_weight: "fair_weights d (cn_weights e) \<Longrightarrow> fair_weights d (cn_weights (cn_set_weight n w e))"
  using set_values_put [of "cn_weights e" n "max 0 w"] by (auto simp: fair_weights_def cn_set_weight_def)

section \<open>The contract of an algorithm\<close>

text \<open>
  What the engine may expect of a registered algorithm: the verdict does not depend on the order of
  the signals, turning every signal round turns the verdict round, scores and agreements keep their
  scales, and a direction that wins has a supporter.
\<close>

locale consensus_rule =
  fixes rule :: consensus_algorithm
    and usable :: "(string \<Rightarrow> real) \<Rightarrow> weights \<Rightarrow> bool"
  assumes permuted: "mset ss = mset ss' \<Longrightarrow> verdict_of (rule perf symb ss ws cx) = verdict_of (rule perf symb ss' ws cx)"
    and mirrored: "verdict_of (rule perf symb (map flip_signal ss) ws cx) =
          (mirror (cr_direction (rule perf symb ss ws cx)), snd (verdict_of (rule perf symb ss ws cx)))"
    and score_scale: "usable perf ws \<Longrightarrow> 0 \<le> cr_score (rule perf symb ss ws cx) \<and> cr_score (rule perf symb ss ws cx) \<le> 100"
    and agreement_scale: "usable perf ws \<Longrightarrow>
          0 \<le> cr_agreement (rule perf symb ss ws cx) \<and> cr_agreement (rule perf symb ss ws cx) \<le> 1"
    and supported: "usable perf ws \<Longrightarrow> cr_direction (rule perf symb ss ws cx) \<noteq> Dir_Neutral \<Longrightarrow>
          \<exists>s \<in> set ss. sg_direction s = cr_direction (rule perf symb ss ws cx)"
begin

text \<open>Signals that balance, each one with a counterpart in the other direction, give no direction.\<close>

lemma balanced_neutral:
  assumes "mset (map flip_signal ss) = mset ss"
  shows "cr_direction (rule perf symb ss ws cx) = Dir_Neutral"
proof -
  have "verdict_of (rule perf symb ss ws cx) = verdict_of (rule perf symb (map flip_signal ss) ws cx)"
    by (rule permuted) (rule assms [symmetric])
  then have "cr_direction (rule perf symb ss ws cx) = mirror (cr_direction (rule perf symb ss ws cx))"
    unfolding mirrored by (simp add: verdict_of_def)
  then show ?thesis by (cases "cr_direction (rule perf symb ss ws cx)") simp_all
qed

text \<open>Without a vote there is no direction, and one-sided votes cannot give the other one.\<close>

lemma one_sided:
  assumes "usable perf ws" "\<forall>s \<in> set ss. sg_direction s \<in> {d, Dir_Neutral}"
  shows "cr_direction (rule perf symb ss ws cx) \<in> {d, Dir_Neutral}"
proof (cases "cr_direction (rule perf symb ss ws cx) = Dir_Neutral")
  case False
  then show ?thesis using supported [OF assms(1) False] assms(2) by force
qed simp

lemma fair:
  "(mset ss = mset ss' \<longrightarrow> verdict_of (rule perf symb ss ws cx) = verdict_of (rule perf symb ss' ws cx))
   \<and> verdict_of (rule perf symb (map flip_signal ss) ws cx) =
       (mirror (cr_direction (rule perf symb ss ws cx)), snd (verdict_of (rule perf symb ss ws cx)))
   \<and> (mset (map flip_signal ss) = mset ss \<longrightarrow> cr_direction (rule perf symb ss ws cx) = Dir_Neutral)"
  using permuted mirrored balanced_neutral by blast

lemma scales:
  assumes "usable perf ws"
  shows "0 \<le> cr_score (rule perf symb ss ws cx) \<and> cr_score (rule perf symb ss ws cx) \<le> 100
    \<and> 0 \<le> cr_agreement (rule perf symb ss ws cx) \<and> cr_agreement (rule perf symb ss ws cx) \<le> 1
    \<and> ((\<forall>s \<in> set ss. sg_direction s \<in> {d, Dir_Neutral}) \<longrightarrow> cr_direction (rule perf symb ss ws cx) \<in> {d, Dir_Neutral})"
  using score_scale [OF assms] agreement_scale [OF assms] one_sided [OF assms] by blast

end

section \<open>Voting\<close>

lemma verdict_empty [simp]: "verdict_of (cs_empty symb meth reason) = (Dir_Neutral, 0, 0)"
  by (simp add: verdict_of_def cs_empty_def)

lemma cs_empty_fields [simp]:
  "cr_direction (cs_empty symb meth reason) = Dir_Neutral" "cr_score (cs_empty symb meth reason) = 0"
  "cr_agreement (cs_empty symb meth reason) = 0"
  by (simp_all add: cs_empty_def)

definition voters_of :: "direction \<Rightarrow> strategy_signal list \<Rightarrow> strategy_signal list" where
  "voters_of d ss = filter (\<lambda>s. sg_direction s = d) ss"

lemma voters_of_flip: "voters_of d (map flip_signal ss) = map flip_signal (voters_of (mirror d) ss)"
  by (simp add: voters_of_def filter_flip)

lemma voters_of_actionable:
  "voters_of Dir_Long (actionable ss) = voters_of Dir_Long ss"
  "voters_of Dir_Short (actionable ss) = voters_of Dir_Short ss"
  by (auto simp: actionable_def voters_of_def intro: filter_cong)

lemma set_voters_of: "s \<in> set (voters_of d ss) \<longleftrightarrow> s \<in> set ss \<and> sg_direction s = d"
  by (auto simp: voters_of_def)

lemma length_actionable:
  "length (actionable ss) = length (voters_of Dir_Long ss) + length (voters_of Dir_Short ss)"
proof (induction ss)
  case (Cons s ss)
  then show ?case by (cases "sg_direction s") (simp_all add: actionable_def voters_of_def)
qed (simp add: actionable_def voters_of_def)

definition majority_verdict :: "strategy_signal list \<Rightarrow> direction \<times> real \<times> real" where
  "majority_verdict ss =
     (let l = length (voters_of Dir_Long ss); k = length (voters_of Dir_Short ss);
          mean = (\<lambda>xs. py_round 2 ((\<Sum>s\<leftarrow>xs. clamp_score (sg_score s)) / real (length xs))) in
      if l + k = 0 then (Dir_Neutral, 0, 0) else if l = k then (Dir_Neutral, 0, 1/2)
      else if l > k then (Dir_Long, mean (voters_of Dir_Long ss), py_round 4 (real l / real (l + k)))
      else (Dir_Short, mean (voters_of Dir_Short ss), py_round 4 (real k / real (l + k))))"

lemma majority_is: "verdict_of (majority_voting perf symb ss ws cx) = majority_verdict ss"
proof (cases "actionable ss = []")
  case True
  then have "length (voters_of Dir_Long ss) + length (voters_of Dir_Short ss) = 0"
    using length_actionable [of ss] by simp
  with True show ?thesis
    by (simp add: majority_voting_def majority_verdict_def)
next
  case False
  then have "length (voters_of Dir_Long ss) + length (voters_of Dir_Short ss) \<noteq> 0"
    using length_actionable [of ss] by (metis length_0_conv)
  with False show ?thesis
    unfolding majority_voting_def majority_verdict_def voters_of_def [symmetric] Let_def voters_of_actionable
      length_actionable
    by (simp add: verdict_of_def)
qed

lemma mean_clamped:
  "0 \<le> py_round n ((\<Sum>s\<leftarrow>xs. clamp_score (sg_score s)) / real (length xs))"
  "py_round n ((\<Sum>s\<leftarrow>xs. clamp_score (sg_score s)) / real (length xs)) \<le> 100"
proof -
  have b: "0 \<le> (\<Sum>s\<leftarrow>xs. clamp_score (sg_score s))" "(\<Sum>s\<leftarrow>xs. clamp_score (sg_score s)) \<le> 100 * real (length xs)"
    using sum_clamped [of xs "\<lambda>_. 1"] by (simp_all add: sum_list_triv mult.commute)
  then have "0 \<le> (\<Sum>s\<leftarrow>xs. clamp_score (sg_score s)) / real (length xs)
      \<and> (\<Sum>s\<leftarrow>xs. clamp_score (sg_score s)) / real (length xs) \<le> 100"
    by (cases "xs = []") (simp_all add: divide_simps mult.commute)
  then show "0 \<le> py_round n ((\<Sum>s\<leftarrow>xs. clamp_score (sg_score s)) / real (length xs))"
    "py_round n ((\<Sum>s\<leftarrow>xs. clamp_score (sg_score s)) / real (length xs)) \<le> 100"
    using rounded_score by blast+
qed

lemma share_range:
  assumes "0 \<le> (x :: real)" "0 \<le> y" "0 < x + y"
  shows "0 \<le> py_round n (x / (x + y)) \<and> py_round n (x / (x + y)) \<le> 1"
    and "0 \<le> py_round n (y / (x + y)) \<and> py_round n (y / (x + y)) \<le> 1"
  using assms by (auto intro!: rounded_share [THEN conjunct1] rounded_share [THEN conjunct2] simp: divide_simps)

lemma majority_bounds:
  "0 \<le> fst (snd (majority_verdict ss)) \<and> fst (snd (majority_verdict ss)) \<le> 100
   \<and> 0 \<le> snd (snd (majority_verdict ss)) \<and> snd (snd (majority_verdict ss)) \<le> 1"
proof -
  have "0 \<le> py_round 4 (real l / real (l + k)) \<and> py_round 4 (real l / real (l + k)) \<le> 1" for l k :: nat
    by (rule rounded_share) (auto simp: divide_simps)
  moreover have "0 \<le> py_round 4 (real k / real (l + k)) \<and> py_round 4 (real k / real (l + k)) \<le> 1" for l k :: nat
    by (rule rounded_share) (auto simp: divide_simps)
  ultimately show ?thesis
    by (simp add: majority_verdict_def Let_def mean_clamped del: of_nat_add)
qed

lemma majority_perm: "mset ss = mset ss' \<Longrightarrow> majority_verdict ss = majority_verdict ss'"
proof -
  assume a: "mset ss = mset ss'"
  have m: "mset (voters_of d ss) = mset (voters_of d ss')" for d
    unfolding voters_of_def by (rule mset_filtered [OF a])
  have "length (voters_of d ss) = length (voters_of d ss')" for d
    using m [of d] by (metis size_mset)
  moreover have "(\<Sum>s\<leftarrow>voters_of d ss. clamp_score (sg_score s)) = (\<Sum>s\<leftarrow>voters_of d ss'. clamp_score (sg_score s))" for d
    by (rule sum_list_mset) (rule m)
  ultimately show ?thesis by (simp add: majority_verdict_def Let_def)
qed

lemma majority_mirror:
  "majority_verdict (map flip_signal ss) = (mirror (fst (majority_verdict ss)), snd (majority_verdict ss))"
  by (simp add: majority_verdict_def Let_def voters_of_flip comp_def add.commute)

lemma majority_supported:
  "fst (majority_verdict ss) \<noteq> Dir_Neutral \<Longrightarrow> voters_of (fst (majority_verdict ss)) ss \<noteq> []"
  by (auto simp: majority_verdict_def Let_def split: if_splits)

lemma direction_verdict: "cr_direction r = fst (verdict_of r)" "cr_score r = fst (snd (verdict_of r))"
  "cr_agreement r = snd (snd (verdict_of r))"
  by (simp_all add: verdict_of_def)

interpretation maj: consensus_rule majority_voting "\<lambda>perf ws. True"
proof (unfold_locales, goal_cases)
  case (1 ss ss' perf symb ws cx)
  then show ?case unfolding majority_is by (rule majority_perm)
next
  case (5 perf ws symb ss cx)
  then show ?case
    using majority_supported [of ss] unfolding direction_verdict majority_is
    by (metis last_in_set set_voters_of)
qed (simp_all only: direction_verdict majority_is majority_bounds majority_mirror)

text \<open>
  Four algorithms compute their verdict from the weight of each signal.  The laws of such a scheme make
  every algorithm built on it, with weights that do not look at the direction, keep the contract.
\<close>

locale weighted_scheme =
  fixes scheme :: "(strategy_signal \<Rightarrow> real) \<Rightarrow> strategy_signal list \<Rightarrow> direction \<times> real \<times> real"
  assumes scheme_perm: "mset ss = mset ss' \<Longrightarrow> scheme w ss = scheme w ss'"
    and scheme_mirror: "(\<And>s. w (flip_signal s) = w s) \<Longrightarrow>
          scheme w (map flip_signal ss) = (mirror (fst (scheme w ss)), snd (scheme w ss))"
    and scheme_bounds: "(\<And>s. 0 \<le> w s) \<Longrightarrow> 0 \<le> fst (snd (scheme w ss)) \<and> fst (snd (scheme w ss)) \<le> 100
          \<and> 0 \<le> snd (snd (scheme w ss)) \<and> snd (snd (scheme w ss)) \<le> 1"
    and scheme_supported: "(\<And>s. 0 \<le> w s) \<Longrightarrow> fst (scheme w ss) \<noteq> Dir_Neutral \<Longrightarrow>
          voters_of (fst (scheme w ss)) ss \<noteq> []"
begin

lemma rule_of:
  assumes v: "\<And>perf symb ss ws cx. verdict_of (rule perf symb ss ws cx) = scheme (\<lambda>s. W perf ws cx (sg_strategy_name s)) ss"
    and nonneg: "\<And>perf ws cx n. usable perf ws \<Longrightarrow> 0 \<le> W perf ws cx n"
  shows "consensus_rule rule usable"
proof (unfold_locales, goal_cases)
  case (1 ss ss' perf symb ws cx)
  then show ?case unfolding v by (rule scheme_perm)
next
  case 2
  then show ?case unfolding direction_verdict v by (rule scheme_mirror) simp
next
  case (3 perf ws symb ss cx)
  then show ?case unfolding direction_verdict v using scheme_bounds nonneg by simp
next
  case (4 perf ws symb ss cx)
  then show ?case unfolding direction_verdict v using scheme_bounds nonneg by simp
next
  case (5 perf ws symb ss cx)
  then have "voters_of (fst (scheme (\<lambda>s. W perf ws cx (sg_strategy_name s)) ss)) ss \<noteq> []"
    unfolding direction_verdict v by (intro scheme_supported nonneg)
  then show ?case
    unfolding direction_verdict v by (metis last_in_set set_voters_of)
qed

end

section \<open>Weighted voting\<close>

lemma vote_mass_from: "fold (\<lambda>s m. if sg_direction s = d then m + w s else m) ss a = a + (\<Sum>s\<leftarrow>voters_of d ss. w s)"
  by (induction ss arbitrary: a) (auto simp: voters_of_def algebra_simps)

lemma vote_mass_sum: "vote_mass w d ss = (\<Sum>s\<leftarrow>voters_of d ss. w s)"
  by (simp add: vote_mass_def vote_mass_from)

text \<open>Weight and weighted score of one side.\<close>

definition side_weight :: "(strategy_signal \<Rightarrow> real) \<Rightarrow> direction \<Rightarrow> strategy_signal list \<Rightarrow> real" where
  "side_weight w d ss = (\<Sum>s\<leftarrow>voters_of d ss. w s)"

definition side_score :: "(strategy_signal \<Rightarrow> real) \<Rightarrow> direction \<Rightarrow> strategy_signal list \<Rightarrow> real" where
  "side_score w d ss = (\<Sum>s\<leftarrow>voters_of d ss. clamp_score (sg_score s) * w s)"

lemma side_perm:
  assumes "mset ss = mset ss'"
  shows "side_weight w d ss = side_weight w d ss'" "side_score w d ss = side_score w d ss'"
  unfolding side_weight_def side_score_def voters_of_def
  by (rule sum_list_mset, rule mset_filtered, rule assms)+

lemma side_flip:
  assumes "\<And>s. w (flip_signal s) = w s"
  shows "side_weight w d (map flip_signal ss) = side_weight w (mirror d) ss"
    "side_score w d (map flip_signal ss) = side_score w (mirror d) ss"
  by (simp_all add: side_weight_def side_score_def voters_of_flip comp_def assms)

lemma side_bounds:
  assumes "\<And>s. 0 \<le> w s"
  shows "0 \<le> side_weight w d ss" "0 \<le> side_score w d ss" "side_score w d ss \<le> 100 * side_weight w d ss"
  using sum_clamped [of "voters_of d ss" w] assms
  by (simp_all add: side_weight_def side_score_def sum_list_nonneg_map)

lemma side_empty: "voters_of d ss = [] \<Longrightarrow> side_weight w d ss = 0 \<and> side_score w d ss = 0"
  by (simp add: side_weight_def side_score_def)

definition side_average :: "(strategy_signal \<Rightarrow> real) \<Rightarrow> direction \<Rightarrow> strategy_signal list \<Rightarrow> real" where
  "side_average w d ss = py_round 2 (if side_weight w d ss > 0 then side_score w d ss / side_weight w d ss else 0)"

definition side_choice :: "real \<Rightarrow> real \<Rightarrow> real \<Rightarrow> real \<Rightarrow> direction \<times> real \<times> real" where
  "side_choice l k a b =
     (if l + k \<le> 0 \<or> l = k then (Dir_Neutral, 0, 0)
      else if l > k then (Dir_Long, a, py_round 4 (l / (l + k))) else (Dir_Short, b, py_round 4 (k / (l + k))))"

lemma choice_mirror: "side_choice k l b a = (mirror (fst (side_choice l k a b)), snd (side_choice l k a b))"
  by (auto simp: side_choice_def add.commute)

lemma choice_bounds:
  assumes "0 \<le> l" "0 \<le> k" "0 \<le> a" "a \<le> 100" "0 \<le> b" "b \<le> 100"
  shows "0 \<le> fst (snd (side_choice l k a b)) \<and> fst (snd (side_choice l k a b)) \<le> 100
   \<and> 0 \<le> snd (snd (side_choice l k a b)) \<and> snd (snd (side_choice l k a b)) \<le> 1"
  using share_range [of l k 4] assms by (auto simp: side_choice_def not_le)

definition voting_verdict :: "(strategy_signal \<Rightarrow> real) \<Rightarrow> strategy_signal list \<Rightarrow> direction \<times> real \<times> real" where
  "voting_verdict w ss = side_choice (side_weight w Dir_Long ss) (side_weight w Dir_Short ss)
     (side_average w Dir_Long ss) (side_average w Dir_Short ss)"

lemma no_voters: "actionable ss = [] \<Longrightarrow> voters_of Dir_Long ss = [] \<and> voters_of Dir_Short ss = []"
  by (auto simp: actionable_def voters_of_def filter_empty_conv)

lemma voting_is:
  "verdict_of (weighted_voting d perf symb ss ws cx) = voting_verdict (\<lambda>s. pd_get_or ws (sg_strategy_name s) d) ss"
proof (cases "actionable ss = []")
  case True
  then show ?thesis
    using no_voters [OF True] by (simp add: weighted_voting_def voting_verdict_def side_choice_def side_empty)
next
  case False
  let ?w = "\<lambda>s. pd_get_or ws (sg_strategy_name s) d"
  have a: "side_average ?w e ss = py_round 2 (if (\<Sum>s\<leftarrow>voters_of e ss. ?w s) > 0
      then (\<Sum>s\<leftarrow>voters_of e ss. clamp_score (sg_score s) * ?w s) / (\<Sum>s\<leftarrow>voters_of e ss. ?w s) else 0)" for e
    by (simp only: side_average_def side_weight_def side_score_def)
  show ?thesis
    using False
    unfolding weighted_voting_def voting_verdict_def side_choice_def voters_of_def [symmetric] Let_def vote_mass_sum
      voters_of_actionable side_weight_def a
    by (auto simp: verdict_of_def voters_of_actionable)
qed

lemma side_mean:
  assumes "\<And>s. 0 \<le> w s"
  shows "0 \<le> side_average w d ss" "side_average w d ss \<le> 100"
proof -
  note b = side_bounds [of w d ss, OF assms]
  have "0 \<le> side_score w d ss / side_weight w d ss \<and> side_score w d ss / side_weight w d ss \<le> 100" if "0 < side_weight w d ss"
    using that b by (simp add: pos_divide_le_eq)
  then show "0 \<le> side_average w d ss" "side_average w d ss \<le> 100"
    unfolding side_average_def using rounded_score by auto
qed

lemma voting_bounds:
  assumes "\<And>s. 0 \<le> w s"
  shows "0 \<le> fst (snd (voting_verdict w ss)) \<and> fst (snd (voting_verdict w ss)) \<le> 100
   \<and> 0 \<le> snd (snd (voting_verdict w ss)) \<and> snd (snd (voting_verdict w ss)) \<le> 1"
  unfolding voting_verdict_def
  by (intro choice_bounds side_bounds(1) side_mean assms)

lemma voting_perm: "mset ss = mset ss' \<Longrightarrow> voting_verdict w ss = voting_verdict w ss'"
  by (simp only: voting_verdict_def side_average_def side_perm [of ss ss'])

lemma voting_mirror:
  assumes "\<And>s. w (flip_signal s) = w s"
  shows "voting_verdict w (map flip_signal ss) = (mirror (fst (voting_verdict w ss)), snd (voting_verdict w ss))"
proof -
  have a: "side_average w d (map flip_signal ss) = side_average w (mirror d) ss" for d
    by (simp add: side_average_def side_flip [of w, OF assms])
  show ?thesis
    unfolding voting_verdict_def side_flip [of w, OF assms] a mirror.simps by (rule choice_mirror)
qed

lemma voting_supported:
  assumes "\<And>s. 0 \<le> w s" "fst (voting_verdict w ss) \<noteq> Dir_Neutral"
  shows "voters_of (fst (voting_verdict w ss)) ss \<noteq> []"
  using assms(2) side_empty [of Dir_Long ss w] side_empty [of Dir_Short ss w] side_bounds(1) [of w, OF assms(1)]
  by (auto simp: voting_verdict_def side_choice_def not_le split: if_splits)

interpretation vv: weighted_scheme voting_verdict
  by unfold_locales (fact voting_perm voting_mirror voting_bounds voting_supported)+

interpretation wv: consensus_rule "weighted_voting d" "\<lambda>perf ws. fair_weights d ws" for d
  by (rule vv.rule_of, rule voting_is, rule fair_weight)

section \<open>Signed averages\<close>

lemma average_fold:
  assumes "\<forall>s \<in> set vs. sg_direction s \<noteq> Dir_Neutral"
  shows "al_signed (fold (average_step w t) vs a) = al_signed a + (side_score w Dir_Long vs - side_score w Dir_Short vs)
    \<and> al_long (fold (average_step w t) vs a) = al_long a + side_weight w Dir_Long vs
    \<and> al_short (fold (average_step w t) vs a) = al_short a + side_weight w Dir_Short vs"
  using assms
proof (induction vs arbitrary: a)
  case Nil
  then show ?case by (simp add: side_score_def side_weight_def voters_of_def)
next
  case (Cons s vs)
  then show ?case
    by (cases "sg_direction s")
       (simp_all add: average_step_def Let_def side_score_def side_weight_def voters_of_def)
qed

lemma sum_actionable: "(\<Sum>s\<leftarrow>actionable ss. w s) = side_weight w Dir_Long ss + side_weight w Dir_Short ss"
proof (induction ss)
  case (Cons s ss)
  then show ?case
    by (cases "sg_direction s") (simp_all add: actionable_def side_weight_def voters_of_def)
qed (simp add: actionable_def side_weight_def voters_of_def)

definition average_choice :: "real \<Rightarrow> real \<Rightarrow> real \<Rightarrow> real \<Rightarrow> direction \<times> real \<times> real" where
  "average_choice l k x y =
     (if l + k \<le> 0 then (Dir_Neutral, 0, 0) else
      let v = (x - y) / (l + k) in
      if \<bar>v\<bar> < 1 / 10 ^ 9 then (Dir_Neutral, py_round 2 \<bar>v\<bar>, py_round 4 (1/2))
      else if v > 0 then (Dir_Long, py_round 2 \<bar>v\<bar>, py_round 4 (l / (l + k)))
      else (Dir_Short, py_round 2 \<bar>v\<bar>, py_round 4 (k / (l + k))))"

lemma average_mirrored: "average_choice k l y x = (mirror (fst (average_choice l k x y)), snd (average_choice l k x y))"
proof -
  have v: "(y - x) / (k + l) = - ((x - y) / (l + k))"
    by (simp add: add.commute diff_divide_distrib)
  show ?thesis
    unfolding average_choice_def v Let_def by (auto simp: add.commute)
qed

lemma average_bounds:
  assumes "0 \<le> l" "0 \<le> k" "0 \<le> x" "x \<le> 100 * l" "0 \<le> y" "y \<le> 100 * k"
  shows "0 \<le> fst (snd (average_choice l k x y)) \<and> fst (snd (average_choice l k x y)) \<le> 100
   \<and> 0 \<le> snd (snd (average_choice l k x y)) \<and> snd (snd (average_choice l k x y)) \<le> 1"
proof (cases "l + k \<le> 0")
  case False
  then have "\<bar>(x - y) / (l + k)\<bar> \<le> 100"
    using assms by (auto simp: abs_le_iff divide_simps)
  then have "0 \<le> py_round 2 \<bar>(x - y) / (l + k)\<bar> \<and> py_round 2 \<bar>(x - y) / (l + k)\<bar> \<le> 100"
    by (intro rounded_score) auto
  moreover have "0 \<le> py_round 4 (1/2 :: real) \<and> py_round 4 (1/2 :: real) \<le> 1"
    by (intro rounded_share) auto
  moreover note share_range [of l k 4] assms
  ultimately show ?thesis
    using False unfolding average_choice_def Let_def by (simp add: not_le)
qed (simp add: average_choice_def)

definition average_verdict :: "(strategy_signal \<Rightarrow> real) \<Rightarrow> strategy_signal list \<Rightarrow> direction \<times> real \<times> real" where
  "average_verdict w ss = average_choice (side_weight w Dir_Long ss) (side_weight w Dir_Short ss)
     (side_score w Dir_Long ss) (side_score w Dir_Short ss)"

lemma fold_average_cong:
  "(\<And>s. s \<in> set vs \<Longrightarrow> w s = w' s) \<Longrightarrow> fold (average_step w t) vs a = fold (average_step w' t) vs a"
  by (induction vs arbitrary: a) (simp_all add: average_step_def)

lemma sides_actionable:
  "side_weight w Dir_Long (actionable ss) = side_weight w Dir_Long ss"
  "side_weight w Dir_Short (actionable ss) = side_weight w Dir_Short ss"
  "side_score w Dir_Long (actionable ss) = side_score w Dir_Long ss"
  "side_score w Dir_Short (actionable ss) = side_score w Dir_Short ss"
  by (simp_all add: side_weight_def side_score_def voters_of_actionable)

lemma signed_average_is:
  assumes "\<And>s. s \<in> set (actionable ss) \<Longrightarrow> pd_get_or (eff (actionable ss)) (sg_strategy_name s) d = w s"
  shows "verdict_of (signed_average meth d eff symb ss) = average_verdict w ss"
proof (cases "actionable ss = []")
  case True
  then show ?thesis
    using no_voters [OF True] by (simp add: signed_average_def average_verdict_def average_choice_def side_empty)
next
  case False
  let ?w = "\<lambda>s. pd_get_or (eff (actionable ss)) (sg_strategy_name s) d"
  let ?a = "\<lparr> al_signed = 0, al_contributions = [], al_long = 0, al_short = 0 \<rparr>"
  have sum: "(\<Sum>s\<leftarrow>actionable ss. ?w s) = side_weight w Dir_Long ss + side_weight w Dir_Short ss"
    by (simp add: sum_actionable [symmetric] assms cong: map_cong)
  have n: "\<forall>s \<in> set (actionable ss). sg_direction s \<noteq> Dir_Neutral" by (simp add: actionable_def)
  have f: "fold (average_step ?w t) (actionable ss) ?a = fold (average_step w t) (actionable ss) ?a" for t
    by (rule fold_average_cong) (rule assms)
  show ?thesis
    using False average_fold [OF n, of w _ ?a]
    unfolding signed_average_def average_verdict_def average_choice_def Let_def sum f
    by (simp add: verdict_of_def sides_actionable)
qed

lemma average_verdict_bounds:
  assumes "\<And>s. 0 \<le> w s"
  shows "0 \<le> fst (snd (average_verdict w ss)) \<and> fst (snd (average_verdict w ss)) \<le> 100
   \<and> 0 \<le> snd (snd (average_verdict w ss)) \<and> snd (snd (average_verdict w ss)) \<le> 1"
  unfolding average_verdict_def by (intro average_bounds side_bounds assms)

lemma average_verdict_perm: "mset ss = mset ss' \<Longrightarrow> average_verdict w ss = average_verdict w ss'"
  by (simp only: average_verdict_def side_perm [of ss ss'])

lemma average_verdict_mirror:
  assumes "\<And>s. w (flip_signal s) = w s"
  shows "average_verdict w (map flip_signal ss) = (mirror (fst (average_verdict w ss)), snd (average_verdict w ss))"
  unfolding average_verdict_def side_flip [of w, OF assms] mirror.simps by (rule average_mirrored)

lemma average_verdict_supported:
  assumes "\<And>s. 0 \<le> w s" "fst (average_verdict w ss) \<noteq> Dir_Neutral"
  shows "voters_of (fst (average_verdict w ss)) ss \<noteq> []"
proof
  assume e: "voters_of (fst (average_verdict w ss)) ss = []"
  note b = side_bounds [of w, OF assms(1)]
  show False
    using assms(2) e side_empty [of Dir_Long ss w] side_empty [of Dir_Short ss w] b [of Dir_Long ss] b [of Dir_Short ss]
    by (auto simp: average_verdict_def average_choice_def Let_def not_le zero_less_divide_iff split: if_splits)
qed

text \<open>The effective weight of a voter, for each of the three ways to modulate the base weights.\<close>

lemma by_strategy_from:
  "pd_get (fold (\<lambda>s d. pd_put d (sg_strategy_name s) (g (sg_strategy_name s))) ss acc) n =
     (if n \<in> sg_strategy_name ` set ss then Some (g n) else pd_get acc n)"
  by (induction ss arbitrary: acc) auto

lemma weights_for_get:
  "pd_get (weights_for d ss ws) n = (if n \<in> sg_strategy_name ` set ss then Some (pd_get_or ws n d) else None)"
  using by_strategy_from [of "\<lambda>n. pd_get_or ws n d" ss "[]" n] by (simp add: weights_for_def by_strategy_def)

lemma pd_get_map: "pd_get (map (\<lambda>(n, w). (n, h n w)) xs) n = map_option (h n) (pd_get xs n)"
  by (induction xs) (auto simp: pd_get_def)

definition regime_factor :: "(string, weights) pydict \<Rightarrow> quant_context option \<Rightarrow> string \<Rightarrow> real" where
  "regime_factor multipliers cx name =
     (case Option.bind cx qc_regime of None \<Rightarrow> 1
      | Some r \<Rightarrow> pd_get_or (pd_get_or multipliers (regime_value (rs_primary r)) []) name 1)"

lemma average_is:
  "verdict_of (weighted_average d perf symb ss ws cx) = average_verdict (\<lambda>s. pd_get_or ws (sg_strategy_name s) d) ss"
  "verdict_of (dynamic_weighting d perf symb ss ws cx) =
     average_verdict (\<lambda>s. pd_get_or ws (sg_strategy_name s) d * (1/2 + perf (sg_strategy_name s))) ss"
  "verdict_of (regime_weighting m d perf symb ss ws cx) =
     average_verdict (\<lambda>s. pd_get_or ws (sg_strategy_name s) d * regime_factor m cx (sg_strategy_name s)) ss"
  unfolding weighted_average_def dynamic_weighting_def regime_weighting_def
  by (rule signed_average_is;
      auto simp: pd_get_or_def [of "weights_for _ _ _"] pd_get_or_def [of "map _ _"] pd_get_map weights_for_get
        regime_factor_def Let_def split: option.splits)+

definition fair_multipliers :: "(string, weights) pydict \<Rightarrow> bool" where
  "fair_multipliers m \<longleftrightarrow> (\<forall>t \<in> set (pd_values m). \<forall>v \<in> set (pd_values t). 0 \<le> v)"

lemma regime_factor_nonneg: "fair_multipliers m \<Longrightarrow> 0 \<le> regime_factor m cx name"
  by (auto simp: fair_multipliers_def regime_factor_def pd_get_or_def split: option.splits dest!: pd_get_value)

definition fair_performance :: "(string \<Rightarrow> real) \<Rightarrow> bool" where
  "fair_performance perf \<longleftrightarrow> (\<forall>n. 0 \<le> perf n)"

interpretation av: weighted_scheme average_verdict
  by unfold_locales (fact average_verdict_perm average_verdict_mirror average_verdict_bounds average_verdict_supported)+

interpretation wa: consensus_rule "weighted_average d" "\<lambda>perf ws. fair_weights d ws" for d
  by (rule av.rule_of, rule average_is(1), rule fair_weight)

lemma dynamic_weight: "fair_performance perf \<and> fair_weights d ws \<Longrightarrow> 0 \<le> pd_get_or ws n d * (1/2 + perf n)"
  by (auto intro!: mult_nonneg_nonneg add_nonneg_nonneg simp: fair_weight fair_performance_def)

interpretation dw: consensus_rule "dynamic_weighting d" "\<lambda>perf ws. fair_performance perf \<and> fair_weights d ws" for d
  by (rule av.rule_of, rule average_is(2), rule dynamic_weight)

lemma regime_weight: "fair_multipliers m \<and> fair_weights d ws \<Longrightarrow> 0 \<le> pd_get_or ws n d * regime_factor m cx n"
  by (auto intro!: mult_nonneg_nonneg simp: fair_weight regime_factor_nonneg)

interpretation rw: consensus_rule "regime_weighting m d" "\<lambda>perf ws. fair_multipliers m \<and> fair_weights d ws" for m d
  by (rule av.rule_of, rule average_is(3), rule regime_weight)

section \<open>The engine keeps the contract\<close>

lemma set_method_known:
  "cn_set_method name e = Inr e' \<Longrightarrow> cn_method e' = name \<and> name \<in> set (pd_keys (cn_algorithms e'))"
  by (auto simp: cn_set_method_def split: if_splits)

lemma build_never_fails:
  "cn_method e \<in> set (pd_keys (cn_algorithms e)) \<Longrightarrow> \<exists>r. cn_build perf symb ss cx e = Inr r"
  using pd_get_in_keys [of "cn_algorithms e" "cn_method e"] by (auto simp: cn_build_def)

lemma built_in_cases:
  assumes "cn_algorithms e = built_in s" "cn_build perf symb ss cx e = Inr r"
  shows "\<exists>alg \<in> {majority_voting, weighted_voting (qs_default_weight s), weighted_average (qs_default_weight s),
       dynamic_weighting (qs_default_weight s), regime_weighting (qs_regime_multipliers s) (qs_default_weight s)}.
     \<forall>ss. cn_build perf symb ss cx e = Inr (alg perf symb ss (cn_weights e) cx)"
  using assms by (auto simp: cn_build_def built_in_def Let_def pd_get_def split: option.splits if_splits)

text \<open>
  Property C28: consensus is fair and bounded.  Whatever built-in method is active, with weights,
  multipliers and performance factors that are not negative, the score lies between 0 and 100 and the
  agreement between 0 and 1; direction, score and agreement do not depend on the order of the signals;
  turning every signal round turns the direction round and leaves score and agreement; signals that
  balance give no direction; and when no signal votes against a direction, the opposite one cannot win.
\<close>

theorem consensus_is_fair:
  assumes "cn_algorithms e = built_in s" "fair_weights (qs_default_weight s) (cn_weights e)"
    "fair_multipliers (qs_regime_multipliers s)" "fair_performance perf"
    and "cn_build perf symb ss cx e = Inr r" "cn_build perf symb ss' cx e = Inr r'"
  shows "0 \<le> cr_score r \<and> cr_score r \<le> 100 \<and> 0 \<le> cr_agreement r \<and> cr_agreement r \<le> 1
    \<and> (mset ss = mset ss' \<longrightarrow> verdict_of r = verdict_of r')
    \<and> (ss' = map flip_signal ss \<longrightarrow> verdict_of r' = (mirror (cr_direction r), cr_score r, cr_agreement r))
    \<and> (mset (map flip_signal ss) = mset ss \<longrightarrow> cr_direction r = Dir_Neutral)
    \<and> ((\<forall>s \<in> set ss. sg_direction s \<in> {d, Dir_Neutral}) \<longrightarrow> cr_direction r \<in> {d, Dir_Neutral})"
proof -
  obtain alg use where rule: "consensus_rule alg use" and u: "use perf (cn_weights e)"
    and r: "cn_build perf symb ss cx e = Inr (alg perf symb ss (cn_weights e) cx)"
      "cn_build perf symb ss' cx e = Inr (alg perf symb ss' (cn_weights e) cx)"
    using built_in_cases [OF assms(1,5)] assms(2-4) maj.consensus_rule_axioms wv.consensus_rule_axioms
      wa.consensus_rule_axioms dw.consensus_rule_axioms rw.consensus_rule_axioms by blast
  then have "r = alg perf symb ss (cn_weights e) cx" "r' = alg perf symb ss' (cn_weights e) cx"
    using assms(5,6) by simp_all
  then show ?thesis
    using consensus_rule.scales [OF rule u, of symb ss cx d] consensus_rule.fair [OF rule, of ss ss' perf symb "cn_weights e" cx]
    by (auto simp: verdict_of_def)
qed

theorem consensus_is_fair_witness:
  "cr_direction (weighted_average 1 (\<lambda>_. 1/2) ''X'' [mk_signal ''1'' ''a'' ''X'' 0 Dir_Long (1/2) 80,
      mk_signal ''1'' ''a'' ''X'' 0 Dir_Short (1/2) 80] [] None) = Dir_Neutral"
proof -
  let ?e = "\<lparr> cn_settings = default_quant_consensus, cn_weights = [], cn_algorithms = built_in default_quant_consensus,
    cn_method = ''weighted_average'' \<rparr>"
  let ?ss = "[mk_signal ''1'' ''a'' ''X'' 0 Dir_Long (1/2) 80, mk_signal ''1'' ''a'' ''X'' 0 Dir_Short (1/2) 80]"
  have b: "cn_build (\<lambda>_. 1/2) ''X'' ?ss None ?e = Inr (weighted_average 1 (\<lambda>_. 1/2) ''X'' ?ss [] None)"
    by (simp add: cn_build_def built_in_def default_quant_consensus_def pd_get_def)
  have "mset (map flip_signal ?ss) = mset ?ss"
    by (simp add: flip_signal_def mk_signal_def)
  then show ?thesis
    using consensus_is_fair [of ?e default_quant_consensus "\<lambda>_. 1/2" "''X''" ?ss None _ ?ss _ Dir_Long, OF _ _ _ _ b b]
    by (simp add: fair_weights_def fair_multipliers_def fair_performance_def default_quant_consensus_def pd_values_def)
qed

end
