(* ===== verification/Signal_Engine.thy ===== *)
theory Signal_Engine
  imports Consensus Execution_Engine
begin

text \<open>
  The registry of live signals (\<open>app/engine/signal_engine\<close>) with the structural validator and the
  in-memory history it resolves into.  Operations take the current time; published events are appended
  to a trace (a bus that refuses an event is tolerated by the source); the records handed to the sink
  of the history, which must not disturb it, form a trace as well.
\<close>

section \<open>Structural validation\<close>

definition level_checks :: "strategy_signal \<Rightarrow> msg list" where
  "level_checks s =
     (let inverted = (case sg_entry_zone s of
            Some z \<Rightarrow> if ez_low z > ez_high z
              then [Fmt ''entry_zone invertida: [{}, {}]'' [ArgReal (ez_low z), ArgReal (ez_high z)]] else []
          | None \<Rightarrow> []) in
      if sg_direction s = Dir_Neutral then inverted else
      let long = (sg_direction s = Dir_Long);
          stops = (case (sg_entry_zone s, sg_stop_loss s) of
              (Some z, Some sl) \<Rightarrow>
                (if long \<and> sl \<ge> ez_mid z then [Lit ''stop_loss por encima de la entrada en un long''] else []) @
                (if \<not> long \<and> sl \<le> ez_mid z then [Lit ''stop_loss por debajo de la entrada en un short''] else [])
            | _ \<Rightarrow> []);
          targets = (case (sg_entry_zone s, sg_take_profit s) of
              (Some z, Some tp) \<Rightarrow>
                (if long \<and> tp \<le> ez_mid z then [Lit ''take_profit por debajo de la entrada en un long''] else []) @
                (if \<not> long \<and> tp \<ge> ez_mid z then [Lit ''take_profit por encima de la entrada en un short''] else [])
            | _ \<Rightarrow> []);
          rr = (case sg_risk_reward s of
              Some x \<Rightarrow> if x \<le> 0 then [Fmt ''risk_reward no positivo: {}'' [ArgReal x]] else []
            | None \<Rightarrow> [])
      in inverted @ stops @ targets @ rr)"

definition sv_validate :: "time \<Rightarrow> strategy_signal \<Rightarrow> msg list" where
  "sv_validate now s =
     (if sg_symbol s = [] then [Lit ''simbolo vacio''] else []) @
     (if sg_strategy_name s = [] \<or> sg_strategy_name s = ''unnamed'' then [Lit ''estrategia sin nombre''] else []) @
     (if \<not> (0 \<le> sg_confidence s \<and> sg_confidence s \<le> 1)
      then [Fmt ''confidence fuera de [0,1]: {}'' [ArgReal (sg_confidence s)]] else []) @
     (if \<not> (0 \<le> sg_score s \<and> sg_score s \<le> 100)
      then [Fmt ''score fuera de [0,100]: {}'' [ArgReal (sg_score s)]] else []) @
     (if sg_reasons s = [] then [Lit ''sin razones (explicabilidad obligatoria)''] else []) @
     (case sg_expiration s of Some t \<Rightarrow> if t \<le> now then [Lit ''expiracion en el pasado''] else [] | None \<Rightarrow> []) @
     level_checks s"

section \<open>History\<close>

record signal_history =
  hs_limit :: nat
  hs_signals :: "signal_record list"
  hs_decisions :: "decision list"
  hs_by_strategy :: "(string, (string, int) pydict) pydict"
  hs_state :: "(string, real) pydict"
  hs_sunk :: "signal_record list"

definition hs_new :: "nat \<Rightarrow> signal_history" where
  "hs_new limit = \<lparr> hs_limit = limit, hs_signals = [], hs_decisions = [], hs_by_strategy = [],
     hs_state = [(''daily_drawdown_pct'', 0)], hs_sunk = [] \<rparr>"

definition all_statuses :: "signal_status list" where
  "all_statuses = [SS_PENDING, SS_ACCEPTED, SS_REJECTED, SS_EXPIRED, SS_SUPERSEDED]"

definition zero_counters :: "(string, int) pydict" where
  "zero_counters = map (\<lambda>st. (signal_status_value st, 0)) all_statuses"

definition mk_record :: "strategy_signal \<Rightarrow> signal_status \<Rightarrow> msg list \<Rightarrow> time \<Rightarrow> signal_record" where
  "mk_record s st reasons now = \<lparr> sl_signal = s, sl_status = st, sl_status_reasons = reasons,
     sl_recorded_at = sg_timestamp s, sl_resolved_at = Some now \<rparr>"

definition hs_record_signal :: "strategy_signal \<Rightarrow> signal_status \<Rightarrow> msg list \<Rightarrow> time \<Rightarrow> signal_history \<Rightarrow> signal_history" where
  "hs_record_signal s st reasons now h =
     (let r = mk_record s st reasons now;
          counters = pd_get_or (hs_by_strategy h) (sg_strategy_name s) zero_counters;
          counters' = pd_put counters (signal_status_value st) (pd_get_or counters (signal_status_value st) 0 + 1)
      in h\<lparr> hs_signals := deque_append (hs_limit h) r (hs_signals h),
            hs_by_strategy := pd_put (hs_by_strategy h) (sg_strategy_name s) counters',
            hs_sunk := hs_sunk h @ [r] \<rparr>)"

definition hs_record_decision :: "decision \<Rightarrow> signal_history \<Rightarrow> signal_history" where
  "hs_record_decision d h = h\<lparr> hs_decisions := deque_append (hs_limit h) d (hs_decisions h) \<rparr>"

definition hs_recent_signals :: "int \<Rightarrow> signal_status option \<Rightarrow> signal_history \<Rightarrow> signal_record list" where
  "hs_recent_signals limit st h = py_tail limit
     (case st of None \<Rightarrow> hs_signals h | Some x \<Rightarrow> filter (\<lambda>r. sl_status r = x) (hs_signals h))"

definition hs_recent_decisions :: "int \<Rightarrow> string option \<Rightarrow> signal_history \<Rightarrow> decision list" where
  "hs_recent_decisions limit symb h = py_tail limit
     (case symb of None \<Rightarrow> hs_decisions h | Some x \<Rightarrow> filter (\<lambda>d. dn_symbol d = upper x) (hs_decisions h))"

definition performance_factor :: "signal_history \<Rightarrow> string \<Rightarrow> real" where
  "performance_factor h strategy =
     (case pd_get (hs_by_strategy h) strategy of
        None \<Rightarrow> 1/2
      | Some counters \<Rightarrow>
          if counters = [] then 1/2 else
          let accepted = pd_get_or counters ''accepted'' 0; rejected = pd_get_or counters ''rejected'' 0;
              tot = accepted + rejected
          in if tot < 5 then 1/2 else max 0 (min 1 (of_int accepted / of_int tot)))"

definition hs_set_state :: "string \<Rightarrow> real \<Rightarrow> signal_history \<Rightarrow> signal_history" where
  "hs_set_state k v h = h\<lparr> hs_state := pd_put (hs_state h) k v \<rparr>"

definition hs_get_state :: "string \<Rightarrow> real \<Rightarrow> signal_history \<Rightarrow> real" where
  "hs_get_state k dflt h = pd_get_or (hs_state h) k dflt"

definition hs_status :: "signal_history \<Rightarrow> json_dict" where
  "hs_status h = [(''signals_in_memory'', JInt (int (length (hs_signals h)))),
     (''decisions_in_memory'', JInt (int (length (hs_decisions h)))),
     (''strategy_counters'', JObj (map (\<lambda>(n, c). (n, JObj (map (\<lambda>(k, i). (k, JInt i)) c))) (hs_by_strategy h))),
     (''runtime_state'', json_reals (hs_state h))]"

section \<open>The registry\<close>

datatype quant_event =
  EvSignalRejected string string "msg list" string
| EvSignalExpired string string string real
| EvSignalCreated string string string real string real
| EvConsensusReached string string string real real int
| EvDecisionGenerated decision_event
| EvFilterTriggered string string msg
| EvStrategyLoaded string "string list"
| EvStrategyUnloaded string
| EvStrategyScoreUpdated string string real real
| EvStrategyExecuted string string real bool
| EvStrategyFailed string string

record signal_engine =
  si_history :: signal_history
  si_has_bus :: bool
  si_ttl :: real
  si_dedupe_window :: real
  si_active :: "(string, strategy_signal list) pydict"
  si_events :: "quant_event list"

definition si_new :: "signal_history \<Rightarrow> bool \<Rightarrow> real \<Rightarrow> real \<Rightarrow> signal_engine" where
  "si_new h bus ttl window = \<lparr> si_history = h, si_has_bus = bus, si_ttl = ttl, si_dedupe_window = window,
     si_active = [], si_events = [] \<rparr>"

definition si_publish :: "quant_event \<Rightarrow> signal_engine \<Rightarrow> signal_engine" where
  "si_publish ev e = (if si_has_bus e then e\<lparr> si_events := si_events e @ [ev] \<rparr> else e)"

definition si_record :: "strategy_signal \<Rightarrow> signal_status \<Rightarrow> msg list \<Rightarrow> time \<Rightarrow> signal_engine \<Rightarrow> signal_engine" where
  "si_record s st reasons now e = e\<lparr> si_history := hs_record_signal s st reasons now (si_history e) \<rparr>"

definition is_expired :: "real \<Rightarrow> time \<Rightarrow> strategy_signal \<Rightarrow> bool" where
  "is_expired ttl now s = (case sg_expiration s of
       None \<Rightarrow> total_seconds (now - sg_timestamp s) > ttl
     | Some deadline \<Rightarrow> now \<ge> deadline)"

definition expire_one :: "time \<Rightarrow> string \<Rightarrow> strategy_signal \<Rightarrow> signal_engine \<Rightarrow> signal_engine" where
  "expire_one now symb s e =
     (let r = mk_record s SS_EXPIRED [Lit ''TTL alcanzado''] now in
      si_publish (EvSignalExpired (sg_strategy_name s) symb (sg_signal_id s) (py_or (sl_lifetime_seconds r) 0))
        (si_record s SS_EXPIRED [Lit ''TTL alcanzado''] now e))"

text \<open>One symbol of the pass: its stale signals are recorded in order, the others kept.\<close>

definition expire_symbol :: "time \<Rightarrow> string \<times> strategy_signal list \<Rightarrow> int \<times> signal_engine \<Rightarrow> int \<times> signal_engine" where
  "expire_symbol now entry acc =
     (case (entry, acc) of ((symb, signals), (n, e)) \<Rightarrow>
        let gone = filter (is_expired (si_ttl e) now) signals;
            keep = filter (\<lambda>s. \<not> is_expired (si_ttl e) now s) signals;
            e1 = fold (expire_one now symb) gone e
        in (n + int (length gone), e1\<lparr> si_active := pd_put (si_active e1) symb keep \<rparr>))"

definition expire_stale :: "time \<Rightarrow> signal_engine \<Rightarrow> int \<times> signal_engine" where
  "expire_stale now e = fold (expire_symbol now) (si_active e) (0, e)"

definition same_source :: "strategy_signal \<Rightarrow> strategy_signal \<Rightarrow> bool" where
  "same_source s existing \<longleftrightarrow> sg_strategy_name existing = sg_strategy_name s \<and> sg_direction existing = sg_direction s"

definition find_duplicate :: "real \<Rightarrow> strategy_signal list \<Rightarrow> strategy_signal \<Rightarrow> strategy_signal option" where
  "find_duplicate window active s =
     (case List.find (\<lambda>x. same_source s x \<and> total_seconds (sg_timestamp s - sg_timestamp x) \<le> window) active of
        Some x \<Rightarrow> Some x
      | None \<Rightarrow> List.find (same_source s) active)"

text \<open>\<open>active.sort(key=priority, reverse=True)\<close> is stable.\<close>

definition by_priority :: "strategy_signal list \<Rightarrow> strategy_signal list" where
  "by_priority ss = sort_key (\<lambda>s. - sg_priority s) ss"

definition si_submit :: "time \<Rightarrow> strategy_signal \<Rightarrow> signal_engine \<Rightarrow> bool \<times> signal_engine" where
  "si_submit now s e =
     (let problems = sv_validate now s in
      if problems \<noteq> []
      then (False, si_publish (EvSignalRejected (sg_strategy_name s) (sg_symbol s) problems ''validation'')
              (si_record s SS_REJECTED problems now e))
      else
        let e1 = snd (expire_stale now e);
            active = pd_get_or (si_active e1) (sg_symbol s) [];
            (active1, e2) = (case find_duplicate (si_dedupe_window e1) active s of
               None \<Rightarrow> (active, e1)
             | Some d \<Rightarrow> (remove1 d active, si_record d SS_SUPERSEDED
                 [Fmt ''reemplazada por {}'' [ArgStr (sg_signal_id s)]] now e1));
            e3 = e2\<lparr> si_active := pd_put (si_active e2) (sg_symbol s) (by_priority (active1 @ [s])) \<rparr>
        in (True, si_publish (EvSignalCreated (sg_strategy_name s) (sg_symbol s) (direction_value (sg_direction s))
                 (sg_confidence s) (sg_signal_id s) (sg_score s)) e3))"

definition active_signals :: "time \<Rightarrow> string \<Rightarrow> signal_engine \<Rightarrow> strategy_signal list \<times> signal_engine" where
  "active_signals now symb e =
     (let e1 = snd (expire_stale now e) in (pd_get_or (si_active e1) (upper symb) [], e1))"

definition symbols_with_signals :: "time \<Rightarrow> signal_engine \<Rightarrow> string list \<times> signal_engine" where
  "symbols_with_signals now e =
     (let e1 = snd (expire_stale now e) in
      (sorted_names (map fst (filter (\<lambda>(symb, ss). ss \<noteq> []) (si_active e1))), e1))"

definition detect_conflict :: "string \<Rightarrow> signal_engine \<Rightarrow> bool" where
  "detect_conflict symb e =
     (length (remdups (map sg_direction (actionable (pd_get_or (si_active e) (upper symb) [])))) > 1)"

definition si_consume :: "time \<Rightarrow> string \<Rightarrow> signal_status \<Rightarrow> msg list \<Rightarrow> signal_engine \<Rightarrow> signal_engine" where
  "si_consume now symb st reasons e =
     fold (\<lambda>s. si_record s st reasons now) (pd_get_or (si_active e) (upper symb) [])
       (e\<lparr> si_active := pd_pop (si_active e) (upper symb) \<rparr>)"

definition si_status :: "signal_engine \<Rightarrow> json_dict" where
  "si_status e = [(''active_by_symbol'', JObj (map (\<lambda>(symb, ss). (symb, JInt (int (length ss))))
       (filter (\<lambda>(symb, ss). ss \<noteq> []) (si_active e)))),
     (''conflicts'', JList (map JStr (filter (\<lambda>symb. detect_conflict symb e) (pd_keys (si_active e)))))]"

section \<open>What the operations keep\<close>

definition sound_signal :: "strategy_signal \<Rightarrow> bool" where
  "sound_signal s \<longleftrightarrow> sg_symbol s \<noteq> [] \<and> sg_strategy_name s \<notin> {[], ''unnamed''}
     \<and> 0 \<le> sg_confidence s \<and> sg_confidence s \<le> 1 \<and> 0 \<le> sg_score s \<and> sg_score s \<le> 100
     \<and> sg_reasons s \<noteq> [] \<and> level_checks s = []"

lemma validate_iff:
  "sv_validate now s = [] \<longleftrightarrow> sound_signal s \<and> (case sg_expiration s of None \<Rightarrow> True | Some t \<Rightarrow> now < t)"
  by (auto simp: sv_validate_def sound_signal_def split: option.splits if_splits)

text \<open>A sound directional signal with a zone has its stop on the losing and its target on the winning side.\<close>

lemma sound_levels:
  assumes "sound_signal s" "sg_entry_zone s = Some z" "sg_direction s \<noteq> Dir_Neutral"
  shows "ez_low z \<le> ez_high z"
    and "sg_stop_loss s = Some sl \<Longrightarrow> if sg_direction s = Dir_Long then sl < ez_mid z else ez_mid z < sl"
    and "sg_take_profit s = Some tp \<Longrightarrow> if sg_direction s = Dir_Long then ez_mid z < tp else tp < ez_mid z"
  using assms by (auto simp: sound_signal_def level_checks_def Let_def split: if_splits option.splits)

abbreviation sunk :: "signal_engine \<Rightarrow> strategy_signal list" where
  "sunk e \<equiv> map sl_signal (hs_sunk (si_history e))"

lemma si_publish_frame [simp]:
  "si_history (si_publish ev e) = si_history e" "si_active (si_publish ev e) = si_active e"
  "si_ttl (si_publish ev e) = si_ttl e" "si_dedupe_window (si_publish ev e) = si_dedupe_window e"
  "si_has_bus (si_publish ev e) = si_has_bus e"
  by (simp_all add: si_publish_def)

lemma record_frame [simp]:
  "si_active (si_record s st rs now e) = si_active e" "si_ttl (si_record s st rs now e) = si_ttl e"
  "si_dedupe_window (si_record s st rs now e) = si_dedupe_window e" "sunk (si_record s st rs now e) = sunk e @ [s]"
  by (simp_all add: si_record_def hs_record_signal_def Let_def mk_record_def)

lemma record_sunk [simp]: "hs_sunk (si_history (si_record s st rs now e)) = hs_sunk (si_history e) @ [mk_record s st rs now]"
  by (simp add: si_record_def hs_record_signal_def Let_def)

lemma sl_signal_mk [simp]: "sl_signal (mk_record s st rs now) = s"
  by (simp add: mk_record_def)

lemma expire_one_frame [simp]:
  "si_active (expire_one now symb s e) = si_active e" "si_ttl (expire_one now symb s e) = si_ttl e"
  "si_dedupe_window (expire_one now symb s e) = si_dedupe_window e" "sunk (expire_one now symb s e) = sunk e @ [s]"
  by (simp_all add: expire_one_def Let_def)

lemma fold_expire_one [simp]:
  "si_active (fold (expire_one now symb) ss e) = si_active e" "si_ttl (fold (expire_one now symb) ss e) = si_ttl e"
  "si_dedupe_window (fold (expire_one now symb) ss e) = si_dedupe_window e"
  "sunk (fold (expire_one now symb) ss e) = sunk e @ ss"
  by (induction ss arbitrary: e) simp_all

lemma pd_put_middle: "k \<notin> set (pd_keys pre) \<Longrightarrow> pd_put (pre @ (k, v) # post) k v' = pre @ (k, v') # post"
  by (induction pre) (auto simp: pd_keys_def)

definition kept_entry :: "real \<Rightarrow> time \<Rightarrow> string \<times> strategy_signal list \<Rightarrow> string \<times> strategy_signal list" where
  "kept_entry ttl now x = (fst x, filter (\<lambda>s. \<not> is_expired ttl now s) (snd x))"

definition gone_of :: "real \<Rightarrow> time \<Rightarrow> string \<times> strategy_signal list \<Rightarrow> strategy_signal list" where
  "gone_of ttl now x = filter (is_expired ttl now) (snd x)"

lemma kept_pair: "kept_entry ttl now (k, ss) = (k, filter (\<lambda>s. \<not> is_expired ttl now s) ss)"
  by (simp add: kept_entry_def)

lemma expire_fold:
  assumes "pd_wf (pre @ post)" "si_active e = map (kept_entry (si_ttl e) now) pre @ post"
  shows "let e' = snd (fold (expire_symbol now) post (n, e)) in
     si_active e' = map (kept_entry (si_ttl e) now) (pre @ post) \<and> si_ttl e' = si_ttl e
     \<and> si_dedupe_window e' = si_dedupe_window e \<and> sunk e' = sunk e @ concat (map (gone_of (si_ttl e) now) post)"
  using assms
proof (induction post arbitrary: pre n e)
  case Nil
  then show ?case by simp
next
  case (Cons x post)
  obtain symb ss where x: "x = (symb, ss)" by (cases x)
  obtain m e1 where e1: "expire_symbol now x (n, e) = (m, e1)" by fastforce
  have new: "symb \<notin> set (pd_keys (map (kept_entry (si_ttl e) now) pre))"
    using Cons.prems(1) by (auto simp: x pd_wf_def pd_keys_def kept_entry_def)
  have a: "si_active e1 = map (kept_entry (si_ttl e1) now) (pre @ [x]) @ post"
    and f: "si_ttl e1 = si_ttl e" "si_dedupe_window e1 = si_dedupe_window e" "sunk e1 = sunk e @ gone_of (si_ttl e) now x"
    using e1 Cons.prems(2) pd_put_middle [OF new]
    by (auto simp: expire_symbol_def x Let_def kept_pair gone_of_def)
  have "pd_wf ((pre @ [x]) @ post)" using Cons.prems(1) by simp
  from Cons.IH [OF this a, of m] show ?case
    by (simp add: e1 f Let_def)
qed

lemma expire_stale_is:
  assumes "pd_wf (si_active e)"
  shows "si_active (snd (expire_stale now e)) = map (kept_entry (si_ttl e) now) (si_active e)"
    and "si_dedupe_window (snd (expire_stale now e)) = si_dedupe_window e" "si_ttl (snd (expire_stale now e)) = si_ttl e"
    and "sunk (snd (expire_stale now e)) = sunk e @ concat (map (gone_of (si_ttl e) now) (si_active e))"
  using expire_fold [of "[]" "si_active e" e now 0] assms by (simp_all add: expire_stale_def Let_def)

lemma kept_keys [simp]: "map fst (map (kept_entry ttl now) d) = map fst d"
  by (simp add: kept_entry_def comp_def)

lemma kept_get: "pd_get (map (kept_entry ttl now) d) k = map_option (filter (\<lambda>s. \<not> is_expired ttl now s)) (pd_get d k)"
  by (induction d) (auto simp: pd_get_def kept_entry_def)

lemma kept_wf [simp]: "pd_wf (map (kept_entry ttl now) d) \<longleftrightarrow> pd_wf d"
  by (simp only: pd_wf_def kept_keys)

section \<open>The ledger of signals\<close>

text \<open>Every signal that was submitted and not lost: the resolved ones and the active ones.\<close>

definition ledger :: "signal_engine \<Rightarrow> strategy_signal multiset" where
  "ledger e = mset (sunk e) + mset (concat (pd_values (si_active e)))"

lemma mset_split_expired:
  "mset (concat (map (gone_of ttl now) d)) + mset (concat (pd_values (map (kept_entry ttl now) d))) = mset (concat (pd_values d))"
proof (induction d)
  case (Cons x d)
  have "mset (gone_of ttl now x) + mset (snd (kept_entry ttl now x)) = mset (snd x)"
    by (simp add: gone_of_def kept_entry_def)
  with Cons show ?case
    by (simp add: pd_values_def) (metis (no_types, lifting) add.assoc add.left_commute)
qed (simp add: pd_values_def)

lemma ledger_expire: "pd_wf (si_active e) \<Longrightarrow> ledger (snd (expire_stale now e)) = ledger e"
  using mset_split_expired [of "si_ttl e" now "si_active e"]
  by (simp add: ledger_def expire_stale_is)

lemma concat_put:
  "mset (concat (pd_values (pd_put d k v))) + mset (pd_get_or d k []) = mset (concat (pd_values d)) + mset v"
  by (induction d k v rule: pd_put.induct) (auto simp: pd_values_def pd_get_or_def pd_get_def split: option.splits)

lemma concat_pop:
  "pd_wf d \<Longrightarrow> mset (concat (pd_values (pd_pop d k))) + mset (pd_get_or d k []) = mset (concat (pd_values d))"
proof (induction d)
  case (Cons x d)
  then show ?case
    using pd_pop_absent [of k d]
    by (cases "fst x = k") (auto simp: pd_values_def pd_get_or_def pd_get_def pd_pop_def pd_wf_def pd_keys_def split: option.splits)
qed (simp add: pd_values_def pd_pop_def pd_get_or_def)

section \<open>The invariant of the registry\<close>

definition source_of :: "strategy_signal \<Rightarrow> string \<times> direction" where
  "source_of s = (sg_strategy_name s, sg_direction s)"

definition bucket_ok :: "string \<Rightarrow> strategy_signal list \<Rightarrow> bool" where
  "bucket_ok symb ss \<longleftrightarrow> sorted (map (\<lambda>s. - sg_priority s) ss) \<and> distinct (map source_of ss)
     \<and> (\<forall>s \<in> set ss. sg_symbol s = symb \<and> sound_signal s)"

definition registry_ok :: "signal_engine \<Rightarrow> bool" where
  "registry_ok e \<longleftrightarrow> pd_wf (si_active e) \<and> (\<forall>(symb, ss) \<in> set (si_active e). bucket_ok symb ss)"

lemma same_source_iff: "same_source s x \<longleftrightarrow> source_of x = source_of s"
  by (auto simp: same_source_def source_of_def)

lemma find_unique:
  assumes "distinct (map source_of ss)" "x \<in> set ss" "source_of x = source_of s"
  shows "find (same_source s) ss = Some x"
  using assms by (induction ss) (auto simp: same_source_iff rev_image_eqI)

text \<open>Because a bucket holds one signal per strategy and direction, the dedupe window decides nothing.\<close>

lemma dedupe_window_irrelevant:
  assumes "distinct (map source_of ss)"
  shows "find_duplicate w ss s = find (same_source s) ss"
proof (cases "List.find (\<lambda>x. same_source s x \<and> total_seconds (sg_timestamp s - sg_timestamp x) \<le> w) ss")
  case (Some x)
  then have "x \<in> set ss" "source_of x = source_of s"
    by (auto simp: find_Some_iff same_source_iff)
  with Some find_unique [OF assms] show ?thesis by (simp add: find_duplicate_def)
qed (simp add: find_duplicate_def)

lemma sorted_filter_priority: "sorted (map f ss) \<Longrightarrow> sorted (map f (filter P ss))"
  by (rule sorted_filter)

lemma bucket_filter: "bucket_ok symb ss \<Longrightarrow> bucket_ok symb (filter P ss)"
  by (simp add: bucket_ok_def sorted_filter_priority distinct_map_filter)

lemma bucket_nil [simp]: "bucket_ok symb []"
  by (simp add: bucket_ok_def)

lemma bucket_insert:
  assumes "bucket_ok symb ss" "sound_signal s" "sg_symbol s = symb" "source_of s \<notin> source_of ` set ss"
  shows "bucket_ok symb (by_priority (ss @ [s]))"
proof -
  have "mset (map source_of (by_priority (ss @ [s]))) = mset (map source_of (ss @ [s]))"
    by (simp add: by_priority_def)
  moreover have "distinct (map source_of (ss @ [s]))"
    using assms(1,4) by (auto simp: bucket_ok_def)
  ultimately have "distinct (map source_of (by_priority (ss @ [s])))"
    using mset_eq_imp_distinct_iff by blast
  moreover have "sorted (map (\<lambda>s. - sg_priority s) (by_priority (ss @ [s])))"
    by (simp add: by_priority_def)
  ultimately show ?thesis
    using assms by (auto simp: bucket_ok_def by_priority_def)
qed

lemma bucket_get: "registry_ok e \<Longrightarrow> bucket_ok symb (pd_get_or (si_active e) symb [])"
  by (auto simp: registry_ok_def pd_get_or_def pd_get_def split: option.splits dest!: map_of_SomeD)

lemma registry_put:
  assumes "registry_ok e" "bucket_ok symb ss"
  shows "registry_ok (e\<lparr> si_active := pd_put (si_active e) symb ss \<rparr>)"
proof -
  have sub: "set (pd_put d symb ss) \<subseteq> insert (symb, ss) (set d)" for d
    by (induction d symb ss rule: pd_put.induct) auto
  show ?thesis
    using assms subsetD [OF sub, of _ "si_active e"] unfolding registry_ok_def by fastforce
qed

lemma registry_cong: "si_active e' = si_active e \<Longrightarrow> registry_ok e' = registry_ok e"
  by (simp add: registry_ok_def)

lemma registry_frames [simp]:
  "registry_ok (si_publish ev e) = registry_ok e" "registry_ok (si_record s st rs now e) = registry_ok e"
  by (rule registry_cong, simp)+

lemma registry_expire: "registry_ok e \<Longrightarrow> registry_ok (snd (expire_stale now e))"
  by (auto simp: registry_ok_def expire_stale_is kept_entry_def bucket_filter)

lemma fold_record_frame [simp]:
  "si_active (fold (\<lambda>s. si_record s st rs now) ss e) = si_active e" "sunk (fold (\<lambda>s. si_record s st rs now) ss e) = sunk e @ ss"
  by (induction ss arbitrary: e) simp_all

lemma registry_consume: "registry_ok e \<Longrightarrow> registry_ok (si_consume now symb st rs e)"
  using pd_wf_pop [of "si_active e" "upper symb"] by (auto simp: registry_ok_def si_consume_def pd_pop_def)

text \<open>A submission: refused signals are recorded, accepted ones join their bucket and replace their source.\<close>

lemma submit_keeps:
  assumes "registry_ok e" "si_submit now s e = (b, e')"
  shows "registry_ok e'" "ledger e' = add_mset s (ledger e)" "b \<longleftrightarrow> sv_validate now s = []"
    "si_ttl e' = si_ttl e"
proof -
  have "registry_ok e' \<and> ledger e' = add_mset s (ledger e) \<and> b = (sv_validate now s = []) \<and> si_ttl e' = si_ttl e"
  proof (cases "sv_validate now s = []")
    case False
    then show ?thesis using assms by (auto simp: si_submit_def Let_def ledger_def)
  next
    case True
    let ?e1 = "snd (expire_stale now e)"
    let ?active = "pd_get_or (si_active ?e1) (sg_symbol s) []"
    have wf: "pd_wf (si_active e)" using assms(1) by (simp add: registry_ok_def)
    have ok: "registry_ok ?e1" by (rule registry_expire [OF assms(1)])
    have l: "ledger ?e1 = ledger e" and t: "si_ttl ?e1 = si_ttl e"
      using wf by (simp_all add: ledger_expire expire_stale_is)
    note b = bucket_get [OF ok, of "sg_symbol s"]
    have put: "mset (concat (pd_values (pd_put (si_active ?e1) (sg_symbol s) v))) + mset ?active
        = mset (concat (pd_values (si_active ?e1))) + mset v" for v
      by (rule concat_put)
    have sound: "sound_signal s" using True by (simp add: validate_iff)
    have dup: "find_duplicate (si_dedupe_window ?e1) ?active s = find (same_source s) ?active"
      using b by (intro dedupe_window_irrelevant) (simp add: bucket_ok_def)
    show ?thesis
    proof (cases "find (same_source s) ?active")
      case None
      then have "source_of s \<notin> source_of ` set ?active"
        by (auto simp: find_None_iff same_source_iff)
      then have "registry_ok (?e1\<lparr> si_active := pd_put (si_active ?e1) (sg_symbol s) (by_priority (?active @ [s])) \<rparr>)"
        by (intro registry_put ok bucket_insert b sound) simp_all
      then show ?thesis
        using assms(2) True None dup put [of "by_priority (?active @ [s])"] l t
        by (auto simp: si_submit_def Let_def ledger_def by_priority_def add.assoc)
    next
      case (Some d)
      then have d: "d \<in> set ?active" "source_of d = source_of s"
        by (auto simp: find_Some_iff same_source_iff)
      have dist: "distinct (map source_of ?active)" using b by (simp add: bucket_ok_def)
      then have r: "remove1 d ?active = filter (\<lambda>x. x \<noteq> d) ?active"
        by (auto simp: distinct_remove1_removeAll distinct_map removeAll_filter_not_eq intro: filter_cong)
      have "source_of s \<notin> source_of ` set (filter (\<lambda>x. x \<noteq> d) ?active)"
        using dist d by (auto simp: distinct_map inj_on_def)
      then have "registry_ok (?e1\<lparr> si_active := pd_put (si_active ?e1) (sg_symbol s) (by_priority (remove1 d ?active @ [s])) \<rparr>)"
        unfolding r by (intro registry_put ok bucket_insert bucket_filter b sound) simp_all
      then have reg: "registry_ok e'"
        using assms(2) True Some dup by (auto simp: si_submit_def Let_def registry_ok_def)
      let ?rest = "by_priority (remove1 d ?active @ [s])"
      have m: "mset ?active = mset (remove1 d ?active) + {#d#}" "mset ?rest = mset (remove1 d ?active) + {#s#}"
        using d(1) by (simp_all add: by_priority_def)
      have "mset (concat (pd_values (pd_put (si_active ?e1) (sg_symbol s) ?rest))) + {#d#}
          = mset (concat (pd_values (si_active ?e1))) + {#s#}"
        using put [of ?rest] unfolding m by (simp add: ac_simps)
      moreover have "sunk e' = sunk ?e1 @ [d]"
        "si_active e' = pd_put (si_active ?e1) (sg_symbol s) ?rest"
        using assms(2) True Some dup by (auto simp: si_submit_def Let_def)
      ultimately have "ledger e' = add_mset s (ledger ?e1)"
        by (simp add: ledger_def ac_simps)
      then have "ledger e' = add_mset s (ledger e)" using l by simp
      with reg show ?thesis
        using assms(2) True Some dup t by (auto simp: si_submit_def Let_def)
    qed
  qed
  then show "registry_ok e'" "ledger e' = add_mset s (ledger e)" "b \<longleftrightarrow> sv_validate now s = []" "si_ttl e' = si_ttl e"
    by simp_all
qed

lemma ledger_consume: "registry_ok e \<Longrightarrow> ledger (si_consume now symb st rs e) = ledger e"
  using concat_pop [of "si_active e" "upper symb"]
  by (simp add: ledger_def si_consume_def registry_ok_def add.assoc [symmetric]) (metis add.commute)

text \<open>The life of a registry: submissions, expiry passes and decisions that consume a symbol.\<close>

datatype registry_event =
  Submitted time strategy_signal
| Swept time
| Consumed time string signal_status "msg list"

fun registry_step :: "registry_event \<Rightarrow> signal_engine \<Rightarrow> signal_engine" where
  "registry_step (Submitted now s) e = snd (si_submit now s e)"
| "registry_step (Swept now) e = snd (expire_stale now e)"
| "registry_step (Consumed now symb st rs) e = si_consume now symb st rs e"

fun submissions :: "registry_event list \<Rightarrow> strategy_signal list" where
  "submissions [] = []"
| "submissions (Submitted now s # es) = s # submissions es"
| "submissions (_ # es) = submissions es"

lemma consume_ttl [simp]: "si_ttl (si_consume now symb st rs e) = si_ttl e"
proof -
  have "si_ttl (fold (\<lambda>s. si_record s st rs now) ss e) = si_ttl e" for ss e
    by (induction ss arbitrary: e) simp_all
  then show ?thesis by (simp add: si_consume_def)
qed

lemma registry_run:
  assumes "registry_ok e"
  shows "registry_ok (fold registry_step es e) \<and> ledger (fold registry_step es e) = ledger e + mset (submissions es)
    \<and> si_ttl (fold registry_step es e) = si_ttl e"
  using assms
proof (induction es arbitrary: e)
  case (Cons ev es)
  have "registry_ok (registry_step ev e) \<and> ledger (registry_step ev e) = ledger e + mset (submissions [ev])
      \<and> si_ttl (registry_step ev e) = si_ttl e"
  proof (cases ev)
    case (Submitted now s)
    obtain b e' where "si_submit now s e = (b, e')" by fastforce
    with submit_keeps [OF Cons.prems this] Submitted show ?thesis by simp
  next
    case (Swept now)
    then show ?thesis
      using Cons.prems registry_expire [OF Cons.prems, of now] ledger_expire [of e now] expire_stale_is(3) [of e now]
      by (simp add: registry_ok_def)
  next
    case (Consumed now symb st rs)
    then show ?thesis
      using Cons.prems by (simp add: registry_consume ledger_consume)
  qed
  moreover have "submissions (ev # es) = submissions [ev] @ submissions es" by (cases ev) simp_all
  ultimately show ?case using Cons.IH [of "registry_step ev e"] by (simp add: add.assoc)
qed simp

lemma registry_new [simp]: "registry_ok (si_new h bus ttl w)" "ledger (si_new h bus ttl w) = mset (map sl_signal (hs_sunk h))"
  by (simp_all add: si_new_def registry_ok_def ledger_def pd_values_def)

lemma active_signals_fresh:
  assumes "registry_ok e"
  shows "\<forall>s \<in> set (fst (active_signals now symb e)). \<not> is_expired (si_ttl e) now s"
    and "bucket_ok (upper symb) (fst (active_signals now symb e))"
  using assms bucket_get [OF registry_expire [OF assms], of "upper symb" now]
  by (auto simp: active_signals_def Let_def registry_ok_def expire_stale_is pd_get_or_def kept_get split: option.splits)

text \<open>
  Property C29: the registry of signals loses nothing and shows only what is valid.  After any
  submissions, expiry passes and decisions, from an empty registry: every submitted signal is either
  active or was resolved into the history, exactly once; and the signals shown for a symbol at any time
  are in order of priority, at most one per strategy and direction, structurally sound, of that symbol
  and not expired.
\<close>

theorem registry_accounts_for_signals:
  "let e = fold registry_step es (si_new (hs_new limit) bus ttl w);
       shown = fst (active_signals now symb e) in
     mset (submissions es) = mset (map sl_signal (hs_sunk (si_history e))) + mset (concat (pd_values (si_active e)))
     \<and> sorted (map (\<lambda>s. - sg_priority s) shown) \<and> distinct (map (\<lambda>s. (sg_strategy_name s, sg_direction s)) shown)
     \<and> (\<forall>s \<in> set shown. sg_symbol s = upper symb \<and> sound_signal s \<and> \<not> is_expired ttl now s)"
proof -
  let ?e = "fold registry_step es (si_new (hs_new limit) bus ttl w)"
  have r: "registry_ok ?e" "ledger ?e = mset (submissions es)" "si_ttl ?e = ttl"
    using registry_run [of "si_new (hs_new limit) bus ttl w" es] by (simp_all add: hs_new_def) (simp add: si_new_def)
  from active_signals_fresh(1) [OF r(1), where now = now and symb = symb] active_signals_fresh(2) [OF r(1), where now = now and symb = symb] r(2,3) show ?thesis
    by (simp add: Let_def ledger_def bucket_ok_def source_of_def [abs_def])
qed

theorem registry_accounts_for_signals_witness:
  "let e = fold registry_step [Submitted 0 (mk_signal ''1'' ''a'' ''X'' 0 Dir_Long 1 50), Submitted 1 (mk_signal ''2'' ''a'' ''X'' 1 Dir_Long 1 60)]
       (si_new (hs_new 10) True 300 60) in length (hs_sunk (si_history e)) + length (concat (pd_values (si_active e))) = 2"
proof -
  let ?es = "[Submitted 0 (mk_signal ''1'' ''a'' ''X'' 0 Dir_Long 1 50), Submitted 1 (mk_signal ''2'' ''a'' ''X'' 1 Dir_Long 1 60)]"
  define e where "e = fold registry_step ?es (si_new (hs_new 10) True 300 60)"
  have "mset (submissions ?es) = mset (map sl_signal (hs_sunk (si_history e))) + mset (concat (pd_values (si_active e)))"
    using registry_accounts_for_signals [of ?es 10 True 300 60 0 "''X''"] unfolding Let_def e_def [symmetric] by (rule conjunct1)
  from arg_cong [OF this, of size] have "length (hs_sunk (si_history e)) + length (concat (pd_values (si_active e))) = 2"
    by (simp only: submissions.simps size_mset size_union length_map list.size)
  then show ?thesis unfolding Let_def e_def .
qed

text \<open>A signal with a symbol that is not in upper case is accepted and announced, but never shown.\<close>

lemma lower_case_symbol_unseen:
  assumes "registry_ok e" "sv_validate now s = []" "upper symb \<noteq> sg_symbol s"
  shows "s \<notin> set (fst (active_signals now' symb (snd (si_submit now s e))))"
proof -
  obtain b e' where e': "si_submit now s e = (b, e')" by fastforce
  from active_signals_fresh(2) [OF submit_keeps(1) [OF assms(1) e'], where now = now' and symb = symb] assms(3) e' show ?thesis
    by (auto simp: bucket_ok_def)
qed

end
