(* ===== verification/History_Writer.thy ===== *)
theory History_Writer
  imports Signal_Engine
begin

text \<open>
  The batched persistence of signals and decisions (\<open>app/engine/state_manager/writer.py\<close>).  A JSON text
  is the tree it parses to; whether the database took a batch and whether the spill file could be
  written are arguments of a flush; tables and spill files are part of the state.
\<close>

record history_settings =
  hc_memory_limit :: nat
  hc_persist :: bool
  hc_batch_size :: nat

definition default_history_settings :: history_settings where
  "default_history_settings = \<lparr> hc_memory_limit = 10000, hc_persist = True, hc_batch_size = 500 \<rparr>"

type_synonym history_row = "string \<times> json_dict"

record history_writer =
  hw_settings :: history_settings
  hw_signals :: "history_row list"
  hw_decisions :: "history_row list"
  hw_db_available :: bool
  hw_rows_written :: int
  hw_rows_spilled :: int
  hw_signal_table :: "history_row list"
  hw_decision_table :: "history_row list"
  hw_signal_spill :: "history_row list"
  hw_decision_spill :: "history_row list"

definition hw_new :: "history_settings \<Rightarrow> history_writer" where
  "hw_new s = \<lparr> hw_settings = s, hw_signals = [], hw_decisions = [], hw_db_available = True, hw_rows_written = 0,
     hw_rows_spilled = 0, hw_signal_table = [], hw_decision_table = [], hw_signal_spill = [], hw_decision_spill = [] \<rparr>"

definition signal_row :: "pylib \<Rightarrow> signal_record \<Rightarrow> history_row" where
  "signal_row L r = (let s = sl_signal r in (sg_signal_id s,
     [(''signal_id'', JStr (sg_signal_id s)), (''strategy'', JStr (sg_strategy_name s)), (''symbol'', JStr (sg_symbol s)),
      (''direction'', JStr (direction_value (sg_direction s))), (''score'', JNum (sg_score s)),
      (''confidence'', JNum (sg_confidence s)), (''status'', JStr (signal_status_value (sl_status r))),
      (''status_reasons'', json_msgs L (sl_status_reasons r)), (''payload'', JObj (sg_to_dict L s)),
      (''created_at'', json_iso (Some (sl_recorded_at r))), (''resolved_at'', json_iso (sl_resolved_at r))]))"

definition hw_add_signal :: "pylib \<Rightarrow> signal_record \<Rightarrow> history_writer \<Rightarrow> history_writer" where
  "hw_add_signal L r w = (if \<not> hc_persist (hw_settings w) then w
     else w\<lparr> hw_signals := deque_append (hc_memory_limit (hw_settings w)) (signal_row L r) (hw_signals w) \<rparr>)"

definition decision_row :: "pylib \<Rightarrow> decision \<Rightarrow> history_row" where
  "decision_row L d = (dn_decision_id d,
     [(''decision_id'', JStr (dn_decision_id d)), (''symbol'', JStr (dn_symbol d)),
      (''action'', JStr (decision_action_value (dn_action d))), (''accepted'', JBool (dn_accepted d)),
      (''score'', JNum (dn_score d)), (''confidence'', JNum (dn_confidence d)), (''agreement'', JNum (dn_agreement d)),
      (''regime'', JStr (dn_regime d)), (''payload'', JObj (dn_to_dict L d)),
      (''created_at'', json_iso (Some (dn_timestamp d)))])"

definition hw_add_decision :: "pylib \<Rightarrow> decision \<Rightarrow> history_writer \<Rightarrow> history_writer" where
  "hw_add_decision L d w = (if \<not> hc_persist (hw_settings w) then w
     else w\<lparr> hw_decisions := deque_append (hc_memory_limit (hw_settings w)) (decision_row L d) (hw_decisions w) \<rparr>)"

text \<open>\<open>ON CONFLICT (key) DO NOTHING\<close>.\<close>

definition insert_row :: "history_row \<Rightarrow> history_row list \<Rightarrow> history_row list" where
  "insert_row r table = (if fst r \<in> fst ` set table then table else table @ [r])"

text \<open>One batch of a buffer: the rest of the buffer, the table and the spill file after it, and the writer's flags.\<close>

definition flush_batch :: "bool \<times> bool \<Rightarrow> history_row list \<times> history_row list \<times> history_row list \<Rightarrow> history_writer
    \<Rightarrow> (history_row list \<times> history_row list \<times> history_row list) \<times> history_writer" where
  "flush_batch outcome rows w =
     (case (outcome, rows) of ((db_ok, spill_ok), (buffer, table, spill)) \<Rightarrow>
        if buffer = [] then (rows, w) else
        let batch = take (hc_batch_size (hw_settings w)) buffer; rest = drop (hc_batch_size (hw_settings w)) buffer in
        if db_ok
        then ((rest, fold insert_row batch table, spill),
              w\<lparr> hw_rows_written := hw_rows_written w + int (length batch), hw_db_available := True \<rparr>)
        else if spill_ok
        then ((rest, table, spill @ batch),
              w\<lparr> hw_db_available := False, hw_rows_spilled := hw_rows_spilled w + int (length batch) \<rparr>)
        else ((rest, table, spill), w\<lparr> hw_db_available := False \<rparr>))"

definition hw_flush :: "bool \<times> bool \<Rightarrow> bool \<times> bool \<Rightarrow> history_writer \<Rightarrow> history_writer" where
  "hw_flush signals decisions w =
     (let ((b, t, s), w1) = flush_batch signals (hw_signals w, hw_signal_table w, hw_signal_spill w) w;
          w2 = w1\<lparr> hw_signals := b, hw_signal_table := t, hw_signal_spill := s \<rparr>;
          ((b', t', s'), w3) = flush_batch decisions (hw_decisions w2, hw_decision_table w2, hw_decision_spill w2) w2
      in w3\<lparr> hw_decisions := b', hw_decision_table := t', hw_decision_spill := s' \<rparr>)"

definition hw_on_stop :: "bool \<times> bool \<Rightarrow> bool \<times> bool \<Rightarrow> history_writer \<Rightarrow> history_writer" where
  "hw_on_stop signals decisions w = hw_flush signals decisions w"

definition hw_status :: "history_writer \<Rightarrow> json_dict" where
  "hw_status w = [(''persist'', JBool (hc_persist (hw_settings w))), (''db_available'', JBool (hw_db_available w)),
     (''pending_signals'', JInt (int (length (hw_signals w)))), (''pending_decisions'', JInt (int (length (hw_decisions w)))),
     (''rows_written'', JInt (hw_rows_written w)), (''rows_spilled'', JInt (hw_rows_spilled w))]"

section \<open>Rows are kept\<close>

lemma insert_row_keys: "fst ` set (insert_row r t) = insert (fst r) (fst ` set t)"
  by (auto simp: insert_row_def)

lemma insert_row_distinct: "distinct (map fst t) \<Longrightarrow> distinct (map fst (insert_row r t))"
  by (auto simp: insert_row_def)

lemma fold_insert_keys: "fst ` set (fold insert_row rs t) = fst ` set rs \<union> fst ` set t"
  by (induction rs arbitrary: t) (auto simp: insert_row_keys)

lemma fold_insert_distinct: "distinct (map fst t) \<Longrightarrow> distinct (map fst (fold insert_row rs t))"
  by (induction rs arbitrary: t) (simp_all add: insert_row_distinct)

text \<open>
  A flush whose database or spill file works loses no id: what was buffered, stored or spilled still is.
\<close>

lemma flush_batch_keeps:
  assumes "db_ok \<or> spill_ok" "flush_batch (db_ok, spill_ok) (b, t, s) w = ((b', t', s'), w')"
  shows "fst ` set b' \<union> fst ` set t' \<union> fst ` set s' = fst ` set b \<union> fst ` set t \<union> fst ` set s"
    and "distinct (map fst t) \<Longrightarrow> distinct (map fst t')"
proof -
  have "set (take n xs) \<union> set (drop n xs) = set xs" for n and xs :: "history_row list"
    by (metis append_take_drop_id set_append)
  then have u: "fst ` set (take n b) \<union> fst ` set (drop n b) = fst ` set b" for n
    by (metis image_Un)
  show "fst ` set b' \<union> fst ` set t' \<union> fst ` set s' = fst ` set b \<union> fst ` set t \<union> fst ` set s"
  proof -
    let ?n = "hc_batch_size (hw_settings w)"
    have "b' = b \<and> t' = t \<and> s' = s \<or> b' = drop ?n b \<and> t' = fold insert_row (take ?n b) t \<and> s' = s
        \<or> b' = drop ?n b \<and> t' = t \<and> s' = s @ take ?n b"
      using assms by (auto simp: flush_batch_def Let_def split: if_splits)
    then show ?thesis
      using u [of ?n] by (elim disjE) (simp_all only: fold_insert_keys set_append image_Un, blast+)
  qed
  show "distinct (map fst t) \<Longrightarrow> distinct (map fst t')"
    using assms(2) by (auto simp: flush_batch_def Let_def fold_insert_distinct split: if_splits)
qed

end
