(* ===== verification/Decision_Engine.thy ===== *)
theory Decision_Engine
  imports History_Writer
begin

text \<open>
  Confidence, filters and the decision (\<open>app/engine/confidence\<close>, \<open>app/engine/filters\<close>,
  \<open>app/engine/decision_engine\<close>).  The market context of a symbol is an argument.  A decision reads the signals, then awaits
  the context, whose last price may come from the cache; what other coroutines do to the signal engine meanwhile is an
  argument of the evaluation.  Publishing an event only queues it.
\<close>

section \<open>Confidence\<close>

record confidence_engine =
  cf_settings :: quant_confidence_settings
  cf_history_factor :: "(string, real) pydict"

definition cf_set_history_factor :: "string \<Rightarrow> real \<Rightarrow> confidence_engine \<Rightarrow> confidence_engine" where
  "cf_set_history_factor strategy factor e =
     e\<lparr> cf_history_factor := pd_put (cf_history_factor e) strategy (max 0 (min 1 factor)) \<rparr>"

definition signal_confidence :: "strategy_signal list \<Rightarrow> real" where
  "signal_confidence ss = (if ss = [] then 0 else (\<Sum>s\<leftarrow>ss. sg_confidence s) / real (length ss))"

definition liquidity_factor :: "quant_context \<Rightarrow> real" where
  "liquidity_factor cx =
     (let v1 = (if qc_spread_elevated cx then 1 - 1/2 else 1);
          v2 = (if \<not> qc_volume_sufficient cx then v1 - 1/2 else v1)
      in max 0 v2)"

definition volatility_factor :: "quant_context \<Rightarrow> real" where
  "volatility_factor cx = (case qc_volatility cx of VS_HIGH \<Rightarrow> 1/2 | VS_LOW \<Rightarrow> 6/10 | VS_NORMAL \<Rightarrow> 1)"

definition confirmation_factor :: "strategy_signal list \<Rightarrow> real" where
  "confirmation_factor ss = (case ss of [] \<Rightarrow> 0 | [s] \<Rightarrow> if sg_required_confirmation s then 1/2 else 1 | _ \<Rightarrow> 1)"

definition history_factor :: "strategy_signal list \<Rightarrow> confidence_engine \<Rightarrow> real" where
  "history_factor ss e = (if ss = [] then 1/2
     else (\<Sum>s\<leftarrow>ss. pd_get_or (cf_history_factor e) (sg_strategy_name s) (1/2)) / real (length ss))"

definition cf_compute :: "strategy_signal list \<Rightarrow> consensus_result \<Rightarrow> quant_context \<Rightarrow> confidence_engine
    \<Rightarrow> real \<times> (string, real) pydict" where
  "cf_compute ss c cx e =
     (let s = cf_settings e;
          factors = [(''signal_confidence'', signal_confidence ss), (''agreement'', max 0 (min 1 (cr_agreement c))),
            (''data_quality'', qc_data_quality cx), (''liquidity'', liquidity_factor cx),
            (''volatility'', volatility_factor cx), (''confirmation'', confirmation_factor ss),
            (''history'', history_factor ss e)];
          ws = [qf_signal_confidence s, qf_agreement s, qf_data_quality s, qf_liquidity s, qf_volatility s,
            qf_confirmation s, qf_history s];
          tot = sum_list ws in
      if tot \<le> 0 then (0, factors) else
      let confidence = (\<Sum>(f, w)\<leftarrow>zip (map snd factors) ws. f * w) / tot
      in (py_round 4 (max 0 (min 1 confidence)), map (\<lambda>(n, v). (n, py_round 4 v)) factors))"

section \<open>Filters\<close>

datatype signal_filter =
  SessionFilter "string list" "string list"
| SpreadFilter
| VolatilityFilter
| LiquidityFilter
| NewsFilter
| DrawdownFilter real
| CorrelationFilter "string list list" real

fun filter_name :: "signal_filter \<Rightarrow> string" where
  "filter_name (SessionFilter _ _) = ''session''"
| "filter_name SpreadFilter = ''spread''"
| "filter_name VolatilityFilter = ''volatility''"
| "filter_name LiquidityFilter = ''liquidity''"
| "filter_name NewsFilter = ''news''"
| "filter_name (DrawdownFilter _) = ''drawdown''"
| "filter_name (CorrelationFilter _ _) = ''correlation''"

definition session_filter :: "string list \<Rightarrow> string list \<Rightarrow> signal_filter" where
  "session_filter allowed always_open = SessionFilter (map lower allowed) (map upper always_open)"

definition correlation_filter :: "string list list \<Rightarrow> real \<Rightarrow> signal_filter" where
  "correlation_filter grps minutes = CorrelationFilter (map (map upper) grps) (minutes * 60)"

text \<open>What the filters read besides their arguments: the clock, the drawdown and the recent decisions.\<close>

record filter_env =
  fv_now :: time
  fv_drawdown :: real
  fv_recent :: "decision list"

definition fl_pass :: "string \<Rightarrow> filter_result" where
  "fl_pass name = \<lparr> fl_name = name, fl_passed = True, fl_reason = Lit [] \<rparr>"

definition fl_block :: "string \<Rightarrow> msg \<Rightarrow> filter_result" where
  "fl_block name reason = \<lparr> fl_name = name, fl_passed = False, fl_reason = reason \<rparr>"

definition joined :: "string list \<Rightarrow> msg_arg" where
  "joined xs = ArgStr (concat (map (\<lambda>x. x @ '' '') xs))"

definition group_of :: "string list list \<Rightarrow> string \<Rightarrow> string list option" where
  "group_of grps symb = List.find (\<lambda>g. upper symb \<in> set g) grps"

definition correlated_with :: "string list \<Rightarrow> real \<Rightarrow> time \<Rightarrow> string \<Rightarrow> decision \<Rightarrow> bool" where
  "correlated_with grp window now symb d \<longleftrightarrow> dn_accepted d \<and> dn_symbol d \<noteq> upper symb \<and> dn_symbol d \<in> set grp
     \<and> total_seconds (now - dn_timestamp d) \<le> window"

fun fl_check :: "filter_env \<Rightarrow> quant_context \<Rightarrow> signal_filter \<Rightarrow> filter_result" where
  "fl_check env cx (SessionFilter allowed always_open) =
     (if upper (qc_symbol cx) \<in> set always_open then fl_pass ''session''
      else if set (map lower (qc_sessions cx)) \<inter> set allowed \<noteq> {} then fl_pass ''session''
      else let active = remdups (sorted_names (map lower (qc_sessions cx))) in
        fl_block ''session'' (Fmt ''sesion activa {} fuera de {}''
          [joined (if active = [] then [''ninguna''] else active), joined (remdups (sorted_names allowed))]))"
| "fl_check env cx SpreadFilter =
     (if \<not> qc_spread_elevated cx then fl_pass ''spread''
      else fl_block ''spread'' (case qc_spread_bps cx of
          Some b \<Rightarrow> Fmt ''spread elevado ({:.2f} bps)'' [ArgReal b] | None \<Rightarrow> Lit ''spread elevado''))"
| "fl_check env cx VolatilityFilter =
     (if qc_volatility cx \<noteq> VS_LOW then fl_pass ''volatility''
      else fl_block ''volatility'' (case qc_atr_pct cx of
          Some a \<Rightarrow> Fmt ''volatilidad insuficiente (ATR {:.3f}%)'' [ArgReal a] | None \<Rightarrow> Lit ''volatilidad insuficiente''))"
| "fl_check env cx LiquidityFilter =
     (if qc_volume_sufficient cx then fl_pass ''liquidity''
      else fl_block ''liquidity'' (case qc_volume_recent cx of
          Some v \<Rightarrow> Fmt ''volumen reciente insuficiente ({})'' [ArgReal v]
        | None \<Rightarrow> Fmt ''volumen reciente insuficiente ({})'' [ArgStr ''None'']))"
| "fl_check env cx NewsFilter =
     (if \<not> qc_news_blackout cx then fl_pass ''news'' else fl_block ''news'' (Lit ''ventana de noticias activa''))"
| "fl_check env cx (DrawdownFilter limit) =
     (if fv_drawdown env \<le> limit then fl_pass ''drawdown''
      else fl_block ''drawdown'' (Fmt ''drawdown diario {:.2f}% > maximo {:.2f}%'' [ArgReal (fv_drawdown env), ArgReal limit]))"
| "fl_check env cx (CorrelationFilter grps window) =
     (case group_of grps (qc_symbol cx) of
        None \<Rightarrow> fl_pass ''correlation''
      | Some grp \<Rightarrow>
          (case List.find (correlated_with grp window (fv_now env) (qc_symbol cx)) (fv_recent env) of
             None \<Rightarrow> fl_pass ''correlation''
           | Some d \<Rightarrow> fl_block ''correlation'' (Fmt ''decision reciente en simbolo correlacionado {} hace {:.0f}s''
               [ArgStr (dn_symbol d), ArgReal (total_seconds (fv_now env - dn_timestamp d))])))"

definition filters_evaluate :: "filter_env \<Rightarrow> quant_context \<Rightarrow> signal_filter list \<Rightarrow> filter_result list" where
  "filters_evaluate env cx fs = map (fl_check env cx) fs"

definition filter_registry :: "quant_filters_settings \<Rightarrow> (string, signal_filter) pydict" where
  "filter_registry s = [(''session'', session_filter (ql_allowed_sessions s) (ql_always_open_symbols s)),
     (''spread'', SpreadFilter), (''volatility'', VolatilityFilter), (''liquidity'', LiquidityFilter), (''news'', NewsFilter),
     (''drawdown'', DrawdownFilter (ql_max_drawdown_pct s)),
     (''correlation'', correlation_filter (ql_correlation_groups s) (ql_correlation_window_minutes s))]"

definition build_filter_chain :: "quant_filters_settings \<Rightarrow> signal_filter list" where
  "build_filter_chain s = List.map_filter (pd_get (filter_registry s)) (ql_enabled s)"

section \<open>The decision\<close>

record decision_engine =
  dg_signals :: signal_engine
  dg_consensus :: consensus_engine
  dg_confidence :: confidence_engine
  dg_filters :: "signal_filter list"
  dg_settings :: quant_consensus_settings
  dg_writer :: "history_writer option"

text \<open>The reasons to reject, in the order of the checks.\<close>

definition rejections_of :: "quant_consensus_settings \<Rightarrow> strategy_signal list \<Rightarrow> consensus_result \<Rightarrow> real
    \<Rightarrow> filter_result list \<Rightarrow> msg list" where
  "rejections_of s active c confidence blocking =
     (if cr_direction c = Dir_Neutral then [Lit ''El consenso no produjo una direccion dominante.''] else []) @
     (if int (length active) < qs_min_signals s
      then [Fmt ''Senales insuficientes: {} < minimo {}.'' [ArgInt (int (length active)), ArgInt (qs_min_signals s)]] else []) @
     (if cr_score c < qs_min_score s
      then [Fmt ''Score global {:.1f} < minimo {:.0f}.'' [ArgReal (cr_score c), ArgReal (qs_min_score s)]] else []) @
     (if confidence < qs_min_confidence s
      then [Fmt ''Confianza {:.0f}% < minima {:.0f}%.'' [ArgReal (confidence * 100), ArgReal (qs_min_confidence s * 100)]] else []) @
     (if cr_agreement c < qs_min_agreement s
      then [Fmt ''Acuerdo {:.0f}% < minimo {:.0f}%.'' [ArgReal (cr_agreement c * 100), ArgReal (qs_min_agreement s * 100)]] else []) @
     map (\<lambda>r. Fmt (''Filtro {!r}: '' @ (case fl_reason r of Lit t \<Rightarrow> t | Fmt t _ \<Rightarrow> t) @ ''.'')
       (ArgStr (fl_name r) # (case fl_reason r of Lit _ \<Rightarrow> [] | Fmt _ xs \<Rightarrow> xs))) blocking"

definition bullet :: "msg \<Rightarrow> msg" where
  "bullet m = (case m of Lit t \<Rightarrow> Lit (''  - '' @ t) | Fmt t xs \<Rightarrow> Fmt (''  - '' @ t) xs)"

definition explanation_of :: "strategy_signal list \<Rightarrow> quant_context \<Rightarrow> consensus_result \<Rightarrow> real \<Rightarrow> (string, real) pydict
    \<Rightarrow> bool \<Rightarrow> msg list \<Rightarrow> msg list" where
  "explanation_of active cx c confidence breakdown conflict rejections =
     [Fmt ''Consenso ({}): {} con score global {:.1f} y acuerdo {:.0f}%.''
        [ArgStr (cr_method c), ArgStr (direction_value (cr_direction c)), ArgReal (cr_score c), ArgReal (cr_agreement c * 100)],
      Fmt ''Confianza {:.0f}% (datos {:.2f}, liquidez {:.2f}, volatilidad {:.2f}).''
        [ArgReal (confidence * 100), ArgReal (pd_get_or breakdown ''data_quality'' 0),
         ArgReal (pd_get_or breakdown ''liquidity'' 0), ArgReal (pd_get_or breakdown ''volatility'' 0)],
      Fmt ''Regimen: {}. Sesiones: {}.''
        [ArgStr (qc_regime_name cx), joined (if qc_sessions cx = [] then [''ninguna''] else qc_sessions cx)],
      Fmt ''Senales consideradas: {} ({}).''
        [ArgInt (int (length active)), joined (remdups (sorted_names (map sg_strategy_name active)))]] @
     (if conflict then [Lit ''Conflicto de direcciones entre estrategias detectado.''] else []) @
     (if rejections = [] then [Lit ''Todos los umbrales y filtros superados: decision aceptada.'']
      else Lit ''No se opera porque:'' # map bullet rejections)"

definition decide :: "string \<Rightarrow> string \<Rightarrow> time \<Rightarrow> strategy_signal list \<Rightarrow> quant_context \<Rightarrow> quant_consensus_settings
    \<Rightarrow> consensus_result \<Rightarrow> real \<times> (string, real) pydict \<Rightarrow> filter_result list \<Rightarrow> bool \<Rightarrow> decision \<times> msg list" where
  "decide did symb now active cx s c cf results conflict =
     (let blocking = filter (\<lambda>r. \<not> fl_passed r) results;
          rejections = rejections_of s active c (fst cf) blocking;
          accepted = (rejections = []);
          action = (if accepted then if cr_direction c = Dir_Long then DA_OPEN_LONG else DA_OPEN_SHORT else DA_STAND_ASIDE)
      in (\<lparr> dn_decision_id = did, dn_symbol = symb, dn_timestamp = now, dn_action = action, dn_accepted = accepted,
            dn_score = cr_score c, dn_confidence = fst cf, dn_agreement = cr_agreement c, dn_consensus = Some c,
            dn_confidence_breakdown = snd cf, dn_signals_considered = map sg_signal_id active,
            dn_filters_blocking = map fl_name blocking,
            dn_explanation = explanation_of active cx c (fst cf) (snd cf) conflict rejections,
            dn_regime = qc_regime_name cx, dn_context_summary = qc_summary cx \<rparr>,
          if rejections = [] then [Lit ''decision aceptada''] else rejections))"

definition no_signals_decision :: "string \<Rightarrow> string \<Rightarrow> time \<Rightarrow> quant_context \<Rightarrow> decision" where
  "no_signals_decision did symb now cx = \<lparr> dn_decision_id = did, dn_symbol = symb, dn_timestamp = now,
     dn_action = DA_STAND_ASIDE, dn_accepted = False, dn_score = 0, dn_confidence = 0, dn_agreement = 0,
     dn_consensus = None, dn_confidence_breakdown = [], dn_signals_considered = [], dn_filters_blocking = [],
     dn_explanation = [Lit ''No hay senales activas para el simbolo.''], dn_regime = qc_regime_name cx,
     dn_context_summary = qc_summary cx \<rparr>"

definition event_of_decision :: "pylib \<Rightarrow> decision \<Rightarrow> decision_event" where
  "event_of_decision L d = \<lparr> de_decision_id = dn_decision_id d, de_symbol = dn_symbol d,
     de_action = decision_action_value (dn_action d), de_accepted = dn_accepted d, de_score = dn_score d,
     de_confidence = dn_confidence d,
     de_summary = (case dn_explanation d of [] \<Rightarrow> [] | m # _ \<Rightarrow> render L m) \<rparr>"

definition dg_finish :: "pylib \<Rightarrow> decision \<Rightarrow> decision_engine \<Rightarrow> decision_engine" where
  "dg_finish L d g =
     (let e1 = (dg_signals g)\<lparr> si_history := hs_record_decision d (si_history (dg_signals g)) \<rparr>
      in g\<lparr> dg_writer := map_option (hw_add_decision L d) (dg_writer g),
            dg_signals := si_publish (EvDecisionGenerated (event_of_decision L d)) e1 \<rparr>)"

definition filter_env_of :: "time \<Rightarrow> signal_engine \<Rightarrow> filter_env" where
  "filter_env_of now e = \<lparr> fv_now = now, fv_drawdown = hs_get_state ''daily_drawdown_pct'' 0 (si_history e),
     fv_recent = hs_recent_decisions 50 None (si_history e) \<rparr>"

definition announce_blocking :: "string \<Rightarrow> filter_result list \<Rightarrow> consensus_result \<Rightarrow> signal_engine \<Rightarrow> signal_engine" where
  "announce_blocking symb blocking c e =
     si_publish (EvConsensusReached symb (cr_method c) (direction_value (cr_direction c)) (cr_score c) (cr_agreement c)
         (int (length (cr_participants c))))
       (fold (\<lambda>r. si_publish (EvFilterTriggered (fl_name r) symb (fl_reason r))) blocking e)"

definition dg_evaluate :: "pylib \<Rightarrow> string \<Rightarrow> time \<Rightarrow> time \<Rightarrow> string \<Rightarrow> quant_context
    \<Rightarrow> (signal_engine \<Rightarrow> signal_engine) \<Rightarrow> decision_engine
    \<Rightarrow> py_error + (decision \<times> decision_engine)" where
  "dg_evaluate L did now later symb0 cx gap g =
     (let symb = upper symb0;
          (active, e1) = active_signals now symb (dg_signals g);
          e2 = gap e1 in
      if active = []
      then let d = no_signals_decision did symb now cx in Inr (d, dg_finish L d (g\<lparr> dg_signals := e2 \<rparr>))
      else ebind (cn_build (performance_factor (si_history e2)) symb active (Some cx) (dg_consensus g)) (\<lambda>c.
        let cf = cf_compute active c cx (dg_confidence g);
            results = filters_evaluate (filter_env_of later e2) cx (dg_filters g);
            e3 = announce_blocking symb (filter (\<lambda>r. \<not> fl_passed r) results) c e2;
            (d, reasons) = decide did symb now active cx (dg_settings g) c cf results (detect_conflict symb e3);
            e4 = si_consume later symb (if dn_accepted d then SS_ACCEPTED else SS_REJECTED) reasons e3
        in Inr (d, dg_finish L d (g\<lparr> dg_signals := e4 \<rparr>))))"

section \<open>What a decision means\<close>

lemma confidence_range: "0 \<le> fst (cf_compute ss c cx e) \<and> fst (cf_compute ss c cx e) \<le> 1"
  by (simp add: cf_compute_def Let_def rounded_share)

lemma rejections_empty:
  "rejections_of s active c confidence blocking = [] \<longleftrightarrow>
     cr_direction c \<noteq> Dir_Neutral \<and> qs_min_signals s \<le> int (length active) \<and> qs_min_score s \<le> cr_score c
     \<and> qs_min_confidence s \<le> confidence \<and> qs_min_agreement s \<le> cr_agreement c \<and> blocking = []"
  by (auto simp: rejections_of_def)

lemma finish_frame [simp]:
  "dg_consensus (dg_finish L d g) = dg_consensus g" "dg_confidence (dg_finish L d g) = dg_confidence g"
  "dg_filters (dg_finish L d g) = dg_filters g" "dg_settings (dg_finish L d g) = dg_settings g"
  "si_active (dg_signals (dg_finish L d g)) = si_active (dg_signals g)"
  "hs_sunk (si_history (dg_signals (dg_finish L d g))) = hs_sunk (si_history (dg_signals g))"
  by (simp_all add: dg_finish_def Let_def hs_record_decision_def)

text \<open>The two ways an evaluation ends.\<close>

lemma evaluate_cases:
  assumes "dg_evaluate L did now later symb cx gap g = Inr (d, g')"
    and "active_signals now (upper symb) (dg_signals g) = (active, e1)"
  obtains "active = []" "d = no_signals_decision did (upper symb) now cx"
  | c results e3 where "active \<noteq> []"
      "cn_build (performance_factor (si_history (gap e1))) (upper symb) active (Some cx) (dg_consensus g) = Inr c"
      "results = filters_evaluate (filter_env_of later (gap e1)) cx (dg_filters g)"
      "e3 = announce_blocking (upper symb) (filter (\<lambda>r. \<not> fl_passed r) results) c (gap e1)"
      "d = fst (decide did (upper symb) now active cx (dg_settings g) c (cf_compute active c cx (dg_confidence g)) results
         (detect_conflict (upper symb) e3))"
      "dg_signals g' = dg_signals (dg_finish L d (g\<lparr> dg_signals := si_consume later (upper symb)
         (if dn_accepted d then SS_ACCEPTED else SS_REJECTED)
         (snd (decide did (upper symb) now active cx (dg_settings g) c (cf_compute active c cx (dg_confidence g)) results
         (detect_conflict (upper symb) e3))) e3 \<rparr>))"
proof (cases "active = []")
  case True
  with assms that(1) show thesis by (simp add: dg_evaluate_def Let_def)
next
  case False
  let ?c = "cn_build (performance_factor (si_history (gap e1))) (upper symb) active (Some cx) (dg_consensus g)"
  obtain c where c: "?c = Inr c"
    using assms False by (cases ?c) (simp_all add: dg_evaluate_def Let_def)
  show thesis
    using assms False c by (intro that(2) [OF False c refl refl]) (auto simp: dg_evaluate_def Let_def split: prod.splits)
qed

lemma decide_fields:
  "dn_accepted (fst (decide did symb now active cx s c cf results conflict)) \<longleftrightarrow>
     cr_direction c \<noteq> Dir_Neutral \<and> qs_min_signals s \<le> int (length active) \<and> qs_min_score s \<le> cr_score c
     \<and> qs_min_confidence s \<le> fst cf \<and> qs_min_agreement s \<le> cr_agreement c \<and> (\<forall>r \<in> set results. fl_passed r)"
  "dn_consensus (fst (decide did symb now active cx s c cf results conflict)) = Some c"
  "dn_confidence (fst (decide did symb now active cx s c cf results conflict)) = fst cf"
  "dn_action (fst (decide did symb now active cx s c cf results conflict)) =
     (if dn_accepted (fst (decide did symb now active cx s c cf results conflict))
      then if cr_direction c = Dir_Long then DA_OPEN_LONG else DA_OPEN_SHORT else DA_STAND_ASIDE)"
  "dn_filters_blocking (fst (decide did symb now active cx s c cf results conflict)) =
     map fl_name (filter (\<lambda>r. \<not> fl_passed r) results)"
  "dn_signals_considered (fst (decide did symb now active cx s c cf results conflict)) = map sg_signal_id active"
  "dn_explanation (fst (decide did symb now active cx s c cf results conflict)) \<noteq> []"
  "dn_symbol (fst (decide did symb now active cx s c cf results conflict)) = symb"
  by (auto simp: decide_def Let_def rejections_empty filter_empty_conv explanation_of_def)

text \<open>
  Property C30: a decision is accepted exactly when everything agrees.  An evaluation of a symbol
  accepts if and only if it reached a consensus with a direction, over at least the minimal number of
  active signals, with score, agreement and confidence at their minima, and every configured filter
  passed; the action is then the one of the direction, otherwise to stand aside; the confidence lies
  between 0 and 1, and every decision is explained.
\<close>

theorem decision_accepted_iff:
  assumes "dg_evaluate L did now later symb cx gap g = Inr (d, g')"
  shows "(dn_accepted d \<longleftrightarrow> (\<exists>c. dn_consensus d = Some c \<and> cr_direction c \<noteq> Dir_Neutral
        \<and> qs_min_signals (dg_settings g) \<le> int (length (fst (active_signals now (upper symb) (dg_signals g))))
        \<and> qs_min_score (dg_settings g) \<le> cr_score c \<and> qs_min_agreement (dg_settings g) \<le> cr_agreement c
        \<and> qs_min_confidence (dg_settings g) \<le> dn_confidence d
        \<and> (\<forall>f \<in> set (dg_filters g). fl_passed (fl_check (filter_env_of later
              (gap (snd (active_signals now (upper symb) (dg_signals g))))) cx f))))
    \<and> dn_action d = (if \<not> dn_accepted d then DA_STAND_ASIDE
          else if map_option cr_direction (dn_consensus d) = Some Dir_Long then DA_OPEN_LONG else DA_OPEN_SHORT)
    \<and> 0 \<le> dn_confidence d \<and> dn_confidence d \<le> 1 \<and> dn_explanation d \<noteq> []"
proof -
  obtain active e1 where a: "active_signals now (upper symb) (dg_signals g) = (active, e1)" by fastforce
  from evaluate_cases [OF assms a] show ?thesis
  proof cases
    case 1
    then show ?thesis by (simp add: no_signals_decision_def)
  next
    case (2 c results e3)
    have res: "(\<forall>r \<in> set results. fl_passed r) \<longleftrightarrow>
        (\<forall>f \<in> set (dg_filters g). fl_passed (fl_check (filter_env_of later (gap e1)) cx f))"
      by (simp add: 2(3) filters_evaluate_def)
    have "dn_accepted d \<longleftrightarrow> cr_direction c \<noteq> Dir_Neutral \<and> qs_min_signals (dg_settings g) \<le> int (length active)
        \<and> qs_min_score (dg_settings g) \<le> cr_score c \<and> qs_min_confidence (dg_settings g) \<le> dn_confidence d
        \<and> qs_min_agreement (dg_settings g) \<le> cr_agreement c
        \<and> (\<forall>f \<in> set (dg_filters g). fl_passed (fl_check (filter_env_of later (gap e1)) cx f))"
      unfolding 2(5) decide_fields(1,3) res by (rule refl)
    moreover have "dn_consensus d = Some c" "dn_explanation d \<noteq> []" "0 \<le> dn_confidence d" "dn_confidence d \<le> 1"
      by (simp_all add: 2(5) decide_fields(2,3,7) confidence_range)
    moreover have "dn_action d = (if \<not> dn_accepted d then DA_STAND_ASIDE
        else if cr_direction c = Dir_Long then DA_OPEN_LONG else DA_OPEN_SHORT)"
      unfolding 2(5) decide_fields(4) by simp
    ultimately show ?thesis
      unfolding a fst_conv snd_conv by (simp only: option.map option.inject) blast
  qed
qed

text \<open>A small configuration: one strategy, one signal, a calm market, the default thresholds.\<close>

definition calm_context :: "string \<Rightarrow> time \<Rightarrow> quant_context" where
  "calm_context symb now = \<lparr> qc_symbol = symb, qc_generated_at = now, qc_regime = None, qc_sessions = [''europe''],
     qc_volatility = VS_NORMAL, qc_atr = Some 1, qc_atr_pct = Some (1/10), qc_spread_bps = Some 1,
     qc_spread_elevated = False, qc_volume_recent = Some 10, qc_volume_sufficient = True, qc_news_blackout = False,
     qc_data_quality = 1, qc_last_price = Some 100, qc_extras = [] \<rparr>"

definition example_signal :: "string \<Rightarrow> strategy_signal" where
  "example_signal i = (mk_signal i ''trend'' ''X'' 0 Dir_Long (8/10) 80)\<lparr> sg_reasons := [Lit ''r''] \<rparr>"

definition example_decision_engine :: decision_engine where
  "example_decision_engine = \<lparr>
     dg_signals = snd (si_submit 0 (example_signal ''1'') (si_new (hs_new 100) True 300 60)),
     dg_consensus = \<lparr> cn_settings = default_quant_consensus, cn_weights = [],
       cn_algorithms = [(''majority_voting'', majority_voting)], cn_method = ''majority_voting'' \<rparr>,
     dg_confidence = \<lparr> cf_settings = default_quant_confidence, cf_history_factor = [] \<rparr>,
     dg_filters = [SpreadFilter, NewsFilter], dg_settings = default_quant_consensus, dg_writer = None \<rparr>"

lemma example_signal_fields [simp]:
  "sg_confidence (example_signal i) = 8/10" "sg_required_confirmation (example_signal i) = False"
  "sg_strategy_name (example_signal i) = ''trend''" "sg_direction (example_signal i) = Dir_Long"
  "sg_score (example_signal i) = 80" "sg_signal_id (example_signal i) = i" "sg_symbol (example_signal i) = ''X''"
  by (simp_all add: example_signal_def mk_signal_def)

lemma example_signals:
  "active_signals 1 ''X'' (dg_signals example_decision_engine) =
     ([example_signal ''1''], dg_signals example_decision_engine)"
proof -
  have up: "upper ''X'' = ''X''" by code_simp
  have v: "sv_validate 0 (example_signal ''1'') = []"
    by (simp add: validate_iff sound_signal_def example_signal_def mk_signal_def level_checks_def)
  have "dg_signals example_decision_engine = si_publish (EvSignalCreated ''trend'' ''X'' ''long'' (8/10) ''1'' 80)
      (si_new (hs_new 100) True 300 60)\<lparr> si_active := [(''X'', [example_signal ''1''])] \<rparr>"
    using v by (simp add: example_decision_engine_def si_submit_def Let_def expire_stale_def si_new_def find_duplicate_def
        by_priority_def pd_get_or_def si_publish_def)
  then show ?thesis
    by (simp add: active_signals_def Let_def expire_stale_def expire_symbol_def si_new_def is_expired_def example_signal_def
        mk_signal_def total_seconds_def pd_get_or_def pd_get_def up si_publish_def)
qed

lemma example_consensus:
  "cn_build perf ''X'' [example_signal ''1''] cx (dg_consensus example_decision_engine) =
     Inr (majority_voting perf ''X'' [example_signal ''1''] [] cx)"
  "cr_direction (majority_voting perf ''X'' [example_signal ''1''] [] cx) = Dir_Long"
  "cr_score (majority_voting perf ''X'' [example_signal ''1''] [] cx) = 80"
  "cr_agreement (majority_voting perf ''X'' [example_signal ''1''] [] cx) = 1"
  by (simp_all add: cn_build_def example_decision_engine_def pd_get_def majority_voting_def actionable_def
      Let_def clamp_score_def on_grid_def)

lemma example_confidence:
  "fst (cf_compute [example_signal ''1''] (majority_voting perf ''X'' [example_signal ''1''] [] cx) (calm_context ''X'' 1)
     (dg_confidence example_decision_engine)) = 9/10"
  by (simp add: cf_compute_def Let_def signal_confidence_def example_consensus confirmation_factor_def history_factor_def)
     (simp add: example_decision_engine_def default_quant_confidence_def
      liquidity_factor_def volatility_factor_def calm_context_def pd_get_or_def on_grid_def)

theorem decision_accepted_iff_witness:
  "\<forall>L. \<exists>d g'. dg_evaluate L ''d'' 1 2 ''X'' (calm_context ''X'' 1) id example_decision_engine = Inr (d, g')
     \<and> dn_accepted d \<and> dn_action d = DA_OPEN_LONG"
proof
  fix L
  have up: "upper ''X'' = ''X''" by code_simp
  let ?ev = "dg_evaluate L ''d'' 1 2 ''X'' (calm_context ''X'' 1) id example_decision_engine"
  obtain d g' where ev: "?ev = Inr (d, g')"
    by (cases ?ev) (auto simp: dg_evaluate_def up example_signals example_consensus Let_def split: prod.splits)
  have con: "dn_consensus d = Some (majority_voting (performance_factor (si_history (dg_signals example_decision_engine)))
      ''X'' [example_signal ''1''] [] (Some (calm_context ''X'' 1)))" "dn_confidence d = 9/10"
    using ev by (auto simp: dg_evaluate_def up example_signals example_consensus Let_def decide_def example_confidence
        split: prod.splits)
  have "dn_accepted d \<and> dn_action d = DA_OPEN_LONG"
    using decision_accepted_iff [OF ev] con
    by (simp add: up example_signals example_consensus)
       (simp add: example_decision_engine_def default_quant_consensus_def calm_context_def fl_pass_def)
  with ev show "\<exists>d g'. ?ev = Inr (d, g') \<and> dn_accepted d \<and> dn_action d = DA_OPEN_LONG" by blast
qed

section \<open>What slips through\<close>

lemma fold_record_sunk:
  "hs_sunk (si_history (fold (\<lambda>s. si_record s st rs now) ss e)) =
     hs_sunk (si_history e) @ map (\<lambda>s. mk_record s st rs now) ss"
  by (induction ss arbitrary: e) simp_all

lemma submit_present:
  "sv_validate now s = [] \<Longrightarrow> s \<in> set (pd_get_or (si_active (snd (si_submit now s e))) (sg_symbol s) [])"
  by (simp add: si_submit_def Let_def by_priority_def pd_get_or_def split: prod.split)

text \<open>
  A decision resolves signals it never considered.  The signals are read before the context is built; the build may wait for the
  price cache.  A valid signal of the symbol that arrives in between is not among the signals considered, and yet it is
  recorded with the outcome of the decision and is no longer active afterwards.
\<close>

lemma announce_signals [simp]:
  "si_active (announce_blocking symb rs c e) = si_active e" "si_history (announce_blocking symb rs c e) = si_history e"
proof -
  have "si_active (fold (\<lambda>r. si_publish (EvFilterTriggered (fl_name r) symb (fl_reason r))) rs e) = si_active e
      \<and> si_history (fold (\<lambda>r. si_publish (EvFilterTriggered (fl_name r) symb (fl_reason r))) rs e) = si_history e"
    by (induction rs arbitrary: e) (simp_all add: si_publish_def)
  then show "si_active (announce_blocking symb rs c e) = si_active e" "si_history (announce_blocking symb rs c e) = si_history e"
    by (simp_all add: announce_blocking_def si_publish_def)
qed

theorem late_signal_swept:
  assumes "dg_evaluate L did now later symb cx (\<lambda>e. snd (si_submit t s e)) g = Inr (d, g')"
    and "fst (active_signals now (upper symb) (dg_signals g)) \<noteq> []"
    and "sg_signal_id s \<notin> sg_signal_id ` set (fst (active_signals now (upper symb) (dg_signals g)))"
    and "sv_validate t s = []" "sg_symbol s = upper symb"
  shows "sg_signal_id s \<notin> set (dn_signals_considered d)
    \<and> (\<exists>r \<in> set (hs_sunk (si_history (dg_signals g'))). sl_signal r = s
          \<and> sl_status r = (if dn_accepted d then SS_ACCEPTED else SS_REJECTED))
    \<and> pd_get (si_active (dg_signals g')) (upper symb) = None"
proof -
  obtain active e1 where a: "active_signals now (upper symb) (dg_signals g) = (active, e1)" by fastforce
  from evaluate_cases [OF assms(1) a] show ?thesis
  proof cases
    case 1
    then show ?thesis using assms(2) a by simp
  next
    case (2 c results e3)
    let ?st = "if dn_accepted d then SS_ACCEPTED else SS_REJECTED"
    have "s \<in> set (pd_get_or (si_active e3) (upper symb) [])"
      using submit_present [OF assms(4)] assms(5) 2(4) by simp
    then have mem: "mk_record s ?st rs later \<in> set (hs_sunk (si_history (si_consume later (upper symb) ?st rs e3)))" for rs
      by (simp add: si_consume_def fold_record_sunk)
    obtain R where R: "dg_signals g' = dg_signals (dg_finish L d (g\<lparr> dg_signals := si_consume later (upper symb) ?st R e3 \<rparr>))"
      using 2(6) by blast
    have "\<exists>r \<in> set (hs_sunk (si_history (dg_signals g'))). sl_signal r = s \<and> sl_status r = ?st"
      by (rule bexI [of _ "mk_record s ?st R later"]) (simp add: mk_record_def, simp add: R mem)
    moreover have "pd_get (si_active (dg_signals g')) (upper symb) = None"
      by (simp add: R si_consume_def)
    moreover have "dn_signals_considered d = map sg_signal_id active"
      by (simp only: 2(5) decide_fields)
    ultimately show ?thesis using assms(3) a by simp
  qed
qed

text \<open>
  The correlation guard forgets.  An accepted decision of a correlated symbol inside the
  window blocks the filter while it is among the last fifty decisions; after fifty rejected decisions,
  of any symbols, the filter passes although the accepted decision is still inside the window and still
  in the history.
\<close>

theorem correlation_guard_evicted:
  assumes "hs_decisions (si_history e) = ds @ [a]" "hs_limit (si_history e) \<ge> length ds + 51"
    and "group_of grps (qc_symbol cx) = Some grp" "correlated_with grp window now (qc_symbol cx) a"
    and "length rs = 50" "\<forall>r \<in> set rs. \<not> dn_accepted r"
    and "e' = e\<lparr> si_history := fold hs_record_decision rs (si_history e) \<rparr>"
  shows "\<not> fl_passed (fl_check (filter_env_of now e) cx (CorrelationFilter grps window))
    \<and> fl_passed (fl_check (filter_env_of now e') cx (CorrelationFilter grps window))
    \<and> a \<in> set (hs_decisions (si_history e')) \<and> total_seconds (now - dn_timestamp a) \<le> window"
proof -
  have rec: "hs_decisions (fold hs_record_decision rs h) = last_n (hs_limit h) (hs_decisions h @ rs)
      \<and> hs_limit (fold hs_record_decision rs h) = hs_limit h" if "length (hs_decisions h) \<le> hs_limit h" for h rs
    using that
  proof (induction rs arbitrary: h)
    case (Cons r rs)
    have l: "hs_limit (hs_record_decision r h) = hs_limit h" by (simp add: hs_record_decision_def)
    have "length (hs_decisions (hs_record_decision r h)) \<le> hs_limit (hs_record_decision r h)"
      by (simp add: hs_record_decision_def deque_append_def)
    from Cons.IH [OF this] show ?case
      by (simp add: hs_record_decision_def deque_append_def last_n_last_n_append)
  qed simp
  have all: "hs_decisions (si_history e') = ds @ [a] @ rs"
    using rec [of "si_history e" rs] assms(1,2,5,7) by simp
  have "a \<in> set (hs_recent_decisions 50 None (si_history e))"
    by (simp add: hs_recent_decisions_def py_tail_def last_n_def assms(1))
  then have "List.find (correlated_with grp window now (qc_symbol cx)) (hs_recent_decisions 50 None (si_history e)) \<noteq> None"
    using assms(4) by (auto simp: find_None_iff)
  then have "\<not> fl_passed (fl_check (filter_env_of now e) cx (CorrelationFilter grps window))"
    using assms(3) by (auto simp: filter_env_of_def fl_block_def)
  moreover have "hs_recent_decisions 50 None (si_history e') = rs"
    by (simp add: hs_recent_decisions_def py_tail_def last_n_def all assms(5))
  then have "List.find (correlated_with grp window now (qc_symbol cx)) (hs_recent_decisions 50 None (si_history e')) = None"
    using assms(6) by (auto simp: find_None_iff correlated_with_def)
  then have "fl_passed (fl_check (filter_env_of now e') cx (CorrelationFilter grps window))"
    using assms(3) by (simp add: filter_env_of_def fl_pass_def)
  ultimately show ?thesis
    using all assms(4) by (simp add: correlated_with_def)
qed

theorem correlation_guard_evicted_witness:
  "fl_passed (fl_check (filter_env_of 60 ((si_new (hs_new 100) True 300 60)\<lparr> si_history :=
       fold hs_record_decision (replicate 50 (no_signals_decision ''r'' ''Z'' 30 (calm_context ''Z'' 30)))
         ((hs_new 100)\<lparr> hs_decisions := [(no_signals_decision ''a'' ''Y'' 0 (calm_context ''Y'' 0))\<lparr> dn_accepted := True \<rparr>] \<rparr>) \<rparr>))
     (calm_context ''X'' 60) (CorrelationFilter [[''X'', ''Y'']] 1800))"
proof -
  have up: "upper ''X'' = ''X''" by code_simp
  let ?a = "(no_signals_decision ''a'' ''Y'' 0 (calm_context ''Y'' 0))\<lparr> dn_accepted := True \<rparr>"
  let ?e = "(si_new (hs_new 100) True 300 60)\<lparr> si_history := (hs_new 100)\<lparr> hs_decisions := [?a] \<rparr> \<rparr>"
  have "hs_decisions (si_history ?e) = [] @ [?a]" "length ([] :: decision list) + 51 \<le> hs_limit (si_history ?e)"
    "group_of [[''X'', ''Y'']] (qc_symbol (calm_context ''X'' 60)) = Some [''X'', ''Y'']"
    "correlated_with [''X'', ''Y''] 1800 60 (qc_symbol (calm_context ''X'' 60)) ?a"
    by (simp_all add: hs_new_def group_of_def calm_context_def up correlated_with_def no_signals_decision_def total_seconds_def)
  note guard = correlation_guard_evicted [OF this, of "replicate 50 (no_signals_decision ''r'' ''Z'' 30 (calm_context ''Z'' 30))", OF _ _ refl]
  show ?thesis using guard by (simp add: no_signals_decision_def)
qed

end
