(* ===== verification/Evaluation_Tracker.thy ===== *)
theory Evaluation_Tracker
  imports Decision_Engine
begin

text \<open>
  Continuous evaluation (\<open>app/engine/evaluation/tracker.py\<close>): every resolved signal with an entry zone and
  a stop opens a virtual trade that later candles resolve, and the results accumulate per strategy.  The
  candles of a symbol are an argument of the evaluation, the snapshot file is the JSON tree of the status.
\<close>

section \<open>State\<close>

record evaluation_settings =
  vs_enabled :: bool
  vs_max_holding_minutes :: real
  vs_false_signal_bars :: int
  vs_r_history_limit :: nat

definition default_evaluation :: evaluation_settings where
  "default_evaluation = \<lparr> vs_enabled = True, vs_max_holding_minutes = 240, vs_false_signal_bars = 3, vs_r_history_limit = 500 \<rparr>"

record virtual_trade =
  vt_signal_id :: string
  vt_strategy :: string
  vt_symbol :: string
  vt_direction :: direction
  vt_entry :: real
  vt_stop :: real
  vt_target :: "real option"
  vt_risk :: real
  vt_opened_at :: time
  vt_deadline :: time

record strategy_performance =
  sp_strategy :: string
  sp_signals :: int
  sp_tracked :: int
  sp_evaluated :: int
  sp_wins :: int
  sp_losses :: int
  sp_timeouts :: int
  sp_false_signals :: int
  sp_gross_win_r :: real
  sp_gross_loss_r :: real
  sp_holding_total :: real
  sp_last_result_r :: "real option"
  sp_r_values :: "real list"

definition sp_new :: "string \<Rightarrow> strategy_performance" where
  "sp_new s = \<lparr> sp_strategy = s, sp_signals = 0, sp_tracked = 0, sp_evaluated = 0, sp_wins = 0, sp_losses = 0,
     sp_timeouts = 0, sp_false_signals = 0, sp_gross_win_r = 0, sp_gross_loss_r = 0, sp_holding_total = 0,
     sp_last_result_r = None, sp_r_values = [] \<rparr>"

definition sp_win_rate :: "strategy_performance \<Rightarrow> real option" where
  "sp_win_rate p = (let decided = sp_wins p + sp_losses p in
     if decided > 0 then Some (of_int (sp_wins p) / of_int decided) else None)"

definition sp_profit_factor :: "strategy_performance \<Rightarrow> real option" where
  "sp_profit_factor p = (if sp_gross_loss_r p \<le> 0 then None else Some (sp_gross_win_r p / sp_gross_loss_r p))"

definition sp_expectancy_r :: "strategy_performance \<Rightarrow> real option" where
  "sp_expectancy_r p = (if sp_r_values p = [] then None
     else Some (sum_list (sp_r_values p) / real (length (sp_r_values p))))"

definition sp_max_drawdown_r :: "strategy_performance \<Rightarrow> real" where
  "sp_max_drawdown_r p = (case fold (\<lambda>r (peak, equity, drawdown).
       let equity' = equity + r; peak' = max peak equity' in (peak', equity', max drawdown (peak' - equity')))
     (sp_r_values p) (0, 0, 0) of (_, _, d) \<Rightarrow> d)"

definition sp_avg_holding :: "strategy_performance \<Rightarrow> real option" where
  "sp_avg_holding p = (if sp_evaluated p > 0 then Some (sp_holding_total p / of_int (sp_evaluated p)) else None)"

definition sp_to_dict :: "strategy_performance \<Rightarrow> json_dict" where
  "sp_to_dict p = [(''strategy'', JStr (sp_strategy p)), (''signals'', JInt (sp_signals p)), (''tracked'', JInt (sp_tracked p)),
     (''evaluated'', JInt (sp_evaluated p)), (''wins'', JInt (sp_wins p)), (''losses'', JInt (sp_losses p)),
     (''timeouts'', JInt (sp_timeouts p)), (''false_signals'', JInt (sp_false_signals p)),
     (''win_rate'', json_opt (sp_win_rate p)), (''profit_factor'', json_opt (sp_profit_factor p)),
     (''expectancy_r'', json_opt (sp_expectancy_r p)), (''max_drawdown_r'', JNum (py_round 4 (sp_max_drawdown_r p))),
     (''avg_holding_seconds'', json_opt (sp_avg_holding p)), (''last_result_r'', json_opt (sp_last_result_r p))]"

record tracker =
  ek_settings :: evaluation_settings
  ek_open :: "(string, virtual_trade) pydict"
  ek_stats :: "(string, strategy_performance) pydict"
  ek_seen :: "string list"
  ek_seen_set :: "string set"

definition seen_limit :: nat where "seen_limit = 20000"

definition ek_new :: "evaluation_settings \<Rightarrow> tracker" where
  "ek_new s = \<lparr> ek_settings = s, ek_open = [], ek_stats = [], ek_seen = [], ek_seen_set = {} \<rparr>"

definition ek_perf :: "string \<Rightarrow> tracker \<Rightarrow> strategy_performance" where
  "ek_perf s t = pd_get_or (ek_stats t) s (sp_new s)"

definition ek_put_perf :: "string \<Rightarrow> strategy_performance \<Rightarrow> tracker \<Rightarrow> tracker" where
  "ek_put_perf s p t = t\<lparr> ek_stats := pd_put (ek_stats t) s p \<rparr>"

section \<open>Signals come in\<close>

definition ek_remember :: "string \<Rightarrow> tracker \<Rightarrow> tracker" where
  "ek_remember i t =
     (let forgotten = (if length (ek_seen t) = seen_limit then ek_seen_set t - {hd (ek_seen t)} else ek_seen_set t)
      in t\<lparr> ek_seen := deque_append seen_limit i (ek_seen t), ek_seen_set := insert i forgotten \<rparr>)"

definition on_signal_record :: "signal_record \<Rightarrow> tracker \<Rightarrow> tracker" where
  "on_signal_record r t =
     (let s = sl_signal r in
      if \<not> vs_enabled (ek_settings t) \<or> sg_signal_id s \<in> ek_seen_set t then t else
      let t1 = ek_remember (sg_signal_id s) t;
          perf = ek_perf (sg_strategy_name s) t1;
          perf1 = perf\<lparr> sp_signals := sp_signals perf + 1 \<rparr>;
          t2 = ek_put_perf (sg_strategy_name s) perf1 t1 in
      case (if sg_direction s = Dir_Neutral then None else sg_stop_loss s) of
        None \<Rightarrow> t2
      | Some stop \<Rightarrow>
          (case sg_entry_zone s of
             None \<Rightarrow> t2
           | Some z \<Rightarrow>
               let entry = ez_mid z; risk = \<bar>entry - stop\<bar> in
               if risk \<le> 0 then t2 else
               let t3 = ek_put_perf (sg_strategy_name s) (perf1\<lparr> sp_tracked := sp_tracked perf1 + 1 \<rparr>) t2
               in t3\<lparr> ek_open := pd_put (ek_open t3) (sg_signal_id s)
                    \<lparr> vt_signal_id = sg_signal_id s, vt_strategy = sg_strategy_name s, vt_symbol = sg_symbol s,
                      vt_direction = sg_direction s, vt_entry = entry, vt_stop = stop, vt_target = sg_take_profit s,
                      vt_risk = risk, vt_opened_at = sg_timestamp s,
                      vt_deadline = sg_timestamp s + timedelta_minutes (vs_max_holding_minutes (ek_settings t)) \<rparr> \<rparr>))"

section \<open>Trades resolve\<close>

datatype trade_outcome = TO_Win | TO_Loss | TO_Timeout

record resolution =
  ro_r :: real
  ro_outcome :: trade_outcome
  ro_closed_at :: time
  ro_false_signal :: bool

definition resolved_perf :: "nat \<Rightarrow> virtual_trade \<Rightarrow> resolution \<Rightarrow> strategy_performance \<Rightarrow> strategy_performance" where
  "resolved_perf limit v res p0 =
     (let p1 = p0\<lparr> sp_evaluated := sp_evaluated p0 + 1 \<rparr>;
          p2 = (case ro_outcome res of TO_Win \<Rightarrow> p1\<lparr> sp_wins := sp_wins p1 + 1 \<rparr>
                  | TO_Loss \<Rightarrow> p1\<lparr> sp_losses := sp_losses p1 + 1 \<rparr> | TO_Timeout \<Rightarrow> p1\<lparr> sp_timeouts := sp_timeouts p1 + 1 \<rparr>);
          p3 = (if ro_false_signal res then p2\<lparr> sp_false_signals := sp_false_signals p2 + 1 \<rparr> else p2);
          p4 = (if ro_r res \<ge> 0 then p3\<lparr> sp_gross_win_r := sp_gross_win_r p3 + ro_r res \<rparr>
                else p3\<lparr> sp_gross_loss_r := sp_gross_loss_r p3 + (- ro_r res) \<rparr>)
      in p4\<lparr> sp_r_values := deque_append limit (ro_r res) (sp_r_values p4),
             sp_last_result_r := Some (py_round 4 (ro_r res)),
             sp_holding_total := sp_holding_total p4 + max 0 (total_seconds (ro_closed_at res - vt_opened_at v)) \<rparr>)"

definition ek_resolve :: "virtual_trade \<Rightarrow> resolution \<Rightarrow> tracker \<Rightarrow> tracker" where
  "ek_resolve v res t =
     (let t1 = t\<lparr> ek_open := pd_pop (ek_open t) (vt_signal_id v) \<rparr>
      in ek_put_perf (vt_strategy v)
           (resolved_perf (vs_r_history_limit (ek_settings t)) v res (ek_perf (vt_strategy v) t1)) t1)"

definition hit_stop :: "virtual_trade \<Rightarrow> md_candle \<Rightarrow> bool" where
  "hit_stop v c = (if vt_direction v = Dir_Long then cd_low c \<le> vt_stop v else cd_high c \<ge> vt_stop v)"

definition hit_target :: "virtual_trade \<Rightarrow> md_candle \<Rightarrow> real \<Rightarrow> bool" where
  "hit_target v c target = (if vt_direction v = Dir_Long then cd_high c \<ge> target else cd_low c \<le> target)"

text \<open>The first candle that decides, the stop before the target.\<close>

fun scan_candles :: "int \<Rightarrow> virtual_trade \<Rightarrow> int \<Rightarrow> md_candle list \<Rightarrow> resolution option" where
  "scan_candles bars v i [] = None"
| "scan_candles bars v i (c # cs) =
     (if hit_stop v c
      then Some \<lparr> ro_r = -1, ro_outcome = TO_Loss, ro_closed_at = cd_end c, ro_false_signal = i < bars \<rparr>
      else case vt_target v of
        Some target \<Rightarrow>
          if hit_target v c target
          then Some \<lparr> ro_r = \<bar>target - vt_entry v\<bar> / vt_risk v, ro_outcome = TO_Win, ro_closed_at = cd_end c,
                      ro_false_signal = False \<rparr>
          else scan_candles bars v (i + 1) cs
      | None \<Rightarrow> scan_candles bars v (i + 1) cs)"

definition seen_candles :: "virtual_trade \<Rightarrow> md_candle list \<Rightarrow> md_candle list" where
  "seen_candles v cs = filter (\<lambda>c. cd_end c > vt_opened_at v) cs"

definition resolution_of :: "int \<Rightarrow> time \<Rightarrow> md_candle list \<Rightarrow> virtual_trade \<Rightarrow> resolution option" where
  "resolution_of bars now cs v =
     (case scan_candles bars v 0 cs of
        Some res \<Rightarrow> Some res
      | None \<Rightarrow>
          if now \<ge> vt_deadline v
          then let price = (if cs = [] then vt_entry v else cd_close (last cs));
                   signed = price - vt_entry v;
                   signed' = (if vt_direction v = Dir_Short then - signed else signed)
               in Some \<lparr> ro_r = signed' / vt_risk v, ro_outcome = TO_Timeout, ro_closed_at = now, ro_false_signal = False \<rparr>
          else None)"

definition evaluate_trade :: "time \<Rightarrow> (string \<Rightarrow> md_candle list) \<Rightarrow> virtual_trade \<Rightarrow> int \<times> tracker \<Rightarrow> int \<times> tracker" where
  "evaluate_trade now candles v acc =
     (case acc of (n, t) \<Rightarrow>
        case resolution_of (vs_false_signal_bars (ek_settings t)) now (seen_candles v (candles (vt_symbol v))) v of
          None \<Rightarrow> (n, t) | Some res \<Rightarrow> (n + 1, ek_resolve v res t))"

definition evaluate_open :: "time \<Rightarrow> (string \<Rightarrow> md_candle list) \<Rightarrow> tracker \<Rightarrow> int \<times> tracker" where
  "evaluate_open now candles t = fold (evaluate_trade now candles) (pd_values (ek_open t)) (0, t)"

definition ek_factor :: "string \<Rightarrow> tracker \<Rightarrow> real" where
  "ek_factor s t = (case pd_get (ek_stats t) s of
       None \<Rightarrow> 1/2
     | Some p \<Rightarrow> if sp_evaluated p < 10 then 1/2
         else let expectancy = py_or (sp_expectancy_r p) 0
              in max 0 (min 1 (1/2 + max (-1) (min 1 expectancy) / 2)))"

definition ek_status :: "tracker \<Rightarrow> json_dict" where
  "ek_status t = [(''enabled'', JBool (vs_enabled (ek_settings t))), (''open_virtual_trades'', JInt (int (length (ek_open t)))),
     (''strategies'', JObj (map (\<lambda>n. (n, JObj (sp_to_dict (ek_perf n t)))) (sorted_names (pd_keys (ek_stats t)))))]"

definition ek_snapshot :: "time \<Rightarrow> tracker \<Rightarrow> json" where
  "ek_snapshot now t = JObj ((''generated_at'', json_iso (Some now)) # ek_status t)"

section \<open>The accounts of a strategy\<close>

definition perf_ok :: "int \<Rightarrow> strategy_performance \<Rightarrow> bool" where
  "perf_ok k p \<longleftrightarrow> sp_tracked p = sp_evaluated p + k \<and> sp_evaluated p = sp_wins p + sp_losses p + sp_timeouts p
     \<and> 0 \<le> sp_wins p \<and> 0 \<le> sp_timeouts p \<and> 0 \<le> sp_false_signals p \<and> sp_false_signals p \<le> sp_losses p
     \<and> sp_tracked p \<le> sp_signals p \<and> 0 \<le> sp_gross_win_r p \<and> 0 \<le> sp_gross_loss_r p"

definition open_of :: "string \<Rightarrow> tracker \<Rightarrow> int" where
  "open_of n t = int (length (filter (\<lambda>v. vt_strategy v = n) (pd_values (ek_open t))))"

definition tracker_ok :: "tracker \<Rightarrow> bool" where
  "tracker_ok t \<longleftrightarrow> pd_wf (ek_open t) \<and> (\<forall>(k, v) \<in> set (ek_open t). vt_signal_id v = k \<and> k \<in> ek_seen_set t)
     \<and> (\<forall>n. perf_ok (open_of n t) (ek_perf n t))"

lemma perf_ok_signal: "perf_ok k p \<Longrightarrow> perf_ok k (p\<lparr> sp_signals := sp_signals p + 1 \<rparr>)"
  by (simp add: perf_ok_def)

lemma perf_ok_tracked:
  "perf_ok k p \<Longrightarrow> perf_ok (k + 1) (p\<lparr> sp_signals := sp_signals p + 1, sp_tracked := sp_tracked p + 1 \<rparr>)"
  by (simp add: perf_ok_def)

lemma perf_put [simp]: "ek_perf n (ek_put_perf m p t) = (if n = m then p else ek_perf n t)"
  by (simp add: ek_perf_def ek_put_perf_def pd_get_or_def)

lemma put_perf_frame [simp]:
  "ek_open (ek_put_perf m p t) = ek_open t" "ek_seen (ek_put_perf m p t) = ek_seen t"
  "ek_seen_set (ek_put_perf m p t) = ek_seen_set t" "ek_settings (ek_put_perf m p t) = ek_settings t"
  by (simp_all add: ek_put_perf_def)

lemma remember_frame [simp]:
  "ek_open (ek_remember i t) = ek_open t" "ek_settings (ek_remember i t) = ek_settings t"
  "ek_stats (ek_remember i t) = ek_stats t" "ek_perf n (ek_remember i t) = ek_perf n t"
  by (simp_all add: ek_remember_def Let_def ek_perf_def)

lemma remember_seen:
  assumes "length (ek_seen t) < seen_limit"
  shows "ek_seen (ek_remember i t) = ek_seen t @ [i]" "ek_seen_set (ek_remember i t) = insert i (ek_seen_set t)"
  using assms by (simp_all add: ek_remember_def Let_def deque_append_def)

lemma open_update [simp]: "ek_perf n (t\<lparr> ek_open := d \<rparr>) = ek_perf n t"
  by (simp add: ek_perf_def)

text \<open>A record changes the accounts of its strategy only; a fresh trade opens with it.\<close>

lemma record_keeps:
  assumes "tracker_ok t" "length (ek_seen t) < seen_limit"
  shows "tracker_ok (on_signal_record r t)" "length (ek_seen (on_signal_record r t)) \<le> Suc (length (ek_seen t))"
    "ek_settings (on_signal_record r t) = ek_settings t"
proof -
  let ?s = "sl_signal r"
  let ?t' = "on_signal_record r t"
  have seen: "ek_seen (ek_remember i t) = ek_seen t @ [i]" "ek_seen_set (ek_remember i t) = insert i (ek_seen_set t)" for i
    using remember_seen [OF assms(2)] by simp_all
  show "length (ek_seen ?t') \<le> Suc (length (ek_seen t))" "ek_settings ?t' = ek_settings t"
    by (auto simp: on_signal_record_def Let_def seen split: option.split)
  show "tracker_ok ?t'"
  proof (cases "vs_enabled (ek_settings t) \<and> sg_signal_id ?s \<notin> ek_seen_set t")
    case False
    then show ?thesis using assms(1) by (auto simp: on_signal_record_def Let_def)
  next
    case True
    have ok: "perf_ok (open_of n t) (ek_perf n t)" for n using assms(1) by (simp add: tracker_ok_def)
    have new: "sg_signal_id ?s \<notin> set (pd_keys (ek_open t))"
      using True assms(1) by (auto simp: tracker_ok_def pd_keys_def)
    have wf: "pd_wf (ek_open t)" and ids: "\<forall>(k, v) \<in> set (ek_open t). vt_signal_id v = k \<and> k \<in> ek_seen_set t"
      using assms(1) by (simp_all add: tracker_ok_def)
    have idle: "tracker_ok (ek_put_perf (sg_strategy_name ?s)
        (ek_perf (sg_strategy_name ?s) t\<lparr> sp_signals := sp_signals (ek_perf (sg_strategy_name ?s) t) + 1 \<rparr>)
        (ek_remember (sg_signal_id ?s) t))"
      using ok wf ids by (auto simp: tracker_ok_def seen open_of_def perf_ok_signal)
    show ?thesis
    proof (cases "\<exists>stop z. sg_direction ?s \<noteq> Dir_Neutral \<and> sg_stop_loss ?s = Some stop \<and> sg_entry_zone ?s = Some z
        \<and> \<bar>ez_mid z - stop\<bar> > 0")
      case False
      then have "?t' = ek_put_perf (sg_strategy_name ?s)
        (ek_perf (sg_strategy_name ?s) t\<lparr> sp_signals := sp_signals (ek_perf (sg_strategy_name ?s) t) + 1 \<rparr>)
        (ek_remember (sg_signal_id ?s) t)"
        using True by (auto simp: on_signal_record_def Let_def split: option.split)
      then show ?thesis using idle by simp
    next
      case opened: True
      then obtain stop z where o: "sg_direction ?s \<noteq> Dir_Neutral" "sg_stop_loss ?s = Some stop" "sg_entry_zone ?s = Some z"
        "\<bar>ez_mid z - stop\<bar> > 0" by blast
      define v where "v = \<lparr> vt_signal_id = sg_signal_id ?s, vt_strategy = sg_strategy_name ?s, vt_symbol = sg_symbol ?s,
        vt_direction = sg_direction ?s, vt_entry = ez_mid z, vt_stop = stop, vt_target = sg_take_profit ?s,
        vt_risk = \<bar>ez_mid z - stop\<bar>, vt_opened_at = sg_timestamp ?s,
        vt_deadline = sg_timestamp ?s + timedelta_minutes (vs_max_holding_minutes (ek_settings t)) \<rparr>"
      have v: "vt_strategy v = sg_strategy_name ?s" "vt_signal_id v = sg_signal_id ?s" by (simp_all add: v_def)
      have t': "ek_open ?t' = pd_put (ek_open t) (sg_signal_id ?s) v"
        "ek_seen_set ?t' = insert (sg_signal_id ?s) (ek_seen_set t)"
        "ek_perf n ?t' = (if n = sg_strategy_name ?s then (ek_perf n t)\<lparr> sp_signals := sp_signals (ek_perf n t) + 1,
            sp_tracked := sp_tracked (ek_perf n t) + 1 \<rparr> else ek_perf n t)" for n
        using True o by (simp_all add: on_signal_record_def Let_def v_def seen)
      have set_open: "set (pd_put (ek_open t) (sg_signal_id ?s) v) = insert (sg_signal_id ?s, v) (set (ek_open t))"
        using new by (simp add: pd_put_new)
      have cnt: "open_of n ?t' = (if n = sg_strategy_name ?s then open_of n t + 1 else open_of n t)" for n
        using new v by (simp add: open_of_def t')
      show ?thesis
        unfolding tracker_ok_def cnt t'
        using wf ids ok perf_ok_tracked [OF ok] v by (auto simp: set_open)
    qed
  qed
qed

lemma resolution_shape:
  assumes "scan_candles bars v i cs = Some res"
  shows "(ro_outcome res = TO_Loss \<and> ro_r res = -1) \<or>
    (ro_outcome res = TO_Win \<and> \<not> ro_false_signal res \<and> (\<exists>target. vt_target v = Some target \<and> ro_r res = \<bar>target - vt_entry v\<bar> / vt_risk v))"
  using assms by (induction bars v i cs rule: scan_candles.induct) (auto split: if_splits option.splits)

lemma resolution_false:
  assumes "resolution_of bars now cs v = Some res" "ro_false_signal res" shows "ro_outcome res = TO_Loss"
  using assms resolution_shape [of bars v 0 cs]
  by (auto simp: resolution_of_def Let_def split: option.splits if_splits)

text \<open>The stop is looked at first: a win means that no candle up to the deciding one touched the stop.\<close>

lemma win_never_stopped:
  assumes "scan_candles bars v i cs = Some res" "ro_outcome res = TO_Win"
  shows "\<exists>pre c post target. cs = pre @ c # post \<and> (\<forall>x \<in> set (pre @ [c]). \<not> hit_stop v x)
    \<and> vt_target v = Some target \<and> hit_target v c target \<and> ro_closed_at res = cd_end c"
  using assms
proof (induction bars v i cs rule: scan_candles.induct)
  case (2 bars v i c cs)
  show ?case
  proof (cases "\<not> hit_stop v c \<and> (\<exists>target. vt_target v = Some target \<and> hit_target v c target)")
    case True
    with 2(3,4) have "cs @ [] = cs \<and> ro_closed_at res = cd_end c" by auto
    with True show ?thesis by (intro exI [of _ "[]"] exI [of _ c] exI [of _ cs]) auto
  next
    case False
    with 2(3,4) have ns: "\<not> hit_stop v c" and rest: "scan_candles bars v (i + 1) cs = Some res"
      by (auto split: if_splits option.splits)
    have "\<exists>pre d post target. cs = pre @ d # post \<and> (\<forall>x \<in> set (pre @ [d]). \<not> hit_stop v x)
        \<and> vt_target v = Some target \<and> hit_target v d target \<and> ro_closed_at res = cd_end d"
    proof (cases "vt_target v")
      case None
      from 2(1) [OF ns None rest 2(4)] show ?thesis .
    next
      case (Some target)
      with False ns have "\<not> hit_target v c target" by simp
      from 2(2) [OF ns Some this rest 2(4)] show ?thesis .
    qed
    then obtain pre d post target where "cs = pre @ d # post" "\<forall>x \<in> set (pre @ [d]). \<not> hit_stop v x"
      "vt_target v = Some target" "hit_target v d target" "ro_closed_at res = cd_end d" by blast
    with ns show ?thesis
      by (intro exI [of _ "c # pre"] exI [of _ d] exI [of _ post] exI [of _ target]) auto
  qed
qed simp

lemma perf_ok_resolved:
  assumes "perf_ok (k + 1) p" "ro_false_signal res \<longrightarrow> ro_outcome res = TO_Loss"
  shows "perf_ok k (resolved_perf limit v res p)"
  using assms by (cases "ro_outcome res") (auto simp: perf_ok_def Let_def resolved_perf_def)

lemma ek_perf_resolve:
  "ek_perf n (ek_resolve v res t) =
     (if n = vt_strategy v then resolved_perf (vs_r_history_limit (ek_settings t)) v res (ek_perf n t) else ek_perf n t)"
  by (simp add: ek_resolve_def Let_def)

lemma resolve_keeps:
  assumes "tracker_ok t" "pd_get (ek_open t) (vt_signal_id v) = Some v"
    and "ro_false_signal res \<longrightarrow> ro_outcome res = TO_Loss"
  shows "tracker_ok (ek_resolve v res t)" "ek_open (ek_resolve v res t) = pd_pop (ek_open t) (vt_signal_id v)"
    "ek_settings (ek_resolve v res t) = ek_settings t" "ek_seen (ek_resolve v res t) = ek_seen t"
proof -
  show fr: "ek_open (ek_resolve v res t) = pd_pop (ek_open t) (vt_signal_id v)"
    "ek_settings (ek_resolve v res t) = ek_settings t" "ek_seen (ek_resolve v res t) = ek_seen t"
    by (simp_all add: ek_resolve_def Let_def)
  have wf: "pd_wf (ek_open t)" using assms(1) by (simp add: tracker_ok_def)
  have "real_of_int (open_of n (ek_resolve v res t)) = real_of_int (open_of n t) - (if vt_strategy v = n then 1 else 0)" for n
  proof -
    have c: "real (length (filter P xs)) = (\<Sum>x\<leftarrow>xs. if P x then 1 else 0)" for P and xs :: "virtual_trade list"
      by (induction xs) auto
    show ?thesis
      using sum_values_pop [OF wf assms(2), of "\<lambda>v. if vt_strategy v = n then 1 else 0"] by (simp add: open_of_def fr c)
  qed
  then have cnt: "open_of n t = open_of n (ek_resolve v res t) + (if n = vt_strategy v then 1 else 0)" for n
    by (smt (verit) of_int_add of_int_diff of_int_eq_iff of_int_1 of_int_0)
  have ok: "perf_ok (open_of n t) (ek_perf n t)" for n using assms(1) by (simp add: tracker_ok_def)
  have "perf_ok (open_of n (ek_resolve v res t)) (ek_perf n (ek_resolve v res t))" for n
  proof (cases "n = vt_strategy v")
    case True
    with ok [of n] cnt [of n] have "perf_ok (open_of n (ek_resolve v res t) + 1) (ek_perf n t)" by simp
    from perf_ok_resolved [OF this assms(3)] True show ?thesis
      by (simp add: ek_perf_resolve)
  next
    case False
    with ok [of n] cnt [of n] have "perf_ok (open_of n (ek_resolve v res t)) (ek_perf n t)" by simp
    with False show ?thesis by (simp add: ek_perf_resolve)
  qed
  moreover have "ek_seen_set (ek_resolve v res t) = ek_seen_set t" by (simp add: ek_resolve_def Let_def)
  ultimately show "tracker_ok (ek_resolve v res t)"
    using assms(1) pd_wf_pop [OF wf] unfolding tracker_ok_def fr by (auto simp: pd_pop_def)
qed

text \<open>One pass: every trade of the snapshot is looked at once, the others keep their place.\<close>

lemma evaluate_fold:
  assumes "tracker_ok t" "distinct (map vt_signal_id vs)" "\<And>v. v \<in> set vs \<Longrightarrow> pd_get (ek_open t) (vt_signal_id v) = Some v"
    and "fold (evaluate_trade now candles) vs (n, t) = (n', t')"
  shows "tracker_ok t' \<and> ek_settings t' = ek_settings t \<and> ek_seen t' = ek_seen t
    \<and> n' = n + int (length (ek_open t)) - int (length (ek_open t'))
    \<and> (\<forall>k. pd_get (ek_open t') k = (case pd_get (ek_open t) k of None \<Rightarrow> None
         | Some v \<Rightarrow> if v \<in> set vs \<and> resolution_of (vs_false_signal_bars (ek_settings t)) now
               (seen_candles v (candles (vt_symbol v))) v \<noteq> None then None else Some v))"
  using assms
proof (induction vs arbitrary: n t)
  case Nil
  then show ?case by (auto split: option.split)
next
  case (Cons v vs)
  let ?res = "\<lambda>v. resolution_of (vs_false_signal_bars (ek_settings t)) now (seen_candles v (candles (vt_symbol v))) v"
  have key: "\<And>k w. pd_get (ek_open t) k = Some w \<Longrightarrow> vt_signal_id w = k"
    using Cons.prems(1) by (auto simp: tracker_ok_def pd_get_def dest: map_of_SomeD)
  show ?case
  proof (cases "?res v")
    case None
    then have "evaluate_trade now candles v (n, t) = (n, t)" by (simp add: evaluate_trade_def)
    with Cons.prems(4) have "fold (evaluate_trade now candles) vs (n, t) = (n', t')" by simp
    from Cons.IH [OF Cons.prems(1) _ _ this] Cons.prems(2,3) None show ?thesis
      by (auto split: option.splits if_splits)
  next
    case (Some res)
    let ?t = "ek_resolve v res t"
    have fs: "ro_false_signal res \<longrightarrow> ro_outcome res = TO_Loss" using resolution_false [OF Some] by blast
    have here: "pd_get (ek_open t) (vt_signal_id v) = Some v" using Cons.prems(3) by simp
    note keep = resolve_keeps [OF Cons.prems(1) here fs]
    have "evaluate_trade now candles v (n, t) = (n + 1, ?t)" by (simp add: evaluate_trade_def Some)
    with Cons.prems(4) have step: "fold (evaluate_trade now candles) vs (n + 1, ?t) = (n', t')" by simp
    have len: "int (length (ek_open ?t)) = int (length (ek_open t)) - 1"
      using Cons.prems(1) here keep(2) using length_pop [of "ek_open t" "vt_signal_id v"] pd_get_Some_key [OF here] by (simp add: tracker_ok_def)
    have others: "pd_get (ek_open ?t) (vt_signal_id w) = Some w" if "w \<in> set vs" for w
    proof -
      have "vt_signal_id w \<in> vt_signal_id ` set vs" using that by (rule imageI)
      with Cons.prems(2) have "vt_signal_id w \<noteq> vt_signal_id v" by auto
      then show ?thesis using Cons.prems(3) [of w] that by (simp add: keep(2))
    qed
    have distinct_tail: "distinct (map vt_signal_id vs)" using Cons.prems(2) by simp
    have ih: "tracker_ok t' \<and> ek_settings t' = ek_settings t \<and> ek_seen t' = ek_seen t
        \<and> n' = n + 1 + int (length (ek_open ?t)) - int (length (ek_open t'))
        \<and> (\<forall>k. pd_get (ek_open t') k = (case pd_get (ek_open ?t) k of None \<Rightarrow> None
           | Some w \<Rightarrow> if w \<in> set vs \<and> ?res w \<noteq> None then None else Some w))"
      by (rule Cons.IH [OF keep(1) distinct_tail others step, unfolded keep(3) keep(4)])
    have "pd_get (ek_open t') k = (case pd_get (ek_open t) k of None \<Rightarrow> None
        | Some w \<Rightarrow> if w \<in> set (v # vs) \<and> ?res w \<noteq> None then None else Some w)" for k
    proof (cases "k = vt_signal_id v")
      case True
      with ih here Some show ?thesis by (simp add: keep(2))
    next
      case False
      with ih have "pd_get (ek_open t') k = (case pd_get (ek_open t) k of None \<Rightarrow> None
          | Some w \<Rightarrow> if w \<in> set vs \<and> ?res w \<noteq> None then None else Some w)" by (simp add: keep(2))
      with key [of k] False show ?thesis by (auto split: option.split)
    qed
    with ih len show ?thesis by auto
  qed
qed

lemma evaluate_open_facts:
  assumes "tracker_ok t" "evaluate_open now candles t = (n, t')"
  shows "tracker_ok t'" "ek_settings t' = ek_settings t" "ek_seen t' = ek_seen t"
    "n = int (length (ek_open t)) - int (length (ek_open t'))"
    "\<And>k v. pd_get (ek_open t') k = Some v \<Longrightarrow> pd_get (ek_open t) k = Some v \<and> now < vt_deadline v
       \<and> scan_candles (vs_false_signal_bars (ek_settings t)) v 0 (seen_candles v (candles (vt_symbol v))) = None"
proof -
  have wf: "pd_wf (ek_open t)" and ids: "\<forall>(k, v) \<in> set (ek_open t). vt_signal_id v = k"
    using assms(1) by (auto simp: tracker_ok_def)
  have "map vt_signal_id (pd_values (ek_open t)) = pd_keys (ek_open t)"
    using ids by (auto simp: pd_values_def pd_keys_def)
  then have d: "distinct (map vt_signal_id (pd_values (ek_open t)))"
    using wf by (simp add: pd_wf_def pd_keys_def)
  have here: "pd_get (ek_open t) (vt_signal_id v) = Some v" if "v \<in> set (pd_values (ek_open t))" for v
    using that ids wf by (auto simp: pd_values_def pd_get_def pd_wf_def intro!: map_of_is_SomeI)
  have "fold (evaluate_trade now candles) (pd_values (ek_open t)) (0, t) = (n, t')"
    using assms(2) by (simp add: evaluate_open_def)
  note all = evaluate_fold [OF assms(1) d here this]
  show "tracker_ok t'" "ek_settings t' = ek_settings t" "ek_seen t' = ek_seen t"
    "n = int (length (ek_open t)) - int (length (ek_open t'))" using all by auto
  fix k v assume v: "pd_get (ek_open t') k = Some v"
  have "pd_get (ek_open t') k = (case pd_get (ek_open t) k of None \<Rightarrow> None
      | Some w \<Rightarrow> if w \<in> set (pd_values (ek_open t)) \<and> resolution_of (vs_false_signal_bars (ek_settings t)) now
            (seen_candles w (candles (vt_symbol w))) w \<noteq> None then None else Some w)"
    using all by blast
  with v have old: "pd_get (ek_open t) k = Some v"
    and stays: "v \<notin> set (pd_values (ek_open t)) \<or> resolution_of (vs_false_signal_bars (ek_settings t)) now
        (seen_candles v (candles (vt_symbol v))) v = None"
    by (auto split: option.splits if_splits)
  have "v \<in> set (pd_values (ek_open t))"
    using old by (force simp: pd_get_def pd_values_def dest: map_of_SomeD)
  with stays old show "pd_get (ek_open t) k = Some v \<and> now < vt_deadline v
       \<and> scan_candles (vs_false_signal_bars (ek_settings t)) v 0 (seen_candles v (candles (vt_symbol v))) = None"
    by (auto simp: resolution_of_def Let_def split: option.splits if_splits)
qed

section \<open>Any interleaving of records and passes\<close>

datatype tracker_event = TE_Record signal_record | TE_Pass time "string \<Rightarrow> md_candle list"

fun tracker_step :: "tracker_event \<Rightarrow> tracker \<Rightarrow> tracker" where
  "tracker_step (TE_Record r) t = on_signal_record r t"
| "tracker_step (TE_Pass now candles) t = snd (evaluate_open now candles t)"

lemma tracker_new_ok: "tracker_ok (ek_new s)"
  by (simp add: tracker_ok_def ek_new_def perf_ok_def open_of_def ek_perf_def sp_new_def pd_get_or_def pd_wf_def pd_values_def)

lemma tracker_run:
  assumes "tracker_ok t" "length (ek_seen t) + length es \<le> seen_limit"
  shows "tracker_ok (fold tracker_step es t) \<and> ek_settings (fold tracker_step es t) = ek_settings t"
  using assms
proof (induction es arbitrary: t)
  case (Cons e es)
  have "tracker_ok (tracker_step e t) \<and> length (ek_seen (tracker_step e t)) \<le> Suc (length (ek_seen t))
      \<and> ek_settings (tracker_step e t) = ek_settings t"
  proof (cases e)
    case (TE_Record r)
    with record_keeps [of t r] Cons.prems show ?thesis by simp
  next
    case (TE_Pass now candles)
    obtain n t' where "evaluate_open now candles t = (n, t')" by fastforce
    with evaluate_open_facts [OF Cons.prems(1) this] TE_Pass show ?thesis by simp
  qed
  with Cons.IH [of "tracker_step e t"] Cons.prems(2) show ?case by simp
qed simp

text \<open>
  The feedback factor is a number in [0, 1], and the drawdown of a strategy is never negative.
\<close>

lemma factor_bounds: "0 \<le> ek_factor s t" "ek_factor s t \<le> 1"
  by (auto simp: ek_factor_def Let_def split: option.split)

lemma drawdown_r_nonneg: "0 \<le> sp_max_drawdown_r p"
proof -
  have "0 \<le> d \<Longrightarrow> 0 \<le> snd (snd (fold (\<lambda>r (peak, equity, drawdown).
       let equity' = equity + r; peak' = max peak equity' in (peak', equity', max drawdown (peak' - equity'))) xs (p', e, d)))"
    for xs and p' e d :: real
    by (induction xs arbitrary: p' e d) (auto simp: Let_def)
  from this [of 0 "sp_r_values p" 0 0] show ?thesis by (simp add: sp_max_drawdown_r_def case_prod_beta)
qed

text \<open>
  After any interleaving of signal records and evaluation passes
  on a fresh tracker (up to the identifiers it remembers), for every strategy the tracked trades are the evaluated ones plus those
  still open, every evaluated trade is a win, a loss or a timeout, false signals are losses, and the gross
  results are not negative.
\<close>

theorem evaluation_accounts_balance:
  assumes "length es \<le> seen_limit" "t = fold tracker_step es (ek_new s)"
  shows "sp_tracked (ek_perf n t) = sp_evaluated (ek_perf n t) + open_of n t
    \<and> sp_evaluated (ek_perf n t) = sp_wins (ek_perf n t) + sp_losses (ek_perf n t) + sp_timeouts (ek_perf n t)
    \<and> 0 \<le> sp_false_signals (ek_perf n t) \<and> sp_false_signals (ek_perf n t) \<le> sp_losses (ek_perf n t)
    \<and> sp_tracked (ek_perf n t) \<le> sp_signals (ek_perf n t)
    \<and> 0 \<le> sp_gross_win_r (ek_perf n t) \<and> 0 \<le> sp_gross_loss_r (ek_perf n t)
    \<and> 0 \<le> sp_max_drawdown_r (ek_perf n t) \<and> 0 \<le> ek_factor n t \<and> ek_factor n t \<le> 1"
proof -
  have "tracker_ok t"
    using tracker_run [OF tracker_new_ok, of s es] assms by (simp add: ek_new_def)
  then have "perf_ok (open_of n t) (ek_perf n t)" by (simp add: tracker_ok_def)
  then show ?thesis
    using drawdown_r_nonneg [of "ek_perf n t"] factor_bounds [of n t] unfolding perf_ok_def by (elim conjE) (intro conjI)
qed

definition example_record :: signal_record where
  "example_record = \<lparr> sl_signal = (mk_signal ''1'' ''trend'' ''X'' 0 Dir_Long (8/10) 80)\<lparr>
       sg_entry_zone := Some \<lparr> ez_low = 99, ez_high = 101 \<rparr>, sg_stop_loss := Some 90 \<rparr>,
     sl_status = SS_ACCEPTED, sl_status_reasons = [], sl_recorded_at = 0, sl_resolved_at = None \<rparr>"

lemma example_tracked:
  "sp_tracked (ek_perf ''trend'' (on_signal_record example_record (ek_new default_evaluation))) = 1"
  by (simp add: on_signal_record_def ek_new_def default_evaluation_def example_record_def mk_signal_def Let_def ez_mid_def
      ek_perf_def ek_put_perf_def ek_remember_def sp_new_def pd_get_or_def pd_get_def)

theorem evaluation_accounts_balance_witness:
  "let t = fold tracker_step [TE_Record example_record] (ek_new default_evaluation) in
     sp_evaluated (ek_perf ''trend'' t) + open_of ''trend'' t = 1"
  using evaluation_accounts_balance [where es = "[TE_Record example_record]", OF _ refl, where n = "''trend''" and s = default_evaluation] example_tracked
  by (simp add: seen_limit_def)

text \<open>
  A pass leaves open only trades before their deadline of which no candle seen since the signal has touched the stop
  or the target.
\<close>

lemma pass_exhausts:
  assumes "tracker_ok t" "evaluate_open now candles t = (n, t')" "pd_get (ek_open t') k = Some v"
    "c \<in> set (candles (vt_symbol v))" "cd_end c > vt_opened_at v"
  shows "now < vt_deadline v" "\<not> hit_stop v c" "vt_target v = Some y \<Longrightarrow> \<not> hit_target v c y"
proof -
  have none: "\<not> hit_stop v x \<and> (\<forall>y. vt_target v = Some y \<longrightarrow> \<not> hit_target v x y)"
    if "scan_candles bars v i cs = None" "x \<in> set cs" for bars i cs x
    using that by (induction bars v i cs rule: scan_candles.induct) (auto split: if_splits option.splits)
  have f: "now < vt_deadline v"
    "scan_candles (vs_false_signal_bars (ek_settings t)) v 0 (seen_candles v (candles (vt_symbol v))) = None"
    using evaluate_open_facts(5) [OF assms(1,2,3)] by auto
  show "now < vt_deadline v" by (rule f(1))
  have "c \<in> set (seen_candles v (candles (vt_symbol v)))" using assms(4,5) by (simp add: seen_candles_def)
  from none [OF f(2) this] show "\<not> hit_stop v c" "vt_target v = Some y \<Longrightarrow> \<not> hit_target v c y" by auto
qed

end
