(* ===== verification/Structure.thy ===== *)
theory Structure
  imports Market_Models
begin

text \<open>
  Market structure (\<open>app/analytics/indicators/structure.py\<close>): fractal pivots and their HH/HL/LH/LL labels,
  breakouts and failed breakouts of a prior range, and the structural reading of a window.  Windows and
  lookbacks are positive and a pivot dominates at least one neighbour, as every caller passes them.
\<close>

section \<open>Pivots\<close>

datatype level_kind = LK_High | LK_Low

fun level_kind_value :: "level_kind \<Rightarrow> string" where
  "level_kind_value LK_High = ''high''"
| "level_kind_value LK_Low = ''low''"

record swing_point =
  sw_index :: nat
  sw_price :: real
  sw_kind :: level_kind
  sw_time :: time
  sw_label :: string

definition neighborhood :: "md_candle list \<Rightarrow> nat \<Rightarrow> nat \<Rightarrow> nat \<Rightarrow> md_candle list" where
  "neighborhood cs left right i = map (\<lambda>j. cs ! j) (filter (\<lambda>j. j \<noteq> i) [i - left..<i + right + 1])"

definition mk_swing :: "level_kind \<Rightarrow> nat \<Rightarrow> md_candle \<Rightarrow> swing_point" where
  "mk_swing k i c = \<lparr> sw_index = i, sw_price = (case k of LK_High \<Rightarrow> cd_high c | LK_Low \<Rightarrow> cd_low c), sw_kind = k,
     sw_time = cd_start c, sw_label = [] \<rparr>"

definition pivots_at :: "md_candle list \<Rightarrow> nat \<Rightarrow> nat \<Rightarrow> nat \<Rightarrow> swing_point list" where
  "pivots_at cs left right i =
     (let c = cs ! i; near = neighborhood cs left right i in
      (if cd_high c > Max (set (map cd_high near)) then [mk_swing LK_High i c] else []) @
      (if cd_low c < Min (set (map cd_low near)) then [mk_swing LK_Low i c] else []))"

definition swing_key :: "swing_point \<Rightarrow> nat" where
  "swing_key s = 2 * sw_index s + (case sw_kind s of LK_High \<Rightarrow> 0 | LK_Low \<Rightarrow> 1)"

definition raw_swings :: "md_candle list \<Rightarrow> nat \<Rightarrow> nat \<Rightarrow> swing_point list" where
  "raw_swings cs left right = sort_key swing_key (concat (map (pivots_at cs left right) [left..<length cs - right]))"

fun label_swings :: "swing_point option \<Rightarrow> swing_point option \<Rightarrow> swing_point list \<Rightarrow> swing_point list" where
  "label_swings last_high last_low [] = []"
| "label_swings last_high last_low (p # ps) =
     (case sw_kind p of
        LK_High \<Rightarrow>
          p\<lparr> sw_label := (case last_high of None \<Rightarrow> [] | Some h \<Rightarrow> if sw_price p > sw_price h then ''HH'' else ''LH'') \<rparr>
            # label_swings (Some p) last_low ps
      | LK_Low \<Rightarrow>
          p\<lparr> sw_label := (case last_low of None \<Rightarrow> [] | Some l \<Rightarrow> if sw_price p > sw_price l then ''HL'' else ''LL'') \<rparr>
            # label_swings last_high (Some p) ps)"

definition swing_points :: "md_candle list \<Rightarrow> nat \<Rightarrow> nat \<Rightarrow> swing_point list" where
  "swing_points cs left right = label_swings None None (raw_swings cs left right)"

section \<open>Ranges and breakouts\<close>

datatype move = MV_Up | MV_Down

fun move_value :: "move \<Rightarrow> string" where
  "move_value MV_Up = ''up''"
| "move_value MV_Down = ''down''"

record breakout =
  bo_direction :: move
  bo_level :: real
  bo_valid :: bool
  bo_volume_ratio :: real

text \<open>\<open>candles[-lookback - 1 : -1]\<close>: the range before the last candle.\<close>

definition prior_range :: "nat \<Rightarrow> md_candle list \<Rightarrow> md_candle list" where
  "prior_range lookback cs = take lookback (drop (length cs - lookback - 1) cs)"

definition range_top :: "md_candle list \<Rightarrow> real" where "range_top cs = Max (set (map cd_high cs))"
definition range_bottom :: "md_candle list \<Rightarrow> real" where "range_bottom cs = Min (set (map cd_low cs))"

definition detect_breakout :: "nat \<Rightarrow> real \<Rightarrow> md_candle list \<Rightarrow> breakout option" where
  "detect_breakout lookback min_volume_ratio cs =
     (if length cs < lookback + 1 then None else
      let prior = prior_range lookback cs; bar = last cs;
          avg_volume = sum_list (map cd_volume prior) / real (length prior);
          ratio = (if avg_volume > 0 then cd_volume bar / avg_volume else 0) in
      if cd_close bar > range_top prior
      then Some \<lparr> bo_direction = MV_Up, bo_level = range_top prior, bo_valid = ratio \<ge> min_volume_ratio, bo_volume_ratio = ratio \<rparr>
      else if cd_close bar < range_bottom prior
      then Some \<lparr> bo_direction = MV_Down, bo_level = range_bottom prior, bo_valid = ratio \<ge> min_volume_ratio, bo_volume_ratio = ratio \<rparr>
      else None)"

fun fake_scan :: "nat \<Rightarrow> md_candle list \<Rightarrow> nat \<Rightarrow> nat \<Rightarrow> move list" where
  "fake_scan lookback cs offset 0 = []"
| "fake_scan lookback cs offset (Suc n) =
     (let end_of = length cs - offset in
      if end_of < lookback + 1 then [] else
      let window = take end_of cs; prior = prior_range lookback window; bar = last window in
      (if cd_high bar > range_top prior \<and> cd_close bar \<le> range_top prior then [MV_Up] else []) @
      (if cd_low bar < range_bottom prior \<and> cd_close bar \<ge> range_bottom prior then [MV_Down] else []) @
      fake_scan lookback cs (offset + 1) n)"

definition fake_breakouts :: "nat \<Rightarrow> nat \<Rightarrow> md_candle list \<Rightarrow> move list" where
  "fake_breakouts lookback scan cs = fake_scan lookback cs 0 scan"

section \<open>The structural reading\<close>

datatype trend = TR_Up | TR_Down | TR_Sideways

fun trend_value :: "trend \<Rightarrow> string" where
  "trend_value TR_Up = ''up''"
| "trend_value TR_Down = ''down''"
| "trend_value TR_Sideways = ''sideways''"

record structure_analysis =
  sa_swings :: "swing_point list"
  sa_trend :: trend
  sa_consolidation :: bool
  sa_range_high :: real
  sa_range_low :: real
  sa_last_swing_high :: "swing_point option"
  sa_last_swing_low :: "swing_point option"
  sa_bias :: string

definition trend_of :: "swing_point list \<Rightarrow> trend" where
  "trend_of swings =
     (let labels = filter (\<lambda>l. l \<noteq> []) (map sw_label (py_tail 4 swings));
          ups = length (filter (\<lambda>l. l \<in> {''HH'', ''HL''}) labels);
          downs = length (filter (\<lambda>l. l \<in> {''LH'', ''LL''}) labels) in
      if length labels \<ge> 2 \<and> ups \<noteq> 0 \<and> downs = 0 then TR_Up
      else if length labels \<ge> 2 \<and> downs \<noteq> 0 \<and> ups = 0 then TR_Down
      else TR_Sideways)"

definition clv_of :: "md_candle \<Rightarrow> real" where
  "clv_of c = (let span = cd_high c - cd_low c in
     if span > 0 then ((cd_close c - cd_low c) - (cd_high c - cd_close c)) / span else 0)"

definition flow_bias :: "md_candle list \<Rightarrow> string" where
  "flow_bias window =
     (let clv_flow = sum_list (map (\<lambda>c. clv_of c * cd_volume c) window);
          total_volume = sum_list (map cd_volume window) in
      if total_volume > 0
      then let normalized = clv_flow / total_volume in
        if normalized > 15/100 then ''accumulation'' else if normalized < - (15/100) then ''distribution'' else []
      else [])"

definition last_of_kind :: "level_kind \<Rightarrow> swing_point list \<Rightarrow> swing_point option" where
  "last_of_kind k swings = (let xs = filter (\<lambda>s. sw_kind s = k) swings in if xs = [] then None else Some (last xs))"

definition analyze_structure :: "nat \<Rightarrow> nat \<Rightarrow> nat \<Rightarrow> real \<Rightarrow> md_candle list \<Rightarrow> structure_analysis option" where
  "analyze_structure swing_left swing_right range_window consolidation_band_pct cs =
     (if length cs < max range_window (swing_left + swing_right + 1) then None else
      let swings = swing_points cs swing_left swing_right;
          window = py_tail (int range_window) cs;
          range_high = range_top window; range_low = range_bottom window;
          mid = (range_high + range_low) / 2;
          consolidation = (mid > 0 \<and> (range_high - range_low) / mid * 100 \<le> consolidation_band_pct) in
      Some \<lparr> sa_swings = swings, sa_trend = trend_of swings, sa_consolidation = consolidation,
             sa_range_high = range_high, sa_range_low = range_low,
             sa_last_swing_high = last_of_kind LK_High swings, sa_last_swing_low = last_of_kind LK_Low swings,
             sa_bias = (if consolidation then flow_bias window else []) \<rparr>)"

section \<open>Pivots are in order and dominate their neighbours\<close>

lemma pivot_shape:
  assumes "p \<in> set (pivots_at cs left right i)"
  shows "sw_index p = i" "sw_label p = []" "sw_time p = cd_start (cs ! i)"
    "sw_price p = (case sw_kind p of LK_High \<Rightarrow> cd_high (cs ! i) | LK_Low \<Rightarrow> cd_low (cs ! i))"
  using assms by (auto simp: pivots_at_def Let_def mk_swing_def split: if_splits)

lemma pivots_sorted: "sorted (map swing_key (concat (map (pivots_at cs left right) [m..<n])))"
proof (induction n)
  case (Suc n)
  show ?case
  proof (cases "m \<le> n")
    case True
    have low: "swing_key p < 2 * n" if "p \<in> set (pivots_at cs left right i)" "i < n" for p i
      using pivot_shape(1) [OF that(1)] that(2) by (cases "sw_kind p") (auto simp: swing_key_def)
    have here: "2 * n \<le> swing_key p" if "p \<in> set (pivots_at cs left right n)" for p
      using pivot_shape(1) [OF that] by (simp add: swing_key_def)
    have "sorted (map swing_key (pivots_at cs left right n))"
      by (auto simp: pivots_at_def Let_def swing_key_def mk_swing_def)
    with Suc True show ?thesis by (auto simp: sorted_append dest!: low here)
  qed simp
qed simp

lemma raw_swings_eq:
  "raw_swings cs left right = concat (map (pivots_at cs left right) [left..<length cs - right])"
  unfolding raw_swings_def by (rule sort_key_id_if_sorted [OF pivots_sorted])

lemma label_append:
  "\<exists>h l. \<forall>ys. label_swings lh ll (xs @ ys) = label_swings lh ll xs @ label_swings h l ys"
proof (induction xs arbitrary: lh ll)
  case (Cons p xs)
  show ?case
  proof (cases "sw_kind p")
    case LK_High
    from Cons.IH [of "Some p" ll] LK_High show ?thesis by auto
  next
    case LK_Low
    from Cons.IH [of lh "Some p"] LK_Low show ?thesis by auto
  qed
qed auto

lemma label_indices [simp]: "map sw_index (label_swings lh ll ps) = map sw_index ps"
  by (induction lh ll ps rule: label_swings.induct) (auto split: level_kind.split)

lemma label_members:
  "s \<in> set (label_swings lh ll ps) \<Longrightarrow> \<exists>p \<in> set ps. sw_index s = sw_index p \<and> sw_kind s = sw_kind p \<and> sw_price s = sw_price p"
  by (induction lh ll ps rule: label_swings.induct) (auto split: level_kind.splits)

lemma pivots_prefix:
  assumes "i + right < n" "n \<le> length cs"
  shows "pivots_at (take n cs) left right i = pivots_at cs left right i"
proof -
  have "neighborhood (take n cs) left right i = neighborhood cs left right i"
    using assms by (auto simp: neighborhood_def)
  then show ?thesis using assms by (simp add: pivots_at_def)
qed

lemma upt_split: "i \<le> j \<Longrightarrow> j \<le> k \<Longrightarrow> [i..<k] = [i..<j] @ [j..<k]"
  using upt_add_eq_append [of i j "k - j"] by simp

lemma swings_of_prefix_inside:
  assumes "n \<le> length cs"
  shows "swing_points (take n cs) left right = filter (\<lambda>s. sw_index s + right < n) (swing_points cs left right)"
proof -
  let ?P = "pivots_at cs left right"
  define m where "m = max left (min (n - right) (length cs - right))"
  have old: "raw_swings (take n cs) left right = concat (map ?P [left..<n - right])"
  proof -
    have "pivots_at (take n cs) left right i = ?P i" if "i \<in> set [left..<n - right]" for i
      using that assms by (intro pivots_prefix) auto
    then have "map (pivots_at (take n cs) left right) [left..<n - right] = map ?P [left..<n - right]" by simp
    then show ?thesis using assms by (simp add: raw_swings_eq min_absorb2 del: map_eq_conv)
  qed
  have split: "raw_swings cs left right = concat (map ?P [left..<n - right]) @ concat (map ?P [max left (n - right)..<length cs - right])"
  proof (cases "left \<le> n - right")
    case True
    then have "[left..<length cs - right] = [left..<n - right] @ [n - right..<length cs - right]"
      using assms upt_split [of left "n - right" "length cs - right"] by simp
    with True show ?thesis by (simp add: raw_swings_eq max_absorb2)
  next
    case False
    then show ?thesis by (simp add: raw_swings_eq max_absorb1)
  qed
  define xs where "xs = concat (map ?P [left..<n - right])"
  define ys where "ys = concat (map ?P [max left (n - right)..<length cs - right])"
  obtain h l where app: "label_swings None None (xs @ ys) = label_swings None None xs @ label_swings h l ys"
    using label_append by blast
  have "sw_index s + right < n" if "s \<in> set (label_swings None None xs)" for s
    using label_members [OF that] pivot_shape(1) by (fastforce simp: xs_def)
  moreover have "\<not> sw_index s + right < n" if "s \<in> set (label_swings h l ys)" for s
    using label_members [OF that] pivot_shape(1) by (fastforce simp: ys_def)
  ultimately have "filter (\<lambda>s. sw_index s + right < n) (label_swings None None xs @ label_swings h l ys) = label_swings None None xs"
    by (simp add: filter_empty_conv)
  then show ?thesis
    by (simp add: swing_points_def old split app flip: xs_def ys_def)
qed

lemma swing_shape:
  assumes "s \<in> set (swing_points cs left right)"
  shows "left \<le> sw_index s" "sw_index s + right < length cs"
    "sw_price s = (case sw_kind s of LK_High \<Rightarrow> cd_high (cs ! sw_index s) | LK_Low \<Rightarrow> cd_low (cs ! sw_index s))"
proof -
  obtain p where "p \<in> set (raw_swings cs left right)" "sw_index s = sw_index p" "sw_kind s = sw_kind p" "sw_price s = sw_price p"
    using label_members assms by (auto simp: swing_points_def dest: label_members)
  moreover from this(1) obtain i where "left \<le> i" "i < length cs - right" "p \<in> set (pivots_at cs left right i)"
    by (auto simp: raw_swings_eq)
  ultimately show "left \<le> sw_index s" "sw_index s + right < length cs"
    "sw_price s = (case sw_kind s of LK_High \<Rightarrow> cd_high (cs ! sw_index s) | LK_Low \<Rightarrow> cd_low (cs ! sw_index s))"
    using pivot_shape [of p cs left right i] by auto
qed

lemma swing_dominates:
  assumes "s \<in> set (swing_points cs left right)" "j \<noteq> sw_index s" "sw_index s - left \<le> j" "j \<le> sw_index s + right"
  shows "sw_kind s = LK_High \<Longrightarrow> cd_high (cs ! j) < sw_price s" "sw_kind s = LK_Low \<Longrightarrow> sw_price s < cd_low (cs ! j)"
proof -
  obtain p where p: "p \<in> set (raw_swings cs left right)" "sw_index s = sw_index p" "sw_kind s = sw_kind p" "sw_price s = sw_price p"
    using assms(1) by (auto simp: swing_points_def dest: label_members)
  from this(1) obtain i where i: "p \<in> set (pivots_at cs left right i)" by (auto simp: raw_swings_eq)
  have "sw_index p = i" by (rule pivot_shape(1) [OF i])
  then have "cs ! j \<in> set (neighborhood cs left right i)" using assms(2-4) p(2)
    unfolding neighborhood_def by (intro list.set_map [THEN equalityD2, THEN subsetD] imageI) auto
  then have "cd_high (cs ! j) \<le> Max (set (map cd_high (neighborhood cs left right i)))"
    "Min (set (map cd_low (neighborhood cs left right i))) \<le> cd_low (cs ! j)" by auto
  with i p(3,4) show "sw_kind s = LK_High \<Longrightarrow> cd_high (cs ! j) < sw_price s" "sw_kind s = LK_Low \<Longrightarrow> sw_price s < cd_low (cs ! j)"
    by (auto simp: pivots_at_def Let_def mk_swing_def split: if_splits)
qed

lemma range_order:
  assumes "cs \<noteq> []" "\<And>c. c \<in> set cs \<Longrightarrow> cd_low c \<le> cd_high c"
  shows "range_bottom cs \<le> range_top cs"
proof -
  obtain c where c: "c \<in> set cs" using assms(1) by (cases cs) auto
  have "range_bottom cs \<le> cd_low c" "cd_high c \<le> range_top cs" using c by (auto simp: range_bottom_def range_top_def)
  with assms(2) [OF c] show ?thesis by linarith
qed

text \<open>A candle that closed beyond the prior range is a breakout, so it is never also a failed one on that side.\<close>

lemma breakout_level:
  assumes "detect_breakout lookback r cs = Some b"
  shows "bo_direction b = MV_Up \<Longrightarrow> cd_close (last cs) > bo_level b \<and> bo_level b = range_top (prior_range lookback cs)"
    "bo_direction b = MV_Down \<Longrightarrow> cd_close (last cs) < bo_level b \<and> bo_level b = range_bottom (prior_range lookback cs)"
  using assms by (auto simp: detect_breakout_def Let_def split: if_splits)

lemma breakout_not_fake:
  assumes "detect_breakout lookback r cs = Some b"
  shows "bo_direction b \<notin> set (fake_breakouts lookback 1 cs)"
proof -
  have "fake_breakouts lookback 1 cs =
      (if cd_high (last cs) > range_top (prior_range lookback cs) \<and> cd_close (last cs) \<le> range_top (prior_range lookback cs) then [MV_Up] else []) @
      (if cd_low (last cs) < range_bottom (prior_range lookback cs) \<and> cd_close (last cs) \<ge> range_bottom (prior_range lookback cs) then [MV_Down] else [])"
    using assms by (auto simp: fake_breakouts_def numeral_eq_Suc Let_def detect_breakout_def split: if_splits)
  with breakout_level [OF assms] show ?thesis by (cases "bo_direction b") (auto split: if_splits)
qed

lemma clv_bounds:
  assumes "cd_low c \<le> cd_close c" "cd_close c \<le> cd_high c" shows "-1 \<le> clv_of c" "clv_of c \<le> 1"
  using assms by (auto simp: clv_of_def Let_def field_simps)

lemma swings_of_prefix:
  "swing_points (take n cs) left right = filter (\<lambda>s. sw_index s + right < n) (swing_points cs left right)"
proof (cases "n \<le> length cs")
  case False
  then have "\<forall>s \<in> set (swing_points cs left right). sw_index s + right < n" using swing_shape(2) by fastforce
  with False show ?thesis by simp
qed (rule swings_of_prefix_inside)

text \<open>
  Property C31 (pivots never repaint): the pivots of a window seen after its first n candles are exactly the
  pivots of the longer window whose right neighbourhood lies inside those n candles, with the same prices and
  the same labels: new candles only add pivots after the confirmed ones.
\<close>

theorem swings_never_repaint:
  "swing_points (take n cs) left right = filter (\<lambda>s. sw_index s + right < n) (swing_points cs left right)"
  by (rule swings_of_prefix)

end
