(* ===== verification/Momentum.thy ===== *)
theory Momentum
  imports Structure
begin

text \<open>
  Momentum (\<open>app/analytics/indicators/momentum.py\<close>): rate of change, the score normalised by volatility, the
  acceleration and the detection of an impulse that ends at the newest candle.  Periods are not negative.
\<close>

definition close_back :: "nat \<Rightarrow> md_candle list \<Rightarrow> real" where
  "close_back n cs = cd_close (cs ! (length cs - 1 - n))"

definition rate_of_change :: "nat \<Rightarrow> md_candle list \<Rightarrow> real option" where
  "rate_of_change period cs =
     (if length cs \<le> period then None else
      let past = close_back period cs in
      if past \<le> 0 then None else Some ((close_back 0 cs / past - 1) * 100))"

definition momentum_score :: "nat \<Rightarrow> nat \<Rightarrow> md_candle list \<Rightarrow> real option" where
  "momentum_score period atr_period cs =
     (case (rate_of_change period cs, atr_of (map ohlcv_of cs) atr_period) of
        (Some roc, Some value) \<Rightarrow>
          let price = close_back 0 cs in
          if price \<le> 0 \<or> value \<le> 0 then None else
          let atr_pct = value / price * 100 in
          if atr_pct \<le> 0 then None
          else Some (max (-100) (min 100 (roc / (atr_pct * real period) * 100)))
      | _ \<Rightarrow> None)"

text \<open>\<open>candles[:-n]\<close>, which is empty for n = 0.\<close>

definition py_drop_last :: "nat \<Rightarrow> 'a list \<Rightarrow> 'a list" where
  "py_drop_last n xs = (if n = 0 then [] else take (length xs - n) xs)"

definition acceleration :: "nat \<Rightarrow> md_candle list \<Rightarrow> real option" where
  "acceleration period cs =
     (if length cs \<le> 2 * period then None else
      case (rate_of_change period cs, rate_of_change period (py_drop_last period cs)) of
        (Some current, Some previous) \<Rightarrow> Some (current - previous)
      | _ \<Rightarrow> None)"

record impulse =
  im_direction :: move
  im_start :: nat
  im_end :: nat
  im_magnitude :: real
  im_body_ratio :: real

definition candle_move :: "md_candle \<Rightarrow> move" where
  "candle_move c = (if cd_close c \<ge> cd_open c then MV_Up else MV_Down)"

definition body_share :: "md_candle \<Rightarrow> real" where
  "body_share c = (let full = cd_high c - cd_low c in if full > 0 then \<bar>cd_close c - cd_open c\<bar> / full else 0)"

definition impulse_of :: "nat \<Rightarrow> real \<Rightarrow> real \<Rightarrow> real \<Rightarrow> md_candle list \<Rightarrow> impulse option" where
  "impulse_of bars min_multiple min_body value cs =
     (let window = drop (length cs - bars) cs;
          directions = remdups (map candle_move window) in
      if length directions \<noteq> 1 then None else
      let net = \<bar>cd_close (last window) - cd_open (hd window)\<bar> in
      if net < min_multiple * value then None else
      let ratio = sum_list (map body_share window) / real (length window) in
      if ratio < min_body then None
      else Some \<lparr> im_direction = hd directions, im_start = length cs - bars, im_end = length cs - 1,
             im_magnitude = net / value, im_body_ratio = ratio \<rparr>)"

fun first_impulse :: "real \<Rightarrow> real \<Rightarrow> real \<Rightarrow> md_candle list \<Rightarrow> nat list \<Rightarrow> impulse option" where
  "first_impulse min_multiple min_body value cs [] = None"
| "first_impulse min_multiple min_body value cs (bars # rest) =
     (if bars > length cs then None else
      case impulse_of bars min_multiple min_body value cs of
        None \<Rightarrow> first_impulse min_multiple min_body value cs rest
      | Some i \<Rightarrow> Some i)"

definition detect_impulse :: "nat \<Rightarrow> real \<Rightarrow> real \<Rightarrow> nat \<Rightarrow> md_candle list \<Rightarrow> impulse option" where
  "detect_impulse max_bars min_multiple min_body atr_period cs =
     (case atr_of (map ohlcv_of cs) atr_period of
        None \<Rightarrow> None
      | Some value \<Rightarrow> if value \<le> 0 \<or> length cs < 2 then None
          else first_impulse min_multiple min_body value cs [1..<max_bars + 1])"

lemma score_bounds: "momentum_score p a cs = Some s \<Longrightarrow> -100 \<le> s \<and> s \<le> 100"
  by (auto simp: momentum_score_def Let_def split: option.splits if_splits)

lemma score_sign:
  assumes "momentum_score p a cs = Some s" "0 < p"
  shows "0 < s \<longleftrightarrow> close_back p cs < close_back 0 cs"
proof -
  obtain roc v where r: "rate_of_change p cs = Some roc" and a: "atr_of (map ohlcv_of cs) a = Some v"
    using assms(1) by (auto simp: momentum_score_def split: option.splits)
  have v: "0 < v" "0 < close_back 0 cs"
    and s: "s = max (-100) (min 100 (roc / (v / close_back 0 cs * 100 * real p) * 100))"
    using assms(1) by (simp_all add: momentum_score_def Let_def r a split: if_splits)
  have "0 < close_back p cs" "roc = (close_back 0 cs / close_back p cs - 1) * 100"
    using r by (auto simp: rate_of_change_def Let_def split: if_splits)
  then have "roc * close_back p cs = 100 * (close_back 0 cs - close_back p cs)" by (simp add: field_simps)
  then have roc: "0 < roc \<longleftrightarrow> close_back p cs < close_back 0 cs"
    using \<open>0 < close_back p cs\<close> by (smt (verit) zero_less_mult_iff)
  define d where "d = v / close_back 0 cs * 100 * real p"
  have "0 < d" using v assms(2) by (simp add: d_def)
  then have "0 < roc / d * 100 \<longleftrightarrow> 0 < roc" by (simp add: zero_less_mult_iff zero_less_divide_iff)
  with roc show ?thesis unfolding s d_def [symmetric] by (auto simp: max_def min_def)
qed

text \<open>An impulse ends at the newest candle, all its candles move its way, and no shorter run qualifies.\<close>

lemma first_impulse_shortest:
  assumes "first_impulse m b v cs bs = Some i"
  shows "\<exists>pre n post. bs = pre @ n # post \<and> impulse_of n m b v cs = Some i \<and> n \<le> length cs
    \<and> (\<forall>k \<in> set pre. impulse_of k m b v cs = None)"
  using assms
proof (induction bs)
  case (Cons n bs)
  show ?case
  proof (cases "impulse_of n m b v cs")
    case None
    with Cons obtain pre k post where "bs = pre @ k # post" "impulse_of k m b v cs = Some i" "k \<le> length cs"
      "\<forall>k \<in> set pre. impulse_of k m b v cs = None" by (auto split: if_splits)
    with None show ?thesis by (intro exI [of _ "n # pre"]) auto
  next
    case (Some j)
    with Cons.prems show ?thesis by (intro exI [of _ "[]"] exI [of _ n] exI [of _ bs]) (auto split: if_splits)
  qed
qed simp

lemma impulse_shape:
  assumes "impulse_of n m b v cs = Some i" "0 < v"
  shows "im_end i = length cs - 1" "m \<le> im_magnitude i" "b \<le> im_body_ratio i"
    "c \<in> set (drop (length cs - n) cs) \<Longrightarrow> candle_move c = im_direction i"
proof -
  let ?w = "drop (length cs - n) cs"
  have i: "length (remdups (map candle_move ?w)) = 1" "im_direction i = hd (remdups (map candle_move ?w))"
    "im_end i = length cs - 1" "b \<le> im_body_ratio i" "m \<le> im_magnitude i"
    using assms by (auto simp: impulse_of_def Let_def pos_le_divide_eq split: if_splits)
  show "im_end i = length cs - 1" "b \<le> im_body_ratio i" by (rule i(3,4))+
  show "m \<le> im_magnitude i" by (rule i(5))
  assume "c \<in> set ?w"
  then have "candle_move c \<in> set (remdups (map candle_move ?w))" by simp
  moreover obtain d where "remdups (map candle_move ?w) = [d]" using i(1) by (auto simp: length_Suc_conv)
  ultimately show "candle_move c = im_direction i" using i(2) by simp
qed

end
