(* ===== verification/Vwap.thy ===== *)
theory Vwap
  imports Structure
begin

text \<open>
  Volume-weighted average prices (\<open>app/analytics/indicators/vwap.py\<close>): the session anchor, the anchored average and
  its bands of standard deviations.
\<close>

definition typical_price :: "md_candle \<Rightarrow> real" where
  "typical_price c = (if cd_vwap c > 0 then cd_vwap c else (cd_high c + cd_low c + cd_close c) / 3)"

definition session_timeframes :: "(string, timeframe) pydict" where
  "session_timeframes = [(''day'', TF_D1), (''week'', TF_W1), (''month'', TF_MN1)]"

definition session_anchor :: "string \<Rightarrow> time \<Rightarrow> py_error + time" where
  "session_anchor kind moment = (case pd_get session_timeframes kind of
       None \<Rightarrow> Inl ValueError | Some tf \<Rightarrow> bucket_start tf moment)"

definition anchor_index_at :: "time \<Rightarrow> md_candle list \<Rightarrow> nat option" where
  "anchor_index_at anchor cs = (case filter (\<lambda>i. cd_start (cs ! i) \<ge> anchor) [0..<length cs] of [] \<Rightarrow> None | i # _ \<Rightarrow> Some i)"

definition notional_of :: "md_candle list \<Rightarrow> real" where "notional_of cs = (\<Sum>c\<leftarrow>cs. typical_price c * cd_volume c)"
definition volume_of :: "md_candle list \<Rightarrow> real" where "volume_of cs = (\<Sum>c\<leftarrow>cs. cd_volume c)"

definition anchored_vwap :: "nat \<Rightarrow> md_candle list \<Rightarrow> real option" where
  "anchored_vwap anchor_index cs =
     (if anchor_index \<ge> length cs then None else
      let window = drop anchor_index cs in
      if volume_of window > 0 then Some (notional_of window / volume_of window) else None)"

record vwap_bands =
  vb_value :: real
  vb_std :: real
  vb_upper_1 :: real
  vb_lower_1 :: real
  vb_upper_2 :: real
  vb_lower_2 :: real
  vb_slope :: real
  vb_distance :: real
  vb_bars :: nat

definition vb_deviation :: "real \<Rightarrow> vwap_bands \<Rightarrow> real" where
  "vb_deviation price b = (if vb_std b > 0 then (price - vb_value b) / vb_std b else 0)"

text \<open>One pass over the window: notional, volume, the weighted squares and the running averages.\<close>

definition vwap_step :: "md_candle \<Rightarrow> real \<times> real \<times> real \<times> real list \<Rightarrow> real \<times> real \<times> real \<times> real list" where
  "vwap_step c acc = (case acc of (notional, volume, weighted_sq, series) \<Rightarrow>
     let typical = typical_price c; notional' = notional + typical * cd_volume c; volume' = volume + cd_volume c;
         weighted_sq' = weighted_sq + cd_volume c * typical * typical
     in (notional', volume', weighted_sq', if volume' > 0 then series @ [notional' / volume'] else series))"

definition vwap_bands_of :: "nat \<Rightarrow> real \<times> real \<Rightarrow> nat \<Rightarrow> real option \<Rightarrow> md_candle list \<Rightarrow> vwap_bands option" where
  "vwap_bands_of anchor_index multipliers slope_lookback reference_price cs =
     (if anchor_index \<ge> length cs then None else
      let window = drop anchor_index cs in
      case fold vwap_step window (0, 0, 0, []) of (notional, volume, weighted_sq, series) \<Rightarrow>
      if volume \<le> 0 \<or> series = [] then None else
      let value = last series;
          variance = max 0 (weighted_sq / volume - value * value);
          std = sqrt variance;
          lookback = min slope_lookback (length series - 1);
          past = series ! (length series - 1 - lookback);
          slope = (if lookback > 0 \<and> past > 0 then (last series / past - 1) * 100 / real lookback else 0);
          price = (case reference_price of Some p \<Rightarrow> p | None \<Rightarrow> cd_close (last window));
          distance = (if value > 0 then (price - value) / value * 100 else 0)
      in case multipliers of (m1, m2) \<Rightarrow>
        Some \<lparr> vb_value = value, vb_std = std, vb_upper_1 = value + m1 * std, vb_lower_1 = value - m1 * std,
               vb_upper_2 = value + m2 * std, vb_lower_2 = value - m2 * std, vb_slope = slope, vb_distance = distance,
               vb_bars = length window \<rparr>)"

section \<open>The one pass computes the sums\<close>

lemma anchor_first:
  assumes "anchor_index_at a cs = Some i"
  shows "i < length cs" "cd_start (cs ! i) \<ge> a" "j < i \<Longrightarrow> cd_start (cs ! j) < a"
proof -
  obtain rest where f: "filter (\<lambda>i. cd_start (cs ! i) \<ge> a) [0..<length cs] = i # rest"
    using assms by (auto simp: anchor_index_at_def split: list.splits)
  then have "i \<in> set (filter (\<lambda>i. cd_start (cs ! i) \<ge> a) [0..<length cs])" by simp
  then show "i < length cs" "cd_start (cs ! i) \<ge> a" by auto
  assume j: "j < i"
  show "cd_start (cs ! j) < a"
  proof (rule ccontr)
    assume "\<not> cd_start (cs ! j) < a"
    with j \<open>i < length cs\<close> have "j \<in> set (i # rest)" unfolding f [symmetric] by auto
    moreover have "sorted (i # rest)" unfolding f [symmetric] by (rule sorted_wrt_filter) simp
    ultimately show False using j by auto
  qed
qed

lemma vwap_fold_all:
  "fold vwap_step cs (n, v, w, s) = (n', v', w', s') \<Longrightarrow>
     n' = n + notional_of cs \<and> v' = v + volume_of cs \<and> w' = w + (\<Sum>c\<leftarrow>cs. cd_volume c * typical_price c * typical_price c)
     \<and> (cs \<noteq> [] \<longrightarrow> v' > 0 \<longrightarrow> s' \<noteq> [] \<and> last s' = n' / v')"
proof (induction cs arbitrary: n' v' w' s' rule: rev_induct)
  case (snoc c cs)
  obtain n1 v1 w1 s1 where f: "fold vwap_step cs (n, v, w, s) = (n1, v1, w1, s1)" by (metis prod_cases4)
  then have "vwap_step c (n1, v1, w1, s1) = (n', v', w', s')" using snoc.prems by simp
  with snoc.IH [OF f] show ?case
    by (auto simp: vwap_step_def Let_def notional_of_def volume_of_def)
qed (simp_all add: notional_of_def volume_of_def)

lemmas vwap_fold = vwap_fold_all [THEN conjunct1] vwap_fold_all [THEN conjunct2, THEN conjunct1]
  vwap_fold_all [THEN conjunct2, THEN conjunct2, THEN conjunct1]
  vwap_fold_all [THEN conjunct2, THEN conjunct2, THEN conjunct2, rule_format]

lemma bands_value:
  assumes "vwap_bands_of i ms k r cs = Some b"
  shows "anchored_vwap i cs = Some (vb_value b)" "0 \<le> vb_std b" "i < length cs" "0 < volume_of (drop i cs)"
proof -
  obtain n v w s where f: "fold vwap_step (drop i cs) (0, 0, 0, []) = (n, v, w, s)" by (metis prod_cases4)
  have len: "i < length cs" using assms by (auto simp: vwap_bands_of_def split: if_splits)
  then have ne: "drop i cs \<noteq> []" by simp
  have v: "0 < v" "vb_value b = last s" "0 \<le> vb_std b"
    using assms len f by (auto simp: vwap_bands_of_def Let_def split: if_splits prod.splits)
  note fold = vwap_fold [OF f]
  have "last s = n / v" using fold(4) ne v(1) by blast
  with fold(1,2) v len show "anchored_vwap i cs = Some (vb_value b)" "0 \<le> vb_std b" "i < length cs" "0 < volume_of (drop i cs)"
    by (simp_all add: anchored_vwap_def Let_def)
qed

lemma vwap_between:
  assumes "\<And>c. c \<in> set cs \<Longrightarrow> 0 \<le> cd_volume c \<and> a \<le> typical_price c \<and> typical_price c \<le> z"
  shows "a * volume_of cs \<le> notional_of cs" "notional_of cs \<le> z * volume_of cs"
proof -
  have "(\<Sum>c\<leftarrow>cs. a * cd_volume c) \<le> notional_of cs" "notional_of cs \<le> (\<Sum>c\<leftarrow>cs. z * cd_volume c)"
    unfolding notional_of_def using assms by (auto intro!: sum_list_mono mult_right_mono)
  then show "a * volume_of cs \<le> notional_of cs" "notional_of cs \<le> z * volume_of cs"
    by (simp_all add: volume_of_def sum_list_const_mult)
qed

text \<open>The average lies between the typical prices of the window, and the bands surround it.\<close>

lemma vwap_inside:
  assumes "vwap_bands_of i (m1, m2) k r cs = Some b" "0 \<le> m1" "0 \<le> m2"
    and "\<And>c. c \<in> set (drop i cs) \<Longrightarrow> 0 \<le> cd_volume c \<and> a \<le> typical_price c \<and> typical_price c \<le> z"
  shows "a \<le> vb_value b" "vb_value b \<le> z" "vb_lower_1 b \<le> vb_value b" "vb_value b \<le> vb_upper_1 b"
    "vb_lower_2 b \<le> vb_value b" "vb_value b \<le> vb_upper_2 b"
proof -
  note bv = bands_value [OF assms(1)]
  have val: "vb_value b = notional_of (drop i cs) / volume_of (drop i cs)"
    using bv(1,3,4) by (simp add: anchored_vwap_def Let_def)
  show "a \<le> vb_value b" "vb_value b \<le> z"
    using vwap_between [of "drop i cs" a z] assms(4) bv(4) by (simp_all add: val field_simps)
  have "vb_lower_1 b = vb_value b - m1 * vb_std b" "vb_upper_1 b = vb_value b + m1 * vb_std b"
    "vb_lower_2 b = vb_value b - m2 * vb_std b" "vb_upper_2 b = vb_value b + m2 * vb_std b"
    using assms(1) by (auto simp: vwap_bands_of_def Let_def split: if_splits prod.splits)
  then show "vb_lower_1 b \<le> vb_value b" "vb_value b \<le> vb_upper_1 b" "vb_lower_2 b \<le> vb_value b" "vb_value b \<le> vb_upper_2 b"
    using assms(2,3) bv(2) by simp_all
qed

end
