(* ===== verification/Orderflow.thy ===== *)
theory Orderflow
  imports Market_Models
begin

text \<open>
  Order flow (\<open>app/analytics/indicators/orderflow.py\<close>): aggressive volume, the cumulative delta by buckets,
  absorption, exhaustion and the experimental spoofing, iceberg and consumption scores.  There is at least one bucket.
\<close>

section \<open>Scores of the book\<close>

definition spoofing_score :: "real \<Rightarrow> order_book \<Rightarrow> real" where
  "spoofing_score far_ratio b =
     (case (depth 3 b, depth 15 b) of ((near_bid, near_ask), (total_bid, total_ask)) \<Rightarrow>
        let near = near_bid + near_ask; far = (total_bid - near_bid) + (total_ask - near_ask) in
        if near \<le> 0 then 0 else
        let ratio = far / near in
        if ratio \<le> far_ratio then 0 else min 1 ((ratio - far_ratio) / far_ratio))"

definition size_by_price :: "md_trade list \<Rightarrow> (real, real) pydict" where
  "size_by_price trades = fold (\<lambda>t d. pd_put d (td_price t) (pd_get_or d (td_price t) 0 + td_size t)) trades []"

definition iceberg_score :: "real \<Rightarrow> md_trade list \<Rightarrow> order_book \<Rightarrow> real" where
  "iceberg_score multiple trades b =
     (let size_of = \<lambda>l. (case l of None \<Rightarrow> 0 | Some x \<Rightarrow> lv_size x);
          visible = size_of (best_bid b) + size_of (best_ask b) in
      if visible \<le> 0 then 0 else
      let sizes = pd_values (size_by_price trades);
          heaviest = (if sizes = [] then 0 else Max (set sizes));
          ratio = heaviest / visible in
      if ratio \<le> multiple then 0 else min 1 ((ratio - multiple) / multiple))"

section \<open>The flow of a window of trades\<close>

definition signed_size :: "md_trade \<Rightarrow> real" where
  "signed_size t = (case td_side t of TS_BUY \<Rightarrow> td_size t | TS_SELL \<Rightarrow> - td_size t | TS_UNKNOWN \<Rightarrow> 0)"

definition side_total :: "trade_side \<Rightarrow> md_trade list \<Rightarrow> real" where
  "side_total s trades = sum_list (map td_size (filter (\<lambda>t. td_side t = s) trades))"

definition flow_chunk :: "nat \<Rightarrow> md_trade list \<Rightarrow> nat \<Rightarrow> md_trade list" where
  "flow_chunk buckets trades b =
     (let per_bucket = length trades div buckets;
          stop = (if b < buckets - 1 then (b + 1) * per_bucket else length trades)
      in drop (b * per_bucket) (take stop trades))"

definition bucket_deltas :: "nat \<Rightarrow> md_trade list \<Rightarrow> real list" where
  "bucket_deltas buckets trades = map (\<lambda>b. sum_list (map signed_size (flow_chunk buckets trades b))) [0..<buckets]"

definition running_sums :: "real list \<Rightarrow> real list" where
  "running_sums xs = map (\<lambda>i. sum_list (take (Suc i) xs)) [0..<length xs]"

record order_flow =
  fw_trades :: nat
  fw_buy_volume :: real
  fw_sell_volume :: real
  fw_delta :: real
  fw_cvd_series :: "real list"
  fw_cvd_slope :: real
  fw_aggression_ratio :: real
  fw_avg_trade_size :: real
  fw_large_trade_ratio :: real
  fw_price_change_pct :: real
  fw_absorption :: string
  fw_exhaustion :: string
  fw_imbalance :: "real option"
  fw_book_pressure :: "real option"
  fw_spoofing_score :: real
  fw_iceberg_score :: real
  fw_liquidity_consumption :: "real option"

record flow_params =
  fq_buckets :: nat
  fq_absorption_move :: real
  fq_absorption_ratio :: real
  fq_large_percentile :: real
  fq_iceberg_multiple :: real
  fq_spoof_ratio :: real

definition default_flow :: flow_params where
  "default_flow = \<lparr> fq_buckets = 6, fq_absorption_move = 5/100, fq_absorption_ratio = 65/100, fq_large_percentile = 9/10,
     fq_iceberg_multiple = 3, fq_spoof_ratio = 3 \<rparr>"

definition cvd_slope_of :: "nat \<Rightarrow> real list \<Rightarrow> real \<Rightarrow> real" where
  "cvd_slope_of buckets deltas volume =
     (let third = max 1 (buckets div 3);
          slope_raw = sum_list (last_n third deltas) - sum_list (take third deltas)
      in if volume > 0 then max (-1) (min 1 (slope_raw / volume)) else 0)"

definition large_trade_ratio :: "real \<Rightarrow> md_trade list \<Rightarrow> real" where
  "large_trade_ratio percentile trades =
     (let sizes = sort (map td_size trades);
          threshold = sizes ! nat (min (int (length sizes) - 1) (py_int (percentile * real (length sizes))));
          large_volume = sum_list (map td_size (filter (\<lambda>t. td_size t \<ge> threshold) trades));
          volume_all = sum_list (map td_size trades)
      in if volume_all > 0 then large_volume / volume_all else 0)"

definition absorption_of :: "flow_params \<Rightarrow> real \<Rightarrow> real \<Rightarrow> string" where
  "absorption_of q price_change aggression =
     (if \<bar>price_change\<bar> \<le> fq_absorption_move q
      then if aggression \<ge> fq_absorption_ratio q then ''bearish''
           else if aggression \<le> 1 - fq_absorption_ratio q then ''bullish'' else []
      else [])"

definition exhaustion_of :: "real list \<Rightarrow> string" where
  "exhaustion_of deltas =
     (let n = length deltas in
      if n \<ge> 3
      then let d1 = deltas ! (n - 3); d2 = deltas ! (n - 2); d3 = deltas ! (n - 1) in
        if d1 > 0 \<and> d1 > d2 \<and> d2 > d3 then ''buyers'' else if d1 < 0 \<and> d1 < d2 \<and> d2 < d3 then ''sellers'' else []
      else [])"

definition analyze_order_flow :: "flow_params \<Rightarrow> md_trade list \<Rightarrow> order_book option \<Rightarrow> order_flow option" where
  "analyze_order_flow q trades book =
     (if length trades < fq_buckets q then None else
      let buy = side_total TS_BUY trades; sell = side_total TS_SELL trades;
          both = buy + sell;
          deltas = bucket_deltas (fq_buckets q) trades;
          volume_all = sum_list (map td_size trades);
          first_price = td_price (hd trades); last_price = td_price (last trades);
          price_change = (if first_price > 0 then (last_price / first_price - 1) * 100 else 0);
          aggression = (if both > 0 then buy / both else 1/2)
      in Some \<lparr> fw_trades = length trades, fw_buy_volume = buy, fw_sell_volume = sell, fw_delta = buy - sell,
           fw_cvd_series = running_sums deltas, fw_cvd_slope = cvd_slope_of (fq_buckets q) deltas both,
           fw_aggression_ratio = aggression, fw_avg_trade_size = volume_all / real (length trades),
           fw_large_trade_ratio = large_trade_ratio (fq_large_percentile q) trades, fw_price_change_pct = price_change,
           fw_absorption = absorption_of q price_change aggression, fw_exhaustion = exhaustion_of deltas,
           fw_imbalance = map_option (imbalance 10) book, fw_book_pressure = map_option (book_pressure 10) book,
           fw_spoofing_score = (case book of None \<Rightarrow> 0 | Some b \<Rightarrow> spoofing_score (fq_spoof_ratio q) b),
           fw_iceberg_score = (case book of None \<Rightarrow> 0 | Some b \<Rightarrow> iceberg_score (fq_iceberg_multiple q) trades b),
           fw_liquidity_consumption = (case book of None \<Rightarrow> None
             | Some b \<Rightarrow> (case depth 5 b of (bid_depth, ask_depth) \<Rightarrow>
                 let visible = bid_depth + ask_depth in if visible > 0 then Some (volume_all / visible) else None)) \<rparr>)"

section \<open>The buckets partition the trades\<close>

lemma chunk_prefix:
  assumes "0 < buckets" "b \<le> buckets - 1"
  shows "concat (map (flow_chunk buckets trades) [0..<b]) = take (b * (length trades div buckets)) trades"
  using assms(2)
proof (induction b)
  case (Suc b)
  define k where "k = length trades div buckets"
  have "take (b * k) trades @ drop (b * k) (take ((b + 1) * k) trades) = take ((b + 1) * k) trades"
    by (metis add_le_mono1 le_add1 append_take_drop_id min.absorb1 mult_le_mono1 take_take)
  with Suc show ?case by (simp add: flow_chunk_def Let_def flip: k_def)
qed simp

lemma chunks_partition:
  assumes "0 < buckets"
  shows "concat (map (flow_chunk buckets trades) [0..<buckets]) = trades"
proof -
  obtain b where b: "buckets = Suc b" using assms by (cases buckets) auto
  show ?thesis using chunk_prefix [OF assms, of b trades] by (simp add: b flow_chunk_def Let_def)
qed

lemma signed_total: "sum_list (map signed_size trades) = side_total TS_BUY trades - side_total TS_SELL trades"
  by (induction trades) (auto simp: side_total_def signed_size_def split: trade_side.splits)

lemma sum_concat: "sum_list (concat xss) = (sum_list (map sum_list xss) :: real)"
  by (induction xss) auto

lemma deltas_total:
  assumes "0 < buckets" shows "sum_list (bucket_deltas buckets trades) = side_total TS_BUY trades - side_total TS_SELL trades"
proof -
  have "sum_list (bucket_deltas buckets trades) = sum_list (map signed_size (concat (map (flow_chunk buckets trades) [0..<buckets])))"
    by (simp add: bucket_deltas_def map_concat sum_concat comp_def)
  then show ?thesis by (simp add: chunks_partition [OF assms] signed_total)
qed

lemma side_total_nonneg: "\<forall>t \<in> set trades. 0 \<le> td_size t \<Longrightarrow> 0 \<le> side_total s trades"
  by (auto simp: side_total_def intro!: sum_list_nonneg)

lemma filtered_share:
  assumes "\<forall>t \<in> set trades. 0 \<le> td_size t"
  shows "0 \<le> sum_list (map td_size (filter P trades))" "sum_list (map td_size (filter P trades)) \<le> sum_list (map td_size trades)"
  using assms by (induction trades) auto

lemma score_range: "0 < k \<Longrightarrow> k < r \<Longrightarrow> 0 \<le> min 1 ((r - k) / k) \<and> min 1 ((r - k) / k) \<le> (1 :: real)"
  by auto

lemma spoofing_range: "0 < far_ratio \<Longrightarrow> 0 \<le> spoofing_score far_ratio b \<and> spoofing_score far_ratio b \<le> 1"
  by (auto simp: spoofing_score_def Let_def split: prod.split)

lemma iceberg_range: "0 < m \<Longrightarrow> 0 \<le> iceberg_score m trades b \<and> iceberg_score m trades b \<le> 1"
  by (auto simp: iceberg_score_def Let_def)

text \<open>
  For trades of non-negative size and at least one bucket the reading exists exactly when there are
  enough trades; its cumulative delta ends at the aggressive delta of the whole window, whatever the number of buckets, and its
  ratios, slope and scores stay in their ranges.
\<close>

theorem order_flow_sound:
  assumes "0 < fq_buckets q" "0 < fq_spoof_ratio q" "0 < fq_iceberg_multiple q" "\<forall>t \<in> set trades. 0 \<le> td_size t"
  shows "case analyze_order_flow q trades book of
      None \<Rightarrow> length trades < fq_buckets q
    | Some f \<Rightarrow> fq_buckets q \<le> length trades \<and> length (fw_cvd_series f) = fq_buckets q
        \<and> last (fw_cvd_series f) = fw_delta f \<and> fw_delta f = fw_buy_volume f - fw_sell_volume f
        \<and> 0 \<le> fw_aggression_ratio f \<and> fw_aggression_ratio f \<le> 1 \<and> -1 \<le> fw_cvd_slope f \<and> fw_cvd_slope f \<le> 1
        \<and> 0 \<le> fw_large_trade_ratio f \<and> fw_large_trade_ratio f \<le> 1
        \<and> 0 \<le> fw_spoofing_score f \<and> fw_spoofing_score f \<le> 1 \<and> 0 \<le> fw_iceberg_score f \<and> fw_iceberg_score f \<le> 1"
proof (cases "analyze_order_flow q trades book")
  case None
  then show ?thesis by (auto simp: analyze_order_flow_def Let_def split: if_splits)
next
  case (Some f)
  then have enough: "fq_buckets q \<le> length trades" by (auto simp: analyze_order_flow_def split: if_splits)
  have f: "fw_cvd_series f = running_sums (bucket_deltas (fq_buckets q) trades)"
    "fw_buy_volume f = side_total TS_BUY trades" "fw_sell_volume f = side_total TS_SELL trades"
    "fw_delta f = side_total TS_BUY trades - side_total TS_SELL trades"
    "fw_cvd_slope f = cvd_slope_of (fq_buckets q) (bucket_deltas (fq_buckets q) trades) (side_total TS_BUY trades + side_total TS_SELL trades)"
    "fw_aggression_ratio f = (if side_total TS_BUY trades + side_total TS_SELL trades > 0
       then side_total TS_BUY trades / (side_total TS_BUY trades + side_total TS_SELL trades) else 1/2)"
    "fw_large_trade_ratio f = large_trade_ratio (fq_large_percentile q) trades"
    "fw_spoofing_score f = (case book of None \<Rightarrow> 0 | Some b \<Rightarrow> spoofing_score (fq_spoof_ratio q) b)"
    "fw_iceberg_score f = (case book of None \<Rightarrow> 0 | Some b \<Rightarrow> iceberg_score (fq_iceberg_multiple q) trades b)"
    using Some by (auto simp: analyze_order_flow_def Let_def split: if_splits)
  have len: "length (bucket_deltas (fq_buckets q) trades) = fq_buckets q" by (simp add: bucket_deltas_def)
  then have "bucket_deltas (fq_buckets q) trades \<noteq> []" using assms(1) by auto
  then have "last (fw_cvd_series f) = sum_list (bucket_deltas (fq_buckets q) trades)"
    by (simp add: f(1) running_sums_def last_map)
  then have cvd: "last (fw_cvd_series f) = fw_delta f" by (simp add: deltas_total [OF assms(1)] f(4))
  have agg: "0 \<le> fw_aggression_ratio f \<and> fw_aggression_ratio f \<le> 1"
    using side_total_nonneg [OF assms(4), of TS_BUY] side_total_nonneg [OF assms(4), of TS_SELL] by (simp add: f(6))
  have large: "0 \<le> fw_large_trade_ratio f \<and> fw_large_trade_ratio f \<le> 1"
    using filtered_share [OF assms(4)] by (simp add: f(7) large_trade_ratio_def Let_def)
  have slope: "-1 \<le> fw_cvd_slope f \<and> fw_cvd_slope f \<le> 1" by (simp add: f(5) cvd_slope_of_def Let_def)
  have scores: "0 \<le> fw_spoofing_score f \<and> fw_spoofing_score f \<le> 1" "0 \<le> fw_iceberg_score f \<and> fw_iceberg_score f \<le> 1"
    using spoofing_range [OF assms(2)] iceberg_range [OF assms(3)] by (simp_all add: f(8,9) split: option.split)
  have "length (fw_cvd_series f) = fq_buckets q" by (simp add: f(1) running_sums_def len)
  with enough cvd agg large slope scores show ?thesis by (simp add: Some f(2,3,4))
qed

definition sample_trades :: "md_trade list" where
  "sample_trades = replicate 6 \<lparr> td_symbol = ''X'', td_provider = [], td_trade_id = [], td_price = 10, td_size = 1,
     td_side = TS_BUY, td_exchange_ts = 0, td_local_ts = 0 \<rparr>"

theorem order_flow_sound_witness:
  "case analyze_order_flow default_flow sample_trades None of
      None \<Rightarrow> False | Some f \<Rightarrow> length (fw_cvd_series f) = 6 \<and> last (fw_cvd_series f) = fw_delta f"
  using order_flow_sound [of default_flow sample_trades None]
  by (auto simp: default_flow_def sample_trades_def split: option.splits)

end
