(* ===== verification/Volume_Profile.thy ===== *)
theory Volume_Profile
  imports Structure
begin

text \<open>
  Volume profile (\<open>app/analytics/indicators/volume_profile.py\<close>): the volume of every candle is spread over the price
  bins its range crosses, then the point of control, the value area and the high and low volume nodes are read off.
\<close>

section \<open>Records\<close>

record profile_bin =
  pn_low :: real
  pn_high :: real
  pn_volume :: real

definition pn_mid :: "profile_bin \<Rightarrow> real" where "pn_mid b = (pn_low b + pn_high b) / 2"

record volume_profile =
  vp_bins :: "profile_bin list"
  vp_poc :: real
  vp_vah :: real
  vp_val :: real
  vp_hvn :: "real list"
  vp_lvn :: "real list"
  vp_total_volume :: real
  vp_value_area_pct :: real

datatype value_position = VA_Above | VA_Below | VA_Inside

fun value_position_value :: "value_position \<Rightarrow> string" where
  "value_position_value VA_Above = ''above_value''"
| "value_position_value VA_Below = ''below_value''"
| "value_position_value VA_Inside = ''inside_value''"

definition vp_position :: "real \<Rightarrow> volume_profile \<Rightarrow> value_position" where
  "vp_position price p = (if price > vp_vah p then VA_Above else if price < vp_val p then VA_Below else VA_Inside)"

section \<open>Spreading the volume\<close>

definition clamp_bin :: "nat \<Rightarrow> int \<Rightarrow> nat" where
  "clamp_bin n i = nat (min (int n - 1) (max 0 i))"

definition bin_overlap :: "real \<Rightarrow> real \<Rightarrow> md_candle \<Rightarrow> nat \<Rightarrow> real" where
  "bin_overlap low step c i =
     (let bin_low = low + real i * step; bin_high = bin_low + step
      in min (cd_high c) bin_high - max (cd_low c) bin_low)"

definition spread_candle :: "nat \<Rightarrow> real \<Rightarrow> real \<Rightarrow> md_candle \<Rightarrow> real list \<Rightarrow> real list" where
  "spread_candle n low step c volumes =
     (if cd_volume c \<le> 0 then volumes else
      let span = cd_high c - cd_low c;
          first = clamp_bin n (py_int ((cd_low c - low) / step));
          final = clamp_bin n (py_int ((cd_high c - low) / step - 1 / 10 ^ 12)) in
      if span \<le> 0 \<or> first = final
      then let i = (if span \<le> 0 then first else final) in volumes[i := volumes ! i + cd_volume c]
      else fold (\<lambda>i vs. let overlap = bin_overlap low step c i in
             if overlap > 0 then vs[i := vs ! i + cd_volume c * (overlap / span)] else vs) [first..<final + 1] volumes)"

definition profile_volumes :: "nat \<Rightarrow> real \<Rightarrow> real \<Rightarrow> md_candle list \<Rightarrow> real list" where
  "profile_volumes n low step cs = fold (spread_candle n low step) cs (replicate n 0)"

section \<open>Reading the profile\<close>

definition poc_index :: "real list \<Rightarrow> nat" where
  "poc_index volumes = fold (\<lambda>i best. if volumes ! i > volumes ! best then i else best) [1..<length volumes] 0"

text \<open>
  The value area grows from the point of control towards the side with more volume.  A side that is used up counts as -1,
  so the loop would leave the list of bins only with negative volumes: those two branches are None, and are proved unreachable.
\<close>

function value_area :: "real list \<Rightarrow> real \<Rightarrow> nat set \<Rightarrow> nat \<Rightarrow> nat \<Rightarrow> real \<Rightarrow> (nat set \<times> real) option" where
  "value_area volumes target included lo hi area =
     (if area < target \<and> (lo > 0 \<or> hi + 1 < length volumes)
      then let below = (if lo > 0 then volumes ! (lo - 1) else -1);
               above = (if hi + 1 < length volumes then volumes ! (hi + 1) else -1) in
           if above \<ge> below
           then if hi + 1 < length volumes
                then value_area volumes target (insert (hi + 1) included) lo (hi + 1) (area + volumes ! (hi + 1)) else None
           else if lo > 0
                then value_area volumes target (insert (lo - 1) included) (lo - 1) hi (area + volumes ! (lo - 1)) else None
      else Some (included, area))"
  by pat_completeness auto
termination
  by (relation "measure (\<lambda>(volumes, target, included, lo, hi, area). lo + (length volumes - hi))") auto

declare value_area.simps [simp del]

definition beside_volumes :: "real list \<Rightarrow> nat \<Rightarrow> real \<times> real" where
  "beside_volumes volumes i = (if i > 0 then volumes ! (i - 1) else -1, if i + 1 < length volumes then volumes ! (i + 1) else -1)"

definition high_nodes :: "real \<Rightarrow> profile_bin list \<Rightarrow> real list \<Rightarrow> real list" where
  "high_nodes threshold bins volumes =
     map (\<lambda>i. pn_mid (bins ! i)) (filter (\<lambda>i. case beside_volumes volumes i of (left, right) \<Rightarrow>
        volumes ! i \<ge> left \<and> volumes ! i \<ge> right \<and> volumes ! i \<ge> threshold) [0..<length volumes])"

definition low_nodes :: "real \<Rightarrow> profile_bin list \<Rightarrow> real list \<Rightarrow> real list" where
  "low_nodes threshold bins volumes =
     map (\<lambda>i. pn_mid (bins ! i)) (filter (\<lambda>i. case beside_volumes volumes i of (left, right) \<Rightarrow>
        volumes ! i \<le> left \<and> volumes ! i \<le> right \<and> volumes ! i \<le> threshold) [0..<length volumes])"

definition profile_bins :: "real \<Rightarrow> real \<Rightarrow> real list \<Rightarrow> profile_bin list" where
  "profile_bins low step volumes = map (\<lambda>i. \<lparr> pn_low = low + real i * step, pn_high = low + (real i + 1) * step,
     pn_volume = volumes ! i \<rparr>) [0..<length volumes]"

definition volume_profile_of :: "nat \<Rightarrow> real \<Rightarrow> real \<Rightarrow> md_candle list \<Rightarrow> volume_profile option" where
  "volume_profile_of n value_area_pct node_ratio cs =
     (if cs = [] \<or> n \<le> 1 then None else
      let low = range_bottom cs; high = range_top cs in
      if high \<le> low then None else
      let step = (high - low) / real n;
          volumes = profile_volumes n low step cs;
          total_volume = sum_list volumes in
      if total_volume \<le> 0 then None else
      let bins = profile_bins low step volumes;
          poc = poc_index volumes;
          baseline = total_volume / real n in
      case value_area volumes (value_area_pct * total_volume) {poc} poc poc (volumes ! poc) of
        None \<Rightarrow> None
      | Some (included, area) \<Rightarrow>
          Some \<lparr> vp_bins = bins, vp_poc = pn_mid (bins ! poc), vp_vah = pn_high (bins ! Max included),
            vp_val = pn_low (bins ! Min included), vp_hvn = high_nodes (node_ratio * baseline) bins volumes,
            vp_lvn = low_nodes (baseline / node_ratio) bins volumes, vp_total_volume = total_volume,
            vp_value_area_pct = area / total_volume \<rparr>)"

section \<open>The value area\<close>

lemma poc_index_fold:
  assumes "best < length volumes" "\<forall>i \<in> set is. i < length volumes"
  shows "fold (\<lambda>i best. if volumes ! i > volumes ! best then i else best) is best < length volumes \<and>
    (\<forall>j \<in> insert best (set is). volumes ! j \<le> (volumes ! fold (\<lambda>i best. if volumes ! i > volumes ! best then i else best) is best :: real))"
  using assms by (induction "is" arbitrary: best) (auto, force+)

lemma poc_index_max:
  assumes "volumes \<noteq> []"
  shows "poc_index volumes < length volumes" "j < length volumes \<Longrightarrow> volumes ! j \<le> volumes ! poc_index volumes"
proof -
  have "0 < length volumes" using assms by simp
  note f = poc_index_fold [OF this, of "[1..<length volumes]"]
  then show "poc_index volumes < length volumes" by (simp add: poc_index_def)
  assume "j < length volumes"
  then have "j \<in> insert 0 (set [1..<length volumes])" by auto
  with f show "volumes ! j \<le> volumes ! poc_index volumes" by (auto simp: poc_index_def)
qed

lemma value_area_grows:
  assumes "\<forall>v \<in> set volumes. 0 \<le> v" "lo \<le> hi" "hi < length volumes" "area = (\<Sum>i = lo..hi. volumes ! i)" "included = {lo..hi}"
  shows "\<exists>lo' hi'. value_area volumes target included lo hi area = Some ({lo'..hi'}, \<Sum>i = lo'..hi'. volumes ! i)
    \<and> lo' \<le> lo \<and> hi \<le> hi' \<and> hi' < length volumes
    \<and> (target \<le> (\<Sum>i = lo'..hi'. volumes ! i) \<or> lo' = 0 \<and> hi' + 1 = length volumes)"
  using assms
proof (induction volumes target included lo hi area rule: value_area.induct)
  case (1 volumes target included lo hi area)
  show ?case
  proof (cases "area < target \<and> (lo > 0 \<or> hi + 1 < length volumes)")
    case False
    with "1.prems" show ?thesis by (subst value_area.simps) (auto intro!: exI [of _ lo] exI [of _ hi])
  next
    case grow: True
    define below above where "below = (if lo > 0 then volumes ! (lo - 1) else -1)"
      and "above = (if hi + 1 < length volumes then volumes ! (hi + 1) else -1)"
    have nn: "lo > 0 \<Longrightarrow> 0 \<le> volumes ! (lo - 1)" "hi + 1 < length volumes \<Longrightarrow> 0 \<le> volumes ! (hi + 1)"
      using "1.prems"(1,2,3) by auto
    show ?thesis
    proof (cases "above \<ge> below")
      case True
      then have hi: "hi + 1 < length volumes" using grow nn by (auto simp: above_def below_def split: if_splits)
      have eq: "value_area volumes target included lo hi area =
          value_area volumes target (insert (hi + 1) included) lo (hi + 1) (area + volumes ! (hi + 1))"
        using grow True hi by (subst value_area.simps) (simp add: above_def below_def)
      have "insert (hi + 1) included = {lo..hi + 1}" "area + volumes ! (hi + 1) = (\<Sum>i = lo..hi + 1. volumes ! i)"
        using "1.prems" by (auto simp: atLeastAtMostSuc_conv)
      moreover have "lo \<le> hi + 1" using "1.prems"(2) by simp
      ultimately obtain lo' hi' where
        "value_area volumes target (insert (hi + 1) included) lo (hi + 1) (area + volumes ! (hi + 1)) = Some ({lo'..hi'}, \<Sum>i = lo'..hi'. volumes ! i)"
        "lo' \<le> lo" "hi + 1 \<le> hi'" "hi' < length volumes"
        "target \<le> (\<Sum>i = lo'..hi'. volumes ! i) \<or> lo' = 0 \<and> hi' + 1 = length volumes"
        using "1.IH"(1) [OF grow below_def above_def True hi "1.prems"(1) _ hi] by blast
      then show ?thesis unfolding eq by (intro exI [of _ lo'] exI [of _ hi'] conjI) simp_all
    next
      case False
      then have lo: "lo > 0" using grow nn by (auto simp: above_def below_def split: if_splits)
      have eq: "value_area volumes target included lo hi area =
          value_area volumes target (insert (lo - 1) included) (lo - 1) hi (area + volumes ! (lo - 1))"
        using grow False lo by (subst value_area.simps) (simp add: above_def below_def)
      have ext: "{lo - 1..hi} = insert (lo - 1) {lo..hi}" "lo - 1 \<notin> {lo..hi}" using lo "1.prems"(2) by auto
      then have "sum ((!) volumes) {lo - 1..hi} = volumes ! (lo - 1) + sum ((!) volumes) {lo..hi}"
        by (metis finite_atLeastAtMost sum.insert)
      then have "insert (lo - 1) included = {lo - 1..hi}" "area + volumes ! (lo - 1) = (\<Sum>i = lo - 1..hi. volumes ! i)"
        using "1.prems" lo ext by (auto simp: add.commute)
      moreover have "lo - 1 \<le> hi" using "1.prems"(2) by simp
      ultimately obtain lo' hi' where
        "value_area volumes target (insert (lo - 1) included) (lo - 1) hi (area + volumes ! (lo - 1)) = Some ({lo'..hi'}, \<Sum>i = lo'..hi'. volumes ! i)"
        "lo' \<le> lo - 1" "hi \<le> hi'" "hi' < length volumes"
        "target \<le> (\<Sum>i = lo'..hi'. volumes ! i) \<or> lo' = 0 \<and> hi' + 1 = length volumes"
        using "1.IH"(2) [OF grow below_def above_def False lo "1.prems"(1) _ "1.prems"(3)] by blast
      then show ?thesis unfolding eq by (intro exI [of _ lo'] exI [of _ hi'] conjI) simp_all
    qed
  qed
qed

section \<open>The spread keeps the volume\<close>

lemma real_sum_update: "k < length xs \<Longrightarrow> sum_list (xs[k := x]) = sum_list xs + x - (xs ! k :: real)"
  by (induction xs arbitrary: k) (auto split: nat.splits)

lemma fold_update:
  fixes vs :: "real list"
  assumes "\<forall>i \<in> set is. i < length vs"
  shows "length (fold (\<lambda>i vs. if P i then vs[i := vs ! i + g i] else vs) is vs) = length vs"
    "sum_list (fold (\<lambda>i vs. if P i then vs[i := vs ! i + g i] else vs) is vs) = sum_list vs + (\<Sum>i\<leftarrow>is. if P i then g i else 0)"
  using assms by (induction "is" arbitrary: vs) (auto simp: real_sum_update)

lemma fold_update_nonneg:
  fixes vs :: "real list"
  assumes "\<forall>i. P i \<longrightarrow> 0 \<le> g i" "\<forall>v \<in> set vs. 0 \<le> v" "\<forall>i \<in> set is. i < length vs"
  shows "\<forall>v \<in> set (fold (\<lambda>i vs. if P i then vs[i := vs ! i + g i] else vs) is vs). 0 \<le> v"
  using assms(2,3)
proof (induction "is" arbitrary: vs)
  case (Cons i "is")
  have "\<forall>v \<in> set (if P i then vs[i := vs ! i + g i] else vs). 0 \<le> v"
    using Cons.prems assms(1) by (auto dest!: set_update_subset_insert [THEN subsetD])
  moreover have "\<forall>j \<in> set is. j < length (if P i then vs[i := vs ! i + g i] else vs)" using Cons.prems by simp
  ultimately show ?case using Cons.IH by simp
qed simp

lemma telescope: "f \<le> t \<Longrightarrow> (\<Sum>i\<leftarrow>[f..<t]. F (Suc i) - F i) = (F t - F f :: real)"
  by (induction t) (auto simp: le_Suc_eq)

definition clip :: "real \<Rightarrow> real \<Rightarrow> real \<Rightarrow> real" where "clip l h x = max l (min h x)"

lemma overlap_clip:
  "l \<le> h \<Longrightarrow> b \<le> b' \<Longrightarrow> (if min h b' - max l b > 0 then min h b' - max l b else 0) = clip l h b' - clip l h b"
  by (auto simp: clip_def max_def min_def)

lemma clamp_bounds:
  assumes "0 < n" shows "clamp_bin n i < n" "i \<le> int n - 1 \<Longrightarrow> 0 \<le> i \<Longrightarrow> int (clamp_bin n i) = i" "0 \<le> i \<Longrightarrow> int (clamp_bin n i) \<le> i"
  using assms by (auto simp: clamp_bin_def)

lemma edge_bins:
  assumes "0 < n" "0 < step" "low \<le> l" "l \<le> h" "h \<le> low + real n * step"
    and f: "f = clamp_bin n (py_int ((l - low) / step))" and t: "t = clamp_bin n (py_int ((h - low) / step - 1 / 10 ^ 12))"
  shows "low + real f * step \<le> l" "h - step / 10 ^ 12 \<le> low + (real t + 1) * step" "f \<le> t + 1"
proof -
  define x y where "x = (l - low) / step" and "y = (h - low) / step"
  have xy: "0 \<le> x" "x \<le> y" "y \<le> real n" "l = low + x * step" "h = low + y * step"
    using assms(2-5) by (auto simp: x_def y_def field_simps)
  have "int f \<le> \<lfloor>x\<rfloor>" using clamp_bounds(3) [OF assms(1), of "\<lfloor>x\<rfloor>"] xy(1) by (simp add: f py_int_def x_def)
  then have fx: "real f \<le> x" by linarith
  have ty: "y - 1 / 10 ^ 12 \<le> real t + 1"
  proof (cases "y - 1 / 10 ^ 12 \<ge> 0")
    case True
    define z where "z = y - 1 / 10 ^ 12"
    have z: "0 \<le> z" "z < real n" using True xy(3) by (simp_all add: z_def)
    then have "\<lfloor>z\<rfloor> \<le> int n - 1" "0 \<le> \<lfloor>z\<rfloor>" by linarith+
    then have "int t = \<lfloor>z\<rfloor>" using clamp_bounds(2) [OF assms(1)] z(1) by (simp add: t py_int_def z_def y_def)
    then show ?thesis unfolding z_def by linarith
  qed simp
  show "low + real f * step \<le> l" using fx assms(2) by (simp add: xy(4))
  have "(y - 1 / 10 ^ 12) * step \<le> (real t + 1) * step" using ty assms(2) by (intro mult_right_mono) auto
  then show "h - step / 10 ^ 12 \<le> low + (real t + 1) * step" by (simp add: xy(5) field_simps)
  have "real f \<le> real t + 1 + 1 / 10 ^ 12" using fx ty xy(2) by linarith
  then have "real f < real (t + 2)" by simp
  then show "f \<le> t + 1" by linarith
qed

text \<open>Every candle adds its volume, up to the part of it above the last bin that the rounding guard of 1e-12 can cut off.\<close>

lemma spread_keeps:
  assumes c: "cd_low c \<le> cd_high c" "low \<le> cd_low c" "cd_high c \<le> low + real n * step" and n: "0 < n" "0 < step" "length vs = n"
    and nn: "\<forall>v \<in> set vs. 0 \<le> v"
  shows "length (spread_candle n low step c vs) = n" "\<forall>v \<in> set (spread_candle n low step c vs). 0 \<le> v"
    "sum_list (spread_candle n low step c vs) \<le> sum_list vs + max 0 (cd_volume c)"
    "sum_list vs + cd_volume c - cd_volume c * (step / 10 ^ 12 / (cd_high c - cd_low c)) \<le> sum_list (spread_candle n low step c vs)
       \<or> cd_volume c \<le> 0 \<or> cd_low c = cd_high c"
proof -
  define l h v where "l = cd_low c" and "h = cd_high c" and "v = cd_volume c"
  define f t where "f = clamp_bin n (py_int ((l - low) / step))" and "t = clamp_bin n (py_int ((h - low) / step - 1 / 10 ^ 12))"
  define P where "P i = (bin_overlap low step c i > 0)" for i
  define g where "g i = v * (bin_overlap low step c i / (h - l))" for i
  define out where "out = spread_candle n low step c vs"
  have fn: "f < n" "t < n" using clamp_bounds(1) [OF n(1)] by (simp_all add: f_def t_def)
  have "length out = n \<and> (\<forall>v \<in> set out. 0 \<le> v) \<and> sum_list out \<le> sum_list vs + max 0 v \<and>
     (sum_list vs + v - v * (step / 10 ^ 12 / (h - l)) \<le> sum_list out \<or> v \<le> 0 \<or> l = h)"
  proof (cases "v \<le> 0")
    case True
    then show ?thesis using n nn by (simp add: out_def spread_candle_def v_def)
  next
    case pos: False
    show ?thesis
    proof (cases "h - l \<le> 0 \<or> f = t")
      case True
      define i where "i = (if h - l \<le> 0 then f else t)"
      have i: "i < n" using fn by (simp add: i_def)
      have o: "out = vs[i := vs ! i + v]"
        using pos True by (simp add: out_def spread_candle_def Let_def v_def i_def f_def t_def l_def h_def)
      have "\<forall>w \<in> set out. 0 \<le> w"
        using nn i n(3) pos by (auto simp: o dest!: set_update_subset_insert [THEN subsetD])
      moreover have "sum_list out = sum_list vs + v" using i n(3) by (simp add: o real_sum_update)
      moreover have "0 \<le> v * (step / 10 ^ 12 / (h - l)) \<or> l = h" using pos n(2) c(1) by (simp add: l_def h_def)
      ultimately show ?thesis using n(3) pos by (auto simp: o)
    next
      case False
      then have span: "l < h" by simp
      have out: "out = fold (\<lambda>i vs. if P i then vs[i := vs ! i + g i] else vs) [f..<t + 1] vs"
      proof -
        have "out = (if v \<le> 0 then vs else if h - l \<le> 0 \<or> f = t
            then vs[(if h - l \<le> 0 then f else t) := vs ! (if h - l \<le> 0 then f else t) + v]
            else fold (\<lambda>i vs. if P i then vs[i := vs ! i + g i] else vs) [f..<t + 1] vs)"
          unfolding out_def spread_candle_def Let_def v_def f_def t_def l_def h_def P_def g_def by (rule refl)
        then show ?thesis by (simp only: pos False if_False simp_thms)
      qed
      note edge = edge_bins [OF n(1,2) c(2,1,3) f_def [unfolded l_def] t_def [unfolded h_def]]
      define F where "F i = clip l h (low + real i * step)" for i
      have inside: "\<forall>i \<in> set [f..<t + 1]. i < length vs" using fn n(3) by auto
      have gi: "(if P i then g i else 0) = v / (h - l) * (F (Suc i) - F i)" for i
      proof -
        have bo: "bin_overlap low step c i = min h (low + real (Suc i) * step) - max l (low + real i * step)"
          by (simp add: bin_overlap_def Let_def l_def h_def algebra_simps)
        have "real i * step \<le> real (Suc i) * step" using n(2) by (intro mult_right_mono) auto
        then have "(if P i then bin_overlap low step c i else 0) = F (Suc i) - F i"
          unfolding P_def bo F_def using span by (intro overlap_clip) auto
        then show ?thesis by (simp add: g_def split: if_splits)
      qed
      have sum: "sum_list out = sum_list vs + v / (h - l) * (F (t + 1) - F f)"
        unfolding out fold_update(2) [OF inside] gi sum_list_const_mult telescope [OF edge(3), of F] by (rule refl)
      have Ff: "F f = l" using edge(1) span by (simp add: F_def clip_def l_def)
      have Ft: "F (t + 1) \<le> h" "h - step / 10 ^ 12 \<le> F (t + 1)"
        using edge(2) span n(2) by (auto simp: F_def clip_def h_def algebra_simps max_def min_def)
      have k: "0 < v / (h - l)" using pos span by simp
      have "v / (h - l) * (F (t + 1) - F f) \<le> v / (h - l) * (h - l)"
        using k Ft(1) Ff by (intro mult_left_mono) auto
      moreover have "v / (h - l) * (h - l - step / 10 ^ 12) \<le> v / (h - l) * (F (t + 1) - F f)"
        using k Ft(2) Ff by (intro mult_left_mono) auto
      moreover have "v / (h - l) * (h - l) = v" "v / (h - l) * (h - l - step / 10 ^ 12) = v - v * (step / 10 ^ 12 / (h - l))"
        using span by (simp_all add: field_simps)
      moreover have "\<forall>w \<in> set out. 0 \<le> w"
        unfolding out using nn inside pos span by (intro fold_update_nonneg) (auto simp: P_def g_def)
      ultimately show ?thesis using n(3) pos fold_update(1) [OF inside, of P g] sum by (simp add: out)
    qed
  qed
  then show "length (spread_candle n low step c vs) = n" "\<forall>v \<in> set (spread_candle n low step c vs). 0 \<le> v"
    "sum_list (spread_candle n low step c vs) \<le> sum_list vs + max 0 (cd_volume c)"
    "sum_list vs + cd_volume c - cd_volume c * (step / 10 ^ 12 / (cd_high c - cd_low c)) \<le> sum_list (spread_candle n low step c vs)
       \<or> cd_volume c \<le> 0 \<or> cd_low c = cd_high c"
    unfolding out_def l_def h_def v_def by blast+
qed

lemma profile_keeps:
  assumes "\<forall>c \<in> set cs. cd_low c \<le> cd_high c \<and> low \<le> cd_low c \<and> cd_high c \<le> low + real n * step" "0 < n" "0 < step"
    and "length vs = n" "\<forall>v \<in> set vs. 0 \<le> v"
  shows "length (fold (spread_candle n low step) cs vs) = n" "\<forall>v \<in> set (fold (spread_candle n low step) cs vs). 0 \<le> v"
    "sum_list (fold (spread_candle n low step) cs vs) \<le> sum_list vs + (\<Sum>c\<leftarrow>cs. max 0 (cd_volume c))"
proof -
  have "length (fold (spread_candle n low step) cs vs) = n \<and> (\<forall>v \<in> set (fold (spread_candle n low step) cs vs). 0 \<le> v)
      \<and> sum_list (fold (spread_candle n low step) cs vs) \<le> sum_list vs + (\<Sum>c\<leftarrow>cs. max 0 (cd_volume c))"
    using assms
  proof (induction cs arbitrary: vs)
    case (Cons c cs)
    have c: "cd_low c \<le> cd_high c" "low \<le> cd_low c" "cd_high c \<le> low + real n * step" using Cons.prems(1) by auto
    note s = spread_keeps [OF c Cons.prems(2-5)]
    from Cons.IH [OF _ Cons.prems(2,3) s(1,2)] Cons.prems(1) s(3) show ?case by auto
  qed simp
  then show "length (fold (spread_candle n low step) cs vs) = n" "\<forall>v \<in> set (fold (spread_candle n low step) cs vs). 0 \<le> v"
    "sum_list (fold (spread_candle n low step) cs vs) \<le> sum_list vs + (\<Sum>c\<leftarrow>cs. max 0 (cd_volume c))" by blast+
qed

lemma bin_edges:
  assumes "i < length volumes"
  shows "pn_low (profile_bins low step volumes ! i) = low + real i * step"
    "pn_high (profile_bins low step volumes ! i) = low + (real i + 1) * step"
    "pn_mid (profile_bins low step volumes ! i) = low + real i * step + step / 2"
  using assms by (simp_all add: profile_bins_def pn_mid_def algebra_simps)

lemma profile_cases:
  assumes wf: "\<forall>c \<in> set cs. cd_low c \<le> cd_high c" and some: "cs \<noteq> []" "1 < n" "range_bottom cs < range_top cs"
    and vols: "volumes = profile_volumes n (range_bottom cs) ((range_top cs - range_bottom cs) / real n) cs"
  shows "length volumes = n" "\<forall>v \<in> set volumes. 0 \<le> v" "sum_list volumes \<le> (\<Sum>c\<leftarrow>cs. max 0 (cd_volume c))"
proof -
  let ?low = "range_bottom cs" and ?step = "(range_top cs - range_bottom cs) / real n"
  have c: "\<forall>c \<in> set cs. cd_low c \<le> cd_high c \<and> ?low \<le> cd_low c \<and> cd_high c \<le> ?low + real n * ?step"
    using wf some(2) by (auto simp: range_bottom_def range_top_def)
  have "0 < n" "0 < ?step" using some(2,3) by simp_all
  note k = profile_keeps [OF c this, of "replicate n 0"]
  show "length volumes = n" "\<forall>v \<in> set volumes. 0 \<le> v" "sum_list volumes \<le> (\<Sum>c\<leftarrow>cs. max 0 (cd_volume c))"
    using k by (simp_all add: vols profile_volumes_def sum_list_replicate)
qed

text \<open>
  Property C33 (value area): with candles whose low is not above their high and a share of at most 1, the growing loop
  always ends with a value area; it contains the point of control, lies inside the range of the candles, holds at least the
  requested share of the profile's volume and at most all of it, and the profile holds no more volume than was traded.
  There is no profile only without candles, bins, range or volume.
\<close>

theorem value_area_sound:
  assumes "\<forall>c \<in> set cs. cd_low c \<le> cd_high c" "pct \<le> 1"
  shows "case volume_profile_of n pct ratio cs of
      None \<Rightarrow> cs = [] \<or> n \<le> 1 \<or> range_top cs \<le> range_bottom cs
        \<or> sum_list (profile_volumes n (range_bottom cs) ((range_top cs - range_bottom cs) / real n) cs) \<le> 0
    | Some p \<Rightarrow> vp_val p \<le> vp_poc p \<and> vp_poc p \<le> vp_vah p
        \<and> range_bottom cs \<le> vp_val p \<and> vp_vah p \<le> range_top cs
        \<and> pct \<le> vp_value_area_pct p \<and> vp_value_area_pct p \<le> 1
        \<and> vp_total_volume p \<le> (\<Sum>c\<leftarrow>cs. max 0 (cd_volume c))"
proof -
  define low high where "low = range_bottom cs" and "high = range_top cs"
  define step where "step = (high - low) / real n"
  define volumes where "volumes = profile_volumes n low step cs"
  define all where "all = sum_list volumes"
  show ?thesis
  proof (cases "cs = [] \<or> n \<le> 1 \<or> high \<le> low \<or> all \<le> 0")
    case True
    then show ?thesis
      unfolding volume_profile_of_def Let_def low_def [symmetric] high_def [symmetric] step_def [symmetric]
        volumes_def [symmetric] all_def [symmetric] by auto
  next
    case False
    have v: "length volumes = n" "\<forall>v \<in> set volumes. 0 \<le> v" "all \<le> (\<Sum>c\<leftarrow>cs. max 0 (cd_volume c))"
      using profile_cases [OF assms(1), of n volumes] False by (auto simp: volumes_def low_def high_def step_def all_def)
    define poc where "poc = poc_index volumes"
    have ne: "volumes \<noteq> []" using v(1) False by auto
    have poc: "poc < length volumes" using poc_index_max(1) [OF ne] by (simp add: poc_def)
    have step: "0 < step" "high = low + real n * step" using False by (auto simp: step_def)
    have start: "volumes ! poc = (\<Sum>i = poc..poc. volumes ! i)" "{poc} = {poc..poc}" by simp_all
    obtain lo hi where area: "value_area volumes (pct * all) {poc} poc poc (volumes ! poc) = Some ({lo..hi}, \<Sum>i = lo..hi. volumes ! i)"
      and lh: "lo \<le> poc" "poc \<le> hi" "hi < length volumes"
      and full: "pct * all \<le> (\<Sum>i = lo..hi. volumes ! i) \<or> lo = 0 \<and> hi + 1 = length volumes"
      using value_area_grows [OF v(2) order_refl poc start, of "pct * all"] by blast
    have whole: "(\<Sum>i = 0..<length volumes. volumes ! i) = all" by (simp add: all_def sum_list_sum_nth)
    have "(\<Sum>i = lo..hi. volumes ! i) \<le> (\<Sum>i = 0..<length volumes. volumes ! i)"
      using lh v(2) by (intro sum_mono2) auto
    with whole have le: "(\<Sum>i = lo..hi. volumes ! i) \<le> all" by simp
    have "pct * all \<le> (\<Sum>i = lo..hi. volumes ! i)"
    proof (cases "lo = 0 \<and> hi + 1 = length volumes")
      case True
      then have "{lo..hi} = {0..<length volumes}" by auto
      with whole have "(\<Sum>i = lo..hi. volumes ! i) = all" by simp
      moreover have "pct * all \<le> 1 * all" using assms(2) False by (intro mult_right_mono) auto
      ultimately show ?thesis by simp
    qed (use full in auto)
    with le False have share: "pct \<le> (\<Sum>i = lo..hi. volumes ! i) / all" "(\<Sum>i = lo..hi. volumes ! i) / all \<le> 1"
      by (simp_all add: field_simps)
    have minmax: "Max {lo..hi} = hi" "Min {lo..hi} = lo" using lh by (auto intro: Max_eqI Min_eqI)
    have ord: "real lo * step \<le> real poc * step" "real poc * step \<le> real hi * step" "(real hi + 1) * step \<le> real n * step"
      "0 \<le> real lo * step"
      using lh v(1) step(1) by (auto intro!: mult_right_mono)
    have "volume_profile_of n pct ratio cs = Some \<lparr> vp_bins = profile_bins low step volumes,
        vp_poc = pn_mid (profile_bins low step volumes ! poc), vp_vah = pn_high (profile_bins low step volumes ! hi),
        vp_val = pn_low (profile_bins low step volumes ! lo),
        vp_hvn = high_nodes (ratio * (all / real n)) (profile_bins low step volumes) volumes,
        vp_lvn = low_nodes (all / real n / ratio) (profile_bins low step volumes) volumes,
        vp_total_volume = all, vp_value_area_pct = (\<Sum>i = lo..hi. volumes ! i) / all \<rparr>"
      using False unfolding volume_profile_of_def Let_def low_def [symmetric] high_def [symmetric] step_def [symmetric]
        volumes_def [symmetric] all_def [symmetric] poc_def [symmetric] by (simp add: area minmax)
    moreover have "lo < length volumes" using lh by simp
    moreover have "low + real lo * step \<le> low + real poc * step + step / 2"
      "low + real poc * step + step / 2 \<le> low + (real hi + 1) * step" "low \<le> low + real lo * step"
      "low + (real hi + 1) * step \<le> high"
    proof -
      have "(real hi + 1) * step = real hi * step + step" by (simp add: algebra_simps)
      then show "low + real lo * step \<le> low + real poc * step + step / 2"
        "low + real poc * step + step / 2 \<le> low + (real hi + 1) * step" "low \<le> low + real lo * step"
        "low + (real hi + 1) * step \<le> high"
        using ord step by linarith+
    qed
    ultimately show ?thesis
      using share v(3) by (simp add: bin_edges poc lh flip: low_def high_def)
  qed
qed

definition two_bars :: "md_candle list" where
  "two_bars = map (\<lambda>x. \<lparr> cd_open = x, cd_high = x + 1, cd_low = x, cd_close = x, cd_volume = 1, cd_symbol = [],
     cd_provider = [], cd_timeframe = TF_M1, cd_start = 0, cd_end = 0, cd_buy_volume = 0, cd_sell_volume = 0, cd_vwap = 0,
     cd_trades = 0, cd_closed = True, cd_source = [] \<rparr>) [1, 2]"

lemma two_bars_ok: "\<forall>c \<in> set two_bars. cd_low c \<le> cd_high c" by (simp add: two_bars_def)

theorem value_area_sound_witness:
  "case volume_profile_of 2 (7/10) (3/2) two_bars of
      None \<Rightarrow> two_bars = [] \<or> (2 :: nat) \<le> 1 \<or> range_top two_bars \<le> range_bottom two_bars
        \<or> sum_list (profile_volumes 2 (range_bottom two_bars) ((range_top two_bars - range_bottom two_bars) / real 2) two_bars) \<le> 0
    | Some p \<Rightarrow> vp_val p \<le> vp_poc p \<and> vp_poc p \<le> vp_vah p
        \<and> range_bottom two_bars \<le> vp_val p \<and> vp_vah p \<le> range_top two_bars
        \<and> 7/10 \<le> vp_value_area_pct p \<and> vp_value_area_pct p \<le> 1
        \<and> vp_total_volume p \<le> (\<Sum>c\<leftarrow>two_bars. max 0 (cd_volume c))"
  by (rule value_area_sound [OF two_bars_ok]) simp

end
