(* ===== verification/Smc.thy ===== *)
theory Smc
  imports Structure
begin

text \<open>
  Smart-money concepts (\<open>app/analytics/indicators/smc.py\<close>): fair value gaps, order blocks, liquidity sweeps,
  clusters of equal levels, structure breaks, the premium/discount zone and the composite analysis.
\<close>

section \<open>Records\<close>

datatype bias_side = BS_Bullish | BS_Bearish

fun bias_side_value :: "bias_side \<Rightarrow> string" where
  "bias_side_value BS_Bullish = ''bullish''"
| "bias_side_value BS_Bearish = ''bearish''"

record fair_value_gap =
  fg_index :: nat
  fg_direction :: bias_side
  fg_top :: real
  fg_bottom :: real
  fg_filled_pct :: real

definition fg_mid :: "fair_value_gap \<Rightarrow> real" where "fg_mid g = (fg_top g + fg_bottom g) / 2"
definition fg_open_fraction :: "fair_value_gap \<Rightarrow> real" where "fg_open_fraction g = 1 - fg_filled_pct g"

record order_block_zone =
  zb_index :: nat
  zb_direction :: bias_side
  zb_top :: real
  zb_bottom :: real
  zb_mitigated :: bool
  zb_breaker :: bool

record sweep =
  lq_index :: nat
  lq_kind :: level_kind
  lq_level :: real
  lq_reclaimed :: bool

record equal_level =
  el_kind :: level_kind
  el_level :: real
  el_count :: nat
  el_internal :: bool

datatype break_kind = BK_BOS | BK_CHOCH

record structure_break =
  br_index :: nat
  br_kind :: break_kind
  br_direction :: move
  br_level :: real
  br_displacement :: real
  br_mss :: bool

datatype price_zone = PZ_Premium | PZ_Discount | PZ_Equilibrium

record premium_discount =
  pz_range_high :: real
  pz_range_low :: real
  pz_equilibrium :: real
  pz_position :: real
  pz_zone :: price_zone

record smc_analysis =
  sm_swings :: "swing_point list"
  sm_fvgs :: "fair_value_gap list"
  sm_order_blocks :: "order_block_zone list"
  sm_sweeps :: "sweep list"
  sm_equal_levels :: "equal_level list"
  sm_breaks :: "structure_break list"
  sm_premium_discount :: "premium_discount option"
  sm_inducement :: "swing_point option"
  sm_atr :: real

section \<open>Gaps and blocks\<close>

definition atr_for :: "real option \<Rightarrow> md_candle list \<Rightarrow> real option" where
  "atr_for atr_value cs = (case atr_value of Some v \<Rightarrow> Some v | None \<Rightarrow> atr_of (map ohlcv_of cs) 14)"

definition min_or :: "real \<Rightarrow> real list \<Rightarrow> real" where "min_or d xs = (if xs = [] then d else Min (set xs))"
definition max_or :: "real \<Rightarrow> real list \<Rightarrow> real" where "max_or d xs = (if xs = [] then d else Max (set xs))"

text \<open>The filled share of a gap, from the extreme price seen after it.\<close>

definition bullish_fill :: "real \<Rightarrow> real \<Rightarrow> real \<Rightarrow> real" where
  "bullish_fill hi lo lowest_after =
     (let share = max 0 (min 1 ((hi - max lowest_after lo) / (hi - lo)))
      in if lowest_after \<le> lo then 1 else share)"

definition bearish_fill :: "real \<Rightarrow> real \<Rightarrow> real \<Rightarrow> real" where
  "bearish_fill hi lo highest_after =
     (let share = max 0 (min 1 ((min highest_after hi - lo) / (hi - lo)))
      in if highest_after \<ge> hi then 1 else share)"

definition gaps_at :: "real \<Rightarrow> real \<Rightarrow> md_candle list \<Rightarrow> nat \<Rightarrow> fair_value_gap list" where
  "gaps_at min_size v cs i =
     (let prev = cs ! (i - 1); nxt = cs ! (i + 1); after = drop (i + 2) cs in
      (if cd_low nxt > cd_high prev \<and> cd_low nxt - cd_high prev \<ge> min_size * v
       then let top = cd_low nxt; bottom = cd_high prev;
                lowest_after = min_or top (map cd_low after);
                share = bullish_fill top bottom lowest_after
            in if share < 1
               then [\<lparr> fg_index = i, fg_direction = BS_Bullish, fg_top = top, fg_bottom = bottom, fg_filled_pct = share \<rparr>] else []
       else []) @
      (if cd_low prev > cd_high nxt \<and> cd_low prev - cd_high nxt \<ge> min_size * v
       then let top = cd_low prev; bottom = cd_high nxt;
                highest_after = max_or bottom (map cd_high after);
                share = bearish_fill top bottom highest_after
            in if share < 1
               then [\<lparr> fg_index = i, fg_direction = BS_Bearish, fg_top = top, fg_bottom = bottom, fg_filled_pct = share \<rparr>] else []
       else []))"

definition fair_value_gaps :: "real \<Rightarrow> real option \<Rightarrow> md_candle list \<Rightarrow> fair_value_gap list" where
  "fair_value_gaps min_size atr_value cs =
     (case atr_for atr_value cs of
        None \<Rightarrow> []
      | Some v \<Rightarrow> if v \<le> 0 \<or> length cs < 3 then [] else concat (map (gaps_at min_size v cs) [1..<length cs - 1]))"

definition block_at :: "real \<Rightarrow> bool \<Rightarrow> real \<Rightarrow> md_candle list \<Rightarrow> nat \<Rightarrow> order_block_zone list" where
  "block_at displacement full_range v cs i =
     (let c = cs ! i; nxt = cs ! (i + 1);
          up_move = cd_close nxt - cd_open nxt; down_move = cd_open nxt - cd_close nxt;
          direction = (if cd_close c < cd_open c \<and> up_move \<ge> displacement * v then Some BS_Bullish
             else if cd_close c > cd_open c \<and> down_move \<ge> displacement * v then Some BS_Bearish else None) in
      case direction of
        None \<Rightarrow> []
      | Some d \<Rightarrow>
          let top = (if full_range then cd_high c else max (cd_open c) (cd_close c));
              bottom = (if full_range then cd_low c else min (cd_open c) (cd_close c));
              after = drop (i + 2) cs
          in [\<lparr> zb_index = i, zb_direction = d, zb_top = top, zb_bottom = bottom,
               zb_mitigated = (\<exists>x \<in> set after. cd_low x \<le> top \<and> cd_high x \<ge> bottom),
               zb_breaker = (case d of BS_Bullish \<Rightarrow> \<exists>x \<in> set after. cd_close x < bottom
                                    | BS_Bearish \<Rightarrow> \<exists>x \<in> set after. cd_close x > top) \<rparr>])"

definition order_blocks :: "real \<Rightarrow> bool \<Rightarrow> real option \<Rightarrow> nat \<Rightarrow> md_candle list \<Rightarrow> order_block_zone list" where
  "order_blocks displacement full_range atr_value max_blocks cs =
     (case atr_for atr_value cs of
        None \<Rightarrow> []
      | Some v \<Rightarrow> if v \<le> 0 \<or> length cs < 3 then []
          else py_tail (int max_blocks) (concat (map (block_at displacement full_range v cs) [0..<length cs - 1])))"

section \<open>Liquidity\<close>

definition sweep_of :: "real \<Rightarrow> nat \<Rightarrow> md_candle \<Rightarrow> swing_point \<Rightarrow> sweep option" where
  "sweep_of tolerance_pct i c s =
     (if sw_index s \<ge> i then None else
      let tolerance = sw_price s * tolerance_pct / 100 in
      if sw_kind s = LK_High \<and> cd_high c > sw_price s + tolerance
      then Some \<lparr> lq_index = i, lq_kind = LK_High, lq_level = sw_price s, lq_reclaimed = cd_close c < sw_price s \<rparr>
      else if sw_kind s = LK_Low \<and> cd_low c < sw_price s - tolerance
      then Some \<lparr> lq_index = i, lq_kind = LK_Low, lq_level = sw_price s, lq_reclaimed = cd_close c > sw_price s \<rparr>
      else None)"

definition liquidity_sweeps :: "nat \<Rightarrow> real \<Rightarrow> md_candle list \<Rightarrow> swing_point list \<Rightarrow> sweep list" where
  "liquidity_sweeps scan tolerance_pct cs swings =
     concat (map (\<lambda>i. List.map_filter (sweep_of tolerance_pct i (cs ! i)) swings) [length cs - scan..<length cs])"

definition make_equal :: "level_kind \<Rightarrow> real list \<Rightarrow> (real \<times> real) option \<Rightarrow> equal_level" where
  "make_equal kind cluster extent =
     (let level = sum_list cluster / real (length cluster);
          internal = (case extent of
              Some (high, low) \<Rightarrow> let band = (high - low) * (1/10) in low + band < level \<and> level < high - band
            | None \<Rightarrow> True)
      in \<lparr> el_kind = kind, el_level = level, el_count = length cluster, el_internal = internal \<rparr>)"

fun cluster_loop :: "real \<Rightarrow> real list \<Rightarrow> real list \<Rightarrow> real list list" where
  "cluster_loop tol cluster [] = (if length cluster \<ge> 2 then [cluster] else [])"
| "cluster_loop tol cluster (price # ps) =
     (if cluster = [] \<or> \<bar>price - last cluster\<bar> \<le> last cluster * tol / 100
      then cluster_loop tol (cluster @ [price]) ps
      else (if length cluster \<ge> 2 then [cluster] else []) @ cluster_loop tol [price] ps)"

definition equal_levels :: "real \<Rightarrow> (real \<times> real) option \<Rightarrow> swing_point list \<Rightarrow> equal_level list" where
  "equal_levels tolerance_pct extent swings =
     concat (map (\<lambda>kind. map (\<lambda>cluster. make_equal kind cluster extent)
        (cluster_loop tolerance_pct [] (sort (map sw_price (filter (\<lambda>s. sw_kind s = kind) swings))))) [LK_High, LK_Low])"

section \<open>Structure breaks\<close>

definition activate :: "swing_point list \<Rightarrow> swing_point option \<times> swing_point option \<Rightarrow> swing_point option \<times> swing_point option" where
  "activate here levels = fold (\<lambda>s (high, low). case sw_kind s of LK_High \<Rightarrow> (Some s, low) | LK_Low \<Rightarrow> (high, Some s)) here levels"

definition break_kind_of :: "move option \<Rightarrow> move \<Rightarrow> break_kind" where
  "break_kind_of trend d = (case trend of None \<Rightarrow> BK_BOS | Some t \<Rightarrow> if t = d then BK_BOS else BK_CHOCH)"

definition mk_break :: "real \<Rightarrow> real \<Rightarrow> move option \<Rightarrow> nat \<Rightarrow> md_candle \<Rightarrow> move \<Rightarrow> real \<Rightarrow> structure_break" where
  "mk_break mss_displacement v trend i c d level =
     (let displacement = \<bar>cd_close c - cd_open c\<bar> / v; kind = break_kind_of trend d
      in \<lparr> br_index = i, br_kind = kind, br_direction = d, br_level = level, br_displacement = displacement,
           br_mss = (kind = BK_CHOCH \<and> displacement \<ge> mss_displacement) \<rparr>)"

definition breaks_up :: "nat \<Rightarrow> md_candle \<Rightarrow> swing_point option \<Rightarrow> bool" where
  "breaks_up i c high = (case high of None \<Rightarrow> False | Some s \<Rightarrow> cd_close c > sw_price s \<and> i > sw_index s)"

definition breaks_down :: "nat \<Rightarrow> md_candle \<Rightarrow> swing_point option \<Rightarrow> bool" where
  "breaks_down i c low = (case low of None \<Rightarrow> False | Some s \<Rightarrow> cd_close c < sw_price s \<and> i > sw_index s)"

fun scan_breaks :: "real \<Rightarrow> real \<Rightarrow> swing_point list \<Rightarrow> move option \<Rightarrow> swing_point option \<times> swing_point option
    \<Rightarrow> nat \<Rightarrow> md_candle list \<Rightarrow> structure_break list" where
  "scan_breaks mss v swings trend levels i [] = []"
| "scan_breaks mss v swings trend levels i (c # cs) =
     (let here = filter (\<lambda>s. sw_index s = i) swings in
      if breaks_up i c (fst levels)
      then mk_break mss v trend i c MV_Up (sw_price (the (fst levels)))
        # scan_breaks mss v swings (Some MV_Up) (activate here (None, snd levels)) (i + 1) cs
      else if breaks_down i c (snd levels)
      then mk_break mss v trend i c MV_Down (sw_price (the (snd levels)))
        # scan_breaks mss v swings (Some MV_Down) (activate here (fst levels, None)) (i + 1) cs
      else scan_breaks mss v swings trend (activate here levels) (i + 1) cs)"

definition structure_breaks :: "real \<Rightarrow> real option \<Rightarrow> md_candle list \<Rightarrow> swing_point list \<Rightarrow> structure_break list" where
  "structure_breaks mss_displacement atr_value cs swings =
     (case atr_for atr_value cs of
        None \<Rightarrow> []
      | Some v \<Rightarrow> if v \<le> 0 then [] else scan_breaks mss_displacement v swings None (None, None) 0 cs)"

section \<open>Zones and the composite reading\<close>

definition premium_discount_of :: "real \<Rightarrow> md_candle list \<Rightarrow> swing_point list \<Rightarrow> premium_discount option" where
  "premium_discount_of band cs swings =
     (let highs = map sw_price (filter (\<lambda>s. sw_kind s = LK_High) swings);
          lows = map sw_price (filter (\<lambda>s. sw_kind s = LK_Low) swings) in
      if highs = [] \<or> lows = [] \<or> cs = [] then None else
      let range_high = Max (set highs); range_low = Min (set lows) in
      if range_high \<le> range_low then None else
      let position = (cd_close (last cs) - range_low) / (range_high - range_low);
          zone = (if \<bar>position - 1/2\<bar> \<le> band then PZ_Equilibrium else if position > 1/2 then PZ_Premium else PZ_Discount)
      in Some \<lparr> pz_range_high = range_high, pz_range_low = range_low, pz_equilibrium = (range_high + range_low) / 2,
                pz_position = max 0 (min 1 position), pz_zone = zone \<rparr>)"

definition inducement_of :: "swing_point list \<Rightarrow> structure_break list \<Rightarrow> swing_point option" where
  "inducement_of swings breaks =
     (if breaks = [] then None else
      let b = last breaks; wanted = (case br_direction b of MV_Up \<Rightarrow> LK_Low | MV_Down \<Rightarrow> LK_High);
          candidates = filter (\<lambda>s. sw_index s > br_index b \<and> sw_kind s = wanted) swings
      in if candidates = [] then None else Some (hd candidates))"

record smc_params =
  sq_swing_left :: nat
  sq_swing_right :: nat
  sq_fvg_min_atr :: real
  sq_ob_displacement :: real
  sq_ob_full_range :: bool
  sq_sweep_scan :: nat
  sq_sweep_tolerance :: real
  sq_equal_tolerance :: real
  sq_mss_displacement :: real
  sq_atr_period :: nat

definition default_smc :: smc_params where
  "default_smc = \<lparr> sq_swing_left = 3, sq_swing_right = 3, sq_fvg_min_atr = 3/10, sq_ob_displacement = 3/2,
     sq_ob_full_range = False, sq_sweep_scan = 5, sq_sweep_tolerance = 2/100, sq_equal_tolerance = 5/100,
     sq_mss_displacement = 3/2, sq_atr_period = 14 \<rparr>"

definition analyze_smc :: "smc_params \<Rightarrow> md_candle list \<Rightarrow> smc_analysis option" where
  "analyze_smc q cs =
     (if length cs < max (sq_atr_period q + 1) (sq_swing_left q + sq_swing_right q + 3) then None else
      case atr_of (map ohlcv_of cs) (sq_atr_period q) of
        None \<Rightarrow> None
      | Some v \<Rightarrow>
          if v \<le> 0 then None else
          let swings = swing_points cs (sq_swing_left q) (sq_swing_right q);
              breaks = structure_breaks (sq_mss_displacement q) (Some v) cs swings;
              zone = premium_discount_of (1/10) cs swings
          in Some \<lparr> sm_swings = swings,
               sm_fvgs = fair_value_gaps (sq_fvg_min_atr q) (Some v) cs,
               sm_order_blocks = order_blocks (sq_ob_displacement q) (sq_ob_full_range q) (Some v) 10 cs,
               sm_sweeps = liquidity_sweeps (sq_sweep_scan q) (sq_sweep_tolerance q) cs swings,
               sm_equal_levels = equal_levels (sq_equal_tolerance q)
                 (map_option (\<lambda>z. (pz_range_high z, pz_range_low z)) zone) swings,
               sm_breaks = breaks, sm_premium_discount = zone, sm_inducement = inducement_of swings breaks, sm_atr = v \<rparr>)"

section \<open>Gaps\<close>

lemma min_or_less: "d > b \<Longrightarrow> min_or d xs > b \<longleftrightarrow> list_all (\<lambda>x. x > b) xs"
  by (auto simp: min_or_def list_all_iff)

lemma max_or_less: "d < b \<Longrightarrow> max_or d xs < b \<longleftrightarrow> list_all (\<lambda>x. x < b) xs"
  by (auto simp: max_or_def list_all_iff)

lemma gap_index: "g \<in> set (gaps_at ms v cs i) \<Longrightarrow> fg_index g = i"
  by (auto simp: gaps_at_def Let_def split: if_splits)

lemma fill_open:
  assumes "lo < hi"
  shows "bullish_fill hi lo x < 1 \<longleftrightarrow> lo < x" "bearish_fill hi lo x < 1 \<longleftrightarrow> x < hi"
    "0 \<le> bullish_fill hi lo x" "0 \<le> bearish_fill hi lo x"
  using assms by (auto simp: bullish_fill_def bearish_fill_def Let_def max_def min_def)

lemma bullish_gap:
  "(\<exists>g \<in> set (gaps_at ms v cs i). fg_direction g = BS_Bullish) \<longleftrightarrow>
     cd_high (cs ! (i - 1)) < cd_low (cs ! (i + 1)) \<and> ms * v \<le> cd_low (cs ! (i + 1)) - cd_high (cs ! (i - 1))
     \<and> list_all (\<lambda>c. cd_high (cs ! (i - 1)) < cd_low c) (drop (i + 2) cs)"
  by (auto simp: gaps_at_def Let_def fill_open min_or_less list_all_iff)

lemma bearish_gap:
  "(\<exists>g \<in> set (gaps_at ms v cs i). fg_direction g = BS_Bearish) \<longleftrightarrow>
     cd_high (cs ! (i + 1)) < cd_low (cs ! (i - 1)) \<and> ms * v \<le> cd_low (cs ! (i - 1)) - cd_high (cs ! (i + 1))
     \<and> list_all (\<lambda>c. cd_high c < cd_low (cs ! (i - 1))) (drop (i + 2) cs)"
  by (auto simp: gaps_at_def Let_def fill_open max_or_less list_all_iff)

lemma gaps_members:
  "g \<in> set (fair_value_gaps ms (Some v) cs) \<longleftrightarrow>
     0 < v \<and> 0 < fg_index g \<and> fg_index g + 1 < length cs \<and> g \<in> set (gaps_at ms v cs (fg_index g))"
proof -
  define F where "F = gaps_at ms v cs"
  have F: "h \<in> set (F i) \<Longrightarrow> fg_index h = i" for h i unfolding F_def by (rule gap_index)
  have "g \<in> set (concat (map F [1..<length cs - 1])) \<longleftrightarrow> 0 < fg_index g \<and> fg_index g + 1 < length cs \<and> g \<in> set (F (fg_index g))"
  proof
    assume "g \<in> set (concat (map F [1..<length cs - 1]))"
    then obtain i where i: "1 \<le> i" "i < length cs - 1" "g \<in> set (F i)" by auto
    with F [OF i(3)] show "0 < fg_index g \<and> fg_index g + 1 < length cs \<and> g \<in> set (F (fg_index g))" by auto
  next
    assume a: "0 < fg_index g \<and> fg_index g + 1 < length cs \<and> g \<in> set (F (fg_index g))"
    then have "fg_index g \<in> set [1..<length cs - 1]" by auto
    with a show "g \<in> set (concat (map F [1..<length cs - 1]))" unfolding set_concat set_map by blast
  qed
  then show ?thesis by (auto simp: fair_value_gaps_def atr_for_def F_def)
qed

lemma gap_shape:
  assumes "g \<in> set (fair_value_gaps ms a cs)"
  shows "fg_bottom g < fg_top g" "0 \<le> fg_filled_pct g" "fg_filled_pct g < 1"
proof -
  from assms obtain v i where "g \<in> set (gaps_at ms v cs i)" by (auto simp: fair_value_gaps_def split: option.splits if_splits)
  then show "fg_bottom g < fg_top g" "0 \<le> fg_filled_pct g" "fg_filled_pct g < 1"
    by (auto simp: gaps_at_def Let_def fill_open split: if_splits)
qed

text \<open>
  Property C32 (open gaps): a bullish gap is reported around candle i exactly when the next candle opened a gap of at least
  the minimum size over the previous high and no later low has come back to that high; the bearish case mirrors it.
\<close>

theorem gap_reported_iff:
  "(\<exists>g \<in> set (fair_value_gaps ms (Some v) cs). fg_index g = i \<and> fg_direction g = BS_Bullish) =
     (0 < v \<and> 0 < i \<and> i + 1 < length cs
      \<and> cd_high (cs ! (i - 1)) < cd_low (cs ! (i + 1)) \<and> ms * v \<le> cd_low (cs ! (i + 1)) - cd_high (cs ! (i - 1))
      \<and> list_all (\<lambda>c. cd_high (cs ! (i - 1)) < cd_low c) (drop (i + 2) cs)) \<and>
   (\<exists>g \<in> set (fair_value_gaps ms (Some v) cs). fg_index g = i \<and> fg_direction g = BS_Bearish) =
     (0 < v \<and> 0 < i \<and> i + 1 < length cs
      \<and> cd_high (cs ! (i + 1)) < cd_low (cs ! (i - 1)) \<and> ms * v \<le> cd_low (cs ! (i - 1)) - cd_high (cs ! (i + 1))
      \<and> list_all (\<lambda>c. cd_high c < cd_low (cs ! (i - 1))) (drop (i + 2) cs))"
proof -
  have "(\<exists>g \<in> set (fair_value_gaps ms (Some v) cs). fg_index g = i \<and> fg_direction g = d) =
      (0 < v \<and> 0 < i \<and> i + 1 < length cs \<and> (\<exists>g \<in> set (gaps_at ms v cs i). fg_direction g = d))" for d
  proof -
    define G where "G = gaps_at ms v cs"
    have G: "h \<in> set (G i) \<Longrightarrow> fg_index h = i" for h i unfolding G_def by (rule gap_index)
    show ?thesis unfolding Bex_def gaps_members G_def [symmetric] using G by blast
  qed
  then show ?thesis by (simp only: bullish_gap bearish_gap)
qed

section \<open>Structure breaks\<close>

fun breaks_chain :: "move option \<Rightarrow> structure_break list \<Rightarrow> bool" where
  "breaks_chain t [] = True"
| "breaks_chain t (b # bs) = (br_kind b = break_kind_of t (br_direction b) \<and> breaks_chain (Some (br_direction b)) bs)"

lemma scan_chain: "breaks_chain t (scan_breaks m v sw t lv i cs)"
  by (induction m v sw t lv i cs rule: scan_breaks.induct) (simp_all add: Let_def mk_break_def)

lemma scan_index: "b \<in> set (scan_breaks m v sw t lv i cs) \<Longrightarrow> i \<le> br_index b \<and> br_index b < i + length cs"
  by (induction m v sw t lv i cs rule: scan_breaks.induct) (fastforce simp: Let_def mk_break_def split: if_splits)+

definition level_for :: "move \<Rightarrow> swing_point option \<times> swing_point option \<Rightarrow> swing_point option" where
  "level_for d lv = (case d of MV_Up \<Rightarrow> fst lv | MV_Down \<Rightarrow> snd lv)"

definition kind_for :: "move \<Rightarrow> level_kind" where
  "kind_for d = (case d of MV_Up \<Rightarrow> LK_High | MV_Down \<Rightarrow> LK_Low)"

lemma activate_level:
  "level_for d (activate ss lv) = level_for d lv \<or>
     (\<exists>s \<in> set ss. sw_kind s = kind_for d \<and> level_for d (activate ss lv) = Some s)"
proof (induction ss arbitrary: lv)
  case (Cons s ss)
  have "level_for d (activate [s] lv) = level_for d lv \<or> (sw_kind s = kind_for d \<and> level_for d (activate [s] lv) = Some s)"
    by (cases lv; cases d; cases "sw_kind s") (auto simp: activate_def level_for_def kind_for_def)
  moreover have "activate (s # ss) lv = activate ss (activate [s] lv)" by (simp add: activate_def)
  ultimately show ?case using Cons.IH [of "activate [s] lv"] by auto
qed (simp add: activate_def)

definition closes_beyond :: "move \<Rightarrow> md_candle \<Rightarrow> real \<Rightarrow> bool" where
  "closes_beyond d c level = (case d of MV_Up \<Rightarrow> cd_close c > level | MV_Down \<Rightarrow> cd_close c < level)"

text \<open>The level of a break is that of a pivot which was standing before, or which appeared since.\<close>

lemma scan_level:
  assumes "b \<in> set (scan_breaks m v sw t lv i cs)"
  shows "closes_beyond (br_direction b) (cs ! (br_index b - i)) (br_level b) \<and>
    (\<exists>s. sw_price s = br_level b \<and> sw_index s < br_index b \<and>
       (level_for (br_direction b) lv = Some s \<or> s \<in> set sw \<and> sw_kind s = kind_for (br_direction b) \<and> i \<le> sw_index s))"
  using assms
proof (induction m v sw t lv i cs rule: scan_breaks.induct)
  case (2 m v sw t lv i c cs)
  define here where "here = filter (\<lambda>s. sw_index s = i) sw"
  define lv' t' where "lv' = (if breaks_up i c (fst lv) then (None, snd lv) else if breaks_down i c (snd lv) then (fst lv, None) else lv)"
    and "t' = (if breaks_up i c (fst lv) then Some MV_Up else if breaks_down i c (snd lv) then Some MV_Down else t)"
  have forget: "level_for d lv' = Some s \<Longrightarrow> level_for d lv = Some s" for d s
    by (cases d) (auto simp: lv'_def level_for_def split: if_splits)
  consider (now) "i = br_index b" "closes_beyond (br_direction b) c (br_level b)"
      "\<exists>s. sw_price s = br_level b \<and> sw_index s < br_index b \<and> level_for (br_direction b) lv = Some s"
    | (later) "b \<in> set (scan_breaks m v sw t' (activate here lv') (i + 1) cs)"
    using "2.prems" by (auto simp: Let_def here_def lv'_def t'_def mk_break_def closes_beyond_def level_for_def
        breaks_up_def breaks_down_def split: if_splits option.splits)
  then show ?case
  proof cases
    case now
    then show ?thesis by auto
  next
    case later
    have "closes_beyond (br_direction b) (cs ! (br_index b - (i + 1))) (br_level b) \<and>
      (\<exists>s. sw_price s = br_level b \<and> sw_index s < br_index b \<and>
       (level_for (br_direction b) (activate here lv') = Some s \<or> s \<in> set sw \<and> sw_kind s = kind_for (br_direction b) \<and> i + 1 \<le> sw_index s))"
      using "2.IH" later by (auto simp: Let_def here_def lv'_def t'_def split: if_splits)
    moreover have "(c # cs) ! (br_index b - i) = cs ! (br_index b - (i + 1))"
      using scan_index [OF later] by (simp add: nth_Cons')
    moreover have "level_for (br_direction b) lv = Some s \<or> s \<in> set sw \<and> sw_kind s = kind_for (br_direction b) \<and> i \<le> sw_index s"
      if "level_for (br_direction b) (activate here lv') = Some s" for s
      using activate_level [of "br_direction b" here lv'] that forget [of "br_direction b" s] by (auto simp: here_def)
    ultimately show ?thesis by fastforce
  qed
qed simp

lemma scan_sorted: "sorted_wrt (<) (map br_index (scan_breaks m v sw t lv i cs))"
proof (induction m v sw t lv i cs rule: scan_breaks.induct)
  case (2 m v sw t lv i c cs)
  have later: "i < br_index b" if "b \<in> set (scan_breaks m v sw t' lv' (Suc i) cs)" for b t' lv'
    using scan_index [OF that] by simp
  have head: "br_index (mk_break m v t i c d x) = i" for d x by (simp add: mk_break_def Let_def)
  define here where "here = filter (\<lambda>s. sw_index s = i) sw"
  consider "breaks_up i c (fst lv)" | "\<not> breaks_up i c (fst lv)" "breaks_down i c (snd lv)"
    | "\<not> breaks_up i c (fst lv)" "\<not> breaks_down i c (snd lv)" by blast
  then show ?case
  proof cases
    case 1
    then show ?thesis using "2.IH"(1) [OF refl 1] by (auto simp: Let_def head dest: later)
  next
    case 2
    then show ?thesis using "2.IH"(2) [OF refl 2] by (auto simp: Let_def head dest: later)
  next
    case 3
    then show ?thesis using "2.IH"(3) [OF refl 3] by (simp add: Let_def)
  qed
qed simp

lemma scan_mss:
  "b \<in> set (scan_breaks m v sw t lv i cs) \<Longrightarrow> br_mss b = (br_kind b = BK_CHOCH \<and> br_displacement b \<ge> m)"
  by (induction m v sw t lv i cs rule: scan_breaks.induct) (fastforce simp: Let_def mk_break_def split: if_splits)+

definition break_ok :: "real \<Rightarrow> md_candle list \<Rightarrow> swing_point list \<Rightarrow> structure_break \<Rightarrow> bool" where
  "break_ok m cs swings b \<longleftrightarrow> br_index b < length cs
     \<and> closes_beyond (br_direction b) (cs ! br_index b) (br_level b)
     \<and> list_ex (\<lambda>s. sw_kind s = kind_for (br_direction b) \<and> sw_price s = br_level b \<and> sw_index s < br_index b) swings
     \<and> br_mss b = (br_kind b = BK_CHOCH \<and> br_displacement b \<ge> m)"

text \<open>
  The breaks come at strictly increasing candles; the first one and every one in the
  direction of the previous break is a BOS, every change of direction is a CHOCH, and an MSS exactly when the displacement
  reported with it reaches the threshold; each candle closes beyond the price of an earlier pivot of the broken side.
\<close>

theorem breaks_follow_structure:
  "sorted_wrt (<) (map br_index (structure_breaks m a cs swings))
   \<and> breaks_chain None (structure_breaks m a cs swings)
   \<and> list_all (break_ok m cs swings) (structure_breaks m a cs swings)"
proof (cases "\<exists>v. structure_breaks m a cs swings = scan_breaks m v swings None (None, None) 0 cs")
  case True
  then obtain v where v: "structure_breaks m a cs swings = scan_breaks m v swings None (None, None) 0 cs" by blast
  have "break_ok m cs swings b" if b: "b \<in> set (scan_breaks m v swings None (None, None) 0 cs)" for b
  proof -
    have none: "level_for d (None, None) = None" for d by (cases d) (simp_all add: level_for_def)
    show ?thesis
      using scan_level [OF b] scan_index [OF b] scan_mss [OF b] unfolding break_ok_def list_ex_iff none by auto
  qed
  then show ?thesis unfolding v list_all_iff by (simp add: scan_sorted scan_chain)
next
  case False
  then have "structure_breaks m a cs swings = []" by (auto simp: structure_breaks_def split: option.splits)
  then show ?thesis by simp
qed

text \<open>
  The pivot in a break is activated at its own candle, not when its right neighbourhood confirms it, so the break of the
  previous level seen live disappears once the new pivot is confirmed.
\<close>

definition bar :: "real \<Rightarrow> real \<Rightarrow> real \<Rightarrow> md_candle" where
  "bar high low close_at = \<lparr> cd_open = low, cd_high = high, cd_low = low, cd_close = close_at, cd_volume = 1, cd_symbol = [],
     cd_provider = [], cd_timeframe = TF_M1, cd_start = 0, cd_end = 0, cd_buy_volume = 0, cd_sell_volume = 0, cd_vwap = 0,
     cd_trades = 0, cd_closed = True, cd_source = [] \<rparr>"

definition repainting :: "md_candle list" where
  "repainting = [bar 8 1 7, bar 8 1 7, bar 10 1 9, bar 9 1 8, bar 9 1 8, bar 12 1 9, bar 11 1 (21/2), bar 11 1 9]"

lemma seven: "[0..<7] = [0, 1, 2, 3, 4, 5, 6 :: nat]" "[2..<6] = [2, 3, 4, 5 :: nat]" "[2..<5] = [2, 3, 4 :: nat]"
  by (simp_all add: upt_rec)

lemma repainting_pivots:
  "swing_points (take 7 repainting) 2 2 = [(mk_swing LK_High 2 (bar 10 1 9))\<lparr> sw_label := [] \<rparr>]"
  "swing_points repainting 2 2 =
     [(mk_swing LK_High 2 (bar 10 1 9))\<lparr> sw_label := [] \<rparr>, (mk_swing LK_High 5 (bar 12 1 9))\<lparr> sw_label := ''HH'' \<rparr>]"
  by (simp_all add: swing_points_def raw_swings_eq repainting_def pivots_at_def neighborhood_def bar_def mk_swing_def Let_def
      seven upt_rec numeral_nat)

lemma live_break_disappears:
  "map (\<lambda>b. (br_index b, br_level b)) (structure_breaks 2 (Some 1) (take 7 repainting) (swing_points (take 7 repainting) 2 2)) = [(6, 10)]"
  "structure_breaks 2 (Some 1) repainting (swing_points repainting 2 2) = []"
  unfolding repainting_pivots
  by (simp_all add: structure_breaks_def atr_for_def repainting_def mk_swing_def Let_def breaks_up_def breaks_down_def
      activate_def mk_break_def numeral_nat) (simp_all add: bar_def)

section \<open>Clusters and zones\<close>

lemma clusters:
  assumes "cl \<in> set (cluster_loop tol acc xs)"
  shows "2 \<le> length cl" "set cl \<subseteq> set acc \<union> set xs"
  using assms by (induction tol acc xs rule: cluster_loop.induct) (auto split: if_splits)

lemma clusters_size: "sum_list (map length (cluster_loop tol acc xs)) \<le> length acc + length xs"
  by (induction tol acc xs rule: cluster_loop.induct) (auto split: if_splits)

lemma mean_between:
  fixes xs :: "real list"
  assumes "xs \<noteq> []" "\<And>x. x \<in> set xs \<Longrightarrow> a \<le> x \<and> x \<le> b"
  shows "a \<le> sum_list xs / real (length xs)" "sum_list xs / real (length xs) \<le> b"
proof -
  have "sum_list xs \<le> sum_list (map (\<lambda>_. b) xs)" "sum_list (map (\<lambda>_. a) xs) \<le> sum_list xs"
    using assms(2) by (intro sum_list_mono [of xs "\<lambda>x. x", simplified], simp, simp add: sum_list_mono [of xs "\<lambda>_. a" "\<lambda>x. x", simplified])
  then show "a \<le> sum_list xs / real (length xs)" "sum_list xs / real (length xs) \<le> b"
    using assms(1) by (simp_all add: sum_list_triv field_simps)
qed

text \<open>Every cluster groups at least two pivots, no pivot twice, and its level lies between their extreme prices.\<close>

lemma equal_levels_members:
  assumes "e \<in> set (equal_levels tol extent swings)"
  shows "2 \<le> el_count e"
    "\<exists>x \<in> set swings. sw_kind x = el_kind e \<and> sw_price x \<le> el_level e"
    "\<exists>y \<in> set swings. sw_kind y = el_kind e \<and> el_level e \<le> sw_price y"
proof -
  obtain k cl where cl: "cl \<in> set (cluster_loop tol [] (sort (map sw_price (filter (\<lambda>s. sw_kind s = k) swings))))"
    and e: "e = make_equal k cl extent"
    using assms by (auto simp: equal_levels_def)
  have two: "2 \<le> length cl" and sub: "set cl \<subseteq> sw_price ` set (filter (\<lambda>s. sw_kind s = k) swings)"
    using clusters [OF cl] by auto
  then have ne: "cl \<noteq> []" by auto
  have "Min (set cl) \<le> el_level e" "el_level e \<le> Max (set cl)"
    using mean_between [OF ne, of "Min (set cl)" "Max (set cl)"] by (simp_all add: e make_equal_def Let_def)
  moreover have "Min (set cl) \<in> set cl" "Max (set cl) \<in> set cl" using ne by simp_all
  moreover have "el_kind e = k" "el_count e = length cl" by (simp_all add: e make_equal_def Let_def)
  ultimately show "2 \<le> el_count e" "\<exists>x \<in> set swings. sw_kind x = el_kind e \<and> sw_price x \<le> el_level e"
    "\<exists>y \<in> set swings. sw_kind y = el_kind e \<and> el_level e \<le> sw_price y"
    using two sub by fastforce+
qed

lemma zone_bounds:
  assumes "premium_discount_of band cs swings = Some z" "0 \<le> band"
  shows "pz_range_low z < pz_range_high z" "0 \<le> pz_position z" "pz_position z \<le> 1"
    "pz_zone z = PZ_Premium \<Longrightarrow> cd_close (last cs) > pz_equilibrium z"
    "pz_zone z = PZ_Discount \<Longrightarrow> cd_close (last cs) < pz_equilibrium z"
proof -
  show "pz_range_low z < pz_range_high z" "0 \<le> pz_position z" "pz_position z \<le> 1"
    using assms by (auto simp: premium_discount_of_def Let_def split: if_splits)
  define lo hi x where "lo = Min (set (map sw_price (filter (\<lambda>s. sw_kind s = LK_Low) swings)))"
    and "hi = Max (set (map sw_price (filter (\<lambda>s. sw_kind s = LK_High) swings)))" and "x = cd_close (last cs)"
  have lh: "lo < hi" "x = cd_close (last cs)" and z: "pz_equilibrium z = (hi + lo) / 2"
    "pz_zone z = (let p = (x - lo) / (hi - lo) in
        if \<bar>p - 1/2\<bar> \<le> band then PZ_Equilibrium else if p > 1/2 then PZ_Premium else PZ_Discount)"
    using assms(1) unfolding premium_discount_of_def Let_def lo_def [symmetric] hi_def [symmetric] x_def [symmetric]
    by (auto split: if_splits)
  have "(x - lo) / (hi - lo) > 1/2 \<longleftrightarrow> x > (hi + lo) / 2" "(x - lo) / (hi - lo) < 1/2 \<longleftrightarrow> x < (hi + lo) / 2"
    using lh(1) by (auto simp: field_simps)
  moreover have "pz_zone z = PZ_Premium \<Longrightarrow> (x - lo) / (hi - lo) > 1/2" "pz_zone z = PZ_Discount \<Longrightarrow> (x - lo) / (hi - lo) < 1/2"
    using z(2) assms(2) unfolding Let_def by (smt (verit, best) price_zone.distinct)+
  ultimately show "pz_zone z = PZ_Premium \<Longrightarrow> cd_close (last cs) > pz_equilibrium z"
    "pz_zone z = PZ_Discount \<Longrightarrow> cd_close (last cs) < pz_equilibrium z"
    using z(1) lh(2) by auto
qed

end
