(* ===== verification/Liquidity.thy ===== *)
theory Liquidity
  imports Smc
begin

text \<open>
  Liquidity (\<open>app/analytics/indicators/liquidity.py\<close>): the pools of resting stops, the hunts of the newest candles and
  the nearest pool that is still intact.
\<close>

section \<open>Pools and hunts\<close>

record liquidity_pool =
  po_level :: real
  po_kind :: level_kind
  po_strength :: nat
  po_swept :: bool
  po_internal :: bool

record stop_hunt =
  hu_index :: nat
  hu_pool :: liquidity_pool
  hu_rejection :: bool
  hu_continuation :: bool
  hu_wick_ratio :: real

record liquidity_map =
  lm_pools :: "liquidity_pool list"
  lm_hunts :: "stop_hunt list"
  lm_swings :: "swing_point list"

definition pool_candidates :: "real \<Rightarrow> level_kind \<Rightarrow> liquidity_map \<Rightarrow> liquidity_pool list" where
  "pool_candidates price kind m = filter (\<lambda>p. po_kind p = kind \<and> \<not> po_swept p
     \<and> (kind = LK_High \<and> po_level p > price \<or> kind = LK_Low \<and> po_level p < price)) (lm_pools m)"

text \<open>\<open>min(..., key=...)\<close>: the first candidate with the least distance.\<close>

fun nearest_of :: "real \<Rightarrow> liquidity_pool list \<Rightarrow> liquidity_pool option" where
  "nearest_of price [] = None"
| "nearest_of price (p # ps) = (case nearest_of price ps of
     None \<Rightarrow> Some p | Some q \<Rightarrow> if \<bar>po_level q - price\<bar> < \<bar>po_level p - price\<bar> then Some q else Some p)"

definition nearest_pool :: "real \<Rightarrow> level_kind \<Rightarrow> liquidity_map \<Rightarrow> liquidity_pool option" where
  "nearest_pool price kind m = nearest_of price (pool_candidates price kind m)"

record liquidity_params =
  lr_swing_left :: nat
  lr_swing_right :: nat
  lr_equal_tolerance :: real
  lr_hunt_scan :: nat
  lr_rejection_wick :: real

definition default_liquidity :: liquidity_params where
  "default_liquidity = \<lparr> lr_swing_left = 3, lr_swing_right = 3, lr_equal_tolerance = 5/100, lr_hunt_scan = 5, lr_rejection_wick = 1/2 \<rparr>"

definition base_pools :: "real \<Rightarrow> real \<Rightarrow> real \<Rightarrow> swing_point list \<Rightarrow> liquidity_pool list" where
  "base_pools tolerance high low swings =
     (let clusters = map (\<lambda>e. \<lparr> po_level = el_level e, po_kind = el_kind e, po_strength = el_count e, po_swept = False,
            po_internal = el_internal e \<rparr>) (equal_levels tolerance (Some (high, low)) swings);
          with_high = (if \<exists>p \<in> set clusters. po_kind p = LK_High \<and> \<bar>po_level p - high\<bar> < 1 / 10 ^ 12 then clusters
            else clusters @ [\<lparr> po_level = high, po_kind = LK_High, po_strength = 1, po_swept = False, po_internal = False \<rparr>])
      in if \<exists>p \<in> set with_high. po_kind p = LK_Low \<and> \<bar>po_level p - low\<bar> < 1 / 10 ^ 12 then with_high
         else with_high @ [\<lparr> po_level = low, po_kind = LK_Low, po_strength = 1, po_swept = False, po_internal = False \<rparr>])"

text \<open>
  The loop over the newest candles stops at the first one that sweeps the pool.  The guard that skips a candle at index 0
  whose high does not pass the level stands inside the branch where it does.
\<close>

definition hunt_candle :: "real \<Rightarrow> liquidity_pool \<Rightarrow> nat \<Rightarrow> md_candle \<Rightarrow> stop_hunt option" where
  "hunt_candle min_wick pool i c =
     (let span = cd_high c - cd_low c in
      if span \<le> 0 then None
      else if po_kind pool = LK_High \<and> cd_high c > po_level pool
      then if po_level pool \<ge> cd_high c \<and> i = 0 then None
        else let wick = (cd_high c - max (cd_close c) (cd_open c)) / span
          in Some \<lparr> hu_index = i, hu_pool = pool, hu_rejection = (cd_close c < po_level pool \<and> wick \<ge> min_wick),
               hu_continuation = cd_close c > po_level pool, hu_wick_ratio = wick \<rparr>
      else if po_kind pool = LK_Low \<and> cd_low c < po_level pool
      then let wick = (min (cd_close c) (cd_open c) - cd_low c) / span
        in Some \<lparr> hu_index = i, hu_pool = pool, hu_rejection = (cd_close c > po_level pool \<and> wick \<ge> min_wick),
             hu_continuation = cd_close c < po_level pool, hu_wick_ratio = wick \<rparr>
      else None)"

fun hunt_pool :: "real \<Rightarrow> liquidity_pool \<Rightarrow> md_candle list \<Rightarrow> nat list \<Rightarrow> stop_hunt option" where
  "hunt_pool min_wick pool cs [] = None"
| "hunt_pool min_wick pool cs (i # rest) =
     (case hunt_candle min_wick pool i (cs ! i) of Some h \<Rightarrow> Some h | None \<Rightarrow> hunt_pool min_wick pool cs rest)"

definition analyze_liquidity :: "liquidity_params \<Rightarrow> md_candle list \<Rightarrow> liquidity_map option" where
  "analyze_liquidity q cs =
     (if length cs < lr_swing_left q + lr_swing_right q + 3 then None else
      let swings = swing_points cs (lr_swing_left q) (lr_swing_right q) in
      if swings = [] then None else
      let pools = base_pools (lr_equal_tolerance q) (range_top cs) (range_bottom cs) swings;
          scan = [length cs - lr_hunt_scan q..<length cs];
          hunt = \<lambda>p. hunt_pool (lr_rejection_wick q) p cs scan
      in Some \<lparr> lm_pools = map (\<lambda>p. p\<lparr> po_swept := (hunt p \<noteq> None) \<rparr>) pools,
                lm_hunts = List.map_filter hunt pools, lm_swings = swings \<rparr>)"

section \<open>What a hunt says\<close>

lemma nearest_of_least:
  "nearest_of price ps = Some q \<Longrightarrow> q \<in> set ps \<and> (\<forall>p \<in> set ps. \<bar>po_level q - price\<bar> \<le> \<bar>po_level p - price\<bar>)"
proof (induction ps arbitrary: q)
  case (Cons p ps)
  show ?case
  proof (cases "nearest_of price ps")
    case None
    with Cons.prems show ?thesis by (cases ps) (auto split: option.splits if_splits)
  next
    case (Some r)
    with Cons.IH [OF Some] Cons.prems show ?thesis by (auto split: if_splits)
  qed
qed simp

lemma nearest_pool_sound:
  assumes "nearest_pool price kind m = Some q"
  shows "q \<in> set (lm_pools m)" "po_kind q = kind" "\<not> po_swept q" "kind = LK_High \<Longrightarrow> price < po_level q"
    "kind = LK_Low \<Longrightarrow> po_level q < price"
  using nearest_of_least [of price "pool_candidates price kind m" q] assms
  by (auto simp: nearest_pool_def pool_candidates_def)

lemma hunt_candle_shape:
  assumes "hunt_candle w pool i c = Some h"
  shows "hu_pool h = pool" "hu_index h = i" "hu_rejection h \<Longrightarrow> \<not> hu_continuation h \<and> w \<le> hu_wick_ratio h"
    "po_kind pool = LK_High \<Longrightarrow> po_level pool < cd_high c" "po_kind pool = LK_Low \<Longrightarrow> cd_low c < po_level pool"
  using assms by (auto simp: hunt_candle_def Let_def split: if_splits)

lemma hunt_pool_first:
  "hunt_pool w pool cs is = Some h \<Longrightarrow> \<exists>i \<in> set is. hunt_candle w pool i (cs ! i) = Some h"
  by (induction "is") (auto split: option.splits)

lemma hunt_shape:
  assumes "hunt_pool w pool cs is = Some h"
  shows "hu_pool h = pool" "hu_index h \<in> set is" "hu_rejection h \<Longrightarrow> \<not> hu_continuation h \<and> w \<le> hu_wick_ratio h"
    "po_kind pool = LK_High \<Longrightarrow> po_level pool < cd_high (cs ! hu_index h)"
    "po_kind pool = LK_Low \<Longrightarrow> cd_low (cs ! hu_index h) < po_level pool"
proof -
  obtain i where i: "i \<in> set is" "hunt_candle w pool i (cs ! i) = Some h" using hunt_pool_first [OF assms] by blast
  note s = hunt_candle_shape [OF i(2)]
  show "hu_pool h = pool" "hu_index h \<in> set is" "hu_rejection h \<Longrightarrow> \<not> hu_continuation h \<and> w \<le> hu_wick_ratio h"
    "po_kind pool = LK_High \<Longrightarrow> po_level pool < cd_high (cs ! hu_index h)"
    "po_kind pool = LK_Low \<Longrightarrow> cd_low (cs ! hu_index h) < po_level pool"
    using s i(1) by auto
qed

lemma map_filter_members: "y \<in> set (List.map_filter f xs) \<longleftrightarrow> (\<exists>x \<in> set xs. f x = Some y)"
  by (auto simp: List.map_filter_def image_iff)

lemma scanned: "i \<in> set [length cs - n..<length cs] \<Longrightarrow> cs ! i \<in> set cs"
  by auto

text \<open>
  Every stop hunt concerns a pool that is marked as swept, its candle goes beyond the level of the pool,
  it is never both a rejection and a continuation, and the level is strictly inside the range of the window: the pools at the
  two ends of the range are never hunted.
\<close>

lemma hunts_facts:
  assumes "analyze_liquidity q cs = Some m" "h \<in> set (lm_hunts m)"
  shows "hu_pool h\<lparr> po_swept := True \<rparr> \<in> set (lm_pools m)" "\<not> (hu_rejection h \<and> hu_continuation h)"
    "po_kind (hu_pool h) = LK_High \<Longrightarrow> po_level (hu_pool h) < range_top cs"
    "po_kind (hu_pool h) = LK_Low \<Longrightarrow> range_bottom cs < po_level (hu_pool h)"
    "hu_index h < length cs" "length cs \<le> hu_index h + lr_hunt_scan q"
proof -
  define scan pools where "scan = [length cs - lr_hunt_scan q..<length cs]"
    and "pools = base_pools (lr_equal_tolerance q) (range_top cs) (range_bottom cs) (swing_points cs (lr_swing_left q) (lr_swing_right q))"
  have m: "lm_pools m = map (\<lambda>p. p\<lparr> po_swept := (hunt_pool (lr_rejection_wick q) p cs scan \<noteq> None) \<rparr>) pools"
    "lm_hunts m = List.map_filter (\<lambda>p. hunt_pool (lr_rejection_wick q) p cs scan) pools"
    using assms(1) by (auto simp: analyze_liquidity_def Let_def scan_def pools_def split: if_splits)
  obtain p where p: "p \<in> set pools" "hunt_pool (lr_rejection_wick q) p cs scan = Some h"
    using assms(2) unfolding m map_filter_members by blast
  note h = hunt_shape [OF p(2)]
  have c: "cs ! hu_index h \<in> set cs" using scanned h(2) unfolding scan_def by blast
  show "hu_pool h\<lparr> po_swept := True \<rparr> \<in> set (lm_pools m)" unfolding m h(1) using p by force
  show "\<not> (hu_rejection h \<and> hu_continuation h)" using h(3) by blast
  have "cd_high (cs ! hu_index h) \<le> range_top cs" "range_bottom cs \<le> cd_low (cs ! hu_index h)"
    using c by (auto simp: range_top_def range_bottom_def)
  with h(1,4,5) show "po_kind (hu_pool h) = LK_High \<Longrightarrow> po_level (hu_pool h) < range_top cs"
    "po_kind (hu_pool h) = LK_Low \<Longrightarrow> range_bottom cs < po_level (hu_pool h)" by auto
  show "hu_index h < length cs" "length cs \<le> hu_index h + lr_hunt_scan q"
    using h(2) by (auto simp: scan_def)
qed

definition hunt_ok :: "liquidity_params \<Rightarrow> md_candle list \<Rightarrow> liquidity_map \<Rightarrow> stop_hunt \<Rightarrow> bool" where
  "hunt_ok q cs m h \<longleftrightarrow> hu_pool h\<lparr> po_swept := True \<rparr> \<in> set (lm_pools m) \<and> \<not> (hu_rejection h \<and> hu_continuation h)
     \<and> (case po_kind (hu_pool h) of LK_High \<Rightarrow> po_level (hu_pool h) < range_top cs | LK_Low \<Rightarrow> range_bottom cs < po_level (hu_pool h))
     \<and> hu_index h < length cs \<and> length cs \<le> hu_index h + lr_hunt_scan q"

theorem hunts_sound:
  "case analyze_liquidity q cs of None \<Rightarrow> True | Some m \<Rightarrow> list_all (hunt_ok q cs m) (lm_hunts m)"
proof (cases "analyze_liquidity q cs")
  case (Some m)
  have "hunt_ok q cs m h" if "h \<in> set (lm_hunts m)" for h
    using hunts_facts [OF Some that] unfolding hunt_ok_def by (simp split: level_kind.split)
  then show ?thesis by (simp add: Some list_all_iff)
qed simp

lemma range_end_pools:
  assumes "analyze_liquidity q cs = Some m" "p \<in> set (lm_pools m)"
    "po_kind p = LK_High \<and> po_level p = range_top cs \<or> po_kind p = LK_Low \<and> po_level p = range_bottom cs"
  shows "\<not> po_swept p"
proof
  assume swept: "po_swept p"
  define scan pools where "scan = [length cs - lr_hunt_scan q..<length cs]"
    and "pools = base_pools (lr_equal_tolerance q) (range_top cs) (range_bottom cs) (swing_points cs (lr_swing_left q) (lr_swing_right q))"
  have m: "lm_pools m = map (\<lambda>p. p\<lparr> po_swept := (hunt_pool (lr_rejection_wick q) p cs scan \<noteq> None) \<rparr>) pools"
    "lm_hunts m = List.map_filter (\<lambda>p. hunt_pool (lr_rejection_wick q) p cs scan) pools"
    using assms(1) by (auto simp: analyze_liquidity_def Let_def scan_def pools_def split: if_splits)
  obtain b h where b: "p = b\<lparr> po_swept := True \<rparr>" "hunt_pool (lr_rejection_wick q) b cs scan = Some h" "b \<in> set pools"
    using assms(2) swept unfolding m by auto
  then have "h \<in> set (lm_hunts m)" unfolding m map_filter_members by blast
  note f = hunts_facts [OF assms(1) this]
  show False using f(3,4) assms(3) hunt_shape(1) [OF b(2)] by (auto simp: b(1))
qed

end
