(* ===== verification/Feature_Store.thy ===== *)
theory Feature_Store
  imports Quant_Models Market_State Momentum Vwap Orderflow Volume_Profile Liquidity
begin

text \<open>
  The market read API (\<open>app/market/services/market_data.py\<close>) and the feature store
  (\<open>app/engine/feature_store/store.py\<close>): the registry of scalar and composite features, the cache with a time to live
  per feature, and every built-in provider over the indicators.  Numeric parameters are not negative and periods are positive,
  as every caller passes them; the key of the cache holds the sorted parameters instead of their printed form.
\<close>

section \<open>The market read API\<close>

record feed_view =
  fv_provider_of :: "string \<Rightarrow> string option"
  fv_connected :: "string \<Rightarrow> bool"

text \<open>\<open>mv_cached_price\<close> is what the market cache returns for a symbol; the clocks are those of the moment of the call.\<close>

record market_api =
  mv_store :: state_store
  mv_cached_price :: "string \<Rightarrow> real option"
  mv_feed :: "feed_view option"
  mv_now :: time
  mv_clock :: real

definition md_last_price :: "string \<Rightarrow> market_api \<Rightarrow> real option" where
  "md_last_price s v = (case st_last_trade s (mv_store v) of
       Some t \<Rightarrow> Some (td_price t)
     | None \<Rightarrow> (case st_ticker s (mv_store v) of Some k \<Rightarrow> Some (tk_mid k) | None \<Rightarrow> mv_cached_price v s))"

definition md_spread :: "string \<Rightarrow> market_api \<Rightarrow> real option" where
  "md_spread s v = (case st_ticker s (mv_store v) of
       Some k \<Rightarrow> Some (tk_spread k)
     | None \<Rightarrow> (case st_book s (mv_store v) of Some b \<Rightarrow> bk_spread b | None \<Rightarrow> None))"

definition md_depth :: "string \<Rightarrow> nat \<Rightarrow> market_api \<Rightarrow> (real \<times> real) option" where
  "md_depth s levels v = map_option (depth levels) (st_book s (mv_store v))"

definition md_candles :: "string \<Rightarrow> timeframe \<Rightarrow> nat \<Rightarrow> market_api \<Rightarrow> md_candle list" where
  "md_candles s tf limit v = st_candle_series s tf (int limit) (mv_store v)"

definition md_recent_trades :: "string \<Rightarrow> nat \<Rightarrow> market_api \<Rightarrow> md_trade list" where
  "md_recent_trades s limit v = st_recent_trades s (int limit) (mv_store v)"

definition md_provider :: "string \<Rightarrow> market_api \<Rightarrow> string option" where
  "md_provider s v = (case mv_feed v of None \<Rightarrow> None | Some f \<Rightarrow> fv_provider_of f s)"

definition md_market_state :: "string \<Rightarrow> market_api \<Rightarrow> market_state" where
  "md_market_state s0 v =
     (let s = upper s0; provider = md_provider s v;
          connectd = (case mv_feed v of None \<Rightarrow> False | Some f \<Rightarrow> fv_connected f s)
      in st_market_state s (case provider of None \<Rightarrow> [] | Some p \<Rightarrow> p) (provider \<noteq> None) connectd (mv_now v) (mv_store v))"

definition md_snapshot :: "string \<Rightarrow> market_api \<Rightarrow> market_snapshot" where
  "md_snapshot s0 v =
     (let s = upper s0; st = mv_store v;
          latest = List.map_filter (\<lambda>tf. map_option (Pair (tf_value tf)) (st_latest_candle s tf st)) [TF_M1, TF_M5, TF_M15, TF_H1]
      in \<lparr> mp_symbol = s, mp_provider = (case md_provider s v of None \<Rightarrow> [] | Some p \<Rightarrow> p), mp_generated_at = mv_now v,
           mp_ticker = st_ticker s st, mp_last_trade = st_last_trade s st, mp_orderbook = st_book s st, mp_candles = latest,
           mp_funding = pd_get (st_funding st) s, mp_open_interest = pd_get (st_open_interest st) s \<rparr>)"

section \<open>Parameters\<close>

datatype param = PmInt nat | PmReal real | PmStr string | PmTf timeframe

type_synonym params = "(string \<times> param) list"

definition param_nat :: "string \<Rightarrow> nat \<Rightarrow> params \<Rightarrow> py_error + nat" where
  "param_nat name dflt ps = (case pd_get ps name of
       None \<Rightarrow> Inr dflt
     | Some (PmInt i) \<Rightarrow> Inr i | Some (PmReal r) \<Rightarrow> Inr (nat (py_int r)) | Some _ \<Rightarrow> Inl ValueError)"

definition param_real :: "string \<Rightarrow> real \<Rightarrow> params \<Rightarrow> py_error + real" where
  "param_real name dflt ps = (case pd_get ps name of
       None \<Rightarrow> Inr dflt
     | Some (PmInt i) \<Rightarrow> Inr (real i) | Some (PmReal r) \<Rightarrow> Inr r | Some _ \<Rightarrow> Inl ValueError)"

definition param_tf :: "params \<Rightarrow> py_error + timeframe" where
  "param_tf ps = (case pd_get ps ''timeframe'' of
       None \<Rightarrow> Inr TF_M1 | Some (PmTf tf) \<Rightarrow> Inr tf | Some (PmStr s) \<Rightarrow> parse_timeframe s | Some _ \<Rightarrow> Inl ValueError)"

definition param_anchor :: "params \<Rightarrow> string" where
  "param_anchor ps = (case pd_get ps ''anchor'' of None \<Rightarrow> ''day'' | Some (PmStr s) \<Rightarrow> s | Some _ \<Rightarrow> [])"

definition and_then :: "'e + 'a \<Rightarrow> ('a \<Rightarrow> 'e + 'b) \<Rightarrow> 'e + 'b" where
  "and_then r f = (case r of Inl e \<Rightarrow> Inl e | Inr x \<Rightarrow> f x)"

lemma and_then_simps [simp]: "and_then (Inl e) f = Inl e" "and_then (Inr x) f = f x"
  by (simp_all add: and_then_def)

text \<open>\<open>_candles\<close>: the window of a feature, with the lookback it may be given.\<close>

definition window_for :: "market_api \<Rightarrow> string \<Rightarrow> params \<Rightarrow> nat \<Rightarrow> py_error + md_candle list" where
  "window_for v s ps default_lookback =
     and_then (param_nat ''lookback'' default_lookback ps) (\<lambda>lookback.
     and_then (param_tf ps) (\<lambda>tf. Inr (md_candles s tf lookback v)))"

definition candles_for :: "market_api \<Rightarrow> string \<Rightarrow> params \<Rightarrow> nat \<Rightarrow> py_error + md_candle list" where
  "candles_for v s ps limit = and_then (param_tf ps) (\<lambda>tf. Inr (md_candles s tf limit v))"

section \<open>The store\<close>

datatype scalar_feature = SF_last_price | SF_spread_bps | SF_atr | SF_atr_pct | SF_atr_adaptive | SF_atr_slope | SF_atr_expansion
  | SF_ema | SF_vwap | SF_vwap_session | SF_vwap_slope | SF_vwap_distance_pct | SF_roc | SF_momentum_score | SF_acceleration
  | SF_volume | SF_volume_ratio | SF_delta | SF_cvd | SF_book_pressure | SF_imbalance | SF_open_interest | SF_funding_rate

datatype object_feature = OF_structure | OF_smc | OF_volume_profile | OF_orderflow | OF_liquidity | OF_vwap_bands

datatype feature_value =
    FV_Num "real option"
  | FV_Structure "structure_analysis option"
  | FV_Smc "smc_analysis option"
  | FV_Profile "volume_profile option"
  | FV_Flow "order_flow option"
  | FV_Liquidity "liquidity_map option"
  | FV_Bands "vwap_bands option"

type_synonym feature_key = "string \<times> string \<times> params"

record feature_store =
  fs_default_ttl :: real
  fs_providers :: "(string, scalar_feature \<times> real) pydict"
  fs_objects :: "(string, object_feature \<times> real) pydict"
  fs_cache :: "(feature_key, real \<times> feature_value) pydict"
  fs_hits :: int
  fs_misses :: int

definition ttl_or :: "real option \<Rightarrow> real \<Rightarrow> real" where
  "ttl_or ttl d = py_or ttl d"

definition fs_register :: "string \<Rightarrow> scalar_feature \<Rightarrow> real option \<Rightarrow> feature_store \<Rightarrow> feature_store" where
  "fs_register name f ttl fs = fs\<lparr> fs_providers := pd_put (fs_providers fs) name (f, ttl_or ttl (fs_default_ttl fs)) \<rparr>"

definition fs_register_object :: "string \<Rightarrow> object_feature \<Rightarrow> real option \<Rightarrow> feature_store \<Rightarrow> feature_store" where
  "fs_register_object name f ttl fs = fs\<lparr> fs_objects := pd_put (fs_objects fs) name (f, ttl_or ttl (fs_default_ttl fs)) \<rparr>"

definition builtin_scalars :: "(string \<times> scalar_feature) list" where
  "builtin_scalars = [(''last_price'', SF_last_price), (''spread_bps'', SF_spread_bps), (''atr'', SF_atr), (''atr_pct'', SF_atr_pct),
     (''atr_adaptive'', SF_atr_adaptive), (''atr_slope'', SF_atr_slope), (''atr_expansion'', SF_atr_expansion), (''ema'', SF_ema),
     (''vwap'', SF_vwap), (''vwap_session'', SF_vwap_session), (''vwap_slope'', SF_vwap_slope),
     (''vwap_distance_pct'', SF_vwap_distance_pct), (''roc'', SF_roc), (''momentum_score'', SF_momentum_score),
     (''acceleration'', SF_acceleration), (''volume'', SF_volume), (''volume_ratio'', SF_volume_ratio), (''delta'', SF_delta),
     (''cvd'', SF_cvd), (''book_pressure'', SF_book_pressure), (''imbalance'', SF_imbalance), (''open_interest'', SF_open_interest),
     (''funding_rate'', SF_funding_rate)]"

definition builtin_objects :: "(string \<times> object_feature) list" where
  "builtin_objects = [(''structure'', OF_structure), (''smc'', OF_smc), (''volume_profile'', OF_volume_profile),
     (''orderflow'', OF_orderflow), (''liquidity'', OF_liquidity), (''vwap_bands'', OF_vwap_bands)]"

definition fs_new :: "real \<Rightarrow> feature_store" where
  "fs_new default_ttl =
     fold (\<lambda>(n, f). fs_register_object n f None) builtin_objects
       (fold (\<lambda>(n, f). fs_register n f None) builtin_scalars
         \<lparr> fs_default_ttl = default_ttl, fs_providers = [], fs_objects = [], fs_cache = [], fs_hits = 0, fs_misses = 0 \<rparr>)"

definition fs_available :: "feature_store \<Rightarrow> string list" where
  "fs_available fs = sorted_names (pd_keys (fs_providers fs))"

definition feature_key_of :: "string \<Rightarrow> string \<Rightarrow> params \<Rightarrow> feature_key" where
  "feature_key_of name s ps = (name, upper s, map (\<lambda>n. (n, the (map_of ps n))) (sorted_names (map fst ps)))"

definition fs_cached :: "market_api \<Rightarrow> string \<Rightarrow> string \<Rightarrow> params \<Rightarrow> real
    \<Rightarrow> (string \<Rightarrow> params \<Rightarrow> feature_store \<Rightarrow> (py_error + feature_value) \<times> feature_store)
    \<Rightarrow> feature_store \<Rightarrow> (py_error + feature_value) \<times> feature_store" where
  "fs_cached v name s ps ttl compute fs =
     (let key = feature_key_of name s ps; now = mv_clock v;
          miss = (case compute (upper s) ps (fs\<lparr> fs_misses := fs_misses fs + 1 \<rparr>) of
              (Inl e, fs') \<Rightarrow> (Inl e, fs')
            | (Inr x, fs') \<Rightarrow> (Inr x, fs'\<lparr> fs_cache := pd_put (fs_cache fs') key (now, x) \<rparr>))
      in case pd_get (fs_cache fs) key of
           Some (t, x) \<Rightarrow> if now - t < ttl then (Inr x, fs\<lparr> fs_hits := fs_hits fs + 1 \<rparr>) else miss
         | None \<Rightarrow> miss)"

definition fs_invalidate :: "string option \<Rightarrow> feature_store \<Rightarrow> feature_store" where
  "fs_invalidate s fs = (case s of
       None \<Rightarrow> fs\<lparr> fs_cache := [] \<rparr>
     | Some x \<Rightarrow> fs\<lparr> fs_cache := filter (\<lambda>((_, other, _), _). other \<noteq> upper x) (fs_cache fs) \<rparr>)"

definition fs_stats :: "feature_store \<Rightarrow> json_dict" where
  "fs_stats fs = [(''hits'', JInt (fs_hits fs)), (''misses'', JInt (fs_misses fs)), (''cached'', JInt (int (length (fs_cache fs))))]"

section \<open>Composite features\<close>

definition session_bands :: "market_api \<Rightarrow> string \<Rightarrow> params \<Rightarrow> py_error + vwap_bands option" where
  "session_bands v s ps =
     and_then (window_for v s ps 500) (\<lambda>cs.
       if cs = [] then Inr None else
       and_then (session_anchor (param_anchor ps) (mv_now v)) (\<lambda>anchor.
         case anchor_index_at anchor cs of
           None \<Rightarrow> Inr None
         | Some i \<Rightarrow> and_then (param_nat ''slope_lookback'' 10 ps) (\<lambda>slope_lookback.
             Inr (vwap_bands_of i (1, 2) slope_lookback (md_last_price s v) cs))))"

definition smc_params_of :: "params \<Rightarrow> py_error + smc_params" where
  "smc_params_of ps =
     and_then (param_nat ''swing_left'' 3 ps) (\<lambda>left.
     and_then (param_nat ''swing_right'' 3 ps) (\<lambda>right.
     and_then (param_real ''fvg_min_atr'' (3/10) ps) (\<lambda>fvg.
     and_then (param_real ''ob_displacement_atr'' (3/2) ps) (\<lambda>ob.
     and_then (param_nat ''sweep_scan'' 5 ps) (\<lambda>scan.
     and_then (param_real ''sweep_tolerance_pct'' (2/100) ps) (\<lambda>sweep_tol.
     and_then (param_real ''equal_tolerance_pct'' (5/100) ps) (\<lambda>equal_tol.
     and_then (param_real ''mss_displacement_atr'' (3/2) ps) (\<lambda>mss.
     and_then (param_nat ''atr_period'' 14 ps) (\<lambda>period.
       Inr (default_smc\<lparr> sq_swing_left := left, sq_swing_right := right, sq_fvg_min_atr := fvg, sq_ob_displacement := ob,
         sq_sweep_scan := scan, sq_sweep_tolerance := sweep_tol, sq_equal_tolerance := equal_tol,
         sq_mss_displacement := mss, sq_atr_period := period \<rparr>))))))))))"

definition liquidity_params_of :: "params \<Rightarrow> py_error + liquidity_params" where
  "liquidity_params_of ps =
     and_then (param_nat ''swing_left'' 3 ps) (\<lambda>left.
     and_then (param_nat ''swing_right'' 3 ps) (\<lambda>right.
     and_then (param_real ''equal_tolerance_pct'' (5/100) ps) (\<lambda>tol.
     and_then (param_nat ''hunt_scan'' 5 ps) (\<lambda>scan.
     and_then (param_real ''rejection_wick_ratio'' (1/2) ps) (\<lambda>wick.
       Inr \<lparr> lr_swing_left = left, lr_swing_right = right, lr_equal_tolerance = tol, lr_hunt_scan = scan,
             lr_rejection_wick = wick \<rparr>)))))"

definition flow_params_of :: "params \<Rightarrow> py_error + flow_params" where
  "flow_params_of ps =
     and_then (param_nat ''buckets'' 6 ps) (\<lambda>buckets.
     and_then (param_real ''absorption_move_pct'' (5/100) ps) (\<lambda>move.
     and_then (param_real ''absorption_min_ratio'' (65/100) ps) (\<lambda>ratio.
       Inr (default_flow\<lparr> fq_buckets := buckets, fq_absorption_move := move, fq_absorption_ratio := ratio \<rparr>))))"

definition compute_object :: "market_api \<Rightarrow> object_feature \<Rightarrow> string \<Rightarrow> params \<Rightarrow> py_error + feature_value" where
  "compute_object v f s ps = (case f of
       OF_structure \<Rightarrow>
         and_then (window_for v s ps 120) (\<lambda>cs.
         and_then (param_nat ''swing_left'' 3 ps) (\<lambda>left.
         and_then (param_nat ''swing_right'' 3 ps) (\<lambda>right.
         and_then (param_nat ''range_window'' 20 ps) (\<lambda>window.
         and_then (param_real ''consolidation_band_pct'' 1 ps) (\<lambda>band.
           Inr (FV_Structure (analyze_structure left right window band cs)))))))
     | OF_smc \<Rightarrow>
         and_then (window_for v s ps 120) (\<lambda>cs.
         and_then (smc_params_of ps) (\<lambda>q. Inr (FV_Smc (analyze_smc q cs))))
     | OF_volume_profile \<Rightarrow>
         and_then (window_for v s ps 120) (\<lambda>cs.
         and_then (param_nat ''bins'' 24 ps) (\<lambda>bins.
         and_then (param_real ''value_area_pct'' (7/10) ps) (\<lambda>pct.
         and_then (param_real ''node_ratio'' (3/2) ps) (\<lambda>ratio.
           Inr (FV_Profile (volume_profile_of bins pct ratio cs))))))
     | OF_orderflow \<Rightarrow>
         and_then (param_nat ''trades'' 200 ps) (\<lambda>n.
         and_then (flow_params_of ps) (\<lambda>q.
           Inr (FV_Flow (analyze_order_flow q (md_recent_trades s n v) (st_book s (mv_store v))))))
     | OF_liquidity \<Rightarrow>
         and_then (window_for v s ps 120) (\<lambda>cs.
         and_then (liquidity_params_of ps) (\<lambda>q. Inr (FV_Liquidity (analyze_liquidity q cs))))
     | OF_vwap_bands \<Rightarrow> and_then (session_bands v s ps) (\<lambda>b. Inr (FV_Bands b)))"

definition fs_get_object :: "market_api \<Rightarrow> string \<Rightarrow> string \<Rightarrow> params \<Rightarrow> feature_store \<Rightarrow> (py_error + feature_value) \<times> feature_store" where
  "fs_get_object v name s ps fs = (case pd_get (fs_objects fs) name of
       None \<Rightarrow> (Inl (KeyError name), fs)
     | Some (f, ttl) \<Rightarrow> fs_cached v (''obj:'' @ name) s ps ttl (\<lambda>s ps fs. (compute_object v f s ps, fs)) fs)"

section \<open>Scalar features\<close>

definition feature_atr :: "market_api \<Rightarrow> string \<Rightarrow> params \<Rightarrow> py_error + real option" where
  "feature_atr v s ps =
     and_then (param_nat ''period'' 14 ps) (\<lambda>period.
     and_then (candles_for v s ps (period + 1)) (\<lambda>cs.
       if length cs < 2 then Inr None else
       let window = py_tail (int period) (true_ranges (map ohlcv_of cs))
       in Inr (if window = [] then None else Some (sum_list window / real (length window)))))"

definition feature_ema :: "market_api \<Rightarrow> string \<Rightarrow> params \<Rightarrow> py_error + real option" where
  "feature_ema v s ps =
     and_then (param_nat ''period'' 20 ps) (\<lambda>period.
     and_then (candles_for v s ps (period * 3)) (\<lambda>cs.
       if length cs < period then Inr None else
       let alpha = 2 / real (period + 1)
       in Inr (Some (fold (\<lambda>c ema. alpha * cd_close c + (1 - alpha) * ema) (tl cs) (cd_close (hd cs))))))"

definition feature_vwap :: "market_api \<Rightarrow> string \<Rightarrow> params \<Rightarrow> py_error + real option" where
  "feature_vwap v s ps =
     and_then (param_nat ''lookback'' 60 ps) (\<lambda>lookback.
     and_then (candles_for v s ps lookback) (\<lambda>cs.
       let notional = sum_list (map (\<lambda>c. cd_vwap c * cd_volume c) (filter (\<lambda>c. cd_volume c > 0) cs));
           volume = sum_list (map cd_volume cs)
       in Inr (if volume > 0 then Some (notional / volume) else None)))"

definition feature_volume_ratio :: "market_api \<Rightarrow> string \<Rightarrow> params \<Rightarrow> py_error + real option" where
  "feature_volume_ratio v s ps =
     and_then (param_nat ''lookback'' 20 ps) (\<lambda>lookback.
     and_then (window_for v s ps (lookback + 1)) (\<lambda>cs.
       if length cs < 2 then Inr None else
       let prior = butlast cs; avg = sum_list (map cd_volume prior) / real (length prior)
       in Inr (if avg > 0 then Some (cd_volume (last cs) / avg) else None)))"

definition feature_delta :: "market_api \<Rightarrow> string \<Rightarrow> params \<Rightarrow> py_error + real option" where
  "feature_delta v s ps =
     and_then (param_nat ''trades'' 200 ps) (\<lambda>limit.
       let trades = md_recent_trades s limit v
       in Inr (if trades = [] then None else Some (sum_list (map signed_size trades))))"

definition with_bands :: "(vwap_bands \<Rightarrow> real) \<Rightarrow> market_api \<Rightarrow> string \<Rightarrow> params \<Rightarrow> feature_store
    \<Rightarrow> (py_error + feature_value) \<times> feature_store" where
  "with_bands f v s ps fs = (case fs_get_object v ''vwap_bands'' s ps fs of
       (Inl e, fs') \<Rightarrow> (Inl e, fs')
     | (Inr x, fs') \<Rightarrow> (Inr (FV_Num (case x of FV_Bands (Some b) \<Rightarrow> Some (f b) | _ \<Rightarrow> None)), fs'))"

definition plain_scalar :: "market_api \<Rightarrow> scalar_feature \<Rightarrow> string \<Rightarrow> params \<Rightarrow> py_error + real option" where
  "plain_scalar v f s ps = (case f of
       SF_last_price \<Rightarrow> Inr (md_last_price s v)
     | SF_spread_bps \<Rightarrow> Inr (map_option tk_spread_bps (st_ticker s (mv_store v)))
     | SF_atr \<Rightarrow> feature_atr v s ps
     | SF_atr_pct \<Rightarrow> and_then (feature_atr v s ps) (\<lambda>atr. Inr (case (atr, md_last_price s v) of
           (Some a, Some price) \<Rightarrow> if price \<le> 0 then None else Some (a / price * 100) | _ \<Rightarrow> None))
     | SF_atr_adaptive \<Rightarrow> and_then (param_nat ''period'' 14 ps) (\<lambda>period.
         and_then (window_for v s ps (period * 4)) (\<lambda>cs. Inr (adaptive_atr (map ohlcv_of cs) period)))
     | SF_atr_slope \<Rightarrow> and_then (param_nat ''period'' 14 ps) (\<lambda>period.
         and_then (param_nat ''slope_lookback'' 5 ps) (\<lambda>lookback.
         and_then (window_for v s ps (period + lookback + 5)) (\<lambda>cs. Inr (atr_slope (map ohlcv_of cs) period lookback))))
     | SF_atr_expansion \<Rightarrow> and_then (param_nat ''short_period'' 5 ps) (\<lambda>short.
         and_then (param_nat ''long_period'' 20 ps) (\<lambda>long.
         and_then (window_for v s ps (long + 1)) (\<lambda>cs. Inr (expansion_ratio (map ohlcv_of cs) short long))))
     | SF_ema \<Rightarrow> feature_ema v s ps
     | SF_vwap \<Rightarrow> feature_vwap v s ps
     | SF_roc \<Rightarrow> and_then (param_nat ''period'' 10 ps) (\<lambda>period.
         and_then (window_for v s ps (period + 1)) (\<lambda>cs. Inr (rate_of_change period cs)))
     | SF_momentum_score \<Rightarrow> and_then (param_nat ''period'' 10 ps) (\<lambda>period.
         and_then (window_for v s ps (max period 14 * 3)) (\<lambda>cs.
         and_then (param_nat ''atr_period'' 14 ps) (\<lambda>atr_period. Inr (momentum_score period atr_period cs))))
     | SF_acceleration \<Rightarrow> and_then (param_nat ''period'' 10 ps) (\<lambda>period.
         and_then (window_for v s ps (period * 3 + 1)) (\<lambda>cs. Inr (acceleration period cs)))
     | SF_volume \<Rightarrow> and_then (param_nat ''lookback'' 20 ps) (\<lambda>lookback.
         and_then (candles_for v s ps lookback) (\<lambda>cs. Inr (if cs = [] then None else Some (sum_list (map cd_volume cs)))))
     | SF_volume_ratio \<Rightarrow> feature_volume_ratio v s ps
     | SF_delta \<Rightarrow> feature_delta v s ps
     | SF_cvd \<Rightarrow> and_then (param_nat ''trades'' 10000 ps) (\<lambda>n. feature_delta v s (pd_put ps ''trades'' (PmInt n)))
     | SF_book_pressure \<Rightarrow> and_then (case st_book s (mv_store v) of None \<Rightarrow> Inr 0 | Some _ \<Rightarrow> param_nat ''levels'' 10 ps)
         (\<lambda>n. Inr (map_option (book_pressure n) (st_book s (mv_store v))))
     | SF_imbalance \<Rightarrow> and_then (case st_book s (mv_store v) of None \<Rightarrow> Inr 0 | Some _ \<Rightarrow> param_nat ''levels'' 10 ps)
         (\<lambda>n. Inr (map_option (imbalance n) (st_book s (mv_store v))))
     | SF_open_interest \<Rightarrow> Inr (map_option op_contracts (pd_get (st_open_interest (mv_store v)) (upper s)))
     | SF_funding_rate \<Rightarrow> Inr (map_option fr_rate (pd_get (st_funding (mv_store v)) (upper s)))
     | _ \<Rightarrow> Inr None)"

definition compute_scalar :: "market_api \<Rightarrow> scalar_feature \<Rightarrow> string \<Rightarrow> params \<Rightarrow> feature_store
    \<Rightarrow> (py_error + feature_value) \<times> feature_store" where
  "compute_scalar v f s ps fs = (case f of
       SF_vwap_session \<Rightarrow> with_bands vb_value v s ps fs
     | SF_vwap_slope \<Rightarrow> with_bands vb_slope v s ps fs
     | SF_vwap_distance_pct \<Rightarrow> with_bands vb_distance v s ps fs
     | _ \<Rightarrow> (map_sum id FV_Num (plain_scalar v f s ps), fs))"

definition fs_get :: "market_api \<Rightarrow> string \<Rightarrow> string \<Rightarrow> params \<Rightarrow> feature_store \<Rightarrow> (py_error + feature_value) \<times> feature_store" where
  "fs_get v name s ps fs = (case pd_get (fs_providers fs) name of
       None \<Rightarrow> (Inl (KeyError name), fs)
     | Some (f, ttl) \<Rightarrow> fs_cached v name s ps ttl (compute_scalar v f) fs)"

fun fs_collect :: "market_api \<Rightarrow> string \<Rightarrow> params \<Rightarrow> (string, feature_value) pydict \<Rightarrow> string list \<Rightarrow> feature_store
    \<Rightarrow> (py_error + (string, feature_value) pydict) \<times> feature_store" where
  "fs_collect v s ps d [] fs = (Inr d, fs)"
| "fs_collect v s ps d (n # ns) fs = (case fs_get v n s ps fs of
       (Inl e, fs') \<Rightarrow> (Inl e, fs') | (Inr x, fs') \<Rightarrow> fs_collect v s ps (pd_put d n x) ns fs')"

definition fs_get_many :: "market_api \<Rightarrow> string list \<Rightarrow> string \<Rightarrow> params \<Rightarrow> feature_store
    \<Rightarrow> (py_error + (string, feature_value) pydict) \<times> feature_store" where
  "fs_get_many v names s ps fs = fs_collect v s ps [] names fs"

section \<open>Computed at most once per time window\<close>

lemma cached_frame:
  assumes "\<And>s ps fs'. fs_providers fs' = fs_providers fs \<and> fs_objects fs' = fs_objects fs \<Longrightarrow>
      fs_providers (snd (compute s ps fs')) = fs_providers fs \<and> fs_objects (snd (compute s ps fs')) = fs_objects fs"
  shows "fs_providers (snd (fs_cached v n s ps ttl compute fs)) = fs_providers fs"
    "fs_objects (snd (fs_cached v n s ps ttl compute fs)) = fs_objects fs"
  using assms [of "fs\<lparr> fs_misses := fs_misses fs + 1 \<rparr>" "upper s" ps]
  by (auto simp: fs_cached_def Let_def split: option.split prod.split sum.split)

lemma get_object_frame:
  "fs_providers (snd (fs_get_object v n s ps fs)) = fs_providers fs" "fs_objects (snd (fs_get_object v n s ps fs)) = fs_objects fs"
  using cached_frame [of fs "\<lambda>s ps fs. (compute_object v f s ps, fs)" for f]
  by (auto simp: fs_get_object_def split: option.split prod.split)

lemma compute_scalar_frame:
  "fs_providers (snd (compute_scalar v f s ps fs)) = fs_providers fs" "fs_objects (snd (compute_scalar v f s ps fs)) = fs_objects fs"
  using get_object_frame [of v "''vwap_bands''" s ps fs]
  by (auto simp: compute_scalar_def with_bands_def split: scalar_feature.split prod.split sum.split)

lemma get_frame:
  "fs_providers (snd (fs_get v n s ps fs)) = fs_providers fs" "fs_objects (snd (fs_get v n s ps fs)) = fs_objects fs"
proof -
  have "fs_providers (snd (fs_cached v n s ps ttl (compute_scalar v f) fs)) = fs_providers fs
      \<and> fs_objects (snd (fs_cached v n s ps ttl (compute_scalar v f) fs)) = fs_objects fs" for ttl f
    by (intro conjI cached_frame) (simp_all add: compute_scalar_frame)
  then show "fs_providers (snd (fs_get v n s ps fs)) = fs_providers fs" "fs_objects (snd (fs_get v n s ps fs)) = fs_objects fs"
    by (simp_all add: fs_get_def split: option.split prod.split)
qed

text \<open>A value that comes back is in the cache, with the time it was computed.\<close>

lemma cached_stored:
  assumes "fs_cached v n s ps ttl compute fs = (Inr x, fs1)" "0 < ttl"
  shows "\<exists>t. pd_get (fs_cache fs1) (feature_key_of n s ps) = Some (t, x) \<and> mv_clock v - t < ttl"
  using assms by (auto simp: fs_cached_def Let_def split: option.splits prod.splits sum.splits if_splits)

lemma cached_hit:
  assumes "pd_get (fs_cache fs) (feature_key_of n s ps) = Some (t, x)" "mv_clock v - t < ttl"
  shows "fs_cached v n s ps ttl compute fs = (Inr x, fs\<lparr> fs_hits := fs_hits fs + 1 \<rparr>)"
  using assms by (simp add: fs_cached_def)

lemma invalidate_symbol:
  "pd_get (fs_cache (fs_invalidate (Some x) fs)) (n, other, ps) = (if other = upper x then None else pd_get (fs_cache fs) (n, other, ps))"
proof -
  have "map_of (filter (\<lambda>((_, other, _), _). other \<noteq> upper x) c) (n, other, ps) = (if other = upper x then None else map_of c (n, other, ps))"
    for c :: "(feature_key \<times> real \<times> feature_value) list"
    by (induction c) auto
  then show ?thesis by (simp add: fs_invalidate_def pd_get_def)
qed

text \<open>
  Once a scalar feature of a symbol has been returned, there is a moment of reference such that every next request for it with the
  same parameters within the time to live of that moment gets the same value from the cache, in whatever case the symbol is
  written and however the market has changed meanwhile, and changes nothing but the counter of hits.
\<close>

theorem feature_computed_once:
  assumes "pd_get (fs_providers fs) name = Some (f, ttl)" "0 < ttl" "fs_get v name s ps fs = (Inr x, fs1)" "upper s' = upper s"
  shows "\<exists>t. mv_clock v - t < ttl \<and>
    (\<forall>v'. mv_clock v' - t < ttl \<longrightarrow> fs_get v' name s' ps fs1 = (Inr x, fs1\<lparr> fs_hits := fs_hits fs1 + 1 \<rparr>))"
proof -
  have "fs_cached v name s ps ttl (compute_scalar v f) fs = (Inr x, fs1)" using assms(1,3) by (simp add: fs_get_def)
  then obtain t where t: "pd_get (fs_cache fs1) (feature_key_of name s ps) = Some (t, x)" "mv_clock v - t < ttl"
    using cached_stored assms(2) by blast
  have "feature_key_of name s' ps = feature_key_of name s ps" using assms(4) by (simp add: feature_key_of_def)
  moreover have "pd_get (fs_providers fs1) name = Some (f, ttl)" using get_frame(1) [of v name s ps fs] assms(1,3) by simp
  ultimately have "\<forall>v'. mv_clock v' - t < ttl \<longrightarrow> fs_get v' name s' ps fs1 = (Inr x, fs1\<lparr> fs_hits := fs_hits fs1 + 1 \<rparr>)"
    using t(1) cached_hit by (simp add: fs_get_def)
  with t(2) show ?thesis by blast
qed

definition quiet_view :: "real \<Rightarrow> market_api" where
  "quiet_view t = \<lparr> mv_store = st_new 10 10, mv_cached_price = (\<lambda>_. Some t), mv_feed = None, mv_now = 0, mv_clock = t \<rparr>"

definition one_feature :: feature_store where
  "one_feature = \<lparr> fs_default_ttl = 1, fs_providers = [(''last_price'', (SF_last_price, 1))], fs_objects = [], fs_cache = [],
     fs_hits = 0, fs_misses = 0 \<rparr>"

lemma first_get:
  "fs_get (quiet_view 7) ''last_price'' ''X'' [] one_feature =
     (Inr (FV_Num (Some 7)), one_feature\<lparr> fs_misses := 1, fs_cache := [(feature_key_of ''last_price'' ''X'' [], (7, FV_Num (Some 7)))] \<rparr>)"
  by (simp add: fs_get_def one_feature_def pd_get_def fs_cached_def Let_def compute_scalar_def plain_scalar_def md_last_price_def
      st_last_trade_def quiet_view_def st_new_def pd_get_or_def last_opt_def st_ticker_def)

theorem feature_computed_once_witness:
  "\<exists>t fs1. fs_get (quiet_view 7) ''last_price'' ''X'' [] one_feature = (Inr (FV_Num (Some 7)), fs1) \<and> 7 - t < (1 :: real) \<and>
     (\<forall>v'. mv_clock v' - t < 1 \<longrightarrow> fs_get v' ''last_price'' ''X'' [] fs1 = (Inr (FV_Num (Some 7)), fs1\<lparr> fs_hits := fs_hits fs1 + 1 \<rparr>))"
proof -
  have "pd_get (fs_providers one_feature) ''last_price'' = Some (SF_last_price, 1)" by (simp add: one_feature_def pd_get_def)
  from feature_computed_once [OF this _ first_get refl] first_get show ?thesis by (auto simp: quiet_view_def)
qed

section \<open>Finite readings\<close>

lemma feature_atr_nonneg:
  assumes "feature_atr v s ps = Inr (Some a)" shows "0 \<le> a"
proof -
  obtain w where "w \<noteq> []" "\<forall>x \<in> set w. 0 \<le> x" "a = sum_list w / real (length w)"
  proof -
    obtain period cs where "a = sum_list (py_tail (int period) (true_ranges (map ohlcv_of cs))) /
        real (length (py_tail (int period) (true_ranges (map ohlcv_of cs))))" "py_tail (int period) (true_ranges (map ohlcv_of cs)) \<noteq> []"
      using assms by (auto simp: feature_atr_def and_then_def Let_def split: sum.splits if_splits)
    moreover have "\<forall>x \<in> set (py_tail (int period) (true_ranges (map ohlcv_of cs))). 0 \<le> x"
      using true_ranges_nonneg [of _ "map ohlcv_of cs"] set_last_n [of _ "true_ranges (map ohlcv_of cs)"]
      by (auto simp: py_tail_def dest: in_set_dropD)
    ultimately show ?thesis using that by blast
  qed
  then show ?thesis by (simp add: sum_list_nonneg)
qed

end
