(* ===== verification/Regime_Context.thy ===== *)
theory Regime_Context
  imports Feature_Store
begin

text \<open>
  Regime detection (\<open>app/engine/regime_detection/detector.py\<close>) and the market context
  (\<open>app/engine/market_context/engine.py\<close>).  The breakout lookback is at least 1; news windows are given with a UTC offset.
\<close>

section \<open>Regime\<close>

record regime_settings =
  rg_lookback :: nat
  rg_trending_efficiency :: real
  rg_expansion_ratio :: real
  rg_compression_ratio :: real
  rg_breakout_lookback :: nat

definition default_regime_settings :: regime_settings where
  "default_regime_settings = \<lparr> rg_lookback = 50, rg_trending_efficiency = 35/100, rg_expansion_ratio = 14/10,
     rg_compression_ratio = 7/10, rg_breakout_lookback = 20 \<rparr>"

fun path_length :: "real list \<Rightarrow> real" where
  "path_length (a # b # xs) = \<bar>b - a\<bar> + path_length (b # xs)"
| "path_length _ = 0"

definition efficiency_of :: "real list \<Rightarrow> real" where
  "efficiency_of closes = (let net_change = \<bar>last closes - hd closes\<bar>; path = path_length closes
     in if path > 0 then net_change / path else 0)"

definition average :: "real list \<Rightarrow> real" where "average xs = sum_list xs / real (length xs)"

definition bar_ranges :: "md_candle list \<Rightarrow> real list" where "bar_ranges cs = map (\<lambda>c. cd_high c - cd_low c) cs"

definition reversal_of :: "regime_settings \<Rightarrow> real \<Rightarrow> real \<Rightarrow> real list \<Rightarrow> bool" where
  "reversal_of s efficiency atr_long closes =
     (let half = length closes div 2;
          first_leg = closes ! half - hd closes; last_leg = last closes - closes ! half
      in efficiency < rg_trending_efficiency s \<and> \<bar>first_leg\<bar> > atr_long \<and> \<bar>last_leg\<bar> > atr_long * (1/2)
         \<and> (first_leg > 0) \<noteq> (last_leg > 0))"

definition flag :: "bool \<Rightarrow> real" where "flag b = (if b then 1 else 0)"

definition classify :: "regime_settings \<Rightarrow> time \<Rightarrow> string \<Rightarrow> md_candle list \<Rightarrow> regime_state" where
  "classify s now symbol cs =
     (if length cs < 10
      then \<lparr> rs_symbol = symbol, rs_primary = RG_UNKNOWN, rs_tags = [], rs_metrics = [(''candles'', real (length cs))], rs_detected_at = now \<rparr>
      else
      let closes = map cd_close cs;
          efficiency = efficiency_of closes;
          ranges = bar_ranges cs;
          atr_short = average (last_n 5 ranges); atr_long = average ranges;
          vol_ratio = (if atr_long > 0 then atr_short / atr_long else 1);
          lookback = min (rg_breakout_lookback s) (length cs - 1);
          prior = prior_range lookback cs;
          breakout_up = (last closes > range_top prior); breakout_down = (last closes < range_bottom prior);
          tags = (if vol_ratio \<ge> rg_expansion_ratio s then [RG_EXPANSION, RG_HIGH_VOLATILITY]
                  else if vol_ratio \<le> rg_compression_ratio s then [RG_COMPRESSION, RG_LOW_VOLATILITY] else []);
          primary = (if breakout_up \<or> breakout_down then RG_BREAKOUT
                     else if reversal_of s efficiency atr_long closes then RG_REVERSAL
                     else if efficiency \<ge> rg_trending_efficiency s then RG_TRENDING else RG_RANGING)
      in \<lparr> rs_symbol = symbol, rs_primary = primary, rs_tags = tags,
           rs_metrics = [(''efficiency_ratio'', py_round 4 efficiency), (''vol_ratio'', py_round 4 vol_ratio),
             (''atr_short'', py_round 8 atr_short), (''atr_long'', py_round 8 atr_long),
             (''breakout_up'', flag breakout_up), (''breakout_down'', flag breakout_down), (''candles'', real (length cs))],
           rs_detected_at = now \<rparr>)"

record regime_detector =
  rd_settings :: regime_settings
  rd_timeframe :: timeframe
  rd_last :: "(string, regime_state) pydict"

definition rd_last_state :: "string \<Rightarrow> regime_detector \<Rightarrow> regime_state option" where
  "rd_last_state symbol d = pd_get (rd_last d) (upper symbol)"

definition detect_regime :: "market_api \<Rightarrow> string \<Rightarrow> regime_detector \<Rightarrow> regime_state \<times> regime_detector" where
  "detect_regime v symbol0 d =
     (let symbol = upper symbol0;
          state = classify (rd_settings d) (mv_now v) symbol (md_candles symbol (rd_timeframe d) (rg_lookback (rd_settings d)) v)
      in (state, d\<lparr> rd_last := pd_put (rd_last d) symbol state \<rparr>))"

section \<open>Context\<close>

record context_settings =
  xs_timeframe :: timeframe
  xs_session_hours :: "(string, int \<times> int) pydict"
  xs_max_spread_bps :: real
  xs_min_volume :: real
  xs_atr_pct_low :: real
  xs_atr_pct_high :: real
  xs_stale_data_seconds :: real

definition active_sessions :: "context_settings \<Rightarrow> time \<Rightarrow> string list" where
  "active_sessions s moment =
     (let hour = hour_of moment in
      map fst (filter (\<lambda>(name, start, stop). (start \<le> hour \<and> hour < stop) \<or> (start > stop \<and> (hour \<ge> start \<or> hour < stop)))
        (xs_session_hours s)))"

fun replace_z :: "string \<Rightarrow> string" where
  "replace_z [] = []"
| "replace_z (c # cs) = (if c = CHR ''Z'' then ''+00:00'' @ replace_z cs else c # replace_z cs)"

definition parse_blackouts :: "pylib \<Rightarrow> (string \<times> string) list \<Rightarrow> (time \<times> time) list" where
  "parse_blackouts L raw = List.map_filter (\<lambda>(a, b). case (pl_iso L (replace_z a), pl_iso L (replace_z b)) of
       (Some start, Some stop) \<Rightarrow> if start < stop then Some (start, stop) else None | _ \<Rightarrow> None) raw"

definition in_news_blackout :: "(time \<times> time) list \<Rightarrow> time \<Rightarrow> bool" where
  "in_news_blackout blackouts moment = (\<exists>(start, stop) \<in> set blackouts. start \<le> moment \<and> moment \<le> stop)"

definition data_quality :: "context_settings \<Rightarrow> market_state \<Rightarrow> real" where
  "data_quality s state =
     (let quality = (if mk_connected state then 1 else 1 - 1/2) in
      case mk_staleness_seconds state of
        None \<Rightarrow> 0
      | Some staleness \<Rightarrow>
          let quality' = (if staleness > xs_stale_data_seconds s
              then let over = staleness / xs_stale_data_seconds s in quality - min (1/2) ((over - 1) * (25/100)) else quality)
          in max 0 (min 1 quality'))"

record context_engine =
  xe_settings :: context_settings
  xe_blackouts :: "(time \<times> time) list"
  xe_regime :: regime_detector
  xe_features :: feature_store

definition num_of :: "feature_value \<Rightarrow> real option" where
  "num_of x = (case x of FV_Num r \<Rightarrow> r | _ \<Rightarrow> None)"

definition volatility_of :: "context_settings \<Rightarrow> real option \<Rightarrow> volatility_state" where
  "volatility_of s atr_pct = (case atr_pct of
       None \<Rightarrow> VS_NORMAL
     | Some a \<Rightarrow> if a \<ge> xs_atr_pct_high s then VS_HIGH else if a \<le> xs_atr_pct_low s then VS_LOW else VS_NORMAL)"

text \<open>The five features are asked for in order; an error of one of them ends the build.\<close>

fun fetch_all :: "market_api \<Rightarrow> string \<Rightarrow> (string \<times> params) list \<Rightarrow> feature_store
    \<Rightarrow> (py_error + real option list) \<times> feature_store" where
  "fetch_all v s [] fs = (Inr [], fs)"
| "fetch_all v s ((n, ps) # rest) fs = (case fs_get v n s ps fs of
       (Inl e, fs') \<Rightarrow> (Inl e, fs')
     | (Inr x, fs') \<Rightarrow> (case fetch_all v s rest fs' of
          (Inl e, fs'') \<Rightarrow> (Inl e, fs'') | (Inr xs, fs'') \<Rightarrow> (Inr (num_of x # xs), fs'')))"

definition context_features :: "context_settings \<Rightarrow> (string \<times> params) list" where
  "context_features s = (let tf = [(''timeframe'', PmStr (tf_value (xs_timeframe s)))] in
     [(''atr'', tf), (''atr_pct'', tf), (''spread_bps'', []), (''volume'', tf), (''last_price'', [])])"

definition build_context :: "market_api \<Rightarrow> string \<Rightarrow> context_engine \<Rightarrow> (py_error + quant_context) \<times> context_engine" where
  "build_context v symbol0 e =
     (let symbol = upper symbol0; now = mv_now v; s = xe_settings e in
      case fetch_all v symbol (context_features s) (xe_features e) of
        (Inl err, fs) \<Rightarrow> (Inl err, e\<lparr> xe_features := fs \<rparr>)
      | (Inr xs, fs) \<Rightarrow>
          let atr = xs ! 0; atr_pct = xs ! 1; spread_bps = xs ! 2; volume = xs ! 3; last_price = xs ! 4 in
          (case detect_regime v symbol (xe_regime e) of (regime, detector) \<Rightarrow>
             (Inr \<lparr> qc_symbol = symbol, qc_generated_at = now, qc_regime = Some regime, qc_sessions = active_sessions s now,
                qc_volatility = volatility_of s atr_pct, qc_atr = atr, qc_atr_pct = atr_pct, qc_spread_bps = spread_bps,
                qc_spread_elevated = (case spread_bps of None \<Rightarrow> False | Some b \<Rightarrow> b > xs_max_spread_bps s),
                qc_volume_recent = volume,
                qc_volume_sufficient = (case volume of None \<Rightarrow> True | Some x \<Rightarrow> x \<ge> xs_min_volume s),
                qc_news_blackout = in_news_blackout (xe_blackouts e) now,
                qc_data_quality = data_quality s (md_market_state symbol v), qc_last_price = last_price,
                qc_extras = [] \<rparr>,
              e\<lparr> xe_features := fs, xe_regime := detector \<rparr>)))"

section \<open>The regime\<close>

lemma net_le_path: "xs \<noteq> [] \<Longrightarrow> \<bar>last xs - hd xs\<bar> \<le> path_length xs"
  by (induction xs rule: path_length.induct) (auto split: if_splits)

lemma path_nonneg: "0 \<le> path_length xs"
  by (induction xs rule: path_length.induct) auto

lemma efficiency_bounds: "xs \<noteq> [] \<Longrightarrow> 0 \<le> efficiency_of xs \<and> efficiency_of xs \<le> 1"
  using net_le_path [of xs] by (auto simp: efficiency_of_def Let_def)

lemma prior_nonempty: "1 \<le> k \<Longrightarrow> k < length cs \<Longrightarrow> prior_range k cs \<noteq> []"
  by (auto simp: prior_range_def)

lemma classify_unknown: "rs_primary (classify s now y cs) = RG_UNKNOWN \<longleftrightarrow> length cs < 10"
  by (simp add: classify_def Let_def)

lemma classify_breakout:
  assumes "10 \<le> length cs" "1 \<le> rg_breakout_lookback s"
  shows "rs_primary (classify s now y cs) = RG_BREAKOUT \<longleftrightarrow>
     (let prior = prior_range (min (rg_breakout_lookback s) (length cs - 1)) cs in
        (\<forall>c \<in> set prior. cd_high c < cd_close (last cs)) \<or> (\<forall>c \<in> set prior. cd_close (last cs) < cd_low c))"
proof -
  define k where "k = min (rg_breakout_lookback s) (length cs - 1)"
  define prior where "prior = prior_range k cs"
  have "prior \<noteq> []" unfolding prior_def by (rule prior_nonempty) (use assms in \<open>auto simp: k_def\<close>)
  then have ends: "range_top prior < x \<longleftrightarrow> (\<forall>c \<in> set prior. cd_high c < x)" "x < range_bottom prior \<longleftrightarrow> (\<forall>c \<in> set prior. x < cd_low c)" for x
    by (simp_all add: range_top_def range_bottom_def)
  have "cs \<noteq> []" using assms(1) by auto
  then have "last (map cd_close cs) = cd_close (last cs)" by (simp add: last_map)
  then have "rs_primary (classify s now y cs) = RG_BREAKOUT \<longleftrightarrow>
      range_top prior < cd_close (last cs) \<or> cd_close (last cs) < range_bottom prior"
    using assms(1) unfolding classify_def Let_def k_def [symmetric] prior_def [symmetric] by simp
  then show ?thesis unfolding Let_def k_def [symmetric] prior_def [symmetric] by (simp only: ends)
qed

lemma detect_remembers:
  "rd_last_state symbol (snd (detect_regime v symbol d)) = Some (fst (detect_regime v symbol d))"
  by (simp add: detect_regime_def Let_def rd_last_state_def)

section \<open>Sessions, windows and data quality\<close>

text \<open>A session that wraps over midnight is active exactly when the session with its hours exchanged is not.\<close>

lemma wrapped_session:
  assumes "a \<noteq> b" "xs_session_hours s = [(n, a, b)]" "xs_session_hours s' = [(n, b, a)]"
  shows "active_sessions s t = [] \<longleftrightarrow> active_sessions s' t = [n]"
  using assms by (auto simp: active_sessions_def Let_def)

lemma quality_bounds: "0 \<le> data_quality s m \<and> data_quality s m \<le> 1"
  by (auto simp: data_quality_def Let_def split: option.split)

lemma quality_fresh:
  assumes "mk_connected m" "mk_staleness_seconds m = Some x" "x \<le> xs_stale_data_seconds s"
  shows "data_quality s m = 1"
  using assms by (simp add: data_quality_def Let_def)

text \<open>A connected symbol never falls below one half, however stale it is; without a connection it reaches 0 at three times
  the limit.\<close>

lemma quality_connected_floor:
  assumes "mk_connected m" "mk_staleness_seconds m = Some x" shows "1/2 \<le> data_quality s m"
proof -
  have half: "1/2 \<le> max 0 (min 1 (1 - min (1/2) z))" for z :: real by (auto simp: max_def min_def)
  have eq: "data_quality s m = (if x > xs_stale_data_seconds s
      then max 0 (min 1 (1 - min (1/2) ((x / xs_stale_data_seconds s - 1) * (25/100)))) else 1)"
    using assms by (simp add: data_quality_def Let_def)
  show ?thesis
  proof (cases "x > xs_stale_data_seconds s")
    case True
    show ?thesis unfolding eq if_P [OF True] by (rule half)
  next
    case False
    show ?thesis unfolding eq if_not_P [OF False] by simp
  qed
qed

lemma quality_triple:
  assumes "0 < xs_stale_data_seconds s" "mk_staleness_seconds m = Some (3 * xs_stale_data_seconds s)"
  shows "data_quality s m = (if mk_connected m then 1/2 else 0)"
  using assms by (simp add: data_quality_def Let_def)

lemma blackouts_ordered: "(a, b) \<in> set (parse_blackouts L raw) \<Longrightarrow> a < b"
  by (auto simp: parse_blackouts_def List.map_filter_def split: option.splits if_splits)

section \<open>The context\<close>

lemma fetch_length: "fetch_all v s qs fs = (Inr xs, fs') \<Longrightarrow> length xs = length qs"
  by (induction v s qs fs arbitrary: xs fs' rule: fetch_all.induct) (auto split: prod.splits sum.splits)

text \<open>
  A context that is built belongs to the upper-case symbol and the moment of the build, its regime is the
  one the detector now remembers and is unknown exactly when there are fewer than ten candles, the quality is in [0, 1], and the
  spread and volume flags follow from the values shown with them: a missing value never blocks.
\<close>

theorem context_faithful:
  "case build_context v symbol e of
      (Inl _, e') \<Rightarrow> xe_regime e' = xe_regime e
    | (Inr c, e') \<Rightarrow>
        qc_symbol c = upper symbol \<and> qc_generated_at c = mv_now v
        \<and> qc_regime c = rd_last_state (upper symbol) (xe_regime e')
        \<and> (map_option rs_primary (qc_regime c) = Some RG_UNKNOWN) =
            (length (md_candles (upper (upper symbol)) (rd_timeframe (xe_regime e)) (rg_lookback (rd_settings (xe_regime e))) v) < 10)
        \<and> 0 \<le> qc_data_quality c \<and> qc_data_quality c \<le> 1
        \<and> qc_spread_elevated c = (\<exists>b. qc_spread_bps c = Some b \<and> xs_max_spread_bps (xe_settings e) < b)
        \<and> qc_volume_sufficient c = (qc_volume_recent c = None \<or> (\<exists>x. qc_volume_recent c = Some x \<and> xs_min_volume (xe_settings e) \<le> x))
        \<and> xe_settings e' = xe_settings e"
proof -
  obtain r fs where f: "fetch_all v (upper symbol) (context_features (xe_settings e)) (xe_features e) = (r, fs)" by fastforce
  show ?thesis
  proof (cases r)
    case (Inl err)
    with f show ?thesis by (simp add: build_context_def Let_def)
  next
    case (Inr xs)
    obtain regime detector where d: "detect_regime v (upper symbol) (xe_regime e) = (regime, detector)" by fastforce
    have "rd_last_state (upper symbol) detector = Some regime" using detect_remembers [of "upper symbol" v "xe_regime e"] d by simp
    moreover have "rs_primary regime = RG_UNKNOWN \<longleftrightarrow>
        length (md_candles (upper (upper symbol)) (rd_timeframe (xe_regime e)) (rg_lookback (rd_settings (xe_regime e))) v) < 10"
      using d by (auto simp: detect_regime_def Let_def classify_unknown)
    ultimately show ?thesis
      using f Inr d quality_bounds by (auto simp: build_context_def Let_def split: option.split)
  qed
qed

end
