(* ===== verification/Strategy_Base.thy ===== *)
theory Strategy_Base
  imports Regime_Context Data_Validator
begin

text \<open>
  What every strategy shares: the contract of a plugin (\<open>app/engine/interfaces/strategy.py\<close>), the pipeline of
  \<open>app/strategies/base/quant_strategy.py\<close>, the levels, series and pre-checks, the confirmations, and the events a
  strategy leaves for the engine.  An analysis is a state transformer over the feature store and the detections; an
  exception of Python ends it with the error.  Integer parameters given as text are decimal digits.
\<close>

section \<open>Parameters\<close>

datatype sparam = SpNum real | SpBool bool | SpStr string | SpNone | SpNames "string list" | SpWeights "(string, real) pydict"

type_synonym sparams = "(string, sparam) pydict"

text \<open>\<open>{**a, **b}\<close>\<close>

definition pd_merge :: "('k, 'v) pydict \<Rightarrow> ('k, 'v) pydict \<Rightarrow> ('k, 'v) pydict" where
  "pd_merge a b = fold (\<lambda>(k, x) d. pd_put d k x) b a"

definition core_parameters :: sparams where
  "core_parameters = [(''lookback'', SpNum 120), (''min_candles'', SpNum 40), (''atr_period'', SpNum 14),
     (''signal_ttl_seconds'', SpNum 300), (''min_signal_score'', SpNum 55), (''min_data_quality'', SpNum 0),
     (''max_spread_bps'', SpNone), (''confirmations'', SpNames []),
     (''score_weights'', SpWeights [(''quality'', 25/100), (''strength'', 20/100), (''context'', 20/100),
        (''probability'', 20/100), (''risk'', 15/100)]),
     (''confidence_weights'', SpWeights [(''volume'', 15/100), (''volatility'', 15/100), (''liquidity'', 15/100),
        (''regime'', 20/100), (''confirmations'', 25/100), (''data_quality'', 10/100)])]"

definition sp_float :: "pylib \<Rightarrow> sparam \<Rightarrow> py_error + real" where
  "sp_float L x = (case x of
       SpNum r \<Rightarrow> Inr r | SpBool b \<Rightarrow> Inr (if b then 1 else 0)
     | SpStr s \<Rightarrow> (case pl_float L s of None \<Rightarrow> Inl ValueError | Some r \<Rightarrow> Inr r)
     | _ \<Rightarrow> Inl TypeError)"

definition sp_int :: "sparam \<Rightarrow> py_error + int" where
  "sp_int x = (case x of
       SpNum r \<Rightarrow> Inr (py_int r) | SpBool b \<Rightarrow> Inr (if b then 1 else 0)
     | SpStr s \<Rightarrow> (case if s = [] then None else digits_val 0 s of None \<Rightarrow> Inl ValueError | Some n \<Rightarrow> Inr (int n))
     | _ \<Rightarrow> Inl TypeError)"

definition sp_truth :: "sparam \<Rightarrow> bool" where
  "sp_truth x = (case x of SpNum r \<Rightarrow> r \<noteq> 0 | SpBool b \<Rightarrow> b | SpStr s \<Rightarrow> s \<noteq> [] | SpNone \<Rightarrow> False
     | SpNames xs \<Rightarrow> xs \<noteq> [] | SpWeights ws \<Rightarrow> ws \<noteq> [])"

definition sp_names :: "sparam \<Rightarrow> py_error + string list" where
  "sp_names x = (case x of SpNames xs \<Rightarrow> Inr xs | SpStr s \<Rightarrow> Inr (map (\<lambda>c. [c]) s) | SpWeights ws \<Rightarrow> Inr (map fst ws)
     | _ \<Rightarrow> Inl TypeError)"

section \<open>Strategies and their context\<close>

record strategy_class =
  kl_name :: string
  kl_version :: string
  kl_category :: string
  kl_symbols :: "string list"
  kl_timeframe :: timeframe
  kl_cadence :: cadence
  kl_preferred_regimes :: "string list"
  kl_preferred_volatility :: "string list"
  kl_default_parameters :: sparams

record quant_strategy =
  qy_class :: strategy_class
  qy_parameters :: sparams
  qy_last_signal :: "strategy_signal option"
  qy_last_explanation :: msg
  qy_skip_reason :: "msg option"

definition strategy_parameters :: "strategy_class \<Rightarrow> sparams \<Rightarrow> sparams" where
  "strategy_parameters k given =
     pd_merge (kl_default_parameters k) (pd_merge (pd_merge core_parameters (kl_default_parameters k)) given)"

definition new_strategy :: "strategy_class \<Rightarrow> sparams \<Rightarrow> quant_strategy" where
  "new_strategy k given = \<lparr> qy_class = k, qy_parameters = strategy_parameters k given, qy_last_signal = None,
     qy_last_explanation = Lit ''Sin evaluaciones todavia.'', qy_skip_reason = None \<rparr>"

datatype detection =
    LiquidityDetected string string string real msg
  | FVGDetected string string bias_side real real
  | OrderBlockDetected string string bias_side real real bool
  | VWAPCalculated string string string real real
  | DeltaCalculated string string real real
  | CVDCalculated string string real real
  | VolumeProfileUpdated string string real real real
  | MomentumDetected string string move real
  | StrategyScoreUpdated string string real real

record analysis_ctx =
  ac_lib :: pylib
  ac_symbol :: string
  ac_fired_at :: time
  ac_trigger :: string
  ac_market :: market_api
  ac_context :: quant_context
  ac_payload :: json_dict

record analysis_state =
  at_features :: feature_store
  at_detections :: "detection list"
  at_skip :: "msg option"

type_synonym 'a analysis = "analysis_state \<Rightarrow> (py_error + 'a) \<times> analysis_state"

definition an_ret :: "'a \<Rightarrow> 'a analysis" where "an_ret x st = (Inr x, st)"
definition an_lift :: "py_error + 'a \<Rightarrow> 'a analysis" where "an_lift r st = (r, st)"

definition an_bind :: "'a analysis \<Rightarrow> ('a \<Rightarrow> 'b analysis) \<Rightarrow> 'b analysis" where
  "an_bind m f st = (case m st of (Inl e, st') \<Rightarrow> (Inl e, st') | (Inr x, st') \<Rightarrow> f x st')"

definition detect :: "detection \<Rightarrow> unit analysis" where
  "detect d st = (Inr (), st\<lparr> at_detections := at_detections st @ [d] \<rparr>)"

definition set_note :: "msg option \<Rightarrow> unit analysis" where
  "set_note m st = (Inr (), st\<lparr> at_skip := m \<rparr>)"

definition an_get :: "analysis_ctx \<Rightarrow> string \<Rightarrow> params \<Rightarrow> real option analysis" where
  "an_get x name ps st = (case fs_get (ac_market x) name (ac_symbol x) ps (at_features st) of
       (r, fs) \<Rightarrow> (map_sum id num_of r, st\<lparr> at_features := fs \<rparr>))"

definition an_get_object :: "analysis_ctx \<Rightarrow> string \<Rightarrow> params \<Rightarrow> feature_value analysis" where
  "an_get_object x name ps st = (case fs_get_object (ac_market x) name (ac_symbol x) ps (at_features st) of
       (r, fs) \<Rightarrow> (r, st\<lparr> at_features := fs \<rparr>))"

text \<open>Reading a parameter: \<open>self.parameters[name]\<close> with its conversion.\<close>

definition raw_param :: "string \<Rightarrow> quant_strategy \<Rightarrow> py_error + sparam" where
  "raw_param name q = (case pd_get (qy_parameters q) name of None \<Rightarrow> Inl (KeyError name) | Some v \<Rightarrow> Inr v)"

definition fparam :: "analysis_ctx \<Rightarrow> quant_strategy \<Rightarrow> string \<Rightarrow> real analysis" where
  "fparam x q name = an_lift (and_then (raw_param name q) (sp_float (ac_lib x)))"

definition iparam :: "quant_strategy \<Rightarrow> string \<Rightarrow> int analysis" where
  "iparam q name = an_lift (and_then (raw_param name q) sp_int)"

section \<open>Series and levels\<close>

definition clamp01 :: "real \<Rightarrow> real" where "clamp01 v = max 0 (min 1 v)"

definition series_mean :: "real list \<Rightarrow> real option" where
  "series_mean vs = (if vs = [] then None else Some (sum_list vs / real (length vs)))"

definition series_stdev :: "real list \<Rightarrow> real option" where
  "series_stdev vs = (if length vs < 2 then None else
     let avg = sum_list vs / real (length vs) in Some (sqrt ((\<Sum>v\<leftarrow>vs. (v - avg)\<^sup>2) / real (length vs))))"

definition series_zscore :: "real list \<Rightarrow> real option" where
  "series_zscore vs = (if length vs < 2 then None else
     case (series_stdev vs, series_mean vs) of
       (Some sigma, Some avg) \<Rightarrow> if sigma \<le> 0 then None else Some ((last vs - avg) / sigma)
     | _ \<Rightarrow> None)"

definition is_bullish :: "md_candle \<Rightarrow> bool" where "is_bullish c = (cd_close c > cd_open c)"
definition is_bearish :: "md_candle \<Rightarrow> bool" where "is_bearish c = (cd_close c < cd_open c)"

definition body_ratio :: "md_candle \<Rightarrow> real" where
  "body_ratio c = (let span = cd_high c - cd_low c in if span > 0 then \<bar>cd_close c - cd_open c\<bar> / span else 0)"

definition upper_wick_ratio :: "md_candle \<Rightarrow> real" where
  "upper_wick_ratio c = (let span = cd_high c - cd_low c in
     if span \<le> 0 then 0 else (cd_high c - max (cd_open c) (cd_close c)) / span)"

definition lower_wick_ratio :: "md_candle \<Rightarrow> real" where
  "lower_wick_ratio c = (let span = cd_high c - cd_low c in
     if span \<le> 0 then 0 else (min (cd_open c) (cd_close c) - cd_low c) / span)"

definition entry_zone_around :: "real \<Rightarrow> real \<Rightarrow> real \<Rightarrow> entry_zone" where
  "entry_zone_around price atr width_atr =
     (let half = max 0 (atr * width_atr) in \<lparr> ez_low = price - half, ez_high = price + half \<rparr>)"

definition protective_stop :: "direction \<Rightarrow> real \<Rightarrow> real \<Rightarrow> real \<Rightarrow> real" where
  "protective_stop d reference atr buffer_atr =
     (let cushion = max 0 (atr * buffer_atr) in if d = Dir_Long then reference - cushion else reference + cushion)"

definition target_from_rr :: "real \<Rightarrow> real \<Rightarrow> real \<Rightarrow> real" where
  "target_from_rr entry stop risk_reward = entry + (entry - stop) * risk_reward"

text \<open>\<open>candles[-k]\<close>, and \<open>min\<close> and \<open>max\<close> over a window, which raise on an empty one.\<close>

definition candle_back :: "nat \<Rightarrow> md_candle list \<Rightarrow> md_candle analysis" where
  "candle_back k cs = an_lift (if k < 1 \<or> length cs < k then Inl IndexError else Inr (cs ! (length cs - k)))"

definition lowest :: "md_candle list \<Rightarrow> real analysis" where
  "lowest cs = an_lift (if cs = [] then Inl ValueError else Inr (range_bottom cs))"

definition highest :: "md_candle list \<Rightarrow> real analysis" where
  "highest cs = an_lift (if cs = [] then Inl ValueError else Inr (range_top cs))"

definition py_div :: "real \<Rightarrow> real \<Rightarrow> real analysis" where
  "py_div a b = an_lift (if b = 0 then Inl ZeroDivisionError else Inr (a / b))"

definition regime_affinity :: "quant_context \<Rightarrow> string list \<Rightarrow> real" where
  "regime_affinity c preferred =
     (if preferred = [] then 75/100 else
      case qc_regime c of None \<Rightarrow> 1/2
      | Some r \<Rightarrow> if rs_primary r = RG_UNKNOWN then 1/2
                  else if set (map regime_value (rs_primary r # rs_tags r)) \<inter> set preferred \<noteq> {} then 1 else 4/10)"

definition precheck :: "quant_context \<Rightarrow> md_candle list \<Rightarrow> int \<Rightarrow> real \<Rightarrow> real option \<Rightarrow> msg option" where
  "precheck c cs min_candles min_data_quality max_spread_bps =
     (if int (length cs) < min_candles
      then Some (Fmt ''datos insuficientes ({}/{} velas)'' [ArgInt (int (length cs)), ArgInt min_candles])
      else if qc_data_quality c < min_data_quality
      then Some (Fmt ''calidad de dato {:.2f} < minima {:.2f}'' [ArgReal (qc_data_quality c), ArgReal min_data_quality])
      else case (max_spread_bps, qc_spread_bps c) of
             (Some m, Some s) \<Rightarrow> if s > m then Some (Fmt ''spread {:.2f} bps > maximo {:.2f}'' [ArgReal s, ArgReal m]) else None
           | _ \<Rightarrow> None)"

section \<open>The detection interface of the store\<close>

text \<open>Named readings of the store; a composite feature of another kind counts as absent.\<close>

type_synonym 'a reading = "market_api \<Rightarrow> string \<Rightarrow> params \<Rightarrow> feature_store \<Rightarrow> (py_error + 'a) \<times> feature_store"

definition read_object :: "string \<Rightarrow> (feature_value \<Rightarrow> 'a) \<Rightarrow> 'a reading" where
  "read_object name f v s ps fs = (case fs_get_object v name s ps fs of (r, fs') \<Rightarrow> (map_sum id f r, fs'))"

definition read_scalar :: "string \<Rightarrow> real option reading" where
  "read_scalar name v s ps fs = (case fs_get v name s ps fs of (r, fs') \<Rightarrow> (map_sum id num_of r, fs'))"

definition detect_liquidity :: "liquidity_map option reading" where
  "detect_liquidity = read_object ''liquidity'' (\<lambda>v. case v of FV_Liquidity m \<Rightarrow> m | _ \<Rightarrow> None)"

definition smc_reading :: "smc_analysis option reading" where
  "smc_reading = read_object ''smc'' (\<lambda>v. case v of FV_Smc m \<Rightarrow> m | _ \<Rightarrow> None)"

definition detect_fvg :: "fair_value_gap list reading" where
  "detect_fvg v s ps fs = (case smc_reading v s ps fs of
     (r, fs') \<Rightarrow> (map_sum id (\<lambda>a. case a of None \<Rightarrow> [] | Some m \<Rightarrow> sm_fvgs m) r, fs'))"

definition detect_order_block :: "order_block_zone list reading" where
  "detect_order_block v s ps fs = (case smc_reading v s ps fs of
     (r, fs') \<Rightarrow> (map_sum id (\<lambda>a. case a of None \<Rightarrow> [] | Some m \<Rightarrow> sm_order_blocks m) r, fs'))"

definition calculate_vwap :: "real option reading" where "calculate_vwap = read_scalar ''vwap_session''"
definition calculate_delta :: "real option reading" where "calculate_delta = read_scalar ''delta''"
definition calculate_cvd :: "real option reading" where "calculate_cvd = read_scalar ''cvd''"
definition calculate_momentum :: "real option reading" where "calculate_momentum = read_scalar ''momentum_score''"
definition calculate_atr :: "real option reading" where "calculate_atr = read_scalar ''atr''"

definition calculate_volume_profile :: "volume_profile option reading" where
  "calculate_volume_profile = read_object ''volume_profile'' (\<lambda>v. case v of FV_Profile p \<Rightarrow> p | _ \<Rightarrow> None)"

definition calculate_market_structure :: "structure_analysis option reading" where
  "calculate_market_structure = read_object ''structure'' (\<lambda>v. case v of FV_Structure a \<Rightarrow> a | _ \<Rightarrow> None)"

definition calculate_orderflow :: "order_flow option reading" where
  "calculate_orderflow = read_object ''orderflow'' (\<lambda>v. case v of FV_Flow f \<Rightarrow> f | _ \<Rightarrow> None)"

end
