(* ===== verification/Strategy_Pipeline.thy ===== *)
theory Strategy_Pipeline
  imports Strategy_Base
begin

text \<open>
  The pipeline around a concrete strategy (\<open>QuantStrategy.analyze\<close>): pre-checks, the assessment of the strategy, score,
  confirmations (\<open>app/strategies/confirmation/engine.py\<close>), confidence and the structured signal.  The locale
  \<open>strategy_contract\<close> states what the pipeline needs of a strategy; its lemmas hold for every strategy that
  interprets it.
\<close>

section \<open>Confirmations\<close>

record confirmation =
  cf_name :: string
  cf_passed :: bool
  cf_detail :: msg

definition mk_confirmation :: "string \<Rightarrow> bool \<Rightarrow> msg \<Rightarrow> confirmation" where
  "mk_confirmation n p d = \<lparr> cf_name = n, cf_passed = p, cf_detail = d \<rparr>"

definition dir_sign :: "direction \<Rightarrow> real" where "dir_sign d = (if d = Dir_Long then 1 else -1)"

definition confirm_delta :: "analysis_ctx \<Rightarrow> real \<Rightarrow> confirmation analysis" where
  "confirm_delta x sign = an_bind (an_get x ''delta'' []) (\<lambda>delta. an_ret (case delta of
       None \<Rightarrow> mk_confirmation ''delta'' False (Lit ''sin trades recientes'')
     | Some d \<Rightarrow> mk_confirmation ''delta'' (d * sign > 0)
         (Fmt (if d > 0 then ''delta positivo ({:+.2f})'' else ''delta negativo ({:+.2f})'') [ArgReal d])))"

definition confirm_cvd :: "analysis_ctx \<Rightarrow> real \<Rightarrow> confirmation analysis" where
  "confirm_cvd x sign = an_bind (an_get_object x ''orderflow'' []) (\<lambda>snapshot. an_ret (case snapshot of
       FV_Flow (Some f) \<Rightarrow> mk_confirmation ''cvd'' (fw_cvd_slope f * sign > 0)
         (Fmt (if fw_cvd_slope f > 0 then ''CVD creciente ({:+.2f})'' else ''CVD decreciente ({:+.2f})'') [ArgReal (fw_cvd_slope f)])
     | _ \<Rightarrow> mk_confirmation ''cvd'' False (Lit ''sin order flow'')))"

definition confirm_volume :: "analysis_ctx \<Rightarrow> confirmation analysis" where
  "confirm_volume x = an_bind (an_get x ''volume_ratio'' []) (\<lambda>ratio. an_ret (case ratio of
       None \<Rightarrow> mk_confirmation ''volume'' False (Lit ''sin datos de volumen'')
     | Some r \<Rightarrow> mk_confirmation ''volume'' (r \<ge> 1) (Fmt ''volumen {:.2f}x la media'' [ArgReal r])))"

definition confirm_spread :: "quant_context \<Rightarrow> confirmation" where
  "confirm_spread c = (if qc_spread_elevated c
     then mk_confirmation ''spread'' False (case qc_spread_bps c of
            Some b \<Rightarrow> Fmt ''spread elevado ({:.2f} bps)'' [ArgReal b] | None \<Rightarrow> Lit ''spread elevado'')
     else mk_confirmation ''spread'' True (Lit ''spread bajo''))"

definition confirm_volatility :: "quant_context \<Rightarrow> confirmation" where
  "confirm_volatility c = mk_confirmation ''volatility'' (qc_volatility c \<noteq> VS_LOW)
     (Fmt ''volatilidad {}'' [ArgStr (volatility_value (qc_volatility c))])"

fun join_names :: "string list \<Rightarrow> string" where
  "join_names [] = []"
| "join_names [n] = n"
| "join_names (n # ns) = n @ '', '' @ join_names ns"

definition confirm_session :: "quant_context \<Rightarrow> confirmation" where
  "confirm_session c = (let active = join_names (qc_sessions c) in
     mk_confirmation ''session'' (qc_sessions c \<noteq> [])
       (Fmt ''sesiones: {}'' [ArgStr (if active = [] then ''ninguna'' else active)]))"

definition primary_regime :: "quant_context \<Rightarrow> regime" where
  "primary_regime c = (case qc_regime c of None \<Rightarrow> RG_UNKNOWN | Some r \<Rightarrow> rs_primary r)"

definition confirm_regime :: "quant_context \<Rightarrow> confirmation" where
  "confirm_regime c = mk_confirmation ''regime'' (primary_regime c \<noteq> RG_UNKNOWN)
     (Fmt ''regimen {}'' [ArgStr (regime_value (primary_regime c))])"

definition confirm_book :: "analysis_ctx \<Rightarrow> real \<Rightarrow> string \<Rightarrow> confirmation analysis" where
  "confirm_book x sign feature = an_bind (an_get x feature []) (\<lambda>val. an_ret (case val of
       None \<Rightarrow> mk_confirmation feature False (Lit ''sin libro de ordenes'')
     | Some r \<Rightarrow> mk_confirmation feature (r * sign \<ge> 1/10) (Fmt ''{} {:+.2f}'' [ArgStr feature, ArgReal r])))"

definition confirm_profile :: "analysis_ctx \<Rightarrow> confirmation analysis" where
  "confirm_profile x = an_bind (an_get_object x ''volume_profile'' []) (\<lambda>profile. an_ret (
     case (profile, qc_last_price (ac_context x)) of
       (FV_Profile (Some p), Some price) \<Rightarrow>
         mk_confirmation ''volume_profile'' (vp_position price p \<noteq> VA_Inside)
           (Fmt ''precio {} (POC {:.2f})'' [ArgStr (value_position_value (vp_position price p)), ArgReal (vp_poc p)])
     | _ \<Rightarrow> mk_confirmation ''volume_profile'' False (Lit ''sin perfil de volumen'')))"

definition confirm_one :: "analysis_ctx \<Rightarrow> real \<Rightarrow> string \<Rightarrow> confirmation analysis" where
  "confirm_one x sign name =
     (if name = ''delta'' then confirm_delta x sign
      else if name = ''cvd'' then confirm_cvd x sign
      else if name = ''volume'' then confirm_volume x
      else if name = ''spread'' then an_ret (confirm_spread (ac_context x))
      else if name = ''volatility'' then an_ret (confirm_volatility (ac_context x))
      else if name = ''session'' then an_ret (confirm_session (ac_context x))
      else if name = ''regime'' then an_ret (confirm_regime (ac_context x))
      else if name = ''book_imbalance'' then confirm_book x sign ''imbalance''
      else if name = ''book_pressure'' then confirm_book x sign ''book_pressure''
      else if name = ''volume_profile'' then confirm_profile x
      else an_ret (mk_confirmation name False (Lit ''confirmacion desconocida'')))"

fun confirm_all :: "analysis_ctx \<Rightarrow> real \<Rightarrow> string list \<Rightarrow> confirmation list analysis" where
  "confirm_all x sign [] = an_ret []"
| "confirm_all x sign (n # ns) = an_bind (confirm_one x sign n) (\<lambda>c.
     an_bind (confirm_all x sign ns) (\<lambda>cs. an_ret (c # cs)))"

section \<open>Assessment, score and confidence\<close>

record assessment =
  am_direction :: direction
  am_quality :: real
  am_strength :: real
  am_context_fit :: real
  am_probability :: real
  am_risk :: real
  am_reasons :: "msg list"
  am_warnings :: "msg list"
  am_entry :: "entry_zone option"
  am_stop_loss :: "real option"
  am_take_profit :: "real option"
  am_confirmations :: "string list option"
  am_metadata :: json_dict

text \<open>The keyword constructor as the strategies use it.\<close>

definition assess :: "direction \<Rightarrow> real \<Rightarrow> real \<Rightarrow> real \<Rightarrow> real \<Rightarrow> real \<Rightarrow> msg list \<Rightarrow> msg list \<Rightarrow> entry_zone \<Rightarrow> real \<Rightarrow> real
    \<Rightarrow> json_dict \<Rightarrow> assessment option analysis" where
  "assess d quality strength fit probability risk reasons warnings entry stop target metadata = an_ret (Some
     \<lparr> am_direction = d, am_quality = quality, am_strength = strength, am_context_fit = fit, am_probability = probability,
       am_risk = risk, am_reasons = reasons, am_warnings = warnings, am_entry = Some entry, am_stop_loss = Some stop,
       am_take_profit = Some target, am_confirmations = None, am_metadata = metadata \<rparr>)"

definition sp_weights :: "sparam \<Rightarrow> py_error + (string, real) pydict" where
  "sp_weights v = (case v of SpWeights ws \<Rightarrow> Inr ws | _ \<Rightarrow> Inl TypeError)"

fun weighted :: "(string, real) pydict \<Rightarrow> (string \<times> real) list \<Rightarrow> py_error + real" where
  "weighted ws [] = Inr 0"
| "weighted ws ((n, v) # vs) = (case pd_get ws n of
       None \<Rightarrow> Inl (KeyError n) | Some w \<Rightarrow> and_then (weighted ws vs) (\<lambda>s. Inr (v * w + s)))"

definition weighted_mean :: "(string, real) pydict \<Rightarrow> (string \<times> real) list \<Rightarrow> py_error + real option" where
  "weighted_mean ws vs = (let total = sum_list (map snd ws) in
     if total \<le> 0 then Inr None else and_then (weighted ws vs) (\<lambda>s. Inr (Some (s / total))))"

definition score_components :: "assessment \<Rightarrow> (string \<times> real) list" where
  "score_components a = [(''quality'', clamp01 (am_quality a)), (''strength'', clamp01 (am_strength a)),
     (''context'', clamp01 (am_context_fit a)), (''probability'', clamp01 (am_probability a)),
     (''risk'', clamp01 (1 - am_risk a))]"

definition score_of :: "quant_strategy \<Rightarrow> assessment \<Rightarrow> py_error + real" where
  "score_of q a =
     and_then (raw_param ''score_weights'' q) (\<lambda>v. and_then (sp_weights v) (\<lambda>ws.
     and_then (weighted_mean ws (score_components a)) (\<lambda>r.
       Inr (case r of None \<Rightarrow> 0 | Some s \<Rightarrow> py_round 2 (s * 100)))))"

definition confidence_factors :: "quant_strategy \<Rightarrow> quant_context \<Rightarrow> confirmation list \<Rightarrow> (string \<times> real) list" where
  "confidence_factors q c cs = [(''volume'', if qc_volume_sufficient c then 1 else 3/10),
     (''volatility'', if volatility_value (qc_volatility c) \<in> set (kl_preferred_volatility (qy_class q)) then 1 else 6/10),
     (''liquidity'', if qc_spread_elevated c then 1/2 else 1),
     (''regime'', regime_affinity c (kl_preferred_regimes (qy_class q))),
     (''confirmations'', if cs = [] then 75/100 else real (length (filter cf_passed cs)) / real (length cs)),
     (''data_quality'', clamp01 (qc_data_quality c))]"

definition confidence_of :: "quant_strategy \<Rightarrow> quant_context \<Rightarrow> confirmation list \<Rightarrow> py_error + real" where
  "confidence_of q c cs =
     and_then (raw_param ''confidence_weights'' q) (\<lambda>v. and_then (sp_weights v) (\<lambda>ws.
     and_then (weighted_mean ws (confidence_factors q c cs)) (\<lambda>r.
       Inr (case r of None \<Rightarrow> 0 | Some s \<Rightarrow> py_round 4 (clamp01 s)))))"

definition risk_reward_of :: "assessment \<Rightarrow> real option" where
  "risk_reward_of a = (case (am_entry a, am_stop_loss a, am_take_profit a) of
       (Some z, Some stop, Some target) \<Rightarrow>
         (let entry = (ez_low z + ez_high z) / 2; risk = \<bar>entry - stop\<bar>
          in if risk \<le> 0 then None else Some (py_round 2 (\<bar>target - entry\<bar> / risk)))
     | _ \<Rightarrow> None)"

definition volatility_risk :: "quant_strategy \<Rightarrow> analysis_ctx \<Rightarrow> real \<Rightarrow> real" where
  "volatility_risk q x base =
     (let v = qc_volatility (ac_context x) in
      if volatility_value v \<in> set (kl_preferred_volatility (qy_class q)) then base
      else if v = VS_HIGH then clamp01 (base + 3/10) else clamp01 (base + 2/10))"

definition tf_param :: "quant_strategy \<Rightarrow> string \<times> param" where
  "tf_param q = (''timeframe'', PmStr (tf_value (kl_timeframe (qy_class q))))"

definition atr_or_none :: "quant_strategy \<Rightarrow> analysis_ctx \<Rightarrow> real option analysis" where
  "atr_or_none q x = an_bind (iparam q ''atr_period'') (\<lambda>period.
     an_get x ''atr'' [tf_param q, (''period'', PmInt (nat period))])"

section \<open>The pipeline\<close>

type_synonym evaluator = "quant_strategy \<Rightarrow> analysis_ctx \<Rightarrow> md_candle list \<Rightarrow> assessment option analysis"

text \<open>A message inside another one.\<close>

definition msg_template :: "msg \<Rightarrow> string" where "msg_template m = (case m of Lit _ \<Rightarrow> ''{}'' | Fmt t _ \<Rightarrow> t)"
definition msg_args :: "msg \<Rightarrow> msg_arg list" where "msg_args m = (case m of Lit s \<Rightarrow> [ArgStr s] | Fmt _ as \<Rightarrow> as)"

definition nest :: "string \<Rightarrow> msg_arg list \<Rightarrow> msg \<Rightarrow> string \<Rightarrow> msg" where
  "nest pre as m post = Fmt (pre @ msg_template m @ post) (as @ msg_args m)"

definition skip_note :: "quant_strategy \<Rightarrow> msg \<Rightarrow> msg option" where
  "skip_note q m = Some (nest ''[{}] '' [ArgStr (kl_name (qy_class q))] m [])"

definition confirmation_json :: "pylib \<Rightarrow> confirmation \<Rightarrow> json" where
  "confirmation_json L c = JObj [(''name'', JStr (cf_name c)), (''passed'', JBool (cf_passed c)),
     (''detail'', JStr (render L (cf_detail c)))]"

definition signal_metadata :: "pylib \<Rightarrow> quant_strategy \<Rightarrow> string \<Rightarrow> assessment \<Rightarrow> confirmation list \<Rightarrow> json_dict" where
  "signal_metadata L q trigger a cs = pd_merge [(''category'', JStr (kl_category (qy_class q))), (''trigger'', JStr trigger),
     (''score_components'', JObj [(''quality'', JNum (py_round 4 (am_quality a))), (''strength'', JNum (py_round 4 (am_strength a))),
        (''context'', JNum (py_round 4 (am_context_fit a))), (''probability'', JNum (py_round 4 (am_probability a))),
        (''risk'', JNum (py_round 4 (am_risk a)))]),
     (''confirmations'', JList (map (confirmation_json L) cs))] (am_metadata a)"

definition build_signal :: "quant_strategy \<Rightarrow> analysis_ctx \<Rightarrow> string \<Rightarrow> assessment \<Rightarrow> real \<Rightarrow> confirmation list \<Rightarrow> real \<Rightarrow> real
    \<Rightarrow> strategy_signal" where
  "build_signal q x new_id a score cs confidence ttl =
     (let passed = filter cf_passed cs; missing = filter (\<lambda>c. \<not> cf_passed c) cs in
      \<lparr> sg_signal_id = new_id, sg_strategy_name = kl_name (qy_class q), sg_strategy_version = kl_version (qy_class q),
        sg_symbol = ac_symbol x, sg_timestamp = ac_fired_at x, sg_direction = am_direction a,
        sg_confidence = confidence, sg_score = score, sg_entry_zone = am_entry a, sg_stop_loss = am_stop_loss a,
        sg_take_profit = am_take_profit a, sg_risk_reward = risk_reward_of a,
        sg_market_context = qc_summary (ac_context x),
        sg_reasons = am_reasons a @ map (\<lambda>c. nest ''Confirmado mediante {}: '' [ArgStr (cf_name c)] (cf_detail c) ''.'') passed,
        sg_warnings = am_warnings a @ map (\<lambda>c. nest ''Falta confirmacion de {}: '' [ArgStr (cf_name c)] (cf_detail c) ''.'') missing,
        sg_required_confirmation = (missing \<noteq> []),
        sg_expiration = Some (ac_fired_at x + timedelta_seconds ttl),
        sg_metadata = signal_metadata (ac_lib x) q (ac_trigger x) a cs \<rparr>)"

definition requested_confirmations :: "quant_strategy \<Rightarrow> assessment \<Rightarrow> py_error + string list" where
  "requested_confirmations q a = (case am_confirmations a of
       Some ns \<Rightarrow> Inr ns
     | None \<Rightarrow> (case pd_get (qy_parameters q) ''confirmations'' of None \<Rightarrow> Inr [] | Some v \<Rightarrow> sp_names v))"

definition emit :: "quant_strategy \<Rightarrow> analysis_ctx \<Rightarrow> string \<Rightarrow> assessment \<Rightarrow> strategy_signal option analysis" where
  "emit q x new_id a =
     an_bind (an_lift (score_of q a)) (\<lambda>score.
     an_bind (fparam x q ''min_signal_score'') (\<lambda>minimum.
     if score < minimum
     then an_bind (set_note (skip_note q (Fmt ''setup debil: score {:.1f} < {:.0f}'' [ArgReal score, ArgReal minimum]))) (\<lambda>_. an_ret None)
     else
     an_bind (set_note None) (\<lambda>_.
     an_bind (an_lift (requested_confirmations q a)) (\<lambda>names.
     an_bind (confirm_all x (dir_sign (am_direction a)) names) (\<lambda>cs.
     an_bind (an_lift (confidence_of q (ac_context x) cs)) (\<lambda>confidence.
     an_bind (fparam x q ''signal_ttl_seconds'') (\<lambda>ttl.
       an_ret (Some (build_signal q x new_id a score cs confidence ttl)))))))))"

definition analyze :: "evaluator \<Rightarrow> quant_strategy \<Rightarrow> analysis_ctx \<Rightarrow> string \<Rightarrow> strategy_signal option analysis" where
  "analyze evaluate q x new_id =
     an_bind (iparam q ''lookback'') (\<lambda>lookback.
     let cs = st_candle_series (ac_symbol x) (kl_timeframe (qy_class q)) lookback (mv_store (ac_market x)) in
     an_bind (iparam q ''min_candles'') (\<lambda>min_candles.
     an_bind (fparam x q ''min_data_quality'') (\<lambda>min_data_quality.
     an_bind (case pd_get (qy_parameters q) ''max_spread_bps'' of
                None \<Rightarrow> an_ret None | Some SpNone \<Rightarrow> an_ret None
              | Some v \<Rightarrow> an_lift (map_sum id Some (sp_float (ac_lib x) v))) (\<lambda>max_spread.
     case precheck (ac_context x) cs min_candles min_data_quality max_spread of
       Some blocked \<Rightarrow> an_bind (set_note (skip_note q blocked)) (\<lambda>_. an_ret None)
     | None \<Rightarrow> an_bind (evaluate q x cs) (\<lambda>a. case a of
          None \<Rightarrow> an_bind (set_note (skip_note q (Fmt ''sin oportunidad ({})'' [ArgStr (ac_trigger x)]))) (\<lambda>_. an_ret None)
        | Some a \<Rightarrow> if am_direction a = Dir_Neutral
            then an_bind (set_note (skip_note q (Fmt ''sin oportunidad ({})'' [ArgStr (ac_trigger x)]))) (\<lambda>_. an_ret None)
            else emit q x new_id a)))))"

text \<open>The self-check of a signal, its score and the explanation (\<open>BaseStrategy\<close>).\<close>

definition strategy_validate :: "strategy_signal \<Rightarrow> msg list" where
  "strategy_validate s =
     (if sg_reasons s = [] then [Lit ''la senal no incluye razones (explicabilidad obligatoria)''] else []) @
     (if \<not> (0 \<le> sg_confidence s \<and> sg_confidence s \<le> 1) then [Fmt ''confidence fuera de rango: {}'' [ArgReal (sg_confidence s)]] else []) @
     (if \<not> (0 \<le> sg_score s \<and> sg_score s \<le> 100) then [Fmt ''score fuera de rango: {}'' [ArgReal (sg_score s)]] else [])"

definition strategy_score :: "strategy_signal \<Rightarrow> real" where
  "strategy_score s = max 0 (min 100 (sg_score s))"

fun join_reasons :: "pylib \<Rightarrow> msg list \<Rightarrow> string" where
  "join_reasons L [] = []"
| "join_reasons L [m] = render L m"
| "join_reasons L (m # ms) = render L m @ ''; '' @ join_reasons L ms"

definition explain_base :: "pylib \<Rightarrow> quant_strategy \<Rightarrow> msg" where
  "explain_base L q = (case qy_last_signal q of
       Some s \<Rightarrow> Fmt ''[{} v{}] {} {} score={:.0f} confianza={:.2f}: {}''
         [ArgStr (kl_name (qy_class q)), ArgStr (kl_version (qy_class q)), ArgStr (sg_symbol s),
          ArgStr (direction_value (sg_direction s)), ArgReal (sg_score s), ArgReal (sg_confidence s),
          ArgStr (join_reasons L (sg_reasons s))]
     | None \<Rightarrow> qy_last_explanation q)"

definition explain_strategy :: "pylib \<Rightarrow> quant_strategy \<Rightarrow> msg" where
  "explain_strategy L q = (case (qy_last_signal q, qy_skip_reason q) of
       (None, Some reason) \<Rightarrow> reason | _ \<Rightarrow> explain_base L q)"

definition record_evaluation :: "strategy_signal option \<Rightarrow> msg option \<Rightarrow> quant_strategy \<Rightarrow> quant_strategy" where
  "record_evaluation s m q = (case (s, m) of
       (None, Some n) \<Rightarrow> (if msg_empty n then q\<lparr> qy_last_signal := s \<rparr>
          else q\<lparr> qy_last_signal := s, qy_last_explanation := nest ''[{}] '' [ArgStr (kl_name (qy_class q))] n [] \<rparr>)
     | _ \<Rightarrow> q\<lparr> qy_last_signal := s \<rparr>)"

end
