(* ===== verification/Strategy_Contract.thy ===== *)
theory Strategy_Contract
  imports Strategy_Pipeline Signal_Engine
begin

text \<open>
  How strategies are reasoned about: a partial-correctness judgement for analyses with one rule per construct, an invariant of
  the feature store that the rules keep, and the contracts.  \<open>strategy_contract\<close> says that an assessment carries reasons;
  \<open>stop_contract\<close> that under sane parameters the stop is not beyond the entry; \<open>level_contract\<close> that the target is
  not behind it either.  Every strategy interprets the contracts it keeps.
\<close>

section \<open>What the store returns\<close>

definition sound_value :: "feature_value \<Rightarrow> bool" where
  "sound_value v = (case v of
       FV_Bands (Some b) \<Rightarrow> vb_lower_1 b \<le> vb_value b \<and> vb_value b \<le> vb_upper_1 b
     | FV_Smc (Some s) \<Rightarrow> list_all (\<lambda>g. fg_bottom g \<le> fg_top g) (sm_fvgs s) \<and> list_all (\<lambda>b. zb_bottom b \<le> zb_top b) (sm_order_blocks s)
     | _ \<Rightarrow> True)"

definition sound_cache :: "feature_store \<Rightarrow> bool" where
  "sound_cache fs = list_all (\<lambda>(t, v). sound_value v) (pd_values (fs_cache fs))"

lemma sound_cache_new: "fs_cache fs = [] \<Longrightarrow> sound_cache fs"
  by (simp add: sound_cache_def pd_values_def)

lemma sound_cacheD: "sound_cache fs \<Longrightarrow> pd_get (fs_cache fs) k = Some (t, v) \<Longrightarrow> sound_value v"
  by (auto simp: sound_cache_def pd_values_def pd_get_def list_all_iff dest!: map_of_SomeD)

lemma sound_cache_put: "sound_cache fs \<Longrightarrow> sound_value v \<Longrightarrow> sound_cache (fs\<lparr> fs_cache := pd_put (fs_cache fs) k (t, v) \<rparr>)"
  using set_values_put [of "fs_cache fs" k "(t, v)"] by (fastforce simp: sound_cache_def list_all_iff)

lemma sound_cache_frame [simp]: "sound_cache (fs\<lparr> fs_hits := a \<rparr>) = sound_cache fs" "sound_cache (fs\<lparr> fs_misses := a \<rparr>) = sound_cache fs"
  by (simp_all add: sound_cache_def)

lemma cached_sound:
  assumes "sound_cache fs"
    and "\<And>s ps fs'. sound_cache fs' \<Longrightarrow> sound_cache (snd (compute s ps fs')) \<and> (\<forall>v. fst (compute s ps fs') = Inr v \<longrightarrow> sound_value v)"
    and "fs_cached w n s ps ttl compute fs = (r, fs1)"
  shows "sound_cache fs1 \<and> (\<forall>v. r = Inr v \<longrightarrow> sound_value v)"
  using assms(1,3) assms(2) [of "fs\<lparr> fs_misses := fs_misses fs + 1 \<rparr>" "upper s" ps] sound_cacheD [OF assms(1), of "feature_key_of n s ps"]
  by (auto simp: fs_cached_def Let_def sound_cache_put split: option.splits prod.splits sum.splits if_splits)

lemma gaps_at_order: "g \<in> set (gaps_at m v cs i) \<Longrightarrow> fg_bottom g \<le> fg_top g"
  by (auto simp: gaps_at_def Let_def split: if_splits)

lemma block_at_order: "b \<in> set (block_at m False v cs i) \<Longrightarrow> zb_bottom b \<le> zb_top b"
  by (auto simp: block_at_def Let_def split: option.splits)

lemma in_set_py_tail: "x \<in> set (py_tail n xs) \<Longrightarrow> x \<in> set xs"
  by (auto simp: py_tail_def last_n_def dest: in_set_dropD split: if_splits)

lemma smc_sound:
  assumes "analyze_smc q cs = Some s" "\<not> sq_ob_full_range q"
  shows "sound_value (FV_Smc (Some s))"
proof -
  obtain v where "sm_fvgs s = fair_value_gaps (sq_fvg_min_atr q) (Some v) cs"
      "sm_order_blocks s = order_blocks (sq_ob_displacement q) False (Some v) 10 cs"
    using assms by (auto simp: analyze_smc_def Let_def split: if_splits option.splits)
  then show ?thesis
    by (auto simp: sound_value_def list_all_iff fair_value_gaps_def order_blocks_def gaps_at_order
        split: option.splits if_splits dest!: in_set_py_tail dest: block_at_order)
qed

lemma bands_sound:
  assumes "vwap_bands_of i (1, 2) k p cs = Some b" shows "sound_value (FV_Bands (Some b))"
  using assms by (auto simp: vwap_bands_of_def sound_value_def Let_def split: if_splits prod.splits)

lemma smc_params_range: "smc_params_of ps = Inr q \<Longrightarrow> \<not> sq_ob_full_range q"
  by (auto simp: smc_params_of_def and_then_def default_smc_def split: sum.splits)

lemma compute_object_sound: "compute_object w f s ps = Inr v \<Longrightarrow> sound_value v"
proof (cases f)
  case OF_smc
  assume "compute_object w f s ps = Inr v"
  then obtain q cs where "smc_params_of ps = Inr q" "v = FV_Smc (analyze_smc q cs)"
    using OF_smc by (auto simp: compute_object_def and_then_def split: sum.splits)
  then show ?thesis
    using smc_sound [of q cs] smc_params_range [of ps q] by (cases "analyze_smc q cs") (auto simp: sound_value_def)
next
  case OF_vwap_bands
  assume "compute_object w f s ps = Inr v"
  then obtain b where b: "session_bands w s ps = Inr b" "v = FV_Bands b"
    using OF_vwap_bands by (auto simp: compute_object_def and_then_def split: sum.splits)
  show ?thesis
  proof (cases b)
    case (Some y)
    with b(1) obtain i k p cs where "vwap_bands_of i (1, 2) k p cs = Some y"
      by (auto simp: session_bands_def and_then_def split: sum.splits if_splits option.splits)
    then show ?thesis using bands_sound b(2) Some by simp
  qed (simp add: b(2) sound_value_def)
qed (auto simp: compute_object_def and_then_def sound_value_def split: sum.splits)

lemma get_object_sound:
  assumes "sound_cache fs" "fs_get_object w n s ps fs = (r, fs1)"
  shows "sound_cache fs1 \<and> (\<forall>v. r = Inr v \<longrightarrow> sound_value v)"
proof (cases "pd_get (fs_objects fs) n")
  case (Some e)
  obtain f ttl where e: "e = (f, ttl)" by (cases e)
  have "fs_cached w (''obj:'' @ n) s ps ttl (\<lambda>s ps fs. (compute_object w f s ps, fs)) fs = (r, fs1)"
    using assms(2) Some e by (simp add: fs_get_object_def)
  from cached_sound [OF assms(1) _ this] show ?thesis using compute_object_sound by simp
qed (use assms in \<open>auto simp: fs_get_object_def\<close>)

lemma get_sound:
  assumes "sound_cache fs" "fs_get w n s ps fs = (r, fs1)" shows "sound_cache fs1"
proof (cases "pd_get (fs_providers fs) n")
  case (Some e)
  obtain f ttl where e: "e = (f, ttl)" by (cases e)
  have bands: "sound_cache (snd (with_bands g w s' ps' fs')) \<and> (\<forall>v. fst (with_bands g w s' ps' fs') = Inr v \<longrightarrow> sound_value v)"
    if "sound_cache fs'" for g s' ps' fs'
    using get_object_sound [OF that, of w "''vwap_bands''" s' ps']
    by (auto simp: with_bands_def sound_value_def split: prod.split sum.split)
  have "sound_cache (snd (compute_scalar w f s' ps' fs')) \<and> (\<forall>v. fst (compute_scalar w f s' ps' fs') = Inr v \<longrightarrow> sound_value v)"
    if "sound_cache fs'" for s' ps' fs'
  proof -
    have num: "map_sum id FV_Num (plain_scalar w f s' ps') = Inr v \<Longrightarrow> sound_value v" for v
      by (cases "plain_scalar w f s' ps'") (auto simp: sound_value_def)
    show ?thesis
      using bands [OF that] that num by (cases f) (simp_all add: compute_scalar_def)
  qed
  moreover have "fs_cached w n s ps ttl (compute_scalar w f) fs = (r, fs1)" using assms(2) Some e by (simp add: fs_get_def)
  ultimately show ?thesis using cached_sound [OF assms(1), where compute = "compute_scalar w f"] by blast
qed (use assms in \<open>auto simp: fs_get_def\<close>)

section \<open>The judgement\<close>

definition holds :: "'a analysis \<Rightarrow> ('a \<Rightarrow> bool) \<Rightarrow> bool" where
  "holds m P \<longleftrightarrow> (\<forall>st. sound_cache (at_features st) \<longrightarrow>
     sound_cache (at_features (snd (m st))) \<and> (\<forall>x. fst (m st) = Inr x \<longrightarrow> P x))"

named_theorems analysis \<open>rules of the judgement\<close>

lemma holds_ret [analysis]: "P x \<Longrightarrow> holds (an_ret x) P"
  by (simp add: holds_def an_ret_def)

lemma holds_lift [analysis]: "(\<And>x. r = Inr x \<Longrightarrow> P x) \<Longrightarrow> holds (an_lift r) P"
  by (simp add: holds_def an_lift_def)

lemma holds_conseq: "holds m Q \<Longrightarrow> (\<And>x. Q x \<Longrightarrow> P x) \<Longrightarrow> holds m P"
  by (simp add: holds_def)

lemma holds_bind:
  assumes "holds m Q" "\<And>x. Q x \<Longrightarrow> holds (f x) P" shows "holds (an_bind m f) P"
  unfolding holds_def
proof (intro allI impI)
  fix st :: analysis_state assume st: "sound_cache (at_features st)"
  obtain r st1 where r: "m st = (r, st1)" by (cases "m st")
  show "sound_cache (at_features (snd (an_bind m f st))) \<and> (\<forall>x. fst (an_bind m f st) = Inr x \<longrightarrow> P x)"
  proof (cases r)
    case (Inl e)
    then show ?thesis using assms(1) st r by (auto simp: holds_def an_bind_def)
  next
    case (Inr x)
    have "sound_cache (at_features st1) \<and> Q x" using assms(1) st r Inr by (auto simp: holds_def)
    then show ?thesis using assms(2) [of x] r Inr by (auto simp: holds_def an_bind_def)
  qed
qed

lemma holds_bind_lift [analysis]: "(\<And>x. r = Inr x \<Longrightarrow> holds (f x) P) \<Longrightarrow> holds (an_bind (an_lift r) f) P"
  by (rule holds_bind [OF holds_lift]) auto

lemma holds_get: "holds (an_get x n ps) (\<lambda>_. True)"
  unfolding holds_def an_get_def by (auto split: prod.split dest: get_sound)

lemma holds_get_object: "holds (an_get_object x n ps) sound_value"
  unfolding holds_def an_get_object_def by (auto split: prod.split dest: get_object_sound)

lemma holds_bind_get [analysis]: "(\<And>v. holds (f v) P) \<Longrightarrow> holds (an_bind (an_get x n ps) f) P"
  by (rule holds_bind [OF holds_get])

lemma holds_bind_object [analysis]: "(\<And>v. sound_value v \<Longrightarrow> holds (f v) P) \<Longrightarrow> holds (an_bind (an_get_object x n ps) f) P"
  by (rule holds_bind [OF holds_get_object])

lemma holds_bind_detect [analysis]: "holds (f ()) P \<Longrightarrow> holds (an_bind (detect d) f) P"
  by (rule holds_bind [of _ "\<lambda>_. True"]) (auto simp: holds_def detect_def)

lemma holds_bind_note [analysis]: "holds (f ()) P \<Longrightarrow> holds (an_bind (set_note m) f) P"
  by (rule holds_bind [of _ "\<lambda>_. True"]) (auto simp: holds_def set_note_def)

lemma holds_if [analysis]: "(b \<Longrightarrow> holds m P) \<Longrightarrow> (\<not> b \<Longrightarrow> holds m' P) \<Longrightarrow> holds (if b then m else m') P"
  by simp

lemma holds_option [analysis]: "(o' = None \<Longrightarrow> holds m P) \<Longrightarrow> (\<And>x. o' = Some x \<Longrightarrow> holds (f x) P) \<Longrightarrow>
  holds (case o' of None \<Rightarrow> m | Some x \<Rightarrow> f x) P"
  by (cases o') auto

lemma holds_pair [analysis]: "(\<And>a b. p = (a, b) \<Longrightarrow> holds (f a b) P) \<Longrightarrow> holds (case p of (a, b) \<Rightarrow> f a b) P"
  by (cases p) auto

lemma bind_ret [simp]: "an_bind (an_ret x) f = f x"
  by (rule ext) (simp add: an_bind_def an_ret_def)

lemma bind_bind [simp]: "an_bind (an_bind m f) g = an_bind m (\<lambda>x. an_bind (f x) g)"
  by (rule ext) (simp add: an_bind_def split: prod.split sum.split)

lemma bind_if [simp]: "an_bind (if b then m else m') f = (if b then an_bind m f else an_bind m' f)"
  by simp

lemma bind_option [simp]:
  "an_bind (case o' of None \<Rightarrow> m | Some x \<Rightarrow> g x) f = (case o' of None \<Rightarrow> an_bind m f | Some x \<Rightarrow> an_bind (g x) f)"
  by (cases o') simp_all

lemmas analysis_unfold = fparam_def iparam_def candle_back_def lowest_def highest_def py_div_def atr_or_none_def assess_def Let_def

lemmas analysis_binds = bind_bind bind_ret bind_if bind_option

text \<open>The entries of an assessment as the strategies build it.\<close>

definition with_reasons :: "assessment option \<Rightarrow> bool" where
  "with_reasons r = (case r of None \<Rightarrow> True | Some a \<Rightarrow> am_reasons a \<noteq> [])"

definition stop_right :: "assessment option \<Rightarrow> bool" where
  "stop_right r = (case r of None \<Rightarrow> True | Some a \<Rightarrow> (case (am_entry a, am_stop_loss a) of
       (Some z, Some s) \<Rightarrow> ez_low z \<le> ez_high z \<and>
         (case am_direction a of Dir_Long \<Rightarrow> s \<le> ez_mid z | Dir_Short \<Rightarrow> ez_mid z \<le> s | Dir_Neutral \<Rightarrow> True)
     | _ \<Rightarrow> False))"

definition target_right :: "assessment option \<Rightarrow> bool" where
  "target_right r = (case r of None \<Rightarrow> True | Some a \<Rightarrow> (case (am_entry a, am_take_profit a) of
       (Some z, Some t) \<Rightarrow> (case am_direction a of Dir_Long \<Rightarrow> ez_mid z \<le> t | Dir_Short \<Rightarrow> t \<le> ez_mid z | Dir_Neutral \<Rightarrow> True)
     | _ \<Rightarrow> False))"

lemmas rights = with_reasons_def stop_right_def target_right_def

lemma entry_zone_facts [simp]:
  "ez_low (entry_zone_around p a w) \<le> ez_high (entry_zone_around p a w)" "ez_mid (entry_zone_around p a w) = p"
  by (simp_all add: entry_zone_around_def Let_def ez_mid_def)

lemma protective_stop_bounds: "protective_stop Dir_Long r a b \<le> r" "r \<le> protective_stop Dir_Short r a b"
  by (simp_all add: protective_stop_def Let_def)

lemma target_from_rr_side:
  "0 \<le> rr \<Longrightarrow> s \<le> e \<Longrightarrow> e \<le> target_from_rr e s rr" "0 \<le> rr \<Longrightarrow> e \<le> s \<Longrightarrow> target_from_rr e s rr \<le> e"
  by (simp_all add: target_from_rr_def mult_nonpos_nonneg)

text \<open>Candles as the market delivers them, and positive parameters.\<close>

definition wf_series :: "md_candle list \<Rightarrow> bool" where
  "wf_series cs = list_all (\<lambda>c. cd_low c \<le> cd_close c \<and> cd_close c \<le> cd_high c) cs"

definition positive :: "analysis_ctx \<Rightarrow> quant_strategy \<Rightarrow> string list \<Rightarrow> bool" where
  "positive x q ns = list_all (\<lambda>n. case and_then (raw_param n q) (sp_float (ac_lib x)) of Inr v \<Rightarrow> 0 < v | Inl _ \<Rightarrow> True) ns"

lemma positiveD: "positive x q ns \<Longrightarrow> n \<in> set ns \<Longrightarrow> and_then (raw_param n q) (sp_float (ac_lib x)) = Inr v \<Longrightarrow> 0 < v"
  by (auto simp: positive_def list_all_iff)

definition ordered_params :: "analysis_ctx \<Rightarrow> quant_strategy \<Rightarrow> string \<Rightarrow> string \<Rightarrow> bool" where
  "ordered_params x q m n = (case (and_then (raw_param m q) (sp_float (ac_lib x)), and_then (raw_param n q) (sp_float (ac_lib x))) of
     (Inr a, Inr b) \<Rightarrow> a \<le> b | _ \<Rightarrow> True)"

lemma wf_seriesD: "wf_series cs \<Longrightarrow> c \<in> set cs \<Longrightarrow> cd_low c \<le> cd_close c \<and> cd_close c \<le> cd_high c"
  by (simp add: wf_series_def list_all_iff)

lemma range_bottom_le: "c \<in> set cs \<Longrightarrow> range_bottom cs \<le> cd_low c"
  by (simp add: range_bottom_def)

lemma range_top_ge: "c \<in> set cs \<Longrightarrow> cd_high c \<le> range_top cs"
  by (simp add: range_top_def)

lemma last_in_tail: "py_tail n cs \<noteq> [] \<Longrightarrow> cs ! (length cs - Suc 0) \<in> set (py_tail n cs)"
proof -
  assume a: "py_tail n cs \<noteq> []"
  then obtain k where k: "py_tail n cs = drop k cs" "k < length cs"
    by (auto simp: py_tail_def last_n_def split: if_splits)
  then have "last (drop k cs) = last cs" by simp
  moreover have "last cs = cs ! (length cs - Suc 0)" using k(2) by (subst last_conv_nth) auto
  ultimately show ?thesis using a k(1) last_in_set [of "drop k cs"] by simp
qed

lemma tail_range:
  assumes "wf_series cs" "py_tail n cs \<noteq> []"
  shows "range_bottom (py_tail n cs) \<le> cd_close (cs ! (length cs - Suc 0))"
    "cd_close (cs ! (length cs - Suc 0)) \<le> range_top (py_tail n cs)"
proof -
  have m: "cs ! (length cs - Suc 0) \<in> set (py_tail n cs)" using last_in_tail assms(2) .
  moreover have "set (py_tail n cs) \<subseteq> set cs" using in_set_py_tail by fast
  ultimately have "cd_low (cs ! (length cs - Suc 0)) \<le> cd_close (cs ! (length cs - Suc 0)) \<and> cd_close (cs ! (length cs - Suc 0)) \<le> cd_high (cs ! (length cs - Suc 0))"
    using wf_seriesD [OF assms(1)] by blast
  then show "range_bottom (py_tail n cs) \<le> cd_close (cs ! (length cs - Suc 0))"
    "cd_close (cs ! (length cs - Suc 0)) \<le> range_top (py_tail n cs)"
    using range_bottom_le [OF m] range_top_ge [OF m] by linarith+
qed

section \<open>The pipeline under a contract\<close>

definition weights_ok :: "quant_strategy \<Rightarrow> bool" where
  "weights_ok q = list_all (\<lambda>n. case raw_param n q of
       Inr (SpWeights ws) \<Rightarrow> pd_wf ws \<and> list_all (\<lambda>(_, w). 0 \<le> w) ws | _ \<Rightarrow> True) [''score_weights'', ''confidence_weights'']"

lemma weights_okD:
  assumes "weights_ok q" "n \<in> {''score_weights'', ''confidence_weights''}" "raw_param n q = Inr (SpWeights ws)"
  shows "pd_wf ws" "\<forall>w \<in> set (map snd ws). 0 \<le> w"
  using assms by (auto simp: weights_ok_def list_all_iff split: prod.splits)

lemma pop_sum:
  "pd_wf ws \<Longrightarrow> pd_get ws n = Some w \<Longrightarrow> sum_list (map snd ws) = w + sum_list (map snd (pd_pop ws n))" for w :: real
proof (induction ws)
  case (Cons e ws)
  obtain k v where e: "e = (k, v)" by (cases e)
  show ?case
  proof (cases "k = n")
    case True
    have "pd_pop ws n = ws" using Cons.prems(1) e True by (force simp: pd_wf_def pd_pop_def intro!: filter_True)
    then show ?thesis using Cons.prems(2) e True by (simp add: pd_get_def pd_pop_def)
  next
    case False
    then show ?thesis using Cons e by (simp add: pd_wf_def pd_get_def pd_pop_def)
  qed
qed (simp add: pd_get_def)

lemma weighted_pop: "n \<notin> set (map fst vs) \<Longrightarrow> weighted (pd_pop ws n) vs = weighted ws vs"
  by (induction vs) (auto split: option.split)

lemma weighted_bounds:
  "pd_wf ws \<Longrightarrow> \<forall>w \<in> set (map snd ws). 0 \<le> w \<Longrightarrow> distinct (map fst vs) \<Longrightarrow> \<forall>v \<in> set (map snd vs). 0 \<le> v \<and> v \<le> 1 \<Longrightarrow>
   weighted ws vs = Inr s \<Longrightarrow> 0 \<le> s \<and> s \<le> sum_list (map snd ws)"
proof (induction vs arbitrary: ws s)
  case Nil
  then show ?case by (auto intro!: sum_list_nonneg)
next
  case (Cons e vs)
  obtain n v where e: "e = (n, v)" by (cases e)
  obtain w r where w: "pd_get ws n = Some w" "weighted ws vs = Inr r" "s = v * w + r"
    using Cons.prems(5) e by (auto simp: and_then_def split: option.splits sum.splits)
  have mem: "0 \<le> w" using w(1) Cons.prems(2) by (force simp: pd_get_def dest: map_of_SomeD)
  have "weighted (pd_pop ws n) vs = Inr r" using weighted_pop [of n vs ws] w(2) Cons.prems(3) e by simp
  moreover have "\<forall>w \<in> set (map snd (pd_pop ws n)). 0 \<le> w" using Cons.prems(2) by (auto simp: pd_pop_def)
  ultimately have "0 \<le> r \<and> r \<le> sum_list (map snd (pd_pop ws n))"
    using Cons.IH [of "pd_pop ws n" r] Cons.prems e by simp
  moreover have "0 \<le> v * w" "v * w \<le> w" using Cons.prems(4) e mem by (simp_all add: mult_left_le_one_le)
  ultimately show ?case using pop_sum [OF Cons.prems(1) w(1)] w(3) by simp
qed

lemma weighted_mean_bounds:
  assumes "pd_wf ws" "\<forall>w \<in> set (map snd ws). 0 \<le> w" "distinct (map fst vs)" "\<forall>v \<in> set (map snd vs). 0 \<le> v \<and> v \<le> 1"
    and "weighted_mean ws vs = Inr (Some r)"
  shows "0 \<le> r \<and> r \<le> 1"
proof -
  obtain s where s: "weighted ws vs = Inr s" "r = s / sum_list (map snd ws)" "0 < sum_list (map snd ws)"
    using assms(5) by (auto simp: weighted_mean_def and_then_def Let_def split: if_splits sum.splits)
  then show ?thesis using weighted_bounds [OF assms(1-4) s(1)] by (simp add: divide_le_eq)
qed

lemma clamp01_bounds [simp]: "0 \<le> clamp01 v" "clamp01 v \<le> 1"
  by (simp_all add: clamp01_def)

lemma assessed_score_bounds:
  assumes "weights_ok q" "score_of q a = Inr s" shows "0 \<le> s \<and> s \<le> 100"
proof -
  obtain ws r where ws: "raw_param ''score_weights'' q = Inr (SpWeights ws)" "weighted_mean ws (score_components a) = Inr r"
      "s = (case r of None \<Rightarrow> 0 | Some v \<Rightarrow> py_round 2 (v * 100))"
    using assms(2) by (auto simp: score_of_def and_then_def sp_weights_def split: sum.splits sparam.splits)
  show ?thesis
  proof (cases r)
    case (Some v)
    have "0 \<le> v \<and> v \<le> 1"
      by (rule weighted_mean_bounds [OF weights_okD(1) weights_okD(2), of q "''score_weights''" ws q "''score_weights''" "score_components a"])
         (use assms(1) ws Some in \<open>auto simp: score_components_def\<close>)
    then have "py_round 2 0 \<le> py_round 2 (v * 100)" "py_round 2 (v * 100) \<le> py_round 2 100"
      using py_round_mono [of 0 "v * 100" 2] py_round_mono [of "v * 100" 100 2] by simp_all
    moreover have "py_round 2 (100 :: real) = 100" by (rule py_round_grid) (simp add: on_grid_def)
    ultimately show ?thesis using ws(3) Some by simp
  qed (simp add: ws(3))
qed

lemma confidence_bounds:
  assumes "confidence_of q c cs = Inr r" shows "0 \<le> r \<and> r \<le> 1"
proof -
  obtain v where "r = (case v of None \<Rightarrow> 0 | Some s \<Rightarrow> py_round 4 (clamp01 s))"
    using assms by (auto simp: confidence_of_def and_then_def split: sum.splits)
  moreover have "0 \<le> py_round 4 (clamp01 s)" "py_round 4 (clamp01 s) \<le> 1" for s
    using py_round_mono [of 0 "clamp01 s" 4] py_round_mono [of "clamp01 s" 1 4] py_round_grid [of 4 1]
    by (simp_all add: on_grid_def)
  ultimately show ?thesis by (auto split: option.split)
qed

text \<open>What an emitted signal is, whatever strategy emitted it.\<close>

definition valid_signal :: "quant_strategy \<Rightarrow> analysis_ctx \<Rightarrow> strategy_signal option \<Rightarrow> bool" where
  "valid_signal q x r = (case r of None \<Rightarrow> True | Some s \<Rightarrow>
     strategy_validate s = [] \<and> sg_direction s \<noteq> Dir_Neutral \<and> sg_strategy_name s = kl_name (qy_class q)
     \<and> sg_symbol s = ac_symbol x \<and> sg_timestamp s = ac_fired_at x
     \<and> (case and_then (raw_param ''min_signal_score'' q) (sp_float (ac_lib x)) of Inr m \<Rightarrow> m \<le> sg_score s | Inl _ \<Rightarrow> False)
     \<and> (case and_then (raw_param ''signal_ttl_seconds'' q) (sp_float (ac_lib x)) of
          Inr ttl \<Rightarrow> sg_expiration s = Some (ac_fired_at x + timedelta_seconds ttl) | Inl _ \<Rightarrow> False))"

text \<open>The level checks of the registry fail exactly for a signal without a positive ratio of reward to risk.\<close>

definition levels_admitted :: "strategy_signal option \<Rightarrow> bool" where
  "levels_admitted r = (case r of None \<Rightarrow> True | Some s \<Rightarrow>
     (level_checks s = []) = (case sg_risk_reward s of None \<Rightarrow> False | Some rr \<Rightarrow> 0 < rr))"

lemma holds_confirm: "holds (confirm_one x sg n) (\<lambda>_. True)"
  unfolding confirm_one_def confirm_delta_def confirm_cvd_def confirm_volume_def confirm_book_def confirm_profile_def
  by (intro analysis) simp_all

lemma holds_confirm_all: "holds (confirm_all x sg ns) (\<lambda>_. True)"
  by (induction ns) (auto intro!: analysis holds_bind [OF holds_confirm] elim!: holds_bind)

lemma holds_emit:
  assumes "\<And>score cs confidence ttl minimum. score_of q a = Inr score \<Longrightarrow> confidence_of q (ac_context x) cs = Inr confidence \<Longrightarrow>
      and_then (raw_param ''min_signal_score'' q) (sp_float (ac_lib x)) = Inr minimum \<Longrightarrow> minimum \<le> score \<Longrightarrow>
      and_then (raw_param ''signal_ttl_seconds'' q) (sp_float (ac_lib x)) = Inr ttl \<Longrightarrow>
      P (Some (build_signal q x i a score cs confidence ttl))" "P None"
  shows "holds (emit q x i a) P"
  unfolding emit_def fparam_def
  by (intro analysis holds_bind [OF holds_confirm_all]) (use assms in auto)

definition series_of :: "quant_strategy \<Rightarrow> analysis_ctx \<Rightarrow> int \<Rightarrow> md_candle list" where
  "series_of q x n = st_candle_series (ac_symbol x) (kl_timeframe (qy_class q)) n (mv_store (ac_market x))"

lemma holds_analyze:
  assumes "\<And>n. holds (evaluate q x (series_of q x n)) Q" "P None"
    "\<And>a score cs confidence ttl minimum. Q (Some a) \<Longrightarrow> am_direction a \<noteq> Dir_Neutral \<Longrightarrow>
      score_of q a = Inr score \<Longrightarrow> confidence_of q (ac_context x) cs = Inr confidence \<Longrightarrow>
      and_then (raw_param ''min_signal_score'' q) (sp_float (ac_lib x)) = Inr minimum \<Longrightarrow> minimum \<le> score \<Longrightarrow>
      and_then (raw_param ''signal_ttl_seconds'' q) (sp_float (ac_lib x)) = Inr ttl \<Longrightarrow>
      P (Some (build_signal q x i a score cs confidence ttl))"
  shows "holds (analyze evaluate q x i) P"
proof -
  have spread: "holds (case pd_get (qy_parameters q) ''max_spread_bps'' of None \<Rightarrow> an_ret None | Some SpNone \<Rightarrow> an_ret None
      | Some v \<Rightarrow> an_lift (map_sum id Some (sp_float (ac_lib x) v))) (\<lambda>_. True)"
    by (auto intro!: analysis split: option.split sparam.split)
  show ?thesis
    unfolding analyze_def iparam_def fparam_def Let_def series_of_def [symmetric]
    by (intro analysis holds_bind [OF spread] holds_bind [OF assms(1)] holds_emit assms(2)) (use assms in auto)
qed

locale strategy_contract =
  fixes evaluate :: evaluator
  assumes reasons: "holds (evaluate q x cs) with_reasons"
begin

lemma emits_valid: "weights_ok q \<Longrightarrow> holds (analyze evaluate q x i) (valid_signal q x)"
proof (rule holds_analyze [OF reasons])
  fix a score cs confidence ttl minimum
  assume "weights_ok q" "with_reasons (Some a)" "am_direction a \<noteq> Dir_Neutral" "score_of q a = Inr score"
    "confidence_of q (ac_context x) cs = Inr confidence"
    "and_then (raw_param ''min_signal_score'' q) (sp_float (ac_lib x)) = Inr minimum" "minimum \<le> score"
    "and_then (raw_param ''signal_ttl_seconds'' q) (sp_float (ac_lib x)) = Inr ttl"
  then show "valid_signal q x (Some (build_signal q x i a score cs confidence ttl))"
    using assessed_score_bounds [of q a score] confidence_bounds [of q "ac_context x" cs confidence]
    by (simp add: valid_signal_def build_signal_def Let_def strategy_validate_def with_reasons_def)
qed (simp add: valid_signal_def)

end

text \<open>Candles of the store that are well formed, whatever part of the series is read.\<close>

definition wf_market :: "quant_strategy \<Rightarrow> analysis_ctx \<Rightarrow> bool" where
  "wf_market q x = wf_series (pd_get_or (st_candles (mv_store (ac_market x))) (upper (ac_symbol x), kl_timeframe (qy_class q)) [])"

lemma wf_market_series: "wf_market q x \<Longrightarrow> wf_series (series_of q x n)"
  by (auto simp: wf_market_def wf_series_def series_of_def st_candle_series_def list_all_iff dest: in_set_py_tail)

definition protected :: "strategy_signal option \<Rightarrow> bool" where
  "protected r = (case r of None \<Rightarrow> True | Some s \<Rightarrow> (case (sg_entry_zone s, sg_stop_loss s) of
       (Some z, Some stop) \<Rightarrow> (case sg_direction s of Dir_Long \<Rightarrow> stop \<le> ez_mid z | Dir_Short \<Rightarrow> ez_mid z \<le> stop | Dir_Neutral \<Rightarrow> False)
     | _ \<Rightarrow> False))"

lemma protected_of_assessment:
  "stop_right (Some a) \<Longrightarrow> am_direction a \<noteq> Dir_Neutral \<Longrightarrow> protected (Some (build_signal q x i a score cs confidence ttl))"
  by (auto simp: stop_right_def protected_def build_signal_def Let_def split: option.splits direction.splits)

locale stop_contract = strategy_contract +
  fixes sane :: "analysis_ctx \<Rightarrow> quant_strategy \<Rightarrow> bool"
  assumes stops: "sane x q \<Longrightarrow> wf_series cs \<Longrightarrow> holds (evaluate q x cs) stop_right"
begin

lemma emits_protected: "sane x q \<Longrightarrow> wf_market q x \<Longrightarrow> holds (analyze evaluate q x i) protected"
proof (rule holds_analyze)
  show "holds (evaluate q x (series_of q x n)) stop_right" if "sane x q" "wf_market q x" for n
    using stops wf_market_series that by blast
qed (use protected_of_assessment in \<open>auto simp: protected_def\<close>)

end

lemma levels_of_assessment:
  assumes "stop_right (Some a)" "target_right (Some a)" "am_direction a \<noteq> Dir_Neutral"
  shows "levels_admitted (Some (build_signal q x i a score cs confidence ttl))"
proof -
  obtain z s t where a: "am_entry a = Some z" "am_stop_loss a = Some s" "am_take_profit a = Some t"
    using assms(1,2) by (auto simp: stop_right_def target_right_def split: option.splits)
  have z: "ez_low z \<le> ez_high z" using assms(1) a by (simp add: stop_right_def)
  have zero: "py_round 2 (\<bar>t - ez_mid z\<bar> / \<bar>ez_mid z - s\<bar>) \<ge> 0" by (rule py_round_nonneg) simp
  consider "am_direction a = Dir_Long" | "am_direction a = Dir_Short" using assms(3) by (cases "am_direction a") auto
  then show ?thesis
  proof cases
    case 1
    then have "s \<le> ez_mid z" "ez_mid z \<le> t" using assms(1,2) a by (simp_all add: stop_right_def target_right_def)
    then show ?thesis
      using 1 a z zero by (cases "s = ez_mid z"; cases "t = ez_mid z")
        (auto simp: levels_admitted_def level_checks_def build_signal_def risk_reward_of_def Let_def ez_mid_def [symmetric])
  next
    case 2
    then have "ez_mid z \<le> s" "t \<le> ez_mid z" using assms(1,2) a by (simp_all add: stop_right_def target_right_def)
    then show ?thesis
      using 2 a z zero by (cases "s = ez_mid z"; cases "t = ez_mid z")
        (auto simp: levels_admitted_def level_checks_def build_signal_def risk_reward_of_def Let_def ez_mid_def [symmetric])
  qed
qed

lemma holds_conj: "holds m P \<Longrightarrow> holds m Q \<Longrightarrow> holds m (\<lambda>x. P x \<and> Q x)"
  by (auto simp: holds_def)

locale level_contract = stop_contract +
  assumes targets: "sane x q \<Longrightarrow> wf_series cs \<Longrightarrow> holds (evaluate q x cs) target_right"
begin

lemma emits_admitted: "sane x q \<Longrightarrow> wf_market q x \<Longrightarrow> holds (analyze evaluate q x i) levels_admitted"
proof (rule holds_analyze)
  show "holds (evaluate q x (series_of q x n)) (\<lambda>r. stop_right r \<and> target_right r)" if "sane x q" "wf_market q x" for n
    using stops targets wf_market_series that by (intro holds_conj) blast+
qed (use levels_of_assessment in \<open>auto simp: levels_admitted_def\<close>)

end

end
