(* ===== verification/Strategies_Smc.thy ===== *)
theory Strategies_Smc
  imports Strategy_Contract
begin

text \<open>
  The smart-money strategies (\<open>app/strategies/smc\<close>): break of structure, change of character, fair value gap, liquidity
  sweep, market structure shift and order block.
\<close>

definition smc_of :: "quant_strategy \<Rightarrow> analysis_ctx \<Rightarrow> smc_analysis option analysis" where
  "smc_of q x = an_bind (an_get_object x ''smc'' [tf_param q]) (\<lambda>v. an_ret (case v of FV_Smc s \<Rightarrow> s | _ \<Rightarrow> None))"

definition class_of :: "string \<Rightarrow> string \<Rightarrow> string list \<Rightarrow> string list \<Rightarrow> sparams \<Rightarrow> strategy_class" where
  "class_of name category regimes volatility parameters = \<lparr> kl_name = name, kl_version = ''1.0'', kl_category = category,
     kl_symbols = [], kl_timeframe = TF_M1, kl_cadence = \<lparr> ca_kind = CK_EVERY_CANDLE, ca_timeframe = Some TF_M1, ca_seconds = 1 \<rparr>,
     kl_preferred_regimes = regimes, kl_preferred_volatility = volatility, kl_default_parameters = parameters \<rparr>"

definition usual_volatility :: "string list" where "usual_volatility = [''normal'', ''high'']"

definition dir_of_move :: "move \<Rightarrow> direction" where
  "dir_of_move m = (case m of MV_Up \<Rightarrow> Dir_Long | MV_Down \<Rightarrow> Dir_Short)"

definition side_of_move :: "move \<Rightarrow> bias_side" where
  "side_of_move m = (case m of MV_Up \<Rightarrow> BS_Bullish | MV_Down \<Rightarrow> BS_Bearish)"

definition break_kind_value :: "break_kind \<Rightarrow> string" where
  "break_kind_value k = (case k of BK_BOS \<Rightarrow> ''BOS'' | BK_CHOCH \<Rightarrow> ''CHOCH'')"

section \<open>Break of structure\<close>

definition bos_class :: strategy_class where
  "bos_class = class_of ''bos'' ''smc'' [''trending'', ''breakout''] usual_volatility
     [(''recent_bars'', SpNum 8), (''retest_atr'', SpNum (75/100)), (''stop_buffer_atr'', SpNum (75/100)),
      (''risk_reward'', SpNum 2), (''confirmations'', SpNames [''volume''])]"

definition bos_evaluate :: evaluator where
  "bos_evaluate q x cs =
     an_bind (smc_of q x) (\<lambda>smc. case smc of None \<Rightarrow> an_ret None | Some smc \<Rightarrow>
     if sm_breaks smc = [] then an_ret None else
     an_bind (iparam q ''recent_bars'') (\<lambda>recent_bars.
     let bos = filter (\<lambda>b. br_kind b = BK_BOS \<and> int (br_index b) \<ge> int (length cs) - recent_bars) (sm_breaks smc) in
     if bos = [] then an_ret None else
     let event = List.last bos in
     an_bind (candle_back 1 cs) (\<lambda>final.
     an_bind (fparam x q ''retest_atr'') (\<lambda>retest_atr.
     if \<bar>cd_close final - br_level event\<bar> > retest_atr * sm_atr smc then an_ret None else
     let d = dir_of_move (br_direction event) in
     an_bind (fparam x q ''stop_buffer_atr'') (\<lambda>buffer.
     an_bind (fparam x q ''risk_reward'') (\<lambda>rr.
     let stop = protective_stop d (br_level event) (sm_atr smc) buffer;
         entry = entry_zone_around (cd_close final) (sm_atr smc) (15/100)
     in assess d (clamp01 (4/10 + br_displacement event * (15/100))) (clamp01 (br_displacement event / 2)) (9/10) (55/100)
          (volatility_risk q x (3/10))
          [Fmt ''BOS {} confirmado sobre {:.4f} (desplazamiento {:.1f} ATR).''
             [ArgStr (move_value (br_direction event)), ArgReal (br_level event), ArgReal (br_displacement event)],
           Lit ''Precio retesteando el nivel roto (cambio de polaridad).'']
          [] entry stop (target_from_rr (ez_mid entry) stop rr)
          [(''level'', JNum (br_level event)), (''displacement'', JNum (py_round 2 (br_displacement event)))]))))))"

section \<open>Change of character\<close>

definition choch_class :: strategy_class where
  "choch_class = class_of ''choch'' ''smc'' [''reversal'', ''ranging''] usual_volatility
     [(''recent_bars'', SpNum 5), (''origin_window'', SpNum 10), (''stop_buffer_atr'', SpNum (1/2)),
      (''risk_reward'', SpNum (3/2)), (''confirmations'', SpNames [''delta'', ''cvd''])]"

text \<open>The extreme of the window a reversal starts from.\<close>

definition origin_of :: "direction \<Rightarrow> md_candle list \<Rightarrow> real analysis" where
  "origin_of d window = (if d = Dir_Long then lowest window else highest window)"

definition choch_evaluate :: evaluator where
  "choch_evaluate q x cs =
     an_bind (smc_of q x) (\<lambda>smc. case smc of None \<Rightarrow> an_ret None | Some smc \<Rightarrow>
     if sm_breaks smc = [] then an_ret None else
     an_bind (iparam q ''recent_bars'') (\<lambda>recent_bars.
     let choch = filter (\<lambda>b. br_kind b = BK_CHOCH \<and> int (br_index b) \<ge> int (length cs) - recent_bars) (sm_breaks smc) in
     if choch = [] then an_ret None else
     let event = List.last choch in
     an_bind (candle_back 1 cs) (\<lambda>final.
     let d = dir_of_move (br_direction event) in
     an_bind (iparam q ''origin_window'') (\<lambda>origin_window.
     an_bind (origin_of d (py_tail origin_window cs)) (\<lambda>origin.
     an_bind (fparam x q ''stop_buffer_atr'') (\<lambda>buffer.
     let stop = protective_stop d origin (sm_atr smc) buffer;
         entry = entry_zone_around (cd_close final) (sm_atr smc) (15/100)
     in
     an_bind (case sm_premium_discount smc of
                Some z \<Rightarrow> an_ret (pz_equilibrium z)
              | None \<Rightarrow> an_bind (fparam x q ''risk_reward'') (\<lambda>rr. an_ret (target_from_rr (ez_mid entry) stop rr))) (\<lambda>target.
       assess d (clamp01 (35/100 + br_displacement event * (15/100))) (clamp01 (br_displacement event / 2)) (7/10) (45/100)
          (volatility_risk q x (4/10))
          [Fmt ''CHOCH {} sobre {:.4f}: primer cierre contra la estructura vigente.''
             [ArgStr (move_value (br_direction event)), ArgReal (br_level event)],
           Fmt ''Desplazamiento {:.1f} ATR.'' [ArgReal (br_displacement event)],
           Lit ''Reversion temprana: objetivo en el equilibrium del rango.'']
          [Lit ''Senal anticipada: exige confirmacion de order flow.''] entry stop target
          [(''level'', JNum (br_level event)), (''displacement'', JNum (py_round 2 (br_displacement event)))])))))))"

section \<open>Market structure shift\<close>

definition mss_class :: strategy_class where
  "mss_class = class_of ''mss'' ''smc'' [''reversal'', ''expansion''] usual_volatility
     [(''recent_bars'', SpNum 6), (''origin_window'', SpNum 12), (''stop_buffer_atr'', SpNum (1/2)),
      (''risk_reward'', SpNum (5/2)), (''confirmations'', SpNames [''delta''])]"

definition mss_evaluate :: evaluator where
  "mss_evaluate q x cs =
     an_bind (smc_of q x) (\<lambda>smc. case smc of None \<Rightarrow> an_ret None | Some smc \<Rightarrow>
     if sm_breaks smc = [] then an_ret None else
     an_bind (iparam q ''recent_bars'') (\<lambda>recent_bars.
     let shifts = filter (\<lambda>b. br_mss b \<and> int (br_index b) \<ge> int (length cs) - recent_bars) (sm_breaks smc) in
     if shifts = [] then an_ret None else
     let event = List.last shifts in
     an_bind (candle_back 1 cs) (\<lambda>final.
     let d = dir_of_move (br_direction event) in
     an_bind (iparam q ''origin_window'') (\<lambda>origin_window.
     an_bind (origin_of d (py_tail origin_window cs)) (\<lambda>origin.
     an_bind (fparam x q ''stop_buffer_atr'') (\<lambda>buffer.
     let stop = protective_stop d origin (sm_atr smc) buffer;
         entry = entry_zone_around (cd_close final) (sm_atr smc) (15/100)
     in
     an_bind (case sm_premium_discount smc of
                Some z \<Rightarrow> an_ret (if d = Dir_Long then pz_range_high z else pz_range_low z)
              | None \<Rightarrow> an_bind (fparam x q ''risk_reward'') (\<lambda>rr. an_ret (target_from_rr (ez_mid entry) stop rr))) (\<lambda>target.
       assess d (clamp01 (55/100 + br_displacement event * (1/10))) (clamp01 (br_displacement event / (5/2))) (85/100) (55/100)
          (volatility_risk q x (3/10))
          [Fmt ''Market Structure Shift {}: CHOCH con desplazamiento de {:.1f} ATR sobre {:.4f}.''
             [ArgStr (move_value (br_direction event)), ArgReal (br_displacement event), ArgReal (br_level event)],
           Lit ''Giro estructural confirmado por la vela de desplazamiento.'']
          [] entry stop target
          [(''level'', JNum (br_level event)), (''displacement'', JNum (py_round 2 (br_displacement event)))])))))))"

section \<open>Fair value gap and order block\<close>

text \<open>The target of both: the extreme of the swings on the side of the trade, or a multiple of the risk.\<close>

definition swing_prices :: "level_kind \<Rightarrow> smc_analysis \<Rightarrow> real list" where
  "swing_prices k smc = map sw_price (filter (\<lambda>s. sw_kind s = k) (sm_swings smc))"

definition swing_target :: "analysis_ctx \<Rightarrow> quant_strategy \<Rightarrow> smc_analysis \<Rightarrow> direction \<Rightarrow> real \<Rightarrow> real \<Rightarrow> real analysis" where
  "swing_target x q smc d entry_mid stop =
     (let extremes = (if d = Dir_Long then swing_prices LK_High smc else swing_prices LK_Low smc) in
      if extremes = [] then an_bind (fparam x q ''risk_reward'') (\<lambda>rr. an_ret (target_from_rr entry_mid stop rr))
      else an_ret (if d = Dir_Long then Max (set extremes) else Min (set extremes)))"

definition fvg_class :: strategy_class where
  "fvg_class = class_of ''fair_value_gap'' ''smc'' [''trending'', ''breakout''] usual_volatility
     [(''min_open_fraction'', SpNum (1/2)), (''stop_buffer_atr'', SpNum (1/2)), (''risk_reward'', SpNum 2),
      (''confirmations'', SpNames [''delta''])]"

definition fvg_evaluate :: evaluator where
  "fvg_evaluate q x cs =
     an_bind (smc_of q x) (\<lambda>smc. case smc of None \<Rightarrow> an_ret None | Some smc \<Rightarrow>
     if sm_breaks smc = [] then an_ret None else
     let event = List.last (sm_breaks smc); wanted = side_of_move (br_direction event) in
     an_bind (fparam x q ''min_open_fraction'') (\<lambda>min_open.
     let gaps = filter (\<lambda>g. fg_direction g = wanted \<and> fg_open_fraction g \<ge> min_open) (sm_fvgs smc) in
     if gaps = [] then an_ret None else
     let gap = List.last gaps in
     an_bind (candle_back 1 cs) (\<lambda>final.
     let bullish = (fg_direction gap = BS_Bullish);
         touching = (if bullish then cd_low final \<le> fg_top gap \<and> cd_close final > fg_bottom gap
                     else cd_high final \<ge> fg_bottom gap \<and> cd_close final < fg_top gap);
         d = (if bullish then Dir_Long else Dir_Short);
         reference = (if bullish then fg_bottom gap else fg_top gap) in
     if \<not> touching then an_ret None else
     an_bind (detect (FVGDetected (kl_name (qy_class q)) (ac_symbol x) (fg_direction gap) (fg_top gap) (fg_bottom gap))) (\<lambda>_.
     an_bind (fparam x q ''stop_buffer_atr'') (\<lambda>buffer.
     let stop = protective_stop d reference (sm_atr smc) buffer in
     an_bind (swing_target x q smc d (fg_mid gap) stop) (\<lambda>target.
     let size = (if sm_atr smc > 0 then (fg_top gap - fg_bottom gap) / sm_atr smc else 0) in
       assess d (fg_open_fraction gap) (clamp01 (size / (3/2))) (85/100) (clamp01 (4/10 + 2/10 * fg_open_fraction gap))
          (volatility_risk q x (3/10))
          [Fmt ''FVG {} abierto ({:.0%}) en [{:.4f}, {:.4f}].''
             [ArgStr (bias_side_value (fg_direction gap)), ArgReal (fg_open_fraction gap), ArgReal (fg_bottom gap), ArgReal (fg_top gap)],
           Fmt ''Alineado con la ultima ruptura ({}).'' [ArgStr (break_kind_value (br_kind event))],
           Lit ''Precio mitigando el imbalance.'']
          [] \<lparr> ez_low = fg_bottom gap, ez_high = fg_top gap \<rparr> stop target
          [(''gap_top'', JNum (fg_top gap)), (''gap_bottom'', JNum (fg_bottom gap))]))))))"

definition order_block_class :: strategy_class where
  "order_block_class = class_of ''order_block'' ''smc'' [''trending'', ''breakout''] usual_volatility
     [(''allow_mitigated'', SpBool False), (''stop_buffer_atr'', SpNum (1/2)), (''risk_reward'', SpNum 2),
      (''confirmations'', SpNames [''delta''])]"

definition order_block_evaluate :: evaluator where
  "order_block_evaluate q x cs =
     an_bind (smc_of q x) (\<lambda>smc. case smc of None \<Rightarrow> an_ret None | Some smc \<Rightarrow>
     if sm_breaks smc = [] then an_ret None else
     let event = List.last (sm_breaks smc); wanted = side_of_move (br_direction event) in
     an_bind (an_lift (raw_param ''allow_mitigated'' q)) (\<lambda>allow.
     let blocks = filter (\<lambda>b. zb_direction b = wanted \<and> \<not> zb_breaker b \<and> (sp_truth allow \<or> \<not> zb_mitigated b)) (sm_order_blocks smc) in
     if blocks = [] then an_ret None else
     let block = List.last blocks in
     an_bind (candle_back 1 cs) (\<lambda>final.
     let bullish = (zb_direction block = BS_Bullish);
         interacting = (if bullish then cd_low final \<le> zb_top block \<and> cd_close final \<ge> zb_bottom block
                        else cd_high final \<ge> zb_bottom block \<and> cd_close final \<le> zb_top block);
         d = (if bullish then Dir_Long else Dir_Short);
         reference = (if bullish then zb_bottom block else zb_top block) in
     if \<not> interacting then an_ret None else
     an_bind (detect (OrderBlockDetected (kl_name (qy_class q)) (ac_symbol x) (zb_direction block) (zb_top block) (zb_bottom block)
       (zb_mitigated block))) (\<lambda>_.
     an_bind (fparam x q ''stop_buffer_atr'') (\<lambda>buffer.
     let stop = protective_stop d reference (sm_atr smc) buffer in
     an_bind (swing_target x q smc d ((zb_top block + zb_bottom block) / 2) stop) (\<lambda>target.
       assess d (if \<not> zb_mitigated block then 7/10 else 45/100) (clamp01 (br_displacement event / 3)) (9/10)
          (if \<not> zb_mitigated block then 55/100 else 45/100) (volatility_risk q x (3/10))
          [Fmt ''Order block {} en [{:.4f}, {:.4f}] ({}).''
             [ArgStr (bias_side_value (zb_direction block)), ArgReal (zb_bottom block), ArgReal (zb_top block),
              ArgStr (if \<not> zb_mitigated block then ''fresco'' else ''mitigado'')],
           Fmt ''Alineado con la ultima ruptura estructural ({} {}).''
             [ArgStr (break_kind_value (br_kind event)), ArgStr (move_value (br_direction event))],
           Lit ''Precio interactuando con la zona.'']
          [] \<lparr> ez_low = zb_bottom block, ez_high = zb_top block \<rparr> stop target
          [(''block_top'', JNum (zb_top block)), (''block_bottom'', JNum (zb_bottom block))]))))))"

section \<open>Liquidity sweep\<close>

definition liquidity_sweep_class :: strategy_class where
  "liquidity_sweep_class = class_of ''liquidity_sweep'' ''smc'' [''ranging'', ''reversal''] usual_volatility
     [(''recent_bars'', SpNum 3), (''stop_buffer_atr'', SpNum (1/4)), (''risk_reward'', SpNum 2),
      (''confirmations'', SpNames [''delta'', ''cvd''])]"

definition liquidity_sweep_evaluate :: evaluator where
  "liquidity_sweep_evaluate q x cs =
     an_bind (an_get_object x ''liquidity'' [tf_param q]) (\<lambda>v.
     an_bind (atr_or_none q x) (\<lambda>atr. case (v, atr) of
       (FV_Liquidity (Some lmap), Some atr) \<Rightarrow>
         if atr \<le> 0 then an_ret None else
         an_bind (iparam q ''recent_bars'') (\<lambda>recent_bars.
         let hunts = filter (\<lambda>h. hu_rejection h \<and> int (hu_index h) \<ge> int (length cs) - recent_bars) (lm_hunts lmap) in
         if hunts = [] then an_ret None else
         let hunt = List.last hunts; pool = hu_pool hunt in
         an_bind (an_lift (if hu_index hunt < length cs then Inr (cs ! hu_index hunt) else Inl IndexError)) (\<lambda>swept.
         an_bind (candle_back 1 cs) (\<lambda>final.
         let low_pool = (po_kind pool = LK_Low);
             d = (if low_pool then Dir_Long else Dir_Short);
             reference = (if low_pool then cd_low swept else cd_high swept);
             opposite = nearest_pool (cd_close final) (if low_pool then LK_High else LK_Low) lmap in
         an_bind (detect (LiquidityDetected (kl_name (qy_class q)) (ac_symbol x) ''stop_hunt'' (po_level pool)
           (Fmt ''barrido de {}s con rechazo (mecha {:.0%})'' [ArgStr (level_kind_value (po_kind pool)), ArgReal (hu_wick_ratio hunt)]))) (\<lambda>_.
         an_bind (fparam x q ''stop_buffer_atr'') (\<lambda>buffer.
         let stop = protective_stop d reference atr buffer; entry = entry_zone_around (cd_close final) atr (15/100) in
         an_bind (case opposite of
                    Some p \<Rightarrow> an_ret (po_level p)
                  | None \<Rightarrow> an_bind (fparam x q ''risk_reward'') (\<lambda>rr. an_ret (target_from_rr (ez_mid entry) stop rr))) (\<lambda>target.
           assess d (clamp01 (35/100 + 15/100 * real (po_strength pool) + 3/10 * hu_wick_ratio hunt)) (hu_wick_ratio hunt)
              (if \<not> po_internal pool then 9/10 else 6/10) (clamp01 (45/100 + 1/10 * real (po_strength pool)))
              (volatility_risk q x (3/10))
              [Fmt ''Liquidity sweep detectado sobre pool de {}s en {:.4f} (fuerza {}).''
                 [ArgStr (level_kind_value (po_kind pool)), ArgReal (po_level pool), ArgInt (int (po_strength pool))],
               Fmt ''Rechazo con mecha del {:.0%} y cierre de vuelta.'' [ArgReal (hu_wick_ratio hunt)],
               if \<not> po_internal pool then Lit ''Liquidez externa barrida.'' else Lit ''Liquidez interna.'']
              [] entry stop target
              [(''pool_level'', JNum (po_level pool)), (''pool_strength'', JInt (int (po_strength pool)))]))))))
     | _ \<Rightarrow> an_ret None))"

section \<open>The contracts\<close>

lemmas smc_unfold = smc_of_def swing_target_def origin_of_def analysis_unfold

definition any_sane :: "analysis_ctx \<Rightarrow> quant_strategy \<Rightarrow> bool" where "any_sane x q = True"

definition bos_sane :: "analysis_ctx \<Rightarrow> quant_strategy \<Rightarrow> bool" where
  "bos_sane x q = (positive x q [''retest_atr'', ''stop_buffer_atr'', ''risk_reward''] \<and> ordered_params x q ''retest_atr'' ''stop_buffer_atr'')"

text \<open>A retest no further away than the stop keeps the stop on the losing side.\<close>

lemma bos_retest:
  assumes "bos_sane x q" "and_then (raw_param ''retest_atr'' q) (sp_float (ac_lib x)) = Inr a"
    "and_then (raw_param ''stop_buffer_atr'' q) (sp_float (ac_lib x)) = Inr b" "\<not> a * v < \<bar>c - l\<bar>"
  shows "protective_stop Dir_Long l v b \<le> c" "c \<le> protective_stop Dir_Short l v b"
proof -
  have "0 < a" "a \<le> b" using assms(1-3) by (auto simp: bos_sane_def ordered_params_def dest: positiveD)
  moreover have "\<bar>c - l\<bar> \<le> a * v" using assms(4) by simp
  moreover have "0 \<le> v" using calculation(1,3) by (smt (verit) mult_pos_neg)
  ultimately have "\<bar>c - l\<bar> \<le> v * b" by (smt (verit) mult.commute mult_right_mono)
  then show "protective_stop Dir_Long l v b \<le> c" "c \<le> protective_stop Dir_Short l v b"
    by (auto simp: protective_stop_def Let_def)
qed

lemma bos_reward: "bos_sane x q \<Longrightarrow> and_then (raw_param ''risk_reward'' q) (sp_float (ac_lib x)) = Inr r \<Longrightarrow> 0 \<le> r"
  by (rule less_imp_le) (auto simp: bos_sane_def dest: positiveD)

interpretation bos: level_contract bos_evaluate bos_sane
proof
  show "holds (bos_evaluate q x cs) with_reasons" for q x cs
    unfolding bos_evaluate_def smc_unfold analysis_binds by (intro analysis) (simp_all add: rights)
  show "holds (bos_evaluate q x cs) stop_right" if "bos_sane x q" for q x cs
    unfolding bos_evaluate_def smc_unfold analysis_binds using that
    by (intro analysis) (auto simp: rights dir_of_move_def bos_retest split: move.split)
  show "holds (bos_evaluate q x cs) target_right" if "bos_sane x q" for q x cs
    unfolding bos_evaluate_def smc_unfold analysis_binds using that
    by (intro analysis) (auto simp: rights dir_of_move_def bos_retest bos_reward intro!: target_from_rr_side split: move.split)
qed

text \<open>The stop beyond the extreme of a window that holds the last candle.\<close>

lemma stop_beyond_tail:
  assumes "wf_series cs" "py_tail n cs \<noteq> []"
  shows "protective_stop Dir_Long (range_bottom (py_tail n cs)) v b \<le> cd_close (cs ! (length cs - Suc 0))"
    "cd_close (cs ! (length cs - Suc 0)) \<le> protective_stop Dir_Short (range_top (py_tail n cs)) v b"
  using tail_range [OF assms] protective_stop_bounds [where a = v and b = b] by (meson order_trans)+

interpretation choch: stop_contract choch_evaluate any_sane
proof
  show "holds (choch_evaluate q x cs) with_reasons" for q x cs
    unfolding choch_evaluate_def smc_unfold analysis_binds by (intro analysis) (simp_all add: rights)
  show "holds (choch_evaluate q x cs) stop_right" if "wf_series cs" for q x cs
    unfolding choch_evaluate_def smc_unfold analysis_binds using that
    by (intro analysis) (auto simp: rights dir_of_move_def stop_beyond_tail split: move.splits if_splits)
qed

interpretation mss: stop_contract mss_evaluate any_sane
proof
  show "holds (mss_evaluate q x cs) with_reasons" for q x cs
    unfolding mss_evaluate_def smc_unfold analysis_binds by (intro analysis) (simp_all add: rights)
  show "holds (mss_evaluate q x cs) stop_right" if "wf_series cs" for q x cs
    unfolding mss_evaluate_def smc_unfold analysis_binds using that
    by (intro analysis) (auto simp: rights dir_of_move_def stop_beyond_tail split: move.splits if_splits)
qed

lemma zone_stop:
  assumes "lo \<le> hi"
  shows "protective_stop Dir_Long lo v b * 2 \<le> lo + hi" "lo + hi \<le> protective_stop Dir_Short hi v b * 2"
proof -
  have "protective_stop Dir_Long lo v b \<le> lo" "hi \<le> protective_stop Dir_Short hi v b" by (rule protective_stop_bounds)+
  with assms show "protective_stop Dir_Long lo v b * 2 \<le> lo + hi" "lo + hi \<le> protective_stop Dir_Short hi v b * 2" by linarith+
qed

lemma last_gap: "sound_value (FV_Smc (Some s)) \<Longrightarrow> filter P (sm_fvgs s) \<noteq> [] \<Longrightarrow>
  fg_bottom (last (filter P (sm_fvgs s))) \<le> fg_top (last (filter P (sm_fvgs s)))"
  using last_in_set [of "filter P (sm_fvgs s)"] by (auto simp: sound_value_def list_all_iff)

lemma last_block: "sound_value (FV_Smc (Some s)) \<Longrightarrow> filter P (sm_order_blocks s) \<noteq> [] \<Longrightarrow>
  zb_bottom (last (filter P (sm_order_blocks s))) \<le> zb_top (last (filter P (sm_order_blocks s)))"
  using last_in_set [of "filter P (sm_order_blocks s)"] by (auto simp: sound_value_def list_all_iff)

lemma smc_value: "(case v of FV_Smc r \<Rightarrow> r | _ \<Rightarrow> None) = Some s \<Longrightarrow> v = FV_Smc (Some s)"
  by (cases v) simp_all

interpretation fvg: stop_contract fvg_evaluate any_sane
proof
  show "holds (fvg_evaluate q x cs) with_reasons" for q x cs
    unfolding fvg_evaluate_def smc_unfold analysis_binds by (intro analysis) (simp_all add: rights)
  show "holds (fvg_evaluate q x cs) stop_right" for q x cs
    unfolding fvg_evaluate_def smc_unfold analysis_binds
    by (intro analysis) (auto simp: rights ez_mid_def last_gap last_gap [THEN zone_stop(1)] last_gap [THEN zone_stop(2)] dest!: smc_value)
qed

interpretation order_block: stop_contract order_block_evaluate any_sane
proof
  show "holds (order_block_evaluate q x cs) with_reasons" for q x cs
    unfolding order_block_evaluate_def smc_unfold analysis_binds by (intro analysis) (simp_all add: rights)
  show "holds (order_block_evaluate q x cs) stop_right" for q x cs
    unfolding order_block_evaluate_def smc_unfold analysis_binds
    by (intro analysis) (auto simp: rights ez_mid_def last_block last_block [THEN zone_stop(1)] last_block [THEN zone_stop(2)] dest!: smc_value)
qed

interpretation liquidity_sweep: strategy_contract liquidity_sweep_evaluate
proof
  show "holds (liquidity_sweep_evaluate q x cs) with_reasons" for q x cs
    unfolding liquidity_sweep_evaluate_def smc_unfold analysis_binds
    by (intro analysis) (auto simp: rights intro!: analysis split: feature_value.split option.split)
qed

end
