(* ===== verification/Strategies_Price.thy ===== *)
theory Strategies_Price
  imports Strategies_Smc
begin

text \<open>
  The strategies on price: breakouts (\<open>app/strategies/breakout\<close>), reversion to the mean
  (\<open>app/strategies/mean_reversion\<close>) and momentum (\<open>app/strategies/momentum\<close>).  The lookback of the range is at
  least 1.
\<close>

definition vwap_bands_feature :: "quant_strategy \<Rightarrow> analysis_ctx \<Rightarrow> string \<Rightarrow> vwap_bands option analysis" where
  "vwap_bands_feature q x anchor =
     an_bind (an_get_object x ''vwap_bands'' [tf_param q, (''anchor'', PmStr anchor)]) (\<lambda>v.
       an_ret (case v of FV_Bands b \<Rightarrow> b | _ \<Rightarrow> None))"

text \<open>\<open>str(self.parameters[name])\<close>: a value that is not a text prints to one that names no anchor.\<close>

definition text_param :: "quant_strategy \<Rightarrow> string \<Rightarrow> string analysis" where
  "text_param q name = an_lift (and_then (raw_param name q) (\<lambda>v. Inr (case v of SpStr s \<Rightarrow> s | _ \<Rightarrow> [])))"

section \<open>Opening range breakout\<close>

definition opening_range_class :: strategy_class where
  "opening_range_class = class_of ''opening_range_breakout'' ''breakout'' [''breakout'', ''expansion'', ''trending''] usual_volatility
     [(''range_minutes'', SpNum 30), (''min_volume_ratio'', SpNum (12/10)), (''target_extension'', SpNum 1),
      (''confirmations'', SpNames [''volume'', ''delta''])]"

definition opening_range_evaluate :: evaluator where
  "opening_range_evaluate q x cs =
     an_bind (an_lift (session_anchor ''day'' (ac_fired_at x))) (\<lambda>anchor.
     an_bind (fparam x q ''range_minutes'') (\<lambda>minutes.
     let range_end = anchor + timedelta_minutes minutes in
     if ac_fired_at x \<le> range_end then an_ret None else
     let opening = filter (\<lambda>c. anchor \<le> cd_start c \<and> cd_start c < range_end) cs;
         after = filter (\<lambda>c. cd_start c \<ge> range_end) cs in
     if length opening < 3 \<or> after = [] then an_ret None else
     let or_high = range_top opening; or_low = range_bottom opening; height = or_high - or_low in
     if height \<le> 0 then an_ret None else
     let final = List.last after in
     if list_ex (\<lambda>c. cd_close c > or_high \<or> cd_close c < or_low) (butlast after) then an_ret None else
     if cd_close final > or_high \<or> cd_close final < or_low then
       an_bind (fparam x q ''target_extension'') (\<lambda>extension.
       let up = (cd_close final > or_high); d = (if up then Dir_Long else Dir_Short); level = (if up then or_high else or_low);
           target = (if up then cd_close final + height * extension else cd_close final - height * extension) in
       an_bind (an_get x ''volume_ratio'' [tf_param q]) (\<lambda>volume_ratio.
       let ratio = (case volume_ratio of None \<Rightarrow> 0 | Some r \<Rightarrow> r) in
       an_bind (atr_or_none q x) (\<lambda>atr. case atr of None \<Rightarrow> an_ret None | Some atr \<Rightarrow>
       if atr \<le> 0 then an_ret None else
       an_bind (fparam x q ''min_volume_ratio'') (\<lambda>min_ratio.
       an_bind (py_div ratio (min_ratio * (3/2))) (\<lambda>share.
         assess d (clamp01 share) (body_ratio final) (85/100) (clamp01 (45/100 + min (ratio - 1) 1 * (15/100)))
           (volatility_risk q x (3/10))
           [Fmt ''Primera ruptura del opening range [{:.4f}, {:.4f}] ({:.0f} min).'' [ArgReal or_low, ArgReal or_high, ArgReal minutes],
            Fmt ''Cierre {} {:.4f} con volumen {:.2f}x.'' [ArgStr (if up then ''sobre'' else ''bajo''), ArgReal level, ArgReal ratio]]
           (if ratio < min_ratio then [Fmt ''Volumen {:.2f}x bajo el minimo {:.1f}x.'' [ArgReal ratio, ArgReal min_ratio]] else [])
           (entry_zone_around (cd_close final) atr (15/100)) ((or_high + or_low) / 2) target
           [(''or_high'', JNum or_high), (''or_low'', JNum or_low), (''volume_ratio'', JNum (py_round 2 ratio))])))))
     else an_ret None))"

section \<open>Range breakout\<close>

definition range_breakout_class :: strategy_class where
  "range_breakout_class = class_of ''range_breakout'' ''breakout'' [''breakout'', ''expansion'', ''trending''] usual_volatility
     [(''range_lookback'', SpNum 20), (''min_volume_ratio'', SpNum (12/10)), (''fake_scan'', SpNum 5),
      (''stop_buffer_atr'', SpNum (1/2)), (''target_range_mult'', SpNum 1), (''confirmations'', SpNames [''volume'', ''delta''])]"

definition range_breakout_evaluate :: evaluator where
  "range_breakout_evaluate q x cs =
     an_bind (atr_or_none q x) (\<lambda>atr. case atr of None \<Rightarrow> an_ret None | Some atr \<Rightarrow>
     if atr \<le> 0 then an_ret None else
     an_bind (iparam q ''range_lookback'') (\<lambda>lookback.
     an_bind (fparam x q ''min_volume_ratio'') (\<lambda>min_ratio.
     if lookback < 1 then an_lift (Inl ValueError) else
     case detect_breakout (nat lookback) min_ratio cs of None \<Rightarrow> an_ret None | Some b \<Rightarrow>
     if \<not> bo_valid b then an_ret None else
     let prior = prior_range (nat lookback) cs; height = range_top prior - range_bottom prior in
     an_bind (iparam q ''fake_scan'') (\<lambda>scan.
     let fakes = filter (\<lambda>m. m = bo_direction b) (fake_breakouts (nat lookback) (nat scan) (butlast cs)) in
     an_bind (candle_back 1 cs) (\<lambda>final.
     let d = dir_of_move (bo_direction b) in
     an_bind (fparam x q ''stop_buffer_atr'') (\<lambda>buffer.
     let stop = protective_stop d (bo_level b) atr buffer in
     an_bind (fparam x q ''target_range_mult'') (\<lambda>mult.
     let extension = height * mult; target = (if d = Dir_Long then cd_close final + extension else cd_close final - extension) in
       assess d (clamp01 (bo_volume_ratio b / 2)) (body_ratio final) (85/100) (clamp01 (55/100 - 1/10 * real (length fakes)))
         (volatility_risk q x (3/10))
         [Fmt ''Ruptura {} del rango de {} velas sobre {:.4f}.'' [ArgStr (move_value (bo_direction b)), ArgInt lookback, ArgReal (bo_level b)],
          Fmt ''Validada por volumen ({:.2f}x) y cierre fuera.'' [ArgReal (bo_volume_ratio b)],
          Lit ''Objetivo por proyeccion del alto del rango.'']
         (if fakes \<noteq> [] then [Fmt ''{} falsa(s) ruptura(s) reciente(s) en la misma direccion.'' [ArgInt (int (length fakes))]] else [])
         (entry_zone_around (cd_close final) atr (15/100)) stop target
         [(''level'', JNum (bo_level b)), (''volume_ratio'', JNum (py_round 2 (bo_volume_ratio b))),
          (''recent_fakes'', JInt (int (length fakes)))])))))))"

section \<open>VWAP breakout\<close>

definition vwap_breakout_class :: strategy_class where
  "vwap_breakout_class = class_of ''vwap_breakout'' ''breakout'' [''trending'', ''breakout'', ''expansion''] usual_volatility
     [(''anchor'', SpStr ''day''), (''min_slope_pct'', SpNum (2/1000)), (''stop_buffer_atr'', SpNum (1/4)),
      (''risk_reward'', SpNum 2), (''confirmations'', SpNames [''volume'', ''delta''])]"

definition detect_vwap :: "quant_strategy \<Rightarrow> analysis_ctx \<Rightarrow> string \<Rightarrow> vwap_bands \<Rightarrow> unit analysis" where
  "detect_vwap q x anchor b = detect (VWAPCalculated (kl_name (qy_class q)) (ac_symbol x) anchor (vb_value b) (vb_slope b))"

definition vwap_breakout_evaluate :: evaluator where
  "vwap_breakout_evaluate q x cs =
     an_bind (text_param q ''anchor'') (\<lambda>anchor.
     an_bind (vwap_bands_feature q x anchor) (\<lambda>bands.
     an_bind (atr_or_none q x) (\<lambda>atr. case bands of None \<Rightarrow> an_ret None | Some b \<Rightarrow>
     if vb_std b \<le> 0 \<or> vb_bars b < 10 then an_ret None else
     case atr of None \<Rightarrow> an_ret None | Some atr \<Rightarrow>
     if atr \<le> 0 then an_ret None else
     an_bind (candle_back 1 cs) (\<lambda>final.
     an_bind (candle_back 2 cs) (\<lambda>prev.
     an_bind (fparam x q ''min_slope_pct'') (\<lambda>min_slope.
     let up = (cd_close prev \<le> vb_upper_1 b \<and> vb_upper_1 b < cd_close final \<and> vb_slope b \<ge> min_slope);
         down = (cd_close prev \<ge> vb_lower_1 b \<and> vb_lower_1 b > cd_close final \<and> vb_slope b \<le> - min_slope) in
     if \<not> up \<and> \<not> down then an_ret None else
     let d = (if up then Dir_Long else Dir_Short); band = (if up then vb_upper_1 b else vb_lower_1 b) in
     an_bind (detect_vwap q x anchor b) (\<lambda>_.
     an_bind (fparam x q ''stop_buffer_atr'') (\<lambda>buffer.
     let stop = protective_stop d (vb_value b) atr buffer; entry = entry_zone_around (cd_close final) atr (15/100);
         beyond = \<bar>cd_close final - band\<bar> / vb_std b in
     an_bind (py_div \<bar>vb_slope b\<bar> (min_slope * 4)) (\<lambda>steep.
     an_bind (fparam x q ''risk_reward'') (\<lambda>rr.
       assess d (clamp01 (4/10 + beyond)) (body_ratio final) (clamp01 (1/2 + steep)) (clamp01 (4/10 + beyond * (2/10)))
         (volatility_risk q x (3/10))
         [Fmt ''Cierre {} la banda 1s del VWAP {} ({:.4f}).'' [ArgStr (if up then ''sobre'' else ''bajo''), ArgStr anchor, ArgReal band],
          Fmt ''Pendiente del VWAP a favor ({:+.3f}%/bar).'' [ArgReal (vb_slope b)]]
         [] entry stop (target_from_rr (ez_mid entry) stop rr) [(''vwap'', JNum (vb_value b)), (''band'', JNum band)]))))))))))"

section \<open>Mean reversion\<close>

definition mean_reversion_class :: strategy_class where
  "mean_reversion_class = class_of ''mean_reversion'' ''mean_reversion'' [''ranging'', ''compression''] [''normal'']
     [(''z_window'', SpNum 40), (''z_entry'', SpNum 2), (''stop_buffer_atr'', SpNum (75/100)),
      (''confirmations'', SpNames [''volatility'', ''volume''])]"

definition mean_reversion_evaluate :: evaluator where
  "mean_reversion_evaluate q x cs =
     (let regime = primary_regime (ac_context x) in
      if regime = RG_TRENDING \<or> regime = RG_BREAKOUT then an_ret None else
      an_bind (atr_or_none q x) (\<lambda>atr. case atr of None \<Rightarrow> an_ret None | Some atr \<Rightarrow>
      if atr \<le> 0 then an_ret None else
      an_bind (iparam q ''z_window'') (\<lambda>z_window.
      let closes = map cd_close (py_tail z_window cs) in
      case (series_zscore closes, series_mean closes) of (Some z, Some avg) \<Rightarrow>
        an_bind (fparam x q ''z_entry'') (\<lambda>z_entry.
        if \<bar>z\<bar> < z_entry then an_ret None else
        an_bind (candle_back 1 cs) (\<lambda>final.
        let d = (if z \<le> - z_entry then Dir_Long else Dir_Short) in
        an_bind (origin_of d (py_tail 3 cs)) (\<lambda>reference.
        an_bind (fparam x q ''stop_buffer_atr'') (\<lambda>buffer.
        let stop = protective_stop d reference atr buffer in
          assess d (clamp01 (\<bar>z\<bar> / 3)) (body_ratio final) (9/10) (clamp01 (3/10 + \<bar>z\<bar> * (1/10))) (volatility_risk q x (3/10))
            [Fmt ''Cierre a {:+.2f}s de la media de {} velas ({:.4f}).'' [ArgReal z, ArgInt z_window, ArgReal avg],
             Fmt ''Regimen {}: condiciones de reversion.'' [ArgStr (regime_value regime)],
             Lit ''Objetivo: retorno a la media.'']
            [] (entry_zone_around (cd_close final) atr (15/100)) stop avg
            [(''zscore'', JNum (py_round 3 z)), (''mean'', JNum (py_round 6 avg))]))))
      | _ \<Rightarrow> an_ret None)))"

section \<open>VWAP mean reversion\<close>

definition vwap_reversion_class :: strategy_class where
  "vwap_reversion_class = class_of ''vwap_mean_reversion'' ''mean_reversion'' [''ranging'', ''compression''] [''normal'']
     [(''anchor'', SpStr ''day''), (''entry_deviation'', SpNum 2), (''stop_extra_atr'', SpNum (75/100)),
      (''min_reversal_body'', SpNum (1/4)), (''confirmations'', SpNames [''delta'', ''volume'']), (''min_signal_score'', SpNum 50)]"

definition vwap_reversion_evaluate :: evaluator where
  "vwap_reversion_evaluate q x cs =
     an_bind (text_param q ''anchor'') (\<lambda>anchor.
     an_bind (vwap_bands_feature q x anchor) (\<lambda>bands.
     an_bind (atr_or_none q x) (\<lambda>atr. case bands of None \<Rightarrow> an_ret None | Some b \<Rightarrow>
     if vb_std b \<le> 0 \<or> vb_bars b < 10 then an_ret None else
     case atr of None \<Rightarrow> an_ret None | Some atr \<Rightarrow>
     if atr \<le> 0 then an_ret None else
     an_bind (candle_back 1 cs) (\<lambda>final.
     let deviation = vb_deviation (cd_close final) b; body = body_ratio final in
     an_bind (fparam x q ''entry_deviation'') (\<lambda>entry_dev.
     an_bind (if deviation \<le> - entry_dev \<and> is_bullish final \<or> deviation \<ge> entry_dev \<and> is_bearish final
              then fparam x q ''min_reversal_body'' else an_ret 0) (\<lambda>min_body.
     let long = (deviation \<le> - entry_dev \<and> is_bullish final \<and> body \<ge> min_body);
         short = (deviation \<ge> entry_dev \<and> is_bearish final \<and> body \<ge> min_body) in
     if \<not> long \<and> \<not> short then an_ret None else
     let d = (if long then Dir_Long else Dir_Short) in
     an_bind (detect_vwap q x anchor b) (\<lambda>_.
     an_bind (origin_of d (py_tail 3 cs)) (\<lambda>reference.
     an_bind (fparam x q ''stop_extra_atr'') (\<lambda>extra.
     let stop = protective_stop d reference atr extra;
         against = (long \<and> vb_slope b < 0 \<or> \<not> long \<and> vb_slope b > 0) in
     an_bind (py_div \<bar>deviation\<bar> (entry_dev * (3/2))) (\<lambda>stretch.
       assess d (clamp01 stretch) body (if against then 6/10 else 1) (clamp01 (35/100 + 12/100 * \<bar>deviation\<bar>))
         (volatility_risk q x (3/10))
         [Fmt ''Precio a {:+.2f}s del VWAP {} ({:.4f}).'' [ArgReal deviation, ArgStr anchor, ArgReal (vb_value b)],
          Fmt ''Vela de reversion con cuerpo {:.0%}.'' [ArgReal body], Lit ''Objetivo: retorno al VWAP de sesion.'']
         (if against then [Fmt ''Pendiente del VWAP en contra ({:+.3f}%/bar).'' [ArgReal (vb_slope b)]] else [])
         (entry_zone_around (cd_close final) atr (15/100)) stop (vb_value b)
         [(''vwap'', JNum (vb_value b)), (''deviation_sigma'', JNum (py_round 3 deviation))]))))))))))"

section \<open>Momentum continuation\<close>

definition momentum_class :: strategy_class where
  "momentum_class = class_of ''momentum_continuation'' ''momentum'' [''trending'', ''expansion'', ''breakout''] usual_volatility
     [(''impulse_max_bars'', SpNum 3), (''impulse_min_atr'', SpNum (3/2)), (''max_retrace'', SpNum (1/2)),
      (''pullback_bars'', SpNum 4), (''stop_buffer_atr'', SpNum (1/2)), (''target_extension'', SpNum (1/2)),
      (''confirmations'', SpNames [''delta'', ''volume''])]"

definition momentum_evaluate :: evaluator where
  "momentum_evaluate q x cs =
     an_bind (atr_or_none q x) (\<lambda>atr.
     an_bind (an_get x ''momentum_score'' [tf_param q]) (\<lambda>momentum. case atr of None \<Rightarrow> an_ret None | Some atr \<Rightarrow>
     if atr \<le> 0 then an_ret None else
     an_bind (iparam q ''pullback_bars'') (\<lambda>pullback_bars.
     if int (length cs) \<le> pullback_bars + 5 then an_ret None else
     let base = take (nat (int (length cs) - pullback_bars)) cs in
     an_bind (iparam q ''impulse_max_bars'') (\<lambda>max_bars.
     an_bind (fparam x q ''impulse_min_atr'') (\<lambda>min_atr.
     case detect_impulse (nat max_bars) min_atr (6/10) 14 base of None \<Rightarrow> an_ret None | Some i \<Rightarrow>
     let window = take (im_end i + 1 - im_start i) (drop (im_start i) base); pullback = drop (length base) cs;
         impulse_range = im_magnitude i * atr; up = (im_direction i = MV_Up) in
     an_bind (candle_back 1 cs) (\<lambda>final.
     an_bind (if up then highest window else lowest window) (\<lambda>extreme.
     an_bind (if up then lowest pullback else highest pullback) (\<lambda>pull.
     let depth = (if up then extreme - pull else pull - extreme);
         retrace = (if impulse_range > 0 then depth / impulse_range else 1);
         turned = (if up then is_bullish final else is_bearish final);
         before = pullback ! (length pullback - 2);
         resumed = (if length pullback \<ge> 2
           then turned \<and> (if up then cd_close final > cd_high before else cd_close final < cd_low before) else turned);
         d = (if up then Dir_Long else Dir_Short) in
     an_bind (fparam x q ''target_extension'') (\<lambda>extension.
     let target = (if up then extreme + impulse_range * extension else extreme - impulse_range * extension);
         aligned = (case momentum of None \<Rightarrow> False | Some m \<Rightarrow> if up then m > 0 else m < 0) in
     an_bind (fparam x q ''max_retrace'') (\<lambda>max_retrace.
     if retrace > max_retrace \<or> \<not> resumed then an_ret None else
     an_bind (detect (MomentumDetected (kl_name (qy_class q)) (ac_symbol x) (im_direction i)
       (case momentum of None \<Rightarrow> 0 | Some m \<Rightarrow> m))) (\<lambda>_.
     an_bind (fparam x q ''stop_buffer_atr'') (\<lambda>buffer.
     let stop = protective_stop d pull atr buffer in
       assess d (clamp01 (im_body_ratio i)) (clamp01 (im_magnitude i / 3)) (if aligned then 9/10 else 1/2)
         (clamp01 (55/100 - retrace * (2/10) + (if aligned then 1/10 else 0))) (volatility_risk q x (3/10))
         [Fmt ''Impulso {} de {:.1f} ATR (cuerpos {:.0%}).''
            [ArgStr (move_value (im_direction i)), ArgReal (im_magnitude i), ArgReal (im_body_ratio i)],
          Fmt ''Retroceso contenido ({:.0%} <= {:.0%}) y vela de reanudacion.'' [ArgReal retrace, ArgReal max_retrace]]
         (if aligned then [] else [Lit ''Momentum score no alineado con el impulso.''])
         (entry_zone_around (cd_close final) atr (15/100)) stop target
         [(''impulse_atr'', JNum (py_round 2 (im_magnitude i))), (''retrace'', JNum (py_round 3 retrace))]))))))))))))"

section \<open>The contracts\<close>

lemmas price_unfold = vwap_bands_feature_def text_param_def detect_vwap_def origin_of_def analysis_unfold

lemma positive_le: "positive x q ns \<Longrightarrow> and_then (raw_param n q) (sp_float (ac_lib x)) = Inr v \<Longrightarrow> n \<in> set ns \<Longrightarrow> 0 \<le> v"
  by (rule less_imp_le) (rule positiveD)

definition opening_sane :: "analysis_ctx \<Rightarrow> quant_strategy \<Rightarrow> bool" where "opening_sane x q = positive x q [''target_extension'']"

interpretation opening_range: level_contract opening_range_evaluate opening_sane
proof
  show "holds (opening_range_evaluate q x cs) with_reasons" for q x cs
    unfolding opening_range_evaluate_def price_unfold analysis_binds by (intro analysis) (simp_all add: rights)
  show "holds (opening_range_evaluate q x cs) stop_right" for q x cs
    unfolding opening_range_evaluate_def price_unfold analysis_binds by (intro analysis) (auto simp: rights)
  show "holds (opening_range_evaluate q x cs) target_right" if "opening_sane x q" for q x cs
    unfolding opening_range_evaluate_def price_unfold analysis_binds using that
    by (intro analysis) (auto simp: rights opening_sane_def dest: positive_le intro!: mult_nonneg_nonneg)
qed

definition range_sane :: "analysis_ctx \<Rightarrow> quant_strategy \<Rightarrow> bool" where "range_sane x q = positive x q [''target_range_mult'']"

lemma breakout_close:
  assumes "detect_breakout n r cs = Some b"
  shows "bo_direction b = MV_Up \<Longrightarrow> bo_level b \<le> cd_close (cs ! (length cs - Suc 0))"
    "bo_direction b = MV_Down \<Longrightarrow> cd_close (cs ! (length cs - Suc 0)) \<le> bo_level b"
proof -
  have "cs \<noteq> []" using assms by (auto simp: detect_breakout_def split: if_splits)
  then have "cs ! (length cs - Suc 0) = last cs" by (simp add: last_conv_nth)
  then show "bo_direction b = MV_Up \<Longrightarrow> bo_level b \<le> cd_close (cs ! (length cs - Suc 0))"
    "bo_direction b = MV_Down \<Longrightarrow> cd_close (cs ! (length cs - Suc 0)) \<le> bo_level b"
    using assms by (auto simp: detect_breakout_def Let_def split: if_splits)
qed

lemma prior_height:
  assumes "wf_series cs" "detect_breakout n r cs = Some b" "0 < n"
  shows "range_bottom (prior_range n cs) \<le> range_top (prior_range n cs)"
proof -
  have "prior_range n cs \<noteq> []"
    using assms(2,3) prior_nonempty [of n cs] by (auto simp: detect_breakout_def split: if_splits)
  then obtain c where c: "c \<in> set (prior_range n cs)" using hd_in_set by blast
  then have "c \<in> set cs" by (auto simp: prior_range_def dest: in_set_dropD in_set_takeD)
  then show ?thesis using wf_seriesD [OF assms(1)] range_bottom_le [OF c] range_top_ge [OF c] by fastforce
qed

lemma protective_le:
  "r \<le> c \<Longrightarrow> protective_stop Dir_Long r v b \<le> c" "c \<le> r \<Longrightarrow> c \<le> protective_stop Dir_Short r v b"
  using protective_stop_bounds [where r = r and a = v and b = b] by (meson order_trans)+

interpretation range_breakout: level_contract range_breakout_evaluate range_sane
proof
  show "holds (range_breakout_evaluate q x cs) with_reasons" for q x cs
    unfolding range_breakout_evaluate_def price_unfold analysis_binds by (intro analysis) (simp_all add: rights)
  show "holds (range_breakout_evaluate q x cs) stop_right" for q x cs
    unfolding range_breakout_evaluate_def price_unfold analysis_binds
    by (intro analysis) (auto simp: rights dir_of_move_def intro!: protective_le dest: breakout_close split: move.splits if_splits)
  show "holds (range_breakout_evaluate q x cs) target_right" if "range_sane x q" "wf_series cs" for q x cs
    unfolding range_breakout_evaluate_def price_unfold analysis_binds using that
    by (intro analysis) (auto simp: rights dir_of_move_def range_sane_def prior_height intro!: mult_nonneg_nonneg
        dest: positive_le split: move.splits if_splits)
qed

definition vwap_sane :: "analysis_ctx \<Rightarrow> quant_strategy \<Rightarrow> bool" where "vwap_sane x q = positive x q [''risk_reward'']"

lemma bands_reading: "(case v of FV_Bands r \<Rightarrow> r | _ \<Rightarrow> None) = Some b \<Longrightarrow> v = FV_Bands (Some b)"
  by (cases v) simp_all

lemma bands_order: "sound_value (FV_Bands (Some b)) \<Longrightarrow> vb_lower_1 b \<le> vb_value b \<and> vb_value b \<le> vb_upper_1 b"
  by (simp add: sound_value_def)

interpretation vwap_breakout: level_contract vwap_breakout_evaluate vwap_sane
proof
  show "holds (vwap_breakout_evaluate q x cs) with_reasons" for q x cs
    unfolding vwap_breakout_evaluate_def price_unfold analysis_binds by (intro analysis) (simp_all add: rights)
  show "holds (vwap_breakout_evaluate q x cs) stop_right" for q x cs
    unfolding vwap_breakout_evaluate_def price_unfold analysis_binds
    by (intro analysis) (auto simp: rights intro!: protective_le dest!: bands_reading bands_order split: if_splits)
  show "holds (vwap_breakout_evaluate q x cs) target_right" if "vwap_sane x q" for q x cs
    unfolding vwap_breakout_evaluate_def price_unfold analysis_binds using that
    by (intro analysis) (auto simp: rights vwap_sane_def intro!: protective_le target_from_rr_side positive_le
        dest!: bands_reading bands_order split: if_splits)
qed

definition reversion_sane :: "analysis_ctx \<Rightarrow> quant_strategy \<Rightarrow> bool" where "reversion_sane x q = positive x q [''z_entry'']"

text \<open>The sign of the z-score is the side of the mean.\<close>

lemma zscore_side:
  assumes "series_zscore vs = Some z" "series_mean vs = Some m"
  shows "z \<le> 0 \<Longrightarrow> last vs \<le> m" "0 \<le> z \<Longrightarrow> m \<le> last vs"
  using assms by (auto simp: series_zscore_def divide_le_0_iff zero_le_divide_iff split: if_splits option.splits)

lemma last_close_tail:
  assumes "series_mean (map cd_close (py_tail n cs)) = Some m"
  shows "last (map cd_close (py_tail n cs)) = cd_close (cs ! (length cs - Suc 0))"
proof -
  have "py_tail n cs \<noteq> []" using assms by (auto simp: series_mean_def split: if_splits)
  moreover then have "last (py_tail n cs) = last cs" by (auto simp: py_tail_def last_n_def split: if_splits)
  moreover have "cs \<noteq> []" using calculation(1) by (auto simp: py_tail_def last_n_def split: if_splits)
  ultimately show ?thesis by (simp add: last_map last_conv_nth)
qed

lemma zscore_last:
  assumes "series_zscore (map cd_close (py_tail n cs)) = Some z" "series_mean (map cd_close (py_tail n cs)) = Some m"
  shows "z \<le> 0 \<Longrightarrow> cd_close (cs ! (length cs - Suc 0)) \<le> m" "0 \<le> z \<Longrightarrow> m \<le> cd_close (cs ! (length cs - Suc 0))"
  using zscore_side [OF assms] last_close_tail [OF assms(2)] by simp_all

interpretation mean_reversion: level_contract mean_reversion_evaluate reversion_sane
proof
  show "holds (mean_reversion_evaluate q x cs) with_reasons" for q x cs
    unfolding mean_reversion_evaluate_def price_unfold analysis_binds by (intro analysis) (simp_all add: rights)
  show "holds (mean_reversion_evaluate q x cs) stop_right" if "wf_series cs" for q x cs
    unfolding mean_reversion_evaluate_def price_unfold analysis_binds using that
    by (intro analysis) (auto simp: rights stop_beyond_tail split: if_splits)
  show "holds (mean_reversion_evaluate q x cs) target_right" if "reversion_sane x q" for q x cs
    unfolding mean_reversion_evaluate_def price_unfold analysis_binds using that
    by (intro analysis) (auto simp: rights reversion_sane_def not_less intro!: zscore_last dest!: positiveD split: if_splits)
qed

definition stretch_sane :: "analysis_ctx \<Rightarrow> quant_strategy \<Rightarrow> bool" where "stretch_sane x q = positive x q [''entry_deviation'']"

lemma deviation_side:
  assumes "0 < vb_std b" shows "vb_deviation p b \<le> 0 \<longleftrightarrow> p \<le> vb_value b" "0 \<le> vb_deviation p b \<longleftrightarrow> vb_value b \<le> p"
  using assms by (simp_all add: vb_deviation_def divide_le_0_iff zero_le_divide_iff)

interpretation vwap_reversion: level_contract vwap_reversion_evaluate stretch_sane
proof
  show "holds (vwap_reversion_evaluate q x cs) with_reasons" for q x cs
    unfolding vwap_reversion_evaluate_def price_unfold analysis_binds by (intro analysis) (simp_all add: rights)
  show "holds (vwap_reversion_evaluate q x cs) stop_right" if "wf_series cs" for q x cs
    unfolding vwap_reversion_evaluate_def price_unfold analysis_binds using that
    by (intro analysis) (auto simp: rights stop_beyond_tail split: if_splits)
  show "holds (vwap_reversion_evaluate q x cs) target_right" if "stretch_sane x q" for q x cs
    unfolding vwap_reversion_evaluate_def price_unfold analysis_binds using that
    by (intro analysis) (auto simp: rights stretch_sane_def not_le deviation_side [symmetric] dest!: positiveD split: if_splits)
qed

lemma drop_range:
  assumes "wf_series cs" "k < length cs"
  shows "range_bottom (drop k cs) \<le> cd_close (cs ! (length cs - Suc 0))" "cd_close (cs ! (length cs - Suc 0)) \<le> range_top (drop k cs)"
proof -
  have "py_tail (- int k) cs = drop k cs" by (simp add: py_tail_def)
  then show "range_bottom (drop k cs) \<le> cd_close (cs ! (length cs - Suc 0))" "cd_close (cs ! (length cs - Suc 0)) \<le> range_top (drop k cs)"
    using tail_range [of cs "- int k"] assms by simp_all
qed

interpretation momentum: stop_contract momentum_evaluate any_sane
proof
  show "holds (momentum_evaluate q x cs) with_reasons" for q x cs
    unfolding momentum_evaluate_def price_unfold analysis_binds by (intro analysis) (simp_all add: rights)
  show "holds (momentum_evaluate q x cs) stop_right" if "wf_series cs" for q x cs
    unfolding momentum_evaluate_def price_unfold analysis_binds using that
    by (intro analysis) (auto simp: rights intro!: protective_le drop_range split: if_splits)
qed

end
