(* ===== verification/Strategies_Flow.thy ===== *)
theory Strategies_Flow
  imports Strategies_Price
begin

text \<open>
  The strategies on order flow (\<open>app/strategies/orderflow\<close>), trend (\<open>trend\<close>), volatility (\<open>volatility\<close>) and volume
  (\<open>volume\<close>), and the library of all of them as the plugin loader finds it.
\<close>

definition flow_of :: "analysis_ctx \<Rightarrow> order_flow option analysis" where
  "flow_of x = an_bind (an_get_object x ''orderflow'' []) (\<lambda>v. an_ret (case v of FV_Flow f \<Rightarrow> f | _ \<Rightarrow> None))"

definition structure_of :: "quant_strategy \<Rightarrow> analysis_ctx \<Rightarrow> structure_analysis option analysis" where
  "structure_of q x = an_bind (an_get_object x ''structure'' [tf_param q]) (\<lambda>v. an_ret (case v of FV_Structure s \<Rightarrow> s | _ \<Rightarrow> None))"

text \<open>The stop of the strategies without a level: a multiple of the ATR away from the close.\<close>

definition atr_stop :: "direction \<Rightarrow> real \<Rightarrow> real \<Rightarrow> real \<Rightarrow> real" where
  "atr_stop d price atr stop_atr =
     protective_stop d (price - atr * stop_atr * (if d = Dir_Long then 1 else -1)) atr 0"

section \<open>Order flow\<close>

definition cvd_class :: strategy_class where
  "cvd_class = class_of ''cvd'' ''orderflow'' [''ranging'', ''compression''] usual_volatility
     [(''min_cvd_slope'', SpNum (3/10)), (''max_price_drift_pct'', SpNum (5/100)), (''stop_atr'', SpNum (12/10)),
      (''risk_reward'', SpNum 2), (''confirmations'', SpNames [''volume''])]"

definition cvd_evaluate :: evaluator where
  "cvd_evaluate q x cs =
     an_bind (flow_of x) (\<lambda>flow.
     an_bind (atr_or_none q x) (\<lambda>atr. case (flow, atr) of (Some f, Some atr) \<Rightarrow>
       if atr \<le> 0 then an_ret None else
       an_bind (fparam x q ''min_cvd_slope'') (\<lambda>min_slope.
       an_bind (fparam x q ''max_price_drift_pct'') (\<lambda>drift.
       if \<bar>fw_price_change_pct f\<bar> > drift then an_ret None else
       if \<not> fw_cvd_slope f \<ge> min_slope \<and> \<not> fw_cvd_slope f \<le> - min_slope then an_ret None else
       let d = (if fw_cvd_slope f \<ge> min_slope then Dir_Long else Dir_Short);
           mode = (if fw_cvd_slope f \<ge> min_slope then ''acumulacion'' else ''distribucion'') in
       an_bind (detect (CVDCalculated (kl_name (qy_class q)) (ac_symbol x)
         (if fw_cvd_series f = [] then 0 else List.last (fw_cvd_series f)) (fw_cvd_slope f))) (\<lambda>_.
       an_bind (candle_back 1 cs) (\<lambda>final.
       an_bind (fparam x q ''stop_atr'') (\<lambda>stop_atr.
       let stop = atr_stop d (cd_close final) atr stop_atr; entry = entry_zone_around (cd_close final) atr (15/100) in
       an_bind (fparam x q ''risk_reward'') (\<lambda>rr.
         assess d (clamp01 \<bar>fw_cvd_slope f\<bar>) (clamp01 (fw_large_trade_ratio f * (3/2))) (8/10)
           (clamp01 (4/10 + \<bar>fw_cvd_slope f\<bar> * (25/100))) (volatility_risk q x (3/10))
           [Fmt ''CVD {} ({:+.2f}) con precio plano ({:+.3f}%): {}.''
              [ArgStr (if fw_cvd_slope f > 0 then ''creciente'' else ''decreciente''), ArgReal (fw_cvd_slope f),
               ArgReal (fw_price_change_pct f), ArgStr mode],
            Fmt ''Participacion de trades grandes: {:.0%}.'' [ArgReal (fw_large_trade_ratio f)]]
           [] entry stop (target_from_rr (ez_mid entry) stop rr)
           [(''cvd_slope'', JNum (py_round 4 (fw_cvd_slope f))), (''mode'', JStr mode)]))))))
     | _ \<Rightarrow> an_ret None))"

definition delta_class :: strategy_class where
  "delta_class = class_of ''delta_confirmation'' ''orderflow'' [''trending'', ''breakout'', ''expansion''] usual_volatility
     [(''min_aggression'', SpNum (65/100)), (''stop_atr'', SpNum 1), (''risk_reward'', SpNum (3/2)),
      (''signal_ttl_seconds'', SpNum 180), (''confirmations'', SpNames [''volume'', ''spread''])]"

definition delta_evaluate :: evaluator where
  "delta_evaluate q x cs =
     an_bind (flow_of x) (\<lambda>flow.
     an_bind (atr_or_none q x) (\<lambda>atr. case (flow, atr) of (Some f, Some atr) \<Rightarrow>
       if atr \<le> 0 then an_ret None else
       an_bind (candle_back 1 cs) (\<lambda>final.
       an_bind (fparam x q ''min_aggression'') (\<lambda>threshold.
       let long = (fw_aggression_ratio f \<ge> threshold \<and> is_bullish final \<and> fw_price_change_pct f > 0);
           short = (fw_aggression_ratio f \<le> 1 - threshold \<and> is_bearish final \<and> fw_price_change_pct f < 0) in
       if \<not> long \<and> \<not> short then an_ret None else
       let d = (if long then Dir_Long else Dir_Short) in
       an_bind (detect (DeltaCalculated (kl_name (qy_class q)) (ac_symbol x) (fw_delta f) (fw_aggression_ratio f))) (\<lambda>_.
       let against = (long \<and> fw_absorption f = ''bearish'' \<or> \<not> long \<and> fw_absorption f = ''bullish'');
           warnings = (if against then [Lit ''Posible absorcion en contra de la agresion.''] else []) @
             (if fw_exhaustion f \<noteq> [] then [Fmt ''Signos de agotamiento del lado {}.'' [ArgStr (fw_exhaustion f)]] else []) in
       an_bind (fparam x q ''stop_atr'') (\<lambda>stop_atr.
       let stop = atr_stop d (cd_close final) atr stop_atr; entry = entry_zone_around (cd_close final) atr (15/100);
           dominance = \<bar>2 * fw_aggression_ratio f - 1\<bar> in
       an_bind (fparam x q ''risk_reward'') (\<lambda>rr.
         assess d (clamp01 (dominance * (14/10))) (body_ratio final) (if against then 4/10 else 8/10)
           (clamp01 (4/10 + dominance * (3/10) - (if warnings \<noteq> [] then 15/100 else 0))) (volatility_risk q x (3/10))
           [Fmt (if fw_delta f > 0 then ''Delta positivo ({:+.2f}) con agresion {:.0%}.'' else ''Delta negativo ({:+.2f}) con agresion {:.0%}.'')
              [ArgReal (fw_delta f), ArgReal (fw_aggression_ratio f)],
            Fmt ''Precio acompanando ({:+.3f}%).'' [ArgReal (fw_price_change_pct f)]]
           warnings entry stop (target_from_rr (ez_mid entry) stop rr)
           [(''delta'', JNum (py_round 4 (fw_delta f))), (''aggression'', JNum (fw_aggression_ratio f))])))))
     | _ \<Rightarrow> an_ret None))"

definition book_imbalance_class :: strategy_class where
  "book_imbalance_class = class_of ''orderbook_imbalance'' ''orderflow'' [] usual_volatility
     [(''min_imbalance'', SpNum (1/4)), (''min_pressure'', SpNum (2/10)), (''stop_atr'', SpNum (6/10)), (''risk_reward'', SpNum (3/2)),
      (''signal_ttl_seconds'', SpNum 120), (''confirmations'', SpNames [''delta'', ''spread''])]"

definition book_imbalance_evaluate :: evaluator where
  "book_imbalance_evaluate q x cs =
     an_bind (an_get x ''imbalance'' []) (\<lambda>imbal.
     an_bind (an_get x ''book_pressure'' []) (\<lambda>pressure.
     an_bind (atr_or_none q x) (\<lambda>atr. case (imbal, pressure, atr) of (Some imb, Some pre, Some atr) \<Rightarrow>
       if atr \<le> 0 then an_ret None else
       an_bind (fparam x q ''min_imbalance'') (\<lambda>min_imb.
       an_bind (fparam x q ''min_pressure'') (\<lambda>min_pre.
       let long = (imb \<ge> min_imb \<and> pre \<ge> min_pre); short = (imb \<le> - min_imb \<and> pre \<le> - min_pre) in
       if \<not> long \<and> \<not> short then an_ret None else
       let d = (if long then Dir_Long else Dir_Short) in
       an_bind (candle_back 1 cs) (\<lambda>final.
       an_bind (fparam x q ''stop_atr'') (\<lambda>stop_atr.
       let stop = atr_stop d (cd_close final) atr stop_atr; entry = entry_zone_around (cd_close final) atr (1/10) in
       an_bind (fparam x q ''risk_reward'') (\<lambda>rr.
         assess d (clamp01 (\<bar>imb\<bar> / (1/2))) (clamp01 (\<bar>pre\<bar> / (1/2))) (7/10) (clamp01 (4/10 + \<bar>imb\<bar> * (3/10)))
           (volatility_risk q x (35/100))
           [Fmt ''Imbalance del libro {:+.2f} ({}).'' [ArgReal imb, ArgStr (if imb > 0 then ''compradora'' else ''vendedora'')],
            Fmt ''Presion ponderada coincidente ({:+.2f}).'' [ArgReal pre]]
           [Lit ''Senal de corto plazo: el libro cambia rapido.'']
           entry stop (target_from_rr (ez_mid entry) stop rr)
           [(''imbalance'', JNum (py_round 4 imb)), (''book_pressure'', JNum (py_round 4 pre))])))))
     | _ \<Rightarrow> an_ret None)))"

section \<open>Trend\<close>

definition anchored_vwap_class :: strategy_class where
  "anchored_vwap_class = class_of ''anchored_vwap'' ''trend'' [''trending''] usual_volatility
     [(''proximity_atr'', SpNum (1/2)), (''stop_buffer_atr'', SpNum (75/100)), (''risk_reward'', SpNum 2),
      (''confirmations'', SpNames [''volume''])]"

text \<open>The target of both trend strategies: the last swing on the side of the trade, or a multiple of the risk.\<close>

definition trend_target :: "analysis_ctx \<Rightarrow> quant_strategy \<Rightarrow> direction \<Rightarrow> structure_analysis \<Rightarrow> real \<Rightarrow> real \<Rightarrow> real analysis" where
  "trend_target x q d s entry_mid stop =
     (case (if d = Dir_Long then sa_last_swing_high s else sa_last_swing_low s) of
        Some w \<Rightarrow> an_ret (sw_price w)
      | None \<Rightarrow> an_bind (fparam x q ''risk_reward'') (\<lambda>rr. an_ret (target_from_rr entry_mid stop rr)))"

definition anchored_vwap_evaluate :: evaluator where
  "anchored_vwap_evaluate q x cs =
     an_bind (structure_of q x) (\<lambda>struct.
     an_bind (atr_or_none q x) (\<lambda>atr. case (struct, atr) of (Some s, Some atr) \<Rightarrow>
       if atr \<le> 0 then an_ret None else
       an_bind (candle_back 1 cs) (\<lambda>final.
       an_bind (fparam x q ''proximity_atr'') (\<lambda>proximity_atr.
       let proximity = proximity_atr * atr in
       case (if sa_trend s = TR_Up then map_option (Pair Dir_Long) (sa_last_swing_low s)
             else if sa_trend s = TR_Down then map_option (Pair Dir_Short) (sa_last_swing_high s) else None) of
         None \<Rightarrow> an_ret None
       | Some (d, origin) \<Rightarrow>
         (case Vwap.anchored_vwap (sw_index origin) cs of None \<Rightarrow> an_ret None | Some avwap \<Rightarrow>
         let touched = (if d = Dir_Long then cd_low final \<le> avwap + proximity else cd_high final \<ge> avwap - proximity);
             resumed = (if d = Dir_Long then is_bullish final \<and> cd_close final > avwap
                        else is_bearish final \<and> cd_close final < avwap) in
         if \<not> (touched \<and> resumed) then an_ret None else
         an_bind (detect (VWAPCalculated (kl_name (qy_class q)) (ac_symbol x) ''anchored'' avwap 0)) (\<lambda>_.
         an_bind (fparam x q ''stop_buffer_atr'') (\<lambda>buffer.
         let stop = protective_stop d avwap atr buffer; entry = entry_zone_around (cd_close final) atr (15/100) in
         an_bind (trend_target x q d s (ez_mid entry) stop) (\<lambda>target.
           assess d (clamp01 (1 - \<bar>cd_close final - avwap\<bar> / (atr * 2))) (body_ratio final) 1 (55/100) (volatility_risk q x (3/10))
             [Fmt ''Tendencia {} con pullback al AVWAP ({:.4f}) anclado al ultimo swing.''
                [ArgStr (trend_value (sa_trend s)), ArgReal avwap],
              Lit ''Vela de reanudacion a favor de la tendencia.'']
             [] entry stop target
             [(''anchored_vwap'', JNum avwap), (''trend'', JStr (trend_value (sa_trend s)))]))))))
     | _ \<Rightarrow> an_ret None))"

definition trend_pullback_class :: strategy_class where
  "trend_pullback_class = class_of ''trend_pullback'' ''trend'' [''trending''] usual_volatility
     [(''ema_period'', SpNum 20), (''proximity_atr'', SpNum (1/2)), (''stop_buffer_atr'', SpNum (1/2)), (''risk_reward'', SpNum 2),
      (''confirmations'', SpNames [''volume''])]"

fun join_labels :: "string list \<Rightarrow> string" where
  "join_labels [] = []"
| "join_labels [n] = n"
| "join_labels (n # ns) = n @ ''/'' @ join_labels ns"

definition trend_pullback_evaluate :: evaluator where
  "trend_pullback_evaluate q x cs =
     an_bind (structure_of q x) (\<lambda>struct.
     an_bind (iparam q ''ema_period'') (\<lambda>ema_period.
     an_bind (an_get x ''ema'' [tf_param q, (''period'', PmInt (nat ema_period))]) (\<lambda>ema.
     an_bind (atr_or_none q x) (\<lambda>atr. case (struct, ema, atr) of (Some s, Some ema, Some atr) \<Rightarrow>
       if atr \<le> 0 then an_ret None else
       an_bind (candle_back 1 cs) (\<lambda>final.
       an_bind (candle_back 2 cs) (\<lambda>prev.
       an_bind (fparam x q ''proximity_atr'') (\<lambda>proximity_atr.
       let proximity = proximity_atr * atr in
       if sa_trend s = TR_Sideways then an_ret None else
       let up = (sa_trend s = TR_Up); d = (if up then Dir_Long else Dir_Short);
           reference = (if up then min (cd_low final) (cd_low prev) else max (cd_high final) (cd_high prev));
           touched = (if up then reference \<le> ema + proximity else reference \<ge> ema - proximity);
           resumed = (if up then is_bullish final \<and> cd_close final > ema else is_bearish final \<and> cd_close final < ema) in
       if \<not> (touched \<and> resumed) then an_ret None else
       an_bind (fparam x q ''stop_buffer_atr'') (\<lambda>buffer.
       let stop = protective_stop d reference atr buffer; entry = entry_zone_around (cd_close final) atr (15/100);
           labels = join_labels (filter (\<lambda>l. l \<noteq> []) (map sw_label (last_n 4 (sa_swings s)))) in
       an_bind (trend_target x q d s (ez_mid entry) stop) (\<lambda>target.
         assess d (clamp01 (1 - \<bar>cd_close final - ema\<bar> / (atr * 2))) (body_ratio final) 1 (55/100) (volatility_risk q x (3/10))
           [Fmt ''Tendencia {} confirmada ({}).''
              [ArgStr (trend_value (sa_trend s)), ArgStr (if labels = [] then ''estructura'' else labels)],
            Fmt ''Retroceso a la EMA{} ({:.4f}) con vela de reanudacion.'' [ArgInt ema_period, ArgReal ema]]
           [] entry stop target
           [(''ema'', JNum (py_round 6 ema)), (''trend'', JStr (trend_value (sa_trend s)))])))))
     | _ \<Rightarrow> an_ret None))))"

section \<open>Volatility\<close>

definition atr_expansion_class :: strategy_class where
  "atr_expansion_class = class_of ''atr_expansion'' ''volatility'' [''expansion'', ''breakout'', ''trending''] [''normal'', ''high'']
     [(''min_expansion_ratio'', SpNum (14/10)), (''min_body_ratio'', SpNum (1/2)), (''stop_atr'', SpNum 1),
      (''risk_reward'', SpNum (3/2)), (''confirmations'', SpNames [''volume''])]"

definition atr_expansion_evaluate :: evaluator where
  "atr_expansion_evaluate q x cs =
     an_bind (an_get x ''atr_expansion'' [tf_param q]) (\<lambda>expansion.
     an_bind (an_get x ''atr_slope'' [tf_param q]) (\<lambda>slope.
     an_bind (atr_or_none q x) (\<lambda>atr. case (expansion, atr) of (Some e, Some atr) \<Rightarrow>
       if atr \<le> 0 then an_ret None else
       an_bind (fparam x q ''min_expansion_ratio'') (\<lambda>min_expansion.
       if e < min_expansion \<or> (case slope of None \<Rightarrow> False | Some v \<Rightarrow> v \<le> 0) then an_ret None else
       an_bind (candle_back 1 cs) (\<lambda>final.
       an_bind (fparam x q ''min_body_ratio'') (\<lambda>min_body.
       let body = body_ratio final in
       if body < min_body then an_ret None else
       let d = (if is_bullish final then Dir_Long else Dir_Short) in
       an_bind (fparam x q ''stop_atr'') (\<lambda>stop_atr.
       let stop = atr_stop d (cd_close final) atr stop_atr; entry = entry_zone_around (cd_close final) atr (15/100) in
       an_bind (fparam x q ''risk_reward'') (\<lambda>rr.
         assess d (clamp01 ((e - 1) / 1)) body (85/100) (clamp01 (4/10 + (e - 1) * (2/10))) (volatility_risk q x (3/10))
           [case slope of
              Some v \<Rightarrow> Fmt ''Expansion de volatilidad: ATR corto/largo {:.2f} (pendiente {:+.2f}%/bar).'' [ArgReal e, ArgReal v]
            | None \<Rightarrow> Fmt ''Expansion de volatilidad: ATR corto/largo {:.2f}.'' [ArgReal e],
            Fmt ''Vela dominante ({:.0%} de cuerpo) marcando la direccion.'' [ArgReal body]]
           [] entry stop (target_from_rr (ez_mid entry) stop rr)
           [(''expansion_ratio'', JNum (py_round 3 e))])))))
     | _ \<Rightarrow> an_ret None)))"

definition compression_class :: strategy_class where
  "compression_class = class_of ''volatility_compression'' ''volatility'' [''compression''] [''low'', ''normal'']
     [(''max_compression_ratio'', SpNum (7/10)), (''measured_move'', SpNum 1), (''confirmations'', SpNames [''volume''])]"

definition compression_evaluate :: evaluator where
  "compression_evaluate q x cs =
     an_bind (atr_or_none q x) (\<lambda>atr. case atr of None \<Rightarrow> an_ret None | Some atr \<Rightarrow>
     if atr \<le> 0 \<or> length cs < 30 then an_ret None else
     case (expansion_ratio (map ohlcv_of (butlast cs)) 5 20, analyze_structure 3 3 20 1 (butlast cs)) of (Some e, Some s) \<Rightarrow>
       an_bind (fparam x q ''max_compression_ratio'') (\<lambda>max_ratio.
       if e > max_ratio \<or> \<not> sa_consolidation s then an_ret None else
       an_bind (candle_back 1 cs) (\<lambda>final.
       let height = sa_range_high s - sa_range_low s in
       if height \<le> 0 then an_ret None else
       if \<not> cd_close final > sa_range_high s \<and> \<not> cd_close final < sa_range_low s then an_ret None else
       an_bind (fparam x q ''measured_move'') (\<lambda>measured.
       let up = (cd_close final > sa_range_high s); d = (if up then Dir_Long else Dir_Short);
           stop = (if up then sa_range_low s else sa_range_high s);
           target = (if up then cd_close final + height * measured else cd_close final - height * measured);
           compression = 1 - e in
         assess d (clamp01 (4/10 + compression)) (body_ratio final) (9/10) (clamp01 (45/100 + compression * (3/10)))
           (volatility_risk q x (3/10))
           [Fmt ''Squeeze de volatilidad (ATR corto/largo {:.2f} <= {:.2f}) en consolidacion.'' [ArgReal e, ArgReal max_ratio],
            Fmt ''Liberacion: cierre fuera del rango [{:.4f}, {:.4f}].'' [ArgReal (sa_range_low s), ArgReal (sa_range_high s)],
            Lit ''Objetivo por movimiento medido del rango.'']
           [] (entry_zone_around (cd_close final) atr (15/100)) stop target
           [(''compression_ratio'', JNum (py_round 3 e)), (''range_height'', JNum (py_round 6 height))])))
     | _ \<Rightarrow> an_ret None)"

section \<open>Volume\<close>

definition profile_class :: strategy_class where
  "profile_class = class_of ''volume_profile'' ''volume'' [''ranging'', ''compression''] usual_volatility
     [(''min_rejection_wick'', SpNum (35/100)), (''stop_buffer_atr'', SpNum (1/2)), (''confirmations'', SpNames [''volume'', ''delta''])]"

definition profile_of :: "quant_strategy \<Rightarrow> analysis_ctx \<Rightarrow> volume_profile option analysis" where
  "profile_of q x = an_bind (an_get_object x ''volume_profile'' [tf_param q]) (\<lambda>v. an_ret (case v of FV_Profile p \<Rightarrow> p | _ \<Rightarrow> None))"

definition profile_evaluate :: evaluator where
  "profile_evaluate q x cs =
     an_bind (profile_of q x) (\<lambda>profile.
     an_bind (atr_or_none q x) (\<lambda>atr. case (profile, atr) of (Some p, Some atr) \<Rightarrow>
       if atr \<le> 0 then an_ret None else
       an_bind (candle_back 1 cs) (\<lambda>final.
       an_bind (fparam x q ''min_rejection_wick'') (\<lambda>min_wick.
       let low_edge = (cd_low final \<le> vp_val p \<and> cd_close final > vp_val p);
           high_edge = (cd_high final \<ge> vp_vah p \<and> cd_close final < vp_vah p) in
       if \<not> low_edge \<and> \<not> high_edge then an_ret None else
       let d = (if low_edge then Dir_Long else Dir_Short);
           wick = (if low_edge then lower_wick_ratio final else upper_wick_ratio final);
           reference = (if low_edge then cd_low final else cd_high final);
           edge = (if low_edge then vp_val p else vp_vah p) in
       if wick < min_wick then an_ret None else
       an_bind (detect (VolumeProfileUpdated (kl_name (qy_class q)) (ac_symbol x) (vp_poc p) (vp_vah p) (vp_val p))) (\<lambda>_.
       an_bind (fparam x q ''stop_buffer_atr'') (\<lambda>buffer.
       let stop = protective_stop d reference atr buffer in
         assess d (clamp01 (wick * (3/2))) (clamp01 (\<bar>vp_poc p - cd_close final\<bar> / (atr * 3))) (9/10)
           (clamp01 (4/10 + wick * (3/10))) (volatility_risk q x (3/10))
           [Fmt ''Rechazo en {} ({:.4f}) con mecha del {:.0%}.'' [ArgStr (if low_edge then ''VAL'' else ''VAH''), ArgReal edge, ArgReal wick],
            Fmt ''Objetivo: POC en {:.4f} (value area {:.4f}-{:.4f}).'' [ArgReal (vp_poc p), ArgReal (vp_val p), ArgReal (vp_vah p)]]
           [] (entry_zone_around (cd_close final) atr (15/100)) stop (vp_poc p)
           [(''poc'', JNum (vp_poc p)), (''vah'', JNum (vp_vah p)), (''val'', JNum (vp_val p))]))))
     | _ \<Rightarrow> an_ret None))"

section \<open>The contracts\<close>

lemmas flow_unfold = flow_of_def structure_of_def profile_of_def trend_target_def analysis_unfold

definition scaled_sane :: "analysis_ctx \<Rightarrow> quant_strategy \<Rightarrow> bool" where "scaled_sane x q = positive x q [''stop_atr'', ''risk_reward'']"

lemma atr_stop_side:
  assumes "scaled_sane x q" "and_then (raw_param ''stop_atr'' q) (sp_float (ac_lib x)) = Inr k" "\<not> a \<le> 0"
  shows "atr_stop Dir_Long p a k \<le> p" "p \<le> atr_stop Dir_Short p a k"
proof -
  have "0 \<le> a * k" using assms positive_le [of x q "[''stop_atr'', ''risk_reward'']" "''stop_atr''" k] by (simp add: scaled_sane_def)
  then show "atr_stop Dir_Long p a k \<le> p" "p \<le> atr_stop Dir_Short p a k"
    by (simp_all add: atr_stop_def protective_stop_def)
qed

lemma scaled_reward: "scaled_sane x q \<Longrightarrow> and_then (raw_param ''risk_reward'' q) (sp_float (ac_lib x)) = Inr r \<Longrightarrow> 0 \<le> r"
  by (auto simp: scaled_sane_def intro: positive_le)

interpretation cvd: level_contract cvd_evaluate scaled_sane
proof
  show "holds (cvd_evaluate q x cs) with_reasons" for q x cs
    unfolding cvd_evaluate_def flow_unfold analysis_binds by (intro analysis) (simp_all add: rights)
  show "holds (cvd_evaluate q x cs) stop_right" if "scaled_sane x q" for q x cs
    unfolding cvd_evaluate_def flow_unfold analysis_binds using that
    by (intro analysis) (auto simp: rights atr_stop_side split: prod.splits option.splits if_splits intro!: analysis)
  show "holds (cvd_evaluate q x cs) target_right" if "scaled_sane x q" for q x cs
    unfolding cvd_evaluate_def flow_unfold analysis_binds using that
    by (intro analysis) (auto simp: rights atr_stop_side scaled_reward intro!: target_from_rr_side analysis split: prod.splits option.splits if_splits)
qed

interpretation delta: level_contract delta_evaluate scaled_sane
proof
  show "holds (delta_evaluate q x cs) with_reasons" for q x cs
    unfolding delta_evaluate_def flow_unfold analysis_binds by (intro analysis) (simp_all add: rights)
  show "holds (delta_evaluate q x cs) stop_right" if "scaled_sane x q" for q x cs
    unfolding delta_evaluate_def flow_unfold analysis_binds using that
    by (intro analysis) (auto simp: rights atr_stop_side split: prod.splits option.splits if_splits intro!: analysis)
  show "holds (delta_evaluate q x cs) target_right" if "scaled_sane x q" for q x cs
    unfolding delta_evaluate_def flow_unfold analysis_binds using that
    by (intro analysis) (auto simp: rights atr_stop_side scaled_reward intro!: target_from_rr_side analysis split: prod.splits option.splits if_splits)
qed

interpretation book_imbalance: level_contract book_imbalance_evaluate scaled_sane
proof
  show "holds (book_imbalance_evaluate q x cs) with_reasons" for q x cs
    unfolding book_imbalance_evaluate_def flow_unfold analysis_binds by (intro analysis) (simp_all add: rights)
  show "holds (book_imbalance_evaluate q x cs) stop_right" if "scaled_sane x q" for q x cs
    unfolding book_imbalance_evaluate_def flow_unfold analysis_binds using that
    by (intro analysis) (auto simp: rights atr_stop_side split: prod.splits option.splits if_splits intro!: analysis)
  show "holds (book_imbalance_evaluate q x cs) target_right" if "scaled_sane x q" for q x cs
    unfolding book_imbalance_evaluate_def flow_unfold analysis_binds using that
    by (intro analysis) (auto simp: rights atr_stop_side scaled_reward intro!: target_from_rr_side analysis split: prod.splits option.splits if_splits)
qed

interpretation atr_expansion: level_contract atr_expansion_evaluate scaled_sane
proof
  show "holds (atr_expansion_evaluate q x cs) with_reasons" for q x cs
    unfolding atr_expansion_evaluate_def flow_unfold analysis_binds by (intro analysis) (simp_all add: rights)
  show "holds (atr_expansion_evaluate q x cs) stop_right" if "scaled_sane x q" for q x cs
    unfolding atr_expansion_evaluate_def flow_unfold analysis_binds using that
    by (intro analysis) (auto simp: rights atr_stop_side split: prod.splits option.splits if_splits intro!: analysis)
  show "holds (atr_expansion_evaluate q x cs) target_right" if "scaled_sane x q" for q x cs
    unfolding atr_expansion_evaluate_def flow_unfold analysis_binds using that
    by (intro analysis) (auto simp: rights atr_stop_side scaled_reward intro!: target_from_rr_side analysis split: prod.splits option.splits if_splits)
qed

definition measured_sane :: "analysis_ctx \<Rightarrow> quant_strategy \<Rightarrow> bool" where "measured_sane x q = positive x q [''measured_move'']"

interpretation compression: level_contract compression_evaluate measured_sane
proof
  show "holds (compression_evaluate q x cs) with_reasons" for q x cs
    unfolding compression_evaluate_def flow_unfold analysis_binds by (intro analysis) (simp_all add: rights)
  show "holds (compression_evaluate q x cs) stop_right" for q x cs
    unfolding compression_evaluate_def flow_unfold analysis_binds
    by (intro analysis) (auto simp: rights split: if_splits)
  show "holds (compression_evaluate q x cs) target_right" if "measured_sane x q" for q x cs
    unfolding compression_evaluate_def flow_unfold analysis_binds using that
    by (intro analysis) (auto simp: rights measured_sane_def intro!: mult_nonneg_nonneg dest: positive_le split: if_splits)
qed

lemma last_close:
  assumes "wf_series cs" "cs \<noteq> []"
  shows "cd_low (cs ! (length cs - Suc 0)) \<le> cd_close (cs ! (length cs - Suc 0))" "cd_close (cs ! (length cs - Suc 0)) \<le> cd_high (cs ! (length cs - Suc 0))"
  using wf_seriesD [OF assms(1), of "cs ! (length cs - Suc 0)"] assms(2) by simp_all

interpretation anchored_vwap: stop_contract anchored_vwap_evaluate any_sane
proof
  show "holds (anchored_vwap_evaluate q x cs) with_reasons" for q x cs
    unfolding anchored_vwap_evaluate_def flow_unfold analysis_binds by (intro analysis) (simp_all add: rights)
  show "holds (anchored_vwap_evaluate q x cs) stop_right" for q x cs
    unfolding anchored_vwap_evaluate_def flow_unfold analysis_binds
    by (intro analysis) (auto simp: rights intro!: protective_le split: if_splits)
qed

interpretation trend_pullback: stop_contract trend_pullback_evaluate any_sane
proof
  show "holds (trend_pullback_evaluate q x cs) with_reasons" for q x cs
    unfolding trend_pullback_evaluate_def flow_unfold analysis_binds by (intro analysis) (simp_all add: rights)
  show "holds (trend_pullback_evaluate q x cs) stop_right" if "wf_series cs" for q x cs
    unfolding trend_pullback_evaluate_def flow_unfold analysis_binds using that
    by (intro analysis) (auto simp: rights last_close min_le_iff_disj le_max_iff_disj intro!: protective_le split: if_splits trend.splits)
qed

interpretation profile: stop_contract profile_evaluate any_sane
proof
  show "holds (profile_evaluate q x cs) with_reasons" for q x cs
    unfolding profile_evaluate_def flow_unfold analysis_binds by (intro analysis) (simp_all add: rights)
  show "holds (profile_evaluate q x cs) stop_right" if "wf_series cs" for q x cs
    unfolding profile_evaluate_def flow_unfold analysis_binds using that
    by (intro analysis) (auto simp: rights last_close intro!: protective_le split: if_splits)
qed

end
