(* ===== verification/Strategy_Library.thy ===== *)
theory Strategy_Library
  imports Strategies_Flow
begin

text \<open>
  The library of strategies as the plugin loader discovers it, and what holds of all of them: a signal that leaves the
  pipeline passes the self-check, and for the strategies that keep the level contract it passes the structural validation of
  the registry unless its ratio of reward to risk is not positive.
\<close>

section \<open>The library\<close>

record plugin =
  pg_class :: strategy_class
  pg_evaluate :: evaluator

definition plug :: "strategy_class \<Rightarrow> evaluator \<Rightarrow> plugin" where
  "plug k f = \<lparr> pg_class = k, pg_evaluate = f \<rparr>"

text \<open>The strategies whose stop and target lie on the right sides, with the parameters that are sane for them.\<close>

definition level_library :: "(plugin \<times> (analysis_ctx \<Rightarrow> quant_strategy \<Rightarrow> bool)) list" where
  "level_library = [(plug bos_class bos_evaluate, bos_sane),
     (plug opening_range_class opening_range_evaluate, opening_sane),
     (plug range_breakout_class range_breakout_evaluate, range_sane),
     (plug vwap_breakout_class vwap_breakout_evaluate, vwap_sane),
     (plug mean_reversion_class mean_reversion_evaluate, reversion_sane),
     (plug vwap_reversion_class vwap_reversion_evaluate, stretch_sane),
     (plug cvd_class cvd_evaluate, scaled_sane),
     (plug delta_class delta_evaluate, scaled_sane),
     (plug book_imbalance_class book_imbalance_evaluate, scaled_sane),
     (plug atr_expansion_class atr_expansion_evaluate, scaled_sane),
     (plug compression_class compression_evaluate, measured_sane)]"

text \<open>Those of which only the stop is always on its side.\<close>

definition stop_library :: "plugin list" where
  "stop_library = [plug choch_class choch_evaluate, plug mss_class mss_evaluate, plug fvg_class fvg_evaluate,
     plug order_block_class order_block_evaluate, plug momentum_class momentum_evaluate,
     plug anchored_vwap_class anchored_vwap_evaluate, plug trend_pullback_class trend_pullback_evaluate,
     plug profile_class profile_evaluate]"

definition strategy_library :: "plugin list" where
  "strategy_library = map fst level_library @ stop_library @ [plug liquidity_sweep_class liquidity_sweep_evaluate]"

lemma library_contract: "p \<in> set strategy_library \<Longrightarrow> strategy_contract (pg_evaluate p)"
  using bos.strategy_contract_axioms opening_range.strategy_contract_axioms range_breakout.strategy_contract_axioms
    vwap_breakout.strategy_contract_axioms mean_reversion.strategy_contract_axioms vwap_reversion.strategy_contract_axioms
    cvd.strategy_contract_axioms delta.strategy_contract_axioms book_imbalance.strategy_contract_axioms
    atr_expansion.strategy_contract_axioms compression.strategy_contract_axioms choch.strategy_contract_axioms
    mss.strategy_contract_axioms fvg.strategy_contract_axioms order_block.strategy_contract_axioms
    momentum.strategy_contract_axioms anchored_vwap.strategy_contract_axioms trend_pullback.strategy_contract_axioms
    profile.strategy_contract_axioms liquidity_sweep.strategy_contract_axioms
  by (auto simp: strategy_library_def level_library_def stop_library_def plug_def)

lemma library_stops: "p \<in> set stop_library \<Longrightarrow> stop_contract (pg_evaluate p) any_sane"
  using choch.stop_contract_axioms mss.stop_contract_axioms fvg.stop_contract_axioms order_block.stop_contract_axioms
    momentum.stop_contract_axioms anchored_vwap.stop_contract_axioms trend_pullback.stop_contract_axioms
    profile.stop_contract_axioms
    choch.strategy_contract_axioms mss.strategy_contract_axioms fvg.strategy_contract_axioms order_block.strategy_contract_axioms
    momentum.strategy_contract_axioms anchored_vwap.strategy_contract_axioms trend_pullback.strategy_contract_axioms
    profile.strategy_contract_axioms
  by (auto simp: stop_library_def plug_def intro: stop_contract.intro)

lemma library_levels: "(p, sane) \<in> set level_library \<Longrightarrow> level_contract (pg_evaluate p) sane"
  using bos.level_contract_axioms opening_range.level_contract_axioms range_breakout.level_contract_axioms
    vwap_breakout.level_contract_axioms mean_reversion.level_contract_axioms vwap_reversion.level_contract_axioms
    cvd.level_contract_axioms delta.level_contract_axioms book_imbalance.level_contract_axioms
    atr_expansion.level_contract_axioms compression.level_contract_axioms
    bos.stop_contract_axioms opening_range.stop_contract_axioms range_breakout.stop_contract_axioms
    vwap_breakout.stop_contract_axioms mean_reversion.stop_contract_axioms vwap_reversion.stop_contract_axioms
    cvd.stop_contract_axioms delta.stop_contract_axioms book_imbalance.stop_contract_axioms
    atr_expansion.stop_contract_axioms compression.stop_contract_axioms
  by (auto simp: level_library_def plug_def intro: level_contract.intro)

lemma holdsD: "holds m P \<Longrightarrow> sound_cache (at_features st) \<Longrightarrow> m st = (Inr x, st') \<Longrightarrow> P x \<and> sound_cache (at_features st')"
  unfolding holds_def by (metis fst_conv snd_conv)

text \<open>
  Property C34 (strategies): whatever strategy of the library emits a signal, whatever its parameters, the signal passes the
  self-check of the plugin contract (reasons, confidence and score in their ranges), has a side, reaches the minimum score of
  the parameters and carries the name, symbol, time and expiration of the analysis; weights are not negative.
\<close>

theorem strategies_emit_valid_signals:
  assumes "p \<in> set strategy_library" "weights_ok q" "sound_cache (at_features st)"
    "analyze (pg_evaluate p) q x i st = (Inr (Some s), st')"
  shows "strategy_validate s = [] \<and> sg_direction s \<noteq> Dir_Neutral \<and> sg_strategy_name s = kl_name (qy_class q)
    \<and> sg_symbol s = ac_symbol x \<and> sg_timestamp s = ac_fired_at x
    \<and> (\<exists>m. and_then (raw_param ''min_signal_score'' q) (sp_float (ac_lib x)) = Inr m \<and> m \<le> sg_score s)
    \<and> (\<exists>ttl. and_then (raw_param ''signal_ttl_seconds'' q) (sp_float (ac_lib x)) = Inr ttl
        \<and> sg_expiration s = Some (ac_fired_at x + timedelta_seconds ttl))
    \<and> sound_cache (at_features st')"
proof -
  have "holds (analyze (pg_evaluate p) q x i) (valid_signal q x)"
    using strategy_contract.emits_valid [OF library_contract [OF assms(1)] assms(2)] .
  from holdsD [OF this assms(3,4)] show ?thesis by (auto simp: valid_signal_def split: sum.splits)
qed

text \<open>The stop of an emitted signal is never beyond its entry, for every strategy but the liquidity sweep.\<close>

lemma strategies_protect:
  assumes "p \<in> set stop_library \<or> (p, sane) \<in> set level_library \<and> sane x q" "wf_market q x" "sound_cache (at_features st)"
    "analyze (pg_evaluate p) q x i st = (Inr (Some s), st')"
  shows "protected (Some s)"
proof -
  have "holds (analyze (pg_evaluate p) q x i) protected"
    using assms(1)
  proof
    assume "p \<in> set stop_library"
    from stop_contract.emits_protected [OF library_stops [OF this] _ assms(2)] show ?thesis by (simp add: any_sane_def)
  next
    assume a: "(p, sane) \<in> set level_library \<and> sane x q"
    then have "stop_contract (pg_evaluate p) sane" using library_levels level_contract.axioms(1) by blast
    from stop_contract.emits_protected [OF this _ assms(2)] a show ?thesis by simp
  qed
  from holdsD [OF this assms(3,4)] show ?thesis by simp
qed

lemma level_names: "(p, sane) \<in> set level_library \<Longrightarrow> kl_name (pg_class p) \<noteq> [] \<and> kl_name (pg_class p) \<noteq> ''unnamed''"
  by (auto simp: level_library_def plug_def class_of_def bos_class_def opening_range_class_def range_breakout_class_def
      vwap_breakout_class_def mean_reversion_class_def vwap_reversion_class_def cvd_class_def delta_class_def
      book_imbalance_class_def atr_expansion_class_def compression_class_def)

text \<open>
  A signal of a strategy that keeps the level contract is admitted by the structural validation of the
  registry exactly when it has not expired and its rounded ratio of reward to risk is positive: no other check of the
  registry can refuse it.
\<close>

theorem strategy_signals_admitted:
  assumes "(p, sane) \<in> set level_library" "sane x q" "weights_ok q" "wf_market q x" "sound_cache (at_features st)"
    "qy_class q = pg_class p" "ac_symbol x \<noteq> []" "analyze (pg_evaluate p) q x i st = (Inr (Some s), st')"
  shows "sv_validate now s = [] \<longleftrightarrow>
    (\<exists>t. sg_expiration s = Some t \<and> now < t) \<and> (\<exists>rr. sg_risk_reward s = Some rr \<and> 0 < rr)"
proof -
  have c: "level_contract (pg_evaluate p) sane" by (rule library_levels [OF assms(1)])
  then have "holds (analyze (pg_evaluate p) q x i) (valid_signal q x)"
    using strategy_contract.emits_valid assms(3) level_contract.axioms(1) stop_contract.axioms(1) by blast
  from holdsD [OF this assms(5,8)] have v: "valid_signal q x (Some s)" by simp
  from holdsD [OF level_contract.emits_admitted [OF c assms(2,4)] assms(5,8)] have l: "levels_admitted (Some s)" by simp
  obtain t where t: "sg_expiration s = Some t" using v by (auto simp: valid_signal_def split: sum.splits)
  have "sg_symbol s \<noteq> []" "sg_strategy_name s \<noteq> []" "sg_strategy_name s \<noteq> ''unnamed''"
    using v level_names [OF assms(1)] assms(6,7) by (simp_all add: valid_signal_def)
  then show ?thesis
    using v l t by (auto simp: valid_signal_def levels_admitted_def sv_validate_def strategy_validate_def split: option.splits if_splits)
qed

section \<open>Runs\<close>

text \<open>A market with one candle and a store whose cache already holds the readings a strategy asks for.\<close>

definition one_bar :: md_candle where
  "one_bar = \<lparr> cd_open = 100, cd_high = 104, cd_low = 96, cd_close = 102, cd_volume = 1, cd_symbol = ''X'', cd_provider = ''P'',
     cd_timeframe = TF_M1, cd_start = 0, cd_end = 60000000, cd_buy_volume = 1, cd_sell_volume = 0, cd_vwap = 100, cd_trades = 1, cd_closed = True, cd_source = [] \<rparr>"

definition run_params :: sparams where
  "run_params = [(''min_candles'', SpNum 1), (''confirmations'', SpNames []), (''min_signal_score'', SpNum 10)]"

definition run_market :: market_api where
  "run_market = \<lparr> mv_store = (st_new 10 10)\<lparr> st_candles := [((''X'', TF_M1), [one_bar])] \<rparr>, mv_cached_price = (\<lambda>_. None),
     mv_feed = None, mv_now = 0, mv_clock = 1 \<rparr>"

definition run_context :: quant_context where
  "run_context = \<lparr> qc_symbol = ''X'', qc_generated_at = 0, qc_regime = None, qc_sessions = [], qc_volatility = VS_NORMAL,
     qc_atr = None, qc_atr_pct = None, qc_spread_bps = None, qc_spread_elevated = False, qc_volume_recent = None,
     qc_volume_sufficient = True, qc_news_blackout = False, qc_data_quality = 1, qc_last_price = None, qc_extras = [] \<rparr>"

definition run_ctx :: "pylib \<Rightarrow> analysis_ctx" where
  "run_ctx L = \<lparr> ac_lib = L, ac_symbol = ''X'', ac_fired_at = 0, ac_trigger = ''timer'', ac_market = run_market,
     ac_context = run_context, ac_payload = [] \<rparr>"

definition run_state :: "(string \<times> params \<times> feature_value) list \<Rightarrow> analysis_state" where
  "run_state readings = \<lparr> at_features = (fs_new 5)\<lparr> fs_cache := map (\<lambda>(n, ps, v). (feature_key_of n ''X'' ps, (1, v))) readings \<rparr>,
     at_detections = [], at_skip = None \<rparr>"

definition atr_key :: params where "atr_key = [(''timeframe'', PmStr ''1m''), (''period'', PmInt 14)]"

definition book_strategy :: quant_strategy where "book_strategy = new_strategy book_imbalance_class run_params"

definition book_state :: analysis_state where
  "book_state = run_state [(''imbalance'', [], FV_Num (Some (1/2))), (''book_pressure'', [], FV_Num (Some (1/2))),
     (''atr'', atr_key, FV_Num (Some 1))]"

lemma book_params:
  "raw_param ''lookback'' book_strategy = Inr (SpNum 120)" "raw_param ''min_candles'' book_strategy = Inr (SpNum 1)"
  "raw_param ''min_data_quality'' book_strategy = Inr (SpNum 0)" "raw_param ''atr_period'' book_strategy = Inr (SpNum 14)"
  "raw_param ''min_imbalance'' book_strategy = Inr (SpNum (1/4))" "raw_param ''min_pressure'' book_strategy = Inr (SpNum (2/10))"
  "raw_param ''stop_atr'' book_strategy = Inr (SpNum (6/10))" "raw_param ''risk_reward'' book_strategy = Inr (SpNum (3/2))"
  "raw_param ''min_signal_score'' book_strategy = Inr (SpNum 10)" "raw_param ''signal_ttl_seconds'' book_strategy = Inr (SpNum 120)"
  "pd_get (qy_parameters book_strategy) ''max_spread_bps'' = Some SpNone"
  "pd_get (qy_parameters book_strategy) ''confirmations'' = Some (SpNames [])"
  "raw_param ''score_weights'' book_strategy = Inr (SpWeights [(''quality'', 25/100), (''strength'', 20/100), (''context'', 20/100),
        (''probability'', 20/100), (''risk'', 15/100)])"
  "raw_param ''confidence_weights'' book_strategy = Inr (SpWeights [(''volume'', 15/100), (''volatility'', 15/100), (''liquidity'', 15/100),
        (''regime'', 20/100), (''confirmations'', 25/100), (''data_quality'', 10/100)])"
  by (simp_all add: raw_param_def book_strategy_def new_strategy_def strategy_parameters_def pd_merge_def core_parameters_def
      book_imbalance_class_def class_of_def run_params_def pd_get_def)

lemma book_class: "qy_class book_strategy = book_imbalance_class"
  by (simp add: book_strategy_def new_strategy_def)

lemma run_series: "st_candle_series ''X'' TF_M1 120 (mv_store run_market) = [one_bar]"
  by (simp add: st_candle_series_def run_market_def pd_get_or_def pd_get_def py_tail_def last_n_def st_new_def upper_def upper_char_def)

lemma run_get:
  assumes "pd_get (fs_cache (at_features st)) (feature_key_of n ''X'' ps) = Some (1, FV_Num r)"
    "pd_get (fs_providers (at_features st)) n = Some (f, 5)"
  shows "an_get (run_ctx L) n ps st = (Inr r, st\<lparr> at_features := (at_features st)\<lparr> fs_hits := fs_hits (at_features st) + 1 \<rparr> \<rparr>)"
  using assms cached_hit [of "at_features st" n "''X''" ps 1 "FV_Num r" run_market 5 "compute_scalar run_market f"]
  by (simp add: an_get_def run_ctx_def fs_get_def run_market_def num_of_def)

lemma bind_step: "m st = (Inr x, st') \<Longrightarrow> an_bind m f st = f x st'"
  by (simp add: an_bind_def)

lemma bind_lift: "an_bind (an_lift (Inr y)) f = f y" "an_bind (set_note m) g st = g () (st\<lparr> at_skip := m \<rparr>)"
  by (rule ext) (simp_all add: an_bind_def an_lift_def set_note_def)

lemma store_providers:
  "pd_get (fs_providers (fs_new 5)) ''imbalance'' = Some (SF_imbalance, 5)"
  "pd_get (fs_providers (fs_new 5)) ''book_pressure'' = Some (SF_book_pressure, 5)"
  "pd_get (fs_providers (fs_new 5)) ''atr'' = Some (SF_atr, 5)"
  by (simp_all add: fs_new_def builtin_scalars_def builtin_objects_def fs_register_def fs_register_object_def ttl_or_def py_or_def pd_get_def)

lemma key_names: "feature_key_of n s ps = feature_key_of n' s' ps' \<Longrightarrow> n = n'"
  by (simp add: feature_key_of_def)

lemma book_cache:
  "pd_get (fs_cache (at_features book_state)) (feature_key_of ''imbalance'' ''X'' []) = Some (1, FV_Num (Some (1/2)))"
  "pd_get (fs_cache (at_features book_state)) (feature_key_of ''book_pressure'' ''X'' []) = Some (1, FV_Num (Some (1/2)))"
  "pd_get (fs_cache (at_features book_state)) (feature_key_of ''atr'' ''X'' atr_key) = Some (1, FV_Num (Some 1))"
  by (auto simp: book_state_def run_state_def pd_get_def dest: key_names)

definition hit :: "analysis_state \<Rightarrow> analysis_state" where
  "hit st = st\<lparr> at_features := (at_features st)\<lparr> fs_hits := fs_hits (at_features st) + 1 \<rparr> \<rparr>"

lemma hit_frame [simp]: "fs_cache (at_features (hit st)) = fs_cache (at_features st)"
  "fs_providers (at_features (hit st)) = fs_providers (at_features st)"
  by (simp_all add: hit_def)

lemma book_providers [simp]: "fs_providers (at_features book_state) = fs_providers (fs_new 5)"
  by (simp add: book_state_def run_state_def)

definition book_assessment :: assessment where
  "book_assessment = \<lparr> am_direction = Dir_Long, am_quality = 1, am_strength = 1, am_context_fit = 7/10, am_probability = 55/100,
     am_risk = 35/100,
     am_reasons = [Fmt ''Imbalance del libro {:+.2f} ({}).'' [ArgReal (1/2), ArgStr ''compradora''],
       Fmt ''Presion ponderada coincidente ({:+.2f}).'' [ArgReal (1/2)]],
     am_warnings = [Lit ''Senal de corto plazo: el libro cambia rapido.''],
     am_entry = Some \<lparr> ez_low = 1019/10, ez_high = 1021/10 \<rparr>, am_stop_loss = Some (1014/10), am_take_profit = Some (1029/10),
     am_confirmations = None, am_metadata = [(''imbalance'', JNum (1/2)), (''book_pressure'', JNum (1/2))] \<rparr>"

lemma round_half: "py_round 4 (1/2) = 1/2"
  by (rule py_round_grid) (simp add: on_grid_def)

lemma run_risk: "volatility_risk book_strategy (run_ctx L) b = b"
  by (simp add: volatility_risk_def run_ctx_def run_context_def book_class book_imbalance_class_def class_of_def usual_volatility_def)

lemma run_fields [simp]: "ac_symbol (run_ctx L) = ''X''" "ac_fired_at (run_ctx L) = 0" "ac_lib (run_ctx L) = L"
  "ac_market (run_ctx L) = run_market" "ac_context (run_ctx L) = run_context"
  by (simp_all add: run_ctx_def)

lemma book_evaluation:
  "book_imbalance_evaluate book_strategy (run_ctx L) [one_bar] book_state = (Inr (Some book_assessment), hit (hit (hit book_state)))"
proof -
  have get: "an_get (run_ctx L) ''imbalance'' [] book_state = (Inr (Some (1/2)), hit book_state)"
    "an_get (run_ctx L) ''book_pressure'' [] (hit book_state) = (Inr (Some (1/2)), hit (hit book_state))"
    "an_get (run_ctx L) ''atr'' atr_key (hit (hit book_state)) = (Inr (Some 1), hit (hit (hit book_state)))"
    using run_get [of book_state "''imbalance''" "[]"] run_get [of "hit book_state" "''book_pressure''" "[]"]
      run_get [of "hit (hit book_state)" "''atr''" atr_key]
    by (simp_all add: book_cache store_providers hit_def [symmetric])
  have key: "[tf_param book_strategy, (''period'', PmInt 14)] = atr_key"
    by (simp add: tf_param_def atr_key_def book_class book_imbalance_class_def class_of_def tf_value_def)
  have atr: "atr_or_none book_strategy (run_ctx L) (hit (hit book_state)) = (Inr (Some 1), hit (hit (hit book_state)))"
    by (simp add: atr_or_none_def iparam_def book_params sp_int_def bind_lift py_int_def key get(3))
  show ?thesis
    by (simp add: book_imbalance_evaluate_def bind_step get atr fparam_def book_params sp_float_def bind_lift candle_back_def Let_def
        one_bar_def atr_stop_def protective_stop_def entry_zone_around_def target_from_rr_def ez_mid_def assess_def an_ret_def
        book_assessment_def clamp01_def run_risk round_half)
qed

definition book_signal :: "pylib \<Rightarrow> strategy_signal" where
  "book_signal L = build_signal book_strategy (run_ctx L) ''id'' book_assessment (py_round 2 (319/4)) [] (py_round 4 (71/80)) 120"

lemma book_run:
  "\<exists>st'. analyze book_imbalance_evaluate book_strategy (run_ctx L) ''id'' book_state = (Inr (Some (book_signal L)), st')"
proof -
  have pre: "precheck run_context [one_bar] 1 0 None = None" by (simp add: precheck_def run_context_def)
  have series: "st_candle_series ''X'' (kl_timeframe (qy_class book_strategy)) 120 (mv_store run_market) = [one_bar]"
    using run_series by (simp add: book_class book_imbalance_class_def class_of_def)
  have score: "score_of book_strategy book_assessment = Inr (py_round 2 (319/4))"
    by (simp add: score_of_def book_params sp_weights_def weighted_mean_def score_components_def pd_get_def and_then_def
        book_assessment_def clamp01_def)
  have confidence: "confidence_of book_strategy run_context [] = Inr (py_round 4 (71/80))"
    by (simp add: confidence_of_def book_params sp_weights_def weighted_mean_def confidence_factors_def pd_get_def and_then_def
        run_context_def book_class book_imbalance_class_def class_of_def usual_volatility_def regime_affinity_def clamp01_def)
  have enough: "\<not> py_round 2 (319/4) < (10 :: real)"
    using py_round_lower [of "319/4" 2] by simp
  have names: "requested_confirmations book_strategy book_assessment = Inr []"
    by (simp add: requested_confirmations_def book_assessment_def book_params sp_names_def)
  have dir: "am_direction book_assessment = Dir_Long" by (simp add: book_assessment_def)
  show ?thesis
    by (simp add: analyze_def emit_def iparam_def fparam_def bind_lift bind_step book_params sp_int_def sp_float_def py_int_def
        series pre book_evaluation score confidence enough names dir an_ret_def book_signal_def Let_def)
qed

lemma book_sound: "sound_cache (at_features book_state)"
  by (simp add: sound_cache_def pd_values_def book_state_def run_state_def sound_value_def)

lemma book_weights: "weights_ok book_strategy"
  by (simp add: weights_ok_def book_params pd_wf_def)

lemma book_member: "(plug book_imbalance_class book_imbalance_evaluate, scaled_sane) \<in> set level_library"
  by (simp add: level_library_def)

lemma book_plug: "pg_evaluate (plug k f) = f" "pg_class (plug k f) = k"
  by (simp_all add: plug_def)

theorem strategies_emit_valid_signals_witness:
  "\<forall>L. \<exists>s st'. analyze book_imbalance_evaluate book_strategy (run_ctx L) ''id'' book_state = (Inr (Some s), st')
     \<and> strategy_validate s = [] \<and> sg_direction s = Dir_Long \<and> 10 \<le> sg_score s"
proof
  fix L
  obtain st' where run: "analyze book_imbalance_evaluate book_strategy (run_ctx L) ''id'' book_state = (Inr (Some (book_signal L)), st')"
    using book_run by blast
  have p: "plug book_imbalance_class book_imbalance_evaluate \<in> set strategy_library"
    using book_member by (force simp: strategy_library_def)
  have d: "sg_direction (book_signal L) = Dir_Long" by (simp add: book_signal_def build_signal_def book_assessment_def)
  from strategies_emit_valid_signals [OF p book_weights book_sound, unfolded book_plug, OF run] run d
  show "\<exists>s st'. analyze book_imbalance_evaluate book_strategy (run_ctx L) ''id'' book_state = (Inr (Some s), st')
      \<and> strategy_validate s = [] \<and> sg_direction s = Dir_Long \<and> 10 \<le> sg_score s"
    by (auto simp: book_params sp_float_def)
qed

theorem strategy_signals_admitted_witness:
  "\<forall>L. \<exists>s st'. analyze book_imbalance_evaluate book_strategy (run_ctx L) ''id'' book_state = (Inr (Some s), st')
     \<and> sv_validate 7 s = [] \<and> sv_validate 120000000 s \<noteq> []"
proof
  fix L
  obtain st' where run: "analyze book_imbalance_evaluate book_strategy (run_ctx L) ''id'' book_state = (Inr (Some (book_signal L)), st')"
    using book_run by blast
  have sane: "scaled_sane (run_ctx L) book_strategy"
    by (simp add: scaled_sane_def positive_def book_params sp_float_def)
  have wf: "wf_market book_strategy (run_ctx L)"
    by (simp add: wf_market_def run_market_def st_new_def pd_get_or_def pd_get_def upper_def upper_char_def book_class
        book_imbalance_class_def class_of_def wf_series_def one_bar_def)
  have e: "sg_expiration (book_signal L) = Some 120000000"
    by (simp add: book_signal_def build_signal_def timedelta_seconds_def round_half_even_def Let_def)
  have "py_round 2 (3/2) = 3/2" by (rule py_round_grid) (simp add: on_grid_def)
  then have r: "sg_risk_reward (book_signal L) = Some (3/2)"
    by (simp add: book_signal_def build_signal_def risk_reward_of_def book_assessment_def)
  have q: "qy_class book_strategy = pg_class (plug book_imbalance_class book_imbalance_evaluate)" by (simp add: book_class book_plug)
  have x: "ac_symbol (run_ctx L) \<noteq> []" by simp
  have "\<exists>rr :: real. rr * 2 = 3 \<and> 0 < rr" by (rule exI [of _ "3/2"]) simp
  with strategy_signals_admitted [OF book_member sane book_weights wf book_sound q x, unfolded book_plug, OF run] run e r
  show "\<exists>s st'. analyze book_imbalance_evaluate book_strategy (run_ctx L) ''id'' book_state = (Inr (Some s), st')
      \<and> sv_validate 7 s = [] \<and> sv_validate 120000000 s \<noteq> []"
    by auto
qed

text \<open>
  The target of the volume profile strategy is the point of control, wherever it is: with the close beyond it, the assessment
  carries a target behind its own entry, which the level checks of the registry refuse.
\<close>

lemma poc_behind_entry:
  assumes "ez_mid z < vp_poc p" "am_direction a = Dir_Short" "am_entry a = Some z" "am_take_profit a = Some (vp_poc p)"
  shows "level_checks (build_signal q x i a score cs confidence ttl) \<noteq> []"
  using assms by (simp add: level_checks_def build_signal_def Let_def)

end
