(* ===== verification/Strategy_Engine.thy ===== *)
theory Strategy_Engine
  imports Strategy_Library Decision_Engine
begin

text \<open>
  The strategy engine (\<open>app/engine/strategy_engine/engine.py\<close>), the discovery of plugins
  (\<open>app/engine/plugins/loader.py\<close>) and the facade of the core (\<open>app/engine/quant_core.py\<close>).  A run of a strategy takes the
  lock of the strategy when it is triggered and releases it when its coroutine ends; between the two, other steps may
  happen.  What the coroutine does between its awaits is one step.  Events go to the list of the engine, and to the list of
  the signal engine for those the signal and decision engines publish.
\<close>

section \<open>Plugins\<close>

record plugin_file =
  pf_name :: string
  pf_classes :: "(string \<times> plugin) list option"

text \<open>\<open>pf_classes\<close> is what importing the file gives: its own strategy classes by their Python name, or nothing when the
  import fails.  \<open>glob\<close> returns the files in any order.\<close>

record plugin_dir =
  pd_exists :: bool
  pd_files :: "plugin_file list"

definition load_file :: "plugin_file \<Rightarrow> (string \<times> plugin) list" where
  "load_file f = (case pf_classes f of None \<Rightarrow> [] | Some cs \<Rightarrow> cs)"

definition sorted_files :: "plugin_file list \<Rightarrow> plugin_file list" where
  "sorted_files fs = sort_key (\<lambda>f. map (of_char :: char \<Rightarrow> nat) (pf_name f)) fs"

definition keep_first :: "plugin \<Rightarrow> (string, plugin) pydict \<Rightarrow> (string, plugin) pydict" where
  "keep_first p d = (if pd_get d (kl_name (pg_class p)) \<noteq> None then d else pd_put d (kl_name (pg_class p)) p)"

definition discover :: "plugin_dir list \<Rightarrow> plugin list" where
  "discover dirs = pd_values (fold keep_first
     (concat (map (\<lambda>dir. if pd_exists dir
        then concat (map (\<lambda>f. map snd (load_file f)) (filter (\<lambda>f. take 1 (pf_name f) \<noteq> ''_'') (sorted_files (pd_files dir)))) else []) dirs)) [])"

text \<open>A class the file does not have is a configuration error.\<close>

definition load_class :: "plugin_file \<Rightarrow> string \<Rightarrow> msg + plugin" where
  "load_class f n = (case filter (\<lambda>c. fst c = n) (load_file f) of
       c # _ \<Rightarrow> Inr (snd c)
     | [] \<Rightarrow> Inl (Fmt ''Strategy class '{}' not found in {}'' [ArgStr n, ArgStr (pf_name f)]))"

section \<open>State\<close>

record loaded_strategy =
  ld_strategy :: quant_strategy
  ld_evaluate :: evaluator
  ld_enabled :: bool
  ld_weight :: real
  ld_busy :: bool
  ld_stats :: strategy_stats

record strategy_config =
  qz_enabled :: bool
  qz_weight :: real
  qz_parameters :: sparams

datatype engine_event = SxQuant quant_event | SxDetection detection

record strategy_engine =
  sx_running :: bool
  sx_configs :: "(string, strategy_config) pydict"
  sx_auto_discover :: bool
  sx_strategies :: "(string, loaded_strategy) pydict"
  sx_timer_jobs :: "(string \<times> real) list"
  sx_context :: context_engine
  sx_decisions :: decision_engine
  sx_events :: "engine_event list"

definition sx_publish :: "engine_event \<Rightarrow> strategy_engine \<Rightarrow> strategy_engine" where
  "sx_publish ev e = e\<lparr> sx_events := sx_events e @ [ev] \<rparr>"

definition default_config :: strategy_config where
  "default_config = \<lparr> qz_enabled = True, qz_weight = 1, qz_parameters = [] \<rparr>"

definition strategy_settings :: "string \<Rightarrow> strategy_engine \<Rightarrow> strategy_config" where
  "strategy_settings n e = pd_get_or (sx_configs e) n default_config"

definition load_wrapper :: "quant_strategy \<Rightarrow> evaluator \<Rightarrow> bool \<Rightarrow> real \<Rightarrow> loaded_strategy" where
  "load_wrapper q f enabled weight =
     (let k = qy_class q in
      \<lparr> ld_strategy = q, ld_evaluate = f, ld_enabled = enabled, ld_weight = weight, ld_busy = False,
        ld_stats = \<lparr> ts_name = kl_name k, ts_version = kl_version k, ts_enabled = enabled, ts_symbols = kl_symbols k,
          ts_cadence = ca_describe (kl_cadence k), ts_weight = weight, ts_runs = 0, ts_errors = 0, ts_skipped = 0,
          ts_signals_produced = 0, ts_last_run_at = None, ts_last_duration_ms = None, ts_avg_duration_ms = None,
          ts_last_signal_at = None, ts_last_score = None, ts_last_confidence = None \<rparr> \<rparr>)"

section \<open>Management\<close>

definition timer_name :: "string \<Rightarrow> string" where "timer_name n = ''strategy_timer_'' @ n"

definition schedule_timer :: "strategy_class \<Rightarrow> strategy_engine \<Rightarrow> strategy_engine" where
  "schedule_timer k e = e\<lparr> sx_timer_jobs := sx_timer_jobs e @ [(timer_name (kl_name k), max (1/2) (ca_seconds (kl_cadence k)))] \<rparr>"

definition sx_register :: "plugin \<Rightarrow> strategy_engine \<Rightarrow> strategy_engine" where
  "sx_register p e =
     (let k = pg_class p; config = strategy_settings (kl_name k) e;
          ld = load_wrapper (new_strategy k (qz_parameters config)) (pg_evaluate p) (qz_enabled config) (qz_weight config);
          e1 = e\<lparr> sx_strategies := pd_put (sx_strategies e) (kl_name k) ld \<rparr>;
          e2 = (if ca_kind (kl_cadence k) \<in> {CK_EVERY_SECOND, CK_INTERVAL} then schedule_timer k e1 else e1)
      in sx_publish (SxQuant (EvStrategyLoaded (kl_name k) (kl_symbols k))) e2)"

definition sx_start :: "plugin_dir list \<Rightarrow> strategy_engine \<Rightarrow> strategy_engine" where
  "sx_start dirs e = (if sx_auto_discover e then fold sx_register (discover dirs) e else e)\<lparr> sx_running := True \<rparr>"

definition sx_load :: "plugin \<Rightarrow> strategy_engine \<Rightarrow> msg + strategy_engine" where
  "sx_load p e = (if pd_get (sx_strategies e) (kl_name (pg_class p)) \<noteq> None
     then Inl (Fmt ''Strategy '{}' already loaded'' [ArgStr (kl_name (pg_class p))]) else Inr (sx_register p e))"

text \<open>A run that is under way when its strategy is unloaded finishes on an object the engine no longer lists; that tail is
  not part of the model, whose runs are those of the listed strategies.\<close>

definition sx_unload :: "string \<Rightarrow> strategy_engine \<Rightarrow> msg + strategy_engine" where
  "sx_unload n e = (if pd_get (sx_strategies e) n = None
     then Inl (Fmt ''Strategy '{}' is not loaded'' [ArgStr n])
     else Inr (sx_publish (SxQuant (EvStrategyUnloaded n))
       (e\<lparr> sx_strategies := pd_pop (sx_strategies e) n,
           sx_timer_jobs := (case List.extract (\<lambda>j. fst j = timer_name n) (sx_timer_jobs e) of
              None \<Rightarrow> sx_timer_jobs e | Some (before, _, after) \<Rightarrow> before @ after) \<rparr>)))"

definition sx_require :: "string \<Rightarrow> strategy_engine \<Rightarrow> msg + loaded_strategy" where
  "sx_require n e = (case pd_get (sx_strategies e) n of
       None \<Rightarrow> Inl (Fmt ''Strategy '{}' is not loaded'' [ArgStr n]) | Some ld \<Rightarrow> Inr ld)"

definition sx_put :: "string \<Rightarrow> loaded_strategy \<Rightarrow> strategy_engine \<Rightarrow> strategy_engine" where
  "sx_put n ld e = e\<lparr> sx_strategies := pd_put (sx_strategies e) n ld \<rparr>"

definition sx_set_enabled :: "bool \<Rightarrow> string \<Rightarrow> strategy_engine \<Rightarrow> msg + strategy_engine" where
  "sx_set_enabled b n e = (case sx_require n e of
       Inl m \<Rightarrow> Inl m
     | Inr ld \<Rightarrow> Inr (sx_put n (ld\<lparr> ld_enabled := b, ld_stats := (ld_stats ld)\<lparr> ts_enabled := b \<rparr> \<rparr>) e))"

definition sx_loaded :: "strategy_engine \<Rightarrow> string list" where
  "sx_loaded e = sorted_names (pd_keys (sx_strategies e))"

definition sx_stats :: "strategy_engine \<Rightarrow> strategy_stats list" where
  "sx_stats e = map ld_stats (pd_values (sx_strategies e))"

definition sx_weights :: "strategy_engine \<Rightarrow> (string, real) pydict" where
  "sx_weights e = map (\<lambda>(n, ld). (n, ld_weight ld)) (sx_strategies e)"

definition sx_explain :: "pylib \<Rightarrow> string \<Rightarrow> strategy_engine \<Rightarrow> msg + msg" where
  "sx_explain L n e = (case sx_require n e of Inl m \<Rightarrow> Inl m | Inr ld \<Rightarrow> Inr (explain_strategy L (ld_strategy ld)))"

definition sx_status :: "pylib \<Rightarrow> strategy_engine \<Rightarrow> json_dict" where
  "sx_status L e = [(''loaded'', JInt (int (length (sx_strategies e)))),
     (''enabled'', JInt (int (length (filter ld_enabled (pd_values (sx_strategies e)))))),
     (''strategies'', JList (map (JObj \<circ> ts_to_dict L) (sx_stats e))),
     (''feature_store'', JObj (fs_stats (xe_features (sx_context e))))]"

section \<open>Triggers\<close>

definition sx_matches :: "strategy_class \<Rightarrow> string \<Rightarrow> bool" where
  "sx_matches k symbol \<longleftrightarrow> kl_symbols k = [] \<or> upper symbol \<in> set (map upper (kl_symbols k))"

definition symbols_for :: "strategy_class \<Rightarrow> string list \<Rightarrow> string list" where
  "symbols_for k market_symbols = (if kl_symbols k \<noteq> [] then map upper (kl_symbols k) else market_symbols)"

definition class_at :: "loaded_strategy \<Rightarrow> strategy_class" where "class_at ld = qy_class (ld_strategy ld)"

definition on_tick :: "string \<Rightarrow> real \<Rightarrow> strategy_engine \<Rightarrow> (string \<times> string \<times> string \<times> json_dict) list" where
  "on_tick symbol price e = map (\<lambda>(n, _). (n, symbol, ''tick'', [(''price'', JNum price)]))
     (filter (\<lambda>(_, ld). ca_kind (kl_cadence (class_at ld)) = CK_EVERY_TICK \<and> sx_matches (class_at ld) symbol) (sx_strategies e))"

definition on_candle :: "string \<Rightarrow> string \<Rightarrow> real \<Rightarrow> real \<Rightarrow> real \<Rightarrow> strategy_engine
    \<Rightarrow> (string \<times> string \<times> string \<times> json_dict) list" where
  "on_candle symbol timeframe open_at close_at volume e =
     map (\<lambda>(n, _). (n, symbol, ''candle:'' @ timeframe, [(''open'', JNum open_at), (''close'', JNum close_at), (''volume'', JNum volume)]))
       (filter (\<lambda>(_, ld). let c = kl_cadence (class_at ld) in
          ca_kind c = CK_EVERY_CANDLE \<and> timeframe = (case ca_timeframe c of None \<Rightarrow> ''1m'' | Some tf \<Rightarrow> tf_value tf)
          \<and> sx_matches (class_at ld) symbol) (sx_strategies e))"

definition on_timer :: "string \<Rightarrow> string list \<Rightarrow> strategy_engine \<Rightarrow> (string \<times> string \<times> string \<times> json_dict) list" where
  "on_timer n market_symbols e = (case pd_get (sx_strategies e) n of
       None \<Rightarrow> [] | Some ld \<Rightarrow> map (\<lambda>s. (n, s, ''timer'', [])) (symbols_for (class_at ld) market_symbols))"

section \<open>A run\<close>

text \<open>What the outside world gives one run: the market at its awaits, the clock, the ids and the interleavings of the decision.\<close>

record run_io =
  ri_lib :: pylib
  ri_market :: market_api
  ri_now :: time
  ri_duration_ms :: real
  ri_signal_id :: string
  ri_submit_at :: time
  ri_decision_id :: string
  ri_decision_market :: market_api
  ri_later :: time
  ri_gap :: "signal_engine \<Rightarrow> signal_engine"

definition record_run :: "time \<Rightarrow> real \<Rightarrow> strategy_stats \<Rightarrow> strategy_stats" where
  "record_run now duration s = s\<lparr> ts_runs := ts_runs s + 1, ts_last_run_at := Some now,
     ts_last_duration_ms := Some (py_round 3 duration),
     ts_avg_duration_ms := Some (case ts_avg_duration_ms s of None \<Rightarrow> duration
        | Some a \<Rightarrow> py_round 3 (9/10 * a + 1/10 * duration)) \<rparr>"

text \<open>The lock: a trigger that finds it taken is counted and dropped.\<close>

definition sx_trigger :: "string \<Rightarrow> strategy_engine \<Rightarrow> strategy_engine" where
  "sx_trigger n e = (case pd_get (sx_strategies e) n of
       None \<Rightarrow> e
     | Some ld \<Rightarrow>
         if \<not> ld_enabled ld \<or> \<not> sx_running e then e
         else if ld_busy ld then sx_put n (ld\<lparr> ld_stats := (ld_stats ld)\<lparr> ts_skipped := ts_skipped (ld_stats ld) + 1 \<rparr> \<rparr>) e
         else sx_put n (ld\<lparr> ld_busy := True \<rparr>) e)"

text \<open>The decision of the symbol after a signal became active; the context is built anew.\<close>

definition decide_now :: "run_io \<Rightarrow> string \<Rightarrow> strategy_engine \<Rightarrow> py_error option \<times> strategy_engine" where
  "decide_now io symbol e =
     (case build_context (ri_decision_market io) (upper symbol) (sx_context e) of
        (Inl err, c) \<Rightarrow> (Some err, e\<lparr> sx_context := c, sx_decisions := (sx_decisions e)\<lparr>
            dg_signals := snd (active_signals (mv_now (ri_decision_market io)) (upper symbol) (dg_signals (sx_decisions e))) \<rparr> \<rparr>)
      | (Inr cx, c) \<Rightarrow>
          (case dg_evaluate (ri_lib io) (ri_decision_id io) (mv_now (ri_decision_market io)) (ri_later io) symbol cx
                 (ri_gap io) (sx_decisions e) of
             Inl err \<Rightarrow> (Some err, e\<lparr> sx_context := c \<rparr>)
           | Inr (d, g) \<Rightarrow> (None, e\<lparr> sx_context := c, sx_decisions := g \<rparr>)))"

definition submit_signal :: "run_io \<Rightarrow> strategy_signal \<Rightarrow> strategy_engine \<Rightarrow> py_error option \<times> strategy_engine" where
  "submit_signal io s e =
     (case si_submit (ri_submit_at io) s (dg_signals (sx_decisions e)) of (accepted, si) \<Rightarrow>
        let e1 = e\<lparr> sx_decisions := (sx_decisions e)\<lparr> dg_signals := si \<rparr> \<rparr>
        in if accepted then decide_now io (sg_symbol s) e1 else (None, e1))"

definition run_failed :: "string \<Rightarrow> string \<Rightarrow> loaded_strategy \<Rightarrow> strategy_engine \<Rightarrow> strategy_engine" where
  "run_failed n symbol ld e = sx_publish (SxQuant (EvStrategyFailed n (upper symbol)))
     (sx_put n (ld\<lparr> ld_busy := False, ld_stats := (ld_stats ld)\<lparr> ts_errors := ts_errors (ld_stats ld) + 1 \<rparr> \<rparr>) e)"

definition run_executed :: "string \<Rightarrow> string \<Rightarrow> run_io \<Rightarrow> bool \<Rightarrow> loaded_strategy \<Rightarrow> strategy_engine \<Rightarrow> strategy_engine" where
  "run_executed n symbol io produced ld e =
     sx_publish (SxQuant (EvStrategyExecuted n (upper symbol) (py_round 3 (ri_duration_ms io)) produced))
       (sx_put n (ld\<lparr> ld_busy := False \<rparr>) e)"

definition ctx_of :: "run_io \<Rightarrow> string \<Rightarrow> string \<Rightarrow> json_dict \<Rightarrow> quant_context \<Rightarrow> analysis_ctx" where
  "ctx_of io symbol trigger payload cx = \<lparr> ac_lib = ri_lib io, ac_symbol = upper symbol, ac_fired_at = ri_now io,
     ac_trigger = trigger, ac_market = ri_market io, ac_context = cx, ac_payload = payload \<rparr>"

definition with_signal :: "run_io \<Rightarrow> strategy_signal \<Rightarrow> loaded_strategy \<Rightarrow> loaded_strategy" where
  "with_signal io s ld = ld\<lparr> ld_strategy := record_evaluation (Some s) None (ld_strategy ld),
     ld_stats := (ld_stats ld)\<lparr> ts_signals_produced := ts_signals_produced (ld_stats ld) + 1,
       ts_last_signal_at := Some (ri_now io), ts_last_score := Some (sg_score s), ts_last_confidence := Some (sg_confidence s) \<rparr> \<rparr>"

definition sx_finish :: "run_io \<Rightarrow> string \<Rightarrow> string \<Rightarrow> string \<Rightarrow> json_dict \<Rightarrow> strategy_engine \<Rightarrow> strategy_engine" where
  "sx_finish io n symbol trigger payload e =
     (case pd_get (sx_strategies e) n of None \<Rightarrow> e | Some ld \<Rightarrow>
      if \<not> ld_busy ld then e else
      case build_context (ri_market io) symbol (sx_context e) of
        (Inl err, c) \<Rightarrow> run_failed n symbol ld (e\<lparr> sx_context := c \<rparr>)
      | (Inr cx, c) \<Rightarrow>
      (case analyze (ld_evaluate ld) (ld_strategy ld) (ctx_of io symbol trigger payload cx) (ri_signal_id io)
              \<lparr> at_features = xe_features c, at_detections = [], at_skip = qy_skip_reason (ld_strategy ld) \<rparr> of
        (r, st) \<Rightarrow>
          let q = (ld_strategy ld)\<lparr> qy_skip_reason := at_skip st \<rparr>;
              e1 = e\<lparr> sx_context := c\<lparr> xe_features := at_features st \<rparr> \<rparr>; ld1 = ld\<lparr> ld_strategy := q \<rparr>
          in (case r of
               Inl err \<Rightarrow> run_failed n symbol ld1 e1
             | Inr outcome \<Rightarrow>
                 let ld2 = ld1\<lparr> ld_stats := record_run (ri_now io) (ri_duration_ms io) (ld_stats ld1) \<rparr>;
                     e2 = fold (\<lambda>d. sx_publish (SxDetection d)) (at_detections st) e1
                 in (case outcome of
                      None \<Rightarrow> run_executed n symbol io False
                        (ld2\<lparr> ld_strategy := record_evaluation None (Some (Fmt ''sin oportunidad ({})'' [ArgStr trigger])) (ld_strategy ld2) \<rparr>) e2
                    | Some s \<Rightarrow>
                        let ld3 = with_signal io s ld2;
                            e3 = sx_publish (SxQuant (EvStrategyScoreUpdated n (sg_symbol s) (sg_score s) (sg_confidence s))) e2
                        in (case submit_signal io s e3 of
                              (Some err, e4) \<Rightarrow> run_failed n symbol ld3 e4
                            | (None, e4) \<Rightarrow> run_executed n symbol io True ld3 e4)))))"

definition takes_lock :: "string \<Rightarrow> strategy_engine \<Rightarrow> bool" where
  "takes_lock n e = (case pd_get (sx_strategies e) n of
       None \<Rightarrow> False | Some ld \<Rightarrow> ld_enabled ld \<and> sx_running e \<and> \<not> ld_busy ld)"

definition run_strategy :: "run_io \<Rightarrow> string \<times> string \<times> string \<times> json_dict \<Rightarrow> strategy_engine \<Rightarrow> strategy_engine" where
  "run_strategy io t e = (case t of (n, symbol, trigger, payload) \<Rightarrow>
     if takes_lock n e then sx_finish io n symbol trigger payload (sx_trigger n e) else sx_trigger n e)"

text \<open>Stopping cancels what is running; the locks are released and the timers removed.\<close>

definition sx_stop :: "strategy_engine \<Rightarrow> strategy_engine" where
  "sx_stop e = e\<lparr> sx_running := False, sx_timer_jobs := [],
     sx_strategies := map (\<lambda>(n, ld). (n, ld\<lparr> ld_busy := False \<rparr>)) (sx_strategies e) \<rparr>"

section \<open>The facade of the core\<close>

definition qx_load_strategy :: "plugin_file \<Rightarrow> string \<Rightarrow> strategy_engine \<Rightarrow> msg + strategy_engine" where
  "qx_load_strategy f n e = (case load_class f n of Inl m \<Rightarrow> Inl m | Inr p \<Rightarrow> sx_load p e)"

definition qx_analyze_market :: "market_api \<Rightarrow> string \<Rightarrow> strategy_engine \<Rightarrow> (py_error + quant_context) \<times> strategy_engine" where
  "qx_analyze_market v symbol e = (case build_context v symbol (sx_context e) of (r, c) \<Rightarrow> (r, e\<lparr> sx_context := c \<rparr>))"

definition qx_detect_regime :: "market_api \<Rightarrow> string \<Rightarrow> strategy_engine \<Rightarrow> regime_state \<times> strategy_engine" where
  "qx_detect_regime v symbol e = (case detect_regime v symbol (xe_regime (sx_context e)) of
     (r, d) \<Rightarrow> (r, e\<lparr> sx_context := (sx_context e)\<lparr> xe_regime := d \<rparr> \<rparr>))"

text \<open>The active signals of the symbol, with the registry after the pass that expires the stale ones.\<close>

definition qx_active :: "time \<Rightarrow> string \<Rightarrow> strategy_engine \<Rightarrow> strategy_signal list \<times> strategy_engine" where
  "qx_active now symbol e = (case active_signals now symbol (dg_signals (sx_decisions e)) of
     (ss, si) \<Rightarrow> (ss, e\<lparr> sx_decisions := (sx_decisions e)\<lparr> dg_signals := si \<rparr> \<rparr>))"

definition qx_consensus :: "string \<Rightarrow> strategy_signal list \<Rightarrow> quant_context option \<Rightarrow> strategy_engine \<Rightarrow> py_error + consensus_result" where
  "qx_consensus symbol ss cx e =
     cn_build (performance_factor (si_history (dg_signals (sx_decisions e)))) symbol ss cx (dg_consensus (sx_decisions e))"

definition qx_build_consensus :: "time \<Rightarrow> string \<Rightarrow> strategy_engine \<Rightarrow> (py_error + consensus_result) \<times> strategy_engine" where
  "qx_build_consensus now symbol e = (case qx_active now symbol e of (ss, e1) \<Rightarrow> (qx_consensus symbol ss None e1, e1))"

definition qx_calculate_score :: "time \<Rightarrow> string \<Rightarrow> strategy_engine \<Rightarrow> (py_error + real) \<times> strategy_engine" where
  "qx_calculate_score now symbol e = (case qx_build_consensus now symbol e of (r, e1) \<Rightarrow> (map_sum id cr_score r, e1))"

definition qx_calculate_confidence :: "market_api \<Rightarrow> string \<Rightarrow> strategy_engine
    \<Rightarrow> (py_error + real \<times> (string, real) pydict) \<times> strategy_engine" where
  "qx_calculate_confidence v symbol e = (case qx_active (mv_now v) symbol e of (ss, e1) \<Rightarrow>
     (case qx_analyze_market v symbol e1 of
        (Inl err, e2) \<Rightarrow> (Inl err, e2)
      | (Inr cx, e2) \<Rightarrow> (and_then (qx_consensus symbol ss (Some cx) e2)
           (\<lambda>c. Inr (cf_compute ss c cx (dg_confidence (sx_decisions e2)))), e2)))"

definition qx_evaluate_filters :: "market_api \<Rightarrow> string \<Rightarrow> strategy_engine \<Rightarrow> (py_error + filter_result list) \<times> strategy_engine" where
  "qx_evaluate_filters v symbol e = (case qx_analyze_market v symbol e of
     (Inl err, e1) \<Rightarrow> (Inl err, e1)
   | (Inr cx, e1) \<Rightarrow> (case qx_active (mv_now v) symbol e1 of (ss, e2) \<Rightarrow>
        (and_then (qx_consensus symbol ss (Some cx) e2)
           (\<lambda>c. Inr (filters_evaluate (filter_env_of (mv_now v) (dg_signals (sx_decisions e2))) cx (dg_filters (sx_decisions e2)))), e2)))"

definition qx_generate_signal :: "time \<Rightarrow> strategy_signal \<Rightarrow> strategy_engine \<Rightarrow> bool \<times> strategy_engine" where
  "qx_generate_signal now s e = (case si_submit now s (dg_signals (sx_decisions e)) of
     (ok, si) \<Rightarrow> (ok, e\<lparr> sx_decisions := (sx_decisions e)\<lparr> dg_signals := si \<rparr> \<rparr>))"

section \<open>The ledger of the runs\<close>

lemma put_frame [simp]: "sx_events (sx_put n ld e) = sx_events e" "sx_running (sx_put n ld e) = sx_running e"
  "pd_get (sx_strategies (sx_put n ld e)) m = (if m = n then Some ld else pd_get (sx_strategies e) m)"
  by (simp_all add: sx_put_def)

lemma sx_publish_frame [simp]: "sx_events (sx_publish ev e) = sx_events e @ [ev]" "sx_running (sx_publish ev e) = sx_running e"
  "sx_strategies (sx_publish ev e) = sx_strategies e"
  by (simp_all add: sx_publish_def)

lemma detections_frame [simp]:
  "sx_events (fold (\<lambda>d. sx_publish (SxDetection d)) ds e) = sx_events e @ map SxDetection ds"
  "sx_running (fold (\<lambda>d. sx_publish (SxDetection d)) ds e) = sx_running e"
  "sx_strategies (fold (\<lambda>d. sx_publish (SxDetection d)) ds e) = sx_strategies e"
  by (induction ds arbitrary: e) simp_all

lemma submit_frame:
  assumes "submit_signal io s e = (r, e')"
  shows "sx_events e' = sx_events e" "sx_running e' = sx_running e" "sx_strategies e' = sx_strategies e"
  using assms by (auto simp: submit_signal_def decide_now_def Let_def split: prod.splits sum.splits if_splits)

definition is_failed :: "string \<Rightarrow> engine_event \<Rightarrow> bool" where
  "is_failed n ev = (case ev of SxQuant (EvStrategyFailed m _) \<Rightarrow> m = n | _ \<Rightarrow> False)"

definition is_executed :: "string \<Rightarrow> bool \<Rightarrow> engine_event \<Rightarrow> bool" where
  "is_executed n b ev = (case ev of SxQuant (EvStrategyExecuted m _ _ c) \<Rightarrow> m = n \<and> c = b | _ \<Rightarrow> False)"

definition failures :: "string \<Rightarrow> strategy_engine \<Rightarrow> int" where
  "failures n e = int (length (filter (is_failed n) (sx_events e)))"

definition executions :: "string \<Rightarrow> bool \<Rightarrow> strategy_engine \<Rightarrow> int" where
  "executions n b e = int (length (filter (is_executed n b) (sx_events e)))"

definition runs_accounted :: "string \<Rightarrow> int \<Rightarrow> strategy_engine \<Rightarrow> bool" where
  "runs_accounted n k e = (case pd_get (sx_strategies e) n of None \<Rightarrow> False | Some ld \<Rightarrow>
     ts_errors (ld_stats ld) = failures n e
     \<and> ts_runs (ld_stats ld) - ts_signals_produced (ld_stats ld) = executions n False e
     \<and> executions n True e \<le> ts_signals_produced (ld_stats ld)
     \<and> ts_signals_produced (ld_stats ld) \<le> executions n True e + failures n e
     \<and> ts_skipped (ld_stats ld) + executions n False e + executions n True e + failures n e + (if ld_busy ld then 1 else 0) = k)"

datatype engine_step = StTrigger string | StFinish run_io string string string json_dict

fun engine_step_of :: "engine_step \<Rightarrow> strategy_engine \<Rightarrow> strategy_engine" where
  "engine_step_of (StTrigger n) e = sx_trigger n e"
| "engine_step_of (StFinish io n symbol trigger payload) e = sx_finish io n symbol trigger payload e"

definition triggers :: "string \<Rightarrow> engine_step list \<Rightarrow> int" where
  "triggers n steps = int (length (filter (\<lambda>s. s = StTrigger n) steps))"

lemmas ledger_defs = runs_accounted_def failures_def executions_def is_failed_def is_executed_def

text \<open>What is kept through all steps: the engine runs and the strategy stays enabled.\<close>

definition live :: "string \<Rightarrow> strategy_engine \<Rightarrow> bool" where
  "live n e \<longleftrightarrow> sx_running e \<and> (case pd_get (sx_strategies e) n of None \<Rightarrow> False | Some ld \<Rightarrow> ld_enabled ld)"

lemma trigger_ledger:
  assumes "live n e" "runs_accounted n k e"
  shows "live n (sx_trigger m e) \<and> runs_accounted n (k + (if m = n then 1 else 0)) (sx_trigger m e)"
  using assms by (auto simp: sx_trigger_def live_def ledger_defs split: option.splits)

text \<open>The four ways a run ends.\<close>

lemma finish_cases:
  assumes "pd_get (sx_strategies e) n = Some ld" "ld_busy ld"
  obtains q e1 where "sx_finish io n symbol trigger payload e = run_failed n symbol (ld\<lparr> ld_strategy := q \<rparr>) e1"
      "sx_strategies e1 = sx_strategies e" "sx_running e1 = sx_running e" "sx_events e1 = sx_events e"
  | q ds e1 where "sx_finish io n symbol trigger payload e = run_executed n symbol io False
        (ld\<lparr> ld_stats := record_run (ri_now io) (ri_duration_ms io) (ld_stats ld), ld_strategy := q \<rparr>) e1"
      "sx_strategies e1 = sx_strategies e" "sx_running e1 = sx_running e" "sx_events e1 = sx_events e @ map SxDetection ds"
  | q s ds e1 r where "sx_finish io n symbol trigger payload e =
        (if r then run_failed n symbol else run_executed n symbol io True)
          (with_signal io s (ld\<lparr> ld_strategy := q, ld_stats := record_run (ri_now io) (ri_duration_ms io) (ld_stats ld) \<rparr>)) e1"
      "sx_strategies e1 = sx_strategies e" "sx_running e1 = sx_running e"
      "sx_events e1 = sx_events e @ map SxDetection ds @ [SxQuant (EvStrategyScoreUpdated n (sg_symbol s) (sg_score s) (sg_confidence s))]"
proof -
  obtain b c where b: "build_context (ri_market io) symbol (sx_context e) = (b, c)" by fastforce
  show thesis
  proof (cases b)
    case (Inl err)
    show thesis
      by (rule that(1) [of "ld_strategy ld" "e\<lparr> sx_context := c \<rparr>"]) (simp_all add: sx_finish_def assms b Inl)
  next
    case (Inr cx)
    let ?st = "\<lparr> at_features = xe_features c, at_detections = [], at_skip = qy_skip_reason (ld_strategy ld) \<rparr>"
    obtain r st where r: "analyze (ld_evaluate ld) (ld_strategy ld) (ctx_of io symbol trigger payload cx) (ri_signal_id io) ?st = (r, st)"
      by fastforce
    let ?q = "(ld_strategy ld)\<lparr> qy_skip_reason := at_skip st \<rparr>"
    let ?e1 = "e\<lparr> sx_context := c\<lparr> xe_features := at_features st \<rparr> \<rparr>"
    let ?e2 = "fold (\<lambda>d. sx_publish (SxDetection d)) (at_detections st) ?e1"
    show thesis
    proof (cases r)
      case (Inl err)
      show thesis by (rule that(1) [of ?q ?e1]) (simp_all add: sx_finish_def assms b Inr r Inl Let_def)
    next
      case r2: (Inr out)
      show thesis
      proof (cases out)
        case None
        show thesis
          by (rule that(2) [of "record_evaluation None (Some (Fmt ''sin oportunidad ({})'' [ArgStr trigger])) ?q" ?e2 "at_detections st"])
             (simp_all add: sx_finish_def assms b Inr r r2 None Let_def)
      next
        case (Some s)
        let ?e3 = "sx_publish (SxQuant (EvStrategyScoreUpdated n (sg_symbol s) (sg_score s) (sg_confidence s))) ?e2"
        obtain p e4 where p: "submit_signal io s ?e3 = (p, e4)" by fastforce
        show thesis
          by (rule that(3) [of "p \<noteq> None" s ?q e4 "at_detections st"])
             (use submit_frame [OF p] in \<open>simp_all add: sx_finish_def assms b Inr r r2 Some p Let_def split: option.split\<close>)
      qed
    qed
  qed
qed

lemma no_detections [simp]: "filter (is_failed n) (map SxDetection ds) = []" "filter (is_executed n b) (map SxDetection ds) = []"
  by (induction ds) (simp_all add: is_failed_def is_executed_def)

lemma finish_ledger:
  assumes "live n e" "runs_accounted n k e"
  shows "live n (sx_finish io m symbol trigger payload e) \<and> runs_accounted n k (sx_finish io m symbol trigger payload e)"
proof (cases "\<exists>ld. pd_get (sx_strategies e) m = Some ld \<and> ld_busy ld")
  case False
  then have "sx_finish io m symbol trigger payload e = e" by (auto simp: sx_finish_def split: option.split)
  with assms show ?thesis by simp
next
  case True
  then obtain ld where ld: "pd_get (sx_strategies e) m = Some ld" "ld_busy ld" by blast
  show ?thesis
  proof (cases rule: finish_cases [OF ld, of io symbol trigger payload])
    case (1 q e1)
    with assms ld show ?thesis
      by (auto simp: run_failed_def live_def ledger_defs split: option.splits)
  next
    case (2 q e1 ds)
    with assms ld show ?thesis
      by (auto simp: run_executed_def record_run_def live_def ledger_defs no_detections [unfolded is_failed_def is_executed_def] split: option.splits)
  next
    case (3 r s q e1 ds)
    with assms ld show ?thesis
      by (cases r) (auto simp: run_executed_def run_failed_def with_signal_def record_run_def live_def ledger_defs
          no_detections [unfolded is_failed_def is_executed_def] split: option.splits)
  qed
qed


lemma steps_ledger:
  assumes "live n e" "runs_accounted n k e"
  shows "live n (fold engine_step_of steps e) \<and> runs_accounted n (k + triggers n steps) (fold engine_step_of steps e)"
  using assms
proof (induction steps arbitrary: e k)
  case Nil
  then show ?case by (simp add: triggers_def)
next
  case (Cons s steps)
  have "live n (engine_step_of s e) \<and> runs_accounted n (k + triggers n [s]) (engine_step_of s e)"
  proof (cases s)
    case (StTrigger m)
    with trigger_ledger [OF Cons.prems, of m] show ?thesis by (simp add: triggers_def split: if_splits)
  next
    case (StFinish io m symbol trigger payload)
    with finish_ledger [OF Cons.prems] show ?thesis by (simp add: triggers_def)
  qed
  from Cons.IH [OF conjunct1 [OF this] conjunct2 [OF this]] show ?case
    by (simp add: triggers_def algebra_simps split: if_splits)
qed

lemma register_ledger:
  assumes "sx_running e0" "sx_events e0 = []" "qz_enabled (strategy_settings (kl_name (pg_class p)) e0)"
  shows "live (kl_name (pg_class p)) (sx_register p e0)" "runs_accounted (kl_name (pg_class p)) 0 (sx_register p e0)"
  using assms by (simp_all add: sx_register_def schedule_timer_def load_wrapper_def new_strategy_def Let_def live_def ledger_defs)



definition idle_engine :: "context_engine \<Rightarrow> decision_engine \<Rightarrow> strategy_engine" where
  "idle_engine c d = \<lparr> sx_running = True, sx_configs = [], sx_auto_discover = False, sx_strategies = [], sx_timer_jobs = [],
     sx_context = c, sx_decisions = d, sx_events = [] \<rparr>"


end
