(* ===== verification/Event_Bus.thy ===== *)
theory Event_Bus
  imports Json
begin

text \<open>
  The life cycle of a service (\<open>app/core/lifecycle.py\<close>) and the event bus (\<open>app/core/events/bus.py\<close>).  What a hook or a
  handler does is an argument.  The handlers of one event run concurrently in the code; here they run one after the other,
  in the order in which the bus collects them.
\<close>

section \<open>Life cycle\<close>

datatype service_state = CREATED | STARTING | RUNNING | STOPPING | STOPPED | FAILED_STATE

fun state_value :: "service_state \<Rightarrow> string" where
  "state_value CREATED = ''created''"
| "state_value STARTING = ''starting''"
| "state_value RUNNING = ''running''"
| "state_value STOPPING = ''stopping''"
| "state_value STOPPED = ''stopped''"
| "state_value FAILED_STATE = ''failed''"

text \<open>A hook sees the state of its service while it runs, changes what the service owns and may raise.\<close>

type_synonym 'a hook = "service_state \<Rightarrow> 'a \<Rightarrow> bool \<times> 'a"

definition service_start :: "string \<Rightarrow> 'a hook \<Rightarrow> service_state \<times> 'a \<Rightarrow> msg option \<times> service_state \<times> 'a" where
  "service_start name hook s = (if fst s = RUNNING then (None, s)
     else (case hook STARTING (snd s) of
         (True, a) \<Rightarrow> (None, RUNNING, a)
       | (False, a) \<Rightarrow> (Some (Fmt ''Service '{}' failed to start'' [ArgStr name]), FAILED_STATE, a)))"

definition service_stop :: "'a hook \<Rightarrow> service_state \<times> 'a \<Rightarrow> service_state \<times> 'a" where
  "service_stop hook s = (if fst s \<notin> {RUNNING, FAILED_STATE} then s else (STOPPED, snd (hook STOPPING (snd s))))"

text \<open>A stopped service can be started again; only a service that runs or failed to start runs its stop hook.\<close>

lemma start_cases: "fst (snd (service_start name hook s)) \<in> {RUNNING, FAILED_STATE}"
  by (auto simp: service_start_def split: prod.split bool.split)

lemma start_twice: "fst s = RUNNING \<Longrightarrow> service_start name hook s = (None, s)"
  by (simp add: service_start_def)

lemma stop_twice: "service_stop hook' (service_stop hook s) = service_stop hook s"
  by (auto simp: service_stop_def)

section \<open>Event bus\<close>

text \<open>\<open>'e\<close> are events, \<open>'t\<close> event types, \<open>'h\<close> handlers and \<open>'w\<close> what the handlers act on.  \<open>isinstance\<close> and the handlers are
  arguments; a handler may publish events and may raise.\<close>

record bus_stats =
  bt_published :: int
  bt_dispatched :: int
  bt_handler_errors :: int
  bt_dropped :: int
  bt_queue_size :: int
  bt_subscribers :: int
  bt_dead_letters :: int

definition bt_to_dict :: "bus_stats \<Rightarrow> (string, int) pydict" where
  "bt_to_dict s = [(''published'', bt_published s), (''dispatched'', bt_dispatched s), (''handler_errors'', bt_handler_errors s),
     (''dropped'', bt_dropped s), (''queue_size'', bt_queue_size s), (''subscribers'', bt_subscribers s),
     (''dead_letters'', bt_dead_letters s)]"

record ('e, 'h) dead_letter =
  dt_event :: 'e
  dt_handler :: 'h
  dt_error :: py_error

record ('e, 't, 'h) event_bus =
  eb_state :: service_state
  eb_max_queue :: nat
  eb_dead_limit :: nat
  eb_queue :: "'e list"
  eb_subscribers :: "('t option, 'h list) pydict"
  eb_stats :: bus_stats
  eb_dead :: "('e, 'h) dead_letter list"
  eb_reported :: "('h \<times> py_error) list"

definition new_bus :: "nat \<Rightarrow> nat \<Rightarrow> ('e, 't, 'h) event_bus" where
  "new_bus max_queue dead_limit = \<lparr> eb_state = CREATED, eb_max_queue = max_queue, eb_dead_limit = dead_limit, eb_queue = [],
     eb_subscribers = [], eb_stats = \<lparr> bt_published = 0, bt_dispatched = 0, bt_handler_errors = 0, bt_dropped = 0,
       bt_queue_size = 0, bt_subscribers = 0, bt_dead_letters = 0 \<rparr>, eb_dead = [], eb_reported = [] \<rparr>"

definition bus_subscribe :: "'h \<Rightarrow> 't option \<Rightarrow> ('e, 't, 'h) event_bus \<Rightarrow> ('e, 't, 'h) event_bus" where
  "bus_subscribe h t b = b\<lparr> eb_subscribers := pd_put (eb_subscribers b) t (pd_get_or (eb_subscribers b) t [] @ [h]),
     eb_stats := (eb_stats b)\<lparr> bt_subscribers := bt_subscribers (eb_stats b) + 1 \<rparr> \<rparr>"

definition bus_unsubscribe :: "'h \<Rightarrow> 't option \<Rightarrow> ('e, 't, 'h) event_bus \<Rightarrow> ('e, 't, 'h) event_bus" where
  "bus_unsubscribe h t b = (let hs = pd_get_or (eb_subscribers b) t [] in
     if h \<notin> set hs then b
     else b\<lparr> eb_subscribers := pd_put (eb_subscribers b) t (remove1 h hs),
       eb_stats := (eb_stats b)\<lparr> bt_subscribers := bt_subscribers (eb_stats b) - 1 \<rparr> \<rparr>)"

text \<open>\<open>eb_reported\<close> is what the error callbacks were told.  A queue with bound 0 has no bound.\<close>

definition bus_publish :: "'e \<Rightarrow> ('e, 't, 'h) event_bus \<Rightarrow> msg option \<times> ('e, 't, 'h) event_bus" where
  "bus_publish ev b =
     (if eb_state b \<noteq> RUNNING then (Some (Lit ''Cannot publish: event bus is not running''), b)
      else if 0 < eb_max_queue b \<and> eb_max_queue b \<le> length (eb_queue b)
        then (Some (Lit ''Event queue is full - event dropped''),
              b\<lparr> eb_stats := (eb_stats b)\<lparr> bt_dropped := bt_dropped (eb_stats b) + 1 \<rparr> \<rparr>)
      else (None, b\<lparr> eb_queue := eb_queue b @ [ev],
              eb_stats := (eb_stats b)\<lparr> bt_published := bt_published (eb_stats b) + 1 \<rparr> \<rparr>))"

definition handlers_for :: "('e \<Rightarrow> 't \<Rightarrow> bool) \<Rightarrow> 'e \<Rightarrow> ('e, 't, 'h) event_bus \<Rightarrow> 'h list" where
  "handlers_for isinst ev b = concat (map snd (filter (\<lambda>(t, _). case t of None \<Rightarrow> True | Some ty \<Rightarrow> isinst ev ty) (eb_subscribers b)))"

text \<open>What a handler does with an event: the error it raises, the world it leaves, the events it publishes on its way.\<close>

type_synonym ('e, 'h, 'w) handling = "'h \<Rightarrow> 'e \<Rightarrow> 'w \<Rightarrow> py_error option \<times> 'w \<times> 'e list"

definition run_handler :: "('e, 'h, 'w) handling \<Rightarrow> 'e \<Rightarrow> 'h \<Rightarrow> ('e, 't, 'h) event_bus \<times> 'w \<Rightarrow> ('e, 't, 'h) event_bus \<times> 'w" where
  "run_handler react ev h bw =
     (case react h ev (snd bw) of (r, w, evs) \<Rightarrow>
        let b = fold (\<lambda>x c. snd (bus_publish x c)) evs (fst bw)
        in (case r of
              None \<Rightarrow> (b, w)
            | Some err \<Rightarrow>
                let dead = deque_append (eb_dead_limit b) \<lparr> dt_event = ev, dt_handler = h, dt_error = err \<rparr> (eb_dead b)
                in (b\<lparr> eb_dead := dead, eb_reported := eb_reported b @ [(h, err)],
                       eb_stats := (eb_stats b)\<lparr> bt_handler_errors := bt_handler_errors (eb_stats b) + 1,
                         bt_dead_letters := int (length dead) \<rparr> \<rparr>, w)))"

definition bus_dispatch :: "('e \<Rightarrow> 't \<Rightarrow> bool) \<Rightarrow> ('e, 'h, 'w) handling \<Rightarrow> 'e
    \<Rightarrow> ('e, 't, 'h) event_bus \<times> 'w \<Rightarrow> ('e, 't, 'h) event_bus \<times> 'w" where
  "bus_dispatch isinst react ev bw =
     (case handlers_for isinst ev (fst bw) of
        [] \<Rightarrow> bw
      | hs \<Rightarrow> (case fold (run_handler react ev) hs bw of (b, w) \<Rightarrow>
          (b\<lparr> eb_stats := (eb_stats b)\<lparr> bt_dispatched := bt_dispatched (eb_stats b) + 1 \<rparr> \<rparr>, w)))"

text \<open>One turn of the worker: the oldest event of the queue, if there is one.\<close>

definition bus_turn :: "('e \<Rightarrow> 't \<Rightarrow> bool) \<Rightarrow> ('e, 'h, 'w) handling \<Rightarrow> ('e, 't, 'h) event_bus \<times> 'w \<Rightarrow> ('e, 't, 'h) event_bus \<times> 'w" where
  "bus_turn isinst react bw = (case eb_queue (fst bw) of
       [] \<Rightarrow> bw
     | ev # rest \<Rightarrow> bus_dispatch isinst react ev ((fst bw)\<lparr> eb_queue := rest \<rparr>, snd bw))"

text \<open>Stopping drains what the worker manages to dispatch within the time limit, here \<open>n\<close> turns; the state is no longer
  running meanwhile, so what the handlers publish is refused.\<close>

definition bus_stop :: "('e \<Rightarrow> 't \<Rightarrow> bool) \<Rightarrow> ('e, 'h, 'w) handling \<Rightarrow> nat \<Rightarrow> ('e, 't, 'h) event_bus \<times> 'w \<Rightarrow> ('e, 't, 'h) event_bus \<times> 'w" where
  "bus_stop isinst react n bw = (if eb_state (fst bw) \<notin> {RUNNING, FAILED_STATE} then bw
     else (case (bus_turn isinst react ^^ n) ((fst bw)\<lparr> eb_state := STOPPING \<rparr>, snd bw) of
        (b, w) \<Rightarrow> (b\<lparr> eb_state := STOPPED \<rparr>, w)))"

definition bus_start :: "('e, 't, 'h) event_bus \<Rightarrow> ('e, 't, 'h) event_bus" where
  "bus_start b = b\<lparr> eb_state := RUNNING \<rparr>"

definition bus_live_stats :: "('e, 't, 'h) event_bus \<Rightarrow> bus_stats" where
  "bus_live_stats b = (eb_stats b)\<lparr> bt_queue_size := int (length (eb_queue b)) \<rparr>"

subsection \<open>What the bus keeps\<close>

lemma map_last_n: "map f (last_n n xs) = last_n n (map f xs)"
  by (simp add: last_n_def drop_map)

text \<open>The queue is bounded, every retained letter is one of the recorded errors, and the counters agree with both.\<close>

definition bus_ok :: "('e, 't, 'h) event_bus \<Rightarrow> bool" where
  "bus_ok b \<longleftrightarrow> (0 < eb_max_queue b \<longrightarrow> length (eb_queue b) \<le> eb_max_queue b)
     \<and> length (eb_dead b) \<le> eb_dead_limit b
     \<and> bt_dead_letters (eb_stats b) = int (length (eb_dead b))
     \<and> bt_handler_errors (eb_stats b) = int (length (eb_reported b))
     \<and> map (\<lambda>d. (dt_handler d, dt_error d)) (eb_dead b) = last_n (eb_dead_limit b) (eb_reported b)
     \<and> int (length (eb_queue b)) \<le> bt_published (eb_stats b)"

lemma bus_publish_ok: "bus_ok b \<Longrightarrow> bus_ok (snd (bus_publish ev b))"
  by (auto simp: bus_publish_def bus_ok_def)

lemma bus_publish_frame [simp]: "eb_subscribers (snd (bus_publish ev b)) = eb_subscribers b" "eb_state (snd (bus_publish ev b)) = eb_state b"
  "eb_max_queue (snd (bus_publish ev b)) = eb_max_queue b" "eb_dead_limit (snd (bus_publish ev b)) = eb_dead_limit b"
  "eb_dead (snd (bus_publish ev b)) = eb_dead b" "eb_reported (snd (bus_publish ev b)) = eb_reported b"
  by (simp_all add: bus_publish_def)

lemma publishes_ok: "bus_ok b \<Longrightarrow> bus_ok (fold (\<lambda>x c. snd (bus_publish x c)) evs b)"
  by (induction evs arbitrary: b) (simp_all add: bus_publish_ok)

lemma publishes_frame [simp]: "eb_subscribers (fold (\<lambda>x c. snd (bus_publish x c)) evs b) = eb_subscribers b"
  "eb_state (fold (\<lambda>x c. snd (bus_publish x c)) evs b) = eb_state b"
  by (induction evs arbitrary: b) simp_all

text \<open>What publishing appends, and that it counts it.\<close>

lemma publishes_append: "\<exists>new. eb_queue (fold (\<lambda>x c. snd (bus_publish x c)) evs b) = eb_queue b @ new
    \<and> bt_published (eb_stats (fold (\<lambda>x c. snd (bus_publish x c)) evs b)) = bt_published (eb_stats b) + int (length new)"
proof (induction evs arbitrary: b)
  case Nil
  then show ?case by simp
next
  case (Cons x evs)
  obtain n1 where "eb_queue (snd (bus_publish x b)) = eb_queue b @ n1"
      "bt_published (eb_stats (snd (bus_publish x b))) = bt_published (eb_stats b) + int (length n1)"
    by (rule that [of "if eb_state b \<noteq> RUNNING \<or> 0 < eb_max_queue b \<and> eb_max_queue b \<le> length (eb_queue b) then [] else [x]"])
       (auto simp: bus_publish_def)
  moreover obtain n2 where "eb_queue (fold (\<lambda>x c. snd (bus_publish x c)) evs (snd (bus_publish x b))) = eb_queue (snd (bus_publish x b)) @ n2"
      "bt_published (eb_stats (fold (\<lambda>x c. snd (bus_publish x c)) evs (snd (bus_publish x b)))) = bt_published (eb_stats (snd (bus_publish x b))) + int (length n2)"
    using Cons.IH by blast
  ultimately show ?case by (intro exI [of _ "n1 @ n2"]) simp
qed

text \<open>A handling that also writes down who was given what.\<close>

definition logged :: "('e, 'h, 'w) handling \<Rightarrow> ('e, 'h, 'w \<times> ('h \<times> 'e) list) handling" where
  "logged react h ev wl = (case react h ev (fst wl) of (r, w, evs) \<Rightarrow> (r, (w, snd wl @ [(h, ev)]), evs))"

lemma handler_log:
  fixes bw bw' :: "('e, 't, 'h) event_bus \<times> 'w \<times> ('h \<times> 'e) list"
  assumes bw'_def: "bw' = run_handler (logged react) ev h bw"
  shows "\<exists>new. eb_subscribers (fst bw') = eb_subscribers (fst bw) \<and> eb_queue (fst bw') = eb_queue (fst bw) @ new
    \<and> bt_published (eb_stats (fst bw')) = bt_published (eb_stats (fst bw)) + int (length new)
    \<and> snd (snd bw') = snd (snd bw) @ [(h, ev)]"
proof -
  obtain r w evs where react: "react h ev (fst (snd bw)) = (r, w, evs)" by (cases "react h ev (fst (snd bw))") auto
  obtain new where "eb_queue (fold (\<lambda>x c. snd (bus_publish x c)) evs (fst bw)) = eb_queue (fst bw) @ new"
      "bt_published (eb_stats (fold (\<lambda>x c. snd (bus_publish x c)) evs (fst bw))) = bt_published (eb_stats (fst bw)) + int (length new)"
    using publishes_append by blast
  then show ?thesis
    by (intro exI [of _ new]) (simp add: bw'_def run_handler_def logged_def react Let_def split: option.split)
qed

lemma handlers_log:
  fixes bw :: "('e, 't, 'h) event_bus \<times> 'w \<times> ('h \<times> 'e) list"
  shows "\<exists>new. eb_subscribers (fst (fold (run_handler (logged react) ev) hs bw)) = eb_subscribers (fst bw)
    \<and> eb_queue (fst (fold (run_handler (logged react) ev) hs bw)) = eb_queue (fst bw) @ new
    \<and> bt_published (eb_stats (fst (fold (run_handler (logged react) ev) hs bw))) = bt_published (eb_stats (fst bw)) + int (length new)
    \<and> snd (snd (fold (run_handler (logged react) ev) hs bw)) = snd (snd bw) @ map (\<lambda>h. (h, ev)) hs"
proof (induction hs arbitrary: bw)
  case Nil
  then show ?case by simp
next
  case (Cons h hs)
  obtain n1 where n1: "eb_subscribers (fst (run_handler (logged react) ev h bw)) = eb_subscribers (fst bw)"
      "eb_queue (fst (run_handler (logged react) ev h bw)) = eb_queue (fst bw) @ n1"
      "bt_published (eb_stats (fst (run_handler (logged react) ev h bw))) = bt_published (eb_stats (fst bw)) + int (length n1)"
      "snd (snd (run_handler (logged react) ev h bw)) = snd (snd bw) @ [(h, ev)]"
    using handler_log [OF refl, of react ev h bw] by blast
  obtain n2 where n2: "eb_subscribers (fst (fold (run_handler (logged react) ev) hs (run_handler (logged react) ev h bw))) = eb_subscribers (fst bw)"
      "eb_queue (fst (fold (run_handler (logged react) ev) hs (run_handler (logged react) ev h bw))) = eb_queue (fst bw) @ n1 @ n2"
      "bt_published (eb_stats (fst (fold (run_handler (logged react) ev) hs (run_handler (logged react) ev h bw))))
        = bt_published (eb_stats (fst bw)) + int (length n1) + int (length n2)"
      "snd (snd (fold (run_handler (logged react) ev) hs (run_handler (logged react) ev h bw))) = snd (snd bw) @ [(h, ev)] @ map (\<lambda>h. (h, ev)) hs"
    using Cons.IH [of "run_handler (logged react) ev h bw"] n1 by auto
  show ?case by (intro exI [of _ "n1 @ n2"]) (simp add: n2)
qed

lemma handlers_for_cong: "eb_subscribers b = eb_subscribers c \<Longrightarrow> handlers_for isinst ev b = handlers_for isinst ev c"
  by (simp add: handlers_for_def)

text \<open>One turn: the oldest event goes to every handler that matches, once each.\<close>

lemma turn_log:
  fixes bw bw' :: "('e, 't, 'h) event_bus \<times> 'w \<times> ('h \<times> 'e) list"
  assumes "bw' = bus_turn isinst (logged react) bw" "eb_queue (fst bw) = ev # rest"
  shows "\<exists>new. eb_subscribers (fst bw') = eb_subscribers (fst bw) \<and> eb_queue (fst bw') = rest @ new
    \<and> bt_published (eb_stats (fst bw')) = bt_published (eb_stats (fst bw)) + int (length new)
    \<and> snd (snd bw') = snd (snd bw) @ map (\<lambda>h. (h, ev)) (handlers_for isinst ev (fst bw))"
proof -
  let ?b = "((fst bw)\<lparr> eb_queue := rest \<rparr>, snd bw)"
  have hs: "handlers_for isinst ev (fst ?b) = handlers_for isinst ev (fst bw)" by (simp add: handlers_for_def)
  show ?thesis
  proof (cases "handlers_for isinst ev (fst bw)")
    case Nil
    with assms hs show ?thesis by (auto simp: bus_turn_def bus_dispatch_def)
  next
    case (Cons h t)
    obtain b w where bw: "fold (run_handler (logged react) ev) (h # t) ?b = (b, w)" by (rule prod.exhaust)
    from handlers_log [of react ev "h # t" ?b] bw Cons assms hs show ?thesis
      by (auto simp: bus_turn_def bus_dispatch_def simp del: fold_simps)
  qed
qed

text \<open>Property C36 (bus): events are delivered in the order in which they were accepted, each to every matching handler
  exactly once, whatever the handlers raise and publish meanwhile; what is published joins the end of the queue, and the
  worker only stops taking events when the queue is empty.\<close>

theorem bus_delivers_in_order:
  fixes b :: "('e, 't, 'h) event_bus"
  shows "\<exists>taken new. (case (bus_turn isinst (logged react) ^^ n) (b, w, []) of (b', w', deliveries) \<Rightarrow>
      eb_queue b @ new = taken @ eb_queue b'
    \<and> deliveries = concat (map (\<lambda>ev. map (\<lambda>h. (h, ev)) (handlers_for isinst ev b)) taken)
    \<and> bt_published (eb_stats b') = bt_published (eb_stats b) + int (length new)
    \<and> eb_subscribers b' = eb_subscribers b
    \<and> (if eb_queue b' = [] then length taken \<le> n else length taken = n))"
proof (induction n)
  case 0
  then show ?case by (intro exI [of _ "[]"]) simp
next
  case (Suc n)
  obtain b1 w1 log1 where st: "(bus_turn isinst (logged react) ^^ n) (b, w, []) = (b1, w1, log1)"
    by (cases "(bus_turn isinst (logged react) ^^ n) (b, w, [])") auto
  with Suc obtain taken new where ih: "eb_queue b @ new = taken @ eb_queue b1"
      "log1 = concat (map (\<lambda>ev. map (\<lambda>h. (h, ev)) (handlers_for isinst ev b)) taken)"
      "bt_published (eb_stats b1) = bt_published (eb_stats b) + int (length new)"
      "eb_subscribers b1 = eb_subscribers b" "if eb_queue b1 = [] then length taken \<le> n else length taken = n"
    by auto
  show ?case
  proof (cases "eb_queue b1")
    case Nil
    then have "bus_turn isinst (logged react) (b1, w1, log1) = (b1, w1, log1)" by (simp add: bus_turn_def)
    with st ih Nil show ?thesis by (intro exI [of _ taken] exI [of _ new]) simp
  next
    case (Cons ev rest)
    obtain b2 w2 log2 where turn: "bus_turn isinst (logged react) (b1, w1, log1) = (b2, w2, log2)"
      by (cases "bus_turn isinst (logged react) (b1, w1, log1)") auto
    from turn_log [OF refl, of "(b1, w1, log1)" ev rest isinst react] Cons turn obtain more where
      "eb_subscribers b2 = eb_subscribers b1" "eb_queue b2 = rest @ more"
      "bt_published (eb_stats b2) = bt_published (eb_stats b1) + int (length more)"
      "log2 = log1 @ map (\<lambda>h. (h, ev)) (handlers_for isinst ev b1)" by auto
    with st ih Cons turn handlers_for_cong [OF ih(4), of isinst ev] show ?thesis
      by (intro exI [of _ "taken @ [ev]"] exI [of _ "new @ more"]) (simp flip: append_assoc)
  qed
qed

text \<open>The invariant of the counters holds in a new bus and is kept by every operation.\<close>

lemma new_bus_ok: "bus_ok (new_bus m d)"
  by (simp add: bus_ok_def new_bus_def last_n_def pd_values_def)

lemma run_handler_ok: "bus_ok (fst bw) \<Longrightarrow> bus_ok (fst (run_handler react ev h bw))"
proof -
  assume ok: "bus_ok (fst bw)"
  obtain r w evs where react: "react h ev (snd bw) = (r, w, evs)" by (cases "react h ev (snd bw)") auto
  let ?b = "fold (\<lambda>x c. snd (bus_publish x c)) evs (fst bw)"
  have "bus_ok ?b" by (rule publishes_ok [OF ok])
  then show ?thesis
    by (auto simp: run_handler_def react Let_def bus_ok_def deque_append_def map_last_n last_n_last_n_append split: option.split)
qed

lemma bus_turn_ok: assumes "bus_ok (fst bw)" shows "bus_ok (fst (bus_turn isinst react bw))"
proof (cases "eb_queue (fst bw)")
  case Nil
  with assms show ?thesis by (simp add: bus_turn_def)
next
  case (Cons ev rest)
  let ?b = "((fst bw)\<lparr> eb_queue := rest \<rparr>, snd bw)"
  have "bus_ok (fst ?b)" using assms Cons by (auto simp: bus_ok_def)
  then have all: "bus_ok (fst (fold (run_handler react ev) hs ?b))" for hs
    by (induction hs rule: rev_induct) (simp_all add: run_handler_ok)
  have "bus_ok (fst (bus_dispatch isinst react ev ?b))"
  proof (cases "handlers_for isinst ev (fst ?b)")
    case Nil
    with \<open>bus_ok (fst ?b)\<close> show ?thesis by (simp add: bus_dispatch_def)
  next
    case (Cons h t)
    obtain b w where bw: "fold (run_handler react ev) (h # t) ?b = (b, w)" by (rule prod.exhaust)
    from all [of "h # t"] bw Cons show ?thesis by (simp add: bus_dispatch_def bus_ok_def del: fold_simps)
  qed
  then show ?thesis by (simp add: bus_turn_def Cons)
qed

end
