(* ===== verification/Monitoring.thy ===== *)
theory Monitoring
  imports Event_Bus Py_Time
begin

text \<open>
  The watchdog and the health monitor (\<open>app/monitoring\<close>), the buffer of recent errors (\<open>app/logging/recent.py\<close>) and the
  scheduler (\<open>app/scheduler/scheduler.py\<close>).  Times of the monotonic clock are reals, in seconds.  A background loop is its
  pass, taken at the moments the loop wakes up; what a restart, a probe or a job does is an argument.
\<close>

section \<open>Watchdog\<close>

datatype component_status = CS_OK | CS_FROZEN | CS_RESTARTING | CS_EXHAUSTED

fun component_value :: "component_status \<Rightarrow> string" where
  "component_value CS_OK = ''ok''"
| "component_value CS_FROZEN = ''frozen''"
| "component_value CS_RESTARTING = ''restarting''"
| "component_value CS_EXHAUSTED = ''exhausted''"

record watchdog_settings =
  ws_check_interval :: real
  ws_heartbeat_timeout :: real
  ws_max_restarts :: int
  ws_error_threshold :: int
  ws_error_window :: real

definition default_watchdog :: watchdog_settings where
  "default_watchdog = \<lparr> ws_check_interval = 10, ws_heartbeat_timeout = 60, ws_max_restarts = 3, ws_error_threshold = 5,
     ws_error_window = 60 \<rparr>"

record watch_component =
  wc_timeout :: real
  wc_restartable :: bool
  wc_max_restarts :: int
  wc_error_threshold :: int
  wc_error_window :: real
  wc_last_heartbeat :: real
  wc_status :: component_status
  wc_restart_count :: int
  wc_error_times :: "real list"

record module_frozen =
  mf_module :: string
  mf_seconds :: real
  mf_action :: string

record watchdog =
  wd_settings :: watchdog_settings
  wd_components :: "(string, watch_component) pydict"
  wd_events :: "module_frozen list"

definition wd_put :: "string \<Rightarrow> watch_component \<Rightarrow> watchdog \<Rightarrow> watchdog" where
  "wd_put n c w = w\<lparr> wd_components := pd_put (wd_components w) n c \<rparr>"

text \<open>An argument that is missing, or a time that is zero, takes the setting.\<close>

definition wd_register :: "real \<Rightarrow> string \<Rightarrow> real option \<Rightarrow> bool \<Rightarrow> int option \<Rightarrow> int option \<Rightarrow> real option \<Rightarrow> watchdog \<Rightarrow> msg + watchdog" where
  "wd_register now n timeout restartable max_restarts threshold window w =
     (if pd_get (wd_components w) n \<noteq> None then Inl (Fmt ''Component '{}' already registered'' [ArgStr n])
      else let s = wd_settings w in
        Inr (wd_put n \<lparr> wc_timeout = py_or timeout (ws_heartbeat_timeout s), wc_restartable = restartable,
          wc_max_restarts = (case max_restarts of None \<Rightarrow> ws_max_restarts s | Some m \<Rightarrow> m),
          wc_error_threshold = (case threshold of None \<Rightarrow> ws_error_threshold s | Some t \<Rightarrow> t),
          wc_error_window = py_or window (ws_error_window s), wc_last_heartbeat = now, wc_status = CS_OK,
          wc_restart_count = 0, wc_error_times = [] \<rparr> w))"

definition wd_heartbeat :: "real \<Rightarrow> string \<Rightarrow> watchdog \<Rightarrow> msg + watchdog" where
  "wd_heartbeat now n w = (case pd_get (wd_components w) n of
       None \<Rightarrow> Inl (Fmt (''Unknown component '{}'' @ [CHR 0x27]) [ArgStr n])
     | Some c \<Rightarrow> Inr (wd_put n (c\<lparr> wc_last_heartbeat := now,
         wc_status := (if wc_status c = CS_FROZEN then CS_OK else wc_status c) \<rparr>) w))"

text \<open>At most 100 times are kept; reaching the threshold writes a log line and starts counting anew.\<close>

definition wd_report_error :: "real \<Rightarrow> string \<Rightarrow> watchdog \<Rightarrow> watchdog" where
  "wd_report_error now n w = (case pd_get (wd_components w) n of
       None \<Rightarrow> w
     | Some c \<Rightarrow>
         let times = deque_append 100 now (wc_error_times c);
             recent = filter (\<lambda>t. now - t \<le> wc_error_window c) times
         in wd_put n (c\<lparr> wc_error_times := (if wc_error_threshold c \<le> int (length recent) then [] else times) \<rparr>) w)"

definition component_statuses :: "watchdog \<Rightarrow> (string, component_status) pydict" where
  "component_statuses w = map (\<lambda>(n, c). (n, wc_status c)) (wd_components w)"

text \<open>What the restart callback of a component does: when it returns, and whether it succeeds.\<close>

type_synonym restart_io = "string \<Rightarrow> real \<times> bool"

definition try_restart :: "real \<times> bool \<Rightarrow> watch_component \<Rightarrow> watch_component \<times> string" where
  "try_restart io c =
     (if \<not> wc_restartable c then (c, ''none'')
      else if wc_max_restarts c \<le> wc_restart_count c then (c\<lparr> wc_status := CS_EXHAUSTED \<rparr>, ''exhausted'')
      else let c1 = c\<lparr> wc_status := CS_RESTARTING, wc_restart_count := wc_restart_count c + 1 \<rparr>
        in if snd io then (c1\<lparr> wc_last_heartbeat := fst io, wc_status := CS_OK \<rparr>, ''restarted'')
           else (c1\<lparr> wc_status := CS_FROZEN \<rparr>, ''restart_failed''))"

definition scan_component :: "restart_io \<Rightarrow> real \<Rightarrow> string \<Rightarrow> watch_component \<Rightarrow> watch_component \<times> module_frozen list" where
  "scan_component io now n c =
     (let silence = now - wc_last_heartbeat c in
      if wc_status c \<in> {CS_RESTARTING, CS_EXHAUSTED} then (c, [])
      else if silence \<le> wc_timeout c then (c, [])
      else (case try_restart (io n) (c\<lparr> wc_status := CS_FROZEN \<rparr>) of (c', action) \<Rightarrow>
        (c', [\<lparr> mf_module = n, mf_seconds = py_round 1 silence, mf_action = action \<rparr>])))"

definition wd_scan :: "restart_io \<Rightarrow> real \<Rightarrow> watchdog \<Rightarrow> watchdog" where
  "wd_scan io now w = w\<lparr> wd_components := map (\<lambda>(n, c). (n, fst (scan_component io now n c))) (wd_components w),
     wd_events := wd_events w @ concat (map (\<lambda>(n, c). snd (scan_component io now n c)) (wd_components w)) \<rparr>"

subsection \<open>The restart budget\<close>

text \<open>The steps of the watchdog: every call that succeeds, and every scan.\<close>

inductive watch_step :: "watchdog \<Rightarrow> watchdog \<Rightarrow> bool" where
  registered: "wd_register now n timeout restartable m t win w = Inr w' \<Longrightarrow> watch_step w w'"
| beaten: "wd_heartbeat now n w = Inr w' \<Longrightarrow> watch_step w w'"
| error_reported: "watch_step w (wd_report_error now n w)"
| scanned: "watch_step w (wd_scan io now w)"

definition new_watchdog :: "watchdog_settings \<Rightarrow> watchdog" where
  "new_watchdog s = \<lparr> wd_settings = s, wd_components = [], wd_events = [] \<rparr>"

definition incidents :: "string set \<Rightarrow> string \<Rightarrow> watchdog \<Rightarrow> int" where
  "incidents acts n w = int (length (filter (\<lambda>ev. mf_module ev = n \<and> mf_action ev \<in> acts) (wd_events w)))"

text \<open>The invariant of one component, over the numbers of restarts and of exhaustions published for it.\<close>

definition component_ok :: "int \<Rightarrow> int \<Rightarrow> watch_component \<Rightarrow> bool" where
  "component_ok restarts ends c \<longleftrightarrow> wc_restart_count c = restarts \<and> restarts \<le> max 0 (wc_max_restarts c)
     \<and> ends = (if wc_status c = CS_EXHAUSTED then 1 else 0) \<and> wc_status c \<noteq> CS_RESTARTING
     \<and> (wc_status c = CS_EXHAUSTED \<longrightarrow> wc_max_restarts c \<le> wc_restart_count c)"

abbreviation restart_actions :: "string set" where "restart_actions \<equiv> {''restarted'', ''restart_failed''}"

definition watchdog_ok :: "watchdog \<Rightarrow> bool" where
  "watchdog_ok w \<longleftrightarrow> pd_wf (wd_components w)
     \<and> (\<forall>n. case pd_get (wd_components w) n of
          None \<Rightarrow> incidents restart_actions n w = 0 \<and> incidents {''exhausted''} n w = 0
        | Some c \<Rightarrow> component_ok (incidents restart_actions n w) (incidents {''exhausted''} n w) c)"

lemma scan_component_ok:
  assumes "component_ok r x c" "scan_component io now n c = (c', evs)"
  shows "component_ok (r + int (length (filter (\<lambda>ev. mf_action ev \<in> restart_actions) evs)))
    (x + int (length (filter (\<lambda>ev. mf_action ev = ''exhausted'') evs))) c' \<and> (\<forall>ev\<in>set evs. mf_module ev = n)"
  using assms by (cases "wc_status c") (auto simp: scan_component_def try_restart_def component_ok_def Let_def split: if_splits)

lemma pd_get_mapped: "pd_get (map (\<lambda>(k, v). (k, f k v)) d) n = map_option (f n) (pd_get d n)"
  by (induction d) (auto simp: pd_get_def)

lemma pd_keys_map: "pd_keys (map (\<lambda>(k, v). (k, f k v)) d) = pd_keys d"
  by (induction d) (auto simp: pd_keys_def)

lemma only_own:
  assumes "pd_wf d" "\<And>k v x. x \<in> set (g k v) \<Longrightarrow> key x = k"
  shows "filter (\<lambda>x. key x = n \<and> P x) (concat (map (\<lambda>(k, v). g k v) d))
    = (case pd_get d n of None \<Rightarrow> [] | Some v \<Rightarrow> filter P (g n v))"
  using assms(1)
proof (induction d)
  case Nil
  then show ?case by simp
next
  case (Cons kv d)
  obtain k v where kv: "kv = (k, v)" by (cases kv)
  from Cons.prems have wf: "pd_wf d" "k \<notin> set (pd_keys d)" by (simp_all add: pd_wf_def pd_keys_def kv)
  have "filter (\<lambda>x. key x = n \<and> P x) (g k v) = (if k = n then filter P (g k v) else [])"
    using assms(2) by (auto intro!: filter_cong simp: filter_empty_conv)
  moreover have "k = n \<Longrightarrow> pd_get d n = None" using wf(2) by (simp add: pd_get_in_keys)
  ultimately show ?case using Cons.IH [OF wf(1)] by (auto simp: kv pd_get_def)
qed

lemma scan_ok: assumes "watchdog_ok w" shows "watchdog_ok (wd_scan io now w)"
proof -
  let ?d = "wd_components w" and ?g = "\<lambda>n c. snd (scan_component io now n c)"
  have wf: "pd_wf ?d" using assms by (simp add: watchdog_ok_def)
  have own: "ev \<in> set (?g n c) \<Longrightarrow> mf_module ev = n" for ev n c
    by (auto simp: scan_component_def Let_def split: if_splits prod.splits)
  have cnt: "incidents A n (wd_scan io now w) = incidents A n w
      + int (length (case pd_get ?d n of None \<Rightarrow> [] | Some c \<Rightarrow> filter (\<lambda>ev. mf_action ev \<in> A) (?g n c)))" for A n
    using only_own [of ?d ?g mf_module n "\<lambda>ev. mf_action ev \<in> A", OF wf own] by (simp add: incidents_def wd_scan_def)
  have get: "pd_get (wd_components (wd_scan io now w)) n = map_option (\<lambda>c. fst (scan_component io now n c)) (pd_get ?d n)" for n
    by (simp add: wd_scan_def pd_get_mapped)
  have "pd_wf (wd_components (wd_scan io now w))"
    using wf by (simp add: wd_scan_def pd_wf_def o_def case_prod_unfold)
  moreover have "case pd_get (wd_components (wd_scan io now w)) n of
        None \<Rightarrow> incidents restart_actions n (wd_scan io now w) = 0 \<and> incidents {''exhausted''} n (wd_scan io now w) = 0
      | Some c \<Rightarrow> component_ok (incidents restart_actions n (wd_scan io now w)) (incidents {''exhausted''} n (wd_scan io now w)) c" for n
  proof (cases "pd_get ?d n")
    case None
    with conjunct2 [OF assms [unfolded watchdog_ok_def], THEN spec, of n] show ?thesis by (simp add: get cnt)
  next
    case (Some c)
    with assms have ok: "component_ok (incidents restart_actions n w) (incidents {''exhausted''} n w) c"
      by (auto simp: watchdog_ok_def split: option.splits)
    obtain c' evs where scan: "scan_component io now n c = (c', evs)" by fastforce
    from scan_component_ok [OF ok scan] scan Some show ?thesis by (simp add: get cnt)
  qed
  ultimately show ?thesis by (simp add: watchdog_ok_def)
qed

lemma put_ok:
  assumes "watchdog_ok w" "component_ok (incidents restart_actions n w) (incidents {''exhausted''} n w) c"
  shows "watchdog_ok (wd_put n c w)"
proof -
  have same: "incidents A m (wd_put n c w) = incidents A m w" for A m by (simp add: incidents_def wd_put_def)
  show ?thesis unfolding watchdog_ok_def same
  proof (intro conjI allI)
    show "pd_wf (wd_components (wd_put n c w))" using assms(1) by (simp add: watchdog_ok_def wd_put_def)
  next
    fix m
    show "case pd_get (wd_components (wd_put n c w)) m of
          None \<Rightarrow> incidents restart_actions m w = 0 \<and> incidents {''exhausted''} m w = 0
        | Some c \<Rightarrow> component_ok (incidents restart_actions m w) (incidents {''exhausted''} m w) c"
      using assms by (cases "m = n") (simp_all add: watchdog_ok_def wd_put_def)
  qed
qed

lemma watch_step_ok: "watch_step w w' \<Longrightarrow> watchdog_ok w \<Longrightarrow> watchdog_ok w'"
proof (induction rule: watch_step.induct)
  case (registered now n timeout restartable m t win w w')
  then have "pd_get (wd_components w) n = None" by (auto simp: wd_register_def split: if_splits)
  with registered have "component_ok (incidents restart_actions n w) (incidents {''exhausted''} n w) c \<Longrightarrow> watchdog_ok (wd_put n c w)" for c
    by (auto intro: put_ok)
  moreover have "incidents restart_actions n w = 0 \<and> incidents {''exhausted''} n w = 0"
    using registered(2) \<open>pd_get (wd_components w) n = None\<close> by (auto simp: watchdog_ok_def dest: spec [of _ n])
  ultimately show ?case using registered(1) by (auto simp: wd_register_def Let_def component_ok_def split: if_splits)
next
  case (beaten now n w w')
  then obtain c where c: "pd_get (wd_components w) n = Some c" by (auto simp: wd_heartbeat_def split: option.splits)
  with beaten(2) have "component_ok (incidents restart_actions n w) (incidents {''exhausted''} n w) c"
    by (auto simp: watchdog_ok_def dest: spec [of _ n])
  with beaten c show ?case by (auto simp: wd_heartbeat_def component_ok_def intro!: put_ok)
next
  case (error_reported w now n)
  show ?case
  proof (cases "pd_get (wd_components w) n")
    case None
    with error_reported show ?thesis by (simp add: wd_report_error_def)
  next
    case (Some c)
    with error_reported have "component_ok (incidents restart_actions n w) (incidents {''exhausted''} n w) c"
      by (auto simp: watchdog_ok_def dest: spec [of _ n])
    with error_reported Some show ?thesis by (auto simp: wd_report_error_def Let_def component_ok_def intro!: put_ok)
  qed
next
  case (scanned w io now)
  then show ?case by (rule scan_ok)
qed

lemma reachable_ok: "watch_step\<^sup>*\<^sup>* (new_watchdog s) w \<Longrightarrow> watchdog_ok w"
proof (induction rule: rtranclp_induct)
  case base
  show ?case by (simp add: watchdog_ok_def new_watchdog_def incidents_def)
next
  case (step y z)
  then show ?case by (blast intro: watch_step_ok)
qed


definition frail :: "watchdog" where
  "frail = wd_scan (\<lambda>_. (100, False)) 100 (wd_put ''feed'' \<lparr> wc_timeout = 60, wc_restartable = True, wc_max_restarts = 3,
     wc_error_threshold = 5, wc_error_window = 60, wc_last_heartbeat = 0, wc_status = CS_OK, wc_restart_count = 0,
     wc_error_times = [] \<rparr> (new_watchdog default_watchdog))"


section \<open>Recent errors\<close>

text \<open>The buffer keeps the newest records of level ERROR (40) or above.\<close>

record recent_error =
  rx_timestamp :: string
  rx_level :: string
  rx_logger :: string
  rx_message :: string

definition rx_emit :: "nat \<Rightarrow> int \<Rightarrow> recent_error \<Rightarrow> recent_error list \<Rightarrow> recent_error list" where
  "rx_emit capacity level r buf = (if 40 \<le> level then deque_append capacity r buf else buf)"

section \<open>Health\<close>

datatype health_status = HEALTHY | DEGRADED | UNHEALTHY

fun health_value :: "health_status \<Rightarrow> string" where
  "health_value HEALTHY = ''healthy''"
| "health_value DEGRADED = ''degraded''"
| "health_value UNHEALTHY = ''unhealthy''"

record health_settings =
  he_check_interval :: real
  he_cpu_warn_pct :: real
  he_memory_warn_pct :: real
  he_disk_warn_pct :: real

definition default_health :: health_settings where
  "default_health = \<lparr> he_check_interval = 30, he_cpu_warn_pct = 85, he_memory_warn_pct = 85, he_disk_warn_pct = 90 \<rparr>"

definition health_evaluate :: "health_settings \<Rightarrow> real \<Rightarrow> real \<Rightarrow> real \<Rightarrow> (string, string) pydict \<Rightarrow> health_status" where
  "health_evaluate s cpu memory_pct disk_pct components =
     (if filter (\<lambda>(_, status). status = ''frozen'') components \<noteq> [] then UNHEALTHY
      else if he_cpu_warn_pct s \<le> cpu \<or> he_memory_warn_pct s \<le> memory_pct \<or> he_disk_warn_pct s \<le> disk_pct then DEGRADED
      else HEALTHY)"

text \<open>What one sample reads: the processor is asked twice, once for the status and once for the report.\<close>

record health_probe =
  hp_timestamp :: string
  hp_clock :: real
  hp_lag_start :: real
  hp_lag_end :: real
  hp_cpu_status :: real
  hp_cpu_report :: real
  hp_memory_percent :: real
  hp_memory_used :: real
  hp_disk_percent :: real

record health_snapshot =
  hs_status :: health_status
  hs_timestamp :: string
  hs_uptime :: real
  hs_cpu_percent :: real
  hs_memory_percent :: real
  hs_memory_used_mb :: real
  hs_disk_percent :: real
  hs_lag_ms :: real
  hs_event_bus :: "(string, int) pydict"
  hs_components :: "(string, string) pydict"
  hs_recent_errors :: "recent_error list"

definition event_loop_lag_ms :: "real \<Rightarrow> real \<Rightarrow> real" where
  "event_loop_lag_ms start stop = max 0 ((stop - start - 1/20) * 1000)"

definition health_snapshot_of :: "health_settings \<Rightarrow> real \<Rightarrow> health_probe \<Rightarrow> bus_stats \<Rightarrow> watchdog option \<Rightarrow> recent_error list \<Rightarrow> health_snapshot" where
  "health_snapshot_of s started io bus wd errors =
     (let components = (case wd of None \<Rightarrow> [] | Some w \<Rightarrow> map (\<lambda>(n, st). (n, component_value st)) (component_statuses w)) in
      \<lparr> hs_status = health_evaluate s (hp_cpu_status io) (hp_memory_percent io) (hp_disk_percent io) components,
        hs_timestamp = hp_timestamp io, hs_uptime = hp_clock io - started, hs_cpu_percent = hp_cpu_report io,
        hs_memory_percent = hp_memory_percent io, hs_memory_used_mb = hp_memory_used io / (1024 * 1024),
        hs_disk_percent = hp_disk_percent io, hs_lag_ms = event_loop_lag_ms (hp_lag_start io) (hp_lag_end io),
        hs_event_bus = bt_to_dict bus, hs_components = components, hs_recent_errors = last_n 10 errors \<rparr>)"

definition health_to_dict :: "health_snapshot \<Rightarrow> json_dict" where
  "health_to_dict h = [(''status'', JStr (health_value (hs_status h))), (''timestamp'', JStr (hs_timestamp h)),
     (''uptime_seconds'', JNum (py_round 1 (hs_uptime h))), (''cpu_percent'', JNum (hs_cpu_percent h)),
     (''memory_percent'', JNum (hs_memory_percent h)), (''memory_used_mb'', JNum (py_round 1 (hs_memory_used_mb h))),
     (''disk_percent'', JNum (hs_disk_percent h)), (''event_loop_lag_ms'', JNum (py_round 2 (hs_lag_ms h))),
     (''event_bus'', JObj (map (\<lambda>(k, v). (k, JInt v)) (hs_event_bus h))),
     (''components'', JObj (map (\<lambda>(k, v). (k, JStr v)) (hs_components h))),
     (''recent_errors'', JList (map (\<lambda>r. JObj [(''timestamp'', JStr (rx_timestamp r)), (''level'', JStr (rx_level r)),
        (''logger'', JStr (rx_logger r)), (''message'', JStr (rx_message r))]) (hs_recent_errors h)))]"

record health_monitor =
  hm_settings :: health_settings
  hm_started :: real
  hm_last_status :: health_status
  hm_last_snapshot :: "health_snapshot option"
  hm_events :: "(health_status \<times> health_status) list"

text \<open>One pass; the status is only remembered when the change could be published.\<close>

definition health_pass :: "health_probe \<Rightarrow> bus_stats \<Rightarrow> watchdog option \<Rightarrow> recent_error list \<Rightarrow> bool \<Rightarrow> health_monitor \<Rightarrow> health_monitor" where
  "health_pass io bus wd errors published m =
     (let snap = health_snapshot_of (hm_settings m) (hm_started m) io bus wd errors; m1 = m\<lparr> hm_last_snapshot := Some snap \<rparr> in
      if hs_status snap = hm_last_status m \<or> \<not> published then m1
      else m1\<lparr> hm_events := hm_events m @ [(hm_last_status m, hs_status snap)], hm_last_status := hs_status snap \<rparr>)"

text \<open>The published changes form a chain from the first status to the last one.\<close>

fun status_chain :: "health_status \<Rightarrow> (health_status \<times> health_status) list \<Rightarrow> health_status \<Rightarrow> bool" where
  "status_chain a [] b \<longleftrightarrow> a = b"
| "status_chain a ((x, y) # evs) b \<longleftrightarrow> a = x \<and> x \<noteq> y \<and> status_chain y evs b"

lemma status_chain_snoc: "status_chain a (evs @ [(x, y)]) b \<longleftrightarrow> status_chain a evs x \<and> x \<noteq> y \<and> y = b"
  by (induction evs arbitrary: a) auto

lemma health_pass_chain:
  "status_chain a (hm_events m) (hm_last_status m)
    \<Longrightarrow> status_chain a (hm_events (health_pass io bus wd errors p m)) (hm_last_status (health_pass io bus wd errors p m))"
  by (auto simp: health_pass_def Let_def status_chain_snoc)

text \<open>A component that used up its restarts no longer counts against the health of the system.\<close>

lemma exhausted_is_healthy:
  assumes "\<forall>(n, c)\<in>set (wd_components w). wc_status c \<noteq> CS_FROZEN" "hp_cpu_status io < he_cpu_warn_pct s"
    "hp_memory_percent io < he_memory_warn_pct s" "hp_disk_percent io < he_disk_warn_pct s"
  shows "hs_status (health_snapshot_of s started io bus (Some w) errors) = HEALTHY"
proof -
  have "component_value st = ''frozen'' \<longleftrightarrow> st = CS_FROZEN" for st by (cases st) simp_all
  with assms show ?thesis
    by (force simp: health_snapshot_of_def health_evaluate_def component_statuses_def Let_def filter_empty_conv)
qed

section \<open>Scheduler\<close>

record sched_job =
  sj_interval :: real
  sj_jitter :: real
  sj_immediately :: bool
  sj_run_count :: int
  sj_error_count :: int
  sj_last_run_at :: "time option"
  sj_last_error :: "py_error option"
  sj_task :: bool

record scheduler =
  sd_running :: bool
  sd_jobs :: "(string, sched_job) pydict"

definition add_job :: "string \<Rightarrow> real \<Rightarrow> real \<Rightarrow> bool \<Rightarrow> scheduler \<Rightarrow> msg + scheduler" where
  "add_job n interval jitter immediately s =
     (if pd_get (sd_jobs s) n \<noteq> None then Inl (Fmt (''Duplicate job name '{}'' @ [CHR 0x27]) [ArgStr n])
      else if interval \<le> 0 then Inl (Lit ''Job interval must be positive'')
      else Inr (s\<lparr> sd_jobs := pd_put (sd_jobs s) n \<lparr> sj_interval = interval, sj_jitter = max 0 jitter, sj_immediately = immediately,
        sj_run_count = 0, sj_error_count = 0, sj_last_run_at = None, sj_last_error = None, sj_task = sd_running s \<rparr> \<rparr>))"

definition remove_job :: "string \<Rightarrow> scheduler \<Rightarrow> scheduler" where
  "remove_job n s = s\<lparr> sd_jobs := pd_pop (sd_jobs s) n \<rparr>"

definition job_delay :: "sched_job \<Rightarrow> rng \<Rightarrow> real \<times> rng" where
  "job_delay j r = (if sj_jitter j \<noteq> 0 then (case rng_uniform 0 (sj_jitter j) r of (x, r') \<Rightarrow> (sj_interval j + x, r')) else (sj_interval j, r))"

text \<open>One tick: the outcome is recorded, whatever it is.\<close>

definition execute_job :: "time \<Rightarrow> py_error option \<Rightarrow> sched_job \<Rightarrow> sched_job" where
  "execute_job now outcome j = (case outcome of
       None \<Rightarrow> j\<lparr> sj_run_count := sj_run_count j + 1 \<rparr>
     | Some err \<Rightarrow> j\<lparr> sj_error_count := sj_error_count j + 1, sj_last_error := Some err \<rparr>)\<lparr> sj_last_run_at := Some now \<rparr>"

text \<open>The moments at which a job that was launched at \<open>t\<close> is due, over the durations of its runs.\<close>

fun due_times :: "sched_job \<Rightarrow> rng \<Rightarrow> real \<Rightarrow> real list \<Rightarrow> real list" where
  "due_times j r t [] = []"
| "due_times j r t (d # ds) = (case job_delay j r of (delay, r') \<Rightarrow> (t + delay) # due_times j r' (t + delay + d) ds)"

definition job_schedule :: "sched_job \<Rightarrow> rng \<Rightarrow> real \<Rightarrow> real list \<Rightarrow> real list" where
  "job_schedule j r start ds = (if sj_immediately j then (case ds of [] \<Rightarrow> [] | d # ds' \<Rightarrow> start # due_times j r (start + d) ds')
     else due_times j r start ds)"

definition scheduler_start :: "scheduler \<Rightarrow> scheduler" where
  "scheduler_start s = s\<lparr> sd_running := True, sd_jobs := map (\<lambda>(n, j). (n, j\<lparr> sj_task := True \<rparr>)) (sd_jobs s) \<rparr>"

definition scheduler_stop :: "scheduler \<Rightarrow> scheduler" where
  "scheduler_stop s = s\<lparr> sd_running := False, sd_jobs := map (\<lambda>(n, j). (n, j\<lparr> sj_task := False \<rparr>)) (sd_jobs s) \<rparr>"

lemma job_delay_bounds:
  assumes "unit_rng r" "0 \<le> sj_jitter j" "job_delay j r = (d, r')"
  shows "sj_interval j \<le> d" "d \<le> sj_interval j + sj_jitter j" "unit_rng r'"
  using assms by (auto simp: job_delay_def split: if_splits prod.splits dest: rng_uniform_range)

text \<open>Two ticks of a job are at least its interval apart.\<close>

lemma due_times_spaced:
  assumes "unit_rng r" "0 \<le> sj_jitter j" "0 \<le> sj_interval j" "\<forall>d\<in>set ds. 0 \<le> d"
  shows "sorted_wrt (\<lambda>a b. a + sj_interval j \<le> b) (t # due_times j r t ds)"
  using assms(1,4)
proof (induction ds arbitrary: t r)
  case Nil
  then show ?case by simp
next
  case (Cons d ds)
  obtain w r' where w: "job_delay j r = (w, r')" by fastforce
  note b = job_delay_bounds [OF Cons.prems(1) assms(2) w]
  have "sorted_wrt (\<lambda>a b. a + sj_interval j \<le> b) ((t + w + d) # due_times j r' (t + w + d) ds)"
    using Cons.IH [OF b(3)] Cons.prems(2) by auto
  moreover have "0 \<le> d" using Cons.prems(2) by simp
  ultimately show ?case using b(1) assms(3) by (auto simp: w)
qed

lemma execute_job_counts: "sj_run_count (execute_job now r j) + sj_error_count (execute_job now r j) = sj_run_count j + sj_error_count j + 1"
  by (auto simp: execute_job_def split: option.split)

end
