(* ===== verification/Backtest_Metrics.thy ===== *)
theory Backtest_Metrics
  imports Performance Market_Models Trade_Codec
begin

text \<open>
  The laboratory of \<open>app/backtesting\<close>: its data (\<open>models.py\<close>), the statistics of a backtest (\<open>metrics/statistics.py\<close>), the
  Monte Carlo study of its trades (\<open>monte_carlo/simulation.py\<close>) and the benchmarks (\<open>benchmark/benchmarks.py\<close>).  Random
  draws are arguments: the indices a resampling picks, or the stream of \<open>random()\<close>.
\<close>

section \<open>Data\<close>

record equity_point =
  eq_timestamp :: time
  eq_equity :: real
  eq_balance :: real
  eq_drawdown_pct :: real
  eq_open_positions :: nat

definition eq_to_dict :: "equity_point \<Rightarrow> json_dict" where
  "eq_to_dict p = [(''timestamp'', JStr (iso (eq_timestamp p))), (''equity'', JNum (py_round 6 (eq_equity p))),
     (''balance'', JNum (py_round 6 (eq_balance p))), (''drawdown_pct'', JNum (py_round 4 (eq_drawdown_pct p))),
     (''open_positions'', JInt (int (eq_open_positions p)))]"

record backtest_config =
  bc_symbol :: string
  bc_timeframe :: string
  bc_initial_balance :: real
  bc_spread_bps :: real
  bc_label :: string
  bc_parameters :: json_dict
  bc_start :: "time option"
  bc_end :: "time option"

definition default_backtest :: "string \<Rightarrow> backtest_config" where
  "default_backtest s = \<lparr> bc_symbol = s, bc_timeframe = ''1m'', bc_initial_balance = 10000, bc_spread_bps = 2,
     bc_label = ''backtest'', bc_parameters = [], bc_start = None, bc_end = None \<rparr>"

definition bc_to_dict :: "backtest_config \<Rightarrow> json_dict" where
  "bc_to_dict c = [(''symbol'', JStr (bc_symbol c)), (''timeframe'', JStr (bc_timeframe c)),
     (''initial_balance'', JNum (bc_initial_balance c)), (''spread_bps'', JNum (bc_spread_bps c)),
     (''label'', JStr (bc_label c)), (''parameters'', JObj (bc_parameters c)),
     (''start'', json_opt_str (map_option iso (bc_start c))), (''end'', json_opt_str (map_option iso (bc_end c)))]"

record backtest_result =
  br_config :: backtest_config
  br_trades :: "trade_record list"
  br_equity_curve :: "equity_point list"
  br_statistics :: json_dict
  br_bars :: nat
  br_final_equity :: real
  br_final_balance :: real

definition br_net_profit :: "backtest_result \<Rightarrow> real" where
  "br_net_profit r = br_final_balance r - bc_initial_balance (br_config r)"

definition br_return_pct :: "backtest_result \<Rightarrow> real" where
  "br_return_pct r = (let b = bc_initial_balance (br_config r) in if b \<noteq> 0 then br_net_profit r / b * 100 else 0)"

definition br_to_dict :: "bool \<Rightarrow> backtest_result \<Rightarrow> json_dict" where
  "br_to_dict include_trades r = [(''config'', JObj (bc_to_dict (br_config r))), (''bars'', JInt (int (br_bars r))),
     (''final_equity'', JNum (py_round 6 (br_final_equity r))), (''final_balance'', JNum (py_round 6 (br_final_balance r))),
     (''net_profit'', JNum (py_round 6 (br_net_profit r))), (''return_pct'', JNum (py_round 4 (br_return_pct r))),
     (''statistics'', JObj (br_statistics r)),
     (''equity_curve'', JList (map (JObj \<circ> eq_to_dict) (br_equity_curve r)))]
     @ (if include_trades then [(''trades'', JList (map (JObj \<circ> trade_to_dict) (br_trades r)))] else [])"

section \<open>Statistics\<close>

definition report_to_dict :: "performance_report \<Rightarrow> json_dict" where
  "report_to_dict r = [(''total_trades'', JInt (int (pr_total_trades r))), (''wins'', JInt (int (pr_wins r))),
     (''losses'', JInt (int (pr_losses r))), (''win_rate'', JNum (pr_win_rate r)), (''loss_rate'', JNum (pr_loss_rate r)),
     (''net_profit'', JNum (pr_net_profit r)), (''gross_profit'', JNum (pr_gross_profit r)),
     (''gross_loss'', JNum (pr_gross_loss r)), (''profit_factor'', JNum (pr_profit_factor r)),
     (''expectancy'', JNum (pr_expectancy r)), (''expectancy_r'', JNum (pr_expectancy_r r)),
     (''average_win'', JNum (pr_average_win r)), (''average_loss'', JNum (pr_average_loss r)),
     (''risk_reward'', JNum (pr_risk_reward r)), (''largest_win'', JNum (pr_largest_win r)),
     (''largest_loss'', JNum (pr_largest_loss r)), (''max_drawdown'', JNum (pr_max_drawdown r)),
     (''max_drawdown_pct'', JNum (pr_max_drawdown_pct r)), (''sharpe'', JNum (pr_sharpe r)), (''sortino'', JNum (pr_sortino r)),
     (''calmar'', JNum (pr_calmar r)), (''ulcer_index'', JNum (pr_ulcer_index r)),
     (''recovery_factor'', JNum (pr_recovery_factor r)),
     (''average_holding_seconds'', JNum (pr_average_holding_seconds r)), (''trades_per_day'', JNum (pr_trades_per_day r)),
     (''trades_by_session'', JObj (map (\<lambda>(k, n). (k, JInt (int n))) (pr_trades_by_session r)))]"

record quant_statistics =
  qt_base :: performance_report
  qt_sqn :: real
  qt_mar_ratio :: real
  qt_annualized_return_pct :: real
  qt_kelly_fraction :: real
  qt_payoff_ratio :: real
  qt_max_consecutive_wins :: nat
  qt_max_consecutive_losses :: nat
  qt_average_drawdown_pct :: real
  qt_exposure_pct :: real
  qt_time_in_market_pct :: real
  qt_alpha :: real
  qt_beta :: real

definition qt_to_dict :: "quant_statistics \<Rightarrow> json_dict" where
  "qt_to_dict s = fold (\<lambda>(k, v) d. pd_put d k v)
     [(''sqn'', JNum (py_round 4 (qt_sqn s))), (''mar_ratio'', JNum (py_round 4 (qt_mar_ratio s))),
      (''annualized_return_pct'', JNum (py_round 4 (qt_annualized_return_pct s))),
      (''kelly_fraction'', JNum (py_round 4 (qt_kelly_fraction s))), (''payoff_ratio'', JNum (py_round 4 (qt_payoff_ratio s))),
      (''max_consecutive_wins'', JInt (int (qt_max_consecutive_wins s))),
      (''max_consecutive_losses'', JInt (int (qt_max_consecutive_losses s))),
      (''average_drawdown_pct'', JNum (py_round 4 (qt_average_drawdown_pct s))),
      (''exposure_pct'', JNum (py_round 4 (qt_exposure_pct s))), (''time_in_market_pct'', JNum (py_round 4 (qt_time_in_market_pct s))),
      (''alpha'', JNum (py_round 6 (qt_alpha s))), (''beta'', JNum (py_round 6 (qt_beta s)))]
     (report_to_dict (qt_base s))"

definition mean_of :: "real list \<Rightarrow> real" where "mean_of xs = sum_list xs / real (length xs)"

definition deviations :: "real list \<Rightarrow> real" where "deviations xs = (\<Sum>x\<leftarrow>xs. (x - mean_of xs)\<^sup>2)"

definition sqn :: "trade_record list \<Rightarrow> real" where
  "sqn ts = (let rs = map t_r_multiple ts; n = length rs in
     if n < 2 then 0 else let std = sqrt (deviations rs / (real n - 1)) in
       if std \<le> 0 then 0 else mean_of rs / std * sqrt (real n))"

definition kelly_of :: "performance_report \<Rightarrow> real" where
  "kelly_of r = (if pr_risk_reward r \<le> 0 then 0 else pr_win_rate r - (1 - pr_win_rate r) / pr_risk_reward r)"

record streaks =
  sk_best_win :: nat
  sk_best_loss :: nat
  sk_win :: nat
  sk_loss :: nat

definition streak_step :: "real \<Rightarrow> streaks \<Rightarrow> streaks" where
  "streak_step pnl s =
     (let (w, l) = (if pnl > 0 then (sk_win s + 1, 0) else if pnl < 0 then (0, sk_loss s + 1) else (0, 0))
      in \<lparr> sk_best_win = max (sk_best_win s) w, sk_best_loss = max (sk_best_loss s) l, sk_win = w, sk_loss = l \<rparr>)"

definition streaks_of :: "trade_record list \<Rightarrow> nat \<times> nat" where
  "streaks_of ts = (let s = fold streak_step (map t_pnl ts) \<lparr> sk_best_win = 0, sk_best_loss = 0, sk_win = 0, sk_loss = 0 \<rparr>
     in (sk_best_win s, sk_best_loss s))"

definition annualized_return_pct :: "real \<Rightarrow> real \<Rightarrow> equity_point list \<Rightarrow> real" where
  "annualized_return_pct initial net_profit curve =
     (let total = net_profit / initial * 100 in
      if length curve < 2 then total
      else let span = total_seconds (eq_timestamp (last curve) - eq_timestamp (hd curve));
               years = span / (365.25 * 86400); final = eq_equity (last curve)
           in if years \<le> 0 \<or> final \<le> 0 \<or> initial \<le> 0 then total
              else ((final / initial) powr (1 / years) - 1) * 100)"

definition curve_exposure_pct :: "equity_point list \<Rightarrow> real" where
  "curve_exposure_pct curve = (if curve = [] then 0
     else real (length (filter (\<lambda>p. eq_open_positions p > 0) curve)) / real (length curve) * 100)"

definition average_drawdown_pct :: "equity_point list \<Rightarrow> real" where
  "average_drawdown_pct curve = (let ds = filter (\<lambda>d. d > 0) (map eq_drawdown_pct curve) in
     if ds = [] then 0 else sum_list ds / real (length ds))"

definition quant_compute :: "real \<Rightarrow> real \<Rightarrow> trade_record list \<Rightarrow> equity_point list \<Rightarrow> quant_statistics" where
  "quant_compute initial risk_free trades curve =
     (let b = compute_report initial trades in
      if trades = [] then \<lparr> qt_base = b, qt_sqn = 0, qt_mar_ratio = 0, qt_annualized_return_pct = 0, qt_kelly_fraction = 0,
        qt_payoff_ratio = 0, qt_max_consecutive_wins = 0, qt_max_consecutive_losses = 0, qt_average_drawdown_pct = 0,
        qt_exposure_pct = 0, qt_time_in_market_pct = 0, qt_alpha = 0, qt_beta = 0 \<rparr>
      else let ordered = sort_key t_exit_time trades; (wins, losses) = streaks_of ordered;
               annualized = annualized_return_pct (engine_balance initial) (pr_net_profit b) curve;
               exposure = curve_exposure_pct curve
        in \<lparr> qt_base = b, qt_sqn = sqn ordered, qt_mar_ratio = safe_ratio annualized (pr_max_drawdown_pct b),
             qt_annualized_return_pct = annualized, qt_kelly_fraction = kelly_of b, qt_payoff_ratio = pr_risk_reward b,
             qt_max_consecutive_wins = wins, qt_max_consecutive_losses = losses,
             qt_average_drawdown_pct = average_drawdown_pct curve, qt_exposure_pct = exposure, qt_time_in_market_pct = exposure,
             qt_alpha = annualized - risk_free * 100, qt_beta = 0 \<rparr>)"

section \<open>Monte Carlo\<close>

definition percentile :: "real list \<Rightarrow> real \<Rightarrow> real" where
  "percentile xs pct = (if xs = [] then 0 else
     let ys = sort xs in
     if length ys = 1 then ys ! 0
     else let rank = pct / 100 * (real (length ys) - 1); low = nat \<lfloor>rank\<rfloor>; high = nat \<lceil>rank\<rceil> in
       if low = high then ys ! low
       else let weight = rank - real low in ys ! low * (1 - weight) + ys ! high * weight)"

record monte_carlo_settings =
  mo_simulations :: nat
  mo_method :: string
  mo_initial_capital :: real
  mo_ruin_threshold_pct :: real
  mo_confidence :: real
  mo_random_seed :: int

definition default_monte_carlo :: monte_carlo_settings where
  "default_monte_carlo = \<lparr> mo_simulations = 1000, mo_method = ''resample'', mo_initial_capital = 10000,
     mo_ruin_threshold_pct = 50, mo_confidence = 95/100, mo_random_seed = 7 \<rparr>"

record monte_carlo_result =
  mr_simulations :: nat
  mr_initial_capital :: real
  mr_mean_return_pct :: real
  mr_median_return_pct :: real
  mr_std_return_pct :: real
  mr_ci_low_pct :: real
  mr_ci_high_pct :: real
  mr_percentile_5 :: real
  mr_percentile_95 :: real
  mr_expected_max_drawdown_pct :: real
  mr_worst_max_drawdown_pct :: real
  mr_required_capital_pct :: real
  mr_risk_of_ruin :: real
  mr_profitable_probability :: real

definition mr_to_dict :: "monte_carlo_result \<Rightarrow> json_dict" where
  "mr_to_dict r = [(''simulations'', JInt (int (mr_simulations r))), (''initial_capital'', JNum (mr_initial_capital r)),
     (''mean_return_pct'', JNum (py_round 4 (mr_mean_return_pct r))), (''median_return_pct'', JNum (py_round 4 (mr_median_return_pct r))),
     (''std_return_pct'', JNum (py_round 4 (mr_std_return_pct r))), (''return_ci_low_pct'', JNum (py_round 4 (mr_ci_low_pct r))),
     (''return_ci_high_pct'', JNum (py_round 4 (mr_ci_high_pct r))),
     (''percentile_5_return_pct'', JNum (py_round 4 (mr_percentile_5 r))),
     (''percentile_95_return_pct'', JNum (py_round 4 (mr_percentile_95 r))),
     (''expected_max_drawdown_pct'', JNum (py_round 4 (mr_expected_max_drawdown_pct r))),
     (''worst_max_drawdown_pct'', JNum (py_round 4 (mr_worst_max_drawdown_pct r))),
     (''required_capital_pct'', JNum (py_round 4 (mr_required_capital_pct r))),
     (''risk_of_ruin'', JNum (py_round 4 (mr_risk_of_ruin r))),
     (''profitable_probability'', JNum (py_round 4 (mr_profitable_probability r)))]"

text \<open>One draw: the order a shuffle leaves, or the indices the choices pick.\<close>

definition sample_path :: "string \<Rightarrow> real list \<Rightarrow> nat list \<Rightarrow> real list" where
  "sample_path method pnls draw = map (\<lambda>i. pnls ! i) draw"

definition draw_ok :: "string \<Rightarrow> nat \<Rightarrow> nat list \<Rightarrow> bool" where
  "draw_ok method n draw \<longleftrightarrow> length draw = n \<and> (\<forall>i\<in>set draw. i < n) \<and> (method = ''shuffle'' \<longrightarrow> distinct draw)"

record path_state =
  ph_equity :: real
  ph_peak :: real
  ph_max_dd_pct :: real
  ph_ruined :: bool

definition path_step :: "real \<Rightarrow> real \<Rightarrow> path_state \<Rightarrow> path_state" where
  "path_step ruin_level pnl s =
     (let equity = ph_equity s + pnl; peak = max (ph_peak s) equity in
      \<lparr> ph_equity = equity, ph_peak = peak,
        ph_max_dd_pct = (if peak > 0 then max (ph_max_dd_pct s) ((peak - equity) / peak * 100) else ph_max_dd_pct s),
        ph_ruined = (ph_ruined s \<or> equity \<le> ruin_level) \<rparr>)"

definition simulate_path :: "real \<Rightarrow> real list \<Rightarrow> real \<Rightarrow> path_state" where
  "simulate_path capital pnls ruin_level =
     fold (path_step ruin_level) pnls \<lparr> ph_equity = capital, ph_peak = capital, ph_max_dd_pct = 0, ph_ruined = False \<rparr>"

definition monte_carlo_run :: "monte_carlo_settings \<Rightarrow> nat list list \<Rightarrow> real list \<Rightarrow> monte_carlo_result" where
  "monte_carlo_run s draws pnls =
     (let capital = mo_initial_capital s in
      if pnls = [] \<or> capital \<le> 0 then \<lparr> mr_simulations = 0, mr_initial_capital = capital, mr_mean_return_pct = 0,
        mr_median_return_pct = 0, mr_std_return_pct = 0, mr_ci_low_pct = 0, mr_ci_high_pct = 0, mr_percentile_5 = 0,
        mr_percentile_95 = 0, mr_expected_max_drawdown_pct = 0, mr_worst_max_drawdown_pct = 0, mr_required_capital_pct = 0,
        mr_risk_of_ruin = 0, mr_profitable_probability = 0 \<rparr>
      else
      let ruin_level = capital * (1 - mo_ruin_threshold_pct s / 100);
          paths = map (\<lambda>d. simulate_path capital (sample_path (mo_method s) pnls d) ruin_level) (take (mo_simulations s) draws);
          returns = map (\<lambda>p. (ph_equity p - capital) / capital * 100) paths;
          drawdowns = map ph_max_dd_pct paths; n = length returns; tail = (1 - mo_confidence s) / 2 * 100
      in \<lparr> mr_simulations = n, mr_initial_capital = capital, mr_mean_return_pct = mean_of returns,
           mr_median_return_pct = percentile returns 50, mr_std_return_pct = sqrt (deviations returns / real n),
           mr_ci_low_pct = percentile returns tail, mr_ci_high_pct = percentile returns (100 - tail),
           mr_percentile_5 = percentile returns 5, mr_percentile_95 = percentile returns 95,
           mr_expected_max_drawdown_pct = percentile drawdowns 50, mr_worst_max_drawdown_pct = Max (set drawdowns),
           mr_required_capital_pct = percentile drawdowns 95,
           mr_risk_of_ruin = real (length (filter ph_ruined paths)) / real n,
           mr_profitable_probability = real (length (filter (\<lambda>r. r > 0) returns)) / real n \<rparr>)"

section \<open>Benchmarks\<close>

record benchmark_result =
  bm_name :: string
  bm_return_pct :: real
  bm_sharpe :: real
  bm_exposure_pct :: real
  bm_bars :: nat

definition bm_to_dict :: "benchmark_result \<Rightarrow> json_dict" where
  "bm_to_dict r = [(''name'', JStr (bm_name r)), (''return_pct'', JNum (py_round 4 (bm_return_pct r))),
     (''sharpe'', JNum (py_round 4 (bm_sharpe r))), (''exposure_pct'', JNum (py_round 4 (bm_exposure_pct r))),
     (''bars'', JInt (int (bm_bars r)))]"

definition bar_sharpe :: "real list \<Rightarrow> real" where
  "bar_sharpe rs = (if length rs < 2 then 0 else let std = sqrt (deviations rs / real (length rs)) in
     if std \<le> 0 then 0 else mean_of rs / std * sqrt (real (length rs)))"

fun bar_moves :: "candle list \<Rightarrow> real list \<Rightarrow> (real \<times> real) list" where
  "bar_moves (a # b # cs) (h # hs) =
     (if cd_close a \<le> 0 then [] else [(h, h * ((cd_close b - cd_close a) / cd_close a))]) @ bar_moves (b # cs) hs"
| "bar_moves _ _ = []"

definition benchmark_evaluate :: "string \<Rightarrow> real list \<Rightarrow> candle list \<Rightarrow> benchmark_result" where
  "benchmark_evaluate name positions cs =
     (if length cs < 2 then \<lparr> bm_name = name, bm_return_pct = 0, bm_sharpe = 0, bm_exposure_pct = 0, bm_bars = length cs \<rparr>
      else let moves = bar_moves cs positions; rs = map snd moves in
        \<lparr> bm_name = name, bm_return_pct = (prod_list (map (\<lambda>r. 1 + r) rs) - 1) * 100, bm_sharpe = bar_sharpe rs,
          bm_exposure_pct = (if rs = [] then 0 else real (length (filter (\<lambda>m. fst m \<noteq> 0) moves)) / real (length rs) * 100),
          bm_bars = length cs \<rparr>)"

fun ema_from :: "real \<Rightarrow> real \<Rightarrow> real list \<Rightarrow> real list" where
  "ema_from alpha e [] = []"
| "ema_from alpha e (v # vs) = (let e' = alpha * v + (1 - alpha) * e in e' # ema_from alpha e' vs)"

definition ema :: "real list \<Rightarrow> nat \<Rightarrow> real list" where
  "ema vs period = (case vs of [] \<Rightarrow> [] | v # rest \<Rightarrow> v # ema_from (2 / (real period + 1)) v rest)"

fun vwap_positions :: "real \<Rightarrow> real \<Rightarrow> candle list \<Rightarrow> real list" where
  "vwap_positions pv vol [] = []"
| "vwap_positions pv vol (c # cs) =
     (let volume = (if cd_volume c > 0 then cd_volume c else 1); pv' = pv + cd_close c * volume; vol' = vol + volume;
          vwap = (if vol' > 0 then pv' / vol' else cd_close c)
      in (if cd_close c > vwap then 1 else 0) # vwap_positions pv' vol' cs)"

fun random_positions :: "rng \<Rightarrow> real \<Rightarrow> candle list \<Rightarrow> real list" where
  "random_positions r p [] = []"
| "random_positions r p (c # cs) = (if shd r < p then 1 else 0) # random_positions (stl r) p cs"

definition standard_benchmarks :: "rng \<Rightarrow> (string \<times> (candle list \<Rightarrow> real list)) list" where
  "standard_benchmarks r = [(''buy_and_hold'', \<lambda>cs. replicate (length cs) 1), (''random'', random_positions r (1/2)),
     (''ema_cross'', \<lambda>cs. map2 (\<lambda>f s. if f > s then 1 else 0) (ema (map cd_close cs) 12) (ema (map cd_close cs) 26)),
     (''vwap_basic'', vwap_positions 0 0)]"

definition beaten_by :: "(string \<times> (candle list \<Rightarrow> real list)) list \<Rightarrow> real \<Rightarrow> candle list \<Rightarrow> (string, bool) pydict" where
  "beaten_by benches own cs =
     map (\<lambda>(n, f). (n, bm_return_pct (benchmark_evaluate n (f cs) cs) < own)) benches"

section \<open>What the study shows\<close>

text \<open>The percentile interpolates between two neighbours of the sorted sample.\<close>

definition interpolate :: "real list \<Rightarrow> real \<Rightarrow> real" where
  "interpolate ys r = ys ! nat \<lfloor>r\<rfloor> + (r - real_of_int \<lfloor>r\<rfloor>) * (ys ! nat \<lceil>r\<rceil> - ys ! nat \<lfloor>r\<rfloor>)"

lemma percentile_interpolate:
  assumes "xs \<noteq> []" "0 \<le> pct" "pct \<le> 100"
  shows "percentile xs pct = interpolate (sort xs) (pct / 100 * (real (length xs) - 1))"
proof -
  let ?r = "pct / 100 * (real (length xs) - 1)"
  have r: "0 \<le> ?r" using assms by (cases xs) simp_all
  show ?thesis
  proof (cases "length xs = 1 \<or> nat \<lfloor>?r\<rfloor> = nat \<lceil>?r\<rceil>")
    case True
    then show ?thesis using assms by (auto simp: percentile_def interpolate_def Let_def)
  next
    case False
    then show ?thesis using assms r by (simp add: percentile_def interpolate_def Let_def algebra_simps)
  qed
qed

lemma interpolate_between:
  assumes "sorted ys" "0 \<le> r" "nat \<lceil>r\<rceil> < length ys"
  shows "ys ! nat \<lfloor>r\<rfloor> \<le> interpolate ys r" "interpolate ys r \<le> ys ! nat \<lceil>r\<rceil>"
proof -
  let ?l = "ys ! nat \<lfloor>r\<rfloor>" and ?h = "ys ! nat \<lceil>r\<rceil>" and ?w = "r - real_of_int \<lfloor>r\<rfloor>"
  have "nat \<lfloor>r\<rfloor> \<le> nat \<lceil>r\<rceil>" by (intro nat_mono) linarith
  then have lh: "?l \<le> ?h" using assms(1,3) by (simp add: sorted_nth_mono)
  have w: "0 \<le> ?w" "?w \<le> 1" by linarith+
  show "?l \<le> interpolate ys r" using lh w(1) by (simp add: interpolate_def)
  have "?w * (?h - ?l) \<le> 1 * (?h - ?l)" using lh w(2) by (intro mult_right_mono) simp_all
  then show "interpolate ys r \<le> ?h" by (simp add: interpolate_def)
qed

lemma interpolate_mono:
  assumes "sorted ys" "0 \<le> r" "r \<le> s" "nat \<lceil>s\<rceil> < length ys"
  shows "interpolate ys r \<le> interpolate ys s"
proof (cases "\<lfloor>r\<rfloor> = \<lfloor>s\<rfloor>")
  case False
  have rs: "nat \<lceil>r\<rceil> \<le> nat \<lceil>s\<rceil>" using assms(3) by (intro nat_mono ceiling_mono)
  have "\<lceil>r\<rceil> \<le> \<lfloor>s\<rfloor>" using False assms(3) by linarith
  then have "nat \<lceil>r\<rceil> \<le> nat \<lfloor>s\<rfloor>" by (rule nat_mono)
  moreover have "nat \<lfloor>s\<rfloor> \<le> nat \<lceil>s\<rceil>" by (intro nat_mono) linarith
  ultimately have "ys ! nat \<lceil>r\<rceil> \<le> ys ! nat \<lfloor>s\<rfloor>" using assms(1,4) by (intro sorted_nth_mono) simp_all
  moreover have "nat \<lceil>r\<rceil> < length ys" by (rule le_less_trans [OF rs assms(4)])
  moreover have "0 \<le> s" using assms(2,3) by simp
  ultimately show ?thesis
    using interpolate_between(2) [OF assms(1,2)] interpolate_between(1) [OF assms(1) _ assms(4)] by force
next
  case True
  show ?thesis
  proof (cases "r = s")
    case False
    with assms(3) have lt: "r < s" by simp
    let ?l = "ys ! nat \<lfloor>s\<rfloor>" and ?h = "ys ! nat \<lceil>s\<rceil>"
    have "nat \<lfloor>s\<rfloor> \<le> nat \<lceil>s\<rceil>" by (intro nat_mono) linarith
    then have lh: "?l \<le> ?h" using assms(1,4) by (simp add: sorted_nth_mono)
    have "interpolate ys r = ?l + (r - real_of_int \<lfloor>s\<rfloor>) * (?h - ?l)"
    proof (cases "r = real_of_int \<lfloor>r\<rfloor>")
      case r: True
      then have "\<lceil>r\<rceil> = \<lfloor>r\<rfloor>" by linarith
      with r True show ?thesis by (simp add: interpolate_def)
    next
      case r: False
      have "s \<noteq> real_of_int \<lfloor>s\<rfloor>" using True lt of_int_floor_le [of r] by linarith
      with r True have "\<lceil>r\<rceil> = \<lceil>s\<rceil>" by (simp add: ceiling_altdef)
      with True show ?thesis by (simp add: interpolate_def)
    qed
    also have "\<dots> \<le> ?l + (s - real_of_int \<lfloor>s\<rfloor>) * (?h - ?l)"
      using lt lh by (intro add_left_mono mult_right_mono) simp_all
    finally show ?thesis by (simp add: interpolate_def)
  qed simp
qed

lemma percentile_mono:
  assumes "xs \<noteq> []" "0 \<le> p" "p \<le> q" "q \<le> 100"
  shows "percentile xs p \<le> percentile xs q"
proof -
  let ?n = "real (length xs) - 1"
  have n: "0 \<le> ?n" using assms(1) by (cases xs) simp_all
  have "q / 100 * ?n \<le> 1 * ?n" using assms(4) n by (intro mult_right_mono) simp_all
  then have "nat \<lceil>q / 100 * ?n\<rceil> < length (sort xs)" using assms(1) n by simp linarith
  moreover have "p / 100 * ?n \<le> q / 100 * ?n" using assms(3) n by (intro mult_right_mono) simp_all
  moreover have "0 \<le> p / 100 * ?n" using assms(2) n by simp
  ultimately show ?thesis
    using assms by (simp add: percentile_interpolate interpolate_mono)
qed

lemma percentile_le_Max:
  assumes "xs \<noteq> []" "0 \<le> p" "p \<le> 100"
  shows "percentile xs p \<le> Max (set xs)"
proof -
  let ?n = "real (length xs) - 1" let ?r = "p / 100 * ?n"
  have n: "0 \<le> ?n" using assms(1) by (cases xs) simp_all
  have "?r \<le> 1 * ?n" using assms(3) n by (intro mult_right_mono) simp_all
  then have i: "nat \<lceil>?r\<rceil> < length (sort xs)" using assms(1) n by simp linarith
  have "percentile xs p \<le> sort xs ! nat \<lceil>?r\<rceil>"
    using interpolate_between(2) [OF sorted_sort _ i] assms n by (simp add: percentile_interpolate)
  also have "\<dots> \<le> Max (set xs)" using nth_mem [OF i] by (intro Max_ge) simp_all
  finally show ?thesis .
qed

lemma percentile_const:
  assumes "xs \<noteq> []" "\<forall>x\<in>set xs. x = c" "0 \<le> p" "p \<le> 100"
  shows "percentile xs p = c"
proof -
  have "sort xs = replicate (length xs) c" using assms(2)
    by (metis length_sort replicate_eqI set_sort)
  moreover have "nat \<lceil>p / 100 * (real (length xs) - 1)\<rceil> < length xs"
  proof -
    have "p / 100 * (real (length xs) - 1) \<le> 1 * (real (length xs) - 1)"
      using assms(1,4) by (intro mult_right_mono) (cases xs; simp)+
    then show ?thesis using assms(1) by (cases xs) (simp_all, linarith)
  qed
  moreover have "nat \<lfloor>p / 100 * (real (length xs) - 1)\<rfloor> \<le> nat \<lceil>p / 100 * (real (length xs) - 1)\<rceil>"
    by (intro nat_mono) linarith
  ultimately show ?thesis using assms by (simp add: percentile_interpolate interpolate_def)
qed

text \<open>A path: its end, its drawdown and its ruin over the prefixes of the results.\<close>

lemma path_step_fields:
  "ph_equity (path_step lvl p s) = ph_equity s + p"
  "0 \<le> ph_max_dd_pct s \<Longrightarrow> 0 \<le> ph_max_dd_pct (path_step lvl p s)"
  "ph_ruined (path_step lvl p s) \<longleftrightarrow> ph_ruined s \<or> ph_equity s + p \<le> lvl"
  by (simp_all add: path_step_def Let_def le_max_iff_disj)

lemma path_fold:
  "ph_equity (fold (path_step lvl) ps s) = ph_equity s + sum_list ps"
  "0 \<le> ph_max_dd_pct s \<Longrightarrow> 0 \<le> ph_max_dd_pct (fold (path_step lvl) ps s)"
  "ph_ruined (fold (path_step lvl) ps s) \<longleftrightarrow> ph_ruined s \<or> (\<exists>k\<in>{1..length ps}. ph_equity s + sum_list (take k ps) \<le> lvl)"
proof (induction ps arbitrary: s)
  case (Cons p ps)
  { case 1 then show ?case by (simp add: Cons.IH(1) path_step_fields)
  next
    case 2 then show ?case by (simp add: Cons.IH(2) path_step_fields)
  next
    case 3
    have "(\<exists>k\<in>{1..length (p # ps)}. ph_equity s + sum_list (take k (p # ps)) \<le> lvl) \<longleftrightarrow>
      ph_equity s + p \<le> lvl \<or> (\<exists>k\<in>{1..length ps}. ph_equity s + p + sum_list (take k ps) \<le> lvl)" (is "?a \<longleftrightarrow> ?b")
    proof
      assume ?a
      then obtain k where k: "k \<in> {1..length (p # ps)}" "ph_equity s + sum_list (take k (p # ps)) \<le> lvl" by blast
      then obtain j where "k = Suc j" by (cases k) auto
      with k show ?b by (cases j) (auto simp: add.assoc intro!: bexI [of _ j])
    next
      assume ?b
      then show ?a
      proof
        assume "ph_equity s + p \<le> lvl" then show ?a by (intro bexI [of _ 1]) simp_all
      next
        assume "\<exists>k\<in>{1..length ps}. ph_equity s + p + sum_list (take k ps) \<le> lvl"
        then obtain k where "k \<in> {1..length ps}" "ph_equity s + p + sum_list (take k ps) \<le> lvl" by blast
        then show ?a by (intro bexI [of _ "Suc k"]) (simp_all add: add.assoc)
      qed
    qed
    then show ?case by (simp add: Cons.IH(3) path_step_fields)
  }
qed simp_all

lemma shuffle_sum:
  assumes "draw_ok ''shuffle'' (length pnls) draw"
  shows "sum_list (sample_path m pnls draw) = sum_list pnls"
proof -
  have "set draw = {..<length pnls}"
    using assms by (intro card_subset_eq) (auto simp: draw_ok_def distinct_card)
  then have "mset draw = mset [0..<length pnls]"
    using assms by (intro set_eq_iff_mset_eq_distinct [THEN iffD1]) (auto simp: draw_ok_def atLeast0LessThan)
  then have "mset (map ((!) pnls) draw) = mset (map ((!) pnls) [0..<length pnls])" by (simp only: mset_map)
  then have "sum_list (map ((!) pnls) draw) = sum_list pnls" by (metis map_nth sum_mset_sum_list)
  then show ?thesis by (simp add: sample_path_def)
qed

lemma ratio_bounds: "0 < n \<Longrightarrow> m \<le> n \<Longrightarrow> 0 \<le> real m / real n \<and> real m / real n \<le> 1"
  by simp

text \<open>The drawdowns reported are ordered, the probabilities are probabilities, and a path counts
  as ruined exactly when one of its prefixes reaches the ruin level.  With the method \<open>shuffle\<close> every path ends at the same
  capital, so the reported interval and percentiles of the return are all that one return.\<close>

theorem monte_carlo_sound:
  assumes "pnls \<noteq> []" "0 < mo_initial_capital s" "0 < mo_simulations s" "draws \<noteq> []" "0 \<le> mo_confidence s" "mo_confidence s \<le> 1"
    "\<forall>d\<in>set draws. draw_ok (mo_method s) (length pnls) d"
  defines "r \<equiv> monte_carlo_run s draws pnls"
  shows "0 \<le> mr_expected_max_drawdown_pct r \<and> mr_expected_max_drawdown_pct r \<le> mr_required_capital_pct r
    \<and> mr_required_capital_pct r \<le> mr_worst_max_drawdown_pct r
    \<and> mr_ci_low_pct r \<le> mr_median_return_pct r \<and> mr_median_return_pct r \<le> mr_ci_high_pct r
    \<and> 0 \<le> mr_risk_of_ruin r \<and> mr_risk_of_ruin r \<le> 1 \<and> 0 \<le> mr_profitable_probability r \<and> mr_profitable_probability r \<le> 1
    \<and> mr_simulations r = min (mo_simulations s) (length draws)
    \<and> (mo_method s = ''shuffle'' \<longrightarrow> mr_ci_low_pct r = sum_list pnls / mo_initial_capital s * 100
         \<and> mr_ci_high_pct r = mr_ci_low_pct r \<and> mr_percentile_5 r = mr_ci_low_pct r \<and> mr_percentile_95 r = mr_ci_low_pct r
         \<and> mr_profitable_probability r = (if 0 < sum_list pnls then 1 else 0))"
proof -
  let ?c = "mo_initial_capital s" and ?used = "take (mo_simulations s) draws"
  let ?lvl = "?c * (1 - mo_ruin_threshold_pct s / 100)"
  define paths where "paths = map (\<lambda>d. simulate_path ?c (sample_path (mo_method s) pnls d) ?lvl) ?used"
  define rets where "rets = map (\<lambda>p. (ph_equity p - ?c) / ?c * 100) paths"
  define dds where "dds = map ph_max_dd_pct paths"
  let ?tail = "(1 - mo_confidence s) / 2 * 100"
  have ne: "paths \<noteq> []" "rets \<noteq> []" "dds \<noteq> []" using assms(3,4) by (simp_all add: paths_def rets_def dds_def)
  have live: "(pnls = [] \<or> ?c \<le> 0) = False" using assms(1,2) by simp
  have r: "mr_expected_max_drawdown_pct r = percentile dds 50" "mr_required_capital_pct r = percentile dds 95"
      "mr_worst_max_drawdown_pct r = Max (set dds)" "mr_ci_low_pct r = percentile rets ?tail"
      "mr_ci_high_pct r = percentile rets (100 - ?tail)" "mr_median_return_pct r = percentile rets 50"
      "mr_percentile_5 r = percentile rets 5" "mr_percentile_95 r = percentile rets 95"
      "mr_risk_of_ruin r = real (length (filter ph_ruined paths)) / real (length rets)"
      "mr_profitable_probability r = real (length (filter (\<lambda>r. r > 0) rets)) / real (length rets)" "mr_simulations r = length rets"
    by (simp_all only: r_def monte_carlo_run_def Let_def live if_False monte_carlo_result.select_convs paths_def rets_def dds_def)
  have "\<forall>d\<in>set dds. 0 \<le> d" by (auto simp: dds_def paths_def simulate_path_def path_fold(2))
  then have "0 \<le> percentile dds 0" using ne(3) by (simp add: percentile_interpolate interpolate_def nth_mem [of 0 "sort dds", simplified])
  then have dd0: "0 \<le> percentile dds 50" using percentile_mono [OF ne(3), of 0 50] by simp
  have tail: "0 \<le> ?tail" "?tail \<le> 50" using assms(5,6) by simp_all
  have len: "length paths = length rets" "0 < length rets" using ne(2) by (simp_all add: rets_def)
  have "length (filter ph_ruined paths) \<le> length rets" unfolding len(1) [symmetric] by simp
  note probs = ratio_bounds [OF len(2) this] ratio_bounds [OF len(2) length_filter_le]
  have sh: "mo_method s = ''shuffle'' \<Longrightarrow> \<forall>x\<in>set rets. x = sum_list pnls / ?c * 100"
    using assms(2,7) by (auto simp: rets_def paths_def simulate_path_def path_fold(1) shuffle_sum dest!: in_set_takeD)
  have pp: "mo_method s = ''shuffle'' \<Longrightarrow> real (length (filter (\<lambda>r. r > 0) rets)) / real (length rets) = (if 0 < sum_list pnls then 1 else 0)"
  proof -
    assume m: "mo_method s = ''shuffle''"
    have "filter (\<lambda>r. r > 0) rets = (if 0 < sum_list pnls then rets else [])"
      using sh [OF m] assms(2) by (auto simp: filter_empty_conv zero_less_mult_iff zero_less_divide_iff intro!: filter_True)
    then show ?thesis using len(2) by simp
  qed
  have const: "mo_method s = ''shuffle'' \<Longrightarrow> 0 \<le> p \<Longrightarrow> p \<le> 100 \<Longrightarrow> percentile rets p = sum_list pnls / ?c * 100" for p
    by (rule percentile_const [OF ne(2) sh])
  show ?thesis unfolding r
    using dd0 percentile_mono [OF ne(3), of 50 95] percentile_le_Max [OF ne(3), of 95] percentile_mono [OF ne(2), of ?tail 50]
      percentile_mono [OF ne(2), of 50 "100 - ?tail"] tail probs const pp
    by (simp add: rets_def paths_def)
qed

theorem monte_carlo_sound_witness:
  "mr_ci_low_pct (monte_carlo_run (default_monte_carlo\<lparr> mo_simulations := 2, mo_method := ''shuffle'' \<rparr>) [[0, 1], [1, 0]] [100, -50]) = 1 / 2
   \<and> mr_ci_high_pct (monte_carlo_run (default_monte_carlo\<lparr> mo_simulations := 2, mo_method := ''shuffle'' \<rparr>) [[0, 1], [1, 0]] [100, -50]) = 1 / 2"
  using monte_carlo_sound [of "[100, -50]" "default_monte_carlo\<lparr> mo_simulations := 2, mo_method := ''shuffle'' \<rparr>" "[[0, 1], [1, 0]]"]
  by (simp add: default_monte_carlo_def draw_ok_def)

text \<open>The ruin of a path, spelt out.\<close>

lemma ruined_iff_prefix:
  "ph_ruined (simulate_path c ps lvl) \<longleftrightarrow> (\<exists>k\<in>{1..length ps}. c + sum_list (take k ps) \<le> lvl)"
  by (simp add: simulate_path_def path_fold(3))

end
