(* ===== verification/Backtest_Search.thy ===== *)
theory Backtest_Search
  imports Backtest_Metrics
begin

text \<open>
  Searching parameters: the space (\<open>optimizer/space.py\<close>), grid and random search (\<open>optimizer/search.py\<close>), the windows of a
  walk-forward analysis (\<open>walk_forward/windows.py\<close>) and the analysis (\<open>walk_forward/analysis.py\<close>).  A score is
  \<open>None\<close> where the code has minus infinity.  The parameter sets a random search draws are an argument.
\<close>

section \<open>The space\<close>

record parameter_spec =
  sp_name :: string
  sp_choices :: "json list option"
  sp_low :: "real option"
  sp_high :: "real option"
  sp_is_int :: bool

type_synonym parameter_space = "(string, parameter_spec) pydict"

definition add_choices :: "string \<Rightarrow> json list \<Rightarrow> parameter_space \<Rightarrow> py_error + parameter_space" where
  "add_choices n vs sp = (if vs = [] then Inl ValueError
     else Inr (pd_put sp n \<lparr> sp_name = n, sp_choices = Some vs, sp_low = None, sp_high = None, sp_is_int = False \<rparr>))"

definition add_range :: "string \<Rightarrow> real \<Rightarrow> real \<Rightarrow> bool \<Rightarrow> parameter_space \<Rightarrow> py_error + parameter_space" where
  "add_range n low high is_int sp = (if low > high then Inl ValueError
     else Inr (pd_put sp n \<lparr> sp_name = n, sp_choices = None, sp_low = Some low, sp_high = Some high, sp_is_int = is_int \<rparr>))"

definition space_grid :: "parameter_space \<Rightarrow> py_error + json_dict list" where
  "space_grid sp = (if \<exists>s\<in>set (pd_values sp). sp_choices s = None then Inl ValueError
     else if sp = [] then Inr []
     else Inr (map (zip (pd_keys sp)) (product_lists (map (\<lambda>s. the (sp_choices s)) (pd_values sp)))))"

definition space_grid_size :: "parameter_space \<Rightarrow> nat" where
  "space_grid_size sp = (if sp = [] \<or> (\<exists>s\<in>set (pd_values sp). sp_choices s = None) then 0
     else prod_list (map (\<lambda>s. length (the (sp_choices s))) (pd_values sp)))"

text \<open>What a draw of a parameter may be.\<close>

definition drawable :: "parameter_spec \<Rightarrow> json \<Rightarrow> bool" where
  "drawable s v = (case sp_choices s of
       Some vs \<Rightarrow> v \<in> set vs
     | None \<Rightarrow> (case (sp_low s, sp_high s) of
         (Some low, Some high) \<Rightarrow>
           if sp_is_int s then (case v of JInt i \<Rightarrow> py_int low \<le> i \<and> i \<le> py_int high | _ \<Rightarrow> False)
           else (case v of JNum x \<Rightarrow> low \<le> x \<and> x \<le> high | _ \<Rightarrow> False)
       | _ \<Rightarrow> False))"

definition drawn_from :: "parameter_space \<Rightarrow> json_dict \<Rightarrow> bool" where
  "drawn_from sp d \<longleftrightarrow> pd_keys d = pd_keys sp \<and> list_all2 drawable (pd_values sp) (pd_values d)"

section \<open>Search\<close>

record optimization_trial =
  ot_params :: json_dict
  ot_score :: "real option"

record optimization_result =
  oz_method :: string
  oz_objective :: string
  oz_best_params :: json_dict
  oz_best_score :: "real option"
  oz_evaluations :: nat
  oz_trials :: "optimization_trial list"

fun score_less :: "real option \<Rightarrow> real option \<Rightarrow> bool" where
  "score_less None None = False"
| "score_less None (Some _) = True"
| "score_less (Some _) None = False"
| "score_less (Some a) (Some b) = (a < b)"

definition best_trial :: "optimization_trial \<Rightarrow> optimization_trial list \<Rightarrow> optimization_trial" where
  "best_trial t ts = fold (\<lambda>x best. if score_less (ot_score best) (ot_score x) then x else best) ts t"

definition finalize_search :: "string \<Rightarrow> string \<Rightarrow> optimization_trial list \<Rightarrow> optimization_result" where
  "finalize_search method objective trials = (case trials of
       [] \<Rightarrow> \<lparr> oz_method = method, oz_objective = objective, oz_best_params = [], oz_best_score = None, oz_evaluations = 0, oz_trials = [] \<rparr>
     | t # ts \<Rightarrow> \<lparr> oz_method = method, oz_objective = objective, oz_best_params = ot_params (best_trial t ts),
         oz_best_score = ot_score (best_trial t ts), oz_evaluations = length trials, oz_trials = trials \<rparr>)"

definition grid_search :: "string \<Rightarrow> parameter_space \<Rightarrow> (json_dict \<Rightarrow> real option) \<Rightarrow> py_error + optimization_result" where
  "grid_search objective sp evaluate = ebind (space_grid sp) (\<lambda>grid. Inr (finalize_search ''grid'' objective
     (map (\<lambda>p. \<lparr> ot_params = p, ot_score = evaluate p \<rparr>) grid)))"

definition random_search :: "string \<Rightarrow> nat \<Rightarrow> json_dict list \<Rightarrow> (json_dict \<Rightarrow> real option) \<Rightarrow> optimization_result" where
  "random_search objective max_evaluations samples evaluate = finalize_search ''random'' objective
     (map (\<lambda>p. \<lparr> ot_params = p, ot_score = evaluate p \<rparr>) (take max_evaluations samples))"

subsection \<open>The best of a search\<close>

lemma score_less_trans: "\<not> score_less b a \<Longrightarrow> \<not> score_less c b \<Longrightarrow> \<not> score_less c a"
  by (cases a; cases b; cases c) auto

lemma score_less_total: "score_less a b \<Longrightarrow> \<not> score_less b a"
  by (cases a; cases b) auto

lemma best_trial_max:
  "best_trial t ts \<in> set (t # ts) \<and> (\<forall>x\<in>set (t # ts). \<not> score_less (ot_score (best_trial t ts)) (ot_score x))"
proof (induction ts arbitrary: t)
  case Nil
  show ?case by (cases "ot_score t") (simp_all add: best_trial_def)
next
  case (Cons y ts)
  define u where "u = (if score_less (ot_score t) (ot_score y) then y else t)"
  have b: "best_trial t (y # ts) = best_trial u ts" by (simp add: best_trial_def u_def)
  have ty: "\<not> score_less (ot_score u) (ot_score t)" "\<not> score_less (ot_score u) (ot_score y)"
    by (cases "ot_score t"; cases "ot_score y"; simp add: u_def)+
  have m: "\<not> score_less (ot_score (best_trial u ts)) (ot_score u)" using Cons.IH [of u] by simp
  have "\<not> score_less (ot_score (best_trial u ts)) (ot_score t)" "\<not> score_less (ot_score (best_trial u ts)) (ot_score y)"
    using score_less_trans [OF ty(1) m] score_less_trans [OF ty(2) m] by simp_all
  moreover have "best_trial u ts \<in> set (t # y # ts)" using Cons.IH [of u] by (auto simp: u_def split: if_splits)
  ultimately show ?case using Cons.IH [of u] by (auto simp: b)
qed

lemma space_grid_drawn:
  assumes "space_grid sp = Inr grid" "d \<in> set grid"
  shows "drawn_from sp d"
proof -
  from assms have no: "\<forall>s\<in>set (pd_values sp). sp_choices s \<noteq> None"
      and g: "grid = map (zip (pd_keys sp)) (product_lists (map (\<lambda>s. the (sp_choices s)) (pd_values sp)))"
    by (auto simp: space_grid_def split: if_splits)
  from assms(2) obtain vs where vs: "vs \<in> set (product_lists (map (\<lambda>s. the (sp_choices s)) (pd_values sp)))" "d = zip (pd_keys sp) vs"
    by (auto simp: g)
  then have l: "list_all2 (\<lambda>v xs. v \<in> set xs) vs (map (\<lambda>s. the (sp_choices s)) (pd_values sp))"
    by (simp add: product_lists_set)
  then have len: "length (pd_keys sp) = length vs" by (auto dest: list_all2_lengthD simp: pd_keys_def pd_values_def)
  have "list_all2 drawable (pd_values sp) vs"
  proof (rule list_all2_all_nthI)
    show "length (pd_values sp) = length vs" using l by (auto dest: list_all2_lengthD)
    fix i assume i: "i < length (pd_values sp)"
    with no obtain xs where "sp_choices (pd_values sp ! i) = Some xs" by (meson nth_mem not_None_eq)
    with l i show "drawable (pd_values sp ! i) (vs ! i)" by (auto simp: list_all2_conv_all_nth drawable_def)
  qed
  with len vs(2) show ?thesis by (simp add: drawn_from_def pd_keys_def pd_values_def)
qed

section \<open>Windows\<close>

record wf_window =
  ww_index :: nat
  ww_train_start :: int
  ww_train_end :: int
  ww_test_start :: int
  ww_test_end :: int

definition ww_train_size :: "wf_window \<Rightarrow> int" where "ww_train_size w = ww_train_end w - ww_train_start w"

definition ww_test_size :: "wf_window \<Rightarrow> int" where "ww_test_size w = ww_test_end w - ww_test_start w"

definition ww_to_dict :: "wf_window \<Rightarrow> json_dict" where
  "ww_to_dict w = [(''index'', JInt (int (ww_index w))), (''train_start'', JInt (ww_train_start w)),
     (''train_end'', JInt (ww_train_end w)), (''test_start'', JInt (ww_test_start w)), (''test_end'', JInt (ww_test_end w)),
     (''train_size'', JInt (ww_train_size w)), (''test_size'', JInt (ww_test_size w))]"

text \<open>The loop; its step is positive when it is reached.\<close>

function window_loop :: "int \<Rightarrow> bool \<Rightarrow> int \<Rightarrow> int \<Rightarrow> int \<Rightarrow> nat \<Rightarrow> int \<Rightarrow> wf_window list" where
  "window_loop n rolling train val step k train_end =
     (if 0 < step \<and> train_end + val \<le> n
      then \<lparr> ww_index = k, ww_train_start = (if rolling then train_end - train else 0), ww_train_end = train_end,
             ww_test_start = train_end, ww_test_end = train_end + val \<rparr>
           # window_loop n rolling train val step (k + 1) (train_end + step)
      else [])"
  by pat_completeness auto
termination by (relation "measure (\<lambda>(n, _, _, val, _, _, e). nat (n - val - e + 1))") auto

declare window_loop.simps [simp del]

definition generate_windows :: "int \<Rightarrow> string \<Rightarrow> int \<Rightarrow> int \<Rightarrow> int \<Rightarrow> py_error + wf_window list" where
  "generate_windows n scheme train val step =
     (if train \<le> 0 \<or> val \<le> 0 \<or> step \<le> 0 then Inl ValueError
      else let normal = (if scheme = ''anchored'' then ''expanding'' else scheme) in
        if normal \<notin> {''rolling'', ''expanding''} then Inl ValueError
        else Inr (window_loop n (normal = ''rolling'') train val step 0 train))"

lemma window_loop_nth:
  assumes "0 < step"
  shows "(\<forall>i<length (window_loop n rolling train val step k e). let w = window_loop n rolling train val step k e ! i; te = e + int i * step in
      ww_index w = k + i \<and> ww_train_start w = (if rolling then te - train else 0) \<and> ww_train_end w = te
      \<and> ww_test_start w = te \<and> ww_test_end w = te + val \<and> te + val \<le> n)
    \<and> n < e + int (length (window_loop n rolling train val step k e)) * step + val"
  using assms
proof (induction n rolling train val step k e rule: window_loop.induct)
  case (1 n rolling train val step k e)
  show ?case
  proof (cases "0 < step \<and> e + val \<le> n")
    case False
    then have l: "window_loop n rolling train val step k e = []" by (subst window_loop.simps) simp
    from False "1.prems" show ?thesis by (auto simp: l)
  next
    case True
    let ?rest = "window_loop n rolling train val step (k + 1) (e + step)"
    have l: "window_loop n rolling train val step k e = \<lparr> ww_index = k, ww_train_start = (if rolling then e - train else 0),
        ww_train_end = e, ww_test_start = e, ww_test_end = e + val \<rparr> # ?rest"
      using True by (subst window_loop.simps) simp
    note ih = "1.IH" [OF True "1.prems"]
    show ?thesis unfolding l
    proof (intro conjI allI impI)
      fix i
      assume i: "i < length (\<lparr> ww_index = k, ww_train_start = (if rolling then e - train else 0),
        ww_train_end = e, ww_test_start = e, ww_test_end = e + val \<rparr> # ?rest)"
      show "let w = (\<lparr> ww_index = k, ww_train_start = (if rolling then e - train else 0),
        ww_train_end = e, ww_test_start = e, ww_test_end = e + val \<rparr> # ?rest) ! i; te = e + int i * step in
          ww_index w = k + i \<and> ww_train_start w = (if rolling then te - train else 0) \<and> ww_train_end w = te
          \<and> ww_test_start w = te \<and> ww_test_end w = te + val \<and> te + val \<le> n"
      proof (cases i)
        case 0
        with True show ?thesis by simp
      next
        case (Suc j)
        with i ih show ?thesis by (simp add: Let_def algebra_simps)
      qed
    next
      show "n < e + int (length (\<lparr> ww_index = k, ww_train_start = (if rolling then e - train else 0),
        ww_train_end = e, ww_test_start = e, ww_test_end = e + val \<rparr> # ?rest)) * step + val"
        using ih by (simp add: algebra_simps)
    qed
  qed
qed

section \<open>Walk-forward analysis\<close>

definition objective_value :: "json_dict \<Rightarrow> string \<Rightarrow> real option" where
  "objective_value stats n = (case pd_get stats n of Some (JNum x) \<Rightarrow> Some x | Some (JInt i) \<Rightarrow> Some (real_of_int i) | _ \<Rightarrow> None)"

record wf_fold =
  wl_window :: wf_window
  wl_best_params :: json_dict
  wl_in_sample_score :: "real option"
  wl_oos_return_pct :: real
  wl_oos_stats :: json_dict

record wf_report =
  wp_scheme :: string
  wp_objective :: string
  wp_folds :: "wf_fold list"
  wp_total_return :: real
  wp_average_return :: real
  wp_positive_ratio :: real
  wp_stability :: real
  wp_efficiency :: real

definition wp_is_stable :: "wf_report \<Rightarrow> bool" where
  "wp_is_stable r \<longleftrightarrow> wp_positive_ratio r \<ge> 6/10 \<and> wp_stability r \<ge> 0"

definition wf_stability :: "real list \<Rightarrow> real \<Rightarrow> real" where
  "wf_stability rs mean = (if length rs < 2 then 1 else
     let std = sqrt ((\<Sum>r\<leftarrow>rs. (r - mean)\<^sup>2) / real (length rs)) in
     if \<bar>mean\<bar> < 1 / 10 ^ 9 then 0 else max (-1) (min 1 (1 - std / \<bar>mean\<bar>)))"

definition wf_efficiency :: "wf_fold list \<Rightarrow> real" where
  "wf_efficiency folds = (let is_scores = List.map_filter wl_in_sample_score folds; oos = map wl_oos_return_pct folds in
     if is_scores = [] \<or> oos = [] then 0
     else if \<bar>mean_of is_scores\<bar> < 1 / 10 ^ 9 then 0 else mean_of oos / mean_of is_scores)"

definition wf_aggregate :: "string \<Rightarrow> string \<Rightarrow> wf_fold list \<Rightarrow> wf_report" where
  "wf_aggregate scheme objective folds =
     (if folds = [] then \<lparr> wp_scheme = scheme, wp_objective = objective, wp_folds = [], wp_total_return = 0, wp_average_return = 0,
        wp_positive_ratio = 0, wp_stability = 0, wp_efficiency = 0 \<rparr>
      else let rs = map wl_oos_return_pct folds; average = sum_list rs / real (length rs) in
        \<lparr> wp_scheme = scheme, wp_objective = objective, wp_folds = folds, wp_total_return = sum_list rs, wp_average_return = average,
          wp_positive_ratio = real (length (filter (\<lambda>r. r > 0) rs)) / real (length rs), wp_stability = wf_stability rs average,
          wp_efficiency = wf_efficiency folds \<rparr>)"

definition slice :: "'a list \<Rightarrow> int \<Rightarrow> int \<Rightarrow> 'a list" where
  "slice xs a b = take (nat b - nat a) (drop (nat a) xs)"

text \<open>The engine runs a source built from parameters over candles; the optimizer maximises a function of parameters.\<close>

definition run_fold :: "('c list \<Rightarrow> json_dict \<Rightarrow> backtest_result) \<Rightarrow> ((json_dict \<Rightarrow> real option) \<Rightarrow> optimization_result) \<Rightarrow> string
    \<Rightarrow> 'c list \<Rightarrow> wf_window \<Rightarrow> wf_fold" where
  "run_fold run optimize objective cs w =
     (let train = slice cs (ww_train_start w) (ww_train_end w); test = slice cs (ww_test_start w) (ww_test_end w);
          found = optimize (\<lambda>p. objective_value (br_statistics (run train p)) objective);
          oos = run test (oz_best_params found)
      in \<lparr> wl_window = w, wl_best_params = oz_best_params found, wl_in_sample_score = oz_best_score found,
           wl_oos_return_pct = br_return_pct oos, wl_oos_stats = br_statistics oos \<rparr>)"

definition walk_forward :: "('c list \<Rightarrow> json_dict \<Rightarrow> backtest_result) \<Rightarrow> ((json_dict \<Rightarrow> real option) \<Rightarrow> optimization_result) \<Rightarrow> string
    \<Rightarrow> 'c list \<Rightarrow> string \<Rightarrow> int \<Rightarrow> int \<Rightarrow> int \<Rightarrow> py_error + wf_report" where
  "walk_forward run optimize objective cs scheme train val step =
     ebind (generate_windows (int (length cs)) scheme train val step)
       (\<lambda>ws. Inr (wf_aggregate scheme objective (map (run_fold run optimize objective cs) ws)))"

lemma slice_agrees:
  assumes "take (nat b) xs = take (nat b) ys"
  shows "slice xs a b = slice ys a b"
proof -
  have "slice zs a b = drop (nat a) (take (nat b) zs)" for zs :: "'a list" by (simp add: slice_def drop_take)
  with assms show ?thesis by simp
qed

text \<open>Property C39 (walk forward): the windows of a walk-forward analysis are consecutive, inside the series, as many as fit;
  every validation slice follows its own training slice, and validation slices do not overlap when the step is at least
  their size.  The parameters of a fold do not depend on its validation slice nor on anything after it.\<close>

theorem walk_forward_out_of_sample:
  assumes "walk_forward run optimize objective cs scheme train val step = Inr rep"
  shows "0 < step \<and> 0 < val \<and> 0 < train \<and> int (length cs) < train + int (length (wp_folds rep)) * step + val
   \<and> (\<forall>i<length (wp_folds rep). \<exists>w. wl_window (wp_folds rep ! i) = w \<and> ww_index w = i
        \<and> ww_train_end w = train + int i * step \<and> ww_test_start w = ww_train_end w \<and> ww_test_end w = ww_train_end w + val
        \<and> 0 \<le> ww_train_start w \<and> ww_train_start w < ww_train_end w \<and> ww_test_end w \<le> int (length cs)
        \<and> (scheme = ''rolling'' \<longrightarrow> ww_train_size w = train) \<and> (scheme \<noteq> ''rolling'' \<longrightarrow> ww_train_start w = 0)
        \<and> (\<forall>j<i. val \<le> step \<longrightarrow> ww_test_end (wl_window (wp_folds rep ! j)) \<le> ww_test_start w)
        \<and> (\<forall>cs'. take (nat (ww_train_end w)) cs' = take (nat (ww_train_end w)) cs
             \<longrightarrow> wl_best_params (run_fold run optimize objective cs' w) = wl_best_params (wp_folds rep ! i)))"
proof -
  let ?loop = "window_loop (int (length cs)) (scheme = ''rolling'') train val step 0 train"
  have pos: "0 < step" "0 < val" "0 < train" and sch: "scheme = ''rolling'' \<or> scheme = ''expanding'' \<or> scheme = ''anchored''"
      and ws: "generate_windows (int (length cs)) scheme train val step = Inr ?loop"
      and rep: "rep = wf_aggregate scheme objective (map (run_fold run optimize objective cs) ?loop)"
    using assms by (auto simp: walk_forward_def generate_windows_def Let_def split: if_splits)
  have folds: "wp_folds rep = map (run_fold run optimize objective cs) ?loop" by (simp add: rep wf_aggregate_def Let_def)
  note nth = conjunct1 [OF window_loop_nth [OF pos(1), of "int (length cs)" "scheme = ''rolling''" train val 0 train], rule_format]
  note past = conjunct2 [OF window_loop_nth [OF pos(1), of "int (length cs)" "scheme = ''rolling''" train val 0 train]]
  have fold_i: "wl_window (wp_folds rep ! i) = ?loop ! i \<and> wl_best_params (wp_folds rep ! i) = wl_best_params (run_fold run optimize objective cs (?loop ! i))"
    if "i < length ?loop" for i using that by (simp add: folds run_fold_def Let_def)
  have each: "\<exists>w. wl_window (wp_folds rep ! i) = w \<and> ww_index w = i
        \<and> ww_train_end w = train + int i * step \<and> ww_test_start w = ww_train_end w \<and> ww_test_end w = ww_train_end w + val
        \<and> 0 \<le> ww_train_start w \<and> ww_train_start w < ww_train_end w \<and> ww_test_end w \<le> int (length cs)
        \<and> (scheme = ''rolling'' \<longrightarrow> ww_train_size w = train) \<and> (scheme \<noteq> ''rolling'' \<longrightarrow> ww_train_start w = 0)
        \<and> (\<forall>j<i. val \<le> step \<longrightarrow> ww_test_end (wl_window (wp_folds rep ! j)) \<le> ww_test_start w)
        \<and> (\<forall>cs'. take (nat (ww_train_end w)) cs' = take (nat (ww_train_end w)) cs
             \<longrightarrow> wl_best_params (run_fold run optimize objective cs' w) = wl_best_params (wp_folds rep ! i))"
    if i: "i < length ?loop" for i
  proof (rule exI [of _ "?loop ! i"], intro conjI allI impI)
    have "0 < train + int i * step" using pos by (simp add: add_pos_nonneg)
    note facts = nth [OF i, unfolded Let_def] fold_i [OF i] pos this
    show "wl_window (wp_folds rep ! i) = ?loop ! i" "ww_index (?loop ! i) = i" "ww_train_end (?loop ! i) = train + int i * step"
      "ww_test_start (?loop ! i) = ww_train_end (?loop ! i)" "ww_test_end (?loop ! i) = ww_train_end (?loop ! i) + val"
      "0 \<le> ww_train_start (?loop ! i)" "ww_train_start (?loop ! i) < ww_train_end (?loop ! i)"
      "ww_test_end (?loop ! i) \<le> int (length cs)"
      using facts by (simp_all split: if_splits)
    show "ww_train_size (?loop ! i) = train" if "scheme = ''rolling''" using facts that by (simp add: ww_train_size_def)
    show "ww_train_start (?loop ! i) = 0" if "scheme \<noteq> ''rolling''" using facts that by simp
    show "ww_test_end (wl_window (wp_folds rep ! j)) \<le> ww_test_start (?loop ! i)" if "j < i" "val \<le> step" for j
    proof -
      have j: "j < length ?loop" using i that(1) by simp
      have "int j + 1 \<le> int i" using that(1) by simp
      then have "(int j + 1) * step \<le> int i * step" using pos(1) by (intro mult_right_mono) simp_all
      then show ?thesis using nth [OF j, unfolded Let_def] fold_i [OF j] facts that(2) by (simp add: algebra_simps)
    qed
    show "wl_best_params (run_fold run optimize objective cs' (?loop ! i)) = wl_best_params (wp_folds rep ! i)"
      if "take (nat (ww_train_end (?loop ! i))) cs' = take (nat (ww_train_end (?loop ! i))) cs" for cs'
      using fold_i [OF i] slice_agrees [OF that] by (simp add: run_fold_def Let_def)
  qed
  have len: "length (wp_folds rep) = length ?loop" by (simp add: folds)
  show ?thesis unfolding len by (intro conjI allI impI pos past each)
qed

text \<open>Six candles, trained on two and validated on two: two folds.\<close>

definition flat_result :: backtest_result where
  "flat_result = \<lparr> br_config = default_backtest ''X'', br_trades = [], br_equity_curve = [], br_statistics = [], br_bars = 0,
     br_final_equity = 10000, br_final_balance = 10000 \<rparr>"

theorem walk_forward_out_of_sample_witness:
  "length (wp_folds (projr (walk_forward (\<lambda>cs p. flat_result) (random_search ''s'' 1 [[]]) ''s'' [1::nat, 2, 3, 4, 5, 6] ''rolling'' 2 2 2))) = 2
   \<and> ww_test_end (wl_window (wp_folds (projr (walk_forward (\<lambda>cs p. flat_result) (random_search ''s'' 1 [[]]) ''s'' [1::nat, 2, 3, 4, 5, 6] ''rolling'' 2 2 2)) ! 0)) = 4"
proof -
  let ?wf = "walk_forward (\<lambda>cs p. flat_result) (random_search ''s'' 1 [[]]) ''s'' [1::nat, 2, 3, 4, 5, 6] ''rolling'' 2 2 2"
  have run: "?wf = Inr (projr ?wf)" by (simp add: walk_forward_def generate_windows_def)
  have len: "length (wp_folds (projr ?wf)) = 2"
    by (simp add: walk_forward_def generate_windows_def wf_aggregate_def window_loop.simps Let_def)
  with walk_forward_out_of_sample [OF run] show ?thesis by auto
qed

end
