(* ===== verification/Qualification.thy ===== *)
theory Qualification
  imports Backtest_Search
begin

text \<open>
  The gate from the laboratory to paper trading: the minimum metrics (\<open>backtesting/validation/criteria.py\<close>), the detector of
  over-optimisation (\<open>overfitting.py\<close>) and the qualification pipeline (\<open>qualification.py\<close>).  The engine, the Monte Carlo
  study and the benchmarks are arguments of the pipeline; the development has a model of each.
\<close>

section \<open>Criteria\<close>

record qualification_criteria =
  ql_min_trades :: int
  ql_min_profit_factor :: real
  ql_min_sharpe :: real
  ql_max_drawdown_pct :: real
  ql_min_expectancy :: real
  ql_min_sqn :: real
  ql_min_win_rate :: real
  ql_require_walk_forward :: bool
  ql_require_monte_carlo :: bool
  ql_require_beat_benchmark :: bool
  ql_monte_carlo_max_drawdown_pct :: real
  ql_min_robust_scenarios_pct :: real

definition default_criteria :: qualification_criteria where
  "default_criteria = \<lparr> ql_min_trades = 30, ql_min_profit_factor = 16/10, ql_min_sharpe = 12/10, ql_max_drawdown_pct = 12,
     ql_min_expectancy = 0, ql_min_sqn = 2, ql_min_win_rate = 0, ql_require_walk_forward = True, ql_require_monte_carlo = True,
     ql_require_beat_benchmark = True, ql_monte_carlo_max_drawdown_pct = 20, ql_min_robust_scenarios_pct = 6/10 \<rparr>"

record criterion_check =
  ch_name :: string
  ch_passed :: bool
  ch_actual :: real
  ch_threshold :: real
  ch_detail :: msg

definition ch_to_dict :: "pylib \<Rightarrow> criterion_check \<Rightarrow> json_dict" where
  "ch_to_dict L c = [(''name'', JStr (ch_name c)), (''passed'', JBool (ch_passed c)), (''actual'', JNum (py_round 6 (ch_actual c))),
     (''threshold'', JNum (ch_threshold c)), (''detail'', JStr (render L (ch_detail c)))]"

text \<open>\<open>float(stats.get(k, 0) or 0)\<close>.\<close>

definition metric :: "pylib \<Rightarrow> json_dict \<Rightarrow> string \<Rightarrow> py_error + real" where
  "metric L stats k = (let v = jget stats k (JNum 0) in if py_bool v then py_float L v else Inr 0)"

definition checks_of :: "qualification_criteria \<Rightarrow> real \<Rightarrow> real \<Rightarrow> real \<Rightarrow> real \<Rightarrow> real \<Rightarrow> real \<Rightarrow> real \<Rightarrow> criterion_check list" where
  "checks_of c trades pf sharpe dd expectancy sq win =
     [\<lparr> ch_name = ''min_trades'', ch_passed = (real_of_int (ql_min_trades c) \<le> trades), ch_actual = trades,
        ch_threshold = real_of_int (ql_min_trades c),
        ch_detail = Fmt ''{} operaciones (minimo {})'' [ArgInt (py_int trades), ArgInt (ql_min_trades c)] \<rparr>,
      \<lparr> ch_name = ''profit_factor'', ch_passed = (ql_min_profit_factor c \<le> pf), ch_actual = pf, ch_threshold = ql_min_profit_factor c,
        ch_detail = Fmt ''PF {:.2f} (minimo {})'' [ArgReal pf, ArgReal (ql_min_profit_factor c)] \<rparr>,
      \<lparr> ch_name = ''sharpe'', ch_passed = (ql_min_sharpe c \<le> sharpe), ch_actual = sharpe, ch_threshold = ql_min_sharpe c,
        ch_detail = Fmt ''Sharpe {:.2f} (minimo {})'' [ArgReal sharpe, ArgReal (ql_min_sharpe c)] \<rparr>,
      \<lparr> ch_name = ''max_drawdown'', ch_passed = (dd \<le> ql_max_drawdown_pct c), ch_actual = dd, ch_threshold = ql_max_drawdown_pct c,
        ch_detail = Fmt ''Drawdown {:.2f}% (maximo {}%)'' [ArgReal dd, ArgReal (ql_max_drawdown_pct c)] \<rparr>,
      \<lparr> ch_name = ''expectancy'', ch_passed = (ql_min_expectancy c < expectancy), ch_actual = expectancy, ch_threshold = ql_min_expectancy c,
        ch_detail = Fmt ''Expectativa {:.4f} (minimo > {})'' [ArgReal expectancy, ArgReal (ql_min_expectancy c)] \<rparr>,
      \<lparr> ch_name = ''sqn'', ch_passed = (ql_min_sqn c \<le> sq), ch_actual = sq, ch_threshold = ql_min_sqn c,
        ch_detail = Fmt ''SQN {:.2f} (minimo {})'' [ArgReal sq, ArgReal (ql_min_sqn c)] \<rparr>,
      \<lparr> ch_name = ''win_rate'', ch_passed = (ql_min_win_rate c \<le> win), ch_actual = win, ch_threshold = ql_min_win_rate c,
        ch_detail = Fmt ''Win rate {:.2%} (minimo {:.2%})'' [ArgReal win, ArgReal (ql_min_win_rate c)] \<rparr>]"

definition evaluate_metrics :: "pylib \<Rightarrow> json_dict \<Rightarrow> qualification_criteria \<Rightarrow> py_error + criterion_check list" where
  "evaluate_metrics L stats c =
     ebind (metric L stats ''total_trades'') (\<lambda>trades. ebind (metric L stats ''profit_factor'') (\<lambda>pf.
     ebind (metric L stats ''sharpe'') (\<lambda>sharpe. ebind (metric L stats ''max_drawdown_pct'') (\<lambda>dd.
     ebind (metric L stats ''expectancy'') (\<lambda>ex. ebind (metric L stats ''sqn'') (\<lambda>sq. ebind (metric L stats ''win_rate'') (\<lambda>win.
       Inr (checks_of c trades pf sharpe dd ex sq win))))))))"

definition criteria_passed :: "criterion_check list \<Rightarrow> bool" where
  "criteria_passed cs \<longleftrightarrow> list_all ch_passed cs"

text \<open>The drawdown criterion fails open: statistics that lack the drawdown pass it.\<close>

lemma missing_drawdown_passes:
  assumes "pd_get stats ''max_drawdown_pct'' = None" "0 \<le> ql_max_drawdown_pct c" "evaluate_metrics L stats c = Inr cs"
  shows "\<exists>k\<in>set cs. ch_name k = ''max_drawdown'' \<and> ch_passed k"
proof -
  have "metric L stats ''max_drawdown_pct'' = Inr 0" using assms(1) by (simp add: metric_def jget_def pd_get_or_def py_bool_def)
  with assms(2,3) show ?thesis
    by (auto simp: evaluate_metrics_def checks_of_def ebind_Inr_iff)
qed

section \<open>Over-optimisation\<close>

record overfitting_warning =
  ow_category :: string
  ow_severity :: string
  ow_message :: msg

record overfitting_report =
  of_risk :: real
  of_warnings :: "overfitting_warning list"

definition of_is_overfit :: "overfitting_report \<Rightarrow> bool" where
  "of_is_overfit r \<longleftrightarrow> 1/2 \<le> of_risk r \<or> (\<exists>w\<in>set (of_warnings r). ow_severity w = ''critical'')"

definition of_to_dict :: "pylib \<Rightarrow> overfitting_report \<Rightarrow> json_dict" where
  "of_to_dict L r = [(''risk'', JNum (py_round 4 (of_risk r))), (''is_overfit'', JBool (of_is_overfit r)),
     (''warnings'', JList (map (\<lambda>w. JObj [(''category'', JStr (ow_category w)), (''severity'', JStr (ow_severity w)),
        (''message'', JStr (render L (ow_message w)))]) (of_warnings r)))]"

type_synonym risk_finding = "real \<times> overfitting_warning list"

definition check_outlier :: "real \<Rightarrow> optimization_result \<Rightarrow> risk_finding" where
  "check_outlier sigmas o1 =
     (let scores = List.map_filter ot_score (oz_trials o1) in
      if length scores < 5 then (0, [])
      else let mean = mean_of scores; std = sqrt (deviations scores / real (length scores)) in
        if std \<le> 0 then (0, [])
        else (case oz_best_score o1 of
            None \<Rightarrow> (0, [])
          | Some b \<Rightarrow> let z = (b - mean) / std in
              if sigmas \<le> z then (3/10, [\<lparr> ow_category = ''curve_fitting'', ow_severity = ''warning'',
                ow_message = Fmt ''El mejor score esta {:.1f} sigma sobre la media: posible curva ajustada a una combinacion singular.'' [ArgReal z] \<rparr>])
              else (0, [])))"

definition check_degradation :: "real \<Rightarrow> real option \<Rightarrow> real option \<Rightarrow> risk_finding" where
  "check_degradation limit inside outside =
     (case (inside, outside) of
        (Some i, Some out) \<Rightarrow>
          if i \<le> 0 then (0, [])
          else let ratio = out / i in
            if ratio < limit then
              let severity = (if ratio \<le> 0 then ''critical'' else ''warning'') in
              (if ratio \<le> 0 then 4/10 else 3/10, [\<lparr> ow_category = ''data_snooping'', ow_severity = severity,
                 ow_message = Fmt ''El rendimiento out-of-sample es {:.0%} del in-sample: los parametros no generalizan.'' [ArgReal ratio] \<rparr>])
            else (0, [])
      | _ \<Rightarrow> (0, []))"

definition check_snooping :: "optimization_result \<Rightarrow> risk_finding" where
  "check_snooping o1 = (if 500 \<le> oz_evaluations o1
     then (1/10, [\<lparr> ow_category = ''data_snooping'', ow_severity = ''info'',
        ow_message = Fmt ''{} evaluaciones: a mas pruebas, mas facil encontrar un buen resultado por azar. Exigir validacion out-of-sample.''
          [ArgInt (int (oz_evaluations o1))] \<rparr>])
     else (0, []))"

text \<open>A truth value is a number to the code.\<close>

fun number_of :: "json \<Rightarrow> real option" where
  "number_of (JNum x) = Some x"
| "number_of (JInt i) = Some (real_of_int i)"
| "number_of (JBool b) = Some (if b then 1 else 0)"
| "number_of _ = None"

definition near_boundary :: "json_dict \<Rightarrow> parameter_spec \<Rightarrow> bool" where
  "near_boundary best s = (case (sp_low s, sp_high s, Option.bind (pd_get best (sp_name s)) number_of) of
       (Some low, Some high, Some v) \<Rightarrow> let span = high - low in
          0 < span \<and> (\<bar>v - low\<bar> \<le> 2/100 * span \<or> \<bar>v - high\<bar> \<le> 2/100 * span)
     | _ \<Rightarrow> False)"

definition check_boundaries :: "optimization_result \<Rightarrow> parameter_space \<Rightarrow> risk_finding" where
  "check_boundaries o1 sp = (let near = filter (near_boundary (oz_best_params o1)) (pd_values sp) in
     (min (3/10) (real (length near) / 10), map (\<lambda>s. \<lparr> ow_category = ''unrealistic_params'', ow_severity = ''warning'',
        ow_message = Fmt ''El optimo de '{}' cae en el borde del rango: amplia el dominio o sospecha de un artefacto.'' [ArgStr (sp_name s)] \<rparr>) near))"

definition assess_overfitting :: "real \<Rightarrow> real \<Rightarrow> optimization_result \<Rightarrow> parameter_space option \<Rightarrow> real option \<Rightarrow> real option \<Rightarrow> overfitting_report" where
  "assess_overfitting sigmas limit o1 sp inside outside =
     (let found = [check_outlier sigmas o1, check_degradation limit inside outside, check_snooping o1]
            @ (case sp of None \<Rightarrow> [] | Some p \<Rightarrow> [check_boundaries o1 p])
      in \<lparr> of_risk = min 1 (sum_list (map fst found)), of_warnings = concat (map snd found) \<rparr>)"

lemma risk_bounds: "0 \<le> of_risk (assess_overfitting sg lmt o1 sp i out)" "of_risk (assess_overfitting sg lmt o1 sp i out) \<le> 1"
proof -
  have "0 \<le> fst (check_outlier sg o1)" "0 \<le> fst (check_degradation lmt i out)" "0 \<le> fst (check_snooping o1)"
      "\<And>p. 0 \<le> fst (check_boundaries o1 p)"
    by (auto simp: check_outlier_def check_degradation_def check_snooping_def check_boundaries_def Let_def split: option.split)
  then show "0 \<le> of_risk (assess_overfitting sg lmt o1 sp i out)" by (cases sp) (simp_all add: assess_overfitting_def Let_def)
  show "of_risk (assess_overfitting sg lmt o1 sp i out) \<le> 1" by (simp add: assess_overfitting_def Let_def)
qed

text \<open>A negative in-sample score is never a degradation: the check is skipped, however much worse the validation is.\<close>

lemma losing_in_sample_unchecked: "i \<le> 0 \<Longrightarrow> check_degradation limit (Some i) out = (0, [])"
  by (cases out) (simp_all add: check_degradation_def)

section \<open>The pipeline\<close>

record qualification_report =
  qp_strategy :: string
  qp_approved :: bool
  qp_reasons :: "msg list"
  qp_metric_checks :: "criterion_check list"
  qp_statistics :: json_dict
  qp_monte_carlo :: json_dict
  qp_benchmarks_beaten :: "(string, bool) pydict"
  qp_robustness_pct :: real
  qp_walk_forward :: "wf_report option"

definition segments_of :: "'c list \<Rightarrow> nat \<Rightarrow> 'c list list" where
  "segments_of cs chunks = (let n = length cs; size = n div chunks in
     map (\<lambda>i. slice cs (int (i * size)) (int (if i = chunks - 1 then n else (i + 1) * size))) [0..<chunks])"

definition robustness :: "('c list \<Rightarrow> backtest_result) \<Rightarrow> nat \<Rightarrow> 'c list \<Rightarrow> real" where
  "robustness run chunks cs =
     (if length cs < chunks then 0
      else let segs = filter (\<lambda>s. 2 \<le> length s) (segments_of cs chunks);
               profitable = filter (\<lambda>s. 0 < br_return_pct (run s)) segs
        in if segs = [] then 0 else real (length profitable) / real (length segs))"

definition failed_metrics :: "criterion_check list \<Rightarrow> msg list" where
  "failed_metrics cs = map (\<lambda>c. case ch_detail c of Fmt t args \<Rightarrow> Fmt (''x '' @ t) args | Lit t \<Rightarrow> Lit (''x '' @ t)) (filter (\<lambda>c. \<not> ch_passed c) cs)"

definition qualify :: "pylib \<Rightarrow> ('c list \<Rightarrow> backtest_result) \<Rightarrow> (real list \<Rightarrow> monte_carlo_result) \<Rightarrow> (real \<Rightarrow> 'c list \<Rightarrow> (string, bool) pydict)
    \<Rightarrow> qualification_criteria \<Rightarrow> nat \<Rightarrow> string \<Rightarrow> 'c list \<Rightarrow> wf_report option \<Rightarrow> py_error + qualification_report" where
  "qualify L run study beaten_fn c chunks strategy cs fwd =
     (let result = run cs in
      ebind (evaluate_metrics L (br_statistics result) c) (\<lambda>checks.
      let mc = study (map t_pnl (br_trades result));
          mc_ok = (\<not> ql_require_monte_carlo c \<or> mr_required_capital_pct mc \<le> ql_monte_carlo_max_drawdown_pct c);
          beat = beaten_fn (br_return_pct result) cs;
          beat_ok = (\<not> ql_require_beat_benchmark c \<or> (pd_get_or beat ''buy_and_hold'' False \<and> pd_get_or beat ''random'' False));
          robust = robustness run (max 2 chunks) cs;
          robust_ok = (ql_min_robust_scenarios_pct c \<le> robust);
          wf_reasons = (if \<not> ql_require_walk_forward c then [] else case fwd of
             None \<Rightarrow> [Lit ''x Walk-forward requerido y no ejecutado'']
           | Some w \<Rightarrow> if wp_is_stable w then [] else [Lit ''x Walk-forward inestable (pocos pliegues OOS positivos)'']);
          reasons = failed_metrics checks
            @ (if mc_ok then [] else [Fmt ''x Monte Carlo: drawdown p95 {:.1f}% > {}%''
                [ArgReal (mr_required_capital_pct mc), ArgReal (ql_monte_carlo_max_drawdown_pct c)]])
            @ (if beat_ok then [] else [Lit ''x No supera a los benchmarks basicos (buy&hold / random)''])
            @ (if robust_ok then [] else [Fmt ''x Robustez {:.0%} de tramos rentables (minimo {:.0%})''
                [ArgReal robust, ArgReal (ql_min_robust_scenarios_pct c)]])
            @ wf_reasons;
          approved = (criteria_passed checks \<and> mc_ok \<and> beat_ok \<and> robust_ok \<and> wf_reasons = [])
      in Inr \<lparr> qp_strategy = strategy, qp_approved = approved,
           qp_reasons = (if approved then [Lit ''v Supera todos los filtros de calificacion''] else []) @ reasons,
           qp_metric_checks = checks, qp_statistics = br_statistics result, qp_monte_carlo = mr_to_dict mc,
           qp_benchmarks_beaten = beat, qp_robustness_pct = robust, qp_walk_forward = fwd \<rparr>))"

text \<open>A strategy is approved exactly when every metric passes, the Monte Carlo drawdown, the
  benchmarks and the walk-forward pass where they are required, and enough segments of the market were profitable; a
  rejection always says why, one reason per failed condition, and an approval gives no objection.\<close>

theorem qualification_approves_iff:
  assumes "qualify L run study beaten_fn c chunks strategy cs fwd = Inr rep"
  shows "(qp_approved rep \<longleftrightarrow>
      (\<forall>k\<in>set (qp_metric_checks rep). ch_passed k)
    \<and> (ql_require_monte_carlo c \<longrightarrow> mr_required_capital_pct (study (map t_pnl (br_trades (run cs)))) \<le> ql_monte_carlo_max_drawdown_pct c)
    \<and> (ql_require_beat_benchmark c \<longrightarrow> pd_get (qp_benchmarks_beaten rep) ''buy_and_hold'' = Some True
          \<and> pd_get (qp_benchmarks_beaten rep) ''random'' = Some True)
    \<and> ql_min_robust_scenarios_pct c \<le> robustness run (max 2 chunks) cs
    \<and> (ql_require_walk_forward c \<longrightarrow> (\<exists>w. fwd = Some w \<and> wp_is_stable w)))
    \<and> evaluate_metrics L (br_statistics (run cs)) c = Inr (qp_metric_checks rep)
    \<and> length (qp_reasons rep) = (if qp_approved rep then 1
      else length (filter (\<lambda>k. \<not> ch_passed k) (qp_metric_checks rep))
        + (if ql_require_monte_carlo c \<and> \<not> mr_required_capital_pct (study (map t_pnl (br_trades (run cs)))) \<le> ql_monte_carlo_max_drawdown_pct c then 1 else 0)
        + (if ql_require_beat_benchmark c \<and> \<not> (pd_get (qp_benchmarks_beaten rep) ''buy_and_hold'' = Some True
             \<and> pd_get (qp_benchmarks_beaten rep) ''random'' = Some True) then 1 else 0)
        + (if ql_min_robust_scenarios_pct c \<le> robustness run (max 2 chunks) cs then 0 else 1)
        + (if ql_require_walk_forward c \<and> \<not> (\<exists>w. fwd = Some w \<and> wp_is_stable w) then 1 else 0))"
proof -
  from assms obtain checks where checks: "evaluate_metrics L (br_statistics (run cs)) c = Inr checks"
    by (cases "evaluate_metrics L (br_statistics (run cs)) c") (auto simp: qualify_def Let_def)
  have get: "pd_get_or d k False \<longleftrightarrow> pd_get d k = Some True" for d :: "(string, bool) pydict" and k
    by (auto simp: pd_get_or_def split: option.split)
  have none: "criteria_passed ks \<longleftrightarrow> filter (\<lambda>k. \<not> ch_passed k) ks = []" for ks
    by (induction ks) (auto simp: criteria_passed_def)
  have every: "criteria_passed ks \<longleftrightarrow> (\<forall>k\<in>set ks. ch_passed k)" for ks by (auto simp: criteria_passed_def list_all_iff)
  note rep = assms [unfolded qualify_def Let_def checks ebind.simps sum.inject, symmetric]
  have fields: "qp_metric_checks rep = checks" "qp_benchmarks_beaten rep = beaten_fn (br_return_pct (run cs)) cs"
    by (simp_all add: rep)
  have ev: "evaluate_metrics L (br_statistics (run cs)) c = Inr (qp_metric_checks rep)" by (simp add: fields checks)
  have app: "qp_approved rep \<longleftrightarrow>
      (\<forall>k\<in>set (qp_metric_checks rep). ch_passed k)
    \<and> (ql_require_monte_carlo c \<longrightarrow> mr_required_capital_pct (study (map t_pnl (br_trades (run cs)))) \<le> ql_monte_carlo_max_drawdown_pct c)
    \<and> (ql_require_beat_benchmark c \<longrightarrow> pd_get (qp_benchmarks_beaten rep) ''buy_and_hold'' = Some True
          \<and> pd_get (qp_benchmarks_beaten rep) ''random'' = Some True)
    \<and> ql_min_robust_scenarios_pct c \<le> robustness run (max 2 chunks) cs
    \<and> (ql_require_walk_forward c \<longrightarrow> (\<exists>w. fwd = Some w \<and> wp_is_stable w))"
    unfolding fields by (auto simp: rep every get split: option.splits if_splits)
  have len: "length (qp_reasons rep) = (if qp_approved rep then 1
      else length (filter (\<lambda>k. \<not> ch_passed k) (qp_metric_checks rep))
        + (if ql_require_monte_carlo c \<and> \<not> mr_required_capital_pct (study (map t_pnl (br_trades (run cs)))) \<le> ql_monte_carlo_max_drawdown_pct c then 1 else 0)
        + (if ql_require_beat_benchmark c \<and> \<not> (pd_get (qp_benchmarks_beaten rep) ''buy_and_hold'' = Some True
             \<and> pd_get (qp_benchmarks_beaten rep) ''random'' = Some True) then 1 else 0)
        + (if ql_min_robust_scenarios_pct c \<le> robustness run (max 2 chunks) cs then 0 else 1)
        + (if ql_require_walk_forward c \<and> \<not> (\<exists>w. fwd = Some w \<and> wp_is_stable w) then 1 else 0))"
    unfolding fields by (auto simp: rep none get failed_metrics_def split: option.splits if_splits)
  show ?thesis by (intro conjI app ev len)
qed

definition lone_pass :: backtest_result where
  "lone_pass = flat_result\<lparr> br_statistics := [(''total_trades'', JInt 40), (''profit_factor'', JNum 2), (''sharpe'', JNum 2),
     (''max_drawdown_pct'', JNum 5), (''expectancy'', JNum 1), (''sqn'', JNum 3), (''win_rate'', JNum (1/2))] \<rparr>"

text \<open>Good metrics, and nothing else: without a walk-forward and with no profitable segment the strategy is rejected, with two reasons.\<close>

theorem qualification_approves_iff_witness:
  "\<forall>L. \<not> qp_approved (projr (qualify L (\<lambda>cs. lone_pass) (\<lambda>ps. monte_carlo_run default_monte_carlo [] [])
       (\<lambda>r cs. [(''buy_and_hold'', True), (''random'', True)]) default_criteria 2 ''s'' [0::nat, 1, 2, 3] None))
     \<and> length (qp_reasons (projr (qualify L (\<lambda>cs. lone_pass) (\<lambda>ps. monte_carlo_run default_monte_carlo [] [])
       (\<lambda>r cs. [(''buy_and_hold'', True), (''random'', True)]) default_criteria 2 ''s'' [0::nat, 1, 2, 3] None))) = 2"
proof
  fix L
  let ?q = "qualify L (\<lambda>cs. lone_pass) (\<lambda>ps. monte_carlo_run default_monte_carlo [] [])
       (\<lambda>r cs. [(''buy_and_hold'', True), (''random'', True)]) default_criteria 2 ''s'' [0::nat, 1, 2, 3] None"
  have stats: "evaluate_metrics L (br_statistics lone_pass) default_criteria = Inr (checks_of default_criteria 40 2 2 5 1 3 (1/2))"
    by (simp add: evaluate_metrics_def metric_def jget_def pd_get_or_def pd_get_def lone_pass_def py_bool_def py_float_def)
  have run: "?q = Inr (projr ?q)" by (simp add: qualify_def Let_def stats)
  have flat: "br_return_pct lone_pass = 0" by (simp add: lone_pass_def flat_result_def br_return_pct_def br_net_profit_def default_backtest_def)
  have r: "robustness (\<lambda>cs. lone_pass) (max 2 2) [0::nat, 1, 2, 3] = 0" by (simp add: robustness_def flat Let_def)
  have q: "qp_metric_checks (projr ?q) = checks_of default_criteria 40 2 2 5 1 3 (1/2)"
      "qp_benchmarks_beaten (projr ?q) = [(''buy_and_hold'', True), (''random'', True)]"
    by (simp_all add: qualify_def Let_def stats)
  show "\<not> qp_approved (projr ?q) \<and> length (qp_reasons (projr ?q)) = 2"
    using qualification_approves_iff [OF run] unfolding q r
    by (simp add: default_criteria_def checks_of_def pd_get_def monte_carlo_run_def)
qed

end
