(* ===== verification/Research_Models.thy ===== *)
theory Research_Models
  imports Qualification
begin

text \<open>
  The vocabulary of the research laboratory (\<open>app/research/models.py\<close>) and its documents.  What the code reads back without
  looking at its type (\<open>data["name"]\<close>) is read as a text here: the files are those the laboratory wrote.  The structural
  hash of a genome is an argument.
\<close>

section \<open>Genomes\<close>

datatype combine = COMBINE_ALL | COMBINE_ANY | COMBINE_MAJORITY

fun combine_value :: "combine \<Rightarrow> string" where
  "combine_value COMBINE_ALL = ''all''"
| "combine_value COMBINE_ANY = ''any''"
| "combine_value COMBINE_MAJORITY = ''majority''"

definition parse_combine :: "string \<Rightarrow> py_error + combine" where
  "parse_combine s = (if s = ''all'' then Inr COMBINE_ALL else if s = ''any'' then Inr COMBINE_ANY
     else if s = ''majority'' then Inr COMBINE_MAJORITY else Inl ValueError)"

text \<open>Signal blocks and context filters have the same fields.\<close>

record genome_block =
  gb_kind :: string
  gb_params :: "(string, real) pydict"

definition params_to_json :: "(string, real) pydict \<Rightarrow> json" where
  "params_to_json ps = JObj (map (\<lambda>(k, v). (k, JNum v)) ps)"

definition params_from_json :: "pylib \<Rightarrow> json \<Rightarrow> py_error + (string, real) pydict" where
  "params_from_json L j = (case j of
       JObj d \<Rightarrow> traverse (\<lambda>(k, v). ebind (py_float L v) (\<lambda>x. Inr (k, x))) d
     | _ \<Rightarrow> Inl AttributeError)"

definition gb_to_dict :: "genome_block \<Rightarrow> json_dict" where
  "gb_to_dict b = [(''kind'', JStr (gb_kind b)), (''params'', params_to_json (gb_params b))]"

definition json_text :: "json \<Rightarrow> py_error + string" where
  "json_text j = (case j of JStr s \<Rightarrow> Inr s | _ \<Rightarrow> Inl TypeError)"

definition as_object :: "json \<Rightarrow> py_error + json_dict" where
  "as_object j = (case j of JObj d \<Rightarrow> Inr d | _ \<Rightarrow> Inl TypeError)"

definition as_array :: "json \<Rightarrow> py_error + json list" where
  "as_array j = (case j of JList xs \<Rightarrow> Inr xs | _ \<Rightarrow> Inl TypeError)"

definition field_text :: "json_dict \<Rightarrow> string \<Rightarrow> py_error + string" where
  "field_text d k = ebind (jitem d k) json_text"

definition gb_from_json :: "pylib \<Rightarrow> json \<Rightarrow> py_error + genome_block" where
  "gb_from_json L j = ebind (as_object j) (\<lambda>d. ebind (field_text d ''kind'') (\<lambda>k.
     ebind (params_from_json L (jget d ''params'' (JObj []))) (\<lambda>ps. Inr \<lparr> gb_kind = k, gb_params = ps \<rparr>)))"

record strategy_genome =
  ge_id :: string
  ge_name :: string
  ge_symbol :: string
  ge_timeframe :: string
  ge_blocks :: "genome_block list"
  ge_filters :: "genome_block list"
  ge_combine :: combine
  ge_allow_short :: bool
  ge_seed :: int
  ge_metadata :: json_dict

text \<open>The flat vector of parameters: \<open>b0_period\<close>, \<open>f1_low\<close> and so on.\<close>

fun digits :: "nat \<Rightarrow> string" where
  "digits n = (if n < 10 then [char_of (48 + n)] else digits (n div 10) @ [char_of (48 + n mod 10)])"

declare digits.simps [simp del]

definition flat_key :: "char \<Rightarrow> nat \<Rightarrow> string \<Rightarrow> string" where
  "flat_key c i k = c # digits i @ ''_'' @ k"

definition flatten :: "char \<Rightarrow> genome_block list \<Rightarrow> (string \<times> real) list" where
  "flatten c bs = concat (map (\<lambda>(i, b). map (\<lambda>(k, v). (flat_key c i k, v)) (gb_params b)) (enumerate 0 bs))"

definition genome_parameters :: "strategy_genome \<Rightarrow> (string, real) pydict" where
  "genome_parameters g = fold (\<lambda>(k, v) d. pd_put d k v) (flatten CHR ''b'' (ge_blocks g) @ flatten CHR ''f'' (ge_filters g)) []"

definition override :: "char \<Rightarrow> (string, real) pydict \<Rightarrow> genome_block list \<Rightarrow> genome_block list" where
  "override c vals bs = map (\<lambda>(i, b). b\<lparr> gb_params := map (\<lambda>(k, v). (k, pd_get_or vals (flat_key c i k) v)) (gb_params b) \<rparr>) (enumerate 0 bs)"

definition with_parameters :: "(string, real) pydict \<Rightarrow> strategy_genome \<Rightarrow> strategy_genome" where
  "with_parameters vals g = g\<lparr> ge_blocks := override CHR ''b'' vals (ge_blocks g), ge_filters := override CHR ''f'' vals (ge_filters g) \<rparr>"

definition signature_payload :: "strategy_genome \<Rightarrow> json" where
  "signature_payload g = JObj [(''symbol'', JStr (ge_symbol g)), (''timeframe'', JStr (ge_timeframe g)),
     (''combine'', JStr (combine_value (ge_combine g))), (''allow_short'', JBool (ge_allow_short g)),
     (''blocks'', JList (map (JObj \<circ> gb_to_dict) (ge_blocks g))), (''filters'', JList (map (JObj \<circ> gb_to_dict) (ge_filters g)))]"

definition genome_to_dict :: "(json \<Rightarrow> string) \<Rightarrow> strategy_genome \<Rightarrow> json_dict" where
  "genome_to_dict sig g = [(''id'', JStr (ge_id g)), (''name'', JStr (ge_name g)), (''symbol'', JStr (ge_symbol g)),
     (''timeframe'', JStr (ge_timeframe g)), (''combine'', JStr (combine_value (ge_combine g))),
     (''allow_short'', JBool (ge_allow_short g)), (''seed'', JInt (ge_seed g)), (''signature'', JStr (sig (signature_payload g))),
     (''blocks'', JList (map (JObj \<circ> gb_to_dict) (ge_blocks g))), (''filters'', JList (map (JObj \<circ> gb_to_dict) (ge_filters g))),
     (''metadata'', JObj (ge_metadata g))]"

definition genome_from_dict :: "pylib \<Rightarrow> json_dict \<Rightarrow> py_error + strategy_genome" where
  "genome_from_dict L d =
     ebind (ebind (as_array (jget d ''blocks'' (JList []))) (traverse (gb_from_json L))) (\<lambda>blocks.
     ebind (ebind (as_array (jget d ''filters'' (JList []))) (traverse (gb_from_json L))) (\<lambda>filters.
     ebind (field_text d ''id'') (\<lambda>i. ebind (field_text d ''name'') (\<lambda>n. ebind (field_text d ''symbol'') (\<lambda>s.
     ebind (field_text d ''timeframe'') (\<lambda>tf.
     ebind (case jget d ''combine'' (JStr ''all'') of JStr t \<Rightarrow> parse_combine t | _ \<Rightarrow> Inl ValueError) (\<lambda>c.
     ebind (py_int_of (jget d ''seed'' (JInt 0))) (\<lambda>seed.
     ebind (py_dict_of L (jget d ''metadata'' (JObj []))) (\<lambda>metadata.
       Inr \<lparr> ge_id = i, ge_name = n, ge_symbol = s, ge_timeframe = tf, ge_blocks = blocks, ge_filters = filters, ge_combine = c,
         ge_allow_short = py_bool (jget d ''allow_short'' (JBool True)), ge_seed = seed, ge_metadata = metadata \<rparr>)))))))))"

lemma parse_combine_value [simp]: "parse_combine (combine_value c) = Inr c"
  by (cases c) (simp_all add: parse_combine_def)

lemma params_round_trip [simp]: "params_from_json L (params_to_json ps) = Inr ps"
  by (simp add: params_from_json_def params_to_json_def py_float_def case_prod_unfold
      traverse_map [where h = "\<lambda>x. x" and g = "\<lambda>x. (fst x, JNum (snd x))", simplified])

lemma gb_round_trip [simp]: "gb_from_json L (JObj (gb_to_dict b)) = Inr b"
  by (simp add: gb_from_json_def gb_to_dict_def field_text_def as_object_def json_text_def json_lookup)

lemma gbs_round_trip [simp]: "traverse (gb_from_json L) (map (JObj \<circ> gb_to_dict) bs) = Inr bs"
  using traverse_map [of bs "gb_from_json L" "JObj \<circ> gb_to_dict" "\<lambda>x. x"] by simp

lemma genome_round_trip: "genome_from_dict L (genome_to_dict sig g) = Inr g"
  by (simp add: genome_from_dict_def genome_to_dict_def field_text_def json_text_def as_array_def py_int_of_def py_bool_def
      py_dict_of_def json_lookup)

text \<open>Overriding a genome with its own vector gives the genome back, when no key occurs twice in a block.\<close>

lemma override_own:
  assumes "\<And>i k v. i < length bs \<Longrightarrow> (k, v) \<in> set (gb_params (bs ! i)) \<Longrightarrow> pd_get_or vals (flat_key c i k) v = v"
  shows "override c vals bs = bs"
proof (rule nth_equalityI)
  show len: "length (override c vals bs) = length bs" by (simp add: override_def)
  fix i assume "i < length (override c vals bs)"
  then have i: "i < length bs" by (simp add: len)
  have "map (\<lambda>(k, v). (k, pd_get_or vals (flat_key c i k) v)) (gb_params (bs ! i)) = gb_params (bs ! i)"
    using assms [OF i] by (intro map_idI) auto
  then show "override c vals bs ! i = bs ! i" using i by (simp add: override_def nth_enumerate_eq)
qed

section \<open>Reports\<close>

datatype pipeline_stage = ST_BACKTEST | ST_WALK_FORWARD | ST_MONTE_CARLO | ST_ML_REVIEW | ST_BENCHMARK | ST_RISK_REVIEW

fun stage_value :: "pipeline_stage \<Rightarrow> string" where
  "stage_value ST_BACKTEST = ''backtest''"
| "stage_value ST_WALK_FORWARD = ''walk_forward''"
| "stage_value ST_MONTE_CARLO = ''monte_carlo''"
| "stage_value ST_ML_REVIEW = ''ml_review''"
| "stage_value ST_BENCHMARK = ''benchmark''"
| "stage_value ST_RISK_REVIEW = ''risk_review''"

definition parse_stage :: "string \<Rightarrow> py_error + pipeline_stage" where
  "parse_stage s = (case find (\<lambda>x. stage_value x = s) [ST_BACKTEST, ST_WALK_FORWARD, ST_MONTE_CARLO, ST_ML_REVIEW, ST_BENCHMARK, ST_RISK_REVIEW] of
     None \<Rightarrow> Inl ValueError | Some x \<Rightarrow> Inr x)"

datatype candidate_status = CA_GENERATED | CA_EVALUATED | CA_CANDIDATE | CA_PAPER | CA_PROMOTED | CA_REJECTED | CA_ARCHIVED

fun candidate_value :: "candidate_status \<Rightarrow> string" where
  "candidate_value CA_GENERATED = ''generated''"
| "candidate_value CA_EVALUATED = ''evaluated''"
| "candidate_value CA_CANDIDATE = ''candidate''"
| "candidate_value CA_PAPER = ''paper''"
| "candidate_value CA_PROMOTED = ''promoted''"
| "candidate_value CA_REJECTED = ''rejected''"
| "candidate_value CA_ARCHIVED = ''archived''"

definition parse_candidate :: "string \<Rightarrow> py_error + candidate_status" where
  "parse_candidate s = (case find (\<lambda>x. candidate_value x = s)
       [CA_GENERATED, CA_EVALUATED, CA_CANDIDATE, CA_PAPER, CA_PROMOTED, CA_REJECTED, CA_ARCHIVED] of
     None \<Rightarrow> Inl ValueError | Some x \<Rightarrow> Inr x)"

record stage_result =
  sr_stage :: pipeline_stage
  sr_passed :: bool
  sr_score :: json
  sr_detail :: msg
  sr_metrics :: "(string, real) pydict"

definition sr_to_dict :: "pylib \<Rightarrow> stage_result \<Rightarrow> json_dict" where
  "sr_to_dict L s = [(''stage'', JStr (stage_value (sr_stage s))), (''passed'', JBool (sr_passed s)), (''score'', sr_score s),
     (''detail'', JStr (render L (sr_detail s))), (''metrics'', params_to_json (sr_metrics s))]"

definition sr_from_json :: "pylib \<Rightarrow> json \<Rightarrow> py_error + stage_result" where
  "sr_from_json L j = ebind (as_object j) (\<lambda>d.
     ebind (ebind (field_text d ''stage'') parse_stage) (\<lambda>st. ebind (jitem d ''passed'') (\<lambda>p.
     ebind (json_text (jget d ''detail'' (JStr []))) (\<lambda>t. ebind (params_from_json L (jget d ''metrics'' (JObj []))) (\<lambda>m.
       Inr \<lparr> sr_stage = st, sr_passed = py_bool p, sr_score = jget d ''score'' JNull, sr_detail = Lit t, sr_metrics = m \<rparr>)))))"

record candidate_report =
  cn_genome_id :: string
  cn_name :: string
  cn_symbol :: string
  cn_status :: candidate_status
  cn_passed :: bool
  cn_objective :: string
  cn_score :: json
  cn_stages :: "stage_result list"
  cn_statistics :: "(string, real) pydict"
  cn_reasons :: "msg list"
  cn_created_at :: time

definition cn_to_dict :: "pylib \<Rightarrow> candidate_report \<Rightarrow> json_dict" where
  "cn_to_dict L r = [(''genome_id'', JStr (cn_genome_id r)), (''name'', JStr (cn_name r)), (''symbol'', JStr (cn_symbol r)),
     (''status'', JStr (candidate_value (cn_status r))), (''passed'', JBool (cn_passed r)), (''objective'', JStr (cn_objective r)),
     (''score'', cn_score r), (''stages'', JList (map (\<lambda>s. JObj (sr_to_dict L s)) (cn_stages r))),
     (''statistics'', params_to_json (cn_statistics r)), (''reasons'', JList (map (\<lambda>m. JStr (render L m)) (cn_reasons r))),
     (''created_at'', JStr (iso (cn_created_at r)))]"

definition reasons_of :: "json \<Rightarrow> py_error + msg list" where
  "reasons_of j = ebind (as_array j) (traverse (\<lambda>x. ebind (json_text x) (\<lambda>t. Inr (Lit t))))"

definition cn_from_dict :: "pylib \<Rightarrow> json_dict \<Rightarrow> py_error + candidate_report" where
  "cn_from_dict L d =
     ebind (ebind (as_array (jget d ''stages'' (JList []))) (traverse (sr_from_json L))) (\<lambda>stages.
     ebind (field_text d ''genome_id'') (\<lambda>i. ebind (field_text d ''name'') (\<lambda>n. ebind (field_text d ''symbol'') (\<lambda>s.
     ebind (ebind (field_text d ''status'') parse_candidate) (\<lambda>st. ebind (jitem d ''passed'') (\<lambda>p.
     ebind (field_text d ''objective'') (\<lambda>ob. ebind (params_from_json L (jget d ''statistics'' (JObj []))) (\<lambda>stats.
     ebind (reasons_of (jget d ''reasons'' (JList []))) (\<lambda>rs.
     ebind (ebind (field_text d ''created_at'') (py_fromiso L)) (\<lambda>made.
       Inr \<lparr> cn_genome_id = i, cn_name = n, cn_symbol = s, cn_status = st, cn_passed = py_bool p, cn_objective = ob,
         cn_score = jget d ''score'' JNull, cn_stages = stages, cn_statistics = stats, cn_reasons = rs, cn_created_at = made \<rparr>))))))))))"

lemma parse_stage_value [simp]: "parse_stage (stage_value s) = Inr s"
  by (cases s) (simp_all add: parse_stage_def)

lemma parse_candidate_value [simp]: "parse_candidate (candidate_value s) = Inr s"
  by (cases s) (simp_all add: parse_candidate_def)

text \<open>A message comes back as the text it was written as.\<close>

definition written :: "pylib \<Rightarrow> msg \<Rightarrow> msg" where "written L m = Lit (render L m)"

definition stored_report :: "pylib \<Rightarrow> candidate_report \<Rightarrow> candidate_report" where
  "stored_report L r = r\<lparr> cn_stages := map (\<lambda>s. s\<lparr> sr_detail := written L (sr_detail s) \<rparr>) (cn_stages r),
     cn_reasons := map (written L) (cn_reasons r) \<rparr>"

lemma sr_round_trip: "sr_from_json L (JObj (sr_to_dict L s)) = Inr (s\<lparr> sr_detail := written L (sr_detail s) \<rparr>)"
  by (simp add: sr_from_json_def sr_to_dict_def as_object_def field_text_def json_text_def py_bool_def written_def json_lookup)

lemma reasons_round_trip: "reasons_of (JList (map (\<lambda>m. JStr (render L m)) rs)) = Inr (map (written L) rs)"
  by (simp add: reasons_of_def as_array_def traverse_map json_text_def written_def)

lemma report_round_trip:
  assumes "wf_time (cn_created_at r)"
  shows "cn_from_dict L (cn_to_dict L r) = Inr (stored_report L r)"
proof -
  have "traverse (sr_from_json L) (map (\<lambda>s. JObj (sr_to_dict L s)) (cn_stages r))
      = Inr (map (\<lambda>s. s\<lparr> sr_detail := written L (sr_detail s) \<rparr>) (cn_stages r))"
    by (rule traverse_map) (simp add: sr_round_trip)
  then show ?thesis
    using assms
    by (simp add: cn_from_dict_def cn_to_dict_def field_text_def json_text_def as_array_def py_bool_def reasons_round_trip
        stored_report_def json_lookup)
qed

section \<open>Ranking\<close>

definition transform_metric :: "string \<Rightarrow> real \<Rightarrow> real" where
  "transform_metric k v = (if last_n 4 k = ''_pct'' then v / 100 else v)"

definition scalarize :: "(string, real) pydict \<Rightarrow> (string, real) pydict \<Rightarrow> real" where
  "scalarize metrics objectives = (\<Sum>(k, w)\<leftarrow>objectives. case pd_get metrics k of None \<Rightarrow> 0 | Some v \<Rightarrow> w * transform_metric k v)"

record ranking_entry =
  rk_rank :: nat
  rk_genome_id :: string
  rk_name :: string
  rk_segment :: string
  rk_score :: real
  rk_metrics :: "(string, real) pydict"

definition headline :: "string list" where
  "headline = [''profit_factor'', ''sharpe'', ''expectancy_r'', ''max_drawdown_pct'', ''stability'', ''sqn'']"

definition rank_reports :: "(string, real) pydict \<Rightarrow> string \<Rightarrow> candidate_report list \<Rightarrow> ranking_entry list" where
  "rank_reports objectives segment rs =
     map (\<lambda>(i, r). \<lparr> rk_rank = i + 1, rk_genome_id = cn_genome_id r, rk_name = cn_name r, rk_segment = segment,
        rk_score = scalarize (cn_statistics r) objectives,
        rk_metrics = List.map_filter (\<lambda>k. map_option (Pair k) (pd_get (cn_statistics r) k)) headline \<rparr>)
       (enumerate 0 (sort_key (\<lambda>r. - scalarize (cn_statistics r) objectives) rs))"

text \<open>Python sorts in reverse stably: equal scores keep the order of the reports, as they do here.\<close>

lemma ranking_sorted:
  "sorted_wrt (\<lambda>a b. rk_score b \<le> rk_score a) (rank_reports objectives segment rs)"
  "map rk_rank (rank_reports objectives segment rs) = map Suc [0..<length rs]"
proof -
  let ?s = "sort_key (\<lambda>r. - scalarize (cn_statistics r) objectives) rs"
  have "sorted (map (\<lambda>r. - scalarize (cn_statistics r) objectives) ?s)" by (rule sorted_sort_key)
  then have "sorted_wrt (\<lambda>a b. scalarize (cn_statistics b) objectives \<le> scalarize (cn_statistics a) objectives) ?s"
    by (simp add: sorted_wrt_map)
  then show "sorted_wrt (\<lambda>a b. rk_score b \<le> rk_score a) (rank_reports objectives segment rs)"
    by (simp add: rank_reports_def sorted_wrt_iff_nth_less nth_enumerate_eq)
  show "map rk_rank (rank_reports objectives segment rs) = map Suc [0..<length rs]"
    by (rule nth_equalityI) (simp_all add: rank_reports_def nth_enumerate_eq)
qed

definition group_by_symbol :: "candidate_report list \<Rightarrow> (string, candidate_report list) pydict" where
  "group_by_symbol rs = fold (\<lambda>r d. pd_put d (cn_symbol r) (pd_get_or d (cn_symbol r) [] @ [r])) rs []"

definition rank_by_symbol :: "(string, real) pydict \<Rightarrow> candidate_report list \<Rightarrow> (string, ranking_entry list) pydict" where
  "rank_by_symbol objectives rs = map (\<lambda>(s, group). (s, rank_reports objectives s group)) (group_by_symbol rs)"

end
