(* ===== verification/Backtest_Run.thy ===== *)
theory Backtest_Run
  imports Engine_Exit Market_State Backtest_Metrics
begin

text \<open>
  The backtest engine (\<open>backtesting/engine/engine.py\<close>): the execution engine of the live system, driven bar by bar over a
  historical market (\<open>market.py\<close>) under a replay clock (\<open>clock.py\<close>), with a source of decisions (\<open>decisions.py\<close>).  The
  wiring is that of \<open>simulator/execution_factory.py\<close>: no bus, no context, no vetoes, a journal in memory.
\<close>

section \<open>The historical market\<close>

definition push_candle :: "md_candle \<Rightarrow> state_store \<Rightarrow> state_store" where
  "push_candle c st = st_update_candle c st"

definition price_tick :: "string \<Rightarrow> real \<Rightarrow> time \<Rightarrow> real \<Rightarrow> md_ticker" where
  "price_tick symb price ts spread =
     (let half = price * (spread / 2) / 10000 in
      \<lparr> tk_symbol = upper symb, tk_bid = py_round 8 (price - half), tk_ask = py_round 8 (price + half), tk_provider = ''backtest'',
        tk_bid_size = 0, tk_ask_size = 0, tk_last = Some (py_round 8 price), tk_mark_price = None, tk_index_price = None,
        tk_exchange_ts = ts, tk_local_ts = ts \<rparr>)"

definition push_price :: "string \<Rightarrow> real \<Rightarrow> time \<Rightarrow> real \<Rightarrow> state_store \<Rightarrow> state_store" where
  "push_price symb price ts spread st = st_update_ticker (price_tick symb price ts spread) st"

definition ohlc_path :: "'a candle_scheme \<Rightarrow> real list" where
  "ohlc_path c = (if cd_open c \<le> cd_close c then [cd_open c, cd_low c, cd_high c, cd_close c]
     else [cd_open c, cd_high c, cd_low c, cd_close c])"

text \<open>What the execution engine sees of it; its ATR reads the candles of one minute.\<close>

definition replay_env :: "pylib \<Rightarrow> (nat \<Rightarrow> string) \<Rightarrow> time \<Rightarrow> state_store \<Rightarrow> env" where
  "replay_env L ids now st = \<lparr> en_now = now, en_ticker = (\<lambda>s. map_option ticker.truncate (st_ticker s st)),
     en_candles = (\<lambda>s n. map ohlcv_of (st_candle_series s TF_M1 n st)), en_context = None, en_vetoes = [], en_ids = ids,
     en_lib = L, en_io_ok = True \<rparr>"

section \<open>Sources of decisions\<close>

text \<open>A source has a state of its own and is handed the whole series with the index of the bar that closed.\<close>

record 'd decision_source =
  ds_decide :: "string \<Rightarrow> md_candle list \<Rightarrow> nat \<Rightarrow> 'd \<Rightarrow> decision_event option \<times> 'd"
  ds_reset :: 'd

definition open_decision :: "string \<Rightarrow> string \<Rightarrow> real \<Rightarrow> real \<Rightarrow> string \<Rightarrow> decision_event" where
  "open_decision symb action score confidence summary = \<lparr> de_decision_id = ''bt-'' @ symb @ ''-'' @ action, de_symbol = symb,
     de_action = action, de_accepted = True, de_score = score, de_confidence = confidence,
     de_summary = (if summary = [] then ''backtest '' @ action else summary) \<rparr>"

definition sma :: "real list \<Rightarrow> nat \<Rightarrow> real option" where
  "sma vs period = (if period = 0 \<or> length vs < period then None else Some (sum_list (last_n period vs) / real period))"

definition ma_cross_decide :: "nat \<Rightarrow> nat \<Rightarrow> bool \<Rightarrow> string \<Rightarrow> md_candle list \<Rightarrow> nat \<Rightarrow> string option \<Rightarrow> decision_event option \<times> string option" where
  "ma_cross_decide fast slow allow_short symb cs i lst =
     (if i + 1 < slow then (None, lst) else
      let closes = map cd_close (take (i + 1) cs) in
      case (sma closes fast, sma closes slow) of
        (Some f, Some s) \<Rightarrow>
          let side = (if f > s then ''up'' else ''down'') in
          if Some side = lst then (None, lst)
          else if side = ''up'' then (Some (open_decision symb ''open_long'' 1 1 ''MA cross up''), Some side)
          else if allow_short then (Some (open_decision symb ''open_short'' 1 1 ''MA cross down''), Some side)
          else (None, Some side)
      | _ \<Rightarrow> (None, lst))"

definition ma_cross_source :: "nat \<Rightarrow> nat \<Rightarrow> bool \<Rightarrow> py_error + string option decision_source" where
  "ma_cross_source fast slow allow_short = (if slow \<le> fast then Inl ValueError
     else Inr \<lparr> ds_decide = ma_cross_decide fast slow allow_short, ds_reset = None \<rparr>)"

section \<open>The run\<close>

record ('b, 'd) replay =
  rp_engine :: "'b engine"
  rp_store :: state_store
  rp_source :: 'd
  rp_curve :: "equity_point list"

definition replay_price :: "'b broker_ops \<Rightarrow> pylib \<Rightarrow> (nat \<Rightarrow> string) \<Rightarrow> backtest_config \<Rightarrow> time \<Rightarrow> real \<Rightarrow> ('b, 'd) replay \<Rightarrow> ('b, 'd) replay" where
  "replay_price ops L ids cfg now price r =
     (let st = push_price (bc_symbol cfg) price now (bc_spread_bps cfg) (rp_store r)
      in r\<lparr> rp_store := st, rp_engine := manage_once ops (replay_env L ids now st) (rp_engine r) \<rparr>)"

definition sample_equity :: "time \<Rightarrow> ('b, 'd) replay \<Rightarrow> ('b, 'd) replay" where
  "sample_equity now r =
     (let ps = open_positions (ex_positions (rp_engine r)); (pf, snap) = pf_snapshot now ps (ex_portfolio (rp_engine r))
      in r\<lparr> rp_engine := (rp_engine r)\<lparr> ex_portfolio := pf \<rparr>,
            rp_curve := rp_curve r @ [\<lparr> eq_timestamp = now, eq_equity = sn_equity snap, eq_balance = sn_balance snap,
              eq_drawdown_pct = sn_drawdown_pct snap, eq_open_positions = length ps \<rparr>] \<rparr>)"

definition replay_bar :: "'b broker_ops \<Rightarrow> pylib \<Rightarrow> (nat \<Rightarrow> string) \<Rightarrow> backtest_config \<Rightarrow> 'd decision_source \<Rightarrow> md_candle list
    \<Rightarrow> nat \<Rightarrow> ('b, 'd) replay \<Rightarrow> ('b, 'd) replay" where
  "replay_bar ops L ids cfg src cs i r =
     (let c = cs ! i; now = cd_end c;
          r1 = fold (replay_price ops L ids cfg now) (ohlc_path c) (r\<lparr> rp_store := push_candle c (rp_store r) \<rparr>);
          (d, q) = ds_decide src (bc_symbol cfg) cs i (rp_source r1);
          r2 = r1\<lparr> rp_source := q \<rparr>;
          r3 = (case d of
                  Some de \<Rightarrow> if de_accepted de
                    then r2\<lparr> rp_engine := fst (process_decision ops (replay_env L ids now (rp_store r2)) de (rp_engine r2)) \<rparr> else r2
                | None \<Rightarrow> r2)
      in sample_equity now r3)"

definition backtest_settings :: "execution_settings \<Rightarrow> backtest_config \<Rightarrow> execution_settings" where
  "backtest_settings s cfg = s\<lparr> xs_initial_balance := bc_initial_balance cfg, xs_persist_journal := False \<rparr>"

definition replay_start :: "execution_settings \<Rightarrow> backtest_config \<Rightarrow> 'b \<Rightarrow> 'd decision_source \<Rightarrow> ('b, 'd) replay" where
  "replay_start s cfg b src = \<lparr> rp_engine = build_engine (backtest_settings s cfg) b (bc_initial_balance cfg) None,
     rp_store = st_new 500 10000, rp_source = ds_reset src, rp_curve = [] \<rparr>"

definition replay_upto :: "'b broker_ops \<Rightarrow> pylib \<Rightarrow> (nat \<Rightarrow> string) \<Rightarrow> execution_settings \<Rightarrow> backtest_config \<Rightarrow> 'b \<Rightarrow> 'd decision_source
    \<Rightarrow> md_candle list \<Rightarrow> nat \<Rightarrow> ('b, 'd) replay" where
  "replay_upto ops L ids s cfg b src cs n = fold (replay_bar ops L ids cfg src cs) [0..<n] (replay_start s cfg b src)"

definition backtest_run :: "'b broker_ops \<Rightarrow> pylib \<Rightarrow> (nat \<Rightarrow> string) \<Rightarrow> real \<Rightarrow> execution_settings \<Rightarrow> backtest_config \<Rightarrow> 'b \<Rightarrow> 'd decision_source
    \<Rightarrow> md_candle list \<Rightarrow> py_error + backtest_result" where
  "backtest_run ops L ids risk_free s cfg b src cs =
     (if cs = [] then Inl ValueError else
      let r = replay_upto ops L ids s cfg b src cs (length cs); now = cd_end (last cs); env = replay_env L ids now (rp_store r);
          e = fold (\<lambda>pid. close_position ops env pid EX_MANUAL []) (open_ids (rp_engine r)) (rp_engine r);
          trades = jn_all (ex_journal e);
          snap = snd (pf_snapshot now (open_positions (ex_positions e)) (ex_portfolio e))
      in Inr \<lparr> br_config = cfg\<lparr> bc_start := Some (cd_start (hd cs)), bc_end := Some (cd_end (last cs)) \<rparr>, br_trades = trades,
           br_equity_curve = rp_curve r,
           br_statistics = qt_to_dict (quant_compute (bc_initial_balance cfg) risk_free trades (rp_curve r)),
           br_bars = length cs, br_final_equity = sn_equity snap, br_final_balance = sn_balance snap \<rparr>)"

section \<open>No look-ahead between bars\<close>

text \<open>A source is causal when it reads only the candles up to the bar that closed.\<close>

definition causal :: "'d decision_source \<Rightarrow> bool" where
  "causal src \<longleftrightarrow> (\<forall>symb cs cs' i q. i < length cs \<and> take (i + 1) cs = take (i + 1) cs'
     \<longrightarrow> ds_decide src symb cs i q = ds_decide src symb cs' i q)"

lemma ma_cross_causal: "ma_cross_source fast slow short = Inr src \<Longrightarrow> causal src"
  by (auto simp: ma_cross_source_def causal_def ma_cross_decide_def split: if_splits)

lemma replay_bar_agrees:
  assumes "causal src" "i < length cs" "take (i + 1) cs = take (i + 1) cs'"
  shows "replay_bar ops L ids cfg src cs i = replay_bar ops L ids cfg src cs' i"
proof -
  have "length (take (i + 1) cs') = i + 1" using assms(2) arg_cong [OF assms(3), of length] by simp
  then have "i < length cs'" by simp
  then have c: "cs ! i = cs' ! i" using assms(2) arg_cong [OF assms(3), of "\<lambda>xs. xs ! i"] by simp
  have d: "ds_decide src symb cs i q = ds_decide src symb cs' i q" for symb q
    using assms unfolding causal_def by blast
  show ?thesis by (rule ext) (simp add: replay_bar_def c d)
qed

lemma replay_agrees:
  assumes "causal src" "n \<le> length cs" "take n cs = take n cs'" "k \<le> n"
  shows "replay_upto ops L ids s cfg b src cs k = replay_upto ops L ids s cfg b src cs' k"
  using assms(4)
proof (induction k)
  case 0
  then show ?case by (simp add: replay_upto_def)
next
  case (Suc k)
  have "take (k + 1) cs = take (k + 1) cs'"
    using arg_cong [OF assms(3), of "take (k + 1)"] Suc.prems by (simp add: min_def)
  from replay_bar_agrees [OF assms(1) _ this, of ops L ids cfg] Suc assms(2) show ?case by (simp add: replay_upto_def)
qed

lemma curve_price [simp]: "rp_curve (replay_price ops L ids cfg now p r) = rp_curve r"
  by (simp add: replay_price_def Let_def)

lemma curve_prices [simp]: "rp_curve (fold (replay_price ops L ids cfg now) ps r) = rp_curve r"
  by (induction ps arbitrary: r) simp_all

lemma curve_bar: "\<exists>p. rp_curve (replay_bar ops L ids cfg src cs i r) = rp_curve r @ [p]"
  by (simp add: replay_bar_def sample_equity_def Let_def split: prod.split option.split)

lemma curve_upto:
  "length (rp_curve (replay_upto ops L ids s cfg b src cs n)) = n
   \<and> (\<forall>k\<le>n. take k (rp_curve (replay_upto ops L ids s cfg b src cs n)) = rp_curve (replay_upto ops L ids s cfg b src cs k))"
proof (induction n)
  case 0
  then show ?case by (simp add: replay_upto_def replay_start_def)
next
  case (Suc n)
  obtain p where p: "rp_curve (replay_upto ops L ids s cfg b src cs (Suc n)) = rp_curve (replay_upto ops L ids s cfg b src cs n) @ [p]"
    using curve_bar [of ops L ids cfg src cs n "replay_upto ops L ids s cfg b src cs n"] by (auto simp: replay_upto_def)
  have "take k (rp_curve (replay_upto ops L ids s cfg b src cs (Suc n))) = rp_curve (replay_upto ops L ids s cfg b src cs k)"
    if "k \<le> Suc n" for k
    using that Suc p by (cases "k = Suc n") (simp_all add: le_Suc_eq)
  with Suc p show ?case by simp
qed

text \<open>Property C38 (backtest): a backtest does not look ahead of the bar it is at.  With a causal source, two series that
  agree on their first n candles give the same first n points of the equity curve and the same engine after them,
  orders, positions, cash and trades included, whatever follows.\<close>

theorem backtest_never_looks_ahead:
  assumes "causal src" "n \<le> length cs" "n \<le> length cs'" "take n cs = take n cs'"
    "backtest_run ops L ids rf s cfg b src cs = Inr r" "backtest_run ops L ids rf s cfg b src cs' = Inr r'"
  shows "take n (br_equity_curve r) = take n (br_equity_curve r')
    \<and> rp_engine (replay_upto ops L ids s cfg b src cs n) = rp_engine (replay_upto ops L ids s cfg b src cs' n)
    \<and> length (br_equity_curve r) = length cs"
proof -
  have curves: "br_equity_curve r = rp_curve (replay_upto ops L ids s cfg b src cs (length cs))"
      "br_equity_curve r' = rp_curve (replay_upto ops L ids s cfg b src cs' (length cs'))"
    using assms(5,6) by (auto simp: backtest_run_def Let_def split: if_splits)
  have "replay_upto ops L ids s cfg b src cs n = replay_upto ops L ids s cfg b src cs' n"
    by (rule replay_agrees [OF assms(1,2,4)]) simp
  with curve_upto [of ops L ids s cfg b src cs "length cs"] curve_upto [of ops L ids s cfg b src cs' "length cs'"] assms(2,3)
  show ?thesis by (simp add: curves)
qed

definition bar_of :: "nat \<Rightarrow> real \<Rightarrow> md_candle" where
  "bar_of i p = \<lparr> cd_open = p, cd_high = p + 1, cd_low = p - 1, cd_close = p, cd_volume = 1, cd_symbol = ''X'', cd_provider = ''d'',
     cd_timeframe = TF_M1, cd_start = int i * minute_us, cd_end = (int i + 1) * minute_us, cd_buy_volume = 0, cd_sell_volume = 0,
     cd_vwap = p, cd_trades = 1, cd_closed = True, cd_source = ''d'' \<rparr>"

text \<open>Two markets that part after their first bar.\<close>

definition cross_source :: "string option decision_source" where
  "cross_source = \<lparr> ds_decide = ma_cross_decide 1 2 True, ds_reset = None \<rparr>"

definition example_run :: "pylib \<Rightarrow> (nat \<Rightarrow> string) \<Rightarrow> paper_broker \<Rightarrow> real \<Rightarrow> backtest_result" where
  "example_run L ids b p = projr (backtest_run paper_ops L ids 0 default_execution (default_backtest ''X'') b cross_source
     [bar_of 0 100, bar_of 1 p])"

theorem backtest_never_looks_ahead_witness:
  "\<forall>L ids b. take 1 (br_equity_curve (example_run L ids b 200)) = take 1 (br_equity_curve (example_run L ids b 50))
     \<and> length (br_equity_curve (example_run L ids b 200)) = 2"
proof (intro allI)
  fix L ids b
  have run: "backtest_run paper_ops L ids 0 default_execution (default_backtest ''X'') b cross_source [bar_of 0 100, bar_of 1 p]
      = Inr (example_run L ids b p)" for p
    by (simp add: example_run_def backtest_run_def Let_def)
  have "causal cross_source" by (rule ma_cross_causal [of 1 2 True]) (simp add: ma_cross_source_def cross_source_def)
  from backtest_never_looks_ahead [OF this, of 1, OF _ _ _ run run, of 200 50]
  show "take 1 (br_equity_curve (example_run L ids b 200)) = take 1 (br_equity_curve (example_run L ids b 50))
     \<and> length (br_equity_curve (example_run L ids b 200)) = 2" by simp
qed

section \<open>Within a bar\<close>

text \<open>The closed candle is stored before its path is walked: at the first price of a bar the engine's candles, and so its
  ATR, already hold the high and the low of that bar.\<close>

lemma bar_seen_at_open:
  assumes "cd_symbol c = upper symb" "cd_timeframe c = TF_M1" "0 < n" "0 < st_candles_limit st"
  shows "last (en_candles (replay_env L ids now (push_price symb p now spread (push_candle c st))) symb n) = ohlcv_of c"
  using assms
  by (simp add: replay_env_def push_price_def push_candle_def st_update_ticker_def st_touch_def st_candle_series_def
      st_update_candle_def Let_def pd_get_or_def add_candle_def deque_append_def last_n_def py_tail_def last_map)

text \<open>Candles of any other time frame are not seen at all: the ATR of such a backtest is always missing.\<close>

lemma other_timeframe_unseen:
  assumes "\<forall>s. pd_get (st_candles st) (s, TF_M1) = None" "cd_timeframe c \<noteq> TF_M1"
  shows "\<forall>s. pd_get (st_candles (push_price symb p now spread (push_candle c st))) (s, TF_M1) = None"
    "en_candles (replay_env L ids now (push_price symb p now spread (push_candle c st))) s n = []"
  using assms
  by (simp_all add: replay_env_def push_price_def push_candle_def st_update_ticker_def st_touch_def st_candle_series_def
      st_update_candle_def Let_def pd_get_or_def py_tail_def last_n_def)

end
