(* ===== verification/Genome.thy ===== *)
theory Genome
  imports Research_Models Backtest_Run Quant_Models
begin

text \<open>
  Generated strategies: the indicators of the laboratory (\<open>research/indicators.py\<close>), the catalogue of signal blocks and
  context filters (\<open>strategy_generator/blocks.py\<close>), the compiler of a genome (\<open>compiler.py\<close>), its parameter space
  (\<open>parameter_lab/spaces.py\<close>) and the series of the feature and factor labs (\<open>research/series.py\<close>), whose missing values
  (\<open>nan\<close>) are \<open>None\<close>.
\<close>

section \<open>Indicators\<close>

definition gi_sma :: "real list \<Rightarrow> int \<Rightarrow> real option" where
  "gi_sma vs p = (if p \<le> 0 \<or> int (length vs) < p then None else Some (sum_list (last_n (nat p) vs) / real_of_int p))"

definition gi_ema :: "real list \<Rightarrow> int \<Rightarrow> real option" where
  "gi_ema vs p = (if p \<le> 0 \<or> int (length vs) < p then None else
     let alpha = 2 / (real_of_int p + 1); seed = sum_list (take (nat p) vs) / real_of_int p
     in Some (fold (\<lambda>v r. alpha * v + (1 - alpha) * r) (drop (nat p) vs) seed))"

definition gi_rsi :: "real list \<Rightarrow> int \<Rightarrow> real option" where
  "gi_rsi cs p = (if p \<le> 0 \<or> int (length cs) < p + 1 then None else
     let n = length cs; changes = map (\<lambda>i. cs ! i - cs ! (i - 1)) [n - nat p..<n];
         avg_gain = sum_list (filter (\<lambda>c. 0 \<le> c) changes) / real_of_int p;
         avg_loss = sum_list (map uminus (filter (\<lambda>c. c < 0) changes)) / real_of_int p
     in Some (if avg_loss = 0 then 100 else 100 - 100 / (1 + avg_gain / avg_loss)))"

definition gi_true_ranges :: "'a candle_scheme list \<Rightarrow> real list" where
  "gi_true_ranges cs = map (\<lambda>i. let c = cs ! i in if i = 0 then cd_high c - cd_low c
     else let pc = cd_close (cs ! (i - 1)) in max (max (cd_high c - cd_low c) \<bar>cd_high c - pc\<bar>) \<bar>cd_low c - pc\<bar>) [0..<length cs]"

definition gi_atr :: "'a candle_scheme list \<Rightarrow> int \<Rightarrow> real option" where
  "gi_atr cs p = (if p \<le> 0 \<or> int (length cs) < p + 1 then None
     else Some (sum_list (last_n (nat p) (gi_true_ranges cs)) / real_of_int p))"

definition gi_momentum :: "real list \<Rightarrow> int \<Rightarrow> real option" where
  "gi_momentum cs p = (if p \<le> 0 \<or> int (length cs) < p + 1 then None else
     let old = cs ! (length cs - nat p - 1) in if old = 0 then None else Some ((last cs - old) / old))"

definition donchian_window :: "'a candle_scheme list \<Rightarrow> int \<Rightarrow> 'a candle_scheme list" where
  "donchian_window cs p = butlast (last_n (nat p + 1) cs)"

definition gi_donchian_high :: "'a candle_scheme list \<Rightarrow> int \<Rightarrow> real option" where
  "gi_donchian_high cs p = (if p \<le> 0 \<or> int (length cs) < p + 1 then None else Some (Max (set (map cd_high (donchian_window cs p)))))"

definition gi_donchian_low :: "'a candle_scheme list \<Rightarrow> int \<Rightarrow> real option" where
  "gi_donchian_low cs p = (if p \<le> 0 \<or> int (length cs) < p + 1 then None else Some (Min (set (map cd_low (donchian_window cs p)))))"

definition gi_macd :: "real list \<Rightarrow> int \<Rightarrow> int \<Rightarrow> int \<Rightarrow> (real \<times> real) option" where
  "gi_macd cs fast slow signal =
     (if slow \<le> fast \<or> int (length cs) < slow + signal then None else
      let series = List.map_filter (\<lambda>e. case (gi_ema (take (nat e) cs) fast, gi_ema (take (nat e) cs) slow) of
                     (Some f, Some s) \<Rightarrow> Some (f - s) | _ \<Rightarrow> None) [slow..int (length cs)]
      in if int (length series) < signal then None
         else map_option (\<lambda>sl. (last series, sl)) (gi_ema series signal))"

definition gi_rolling_vwap :: "'a candle_scheme list \<Rightarrow> int \<Rightarrow> real option" where
  "gi_rolling_vwap cs p = (if p \<le> 0 \<or> int (length cs) < p then None else
     let w = last_n (nat p) cs; typical = (\<lambda>c. (cd_high c + cd_low c + cd_close c) / 3); vol = (\<Sum>c\<leftarrow>w. cd_volume c)
     in Some (if vol \<le> 0 then (\<Sum>c\<leftarrow>w. typical c) / real_of_int p else (\<Sum>c\<leftarrow>w. typical c * cd_volume c) / vol))"

definition gi_delta :: "md_candle \<Rightarrow> real" where "gi_delta c = cd_buy_volume c - cd_sell_volume c"

definition gi_cvd :: "md_candle list \<Rightarrow> int \<Rightarrow> real option" where
  "gi_cvd cs p = (if p \<le> 0 \<or> int (length cs) < p then None else Some (\<Sum>c\<leftarrow>last_n (nat p) cs. gi_delta c))"

definition gi_book_pressure :: "md_candle \<Rightarrow> real" where
  "gi_book_pressure c = (if cd_volume c \<le> 0 then 0 else max (-1) (min 1 (gi_delta c / cd_volume c)))"

definition gi_slope :: "real list \<Rightarrow> int \<Rightarrow> real option" where
  "gi_slope vs p = (if p \<le> 1 \<or> int (length vs) < p then None else
     let w = last_n (nat p) vs in Some ((last w - hd w) / (real_of_int p - 1)))"

definition gi_stdev :: "real list \<Rightarrow> int \<Rightarrow> real option" where
  "gi_stdev vs p = (if p \<le> 1 \<or> int (length vs) < p then None else
     let w = last_n (nat p) vs; mu = sum_list w / real_of_int p in Some (sqrt ((\<Sum>v\<leftarrow>w. (v - mu)\<^sup>2) / (real_of_int p - 1))))"

section \<open>Blocks and filters\<close>

type_synonym gparams = "(string, real) pydict"

definition gp :: "gparams \<Rightarrow> string \<Rightarrow> real" where "gp ps k = pd_get_or ps k 0"

definition gpi :: "gparams \<Rightarrow> string \<Rightarrow> int" where "gpi ps k = py_int (gp ps k)"

definition closes_to :: "md_candle list \<Rightarrow> nat \<Rightarrow> real list" where "closes_to cs i = map cd_close (take (i + 1) cs)"

text \<open>The direction of a value against a band.\<close>

definition beyond :: "real \<Rightarrow> real \<Rightarrow> real \<Rightarrow> direction" where
  "beyond v up down = (if v > up then Dir_Long else if v < down then Dir_Short else Dir_Neutral)"

definition cross_of :: "real option \<Rightarrow> real option \<Rightarrow> direction" where
  "cross_of f s = (case (f, s) of (Some x, Some y) \<Rightarrow> if x > y then Dir_Long else Dir_Short | _ \<Rightarrow> Dir_Neutral)"

type_synonym block_rule = "gparams \<Rightarrow> md_candle list \<Rightarrow> nat \<Rightarrow> direction"

definition ema_cross :: block_rule where
  "ema_cross ps cs i = cross_of (gi_ema (closes_to cs i) (gpi ps ''fast'')) (gi_ema (closes_to cs i) (gpi ps ''slow''))"

definition sma_cross :: block_rule where
  "sma_cross ps cs i = cross_of (gi_sma (closes_to cs i) (gpi ps ''fast'')) (gi_sma (closes_to cs i) (gpi ps ''slow''))"

definition donchian_breakout :: block_rule where
  "donchian_breakout ps cs i = (let w = take (i + 1) cs in
     case (gi_donchian_high w (gpi ps ''period''), gi_donchian_low w (gpi ps ''period'')) of
       (Some h, Some l) \<Rightarrow> beyond (cd_close (last w)) h l | _ \<Rightarrow> Dir_Neutral)"

definition atr_breakout :: block_rule where
  "atr_breakout ps cs i = (let w = take (i + 1) cs in case gi_atr w (gpi ps ''period'') of
       None \<Rightarrow> Dir_Neutral
     | Some a \<Rightarrow> if length w < 2 then Dir_Neutral else
         let pc = cd_close (w ! (length w - 2)) in beyond (cd_close (last w)) (pc + gp ps ''mult'' * a) (pc - gp ps ''mult'' * a))"

definition momentum_block :: block_rule where
  "momentum_block ps cs i = (case gi_momentum (closes_to cs i) (gpi ps ''period'') of
     None \<Rightarrow> Dir_Neutral | Some v \<Rightarrow> beyond v (gp ps ''threshold'') (- gp ps ''threshold''))"

definition rsi_reversion :: block_rule where
  "rsi_reversion ps cs i = (case gi_rsi (closes_to cs i) (gpi ps ''period'') of
     None \<Rightarrow> Dir_Neutral
   | Some v \<Rightarrow> if v < gp ps ''low'' then Dir_Long else if v > gp ps ''high'' then Dir_Short else Dir_Neutral)"

definition vwap_reversion :: block_rule where
  "vwap_reversion ps cs i = (let w = take (i + 1) cs in case gi_rolling_vwap w (gpi ps ''period'') of
     None \<Rightarrow> Dir_Neutral
   | Some v \<Rightarrow> if v \<le> 0 then Dir_Neutral else
       let c = cd_close (last w) in
       if c < v * (1 - gp ps ''band'') then Dir_Long else if c > v * (1 + gp ps ''band'') then Dir_Short else Dir_Neutral)"

definition macd_block :: block_rule where
  "macd_block ps cs i = (case gi_macd (closes_to cs i) (gpi ps ''fast'') (gpi ps ''slow'') (gpi ps ''signal'') of
     None \<Rightarrow> Dir_Neutral | Some (m, s) \<Rightarrow> if m > s then Dir_Long else Dir_Short)"

definition delta_momentum_block :: block_rule where
  "delta_momentum_block ps cs i = (case gi_cvd (take (i + 1) cs) (gpi ps ''period'') of
     None \<Rightarrow> Dir_Neutral | Some v \<Rightarrow> beyond v (gp ps ''threshold'') (- gp ps ''threshold''))"

definition cvd_trend :: block_rule where
  "cvd_trend ps cs i = (case gi_cvd (take (i + 1) cs) (gpi ps ''period'') of
     None \<Rightarrow> Dir_Neutral | Some v \<Rightarrow> beyond v 0 0)"

type_synonym filter_rule = "gparams \<Rightarrow> md_candle list \<Rightarrow> nat \<Rightarrow> bool"

definition hours_filter :: filter_rule where
  "hours_filter ps cs i =
     (let hour = hour_of (cd_start (cs ! i)); start = gpi ps ''start_hour'' mod 24; end_at = gpi ps ''end_hour'' mod 24 in
      if start = end_at then True else if start < end_at then start \<le> hour \<and> hour < end_at else start \<le> hour \<or> hour < end_at)"

definition volatility_filter :: filter_rule where
  "volatility_filter ps cs i = (let w = take (i + 1) cs; c = cd_close (last w) in
     case gi_atr w (gpi ps ''period'') of
       None \<Rightarrow> True | Some a \<Rightarrow> if c \<le> 0 then True else gp ps ''min_pct'' \<le> a / c \<and> a / c \<le> gp ps ''max_pct'')"

definition liquidity_filter :: filter_rule where
  "liquidity_filter ps cs i = (let w = take (i + 1) cs in case gi_sma (map cd_volume w) (gpi ps ''period'') of
     None \<Rightarrow> True | Some a \<Rightarrow> if a \<le> 0 then True else gp ps ''min_ratio'' * a \<le> cd_volume (last w))"

definition trend_regime_filter :: filter_rule where
  "trend_regime_filter ps cs i = (case gi_momentum (closes_to cs i) (gpi ps ''period'') of
     None \<Rightarrow> True | Some v \<Rightarrow> gp ps ''min_abs_momentum'' \<le> \<bar>v\<bar>)"

record 'r catalogue_entry =
  ce_kind :: string
  ce_category :: string
  ce_defaults :: gparams
  ce_ranges :: "(string \<times> real \<times> real \<times> bool) list"
  ce_orderflow :: bool
  ce_rule :: 'r

definition entry_of :: "string \<Rightarrow> string \<Rightarrow> gparams \<Rightarrow> (string \<times> real \<times> real \<times> bool) list \<Rightarrow> bool \<Rightarrow> 'r \<Rightarrow> 'r catalogue_entry" where
  "entry_of k c d r f p = \<lparr> ce_kind = k, ce_category = c, ce_defaults = d, ce_ranges = r, ce_orderflow = f, ce_rule = p \<rparr>"

definition signal_blocks :: "block_rule catalogue_entry list" where
  "signal_blocks = [
     entry_of ''ema_cross'' ''trend'' [(''fast'', 9), (''slow'', 21)] [(''fast'', 3, 20, True), (''slow'', 21, 80, True)] False ema_cross,
     entry_of ''sma_cross'' ''trend'' [(''fast'', 10), (''slow'', 30)] [(''fast'', 3, 25, True), (''slow'', 26, 100, True)] False sma_cross,
     entry_of ''donchian_breakout'' ''breakout'' [(''period'', 20)] [(''period'', 10, 60, True)] False donchian_breakout,
     entry_of ''atr_breakout'' ''breakout'' [(''period'', 14), (''mult'', 3/2)] [(''period'', 7, 30, True), (''mult'', 1/2, 7/2, False)] False atr_breakout,
     entry_of ''momentum'' ''momentum'' [(''period'', 10), (''threshold'', 4/1000)]
       [(''period'', 3, 40, True), (''threshold'', 0, 2/100, False)] False momentum_block,
     entry_of ''rsi_reversion'' ''reversion'' [(''period'', 14), (''low'', 30), (''high'', 70)]
       [(''period'', 5, 30, True), (''low'', 15, 40, False), (''high'', 60, 85, False)] False rsi_reversion,
     entry_of ''vwap_reversion'' ''reversion'' [(''period'', 30), (''band'', 4/1000)]
       [(''period'', 10, 80, True), (''band'', 1/1000, 2/100, False)] False vwap_reversion,
     entry_of ''macd'' ''momentum'' [(''fast'', 12), (''slow'', 26), (''signal'', 9)]
       [(''fast'', 5, 15, True), (''slow'', 20, 40, True), (''signal'', 5, 12, True)] False macd_block,
     entry_of ''delta_momentum'' ''orderflow'' [(''period'', 10), (''threshold'', 0)]
       [(''period'', 3, 40, True), (''threshold'', 0, 500, False)] True delta_momentum_block,
     entry_of ''cvd_trend'' ''orderflow'' [(''period'', 20)] [(''period'', 5, 60, True)] True cvd_trend]"

definition context_filters :: "filter_rule catalogue_entry list" where
  "context_filters = [
     entry_of ''session'' ''time'' [(''start_hour'', 7), (''end_hour'', 20)] [(''start_hour'', 0, 23, True), (''end_hour'', 0, 23, True)] False hours_filter,
     entry_of ''volatility'' ''volatility'' [(''period'', 14), (''min_pct'', 5/10000), (''max_pct'', 5/100)]
       [(''period'', 7, 30, True), (''min_pct'', 0, 3/1000, False), (''max_pct'', 1/100, 10/100, False)] False volatility_filter,
     entry_of ''liquidity'' ''liquidity'' [(''period'', 20), (''min_ratio'', 6/10)]
       [(''period'', 10, 60, True), (''min_ratio'', 2/10, 15/10, False)] False liquidity_filter,
     entry_of ''trend_regime'' ''regime'' [(''period'', 30), (''min_abs_momentum'', 2/1000)]
       [(''period'', 10, 80, True), (''min_abs_momentum'', 0, 1/100, False)] False trend_regime_filter]"

definition find_entry :: "'r catalogue_entry list \<Rightarrow> string \<Rightarrow> 'r catalogue_entry option" where
  "find_entry cat k = find (\<lambda>e. ce_kind e = k) cat"

section \<open>The compiler\<close>

definition merge_params :: "gparams \<Rightarrow> gparams \<Rightarrow> gparams" where
  "merge_params defaults given = fold (\<lambda>(k, v) d. pd_put d k v) given defaults"

text \<open>A block or filter that is not in the catalogue is an error, and so is a genome without blocks.\<close>

definition link_blocks :: "'r catalogue_entry list \<Rightarrow> string \<Rightarrow> genome_block list \<Rightarrow> msg + ('r \<times> gparams) list" where
  "link_blocks cat what bs = traverse (\<lambda>b. case find_entry cat (gb_kind b) of
       None \<Rightarrow> Inl (Fmt (what @ '': {}'') [ArgStr (gb_kind b)])
     | Some e \<Rightarrow> Inr (ce_rule e, merge_params (ce_defaults e) (gb_params b))) bs"

definition combine_votes :: "combine \<Rightarrow> direction list \<Rightarrow> direction" where
  "combine_votes m ds =
     (let longs = length (filter (\<lambda>d. d = Dir_Long) ds); shorts = length (filter (\<lambda>d. d = Dir_Short) ds) in
      if longs + shorts = 0 then Dir_Neutral
      else (case m of
          COMBINE_ALL \<Rightarrow> if longs = length ds then Dir_Long else if shorts = length ds then Dir_Short else Dir_Neutral
        | COMBINE_ANY \<Rightarrow> if longs > 0 \<and> shorts = 0 then Dir_Long else if shorts > 0 \<and> longs = 0 then Dir_Short else Dir_Neutral
        | COMBINE_MAJORITY \<Rightarrow> if longs > shorts then Dir_Long else if shorts > longs then Dir_Short else Dir_Neutral))"

definition genome_decide :: "strategy_genome \<Rightarrow> (block_rule \<times> gparams) list \<Rightarrow> (filter_rule \<times> gparams) list
    \<Rightarrow> string \<Rightarrow> md_candle list \<Rightarrow> nat \<Rightarrow> string option \<Rightarrow> decision_event option \<times> string option" where
  "genome_decide g blocks filters symb cs i lst =
     (if length cs \<le> i then (None, lst)
      else if \<not> list_all (\<lambda>(f, ps). f ps cs i) filters then (None, lst)
      else let d = combine_votes (ge_combine g) (map (\<lambda>(f, ps). f ps cs i) blocks) in
        if d = Dir_Neutral then (None, lst)
        else let side = (if d = Dir_Long then ''up'' else ''down'') in
          if Some side = lst then (None, lst)
          else if d = Dir_Long then (Some (open_decision symb ''open_long'' 1 1 (ge_name g @ '' long'')), Some side)
          else if ge_allow_short g then (Some (open_decision symb ''open_short'' 1 1 (ge_name g @ '' short'')), Some side)
          else (None, Some side))"

definition compile_genome :: "strategy_genome \<Rightarrow> msg + string option decision_source" where
  "compile_genome g = (if ge_blocks g = [] then Inl (Lit ''El genoma no tiene bloques de senal'')
     else ebind (link_blocks signal_blocks ''Bloque de senal desconocido'' (ge_blocks g)) (\<lambda>blocks.
       ebind (link_blocks context_filters ''Filtro de contexto desconocido'' (ge_filters g)) (\<lambda>filters.
         Inr \<lparr> ds_decide = genome_decide g blocks filters, ds_reset = None \<rparr>)))"

definition add_ranges :: "string \<Rightarrow> (string \<times> real \<times> real \<times> bool) list \<Rightarrow> parameter_space \<Rightarrow> py_error + parameter_space" where
  "add_ranges prefix rs sp = fold (\<lambda>(n, low, high, is_int) acc. ebind acc (add_range (prefix @ n) low high is_int)) rs (Inr sp)"

definition space_of :: "char \<Rightarrow> 'r catalogue_entry list \<Rightarrow> genome_block list \<Rightarrow> parameter_space \<Rightarrow> py_error + parameter_space" where
  "space_of c cat bs sp = fold (\<lambda>(i, b) acc. ebind acc (\<lambda>s. case find_entry cat (gb_kind b) of
       None \<Rightarrow> Inr s | Some e \<Rightarrow> add_ranges (flat_key c i []) (ce_ranges e) s)) (enumerate 0 bs) (Inr sp)"

definition build_space :: "strategy_genome \<Rightarrow> py_error + parameter_space" where
  "build_space g = ebind (space_of CHR ''b'' signal_blocks (ge_blocks g) []) (space_of CHR ''f'' context_filters (ge_filters g))"

section \<open>No look-ahead\<close>

definition sees_past :: "(gparams \<Rightarrow> md_candle list \<Rightarrow> nat \<Rightarrow> 'r) \<Rightarrow> bool" where
  "sees_past f \<longleftrightarrow> (\<forall>ps cs cs' i. i < length cs \<and> take (i + 1) cs = take (i + 1) cs' \<longrightarrow> f ps cs i = f ps cs' i)"

lemma blocks_see_past: "\<forall>e\<in>set signal_blocks. sees_past (ce_rule e)"
  by (simp add: signal_blocks_def entry_of_def sees_past_def ema_cross_def sma_cross_def donchian_breakout_def atr_breakout_def
      momentum_block_def rsi_reversion_def vwap_reversion_def macd_block_def delta_momentum_block_def cvd_trend_def closes_to_def Let_def)

lemma take_nth: "i < length cs \<Longrightarrow> take (i + 1) cs = take (i + 1) cs' \<Longrightarrow> cs ! i = cs' ! i"
  by (metis Suc_eq_plus1 lessI nth_take)

lemma filters_see_past: "\<forall>e\<in>set context_filters. sees_past (ce_rule e)"
proof -
  have "sees_past hours_filter" unfolding sees_past_def hours_filter_def Let_def by (metis take_nth)
  then show ?thesis
    by (simp add: context_filters_def entry_of_def)
       (simp add: sees_past_def volatility_filter_def liquidity_filter_def trend_regime_filter_def closes_to_def Let_def)
qed

lemma traverse_Inr: "traverse f xs = Inr ys \<Longrightarrow> y \<in> set ys \<Longrightarrow> \<exists>x\<in>set xs. f x = Inr y"
  by (induction xs arbitrary: ys) (auto simp: ebind_Inr_iff)

lemma linked_see_past:
  assumes "link_blocks cat w bs = Inr ls" "\<forall>e\<in>set cat. sees_past (ce_rule e)" "(f, ps) \<in> set ls"
  shows "sees_past f"
proof -
  obtain b :: genome_block and e where "find_entry cat (gb_kind b) = Some e" "f = ce_rule e"
  proof -
    obtain b where "b \<in> set bs" and b: "(case find_entry cat (gb_kind b) of
        None \<Rightarrow> Inl (Fmt (w @ '': {}'') [ArgStr (gb_kind b)])
      | Some e \<Rightarrow> Inr (ce_rule e, merge_params (ce_defaults e) (gb_params b))) = Inr (f, ps)"
      using traverse_Inr [OF assms(1) [unfolded link_blocks_def] assms(3)] by blast
    then obtain e where "find_entry cat (gb_kind b) = Some e" "f = ce_rule e" by (cases "find_entry cat (gb_kind b)") auto
    then show ?thesis by (rule that)
  qed
  then show ?thesis using assms(2) by (auto simp: find_entry_def find_Some_iff)
qed

lemma genome_causal:
  assumes "compile_genome g = Inr src"
  shows "causal src"
proof -
  from assms obtain bs fs where l: "link_blocks signal_blocks ''Bloque de senal desconocido'' (ge_blocks g) = Inr bs"
      "link_blocks context_filters ''Filtro de contexto desconocido'' (ge_filters g) = Inr fs"
      and src: "src = \<lparr> ds_decide = genome_decide g bs fs, ds_reset = None \<rparr>"
    by (auto simp: compile_genome_def ebind_Inr_iff split: if_splits)
  show ?thesis unfolding causal_def
  proof (intro allI impI, elim conjE)
    fix symb i q and cs cs' :: "md_candle list"
    assume i: "i < length cs" and t: "take (i + 1) cs = take (i + 1) cs'"
    have i': "i < length cs'" using i arg_cong [OF t, of length] by simp
    have b: "f ps cs i = f ps cs' i" if "(f, ps) \<in> set bs" for f ps
      using linked_see_past [OF l(1) blocks_see_past that] i t unfolding sees_past_def by blast
    have f: "(case x of (f, ps) \<Rightarrow> f ps cs i) = (case x of (f, ps) \<Rightarrow> f ps cs' i)" if "x \<in> set fs" for x
    proof (cases x)
      case (Pair h ps)
      then have "h ps cs i = h ps cs' i"
        using linked_see_past [OF l(2) filters_see_past, of h ps] that i t unfolding sees_past_def by blast
      then show ?thesis using Pair by simp
    qed
    have "map (\<lambda>(f, ps). f ps cs i) bs = map (\<lambda>(f, ps). f ps cs' i) bs" using b by (auto intro: map_cong)
    moreover have "list_all (\<lambda>(f, ps). f ps cs i) fs = list_all (\<lambda>(f, ps). f ps cs' i) fs" using f by (intro list.pred_cong) simp_all
    ultimately show "ds_decide src symb cs i q = ds_decide src symb cs' i q"
      using i i' by (simp add: src genome_decide_def del: map_eq_conv)
  qed
qed

text \<open>A backtest of a generated strategy never looks ahead, whatever blocks, filters and parameters the
  genome has: two markets that agree up to a bar give the same equity curve and the same account up to it.\<close>

theorem genome_backtest_causal:
  assumes "compile_genome g = Inr src" "n \<le> length cs" "n \<le> length cs'" "take n cs = take n cs'"
  shows "rp_curve (replay_upto ops L ids s cfg b src cs n) = rp_curve (replay_upto ops L ids s cfg b src cs' n)
    \<and> rp_engine (replay_upto ops L ids s cfg b src cs n) = rp_engine (replay_upto ops L ids s cfg b src cs' n)"
  using replay_agrees [OF genome_causal [OF assms(1)] assms(2,4), of n ops L ids s cfg b] by simp

definition trend_genome :: strategy_genome where
  "trend_genome = \<lparr> ge_id = ''g'', ge_name = ''trend'', ge_symbol = ''X'', ge_timeframe = ''1m'',
     ge_blocks = [\<lparr> gb_kind = ''sma_cross'', gb_params = [(''fast'', 1), (''slow'', 2)] \<rparr>],
     ge_filters = [\<lparr> gb_kind = ''session'', gb_params = [] \<rparr>], ge_combine = COMBINE_ALL, ge_allow_short = True, ge_seed = 0, ge_metadata = [] \<rparr>"

definition trend_source :: "string option decision_source" where
  "trend_source = \<lparr> ds_decide = genome_decide trend_genome [(sma_cross, [(''fast'', 1), (''slow'', 2)])]
     [(hours_filter, [(''start_hour'', 7), (''end_hour'', 20)])], ds_reset = None \<rparr>"

theorem genome_backtest_causal_witness:
  "compile_genome trend_genome = Inr trend_source
   \<and> (\<forall>L ids b. rp_curve (replay_upto paper_ops L ids default_execution (default_backtest ''X'') b trend_source [bar_of 0 100, bar_of 1 200] 1)
      = rp_curve (replay_upto paper_ops L ids default_execution (default_backtest ''X'') b trend_source [bar_of 0 100, bar_of 1 50] 1))"
proof
  show c: "compile_genome trend_genome = Inr trend_source"
    by (simp add: compile_genome_def trend_genome_def trend_source_def link_blocks_def find_entry_def signal_blocks_def
        context_filters_def entry_of_def merge_params_def)
  show "\<forall>L ids b. rp_curve (replay_upto paper_ops L ids default_execution (default_backtest ''X'') b trend_source [bar_of 0 100, bar_of 1 200] 1)
      = rp_curve (replay_upto paper_ops L ids default_execution (default_backtest ''X'') b trend_source [bar_of 0 100, bar_of 1 50] 1)"
    by (intro allI) (rule conjunct1 [OF genome_backtest_causal [OF c]], simp_all)
qed

section \<open>Series\<close>

text \<open>The value of each bar, from the candles up to it.\<close>

definition per_bar :: "(md_candle list \<Rightarrow> real option) \<Rightarrow> md_candle list \<Rightarrow> real option list" where
  "per_bar f cs = map (\<lambda>i. f (take (i + 1) cs)) [0..<length cs]"

definition history_slope :: "(md_candle list \<Rightarrow> real option) \<Rightarrow> int \<Rightarrow> md_candle list \<Rightarrow> real option list" where
  "history_slope f window cs = per_bar (\<lambda>w. gi_slope (List.map_filter id (per_bar f w)) window) cs"

definition atr_slope_series :: "md_candle list \<Rightarrow> real option list" where
  "atr_slope_series = history_slope (\<lambda>w. gi_atr w 14) 5"

definition vwap_distance :: "md_candle list \<Rightarrow> real option list" where
  "vwap_distance = per_bar (\<lambda>w. case gi_rolling_vwap w 30 of Some v \<Rightarrow> if v > 0 then Some ((cd_close (last w) - v) / v) else None | None \<Rightarrow> None)"

definition delta_momentum_series :: "int \<Rightarrow> md_candle list \<Rightarrow> real option list" where
  "delta_momentum_series p = per_bar (\<lambda>w. let vol = (if p \<le> int (length w) then (\<Sum>c\<leftarrow>last_n (nat p) w. cd_volume c) else 0) in
     case gi_cvd w p of Some v \<Rightarrow> if vol > 0 then Some (v / vol) else None | None \<Rightarrow> None)"

definition liquidity_score :: "md_candle list \<Rightarrow> real option list" where
  "liquidity_score = per_bar (\<lambda>w. case gi_sma (map cd_volume w) 20 of Some a \<Rightarrow> if a > 0 then Some (cd_volume (last w) / a - 1) else None | None \<Rightarrow> None)"

definition trend_score :: "md_candle list \<Rightarrow> real option list" where
  "trend_score = per_bar (\<lambda>w. gi_momentum (map cd_close w) 20)"

definition book_pressure_score :: "md_candle list \<Rightarrow> real option list" where
  "book_pressure_score cs = map (\<lambda>c. if cd_volume c > 0 then Some (gi_book_pressure c) else None) cs"

definition microprice_series :: "md_candle list \<Rightarrow> real option list" where
  "microprice_series cs = map (\<lambda>c. let mid = (cd_high c + cd_low c) / 2 in
     if mid \<le> 0 then None else Some (gi_book_pressure c * (cd_high c - cd_low c) / 2 / mid)) cs"

definition spread_velocity :: "md_candle list \<Rightarrow> real option list" where
  "spread_velocity = per_bar (\<lambda>w. gi_slope (List.map_filter (\<lambda>c. if cd_close c > 0 then Some ((cd_high c - cd_low c) / cd_close c) else None) w) 3)"

definition volatility_expansion :: "md_candle list \<Rightarrow> real option list" where
  "volatility_expansion = per_bar (\<lambda>w. case (gi_atr w 7, gi_atr w 28) of
     (Some s, Some l) \<Rightarrow> if l > 0 then Some (s / l - 1) else None | _ \<Rightarrow> None)"

definition ema_slope_series :: "md_candle list \<Rightarrow> real option list" where
  "ema_slope_series = history_slope (\<lambda>w. gi_ema (map cd_close w) 20) 5"

definition zscore_last :: "real list \<Rightarrow> int \<Rightarrow> real option" where
  "zscore_last vs p = (case (gi_sma vs p, gi_stdev vs p) of
     (Some a, Some sd) \<Rightarrow> if sd \<le> 0 then None else Some ((last vs - a) / sd) | _ \<Rightarrow> None)"

definition reversion_z :: "md_candle list \<Rightarrow> real option list" where
  "reversion_z = per_bar (\<lambda>w. map_option uminus (zscore_last (map cd_close w) 20))"

definition rsi_bias :: "md_candle list \<Rightarrow> real option list" where
  "rsi_bias = per_bar (\<lambda>w. map_option (\<lambda>v. (50 - v) / 50) (gi_rsi (map cd_close w) 14))"

definition volume_zscore :: "md_candle list \<Rightarrow> real option list" where
  "volume_zscore = per_bar (\<lambda>w. zscore_last (map cd_volume w) 20)"

definition atr_pct_series :: "md_candle list \<Rightarrow> real option list" where
  "atr_pct_series = per_bar (\<lambda>w. let c = cd_close (last w) in case gi_atr w 14 of Some a \<Rightarrow> if c > 0 then Some (a / c) else None | None \<Rightarrow> None)"

definition hour_of_day :: "md_candle list \<Rightarrow> real option list" where
  "hour_of_day cs = map (\<lambda>c. Some (real_of_int (hour_of (cd_start c)) / 23 * 2 - 1)) cs"

definition buy_ratio :: "md_candle list \<Rightarrow> real option list" where
  "buy_ratio cs = map (\<lambda>c. if cd_volume c > 0 then Some (cd_buy_volume c / cd_volume c - 1/2) else None) cs"

definition series_product :: "real option list \<Rightarrow> real option list \<Rightarrow> real option list" where
  "series_product xs ys = map2 (\<lambda>x y. case (x, y) of (Some a, Some b) \<Rightarrow> Some (a * b) | _ \<Rightarrow> None) xs ys"

definition research_series :: "(string \<times> (md_candle list \<Rightarrow> real option list)) list" where
  "research_series = [(''atr_slope'', atr_slope_series), (''vwap_distance'', vwap_distance), (''delta_momentum'', delta_momentum_series 10),
     (''liquidity_score'', liquidity_score), (''trend_score'', trend_score), (''book_pressure_score'', book_pressure_score),
     (''microprice'', microprice_series), (''spread_velocity'', spread_velocity), (''volatility_expansion'', volatility_expansion),
     (''ema_slope'', ema_slope_series), (''reversion_z'', reversion_z), (''rsi_bias'', rsi_bias), (''volume_zscore'', volume_zscore),
     (''atr_pct'', atr_pct_series), (''hour_of_day'', hour_of_day), (''cvd_factor'', delta_momentum_series 20), (''buy_ratio'', buy_ratio),
     (''trend_x_liquidity'', \<lambda>cs. series_product (trend_score cs) (liquidity_score cs)),
     (''vwapdist_x_pressure'', \<lambda>cs. series_product (vwap_distance cs) (book_pressure_score cs))]"

lemma per_bar_take: "per_bar f (take n cs) = take n (per_bar f cs)"
proof (rule nth_equalityI)
  show "length (per_bar f (take n cs)) = length (take n (per_bar f cs))" by (simp add: per_bar_def)
  fix i assume "i < length (per_bar f (take n cs))"
  then have i: "i < n" "i < length cs" by (simp_all add: per_bar_def)
  then show "per_bar f (take n cs) ! i = take n (per_bar f cs) ! i" by (simp add: per_bar_def min_def)
qed

lemma product_take: "series_product (take n xs) (take n ys) = take n (series_product xs ys)"
  by (simp add: series_product_def take_map take_zip)

text \<open>A series computed on the first bars is the beginning of the series computed on all of them.\<close>

lemma series_use_past: "(k, f) \<in> set research_series \<Longrightarrow> f (take n cs) = take n (f cs)"
  by (auto simp: research_series_def atr_slope_series_def vwap_distance_def delta_momentum_series_def liquidity_score_def
      trend_score_def book_pressure_score_def microprice_series_def spread_velocity_def volatility_expansion_def ema_slope_series_def
      reversion_z_def rsi_bias_def volume_zscore_def atr_pct_series_def hour_of_day_def buy_ratio_def history_slope_def per_bar_take
      take_map simp flip: product_take)

lemma series_length: "(k, f) \<in> set research_series \<Longrightarrow> length (f cs) = length cs"
  by (auto simp: research_series_def atr_slope_series_def vwap_distance_def delta_momentum_series_def liquidity_score_def
      trend_score_def book_pressure_score_def microprice_series_def spread_velocity_def volatility_expansion_def ema_slope_series_def
      reversion_z_def rsi_bias_def volume_zscore_def atr_pct_series_def hour_of_day_def buy_ratio_def history_slope_def per_bar_def
      series_product_def)

end
