(* ===== verification/Research_Log.thy ===== *)
theory Research_Log
  imports Genome Journal
begin

text \<open>
  The append-only files of the research laboratory.  A registry (\<open>experiment_manager/manager.py\<close>,
  \<open>production_candidate/candidate.py\<close>) writes one JSON line per change and, when it opens, replays the lines, the last one of each
  key winning; unlike the trade journal, a line that does not read stops the replay.  The replay is proved once, for any
  registry, in a locale that the experiments and the candidates instantiate.  The knowledge base
  (\<open>knowledge_base/kb.py\<close>) keeps the lines themselves.
\<close>

section \<open>Registries\<close>

datatype store_error = UNREGISTERED string | WRITE_FAILED

record 'a registry =
  rg_has_path :: bool
  rg_index :: "(string, 'a) pydict"
  rg_file :: journal_disk

fun replay_line :: "(json \<Rightarrow> py_error + 'a) \<Rightarrow> ('a \<Rightarrow> string) \<Rightarrow> json_line \<Rightarrow> (string, 'a) pydict \<Rightarrow> py_error + (string, 'a) pydict" where
  "replay_line rd key BlankLine d = Inr d"
| "replay_line rd key BadLine d = Inl ValueError"
| "replay_line rd key (JsonLine j) d = ebind (rd j) (\<lambda>x. Inr (pd_put d (key x) x))"

definition replay_lines :: "(json \<Rightarrow> py_error + 'a) \<Rightarrow> ('a \<Rightarrow> string) \<Rightarrow> json_line list \<Rightarrow> py_error + (string, 'a) pydict" where
  "replay_lines rd key ls = fold (\<lambda>l acc. ebind acc (replay_line rd key l)) ls (Inr [])"

text \<open>The whole file is read first: bytes that are not UTF-8 raise \<open>UnicodeDecodeError\<close>, a \<open>ValueError\<close>.\<close>

definition log_text :: "journal_disk \<Rightarrow> py_error + json_line list" where
  "log_text disk = (if disk_decodes disk then Inr (disk_lines disk) else Inl ValueError)"

definition rg_open :: "(json \<Rightarrow> py_error + 'a) \<Rightarrow> ('a \<Rightarrow> string) \<Rightarrow> bool \<Rightarrow> journal_disk \<Rightarrow> py_error + 'a registry" where
  "rg_open rd key has_path disk =
     ebind (if has_path then ebind (log_text disk) (replay_lines rd key) else Inr [])
       (\<lambda>d. Inr \<lparr> rg_has_path = has_path, rg_index = d, rg_file = disk \<rparr>)"

text \<open>The object is indexed first; \<open>write_ok\<close> says whether the write that follows succeeds.\<close>

definition rg_append :: "('a \<Rightarrow> json) \<Rightarrow> ('a \<Rightarrow> string) \<Rightarrow> bool \<Rightarrow> 'a \<Rightarrow> 'a registry \<Rightarrow> (store_error + 'a) \<times> 'a registry" where
  "rg_append wr key write_ok x s =
     (let s1 = s\<lparr> rg_index := pd_put (rg_index s) (key x) x \<rparr> in
      if \<not> rg_has_path s then (Inr x, s1)
      else if write_ok then (Inr x, s1\<lparr> rg_file := append_line (JsonLine (wr x)) (rg_file s) \<rparr>)
      else (Inl WRITE_FAILED, s1))"

text \<open>Every write goes through a change of the object on record.\<close>

definition rg_change :: "('a \<Rightarrow> json) \<Rightarrow> ('a \<Rightarrow> string) \<Rightarrow> bool \<Rightarrow> string \<Rightarrow> ('a \<Rightarrow> 'a) \<Rightarrow> 'a registry \<Rightarrow> (store_error + 'a) \<times> 'a registry" where
  "rg_change wr key write_ok k f s = (case pd_get (rg_index s) k of
       None \<Rightarrow> (Inl (UNREGISTERED k), s)
     | Some x \<Rightarrow> rg_append wr key write_ok (f x) s)"

definition rg_count :: "'a registry \<Rightarrow> nat" where
  "rg_count s = length (rg_index s)"

lemma replay_Nil [simp]: "replay_lines rd key [] = Inr []"
  by (simp add: replay_lines_def)

lemma replay_snoc: "replay_lines rd key (ls @ [l]) = ebind (replay_lines rd key ls) (replay_line rd key l)"
  by (simp add: replay_lines_def)

lemma pd_put_map: "pd_put (map (\<lambda>(k, x). (k, f x)) d) k (f x) = map (\<lambda>(k, x). (k, f x)) (pd_put d k x)"
  by (induction d) auto

lemma pd_put_member: "(k, x) \<in> set (pd_put d k' x') \<Longrightarrow> (k, x) \<in> set d \<or> k = k' \<and> x = x'"
  by (induction d) (auto split: if_splits)

locale versioned_log =
  fixes rd :: "json \<Rightarrow> py_error + 'a" and wr :: "'a \<Rightarrow> json" and key :: "'a \<Rightarrow> string"
    and kept :: "'a \<Rightarrow> 'a" and fine :: "'a \<Rightarrow> bool"
  assumes reads_back: "fine x \<Longrightarrow> rd (wr x) = Inr (kept x)"
    and key_kept: "key (kept x) = key x"
begin

definition in_step :: "'a registry \<Rightarrow> bool" where
  "in_step s \<longleftrightarrow> rg_has_path s \<and> \<not> disk_torn (rg_file s) \<and> disk_decodes (rg_file s)
     \<and> replay_lines rd key (disk_lines (rg_file s)) = Inr (map (\<lambda>(k, x). (k, kept x)) (rg_index s))"

lemma append_in_step:
  assumes "in_step s" "fine x"
  shows "in_step (snd (rg_append wr key True x s))"
  using assms by (simp add: in_step_def rg_append_def Let_def replay_snoc reads_back key_kept pd_put_map)

lemma change_in_step:
  assumes "in_step s" "\<And>x. pd_get (rg_index s) k = Some x \<Longrightarrow> fine (f x)"
  shows "in_step (snd (rg_change wr key True k f s))"
  using assms by (simp add: rg_change_def append_in_step split: option.split)

lemma empty_in_step: "in_step \<lparr> rg_has_path = True, rg_index = [], rg_file = None \<rparr>"
  by (simp add: in_step_def)

text \<open>Opening the file again gives the registry back, each object as its line keeps it.\<close>

lemma open_gives_back:
  "in_step s \<Longrightarrow> rg_open rd key True (rg_file s) = Inr (s\<lparr> rg_index := map (\<lambda>(k, x). (k, kept x)) (rg_index s) \<rparr>)"
  by (simp add: in_step_def rg_open_def log_text_def)

lemma recorded_log:
  assumes "list_all fine xs"
  shows "in_step (fold (\<lambda>x s. snd (rg_append wr key True x s)) xs \<lparr> rg_has_path = True, rg_index = [], rg_file = None \<rparr>)"
proof -
  have "in_step s \<Longrightarrow> list_all fine xs \<Longrightarrow> in_step (fold (\<lambda>x s. snd (rg_append wr key True x s)) xs s)" for s
    by (induction xs arbitrary: s) (simp_all add: append_in_step)
  then show ?thesis using empty_in_step assms by blast
qed

end

text \<open>What every line of the file satisfies, every object read back satisfies.\<close>

lemma replay_inv:
  assumes "replay_lines rd key ls = Inr d" "(k, x) \<in> set d"
  shows "k = key x \<and> (\<exists>j. JsonLine j \<in> set ls \<and> rd j = Inr x)"
  using assms
proof (induction ls arbitrary: d rule: rev_induct)
  case (snoc l ls)
  then obtain d0 where d0: "replay_lines rd key ls = Inr d0" "replay_line rd key l d0 = Inr d"
    by (auto simp: replay_snoc ebind_Inr_iff)
  show ?case using snoc.IH [OF d0(1)] d0(2) snoc.prems(2) by (cases l) (auto simp: ebind_Inr_iff dest: pd_put_member)
qed simp

section \<open>Experiments\<close>

datatype experiment_status = XP_OPEN | XP_CLOSED | XP_ARCHIVED

fun experiment_value :: "experiment_status \<Rightarrow> string" where
  "experiment_value XP_OPEN = ''open''"
| "experiment_value XP_CLOSED = ''closed''"
| "experiment_value XP_ARCHIVED = ''archived''"

definition parse_experiment :: "string \<Rightarrow> py_error + experiment_status" where
  "parse_experiment s = (case find (\<lambda>x. experiment_value x = s) [XP_OPEN, XP_CLOSED, XP_ARCHIVED] of
     None \<Rightarrow> Inl ValueError | Some x \<Rightarrow> Inr x)"

record hypothesis =
  hy_text :: string
  hy_rationale :: string
  hy_expected_edge :: string

definition hy_to_dict :: "hypothesis \<Rightarrow> json_dict" where
  "hy_to_dict h = [(''text'', JStr (hy_text h)), (''rationale'', JStr (hy_rationale h)), (''expected_edge'', JStr (hy_expected_edge h))]"

record experiment_record =
  xp_id :: string
  xp_label :: string
  xp_kind :: string
  xp_status :: experiment_status
  xp_hypothesis :: "hypothesis option"
  xp_payload :: json_dict
  xp_conclusions :: string
  xp_created_at :: time

definition xp_to_json :: "experiment_record \<Rightarrow> json" where
  "xp_to_json x = JObj [(''id'', JStr (xp_id x)), (''label'', JStr (xp_label x)), (''kind'', JStr (xp_kind x)),
     (''status'', JStr (experiment_value (xp_status x))),
     (''hypothesis'', case xp_hypothesis x of None \<Rightarrow> JNull | Some h \<Rightarrow> JObj (hy_to_dict h)),
     (''payload'', JObj (xp_payload x)), (''conclusions'', JStr (xp_conclusions x)), (''created_at'', JStr (iso (xp_created_at x)))]"

definition hy_from_json :: "json \<Rightarrow> py_error + hypothesis option" where
  "hy_from_json j = (if \<not> py_bool j then Inr None
     else case j of JObj h \<Rightarrow> ebind (json_text (jget h ''text'' (JStr []))) (\<lambda>t. ebind (json_text (jget h ''rationale'' (JStr []))) (\<lambda>r.
            ebind (json_text (jget h ''expected_edge'' (JStr []))) (\<lambda>e. Inr (Some \<lparr> hy_text = t, hy_rationale = r, hy_expected_edge = e \<rparr>))))
          | _ \<Rightarrow> Inl AttributeError)"

definition xp_from_json :: "pylib \<Rightarrow> json \<Rightarrow> py_error + experiment_record" where
  "xp_from_json L j = ebind (as_object j) (\<lambda>d. ebind (hy_from_json (jget d ''hypothesis'' JNull)) (\<lambda>h.
     ebind (field_text d ''id'') (\<lambda>i. ebind (field_text d ''label'') (\<lambda>la. ebind (field_text d ''kind'') (\<lambda>kd.
     ebind (ebind (field_text d ''status'') parse_experiment) (\<lambda>st. ebind (as_object (jget d ''payload'' (JObj []))) (\<lambda>p.
     ebind (json_text (jget d ''conclusions'' (JStr []))) (\<lambda>c. ebind (ebind (field_text d ''created_at'') (py_fromiso L)) (\<lambda>made.
       Inr \<lparr> xp_id = i, xp_label = la, xp_kind = kd, xp_status = st, xp_hypothesis = h, xp_payload = p, xp_conclusions = c,
         xp_created_at = made \<rparr>)))))))))"

lemma parse_experiment_value [simp]: "parse_experiment (experiment_value s) = Inr s"
  by (cases s) (simp_all add: parse_experiment_def)

lemma experiment_round_trip: "wf_time (xp_created_at x) \<Longrightarrow> xp_from_json L (xp_to_json x) = Inr x"
  by (cases "xp_hypothesis x")
    (simp_all add: xp_from_json_def xp_to_json_def hy_from_json_def hy_to_dict_def as_object_def field_text_def json_text_def py_bool_def json_lookup)

interpretation experiments: versioned_log "xp_from_json L" xp_to_json xp_id "\<lambda>x. x" "\<lambda>x. wf_time (xp_created_at x)" for L
  by unfold_locales (simp_all add: experiment_round_trip)

type_synonym experiments = "experiment_record registry"

definition xp_create :: "bool \<Rightarrow> string \<Rightarrow> time \<Rightarrow> string \<Rightarrow> string \<Rightarrow> hypothesis option \<Rightarrow> json_dict \<Rightarrow> experiments
    \<Rightarrow> (store_error + experiment_record) \<times> experiments" where
  "xp_create write_ok new now label kind hyp payload =
     rg_append xp_to_json xp_id write_ok \<lparr> xp_id = new, xp_label = label, xp_kind = kind, xp_status = XP_OPEN,
       xp_hypothesis = hyp, xp_payload = payload, xp_conclusions = [], xp_created_at = now \<rparr>"

definition merge_payload :: "json_dict \<Rightarrow> json_dict \<Rightarrow> json_dict" where
  "merge_payload old new = fold (\<lambda>(k, v) d. pd_put d k v) new old"

definition xp_update_payload :: "bool \<Rightarrow> string \<Rightarrow> json_dict \<Rightarrow> experiments \<Rightarrow> (store_error + experiment_record) \<times> experiments" where
  "xp_update_payload write_ok k payload = rg_change xp_to_json xp_id write_ok k (\<lambda>x. x\<lparr> xp_payload := merge_payload (xp_payload x) payload \<rparr>)"

definition xp_transition :: "bool \<Rightarrow> string \<Rightarrow> experiment_status \<Rightarrow> string \<Rightarrow> experiments \<Rightarrow> (store_error + experiment_record) \<times> experiments" where
  "xp_transition write_ok k st conclusions = rg_change xp_to_json xp_id write_ok k
     (\<lambda>x. x\<lparr> xp_status := st, xp_conclusions := (if conclusions \<noteq> [] then conclusions else xp_conclusions x) \<rparr>)"

definition xp_close :: "bool \<Rightarrow> string \<Rightarrow> string \<Rightarrow> experiments \<Rightarrow> (store_error + experiment_record) \<times> experiments" where
  "xp_close write_ok k conclusions = xp_transition write_ok k XP_CLOSED conclusions"

definition xp_archive :: "bool \<Rightarrow> string \<Rightarrow> string \<Rightarrow> experiments \<Rightarrow> (store_error + experiment_record) \<times> experiments" where
  "xp_archive write_ok k conclusions s =
     (let note = (if conclusions \<noteq> [] then conclusions else case pd_get (rg_index s) k of None \<Rightarrow> [] | Some x \<Rightarrow> xp_conclusions x)
      in xp_transition write_ok k XP_ARCHIVED note s)"

text \<open>Newest first; Python's reverse sort keeps the order of equal keys.\<close>

definition xp_list :: "string option \<Rightarrow> experiment_status option \<Rightarrow> experiments \<Rightarrow> experiment_record list" where
  "xp_list kind st s = filter (\<lambda>x. (kind = None \<or> kind = Some (xp_kind x)) \<and> (st = None \<or> st = Some (xp_status x)))
     (sort_key (\<lambda>x. - xp_created_at x) (pd_values (rg_index s)))"

text \<open>Archiving twice, or after closing, does not lose the conclusions.\<close>

lemma archive_keeps_conclusions:
  assumes "pd_get (rg_index s) k = Some x" "xp_id x = k" "rg_has_path s"
  shows "xp_archive True k [] s = (Inr (x\<lparr> xp_status := XP_ARCHIVED \<rparr>),
    s\<lparr> rg_index := pd_put (rg_index s) k (x\<lparr> xp_status := XP_ARCHIVED \<rparr>),
       rg_file := append_line (JsonLine (xp_to_json (x\<lparr> xp_status := XP_ARCHIVED \<rparr>))) (rg_file s) \<rparr>)"
  using assms by (simp add: xp_archive_def xp_transition_def rg_change_def rg_append_def Let_def)

section \<open>The knowledge base\<close>

record knowledge =
  kn_has_path :: bool
  kn_entries :: "json list"
  kn_file :: journal_disk

fun knowledge_lines :: "json_line list \<Rightarrow> py_error + json list" where
  "knowledge_lines [] = Inr []"
| "knowledge_lines (BlankLine # ls) = knowledge_lines ls"
| "knowledge_lines (BadLine # ls) = Inl ValueError"
| "knowledge_lines (JsonLine j # ls) = ebind (knowledge_lines ls) (\<lambda>js. Inr (j # js))"

definition kn_open :: "bool \<Rightarrow> journal_disk \<Rightarrow> py_error + knowledge" where
  "kn_open has_path disk = ebind (if has_path then ebind (log_text disk) knowledge_lines else Inr [])
     (\<lambda>es. Inr \<lparr> kn_has_path = has_path, kn_entries = es, kn_file = disk \<rparr>)"

definition kn_record :: "bool \<Rightarrow> json \<Rightarrow> knowledge \<Rightarrow> (store_error + json) \<times> knowledge" where
  "kn_record write_ok e kb =
     (let kb1 = kb\<lparr> kn_entries := kn_entries kb @ [e] \<rparr> in
      if \<not> kn_has_path kb then (Inr e, kb1)
      else if write_ok then (Inr e, kb1\<lparr> kn_file := append_line (JsonLine e) (kn_file kb) \<rparr>)
      else (Inl WRITE_FAILED, kb1))"

definition candidate_entry :: "pylib \<Rightarrow> string \<Rightarrow> time \<Rightarrow> candidate_report \<Rightarrow> strategy_genome \<Rightarrow> json" where
  "candidate_entry L new now r g = JObj [(''id'', JStr new), (''genome_id'', JStr (cn_genome_id r)), (''name'', JStr (cn_name r)),
     (''symbol'', JStr (cn_symbol r)), (''outcome'', JStr (if cn_passed r then ''worked'' else ''failed'')),
     (''reason'', JStr (case cn_reasons r of m # ms \<Rightarrow> render L m | [] \<Rightarrow> if cn_passed r then ''aprobada'' else ''rechazada'')),
     (''regime'', JStr (py_str L (jget (ge_metadata g) ''theme'' (JStr [])))), (''parameters'', params_to_json (genome_parameters g)),
     (''metrics'', params_to_json (List.map_filter (\<lambda>k. map_option (Pair k) (pd_get (cn_statistics r) k))
        [''profit_factor'', ''sharpe'', ''expectancy_r'', ''max_drawdown_pct''])),
     (''recorded_at'', JStr (iso now))]"

definition kn_record_candidate :: "pylib \<Rightarrow> bool \<Rightarrow> string \<Rightarrow> time \<Rightarrow> candidate_report \<Rightarrow> strategy_genome \<Rightarrow> knowledge
    \<Rightarrow> (store_error + json) \<times> knowledge" where
  "kn_record_candidate L write_ok new now r g = kn_record write_ok (candidate_entry L new now r g)"

lemma knowledge_lines_append:
  "knowledge_lines (xs @ ys) = ebind (knowledge_lines xs) (\<lambda>a. ebind (knowledge_lines ys) (\<lambda>b. Inr (a @ b)))"
proof (induction xs rule: knowledge_lines.induct)
  case 1
  then show ?case by (cases "knowledge_lines ys") simp_all
next
  case (4 j ls)
  then show ?case by (cases "knowledge_lines ls"; cases "knowledge_lines ys") simp_all
qed simp_all

text \<open>What is on disk and in memory only grows, and a new base opened on a file that was whole has all of it.\<close>

lemma knowledge_kept:
  assumes "kn_has_path kb" "\<not> disk_torn (kn_file kb)" "disk_decodes (kn_file kb)" "knowledge_lines (disk_lines (kn_file kb)) = Inr (kn_entries kb)"
  shows "kn_open True (kn_file (snd (kn_record True e kb))) = Inr (snd (kn_record True e kb))"
  using assms by (simp add: kn_open_def kn_record_def Let_def knowledge_lines_append log_text_def)

text \<open>A file that was torn behind a whole line is spoiled by the next record: the base does not open again.\<close>

lemma torn_knowledge_spoiled:
  assumes "kn_has_path kb" "disk_torn (kn_file kb)" "last (disk_lines (kn_file kb)) \<noteq> BlankLine"
    "knowledge_lines (disk_lines (kn_file kb)) = Inr js" "disk_decodes (kn_file kb)"
  shows "kn_open True (kn_file (snd (kn_record True e kb))) = Inl ValueError"
proof -
  have "disk_lines (kn_file kb) \<noteq> []" using assms(2) by (auto simp: disk_torn_def disk_lines_def split: option.splits)
  then have "disk_lines (kn_file kb) = disk_kept (kn_file kb) @ [last (disk_lines (kn_file kb))]" using assms(2) by (simp add: disk_kept_def)
  then have "\<exists>ks. knowledge_lines (disk_kept (kn_file kb)) = Inr ks"
    using assms(4) by (metis (no_types, lifting) ebind_Inr_iff knowledge_lines_append)
  then show ?thesis using assms
    by (auto simp: kn_open_def kn_record_def Let_def log_text_def swallows_def knowledge_lines_append)
qed

end
