(* ===== verification/Research_Pipeline.thy ===== *)
theory Research_Pipeline
  imports Research_Log
begin

text \<open>
  The gauntlet that turns a genome into a candidate (\<open>research/validation_pipeline/pipeline.py\<close>), with the smoothness of an
  equity curve (\<open>research/stats.py\<close>).  The laboratory's engines are the fields of \<open>laboratory\<close>; the development has a model of each.
\<close>

section \<open>Smoothness of an equity curve\<close>

definition equity_stability :: "real list \<Rightarrow> real" where
  "equity_stability ys = (if length ys < 3 then 0
     else let xs = map real [0..<length ys]; mx = mean_of xs; my = mean_of ys;
              sxx = (\<Sum>x\<leftarrow>xs. (x - mx)\<^sup>2); sxy = (\<Sum>(x, y)\<leftarrow>zip xs ys. (x - mx) * (y - my))
       in if sxx \<le> 0 then 0
          else let slope = sxy / sxx; intercept = my - slope * mx;
                   res = (\<Sum>(x, y)\<leftarrow>zip xs ys. (y - (slope * x + intercept))\<^sup>2); tot = (\<Sum>y\<leftarrow>ys. (y - my)\<^sup>2)
            in if tot \<le> 0 then if res \<le> 0 then 1 else 0 else max 0 (min 1 (1 - res / tot)))"

lemma equity_stability_bounds: "0 \<le> equity_stability ys \<and> equity_stability ys \<le> 1"
  by (simp add: equity_stability_def Let_def)

section \<open>The pipeline\<close>

record pipeline_settings =
  pl_walk_forward :: bool
  pl_monte_carlo :: bool
  pl_benchmark :: bool
  pl_ml_review :: bool
  pl_risk_review :: bool
  pl_method :: string

definition default_pipeline :: pipeline_settings where
  "default_pipeline = \<lparr> pl_walk_forward = True, pl_monte_carlo = True, pl_benchmark = True, pl_ml_review = False,
     pl_risk_review = True, pl_method = ''random'' \<rparr>"

type_synonym ml_review = "strategy_genome \<Rightarrow> (string, real) pydict \<Rightarrow> bool \<times> string"

record laboratory =
  lb_run :: "md_candle list \<Rightarrow> string option decision_source \<Rightarrow> backtest_config \<Rightarrow> backtest_result"
  lb_walk :: "md_candle list \<Rightarrow> parameter_space \<Rightarrow> strategy_genome \<Rightarrow> backtest_config \<Rightarrow> string \<Rightarrow> py_error + wf_report"
  lb_monte_carlo :: "real list \<Rightarrow> monte_carlo_result"
  lb_beaten :: "real \<Rightarrow> md_candle list \<Rightarrow> (string, bool) pydict"

datatype pipeline_error = UNCOMPILABLE msg | RAISED py_error

text \<open>A stage gives its result and the reasons it adds to the report.\<close>

type_synonym stage_outcome = "stage_result \<times> msg list"

definition stage_run :: "pipeline_stage \<Rightarrow> bool \<Rightarrow> msg \<Rightarrow> (string, real) pydict \<Rightarrow> msg list \<Rightarrow> stage_outcome" where
  "stage_run st ok detail metrics why =
     (\<lparr> sr_stage = st, sr_passed = ok, sr_score = JNull, sr_detail = detail, sr_metrics = metrics \<rparr>, why)"

fun msg_parts :: "msg \<Rightarrow> string \<times> msg_arg list" where
  "msg_parts (Lit s) = (s, [])"
| "msg_parts (Fmt t args) = (t, args)"

fun join_strings :: "string \<Rightarrow> string list \<Rightarrow> string" where
  "join_strings sep [] = []"
| "join_strings sep [s] = s"
| "join_strings sep (s # ss) = s @ sep @ join_strings sep ss"

definition join_msgs :: "string \<Rightarrow> msg list \<Rightarrow> msg" where
  "join_msgs sep ms = Fmt (join_strings sep (map (fst \<circ> msg_parts) ms)) (concat (map (snd \<circ> msg_parts) ms))"

text \<open>\<open>isinstance(v, (int, float))\<close>: booleans are integers.\<close>

definition stat_number :: "json \<Rightarrow> real option" where
  "stat_number j = (case j of JNum x \<Rightarrow> Some x | JInt i \<Rightarrow> Some (real_of_int i) | JBool b \<Rightarrow> Some (if b then 1 else 0) | _ \<Rightarrow> None)"

definition numeric_stats :: "json_dict \<Rightarrow> (string, real) pydict" where
  "numeric_stats d = List.map_filter (\<lambda>(k, j). map_option (Pair k) (stat_number j)) d"

definition pick_stats :: "string list \<Rightarrow> (string, real) pydict \<Rightarrow> (string, real) pydict" where
  "pick_stats ks stats = List.map_filter (\<lambda>k. map_option (Pair k) (pd_get stats k)) ks"

definition backtest_stage :: "string \<Rightarrow> criterion_check list \<Rightarrow> (string, real) pydict \<Rightarrow> stage_outcome" where
  "backtest_stage objective checks stats =
     (let ok = criteria_passed checks; failed = map ch_detail (filter (\<lambda>c. \<not> ch_passed c) checks) in
      (\<lparr> sr_stage = ST_BACKTEST, sr_passed = ok, sr_score = json_opt (pd_get stats objective),
         sr_detail = (if ok then Lit ''metricas minimas OK'' else join_msgs ''; '' (take 3 failed)),
         sr_metrics = pick_stats [''profit_factor'', ''sharpe'', ''expectancy_r'', ''total_trades''] stats \<rparr>,
       if ok then [] else failed))"

definition walk_forward_stage :: "laboratory \<Rightarrow> pipeline_settings \<Rightarrow> strategy_genome \<Rightarrow> md_candle list \<Rightarrow> backtest_config
    \<Rightarrow> py_error + stage_outcome" where
  "walk_forward_stage lab s g cs cfg = ebind (build_space g) (\<lambda>space.
     if space = [] then Inr (stage_run ST_WALK_FORWARD True (Lit ''sin parametros optimizables: walk-forward no aplica'') [] [])
     else ebind (lb_walk lab cs space g cfg (pl_method s)) (\<lambda>rep.
       Inr (stage_run ST_WALK_FORWARD (wp_is_stable rep) (Lit (if wp_is_stable rep then ''estable'' else ''inestable''))
         [(''folds'', real (length (wp_folds rep)))]
         (if wp_is_stable rep then [] else [Lit ''Walk-forward inestable (pocos pliegues OOS positivos)'']))))"

definition monte_carlo_stage :: "laboratory \<Rightarrow> qualification_criteria \<Rightarrow> trade_record list \<Rightarrow> stage_outcome" where
  "monte_carlo_stage lab c ts =
     (let p95 = mr_required_capital_pct (lb_monte_carlo lab (map t_pnl ts)); cap = ql_monte_carlo_max_drawdown_pct c in
      stage_run ST_MONTE_CARLO (p95 \<le> cap) (Fmt ''drawdown p95 {:.1f}%'' [ArgReal p95]) [(''required_capital_pct'', p95)]
        (if p95 \<le> cap then [] else [Fmt ''Monte Carlo: drawdown p95 {:.1f}% > {:.1f}%'' [ArgReal p95, ArgReal cap]]))"

definition ml_stage :: "ml_review option \<Rightarrow> strategy_genome \<Rightarrow> (string, real) pydict \<Rightarrow> stage_outcome" where
  "ml_stage review g stats = (case review of
       None \<Rightarrow> stage_run ST_ML_REVIEW True (Lit ''sin revisor ML: etapa asesora omitida'') [] []
     | Some f \<Rightarrow> (case f g stats of (ok, detail) \<Rightarrow>
         stage_run ST_ML_REVIEW ok (Lit detail) [] (if ok then [] else [Fmt ''Revision ML: {}'' [ArgStr detail]])))"

definition benchmark_stage :: "laboratory \<Rightarrow> real \<Rightarrow> md_candle list \<Rightarrow> stage_outcome" where
  "benchmark_stage lab ret cs =
     (let beaten = lb_beaten lab ret cs; ok = (pd_get_or beaten ''buy_and_hold'' False \<and> pd_get_or beaten ''random'' False) in
      stage_run ST_BENCHMARK ok (Lit (if ok then ''supera buy&hold y random'' else ''no supera los benchmarks''))
        (map (\<lambda>(n, won). (n, if won then 1 else 0)) beaten)
        (if ok then [] else [Lit ''No supera los benchmarks basicos (buy&hold / random)'']))"

definition risk_stage :: "qualification_criteria \<Rightarrow> (string, real) pydict \<Rightarrow> stage_outcome" where
  "risk_stage c stats =
     (let dd = pd_get_or stats ''max_drawdown_pct'' 100; expectancy = pd_get_or stats ''expectancy'' (-1);
          dd_ok = (dd \<le> qualification_criteria.ql_max_drawdown_pct c); exp_ok = (ql_min_expectancy c \<le> expectancy); ok = (dd_ok \<and> exp_ok) in
      stage_run ST_RISK_REVIEW ok (Lit (if ok then ''riesgo dentro de limites'' else ''riesgo fuera de limites''))
        [(''max_drawdown_pct'', dd), (''expectancy'', expectancy)]
        ((if dd_ok then [] else [Fmt ''Drawdown {:.1f}% > {:.1f}%'' [ArgReal dd, ArgReal (qualification_criteria.ql_max_drawdown_pct c)]])
         @ (if exp_ok then [] else [Fmt ''Expectativa {:.4f} < {:.4f}'' [ArgReal expectancy, ArgReal (ql_min_expectancy c)]])))"

definition raised :: "py_error + 'a \<Rightarrow> pipeline_error + 'a" where
  "raised r = (case r of Inl e \<Rightarrow> Inl (RAISED e) | Inr x \<Rightarrow> Inr x)"

definition pipeline_stats :: "backtest_result \<Rightarrow> (string, real) pydict" where
  "pipeline_stats result = pd_put (numeric_stats (br_statistics result)) ''stability''
     (py_round 6 (equity_stability (map eq_equity (br_equity_curve result))))"

definition pipeline_evaluate :: "pylib \<Rightarrow> laboratory \<Rightarrow> pipeline_settings \<Rightarrow> qualification_criteria \<Rightarrow> string \<Rightarrow> ml_review option \<Rightarrow> time
    \<Rightarrow> strategy_genome \<Rightarrow> md_candle list \<Rightarrow> backtest_config \<Rightarrow> pipeline_error + candidate_report" where
  "pipeline_evaluate L lab s c objective review now g cs cfg =
     ebind (case compile_genome g of Inl m \<Rightarrow> Inl (UNCOMPILABLE m) | Inr src \<Rightarrow> Inr src) (\<lambda>src.
     let result = lb_run lab cs src cfg; stats = pipeline_stats result in
     ebind (raised (evaluate_metrics L (br_statistics result) c)) (\<lambda>checks.
     ebind (if pl_walk_forward s then ebind (raised (walk_forward_stage lab s g cs cfg)) (\<lambda>st. Inr [st]) else Inr []) (\<lambda>fwd.
     let runs = [backtest_stage objective checks stats] @ fwd
          @ (if pl_monte_carlo s then [monte_carlo_stage lab c (br_trades result)] else [])
          @ (if pl_ml_review s then [ml_stage review g stats] else [])
          @ (if pl_benchmark s then [benchmark_stage lab (br_return_pct result) cs] else [])
          @ (if pl_risk_review s then [risk_stage c stats] else []);
         ok = list_all (sr_passed \<circ> fst) runs
     in Inr \<lparr> cn_genome_id = ge_id g, cn_name = ge_name g, cn_symbol = ge_symbol g,
          cn_status = (if ok then CA_CANDIDATE else CA_REJECTED), cn_passed = ok, cn_objective = objective,
          cn_score = json_opt (pd_get stats objective), cn_stages = map fst runs, cn_statistics = stats,
          cn_reasons = (if ok then [Lit ''Supera todas las etapas del pipeline''] else []) @ concat (map snd runs),
          cn_created_at = now \<rparr>)))"

section \<open>What a passed report stands for\<close>

lemma stage_run_passed [simp]: "sr_passed (fst (stage_run st ok d m why)) = ok" "snd (stage_run st ok d m why) = why"
  "sr_stage (fst (stage_run st ok d m why)) = st"
  by (simp_all add: stage_run_def)

lemma get_true: "pd_get_or d k False \<longleftrightarrow> pd_get d k = Some True"
  by (simp add: pd_get_or_def split: option.split)

lemma stage_reasons:
  "sr_passed (fst (backtest_stage objective checks stats)) \<longleftrightarrow> snd (backtest_stage objective checks stats) = []"
  "sr_passed (fst (monte_carlo_stage lab c ts)) \<longleftrightarrow> snd (monte_carlo_stage lab c ts) = []"
  "sr_passed (fst (ml_stage review g stats)) \<longleftrightarrow> snd (ml_stage review g stats) = []"
  "sr_passed (fst (benchmark_stage lab r cs)) \<longleftrightarrow> snd (benchmark_stage lab r cs) = []"
  "sr_passed (fst (risk_stage c stats)) \<longleftrightarrow> snd (risk_stage c stats) = []"
  by (auto simp: backtest_stage_def monte_carlo_stage_def ml_stage_def benchmark_stage_def risk_stage_def Let_def criteria_passed_def
      list_all_iff filter_empty_conv split: option.split prod.split)

lemma walk_forward_reasons:
  "walk_forward_stage lab s g cs cfg = Inr st \<Longrightarrow> sr_passed (fst st) \<longleftrightarrow> snd st = []"
  by (auto simp: walk_forward_stage_def ebind_Inr_iff stage_run_def split: if_split_asm)

text \<open>A report passes exactly when no stage objects: a rejection names at least one reason, a pass has its one line.\<close>

lemma pipeline_reasons:
  assumes "pipeline_evaluate L lab s c objective review now g cs cfg = Inr rep"
  shows "cn_passed rep \<longleftrightarrow> (\<forall>st\<in>set (cn_stages rep). sr_passed st)"
    and "cn_status rep = (if cn_passed rep then CA_CANDIDATE else CA_REJECTED)"
    and "cn_passed rep \<Longrightarrow> cn_reasons rep = [Lit ''Supera todas las etapas del pipeline'']"
    and "\<not> cn_passed rep \<Longrightarrow> cn_reasons rep \<noteq> []"
    and "cn_genome_id rep = ge_id g" "cn_created_at rep = now"
proof -
  obtain runs where runs: "cn_stages rep = map fst runs" "cn_passed rep = list_all (sr_passed \<circ> fst) runs"
      "cn_reasons rep = (if cn_passed rep then [Lit ''Supera todas las etapas del pipeline''] else []) @ concat (map snd runs)"
      "cn_status rep = (if cn_passed rep then CA_CANDIDATE else CA_REJECTED)" "cn_genome_id rep = ge_id g" "cn_created_at rep = now"
      and each: "\<forall>r\<in>set runs. sr_passed (fst r) \<longleftrightarrow> snd r = []"
  proof -
    from assms obtain src checks fwd where src: "compile_genome g = Inr src"
        and fwd: "(if pl_walk_forward s then ebind (raised (walk_forward_stage lab s g cs cfg)) (\<lambda>st. Inr [st]) else Inr []) = Inr fwd"
        and ev: "raised (evaluate_metrics L (br_statistics (lb_run lab cs src cfg)) c) = Inr checks"
      by (auto simp: pipeline_evaluate_def Let_def ebind_Inr_iff split: sum.splits)
    let ?result = "lb_run lab cs src cfg"
    let ?stats = "pipeline_stats ?result"
    let ?runs = "[backtest_stage objective checks ?stats] @ fwd
          @ (if pl_monte_carlo s then [monte_carlo_stage lab c (br_trades ?result)] else [])
          @ (if pl_ml_review s then [ml_stage review g ?stats] else [])
          @ (if pl_benchmark s then [benchmark_stage lab (br_return_pct ?result) cs] else [])
          @ (if pl_risk_review s then [risk_stage c ?stats] else [])"
    have rep: "rep = \<lparr> cn_genome_id = ge_id g, cn_name = ge_name g, cn_symbol = ge_symbol g,
          cn_status = (if list_all (sr_passed \<circ> fst) ?runs then CA_CANDIDATE else CA_REJECTED), cn_passed = list_all (sr_passed \<circ> fst) ?runs,
          cn_objective = objective, cn_score = json_opt (pd_get ?stats objective), cn_stages = map fst ?runs, cn_statistics = ?stats,
          cn_reasons = (if list_all (sr_passed \<circ> fst) ?runs then [Lit ''Supera todas las etapas del pipeline''] else []) @ concat (map snd ?runs),
          cn_created_at = now \<rparr>"
      using assms unfolding pipeline_evaluate_def Let_def src ev fwd sum.case ebind.simps sum.inject by (rule sym)
    have "\<forall>r\<in>set fwd. sr_passed (fst r) \<longleftrightarrow> snd r = []"
      using fwd walk_forward_reasons [of lab s g cs cfg] by (auto simp: ebind_Inr_iff raised_def split: if_splits sum.splits)
    then have "\<forall>r\<in>set ?runs. sr_passed (fst r) \<longleftrightarrow> snd r = []"
      using stage_reasons by (simp only: set_append) auto
    then show thesis using that [of ?runs] by (simp only: rep candidate_report.select_convs)
  qed
  show "cn_passed rep \<longleftrightarrow> (\<forall>st\<in>set (cn_stages rep). sr_passed st)" by (auto simp: runs list_all_iff)
  show "cn_status rep = (if cn_passed rep then CA_CANDIDATE else CA_REJECTED)" "cn_genome_id rep = ge_id g" "cn_created_at rep = now"
    by (rule runs)+
  show "cn_reasons rep = [Lit ''Supera todas las etapas del pipeline'']" if "cn_passed rep"
    using that each runs(2) by (auto simp: runs(3) list_all_iff)
  show "cn_reasons rep \<noteq> []" if "\<not> cn_passed rep"
    using that each runs(2) by (auto simp: runs(3) list_all_iff)
qed

end
