(* ===== verification/Research_Candidates.thy ===== *)
theory Research_Candidates
  imports Research_Pipeline
begin

text \<open>
  From candidate to promotion: the paper trials (\<open>research/paper_validation/tracker.py\<close>), the registry of candidates
  (\<open>production_candidate/candidate.py\<close>) and the fail-closed manager (\<open>production_candidate/promotion.py\<close>).
\<close>

section \<open>Paper trials\<close>

record paper_settings =
  pv_min_days :: real
  pv_min_trades :: int
  pv_min_profit_factor :: real
  pv_max_drawdown_pct :: real

definition default_paper :: paper_settings where
  "default_paper = \<lparr> pv_min_days = 7, pv_min_trades = 20, pv_min_profit_factor = 13/10, pv_max_drawdown_pct = 15 \<rparr>"

record paper_trial =
  pq_genome_id :: string
  pq_started_at :: time
  pq_trades :: int
  pq_profit_factor :: real
  pq_drawdown_pct :: real
  pq_forced_days :: "real option"

type_synonym trials = "(string, paper_trial) pydict"

record paper_status =
  pt_genome_id :: string
  pt_matured :: bool
  pt_days :: real
  pt_trades :: int
  pt_profit_factor :: real
  pt_drawdown_pct :: real
  pt_reasons :: "msg list"

definition pt_to_dict :: "pylib \<Rightarrow> paper_status \<Rightarrow> json_dict" where
  "pt_to_dict L p = [(''genome_id'', JStr (pt_genome_id p)), (''matured'', JBool (pt_matured p)), (''days'', JNum (py_round 3 (pt_days p))),
     (''trades'', JInt (pt_trades p)), (''profit_factor'', JNum (py_round 4 (pt_profit_factor p))),
     (''drawdown_pct'', JNum (py_round 4 (pt_drawdown_pct p))), (''reasons'', JList (map (\<lambda>m. JStr (render L m)) (pt_reasons p)))]"

definition trial_open :: "time \<Rightarrow> string \<Rightarrow> trials \<Rightarrow> trials" where
  "trial_open started g ts = pd_put ts g \<lparr> pq_genome_id = g, pq_started_at = started, pq_trades = 0, pq_profit_factor = 0,
     pq_drawdown_pct = 0, pq_forced_days = None \<rparr>"

definition trial_change :: "string \<Rightarrow> (paper_trial \<Rightarrow> paper_trial) \<Rightarrow> trials \<Rightarrow> py_error + trials" where
  "trial_change g f ts = (case pd_get ts g of None \<Rightarrow> Inl (KeyError g) | Some t \<Rightarrow> Inr (pd_put ts g (f t)))"

definition trial_update :: "string \<Rightarrow> int \<Rightarrow> real \<Rightarrow> real \<Rightarrow> trials \<Rightarrow> py_error + trials" where
  "trial_update g n pf dd = trial_change g (\<lambda>t. t\<lparr> pq_trades := n, pq_profit_factor := pf, pq_drawdown_pct := dd \<rparr>)"

definition trial_update_stats :: "string \<Rightarrow> (string, real) pydict \<Rightarrow> trials \<Rightarrow> py_error + trials" where
  "trial_update_stats g stats = trial_update g (py_int (pd_get_or stats ''total_trades'' 0)) (pd_get_or stats ''profit_factor'' 0)
     (pd_get_or stats ''max_drawdown_pct'' 0)"

definition trial_set_elapsed :: "string \<Rightarrow> real \<Rightarrow> trials \<Rightarrow> py_error + trials" where
  "trial_set_elapsed g days = trial_change g (\<lambda>t. t\<lparr> pq_forced_days := Some days \<rparr>)"

definition trial_days :: "time \<Rightarrow> paper_trial \<Rightarrow> real" where
  "trial_days now t = (case pq_forced_days t of Some d \<Rightarrow> d | None \<Rightarrow> max 0 (total_seconds (now - pq_started_at t) / 86400))"

definition trial_reasons :: "paper_settings \<Rightarrow> real \<Rightarrow> paper_trial \<Rightarrow> msg list" where
  "trial_reasons s days t =
     (if days < pv_min_days s then [Fmt ''periodo {:.1f}d < {:.1f}d'' [ArgReal days, ArgReal (pv_min_days s)]] else [])
     @ (if pq_trades t < pv_min_trades s then [Fmt ''operaciones {} < {}'' [ArgInt (pq_trades t), ArgInt (pv_min_trades s)]] else [])
     @ (if pq_profit_factor t < pv_min_profit_factor s
        then [Fmt ''profit factor {:.2f} < {:.2f}'' [ArgReal (pq_profit_factor t), ArgReal (pv_min_profit_factor s)]] else [])
     @ (if pq_drawdown_pct t > pv_max_drawdown_pct s
        then [Fmt ''drawdown {:.1f}% > {:.1f}%'' [ArgReal (pq_drawdown_pct t), ArgReal (pv_max_drawdown_pct s)]] else [])"

definition trial_status :: "paper_settings \<Rightarrow> time \<Rightarrow> string \<Rightarrow> trials \<Rightarrow> py_error + paper_status" where
  "trial_status s now g ts = (case pd_get ts g of None \<Rightarrow> Inl (KeyError g)
     | Some t \<Rightarrow> let days = trial_days now t; why = trial_reasons s days t in
         Inr \<lparr> pt_genome_id = g, pt_matured = (why = []), pt_days = days, pt_trades = pq_trades t,
           pt_profit_factor = pq_profit_factor t, pt_drawdown_pct = pq_drawdown_pct t,
           pt_reasons = (if why = [] then [Lit ''madura: cumple el periodo y los minimos de evidencia''] else why) \<rparr>)"

lemma matured_iff:
  assumes "trial_status s now g ts = Inr p"
  shows "pt_matured p \<longleftrightarrow> pv_min_days s \<le> pt_days p \<and> pv_min_trades s \<le> pt_trades p
    \<and> pv_min_profit_factor s \<le> pt_profit_factor p \<and> pt_drawdown_pct p \<le> pv_max_drawdown_pct s"
proof -
  obtain t where p: "pt_matured p \<longleftrightarrow> trial_reasons s (trial_days now t) t = []" "pt_days p = trial_days now t" "pt_trades p = pq_trades t"
      "pt_profit_factor p = pq_profit_factor t" "pt_drawdown_pct p = pq_drawdown_pct t"
    using assms by (auto simp: trial_status_def Let_def split: option.splits)
  show ?thesis unfolding p by (simp add: trial_reasons_def not_less)
qed

section \<open>Promotion\<close>

record promotion_settings =
  pm_require_approval :: bool
  pm_require_beat_current :: bool
  pm_max_drift :: real
  pm_min_improvement :: real

definition default_promotion :: promotion_settings where
  "default_promotion = \<lparr> pm_require_approval = True, pm_require_beat_current = True, pm_max_drift = 1/4, pm_min_improvement = 1/20 \<rparr>"

record promotion_decision =
  pn_genome_id :: string
  pn_name :: string
  pn_approved :: bool
  pn_operator :: string
  pn_drift :: real
  pn_improvement :: real
  pn_reasons :: "msg list"
  pn_blockers :: "msg list"
  pn_decided_at :: time

definition pn_to_dict :: "pylib \<Rightarrow> promotion_decision \<Rightarrow> json_dict" where
  "pn_to_dict L d = [(''genome_id'', JStr (pn_genome_id d)), (''name'', JStr (pn_name d)), (''approved'', JBool (pn_approved d)),
     (''operator'', JStr (pn_operator d)), (''drift'', JNum (py_round 4 (pn_drift d))), (''improvement'', JNum (py_round 4 (pn_improvement d))),
     (''reasons'', JList (map (\<lambda>m. JStr (render L m)) (pn_reasons d))), (''blockers'', JList (map (\<lambda>m. JStr (render L m)) (pn_blockers d))),
     (''decided_at'', JStr (iso (pn_decided_at d)))]"

definition improvement_of :: "(string, real) pydict \<Rightarrow> candidate_report \<Rightarrow> (string, real) pydict \<Rightarrow> real" where
  "improvement_of objectives rep current = (let challenger = scalarize (cn_statistics rep) objectives in
     if current = [] then challenger else challenger - scalarize current objectives)"

text \<open>Each requirement gives a reason or a blocker.\<close>

definition promotion_checks :: "promotion_settings \<Rightarrow> candidate_report \<Rightarrow> paper_status option \<Rightarrow> (string, real) pydict \<Rightarrow> real \<Rightarrow> real \<Rightarrow> bool
    \<Rightarrow> (msg + msg) list" where
  "promotion_checks s rep paper current drift improvement approved =
     [if cn_passed rep then Inr (Lit ''pipeline de validacion superado'') else Inl (Lit ''no supero el pipeline de validacion''),
      case paper of Some p \<Rightarrow> if pt_matured p then Inr (Lit ''validacion paper madura'') else Inl (Lit ''validacion paper no completada'')
        | None \<Rightarrow> Inl (Lit ''validacion paper no completada''),
      if drift \<le> pm_max_drift s then Inr (Fmt ''sin drift significativo ({:.2f} <= {:.2f})'' [ArgReal drift, ArgReal (pm_max_drift s)])
        else Inl (Fmt ''drift {:.2f} > {:.2f}'' [ArgReal drift, ArgReal (pm_max_drift s)])]
     @ (if pm_require_beat_current s \<and> current \<noteq> [] then
          [if pm_min_improvement s \<le> improvement then Inr (Fmt ''supera a la vigente (mejora {:.3f})'' [ArgReal improvement])
           else Inl (Fmt ''no supera a la vigente (mejora {:.3f} < {:.3f})'' [ArgReal improvement, ArgReal (pm_min_improvement s)])]
        else if current = [] then [Inr (Lit ''no hay estrategia vigente que superar'')] else [])
     @ (if pm_require_approval s then
          [if approved then Inr (Lit ''aprobacion del operador registrada'') else Inl (Lit ''falta la aprobacion explicita del operador'')]
        else [])"

definition promotion_evaluate :: "promotion_settings \<Rightarrow> (string, real) pydict \<Rightarrow> time \<Rightarrow> strategy_genome \<Rightarrow> candidate_report
    \<Rightarrow> paper_status option \<Rightarrow> (string, real) pydict \<Rightarrow> real \<Rightarrow> bool \<Rightarrow> string \<Rightarrow> promotion_decision" where
  "promotion_evaluate s objectives now g rep paper current drift approved operator =
     (let imp = improvement_of objectives rep current; checks = promotion_checks s rep paper current drift imp approved;
          blockers = List.map_filter (\<lambda>c. case c of Inl m \<Rightarrow> Some m | Inr m \<Rightarrow> None) checks
      in \<lparr> pn_genome_id = ge_id g, pn_name = ge_name g, pn_approved = (blockers = []), pn_operator = operator, pn_drift = drift,
           pn_improvement = imp, pn_reasons = List.map_filter (\<lambda>c. case c of Inl m \<Rightarrow> None | Inr m \<Rightarrow> Some m) checks,
           pn_blockers = blockers, pn_decided_at = now \<rparr>)"

lemma map_filter_append: "List.map_filter f (xs @ ys) = List.map_filter f xs @ List.map_filter f ys"
  by (induction xs) (simp_all add: List.map_filter_simps split: option.split)

lemma approved_iff:
  "pn_approved (promotion_evaluate s objectives now g rep paper current drift approved operator) \<longleftrightarrow>
     cn_passed rep \<and> (\<exists>p. paper = Some p \<and> pt_matured p) \<and> drift \<le> pm_max_drift s
     \<and> (pm_require_beat_current s \<and> current \<noteq> [] \<longrightarrow>
          pm_min_improvement s \<le> scalarize (cn_statistics rep) objectives - scalarize current objectives)
     \<and> (pm_require_approval s \<longrightarrow> approved)"
  by (auto simp: promotion_evaluate_def promotion_checks_def Let_def map_filter_append List.map_filter_simps improvement_of_def split: option.split)

lemma approved_blockers:
  "pn_approved (promotion_evaluate s objectives now g rep paper current drift approved operator) \<longleftrightarrow>
     pn_blockers (promotion_evaluate s objectives now g rep paper current drift approved operator) = []"
  by (simp add: promotion_evaluate_def Let_def)

section \<open>Candidates\<close>

record production_candidate =
  pk_genome :: strategy_genome
  pk_report :: candidate_report
  pk_status :: candidate_status
  pk_paper :: "paper_status option"
  pk_promotion :: "promotion_decision option"
  pk_registered_at :: string

definition pk_key :: "production_candidate \<Rightarrow> string" where "pk_key c = ge_id (pk_genome c)"

definition pk_to_json :: "pylib \<Rightarrow> (json \<Rightarrow> string) \<Rightarrow> production_candidate \<Rightarrow> json" where
  "pk_to_json L sig c = JObj [(''genome'', JObj (genome_to_dict sig (pk_genome c))), (''report'', JObj (cn_to_dict L (pk_report c))),
     (''status'', JStr (candidate_value (pk_status c))),
     (''paper'', case pk_paper c of None \<Rightarrow> JNull | Some p \<Rightarrow> JObj (pt_to_dict L p)),
     (''promotion'', case pk_promotion c of None \<Rightarrow> JNull | Some d \<Rightarrow> JObj (pn_to_dict L d)),
     (''registered_at'', JStr (pk_registered_at c))]"

definition paper_from_json :: "pylib \<Rightarrow> json \<Rightarrow> py_error + paper_status option" where
  "paper_from_json L j = (if \<not> py_bool j then Inr None else ebind (as_object j) (\<lambda>p.
     ebind (field_text p ''genome_id'') (\<lambda>g. ebind (jitem p ''matured'') (\<lambda>m. ebind (ebind (jitem p ''days'') (py_float L)) (\<lambda>days.
     ebind (ebind (jitem p ''trades'') py_int_of) (\<lambda>n. ebind (ebind (jitem p ''profit_factor'') (py_float L)) (\<lambda>pf.
     ebind (ebind (jitem p ''drawdown_pct'') (py_float L)) (\<lambda>dd. ebind (reasons_of (jget p ''reasons'' (JList []))) (\<lambda>rs.
       Inr (Some \<lparr> pt_genome_id = g, pt_matured = py_bool m, pt_days = days, pt_trades = n, pt_profit_factor = pf,
         pt_drawdown_pct = dd, pt_reasons = rs \<rparr>))))))))))"

text \<open>The moment of the decision is not read back: it becomes the moment of the reading.\<close>

definition promotion_from_json :: "pylib \<Rightarrow> time \<Rightarrow> json \<Rightarrow> py_error + promotion_decision option" where
  "promotion_from_json L now j = (if \<not> py_bool j then Inr None else ebind (as_object j) (\<lambda>p.
     ebind (field_text p ''genome_id'') (\<lambda>g. ebind (field_text p ''name'') (\<lambda>n. ebind (jitem p ''approved'') (\<lambda>a.
     ebind (json_text (jget p ''operator'' (JStr []))) (\<lambda>op. ebind (py_float L (jget p ''drift'' (JNum 0))) (\<lambda>dr.
     ebind (py_float L (jget p ''improvement'' (JNum 0))) (\<lambda>im. ebind (reasons_of (jget p ''reasons'' (JList []))) (\<lambda>rs.
     ebind (reasons_of (jget p ''blockers'' (JList []))) (\<lambda>bs.
       Inr (Some \<lparr> pn_genome_id = g, pn_name = n, pn_approved = py_bool a, pn_operator = op, pn_drift = dr, pn_improvement = im,
         pn_reasons = rs, pn_blockers = bs, pn_decided_at = now \<rparr>)))))))))))"

definition pk_from_json :: "pylib \<Rightarrow> time \<Rightarrow> json \<Rightarrow> py_error + production_candidate" where
  "pk_from_json L now j = ebind (as_object j) (\<lambda>d.
     ebind (paper_from_json L (jget d ''paper'' JNull)) (\<lambda>paper. ebind (promotion_from_json L now (jget d ''promotion'' JNull)) (\<lambda>promotion.
     ebind (ebind (ebind (jitem d ''genome'') as_object) (genome_from_dict L)) (\<lambda>g.
     ebind (ebind (ebind (jitem d ''report'') as_object) (cn_from_dict L)) (\<lambda>rep.
     ebind (ebind (field_text d ''status'') parse_candidate) (\<lambda>st.
     ebind (json_text (jget d ''registered_at'' (JStr (iso now)))) (\<lambda>reg.
       Inr \<lparr> pk_genome = g, pk_report = rep, pk_status = st, pk_paper = paper, pk_promotion = promotion, pk_registered_at = reg \<rparr>)))))))"

text \<open>What a line keeps: the texts as they were written, the numbers of the paper trial and of the decision rounded.\<close>

definition kept_paper :: "pylib \<Rightarrow> paper_status \<Rightarrow> paper_status" where
  "kept_paper L p = p\<lparr> pt_days := py_round 3 (pt_days p), pt_profit_factor := py_round 4 (pt_profit_factor p),
     pt_drawdown_pct := py_round 4 (pt_drawdown_pct p), pt_reasons := map (written L) (pt_reasons p) \<rparr>"

definition kept_promotion :: "pylib \<Rightarrow> time \<Rightarrow> promotion_decision \<Rightarrow> promotion_decision" where
  "kept_promotion L now d = d\<lparr> pn_drift := py_round 4 (pn_drift d), pn_improvement := py_round 4 (pn_improvement d),
     pn_reasons := map (written L) (pn_reasons d), pn_blockers := map (written L) (pn_blockers d), pn_decided_at := now \<rparr>"

definition kept_candidate :: "pylib \<Rightarrow> time \<Rightarrow> production_candidate \<Rightarrow> production_candidate" where
  "kept_candidate L now c = c\<lparr> pk_report := stored_report L (pk_report c), pk_paper := map_option (kept_paper L) (pk_paper c),
     pk_promotion := map_option (kept_promotion L now) (pk_promotion c) \<rparr>"

lemma paper_round_trip: "paper_from_json L (JObj (pt_to_dict L p)) = Inr (Some (kept_paper L p))"
  by (simp add: paper_from_json_def pt_to_dict_def as_object_def field_text_def json_text_def py_bool_def py_int_of_def kept_paper_def
      reasons_round_trip json_lookup)

lemma promotion_round_trip: "promotion_from_json L now (JObj (pn_to_dict L d)) = Inr (Some (kept_promotion L now d))"
  by (simp add: promotion_from_json_def pn_to_dict_def as_object_def field_text_def json_text_def py_bool_def kept_promotion_def
      reasons_round_trip json_lookup)

lemma nothing_from_json [simp]: "paper_from_json L JNull = Inr None" "promotion_from_json L now JNull = Inr None"
  by (simp_all add: paper_from_json_def promotion_from_json_def py_bool_def)

lemma candidate_round_trip:
  assumes "wf_time (cn_created_at (pk_report c))"
  shows "pk_from_json L now (pk_to_json L sig c) = Inr (kept_candidate L now c)"
proof -
  have p: "paper_from_json L (case pk_paper c of None \<Rightarrow> JNull | Some p \<Rightarrow> JObj (pt_to_dict L p)) = Inr (map_option (kept_paper L) (pk_paper c))"
    by (cases "pk_paper c") (simp_all add: paper_round_trip)
  have d: "promotion_from_json L now (case pk_promotion c of None \<Rightarrow> JNull | Some d \<Rightarrow> JObj (pn_to_dict L d))
      = Inr (map_option (kept_promotion L now) (pk_promotion c))"
    by (cases "pk_promotion c") (simp_all add: promotion_round_trip)
  show ?thesis
    by (simp add: pk_from_json_def pk_to_json_def as_object_def field_text_def json_text_def json_lookup p d genome_round_trip
        report_round_trip [OF assms] kept_candidate_def)
qed

interpretation candidates: versioned_log "pk_from_json L now" "pk_to_json L sig" pk_key "kept_candidate L now"
  "\<lambda>c. wf_time (cn_created_at (pk_report c))" for L now sig
  by unfold_locales (simp_all add: candidate_round_trip pk_key_def kept_candidate_def)

end
