(* ===== verification/Research_Lab.thy ===== *)
theory Research_Lab
  imports Research_Candidates
begin

text \<open>
  The operations of the research laboratory that lead a strategy from a genome to a promotion (\<open>research/api.py\<close>), and the safety of
  that path.  The generation cycle registers its genomes as \<open>lab_record\<close> does.  Every \<open>bool\<close> of an operation says whether a write to disk succeeds; a restart replays the file of candidates and
  starts with no paper trial.
\<close>

section \<open>State and operations\<close>

record research_config =
  rf_lib :: pylib
  rf_signature :: "json \<Rightarrow> string"
  rf_laboratory :: laboratory
  rf_pipeline :: pipeline_settings
  rf_criteria :: qualification_criteria
  rf_objective :: string
  rf_review :: "ml_review option"
  rf_paper :: paper_settings
  rf_promotion :: promotion_settings
  rf_objectives :: "(string, real) pydict"

record research_lab =
  rl_candidates :: "production_candidate registry"
  rl_trials :: trials
  rl_knowledge :: knowledge

datatype lab_error = LAB_PIPELINE pipeline_error | LAB_STORE store_error | LAB_LOOKUP py_error

definition new_lab :: "bool \<Rightarrow> research_lab" where
  "new_lab persist = \<lparr> rl_candidates = \<lparr> rg_has_path = persist, rg_index = [], rg_file = None \<rparr>, rl_trials = [],
     rl_knowledge = \<lparr> kn_has_path = persist, kn_entries = [], kn_file = None \<rparr> \<rparr>"

definition new_candidate :: "time \<Rightarrow> strategy_genome \<Rightarrow> candidate_report \<Rightarrow> production_candidate" where
  "new_candidate now g rep = \<lparr> pk_genome = g, pk_report = rep, pk_status = CA_CANDIDATE, pk_paper = None, pk_promotion = None,
     pk_registered_at = iso now \<rparr>"

definition change_candidate :: "research_config \<Rightarrow> bool \<Rightarrow> string \<Rightarrow> (production_candidate \<Rightarrow> production_candidate) \<Rightarrow> research_lab
    \<Rightarrow> (store_error + production_candidate) \<times> research_lab" where
  "change_candidate cfg ok k f lab =
     (case rg_change (pk_to_json (rf_lib cfg) (rf_signature cfg)) pk_key ok k f (rl_candidates lab) of
        (r, s) \<Rightarrow> (r, lab\<lparr> rl_candidates := s \<rparr>))"

definition set_status :: "candidate_status \<Rightarrow> production_candidate \<Rightarrow> production_candidate" where
  "set_status st c = c\<lparr> pk_status := st \<rparr>"

definition attach_paper :: "paper_status \<Rightarrow> production_candidate \<Rightarrow> production_candidate" where
  "attach_paper p c = c\<lparr> pk_paper := Some p, pk_status := CA_PAPER \<rparr>"

definition attach_promotion :: "promotion_decision \<Rightarrow> production_candidate \<Rightarrow> production_candidate" where
  "attach_promotion d c = c\<lparr> pk_promotion := Some d, pk_status := (if pn_approved d then CA_PROMOTED else CA_REJECTED) \<rparr>"

text \<open>The lesson is recorded first; a candidate is registered only when its report passed.\<close>

definition lab_record :: "research_config \<Rightarrow> string \<Rightarrow> time \<Rightarrow> bool \<Rightarrow> bool \<Rightarrow> candidate_report \<Rightarrow> strategy_genome \<Rightarrow> research_lab
    \<Rightarrow> (store_error + unit) \<times> research_lab" where
  "lab_record cfg new now kb_ok ok rep g lab =
     (case kn_record_candidate (rf_lib cfg) kb_ok new now rep g (rl_knowledge lab) of
        (Inl e, kb) \<Rightarrow> (Inl e, lab\<lparr> rl_knowledge := kb \<rparr>)
      | (Inr j, kb) \<Rightarrow> let lab1 = lab\<lparr> rl_knowledge := kb \<rparr> in
          if \<not> cn_passed rep then (Inr (), lab1)
          else (case rg_append (pk_to_json (rf_lib cfg) (rf_signature cfg)) pk_key ok (new_candidate now g rep) (rl_candidates lab1) of
                  (r, s) \<Rightarrow> (map_sum id (\<lambda>c. ()) r, lab1\<lparr> rl_candidates := s \<rparr>)))"

definition validate_candidate :: "research_config \<Rightarrow> string \<Rightarrow> time \<Rightarrow> bool \<Rightarrow> bool \<Rightarrow> bool \<Rightarrow> strategy_genome \<Rightarrow> md_candle list \<Rightarrow> backtest_config
    \<Rightarrow> research_lab \<Rightarrow> (lab_error + candidate_report) \<times> research_lab" where
  "validate_candidate cfg new now kb_ok ok register g cs bc lab =
     (case pipeline_evaluate (rf_lib cfg) (rf_laboratory cfg) (rf_pipeline cfg) (rf_criteria cfg) (rf_objective cfg) (rf_review cfg)
             now g cs bc of
        Inl e \<Rightarrow> (Inl (LAB_PIPELINE e), lab)
      | Inr rep \<Rightarrow> if \<not> register then (Inr rep, lab)
          else (case lab_record cfg new now kb_ok ok rep g lab of
                  (Inl e, lab1) \<Rightarrow> (Inl (LAB_STORE e), lab1) | (Inr u, lab1) \<Rightarrow> (Inr rep, lab1)))"

definition start_paper :: "time \<Rightarrow> string \<Rightarrow> research_lab \<Rightarrow> research_lab" where
  "start_paper now k lab = lab\<lparr> rl_trials := trial_open now k (rl_trials lab) \<rparr>"

definition update_paper :: "research_config \<Rightarrow> time \<Rightarrow> bool \<Rightarrow> string \<Rightarrow> (string, real) pydict \<Rightarrow> research_lab
    \<Rightarrow> (lab_error + paper_status) \<times> research_lab" where
  "update_paper cfg now ok k stats lab =
     (case trial_update_stats k stats (rl_trials lab) of
        Inl e \<Rightarrow> (Inl (LAB_LOOKUP e), lab)
      | Inr ts \<Rightarrow> let lab1 = lab\<lparr> rl_trials := ts \<rparr> in
          (case trial_status (rf_paper cfg) now k ts of
             Inl e \<Rightarrow> (Inl (LAB_LOOKUP e), lab1)
           | Inr p \<Rightarrow> if pd_get (rg_index (rl_candidates lab1)) k = None then (Inr p, lab1)
               else (case change_candidate cfg ok k (attach_paper p) lab1 of
                       (Inl e, lab2) \<Rightarrow> (Inl (LAB_STORE e), lab2) | (Inr c, lab2) \<Rightarrow> (Inr p, lab2))))"

definition promote_strategy :: "research_config \<Rightarrow> time \<Rightarrow> bool \<Rightarrow> string \<Rightarrow> string \<Rightarrow> bool \<Rightarrow> (string, real) pydict \<Rightarrow> real \<Rightarrow> research_lab
    \<Rightarrow> (lab_error + promotion_decision) \<times> research_lab" where
  "promote_strategy cfg now ok k operator approved current drift lab =
     (case pd_get (rg_index (rl_candidates lab)) k of
        None \<Rightarrow> (Inl (LAB_STORE (UNREGISTERED k)), lab)
      | Some c \<Rightarrow> let d = promotion_evaluate (rf_promotion cfg) (rf_objectives cfg) now (pk_genome c) (pk_report c) (pk_paper c)
                         current drift approved operator in
          (case change_candidate cfg ok k (attach_promotion d) lab of
             (Inl e, lab1) \<Rightarrow> (Inl (LAB_STORE e), lab1) | (Inr c1, lab1) \<Rightarrow> (Inr d, lab1)))"

definition reject_strategy :: "research_config \<Rightarrow> bool \<Rightarrow> string \<Rightarrow> research_lab \<Rightarrow> (lab_error + production_candidate) \<times> research_lab" where
  "reject_strategy cfg ok k lab = (case change_candidate cfg ok k (set_status CA_REJECTED) lab of (r, lab1) \<Rightarrow> (map_sum LAB_STORE id r, lab1))"

text \<open>A new process; when a line does not read, the laboratory does not start.\<close>

definition lab_restart :: "research_config \<Rightarrow> time \<Rightarrow> research_lab \<Rightarrow> py_error + research_lab" where
  "lab_restart cfg now lab =
     ebind (rg_open (pk_from_json (rf_lib cfg) now) pk_key (rg_has_path (rl_candidates lab)) (rg_file (rl_candidates lab))) (\<lambda>s.
     ebind (kn_open (kn_has_path (rl_knowledge lab)) (kn_file (rl_knowledge lab))) (\<lambda>kb.
       Inr \<lparr> rl_candidates = s, rl_trials = [], rl_knowledge = kb \<rparr>))"

definition candidates_listed :: "candidate_status option \<Rightarrow> research_lab \<Rightarrow> production_candidate list" where
  "candidates_listed st lab = filter (\<lambda>c. st = None \<or> st = Some (pk_status c))
     (rev (sort_key (\<lambda>c. map (of_char :: char \<Rightarrow> nat) (pk_registered_at c)) (rev (pd_values (rg_index (rl_candidates lab))))))"

section \<open>Promotion is fail-closed\<close>

datatype lab_op =
    LabValidate string time bool bool bool strategy_genome "md_candle list" backtest_config
  | LabStartPaper time string
  | LabUpdatePaper time bool string "(string, real) pydict"
  | LabPromote time bool string string bool "(string, real) pydict" real
  | LabReject bool string
  | LabRestart time

fun lab_do :: "research_config \<Rightarrow> lab_op \<Rightarrow> research_lab \<Rightarrow> research_lab" where
  "lab_do cfg (LabValidate new now kb_ok ok register g cs bc) lab = snd (validate_candidate cfg new now kb_ok ok register g cs bc lab)"
| "lab_do cfg (LabStartPaper now k) lab = start_paper now k lab"
| "lab_do cfg (LabUpdatePaper now ok k stats) lab = snd (update_paper cfg now ok k stats lab)"
| "lab_do cfg (LabPromote now ok k operator approved current drift) lab = snd (promote_strategy cfg now ok k operator approved current drift lab)"
| "lab_do cfg (LabReject ok k) lab = snd (reject_strategy cfg ok k lab)"
| "lab_do cfg (LabRestart now) lab = (case lab_restart cfg now lab of Inl e \<Rightarrow> lab | Inr lab1 \<Rightarrow> lab1)"

definition lab_run :: "research_config \<Rightarrow> lab_op list \<Rightarrow> research_lab \<Rightarrow> research_lab" where
  "lab_run cfg ops lab = fold (lab_do cfg) ops lab"

fun op_time_ok :: "lab_op \<Rightarrow> bool" where
  "op_time_ok (LabValidate new now kb_ok ok register g cs bc) = wf_time now"
| "op_time_ok op = True"

text \<open>What a candidate, a matured trial and a promotion must have behind them.\<close>

definition passed_pipeline :: "research_config \<Rightarrow> lab_op list \<Rightarrow> string \<Rightarrow> bool" where
  "passed_pipeline cfg ops k \<longleftrightarrow> (\<exists>new now kb_ok ok g cs bc rep. LabValidate new now kb_ok ok True g cs bc \<in> set ops \<and> ge_id g = k
     \<and> pipeline_evaluate (rf_lib cfg) (rf_laboratory cfg) (rf_pipeline cfg) (rf_criteria cfg) (rf_objective cfg) (rf_review cfg) now g cs bc
         = Inr rep \<and> cn_passed rep)"

definition matured_paper :: "research_config \<Rightarrow> lab_op list \<Rightarrow> string \<Rightarrow> bool" where
  "matured_paper cfg ops k \<longleftrightarrow> (\<exists>t0 t1 ok stats. LabStartPaper t0 k \<in> set ops \<and> LabUpdatePaper t1 ok k stats \<in> set ops
     \<and> pv_min_days (rf_paper cfg) \<le> max 0 (total_seconds (t1 - t0) / 86400)
     \<and> pv_min_trades (rf_paper cfg) \<le> py_int (pd_get_or stats ''total_trades'' 0)
     \<and> pv_min_profit_factor (rf_paper cfg) \<le> pd_get_or stats ''profit_factor'' 0
     \<and> pd_get_or stats ''max_drawdown_pct'' 0 \<le> pv_max_drawdown_pct (rf_paper cfg))"

definition promotion_backed :: "research_config \<Rightarrow> lab_op list \<Rightarrow> production_candidate \<Rightarrow> bool" where
  "promotion_backed cfg ops c \<longleftrightarrow> cn_passed (pk_report c) \<and> (\<exists>p. pk_paper c = Some p \<and> pt_matured p)
     \<and> (\<exists>d. pk_promotion c = Some d \<and> pn_approved d \<and> pn_blockers d = [])
     \<and> (\<exists>now ok operator approved current drift. LabPromote now ok (pk_key c) operator approved current drift \<in> set ops
          \<and> drift \<le> pm_max_drift (rf_promotion cfg) \<and> (pm_require_approval (rf_promotion cfg) \<longrightarrow> approved))"

definition candidate_ok :: "research_config \<Rightarrow> lab_op list \<Rightarrow> production_candidate \<Rightarrow> bool" where
  "candidate_ok cfg ops c \<longleftrightarrow> wf_time (cn_created_at (pk_report c)) \<and> passed_pipeline cfg ops (pk_key c)
     \<and> (\<forall>p. pk_paper c = Some p \<and> pt_matured p \<longrightarrow> matured_paper cfg ops (pk_key c))
     \<and> (pk_status c = CA_PROMOTED \<longrightarrow> promotion_backed cfg ops c)"

definition store_ok :: "research_config \<Rightarrow> lab_op list \<Rightarrow> production_candidate registry \<Rightarrow> bool" where
  "store_ok cfg ops s \<longleftrightarrow> (\<forall>(k, c)\<in>set (rg_index s). k = pk_key c \<and> candidate_ok cfg ops c)
     \<and> (\<forall>j. JsonLine j \<in> set (disk_lines (rg_file s)) \<longrightarrow>
          (\<exists>c. j = pk_to_json (rf_lib cfg) (rf_signature cfg) c \<and> candidate_ok cfg ops c))"

definition trials_ok :: "lab_op list \<Rightarrow> trials \<Rightarrow> bool" where
  "trials_ok ops ts \<longleftrightarrow> (\<forall>(k, t)\<in>set ts. pq_forced_days t = None \<and> LabStartPaper (pq_started_at t) k \<in> set ops)"

definition lab_ok :: "research_config \<Rightarrow> lab_op list \<Rightarrow> research_lab \<Rightarrow> bool" where
  "lab_ok cfg ops lab \<longleftrightarrow> store_ok cfg ops (rl_candidates lab) \<and> trials_ok ops (rl_trials lab)"

lemma backed_more:
  "passed_pipeline cfg ops k \<Longrightarrow> passed_pipeline cfg (ops @ ops') k"
  "matured_paper cfg ops k \<Longrightarrow> matured_paper cfg (ops @ ops') k"
  "promotion_backed cfg ops c \<Longrightarrow> promotion_backed cfg (ops @ ops') c"
  unfolding passed_pipeline_def matured_paper_def promotion_backed_def set_append by blast+

lemma candidate_ok_more: "candidate_ok cfg ops c \<Longrightarrow> candidate_ok cfg (ops @ ops') c"
  unfolding candidate_ok_def using backed_more by blast

lemma lab_ok_more: "lab_ok cfg ops lab \<Longrightarrow> lab_ok cfg (ops @ ops') lab"
  unfolding lab_ok_def store_ok_def trials_ok_def using candidate_ok_more by (fastforce simp: case_prod_unfold)

lemma kept_candidate_ok: "candidate_ok cfg ops c \<Longrightarrow> candidate_ok cfg ops (kept_candidate L now c)"
  by (auto simp: candidate_ok_def promotion_backed_def kept_candidate_def stored_report_def kept_paper_def kept_promotion_def pk_key_def)

lemma append_store_ok:
  assumes "store_ok cfg ops s" "candidate_ok cfg ops c"
  shows "store_ok cfg ops (snd (rg_append (pk_to_json (rf_lib cfg) (rf_signature cfg)) pk_key ok c s))"
proof -
  have "\<forall>(k, c)\<in>set (pd_put (rg_index s) (pk_key c) c). k = pk_key c \<and> candidate_ok cfg ops c"
    using assms by (auto simp: store_ok_def dest: pd_put_member)
  moreover have "set (disk_kept (rg_file s)) \<subseteq> set (disk_lines (rg_file s))" by (auto simp: disk_kept_def dest: in_set_butlastD)
  ultimately show ?thesis using assms by (auto simp: rg_append_def Let_def store_ok_def)
qed

lemma change_lab_ok:
  assumes "lab_ok cfg ops lab"
    "\<And>c. pd_get (rg_index (rl_candidates lab)) k = Some c \<Longrightarrow> candidate_ok cfg ops c \<Longrightarrow> pk_key c = k \<Longrightarrow> candidate_ok cfg ops (f c)"
  shows "lab_ok cfg ops (snd (change_candidate cfg ok k f lab))"
proof (cases "pd_get (rg_index (rl_candidates lab)) k")
  case None
  then show ?thesis using assms(1) by (simp add: change_candidate_def rg_change_def)
next
  case (Some c)
  have s: "store_ok cfg ops (rl_candidates lab)" using assms(1) by (simp add: lab_ok_def)
  have "(k, c) \<in> set (rg_index (rl_candidates lab))" using Some by (simp add: pd_get_def map_of_SomeD)
  then have "candidate_ok cfg ops c" "pk_key c = k" using s by (auto simp: store_ok_def)
  then have "candidate_ok cfg ops (f c)" using assms(2) [OF Some] by blast
  then show ?thesis using append_store_ok [OF s] assms(1) by (simp add: lab_ok_def change_candidate_def rg_change_def Some case_prod_unfold)
qed

lemma validate_ok:
  assumes "lab_ok cfg ops lab" "wf_time now" "LabValidate new now kb_ok ok register g cs bc \<in> set ops"
  shows "lab_ok cfg ops (snd (validate_candidate cfg new now kb_ok ok register g cs bc lab))"
proof (cases "pipeline_evaluate (rf_lib cfg) (rf_laboratory cfg) (rf_pipeline cfg) (rf_criteria cfg) (rf_objective cfg) (rf_review cfg) now g cs bc")
  case (Inl e)
  then show ?thesis using assms by (simp add: validate_candidate_def)
next
  case (Inr rep)
  have new: "candidate_ok cfg ops (new_candidate now g rep)" if "cn_passed rep" register
  proof -
    have "LabValidate new now kb_ok ok True g cs bc \<in> set ops" using assms(3) that by simp
    then have "passed_pipeline cfg ops (ge_id g)" using Inr that(1) unfolding passed_pipeline_def by blast
    then show ?thesis using pipeline_reasons(6) [OF Inr] assms(2) by (simp add: candidate_ok_def new_candidate_def pk_key_def)
  qed
  have "lab_ok cfg ops (snd (lab_record cfg new now kb_ok ok rep g lab))" if register
    using assms(1) append_store_ok [OF _ new [OF _ that]] by (simp add: lab_ok_def lab_record_def Let_def case_prod_unfold split: sum.split)
  then show ?thesis using assms(1) by (simp add: validate_candidate_def Inr case_prod_unfold split: sum.split)
qed

lemma restart_ok:
  assumes "lab_ok cfg ops lab" "lab_restart cfg now lab = Inr lab'"
  shows "lab_ok cfg ops lab'"
proof -
  let ?s = "rl_candidates lab" and ?rd = "pk_from_json (rf_lib cfg) now"
  have s: "store_ok cfg ops ?s" using assms(1) by (simp add: lab_ok_def)
  obtain d where d: "(if rg_has_path ?s then replay_lines ?rd pk_key (disk_lines (rg_file ?s)) else Inr []) = Inr d"
      and lab': "rl_candidates lab' = \<lparr> rg_has_path = rg_has_path ?s, rg_index = d, rg_file = rg_file ?s \<rparr>" "rl_trials lab' = []"
    using assms(2) by (auto simp: lab_restart_def rg_open_def log_text_def ebind_Inr_iff split: if_splits)
  have "k = pk_key c \<and> candidate_ok cfg ops c" if "(k, c) \<in> set d" for k c
  proof -
    have "replay_lines ?rd pk_key (disk_lines (rg_file ?s)) = Inr d" using d that by (auto split: if_splits)
    from replay_inv [OF this that] obtain j where k: "k = pk_key c" and j: "JsonLine j \<in> set (disk_lines (rg_file ?s))" "?rd j = Inr c" by blast
    then obtain c0 where c0: "j = pk_to_json (rf_lib cfg) (rf_signature cfg) c0" "candidate_ok cfg ops c0"
      using s unfolding store_ok_def by blast
    then have "c = kept_candidate (rf_lib cfg) now c0" using j(2) by (simp add: candidate_round_trip candidate_ok_def)
    then show ?thesis using kept_candidate_ok [OF c0(2)] k by simp
  qed
  then show ?thesis using s by (auto simp: lab' lab_ok_def store_ok_def trials_ok_def)
qed

lemma promote_candidate_ok:
  assumes "LabPromote now ok k operator approved current drift \<in> set ops" "pk_key c = k" "candidate_ok cfg ops c"
  shows "candidate_ok cfg ops (attach_promotion (promotion_evaluate (rf_promotion cfg) objectives now (pk_genome c) (pk_report c)
    (pk_paper c) current drift approved operator) c)"
proof -
  define d where "d = promotion_evaluate (rf_promotion cfg) objectives now (pk_genome c) (pk_report c) (pk_paper c) current drift approved operator"
  have fields: "pk_report (attach_promotion d c) = pk_report c" "pk_key (attach_promotion d c) = k" "pk_paper (attach_promotion d c) = pk_paper c"
      "pk_promotion (attach_promotion d c) = Some d" "pk_status (attach_promotion d c) = CA_PROMOTED \<longleftrightarrow> pn_approved d"
    using assms(2) by (simp_all add: attach_promotion_def pk_key_def)
  have "promotion_backed cfg ops (attach_promotion d c)" if a: "pn_approved d"
  proof -
    have "pn_blockers d = []" using a approved_blockers unfolding d_def by blast
    moreover have "cn_passed (pk_report c) \<and> (\<exists>p. pk_paper c = Some p \<and> pt_matured p) \<and> drift \<le> pm_max_drift (rf_promotion cfg)
        \<and> (pm_require_approval (rf_promotion cfg) \<longrightarrow> approved)"
      using a approved_iff unfolding d_def by blast
    ultimately show ?thesis using a assms(1) unfolding promotion_backed_def fields by blast
  qed
  then show ?thesis using assms(2,3) fields unfolding candidate_ok_def d_def by metis
qed

text \<open>The paper state an update attaches is backed by the start of the trial and by the figures of the update.\<close>

lemma update_matured:
  assumes "trials_ok ops ts" "LabUpdatePaper now ok k stats \<in> set ops" "trial_update_stats k stats ts = Inr ts'"
    "trial_status (rf_paper cfg) now k ts' = Inr p" "pt_matured p"
  shows "matured_paper cfg ops k"
proof -
  let ?upd = "\<lambda>t. t\<lparr> pq_trades := py_int (pd_get_or stats ''total_trades'' 0), pq_profit_factor := pd_get_or stats ''profit_factor'' 0,
      pq_drawdown_pct := pd_get_or stats ''max_drawdown_pct'' 0 \<rparr>"
  obtain t where t: "pd_get ts k = Some t" "ts' = pd_put ts k (?upd t)"
    using assms(3) by (auto simp: trial_update_stats_def trial_update_def trial_change_def split: option.splits)
  have "(k, t) \<in> set ts" using t(1) by (simp add: pd_get_def map_of_SomeD)
  then have "pq_forced_days t = None" "LabStartPaper (pq_started_at t) k \<in> set ops" using assms(1) by (auto simp: trials_ok_def)
  moreover have "pd_get ts' k = Some (?upd t)" by (simp add: t(2))
  moreover have "trial_reasons (rf_paper cfg) (trial_days now (?upd t)) (?upd t) = []"
    using assms(4,5) \<open>pd_get ts' k = Some (?upd t)\<close> by (auto simp: trial_status_def Let_def)
  ultimately show ?thesis using assms(2) unfolding matured_paper_def
    by (intro exI [of _ "pq_started_at t"] exI [of _ now] exI [of _ ok] exI [of _ stats]) (auto simp: trial_reasons_def trial_days_def split: if_splits)
qed

lemma update_trials_ok:
  assumes "trials_ok ops ts" "trial_update_stats k stats ts = Inr ts'"
  shows "trials_ok ops ts'"
proof -
  obtain t f where t: "pd_get ts k = Some t" "ts' = pd_put ts k (f t)" "pq_forced_days (f t) = pq_forced_days t" "pq_started_at (f t) = pq_started_at t"
    using assms(2) by (fastforce simp: trial_update_stats_def trial_update_def trial_change_def split: option.splits)
  have "(k, t) \<in> set ts" using t(1) by (simp add: pd_get_def map_of_SomeD)
  then show ?thesis using assms(1) t unfolding trials_ok_def by (fastforce dest: pd_put_member)
qed

lemma update_ok:
  assumes "lab_ok cfg ops lab" "LabUpdatePaper now ok k stats \<in> set ops"
  shows "lab_ok cfg ops (snd (update_paper cfg now ok k stats lab))"
proof (cases "trial_update_stats k stats (rl_trials lab)")
  case (Inl e)
  then show ?thesis using assms(1) by (simp add: update_paper_def)
next
  case ts: (Inr ts)
  have tr: "trials_ok ops (rl_trials lab)" using assms(1) by (simp add: lab_ok_def)
  have lab1: "lab_ok cfg ops (lab\<lparr> rl_trials := ts \<rparr>)" using assms(1) update_trials_ok [OF tr ts] by (simp add: lab_ok_def)
  show ?thesis
  proof (cases "trial_status (rf_paper cfg) now k ts")
    case (Inl e)
    then show ?thesis using lab1 by (simp add: update_paper_def ts Let_def)
  next
    case (Inr p)
    have "candidate_ok cfg ops (attach_paper p c)" if "candidate_ok cfg ops c" "pk_key c = k" for c
      using that update_matured [OF tr assms(2) ts Inr] by (auto simp: candidate_ok_def attach_paper_def pk_key_def)
    then have "lab_ok cfg ops (snd (change_candidate cfg ok k (attach_paper p) (lab\<lparr> rl_trials := ts \<rparr>)))"
      by (intro change_lab_ok [OF lab1])
    then show ?thesis using lab1 by (simp add: update_paper_def ts Inr Let_def case_prod_unfold split: sum.split)
  qed
qed

lemma promote_ok:
  assumes "lab_ok cfg ops lab" "LabPromote now ok k operator approved current drift \<in> set ops"
  shows "lab_ok cfg ops (snd (promote_strategy cfg now ok k operator approved current drift lab))"
proof (cases "pd_get (rg_index (rl_candidates lab)) k")
  case None
  then show ?thesis using assms(1) by (simp add: promote_strategy_def)
next
  case (Some c)
  let ?d = "promotion_evaluate (rf_promotion cfg) (rf_objectives cfg) now (pk_genome c) (pk_report c) (pk_paper c) current drift approved operator"
  have "lab_ok cfg ops (snd (change_candidate cfg ok k (attach_promotion ?d) lab))"
    using Some promote_candidate_ok [OF assms(2)] by (intro change_lab_ok [OF assms(1)]) auto
  then show ?thesis by (simp add: promote_strategy_def Some Let_def case_prod_unfold split: sum.split)
qed

lemma lab_do_ok:
  assumes "lab_ok cfg ops lab" "op_time_ok op" "op \<in> set ops"
  shows "lab_ok cfg ops (lab_do cfg op lab)"
proof (cases op)
  case (LabValidate new now kb_ok ok register g cs bc)
  then show ?thesis using validate_ok [OF assms(1)] assms(2,3) by simp
next
  case (LabStartPaper now k)
  then show ?thesis using assms(1,3) by (auto simp: lab_ok_def start_paper_def trials_ok_def trial_open_def dest: pd_put_member)
next
  case (LabUpdatePaper now ok k stats)
  then show ?thesis using update_ok [OF assms(1)] assms(3) by simp
next
  case (LabPromote now ok k operator approved current drift)
  then show ?thesis using promote_ok [OF assms(1)] assms(3) by simp
next
  case (LabReject ok k)
  have "lab_ok cfg ops (snd (change_candidate cfg ok k (set_status CA_REJECTED) lab))"
    by (rule change_lab_ok [OF assms(1)]) (auto simp: candidate_ok_def set_status_def pk_key_def)
  then show ?thesis by (simp add: LabReject reject_strategy_def case_prod_unfold)
next
  case (LabRestart now)
  then show ?thesis using assms(1) restart_ok [OF assms(1)] by (simp split: sum.split)
qed

lemma lab_run_ok:
  assumes "list_all op_time_ok ops"
  shows "lab_ok cfg ops (lab_run cfg ops (new_lab persist))"
  using assms
proof (induction ops rule: rev_induct)
  case Nil
  then show ?case by (simp add: lab_run_def new_lab_def lab_ok_def store_ok_def trials_ok_def)
next
  case (snoc op ops)
  then show ?case using lab_do_ok [of cfg "ops @ [op]" "lab_run cfg ops (new_lab persist)" op] lab_ok_more by (simp add: lab_run_def)
qed

text \<open>Property C40 (promotion): promotion is fail-closed.  Take any sequence of validations, paper starts and updates, promotions, rejections and
  restarts from an empty laboratory, with failing writes, the moments of validation in the range of dates.  A candidate that is
  promoted passed the pipeline in one of the validations; a paper trial of it was started and updated with figures
  within every limit, the required days apart; it has a recorded, approved decision without blockers; and an operation asked
  for its promotion with the drift within the limit and, where the settings require it, the operator's approval.\<close>

theorem promotion_fail_closed:
  assumes "list_all op_time_ok ops"
    and "pd_get (rg_index (rl_candidates (lab_run cfg ops (new_lab persist)))) k = Some c" "pk_status c = CA_PROMOTED"
  shows "(\<exists>new now kb_ok ok g cs bc rep. LabValidate new now kb_ok ok True g cs bc \<in> set ops \<and> ge_id g = k
      \<and> pipeline_evaluate (rf_lib cfg) (rf_laboratory cfg) (rf_pipeline cfg) (rf_criteria cfg) (rf_objective cfg) (rf_review cfg) now g cs bc
          = Inr rep \<and> cn_passed rep)
    \<and> (\<exists>t0 t1 ok stats. LabStartPaper t0 k \<in> set ops \<and> LabUpdatePaper t1 ok k stats \<in> set ops
      \<and> pv_min_days (rf_paper cfg) \<le> max 0 (total_seconds (t1 - t0) / 86400)
      \<and> pv_min_trades (rf_paper cfg) \<le> py_int (pd_get_or stats ''total_trades'' 0)
      \<and> pv_min_profit_factor (rf_paper cfg) \<le> pd_get_or stats ''profit_factor'' 0
      \<and> pd_get_or stats ''max_drawdown_pct'' 0 \<le> pv_max_drawdown_pct (rf_paper cfg))
    \<and> cn_passed (pk_report c) \<and> (\<exists>p. pk_paper c = Some p \<and> pt_matured p)
    \<and> (\<exists>d. pk_promotion c = Some d \<and> pn_approved d \<and> pn_blockers d = [])
    \<and> (\<exists>now ok operator approved current drift. LabPromote now ok k operator approved current drift \<in> set ops
        \<and> drift \<le> pm_max_drift (rf_promotion cfg) \<and> (pm_require_approval (rf_promotion cfg) \<longrightarrow> approved))"
proof -
  have "(k, c) \<in> set (rg_index (rl_candidates (lab_run cfg ops (new_lab persist))))" using assms(2) by (simp add: pd_get_def map_of_SomeD)
  then have k: "k = pk_key c" "candidate_ok cfg ops c" using lab_run_ok [OF assms(1), of cfg persist] by (auto simp: lab_ok_def store_ok_def)
  then have "promotion_backed cfg ops c" using assms(3) by (simp add: candidate_ok_def)
  moreover have "passed_pipeline cfg ops k" "matured_paper cfg ops k" using k calculation by (auto simp: candidate_ok_def promotion_backed_def)
  ultimately show ?thesis unfolding promotion_backed_def passed_pipeline_def matured_paper_def k(1) by blast
qed

text \<open>A strategy that goes the whole way: validated on good figures, eight days on paper, promoted by an operator.\<close>

definition good_result :: backtest_result where
  "good_result = \<lparr> br_config = default_backtest ''X'', br_trades = [], br_equity_curve = [],
     br_statistics = [(''total_trades'', JInt 40), (''profit_factor'', JNum 2), (''sharpe'', JNum 2), (''max_drawdown_pct'', JNum 5),
       (''expectancy'', JNum 1), (''sqn'', JNum 3), (''win_rate'', JNum (3/5))], br_bars = 0, br_final_equity = 10000, br_final_balance = 10000 \<rparr>"

definition good_genome :: strategy_genome where
  "good_genome = \<lparr> ge_id = ''g'', ge_name = ''cruce'', ge_symbol = ''X'', ge_timeframe = ''1m'',
     ge_blocks = [\<lparr> gb_kind = ''ema_cross'', gb_params = [(''fast'', 9), (''slow'', 21)] \<rparr>], ge_filters = [], ge_combine = COMBINE_ALL,
     ge_allow_short = True, ge_seed = 0, ge_metadata = [] \<rparr>"

definition good_lab :: "pylib \<Rightarrow> (json \<Rightarrow> string) \<Rightarrow> research_config" where
  "good_lab L sig = \<lparr> rf_lib = L, rf_signature = sig,
     rf_laboratory = \<lparr> lb_run = (\<lambda>cs src bc. good_result), lb_walk = (\<lambda>cs sp g bc m. Inl ValueError),
       lb_monte_carlo = (\<lambda>ps. monte_carlo_run default_monte_carlo [] []), lb_beaten = (\<lambda>r cs. [(''buy_and_hold'', True), (''random'', True)]) \<rparr>,
     rf_pipeline = default_pipeline\<lparr> pl_walk_forward := False \<rparr>, rf_criteria = default_criteria, rf_objective = ''sharpe'',
     rf_review = None, rf_paper = default_paper, rf_promotion = default_promotion, rf_objectives = [] \<rparr>"

definition good_stats :: "(string, real) pydict" where
  "good_stats = [(''total_trades'', 25), (''profit_factor'', 2), (''max_drawdown_pct'', 5)]"

definition good_ops :: "lab_op list" where
  "good_ops = [LabValidate ''k1'' 0 True True True good_genome [] (default_backtest ''X''), LabStartPaper 0 ''g'',
     LabUpdatePaper (8 * 86400 * 1000000) True ''g'' good_stats, LabPromote (9 * 86400 * 1000000) True ''g'' ''ana'' True [] (1/10)]"

lemma good_report:
  "\<exists>rep. pipeline_evaluate L (rf_laboratory (good_lab L sig)) (rf_pipeline (good_lab L sig)) (rf_criteria (good_lab L sig))
      (rf_objective (good_lab L sig)) (rf_review (good_lab L sig)) 0 good_genome [] (default_backtest ''X'') = Inr rep \<and> cn_passed rep"
proof -
  have src: "\<exists>src. compile_genome good_genome = Inr src"
    by (simp add: compile_genome_def good_genome_def link_blocks_def find_entry_def signal_blocks_def entry_of_def)
  have checks: "evaluate_metrics L (br_statistics good_result) default_criteria = Inr (checks_of default_criteria 40 2 2 5 1 3 (3/5))"
    by (simp add: evaluate_metrics_def metric_def jget_def pd_get_or_def pd_get_def good_result_def py_bool_def py_float_def)
  have stages: "sr_passed (fst (backtest_stage m (checks_of default_criteria 40 2 2 5 1 3 (3/5)) st))" for m st
    by (simp add: backtest_stage_def Let_def criteria_passed_def checks_of_def default_criteria_def)
  have mc: "sr_passed (fst (monte_carlo_stage (rf_laboratory (good_lab L sig)) default_criteria ts))" for ts
    by (simp add: monte_carlo_stage_def Let_def good_lab_def monte_carlo_run_def default_criteria_def)
  have bm: "sr_passed (fst (benchmark_stage (rf_laboratory (good_lab L sig)) r cs))" for r cs
    by (simp add: benchmark_stage_def Let_def good_lab_def pd_get_or_def pd_get_def)
  have "pd_get (pipeline_stats good_result) ''max_drawdown_pct'' = Some 5" "pd_get (pipeline_stats good_result) ''expectancy'' = Some 1"
    by (simp_all add: pipeline_stats_def good_result_def numeric_stats_def stat_number_def List.map_filter_simps pd_get_def)
  then have rs: "sr_passed (fst (risk_stage default_criteria (pipeline_stats good_result)))"
    by (simp add: risk_stage_def Let_def default_criteria_def pd_get_or_def)
  obtain source where source: "compile_genome good_genome = Inr source" using src by blast
  have fields: "rf_criteria (good_lab L sig) = default_criteria" "lb_run (rf_laboratory (good_lab L sig)) = (\<lambda>cs src bc. good_result)"
      "rf_pipeline (good_lab L sig) = default_pipeline\<lparr> pl_walk_forward := False \<rparr>"
    by (simp_all add: good_lab_def)
  show ?thesis
    by (simp add: pipeline_evaluate_def source checks raised_def Let_def stages mc bm rs fields default_pipeline_def)
qed

text \<open>The candidate on the way: registered, matured on paper, promoted.\<close>

lemma good_run:
  "\<exists>c. pd_get (rg_index (rl_candidates (lab_run (good_lab L sig) good_ops (new_lab True)))) ''g'' = Some c \<and> pk_status c = CA_PROMOTED"
proof -
  let ?cfg = "good_lab L sig" 
  obtain rep where rep: "pipeline_evaluate L (rf_laboratory ?cfg) (rf_pipeline ?cfg) (rf_criteria ?cfg) (rf_objective ?cfg) (rf_review ?cfg)
      0 good_genome [] (default_backtest ''X'') = Inr rep" "cn_passed rep"
    using good_report by blast
  have fields: "rf_lib ?cfg = L" "rf_paper ?cfg = default_paper" "rf_promotion ?cfg = default_promotion" "rf_signature ?cfg = sig"
    by (simp_all add: good_lab_def)
  have gid: "ge_id good_genome = ''g''" by (simp add: good_genome_def)
  define lab1 where "lab1 = snd (validate_candidate ?cfg ''k1'' 0 True True True good_genome [] (default_backtest ''X'') (new_lab True))"
  have lab1: "pd_get (rg_index (rl_candidates lab1)) ''g'' = Some (new_candidate 0 good_genome rep)" "rl_trials lab1 = []" "rg_has_path (rl_candidates lab1)"
    by (simp_all add: lab1_def validate_candidate_def fields rep lab_record_def kn_record_candidate_def kn_record_def new_lab_def Let_def rg_append_def
        pk_key_def new_candidate_def pd_get_def gid)
  define ts where "ts = trial_open 0 ''g'' []"
  let ?p = "\<lparr> pt_genome_id = ''g'', pt_matured = True, pt_days = 8, pt_trades = 25, pt_profit_factor = 2, pt_drawdown_pct = 5,
      pt_reasons = [Lit ''madura: cumple el periodo y los minimos de evidencia''] \<rparr>"
  obtain ts' where ts': "trial_update_stats ''g'' good_stats ts = Inr ts'" "trial_status default_paper (8 * 86400 * 1000000) ''g'' ts' = Inr ?p"
    by (simp add: ts_def trial_open_def trial_update_stats_def trial_update_def trial_change_def pd_get_def good_stats_def pd_get_or_def
        trial_status_def trial_reasons_def trial_days_def default_paper_def total_seconds_def Let_def py_int_def)
  define lab2 where "lab2 = snd (update_paper ?cfg (8 * 86400 * 1000000) True ''g'' good_stats (start_paper 0 ''g'' lab1))"
  have "rl_trials (start_paper 0 ''g'' lab1) = ts" "rl_candidates (start_paper 0 ''g'' lab1) = rl_candidates lab1"
    by (simp_all add: start_paper_def lab1 ts_def)
  then have lab2: "pd_get (rg_index (rl_candidates lab2)) ''g'' = Some (attach_paper ?p (new_candidate 0 good_genome rep))" "rg_has_path (rl_candidates lab2)"
    by (simp_all add: lab2_def update_paper_def ts' [simplified] fields lab1 Let_def change_candidate_def rg_change_def rg_append_def attach_paper_def
        new_candidate_def pk_key_def gid)
  have "pn_approved (promotion_evaluate default_promotion obj now good_genome rep (Some ?p) [] (1 / 10) True op)" for obj now op
    unfolding approved_iff by (simp add: rep default_promotion_def)
  moreover have "lab_run ?cfg good_ops (new_lab True) = snd (promote_strategy ?cfg (9 * 86400 * 1000000) True ''g'' ''ana'' True [] (1/10) lab2)"
    by (simp only: lab_run_def good_ops_def fold_Cons fold_Nil o_apply id_apply lab_do.simps lab1_def lab2_def)
  ultimately show ?thesis
    by (simp add: promote_strategy_def lab2 fields Let_def change_candidate_def rg_change_def rg_append_def attach_promotion_def
        pk_key_def attach_paper_def new_candidate_def gid)
qed

theorem promotion_fail_closed_witness:
  "\<forall>L sig. \<exists>c. pd_get (rg_index (rl_candidates (lab_run (good_lab L sig) good_ops (new_lab True)))) ''g'' = Some c
     \<and> pk_status c = CA_PROMOTED \<and> cn_passed (pk_report c) \<and> (\<exists>p. pk_paper c = Some p \<and> pt_matured p)"
proof (intro allI)
  fix L sig
  obtain c where c: "pd_get (rg_index (rl_candidates (lab_run (good_lab L sig) good_ops (new_lab True)))) ''g'' = Some c" "pk_status c = CA_PROMOTED"
    using good_run by blast
  have "list_all op_time_ok good_ops" by (simp add: good_ops_def wf_time_def civil_from_days_def Let_def mp_of_def doy_of_def yoe_of_def)
  from promotion_fail_closed [OF this c] c
  show "\<exists>c. pd_get (rg_index (rl_candidates (lab_run (good_lab L sig) good_ops (new_lab True)))) ''g'' = Some c
     \<and> pk_status c = CA_PROMOTED \<and> cn_passed (pk_report c) \<and> (\<exists>p. pk_paper c = Some p \<and> pt_matured p)" by blast
qed

section \<open>What the path does not check\<close>

text \<open>A strategy that was rejected is promoted like any other: its status is not read.\<close>

lemma status_not_read:
  assumes "pd_get (rg_index (rl_candidates lab)) k = Some c" "pd_get (rg_index (rl_candidates lab')) k = Some (set_status st c)"
  shows "fst (promote_strategy cfg now True k operator approved current drift lab) = fst (promote_strategy cfg now True k operator approved current drift lab')"
  using assms by (simp add: promote_strategy_def Let_def change_candidate_def rg_change_def rg_append_def set_status_def case_prod_unfold split: sum.split)

text \<open>The paper trials live in memory only: after a restart an update of a trial that had started is an error.\<close>

lemma restart_forgets_trials:
  assumes "lab_restart cfg now lab = Inr lab1"
  shows "rl_trials lab1 = [] \<and> update_paper cfg t ok k stats lab1 = (Inl (LAB_LOOKUP (KeyError k)), lab1)"
proof -
  have "rl_trials lab1 = []" using assms by (auto simp: lab_restart_def ebind_Inr_iff)
  then show ?thesis by (simp add: update_paper_def trial_update_stats_def trial_update_def trial_change_def pd_get_def)
qed

end
