(* ===== verification/Spec2Isabelle.thy ===== *)
theory Spec2Isabelle
  imports Engine_Exit Mt5_Broker Production_Api Live_Chain Recovery Failover Operations Normalizers
    Ws_Connection Evaluation_Tracker Regime_Context Strategy_Library Strategy_Engine Monitoring
    Research_Lab
begin
text \<open>
  QuantEngine v2: an automated trading engine.  This development models its Python program (\<open>src/app\<close>): market data
  comes in, strategies and a consensus turn it into decisions, an execution engine turns decisions into orders and positions
  under risk limits, a production layer decides whether real money may be touched, and a laboratory tests and promotes
  strategies.  The paths below are relative to \<open>src/app\<close>.

  \<^bold>\<open>The parts and how they interact.\<close>

  \<^enum> Foundations.  \<open>Prelude\<close> (rounding, truthiness, bounded deques, messages), \<open>Py_Dict\<close> (dictionaries in insertion order,
    the locale \<open>keyed_store\<close>), \<open>Py_Time\<close> (instants, calendar, ISO text), \<open>Json\<close> (JSON trees and Python's conversions with their
    errors), \<open>Latch\<close> (the contract of safety latches), \<open>Settings\<close> and \<open>Production_Settings\<close> (\<open>config/settings.py\<close>).
  \<^enum> Market data (\<open>market/\<close>).  \<open>Normalizers\<close> translate exchange messages into the objects of \<open>Market_Models\<close>; \<open>Collector\<close> takes
    them from its queue, has \<open>Data_Validator\<close> judge them, and updates \<open>Market_State\<close> (state store, cache, batched writer),
    \<open>Candle_Aggregator\<close> and \<open>Order_Books\<close>.  \<open>Ws_Connection\<close> is the supervised connection that feeds it.
  \<^enum> Indicators (\<open>analytics/indicators/\<close>).  \<open>Atr\<close>, \<open>Structure\<close>, \<open>Smc\<close>, \<open>Liquidity\<close>, \<open>Volume_Profile\<close>, \<open>Vwap\<close>, \<open>Orderflow\<close>,
    \<open>Momentum\<close>: pure functions of candles, trades and books.
  \<^enum> The quantitative core (\<open>engine/\<close>).  \<open>Feature_Store\<close> caches indicators; \<open>Regime_Context\<close> classifies the market;
    \<open>Strategy_Base\<close>, \<open>Strategy_Pipeline\<close>, \<open>Strategy_Contract\<close>, \<open>Strategies_Smc\<close>, \<open>Strategies_Price\<close>, \<open>Strategies_Flow\<close> and
    \<open>Strategy_Library\<close> are the strategies (\<open>strategies/\<close>); \<open>Strategy_Engine\<close> loads, triggers and runs them.  A run may submit a
    signal to \<open>Signal_Engine\<close>; \<open>Consensus\<close> combines the active signals; \<open>Decision_Engine\<close> decides; \<open>History_Writer\<close> persists;
    \<open>Evaluation_Tracker\<close> follows every resolved signal as a virtual trade and feeds the adaptive weights.  \<open>Quant_Models\<close> holds
    their data.
  \<^enum> Execution (\<open>execution/\<close>, \<open>brokers/mt5/\<close>).  \<open>Exec_Models\<close>, \<open>Trade_Codec\<close>, \<open>Costs\<close>, \<open>Sizing\<close>, \<open>Position_Manager\<close>,
    \<open>Order_Manager\<close>, \<open>Portfolio_Manager\<close>, \<open>Risk_Manager\<close>, \<open>Journal\<close> and \<open>Performance\<close> are the managers; \<open>Execution_Engine\<close> calls
    them; \<open>Engine_Entry\<close> and \<open>Engine_Exit\<close> hold its lemmas.  The venue is a record of operations (\<open>broker_ops\<close>), provided by
    \<open>Paper_Broker\<close> and by \<open>Mt5_Broker\<close> over a terminal that is a parameter.
  \<^enum> Production safety (\<open>production/\<close>).  \<open>Kill_Switch\<close>, \<open>Safe_Mode\<close>, \<open>Live_Gate\<close>, \<open>Live_Chain\<close>, \<open>Production_Api\<close>, \<open>Recovery\<close>,
    \<open>Failover\<close>, \<open>Audit_Log\<close>, \<open>Operations\<close>.
  \<^enum> Run time (\<open>core/\<close>, \<open>monitoring/\<close>, \<open>scheduler/\<close>).  \<open>Event_Bus\<close> (life cycle of services, bus) and \<open>Monitoring\<close> (watchdog,
    health, recent errors, scheduler).
  \<^enum> The laboratory (\<open>backtesting/\<close>, \<open>research/\<close>).  \<open>Backtest_Metrics\<close>, \<open>Backtest_Run\<close> (the execution engine above, driven bar by
    bar), \<open>Backtest_Search\<close> (parameter search, walk-forward), \<open>Qualification\<close>; \<open>Research_Models\<close>, \<open>Genome\<close> (generated strategies),
    \<open>Research_Log\<close> (append-only registries), \<open>Research_Pipeline\<close>, \<open>Research_Candidates\<close>, \<open>Research_Lab\<close> (from a genome to a
    promotion).

  \<^bold>\<open>Correspondence.\<close>  A class with state is a record whose fields carry the source's names behind a short prefix (\<open>rm_\<close>
  for the risk manager, \<open>ex_\<close> for the execution engine, \<open>sx_\<close> for the strategy engine and so on); a method is a function that
  returns the new state, with its result in front where it has one.  An enumeration is a datatype with its \<open>..._value\<close>
  function.  A dictionary is an association list in insertion order (\<open>pydict\<close>), because the code iterates over them.  A
  raised exception is \<open>Inl\<close> of \<open>py_error\<close> (or of an error type of the component), a caught one is a branch.  Messages keep
  their template and arguments (\<open>msg\<close>); accents of the source's texts are transliterated.  Events that the code publishes are
  appended to a list of the state.  JSON text is the tree it parses to, with constructors for text that is not JSON; a file
  of lines knows whether its last line was torn and whether its bytes decode.  Hashes, ISO parsing of foreign texts, the
  terminal, the operating system and the random draws are arguments of the operations that use them.

  \<^bold>\<open>What is proved.\<close>  Every component has the lemmas on its operations; the properties that carry the program are marked
  in their theories and say this.

  \<^item> Accounting and orders: fills are averaged by volume, a fill cancels exactly its OCO siblings (\<open>Exec_Models\<close>, \<open>Order_Manager\<close>);
    the balance is the sum of what happened (\<open>Portfolio_Manager\<close>); a managed stop only tightens (\<open>Position_Manager\<close>); the stops of an
    entry respect their floors (\<open>Engine_Entry\<close>); closing and reconciling settle every ledger with the same numbers (\<open>Engine_Exit\<close>).
  \<^item> Risk: the nested checks are an ordered list of limits, an allowed entry stays within them, a drawdown breach latches
    (\<open>Risk_Manager\<close>); an opened position went through every guard (\<open>Engine_Entry\<close>); the kill switch flattens (\<open>Engine_Exit\<close>); and,
    across components, safe mode closes the entries (below).
  \<^item> Persistence: what a journal, a snapshot and the kill switch keep over a restart, and what is lost (\<open>Journal\<close>, \<open>Recovery\<close>,
    \<open>Kill_Switch\<close>).
  \<^item> Live trading: live mode needs the whole chain of keys, criteria and approval (\<open>Live_Chain\<close>), and cannot be reached through
    the facade (\<open>Production_Api\<close>); one fresh leader and its limits (\<open>Failover\<close>); what a disconnected terminal does (\<open>Mt5_Broker\<close>).
  \<^item> Market data: accepted trades are clean (\<open>Data_Validator\<close>); streaming aggregation is the grouping of the points
    (\<open>Candle_Aggregator\<close>); the book refines price maps (\<open>Order_Books\<close>); a discarded object changes nothing (\<open>Collector\<close>).
  \<^item> Indicators: pivots are never repainted (\<open>Structure\<close>), fair value gaps are reported exactly when they are open (\<open>Smc\<close>), the
    growth of the value area ends with the share asked for (\<open>Volume_Profile\<close>).
  \<^item> Decisions: every signal of every strategy passes its self-check (\<open>Strategy_Library\<close>); runs are accounted for
    (\<open>Strategy_Engine\<close>); so are signals (\<open>Signal_Engine\<close>); consensus is fair (\<open>Consensus\<close>); a decision is accepted exactly when
    everything agrees (\<open>Decision_Engine\<close>).
  \<^item> Run time: the bus delivers in order (\<open>Event_Bus\<close>), restarts stay within their budget (\<open>Monitoring\<close>).
  \<^item> Laboratory: a backtest never looks ahead, for any causal source (\<open>Backtest_Run\<close>) and so for every generated strategy
    (\<open>Genome\<close>); walk-forward parameters come from their training slice only (\<open>Backtest_Search\<close>); qualification (\<open>Qualification\<close>); promotion
    is fail-closed (\<open>Research_Lab\<close>).

  The interfaces are locales, interpreted on the models: \<open>keyed_store\<close> (dictionaries), \<open>latch\<close> (risk manager, kill switch, safe
  mode), \<open>cash_account\<close> (portfolio), \<open>position_update\<close> (each step of
  the management of a position), \<open>execution_broker\<close> and \<open>engine_venue\<close> (paper venue), \<open>weighted_scheme\<close> and \<open>consensus_rule\<close> (each algorithm),
  \<open>strategy_contract\<close> and its extensions (each strategy), \<open>versioned_log\<close> (experiments, candidates).

  \<^bold>\<open>Bounds, fuel and termination.\<close>  No definition uses fuel: loops are structural recursion, folds over the data, or functions
  with a proved measure (the walk-forward windows, the value area).  The sizes of
  queues, deques and histories are parameters, as in the code.  Properties about duplicates and about the accounts of the
  evaluation hold up to the sizes of the windows of identifiers, which their statements name.

  \<^bold>\<open>Idealisations.\<close>  Floating-point numbers are exact reals; every call of \<open>round\<close> is kept, half to even, so the grids of
  prices and quantities are those of the code.  Instants are aware UTC instants in microseconds.  A coroutine is one step,
  except where another one can interfere and the model says so: the reading and writing of the lease, the run of a strategy
  between taking and releasing its lock, the decision while it awaits the context.  The handlers of one event
  run one after the other.  A bus that is stopped or full is tolerated, as the code does.  A write to a file of lines that fails leaves the
  file unchanged; the small state files may be torn by a failing write.  Numeric parameters of features and the lookbacks of
  indicators are positive.

  \<^bold>\<open>Not modelled.\<close>  The machine learning package (training over floating-point matrices); the REST interface, the dashboard,
  notification channels and documents; providers, transports, SQL repositories and migrations; backups, updates and metrics of the
  production layer (process and file operations); genetic, Bayesian and random generation of strategies (stochastic
  search whose result is only used through the pipeline modelled here); data-set loading, replay, reports, versioning and
  the facade of the backtest laboratory; logging, secrets and security middleware; the composition root beyond
  the wiring that the properties use.
\<close>

section \<open>Safe mode and the execution engine\<close>

text \<open>The veto the composition root registers with the engine: the callback of the controller.\<close>

definition sc_callback :: "pylib \<Rightarrow> safe_controller \<Rightarrow> veto" where
  "sc_callback L sc = (case sc_entry_veto sc of
       None \<Rightarrow> VetoAllow
     | Some (prefix, detail) \<Rightarrow> VetoBlock (prefix @ render L detail))"

lemma sc_callback_allow: "sc_callback L sc = VetoAllow \<longleftrightarrow> \<not> sc_active sc"
  by (simp add: sc_callback_def sc_entry_veto_def)

text \<open>
  Property C22: safe mode closes new entries exactly as long as the history asks for it.  After any
  observations the mode is on exactly when one breached a threshold and fewer than the recovery cycles
  have been healthy since; while it is on and its callback is registered, no decision opens a position
  and nothing of the engine's accounting changes; while it is off the callback does not block.
\<close>

theorem safe_mode_blocks_entries:
  assumes "sc_settings sc = cfg" "sm_enabled cfg" "\<not> sc_active sc"
    and "sc_callback L (fold (sc_step L) es sc) \<in> set (en_vetoes env)"
  shows "sc_active (fold (sc_step L) es sc) = safe_mode_due cfg (map snd es)
    \<and> (safe_mode_due cfg (map snd es) \<longrightarrow>
        (let (e', r) = process_decision ops env de e in
           r = None \<and> ex_positions e' = ex_positions e \<and> ex_portfolio e' = ex_portfolio e
           \<and> ex_broker e' = ex_broker e \<and> ex_risk e' = ex_risk e \<and> ex_journal e' = ex_journal e))
    \<and> (\<not> safe_mode_due cfg (map snd es) \<longrightarrow> sc_callback L (fold (sc_step L) es sc) = VetoAllow)"
  using run_tracks_history [OF assms(1-3), of L es] assms(4)
    vetoed_decision [of "sc_callback L (fold (sc_step L) es sc)" env ops de e]
  by (simp add: sc_callback_allow)

theorem safe_mode_blocks_entries_witness:
  "\<forall>L. snd (process_decision paper_ops
      (example_env\<lparr> en_vetoes := [sc_callback L (fold (sc_step L)
          [(fine_io 0, unknown_observation\<lparr> ob_api_ok := Some False \<rparr>), (fine_io 5, unknown_observation)]
          (sc_new default_safe_mode True None True))] \<rparr>) example_decision example_engine) = None"
proof
  fix L
  let ?sc = "sc_new default_safe_mode True None True"
  let ?es = "[(fine_io 0, unknown_observation\<lparr> ob_api_ok := Some False \<rparr>), (fine_io 5, unknown_observation)]"
  have "safe_mode_due default_safe_mode (map snd ?es)"
    by (simp add: safe_mode_due_def healthy_tail_def sm_healthy_def sm_first_breach_def unknown_observation_def
        default_safe_mode_def above_def at_or_above_def)
  moreover have "sc_settings ?sc = default_safe_mode" "sm_enabled default_safe_mode" "\<not> sc_active ?sc"
    by (simp_all add: sc_new_def default_safe_mode_def)
  ultimately show "snd (process_decision paper_ops (example_env\<lparr> en_vetoes := [sc_callback L (fold (sc_step L) ?es ?sc)] \<rparr>)
      example_decision example_engine) = None"
    using safe_mode_blocks_entries [of ?sc default_safe_mode L ?es
        "example_env\<lparr> en_vetoes := [sc_callback L (fold (sc_step L) ?es ?sc)] \<rparr>" paper_ops example_decision example_engine]
    by (simp split: prod.splits)
qed

end
